(* ===== verification/Prelude.thy ===== *)
theory Prelude
  imports Main "HOL-Library.Word"
begin

text \<open>
  Shared vocabulary of the development: the machine integer types of the C headers, byte
  memory, decimal printing of numbers, and the generic lemmas on words, lists and finite
  sums that the component theories use. Two collections drive the automation: \<open>byte_simps\<close> (reading and writing
  single bytes of words and memories) and \<open>ptr_simps\<close> (reads of updated pointer stores).
\<close>

unbundle bit_operations_syntax

named_theorems byte_simps
named_theorems ptr_simps

type_synonym u8 = "8 word"
type_synonym u16 = "16 word"
type_synonym u32 = "32 word"
type_synonym u64 = "64 word"

text \<open>Byte-addressed memory; a \<open>uchar *\<close> is an address.\<close>

type_synonym mem = "nat \<Rightarrow> u8"

text \<open>A debug assertion: a failing one ends the computation.\<close>

abbreviation dbug_assert :: "bool \<Rightarrow> unit option" where
  "dbug_assert b \<equiv> if b then Some () else None"

section \<open>Equality of words byte by byte\<close>

lemma word_byte_eqI:
  fixes x y :: "'a::len word"
  assumes "\<And>k i. 8 * k + i < LENGTH('a) \<Longrightarrow> i < 8 \<Longrightarrow> bit x (8 * k + i) = bit y (8 * k + i)"
  shows "x = y"
proof (rule bit_word_eqI)
  fix n assume "n < LENGTH('a)"
  with assms [of "n div 8" "n mod 8"] show "bit x n = bit y n" by simp
qed

lemma u16_byte_eqI:
  fixes x y :: u16
  assumes "\<And>i. i < 8 \<Longrightarrow> bit x i = bit y i"
    and "\<And>i. i < 8 \<Longrightarrow> bit x (8 + i) = bit y (8 + i)"
  shows "x = y"
proof (rule word_byte_eqI)
  fix k i :: nat
  assume "8 * k + i < LENGTH(16)" and i: "i < 8"
  then have "k = 0 \<or> k = 1" by auto
  with assms [OF i] show "bit x (8 * k + i) = bit y (8 * k + i)" by auto
qed

lemma u32_byte_eqI:
  fixes x y :: u32
  assumes "\<And>i. i < 8 \<Longrightarrow> bit x i = bit y i"
    and "\<And>i. i < 8 \<Longrightarrow> bit x (8 + i) = bit y (8 + i)"
    and "\<And>i. i < 8 \<Longrightarrow> bit x (16 + i) = bit y (16 + i)"
    and "\<And>i. i < 8 \<Longrightarrow> bit x (24 + i) = bit y (24 + i)"
  shows "x = y"
proof (rule word_byte_eqI)
  fix k i :: nat
  assume "8 * k + i < LENGTH(32)" and i: "i < 8"
  then have "k = 0 \<or> k = 1 \<or> k = 2 \<or> k = 3" by auto
  with assms [OF i] show "bit x (8 * k + i) = bit y (8 * k + i)" by auto
qed

lemma u64_byte_eqI:
  fixes x y :: u64
  assumes "\<And>i. i < 8 \<Longrightarrow> bit x i = bit y i"
    and "\<And>i. i < 8 \<Longrightarrow> bit x (8 + i) = bit y (8 + i)"
    and "\<And>i. i < 8 \<Longrightarrow> bit x (16 + i) = bit y (16 + i)"
    and "\<And>i. i < 8 \<Longrightarrow> bit x (24 + i) = bit y (24 + i)"
    and "\<And>i. i < 8 \<Longrightarrow> bit x (32 + i) = bit y (32 + i)"
    and "\<And>i. i < 8 \<Longrightarrow> bit x (40 + i) = bit y (40 + i)"
    and "\<And>i. i < 8 \<Longrightarrow> bit x (48 + i) = bit y (48 + i)"
    and "\<And>i. i < 8 \<Longrightarrow> bit x (56 + i) = bit y (56 + i)"
  shows "x = y"
proof (rule word_byte_eqI)
  fix k i :: nat
  assume "8 * k + i < LENGTH(64)" and i: "i < 8"
  then have "k \<in> set [0..<8]" by simp
  then have "k \<in> {0, 1, 2, 3, 4, 5, 6, 7}" by (simp add: upt_rec numeral_eq_Suc)
  then show "bit x (8 * k + i) = bit y (8 * k + i)"
    by (elim insertE emptyE) (use assms [OF i] in simp_all)
qed

lemma word_eq_0_iff_no_bit: "(w :: 'a::len word) = 0 \<longleftrightarrow> (\<forall>i. \<not> bit w i)"
  by (auto intro: bit_word_eqI)

lemma unat_less_exp: "unat (w :: 'a::len word) < 2 ^ LENGTH('a)"
  by (rule unsigned_less)

lemma unat_exp2: "n < LENGTH('a) \<Longrightarrow> unat (2 ^ n :: 'a::len word) = 2 ^ n"
proof -
  assume "n < LENGTH('a)"
  have "(2 ^ n :: 'a word) = word_of_nat (2 ^ n)" by simp
  then have "unat (2 ^ n :: 'a word) = 2 ^ n mod 2 ^ LENGTH('a)" by (simp only: unat_of_nat take_bit_eq_mod)
  with \<open>n < LENGTH('a)\<close> show ?thesis by simp
qed

lemma bit_beyond_byte: "8 \<le> n \<Longrightarrow> \<not> bit (b :: u8) n"
  by (auto dest: bit_imp_le_length)

text \<open>Addresses of neighbouring bytes in one normal form.\<close>

lemma addr_norm:
  "p + 3 = Suc (Suc (Suc p))" "p + 4 = Suc (Suc (Suc (Suc p)))"
  "p + 5 = Suc (Suc (Suc (Suc (Suc p))))" "p + 6 = Suc (Suc (Suc (Suc (Suc (Suc p)))))"
  "p + 7 = Suc (Suc (Suc (Suc (Suc (Suc (Suc p))))))"
  "4 + p = Suc (Suc (Suc (Suc p)))" "6 + p = Suc (Suc (Suc (Suc (Suc (Suc p)))))"
  for p :: nat
  by simp_all

lemmas byte_eqIs = u16_byte_eqI u32_byte_eqI u64_byte_eqI

section \<open>The highest set bit of a word\<close>

text \<open>\<open>top_bit v k\<close>: bit \<open>k\<close> is the highest bit set in \<open>v\<close>.\<close>

definition top_bit :: "'a::len word \<Rightarrow> nat \<Rightarrow> bool" where
  "top_bit v k \<longleftrightarrow> bit v k \<and> (\<forall>n. bit v n \<longrightarrow> n \<le> k)"

lemma top_bit_unique: "top_bit v k \<Longrightarrow> top_bit v l \<Longrightarrow> k = l"
  unfolding top_bit_def by (meson le_antisym)

lemma top_bit_exists:
  fixes v :: "'a::len word"
  assumes "v \<noteq> 0"
  shows "\<exists>k < LENGTH('a). top_bit v k"
proof -
  let ?S = "{n. bit v n}"
  have sub: "?S \<subseteq> {..<LENGTH('a)}" by (auto dest: bit_imp_le_length)
  then have fin: "finite ?S" by (rule finite_subset) simp
  have ne: "?S \<noteq> {}" using assms by (auto simp: bit_eq_iff)
  have "Max ?S \<in> ?S" using fin ne by (rule Max_in)
  moreover have "\<forall>n. bit v n \<longrightarrow> n \<le> Max ?S" using fin by auto
  ultimately show ?thesis using sub unfolding top_bit_def by (intro exI [of _ "Max ?S"]) auto
qed

lemma top_bit_bounds:
  fixes v :: "'a::len word"
  assumes "top_bit v k"
  shows "2 ^ k \<le> unat v" and "unat v < 2 ^ Suc k"
proof -
  have b: "bit (unat v) k" and hi: "\<And>n. bit (unat v) n \<Longrightarrow> n \<le> k"
    using assms by (auto simp: top_bit_def bit_simps)
  from b have "odd (unat v div 2 ^ k)" by (simp add: bit_iff_odd)
  then have "unat v div 2 ^ k \<noteq> 0" by (metis even_zero)
  then show "2 ^ k \<le> unat v" by (simp add: div_eq_0_iff not_less)
  have "take_bit (Suc k) (unat v) = unat v"
    by (rule bit_eqI) (use hi in \<open>auto simp: bit_take_bit_iff dest: hi\<close>)
  then show "unat v < 2 ^ Suc k"
    by (metis take_bit_nat_less_exp)
qed

lemma top_bitI:
  fixes v :: "'a::len word"
  assumes "2 ^ k \<le> unat v" and "unat v < 2 ^ Suc k"
  shows "top_bit v k"
proof -
  have "v \<noteq> 0" using assms(1) by auto
  then obtain l where l: "top_bit v l" using top_bit_exists by blast
  have "(2::nat) ^ k < 2 ^ Suc l" and "(2::nat) ^ l < 2 ^ Suc k"
    using top_bit_bounds [OF l] assms by linarith+
  then have "k < Suc l" and "l < Suc k" by (simp_all only: power_strict_increasing_iff one_less_numeral_iff semiring_norm)
  then have "k = l" by simp
  with l show ?thesis by simp
qed

section \<open>Smearing set bits to the right\<close>

lemma smear_step:
  fixes v w :: "'a::len word"
  assumes "\<And>n. bit w n \<longleftrightarrow> (\<exists>k < s. bit v (n + k))"
  shows "bit (w OR drop_bit s w) n \<longleftrightarrow> (\<exists>k < s + s. bit v (n + k))"
proof -
  have "(\<exists>k < s + s. bit v (n + k)) \<longleftrightarrow>
      (\<exists>k < s. bit v (n + k)) \<or> (\<exists>k < s. bit v (s + n + k))" (is "?L = (?A \<or> ?B)")
  proof
    assume ?L
    then obtain k where k: "k < s + s" "bit v (n + k)" by blast
    show "?A \<or> ?B"
    proof (cases "k < s")
      case False
      then have "k - s < s" "bit v (s + n + (k - s))" using k by auto
      then show ?thesis by blast
    qed (use k in blast)
  next
    assume "?A \<or> ?B"
    then show ?L
    proof
      assume ?A then show ?L by (metis trans_less_add1)
    next
      assume ?B
      then obtain k where "k < s" "bit v (s + n + k)" by blast
      then have "s + k < s + s" "bit v (n + (s + k))" by (simp_all add: ac_simps)
      then show ?L by blast
    qed
  qed
  then show ?thesis using assms by (simp add: bit_simps)
qed

section \<open>Conversions\<close>

lemma unat_widen: "unat (ucast x :: u64) = unat x" "unat (ucast y :: u64) = unat y" "unat (ucast y :: u32) = unat y"
  for x :: u32 and y :: u16
  using unat_less_exp [of x] unat_less_exp [of y] by (simp_all add: unsigned_ucast_eq take_bit_nat_eq_self)

lemma unat_low: "unat (take_bit k (ucast x :: u64)) = take_bit k (unat x)" for x :: u32
  by (simp add: unsigned_take_bit_eq unat_widen)

section \<open>Lists\<close>

lemma take_replicate_Suc: "take k (xs @ replicate (Suc k) w) = take k (xs @ replicate k w)"
proof -
  have "xs @ replicate (Suc k) w = (xs @ replicate k w) @ [w]" by (simp add: replicate_append_same)
  then show ?thesis by (simp del: append_assoc replicate_Suc)
qed

lemma map_upt_add: "map f [0..<a + b] = map f [0..<a] @ map (\<lambda>k. f (a + k)) [0..<b]"
  by (induction b) simp_all

section \<open>Byte strings in memory\<close>

definition bytes_at :: "mem \<Rightarrow> nat \<Rightarrow> nat \<Rightarrow> u8 list" where
  "bytes_at m p n = map m [p..<p + n]"

lemma bytes_at_upt: "bytes_at m p n = map (\<lambda>i. m (p + i)) [0..<n]"
  by (rule nth_equalityI) (simp_all add: bytes_at_def)

lemma length_bytes [simp]: "length (bytes_at m p n) = n"
  by (simp add: bytes_at_def)

lemma bytes_0 [simp]: "bytes_at m p 0 = []"
  by (simp add: bytes_at_def)

lemma bytes_1: "bytes_at m p 1 = [m p]"
  by (simp add: bytes_at_def)

lemma bytes_Suc: "bytes_at m p (Suc n) = bytes_at m p n @ [m (p + n)]"
  by (simp add: bytes_at_def)

lemma bytes_add: "bytes_at m p (a + b) = bytes_at m p a @ bytes_at m (p + a) b"
proof -
  have "[p..<p + (a + b)] = [p..<p + a] @ [p + a..<p + a + b]"
    using upt_add_eq_append [of p "p + a" b] by (simp add: add.assoc)
  then show ?thesis by (simp add: bytes_at_def)
qed

lemma bytes_add3: "bytes_at m p (a + (b + c)) = bytes_at m p a @ bytes_at m (p + a) b @ bytes_at m (p + a + b) c"
  by (simp add: bytes_add)

lemma bytes_cong: "(\<And>a. p \<le> a \<Longrightarrow> a < p + n \<Longrightarrow> m a = m' a) \<Longrightarrow> bytes_at m p n = bytes_at m' p n"
  by (simp add: bytes_at_def)

text \<open>Copying \<open>n\<close> bytes, all read before the first is written.\<close>

definition memcpy :: "mem \<Rightarrow> nat \<Rightarrow> nat \<Rightarrow> nat \<Rightarrow> mem" where
  "memcpy m dst src n = (\<lambda>a. if dst \<le> a \<and> a < dst + n then m (src + (a - dst)) else m a)"

lemma bytes_memcpy: "bytes_at (memcpy m dst src n) dst n = bytes_at m src n"
  by (rule nth_equalityI) (simp_all add: bytes_at_def memcpy_def)

lemma memcpy_outside: "a < dst \<or> dst + n \<le> a \<Longrightarrow> memcpy m dst src n a = m a"
  by (auto simp: memcpy_def)

lemma bytes_memcpy_outside: "p + k \<le> dst \<or> dst + n \<le> p \<Longrightarrow> bytes_at (memcpy m dst src n) p k = bytes_at m p k"
  by (rule bytes_cong) (auto simp: memcpy_def)

lemma memcpy_0 [simp]: "memcpy m dst src 0 = m"
  by (auto simp: memcpy_def fun_eq_iff)

section \<open>Numbers in decimal\<close>

function show_nat :: "nat \<Rightarrow> string" where
  "show_nat n = (if n < 10 then [''0123456789'' ! n] else show_nat (n div 10) @ [''0123456789'' ! (n mod 10)])"
  by pat_completeness auto
termination by (relation "measure (\<lambda>n. n)") auto

declare show_nat.simps [simp del]

text \<open>Reading the digits back.\<close>

definition digit_value :: "char \<Rightarrow> nat" where
  "digit_value c = of_char c - 48"

definition read_nat :: "string \<Rightarrow> nat" where
  "read_nat = foldl (\<lambda>n c. n * 10 + digit_value c) 0"

lemma digit_values: "list_all (\<lambda>d. digit_value (''0123456789'' ! d) = d) [0..<10]"
  by code_simp

lemma digit_value_digit: "d < 10 \<Longrightarrow> digit_value (''0123456789'' ! d) = d"
  using digit_values by (simp add: list_all_iff)

lemma read_nat_snoc: "read_nat (ds @ [c]) = read_nat ds * 10 + digit_value c"
  by (simp add: read_nat_def)

lemma read_show_nat [simp]: "read_nat (show_nat n) = n"
proof (induction n rule: show_nat.induct)
  case (1 n)
  show ?case
  proof (cases "n < 10")
    case True
    then show ?thesis using read_nat_snoc [of "[]" "''0123456789'' ! n"] digit_value_digit [of n]
      by (simp add: show_nat.simps [of n] read_nat_def)
  next
    case False
    then show ?thesis using 1 digit_value_digit [of "n mod 10"] by (simp add: show_nat.simps [of n] read_nat_snoc)
  qed
qed

lemma show_nat_inj: "show_nat m = show_nat n \<Longrightarrow> m = n"
  by (metis read_show_nat)

lemma length_show_nat: "0 < d \<Longrightarrow> n < 10 ^ d \<Longrightarrow> length (show_nat n) \<le> d"
proof (induction n arbitrary: d rule: show_nat.induct)
  case (1 n)
  show ?case
  proof (cases "n < 10")
    case False
    with 1(3) have "d \<noteq> 1" by auto
    with 1(2) obtain e where e: "d = Suc e" "0 < e" by (cases d) auto
    with 1(3) have "n div 10 < 10 ^ e" by (simp add: less_mult_imp_div_less mult.commute)
    from 1(1) [OF False e(2) this] False e(1) show ?thesis by (simp add: show_nat.simps [of n])
  qed (use 1(2) in \<open>simp add: show_nat.simps [of n]\<close>)
qed

end
