(* ===== verification/ThdAsync.thy ===== *)
theory ThdAsync
  imports Prelude
begin

text \<open>
  The asynchronous operations of a connection (\<open>thd_async_state\<close> of \<open>sql_class.h\<close>): a counter of
  pending operations under a mutex, a condition variable that the last completion signals, and
  the state that tells whether the connection was suspended meanwhile. The connection thread
  starts operations, waits for them or tries to suspend itself; any number of other threads
  complete them. The methods are split at the wait into atomic functions on the object, and the
  interleaving of the threads is a step relation. Debug assertions are the \<open>None\<close> branches. The
  counter is an integer, taken to be below the \<open>2\<^sup>3\<^sup>1\<close> at which the code's \<open>int\<close> would overflow. The
  resumption of a suspended connection is outside the header: a run ends with the suspension,
  and what is counted is how many completing threads are told to resume it.
\<close>

section \<open>The object\<close>

datatype enum_async_state = ANONE | SUSPENDED | RESUMED

type_synonym thread_id = nat

record thd_async_state =
  m_state :: enum_async_state
  m_pending_ops :: int
  m_dbg_thread :: "thread_id option"

definition thd_async_state_init :: thd_async_state where
  "thd_async_state_init = \<lparr>m_state = ANONE, m_pending_ops = 0, m_dbg_thread = None\<rparr>"

definition try_suspend :: "thd_async_state \<Rightarrow> (bool \<times> thd_async_state) option" where
  "try_suspend a =
     (if m_state a = ANONE \<and> 0 \<le> m_pending_ops a
      then Some (if m_pending_ops a \<noteq> 0 then (True, a\<lparr>m_state := SUSPENDED\<rparr>) else (False, a))
      else None)"

definition inc_pending_ops :: "thread_id \<Rightarrow> thd_async_state \<Rightarrow> thd_async_state option" where
  "inc_pending_ops self a =
     (if m_pending_ops a = 0
      then Some (a\<lparr>m_dbg_thread := Some self, m_pending_ops := m_pending_ops a + 1\<rparr>)
      else if m_dbg_thread a = Some self then Some (a\<lparr>m_pending_ops := m_pending_ops a + 1\<rparr>)
      else None)"

text \<open>
  \<open>dec_pending_ops\<close> returns the new count and the state it saw; the second component tells
  whether the condition variable was signalled.
\<close>

definition dec_pending_ops :: "thd_async_state \<Rightarrow> int \<times> bool \<times> enum_async_state \<times> thd_async_state" where
  "dec_pending_ops a =
     (let ret = m_pending_ops a - 1; a = a\<lparr>m_pending_ops := ret\<rparr>
      in (ret, ret = 0, m_state a, a))"

definition pending_ops :: "thd_async_state \<Rightarrow> int" where
  "pending_ops a = m_pending_ops a"

text \<open>
  \<open>wait_for_pending_ops\<close>: the unprotected read, the assertion once the mutex is held, and the
  test of the loop; \<open>True\<close> means that the thread goes on to wait.
\<close>

definition wait_begin :: "thd_async_state \<Rightarrow> bool" where
  "wait_begin a \<longleftrightarrow> pending_ops a \<noteq> 0"

definition wait_locked :: "thd_async_state \<Rightarrow> bool option" where
  "wait_locked a = (if 0 \<le> m_pending_ops a then Some (m_pending_ops a \<noteq> 0) else None)"

definition wait_again :: "thd_async_state \<Rightarrow> bool" where
  "wait_again a \<longleftrightarrow> m_pending_ops a \<noteq> 0"

lemmas async_defs = try_suspend_def inc_pending_ops_def dec_pending_ops_def pending_ops_def
  wait_begin_def wait_locked_def wait_again_def Let_def

section \<open>The threads\<close>

text \<open>
  Where the connection thread is: running, past the unprotected read of the wait, blocked,
  woken, just returned from the wait, or suspended. \<open>ops\<close> counts the operations that were
  started and have not called \<open>dec_pending_ops\<close> yet, \<open>resumers\<close> the completing threads that were
  told the count 0 and a suspended connection.
\<close>

datatype location = Running | Locking | Blocked | Woken | Waited | Suspended

record async_system =
  object :: thd_async_state
  ops :: nat
  loc :: location
  resumers :: nat

definition async_init :: async_system where
  "async_init = \<lparr>object = thd_async_state_init, ops = 0, loc = Running, resumers = 0\<rparr>"

definition free_to_run :: "async_system \<Rightarrow> bool" where
  "free_to_run s \<longleftrightarrow> loc s = Running \<or> loc s = Waited"

text \<open>A signal wakes the connection thread if it is blocked, and is lost otherwise.\<close>

definition signalled :: "bool \<Rightarrow> location \<Rightarrow> location" where
  "signalled sig l = (if sig \<and> l = Blocked then Woken else l)"

definition completed :: "async_system \<Rightarrow> async_system" where
  "completed s =
     (case dec_pending_ops (object s) of (ret, sig, seen, a) \<Rightarrow>
        s\<lparr>object := a, ops := ops s - 1, loc := signalled sig (loc s),
          resumers := resumers s + (if ret = 0 \<and> seen = SUSPENDED then 1 else 0)\<rparr>)"

text \<open>The steps of a system whose connection thread is inside the wait, wake-ups without cause apart.\<close>

inductive wait_step :: "async_system \<Rightarrow> async_system \<Rightarrow> bool" where
  complete: "0 < ops s \<Longrightarrow> wait_step s (completed s)"
| locked: "loc s = Locking \<Longrightarrow> wait_locked (object s) = Some w \<Longrightarrow>
    wait_step s (s\<lparr>loc := if w then Blocked else Waited\<rparr>)"
| again: "loc s = Woken \<Longrightarrow> wait_step s (s\<lparr>loc := if wait_again (object s) then Blocked else Waited\<rparr>)"

inductive async_step :: "thread_id \<Rightarrow> async_system \<Rightarrow> async_system \<Rightarrow> bool" for self where
  waits: "wait_step s t \<Longrightarrow> async_step self s t"
| spurious: "loc s = Blocked \<Longrightarrow> async_step self s (s\<lparr>loc := Woken\<rparr>)"
| start: "free_to_run s \<Longrightarrow> inc_pending_ops self (object s) = Some a \<Longrightarrow>
    async_step self s (s\<lparr>object := a, ops := ops s + 1, loc := Running\<rparr>)"
| wait: "free_to_run s \<Longrightarrow>
    async_step self s (s\<lparr>loc := if wait_begin (object s) then Locking else Waited\<rparr>)"
| suspend: "free_to_run s \<Longrightarrow> try_suspend (object s) = Some (ok, a) \<Longrightarrow>
    async_step self s (s\<lparr>object := a, loc := if ok then Suspended else Running\<rparr>)"

inductive async_reach :: "thread_id \<Rightarrow> async_system \<Rightarrow> bool" for self where
  init: "async_reach self async_init"
| step: "async_reach self s \<Longrightarrow> async_step self s t \<Longrightarrow> async_reach self t"

section \<open>The invariant\<close>

definition async_inv :: "thread_id \<Rightarrow> async_system \<Rightarrow> bool" where
  "async_inv self s \<longleftrightarrow>
     m_pending_ops (object s) = int (ops s) \<and>
     (0 < ops s \<longrightarrow> m_dbg_thread (object s) = Some self) \<and>
     m_state (object s) = (if loc s = Suspended then SUSPENDED else ANONE) \<and>
     resumers s = (if loc s = Suspended \<and> ops s = 0 then 1 else 0) \<and>
     (loc s = Blocked \<longrightarrow> 0 < ops s) \<and> (loc s = Waited \<longrightarrow> ops s = 0)"

lemma async_inv_init: "async_inv self async_init"
  by (simp add: async_inv_def async_init_def thd_async_state_init_def)

lemma completed_inv: "async_inv self s \<Longrightarrow> 0 < ops s \<Longrightarrow> async_inv self (completed s)"
  by (auto simp: async_inv_def completed_def dec_pending_ops_def signalled_def Let_def split: if_splits)

lemma wait_step_inv: "wait_step s t \<Longrightarrow> async_inv self s \<Longrightarrow> async_inv self t"
proof (induction rule: wait_step.induct)
  case (complete s)
  then show ?case by (simp add: completed_inv)
qed (auto simp: async_inv_def async_defs split: if_splits)

lemma async_step_inv: "async_step self s t \<Longrightarrow> async_inv self s \<Longrightarrow> async_inv self t"
proof (induction rule: async_step.induct)
  case (waits s t)
  then show ?case by (rule wait_step_inv)
qed (auto simp: async_inv_def async_defs free_to_run_def split: if_splits)

lemma async_reach_inv: "async_reach self s \<Longrightarrow> async_inv self s"
  by (induction rule: async_reach.induct) (auto intro: async_inv_init async_step_inv)

lemma no_assert_fails:
  assumes "async_inv self s"
  shows "loc s \<noteq> Suspended \<Longrightarrow> try_suspend (object s) \<noteq> None"
    and "inc_pending_ops self (object s) \<noteq> None" and "wait_locked (object s) \<noteq> None"
  using assms by (auto simp: async_inv_def async_defs)

section \<open>Progress of the wait\<close>

definition in_wait :: "async_system \<Rightarrow> bool" where
  "in_wait s \<longleftrightarrow> loc s = Locking \<or> loc s = Blocked \<or> loc s = Woken"

definition wait_bound :: "async_system \<Rightarrow> nat" where
  "wait_bound s = 2 * ops s + (if loc s = Locking \<or> loc s = Woken then 1 else 0)"

lemma wait_step_bound: "wait_step s t \<Longrightarrow> wait_bound t < wait_bound s"
  by (induction rule: wait_step.induct)
    (auto simp: wait_bound_def completed_def dec_pending_ops_def signalled_def Let_def)

lemma wait_step_stays: "wait_step s t \<Longrightarrow> in_wait s \<Longrightarrow> in_wait t \<or> loc t = Waited"
  by (induction rule: wait_step.induct)
    (auto simp: in_wait_def completed_def dec_pending_ops_def signalled_def Let_def)

lemma in_wait_not_stuck:
  assumes "async_inv self s" "in_wait s"
  shows "\<exists>t. wait_step s t"
proof -
  consider "loc s = Blocked" | "loc s = Locking" | "loc s = Woken" using assms(2) in_wait_def by auto
  then show ?thesis
  proof cases
    case 1
    with assms(1) have "0 < ops s" by (simp add: async_inv_def)
    then show ?thesis by (blast intro: wait_step.complete)
  next
    case 2
    with no_assert_fails(3) [OF assms(1)] show ?thesis by (blast intro: wait_step.locked)
  next
    case 3
    then show ?thesis by (blast intro: wait_step.again)
  qed
qed

lemma wait_steps_bound: "(wait_step ^^ n) s t \<Longrightarrow> n + wait_bound t \<le> wait_bound s"
proof (induction n arbitrary: t)
  case (Suc n)
  then obtain u where "(wait_step ^^ n) s u" "wait_step u t" by auto
  with Suc.IH [of u] wait_step_bound [of u t] show ?case by simp
qed simp

lemma wait_finishes: "async_inv self s \<Longrightarrow> in_wait s \<Longrightarrow> \<exists>n t. (wait_step ^^ n) s t \<and> loc t = Waited \<and> ops t = 0"
proof (induction "wait_bound s" arbitrary: s rule: less_induct)
  case less
  from in_wait_not_stuck [OF less.prems] obtain u where u: "wait_step s u" by blast
  from wait_step_inv [OF u less.prems(1)] have inv: "async_inv self u" .
  have "\<exists>n t. (wait_step ^^ n) u t \<and> loc t = Waited \<and> ops t = 0"
  proof (cases "in_wait u")
    case True
    from less.hyps [OF wait_step_bound [OF u] inv True] show ?thesis .
  next
    case False
    with wait_step_stays [OF u less.prems(2)] inv have "loc u = Waited \<and> ops u = 0" by (simp add: async_inv_def)
    then have "(wait_step ^^ 0) u u \<and> loc u = Waited \<and> ops u = 0" by simp
    then show ?thesis by blast
  qed
  then obtain n t where "(wait_step ^^ n) u t" "loc t = Waited" "ops t = 0" by blast
  with relpowp_Suc_I2 [where P = wait_step, OF u] have "(wait_step ^^ Suc n) s t \<and> loc t = Waited \<and> ops t = 0" by blast
  then show ?case by blast
qed

section \<open>The contract\<close>

text \<open>
  Property C21: in every interleaving: no assertion fails, the connection thread is blocked only while an
  operation is pending (no wake-up is lost), its wait returns only when none is, and a suspended
  connection is resumed by exactly one thread, the one that completes its last operation.
\<close>

theorem async_wait_safe:
  assumes "async_reach self s"
  shows "m_pending_ops (object s) = int (ops s) \<and>
    (loc s = Blocked \<longrightarrow> 0 < ops s) \<and> (loc s = Waited \<longrightarrow> ops s = 0) \<and>
    resumers s = (if loc s = Suspended \<and> ops s = 0 then 1 else 0) \<and>
    (loc s \<noteq> Suspended \<longrightarrow> try_suspend (object s) \<noteq> None) \<and>
    inc_pending_ops self (object s) \<noteq> None \<and> wait_locked (object s) \<noteq> None"
proof -
  from async_reach_inv [OF assms] have inv: "async_inv self s" .
  from no_assert_fails [OF inv] inv show ?thesis by (simp add: async_inv_def)
qed

text \<open>A run in which the connection thread starts one operation and waits for it until it is blocked.\<close>

definition one_pending :: thd_async_state where
  "one_pending = \<lparr>m_state = ANONE, m_pending_ops = 1, m_dbg_thread = Some 7\<rparr>"

definition blocked_system :: async_system where
  "blocked_system = \<lparr>object = one_pending, ops = 1, loc = Blocked, resumers = 0\<rparr>"

lemma blocked_system_reach: "async_reach 7 blocked_system"
proof -
  have "async_step 7 async_init (async_init\<lparr>object := one_pending, ops := ops async_init + 1, loc := Running\<rparr>)"
    by (rule async_step.start)
      (simp_all add: free_to_run_def async_init_def thd_async_state_init_def one_pending_def inc_pending_ops_def)
  with async_reach.init have "async_reach 7 (async_init\<lparr>object := one_pending, ops := ops async_init + 1, loc := Running\<rparr>)"
    by (rule async_reach.step)
  then have 1: "async_reach 7 (blocked_system\<lparr>loc := Running\<rparr>)" by (simp add: async_init_def blocked_system_def)
  have "async_step 7 (blocked_system\<lparr>loc := Running\<rparr>) (blocked_system\<lparr>loc := Locking\<rparr>)"
    using async_step.wait [of "blocked_system\<lparr>loc := Running\<rparr>" 7]
    by (simp add: free_to_run_def blocked_system_def one_pending_def async_defs)
  with 1 have 2: "async_reach 7 (blocked_system\<lparr>loc := Locking\<rparr>)" by (rule async_reach.step)
  have "wait_step (blocked_system\<lparr>loc := Locking\<rparr>) blocked_system"
    using wait_step.locked [of "blocked_system\<lparr>loc := Locking\<rparr>" True]
    by (simp add: blocked_system_def one_pending_def async_defs)
  with 2 show ?thesis by (blast intro: async_reach.step async_step.waits)
qed

theorem async_wait_safe_witness: "loc blocked_system = Blocked \<and> 0 < ops blocked_system"
  using async_wait_safe [OF blocked_system_reach] by (simp add: blocked_system_def)

text \<open>
  Property C22: a wait comes to its end: from every reachable state in which the connection thread is inside
  \<open>wait_for_pending_ops\<close>, every run without causeless wake-ups has at most twice as many steps
  as operations pending, plus one, never gets stuck inside the wait, and some such run returns.
\<close>

theorem async_wait_returns:
  assumes "async_reach self s" and "in_wait s"
  shows "(\<forall>n t. (wait_step ^^ n) s t \<longrightarrow> n \<le> 2 * ops s + 1) \<and> (\<exists>t. wait_step s t) \<and>
    (\<exists>n t. (wait_step ^^ n) s t \<and> loc t = Waited \<and> pending_ops (object t) = 0)"
proof (intro conjI allI impI)
  fix n t
  assume "(wait_step ^^ n) s t"
  from wait_steps_bound [OF this] show "n \<le> 2 * ops s + 1" by (simp add: wait_bound_def split: if_splits)
next
  from in_wait_not_stuck [OF async_reach_inv [OF assms(1)] assms(2)] show "\<exists>t. wait_step s t" .
next
  have steps: "async_inv self t" if "(wait_step ^^ n) s t" for n t
    using that
  proof (induction n arbitrary: t)
    case 0
    with async_reach_inv [OF assms(1)] show ?case by simp
  next
    case (Suc n)
    then show ?case by (auto intro: wait_step_inv)
  qed
  from wait_finishes [OF async_reach_inv [OF assms(1)] assms(2)] obtain n t
    where t: "(wait_step ^^ n) s t" "loc t = Waited" "ops t = 0" by blast
  with steps [OF t(1)] have "pending_ops (object t) = 0" by (simp add: async_inv_def pending_ops_def)
  with t show "\<exists>n t. (wait_step ^^ n) s t \<and> loc t = Waited \<and> pending_ops (object t) = 0" by blast
qed

theorem async_wait_returns_witness:
  "\<exists>n t. (wait_step ^^ n) blocked_system t \<and> loc t = Waited \<and> pending_ops (object t) = 0"
  using async_wait_returns [OF blocked_system_reach] by (simp add: in_wait_def blocked_system_def)

end
