(* ===== verification/ThdClock.thy ===== *)
theory ThdClock
  imports Prelude
begin

text \<open>
  The clock of a connection (\<open>system_time\<close>, \<open>set_time\<close> and their relatives in \<open>sql_class.h\<close>): the time at
  which a statement starts, kept distinct from the times of earlier statements. The readings
  of the two clocks of the system, \<open>my_hrtime\<close> and \<open>microsecond_interval_timer\<close>, are arguments.
  Times are counted from the epoch in seconds and microseconds; seconds are \<open>my_time_t\<close>, a \<open>long\<close> of 32 bits in this
  distribution, so that they reach until January 2038.
\<close>

definition HRTIME_RESOLUTION :: nat where "HRTIME_RESOLUTION = 1000000"

type_synonym my_time_t = "32 word"

definition hrtime_to_my_time :: "nat \<Rightarrow> my_time_t" where "hrtime_to_my_time h = of_nat (h div HRTIME_RESOLUTION)"
definition hrtime_sec_part :: "nat \<Rightarrow> nat" where "hrtime_sec_part h = h mod HRTIME_RESOLUTION"
definition hrtime_from_time :: "my_time_t \<Rightarrow> nat" where "hrtime_from_time t = unat (scast t :: u64) * HRTIME_RESOLUTION mod 2 ^ 64"

definition MAX_SEC_PART :: nat where "MAX_SEC_PART = 999999"

datatype secure_timestamp = SECTIME_NO | SECTIME_SUPER | SECTIME_REPL | SECTIME_YES

fun sectime_no :: "secure_timestamp \<Rightarrow> nat" where
  "sectime_no SECTIME_NO = 0"
| "sectime_no SECTIME_SUPER = 1"
| "sectime_no SECTIME_REPL = 2"
| "sectime_no SECTIME_YES = 3"

record thd_clock =
  sys_start :: nat
  sys_sec :: my_time_t
  sys_part :: nat
  start_time :: my_time_t
  start_time_sec_part :: nat
  user_time :: nat
  start_utime :: nat
  utime_after_lock :: nat
  utime_after_query :: nat
  query_start_sec_part_used :: bool
  query_was_slow :: bool

section \<open>Operations\<close>

definition set_system_time :: "nat \<Rightarrow> thd_clock \<Rightarrow> thd_clock" where
  "set_system_time hrtime c =
     (let sec = hrtime_to_my_time hrtime; part = hrtime_sec_part hrtime
      in if sint sec > sint (sys_sec c) \<or> (sec = sys_sec c \<and> part > sys_part c) \<or> hrtime < sys_start c
         then c\<lparr>sys_sec := sec, sys_part := part, sys_start := hrtime\<rparr>
         else if sys_part c < MAX_SEC_PART then c\<lparr>sys_part := sys_part c + 1\<rparr>
         else c\<lparr>sys_sec := sys_sec c + 1, sys_part := 0\<rparr>)"

definition set_start_time :: "nat \<Rightarrow> thd_clock \<Rightarrow> thd_clock" where
  "set_start_time hrtime c =
     (if user_time c \<noteq> 0
      then c\<lparr>start_time := hrtime_to_my_time (user_time c), start_time_sec_part := hrtime_sec_part (user_time c)\<rparr>
      else let c = set_system_time hrtime c in c\<lparr>start_time := sys_sec c, start_time_sec_part := sys_part c\<rparr>)"

definition set_time :: "nat \<Rightarrow> nat \<Rightarrow> thd_clock \<Rightarrow> thd_clock" where
  "set_time hrtime timer c = (set_start_time hrtime c)\<lparr>start_utime := timer, utime_after_lock := timer\<rparr>"

text \<open>\<open>SET @@timestamp\<close>\<close>

definition set_time_user :: "nat \<Rightarrow> nat \<Rightarrow> nat \<Rightarrow> thd_clock \<Rightarrow> thd_clock" where
  "set_time_user t hrtime timer c = set_time hrtime timer (c\<lparr>user_time := t\<rparr>)"

definition force_set_time :: "my_time_t \<Rightarrow> nat \<Rightarrow> thd_clock \<Rightarrow> thd_clock" where
  "force_set_time t part c = c\<lparr>sys_sec := t, start_time := t, sys_part := part, start_time_sec_part := part\<rparr>"

text \<open>The time of a replicated event; a fraction above the largest one means that it was not logged.\<close>

definition set_time_repl :: "secure_timestamp \<Rightarrow> bool \<Rightarrow> nat \<Rightarrow> nat \<Rightarrow> my_time_t \<Rightarrow> nat \<Rightarrow> thd_clock \<Rightarrow> thd_clock" where
  "set_time_repl opt_secure_timestamp slave_thread hrtime timer t part c =
     (if sectime_no opt_secure_timestamp > sectime_no (if slave_thread then SECTIME_REPL else SECTIME_SUPER)
      then set_time hrtime timer c
      else let c = (if part \<le> MAX_SEC_PART then force_set_time t part c
                    else if t \<noteq> sys_sec c then force_set_time t 0 c
                    else let c = c\<lparr>start_time := t, sys_part := sys_part c + 1\<rparr> in c\<lparr>start_time_sec_part := sys_part c\<rparr>)
           in c\<lparr>user_time := (hrtime_from_time (start_time c) + start_time_sec_part c) mod 2 ^ 64,
                start_utime := timer, utime_after_lock := timer\<rparr>)"

definition set_time_after_lock :: "nat \<Rightarrow> thd_clock \<Rightarrow> thd_clock" where
  "set_time_after_lock timer c = c\<lparr>utime_after_lock := timer\<rparr>"

definition set_time_for_next_stage :: "nat \<Rightarrow> thd_clock \<Rightarrow> thd_clock" where
  "set_time_for_next_stage timer c = c\<lparr>utime_after_query := timer\<rparr>"

definition update_server_status :: "nat \<Rightarrow> nat \<Rightarrow> thd_clock \<Rightarrow> thd_clock" where
  "update_server_status long_query_time timer c =
     (let c = set_time_for_next_stage timer c
      in if utime_after_query c \<ge> utime_after_lock c + long_query_time then c\<lparr>query_was_slow := True\<rparr> else c)"

definition query_start :: "thd_clock \<Rightarrow> my_time_t" where "query_start c = start_time c"

definition query_start_sec_part :: "thd_clock \<Rightarrow> nat \<times> thd_clock" where
  "query_start_sec_part c = (start_time_sec_part c, c\<lparr>query_start_sec_part_used := True\<rparr>)"

text \<open>The start of the transaction follows that of the statement outside multi-statement transactions.\<close>

definition transaction_time :: "bool \<Rightarrow> thd_clock \<Rightarrow> my_time_t \<times> nat \<Rightarrow> (my_time_t \<times> nat) \<times> thd_clock" where
  "transaction_time in_multi_stmt c tv =
     (if in_multi_stmt then (tv, c) else case query_start_sec_part c of (p, c) \<Rightarrow> ((query_start c, p), c))"

section \<open>The system clock as a counter\<close>


definition start_stamp :: "thd_clock \<Rightarrow> int" where
  "start_stamp c = sint (start_time c) * 1000000 + int (start_time_sec_part c)"

text \<open>The first microsecond whose second does not fit in \<open>my_time_t\<close>.\<close>

definition time_horizon :: int where "time_horizon = 2 ^ 31 * 1000000"

lemmas clock_consts = HRTIME_RESOLUTION_def MAX_SEC_PART_def hrtime_to_my_time_def hrtime_sec_part_def

lemma sint_small: "n < 2 ^ 31 \<Longrightarrow> sint (of_nat n :: my_time_t) = int n"
  by (simp add: signed_of_nat signed_take_bit_int_eq_self)

lemma hrtime_seconds: "int h < time_horizon \<Longrightarrow> sint (hrtime_to_my_time h) = int (h div 1000000)"
  unfolding hrtime_to_my_time_def HRTIME_RESOLUTION_def
  by (rule sint_small) (simp add: time_horizon_def div_less_iff_less_mult)




section \<open>Statements get distinct times\<close>

text \<open>The start times of statements that begin at the given readings of the two clocks.\<close>

fun statement_times :: "(nat \<times> nat) list \<Rightarrow> thd_clock \<Rightarrow> int list" where
  "statement_times [] c = []"
| "statement_times ((h, u) # rs) c = (let c = set_time h u c in start_stamp c # statement_times rs c)"




definition fresh_clock :: thd_clock where
  "fresh_clock = \<lparr>sys_start = 5, sys_sec = 0, sys_part = 999999, start_time = 0, start_time_sec_part = 0, user_time = 0,
     start_utime = 0, utime_after_lock = 0, utime_after_query = 0, query_start_sec_part_used = False, query_was_slow = False\<rparr>"


section \<open>Replicated times\<close>

lemma hrtime_from_nonneg:
  assumes "0 \<le> sint (t :: my_time_t)"
  shows "hrtime_from_time t = nat (sint t) * 1000000"
proof -
  have "sint t < 2 ^ 31" using sint_less [of t] by simp
  then have n: "nat (sint t) < 2 ^ 31" using assms by (simp add: nat_less_iff)
  have "(scast t :: u64) = of_nat (nat (sint t))" unfolding of_nat_nat [OF assms] by (rule of_int_sint [symmetric])
  then have "unat (scast t :: u64) = nat (sint t)" using n by (simp add: unat_of_nat take_bit_nat_eq_self)
  then show ?thesis using n by (simp add: hrtime_from_time_def HRTIME_RESOLUTION_def)
qed

lemma set_time_repl_allowed:
  assumes "\<not> sectime_no sec > sectime_no (if slave then SECTIME_REPL else SECTIME_SUPER)" "part \<le> MAX_SEC_PART" "0 \<le> sint t"
  shows "user_time (set_time_repl sec slave h u t part c) = nat (sint t) * 1000000 + part"
proof -
  have "sint t < 2 ^ 31" using sint_less [of t] by simp
  then have "nat (sint t) * 1000000 + part < 2 ^ 64" using assms(2,3) by (simp add: MAX_SEC_PART_def)
  then show ?thesis using assms hrtime_from_nonneg [OF assms(3)] by (simp add: set_time_repl_def force_set_time_def Let_def)
qed

lemma user_time_kept:
  assumes "user_time c \<noteq> 0" and "int (user_time c) < time_horizon"
  shows "start_stamp (set_time h u c) = int (user_time c)" "user_time (set_time h u c) = user_time c"
proof -
  have "int (user_time c div 1000000) * 1000000 + int (user_time c mod 1000000) = int (user_time c)"
    by (metis of_nat_add of_nat_mult of_nat_numeral div_mult_mod_eq)
  then show "start_stamp (set_time h u c) = int (user_time c)"
    using assms hrtime_seconds [OF assms(2)] by (simp add: set_time_def set_start_time_def start_stamp_def hrtime_sec_part_def HRTIME_RESOLUTION_def)
qed (use assms in \<open>simp add: set_time_def set_start_time_def\<close>)

text \<open>
  The logged time of a replicated event is the start time of every statement it executes, unless
  it is the epoch itself, which counts as no time at all; and the option that protects the
  clock makes the server ignore the logged time.
\<close>

theorem replicated_time_kept:
  assumes "part \<le> MAX_SEC_PART" and "0 \<le> sint t" and "0 < sint t * 1000000 + int part"
  shows "(sectime_no sec \<le> sectime_no (if slave then SECTIME_REPL else SECTIME_SUPER) \<longrightarrow>
      statement_times rs (set_time_repl sec slave h u t part c) = replicate (length rs) (sint t * 1000000 + int part)) \<and>
    (sectime_no sec > sectime_no (if slave then SECTIME_REPL else SECTIME_SUPER) \<longrightarrow>
      set_time_repl sec slave h u t part c = set_time h u c)"
proof (intro conjI impI)
  assume "sectime_no sec \<le> sectime_no (if slave then SECTIME_REPL else SECTIME_SUPER)"
  then have u: "user_time (set_time_repl sec slave h u t part c) = nat (sint t) * 1000000 + part"
    using assms by (intro set_time_repl_allowed) simp_all
  have "sint t < 2 ^ 31" using sint_less [of t] by simp
  then have bound: "sint t * 1000000 + int part < time_horizon" using assms(1) by (simp add: time_horizon_def MAX_SEC_PART_def)
  have "statement_times rs d = replicate (length rs) (sint t * 1000000 + int part)" if "user_time d = nat (sint t) * 1000000 + part" for d
    using that
  proof (induction rs arbitrary: d)
    case (Cons r rs)
    have v: "int (user_time d) = sint t * 1000000 + int part" using Cons.prems assms(2) by simp
    then have "user_time d \<noteq> 0" "int (user_time d) < time_horizon" using assms(3) bound by linarith+
    from user_time_kept [OF this] Cons v show ?case by (cases r) (simp add: Let_def)
  qed simp
  then show "statement_times rs (set_time_repl sec slave h u t part c) = replicate (length rs) (sint t * 1000000 + int part)" using u by blast
qed (simp add: set_time_repl_def)

theorem replicated_time_kept_witness:
  "statement_times [(9, 9), (10, 10)] (set_time_repl SECTIME_NO True 8 8 7 3 fresh_clock) = [7000003, 7000003]"
  using replicated_time_kept [of 3 7 SECTIME_NO True "[(9, 9), (10, 10)]" 8 8 fresh_clock] by (simp add: MAX_SEC_PART_def)

text \<open>
  Events without a logged fraction that fall into the same second are numbered by the fraction,
  without a carry: after a million of them the fraction is no longer below a second.
\<close>

lemma unlogged_fraction_overflows:
  assumes "sys_sec c = t" "MAX_SEC_PART < part"
  shows "start_time_sec_part (set_time_repl SECTIME_NO True h u t part c) = sys_part c + 1"
    and "sys_part c = MAX_SEC_PART \<Longrightarrow> start_time_sec_part (set_time_repl SECTIME_NO True h u t part c) > MAX_SEC_PART"
  using assms by (simp_all add: set_time_repl_def Let_def)

end
