(* ===== verification/ThdState.thy ===== *)
theory ThdState
  imports Prelude "HOL-Library.Monad_Syntax"
begin

text \<open>
  State of a connection that its statements share (\<open>class THD\<close> of \<open>sql_class.h\<close>): how it was killed, the
  format in which the current statement goes to the binary log, the filter for statements on local
  tables, and the generated identifiers of the previous and the current statement.
\<close>

section \<open>Kills\<close>

datatype killed_state = NOT_KILLED | KILL_HARD_BIT | KILL_BAD_DATA | KILL_BAD_DATA_HARD | KILL_QUERY | KILL_QUERY_HARD
  | ABORT_QUERY | ABORT_QUERY_HARD | KILL_TIMEOUT | KILL_TIMEOUT_HARD | KILL_SLAVE_SAME_ID | KILL_CONNECTION
  | KILL_CONNECTION_HARD | KILL_SYSTEM_THREAD | KILL_SYSTEM_THREAD_HARD | KILL_SERVER | KILL_SERVER_HARD
  | KILL_WAIT_TIMEOUT | KILL_WAIT_TIMEOUT_HARD

fun killed_no :: "killed_state \<Rightarrow> nat" where
  "killed_no NOT_KILLED = 0"
| "killed_no KILL_HARD_BIT = 1"
| "killed_no KILL_BAD_DATA = 2"
| "killed_no KILL_BAD_DATA_HARD = 3"
| "killed_no KILL_QUERY = 4"
| "killed_no KILL_QUERY_HARD = 5"
| "killed_no ABORT_QUERY = 6"
| "killed_no ABORT_QUERY_HARD = 7"
| "killed_no KILL_TIMEOUT = 8"
| "killed_no KILL_TIMEOUT_HARD = 9"
| "killed_no KILL_SLAVE_SAME_ID = 10"
| "killed_no KILL_CONNECTION = 12"
| "killed_no KILL_CONNECTION_HARD = 13"
| "killed_no KILL_SYSTEM_THREAD = 14"
| "killed_no KILL_SYSTEM_THREAD_HARD = 15"
| "killed_no KILL_SERVER = 16"
| "killed_no KILL_SERVER_HARD = 17"
| "killed_no KILL_WAIT_TIMEOUT = 18"
| "killed_no KILL_WAIT_TIMEOUT_HARD = 19"

instantiation killed_state :: linorder
begin

definition less_eq_killed_state :: "killed_state \<Rightarrow> killed_state \<Rightarrow> bool" where
  "a \<le> b \<longleftrightarrow> killed_no a \<le> killed_no b"

definition less_killed_state :: "killed_state \<Rightarrow> killed_state \<Rightarrow> bool" where
  "a < b \<longleftrightarrow> killed_no a < killed_no b"

instance
proof
  fix a b :: killed_state
  show "a = b" if "a \<le> b" "b \<le> a"
    using that by (cases a; cases b) (simp_all add: less_eq_killed_state_def)
qed (auto simp: less_eq_killed_state_def less_killed_state_def)

end

record thd_kill =
  killed :: killed_state
  killed_err :: "(int \<times> string) option"
  mysys_abort :: nat

text \<open>\<open>mem\<close> tells whether \<open>alloc_root\<close> delivers memory for the message.\<close>

definition set_killed_no_mutex :: "bool \<Rightarrow> killed_state \<Rightarrow> int \<Rightarrow> string \<Rightarrow> thd_kill \<Rightarrow> thd_kill" where
  "set_killed_no_mutex mem killed_arg killed_errno_arg killed_err_msg_arg t =
     (if killed t \<le> killed_arg
      then let t = t\<lparr>killed := killed_arg\<rparr>
           in if killed_errno_arg \<noteq> 0
              then t\<lparr>killed_err := if mem then Some (killed_errno_arg, take 255 killed_err_msg_arg) else None\<rparr>
              else t
      else t)"

text \<open>The mutex around it makes \<open>set_killed\<close> one step. \<open>reset_killed\<close> is defined elsewhere and a parameter.\<close>

definition set_killed :: "bool \<Rightarrow> killed_state \<Rightarrow> int \<Rightarrow> string \<Rightarrow> thd_kill \<Rightarrow> thd_kill" where
  "set_killed mem k e msg t = set_killed_no_mutex mem k e msg t"

definition reset_kill_query :: "(thd_kill \<Rightarrow> thd_kill) \<Rightarrow> thd_kill \<Rightarrow> thd_kill" where
  "reset_kill_query reset_killed t = (if killed t < KILL_CONNECTION then (reset_killed t)\<lparr>mysys_abort := 0\<rparr> else t)"

section \<open>Binary log formats\<close>

datatype enum_binlog_format = BINLOG_FORMAT_MIXED | BINLOG_FORMAT_STMT | BINLOG_FORMAT_ROW | BINLOG_FORMAT_UNSPEC

datatype binlog_filter_state = BINLOG_FILTER_UNKNOWN | BINLOG_FILTER_CLEAR | BINLOG_FILTER_SET

record thd_binlog =
  binlog_format :: enum_binlog_format
  current_stmt_binlog_format :: enum_binlog_format
  in_sub_stmt :: nat
  temporary_tables :: "nat set"
  forced_binlog_format :: enum_binlog_format
  m_binlog_filter_state :: binlog_filter_state

definition WSREP_BINLOG_FORMAT :: "enum_binlog_format \<Rightarrow> enum_binlog_format \<Rightarrow> enum_binlog_format" where
  "WSREP_BINLOG_FORMAT forced my_format = (if forced \<noteq> BINLOG_FORMAT_UNSPEC then forced else my_format)"

definition wsrep_binlog_format :: "thd_binlog \<Rightarrow> enum_binlog_format" where
  "wsrep_binlog_format t = WSREP_BINLOG_FORMAT (forced_binlog_format t) (binlog_format t)"

definition is_current_stmt_binlog_format_row :: "thd_binlog \<Rightarrow> bool option" where
  "is_current_stmt_binlog_format_row t =
     do { dbug_assert (current_stmt_binlog_format t = BINLOG_FORMAT_STMT \<or> current_stmt_binlog_format t = BINLOG_FORMAT_ROW);
          Some (current_stmt_binlog_format t = BINLOG_FORMAT_ROW) }"

definition get_binlog_format :: "thd_binlog \<Rightarrow> enum_binlog_format \<times> enum_binlog_format" where
  "get_binlog_format t = (binlog_format t, current_stmt_binlog_format t)"

definition set_binlog_format :: "enum_binlog_format \<Rightarrow> enum_binlog_format \<Rightarrow> thd_binlog \<Rightarrow> thd_binlog" where
  "set_binlog_format fmt current_format t = t\<lparr>binlog_format := fmt, current_stmt_binlog_format := current_format\<rparr>"

definition set_binlog_format_stmt :: "thd_binlog \<Rightarrow> thd_binlog" where
  "set_binlog_format_stmt t = t\<lparr>binlog_format := BINLOG_FORMAT_STMT, current_stmt_binlog_format := BINLOG_FORMAT_STMT\<rparr>"

definition set_current_stmt_binlog_format_row :: "thd_binlog \<Rightarrow> thd_binlog" where
  "set_current_stmt_binlog_format_row t = t\<lparr>current_stmt_binlog_format := BINLOG_FORMAT_ROW\<rparr>"

definition set_current_stmt_binlog_format_row_if_mixed :: "thd_binlog \<Rightarrow> thd_binlog" where
  "set_current_stmt_binlog_format_row_if_mixed t =
     (if wsrep_binlog_format t = BINLOG_FORMAT_MIXED \<and> in_sub_stmt t = 0 then set_current_stmt_binlog_format_row t else t)"

definition set_current_stmt_binlog_format_stmt :: "thd_binlog \<Rightarrow> enum_binlog_format \<times> thd_binlog" where
  "set_current_stmt_binlog_format_stmt t =
     (current_stmt_binlog_format t, t\<lparr>current_stmt_binlog_format := BINLOG_FORMAT_STMT\<rparr>)"

definition restore_stmt_binlog_format :: "enum_binlog_format \<Rightarrow> thd_binlog \<Rightarrow> thd_binlog option" where
  "restore_stmt_binlog_format fmt t =
     do { row \<leftarrow> is_current_stmt_binlog_format_row t;
          dbug_assert (\<not> row);
          Some (t\<lparr>current_stmt_binlog_format := fmt\<rparr>) }"

definition reset_current_stmt_binlog_format_row :: "thd_binlog \<Rightarrow> thd_binlog" where
  "reset_current_stmt_binlog_format_row t =
     (if in_sub_stmt t = 0
      then if wsrep_binlog_format t = BINLOG_FORMAT_ROW then set_current_stmt_binlog_format_row t
           else if temporary_tables t = {} then snd (set_current_stmt_binlog_format_stmt t) else t
      else t)"

definition reset_binlog_local_stmt_filter :: "thd_binlog \<Rightarrow> thd_binlog" where
  "reset_binlog_local_stmt_filter t = t\<lparr>m_binlog_filter_state := BINLOG_FILTER_UNKNOWN\<rparr>"

definition clear_binlog_local_stmt_filter :: "thd_binlog \<Rightarrow> thd_binlog option" where
  "clear_binlog_local_stmt_filter t =
     do { dbug_assert (m_binlog_filter_state t = BINLOG_FILTER_UNKNOWN); Some (t\<lparr>m_binlog_filter_state := BINLOG_FILTER_CLEAR\<rparr>) }"

definition set_binlog_local_stmt_filter :: "thd_binlog \<Rightarrow> thd_binlog option" where
  "set_binlog_local_stmt_filter t =
     do { dbug_assert (m_binlog_filter_state t = BINLOG_FILTER_UNKNOWN); Some (t\<lparr>m_binlog_filter_state := BINLOG_FILTER_SET\<rparr>) }"

section \<open>Generated identifiers\<close>

record thd_insert_ids =
  first_successful_insert_id_in_prev_stmt :: u64
  first_successful_insert_id_in_prev_stmt_for_binlog :: u64
  first_successful_insert_id_in_cur_stmt :: u64
  stmt_depends_on_first_successful_insert_id_in_prev_stmt :: bool

definition record_first_successful_insert_id_in_cur_stmt :: "u64 \<Rightarrow> thd_insert_ids \<Rightarrow> thd_insert_ids" where
  "record_first_successful_insert_id_in_cur_stmt id_arg t =
     (if first_successful_insert_id_in_cur_stmt t = 0 then t\<lparr>first_successful_insert_id_in_cur_stmt := id_arg\<rparr> else t)"

definition read_first_successful_insert_id_in_prev_stmt :: "thd_insert_ids \<Rightarrow> u64 \<times> thd_insert_ids" where
  "read_first_successful_insert_id_in_prev_stmt t =
     (first_successful_insert_id_in_prev_stmt t,
      if \<not> stmt_depends_on_first_successful_insert_id_in_prev_stmt t
      then t\<lparr>first_successful_insert_id_in_prev_stmt_for_binlog := first_successful_insert_id_in_prev_stmt t,
             stmt_depends_on_first_successful_insert_id_in_prev_stmt := True\<rparr>
      else t)"

section \<open>The strongest kill wins\<close>

type_synonym kill = "bool \<times> killed_state \<times> int \<times> string"

definition kills :: "kill list \<Rightarrow> thd_kill \<Rightarrow> thd_kill" where
  "kills ks t = fold (\<lambda>(mem, k, e, msg) t. set_killed mem k e msg t) ks t"

lemma kills_max: "killed (kills ks t) = fold max (map (fst \<circ> snd) ks) (killed t)"
proof (induction ks arbitrary: t)
  case (Cons k ks)
  obtain mem s e msg where k: "k = (mem, s, e, msg)" by (cases k)
  have "killed (set_killed mem s e msg t) = max (killed t) s"
    by (auto simp: set_killed_def set_killed_no_mutex_def Let_def max_def)
  then show ?case using Cons.IH [of "set_killed mem s e msg t"] by (simp add: kills_def k max.commute)
qed (simp add: kills_def)

text \<open>
  Kills that arrive in any order leave the strongest of them, the state before included, and the end of
  a query takes back only kills of the query: a connection that was to be closed stays so.
\<close>

theorem strongest_kill_wins:
  assumes "set ks = set ks'"
  shows "killed (kills ks t) = Max (insert (killed t) ((fst \<circ> snd) ` set ks)) \<and> killed (kills ks' t) = killed (kills ks t) \<and>
    ((\<exists>k \<in> set ks. fst (snd k) \<ge> KILL_CONNECTION) \<longrightarrow> reset_kill_query r (kills ks t) = kills ks t)"
proof -
  have Max: "killed (kills ks t) = Max (insert (killed t) ((fst \<circ> snd) ` set ks))" for ks
    unfolding kills_max by (simp add: Max.set_eq_fold [symmetric])
  moreover have "reset_kill_query r (kills ks t) = kills ks t" if "\<exists>k \<in> set ks. fst (snd k) \<ge> KILL_CONNECTION"
  proof -
    from that obtain k where "k \<in> set ks" "KILL_CONNECTION \<le> (fst \<circ> snd) k" by auto
    then have "KILL_CONNECTION \<le> Max (insert (killed t) ((fst \<circ> snd) ` set ks))"
      by (intro order_trans [OF _ Max_ge]) auto
    then have "\<not> killed (kills ks t) < KILL_CONNECTION" unfolding Max by (simp only: not_less)
    then show ?thesis by (simp only: reset_kill_query_def if_False)
  qed
  ultimately show ?thesis using assms by simp
qed

theorem strongest_kill_wins_witness:
  "killed (kills [(True, KILL_CONNECTION, 0, []), (True, KILL_QUERY, 1, ''x'')] \<lparr>killed = NOT_KILLED, killed_err = None, mysys_abort = 0\<rparr>) =
     killed (kills [(True, KILL_QUERY, 1, ''x''), (True, KILL_CONNECTION, 0, [])] \<lparr>killed = NOT_KILLED, killed_err = None, mysys_abort = 0\<rparr>)"
proof -
  have "set [(True, KILL_QUERY, 1 :: int, ''x''), (True, KILL_CONNECTION, 0, [])] =
      set [(True, KILL_CONNECTION, 0, []), (True, KILL_QUERY, 1, ''x'')]" by auto
  from strongest_kill_wins [OF this] show ?thesis by blast
qed

section \<open>Formats across statements\<close>

text \<open>
  A session: the state, the temporary tables that were created or changed while rows were logged (their
  content is not in the log as statements), and the format in force when the running sub-statement started. A
  statement begins by resetting the format and switches to rows if it is unsafe. The server's messages fix when the
  format of a session may be changed: not inside a stored function or trigger
  (\<open>ER_STORED_FUNCTION_PREVENTS_SWITCH_BINLOG_FORMAT\<close>), and not out of the row format while there are temporary tables
  (\<open>ER_TEMP_TABLE_PREVENTS_SWITCH_OUT_OF_RBR\<close>).
\<close>

record session =
  sess :: thd_binlog
  row_tables :: "nat set"
  entry_format :: enum_binlog_format

inductive session_step :: "session \<Rightarrow> session \<Rightarrow> bool" where
  statement: "in_sub_stmt (sess s) = 0 \<Longrightarrow>
    session_step s (s\<lparr>sess := (if unsafe then set_current_stmt_binlog_format_row_if_mixed else (\<lambda>t. t)) (reset_current_stmt_binlog_format_row (sess s))\<rparr>)"
| within_sub_statement: "in_sub_stmt (sess s) \<noteq> 0 \<Longrightarrow>
    session_step s (s\<lparr>sess := (if unsafe then set_current_stmt_binlog_format_row_if_mixed else (\<lambda>t. t)) (reset_current_stmt_binlog_format_row (sess s))\<rparr>)"
| create_temporary: "n \<notin> temporary_tables (sess s) \<Longrightarrow>
    session_step s (s\<lparr>sess := (sess s)\<lparr>temporary_tables := insert n (temporary_tables (sess s))\<rparr>,
      row_tables := if current_stmt_binlog_format (sess s) = BINLOG_FORMAT_ROW then insert n (row_tables s) else row_tables s\<rparr>)"
| change_temporary: "n \<in> temporary_tables (sess s) \<Longrightarrow>
    session_step s (s\<lparr>row_tables := if current_stmt_binlog_format (sess s) = BINLOG_FORMAT_ROW then insert n (row_tables s) else row_tables s\<rparr>)"
| drop_temporary: "session_step s (s\<lparr>sess := (sess s)\<lparr>temporary_tables := temporary_tables (sess s) - {n}\<rparr>, row_tables := row_tables s - {n}\<rparr>)"
| enter_sub: "in_sub_stmt (sess s) = 0 \<Longrightarrow> k \<noteq> 0 \<Longrightarrow>
    session_step s (s\<lparr>sess := (sess s)\<lparr>in_sub_stmt := k\<rparr>, entry_format := current_stmt_binlog_format (sess s)\<rparr>)"
| leave_sub: "session_step s (s\<lparr>sess := (sess s)\<lparr>in_sub_stmt := 0\<rparr>\<rparr>)"
| set_format: "temporary_tables (sess s) = {} \<or> current_stmt_binlog_format (sess s) \<noteq> BINLOG_FORMAT_ROW \<or> current = BINLOG_FORMAT_ROW \<Longrightarrow> in_sub_stmt (sess s) = 0 \<Longrightarrow> current \<in> {BINLOG_FORMAT_STMT, BINLOG_FORMAT_ROW} \<Longrightarrow>
    session_step s (s\<lparr>sess := set_binlog_format fmt current (sess s)\<rparr>)"
| log_as_statement: "set_current_stmt_binlog_format_stmt (sess s) = (orig, t) \<Longrightarrow> restore_stmt_binlog_format orig t = Some t' \<Longrightarrow>
    session_step s (s\<lparr>sess := t'\<rparr>)"

inductive session_reach :: "session \<Rightarrow> bool" where
  start: "current_stmt_binlog_format (sess s) \<in> {BINLOG_FORMAT_STMT, BINLOG_FORMAT_ROW} \<Longrightarrow> temporary_tables (sess s) = {} \<Longrightarrow>
    in_sub_stmt (sess s) = 0 \<Longrightarrow> row_tables s = {} \<Longrightarrow> session_reach s"
| step: "session_reach s \<Longrightarrow> session_step s s' \<Longrightarrow> session_reach s'"

definition session_inv :: "session \<Rightarrow> bool" where
  "session_inv s \<longleftrightarrow> current_stmt_binlog_format (sess s) \<in> {BINLOG_FORMAT_STMT, BINLOG_FORMAT_ROW} \<and>
     row_tables s \<subseteq> temporary_tables (sess s) \<and> (row_tables s \<noteq> {} \<longrightarrow> current_stmt_binlog_format (sess s) = BINLOG_FORMAT_ROW) \<and>
     (in_sub_stmt (sess s) \<noteq> 0 \<longrightarrow> current_stmt_binlog_format (sess s) = entry_format s)"

lemmas format_ops = reset_current_stmt_binlog_format_row_def set_current_stmt_binlog_format_row_if_mixed_def
  set_current_stmt_binlog_format_row_def set_current_stmt_binlog_format_stmt_def restore_stmt_binlog_format_def
  is_current_stmt_binlog_format_row_def set_binlog_format_def

lemma session_step_inv: "session_step s s' \<Longrightarrow> session_inv s \<Longrightarrow> session_inv s'"
proof (induction rule: session_step.induct)
  case (statement s unsafe)
  then show ?case by (simp add: session_inv_def format_ops) blast
next
  case (log_as_statement s orig t t')
  then show ?case by (auto simp: session_inv_def format_ops split: if_splits)
qed (auto simp: session_inv_def format_ops)

lemma session_reach_inv: "session_reach s \<Longrightarrow> session_inv s"
proof (induction rule: session_reach.induct)
  case (start s)
  then show ?case by (simp add: session_inv_def)
next
  case (step s s')
  then show ?case by (simp add: session_step_inv)
qed

text \<open>
  Property C18: in every session of such steps the format of the current statement is decided, so that no assertion fails; as
  long as a temporary table exists that was created or changed while rows were logged, statements are
  logged as rows; and a sub-statement runs from beginning to end in the format it was started with. Logging something as a
  statement in between restores the format.
\<close>

theorem row_format_kept_for_temporary_tables:
  assumes "session_reach s"
  shows "(\<exists>row. is_current_stmt_binlog_format_row (sess s) = Some row \<and> (row_tables s \<noteq> {} \<longrightarrow> row) \<and>
      (in_sub_stmt (sess s) \<noteq> 0 \<longrightarrow> row = (entry_format s = BINLOG_FORMAT_ROW))) \<and>
    (case set_current_stmt_binlog_format_stmt (sess s) of (orig, t) \<Rightarrow> restore_stmt_binlog_format orig t = Some (sess s))"
  using session_reach_inv [OF assms] by (auto simp: session_inv_def format_ops)

definition mixed_session :: session where
  "mixed_session = \<lparr>sess = \<lparr>binlog_format = BINLOG_FORMAT_MIXED, current_stmt_binlog_format = BINLOG_FORMAT_STMT, in_sub_stmt = 0,
     temporary_tables = {}, forced_binlog_format = BINLOG_FORMAT_UNSPEC, m_binlog_filter_state = BINLOG_FILTER_UNKNOWN\<rparr>,
     row_tables = {}, entry_format = BINLOG_FORMAT_STMT\<rparr>"

text \<open>A table created by a safe statement, filled by an unsafe one; the next statement is safe again and logged as rows.\<close>

definition filled_session :: session where
  "filled_session = mixed_session\<lparr>sess := (sess mixed_session)\<lparr>current_stmt_binlog_format := BINLOG_FORMAT_ROW, temporary_tables := {7}\<rparr>, row_tables := {7}\<rparr>"

lemma filled_reach: "session_reach filled_session"
proof -
  let ?t = "(sess mixed_session)\<lparr>temporary_tables := {7}\<rparr>"
  have "session_reach mixed_session" by (rule start) (simp_all add: mixed_session_def)
  from session_reach.step [OF this create_temporary [where n = 7]] have "session_reach (mixed_session\<lparr>sess := ?t\<rparr>)"
    by (simp add: mixed_session_def)
  from session_reach.step [OF this statement [where unsafe = True]]
  have "session_reach (mixed_session\<lparr>sess := ?t\<lparr>current_stmt_binlog_format := BINLOG_FORMAT_ROW\<rparr>\<rparr>)"
    by (simp add: mixed_session_def format_ops wsrep_binlog_format_def WSREP_BINLOG_FORMAT_def)
  from session_reach.step [OF this change_temporary [where n = 7]]
  have "session_reach (mixed_session\<lparr>sess := ?t\<lparr>current_stmt_binlog_format := BINLOG_FORMAT_ROW\<rparr>, row_tables := {7}\<rparr>)"
    by (simp add: mixed_session_def)
  from session_reach.step [OF this statement [where unsafe = False]] show ?thesis
    by (simp add: filled_session_def mixed_session_def format_ops wsrep_binlog_format_def WSREP_BINLOG_FORMAT_def)
qed

theorem row_format_kept_for_temporary_tables_witness:
  "session_reach filled_session \<and> row_tables filled_session = {7} \<and> is_current_stmt_binlog_format_row (sess filled_session) = Some True"
proof -
  have "row_tables filled_session = {7}" by (simp add: filled_session_def)
  then show ?thesis using row_format_kept_for_temporary_tables [OF filled_reach] filled_reach by auto
qed

section \<open>Identifiers for the log\<close>

text \<open>
  The current statement reports the first identifier it generated, and what goes to the log is the identifier
  of the previous statement as it was when it was first read.
\<close>

lemma first_insert_id_recorded:
  assumes "first_successful_insert_id_in_cur_stmt t = 0"
  shows "first_successful_insert_id_in_cur_stmt (fold record_first_successful_insert_id_in_cur_stmt ids t) =
    (case dropWhile (\<lambda>i. i = 0) ids of [] \<Rightarrow> 0 | i # _ \<Rightarrow> i)"
proof -
  have kept: "first_successful_insert_id_in_cur_stmt (fold record_first_successful_insert_id_in_cur_stmt ids u) = first_successful_insert_id_in_cur_stmt u"
    if "first_successful_insert_id_in_cur_stmt u \<noteq> 0" for u ids
    using that by (induction ids) (simp_all add: record_first_successful_insert_id_in_cur_stmt_def)
  show ?thesis using assms
  proof (induction ids arbitrary: t)
    case (Cons i ids)
    let ?u = "t\<lparr>first_successful_insert_id_in_cur_stmt := i\<rparr>"
    have "record_first_successful_insert_id_in_cur_stmt i t = ?u"
      using Cons.prems by (simp add: record_first_successful_insert_id_in_cur_stmt_def)
    then show ?case using kept [of ?u ids] Cons.IH [of ?u] by simp
  qed simp
qed

end
