(* ===== verification/LogEvents.thy ===== *)
theory LogEvents
  imports Main
begin

text \<open>
  The types of binary log events (\<open>log_event.h\<close>): their numbers, the tests for the kinds of row
  events, and which events belong to a group. The type with the number of \<open>ANNOTATE_ROWS_EVENT\<close> that only
  marks the start of the numbers of MariaDB is left out.
\<close>

section \<open>Types and numbers\<close>

datatype Log_event_type =
    UNKNOWN_EVENT | START_EVENT_V3 | QUERY_EVENT | STOP_EVENT | ROTATE_EVENT | INTVAR_EVENT | LOAD_EVENT |
    SLAVE_EVENT | CREATE_FILE_EVENT | APPEND_BLOCK_EVENT | EXEC_LOAD_EVENT | DELETE_FILE_EVENT |
    NEW_LOAD_EVENT | RAND_EVENT | USER_VAR_EVENT | FORMAT_DESCRIPTION_EVENT | XID_EVENT |
    BEGIN_LOAD_QUERY_EVENT | EXECUTE_LOAD_QUERY_EVENT | TABLE_MAP_EVENT | PRE_GA_WRITE_ROWS_EVENT |
    PRE_GA_UPDATE_ROWS_EVENT | PRE_GA_DELETE_ROWS_EVENT | WRITE_ROWS_EVENT_V1 | UPDATE_ROWS_EVENT_V1 |
    DELETE_ROWS_EVENT_V1 | INCIDENT_EVENT | HEARTBEAT_LOG_EVENT | IGNORABLE_LOG_EVENT | ROWS_QUERY_LOG_EVENT |
    WRITE_ROWS_EVENT | UPDATE_ROWS_EVENT | DELETE_ROWS_EVENT | GTID_LOG_EVENT | ANONYMOUS_GTID_LOG_EVENT |
    PREVIOUS_GTIDS_LOG_EVENT | TRANSACTION_CONTEXT_EVENT | VIEW_CHANGE_EVENT | XA_PREPARE_LOG_EVENT |
    MYSQL_EVENTS_END | ANNOTATE_ROWS_EVENT | BINLOG_CHECKPOINT_EVENT | GTID_EVENT | GTID_LIST_EVENT |
    START_ENCRYPTION_EVENT | QUERY_COMPRESSED_EVENT | WRITE_ROWS_COMPRESSED_EVENT_V1 |
    UPDATE_ROWS_COMPRESSED_EVENT_V1 | DELETE_ROWS_COMPRESSED_EVENT_V1 | WRITE_ROWS_COMPRESSED_EVENT |
    UPDATE_ROWS_COMPRESSED_EVENT | DELETE_ROWS_COMPRESSED_EVENT | ENUM_END_EVENT

fun event_no :: "Log_event_type \<Rightarrow> nat" where
  "event_no UNKNOWN_EVENT = 0"
| "event_no START_EVENT_V3 = 1"
| "event_no QUERY_EVENT = 2"
| "event_no STOP_EVENT = 3"
| "event_no ROTATE_EVENT = 4"
| "event_no INTVAR_EVENT = 5"
| "event_no LOAD_EVENT = 6"
| "event_no SLAVE_EVENT = 7"
| "event_no CREATE_FILE_EVENT = 8"
| "event_no APPEND_BLOCK_EVENT = 9"
| "event_no EXEC_LOAD_EVENT = 10"
| "event_no DELETE_FILE_EVENT = 11"
| "event_no NEW_LOAD_EVENT = 12"
| "event_no RAND_EVENT = 13"
| "event_no USER_VAR_EVENT = 14"
| "event_no FORMAT_DESCRIPTION_EVENT = 15"
| "event_no XID_EVENT = 16"
| "event_no BEGIN_LOAD_QUERY_EVENT = 17"
| "event_no EXECUTE_LOAD_QUERY_EVENT = 18"
| "event_no TABLE_MAP_EVENT = 19"
| "event_no PRE_GA_WRITE_ROWS_EVENT = 20"
| "event_no PRE_GA_UPDATE_ROWS_EVENT = 21"
| "event_no PRE_GA_DELETE_ROWS_EVENT = 22"
| "event_no WRITE_ROWS_EVENT_V1 = 23"
| "event_no UPDATE_ROWS_EVENT_V1 = 24"
| "event_no DELETE_ROWS_EVENT_V1 = 25"
| "event_no INCIDENT_EVENT = 26"
| "event_no HEARTBEAT_LOG_EVENT = 27"
| "event_no IGNORABLE_LOG_EVENT = 28"
| "event_no ROWS_QUERY_LOG_EVENT = 29"
| "event_no WRITE_ROWS_EVENT = 30"
| "event_no UPDATE_ROWS_EVENT = 31"
| "event_no DELETE_ROWS_EVENT = 32"
| "event_no GTID_LOG_EVENT = 33"
| "event_no ANONYMOUS_GTID_LOG_EVENT = 34"
| "event_no PREVIOUS_GTIDS_LOG_EVENT = 35"
| "event_no TRANSACTION_CONTEXT_EVENT = 36"
| "event_no VIEW_CHANGE_EVENT = 37"
| "event_no XA_PREPARE_LOG_EVENT = 38"
| "event_no MYSQL_EVENTS_END = 39"
| "event_no ANNOTATE_ROWS_EVENT = 160"
| "event_no BINLOG_CHECKPOINT_EVENT = 161"
| "event_no GTID_EVENT = 162"
| "event_no GTID_LIST_EVENT = 163"
| "event_no START_ENCRYPTION_EVENT = 164"
| "event_no QUERY_COMPRESSED_EVENT = 165"
| "event_no WRITE_ROWS_COMPRESSED_EVENT_V1 = 166"
| "event_no UPDATE_ROWS_COMPRESSED_EVENT_V1 = 167"
| "event_no DELETE_ROWS_COMPRESSED_EVENT_V1 = 168"
| "event_no WRITE_ROWS_COMPRESSED_EVENT = 169"
| "event_no UPDATE_ROWS_COMPRESSED_EVENT = 170"
| "event_no DELETE_ROWS_COMPRESSED_EVENT = 171"
| "event_no ENUM_END_EVENT = 172"

text \<open>The type of a number, for the injectivity of the numbering.\<close>

definition event_of :: "nat \<Rightarrow> Log_event_type option" where
  "event_of n = find (\<lambda>t. event_no t = n)
     [UNKNOWN_EVENT, START_EVENT_V3, QUERY_EVENT, STOP_EVENT, ROTATE_EVENT, INTVAR_EVENT, LOAD_EVENT,
      SLAVE_EVENT, CREATE_FILE_EVENT, APPEND_BLOCK_EVENT, EXEC_LOAD_EVENT, DELETE_FILE_EVENT, NEW_LOAD_EVENT,
      RAND_EVENT, USER_VAR_EVENT, FORMAT_DESCRIPTION_EVENT, XID_EVENT, BEGIN_LOAD_QUERY_EVENT,
      EXECUTE_LOAD_QUERY_EVENT, TABLE_MAP_EVENT, PRE_GA_WRITE_ROWS_EVENT, PRE_GA_UPDATE_ROWS_EVENT,
      PRE_GA_DELETE_ROWS_EVENT, WRITE_ROWS_EVENT_V1, UPDATE_ROWS_EVENT_V1, DELETE_ROWS_EVENT_V1,
      INCIDENT_EVENT, HEARTBEAT_LOG_EVENT, IGNORABLE_LOG_EVENT, ROWS_QUERY_LOG_EVENT, WRITE_ROWS_EVENT,
      UPDATE_ROWS_EVENT, DELETE_ROWS_EVENT, GTID_LOG_EVENT, ANONYMOUS_GTID_LOG_EVENT,
      PREVIOUS_GTIDS_LOG_EVENT, TRANSACTION_CONTEXT_EVENT, VIEW_CHANGE_EVENT, XA_PREPARE_LOG_EVENT,
      MYSQL_EVENTS_END, ANNOTATE_ROWS_EVENT, BINLOG_CHECKPOINT_EVENT, GTID_EVENT, GTID_LIST_EVENT,
      START_ENCRYPTION_EVENT, QUERY_COMPRESSED_EVENT, WRITE_ROWS_COMPRESSED_EVENT_V1,
      UPDATE_ROWS_COMPRESSED_EVENT_V1, DELETE_ROWS_COMPRESSED_EVENT_V1, WRITE_ROWS_COMPRESSED_EVENT,
      UPDATE_ROWS_COMPRESSED_EVENT, DELETE_ROWS_COMPRESSED_EVENT, ENUM_END_EVENT]"

lemma event_of_no: "event_of (event_no t) = Some t"
  by (cases t) (simp_all add: event_of_def)

lemma event_no_inj: "event_no a = event_no b \<longleftrightarrow> a = b"
  by (metis event_of_no option.inject)

text \<open>Enumeration values are compared by their numbers.\<close>

instantiation Log_event_type :: linorder
begin

definition less_eq_Log_event_type :: "Log_event_type \<Rightarrow> Log_event_type \<Rightarrow> bool" where
  "a \<le> b \<longleftrightarrow> event_no a \<le> event_no b"

definition less_Log_event_type :: "Log_event_type \<Rightarrow> Log_event_type \<Rightarrow> bool" where
  "a < b \<longleftrightarrow> event_no a < event_no b"

instance
proof
  fix a b :: Log_event_type
  show "a = b" if "a \<le> b" "b \<le> a"
    using that le_antisym unfolding less_eq_Log_event_type_def event_no_inj [symmetric] by blast
qed (auto simp: less_eq_Log_event_type_def less_Log_event_type_def)

end

section \<open>Tests\<close>

definition LOG_EVENT_IS_QUERY :: "Log_event_type \<Rightarrow> bool" where
  "LOG_EVENT_IS_QUERY type \<longleftrightarrow> type = QUERY_EVENT \<or> type = QUERY_COMPRESSED_EVENT"

definition LOG_EVENT_IS_WRITE_ROW :: "Log_event_type \<Rightarrow> bool" where
  "LOG_EVENT_IS_WRITE_ROW type \<longleftrightarrow> type = WRITE_ROWS_EVENT \<or> type = WRITE_ROWS_EVENT_V1 \<or>
     type = WRITE_ROWS_COMPRESSED_EVENT \<or> type = WRITE_ROWS_COMPRESSED_EVENT_V1"

definition LOG_EVENT_IS_UPDATE_ROW :: "Log_event_type \<Rightarrow> bool" where
  "LOG_EVENT_IS_UPDATE_ROW type \<longleftrightarrow> type = UPDATE_ROWS_EVENT \<or> type = UPDATE_ROWS_EVENT_V1 \<or>
     type = UPDATE_ROWS_COMPRESSED_EVENT \<or> type = UPDATE_ROWS_COMPRESSED_EVENT_V1"

definition LOG_EVENT_IS_DELETE_ROW :: "Log_event_type \<Rightarrow> bool" where
  "LOG_EVENT_IS_DELETE_ROW type \<longleftrightarrow> type = DELETE_ROWS_EVENT \<or> type = DELETE_ROWS_EVENT_V1 \<or>
     type = DELETE_ROWS_COMPRESSED_EVENT \<or> type = DELETE_ROWS_COMPRESSED_EVENT_V1"

definition LOG_EVENT_IS_ROW_COMPRESSED :: "Log_event_type \<Rightarrow> bool" where
  "LOG_EVENT_IS_ROW_COMPRESSED type \<longleftrightarrow>
     type = WRITE_ROWS_COMPRESSED_EVENT \<or> type = WRITE_ROWS_COMPRESSED_EVENT_V1 \<or>
     type = UPDATE_ROWS_COMPRESSED_EVENT \<or> type = UPDATE_ROWS_COMPRESSED_EVENT_V1 \<or>
     type = DELETE_ROWS_COMPRESSED_EVENT \<or> type = DELETE_ROWS_COMPRESSED_EVENT_V1"

definition LOG_EVENT_IS_ROW_V2 :: "Log_event_type \<Rightarrow> bool" where
  "LOG_EVENT_IS_ROW_V2 type \<longleftrightarrow>
     (type \<ge> WRITE_ROWS_EVENT \<and> type \<le> DELETE_ROWS_EVENT) \<or>
     (type \<ge> WRITE_ROWS_COMPRESSED_EVENT \<and> type \<le> DELETE_ROWS_COMPRESSED_EVENT)"

definition LOG_EVENT_TYPES :: nat where
  "LOG_EVENT_TYPES = event_no ENUM_END_EVENT - 1"

fun is_part_of_group :: "Log_event_type \<Rightarrow> bool" where
  "is_part_of_group GTID_EVENT = True"
| "is_part_of_group INTVAR_EVENT = True"
| "is_part_of_group RAND_EVENT = True"
| "is_part_of_group USER_VAR_EVENT = True"
| "is_part_of_group TABLE_MAP_EVENT = True"
| "is_part_of_group ANNOTATE_ROWS_EVENT = True"
| "is_part_of_group _ = False"

fun is_group_event :: "Log_event_type \<Rightarrow> bool" where
  "is_group_event START_EVENT_V3 = False"
| "is_group_event STOP_EVENT = False"
| "is_group_event ROTATE_EVENT = False"
| "is_group_event SLAVE_EVENT = False"
| "is_group_event FORMAT_DESCRIPTION_EVENT = False"
| "is_group_event INCIDENT_EVENT = False"
| "is_group_event HEARTBEAT_LOG_EVENT = False"
| "is_group_event BINLOG_CHECKPOINT_EVENT = False"
| "is_group_event GTID_LIST_EVENT = False"
| "is_group_event START_ENCRYPTION_EVENT = False"
| "is_group_event _ = True"

section \<open>Kinds of row events\<close>

definition row_event :: "Log_event_type \<Rightarrow> bool" where
  "row_event t \<longleftrightarrow> LOG_EVENT_IS_WRITE_ROW t \<or> LOG_EVENT_IS_UPDATE_ROW t \<or> LOG_EVENT_IS_DELETE_ROW t"

lemmas row_tests = LOG_EVENT_IS_WRITE_ROW_def LOG_EVENT_IS_UPDATE_ROW_def LOG_EVENT_IS_DELETE_ROW_def
  LOG_EVENT_IS_ROW_COMPRESSED_def LOG_EVENT_IS_ROW_V2_def LOG_EVENT_IS_QUERY_def row_event_def less_eq_Log_event_type_def

text \<open>
  Row events are of exactly one kind; the test for version 2 separates the numbers of each kind, and a
  compressed row event becomes the uncompressed one of the same kind and version by the difference of
  the numbers, as the comment on the enumeration promises. Every event that is a part of a group is a
  group event, and row events are group events that end a group.
\<close>

theorem row_events_classified:
  "(LOG_EVENT_IS_WRITE_ROW t \<longrightarrow> \<not> LOG_EVENT_IS_UPDATE_ROW t \<and> \<not> LOG_EVENT_IS_DELETE_ROW t) \<and>
   (LOG_EVENT_IS_UPDATE_ROW t \<longrightarrow> \<not> LOG_EVENT_IS_DELETE_ROW t) \<and>
   (LOG_EVENT_IS_ROW_COMPRESSED t \<longrightarrow>
     (\<exists>u. event_no u + event_no (if LOG_EVENT_IS_ROW_V2 t then WRITE_ROWS_COMPRESSED_EVENT else WRITE_ROWS_COMPRESSED_EVENT_V1) =
        event_no t + event_no (if LOG_EVENT_IS_ROW_V2 t then WRITE_ROWS_EVENT else WRITE_ROWS_EVENT_V1) \<and>
        \<not> LOG_EVENT_IS_ROW_COMPRESSED u \<and> LOG_EVENT_IS_ROW_V2 u = LOG_EVENT_IS_ROW_V2 t \<and>
        LOG_EVENT_IS_WRITE_ROW u = LOG_EVENT_IS_WRITE_ROW t \<and> LOG_EVENT_IS_UPDATE_ROW u = LOG_EVENT_IS_UPDATE_ROW t \<and>
        LOG_EVENT_IS_DELETE_ROW u = LOG_EVENT_IS_DELETE_ROW t)) \<and>
   (is_part_of_group t \<longrightarrow> is_group_event t) \<and> (row_event t \<longrightarrow> is_group_event t \<and> \<not> is_part_of_group t)"
proof -
  have conv: "LOG_EVENT_IS_ROW_COMPRESSED t \<Longrightarrow> \<exists>u \<in> {WRITE_ROWS_EVENT, UPDATE_ROWS_EVENT, DELETE_ROWS_EVENT,
      WRITE_ROWS_EVENT_V1, UPDATE_ROWS_EVENT_V1, DELETE_ROWS_EVENT_V1}.
      event_no u + event_no (if LOG_EVENT_IS_ROW_V2 t then WRITE_ROWS_COMPRESSED_EVENT else WRITE_ROWS_COMPRESSED_EVENT_V1) =
        event_no t + event_no (if LOG_EVENT_IS_ROW_V2 t then WRITE_ROWS_EVENT else WRITE_ROWS_EVENT_V1) \<and>
        \<not> LOG_EVENT_IS_ROW_COMPRESSED u \<and> LOG_EVENT_IS_ROW_V2 u = LOG_EVENT_IS_ROW_V2 t \<and>
        LOG_EVENT_IS_WRITE_ROW u = LOG_EVENT_IS_WRITE_ROW t \<and> LOG_EVENT_IS_UPDATE_ROW u = LOG_EVENT_IS_UPDATE_ROW t \<and>
        LOG_EVENT_IS_DELETE_ROW u = LOG_EVENT_IS_DELETE_ROW t"
    unfolding LOG_EVENT_IS_ROW_COMPRESSED_def by (elim disjE) (simp_all add: row_tests)
  have "is_part_of_group t \<longrightarrow> is_group_event t" by (cases t) simp_all
  moreover have "row_event t \<longrightarrow> is_group_event t \<and> \<not> is_part_of_group t" by (cases t) (simp_all add: row_tests)
  moreover have "LOG_EVENT_IS_WRITE_ROW t \<longrightarrow> \<not> LOG_EVENT_IS_UPDATE_ROW t \<and> \<not> LOG_EVENT_IS_DELETE_ROW t"
    "LOG_EVENT_IS_UPDATE_ROW t \<longrightarrow> \<not> LOG_EVENT_IS_DELETE_ROW t" by (auto simp: row_tests)
  ultimately show ?thesis using conv by blast
qed

theorem row_events_classified_witness: "\<exists>u. event_no u = 31 \<and> LOG_EVENT_IS_UPDATE_ROW u"
  using row_events_classified [of UPDATE_ROWS_COMPRESSED_EVENT] by (auto simp: row_tests)

text \<open>All numbers fit into the type byte of an event header.\<close>

lemma event_no_byte: "event_no t < 256"
  by (cases t) simp_all

end
