(* ===== verification/HandlerScan.thy ===== *)
theory HandlerScan
  imports Prelude "HOL-Library.Monad_Syntax"
begin

text \<open>
  Scans of a table: the public wrappers of \<open>class handler\<close> (\<open>handler.h\<close>) that open and close index
  and table scans and switch index-only reading. The storage engine behind the virtual functions is
  arbitrary: what a call returns is a parameter, a function of the calls it has received before. The
  state keeps those calls, the latest first, next to the members of the handler. Failed assertions
  are \<open>None\<close>; the fault injection of debug builds is left out.
\<close>

section \<open>Handlers and engines\<close>

datatype init_stat = NO_SCAN | INDEX | RND

datatype engine_call = Index_init nat bool | Index_end | Rnd_init bool | Rnd_end | Extra_keyread nat | Extra_no_keyread

type_synonym engine = "engine_call list \<Rightarrow> engine_call \<Rightarrow> int"

definition MAX_KEY :: nat where "MAX_KEY = 64"

record handler =
  inited :: init_stat
  active_index :: nat
  end_range :: "nat option"
  keyread :: nat
  calls :: "engine_call list"

definition call_engine :: "engine \<Rightarrow> engine_call \<Rightarrow> handler \<Rightarrow> int \<times> handler" where
  "call_engine E c h = (E (calls h) c, h\<lparr>calls := c # calls h\<rparr>)"

section \<open>Operations\<close>

definition ha_index_init :: "engine \<Rightarrow> nat \<Rightarrow> bool \<Rightarrow> handler \<Rightarrow> (int \<times> handler) option" where
  "ha_index_init E idx srt h =
     do { dbug_assert (inited h = NO_SCAN);
          let (result, h) = call_engine E (Index_init idx srt) h;
          Some (result, if result = 0 then h\<lparr>inited := INDEX, active_index := idx, end_range := None\<rparr> else h) }"

definition ha_index_end :: "engine \<Rightarrow> handler \<Rightarrow> (int \<times> handler) option" where
  "ha_index_end E h =
     do { dbug_assert (inited h = INDEX);
          Some (call_engine E Index_end (h\<lparr>inited := NO_SCAN, active_index := MAX_KEY, end_range := None\<rparr>)) }"

definition ha_rnd_init :: "engine \<Rightarrow> bool \<Rightarrow> handler \<Rightarrow> (int \<times> handler) option" where
  "ha_rnd_init E scan h =
     do { dbug_assert (inited h = NO_SCAN \<or> (inited h = RND \<and> scan));
          let (result, h) = call_engine E (Rnd_init scan) h;
          Some (result, h\<lparr>inited := (if result \<noteq> 0 then NO_SCAN else RND), end_range := None\<rparr>) }"

definition ha_rnd_end :: "engine \<Rightarrow> handler \<Rightarrow> (int \<times> handler) option" where
  "ha_rnd_end E h =
     do { dbug_assert (inited h = RND);
          Some (call_engine E Rnd_end (h\<lparr>inited := NO_SCAN, end_range := None\<rparr>)) }"

definition ha_index_or_rnd_end :: "engine \<Rightarrow> handler \<Rightarrow> (int \<times> handler) option" where
  "ha_index_or_rnd_end E h =
     (if inited h = INDEX then ha_index_end E h else if inited h = RND then ha_rnd_end E h else Some (0, h))"

definition keyread_enabled :: "handler \<Rightarrow> bool" where
  "keyread_enabled h \<longleftrightarrow> keyread h < MAX_KEY"

definition ha_start_keyread :: "engine \<Rightarrow> nat \<Rightarrow> handler \<Rightarrow> int \<times> handler" where
  "ha_start_keyread E idx h =
     (let (res, h) = if keyread_enabled h then (0, h) else call_engine E (Extra_keyread idx) h in (res, h\<lparr>keyread := idx\<rparr>))"

definition ha_end_keyread :: "engine \<Rightarrow> handler \<Rightarrow> int \<times> handler" where
  "ha_end_keyread E h =
     (if \<not> keyread_enabled h then (0, h) else call_engine E Extra_no_keyread (h\<lparr>keyread := MAX_KEY\<rparr>))"

section \<open>What the engine sees\<close>

text \<open>The scan an engine has open, and whether it reads keys only, after the calls it received. Nothing says what a failed
  restart of a table scan leaves behind; it counts as no scan, as \<open>ha_rnd_init\<close> records it.\<close>

fun open_scan :: "engine \<Rightarrow> engine_call list \<Rightarrow> init_stat" where
  "open_scan E [] = NO_SCAN"
| "open_scan E (Index_init i s # cs) = (if E cs (Index_init i s) = 0 then INDEX else open_scan E cs)"
| "open_scan E (Rnd_init s # cs) = (if E cs (Rnd_init s) = 0 then RND else NO_SCAN)"
| "open_scan E (Index_end # cs) = NO_SCAN"
| "open_scan E (Rnd_end # cs) = NO_SCAN"
| "open_scan E (Extra_keyread i # cs) = open_scan E cs"
| "open_scan E (Extra_no_keyread # cs) = open_scan E cs"

fun keys_only :: "engine_call list \<Rightarrow> bool" where
  "keys_only [] = False"
| "keys_only (Extra_keyread i # cs) = True"
| "keys_only (Extra_no_keyread # cs) = False"
| "keys_only (c # cs) = keys_only cs"

text \<open>The calls an engine may rely on: scans are closed before the next is opened, except that a table
  scan may be restarted, only open scans are closed, and the switch for index-only reading is
  used alternately.\<close>

fun may_call :: "engine \<Rightarrow> engine_call list \<Rightarrow> engine_call \<Rightarrow> bool" where
  "may_call E cs (Index_init i s) \<longleftrightarrow> open_scan E cs = NO_SCAN"
| "may_call E cs (Rnd_init s) \<longleftrightarrow> open_scan E cs = NO_SCAN \<or> (open_scan E cs = RND \<and> s)"
| "may_call E cs Index_end \<longleftrightarrow> open_scan E cs = INDEX"
| "may_call E cs Rnd_end \<longleftrightarrow> open_scan E cs = RND"
| "may_call E cs (Extra_keyread i) \<longleftrightarrow> \<not> keys_only cs"
| "may_call E cs Extra_no_keyread \<longleftrightarrow> keys_only cs"

fun protocol_kept :: "engine \<Rightarrow> engine_call list \<Rightarrow> bool" where
  "protocol_kept E [] = True"
| "protocol_kept E (c # cs) \<longleftrightarrow> may_call E cs c \<and> protocol_kept E cs"

section \<open>Runs\<close>

inductive handler_reach :: "engine \<Rightarrow> handler \<Rightarrow> bool" for E where
  start: "inited h = NO_SCAN \<Longrightarrow> keyread h = MAX_KEY \<Longrightarrow> calls h = [] \<Longrightarrow> handler_reach E h"
| index_init: "handler_reach E h \<Longrightarrow> ha_index_init E idx srt h = Some (r, h') \<Longrightarrow> handler_reach E h'"
| index_end: "handler_reach E h \<Longrightarrow> ha_index_end E h = Some (r, h') \<Longrightarrow> handler_reach E h'"
| rnd_init: "handler_reach E h \<Longrightarrow> ha_rnd_init E scan h = Some (r, h') \<Longrightarrow> handler_reach E h'"
| rnd_end: "handler_reach E h \<Longrightarrow> ha_rnd_end E h = Some (r, h') \<Longrightarrow> handler_reach E h'"
| any_end: "handler_reach E h \<Longrightarrow> ha_index_or_rnd_end E h = Some (r, h') \<Longrightarrow> handler_reach E h'"
| keyread_on: "handler_reach E h \<Longrightarrow> idx < MAX_KEY \<Longrightarrow> ha_start_keyread E idx h = (r, h') \<Longrightarrow> handler_reach E h'"
| keyread_off: "handler_reach E h \<Longrightarrow> ha_end_keyread E h = (r, h') \<Longrightarrow> handler_reach E h'"

definition handler_inv :: "engine \<Rightarrow> handler \<Rightarrow> bool" where
  "handler_inv E h \<longleftrightarrow> protocol_kept E (calls h) \<and> open_scan E (calls h) = inited h \<and> keys_only (calls h) = keyread_enabled h"

lemmas handler_ops = ha_index_init_def ha_index_end_def ha_rnd_init_def ha_rnd_end_def ha_index_or_rnd_end_def
  ha_start_keyread_def ha_end_keyread_def keyread_enabled_def call_engine_def

lemma handler_reach_inv: "handler_reach E h \<Longrightarrow> handler_inv E h"
  by (induction rule: handler_reach.induct)
    (auto simp: handler_inv_def handler_ops Let_def split: if_splits bind_splits)

text \<open>
  Property C19: however a handler is used, as long as none of its assertions fails, the storage engine behind it
  sees scans that are properly bracketed: a scan is opened only when none is open, or to restart
  a table scan, only open scans are closed, also when opening fails, and index-only reading is
  switched on and off alternately. The member \<open>inited\<close> tells which scan is open, so that
  \<open>ha_index_or_rnd_end\<close> closes it in every state.
\<close>

theorem handler_scans_bracketed:
  assumes "handler_reach E h"
  shows "protocol_kept E (calls h) \<and> inited h = open_scan E (calls h) \<and>
    (ha_index_init E idx s h = None \<longleftrightarrow> open_scan E (calls h) \<noteq> NO_SCAN) \<and>
    (\<exists>r h'. ha_index_or_rnd_end E h = Some (r, h') \<and> open_scan E (calls h') = NO_SCAN \<and> protocol_kept E (calls h'))"
proof -
  from handler_reach_inv [OF assms] have inv: "protocol_kept E (calls h)" "inited h = open_scan E (calls h)"
    by (simp_all add: handler_inv_def)
  obtain r h' where e: "ha_index_or_rnd_end E h = Some (r, h')" "inited h' = NO_SCAN"
    by (cases "inited h") (auto simp: handler_ops)
  from handler_reach_inv [OF any_end [OF assms e(1)]] e inv show ?thesis
    by (auto simp: handler_inv_def ha_index_init_def call_engine_def)
qed

definition new_handler :: handler where
  "new_handler = \<lparr>inited = NO_SCAN, active_index = 64, end_range = None, keyread = 64, calls = []\<rparr>"

definition busy_engine :: engine where
  "busy_engine cs c = (if c = Index_init 3 True \<and> cs = [] then 5 else 0)"

theorem handler_scans_bracketed_witness:
  "open_scan busy_engine (calls (new_handler\<lparr>calls := [Index_init 3 True]\<rparr>)) = NO_SCAN"
proof -
  have "handler_reach busy_engine new_handler" by (rule start) (simp_all add: new_handler_def MAX_KEY_def)
  moreover have "ha_index_init busy_engine 3 True new_handler = Some (5, new_handler\<lparr>calls := [Index_init 3 True]\<rparr>)"
    by (simp add: ha_index_init_def call_engine_def new_handler_def busy_engine_def)
  ultimately have "handler_reach busy_engine (new_handler\<lparr>calls := [Index_init 3 True]\<rparr>)" by (rule index_init)
  from handler_scans_bracketed [OF this] show ?thesis by (simp add: new_handler_def)
qed

end
