(* ===== verification/ByteOrder.thy ===== *)
theory ByteOrder
  imports Prelude
begin

text \<open>
  The integer and floating point store/load macros of \<open>my_byteorder.h\<close> and the headers it
  selects: the portable ones (\<open>byte_order_generic.h\<close>), the ones optimised for 32-bit and
  64-bit x86, and the machine-order ones of \<open>big_endian.h\<close> and \<open>little_endian.h\<close>. A
  macro that stores is a function from memory to memory, a macro that loads a function of
  memory; a floating point variable is the address of its object representation. Constants
  without a suffix are the portable macros; \<open>_x86_64\<close>, \<open>_x86\<close>, \<open>_be\<close> and \<open>_le\<close> name
  the header of the other variants. Signed results are words read by \<open>sint\<close>.
\<close>

unbundle bit_operations_syntax

section \<open>Unaligned little-endian machine accesses\<close>

text \<open>What \<open>*(uint16 *) p\<close> and its wider relatives do on the x86 targets.\<close>

definition load16 :: "mem \<Rightarrow> nat \<Rightarrow> u16" where
  [byte_simps]: "load16 m p = ucast (m p) OR push_bit 8 (ucast (m (p + 1)))"

definition load32 :: "mem \<Rightarrow> nat \<Rightarrow> u32" where
  [byte_simps]: "load32 m p = ucast (load16 m p) OR push_bit 16 (ucast (load16 m (p + 2)))"

definition load64 :: "mem \<Rightarrow> nat \<Rightarrow> u64" where
  [byte_simps]: "load64 m p = ucast (load32 m p) OR push_bit 32 (ucast (load32 m (p + 4)))"

definition store16 :: "mem \<Rightarrow> nat \<Rightarrow> u16 \<Rightarrow> mem" where
  [byte_simps]: "store16 m p v = m(p := ucast v, p + 1 := ucast (drop_bit 8 v))"

definition store32 :: "mem \<Rightarrow> nat \<Rightarrow> u32 \<Rightarrow> mem" where
  [byte_simps]: "store32 m p v = store16 (store16 m p (ucast v)) (p + 2) (ucast (drop_bit 16 v))"

definition store64 :: "mem \<Rightarrow> nat \<Rightarrow> u64 \<Rightarrow> mem" where
  [byte_simps]: "store64 m p v = store32 (store32 m p (ucast v)) (p + 4) (ucast (drop_bit 32 v))"

text \<open>The \<open>bswapq\<close> instruction: the eight bytes of a register in reverse order.\<close>

definition bswapq :: "u64 \<Rightarrow> u64" where
  [byte_simps]: "bswapq v =
     push_bit 56 (ucast (ucast v :: u8)) OR push_bit 48 (ucast (ucast (drop_bit 8 v) :: u8)) OR
     push_bit 40 (ucast (ucast (drop_bit 16 v) :: u8)) OR push_bit 32 (ucast (ucast (drop_bit 24 v) :: u8)) OR
     push_bit 24 (ucast (ucast (drop_bit 32 v) :: u8)) OR push_bit 16 (ucast (ucast (drop_bit 40 v) :: u8)) OR
     push_bit 8 (ucast (ucast (drop_bit 48 v) :: u8)) OR ucast (ucast (drop_bit 56 v) :: u8)"

text \<open>
  \<open>copy_seq m T S js\<close>: the assignments \<open>T[i] = S[js ! i]\<close> one after the other, as the
  store macros write them. \<open>copy_bytes\<close> reads all its source bytes first, as \<open>memcpy\<close>
  and the macros with a local \<open>def_temp\<close> do.
\<close>

fun copy_seq :: "mem \<Rightarrow> nat \<Rightarrow> nat \<Rightarrow> nat list \<Rightarrow> mem" where
  "copy_seq m T S [] = m"
| "copy_seq m T S (j # js) = copy_seq (m(T := m (S + j))) (Suc T) S js"

text \<open>\<open>copy_bytes m T S js\<close>: byte \<open>T[i]\<close> becomes the old byte \<open>S[js ! i]\<close>.\<close>

definition copy_bytes :: "mem \<Rightarrow> nat \<Rightarrow> nat \<Rightarrow> nat list \<Rightarrow> mem" where
  [byte_simps]: "copy_bytes m T S js = (\<lambda>a. if T \<le> a \<and> a < T + length js then m (S + js ! (a - T)) else m a)"

section \<open>Portable macros\<close>

definition sint2korr :: "mem \<Rightarrow> nat \<Rightarrow> u16" where
  [byte_simps]: "sint2korr m A = (ucast (m A) :: u16) OR push_bit 8 (ucast (m (A + 1)) :: u16)"

definition sint3korr :: "mem \<Rightarrow> nat \<Rightarrow> u32" where
  [byte_simps]: "sint3korr m A =
     (if m (A + 2) AND 128 \<noteq> 0
      then push_bit 24 255 OR push_bit 16 (ucast (m (A + 2)) :: u32) OR push_bit 8 (ucast (m (A + 1)) :: u32) OR (ucast (m A) :: u32)
      else push_bit 16 (ucast (m (A + 2)) :: u32) OR push_bit 8 (ucast (m (A + 1)) :: u32) OR (ucast (m A) :: u32))"

definition sint4korr :: "mem \<Rightarrow> nat \<Rightarrow> u32" where
  [byte_simps]: "sint4korr m A =
     (ucast (m A) :: u32) OR push_bit 8 (ucast (m (A + 1)) :: u32) OR push_bit 16 (ucast (m (A + 2)) :: u32) OR push_bit 24 (ucast (m (A + 3)) :: u32)"

definition uint2korr :: "mem \<Rightarrow> nat \<Rightarrow> u16" where
  [byte_simps]: "uint2korr m A = (ucast (m A) :: u16) OR push_bit 8 (ucast (m (A + 1)) :: u16)"

definition uint3korr :: "mem \<Rightarrow> nat \<Rightarrow> u32" where
  [byte_simps]: "uint3korr m A =
     (ucast (m A) :: u32) OR push_bit 8 (ucast (m (A + 1)) :: u32) OR push_bit 16 (ucast (m (A + 2)) :: u32)"

definition uint4korr :: "mem \<Rightarrow> nat \<Rightarrow> u32" where
  [byte_simps]: "uint4korr m A =
     (ucast (m A) :: u32) OR push_bit 8 (ucast (m (A + 1)) :: u32) OR push_bit 16 (ucast (m (A + 2)) :: u32) OR push_bit 24 (ucast (m (A + 3)) :: u32)"

definition uint5korr :: "mem \<Rightarrow> nat \<Rightarrow> u64" where
  [byte_simps]: "uint5korr m A =
     ucast ((ucast (m A) :: u32) OR push_bit 8 (ucast (m (A + 1)) :: u32) OR push_bit 16 (ucast (m (A + 2)) :: u32) OR push_bit 24 (ucast (m (A + 3)) :: u32)) OR
     push_bit 32 (ucast (m (A + 4)) :: u64)"

definition uint6korr :: "mem \<Rightarrow> nat \<Rightarrow> u64" where
  [byte_simps]: "uint6korr m A =
     ucast ((ucast (m A) :: u32) OR push_bit 8 (ucast (m (A + 1)) :: u32) OR push_bit 16 (ucast (m (A + 2)) :: u32) OR push_bit 24 (ucast (m (A + 3)) :: u32)) OR
     push_bit 32 (ucast (m (A + 4)) :: u64) OR push_bit 40 (ucast (m (A + 5)) :: u64)"

definition uint8korr :: "mem \<Rightarrow> nat \<Rightarrow> u64" where
  [byte_simps]: "uint8korr m A =
     ucast ((ucast (m A) :: u32) OR push_bit 8 (ucast (m (A + 1)) :: u32) OR push_bit 16 (ucast (m (A + 2)) :: u32) OR push_bit 24 (ucast (m (A + 3)) :: u32)) OR
     push_bit 32 (ucast ((ucast (m (A + 4)) :: u32) OR push_bit 8 (ucast (m (A + 5)) :: u32) OR push_bit 16 (ucast (m (A + 6)) :: u32) OR push_bit 24 (ucast (m (A + 7)) :: u32)))"

definition sint8korr :: "mem \<Rightarrow> nat \<Rightarrow> u64" where
  [byte_simps]: "sint8korr m A = uint8korr m A"

definition int2store :: "mem \<Rightarrow> nat \<Rightarrow> u64 \<Rightarrow> mem" where
  [byte_simps]: "int2store m T A =
     (let def_temp = (ucast A :: u32)
      in m(T := ucast def_temp, T + 1 := ucast (drop_bit 8 def_temp)))"

definition int3store :: "mem \<Rightarrow> nat \<Rightarrow> u64 \<Rightarrow> mem" where
  [byte_simps]: "int3store m T A =
     m(T := ucast A, T + 1 := ucast (drop_bit 8 A), T + 2 := ucast (drop_bit 16 A))"

definition int4store :: "mem \<Rightarrow> nat \<Rightarrow> u64 \<Rightarrow> mem" where
  [byte_simps]: "int4store m T A =
     m(T := ucast A, T + 1 := ucast (drop_bit 8 A), T + 2 := ucast (drop_bit 16 A), T + 3 := ucast (drop_bit 24 A))"

definition int5store :: "mem \<Rightarrow> nat \<Rightarrow> u64 \<Rightarrow> mem" where
  [byte_simps]: "int5store m T A =
     m(T := ucast A, T + 1 := ucast (drop_bit 8 A), T + 2 := ucast (drop_bit 16 A), T + 3 := ucast (drop_bit 24 A), T + 4 := ucast (drop_bit 32 A))"

definition int6store :: "mem \<Rightarrow> nat \<Rightarrow> u64 \<Rightarrow> mem" where
  [byte_simps]: "int6store m T A =
     m(T := ucast A, T + 1 := ucast (drop_bit 8 A), T + 2 := ucast (drop_bit 16 A), T + 3 := ucast (drop_bit 24 A), T + 4 := ucast (drop_bit 32 A), T + 5 := ucast (drop_bit 40 A))"

definition int8store :: "mem \<Rightarrow> nat \<Rightarrow> u64 \<Rightarrow> mem" where
  [byte_simps]: "int8store m T A =
     (let def_temp = (ucast A :: u32); def_temp2 = (ucast (drop_bit 32 A) :: u32)
      in int4store (int4store m T (ucast def_temp)) (T + 4) (ucast def_temp2))"

text \<open>Network byte order.\<close>

definition int4net :: "mem \<Rightarrow> nat \<Rightarrow> u32" where
  [byte_simps]: "int4net m A =
     (ucast (m (A + 3)) :: u32) OR push_bit 8 (ucast (m (A + 2)) :: u32) OR push_bit 16 (ucast (m (A + 1)) :: u32) OR push_bit 24 (ucast (m A) :: u32)"

section \<open>64-bit x86\<close>

definition sint2korr_x86_64 :: "mem \<Rightarrow> nat \<Rightarrow> u16" where
  [byte_simps]: "sint2korr_x86_64 m A = load16 m A"

definition sint3korr_x86_64 :: "mem \<Rightarrow> nat \<Rightarrow> u32" where
  [byte_simps]: "sint3korr_x86_64 m A =
     (if m (A + 2) AND 128 \<noteq> 0
      then push_bit 24 255 OR push_bit 16 (ucast (m (A + 2)) :: u32) OR push_bit 8 (ucast (m (A + 1)) :: u32) OR (ucast (m A) :: u32)
      else push_bit 16 (ucast (m (A + 2)) :: u32) OR push_bit 8 (ucast (m (A + 1)) :: u32) OR (ucast (m A) :: u32))"

definition sint4korr_x86_64 :: "mem \<Rightarrow> nat \<Rightarrow> u32" where
  [byte_simps]: "sint4korr_x86_64 m A = load32 m A"

definition uint2korr_x86_64 :: "mem \<Rightarrow> nat \<Rightarrow> u16" where
  [byte_simps]: "uint2korr_x86_64 m A = load16 m A"

definition uint3korr_x86_64 :: "mem \<Rightarrow> nat \<Rightarrow> u32" where
  [byte_simps]: "uint3korr_x86_64 m A =
     (ucast (m A) :: u32) OR push_bit 8 (ucast (m (A + 1)) :: u32) OR push_bit 16 (ucast (m (A + 2)) :: u32)"

definition uint4korr_x86_64 :: "mem \<Rightarrow> nat \<Rightarrow> u32" where
  [byte_simps]: "uint4korr_x86_64 m A = load32 m A"

definition uint5korr_x86_64 :: "mem \<Rightarrow> nat \<Rightarrow> u64" where
  [byte_simps]: "uint5korr_x86_64 m p =
     (let a = ucast (load32 m p); b = ucast (m (4 + p)) in a OR push_bit 32 b)"

definition uint6korr_x86_64 :: "mem \<Rightarrow> nat \<Rightarrow> u64" where
  [byte_simps]: "uint6korr_x86_64 m p =
     (let a = ucast (load32 m p); b = ucast (load16 m (4 + p)) in a OR push_bit 32 b)"

definition uint8korr_x86_64 :: "mem \<Rightarrow> nat \<Rightarrow> u64" where
  [byte_simps]: "uint8korr_x86_64 m A = load64 m A"

definition sint8korr_x86_64 :: "mem \<Rightarrow> nat \<Rightarrow> u64" where
  [byte_simps]: "sint8korr_x86_64 m A = load64 m A"

definition int2store_x86_64 :: "mem \<Rightarrow> nat \<Rightarrow> u64 \<Rightarrow> mem" where
  [byte_simps]: "int2store_x86_64 m T A = store16 m T (ucast A)"

definition int3store_x86_64 :: "mem \<Rightarrow> nat \<Rightarrow> u64 \<Rightarrow> mem" where
  [byte_simps]: "int3store_x86_64 m T A =
     m(T := ucast A, T + 1 := ucast (drop_bit 8 (ucast A :: u32)), T + 2 := ucast (drop_bit 16 A))"

definition int4store_x86_64 :: "mem \<Rightarrow> nat \<Rightarrow> u64 \<Rightarrow> mem" where
  [byte_simps]: "int4store_x86_64 m T A = store32 m T (ucast A)"

definition int5store_x86_64 :: "mem \<Rightarrow> nat \<Rightarrow> u64 \<Rightarrow> mem" where
  [byte_simps]: "int5store_x86_64 m T A =
     (store32 m T (ucast A))(T + 4 := ucast (drop_bit 32 A))"

definition int6store_x86_64 :: "mem \<Rightarrow> nat \<Rightarrow> u64 \<Rightarrow> mem" where
  [byte_simps]: "int6store_x86_64 m T A =
     store16 (store32 m T (ucast A)) (T + 4) (ucast (drop_bit 32 A))"

definition int8store_x86_64 :: "mem \<Rightarrow> nat \<Rightarrow> u64 \<Rightarrow> mem" where
  [byte_simps]: "int8store_x86_64 m T A = store64 m T A"

definition mi_uint5korr_x86_64 :: "mem \<Rightarrow> nat \<Rightarrow> u64" where
  [byte_simps]: "mi_uint5korr_x86_64 m p =
     (let a = ucast (load32 m p); b = ucast (m (4 + p)); v = push_bit 24 (a OR push_bit 32 b)
      in bswapq v)"

definition mi_uint6korr_x86_64 :: "mem \<Rightarrow> nat \<Rightarrow> u64" where
  [byte_simps]: "mi_uint6korr_x86_64 m p =
     (let a = ucast (load32 m p); b = ucast (load16 m (4 + p)); v = push_bit 16 (a OR push_bit 32 b)
      in bswapq v)"

definition mi_uint7korr_x86_64 :: "mem \<Rightarrow> nat \<Rightarrow> u64" where
  [byte_simps]: "mi_uint7korr_x86_64 m p =
     (let a = ucast (load32 m p); b = ucast (load16 m (4 + p)); c = ucast (m (6 + p));
          v = push_bit 8 (a OR push_bit 32 b OR push_bit 48 c)
      in bswapq v)"

definition mi_uint8korr_x86_64 :: "mem \<Rightarrow> nat \<Rightarrow> u64" where
  [byte_simps]: "mi_uint8korr_x86_64 m p = bswapq (load64 m p)"

section \<open>32-bit x86\<close>

text \<open>\<open>long\<close> has 32 bits on these targets.\<close>

definition sint2korr_x86 :: "mem \<Rightarrow> nat \<Rightarrow> u16" where
  [byte_simps]: "sint2korr_x86 m A = load16 m A"

definition sint3korr_x86 :: "mem \<Rightarrow> nat \<Rightarrow> u32" where
  [byte_simps]: "sint3korr_x86 m A =
     (if m (A + 2) AND 128 \<noteq> 0
      then push_bit 24 255 OR push_bit 16 (ucast (m (A + 2)) :: u32) OR push_bit 8 (ucast (m (A + 1)) :: u32) OR (ucast (m A) :: u32)
      else push_bit 16 (ucast (m (A + 2)) :: u32) OR push_bit 8 (ucast (m (A + 1)) :: u32) OR (ucast (m A) :: u32))"

definition sint4korr_x86 :: "mem \<Rightarrow> nat \<Rightarrow> u32" where
  [byte_simps]: "sint4korr_x86 m A = load32 m A"

definition uint2korr_x86 :: "mem \<Rightarrow> nat \<Rightarrow> u16" where
  [byte_simps]: "uint2korr_x86 m A = load16 m A"

definition uint3korr_x86 :: "mem \<Rightarrow> nat \<Rightarrow> u32" where
  [byte_simps]: "uint3korr_x86 m A =
     (ucast (m A) :: u32) OR push_bit 8 (ucast (m (A + 1)) :: u32) OR push_bit 16 (ucast (m (A + 2)) :: u32)"

definition uint4korr_x86 :: "mem \<Rightarrow> nat \<Rightarrow> u32" where
  [byte_simps]: "uint4korr_x86 m A = load32 m A"

definition uint5korr_x86 :: "mem \<Rightarrow> nat \<Rightarrow> u64" where
  [byte_simps]: "uint5korr_x86 m A =
     ucast ((ucast (m A) :: u32) OR push_bit 8 (ucast (m (A + 1)) :: u32) OR push_bit 16 (ucast (m (A + 2)) :: u32) OR push_bit 24 (ucast (m (A + 3)) :: u32)) OR
     push_bit 32 (ucast (m (A + 4)) :: u64)"

definition uint6korr_x86 :: "mem \<Rightarrow> nat \<Rightarrow> u64" where
  [byte_simps]: "uint6korr_x86 m A =
     ucast ((ucast (m A) :: u32) OR push_bit 8 (ucast (m (A + 1)) :: u32) OR push_bit 16 (ucast (m (A + 2)) :: u32) OR push_bit 24 (ucast (m (A + 3)) :: u32)) OR
     push_bit 32 (ucast (m (A + 4)) :: u64) OR push_bit 40 (ucast (m (A + 5)) :: u64)"

definition uint8korr_x86 :: "mem \<Rightarrow> nat \<Rightarrow> u64" where
  [byte_simps]: "uint8korr_x86 m A = load64 m A"

definition sint8korr_x86 :: "mem \<Rightarrow> nat \<Rightarrow> u64" where
  [byte_simps]: "sint8korr_x86 m A = load64 m A"

definition int2store_x86 :: "mem \<Rightarrow> nat \<Rightarrow> u64 \<Rightarrow> mem" where
  [byte_simps]: "int2store_x86 m T A = store16 m T (ucast A)"

definition int3store_x86 :: "mem \<Rightarrow> nat \<Rightarrow> u64 \<Rightarrow> mem" where
  [byte_simps]: "int3store_x86 m T A =
     m(T := ucast A, T + 1 := ucast (drop_bit 8 (ucast A :: u32)), T + 2 := ucast (drop_bit 16 A))"

definition int4store_x86 :: "mem \<Rightarrow> nat \<Rightarrow> u64 \<Rightarrow> mem" where
  [byte_simps]: "int4store_x86 m T A = store32 m T (ucast A)"

definition int5store_x86 :: "mem \<Rightarrow> nat \<Rightarrow> u64 \<Rightarrow> mem" where
  [byte_simps]: "int5store_x86 m T A =
     m(T := ucast A, T + 1 := ucast (drop_bit 8 A), T + 2 := ucast (drop_bit 16 A), T + 3 := ucast (drop_bit 24 A), T + 4 := ucast (drop_bit 32 A))"

definition int6store_x86 :: "mem \<Rightarrow> nat \<Rightarrow> u64 \<Rightarrow> mem" where
  [byte_simps]: "int6store_x86 m T A =
     m(T := ucast A, T + 1 := ucast (drop_bit 8 A), T + 2 := ucast (drop_bit 16 A), T + 3 := ucast (drop_bit 24 A), T + 4 := ucast (drop_bit 32 A), T + 5 := ucast (drop_bit 40 A))"

definition int8store_x86 :: "mem \<Rightarrow> nat \<Rightarrow> u64 \<Rightarrow> mem" where
  [byte_simps]: "int8store_x86 m T A = store64 m T A"

definition doubleget_x86 :: "mem \<Rightarrow> nat \<Rightarrow> nat \<Rightarrow> mem" where
  [byte_simps]: "doubleget_x86 m V M =
     (let lo = load32 m M; hi = load32 m (M + 4) in store32 (store32 m V lo) (V + 4) hi)"

definition doublestore_x86 :: "mem \<Rightarrow> nat \<Rightarrow> nat \<Rightarrow> mem" where
  [byte_simps]: "doublestore_x86 m T V =
     (let m1 = store32 m T (load32 m V) in store32 m1 (T + 4) (load32 m1 (V + 4)))"

definition float4get_x86 :: "mem \<Rightarrow> nat \<Rightarrow> nat \<Rightarrow> mem" where
  [byte_simps]: "float4get_x86 m V M = store32 m V (load32 m M)"

definition float8get_x86 :: "mem \<Rightarrow> nat \<Rightarrow> nat \<Rightarrow> mem" where
  [byte_simps]: "float8get_x86 m V M = doubleget_x86 m V M"

definition float4store_x86 :: "mem \<Rightarrow> nat \<Rightarrow> nat \<Rightarrow> mem" where
  [byte_simps]: "float4store_x86 m V M = copy_bytes m V M [0, 1, 2, 3]"

definition floatstore_x86 :: "mem \<Rightarrow> nat \<Rightarrow> nat \<Rightarrow> mem" where
  [byte_simps]: "floatstore_x86 m T V = copy_bytes m T V [0, 1, 2, 3]"

definition floatget_x86 :: "mem \<Rightarrow> nat \<Rightarrow> nat \<Rightarrow> mem" where
  [byte_simps]: "floatget_x86 m V M = copy_bytes m V M [0, 1, 2, 3]"

definition float8store_x86 :: "mem \<Rightarrow> nat \<Rightarrow> nat \<Rightarrow> mem" where
  [byte_simps]: "float8store_x86 m V M = doublestore_x86 m V M"

section \<open>Machine order, big endian\<close>

definition float4store_be :: "mem \<Rightarrow> nat \<Rightarrow> nat \<Rightarrow> mem" where
  [byte_simps]: "float4store_be m T A = copy_seq m T A [3, 2, 1, 0]"

definition float4get_be :: "mem \<Rightarrow> nat \<Rightarrow> nat \<Rightarrow> mem" where
  [byte_simps]: "float4get_be m V M = copy_bytes m V M [3, 2, 1, 0]"

definition float8store_be :: "mem \<Rightarrow> nat \<Rightarrow> nat \<Rightarrow> mem" where
  [byte_simps]: "float8store_be m T V = copy_seq m T V [7, 6, 5, 4, 3, 2, 1, 0]"

definition float8get_be :: "mem \<Rightarrow> nat \<Rightarrow> nat \<Rightarrow> mem" where
  [byte_simps]: "float8get_be m V M = copy_bytes m V M [7, 6, 5, 4, 3, 2, 1, 0]"

definition ushortget_be :: "mem \<Rightarrow> nat \<Rightarrow> u16" where
  [byte_simps]: "ushortget_be m M = ucast (m (M + 1)) + push_bit 8 (ucast (m M))"

definition shortget_be :: "mem \<Rightarrow> nat \<Rightarrow> u16" where
  [byte_simps]: "shortget_be m M = ucast (m (M + 1)) + push_bit 8 (ucast (m M))"

definition longget_be :: "mem \<Rightarrow> nat \<Rightarrow> nat \<Rightarrow> mem" where
  [byte_simps]: "longget_be m V M = copy_bytes m V M [0, 1, 2, 3]"

definition ulongget_be :: "mem \<Rightarrow> nat \<Rightarrow> nat \<Rightarrow> mem" where
  [byte_simps]: "ulongget_be m V M = copy_bytes m V M [0, 1, 2, 3]"

definition shortstore_be :: "mem \<Rightarrow> nat \<Rightarrow> u64 \<Rightarrow> mem" where
  [byte_simps]: "shortstore_be m T A =
     (let def_temp = (ucast A :: u32)
      in m(T + 1 := ucast def_temp, T := ucast (drop_bit 8 def_temp)))"

definition longstore_be :: "mem \<Rightarrow> nat \<Rightarrow> u64 \<Rightarrow> mem" where
  [byte_simps]: "longstore_be m T A =
     m(T + 3 := ucast A, T + 2 := ucast (drop_bit 8 A), T + 1 := ucast (drop_bit 16 A), T := ucast (drop_bit 24 A))"

definition floatget_be :: "mem \<Rightarrow> nat \<Rightarrow> nat \<Rightarrow> mem" where
  [byte_simps]: "floatget_be m T S = copy_bytes m T S [0, 1, 2, 3]"

definition floatstore_be :: "mem \<Rightarrow> nat \<Rightarrow> nat \<Rightarrow> mem" where
  [byte_simps]: "floatstore_be m T S = copy_bytes m T S [0, 1, 2, 3]"

definition doubleget_be :: "mem \<Rightarrow> nat \<Rightarrow> nat \<Rightarrow> mem" where
  [byte_simps]: "doubleget_be m T S = copy_bytes m T S [0, 1, 2, 3, 4, 5, 6, 7]"

definition doublestore_be :: "mem \<Rightarrow> nat \<Rightarrow> nat \<Rightarrow> mem" where
  [byte_simps]: "doublestore_be m T S = copy_bytes m T S [0, 1, 2, 3, 4, 5, 6, 7]"

definition longlongget_be :: "mem \<Rightarrow> nat \<Rightarrow> nat \<Rightarrow> mem" where
  [byte_simps]: "longlongget_be m T S = copy_bytes m T S [0, 1, 2, 3, 4, 5, 6, 7]"

definition longlongstore_be :: "mem \<Rightarrow> nat \<Rightarrow> nat \<Rightarrow> mem" where
  [byte_simps]: "longlongstore_be m T S = copy_bytes m T S [0, 1, 2, 3, 4, 5, 6, 7]"

section \<open>Machine order, little endian\<close>

text \<open>\<open>_mixed\<close>: the variant for hardware whose floating point words are big endian.\<close>

definition float4get_le :: "mem \<Rightarrow> nat \<Rightarrow> nat \<Rightarrow> mem" where
  [byte_simps]: "float4get_le m V M = copy_bytes m V M [0, 1, 2, 3]"

definition float4store_le :: "mem \<Rightarrow> nat \<Rightarrow> nat \<Rightarrow> mem" where
  [byte_simps]: "float4store_le m V M = copy_bytes m V M [0, 1, 2, 3]"

definition doublestore_mixed :: "mem \<Rightarrow> nat \<Rightarrow> nat \<Rightarrow> mem" where
  [byte_simps]: "doublestore_mixed m T V = copy_seq m T V [4, 5, 6, 7, 0, 1, 2, 3]"

definition doubleget_mixed :: "mem \<Rightarrow> nat \<Rightarrow> nat \<Rightarrow> mem" where
  [byte_simps]: "doubleget_mixed m V M = copy_bytes m V M [4, 5, 6, 7, 0, 1, 2, 3]"

definition doublestore_le :: "mem \<Rightarrow> nat \<Rightarrow> nat \<Rightarrow> mem" where
  [byte_simps]: "doublestore_le m T V = copy_bytes m T V [0, 1, 2, 3, 4, 5, 6, 7]"

definition doubleget_le :: "mem \<Rightarrow> nat \<Rightarrow> nat \<Rightarrow> mem" where
  [byte_simps]: "doubleget_le m V M = copy_bytes m V M [0, 1, 2, 3, 4, 5, 6, 7]"

definition float8get_le :: "mem \<Rightarrow> nat \<Rightarrow> nat \<Rightarrow> mem" where
  [byte_simps]: "float8get_le m V M = doubleget_le m V M"

definition float8store_le :: "mem \<Rightarrow> nat \<Rightarrow> nat \<Rightarrow> mem" where
  [byte_simps]: "float8store_le m V M = doublestore_le m V M"

definition ushortget_le :: "mem \<Rightarrow> nat \<Rightarrow> u16" where
  [byte_simps]: "ushortget_le m M = uint2korr_x86_64 m M"

definition shortget_le :: "mem \<Rightarrow> nat \<Rightarrow> u16" where
  [byte_simps]: "shortget_le m M = sint2korr_x86_64 m M"

definition longget_le :: "mem \<Rightarrow> nat \<Rightarrow> u32" where
  [byte_simps]: "longget_le m M = sint4korr_x86_64 m M"

definition ulongget_le :: "mem \<Rightarrow> nat \<Rightarrow> u32" where
  [byte_simps]: "ulongget_le m M = uint4korr_x86_64 m M"

definition shortstore_le :: "mem \<Rightarrow> nat \<Rightarrow> u64 \<Rightarrow> mem" where
  [byte_simps]: "shortstore_le m T V = int2store_x86_64 m T V"

definition longstore_le :: "mem \<Rightarrow> nat \<Rightarrow> u64 \<Rightarrow> mem" where
  [byte_simps]: "longstore_le m T V = int4store_x86_64 m T V"

definition floatstore_le :: "mem \<Rightarrow> nat \<Rightarrow> nat \<Rightarrow> mem" where
  [byte_simps]: "floatstore_le m T V = copy_bytes m T V [0, 1, 2, 3]"

definition floatget_le :: "mem \<Rightarrow> nat \<Rightarrow> nat \<Rightarrow> mem" where
  [byte_simps]: "floatget_le m V M = copy_bytes m V M [0, 1, 2, 3]"

definition longlongget_le :: "mem \<Rightarrow> nat \<Rightarrow> nat \<Rightarrow> mem" where
  [byte_simps]: "longlongget_le m V M = copy_bytes m V M [0, 1, 2, 3, 4, 5, 6, 7]"

definition longlongstore_le :: "mem \<Rightarrow> nat \<Rightarrow> nat \<Rightarrow> mem" where
  [byte_simps]: "longlongstore_le m T V = copy_bytes m T V [0, 1, 2, 3, 4, 5, 6, 7]"

section \<open>Byte copies\<close>

lemma copy_seq_outside: "a < T \<or> T + length js \<le> a \<Longrightarrow> copy_seq m T S js a = m a"
  by (induction js arbitrary: m T) auto

lemma copy_seq_inside:
  "\<lbrakk>\<forall>j \<in> set js. S + j < T \<or> T + length js \<le> S + j; i < length js\<rbrakk> \<Longrightarrow>
     copy_seq m T S js (T + i) = m (S + js ! i)"
proof (induction js arbitrary: m T i)
  case (Cons j js)
  show ?case
  proof (cases i)
    case 0
    then show ?thesis by (simp add: copy_seq_outside)
  next
    case (Suc k)
    have "copy_seq (m(T := m (S + j))) (Suc T) S js (Suc T + k) = (m(T := m (S + j))) (S + js ! k)"
    proof (rule Cons.IH)
      show "\<forall>j \<in> set js. S + j < Suc T \<or> Suc T + length js \<le> S + j"
        using Cons.prems(1) by fastforce
      show "k < length js" using Cons.prems(2) Suc by simp
    qed
    moreover have "S + js ! k \<noteq> T" using Cons.prems Suc by (auto dest!: bspec [of _ _ "js ! k"])
    ultimately show ?thesis using Suc by simp
  qed
qed simp

lemma copy_bytes_inside: "i < length js \<Longrightarrow> copy_bytes m T S js (T + i) = m (S + js ! i)"
  by (simp add: copy_bytes_def)

text \<open>Storing through \<open>js\<close> and loading through its inverse \<open>ks\<close> moves a value unchanged.\<close>

lemma copy_round_trip:
  assumes "length ks = length js" and "\<forall>i < length js. ks ! i < length js \<and> js ! (ks ! i) = i"
    and "\<forall>j \<in> set js. V + j < T \<or> T + length js \<le> V + j" and "i < length js"
  shows "copy_bytes (copy_seq m T V js) W T ks (W + i) = m (V + i)"
  using assms by (simp add: copy_bytes_inside copy_seq_inside)

section \<open>The contract of a store/load pair\<close>

text \<open>
  What the users of a pair of macros of width \<open>w\<close> rely on: a load returns the low \<open>8 * w\<close>
  bits of the value stored at the same place, a store leaves every other byte alone, and a
  load looks at its own bytes only. Runs of values laid out one after the other then read
  back at their offsets.
\<close>

fun store_all :: "(mem \<Rightarrow> nat \<Rightarrow> u64 \<Rightarrow> mem) \<Rightarrow> nat \<Rightarrow> mem \<Rightarrow> nat \<Rightarrow> u64 list \<Rightarrow> mem" where
  "store_all st w m p [] = m"
| "store_all st w m p (v # vs) = store_all st w (st m p v) (p + w) vs"

locale byte_codec =
  fixes w :: nat
    and st :: "mem \<Rightarrow> nat \<Rightarrow> u64 \<Rightarrow> mem"
    and ld :: "mem \<Rightarrow> nat \<Rightarrow> u64"
  assumes load_store: "ld (st m p v) p = take_bit (8 * w) v"
    and store_frame: "q < p \<or> p + w \<le> q \<Longrightarrow> st m p v q = m q"
    and load_local: "ld m p = ld (\<lambda>a. if p \<le> a \<and> a < p + w then m a else 0) p"
begin

lemma load_cong:
  assumes "\<And>a. p \<le> a \<Longrightarrow> a < p + w \<Longrightarrow> m a = m' a"
  shows "ld m p = ld m' p"
proof -
  have "(\<lambda>a. if p \<le> a \<and> a < p + w then m a else 0) = (\<lambda>a. if p \<le> a \<and> a < p + w then m' a else 0)"
    using assms by auto
  then show ?thesis using load_local [of m p] load_local [of m' p] by simp
qed

lemma load_disjoint: "q + w \<le> p \<or> p + w \<le> q \<Longrightarrow> ld (st m p v) q = ld m q"
  by (rule load_cong) (auto intro: store_frame)

lemma store_all_frame: "q < p \<Longrightarrow> store_all st w m p vs q = m q"
proof (induction vs arbitrary: m p)
  case (Cons v vs)
  then show ?case by (simp add: store_frame)
qed simp

lemma load_store_all_before: "q + w \<le> p \<Longrightarrow> ld (store_all st w m p vs) q = ld m q"
  by (rule load_cong) (simp add: store_all_frame)

lemma load_store_all:
  "i < length vs \<Longrightarrow> ld (store_all st w m p vs) (p + w * i) = take_bit (8 * w) (vs ! i)"
proof (induction vs arbitrary: m p i)
  case (Cons v vs)
  show ?case
  proof (cases i)
    case 0
    then show ?thesis by (simp add: load_store_all_before load_store)
  next
    case (Suc j)
    then show ?thesis using Cons.IH [of j "st m p v" "p + w"] Cons.prems by (simp add: algebra_simps)
  qed
qed simp

end

text \<open>The portable pairs satisfy the contract.\<close>

lemmas byte_proof = byte_simps bit_simps Let_def bit_beyond_byte addr_norm

interpretation le2: byte_codec 2 int2store "\<lambda>m p. ucast (uint2korr m p)"
  by unfold_locales (rule u64_byte_eqI, auto simp: byte_proof)

interpretation le3: byte_codec 3 int3store "\<lambda>m p. ucast (uint3korr m p)"
  by unfold_locales (rule u64_byte_eqI, auto simp: byte_proof)

interpretation le4: byte_codec 4 int4store "\<lambda>m p. ucast (uint4korr m p)"
  by unfold_locales (rule u64_byte_eqI, auto simp: byte_proof)

interpretation le5: byte_codec 5 int5store "uint5korr"
  by unfold_locales (rule u64_byte_eqI, auto simp: byte_proof)

interpretation le6: byte_codec 6 int6store "uint6korr"
  by unfold_locales (rule u64_byte_eqI, auto simp: byte_proof)

interpretation le8: byte_codec 8 int8store "uint8korr"
  by unfold_locales (rule u64_byte_eqI, auto simp: byte_proof)

lemma uint4korr_int4store: "uint4korr (int4store m p (ucast x)) p = x" for x :: u32
  using arg_cong [OF le4.load_store [of m p "ucast x"], of unat] unat_less_exp [of x]
  by (simp add: unat_widen unat_low take_bit_nat_eq_self word_unat_eq_iff)

section \<open>The optimised headers agree with the portable one\<close>

lemma x86_64_loads:
  "sint2korr_x86_64 = sint2korr" "sint3korr_x86_64 = sint3korr" "sint4korr_x86_64 = sint4korr"
  "uint2korr_x86_64 = uint2korr" "uint3korr_x86_64 = uint3korr" "uint4korr_x86_64 = uint4korr"
  "uint5korr_x86_64 = uint5korr" "uint6korr_x86_64 = uint6korr"
  "uint8korr_x86_64 = uint8korr" "sint8korr_x86_64 = sint8korr"
  by (intro ext byte_eqIs; auto simp: byte_proof)+

lemma x86_loads:
  "sint2korr_x86 = sint2korr" "sint3korr_x86 = sint3korr" "sint4korr_x86 = sint4korr"
  "uint2korr_x86 = uint2korr" "uint3korr_x86 = uint3korr" "uint4korr_x86 = uint4korr"
  "uint5korr_x86 = uint5korr" "uint6korr_x86 = uint6korr"
  "uint8korr_x86 = uint8korr" "sint8korr_x86 = sint8korr"
  by (intro ext byte_eqIs; auto simp: byte_proof)+

lemma x86_64_stores:
  "int2store_x86_64 = int2store" "int3store_x86_64 = int3store" "int4store_x86_64 = int4store"
  "int5store_x86_64 = int5store" "int6store_x86_64 = int6store" "int8store_x86_64 = int8store"
  by (intro ext bit_word_eqI; auto simp: byte_proof)+

lemma x86_stores:
  "int2store_x86 = int2store" "int3store_x86 = int3store" "int4store_x86 = int4store"
  "int5store_x86 = int5store" "int6store_x86 = int6store" "int8store_x86 = int8store"
  by (intro ext bit_word_eqI; auto simp: byte_proof)+

section \<open>Signed values\<close>

lemma bit_top_byte: "bit (0xFF000000 :: int) n \<longleftrightarrow> 24 \<le> n \<and> n < 32"
proof -
  have e: "(0xFF000000 :: int) = push_bit 24 (mask 8)" by (simp add: mask_eq_exp_minus_1)
  show ?thesis unfolding e by (auto simp: bit_simps bit_mask_iff)
qed

lemma byte_top_index: "7 \<le> i \<Longrightarrow> i < 8 \<Longrightarrow> i = (7::nat)"
  by simp

lemma sint3korr_sign_extends: "sint3korr m A = signed_take_bit 23 (uint3korr m A)"
proof -
  have "m (A + 2) AND 128 \<noteq> 0 \<longleftrightarrow> bit (m (A + 2)) 7"
    by (simp add: and_exp_eq_0_iff_not_bit [of _ 7, simplified])
  then show ?thesis
    by (intro u32_byte_eqI) (auto simp: byte_proof min_def bit_top_byte dest: byte_top_index)
qed

section \<open>Properties\<close>

text \<open>
  Every optimised load and store macro of the 64-bit and the 32-bit x86 headers
  computes the same function of memory as its portable counterpart, so data written by one
  build of the library reads the same in another.
\<close>

theorem x86_macros_match_portable:
  "(sint2korr_x86_64, sint3korr_x86_64, sint4korr_x86_64, sint8korr_x86_64) =
     (sint2korr, sint3korr, sint4korr, sint8korr) \<and>
   (uint2korr_x86_64, uint3korr_x86_64, uint4korr_x86_64, uint5korr_x86_64, uint6korr_x86_64,
     uint8korr_x86_64) = (uint2korr, uint3korr, uint4korr, uint5korr, uint6korr, uint8korr) \<and>
   (int2store_x86_64, int3store_x86_64, int4store_x86_64, int5store_x86_64, int6store_x86_64,
     int8store_x86_64) = (int2store, int3store, int4store, int5store, int6store, int8store) \<and>
   (sint2korr_x86, sint3korr_x86, sint4korr_x86, sint8korr_x86) =
     (sint2korr, sint3korr, sint4korr, sint8korr) \<and>
   (uint2korr_x86, uint3korr_x86, uint4korr_x86, uint5korr_x86, uint6korr_x86,
     uint8korr_x86) = (uint2korr, uint3korr, uint4korr, uint5korr, uint6korr, uint8korr) \<and>
   (int2store_x86, int3store_x86, int4store_x86, int5store_x86, int6store_x86,
     int8store_x86) = (int2store, int3store, int4store, int5store, int6store, int8store)"
  by (simp only: x86_64_loads x86_64_stores x86_loads x86_stores)

text \<open>
  A run of values stored one after the other with \<open>int3store\<close> reads back, value
  by value, with \<open>uint3korr\<close>: each load returns the low 24 bits of the value stored there,
  whatever was in memory, and nothing below the run changes.
\<close>

theorem int3store_run_reads_back:
  assumes "i < length vs"
  shows "ucast (uint3korr (store_all int3store 3 m p vs) (p + 3 * i)) = take_bit 24 (vs ! i) \<and>
    (\<forall>q < p. store_all int3store 3 m p vs q = m q)"
  using le3.load_store_all [OF assms, of m p] le3.store_all_frame [of _ p m vs] by simp

theorem int3store_run_reads_back_witness:
  "ucast (uint3korr (store_all int3store 3 (\<lambda>_. 0) 10 [0x1234567, 5]) (10 + 3 * 0)) =
     take_bit 24 ([0x1234567, 5] ! 0 :: u64)"
  using int3store_run_reads_back [of 0 "[0x1234567, 5]" "\<lambda>_. 0" 10] by simp

text \<open>
  \<open>sint3korr\<close> is the two's complement reading of three stored bytes: it inverts
  \<open>int3store\<close> on every value that fits in 24 signed bits.
\<close>

theorem sint3korr_int3store:
  assumes "- (2 ^ 23) \<le> k" and "k < 2 ^ 23"
  shows "sint (sint3korr (int3store m p (word_of_int k)) p) = k"
proof -
  have "uint3korr (int3store m p (word_of_int k)) p = take_bit 24 (word_of_int k)"
    by (rule u32_byte_eqI) (auto simp: byte_proof)
  then have "sint3korr (int3store m p (word_of_int k)) p = signed_take_bit 23 (word_of_int k)"
    by (simp add: sint3korr_sign_extends signed_take_bit_take_bit)
  also have "sint \<dots> = signed_take_bit 23 k"
    by (rule bit_eqI) (auto simp: bit_simps min_def)
  also have "\<dots> = k" using assms by (simp add: signed_take_bit_int_eq_self)
  finally show ?thesis .
qed

theorem sint3korr_int3store_witness:
  "(- (2 ^ 23) :: int) \<le> -2 \<and> (-2 :: int) < 2 ^ 23 \<and>
     sint (sint3korr (int3store (\<lambda>_. 7) 0 (word_of_int (-2))) 0) = -2"
  using sint3korr_int3store [of "-2" "\<lambda>_. 7" 0] by simp

end
