(* ===== verification/MyisamPack.thy ===== *)
theory MyisamPack
  imports ByteOrder
begin

text \<open>
  The high-byte-first store/load macros of \<open>myisampack.h\<close>, used for index keys and file
  pointers. \<open>ulong\<close> temporaries are modelled with the 32 bits they have on the Windows
  builds of the distribution; the macros only use their low 32 bits, so wider temporaries
  store the same bytes. Floating point variables are the addresses of their object
  representations. \<open>_be\<close> marks the \<open>WORDS_BIGENDIAN\<close> variants and \<open>_mixed\<close> those for
  big-endian floating point words on a little-endian machine; \<open>_big\<close> and \<open>_small\<close> are the
  variants selected by \<open>BIG_TABLES\<close> and \<open>SIZEOF_OFF_T\<close>.
\<close>

unbundle bit_operations_syntax

section \<open>Loads\<close>

definition mi_sint1korr :: "mem \<Rightarrow> nat \<Rightarrow> u8" where
  [byte_simps]: "mi_sint1korr m A = m A"

definition mi_uint1korr :: "mem \<Rightarrow> nat \<Rightarrow> u8" where
  [byte_simps]: "mi_uint1korr m A = m A"

definition mi_sint2korr :: "mem \<Rightarrow> nat \<Rightarrow> u16" where
  [byte_simps]: "mi_sint2korr m A = (ucast (m (A + 1)) :: u16) OR push_bit 8 (ucast (m A) :: u16)"

definition mi_sint3korr :: "mem \<Rightarrow> nat \<Rightarrow> u32" where
  [byte_simps]: "mi_sint3korr m A =
     (if m A AND 128 \<noteq> 0
      then push_bit 24 255 OR push_bit 16 (ucast (m A) :: u32) OR push_bit 8 (ucast (m (A + 1)) :: u32) OR (ucast (m (A + 2)) :: u32)
      else push_bit 16 (ucast (m A) :: u32) OR push_bit 8 (ucast (m (A + 1)) :: u32) OR (ucast (m (A + 2)) :: u32))"

definition mi_sint4korr :: "mem \<Rightarrow> nat \<Rightarrow> u32" where
  [byte_simps]: "mi_sint4korr m A =
     (ucast (m (A + 3)) :: u32) OR push_bit 8 (ucast (m (A + 2)) :: u32) OR push_bit 16 (ucast (m (A + 1)) :: u32) OR push_bit 24 (ucast (m A) :: u32)"

definition mi_uint2korr :: "mem \<Rightarrow> nat \<Rightarrow> u16" where
  [byte_simps]: "mi_uint2korr m A = (ucast (m (A + 1)) :: u16) OR push_bit 8 (ucast (m A) :: u16)"

definition mi_uint3korr :: "mem \<Rightarrow> nat \<Rightarrow> u32" where
  [byte_simps]: "mi_uint3korr m A =
     (ucast (m (A + 2)) :: u32) OR push_bit 8 (ucast (m (A + 1)) :: u32) OR push_bit 16 (ucast (m A) :: u32)"

definition mi_uint4korr :: "mem \<Rightarrow> nat \<Rightarrow> u32" where
  [byte_simps]: "mi_uint4korr m A =
     (ucast (m (A + 3)) :: u32) OR push_bit 8 (ucast (m (A + 2)) :: u32) OR push_bit 16 (ucast (m (A + 1)) :: u32) OR push_bit 24 (ucast (m A) :: u32)"

definition mi_uint5korr :: "mem \<Rightarrow> nat \<Rightarrow> u64" where
  [byte_simps]: "mi_uint5korr m A =
     ucast ((ucast (m (A + 4)) :: u32) OR push_bit 8 (ucast (m (A + 3)) :: u32) OR push_bit 16 (ucast (m (A + 2)) :: u32) OR push_bit 24 (ucast (m (A + 1)) :: u32)) OR
     push_bit 32 (ucast (m A) :: u64)"

definition mi_uint6korr :: "mem \<Rightarrow> nat \<Rightarrow> u64" where
  [byte_simps]: "mi_uint6korr m A =
     ucast ((ucast (m (A + 5)) :: u32) OR push_bit 8 (ucast (m (A + 4)) :: u32) OR push_bit 16 (ucast (m (A + 3)) :: u32) OR push_bit 24 (ucast (m (A + 2)) :: u32)) OR
     push_bit 32 (ucast ((ucast (m (A + 1)) :: u32) OR push_bit 8 (ucast (m A) :: u32)))"

definition mi_uint7korr :: "mem \<Rightarrow> nat \<Rightarrow> u64" where
  [byte_simps]: "mi_uint7korr m A =
     ucast ((ucast (m (A + 6)) :: u32) OR push_bit 8 (ucast (m (A + 5)) :: u32) OR push_bit 16 (ucast (m (A + 4)) :: u32) OR push_bit 24 (ucast (m (A + 3)) :: u32)) OR
     push_bit 32 (ucast ((ucast (m (A + 2)) :: u32) OR push_bit 8 (ucast (m (A + 1)) :: u32) OR push_bit 16 (ucast (m A) :: u32)))"

definition mi_uint8korr :: "mem \<Rightarrow> nat \<Rightarrow> u64" where
  [byte_simps]: "mi_uint8korr m A =
     ucast ((ucast (m (A + 7)) :: u32) OR push_bit 8 (ucast (m (A + 6)) :: u32) OR push_bit 16 (ucast (m (A + 5)) :: u32) OR push_bit 24 (ucast (m (A + 4)) :: u32)) OR
     push_bit 32 (ucast ((ucast (m (A + 3)) :: u32) OR push_bit 8 (ucast (m (A + 2)) :: u32) OR push_bit 16 (ucast (m (A + 1)) :: u32) OR push_bit 24 (ucast (m A) :: u32)))"

definition mi_sint8korr :: "mem \<Rightarrow> nat \<Rightarrow> u64" where
  [byte_simps]: "mi_sint8korr m A = mi_uint8korr m A"

section \<open>Stores\<close>

definition mi_int1store :: "mem \<Rightarrow> nat \<Rightarrow> u64 \<Rightarrow> mem" where
  [byte_simps]: "mi_int1store m T A = m(T := ucast A)"

definition mi_int2store :: "mem \<Rightarrow> nat \<Rightarrow> u64 \<Rightarrow> mem" where
  [byte_simps]: "mi_int2store m T A =
     (let def_temp = (ucast A :: u32)
      in m(T + 1 := ucast def_temp, T := ucast (drop_bit 8 def_temp)))"

definition mi_int3store :: "mem \<Rightarrow> nat \<Rightarrow> u64 \<Rightarrow> mem" where
  [byte_simps]: "mi_int3store m T A =
     (let def_temp = (ucast A :: u32)
      in m(T + 2 := ucast def_temp, T + 1 := ucast (drop_bit 8 def_temp), T := ucast (drop_bit 16 def_temp)))"

definition mi_int4store :: "mem \<Rightarrow> nat \<Rightarrow> u64 \<Rightarrow> mem" where
  [byte_simps]: "mi_int4store m T A =
     (let def_temp = (ucast A :: u32)
      in m(T + 3 := ucast def_temp, T + 2 := ucast (drop_bit 8 def_temp), T + 1 := ucast (drop_bit 16 def_temp), T := ucast (drop_bit 24 def_temp)))"

definition mi_int5store :: "mem \<Rightarrow> nat \<Rightarrow> u64 \<Rightarrow> mem" where
  [byte_simps]: "mi_int5store m T A =
     (let def_temp = (ucast A :: u32); def_temp2 = (ucast (drop_bit 32 A) :: u32)
      in m(T + 4 := ucast def_temp, T + 3 := ucast (drop_bit 8 def_temp), T + 2 := ucast (drop_bit 16 def_temp), T + 1 := ucast (drop_bit 24 def_temp), T := ucast def_temp2))"

definition mi_int6store :: "mem \<Rightarrow> nat \<Rightarrow> u64 \<Rightarrow> mem" where
  [byte_simps]: "mi_int6store m T A =
     (let def_temp = (ucast A :: u32); def_temp2 = (ucast (drop_bit 32 A) :: u32)
      in m(T + 5 := ucast def_temp, T + 4 := ucast (drop_bit 8 def_temp), T + 3 := ucast (drop_bit 16 def_temp), T + 2 := ucast (drop_bit 24 def_temp), T + 1 := ucast def_temp2, T := ucast (drop_bit 8 def_temp2)))"

definition mi_int7store :: "mem \<Rightarrow> nat \<Rightarrow> u64 \<Rightarrow> mem" where
  [byte_simps]: "mi_int7store m T A =
     (let def_temp = (ucast A :: u32); def_temp2 = (ucast (drop_bit 32 A) :: u32)
      in m(T + 6 := ucast def_temp, T + 5 := ucast (drop_bit 8 def_temp), T + 4 := ucast (drop_bit 16 def_temp), T + 3 := ucast (drop_bit 24 def_temp), T + 2 := ucast def_temp2, T + 1 := ucast (drop_bit 8 def_temp2), T := ucast (drop_bit 16 def_temp2)))"

definition mi_int8store :: "mem \<Rightarrow> nat \<Rightarrow> u64 \<Rightarrow> mem" where
  [byte_simps]: "mi_int8store m T A =
     (let def_temp3 = (ucast A :: u32); def_temp4 = (ucast (drop_bit 32 A) :: u32)
      in mi_int4store (mi_int4store m T (ucast def_temp4)) (T + 4) (ucast def_temp3))"

section \<open>Floating point\<close>

definition mi_float4store_be :: "mem \<Rightarrow> nat \<Rightarrow> nat \<Rightarrow> mem" where
  [byte_simps]: "mi_float4store_be m T A = copy_seq m T A [0, 1, 2, 3]"

definition mi_float4get_be :: "mem \<Rightarrow> nat \<Rightarrow> nat \<Rightarrow> mem" where
  [byte_simps]: "mi_float4get_be m V M = copy_bytes m V M [0, 1, 2, 3]"

definition mi_float8store_be :: "mem \<Rightarrow> nat \<Rightarrow> nat \<Rightarrow> mem" where
  [byte_simps]: "mi_float8store_be m T V = copy_seq m T V [0, 1, 2, 3, 4, 5, 6, 7]"

definition mi_float8get_be :: "mem \<Rightarrow> nat \<Rightarrow> nat \<Rightarrow> mem" where
  [byte_simps]: "mi_float8get_be m V M = copy_bytes m V M [0, 1, 2, 3, 4, 5, 6, 7]"

definition mi_float4store :: "mem \<Rightarrow> nat \<Rightarrow> nat \<Rightarrow> mem" where
  [byte_simps]: "mi_float4store m T A = copy_seq m T A [3, 2, 1, 0]"

definition mi_float4get :: "mem \<Rightarrow> nat \<Rightarrow> nat \<Rightarrow> mem" where
  [byte_simps]: "mi_float4get m V M = copy_bytes m V M [3, 2, 1, 0]"

definition mi_float8store_mixed :: "mem \<Rightarrow> nat \<Rightarrow> nat \<Rightarrow> mem" where
  [byte_simps]: "mi_float8store_mixed m T V = copy_seq m T V [3, 2, 1, 0, 7, 6, 5, 4]"

definition mi_float8get_mixed :: "mem \<Rightarrow> nat \<Rightarrow> nat \<Rightarrow> mem" where
  [byte_simps]: "mi_float8get_mixed m V M = copy_bytes m V M [3, 2, 1, 0, 7, 6, 5, 4]"

definition mi_float8store :: "mem \<Rightarrow> nat \<Rightarrow> nat \<Rightarrow> mem" where
  [byte_simps]: "mi_float8store m T V = copy_seq m T V [7, 6, 5, 4, 3, 2, 1, 0]"

definition mi_float8get :: "mem \<Rightarrow> nat \<Rightarrow> nat \<Rightarrow> mem" where
  [byte_simps]: "mi_float8get m V M = copy_bytes m V M [7, 6, 5, 4, 3, 2, 1, 0]"

section \<open>Row numbers and file offsets\<close>

definition HA_OFFSET_ERROR :: u64 where
  "HA_OFFSET_ERROR = NOT 0"

definition mi_rowstore_big :: "mem \<Rightarrow> nat \<Rightarrow> u64 \<Rightarrow> mem" where
  [byte_simps]: "mi_rowstore_big m T A = mi_int8store m T A"

definition mi_rowkorr_big :: "mem \<Rightarrow> nat \<Rightarrow> u64" where
  [byte_simps]: "mi_rowkorr_big m T = mi_uint8korr m T"

definition mi_rowstore_small :: "mem \<Rightarrow> nat \<Rightarrow> u64 \<Rightarrow> mem" where
  [byte_simps]: "mi_rowstore_small m T A = mi_int4store (mi_int4store m T 0) (T + 4) A"

definition mi_rowkorr_small :: "mem \<Rightarrow> nat \<Rightarrow> u32" where
  [byte_simps]: "mi_rowkorr_small m T = mi_uint4korr m (T + 4)"

definition mi_sizestore_big :: "mem \<Rightarrow> nat \<Rightarrow> u64 \<Rightarrow> mem" where
  [byte_simps]: "mi_sizestore_big m T A = mi_int8store m T A"

definition mi_sizekorr_big :: "mem \<Rightarrow> nat \<Rightarrow> u64" where
  [byte_simps]: "mi_sizekorr_big m T = mi_uint8korr m T"

definition mi_sizestore_small :: "mem \<Rightarrow> nat \<Rightarrow> u64 \<Rightarrow> mem" where
  [byte_simps]: "mi_sizestore_small m T A =
     (if A = HA_OFFSET_ERROR then (\<lambda>a. if T \<le> a \<and> a < T + 8 then 255 else m a)
      else mi_int4store (mi_int4store m T 0) (T + 4) A)"

definition mi_sizekorr_small :: "mem \<Rightarrow> nat \<Rightarrow> u32" where
  [byte_simps]: "mi_sizekorr_small m T = mi_uint4korr m (T + 4)"

section \<open>The contract of store/load pairs\<close>

lemmas mi_proof = byte_simps bit_simps Let_def bit_beyond_byte addr_norm

interpretation be1: byte_codec 1 mi_int1store "\<lambda>m p. ucast (mi_uint1korr m p)"
  by unfold_locales (rule u64_byte_eqI, auto simp: mi_proof)

interpretation be2: byte_codec 2 mi_int2store "\<lambda>m p. ucast (mi_uint2korr m p)"
  by unfold_locales (rule u64_byte_eqI, auto simp: mi_proof)

interpretation be3: byte_codec 3 mi_int3store "\<lambda>m p. ucast (mi_uint3korr m p)"
  by unfold_locales (rule u64_byte_eqI, auto simp: mi_proof)

interpretation be4: byte_codec 4 mi_int4store "\<lambda>m p. ucast (mi_uint4korr m p)"
  by unfold_locales (rule u64_byte_eqI, auto simp: mi_proof)

interpretation be5: byte_codec 5 mi_int5store "mi_uint5korr"
  by unfold_locales (rule u64_byte_eqI, auto simp: mi_proof)

interpretation be6: byte_codec 6 mi_int6store "mi_uint6korr"
  by unfold_locales (rule u64_byte_eqI, auto simp: mi_proof)

interpretation be7: byte_codec 7 mi_int7store "mi_uint7korr"
  by unfold_locales (rule u64_byte_eqI, auto simp: mi_proof)

interpretation be8: byte_codec 8 mi_int8store "mi_uint8korr"
  by unfold_locales (rule u64_byte_eqI, auto simp: mi_proof)

lemma x86_64_mi_loads:
  "mi_uint5korr_x86_64 = mi_uint5korr" "mi_uint6korr_x86_64 = mi_uint6korr"
  "mi_uint7korr_x86_64 = mi_uint7korr" "mi_uint8korr_x86_64 = mi_uint8korr"
  by (intro ext u64_byte_eqI; auto simp: mi_proof)+

section \<open>High byte first is the order of \<open>memcmp\<close>\<close>

fun memcmp :: "u8 list \<Rightarrow> u8 list \<Rightarrow> int" where
  "memcmp (x # xs) (y # ys) = (if x = y then memcmp xs ys else if x < y then -1 else 1)"
| "memcmp _ _ = 0"

fun be_bytes :: "nat \<Rightarrow> nat \<Rightarrow> u8 list" where
  "be_bytes 0 x = []"
| "be_bytes (Suc n) x = be_bytes n (x div 256) @ [word_of_nat x]"

definition be_val :: "u8 list \<Rightarrow> nat" where
  "be_val bs = foldl (\<lambda>a b. 256 * a + unat b) 0 bs"

lemma be_val_snoc: "be_val (bs @ [b]) = 256 * be_val bs + unat b"
  by (simp add: be_val_def)

lemma be_val_Cons: "be_val (b # bs) = unat b * 256 ^ length bs + be_val bs"
  by (induction bs rule: rev_induct) (simp_all add: be_val_def algebra_simps)

lemma be_val_less: "be_val bs < 256 ^ length bs"
proof (induction bs)
  case (Cons b bs)
  have "unat b + 1 \<le> 256" using unat_less_exp [of b] by simp
  have "be_val (b # bs) < unat b * 256 ^ length bs + 256 ^ length bs" using Cons by (simp add: be_val_Cons)
  also have "\<dots> = (unat b + 1) * 256 ^ length bs" by simp
  also have "\<dots> \<le> 256 * 256 ^ length bs" using \<open>unat b + 1 \<le> 256\<close> by (rule mult_right_mono) simp
  finally show ?case by simp
qed (simp add: be_val_def)

lemma be_val_be_bytes: "be_val (be_bytes n x) = x mod 256 ^ n"
proof (induction n arbitrary: x)
  case (Suc n)
  then show ?case
    by (simp add: be_val_snoc unat_of_nat take_bit_eq_mod mod_mult2_eq [of x 256] add.commute)
qed (simp add: be_val_def)

lemma length_be_bytes [simp]: "length (be_bytes n x) = n"
  by (induction n arbitrary: x) simp_all

lemma memcmp_be_val:
  "length xs = length ys \<Longrightarrow>
     (memcmp xs ys < 0 \<longleftrightarrow> be_val xs < be_val ys) \<and> (memcmp xs ys = 0 \<longleftrightarrow> be_val xs = be_val ys)"
proof (induction xs ys rule: list_induct2)
  case (Cons x xs y ys)
  have lt: "unat a < unat b \<Longrightarrow> be_val (a # us) < be_val (b # vs)" if "length us = length vs" for a b us vs
  proof -
    assume "unat a < unat b"
    then have "(unat a + 1) * 256 ^ length us \<le> unat b * 256 ^ length us" by (intro mult_right_mono) auto
    then show ?thesis using be_val_less [of us] that by (simp add: be_val_Cons algebra_simps)
  qed
  show ?case
  proof (cases "x = y")
    case True
    then show ?thesis using Cons by (simp add: be_val_Cons)
  next
    case False
    then have "x < y \<or> y < x" by (simp add: neq_iff)
    then show ?thesis
      using lt [of xs ys x y] lt [of ys xs y x] Cons.hyps False by (auto simp: word_less_nat_alt)
  qed
qed simp

lemma be_bytes_numeral:
  "be_bytes (numeral k) x = be_bytes (pred_numeral k) (x div 256) @ [word_of_nat x]"
  by (simp only: numeral_eq_Suc [of k] be_bytes.simps)

lemma upt_8: "[0..<8] = [0, 1, 2, 3, 4, 5, 6, 7]"
  by code_simp

lemma byte_of_nat: "word_of_nat (unat a div 2 ^ k) = (ucast (drop_bit k (a :: u64)) :: u8)"
  by (rule bit_word_eqI) (auto simp: bit_simps drop_bit_eq_div [symmetric])

lemma be_bytes_unat:
  "be_bytes 8 (unat (a :: u64)) =
     [ucast (drop_bit 56 a), ucast (drop_bit 48 a), ucast (drop_bit 40 a), ucast (drop_bit 32 a),
      ucast (drop_bit 24 a), ucast (drop_bit 16 a), ucast (drop_bit 8 a), ucast a]"
  using byte_of_nat [of a 0] byte_of_nat [of a 8] byte_of_nat [of a 16] byte_of_nat [of a 24]
    byte_of_nat [of a 32] byte_of_nat [of a 40] byte_of_nat [of a 48] byte_of_nat [of a 56]
  by (simp add: be_bytes_numeral div_mult2_eq [symmetric])

lemma mi_int8store_bytes: "bytes_at (mi_int8store m p a) p 8 = be_bytes 8 (unat a)"
proof -
  have c: "(ucast (drop_bit k (ucast (ucast (drop_bit l a) :: u32) :: u64)) :: u8) =
      ucast (drop_bit (k + l) a)" if "k \<le> 24" for k l
    using that by (intro bit_word_eqI) (auto simp: bit_simps ac_simps)
  show ?thesis unfolding be_bytes_unat
    by (auto simp: bytes_at_upt upt_8 mi_int8store_def mi_int4store_def Let_def intro!: bit_word_eqI)
       (auto simp: bit_simps)
qed

lemma float8_orders:
  "length [7, 6, 5, 4, 3, 2, 1, 0 :: nat] = 8" "length [3, 2, 1, 0, 7, 6, 5, 4 :: nat] = 8"
  "\<forall>i \<in> {0..<8}. [7, 6, 5, 4, 3, 2, 1, 0] ! i < (8::nat) \<and> [7, 6, 5, 4, 3, 2, 1, 0] ! ([7, 6, 5, 4, 3, 2, 1, 0] ! i) = i"
  "\<forall>i \<in> {0..<8}. [3, 2, 1, 0, 7, 6, 5, 4] ! i < (8::nat) \<and> [3, 2, 1, 0, 7, 6, 5, 4] ! ([3, 2, 1, 0, 7, 6, 5, 4] ! i) = i"
  "\<forall>j \<in> set [7, 6, 5, 4, 3, 2, 1, 0]. j < (8::nat)" "\<forall>j \<in> set [3, 2, 1, 0, 7, 6, 5, 4]. j < (8::nat)"
  by code_simp+

section \<open>Properties\<close>

text \<open>
  Two row pointers stored with \<open>mi_int8store\<close> compare under a byte-wise
  \<open>memcmp\<close> exactly as the 64-bit unsigned numbers compare, which is what the key format
  relies on.
\<close>

theorem mi_int8store_memcmp_order:
  "(memcmp (bytes_at (mi_int8store m p a) p 8) (bytes_at (mi_int8store m' q b) q 8) < 0 \<longleftrightarrow> a < b) \<and>
   (memcmp (bytes_at (mi_int8store m p a) p 8) (bytes_at (mi_int8store m' q b) q 8) = 0 \<longleftrightarrow> a = b)"
proof -
  have "be_val (be_bytes 8 (unat x)) = unat x" for x :: u64
    using unat_less_exp [of x] by (simp add: be_val_be_bytes)
  then show ?thesis
    using memcmp_be_val [of "be_bytes 8 (unat a)" "be_bytes 8 (unat b)"]
    by (simp add: mi_int8store_bytes word_less_nat_alt word_unat_eq_iff)
qed

text \<open>
  The inline functions of the 64-bit x86 header that read 5 to 8 bytes with a
  byte swap return what the portable \<open>mi_uintNkorr\<close> macros return; in particular the 8-byte
  reader, whose guard macro is misspelt so that both definitions are in scope.
\<close>

theorem mi_korr_x86_64_match_portable:
  "mi_uint5korr_x86_64 m p = mi_uint5korr m p \<and> mi_uint6korr_x86_64 m p = mi_uint6korr m p \<and>
   mi_uint7korr_x86_64 m p = mi_uint7korr m p \<and> mi_uint8korr_x86_64 m p = mi_uint8korr m p"
  by (simp only: x86_64_mi_loads)

text \<open>
  A double stored with \<open>mi_float8store\<close> into a key and read back with
  \<open>mi_float8get\<close> has the object representation it had before, byte for byte, when the key
  does not overlap the variable; the same holds for the mixed-order pair.
\<close>

theorem mi_float8_round_trip:
  assumes "V + 8 \<le> T \<or> T + 8 \<le> V" and "i < 8"
  shows "mi_float8get (mi_float8store m T V) W T (W + i) = m (V + i) \<and>
    mi_float8get_mixed (mi_float8store_mixed m T V) W T (W + i) = m (V + i)"
proof -
  have "copy_bytes (copy_seq m T V js) W T js (W + i) = m (V + i)"
    if "length js = 8" and "\<forall>i \<in> {0..<8}. js ! i < 8 \<and> js ! (js ! i) = i" and "\<forall>j \<in> set js. j < 8" for js
    using assms that by (intro copy_round_trip) fastforce+
  moreover note float8_orders
  ultimately show ?thesis
    unfolding mi_float8get_def mi_float8store_def mi_float8get_mixed_def mi_float8store_mixed_def
    by metis
qed

theorem mi_float8_round_trip_witness:
  "mi_float8get (mi_float8store (\<lambda>a. word_of_nat a) 100 0) 50 100 (50 + 3) = (word_of_nat (0 + 3) :: u8)"
  using mi_float8_round_trip [of 0 100 3 "\<lambda>a. word_of_nat a" 50] by simp

end
