(* ===== verification/FieldCodec.thy ===== *)
theory FieldCodec
  imports MyisamPack "HOL-Library.Signed_Division"
begin

text \<open>
  Integers of up to eight bytes in a record: the store and load functions of \<open>field.h\<close> with either
  byte order, the number of bytes a number needs, and the packing of integer columns. A width the
  functions have no case for fails their assertion, the value \<open>None\<close>. The contract of each
  width is the locale \<open>byte_codec\<close>, interpreted in \<open>ByteOrder\<close> and \<open>MyisamPack\<close>.
\<close>

section \<open>Storing and loading\<close>

definition number_storage_requirement :: "u32 \<Rightarrow> nat" where
  "number_storage_requirement n = (if n < 256 then 1 else if n < 65536 then 2 else if n < 16777216 then 3 else 4)"

definition get_enum_pack_length :: "int \<Rightarrow> nat" where
  "get_enum_pack_length elements = (if elements < 256 then 1 else 2)"

definition get_set_pack_length :: "int \<Rightarrow> u32" where
  "get_set_pack_length elements = (let len = word_of_int ((elements + 7) sdiv 8) in if len > 4 then 8 else len)"

definition store_bigendian :: "u64 \<Rightarrow> mem \<Rightarrow> nat \<Rightarrow> nat \<Rightarrow> mem option" where
  "store_bigendian num m to bytes =
     (if bytes = 1 then Some (mi_int1store m to num)
      else if bytes = 2 then Some (mi_int2store m to num)
      else if bytes = 3 then Some (mi_int3store m to num)
      else if bytes = 4 then Some (mi_int4store m to num)
      else if bytes = 5 then Some (mi_int5store m to num)
      else if bytes = 6 then Some (mi_int6store m to num)
      else if bytes = 7 then Some (mi_int7store m to num)
      else if bytes = 8 then Some (mi_int8store m to num)
      else None)"

definition read_bigendian :: "mem \<Rightarrow> nat \<Rightarrow> nat \<Rightarrow> u64 option" where
  "read_bigendian m from bytes =
     (if bytes = 1 then Some (ucast (mi_uint1korr m from))
      else if bytes = 2 then Some (ucast (mi_uint2korr m from))
      else if bytes = 3 then Some (ucast (mi_uint3korr m from))
      else if bytes = 4 then Some (ucast (mi_uint4korr m from))
      else if bytes = 5 then Some (mi_uint5korr m from)
      else if bytes = 6 then Some (mi_uint6korr m from)
      else if bytes = 7 then Some (mi_uint7korr m from)
      else if bytes = 8 then Some (mi_sint8korr m from)
      else None)"

definition store_lowendian :: "u64 \<Rightarrow> mem \<Rightarrow> nat \<Rightarrow> nat \<Rightarrow> mem option" where
  "store_lowendian num m to bytes =
     (if bytes = 1 then Some (m(to := ucast num))
      else if bytes = 2 then Some (int2store m to num)
      else if bytes = 3 then Some (int3store m to num)
      else if bytes = 4 then Some (int4store m to num)
      else if bytes = 8 then Some (int8store m to num)
      else None)"

definition read_lowendian :: "mem \<Rightarrow> nat \<Rightarrow> nat \<Rightarrow> u64 option" where
  "read_lowendian m from bytes =
     (if bytes = 1 then Some (ucast (m from))
      else if bytes = 2 then Some (ucast (uint2korr m from))
      else if bytes = 3 then Some (ucast (uint3korr m from))
      else if bytes = 4 then Some (ucast (uint4korr m from))
      else if bytes = 8 then Some (sint8korr m from)
      else None)"

section \<open>Packing of integer columns\<close>

definition pack_int :: "mem \<Rightarrow> nat \<Rightarrow> nat \<Rightarrow> nat \<Rightarrow> mem \<times> nat" where
  "pack_int m to from sz = (memcpy m to from sz, to + sz)"

text \<open>The null pointer, for a source that is too short, is \<open>None\<close>.\<close>

definition unpack_int :: "mem \<Rightarrow> nat \<Rightarrow> nat \<Rightarrow> nat \<Rightarrow> nat \<Rightarrow> mem \<times> nat option" where
  "unpack_int m to from from_end sz =
     (if from + sz > from_end then (m, None) else (memcpy m to from sz, Some (from + sz)))"

section \<open>The stored bytes\<close>

lemma be_bytes_parts:
  "be_bytes 1 (unat v) = [ucast v]"
  "be_bytes 2 (unat v) = [ucast (drop_bit 8 v), ucast v]"
  "be_bytes 3 (unat v) = [ucast (drop_bit 16 v), ucast (drop_bit 8 v), ucast v]"
  "be_bytes 4 (unat v) = [ucast (drop_bit 24 v), ucast (drop_bit 16 v), ucast (drop_bit 8 v), ucast v]"
  "be_bytes 5 (unat v) = [ucast (drop_bit 32 v), ucast (drop_bit 24 v), ucast (drop_bit 16 v), ucast (drop_bit 8 v), ucast v]"
  "be_bytes 6 (unat v) = [ucast (drop_bit 40 v), ucast (drop_bit 32 v), ucast (drop_bit 24 v), ucast (drop_bit 16 v), ucast (drop_bit 8 v), ucast v]"
  "be_bytes 7 (unat v) = [ucast (drop_bit 48 v), ucast (drop_bit 40 v), ucast (drop_bit 32 v), ucast (drop_bit 24 v), ucast (drop_bit 16 v), ucast (drop_bit 8 v), ucast v]"
  for v :: u64
  using byte_of_nat [of v 0] byte_of_nat [of v 8] byte_of_nat [of v 16] byte_of_nat [of v 24]
    byte_of_nat [of v 32] byte_of_nat [of v 40] byte_of_nat [of v 48]
  by (simp_all add: be_bytes_numeral div_mult2_eq [symmetric])

lemma upt_small:
  "[0..<1] = [0 :: nat]" "[0..<2] = [0 :: nat, 1]" "[0..<3] = [0 :: nat, 1, 2]" "[0..<4] = [0 :: nat, 1, 2, 3]"
  "[0..<5] = [0 :: nat, 1, 2, 3, 4]" "[0..<6] = [0 :: nat, 1, 2, 3, 4, 5]" "[0..<7] = [0 :: nat, 1, 2, 3, 4, 5, 6]"
  by code_simp+

lemma low_byte: "(ucast (drop_bit k (ucast (v :: u64) :: u32)) :: u8) = ucast (drop_bit k v)" if "k \<le> 24"
  using that by (intro bit_word_eqI) (auto simp: bit_simps)

lemma high_byte: "(ucast (drop_bit k (ucast (drop_bit l (v :: u64)) :: u32)) :: u8) = ucast (drop_bit (k + l) v)" if "k \<le> 24"
  using that by (intro bit_word_eqI) (auto simp: bit_simps ac_simps)

lemmas low_bytes = low_byte [of 0, simplified] low_byte high_byte [of 0, simplified] high_byte

lemma mi_store_bytes:
  "bytes_at (mi_int1store m p v) p 1 = be_bytes 1 (unat v)"
  "bytes_at (mi_int2store m p v) p 2 = be_bytes 2 (unat v)"
  "bytes_at (mi_int3store m p v) p 3 = be_bytes 3 (unat v)"
  "bytes_at (mi_int4store m p v) p 4 = be_bytes 4 (unat v)"
  "bytes_at (mi_int5store m p v) p 5 = be_bytes 5 (unat v)"
  "bytes_at (mi_int6store m p v) p 6 = be_bytes 6 (unat v)"
  "bytes_at (mi_int7store m p v) p 7 = be_bytes 7 (unat v)"
  unfolding be_bytes_parts bytes_at_upt upt_small
  by (simp_all add: mi_int1store_def mi_int2store_def mi_int3store_def mi_int4store_def mi_int5store_def mi_int6store_def
      mi_int7store_def Let_def low_bytes)

lemma store_bigendian_ok:
  assumes "1 \<le> n" and "n \<le> 8"
  obtains m' where "store_bigendian v m p n = Some m'" "bytes_at m' p n = be_bytes n (unat v)"
    "read_bigendian m' p n = Some (take_bit (8 * n) v)" "\<forall>q. q < p \<or> p + n \<le> q \<longrightarrow> m' q = m q"
proof -
  consider "n = 1" | "n = 2" | "n = 3" | "n = 4" | "n = 5" | "n = 6" | "n = 7" | "n = 8" using assms by linarith
  then have "\<exists>m'. store_bigendian v m p n = Some m' \<and> bytes_at m' p n = be_bytes n (unat v) \<and>
    read_bigendian m' p n = Some (take_bit (8 * n) v) \<and> (\<forall>q. q < p \<or> p + n \<le> q \<longrightarrow> m' q = m q)"
  proof cases
    case 1
    then show ?thesis using be1.load_store [of m p v] be1.store_frame [of _ p m v] mi_store_bytes(1)
      by (simp add: store_bigendian_def read_bigendian_def del: One_nat_def)
  next
    case 2
    then show ?thesis using be2.load_store [of m p v] be2.store_frame [of _ p m v]
      by (simp add: store_bigendian_def read_bigendian_def mi_store_bytes)
  next
    case 3
    then show ?thesis using be3.load_store [of m p v] be3.store_frame [of _ p m v]
      by (simp add: store_bigendian_def read_bigendian_def mi_store_bytes)
  next
    case 4
    then show ?thesis using be4.load_store [of m p v] be4.store_frame [of _ p m v]
      by (simp add: store_bigendian_def read_bigendian_def mi_store_bytes)
  next
    case 5
    then show ?thesis using be5.load_store [of m p v] be5.store_frame [of _ p m v]
      by (simp add: store_bigendian_def read_bigendian_def mi_store_bytes)
  next
    case 6
    then show ?thesis using be6.load_store [of m p v] be6.store_frame [of _ p m v]
      by (simp add: store_bigendian_def read_bigendian_def mi_store_bytes)
  next
    case 7
    then show ?thesis using be7.load_store [of m p v] be7.store_frame [of _ p m v]
      by (simp add: store_bigendian_def read_bigendian_def mi_store_bytes)
  next
    case 8
    then show ?thesis using be8.load_store [of m p v] be8.store_frame [of _ p m v]
      by (simp add: store_bigendian_def read_bigendian_def mi_sint8korr_def mi_int8store_bytes)
  qed
  then show thesis using that by blast
qed

lemma store_lowendian_ok:
  assumes "n \<in> {1, 2, 3, 4, 8}"
  obtains m' where "store_lowendian v m p n = Some m'" "read_lowendian m' p n = Some (take_bit (8 * n) v)"
    "\<forall>q. q < p \<or> p + n \<le> q \<longrightarrow> m' q = m q"
proof -
  have byte: "(ucast (ucast v :: u8) :: u64) = take_bit 8 v" by (rule bit_word_eqI) (auto simp: bit_simps)
  consider "n = 1" | "n = 2" | "n = 3" | "n = 4" | "n = 8" using assms by blast
  then have "\<exists>m'. store_lowendian v m p n = Some m' \<and> read_lowendian m' p n = Some (take_bit (8 * n) v) \<and>
    (\<forall>q. q < p \<or> p + n \<le> q \<longrightarrow> m' q = m q)"
  proof cases
    case 1
    then show ?thesis by (simp add: store_lowendian_def read_lowendian_def byte)
  next
    case 2
    then show ?thesis using le2.load_store [of m p v] le2.store_frame [of _ p m v]
      by (simp add: store_lowendian_def read_lowendian_def)
  next
    case 3
    then show ?thesis using le3.load_store [of m p v] le3.store_frame [of _ p m v]
      by (simp add: store_lowendian_def read_lowendian_def)
  next
    case 4
    then show ?thesis using le4.load_store [of m p v] le4.store_frame [of _ p m v]
      by (simp add: store_lowendian_def read_lowendian_def)
  next
    case 5
    then show ?thesis using le8.load_store [of m p v] le8.store_frame [of _ p m v]
      by (simp add: store_lowendian_def read_lowendian_def sint8korr_def)
  qed
  then show thesis using that by blast
qed

section \<open>Numbers in records\<close>

text \<open>
  Property C20: an integer stored into a record with any number of bytes from one to eight, high byte first, is
  read back modulo the width and nothing else changes; the stored bytes of two numbers that fit
  compare under \<open>memcmp\<close> exactly as the numbers do, so keys can be compared as byte strings. A number
  stored low byte first in the number of bytes it requires is read back unchanged, and in no
  fewer bytes would it fit.
\<close>

theorem record_integers_round_trip:
  assumes "1 \<le> n" and "n \<le> 8"
  shows "(\<exists>m1 m2. store_bigendian v m p n = Some m1 \<and> read_bigendian m1 p n = Some (take_bit (8 * n) v) \<and>
    (\<forall>q. q < p \<or> p + n \<le> q \<longrightarrow> m1 q = m q) \<and> store_bigendian u m' p' n = Some m2 \<and>
    (unat u < 256 ^ n \<and> unat v < 256 ^ n \<longrightarrow>
      (memcmp (bytes_at m1 p n) (bytes_at m2 p' n) < 0 \<longleftrightarrow> v < u) \<and> (memcmp (bytes_at m1 p n) (bytes_at m2 p' n) = 0 \<longleftrightarrow> v = u))) \<and>
    (\<exists>m3. store_lowendian (ucast k) m p (number_storage_requirement k) = Some m3 \<and>
      read_lowendian m3 p (number_storage_requirement k) = Some (ucast k) \<and>
      (1 < number_storage_requirement k \<longrightarrow> 256 ^ (number_storage_requirement k - 1) \<le> unat k))"
proof (rule conjI)
  obtain m1 m2 where m1: "store_bigendian v m p n = Some m1" "bytes_at m1 p n = be_bytes n (unat v)"
      "read_bigendian m1 p n = Some (take_bit (8 * n) v)" "\<forall>q. q < p \<or> p + n \<le> q \<longrightarrow> m1 q = m q"
    and m2: "store_bigendian u m' p' n = Some m2" "bytes_at m2 p' n = be_bytes n (unat u)"
    by (metis store_bigendian_ok [OF assms])
  then show "\<exists>m1 m2. store_bigendian v m p n = Some m1 \<and> read_bigendian m1 p n = Some (take_bit (8 * n) v) \<and>
    (\<forall>q. q < p \<or> p + n \<le> q \<longrightarrow> m1 q = m q) \<and> store_bigendian u m' p' n = Some m2 \<and>
    (unat u < 256 ^ n \<and> unat v < 256 ^ n \<longrightarrow>
      (memcmp (bytes_at m1 p n) (bytes_at m2 p' n) < 0 \<longleftrightarrow> v < u) \<and> (memcmp (bytes_at m1 p n) (bytes_at m2 p' n) = 0 \<longleftrightarrow> v = u))"
    using memcmp_be_val [of "be_bytes n (unat v)" "be_bytes n (unat u)"]
    by (simp add: be_val_be_bytes word_less_nat_alt word_unat_eq_iff)
next
  have "k < 256 \<or> k < 65536 \<or> k < 16777216 \<or> unat k < 4294967296" using unat_less_exp [of k] by simp
  then have fits: "take_bit (8 * number_storage_requirement k) (ucast k :: u64) = ucast k"
    by (auto simp: number_storage_requirement_def word_unat_eq_iff unat_low unat_widen take_bit_nat_eq_self word_less_nat_alt)
  have "number_storage_requirement k \<in> {1, 2, 3, 4, 8}" by (simp add: number_storage_requirement_def)
  then obtain m3 where "store_lowendian (ucast k) m p (number_storage_requirement k) = Some m3"
    "read_lowendian m3 p (number_storage_requirement k) = Some (take_bit (8 * number_storage_requirement k) (ucast k))"
    by (rule store_lowendian_ok)
  then show "\<exists>m3. store_lowendian (ucast k) m p (number_storage_requirement k) = Some m3 \<and>
      read_lowendian m3 p (number_storage_requirement k) = Some (ucast k) \<and>
      (1 < number_storage_requirement k \<longrightarrow> 256 ^ (number_storage_requirement k - 1) \<le> unat k)"
    unfolding fits by (auto simp: number_storage_requirement_def word_less_nat_alt)
qed

theorem record_integers_round_trip_witness:
  "\<exists>m1 m2. store_bigendian 70000 (\<lambda>_. 0) 10 3 = Some m1 \<and> read_bigendian m1 10 3 = Some 70000 \<and>
     store_bigendian 255 (\<lambda>_. 7) 20 3 = Some m2 \<and> memcmp (bytes_at m2 20 3) (bytes_at m1 10 3) < 0"
proof -
  have fit: "take_bit (8 * 3) (70000 :: u64) = 70000" "unat (70000 :: u64) < 256 ^ 3" "unat (255 :: u64) < 256 ^ 3" by simp_all
  from record_integers_round_trip [of 3 255 "\<lambda>_. 7" 20 70000 "\<lambda>_. 0" 10 0] record_integers_round_trip [of 3 70000 "\<lambda>_. 0" 10 255 "\<lambda>_. 7" 20 0]
  show ?thesis unfolding fit(1) using fit(2, 3) by auto
qed

text \<open>Packing a column and unpacking it again restores it; a truncated source is refused and changes nothing.\<close>

lemma pack_unpack_int:
  assumes "pack_int m to from sz = (m1, e)" and "e \<le> from_end"
  shows "\<exists>m2. unpack_int m1 dst to from_end sz = (m2, Some e) \<and> bytes_at m2 dst sz = bytes_at m from sz"
  using assms by (auto simp: pack_int_def unpack_int_def bytes_memcpy)

text \<open>The bytes of a \<open>SET\<close> column of at most 64 elements suffice for one bit per element.\<close>

lemma set_pack_length_suffices:
  assumes "1 \<le> n" and "n \<le> 64"
  shows "n \<le> 8 * uint (get_set_pack_length n) \<and> get_set_pack_length n \<in> {1, 2, 3, 4, 8}"
proof -
  have "(n + 7) sdiv 8 = (n + 7) div 8" using assms by (simp add: signed_divide_int_def)
  moreover have "(n + 7) div 8 \<in> {1 .. 8}" using assms by auto
  moreover from this have "(n + 7) div 8 = 1 \<or> (n + 7) div 8 = 2 \<or> (n + 7) div 8 = 3 \<or> (n + 7) div 8 = 4 \<or>
    (n + 7) div 8 = 5 \<or> (n + 7) div 8 = 6 \<or> (n + 7) div 8 = 7 \<or> (n + 7) div 8 = 8" by auto
  ultimately show ?thesis using assms by (auto simp: get_set_pack_length_def Let_def)
qed

end
