(* ===== verification/FieldNull.thy ===== *)
theory FieldNull
  imports FieldCodec "HOL-Library.Monad_Syntax"
begin

text \<open>
  The place of a column in a record: \<open>class Field\<close> of \<open>field.h\<close> as far as it handles the \<open>NULL\<close> bit, moves a
  field from one record to another, and keeps the minimum and maximum of a column. A field is its
  pointer, the pointer to its null byte (0 for none) and its null bit; of the table it reads the
  address of its first record and two flags. The comparison of values is virtual and a parameter.
\<close>

unbundle bit_operations_syntax

section \<open>Fields\<close>

record table_info =
  record0 :: nat
  null_row :: bool
  table_maybe_null :: bool
  rec_buff_length :: nat

record field_ptr =
  fptr :: nat
  null_ptr :: nat
  null_bit :: u8
  field_length :: nat

definition at_offset :: "nat \<Rightarrow> int \<Rightarrow> nat" where
  "at_offset p d = nat (int p + d)"

definition is_null :: "table_info \<Rightarrow> field_ptr \<Rightarrow> mem \<Rightarrow> int \<Rightarrow> bool" where
  "is_null T f m row_offset =
     (if null_ptr f \<noteq> 0 then m (at_offset (null_ptr f) row_offset) AND null_bit f \<noteq> 0 else null_row T)"

definition is_real_null :: "field_ptr \<Rightarrow> mem \<Rightarrow> int \<Rightarrow> bool" where
  "is_real_null f m row_offset \<longleftrightarrow> null_ptr f \<noteq> 0 \<and> m (at_offset (null_ptr f) row_offset) AND null_bit f \<noteq> 0"

definition maybe_null_in_table :: "table_info \<Rightarrow> field_ptr \<Rightarrow> bool" where
  "maybe_null_in_table T f \<longleftrightarrow> record0 T \<le> null_ptr f \<and> null_ptr f \<le> fptr f"

definition is_null_in_record :: "table_info \<Rightarrow> field_ptr \<Rightarrow> mem \<Rightarrow> nat \<Rightarrow> bool" where
  "is_null_in_record T f m rec =
     (if maybe_null_in_table T f then m (rec + (null_ptr f - record0 T)) AND null_bit f \<noteq> 0 else False)"

definition set_null :: "field_ptr \<Rightarrow> int \<Rightarrow> mem \<Rightarrow> mem" where
  "set_null f row_offset m =
     (let p = at_offset (null_ptr f) row_offset in if null_ptr f \<noteq> 0 then m(p := m p OR null_bit f) else m)"

definition set_notnull :: "field_ptr \<Rightarrow> int \<Rightarrow> mem \<Rightarrow> mem" where
  "set_notnull f row_offset m =
     (let p = at_offset (null_ptr f) row_offset in if null_ptr f \<noteq> 0 then m(p := m p AND NOT (null_bit f)) else m)"

definition field_maybe_null :: "table_info \<Rightarrow> field_ptr \<Rightarrow> bool" where
  "field_maybe_null T f \<longleftrightarrow> null_ptr f \<noteq> 0 \<or> table_maybe_null T"

definition real_maybe_null :: "field_ptr \<Rightarrow> bool" where
  "real_maybe_null f \<longleftrightarrow> null_ptr f \<noteq> 0"

definition set_null_ptr :: "nat \<Rightarrow> u32 \<Rightarrow> field_ptr \<Rightarrow> field_ptr" where
  "set_null_ptr p b f = f\<lparr>null_ptr := p, null_bit := ucast b\<rparr>"

definition move_field :: "nat \<Rightarrow> nat \<Rightarrow> u8 \<Rightarrow> field_ptr \<Rightarrow> field_ptr" where
  "move_field p np b f = f\<lparr>fptr := p, null_ptr := np, null_bit := b\<rparr>"

definition move_field_ptr :: "nat \<Rightarrow> field_ptr \<Rightarrow> field_ptr" where
  "move_field_ptr p f = f\<lparr>fptr := p\<rparr>"

definition move_field_offset :: "int \<Rightarrow> field_ptr \<Rightarrow> field_ptr" where
  "move_field_offset d f =
     (let f = f\<lparr>fptr := at_offset (fptr f) d\<rparr>
      in if null_ptr f \<noteq> 0 then f\<lparr>null_ptr := at_offset (null_ptr f) d\<rparr> else f)"

definition ptr_in_record :: "table_info \<Rightarrow> field_ptr \<Rightarrow> nat \<Rightarrow> nat option" where
  "ptr_in_record T f rec =
     do { dbug_assert (record0 T \<le> fptr f \<and> fptr f - record0 T < rec_buff_length T);
          Some (rec + (fptr f - record0 T)) }"

definition field_offset :: "field_ptr \<Rightarrow> nat \<Rightarrow> nat" where
  "field_offset f rec = fptr f - rec"

definition pack_length :: "field_ptr \<Rightarrow> nat" where
  "pack_length f = field_length f"

definition field_reset :: "field_ptr \<Rightarrow> mem \<Rightarrow> mem" where
  "field_reset f m = (\<lambda>a. if fptr f \<le> a \<and> a < fptr f + pack_length f then 0 else m a)"

definition store_field_value :: "field_ptr \<Rightarrow> nat \<Rightarrow> nat \<Rightarrow> mem \<Rightarrow> mem" where
  "store_field_value f val len m = memcpy m (fptr f) val len"

section \<open>Minimum and maximum of a column\<close>

definition update_min :: "(mem \<Rightarrow> nat \<Rightarrow> nat \<Rightarrow> int) \<Rightarrow> field_ptr \<Rightarrow> field_ptr \<Rightarrow> bool \<Rightarrow> mem \<Rightarrow> bool \<times> mem" where
  "update_min cmp f min_val force_update m =
     (let update_fl = (force_update \<or> cmp m (fptr f) (fptr min_val) < 0)
      in (update_fl, if update_fl then memcpy (set_notnull min_val 0 m) (fptr min_val) (fptr f) (pack_length f) else m))"

definition update_max :: "(mem \<Rightarrow> nat \<Rightarrow> nat \<Rightarrow> int) \<Rightarrow> field_ptr \<Rightarrow> field_ptr \<Rightarrow> bool \<Rightarrow> mem \<Rightarrow> bool \<times> mem" where
  "update_max cmp f max_val force_update m =
     (let update_fl = (force_update \<or> cmp m (fptr f) (fptr max_val) > 0)
      in (update_fl, if update_fl then memcpy (set_notnull max_val 0 m) (fptr max_val) (fptr f) (pack_length f) else m))"

section \<open>The length without trailing spaces\<close>

text \<open>The loop of \<open>value_length\<close>, with the end of the value as its argument.\<close>

fun strip_loop :: "mem \<Rightarrow> nat \<Rightarrow> nat \<Rightarrow> nat" where
  "strip_loop m str 0 = 0"
| "strip_loop m str (Suc len) = (if m (str + len) = 32 then strip_loop m str len else Suc len)"

definition value_length :: "bool \<Rightarrow> bool \<Rightarrow> field_ptr \<Rightarrow> mem \<Rightarrow> nat" where
  "value_length zero_pack is_string f m =
     (let len = pack_length f
      in if \<not> zero_pack \<and> is_string \<and> len \<ge> 4 \<and> len < 256 then strip_loop m (fptr f) len else pack_length f)"

section \<open>Null bits as a set of columns\<close>

definition null_bit_at :: "field_ptr \<Rightarrow> nat \<Rightarrow> bool" where
  "null_bit_at f k \<longleftrightarrow> null_ptr f \<noteq> 0 \<and> k < 8 \<and> null_bit f = push_bit k 1"

definition null_columns :: "(nat \<Rightarrow> field_ptr) \<Rightarrow> nat set \<Rightarrow> int \<Rightarrow> mem \<Rightarrow> nat set" where
  "null_columns F I d m = {i \<in> I. is_real_null (F i) m d}"

fun null_run :: "(nat \<Rightarrow> field_ptr) \<Rightarrow> int \<Rightarrow> (nat \<times> bool) list \<Rightarrow> mem \<Rightarrow> mem" where
  "null_run F d [] m = m"
| "null_run F d ((i, b) # ops) m = null_run F d ops ((if b then set_null else set_notnull) (F i) d m)"

text \<open>The columns of a table: each has a null bit of its own, and the record lies at positive addresses.\<close>

definition nullable_columns :: "(nat \<Rightarrow> field_ptr) \<Rightarrow> nat set \<Rightarrow> int \<Rightarrow> bool" where
  "nullable_columns F I d \<longleftrightarrow> (\<forall>i \<in> I. (\<exists>k. null_bit_at (F i) k) \<and> 0 < int (null_ptr (F i)) + d) \<and>
     inj_on (\<lambda>i. (null_ptr (F i), null_bit (F i))) I"

lemma real_null_bit: "null_bit_at f k \<Longrightarrow> is_real_null f m d \<longleftrightarrow> bit (m (at_offset (null_ptr f) d)) k"
  by (simp add: null_bit_at_def is_real_null_def bit_iff_and_push_bit_not_eq_0)

lemma at_offset_inj: "0 < int p + d \<Longrightarrow> 0 < int q + d \<Longrightarrow> at_offset p d = at_offset q d \<longleftrightarrow> p = q"
  by (auto simp: at_offset_def nat_eq_iff)

lemma set_null_bits:
  assumes "nullable_columns F I d" and "i \<in> I" and "j \<in> I"
  shows "is_real_null (F j) (set_null (F i) d m) d \<longleftrightarrow> j = i \<or> is_real_null (F j) m d"
    and "is_real_null (F j) (set_notnull (F i) d m) d \<longleftrightarrow> j \<noteq> i \<and> is_real_null (F j) m d"
proof -
  from assms obtain k l where k: "null_bit_at (F i) k" "null_bit_at (F j) l"
    unfolding nullable_columns_def by metis
  have pos: "0 < int (null_ptr (F i)) + d" "0 < int (null_ptr (F j)) + d" using assms by (auto simp: nullable_columns_def)
  have same: "null_ptr (F i) = null_ptr (F j) \<and> k = l \<longleftrightarrow> j = i"
  proof
    assume "null_ptr (F i) = null_ptr (F j) \<and> k = l"
    then have "(null_ptr (F i), null_bit (F i)) = (null_ptr (F j), null_bit (F j))" using k by (simp add: null_bit_at_def)
    then show "j = i" using assms inj_onD [of "\<lambda>i. (null_ptr (F i), null_bit (F i))" I i j] by (simp add: nullable_columns_def)
  next
    assume "j = i"
    moreover from this have "(push_bit k 1 :: u8) = push_bit l 1" "k < 8" "l < 8" using k by (simp_all add: null_bit_at_def)
    moreover from this have "k = l" using bit_push_bit_iff [of k "1 :: u8" k] bit_push_bit_iff [of l "1 :: u8" k] by (simp add: bit_1_iff)
    ultimately show "null_ptr (F i) = null_ptr (F j) \<and> k = l" by simp
  qed
  have bits: "bit (null_bit (F i)) l \<longleftrightarrow> k = l" "null_ptr (F i) \<noteq> 0" "k < 8" "l < 8"
    using k by (auto simp: null_bit_at_def bit_simps)
  show "is_real_null (F j) (set_null (F i) d m) d \<longleftrightarrow> j = i \<or> is_real_null (F j) m d"
    using same bits at_offset_inj [OF pos] by (auto simp: real_null_bit [OF k(2)] set_null_def Let_def bit_or_iff)
  show "is_real_null (F j) (set_notnull (F i) d m) d \<longleftrightarrow> j \<noteq> i \<and> is_real_null (F j) m d"
    using same bits at_offset_inj [OF pos] by (auto simp: real_null_bit [OF k(2)] set_notnull_def Let_def bit_and_iff bit_not_iff_eq)
qed

lemma null_step:
  assumes "nullable_columns F I d" and "i \<in> I"
  shows "null_columns F I d (set_null (F i) d m) = insert i (null_columns F I d m)"
    and "null_columns F I d (set_notnull (F i) d m) = null_columns F I d m - {i}"
  using set_null_bits [OF assms] assms(2) by (auto simp: null_columns_def)

lemma set_null_frame:
  "a \<noteq> at_offset (null_ptr f) d \<Longrightarrow> set_null f d m a = m a" "a \<noteq> at_offset (null_ptr f) d \<Longrightarrow> set_notnull f d m a = m a"
  by (simp_all add: set_null_def set_notnull_def Let_def)

text \<open>
  Property C17: the null bits of a record implement the set of its null columns. Any sequence of \<open>set_null\<close> and
  \<open>set_notnull\<close> on columns with bits of their own adds and removes just those columns, whatever
  record the row offset selects, and writes to no byte but their null bytes; moving a field by
  the offset, or asking for the record by its address, reads the same bit.
\<close>

theorem null_bits_are_columns:
  assumes "nullable_columns F I d" and "fst ` set ops \<subseteq> I"
  shows "null_columns F I d (null_run F d ops m) = fold (\<lambda>(i, b) S. if b then insert i S else S - {i}) ops (null_columns F I d m) \<and>
    (\<forall>a. a \<notin> (\<lambda>i. at_offset (null_ptr (F i)) d) ` I \<longrightarrow> null_run F d ops m a = m a) \<and>
    (\<forall>i \<in> I. \<forall>m T. is_null T (move_field_offset d (F i)) m 0 = is_real_null (F i) m d \<and>
      (maybe_null_in_table T (F i) \<and> int (record0 T) + d = int rec \<longrightarrow> is_null_in_record T (F i) m rec = is_real_null (F i) m d))"
proof -
  have "null_columns F I d (null_run F d ops m) = fold (\<lambda>(i, b) S. if b then insert i S else S - {i}) ops (null_columns F I d m)"
    using assms
  proof (induction F d ops m rule: null_run.induct [case_names Nil Cons])
    case (Cons F d i b ops m)
    then show ?case using null_step [of F I d i m] by simp
  qed simp
  moreover have "\<forall>a. a \<notin> (\<lambda>i. at_offset (null_ptr (F i)) d) ` I \<longrightarrow> null_run F d ops m a = m a"
    using assms(2) by (induction F d ops m rule: null_run.induct) (auto intro!: set_null_frame)
  moreover have "is_null T (move_field_offset d (F i)) m 0 = is_real_null (F i) m d \<and>
      (maybe_null_in_table T (F i) \<and> int (record0 T) + d = int rec \<longrightarrow> is_null_in_record T (F i) m rec = is_real_null (F i) m d)"
    if "i \<in> I" for i m T
  proof -
    have "null_ptr (F i) \<noteq> 0" "0 < int (null_ptr (F i)) + d" using that assms(1) by (auto simp: nullable_columns_def null_bit_at_def)
    moreover have "at_offset (null_ptr (F i)) d = rec + (null_ptr (F i) - record0 T)"
      if "record0 T \<le> null_ptr (F i)" "int (record0 T) + d = int rec"
      using that by (simp add: at_offset_def nat_eq_iff of_nat_diff)
    ultimately show ?thesis
      by (auto simp: is_null_def is_real_null_def move_field_offset_def is_null_in_record_def maybe_null_in_table_def Let_def)
        (simp_all add: at_offset_def)
  qed
  ultimately show ?thesis by blast
qed

definition two_columns :: "nat \<Rightarrow> field_ptr" where
  "two_columns i = \<lparr>fptr = 102, null_ptr = 100, null_bit = push_bit i 1, field_length = 4\<rparr>"

lemma two_columns_nullable: "nullable_columns two_columns {0, 1} 50"
proof -
  have "null_bit_at (two_columns 0) 0" "null_bit_at (two_columns 1) 1" by (simp_all add: null_bit_at_def two_columns_def)
  then show ?thesis by (auto simp: nullable_columns_def two_columns_def inj_on_def)
qed

theorem null_bits_are_columns_witness:
  "null_columns two_columns {0, 1} 50 (null_run two_columns 50 [(0, True), (1, True), (0, False)] (\<lambda>_. 0)) = {1}"
proof -
  have "null_columns two_columns {0, 1} 50 (\<lambda>_. 0) = {}" by (simp add: null_columns_def is_real_null_def)
  then show ?thesis using null_bits_are_columns [OF two_columns_nullable, of "[(0, True), (1, True), (0, False)]"] by auto
qed

section \<open>Column statistics\<close>

text \<open>Reading a row puts the image of the column at the field; then the best value so far is updated.\<close>

definition load_image :: "field_ptr \<Rightarrow> u8 list \<Rightarrow> mem \<Rightarrow> mem" where
  "load_image f img m = (\<lambda>a. if fptr f \<le> a \<and> a < fptr f + length img then img ! (a - fptr f) else m a)"

fun scan_rows :: "(bool \<Rightarrow> mem \<Rightarrow> bool \<times> mem) \<Rightarrow> field_ptr \<Rightarrow> bool \<Rightarrow> u8 list list \<Rightarrow> mem \<Rightarrow> mem" where
  "scan_rows upd f force [] m = m"
| "scan_rows upd f force (img # imgs) m = scan_rows upd f False imgs (snd (upd force (load_image f img m)))"

text \<open>The two fields and the null byte of the second do not overlap.\<close>

definition apart_fields :: "field_ptr \<Rightarrow> field_ptr \<Rightarrow> nat \<Rightarrow> bool" where
  "apart_fields f g n \<longleftrightarrow> (fptr f + n \<le> fptr g \<or> fptr g + n \<le> fptr f) \<and>
     \<not> (fptr f \<le> null_ptr g \<and> null_ptr g < fptr f + n) \<and> \<not> (fptr g \<le> null_ptr g \<and> null_ptr g < fptr g + n)"

definition cmp_law :: "(mem \<Rightarrow> nat \<Rightarrow> nat \<Rightarrow> int) \<Rightarrow> (u8 list \<Rightarrow> nat) \<Rightarrow> nat \<Rightarrow> bool" where
  "cmp_law cmp rank n \<longleftrightarrow> (\<forall>m a b. (cmp m a b < 0 \<longleftrightarrow> rank (bytes_at m a n) < rank (bytes_at m b n)) \<and>
     (cmp m a b > 0 \<longleftrightarrow> rank (bytes_at m a n) > rank (bytes_at m b n)))"

lemma load_image_bytes:
  assumes "length img = n" and "apart_fields f g n"
  shows "bytes_at (load_image f img m) (fptr f) n = img" and "bytes_at (load_image f img m) (fptr g) n = bytes_at m (fptr g) n"
  using assms by (auto simp: bytes_at_def load_image_def apart_fields_def intro!: nth_equalityI)

definition updates :: "(bool \<Rightarrow> mem \<Rightarrow> bool \<times> mem) \<Rightarrow> (u8 list \<Rightarrow> u8 list \<Rightarrow> bool) \<Rightarrow> field_ptr \<Rightarrow> field_ptr \<Rightarrow> nat \<Rightarrow> bool" where
  "updates upd better f g n \<longleftrightarrow> (\<forall>force m. let a = bytes_at m (fptr f) n; b = bytes_at m (fptr g) n; u = force \<or> better a b
     in fst (upd force m) = u \<and> bytes_at (snd (upd force m)) (fptr g) n = (if u then a else b) \<and>
       (u \<longrightarrow> \<not> is_real_null g (snd (upd force m)) 0) \<and> (\<not> u \<longrightarrow> snd (upd force m) = m))"

lemma set_notnull_bytes:
  "\<not> (p \<le> null_ptr g \<and> null_ptr g < p + n) \<Longrightarrow> bytes_at (set_notnull g 0 m) p n = bytes_at m p n"
  by (rule bytes_cong) (auto simp: set_notnull_def at_offset_def Let_def)

lemma copied_not_null:
  assumes "apart_fields f g n"
  shows "\<not> is_real_null g (memcpy (set_notnull g 0 m) (fptr g) (fptr f) n) 0"
  using assms by (auto simp: is_real_null_def memcpy_def set_notnull_def apart_fields_def at_offset_def Let_def and.assoc)

lemma update_extremes:
  assumes "cmp_law cmp rank n" and "apart_fields f g n" and "field_length f = n"
  shows "updates (update_min cmp f g) (\<lambda>a b. rank a < rank b) f g n" and "updates (update_max cmp f g) (\<lambda>a b. rank a > rank b) f g n"
  using assms(1, 3) copied_not_null [OF assms(2)] set_notnull_bytes [of "fptr f" g n] assms(2)
  by (simp_all add: updates_def update_min_def update_max_def cmp_law_def pack_length_def Let_def bytes_memcpy apart_fields_def)

lemma scan_best:
  assumes "updates upd (\<lambda>a b. key a < (key b :: int)) f g n" and "apart_fields f g n" and "\<forall>img \<in> set imgs. length img = n"
    and "\<not> force \<Longrightarrow> \<not> is_real_null g m 0" and "force \<longrightarrow> imgs \<noteq> []"
  shows "let best = bytes_at (scan_rows upd f force imgs m) (fptr g) n; all = (if force then [] else [bytes_at m (fptr g) n]) @ imgs
    in best \<in> set all \<and> (\<forall>img \<in> set all. key best \<le> key img) \<and> \<not> is_real_null g (scan_rows upd f force imgs m) 0"
  using assms(3-5)
proof (induction imgs arbitrary: force m)
  case Nil
  then show ?case by (cases force) simp_all
next
  case (Cons img imgs)
  let ?m = "load_image f img m" and ?b = "bytes_at m (fptr g) n"
  let ?r = "upd force ?m" and ?u = "force \<or> key img < key ?b"
  have img: "bytes_at ?m (fptr f) n = img" "bytes_at ?m (fptr g) n = ?b"
    using load_image_bytes [OF _ assms(2)] Cons.prems(1) by simp_all
  have law: "bytes_at (snd ?r) (fptr g) n = (if ?u then img else ?b)" "?u \<Longrightarrow> \<not> is_real_null g (snd ?r) 0" "\<not> ?u \<Longrightarrow> snd ?r = ?m"
    using assms(1) unfolding updates_def Let_def by (metis img)+
  have "load_image f img m (null_ptr g) = m (null_ptr g)"
    using assms(2) Cons.prems(1) by (auto simp: load_image_def apart_fields_def)
  then have "is_real_null g ?m 0 = is_real_null g m 0" by (simp add: is_real_null_def at_offset_def)
  then have "\<not> is_real_null g (snd ?r) 0" using law(2, 3) Cons.prems(2) by (cases ?u) auto
  from Cons.IH [of False "snd ?r"] this Cons.prems(1) show ?case by (auto simp: Let_def law(1) split: if_splits)
qed

text \<open>
  Scanning the rows of a table keeps the extreme values of a column. When the first row forces the
  update, the two fields end as images that occur in the column, not null, of which one has the
  least and the other the greatest value; the comparison only has to order images by their values.
\<close>

theorem column_extremes_found:
  assumes "cmp_law cmp rank n" and "apart_fields f g n" and "field_length f = n" and "imgs \<noteq> []" and "\<forall>img \<in> set imgs. length img = n"
  shows "let low = scan_rows (update_min cmp f g) f True imgs m; high = scan_rows (update_max cmp f g) f True imgs m
    in bytes_at low (fptr g) n \<in> set imgs \<and> rank (bytes_at low (fptr g) n) = Min (rank ` set imgs) \<and> \<not> is_real_null g low 0 \<and>
       bytes_at high (fptr g) n \<in> set imgs \<and> rank (bytes_at high (fptr g) n) = Max (rank ` set imgs) \<and> \<not> is_real_null g high 0"
proof -
  have "updates (update_min cmp f g) (\<lambda>a b. int (rank a) < int (rank b)) f g n"
    "updates (update_max cmp f g) (\<lambda>a b. - int (rank a) < - int (rank b)) f g n"
    using update_extremes [OF assms(1-3)] by simp_all
  from this [THEN scan_best, OF assms(2, 5), of True m] assms(4) show ?thesis
    by (auto simp: Let_def intro!: Min_eqI [symmetric] Max_eqI [symmetric])
qed

text \<open>One-byte unsigned columns compared by \<open>memcmp\<close>.\<close>

definition byte_cmp :: "mem \<Rightarrow> nat \<Rightarrow> nat \<Rightarrow> int" where
  "byte_cmp m a b = memcmp (bytes_at m a 1) (bytes_at m b 1)"

lemma byte_cmp_law: "cmp_law byte_cmp be_val 1"
proof -
  have "memcmp xs ys > 0 \<longleftrightarrow> be_val xs > be_val ys" if "length xs = length ys" for xs ys
    using memcmp_be_val [OF that] by linarith
  then show ?thesis using memcmp_be_val [of "bytes_at _ _ 1" "bytes_at _ _ 1"] by (simp add: cmp_law_def byte_cmp_def)
qed

definition byte_column :: field_ptr where
  "byte_column = \<lparr>fptr = 10, null_ptr = 0, null_bit = 0, field_length = 1\<rparr>"

definition byte_best :: field_ptr where
  "byte_best = \<lparr>fptr = 20, null_ptr = 19, null_bit = 1, field_length = 1\<rparr>"

theorem column_extremes_found_witness:
  "be_val (bytes_at (scan_rows (update_min byte_cmp byte_column byte_best) byte_column True [[7], [3], [9]] (\<lambda>_. 0)) 20 1) = 3"
proof -
  have "apart_fields byte_column byte_best 1" "field_length byte_column = 1" "fptr byte_best = 20"
    by (simp_all add: apart_fields_def byte_column_def byte_best_def)
  moreover have "be_val [7] = 7" "be_val [3] = 3" "be_val [9] = 9" by (simp_all add: be_val_def)
  ultimately show ?thesis
    using column_extremes_found [OF byte_cmp_law, of byte_column byte_best "[[7], [3], [9]]" "\<lambda>_. 0"] by (simp add: Let_def)
qed

end
