(* ===== verification/InPredicate.thy ===== *)
theory InPredicate
  imports Prelude "HOL-Library.Monad_Syntax" Complex_Main
begin

text \<open>
  Comparing one value to a list of others, for \<open>IN\<close>, the simple \<open>CASE\<close> and \<open>DECODE\<close>: the \<open>cmp_item\<close>
  classes for scalars and \<open>Predicant_to_list_comparator\<close> of \<open>item_cmpfunc.h\<close>. An item is what its value
  functions deliver in the three contexts, each with the \<open>null_value\<close> it leaves. Pairs with the same
  type handler share one \<open>cmp_item\<close>, in which the value of the predicant is cached. The comparison of
  strings under a collation and \<open>Item_save_in_value\<close> are parameters; failed assertions are \<open>None\<close>.
\<close>

section \<open>Items and comparison results\<close>

record item =
  val_int :: int
  int_null :: bool
  val_real :: real
  real_null :: bool
  val_str :: "u8 list option"
  str_null :: bool
  can_eval_in_optimize :: bool

text \<open>\<open>FALSE\<close>, \<open>TRUE\<close> and \<open>UNKNOWN\<close> as results of "stored value \<open><>\<close> item".\<close>

datatype cmp_result = Is_false | Is_true | Is_unknown

datatype sql_value = Null_value | Longlong_value int | Double_value real | String_value "u8 list"

datatype cmp_item = Cmp_item_int int bool | Cmp_item_real real bool | Cmp_item_string "u8 list option" bool

definition of_bool_result :: "bool \<Rightarrow> cmp_result" where
  "of_bool_result b = (if b then Is_true else Is_false)"

text \<open>\<open>store_value\<close>, with the \<open>null_value\<close> of the item afterwards; \<open>mem\<close> tells whether copying the string succeeds.\<close>

fun store_value :: "bool \<Rightarrow> cmp_item \<Rightarrow> item \<Rightarrow> cmp_item \<times> bool" where
  "store_value mem (Cmp_item_int v n) it = (Cmp_item_int (val_int it) (int_null it), int_null it)"
| "store_value mem (Cmp_item_real v n) it = (Cmp_item_real (val_real it) (real_null it), real_null it)"
| "store_value mem (Cmp_item_string v n) it =
     (Cmp_item_string (map_option (\<lambda>s. if mem then s else []) (val_str it)) (str_null it), str_null it)"

fun item_cmp :: "(u8 list \<Rightarrow> u8 list \<Rightarrow> int) \<Rightarrow> cmp_item \<Rightarrow> item \<Rightarrow> cmp_result" where
  "item_cmp sortcmp (Cmp_item_int v n) arg = (if n \<or> int_null arg then Is_unknown else of_bool_result (v \<noteq> val_int arg))"
| "item_cmp sortcmp (Cmp_item_real v n) arg = (if n \<or> real_null arg then Is_unknown else of_bool_result (v \<noteq> val_real arg))"
| "item_cmp sortcmp (Cmp_item_string v n) arg =
     (if n \<or> str_null arg then Is_unknown
      else case (v, val_str arg) of
             (Some a, Some b) \<Rightarrow> of_bool_result (sortcmp a b \<noteq> 0)
           | (None, None) \<Rightarrow> Is_false
           | _ \<Rightarrow> Is_true)"

fun cmp_not_null :: "(u8 list \<Rightarrow> u8 list \<Rightarrow> int) \<Rightarrow> cmp_item \<Rightarrow> sql_value \<Rightarrow> cmp_result option" where
  "cmp_not_null sortcmp (Cmp_item_int v n) (Longlong_value x) = Some (of_bool_result (v \<noteq> x))"
| "cmp_not_null sortcmp (Cmp_item_real v n) (Double_value x) = Some (of_bool_result (v \<noteq> x))"
| "cmp_not_null sortcmp (Cmp_item_string (Some v) n) (String_value x) = Some (of_bool_result (sortcmp v x \<noteq> 0))"
| "cmp_not_null sortcmp _ _ = None"

fun compare_items :: "(u8 list \<Rightarrow> u8 list \<Rightarrow> int) \<Rightarrow> cmp_item \<Rightarrow> cmp_item \<Rightarrow> int option" where
  "compare_items sortcmp (Cmp_item_int a n) (Cmp_item_int b k) = Some (if a < b then - 1 else if a = b then 0 else 1)"
| "compare_items sortcmp (Cmp_item_real a n) (Cmp_item_real b k) = Some (if a < b then - 1 else if a = b then 0 else 1)"
| "compare_items sortcmp (Cmp_item_string (Some a) n) (Cmp_item_string (Some b) k) = Some (sortcmp a b)"
| "compare_items sortcmp _ _ = None"

section \<open>The comparators of a list\<close>

record comparator =
  m_handler :: "nat option"
  m_cmp_item :: "cmp_item option"
  m_arg_index :: nat
  m_handler_index :: nat

record pred_list =
  m_comparators :: "comparator list"
  m_predicant_index :: nat

definition nth_opt :: "'a list \<Rightarrow> nat \<Rightarrow> 'a option" where
  "nth_opt xs i = (if i < length xs then Some (xs ! i) else None)"

fun handler_loop :: "comparator list \<Rightarrow> nat \<Rightarrow> nat \<Rightarrow> nat \<Rightarrow> nat option" where
  "handler_loop cs handler i 0 = None"
| "handler_loop cs handler i (Suc k) = (if m_handler (cs ! i) = Some handler then Some i else handler_loop cs handler (Suc i) k)"

text \<open>The index found; \<open>None\<close> inside for \<open>true\<close>, not found.\<close>

definition find_handler :: "nat \<Rightarrow> nat \<Rightarrow> pred_list \<Rightarrow> nat option option" where
  "find_handler handler count L =
     do { dbug_assert (count < length (m_comparators L)); Some (handler_loop (m_comparators L) handler 0 count) }"

definition add_predicant :: "item list \<Rightarrow> nat \<Rightarrow> pred_list \<Rightarrow> pred_list option" where
  "add_predicant args predicant_index L =
     do { dbug_assert (m_comparators L = []);
          dbug_assert (m_predicant_index L = 0);
          dbug_assert (predicant_index < length args);
          Some (L\<lparr>m_predicant_index := predicant_index\<rparr>) }"

definition pl_cleanup :: "pred_list \<Rightarrow> pred_list" where
  "pl_cleanup L = L\<lparr>m_comparators := [], m_predicant_index := 0\<rparr>"

definition get_comparator_arg_index :: "nat \<Rightarrow> pred_list \<Rightarrow> nat option" where
  "get_comparator_arg_index i L = map_option m_arg_index (nth_opt (m_comparators L) i)"

text \<open>
  The cached value of the predicant is refreshed by the leftmost pair of each type handler. The
  \<open>null_value\<close> of the predicant is part of the state, since the later pairs only read it.
\<close>

definition refresh :: "bool \<Rightarrow> item list \<Rightarrow> nat \<Rightarrow> pred_list \<Rightarrow> bool \<Rightarrow> (cmp_item \<times> pred_list \<times> bool) option" where
  "refresh mem args i L nul =
     do { c \<leftarrow> nth_opt (m_comparators L) i;
          let h = m_handler_index c;
          cmp \<leftarrow> nth_opt (m_comparators L) h;
          in_item \<leftarrow> m_cmp_item cmp;
          pred \<leftarrow> nth_opt args (m_predicant_index L);
          let (in_item, nul) = (if h = i then store_value mem in_item pred else (in_item, nul));
          Some (in_item, L\<lparr>m_comparators := (m_comparators L)[h := cmp\<lparr>m_cmp_item := Some in_item\<rparr>]\<rparr>, nul) }"

definition cmp_arg :: "bool \<Rightarrow> (u8 list \<Rightarrow> u8 list \<Rightarrow> int) \<Rightarrow> nat \<Rightarrow> item list \<Rightarrow> nat \<Rightarrow> pred_list \<Rightarrow> bool \<Rightarrow>
    (cmp_result \<times> pred_list \<times> bool) option" where
  "cmp_arg mem sortcmp type_handler_row args i L nul =
     do { (in_item, L, nul) \<leftarrow> refresh mem args i L nul;
          c \<leftarrow> nth_opt (m_comparators L) i;
          if nul \<and> m_handler c \<noteq> Some type_handler_row then Some (Is_unknown, L, nul)
          else do { arg \<leftarrow> nth_opt args (m_arg_index c); Some (item_cmp sortcmp in_item arg, L, nul) } }"

definition cmp_args_nulls_equal :: "bool \<Rightarrow> (u8 list \<Rightarrow> u8 list \<Rightarrow> int) \<Rightarrow> (nat \<Rightarrow> item \<Rightarrow> sql_value) \<Rightarrow> item list \<Rightarrow> nat \<Rightarrow>
    pred_list \<Rightarrow> bool \<Rightarrow> (cmp_result \<times> pred_list \<times> bool) option" where
  "cmp_args_nulls_equal mem sortcmp save args i L nul =
     do { (in_item, L, nul) \<leftarrow> refresh mem args i L nul;
          c \<leftarrow> nth_opt (m_comparators L) i;
          arg \<leftarrow> nth_opt args (m_arg_index c);
          h \<leftarrow> m_handler c;
          let val = save h arg;
          if nul \<and> val = Null_value then Some (Is_false, L, nul)
          else if nul \<or> val = Null_value then Some (Is_unknown, L, nul)
          else do { rc \<leftarrow> cmp_not_null sortcmp in_item val; Some (rc, L, nul) } }"

text \<open>The loops of \<open>cmp\<close> and \<open>cmp_nulls_equal\<close>: not found or found, the index, and whether an unknown result was met.\<close>

fun cmp_loop :: "(nat \<Rightarrow> pred_list \<Rightarrow> bool \<Rightarrow> (cmp_result \<times> pred_list \<times> bool) option) \<Rightarrow> nat list \<Rightarrow> nat \<Rightarrow> bool option \<Rightarrow> pred_list \<Rightarrow> bool \<Rightarrow>
    (bool \<times> nat \<times> bool option \<times> pred_list \<times> bool) option" where
  "cmp_loop cmp [] idx unk L nul = Some (True, idx, unk, L, nul)"
| "cmp_loop cmp (i # is) idx unk L nul =
     do { c \<leftarrow> nth_opt (m_comparators L) i;
          dbug_assert (m_handler c \<noteq> None);
          (rc, L, nul) \<leftarrow> cmp i L nul;
          if rc = Is_false then Some (False, m_arg_index c, unk, L, nul)
          else if rc = Is_unknown
          then case unk of None \<Rightarrow> Some (True, idx, None, L, nul) | Some _ \<Rightarrow> cmp_loop cmp is idx (Some True) L nul
          else cmp_loop cmp is idx unk L nul }"

definition pl_cmp :: "bool \<Rightarrow> (u8 list \<Rightarrow> u8 list \<Rightarrow> int) \<Rightarrow> nat \<Rightarrow> item list \<Rightarrow> nat \<Rightarrow> bool option \<Rightarrow> pred_list \<Rightarrow> bool \<Rightarrow>
    (bool \<times> nat \<times> bool option \<times> pred_list \<times> bool) option" where
  "pl_cmp mem sortcmp row args idx unk L nul = cmp_loop (cmp_arg mem sortcmp row args) [0..<length (m_comparators L)] idx unk L nul"

text \<open>\<open>cmp_nulls_equal\<close> ignores unknown results.\<close>

definition pl_cmp_nulls_equal :: "bool \<Rightarrow> (u8 list \<Rightarrow> u8 list \<Rightarrow> int) \<Rightarrow> (nat \<Rightarrow> item \<Rightarrow> sql_value) \<Rightarrow> item list \<Rightarrow> nat \<Rightarrow> pred_list \<Rightarrow> bool \<Rightarrow>
    (bool \<times> nat \<times> bool option \<times> pred_list \<times> bool) option" where
  "pl_cmp_nulls_equal mem sortcmp save args idx L nul =
     cmp_loop (cmp_args_nulls_equal mem sortcmp save args) [0..<length (m_comparators L)] idx (Some False) L nul"

section \<open>Arguments of \<open>CASE\<close> and \<open>IN\<close>\<close>

definition searched_when_count :: "nat \<Rightarrow> nat" where "searched_when_count arg_count = arg_count div 2"
definition searched_with_else :: "nat \<Rightarrow> bool" where "searched_with_else arg_count \<longleftrightarrow> arg_count mod 2 \<noteq> 0"
definition simple_when_count :: "nat \<Rightarrow> nat" where "simple_when_count arg_count = (arg_count - 1) div 2"
definition simple_with_else :: "nat \<Rightarrow> bool" where "simple_with_else arg_count \<longleftrightarrow> arg_count mod 2 = 0"

definition all_items_are_consts :: "item list \<Rightarrow> bool" where
  "all_items_are_consts its \<longleftrightarrow> list_all can_eval_in_optimize its"

section \<open>Equality in SQL\<close>

datatype cmp_kind = Kind_int | Kind_real | Kind_string

fun kind :: "cmp_item \<Rightarrow> cmp_kind" where
  "kind (Cmp_item_int v n) = Kind_int"
| "kind (Cmp_item_real v n) = Kind_real"
| "kind (Cmp_item_string v n) = Kind_string"

fun null_in :: "cmp_kind \<Rightarrow> item \<Rightarrow> bool" where
  "null_in Kind_int it = int_null it"
| "null_in Kind_real it = real_null it"
| "null_in Kind_string it = str_null it"

fun equal_in :: "(u8 list \<Rightarrow> u8 list \<Rightarrow> int) \<Rightarrow> cmp_kind \<Rightarrow> item \<Rightarrow> item \<Rightarrow> bool" where
  "equal_in sortcmp Kind_int a b \<longleftrightarrow> val_int a = val_int b"
| "equal_in sortcmp Kind_real a b \<longleftrightarrow> val_real a = val_real b"
| "equal_in sortcmp Kind_string a b \<longleftrightarrow> sortcmp (the (val_str a)) (the (val_str b)) = 0"

text \<open>Strings that are not \<open>NULL\<close> have a value.\<close>

definition item_ok :: "item \<Rightarrow> bool" where
  "item_ok it \<longleftrightarrow> (str_null it \<longleftrightarrow> val_str it = None)"

text \<open>The result of comparing two items in a context: unknown if one of them is \<open>NULL\<close>.\<close>

definition sql_differs :: "(u8 list \<Rightarrow> u8 list \<Rightarrow> int) \<Rightarrow> cmp_kind \<Rightarrow> item \<Rightarrow> item \<Rightarrow> cmp_result" where
  "sql_differs sortcmp k a b =
     (if null_in k a \<or> null_in k b then Is_unknown else if equal_in sortcmp k a b then Is_false else Is_true)"

text \<open>The same with two \<open>NULL\<close>s equal.\<close>

definition nulls_equal_differs :: "(u8 list \<Rightarrow> u8 list \<Rightarrow> int) \<Rightarrow> cmp_kind \<Rightarrow> item \<Rightarrow> item \<Rightarrow> cmp_result" where
  "nulls_equal_differs sortcmp k a b = (if null_in k a \<and> null_in k b then Is_false else sql_differs sortcmp k a b)"

lemma store_value_kind: "kind c = kind c' \<Longrightarrow> store_value mem c it = store_value mem c' it"
  by (cases c; cases c') simp_all

lemma store_value_results:
  "kind (fst (store_value mem c it)) = kind c" "snd (store_value mem c it) = null_in (kind c) it"
  by (cases c; simp)+

lemma store_then_cmp:
  assumes "item_ok a" and "item_ok b"
  shows "item_cmp sortcmp (fst (store_value True c a)) b = sql_differs sortcmp (kind c) a b"
  using assms by (cases c) (auto simp: sql_differs_def of_bool_result_def item_ok_def)

text \<open>What \<open>Item_save_in_value\<close> delivers for a type handler whose values are compared as the given kind.\<close>

fun value_saved_as :: "cmp_kind \<Rightarrow> item \<Rightarrow> sql_value" where
  "value_saved_as Kind_int it = (if int_null it then Null_value else Longlong_value (val_int it))"
| "value_saved_as Kind_real it = (if real_null it then Null_value else Double_value (val_real it))"
| "value_saved_as Kind_string it = (if str_null it then Null_value else String_value (the (val_str it)))"

lemma saved_null: "value_saved_as k it = Null_value \<longleftrightarrow> null_in k it"
  by (cases k) simp_all

lemma store_then_cmp_not_null:
  assumes "item_ok a" and "\<not> null_in (kind c) a" and "\<not> null_in (kind c) b"
  shows "cmp_not_null sortcmp (fst (store_value True c a)) (value_saved_as (kind c) b) = Some (sql_differs sortcmp (kind c) a b)"
  using assms by (cases c) (auto simp: sql_differs_def of_bool_result_def item_ok_def)

section \<open>Well-formed lists\<close>

definition pair_kind :: "pred_list \<Rightarrow> nat \<Rightarrow> cmp_kind" where
  "pair_kind L i = kind (the (m_cmp_item (m_comparators L ! m_handler_index (m_comparators L ! i))))"

text \<open>
  The state after \<open>all_values_added\<close> and \<open>make_unique_cmp_items\<close>, as documented: the handler index of a pair is the
  leftmost pair with the same type handler, and exactly those leftmost pairs have a \<open>cmp_item\<close>. The
  pairs are scalars, and the predicant is null in every context or in none.
\<close>

definition comparators_ok :: "nat \<Rightarrow> item list \<Rightarrow> pred_list \<Rightarrow> bool" where
  "comparators_ok row args L \<longleftrightarrow> m_predicant_index L < length args \<and> (\<forall>it \<in> set args. item_ok it) \<and>
     (\<forall>i < length (m_comparators L). let c = m_comparators L ! i; h = m_handler_index c in
        m_handler c \<noteq> None \<and> m_handler c \<noteq> Some row \<and> m_arg_index c < length args \<and> h \<le> i \<and>
        m_handler (m_comparators L ! h) = m_handler c \<and> m_handler_index (m_comparators L ! h) = h \<and>
        m_cmp_item (m_comparators L ! h) \<noteq> None)"

definition predicant_null :: "item list \<Rightarrow> pred_list \<Rightarrow> bool \<Rightarrow> bool" where
  "predicant_null args L pn \<longleftrightarrow> (\<forall>i < length (m_comparators L). null_in (pair_kind L i) (args ! m_predicant_index L) = pn)"

text \<open>During a run the lists differ only in the cached values, and the pairs before \<open>i\<close> have theirs refreshed.\<close>

definition refreshed :: "nat \<Rightarrow> item \<Rightarrow> pred_list \<Rightarrow> pred_list \<Rightarrow> bool" where
  "refreshed i pred L0 L \<longleftrightarrow> m_predicant_index L = m_predicant_index L0 \<and> length (m_comparators L) = length (m_comparators L0) \<and>
     (\<forall>j < length (m_comparators L0). let c0 = m_comparators L0 ! j; c = m_comparators L ! j in
        c\<lparr>m_cmp_item := m_cmp_item c0\<rparr> = c0 \<and> map_option kind (m_cmp_item c) = map_option kind (m_cmp_item c0) \<and>
        (j < i \<and> m_handler_index c0 = j \<longrightarrow> m_cmp_item c = map_option (\<lambda>x. fst (store_value True x pred)) (m_cmp_item c0)))"

lemma refreshed_refl: "refreshed 0 pred L L"
  by (simp add: refreshed_def Let_def)

lemma refreshed_fields:
  assumes "refreshed i pred L0 L" and "j < length (m_comparators L0)"
  shows "m_handler (m_comparators L ! j) = m_handler (m_comparators L0 ! j)"
    and "m_arg_index (m_comparators L ! j) = m_arg_index (m_comparators L0 ! j)"
    and "m_handler_index (m_comparators L ! j) = m_handler_index (m_comparators L0 ! j)"
proof -
  from assms have "(m_comparators L ! j)\<lparr>m_cmp_item := m_cmp_item (m_comparators L0 ! j)\<rparr> = m_comparators L0 ! j"
    by (simp add: refreshed_def Let_def)
  then show "m_handler (m_comparators L ! j) = m_handler (m_comparators L0 ! j)"
    "m_arg_index (m_comparators L ! j) = m_arg_index (m_comparators L0 ! j)"
    "m_handler_index (m_comparators L ! j) = m_handler_index (m_comparators L0 ! j)"
    by (metis comparator.select_convs(1,3,4) comparator.surjective comparator.update_convs(2))+
qed

lemma refresh_step:
  assumes ok: "comparators_ok row args L0" and ref: "refreshed i pred L0 L" and i: "i < length (m_comparators L0)"
    and pred: "pred = args ! m_predicant_index L0" and pn: "predicant_null args L0 pn" and nul: "0 < i \<longrightarrow> nul = pn"
  obtains x L' where "refresh True args i L nul = Some (fst (store_value True x pred), L', pn)" "kind x = pair_kind L0 i"
    "refreshed (Suc i) pred L0 L'"
proof -
  let ?ds = "m_comparators L0" and ?cs = "m_comparators L"
  define h where "h = m_handler_index (?ds ! i)"
  from ok i have h: "h \<le> i" "m_handler_index (?ds ! h) = h" "m_cmp_item (?ds ! h) \<noteq> None"
    by (simp_all add: comparators_ok_def h_def Let_def)
  then obtain x where x: "m_cmp_item (?ds ! h) = Some x" by blast
  then have k: "kind x = pair_kind L0 i" by (simp add: pair_kind_def h_def)
  have hn: "h < length ?ds" "length ?cs = length ?ds" "m_predicant_index L = m_predicant_index L0"
    using h(1) i ref by (simp_all add: refreshed_def)
  from ref hn(1) x have "map_option kind (m_cmp_item (?cs ! h)) = Some (kind x)" by (simp add: refreshed_def Let_def)
  then obtain y where y: "m_cmp_item (?cs ! h) = Some y" "kind y = kind x" by auto
  have hi: "m_handler_index (?cs ! i) = h" using refreshed_fields(3) [OF ref i] by (simp add: h_def)
  have pr: "nth_opt args (m_predicant_index L) = Some pred" using ok hn(3) pred by (simp add: comparators_ok_def nth_opt_def)
  let ?z = "fst (store_value True x pred)"
  let ?L = "L\<lparr>m_comparators := ?cs[h := (?cs ! h)\<lparr>m_cmp_item := Some ?z\<rparr>]\<rparr>"
  have old: "y = ?z" if "h \<noteq> i" using ref hn(1) h that x y(1) by (simp add: refreshed_def Let_def)
  have "snd (store_value True x pred) = pn" using pn i by (simp add: store_value_results k predicant_null_def pred)
  then have step: "(if h = i then store_value True y pred else (y, nul)) = (?z, pn)"
    using store_value_kind [OF y(2)] old nul h(1) by (cases "h = i") (auto simp: prod_eq_iff)
  have "refresh True args i L nul = Some (?z, ?L, pn)"
    using i hn pr y(1) by (simp add: refresh_def nth_opt_def hi step del: split_paired_All)
  moreover have "refreshed (Suc i) pred L0 ?L"
    unfolding refreshed_def Let_def
  proof (intro conjI allI impI)
    fix j assume j: "j < length ?ds"
    have same: "(?cs ! j)\<lparr>m_cmp_item := m_cmp_item (?ds ! j)\<rparr> = ?ds ! j"
      "map_option kind (m_cmp_item (?cs ! j)) = map_option kind (m_cmp_item (?ds ! j))"
      "j < i \<and> m_handler_index (?ds ! j) = j \<longrightarrow> m_cmp_item (?cs ! j) = map_option (\<lambda>x. fst (store_value True x pred)) (m_cmp_item (?ds ! j))"
      using ref j by (simp_all add: refreshed_def Let_def)
    show "(m_comparators ?L ! j)\<lparr>m_cmp_item := m_cmp_item (?ds ! j)\<rparr> = ?ds ! j"
      using same(1) j hn by (cases "j = h") simp_all
    show "map_option kind (m_cmp_item (m_comparators ?L ! j)) = map_option kind (m_cmp_item (?ds ! j))"
      using same(2) j hn x by (cases "j = h") (simp_all add: store_value_results)
    show "m_cmp_item (m_comparators ?L ! j) = map_option (\<lambda>x. fst (store_value True x pred)) (m_cmp_item (?ds ! j))"
      if "j < Suc i \<and> m_handler_index (?ds ! j) = j"
      using same(3) j hn x that h_def by (cases "j = h") (auto simp: less_Suc_eq)
  qed (use hn in simp_all)
  ultimately show thesis using that k by blast
qed

text \<open>What a comparison of the pair \<open>i\<close> has to deliver, and what the loop makes of it.\<close>

definition computes :: "(nat \<Rightarrow> pred_list \<Rightarrow> bool \<Rightarrow> (cmp_result \<times> pred_list \<times> bool) option) \<Rightarrow> (nat \<Rightarrow> cmp_result) \<Rightarrow> item \<Rightarrow> pred_list \<Rightarrow> bool \<Rightarrow> bool" where
  "computes cmp rc pred L0 pn \<longleftrightarrow> (\<forall>i L nul. i < length (m_comparators L0) \<and> refreshed i pred L0 L \<and> (0 < i \<longrightarrow> nul = pn) \<longrightarrow>
     (\<exists>L'. cmp i L nul = Some (rc i, L', pn) \<and> refreshed (Suc i) pred L0 L'))"

lemma cmp_arg_computes:
  assumes "comparators_ok row args L0" and "pred = args ! m_predicant_index L0" and "predicant_null args L0 pn"
  shows "computes (cmp_arg True sortcmp row args) (\<lambda>i. sql_differs sortcmp (pair_kind L0 i) pred (args ! m_arg_index (m_comparators L0 ! i))) pred L0 pn"
  unfolding computes_def
proof (intro allI impI)
  fix i L nul assume a: "i < length (m_comparators L0) \<and> refreshed i pred L0 L \<and> (0 < i \<longrightarrow> nul = pn)"
  then obtain x L' where r: "refresh True args i L nul = Some (fst (store_value True x pred), L', pn)" "kind x = pair_kind L0 i"
    "refreshed (Suc i) pred L0 L'" using refresh_step [OF assms(1) _ _ assms(2, 3), of i L nul] by blast
  let ?c = "m_comparators L0 ! i"
  have len: "length (m_comparators L') = length (m_comparators L0)" using r(3) by (simp add: refreshed_def)
  have c: "m_handler ?c \<noteq> Some row" "m_arg_index ?c < length args" "\<forall>it \<in> set args. item_ok it" "pred \<in> set args"
    using assms(1, 2) a by (auto simp: comparators_ok_def Let_def)
  have "null_in (pair_kind L0 i) pred = pn" using assms(2, 3) a by (simp add: predicant_null_def)
  then have "sql_differs sortcmp (pair_kind L0 i) pred (args ! m_arg_index ?c) = Is_unknown" if pn
    using that by (simp add: sql_differs_def)
  then have "cmp_arg True sortcmp row args i L nul = Some (sql_differs sortcmp (pair_kind L0 i) pred (args ! m_arg_index ?c), L', pn)"
    using r(1, 2) refreshed_fields [OF r(3)] a c len store_then_cmp [of pred "args ! m_arg_index ?c" sortcmp x]
    by (simp add: cmp_arg_def nth_opt_def)
  then show "\<exists>L'. cmp_arg True sortcmp row args i L nul =
      Some (sql_differs sortcmp (pair_kind L0 i) pred (args ! m_arg_index ?c), L', pn) \<and> refreshed (Suc i) pred L0 L'"
    using r(3) by blast
qed

definition save_ok :: "(nat \<Rightarrow> item \<Rightarrow> sql_value) \<Rightarrow> pred_list \<Rightarrow> bool" where
  "save_ok save L \<longleftrightarrow> (\<forall>i < length (m_comparators L). \<forall>it. save (the (m_handler (m_comparators L ! i))) it = value_saved_as (pair_kind L i) it)"

lemma nulls_equal_computes:
  assumes "comparators_ok row args L0" and "pred = args ! m_predicant_index L0" and "predicant_null args L0 pn" and "save_ok save L0"
  shows "computes (cmp_args_nulls_equal True sortcmp save args)
    (\<lambda>i. nulls_equal_differs sortcmp (pair_kind L0 i) pred (args ! m_arg_index (m_comparators L0 ! i))) pred L0 pn"
  unfolding computes_def
proof (intro allI impI)
  fix i L nul assume a: "i < length (m_comparators L0) \<and> refreshed i pred L0 L \<and> (0 < i \<longrightarrow> nul = pn)"
  then obtain x L' where r: "refresh True args i L nul = Some (fst (store_value True x pred), L', pn)" "kind x = pair_kind L0 i"
    "refreshed (Suc i) pred L0 L'" using refresh_step [OF assms(1) _ _ assms(2, 3), of i L nul] by blast
  let ?c = "m_comparators L0 ! i" and ?b = "args ! m_arg_index (m_comparators L0 ! i)"
  have len: "length (m_comparators L') = length (m_comparators L0)" using r(3) by (simp add: refreshed_def)
  have c: "m_arg_index ?c < length args" "item_ok pred" using assms(1, 2) a by (auto simp: comparators_ok_def Let_def)
  from assms(1) a obtain hd where hd: "m_handler ?c = Some hd" by (auto simp: comparators_ok_def Let_def)
  then have save: "save hd ?b = value_saved_as (kind x) ?b" using assms(4) a r(2) by (simp add: save_ok_def) (metis option.sel)
  have p: "null_in (kind x) pred = pn" using assms(2, 3) a r(2) by (simp add: predicant_null_def)
  have "cmp_args_nulls_equal True sortcmp save args i L nul = Some (nulls_equal_differs sortcmp (kind x) pred ?b, L', pn)"
  proof (cases "pn \<or> null_in (kind x) ?b")
    case True
    then show ?thesis using r(1) refreshed_fields [OF r(3)] a c len hd p
      by (auto simp: cmp_args_nulls_equal_def nth_opt_def save saved_null nulls_equal_differs_def sql_differs_def Let_def)
  next
    case False
    then show ?thesis using r(1) refreshed_fields [OF r(3)] a c len hd p store_then_cmp_not_null [of pred x ?b sortcmp]
      by (simp add: cmp_args_nulls_equal_def nth_opt_def save saved_null nulls_equal_differs_def Let_def)
  qed
  then show "\<exists>L'. cmp_args_nulls_equal True sortcmp save args i L nul =
      Some (nulls_equal_differs sortcmp (pair_kind L0 i) pred ?b, L', pn) \<and> refreshed (Suc i) pred L0 L'"
    using r(2, 3) by auto
qed

lemma cmp_loop_finds:
  assumes "computes cmp rc pred L0 pn" and "comparators_ok row args L0"
    and "refreshed i pred L0 L" and "i \<le> length (m_comparators L0)" and "0 < i \<longrightarrow> nul = pn"
  shows "\<exists>L' nul' u' k. cmp_loop cmp [i..<length (m_comparators L0)] idx (Some u) L nul =
      (case find (\<lambda>j. rc j = Is_false) [i..<length (m_comparators L0)] of
         Some j \<Rightarrow> Some (False, m_arg_index (m_comparators L0 ! j), Some u', L', nul')
       | None \<Rightarrow> Some (True, idx, Some u', L', nul')) \<and>
    (find (\<lambda>j. rc j = Is_false) [i..<length (m_comparators L0)] = None \<longrightarrow> u' = (u \<or> (\<exists>j \<in> {i..<length (m_comparators L0)}. rc j = Is_unknown))) \<and>
    refreshed k pred L0 L'"
  using assms(3-5)
proof (induction "length (m_comparators L0) - i" arbitrary: i L nul u)
  case 0
  then show ?case by auto
next
  case (Suc d)
  then have i: "i < length (m_comparators L0)" by simp
  obtain L' where c: "cmp i L nul = Some (rc i, L', pn)" "refreshed (Suc i) pred L0 L'"
    using assms(1) i Suc.prems(1, 3) unfolding computes_def by blast
  have f: "nth_opt (m_comparators L) i = Some (m_comparators L ! i)" "m_handler (m_comparators L ! i) \<noteq> None"
    "m_arg_index (m_comparators L ! i) = m_arg_index (m_comparators L0 ! i)"
    using refreshed_fields [OF Suc.prems(1) i] Suc.prems(1) assms(2) i by (auto simp: nth_opt_def refreshed_def comparators_ok_def Let_def)
  have upt: "[i..<length (m_comparators L0)] = i # [Suc i..<length (m_comparators L0)]" using i by (simp add: upt_conv_Cons)
  have set: "{i..<length (m_comparators L0)} = insert i {Suc i..<length (m_comparators L0)}" using i by auto
  show ?case
  proof (cases "rc i = Is_false")
    case True
    then show ?thesis using c f unfolding upt by auto
  next
    case False
    have d: "d = length (m_comparators L0) - Suc i" using Suc.hyps(2) by simp
    let ?is = "[Suc i..<length (m_comparators L0)]" and ?v = "u \<or> rc i = Is_unknown"
    obtain L'' nul' u' k where ih: "cmp_loop cmp ?is idx (Some ?v) L' pn =
      (case find (\<lambda>j. rc j = Is_false) ?is of
         Some j \<Rightarrow> Some (False, m_arg_index (m_comparators L0 ! j), Some u', L'', nul')
       | None \<Rightarrow> Some (True, idx, Some u', L'', nul'))"
      "find (\<lambda>j. rc j = Is_false) ?is = None \<longrightarrow> u' = (?v \<or> (\<exists>j \<in> {Suc i..<length (m_comparators L0)}. rc j = Is_unknown))" "refreshed k pred L0 L''"
      using Suc.hyps(1) [OF d c(2), of pn ?v] i by (elim exE conjE meta_impE) simp_all
    have "cmp_loop cmp [i..<length (m_comparators L0)] idx (Some u) L nul = cmp_loop cmp ?is idx (Some ?v) L' pn"
      using False c(1) f(1, 2) unfolding upt by (cases "rc i") auto
    moreover have "find (\<lambda>j. rc j = Is_false) [i..<length (m_comparators L0)] = find (\<lambda>j. rc j = Is_false) ?is"
      using False unfolding upt by simp
    moreover have "(u \<or> (\<exists>j \<in> {i..<length (m_comparators L0)}. rc j = Is_unknown)) \<longleftrightarrow>
        ?v \<or> (\<exists>j \<in> {Suc i..<length (m_comparators L0)}. rc j = Is_unknown)" unfolding set by blast
    ultimately show ?thesis using ih by (intro exI conjI) (simp_all only:)
  qed
qed

lemma cmp_loop_stops:
  assumes "computes cmp rc pred L0 pn" and "comparators_ok row args L0"
    and "refreshed i pred L0 L" and "i \<le> length (m_comparators L0)" and "0 < i \<longrightarrow> nul = pn"
  shows "\<exists>L' nul'. cmp_loop cmp [i..<length (m_comparators L0)] idx None L nul =
      (case find (\<lambda>j. rc j \<noteq> Is_true) [i..<length (m_comparators L0)] of
         Some j \<Rightarrow> Some (if rc j = Is_false then (False, m_arg_index (m_comparators L0 ! j), None, L', nul') else (True, idx, None, L', nul'))
       | None \<Rightarrow> Some (True, idx, None, L', nul'))"
  using assms(3-5)
proof (induction "length (m_comparators L0) - i" arbitrary: i L nul)
  case 0
  then show ?case by auto
next
  case (Suc d)
  then have i: "i < length (m_comparators L0)" by simp
  obtain L' where c: "cmp i L nul = Some (rc i, L', pn)" "refreshed (Suc i) pred L0 L'"
    using assms(1) i Suc.prems(1, 3) unfolding computes_def by blast
  have f: "nth_opt (m_comparators L) i = Some (m_comparators L ! i)" "m_handler (m_comparators L ! i) \<noteq> None"
    "m_arg_index (m_comparators L ! i) = m_arg_index (m_comparators L0 ! i)"
    using refreshed_fields [OF Suc.prems(1) i] Suc.prems(1) assms(2) i by (auto simp: nth_opt_def refreshed_def comparators_ok_def Let_def)
  have upt: "[i..<length (m_comparators L0)] = i # [Suc i..<length (m_comparators L0)]" using i by (simp add: upt_conv_Cons)
  show ?case
    using Suc.hyps(1) [of "Suc i" L' pn] Suc.hyps(2) c f i unfolding upt by (cases "rc i") auto
qed

text \<open>A list after a run is as good as before: only cached values have changed.\<close>

lemma refreshed_ok:
  assumes "refreshed i pred L0 L" and "comparators_ok row args L0"
  shows "comparators_ok row args L" and "\<forall>j < length (m_comparators L0). pair_kind L j = pair_kind L0 j"
proof -
  let ?n = "length (m_comparators L0)"
  have len: "length (m_comparators L) = ?n" "m_predicant_index L = m_predicant_index L0" using assms(1) by (simp_all add: refreshed_def)
  have item: "map_option kind (m_cmp_item (m_comparators L ! j)) = map_option kind (m_cmp_item (m_comparators L0 ! j))" if "j < ?n" for j
    using assms(1) that by (simp add: refreshed_def Let_def)
  have h: "m_handler_index (m_comparators L0 ! j) < ?n" "m_cmp_item (m_comparators L0 ! m_handler_index (m_comparators L0 ! j)) \<noteq> None" if "j < ?n" for j
    using assms(2) that by (auto simp: comparators_ok_def Let_def intro: le_less_trans)
  show "comparators_ok row args L"
    using assms(2) refreshed_fields [OF assms(1)] item h len unfolding comparators_ok_def Let_def by (metis None_eq_map_option_iff)
  show "\<forall>j < ?n. pair_kind L j = pair_kind L0 j"
    using refreshed_fields(3) [OF assms(1)] item h unfolding pair_kind_def by (metis option.map_sel option.map_disc_iff)
qed

section \<open>\<open>IN\<close>, \<open>CASE\<close> and \<open>DECODE\<close>\<close>

text \<open>
  Property C16: comparing a value to a list computes the three-valued logic of \<open>IN\<close>. If the value equals an element, in the
  type the pair is compared in, the first such element is found; otherwise the comparison reports an unknown
  result exactly when the value or one of the elements is \<open>NULL\<close>. The cached values of earlier
  rows never show, although pairs of the same type share one cache, and the list can be used for
  the next row. With equal \<open>NULL\<close>s, for \<open>DECODE\<close>, the first equal element is found as well.
\<close>

theorem in_list_semantics:
  assumes "comparators_ok row args L" and "predicant_null args L pn" and "save_ok save L"
    and "rc = (\<lambda>i. sql_differs sortcmp (pair_kind L i) (args ! m_predicant_index L) (args ! m_arg_index (m_comparators L ! i)))"
    and "rd = (\<lambda>i. nulls_equal_differs sortcmp (pair_kind L i) (args ! m_predicant_index L) (args ! m_arg_index (m_comparators L ! i)))"
  shows "(\<exists>L' nul' u'. pl_cmp True sortcmp row args idx (Some False) L nul =
      (case find (\<lambda>i. rc i = Is_false) [0..<length (m_comparators L)] of
         Some i \<Rightarrow> Some (False, m_arg_index (m_comparators L ! i), Some u', L', nul')
       | None \<Rightarrow> Some (True, idx, Some (\<exists>i < length (m_comparators L). rc i = Is_unknown), L', nul')) \<and>
      comparators_ok row args L' \<and> (\<forall>j < length (m_comparators L). pair_kind L' j = pair_kind L j)) \<and>
    (\<exists>L' nul' u'. pl_cmp_nulls_equal True sortcmp save args idx L nul =
      (case find (\<lambda>i. rd i = Is_false) [0..<length (m_comparators L)] of
         Some i \<Rightarrow> Some (False, m_arg_index (m_comparators L ! i), Some u', L', nul')
       | None \<Rightarrow> Some (True, idx, Some u', L', nul')))"
proof
  let ?n = "length (m_comparators L)"
  have c: "computes (cmp_arg True sortcmp row args) rc (args ! m_predicant_index L) L pn"
    unfolding assms(4) by (rule cmp_arg_computes [OF assms(1) refl assms(2)])
  from cmp_loop_finds [OF c assms(1) refreshed_refl, of nul idx False]
  obtain L' nul' u' k where r: "cmp_loop (cmp_arg True sortcmp row args) [0..<?n] idx (Some False) L nul =
      (case find (\<lambda>j. rc j = Is_false) [0..<?n] of Some j \<Rightarrow> Some (False, m_arg_index (m_comparators L ! j), Some u', L', nul')
       | None \<Rightarrow> Some (True, idx, Some u', L', nul'))"
    "find (\<lambda>j. rc j = Is_false) [0..<?n] = None \<longrightarrow> u' = (\<exists>j \<in> {0..<?n}. rc j = Is_unknown)" "refreshed k (args ! m_predicant_index L) L L'"
    by auto
  have "cmp_loop (cmp_arg True sortcmp row args) [0..<?n] idx (Some False) L nul =
      (case find (\<lambda>i. rc i = Is_false) [0..<?n] of
         Some i \<Rightarrow> Some (False, m_arg_index (m_comparators L ! i), Some u', L', nul')
       | None \<Rightarrow> Some (True, idx, Some (\<exists>i < ?n. rc i = Is_unknown), L', nul'))"
    using r(1, 2) by (simp add: Bex_def split: option.splits)
  then show "\<exists>L' nul' u'. pl_cmp True sortcmp row args idx (Some False) L nul =
      (case find (\<lambda>i. rc i = Is_false) [0..<?n] of
         Some i \<Rightarrow> Some (False, m_arg_index (m_comparators L ! i), Some u', L', nul')
       | None \<Rightarrow> Some (True, idx, Some (\<exists>i < ?n. rc i = Is_unknown), L', nul')) \<and>
      comparators_ok row args L' \<and> (\<forall>j < ?n. pair_kind L' j = pair_kind L j)"
    using refreshed_ok [OF r(3) assms(1)] unfolding pl_cmp_def by blast
next
  have d: "computes (cmp_args_nulls_equal True sortcmp save args) rd (args ! m_predicant_index L) L pn"
    unfolding assms(5) by (rule nulls_equal_computes [OF assms(1) refl assms(2, 3)])
  from cmp_loop_finds [OF d assms(1) refreshed_refl, of nul idx False]
  show "\<exists>L' nul' u'. pl_cmp_nulls_equal True sortcmp save args idx L nul =
      (case find (\<lambda>i. rd i = Is_false) [0..<length (m_comparators L)] of
         Some i \<Rightarrow> Some (False, m_arg_index (m_comparators L ! i), Some u', L', nul')
       | None \<Rightarrow> Some (True, idx, Some u', L', nul'))"
    unfolding pl_cmp_nulls_equal_def by auto
qed

definition int_item :: "int \<Rightarrow> item" where
  "int_item n = \<lparr>val_int = n, int_null = False, val_real = 0, real_null = False, val_str = Some [], str_null = False, can_eval_in_optimize = True\<rparr>"

definition null_item :: item where
  "null_item = \<lparr>val_int = 0, int_null = True, val_real = 0, real_null = True, val_str = None, str_null = True, can_eval_in_optimize = True\<rparr>"

text \<open>Two integers compared by the same type handler, number 5; the cached value is left from another row.\<close>

definition two_ints :: pred_list where
  "two_ints = \<lparr>m_comparators = [\<lparr>m_handler = Some 5, m_cmp_item = Some (Cmp_item_int 77 True), m_arg_index = 1, m_handler_index = 0\<rparr>,
     \<lparr>m_handler = Some 5, m_cmp_item = None, m_arg_index = 2, m_handler_index = 0\<rparr>], m_predicant_index = 0\<rparr>"

lemma two_ints_ok: "comparators_ok 9 [int_item n, null_item, int_item k] two_ints" "predicant_null [int_item n, null_item, int_item k] two_ints False"
  "save_ok (\<lambda>h. value_saved_as Kind_int) two_ints" "pair_kind two_ints 0 = Kind_int" "pair_kind two_ints 1 = Kind_int"
  by (auto simp: comparators_ok_def predicant_null_def save_ok_def pair_kind_def two_ints_def int_item_def null_item_def item_ok_def less_Suc_eq Let_def
      numeral_2_eq_2)

theorem in_list_semantics_witness:
  "\<exists>L nul. pl_cmp True (\<lambda>a b. 0) 9 [int_item 2, null_item, int_item 3] 40 (Some False) two_ints True = Some (True, 40, Some True, L, nul)"
proof -
  let ?args = "[int_item 2, null_item, int_item 3]"
  let ?rc = "\<lambda>i. sql_differs (\<lambda>a b. 0) (pair_kind two_ints i) (?args ! m_predicant_index two_ints) (?args ! m_arg_index (m_comparators two_ints ! i))"
  have n: "length (m_comparators two_ints) = 2" "[0..<2] = [0 :: nat, 1]" by (simp_all add: two_ints_def upt_rec)
  have "?rc 0 = Is_unknown" "?rc 1 = Is_true"
    unfolding two_ints_ok(4, 5) by (simp_all add: two_ints_def sql_differs_def int_item_def null_item_def)
  then have rc: "find (\<lambda>i. ?rc i = Is_false) [0..<length (m_comparators two_ints)] = None" "\<exists>i < length (m_comparators two_ints). ?rc i = Is_unknown"
    unfolding n by (simp, intro exI [of _ 0], simp)
  from in_list_semantics [OF two_ints_ok(1) [of 2 3] two_ints_ok(2) [of 2 3] two_ints_ok(3) refl refl, where sortcmp = "\<lambda>a b. 0" and idx = 40 and nul = True, THEN conjunct1]
  show ?thesis unfolding rc(1) using rc(2) by auto
qed

text \<open>
  A simple \<open>CASE\<close> ends at the first unknown result, also when a later value equals the predicant: a value that
  happens to be \<open>NULL\<close> in some row hides the branches after it.
\<close>

lemma case_stops_at_null:
  assumes "comparators_ok row args L" and "predicant_null args L pn"
    and "rc = (\<lambda>i. sql_differs sortcmp (pair_kind L i) (args ! m_predicant_index L) (args ! m_arg_index (m_comparators L ! i)))"
    and "find (\<lambda>i. rc i \<noteq> Is_true) [0..<length (m_comparators L)] = Some k" and "rc k = Is_unknown"
  shows "\<exists>L' nul'. pl_cmp True sortcmp row args idx None L nul = Some (True, idx, None, L', nul')"
proof -
  have "computes (cmp_arg True sortcmp row args) rc (args ! m_predicant_index L) L pn"
    unfolding assms(3) by (rule cmp_arg_computes [OF assms(1) refl assms(2)])
  from cmp_loop_stops [OF this assms(1) refreshed_refl, of nul idx] show ?thesis
    unfolding pl_cmp_def assms(4) using assms(5) by simp
qed

lemma case_misses_match:
  "\<exists>L nul. pl_cmp True (\<lambda>a b. 0) 9 [int_item 1, null_item, int_item 1] 40 None two_ints False = Some (True, 40, None, L, nul)"
proof -
  let ?args = "[int_item 1, null_item, int_item 1]"
  let ?rc = "\<lambda>i. sql_differs (\<lambda>a b. 0) (pair_kind two_ints i) (?args ! m_predicant_index two_ints) (?args ! m_arg_index (m_comparators two_ints ! i))"
  have n: "length (m_comparators two_ints) = 2" "[0..<2] = [0 :: nat, 1]" by (simp_all add: two_ints_def upt_rec)
  have rc: "?rc 0 = Is_unknown"
    unfolding two_ints_ok(4) by (simp add: two_ints_def sql_differs_def int_item_def null_item_def)
  then have "find (\<lambda>i. ?rc i \<noteq> Is_true) [0..<length (m_comparators two_ints)] = Some 0" unfolding n by simp
  from case_stops_at_null [OF two_ints_ok(1, 2) refl this rc] show ?thesis .
qed

end
