(* ===== verification/DateModes.thy ===== *)
theory DateModes
  imports Prelude "HOL-Library.Monad_Syntax"
begin

text \<open>
  The conversion and rounding modes of temporal values (\<open>date_conv_mode_t\<close>, \<open>time_round_mode_t\<close>
  and \<open>date_mode_t\<close> of \<open>sql_basic_types.h\<close>): sets of flags in one integer, which is the
  \<open>ulonglong\<close> that the classes are built from and converted to.
\<close>

unbundle bit_operations_syntax

section \<open>Flags\<close>

definition CONV_NONE :: u64 where "CONV_NONE = 0"
definition FUZZY_DATES :: u64 where "FUZZY_DATES = 1"
definition TIME_ONLY :: u64 where "TIME_ONLY = 4"
definition INTERVAL_hhmmssff :: u64 where "INTERVAL_hhmmssff = 8"
definition INTERVAL_DAY :: u64 where "INTERVAL_DAY = 16"
definition RANGE0_LAST :: u64 where "RANGE0_LAST = INTERVAL_DAY"
definition NO_ZERO_IN_DATE :: u64 where "NO_ZERO_IN_DATE = push_bit 23 1"
definition NO_ZERO_DATE :: u64 where "NO_ZERO_DATE = push_bit 24 1"
definition INVALID_DATES :: u64 where "INVALID_DATES = push_bit 25 1"

definition KNOWN_CONV_MODES :: u64 where
  "KNOWN_CONV_MODES = FUZZY_DATES OR TIME_ONLY OR INTERVAL_hhmmssff OR INTERVAL_DAY OR
     NO_ZERO_IN_DATE OR NO_ZERO_DATE OR INVALID_DATES"

definition FRAC_NONE :: u64 where "FRAC_NONE = 0"
definition FRAC_TRUNCATE :: u64 where "FRAC_TRUNCATE = push_bit 1 RANGE0_LAST"
definition FRAC_ROUND :: u64 where "FRAC_ROUND = push_bit 2 RANGE0_LAST"

definition KNOWN_ROUND_MODES :: u64 where
  "KNOWN_ROUND_MODES = FRAC_TRUNCATE OR FRAC_ROUND"

definition TIME_NO_ZEROS :: u64 where
  "TIME_NO_ZEROS = NO_ZERO_DATE OR NO_ZERO_IN_DATE"

definition TIME_MODE_FOR_XXX_TO_DATE :: u64 where
  "TIME_MODE_FOR_XXX_TO_DATE = NO_ZERO_IN_DATE OR NO_ZERO_DATE OR INVALID_DATES"

lemmas mode_flags = CONV_NONE_def FUZZY_DATES_def TIME_ONLY_def INTERVAL_hhmmssff_def INTERVAL_DAY_def
  RANGE0_LAST_def NO_ZERO_IN_DATE_def NO_ZERO_DATE_def INVALID_DATES_def KNOWN_CONV_MODES_def
  FRAC_NONE_def FRAC_TRUNCATE_def FRAC_ROUND_def KNOWN_ROUND_MODES_def TIME_NO_ZEROS_def
  TIME_MODE_FOR_XXX_TO_DATE_def

section \<open>Conversions\<close>

definition time_round_mode_t :: "u64 \<Rightarrow> u64 option" where
  "time_round_mode_t mode =
     do { dbug_assert (mode = FRAC_NONE \<or> mode = FRAC_TRUNCATE \<or> mode = FRAC_ROUND); Some mode }"

definition to_conv_mode :: "u64 \<Rightarrow> u64" where
  "to_conv_mode m = m AND KNOWN_CONV_MODES"

definition to_round_mode :: "u64 \<Rightarrow> u64 option" where
  "to_round_mode m = time_round_mode_t (m AND KNOWN_ROUND_MODES)"

definition has_flag :: "u64 \<Rightarrow> u64 \<Rightarrow> bool" where
  "has_flag m f \<longleftrightarrow> m AND f \<noteq> 0"

text \<open>The mode that \<open>Temporal::Options\<close> builds from the two kinds of flags.\<close>

definition Temporal_Options :: "u64 \<Rightarrow> u64 \<Rightarrow> u64 option" where
  "Temporal_Options flags round_mode = do { dbug_assert (flags \<le> 0xFFFFFFFF); Some (flags OR round_mode) }"

section \<open>The two kinds of flags do not mix\<close>

lemma and_or_absorb:
  fixes c r k :: u64
  shows "(c OR r) AND k = (c AND k) OR (r AND k)"
  by (simp add: bit_eq_iff bit_simps; blast)

lemma round_flags: "FRAC_NONE = 0" "FRAC_TRUNCATE = 32" "FRAC_ROUND = 64" "KNOWN_ROUND_MODES = 96" "KNOWN_CONV_MODES = 0x380001D"
  by (simp_all add: mode_flags)

lemma conv_mode_small: "to_conv_mode m = m \<Longrightarrow> m \<le> 0xFFFFFFFF"
proof -
  assume "to_conv_mode m = m"
  then have "m = m AND 0x380001D" by (simp add: to_conv_mode_def round_flags)
  also have "\<dots> \<le> 0x380001D" by (rule word_and_le1)
  finally show ?thesis by (rule order_trans) simp
qed

lemma conv_no_round:
  assumes "to_conv_mode c = c"
  shows "c AND KNOWN_ROUND_MODES = 0"
proof -
  from assms have "c AND KNOWN_ROUND_MODES = (c AND KNOWN_CONV_MODES) AND KNOWN_ROUND_MODES"
    by (simp only: to_conv_mode_def)
  also have "\<dots> = c AND (KNOWN_CONV_MODES AND KNOWN_ROUND_MODES)" by (rule and.assoc)
  also have "KNOWN_CONV_MODES AND KNOWN_ROUND_MODES = 0" by (simp add: round_flags)
  finally show ?thesis by simp
qed

lemma options_split:
  assumes "to_conv_mode c = c" and "r \<in> {FRAC_NONE, FRAC_TRUNCATE, FRAC_ROUND}"
  shows "Temporal_Options c r = Some (c OR r)" "to_conv_mode (c OR r) = c" "to_round_mode (c OR r) = Some r"
proof -
  from assms(2) have r: "r AND 0x380001D = 0" "r AND KNOWN_ROUND_MODES = r" by (auto simp: round_flags)
  show "Temporal_Options c r = Some (c OR r)"
    using conv_mode_small [OF assms(1)] by (simp add: Temporal_Options_def)
  show "to_conv_mode (c OR r) = c"
    using assms(1) r by (simp add: to_conv_mode_def and_or_absorb round_flags(5))
  show "to_round_mode (c OR r) = Some r"
    using assms(2) r(2) conv_no_round [OF assms(1)] by (auto simp: to_round_mode_def and_or_absorb time_round_mode_t_def)
qed

text \<open>
  A mode built from conversion flags and a rounding mode is taken apart into the same
  conversion flags and rounding mode, and the flags for dates are those of the first part.
\<close>

theorem date_mode_parts:
  assumes "to_conv_mode c = c" and "r \<in> {FRAC_NONE, FRAC_TRUNCATE, FRAC_ROUND}"
  shows "\<exists>m. Temporal_Options c r = Some m \<and> to_conv_mode m = c \<and> to_round_mode m = Some r \<and>
    m AND TIME_MODE_FOR_XXX_TO_DATE = c AND TIME_MODE_FOR_XXX_TO_DATE"
proof -
  from assms(2) have "r AND TIME_MODE_FOR_XXX_TO_DATE = 0" by (auto simp: mode_flags)
  then have "(c OR r) AND TIME_MODE_FOR_XXX_TO_DATE = c AND TIME_MODE_FOR_XXX_TO_DATE" by (simp add: and_or_absorb)
  with options_split [OF assms] show ?thesis by blast
qed

theorem date_mode_parts_witness: "\<exists>m. Temporal_Options TIME_ONLY FRAC_ROUND = Some m \<and> to_round_mode m = Some FRAC_ROUND"
  using date_mode_parts [of TIME_ONLY FRAC_ROUND] by (auto simp: to_conv_mode_def mode_flags)

end
