(* ===== verification/Bits.thy ===== *)
theory Bits
  imports Prelude
begin

text \<open>
  The bit functions of \<open>my_bit.h\<close>: integer logarithm by nibble search, the parallel
  population count, rounding to a power of two by smearing, bit reversal through a byte
  table, masks, and the search for the lowest set bit. Every routine is related to a
  reference on the bits of its argument. The byte table of the bit reversal is declared in
  the header and defined in a C file that is not part of the sources: it is a parameter.
\<close>

unbundle bit_operations_syntax

section \<open>Definitions\<close>

definition my_bit_log2_hex_digit :: "u8 \<Rightarrow> u32" where
  "my_bit_log2_hex_digit value =
     (if value AND 0x0C \<noteq> 0 then (if value AND 0x08 \<noteq> 0 then 3 else 2)
      else (if value AND 0x02 \<noteq> 0 then 1 else 0))"

definition my_bit_log2_uint8 :: "u8 \<Rightarrow> u32" where
  "my_bit_log2_uint8 value =
     (if value AND 0xF0 \<noteq> 0 then my_bit_log2_hex_digit (drop_bit 4 value) + 4
      else my_bit_log2_hex_digit value)"

definition my_bit_log2_uint16 :: "u16 \<Rightarrow> u32" where
  "my_bit_log2_uint16 value =
     (if value AND 0xFF00 \<noteq> 0 then my_bit_log2_uint8 (ucast (drop_bit 8 value)) + 8
      else my_bit_log2_uint8 (ucast value))"

definition my_bit_log2_uint32 :: "u32 \<Rightarrow> u32" where
  "my_bit_log2_uint32 value =
     (if value AND 0xFFFF0000 \<noteq> 0 then my_bit_log2_uint16 (ucast (drop_bit 16 value)) + 16
      else my_bit_log2_uint16 (ucast value))"

definition my_bit_log2_uint64 :: "u64 \<Rightarrow> u32" where
  "my_bit_log2_uint64 value =
     (if value AND 0xFFFFFFFF00000000 \<noteq> 0
      then my_bit_log2_uint32 (ucast (drop_bit 32 value)) + 32
      else my_bit_log2_uint32 (ucast value))"

text \<open>\<open>size_t\<close> is 64 bits wide on the platforms of the distribution.\<close>

definition my_bit_log2_size_t :: "u64 \<Rightarrow> u32" where
  "my_bit_log2_size_t value = my_bit_log2_uint64 value"

definition my_count_bits_uint32 :: "u32 \<Rightarrow> u32" where
  "my_count_bits_uint32 v0 =
     (let v = v0 - (drop_bit 1 v0 AND 0x55555555);
          v = (v AND 0x33333333) + (drop_bit 2 v AND 0x33333333)
      in drop_bit 24 (((v + drop_bit 4 v) AND 0xF0F0F0F) * 0x1010101))"

definition my_count_bits :: "u64 \<Rightarrow> u32" where
  "my_count_bits x = my_count_bits_uint32 (ucast x) + my_count_bits_uint32 (ucast (drop_bit 32 x))"

definition my_round_up_to_next_power :: "u32 \<Rightarrow> u32" where
  "my_round_up_to_next_power v0 =
     (let v = v0 - 1;
          v = v OR drop_bit 1 v;
          v = v OR drop_bit 2 v;
          v = v OR drop_bit 4 v;
          v = v OR drop_bit 8 v;
          v = v OR drop_bit 16 v
      in v + 1)"

definition my_clear_highest_bit :: "u32 \<Rightarrow> u32" where
  "my_clear_highest_bit v =
     (let w = drop_bit 1 v;
          w = w OR drop_bit 1 w;
          w = w OR drop_bit 2 w;
          w = w OR drop_bit 4 w;
          w = w OR drop_bit 8 w;
          w = w OR drop_bit 16 w
      in v AND w)"

text \<open>\<open>tbl\<close> stands for \<open>_my_bits_reverse_table\<close>.\<close>

definition my_reverse_bits :: "(u8 \<Rightarrow> u8) \<Rightarrow> u32 \<Rightarrow> u32" where
  "my_reverse_bits tbl key =
     push_bit 24 (ucast (tbl (ucast (key AND 255)))) OR
     push_bit 16 (ucast (tbl (ucast (drop_bit 8 key AND 255)))) OR
     push_bit 8 (ucast (tbl (ucast (drop_bit 16 key AND 255)))) OR
     ucast (tbl (ucast (drop_bit 24 key)))"

text \<open>
  The shift count \<open>n - 1\<close> must lie in \<open>0..63\<close>; outside that range the shift is undefined
  in C, which is the value \<open>None\<close>.
\<close>

definition my_set_bits :: "int \<Rightarrow> u64 option" where
  "my_set_bits n =
     (if 1 \<le> n \<and> n \<le> 64 then Some (push_bit 1 (push_bit (nat (n - 1)) 1 - 1) OR 1) else None)"

definition last_byte_mask :: "u32 \<Rightarrow> u8" where
  "last_byte_mask bits =
     (let used = (bits - 1) AND 7 in ucast (push_bit (unat used) (2::u32) - 1))"

text \<open>
  The portable branch of \<open>my_find_first_bit\<close>: four bits at a time through a table in which
  32 marks an empty nibble. A shift by 64 or more is undefined in C (\<open>None\<close>).
\<close>

definition last_bit :: "nat list" where
  "last_bit = [32, 0, 1, 0, 2, 0, 1, 0, 3, 0, 1, 0, 2, 0, 1, 0]"

function find_first_loop :: "u64 \<Rightarrow> nat \<Rightarrow> nat option" where
  "find_first_loop n shift =
     (if 64 \<le> shift then None
      else let bt = last_bit ! unat (drop_bit shift n AND 0xF)
           in if bt = 32 then find_first_loop n (shift + 4) else Some (shift + bt))"
  by pat_completeness auto
termination
  by (relation "measure (\<lambda>(n, shift). 64 - shift)") auto

declare find_first_loop.simps [simp del]

definition my_find_first_bit :: "u64 \<Rightarrow> nat option" where
  "my_find_first_bit n = (if n = 0 then Some 64 else find_first_loop n 0)"

section \<open>Logarithm\<close>

lemma log2_hex_digit_top:
  assumes "value \<noteq> 0" and "unat value < 16"
  shows "top_bit value (unat (my_bit_log2_hex_digit value))"
proof (rule top_bitI)
  have "value \<in> word_of_nat ` {1..<16}"
    using assms by (intro image_eqI [of _ _ "unat value"]) (auto simp: unat_gt_0 Suc_le_eq)
  also have "{1..<16::nat} = set [1,2,3,4,5,6,7,8,9,10,11,12,13,14,15]" by code_simp
  finally have v: "value \<in> {1,2,3,4,5,6,7,8,9,10,11,12,13,14,15}" by simp
  show "2 ^ unat (my_bit_log2_hex_digit value) \<le> unat value"
    using v by (elim insertE emptyE) (simp_all add: my_bit_log2_hex_digit_def)
  show "unat value < 2 ^ Suc (unat (my_bit_log2_hex_digit value))"
    using v by (elim insertE emptyE) (simp_all add: my_bit_log2_hex_digit_def)
qed

text \<open>One level of the search: a word splits into a high and a low half.\<close>

lemma high_half_test:
  fixes v :: "'a::len word"
  assumes "k + n = LENGTH('a)"
  shows "v AND push_bit k (mask n) = 0 \<longleftrightarrow> drop_bit k v = 0"
proof -
  have "bit (v AND push_bit k (mask n)) i \<longleftrightarrow> k \<le> i \<and> bit v i" for i
    using assms bit_imp_le_length [of v i] by (auto simp: bit_simps)
  moreover have "bit (drop_bit k v) i \<longleftrightarrow> bit v (k + i)" for i
    by (simp add: bit_simps)
  ultimately show ?thesis
    unfolding word_eq_0_iff_no_bit by (metis le_add1 le_add_diff_inverse)
qed

lemma top_bit_high_half:
  fixes v :: "'a::len word" and l :: nat
  assumes "top_bit (ucast (drop_bit k v) :: 'b::len word) l" and "LENGTH('a) \<le> k + LENGTH('b)"
  shows "top_bit v (l + k)"
  unfolding top_bit_def
proof (intro conjI allI impI)
  show "bit v (l + k)" using assms(1) by (simp add: top_bit_def bit_simps add.commute)
  fix n assume b: "bit v n"
  show "n \<le> l + k"
  proof (rule ccontr)
    assume "\<not> n \<le> l + k"
    moreover have "n < LENGTH('a)" using b by (rule bit_imp_le_length)
    ultimately have "bit (ucast (drop_bit k v) :: 'b word) (n - k)"
      using b assms(2) by (auto simp: bit_simps)
    then have "n - k \<le> l" using assms(1) by (simp add: top_bit_def)
    with \<open>\<not> n \<le> l + k\<close> show False by simp
  qed
qed

lemma top_bit_low_half:
  fixes v :: "'a::len word" and l :: nat
  assumes "top_bit (ucast v :: 'b::len word) l" and "drop_bit (LENGTH('b)) v = 0"
  shows "top_bit v l"
  unfolding top_bit_def
proof (intro conjI allI impI)
  show "bit v l" using assms(1) by (simp add: top_bit_def bit_simps)
  fix n assume b: "bit v n"
  have "n < LENGTH('b)"
  proof (rule ccontr)
    assume "\<not> n < LENGTH('b)"
    then have "bit (drop_bit (LENGTH('b)) v) (n - LENGTH('b))" using b by (simp add: bit_simps)
    with assms(2) show False by simp
  qed
  with b have "bit (ucast v :: 'b word) n" by (simp add: bit_simps)
  then show "n \<le> l" using assms(1) by (simp add: top_bit_def)
qed

lemma top_bit_less_length: "top_bit (v :: 'a::len word) l \<Longrightarrow> l < LENGTH('a)"
  by (auto simp: top_bit_def dest: bit_imp_le_length)

lemma drop_eq_0_ucast_neq_0:
  fixes v :: "'a::len word"
  assumes "drop_bit (LENGTH('b::len)) v = 0" and "v \<noteq> 0"
  shows "(ucast v :: 'b word) \<noteq> 0"
proof -
  obtain k where k: "top_bit v k" using top_bit_exists assms(2) by blast
  have "k < LENGTH('b)"
  proof (rule ccontr)
    assume "\<not> k < LENGTH('b)"
    then have "bit (drop_bit (LENGTH('b)) v) (k - LENGTH('b))"
      using k by (simp add: top_bit_def bit_simps)
    with assms(1) show False by simp
  qed
  then have "bit (ucast v :: 'b word) k" using k by (simp add: top_bit_def bit_simps)
  then show ?thesis by auto
qed

lemma ucast_drop_neq_0:
  fixes v :: "'a::len word"
  assumes "drop_bit k v \<noteq> 0" and "LENGTH('a) \<le> k + LENGTH('b)"
  shows "(ucast (drop_bit k v) :: 'b::len word) \<noteq> 0"
proof -
  obtain n where n: "bit (drop_bit k v) n" using assms(1) by (auto simp: bit_eq_iff)
  then have "n < LENGTH('b)" using assms(2) by (auto simp: bit_simps dest!: bit_imp_le_length)
  with n have "bit (ucast (drop_bit k v) :: 'b word) n" by (simp add: bit_simps)
  then show ?thesis by auto
qed

text \<open>The induction over the levels, stated once for two adjacent widths.\<close>

lemma log2_level:
  fixes v :: "'a::len word" and lg :: "'b::len word \<Rightarrow> u32"
  assumes lower: "\<And>x. x \<noteq> 0 \<Longrightarrow> top_bit x (unat (lg x))"
    and len: "LENGTH('b) + LENGTH('b) = LENGTH('a)" and small: "LENGTH('a) \<le> 64"
    and hm: "hm = push_bit (LENGTH('b)) (mask (LENGTH('b)))"
    and k: "k = (word_of_nat (LENGTH('b)) :: u32)"
    and v: "v \<noteq> 0"
  shows "top_bit v (unat (if v AND hm \<noteq> 0 then lg (ucast (drop_bit (LENGTH('b)) v)) + k
                          else lg (ucast v)))"
proof (cases "drop_bit (LENGTH('b)) v = 0")
  case True
  then have "(ucast v :: 'b word) \<noteq> 0" using v by (rule drop_eq_0_ucast_neq_0)
  then have "top_bit v (unat (lg (ucast v)))" using lower True top_bit_low_half by blast
  moreover have "v AND hm = 0" using True by (simp add: hm high_half_test [OF len])
  ultimately show ?thesis by simp
next
  case False
  let ?h = "ucast (drop_bit (LENGTH('b)) v) :: 'b word"
  have "?h \<noteq> 0" using False by (rule ucast_drop_neq_0) (simp add: len)
  then have t: "top_bit ?h (unat (lg ?h))" by (rule lower)
  then have "top_bit v (unat (lg ?h) + LENGTH('b))" by (rule top_bit_high_half) (simp add: len)
  moreover have "unat (lg ?h + k) = unat (lg ?h) + LENGTH('b)"
    using top_bit_less_length [OF t] len small by (simp add: k unat_word_ariths unat_of_nat)
  moreover have "v AND hm \<noteq> 0" using False by (simp add: hm high_half_test [OF len])
  ultimately show ?thesis by simp
qed

lemma log2_uint8_top: "v \<noteq> 0 \<Longrightarrow> top_bit v (unat (my_bit_log2_uint8 v))"
proof -
  assume v: "v \<noteq> 0"
  have test: "v AND 0xF0 = 0 \<longleftrightarrow> drop_bit 4 v = 0"
    using high_half_test [of 4 4 v] by (simp add: mask_eq_exp_minus_1)
  show ?thesis
  proof (cases "drop_bit 4 v = 0")
    case True
    then have "unat (drop_bit 4 v) = 0" by simp
    then have "unat v div 2 ^ 4 = 0"
      unfolding unat_drop_bit_eq by (simp only: drop_bit_eq_div)
    then have "unat v < 16" by simp
    then show ?thesis using v True test by (simp add: my_bit_log2_uint8_def log2_hex_digit_top)
  next
    case False
    have "unat (drop_bit 4 v) < 16"
      using unat_less_exp [of v] by (simp add: drop_bit_eq_div unat_div_distrib)
    with False have t: "top_bit (drop_bit 4 v) (unat (my_bit_log2_hex_digit (drop_bit 4 v)))"
      by (rule log2_hex_digit_top)
    then have "top_bit (ucast (drop_bit 4 v) :: u8) (unat (my_bit_log2_hex_digit (drop_bit 4 v)))"
      by simp
    then have "top_bit v (unat (my_bit_log2_hex_digit (drop_bit 4 v)) + 4)"
      by (rule top_bit_high_half) simp
    moreover have "unat (my_bit_log2_hex_digit (drop_bit 4 v) + 4) =
        unat (my_bit_log2_hex_digit (drop_bit 4 v)) + 4"
      using top_bit_less_length [OF t] by (simp add: unat_word_ariths)
    ultimately show ?thesis using False test by (simp add: my_bit_log2_uint8_def)
  qed
qed

lemma log2_uint16_top: "v \<noteq> 0 \<Longrightarrow> top_bit v (unat (my_bit_log2_uint16 v))"
  using log2_level [of my_bit_log2_uint8 "0xFF00" 8 v] log2_uint8_top
  by (simp add: my_bit_log2_uint16_def mask_eq_exp_minus_1 cong: if_cong)

lemma log2_uint32_top: "v \<noteq> 0 \<Longrightarrow> top_bit v (unat (my_bit_log2_uint32 v))"
  using log2_level [of my_bit_log2_uint16 "0xFFFF0000" 16 v] log2_uint16_top
  by (simp add: my_bit_log2_uint32_def mask_eq_exp_minus_1 cong: if_cong)

lemma log2_uint64_top: "v \<noteq> 0 \<Longrightarrow> top_bit v (unat (my_bit_log2_uint64 v))"
  using log2_level [of my_bit_log2_uint32 "0xFFFFFFFF00000000" 32 v] log2_uint32_top
  by (simp add: my_bit_log2_uint64_def mask_eq_exp_minus_1 cong: if_cong)

section \<open>Smearing: rounding up and clearing the highest bit\<close>

definition smear32 :: "u32 \<Rightarrow> u32" where
  "smear32 v =
     (let v = v OR drop_bit 1 v; v = v OR drop_bit 2 v; v = v OR drop_bit 4 v;
          v = v OR drop_bit 8 v in v OR drop_bit 16 v)"

lemma bit_smear32: "bit (smear32 v) n \<longleftrightarrow> (\<exists>k < 32. bit v (n + k))"
proof -
  define v1 where "v1 = v OR drop_bit 1 v"
  define v2 where "v2 = v1 OR drop_bit 2 v1"
  define v4 where "v4 = v2 OR drop_bit 4 v2"
  define v8 where "v8 = v4 OR drop_bit 8 v4"
  have "bit v m \<longleftrightarrow> (\<exists>k < 1. bit v (m + k))" for m by simp
  then have "bit v1 m \<longleftrightarrow> (\<exists>k < 1 + 1. bit v (m + k))" for m
    unfolding v1_def by (rule smear_step)
  then have "bit v1 m \<longleftrightarrow> (\<exists>k < 2. bit v (m + k))" for m unfolding one_add_one .
  then have "bit v2 m \<longleftrightarrow> (\<exists>k < 2 + 2. bit v (m + k))" for m
    unfolding v2_def by (rule smear_step)
  then have "bit v2 m \<longleftrightarrow> (\<exists>k < 4. bit v (m + k))" for m by simp
  then have "bit v4 m \<longleftrightarrow> (\<exists>k < 4 + 4. bit v (m + k))" for m
    unfolding v4_def by (rule smear_step)
  then have "bit v4 m \<longleftrightarrow> (\<exists>k < 8. bit v (m + k))" for m by simp
  then have "bit v8 m \<longleftrightarrow> (\<exists>k < 8 + 8. bit v (m + k))" for m
    unfolding v8_def by (rule smear_step)
  then have "bit v8 m \<longleftrightarrow> (\<exists>k < 16. bit v (m + k))" for m by simp
  then have "bit (v8 OR drop_bit 16 v8) n \<longleftrightarrow> (\<exists>k < 16 + 16. bit v (n + k))"
    by (rule smear_step)
  then show ?thesis by (simp add: smear32_def Let_def v1_def v2_def v4_def v8_def)
qed

lemma smear32_top:
  assumes "top_bit v k"
  shows "smear32 v = mask (Suc k)"
proof (rule bit_word_eqI)
  fix n
  assume n: "n < LENGTH(32)"
  have k: "k < 32" using top_bit_less_length [OF assms] by simp
  have "(\<exists>j < 32. bit v (n + j)) \<longleftrightarrow> n \<le> k"
  proof
    assume "\<exists>j < 32. bit v (n + j)"
    then obtain j where "bit v (n + j)" by blast
    then have "n + j \<le> k" using assms by (simp add: top_bit_def)
    then show "n \<le> k" by simp
  next
    assume "n \<le> k"
    then have "bit v (n + (k - n))" and "k - n < 32" using assms k by (simp_all add: top_bit_def)
    then show "\<exists>j < 32. bit v (n + j)" by blast
  qed
  then show "bit (smear32 v) n \<longleftrightarrow> bit (mask (Suc k) :: u32) n"
    using n unfolding bit_smear32 by (simp add: bit_mask_iff less_Suc_eq_le)
qed

lemma smear32_0: "smear32 0 = 0"
  by (simp add: smear32_def)

lemma round_up_smear: "my_round_up_to_next_power v = smear32 (v - 1) + 1"
  by (simp add: my_round_up_to_next_power_def smear32_def Let_def)

lemma clear_highest_smear: "my_clear_highest_bit v = (v AND smear32 (drop_bit 1 v))"
  by (simp add: my_clear_highest_bit_def smear32_def Let_def)

lemma round_up_exp:
  assumes "2 ^ k < unat v" and "unat v \<le> 2 ^ Suc k" and "k < 31"
  shows "my_round_up_to_next_power v = 2 ^ Suc k"
proof -
  have "v \<noteq> 0" using assms(1) by auto
  then have "unat (v - 1) = unat v - 1" by (simp add: unat_minus_one)
  then have "top_bit (v - 1) k" using assms by (intro top_bitI) simp_all
  then show ?thesis by (simp add: round_up_smear smear32_top mask_eq_exp_minus_1)
qed

lemma round_up_1: "my_round_up_to_next_power 1 = 1" and round_up_0: "my_round_up_to_next_power 0 = 0"
  by (simp_all add: my_round_up_to_next_power_def)

text \<open>Above \<open>2 ^ 31\<close> the next power of two does not fit and the sum wraps to 0.\<close>

lemma round_up_wraps:
  assumes "2 ^ 31 < unat v"
  shows "my_round_up_to_next_power v = 0"
proof -
  have "v \<noteq> 0" using assms by auto
  then have "unat (v - 1) = unat v - 1" by (simp add: unat_minus_one)
  then have "top_bit (v - 1) 31" using assms unat_less_exp [of v] by (intro top_bitI) simp_all
  then show ?thesis by (simp add: round_up_smear smear32_top mask_eq_exp_minus_1)
qed

lemma bit_clear_highest:
  assumes "top_bit v k"
  shows "bit (my_clear_highest_bit v) n \<longleftrightarrow> bit v n \<and> n \<noteq> k"
proof (cases k)
  case 0
  then have "drop_bit 1 v = 0" using assms by (auto simp: word_eq_0_iff_no_bit bit_simps top_bit_def)
  then have "my_clear_highest_bit v = 0" by (simp only: clear_highest_smear smear32_0 and_zero_eq)
  then show ?thesis using assms 0 by (auto simp: top_bit_def)
next
  case (Suc j)
  then have "top_bit (drop_bit 1 v) j" using assms
    by (auto simp: top_bit_def bit_simps)
  then have "my_clear_highest_bit v = v AND mask k" by (simp only: clear_highest_smear smear32_top Suc)
  then show ?thesis using assms by (auto simp: top_bit_def bit_simps bit_mask_iff dest: bit_imp_le_length)
qed

section \<open>Bit reversal, masks, lowest set bit\<close>

definition reverses_byte :: "(u8 \<Rightarrow> u8) \<Rightarrow> bool" where
  "reverses_byte tbl \<longleftrightarrow> (\<forall>b. \<forall>i < 8. bit (tbl b) i \<longleftrightarrow> bit b (7 - i))"

lemma nibble_cases:
  fixes d :: u64
  assumes "unat d < 16"
  shows "d \<in> {0,1,2,3,4,5,6,7,8,9,10,11,12,13,14,15}"
proof -
  have "d \<in> word_of_nat ` {0..<16}"
    using assms by (intro image_eqI [of _ _ "unat d"]) auto
  also have "{0..<16::nat} = set [0,1,2,3,4,5,6,7,8,9,10,11,12,13,14,15]" by code_simp
  finally show ?thesis by simp
qed

lemma all_below: "(\<forall>i < Suc 0. P i) \<longleftrightarrow> P 0" "(\<forall>i < 2. P i) \<longleftrightarrow> P 0 \<and> P 1"
  "(\<forall>i < 3. P i) \<longleftrightarrow> P 0 \<and> P 1 \<and> P 2" for P :: "nat \<Rightarrow> bool"
  by (auto simp: less_Suc_eq numeral_2_eq_2 numeral_3_eq_3)

lemma last_bit_table:
  fixes d :: u64
  assumes "unat d < 16"
  shows "(d = 0 \<longrightarrow> last_bit ! unat d = 32) \<and>
    (d \<noteq> 0 \<longrightarrow> last_bit ! unat d < 4 \<and> bit d (last_bit ! unat d) \<and> (\<forall>i < last_bit ! unat d. \<not> bit d i))"
  using nibble_cases [OF assms]
  by (elim insertE emptyE) (simp_all add: last_bit_def all_below bit_0)

lemma bit_nibble: "bit (drop_bit s n AND 0xF) i \<longleftrightarrow> i < 4 \<and> bit n (s + i)" for n :: u64
proof -
  have m: "(0xF :: u64) = mask 4" by (simp add: mask_eq_exp_minus_1)
  show ?thesis unfolding m by (auto simp: bit_simps bit_mask_iff dest: bit_imp_le_length)
qed

lemma find_first_step:
  "n \<noteq> 0 \<Longrightarrow> \<forall>i < shift. \<not> bit n i \<Longrightarrow>
     \<exists>k. find_first_loop n shift = Some k \<and> bit n k \<and> (\<forall>i < k. \<not> bit n i)"
proof (induction n shift rule: find_first_loop.induct)
  case (1 n shift)
  let ?d = "drop_bit shift n AND 0xF"
  have lt: "shift < 64"
  proof (rule ccontr)
    assume "\<not> shift < 64"
    then have "\<not> bit n i" for i
      using "1.prems"(2) bit_imp_le_length [of n i] by (cases "i < shift") auto
    then show False using "1.prems"(1) by (simp add: word_eq_0_iff_no_bit)
  qed
  have d16: "unat ?d < 16"
    using word_and_le1 [of "drop_bit shift n" "0xF"] by (simp add: word_le_nat_alt)
  note tbl = last_bit_table [OF d16]
  show ?case
  proof (cases "?d = 0")
    case True
    then have z: "last_bit ! unat ?d = 32" using tbl by simp
    have "\<forall>i < shift + 4. \<not> bit n i"
    proof (intro allI impI)
      fix i assume "i < shift + 4"
      then show "\<not> bit n i"
        using "1.prems"(2) bit_nibble [of shift n "i - shift"] True by (cases "i < shift") auto
    qed
    then have "\<exists>k. find_first_loop n (shift + 4) = Some k \<and> bit n k \<and> (\<forall>i < k. \<not> bit n i)"
      using "1.IH" lt z "1.prems"(1) by simp
    then show ?thesis using lt z by (subst find_first_loop.simps) simp
  next
    case False
    let ?b = "last_bit ! unat ?d"
    have b: "?b < 4" "bit n (shift + ?b)" and low: "\<forall>i < ?b. \<not> bit n (shift + i)"
      using tbl False bit_nibble [of shift n] by auto
    have "\<forall>i < shift + ?b. \<not> bit n i"
    proof (intro allI impI)
      fix i assume "i < shift + ?b"
      then show "\<not> bit n i"
        using "1.prems"(2) low [rule_format, of "i - shift"] by (cases "i < shift") auto
    qed
    moreover have "find_first_loop n shift = Some (shift + ?b)"
      using lt b(1) by (subst find_first_loop.simps) (simp add: Let_def)
    ultimately show ?thesis using b(2) by blast
  qed
qed

lemma set_bits_mask:
  assumes "1 \<le> n" and "n \<le> 64"
  shows "my_set_bits (int n) = Some (mask n)"
proof -
  obtain k where k: "n = Suc k" using assms(1) by (cases n) auto
  have "push_bit 1 (mask k) OR 1 = (mask (Suc k) :: u64)"
    by (simp add: mask_Suc_double or.commute mult.commute)
  then show ?thesis using assms by (simp add: my_set_bits_def k mask_eq_exp_minus_1 push_bit_eq_mult mult.commute)
qed

lemma last_byte_mask_val: "last_byte_mask bits = mask (Suc (unat ((bits - 1) AND 7)))"
proof -
  let ?u = "unat ((bits - 1) AND 7)"
  have u: "?u < 8" using word_and_le1 [of "bits - 1" "7"] by (simp add: word_le_nat_alt)
  have "push_bit ?u (2::u32) - 1 = mask (Suc ?u)"
    by (simp add: mask_eq_exp_minus_1 push_bit_eq_mult mult.commute)
  then have "last_byte_mask bits = ucast (mask (Suc ?u) :: u32)"
    by (simp add: last_byte_mask_def Let_def)
  also have "\<dots> = mask (Suc ?u)"
    using u by (intro bit_word_eqI) (simp add: bit_simps bit_mask_iff)
  finally show ?thesis .
qed

section \<open>Properties\<close>

text \<open>
  \<open>my_bit_log2_uint64\<close> is the floor of the binary logarithm of every non-zero
  argument (so 3 gives 1, not the 2 its comment announces), and it is 0 on 0.
\<close>

theorem my_bit_log2_uint64_floor:
  "(v \<noteq> 0 \<longrightarrow> 2 ^ unat (my_bit_log2_uint64 v) \<le> unat v \<and>
      unat v < 2 ^ Suc (unat (my_bit_log2_uint64 v))) \<and> my_bit_log2_uint64 0 = 0"
  using top_bit_bounds [OF log2_uint64_top, of v]
  by (auto simp: my_bit_log2_uint64_def my_bit_log2_uint32_def my_bit_log2_uint16_def
      my_bit_log2_uint8_def my_bit_log2_hex_digit_def)

theorem my_bit_log2_uint64_floor_witness:
  "(3 :: u64) \<noteq> 0 \<and> 2 ^ unat (my_bit_log2_uint64 3) \<le> unat (3 :: u64) \<and>
     unat (3 :: u64) < 2 ^ Suc (unat (my_bit_log2_uint64 3))"
  using my_bit_log2_uint64_floor [of 3] by simp

text \<open>
  \<open>my_round_up_to_next_power\<close> returns the least power of two that is not below
  its argument, for every argument from 1 to \<open>2 ^ 31\<close>; 0 gives 0, and above \<open>2 ^ 31\<close>,
  where no such 32-bit power exists, the result is 0.
\<close>

theorem my_round_up_to_next_power_least:
  "(1 \<le> unat v \<and> unat v \<le> 2 ^ 31 \<longrightarrow>
      (\<exists>k. unat (my_round_up_to_next_power v) = 2 ^ k \<and> unat v \<le> 2 ^ k \<and> (\<forall>j. unat v \<le> 2 ^ j \<longrightarrow> k \<le> j))) \<and>
   (unat v = 0 \<or> 2 ^ 31 < unat v \<longrightarrow> my_round_up_to_next_power v = 0)"
proof (intro conjI impI)
  assume "unat v = 0 \<or> 2 ^ 31 < unat v"
  then show "my_round_up_to_next_power v = 0" using round_up_wraps round_up_0 by (auto simp: unat_eq_zero)
next
  assume v: "1 \<le> unat v \<and> unat v \<le> 2 ^ 31"
  show "\<exists>k. unat (my_round_up_to_next_power v) = 2 ^ k \<and> unat v \<le> 2 ^ k \<and> (\<forall>j. unat v \<le> 2 ^ j \<longrightarrow> k \<le> j)"
  proof (cases "unat v = 1")
    case True
    then have "v = 1" by (metis unat_1 word_unat_eq_iff)
    then show ?thesis by (intro exI [of _ 0]) (simp add: round_up_1)
  next
    case False
    have "v \<noteq> 0" using v by auto
    then have u: "unat (v - 1) = unat v - 1" by (simp add: unat_minus_one)
    have nz: "v - 1 \<noteq> 0" using False by auto
    obtain k where t: "top_bit (v - 1) k" using top_bit_exists [OF nz] by blast
    have b: "2 ^ k < unat v" "unat v \<le> 2 ^ Suc k" using top_bit_bounds [OF t] u v by linarith+
    have "(2::nat) ^ k < 2 ^ 31" using b(1) v by linarith
    then have k: "k < 31" by (simp only: power_strict_increasing_iff one_less_numeral_iff semiring_norm)
    have "unat (my_round_up_to_next_power v) = 2 ^ Suc k"
    proof -
      have "unat (2 ^ Suc k :: u32) = 2 ^ Suc k" using k by (intro unat_exp2) simp
      then show ?thesis using round_up_exp [OF b k] by simp
    qed
    moreover have "\<forall>j. unat v \<le> 2 ^ j \<longrightarrow> Suc k \<le> j"
    proof (intro allI impI)
      fix j assume "unat v \<le> 2 ^ j"
      with b(1) have "(2::nat) ^ k < 2 ^ j" by linarith
      then show "Suc k \<le> j" by (simp only: power_strict_increasing_iff one_less_numeral_iff semiring_norm Suc_le_eq)
    qed
    ultimately show ?thesis using b(2) by blast
  qed
qed

theorem my_round_up_to_next_power_least_witness:
  "\<exists>k. unat (my_round_up_to_next_power 5) = 2 ^ k \<and> unat (5 :: u32) \<le> 2 ^ k \<and>
     (\<forall>j. unat (5 :: u32) \<le> 2 ^ j \<longrightarrow> k \<le> j)"
  using my_round_up_to_next_power_least [of 5] by simp

text \<open>
  The portable \<open>my_find_first_bit\<close> always returns (its shifts stay defined), and
  it returns the position of the lowest set bit, or 64 for the value 0.
\<close>

theorem my_find_first_bit_correct:
  "my_find_first_bit n = Some (if n = 0 then 64 else (LEAST k. bit n k))"
proof (cases "n = 0")
  case False
  obtain k where k: "find_first_loop n 0 = Some k" "bit n k" "\<forall>i < k. \<not> bit n i"
    using find_first_step [OF False, of 0] by auto
  have "(LEAST k. bit n k) = k" using k(2,3) by (intro Least_equality) (auto simp: not_less [symmetric])
  with k(1) False show ?thesis by (simp add: my_find_first_bit_def)
qed (simp add: my_find_first_bit_def)

text \<open>
  Given a byte table that reverses the bits of a byte, \<open>my_reverse_bits\<close>
  reverses the 32 bits of its argument.
\<close>

theorem my_reverse_bits_correct:
  assumes "reverses_byte tbl" and "i < 32"
  shows "bit (my_reverse_bits tbl key) i \<longleftrightarrow> bit key (31 - i)"
proof -
  have r: "j < 8 \<Longrightarrow> bit (tbl b) j \<longleftrightarrow> bit b (7 - j)" for b j
    using assms(1) by (simp add: reverses_byte_def)
  have m: "(255 :: u32) = mask 8" by (simp add: mask_eq_exp_minus_1)
  define q where "q = i div 8"
  define j where "j = i mod 8"
  have i: "i = 8 * q + j" and j: "j < 8" by (simp_all add: q_def j_def)
  have j': "7 - j < 8" "7 - j < 32" by simp_all
  have "q < 4" using assms(2) by (simp add: q_def)
  then have "q = 0 \<or> q = 1 \<or> q = 2 \<or> q = 3" by auto
  then show ?thesis
    by (elim disjE) (use j j' in \<open>simp_all add: i my_reverse_bits_def m bit_simps bit_mask_iff r bit_beyond_byte\<close>)
qed

theorem my_reverse_bits_correct_witness:
  "\<exists>tbl. reverses_byte tbl \<and> (bit (my_reverse_bits tbl 1) 31 \<longleftrightarrow> bit (1 :: u32) (31 - 31))"
proof -
  define tbl :: "u8 \<Rightarrow> u8" where "tbl b = horner_sum of_bool 2 (map (\<lambda>i. bit b (7 - i)) [0..<8])" for b
  have "reverses_byte tbl"
    unfolding reverses_byte_def tbl_def by (auto simp: bit_horner_sum_bit_word_iff)
  then show ?thesis using my_reverse_bits_correct [of tbl 31 1] by auto
qed

end
