(* ===== verification/BitCount.thy ===== *)
theory BitCount
  imports Bits
begin

text \<open>
  The population count of \<open>my_bit.h\<close> against its reference. The routine adds neighbouring
  fields of 1, 2 and 4 bits in parallel and sums the bytes by a multiplication; the proof
  follows the fields: \<open>field_sum w k x\<close> adds the \<open>k\<close> lowest fields of width \<open>w\<close>, and
  each step of the routine preserves that sum while it doubles the width.
\<close>

unbundle bit_operations_syntax

section \<open>Population count\<close>

text \<open>The reference: the number of set bits, and the sum of fixed-width fields.\<close>

definition pop_count :: "'a::len word \<Rightarrow> nat" where
  "pop_count v = card {i. bit v i}"

fun field_sum :: "nat \<Rightarrow> nat \<Rightarrow> nat \<Rightarrow> nat" where
  "field_sum w 0 x = 0"
| "field_sum w (Suc k) x = take_bit w x + field_sum w k (drop_bit w x)"

text \<open>\<open>alt_mask w k\<close>: \<open>k\<close> groups of \<open>w\<close> ones below \<open>w\<close> zeros.\<close>

fun alt_mask :: "nat \<Rightarrow> nat \<Rightarrow> nat" where
  "alt_mask w 0 = 0"
| "alt_mask w (Suc k) = mask w + push_bit (w + w) (alt_mask w k)"

definition pair_up :: "nat \<Rightarrow> nat \<Rightarrow> nat \<Rightarrow> nat" where
  "pair_up w k x = (x AND alt_mask w k) + (drop_bit w x AND alt_mask w k)"

lemma push_add_eq_or:
  assumes "a < 2 ^ w"
  shows "a + push_bit w (b::nat) = a OR push_bit w b"
proof -
  have "a AND push_bit w b = 0"
  proof (rule bit_eqI)
    fix n
    have "bit a n \<Longrightarrow> n < w"
      using assms by (metis bit_take_bit_iff take_bit_nat_eq_self)
    then show "bit (a AND push_bit w b) n \<longleftrightarrow> bit 0 n" by (auto simp: bit_simps)
  qed
  then show ?thesis by (rule disjunctive_add_eq_or)
qed

lemma take_drop_pack:
  assumes "a < 2 ^ w"
  shows "take_bit w (a + push_bit w (b::nat)) = a" and "drop_bit w (a + push_bit w b) = b"
  using assms by (simp_all add: take_bit_eq_mod drop_bit_eq_div push_bit_eq_mult)

lemma and_alt_mask:
  "x AND alt_mask w (Suc k) = take_bit w x + push_bit (w + w) (drop_bit (w + w) x AND alt_mask w k)"
proof -
  have m: "alt_mask w (Suc k) = mask w OR push_bit (w + w) (alt_mask w k)"
  proof -
    have "(mask w :: nat) < 2 ^ (w + w)"
      by (rule less_le_trans [of _ "2 ^ w"]) (simp_all add: less_mask mask_eq_exp_minus_1)
    then show ?thesis by (simp add: push_add_eq_or)
  qed
  have lt: "take_bit w x < 2 ^ (w + w)"
    by (rule less_le_trans [OF take_bit_nat_less_exp]) simp
  show ?thesis unfolding m push_add_eq_or [OF lt]
    by (rule bit_eqI) (auto simp: bit_simps)
qed

lemma pair_up_Suc:
  "pair_up w (Suc k) x = (take_bit w x + take_bit w (drop_bit w x)) +
     push_bit (w + w) (pair_up w k (drop_bit (w + w) x))"
  by (simp add: pair_up_def and_alt_mask push_bit_add drop_bit_drop_bit del: alt_mask.simps)
    (simp add: add.assoc add.commute)

lemma two_fields_fit: "0 < w \<Longrightarrow> take_bit w a + take_bit w b < 2 ^ (w + w)" for a b :: nat
proof -
  assume "0 < w"
  have "take_bit w a + take_bit w b < 2 ^ w + 2 ^ w"
    by (intro add_strict_mono take_bit_nat_less_exp)
  also have "(2::nat) ^ w + 2 ^ w = 2 ^ Suc w" by simp
  also have "\<dots> \<le> 2 ^ (w + w)" using \<open>0 < w\<close> by (intro power_increasing) auto
  finally show ?thesis .
qed

lemma field_sum_pair_up:
  "0 < w \<Longrightarrow> field_sum (w + w) k (pair_up w k x) = field_sum w (k + k) x"
proof (induction k arbitrary: x)
  case 0
  then show ?case by simp
next
  case (Suc k)
  note fit = two_fields_fit [OF Suc.prems, of x "drop_bit w x"]
  have "field_sum (w + w) (Suc k) (pair_up w (Suc k) x) =
      take_bit w x + take_bit w (drop_bit w x) + field_sum w (k + k) (drop_bit (w + w) x)"
    using Suc.IH [OF Suc.prems] by (simp add: pair_up_Suc take_drop_pack [OF fit])
  then show ?case by (simp add: drop_bit_drop_bit)
qed

text \<open>With width 1 the fields are the bits.\<close>

lemma field_sum_1: "field_sum 1 k x = card {i. i < k \<and> bit x i}"
proof (induction k arbitrary: x)
  case 0
  then show ?case by simp
next
  case (Suc k)
  have "{i. i < Suc k \<and> bit x i} = (if odd x then {0} else {}) \<union> Suc ` {i. i < k \<and> bit (x div 2) i}"
    by (auto simp: image_iff bit_Suc less_Suc_eq_0_disj bit_0)
  moreover have "card \<dots> = (if odd x then 1 else 0) + card {i. i < k \<and> bit (x div 2) i}"
    by (subst card_Un_disjoint) (auto simp: card_image)
  moreover have "take_bit 1 x = (if odd x then 1 else 0)" by (simp add: take_bit_eq_mod odd_iff_mod_2_eq_one)
  ultimately show ?case using Suc.IH [of "x div 2"] by (simp add: drop_bit_eq_div)
qed

lemma and_alt_mask_1: "x AND alt_mask 1 (Suc k) = take_bit 1 x + 4 * (drop_bit 2 x AND alt_mask 1 k)"
  unfolding and_alt_mask one_add_one push_bit_eq_mult by simp

lemma alt_mask_1_split:
  "x < 2 ^ (k + k) \<Longrightarrow> x = (x AND alt_mask 1 k) + 2 * (drop_bit 1 x AND alt_mask 1 k)"
proof (induction k arbitrary: x)
  case 0
  then show ?case by simp
next
  case (Suc k)
  have "drop_bit 2 x < 2 ^ (k + k)" using Suc.prems by (simp add: drop_bit_eq_div)
  then have IH: "drop_bit 2 x =
      (drop_bit 2 x AND alt_mask 1 k) + 2 * (drop_bit 1 (drop_bit 2 x) AND alt_mask 1 k)"
    by (rule Suc.IH)
  have c: "drop_bit 2 (drop_bit 1 x) = drop_bit 1 (drop_bit 2 x)"
    by (simp add: drop_bit_drop_bit numeral_3_eq_3)
  have "x = take_bit 1 x + 2 * take_bit 1 (drop_bit 1 x) + 4 * drop_bit 2 x"
    unfolding take_bit_eq_mod drop_bit_eq_div power_one_right power2_eq_square by presburger
  also have "4 * drop_bit 2 x = 4 * (drop_bit 2 x AND alt_mask 1 k) +
      8 * (drop_bit 1 (drop_bit 2 x) AND alt_mask 1 k)"
    using arg_cong [OF IH, of "\<lambda>t. 4 * t"] by (simp only: distrib_left mult.assoc [symmetric] numeral_times_numeral mult_num_simps)
  finally have x: "x = take_bit 1 x + 2 * take_bit 1 (drop_bit 1 x) +
      (4 * (drop_bit 2 x AND alt_mask 1 k) + 8 * (drop_bit 1 (drop_bit 2 x) AND alt_mask 1 k))" .
  have E: "t + 4 * a + 2 * (u + 4 * b) = t + 2 * u + (4 * a + 8 * b)" for t u a b :: nat by simp
  show ?case unfolding and_alt_mask_1 c E by (rule x)
qed

lemma byte_parts:
  fixes y :: nat
  shows "y = take_bit 4 y + 16 * take_bit 4 (drop_bit 4 y) + 256 * drop_bit 8 y"
    and "drop_bit 4 y = take_bit 4 (drop_bit 4 y) + 16 * drop_bit 8 y"
    and "y = take_bit 4 y + 16 * drop_bit 4 y"
proof -
  have d: "drop_bit 8 y = drop_bit 4 (drop_bit 4 y)" by (simp add: drop_bit_drop_bit)
  have p: "z = take_bit 4 z + 16 * drop_bit 4 z" for z :: nat
    unfolding take_bit_eq_mod drop_bit_eq_div by simp
  show "y = take_bit 4 y + 16 * drop_bit 4 y" by (rule p)
  show "drop_bit 4 y = take_bit 4 (drop_bit 4 y) + 16 * drop_bit 8 y" unfolding d by (rule p)
  with p [of y] show "y = take_bit 4 y + 16 * take_bit 4 (drop_bit 4 y) + 256 * drop_bit 8 y"
    by linarith
qed

lemma unpack_sums:
  fixes a b c :: nat
  assumes "a < 16" and "b < 16"
  shows "take_bit 4 (a + 16 * b + 256 * c) = a" and "drop_bit 8 (a + 16 * b + 256 * c) = c"
proof -
  have e: "a + 16 * b + 256 * c = a + (b + 16 * c) * 16" by simp
  have "(a + 16 * b + 256 * c) mod 16 = a" unfolding e mod_mult_self1 using assms(1) by simp
  then show "take_bit 4 (a + 16 * b + 256 * c) = a" by (simp add: take_bit_eq_mod)
  have "a + 16 * b < 256" using assms by linarith
  then show "drop_bit 8 (a + 16 * b + 256 * c) = c" unfolding drop_bit_eq_div by simp
qed

lemma nibble_sums:
  fixes y :: nat
  assumes "y = a + 16 * b + 256 * z" and "d = b + 16 * z" and "z = m + 16 * e"
  shows "y + d = (a + b) + 16 * (b + m) + 256 * (z + e)"
proof -
  have "y + d = a + 16 * b + 256 * z + b + 16 * (m + 16 * e)"
    using assms(1,2) unfolding assms(3) [symmetric] by simp
  then show ?thesis by simp
qed

lemma nibbles_add_in_place:
  "\<lbrakk>\<forall>i < k + k. take_bit 4 (drop_bit (4 * i) y) \<le> 7; y < 2 ^ (8 * k)\<rbrakk> \<Longrightarrow>
     (y + drop_bit 4 y) AND alt_mask 4 k = pair_up 4 k y"
proof (induction k arbitrary: y)
  case 0
  then show ?case by (simp add: pair_up_def)
next
  case (Suc k)
  let ?y = "drop_bit 8 y"
  have nib: "i < k + k \<Longrightarrow> take_bit 4 (drop_bit (4 * i) ?y) \<le> 7" for i
    using Suc.prems(1) [rule_format, of "i + 2"] by (simp add: drop_bit_drop_bit algebra_simps)
  have lt: "?y < 2 ^ (8 * k)" using Suc.prems(2) by (simp add: drop_bit_eq_div power_add)
  have IH: "(?y + drop_bit 4 ?y) AND alt_mask 4 k = pair_up 4 k ?y"
    using nib lt by (intro Suc.IH) blast+
  have le0: "take_bit 4 y \<le> 7" using Suc.prems(1) [rule_format, of 0] by simp
  have le1: "take_bit 4 (drop_bit 4 y) \<le> 7" using Suc.prems(1) [rule_format, of 1] by simp
  have le2: "take_bit 4 ?y \<le> 7" using nib [of 0] lt by (cases k) simp_all
  have sum: "y + drop_bit 4 y = (take_bit 4 y + take_bit 4 (drop_bit 4 y)) +
      16 * (take_bit 4 (drop_bit 4 y) + take_bit 4 ?y) + 256 * (?y + drop_bit 4 ?y)"
    using byte_parts(1,2) [of y] byte_parts(3) [of ?y] by (rule nibble_sums)
  have lt16: "take_bit 4 y + take_bit 4 (drop_bit 4 y) < 16"
    "take_bit 4 (drop_bit 4 y) + take_bit 4 ?y < 16"
    using le0 le1 le2 by linarith+
  have t: "take_bit 4 (y + drop_bit 4 y) = take_bit 4 y + take_bit 4 (drop_bit 4 y)"
    by (subst sum) (rule unpack_sums(1) [OF lt16])
  have d: "drop_bit 8 (y + drop_bit 4 y) = ?y + drop_bit 4 ?y"
    by (subst sum) (rule unpack_sums(2) [OF lt16])
  have w: "(4::nat) + 4 = 8" by simp
  show ?case
    unfolding and_alt_mask pair_up_Suc w t d IH by (rule refl)
qed

lemma pair_up_nibble_le:
  "i < k \<Longrightarrow> take_bit 4 (drop_bit (4 * i) (pair_up 2 k x)) \<le> 7"
proof (induction k arbitrary: i x)
  case 0
  then show ?case by simp
next
  case (Suc k)
  let ?s = "take_bit 2 x + take_bit 2 (drop_bit 2 x)"
  have w: "(2::nat) + 2 = 4" by simp
  have fit: "?s < 2 ^ 4" using two_fields_fit [of 2 x "drop_bit 2 x"] unfolding w by simp
  have le: "?s \<le> 7"
    using take_bit_nat_less_exp [of 2 x] take_bit_nat_less_exp [of 2 "drop_bit 2 x"] by simp
  have p: "pair_up 2 (Suc k) x = ?s + push_bit 4 (pair_up 2 k (drop_bit 4 x))"
    unfolding pair_up_Suc w ..
  show ?case
  proof (cases i)
    case 0
    then show ?thesis using le by (simp only: p take_drop_pack(1) [OF fit] mult_0_right drop_bit_0 id_apply)
  next
    case (Suc j)
    have "drop_bit (4 * i) (pair_up 2 (Suc k) x) = drop_bit (4 * j) (drop_bit 4 (pair_up 2 (Suc k) x))"
      by (simp add: Suc drop_bit_drop_bit add.commute)
    also have "\<dots> = drop_bit (4 * j) (pair_up 2 k (drop_bit 4 x))"
      unfolding p take_drop_pack(2) [OF fit] ..
    finally show ?thesis using Suc.IH [of j] Suc.prems Suc by simp
  qed
qed

lemma field_sum_4:
  "field_sum w 4 z = take_bit w z + take_bit w (drop_bit w z) +
     take_bit w (drop_bit (w + w) z) + take_bit w (drop_bit (w + w + w) z)"
  by (simp add: eval_nat_numeral drop_bit_drop_bit add.assoc)

lemma byte_sum_by_multiplication:
  fixes z :: nat
  assumes "z < 2 ^ 32" and "field_sum 8 4 z < 256"
  shows "z * 0x1010101 mod 2 ^ 32 div 2 ^ 24 = field_sum 8 4 z"
proof -
  define b0 b1 b2 b3 where b: "b0 = z mod 256" "b1 = z div 256 mod 256"
    "b2 = z div 65536 mod 256" "b3 = z div 16777216"
  have d: "w = w mod 256 + 256 * (w div 256)" for w :: nat by simp
  have z: "z = b0 + 256 * b1 + 65536 * b2 + 16777216 * b3"
    using d [of z] d [of "z div 256"] d [of "z div 65536"]
    by (simp only: b div_mult2_eq [symmetric] numeral_times_numeral mult_num_simps add_num_simps)
  have b3: "z div 16777216 mod 256 = b3" using assms(1) by (simp add: b)
  have fs: "field_sum 8 4 z = b0 + b1 + b2 + b3"
    using b3 by (simp add: field_sum_4 take_bit_eq_mod drop_bit_eq_div b(1-3))
  define low where "low = b0 + 256 * (b0 + b1) + 65536 * (b0 + b1 + b2)"
  define q where "q = b1 + b2 + b3 + 256 * (b2 + b3) + 65536 * b3"
  have s: "b0 + b1 + b2 + b3 < 256" using assms(2) by (simp only: fs)
  have low: "low < 16777216" using s by (simp add: low_def)
  have "z * 0x1010101 = (low + 16777216 * (b0 + b1 + b2 + b3)) + 4294967296 * q"
    using arg_cong [OF z, of "\<lambda>t. t * 0x1010101"] by (simp add: low_def q_def)
  then have "z * 0x1010101 mod 4294967296 = low + 16777216 * (b0 + b1 + b2 + b3)"
    using low s by simp
  moreover have "(low + 16777216 * (b0 + b1 + b2 + b3)) div 16777216 = b0 + b1 + b2 + b3"
    using low by simp
  ultimately show ?thesis unfolding fs by simp
qed

text \<open>The three steps of the routine on the natural number behind the word.\<close>

lemma alt_mask_numeral:
  "alt_mask w (numeral k) = 2 ^ w - 1 + 2 ^ (w + w) * alt_mask w (pred_numeral k)"
  by (simp add: numeral_eq_Suc mask_eq_exp_minus_1 push_bit_eq_mult mult.commute)

lemma alt_masks: "alt_mask 1 16 = 0x55555555" "alt_mask 2 8 = 0x33333333" "alt_mask 4 4 = 0xF0F0F0F"
  by (simp_all add: alt_mask_numeral mask_eq_exp_minus_1)

lemma step_pairs: "unat (v - (drop_bit 1 v AND 0x55555555)) = pair_up 1 16 (unat v)" for v :: u32
proof -
  let ?m = "drop_bit 1 v AND 0x55555555"
  have um: "unat ?m = (drop_bit 1 (unat v) AND alt_mask 1 16)"
    unfolding alt_masks(1) by (simp add: unsigned_and_eq unat_drop_bit_eq)
  have sp: "unat v = (unat v AND alt_mask 1 16) + 2 * unat ?m"
    unfolding um by (rule alt_mask_1_split) (use unat_less_exp [of v] in simp)
  then have "unat ?m \<le> unat v" by linarith
  then have "unat (v - ?m) = unat v - unat ?m" by (simp add: unat_sub word_le_nat_alt)
  also have "\<dots> = (unat v AND alt_mask 1 16) + unat ?m" using sp by linarith
  finally show ?thesis by (simp only: pair_up_def um)
qed

lemma step_nibbles:
  "unat ((v AND 0x33333333) + (drop_bit 2 v AND 0x33333333)) = pair_up 2 8 (unat v)" for v :: u32
proof -
  have "unat (v AND 0x33333333) \<le> 0x33333333" and "unat (drop_bit 2 v AND 0x33333333) \<le> 0x33333333"
    using word_and_le1 [of v "0x33333333"] word_and_le1 [of "drop_bit 2 v" "0x33333333"]
    by (simp_all add: word_le_nat_alt)
  then have "unat ((v AND 0x33333333) + (drop_bit 2 v AND 0x33333333)) =
      unat (v AND 0x33333333) + unat (drop_bit 2 v AND 0x33333333)"
    by (simp add: unat_word_ariths)
  then show ?thesis
    by (simp add: pair_up_def alt_masks(2) unsigned_and_eq unat_drop_bit_eq)
qed

lemma field_sum_le: "field_sum 1 k x \<le> k"
  unfolding field_sum_1 using card_mono [of "{..<k}" "{i. i < k \<and> bit x i}"] by auto

lemma pair_up_less: "pair_up 4 4 y < 2 ^ 32"
proof -
  have "y AND 0xF0F0F0F \<le> 0xF0F0F0F" and "drop_bit 4 y AND 0xF0F0F0F \<le> 0xF0F0F0F"
    by (simp_all add: and_nat_def nat_le_iff AND_upper2)
  then show ?thesis unfolding pair_up_def alt_masks by simp
qed

lemma count_uint32: "unat (my_count_bits_uint32 v) = pop_count v"
proof -
  define a where "a = v - (drop_bit 1 v AND 0x55555555)"
  define b where "b = (a AND 0x33333333) + (drop_bit 2 a AND 0x33333333)"
  define y where "y = unat b"
  have y: "y = pair_up 2 8 (pair_up 1 16 (unat v))"
    by (simp only: y_def b_def step_nibbles a_def step_pairs)
  have nib: "\<forall>i < 4 + 4. take_bit 4 (drop_bit (4 * i) y) \<le> 7"
    unfolding y by (intro allI impI pair_up_nibble_le) simp
  have ylt: "y < 2 ^ (8 * 4)" using unat_less_exp [of b] by (simp add: y_def)
  have carry: "y + drop_bit 4 y < 2 ^ 32"
  proof -
    have "take_bit 4 (drop_bit (4 * 7) y) \<le> 7" using nib [rule_format, of 7] by simp
    moreover have "drop_bit 28 y < 16" using ylt by (simp add: drop_bit_eq_div)
    ultimately have "y div 2 ^ 28 \<le> 7" by (simp add: take_bit_eq_mod drop_bit_eq_div)
    then have "y < 8 * 2 ^ 28" by simp
    moreover have "drop_bit 4 y \<le> y" by (simp add: drop_bit_eq_div)
    ultimately show ?thesis by simp
  qed
  define z where "z = pair_up 4 4 y"
  have "unat ((b + drop_bit 4 b) AND 0xF0F0F0F) = ((y + drop_bit 4 y) AND alt_mask 4 4)"
    using carry by (simp add: y_def alt_masks unsigned_and_eq unat_word_ariths unat_drop_bit_eq)
  also have "\<dots> = z" unfolding z_def using nib ylt by (rule nibbles_add_in_place)
  finally have uz: "unat ((b + drop_bit 4 b) AND 0xF0F0F0F) = z" .
  have fs: "field_sum 8 4 z = field_sum 1 32 (unat v)"
    using field_sum_pair_up [of 4 4 y] field_sum_pair_up [of 2 8 "pair_up 1 16 (unat v)"]
      field_sum_pair_up [of 1 16 "unat v"] by (simp add: z_def y numeral_2_eq_2 [symmetric])
  have "unat (drop_bit 24 (((b + drop_bit 4 b) AND 0xF0F0F0F) * 0x1010101)) =
      z * 0x1010101 mod 2 ^ 32 div 2 ^ 24"
    unfolding unat_drop_bit_eq drop_bit_eq_div uz [symmetric] by (simp add: unat_word_ariths)
  also have "\<dots> = field_sum 8 4 z"
  proof (rule byte_sum_by_multiplication)
    show "z < 2 ^ 32" unfolding z_def by (rule pair_up_less)
    show "field_sum 8 4 z < 256" unfolding fs using field_sum_le [of 32 "unat v"] by simp
  qed
  also have "\<dots> = pop_count v"
    unfolding fs field_sum_1 pop_count_def
    by (rule arg_cong [where f = card]) (auto simp: bit_simps dest: bit_imp_le_length)
  finally show ?thesis by (simp add: my_count_bits_uint32_def a_def b_def Let_def)
qed

lemma pop_count_le: "pop_count (v :: 'a::len word) \<le> LENGTH('a)"
  unfolding pop_count_def
  using card_mono [of "{..<LENGTH('a)}" "{i. bit v i}"] by (auto dest: bit_imp_le_length)

lemma pop_count_halves:
  "pop_count (x :: u64) = pop_count (ucast x :: u32) + pop_count (ucast (drop_bit 32 x) :: u32)"
proof -
  let ?lo = "{i. bit (ucast x :: u32) i}" and ?hi = "{i. bit (ucast (drop_bit 32 x) :: u32) i}"
  have "{i. bit x i} = ?lo \<union> (+) 32 ` ?hi"
  proof (rule set_eqI)
    fix i
    show "i \<in> {i. bit x i} \<longleftrightarrow> i \<in> ?lo \<union> (+) 32 ` ?hi"
    proof (cases "i < 32")
      case False
      then have "i = 32 + (i - 32)" by simp
      then show ?thesis using False bit_imp_le_length [of x i]
        by (auto simp: bit_simps image_iff intro!: exI [of _ "i - 32"])
    qed (auto simp: bit_simps)
  qed
  moreover have "card (?lo \<union> (+) 32 ` ?hi) = card ?lo + card ((+) 32 ` ?hi)"
    by (rule card_Un_disjoint) (auto simp: bit_simps)
  moreover have "card ((+) 32 ` ?hi) = card ?hi" by (rule card_image) simp
  ultimately show ?thesis by (simp add: pop_count_def)
qed

lemma count_bits_card: "unat (my_count_bits x) = card {i. bit x i}"
proof -
  have "pop_count (ucast x :: u32) \<le> 32" "pop_count (ucast (drop_bit 32 x) :: u32) \<le> 32"
    using pop_count_le [where 'a = 32] by simp_all
  then have "unat (my_count_bits x) = pop_count (ucast x :: u32) + pop_count (ucast (drop_bit 32 x) :: u32)"
    by (simp add: my_count_bits_def unat_word_ariths count_uint32)
  also have "\<dots> = pop_count x" by (rule pop_count_halves [symmetric])
  finally show ?thesis by (simp only: pop_count_def)
qed

text \<open>
  The parallel bit count of a 64-bit value, \<open>my_count_bits\<close>, returns exactly
  the number of bits that are set, for every value.
\<close>

theorem my_count_bits_correct: "unat (my_count_bits x) = card {i. bit x i}"
  by (rule count_bits_card)

end
