(* ===== verification/TypeInt.thy ===== *)
theory TypeInt
  imports BitCount
begin

text \<open>
  The integer values of \<open>sql_type_int.h\<close>: \<open>Longlong_null\<close>, a 64-bit integer or SQL null with the
  bitwise operators, and \<open>Longlong_hybrid\<close>, a 64-bit integer that is signed or unsigned. A
  \<open>longlong\<close> is a 64-bit word read with \<open>sint\<close>, a \<open>ulonglong\<close> the same word read with \<open>uint\<close>.
\<close>

section \<open>\<open>Longlong_null\<close>\<close>

record longlong_null =
  ll_value :: u64
  ll_is_null :: bool

definition Longlong_null2 :: "u64 \<Rightarrow> bool \<Rightarrow> longlong_null" where
  "Longlong_null2 nr null = \<lparr>ll_value = nr, ll_is_null = null\<rparr>"

definition Longlong_null0 :: longlong_null where
  "Longlong_null0 = \<lparr>ll_value = 0, ll_is_null = True\<rparr>"

definition Longlong_null1 :: "u64 \<Rightarrow> longlong_null" where
  "Longlong_null1 nr = \<lparr>ll_value = nr, ll_is_null = False\<rparr>"

definition ll_or :: "longlong_null \<Rightarrow> longlong_null \<Rightarrow> longlong_null" where
  "ll_or a b = (if ll_is_null a \<or> ll_is_null b then Longlong_null0 else Longlong_null1 (ll_value a OR ll_value b))"

definition ll_and :: "longlong_null \<Rightarrow> longlong_null \<Rightarrow> longlong_null" where
  "ll_and a b = (if ll_is_null a \<or> ll_is_null b then Longlong_null0 else Longlong_null1 (ll_value a AND ll_value b))"

definition ll_xor :: "longlong_null \<Rightarrow> longlong_null \<Rightarrow> longlong_null" where
  "ll_xor a b = (if ll_is_null a \<or> ll_is_null b then Longlong_null0 else Longlong_null1 (ll_value a XOR ll_value b))"

definition ll_not :: "longlong_null \<Rightarrow> longlong_null" where
  "ll_not a = (if ll_is_null a then a else Longlong_null1 (NOT (ll_value a)))"

text \<open>The shift count is converted to \<open>uint\<close>, that is, reduced to its low 32 bits.\<close>

definition ll_shl :: "longlong_null \<Rightarrow> longlong_null \<Rightarrow> longlong_null" where
  "ll_shl a llshift =
     (if ll_is_null a \<or> ll_is_null llshift then Longlong_null0
      else let shift = (ucast (ll_value llshift) :: u32)
           in Longlong_null1 (if unat shift < 64 then push_bit (unat shift) (ll_value a) else 0))"

definition ll_shr :: "longlong_null \<Rightarrow> longlong_null \<Rightarrow> longlong_null" where
  "ll_shr a llshift =
     (if ll_is_null a \<or> ll_is_null llshift then Longlong_null0
      else let shift = (ucast (ll_value llshift) :: u32)
           in Longlong_null1 (if unat shift < 64 then drop_bit (unat shift) (ll_value a) else 0))"

definition ll_bit_count :: "longlong_null \<Rightarrow> longlong_null" where
  "ll_bit_count a = (if ll_is_null a then a else Longlong_null1 (ucast (my_count_bits (ll_value a))))"

section \<open>\<open>Longlong_hybrid\<close>\<close>

record longlong_hybrid =
  m_value :: u64
  m_unsigned :: bool

definition Longlong_hybrid2 :: "u64 \<Rightarrow> bool \<Rightarrow> longlong_hybrid" where
  "Longlong_hybrid2 nr unsigned_flag = \<lparr>m_value = nr, m_unsigned = unsigned_flag\<rparr>"

definition LONGLONG_MAX :: u64 where "LONGLONG_MAX = 0x7FFFFFFFFFFFFFFF"
definition LONGLONG_MIN :: u64 where "LONGLONG_MIN = 0x8000000000000000"

definition cmp_signed :: "longlong_hybrid \<Rightarrow> longlong_hybrid \<Rightarrow> int" where
  "cmp_signed h other = (if sint (m_value h) < sint (m_value other) then - 1 else if m_value h = m_value other then 0 else 1)"

definition cmp_unsigned :: "longlong_hybrid \<Rightarrow> longlong_hybrid \<Rightarrow> int" where
  "cmp_unsigned h other = (if uint (m_value h) < uint (m_value other) then - 1 else if m_value h = m_value other then 0 else 1)"

definition is_unsigned_outside_of_signed_range :: "longlong_hybrid \<Rightarrow> bool" where
  "is_unsigned_outside_of_signed_range h \<longleftrightarrow> m_unsigned h \<and> uint (m_value h) > uint LONGLONG_MAX"

definition lh_neg :: "longlong_hybrid \<Rightarrow> bool" where
  "lh_neg h \<longleftrightarrow> sint (m_value h) < 0 \<and> \<not> m_unsigned h"

definition lh_abs :: "longlong_hybrid \<Rightarrow> u64" where
  "lh_abs h =
     (if m_unsigned h then m_value h
      else if m_value h = LONGLONG_MIN then LONGLONG_MAX + 1
      else if sint (m_value h) < 0 then - m_value h else m_value h)"

definition lh_to_ulonglong :: "u64 \<Rightarrow> longlong_hybrid \<Rightarrow> u64" where
  "lh_to_ulonglong upper_bound h =
     (if lh_neg h then 0 else if uint (m_value h) > uint upper_bound then upper_bound else m_value h)"

definition lh_to_uint :: "u32 \<Rightarrow> longlong_hybrid \<Rightarrow> u32" where
  "lh_to_uint upper_bound h = ucast (lh_to_ulonglong (ucast upper_bound) h)"

definition lh_cmp :: "longlong_hybrid \<Rightarrow> longlong_hybrid \<Rightarrow> int" where
  "lh_cmp h other =
     (if m_unsigned h = m_unsigned other then (if m_unsigned h then cmp_unsigned h other else cmp_signed h other)
      else if is_unsigned_outside_of_signed_range h then 1
      else if is_unsigned_outside_of_signed_range other then - 1
      else cmp_signed h other)"

definition lh_eq :: "longlong_hybrid \<Rightarrow> longlong_hybrid \<Rightarrow> bool" where
  "lh_eq h nr \<longleftrightarrow> lh_cmp h nr = 0"

definition lh_eq_ulonglong :: "longlong_hybrid \<Rightarrow> u64 \<Rightarrow> bool" where
  "lh_eq_ulonglong h nr \<longleftrightarrow> lh_cmp h (Longlong_hybrid2 nr True) = 0"

definition lh_eq_uint :: "longlong_hybrid \<Rightarrow> u32 \<Rightarrow> bool" where
  "lh_eq_uint h nr \<longleftrightarrow> lh_cmp h (Longlong_hybrid2 (ucast nr) True) = 0"

definition lh_eq_longlong :: "longlong_hybrid \<Rightarrow> u64 \<Rightarrow> bool" where
  "lh_eq_longlong h nr \<longleftrightarrow> lh_cmp h (Longlong_hybrid2 nr False) = 0"

definition lh_eq_int :: "longlong_hybrid \<Rightarrow> u32 \<Rightarrow> bool" where
  "lh_eq_int h nr \<longleftrightarrow> lh_cmp h (Longlong_hybrid2 (scast nr) False) = 0"

definition Longlong_hybrid_null :: "longlong_null \<Rightarrow> bool \<Rightarrow> longlong_hybrid \<times> bool" where
  "Longlong_hybrid_null nr unsigned_flag = (Longlong_hybrid2 (ll_value nr) unsigned_flag, ll_is_null nr)"

section \<open>The numbers they stand for\<close>

definition number :: "longlong_hybrid \<Rightarrow> int" where
  "number h = (if m_unsigned h then uint (m_value h) else sint (m_value h))"

lemma sint_uint64: "sint (w :: u64) = (if uint w < 2 ^ 63 then uint w else uint w - 2 ^ 64)"
proof -
  have u: "0 \<le> uint w" "uint w < 2 ^ 64" using uint_range_size [of w] by (simp_all add: word_size)
  have "sint w = signed_take_bit 63 (uint w)" by (simp add: sint_uint)
  also have "\<dots> = (uint w + 2 ^ 63) mod 2 ^ 64 - 2 ^ 63"
    using signed_take_bit_eq_take_bit_shift [of 63 "uint w"] by (simp add: take_bit_eq_mod)
  also have "\<dots> = (if uint w < 2 ^ 63 then uint w else uint w - 2 ^ 64)"
  proof (cases "uint w < 2 ^ 63")
    case False
    then have "(uint w + 2 ^ 63) mod 2 ^ 64 = (uint w + 2 ^ 63 - 2 ^ 64) mod 2 ^ 64" by (metis minus_mod_self2)
    with False u show ?thesis by simp
  qed (use u in simp)
  finally show ?thesis .
qed

lemma uint64_range: "0 \<le> uint (w :: u64)" "uint (w :: u64) < 18446744073709551616"
  using uint_range_size [of w] by (simp_all add: word_size)

lemma uint_eq_iff64: "(v :: u64) = w \<longleftrightarrow> uint v = uint w"
  by (simp add: word_uint_eq_iff)

lemmas hybrid_defs = lh_cmp_def cmp_signed_def cmp_unsigned_def is_unsigned_outside_of_signed_range_def
  number_def LONGLONG_MAX_def LONGLONG_MIN_def lh_neg_def sint_uint64 uint_eq_iff64

lemma uint64_cases: "\<exists>x. uint (w :: u64) = x \<and> 0 \<le> x \<and> x < 18446744073709551616"
  using uint64_range [of w] by blast

lemma lh_cmp_number: "lh_cmp a b = sgn (number a - number b)"
proof -
  obtain x y where x: "uint (m_value a) = x" "0 \<le> x" "x < 18446744073709551616"
    and y: "uint (m_value b) = y" "0 \<le> y" "y < 18446744073709551616" using uint64_cases by metis
  show ?thesis using x(2,3) y(2,3) unfolding hybrid_defs x(1) y(1) sgn_if by auto
qed

lemma to_ulonglong_number: "uint (lh_to_ulonglong u h) = min (max 0 (number h)) (uint u)"
proof -
  obtain x y where x: "uint (m_value h) = x" "0 \<le> x" "x < 18446744073709551616"
    and y: "uint u = y" "0 \<le> y" using uint64_cases by metis
  show ?thesis using x(2,3) y(2) x(1) y(1) by (auto simp: lh_to_ulonglong_def hybrid_defs min_def max_def)
qed

lemma lh_abs_number: "uint (lh_abs h) = \<bar>number h\<bar>"
proof -
  obtain x where x: "uint (m_value h) = x" "0 \<le> x" "x < 18446744073709551616" using uint64_cases by metis
  have "uint (- m_value h) = (if x = 0 then 0 else 18446744073709551616 - x)"
    using x by (simp add: uint_word_ariths(4) zmod_zminus1_eq_if)
  then show ?thesis using x by (auto simp: lh_abs_def hybrid_defs)
qed

lemma to_uint_number: "uint (lh_to_uint u h) = min (max 0 (number h)) (uint u)"
proof -
  have u: "uint (ucast u :: u64) = uint u" by (simp add: uint_up_ucast is_up)
  have "uint (lh_to_ulonglong (ucast u) h) < 2 ^ 32"
    using uint_range_size [of u] unfolding to_ulonglong_number u by (simp add: word_size min_def)
  then have "uint (lh_to_uint u h) = uint (lh_to_ulonglong (ucast u) h)"
    by (simp add: lh_to_uint_def unsigned_ucast_eq take_bit_eq_mod)
  then show ?thesis unfolding to_ulonglong_number u .
qed

text \<open>
  Mixed comparisons are exact. Whatever the signedness of the two sides, comparing
  two hybrid integers gives the sign of the difference of the numbers they stand for, and the
  equality overloads for the four C integer types decide equality of those numbers.
\<close>

theorem hybrid_comparison_exact:
  "lh_cmp a b = sgn (number a - number b) \<and> (lh_eq a b \<longleftrightarrow> number a = number b) \<and>
   (lh_eq_ulonglong a u \<longleftrightarrow> number a = uint u) \<and> (lh_eq_longlong a u \<longleftrightarrow> number a = sint u) \<and>
   (lh_eq_uint a v \<longleftrightarrow> number a = uint v) \<and> (lh_eq_int a v \<longleftrightarrow> number a = sint v)"
proof -
  have v: "uint (ucast v :: u64) = uint v" "sint (scast v :: u64) = sint v"
    by (simp_all add: uint_up_ucast sint_up_scast is_up)
  show ?thesis
    by (simp add: lh_eq_def lh_eq_ulonglong_def lh_eq_longlong_def lh_eq_uint_def lh_eq_int_def lh_cmp_number sgn_0_0)
      (simp add: number_def Longlong_hybrid2_def v)
qed

text \<open>
  Conversions clamp. The absolute value is exact for every value, the smallest
  signed one included, and the conversions to unsigned types return the nearest number between
  0 and the given bound.
\<close>

theorem hybrid_conversions_clamp:
  "uint (lh_abs h) = \<bar>number h\<bar> \<and> (lh_neg h \<longleftrightarrow> number h < 0) \<and>
   uint (lh_to_ulonglong u h) = min (max 0 (number h)) (uint u) \<and> uint (lh_to_uint v h) = min (max 0 (number h)) (uint v)"
  using lh_abs_number to_ulonglong_number to_uint_number by (auto simp: lh_neg_def number_def)

text \<open>
  The shift operators of \<open>Longlong_null\<close>. For counts below \<open>2 ^ 32\<close> a left shift
  multiplies modulo \<open>2 ^ 64\<close> and a right shift divides, giving 0 from 64 on. But the count is cut to
  32 bits, so larger counts do not give 0: shifting by \<open>2 ^ 32\<close> returns the value unchanged.
\<close>

theorem shifts_truncate_count:
  "(unat k < 2 ^ 32 \<longrightarrow>
      uint (ll_value (ll_shl (Longlong_null1 x) (Longlong_null1 k))) = uint x * 2 ^ unat k mod 2 ^ 64 \<and>
      uint (ll_value (ll_shr (Longlong_null1 x) (Longlong_null1 k))) = uint x div 2 ^ unat k) \<and>
   ll_shl (Longlong_null1 x) (Longlong_null1 (2 ^ 32)) = Longlong_null1 x \<and>
   ll_shr (Longlong_null1 x) (Longlong_null1 (2 ^ 32)) = Longlong_null1 x"
proof (intro conjI impI)
  assume k: "unat k < 2 ^ 32"
  have "unat (ucast k :: u32) = take_bit 32 (unat k)" by (simp add: unsigned_ucast_eq)
  also have "\<dots> = unat k" using k by (rule take_bit_nat_eq_self)
  finally have shift: "unat (ucast k :: u32) = unat k" .
  have big: "uint x * 2 ^ unat k mod 2 ^ 64 = 0" "uint x div 2 ^ unat k = 0" if ge: "64 \<le> unat k"
  proof -
    obtain j where j: "unat k = 64 + j" using le_Suc_ex [OF ge] by blast
    show "uint x * 2 ^ unat k mod 2 ^ 64 = 0" unfolding j power_add by simp
    have "uint x < 2 ^ 64" using uint64_range(2) [of x] by simp
    also have "\<dots> \<le> (2 :: int) ^ unat k" using ge by (rule power_increasing) simp
    finally show "uint x div 2 ^ unat k = 0" using uint64_range(1) [of x] by (simp add: div_pos_pos_trivial)
  qed
  have pushed: "uint (push_bit n x) = uint x * 2 ^ n mod 2 ^ 64" for n
    unfolding unsigned_push_bit_eq by (simp add: push_bit_eq_mult take_bit_eq_mod)
  have dropped: "uint (drop_bit n x) = uint x div 2 ^ n" for n
    unfolding unsigned_drop_bit_eq using take_bit_int_eq_self [of "uint x" 64] uint64_range [of x] by (simp add: drop_bit_eq_div)
  show "uint (ll_value (ll_shl (Longlong_null1 x) (Longlong_null1 k))) = uint x * 2 ^ unat k mod 2 ^ 64"
    using big by (auto simp: ll_shl_def Longlong_null1_def shift pushed)
  show "uint (ll_value (ll_shr (Longlong_null1 x) (Longlong_null1 k))) = uint x div 2 ^ unat k"
    using big by (auto simp: ll_shr_def Longlong_null1_def shift dropped)
next
  have "(ucast (2 ^ 32 :: u64) :: u32) = 0" by simp
  then show "ll_shl (Longlong_null1 x) (Longlong_null1 (2 ^ 32)) = Longlong_null1 x"
    "ll_shr (Longlong_null1 x) (Longlong_null1 (2 ^ 32)) = Longlong_null1 x"
    by (simp_all add: ll_shl_def ll_shr_def Longlong_null1_def)
qed

theorem shifts_truncate_count_witness:
  "uint (ll_value (ll_shl (Longlong_null1 5) (Longlong_null1 3))) = 40"
  using shifts_truncate_count [of 3 5] by simp

end
