(* ===== verification/MysqlTime.thy ===== *)
theory MysqlTime
  imports DateModes TypeInt
begin

text \<open>
  The structure \<open>MYSQL_TIME\<close> (\<open>mysql_time.h\<close>) and its helpers in \<open>my_time.h\<close> and \<open>sql_time.h\<close>.
  The fields are unsigned integers, modelled as natural numbers; the sums that the code forms
  are reduced modulo \<open>2\<^sup>3\<^sup>2\<close> where they can leave the range. The table of powers of ten
  \<open>log_10_int\<close> is defined in another library and is a parameter here.
\<close>

unbundle bit_operations_syntax

section \<open>The structure\<close>

datatype timestamp_type = MYSQL_TIMESTAMP_NONE | MYSQL_TIMESTAMP_ERROR | MYSQL_TIMESTAMP_DATE
  | MYSQL_TIMESTAMP_DATETIME | MYSQL_TIMESTAMP_TIME

text \<open>The enumeration starts at -2; the sign of a type is tested by \<open>tstype >= 0\<close>.\<close>

fun type_no :: "timestamp_type \<Rightarrow> int" where
  "type_no MYSQL_TIMESTAMP_NONE = - 2"
| "type_no MYSQL_TIMESTAMP_ERROR = - 1"
| "type_no MYSQL_TIMESTAMP_DATE = 0"
| "type_no MYSQL_TIMESTAMP_DATETIME = 1"
| "type_no MYSQL_TIMESTAMP_TIME = 2"

record mysql_time =
  year :: nat
  month :: nat
  day :: nat
  hour :: nat
  minute :: nat
  second :: nat
  second_part :: nat
  neg :: bool
  time_type :: timestamp_type

definition TIMESTAMP_MAX_YEAR :: nat where "TIMESTAMP_MAX_YEAR = 2038"
definition YY_PART_YEAR :: nat where "YY_PART_YEAR = 70"
definition TIMESTAMP_MIN_YEAR :: nat where "TIMESTAMP_MIN_YEAR = 1900 + YY_PART_YEAR - 1"
definition TIMESTAMP_MAX_VALUE :: int where "TIMESTAMP_MAX_VALUE = 0x7FFFFFFF"
definition TIMESTAMP_MIN_VALUE :: int where "TIMESTAMP_MIN_VALUE = 0"
definition SECONDS_IN_24H :: nat where "SECONDS_IN_24H = 86400"
definition TIME_MAX_INTERVAL_HOUR :: nat where "TIME_MAX_INTERVAL_HOUR = 87649415"
definition TIME_MAX_INTERVAL_DAY :: nat where "TIME_MAX_INTERVAL_DAY = 3652058"
definition TIME_MAX_HOUR :: nat where "TIME_MAX_HOUR = 838"
definition TIME_MAX_MINUTE :: nat where "TIME_MAX_MINUTE = 59"
definition TIME_MAX_SECOND :: nat where "TIME_MAX_SECOND = 59"
definition TIME_MAX_SECOND_PART :: nat where "TIME_MAX_SECOND_PART = 999999"
definition TIME_SECOND_PART_FACTOR :: nat where "TIME_SECOND_PART_FACTOR = TIME_MAX_SECOND_PART + 1"
definition TIME_SECOND_PART_DIGITS :: nat where "TIME_SECOND_PART_DIGITS = 6"
definition TIME_MAX_VALUE :: nat where
  "TIME_MAX_VALUE = TIME_MAX_HOUR * 10000 + TIME_MAX_MINUTE * 100 + TIME_MAX_SECOND"
definition TIME_MAX_VALUE_SECONDS :: nat where
  "TIME_MAX_VALUE_SECONDS = TIME_MAX_HOUR * 3600 + TIME_MAX_MINUTE * 60 + TIME_MAX_SECOND"

lemmas time_limits = TIME_MAX_INTERVAL_HOUR_def TIME_MAX_INTERVAL_DAY_def TIME_MAX_HOUR_def TIME_MAX_MINUTE_def
  TIME_MAX_SECOND_def TIME_MAX_SECOND_PART_def TIME_SECOND_PART_FACTOR_def TIME_SECOND_PART_DIGITS_def
  TIME_MAX_VALUE_SECONDS_def SECONDS_IN_24H_def TIMESTAMP_MAX_YEAR_def TIMESTAMP_MIN_YEAR_def YY_PART_YEAR_def

section \<open>Warnings\<close>

type_synonym warn = u32

definition MYSQL_TIME_WARN_TRUNCATED :: warn where "MYSQL_TIME_WARN_TRUNCATED = 1"
definition MYSQL_TIME_WARN_OUT_OF_RANGE :: warn where "MYSQL_TIME_WARN_OUT_OF_RANGE = 2"
definition MYSQL_TIME_WARN_EDOM :: warn where "MYSQL_TIME_WARN_EDOM = 4"
definition MYSQL_TIME_WARN_ZERO_DATE :: warn where "MYSQL_TIME_WARN_ZERO_DATE = 8"
definition MYSQL_TIME_NOTE_TRUNCATED :: warn where "MYSQL_TIME_NOTE_TRUNCATED = 16"

definition MYSQL_TIME_WARN_WARNINGS :: warn where
  "MYSQL_TIME_WARN_WARNINGS = MYSQL_TIME_WARN_TRUNCATED OR MYSQL_TIME_WARN_OUT_OF_RANGE OR
     MYSQL_TIME_WARN_EDOM OR MYSQL_TIME_WARN_ZERO_DATE"

definition MYSQL_TIME_WARN_NOTES :: warn where "MYSQL_TIME_WARN_NOTES = MYSQL_TIME_NOTE_TRUNCATED"

definition MYSQL_TIME_WARN_HAVE_WARNINGS :: "warn \<Rightarrow> bool" where
  "MYSQL_TIME_WARN_HAVE_WARNINGS x \<longleftrightarrow> x AND MYSQL_TIME_WARN_WARNINGS \<noteq> 0"

definition MYSQL_TIME_WARN_HAVE_NOTES :: "warn \<Rightarrow> bool" where
  "MYSQL_TIME_WARN_HAVE_NOTES x \<longleftrightarrow> x AND MYSQL_TIME_WARN_NOTES \<noteq> 0"

lemmas warn_defs = MYSQL_TIME_WARN_TRUNCATED_def MYSQL_TIME_WARN_OUT_OF_RANGE_def MYSQL_TIME_WARN_EDOM_def
  MYSQL_TIME_WARN_ZERO_DATE_def MYSQL_TIME_NOTE_TRUNCATED_def

record time_status =
  warnings :: warn
  precision :: nat
  nanoseconds :: nat

definition my_time_status_init :: time_status where
  "my_time_status_init = \<lparr>warnings = 0, precision = 0, nanoseconds = 0\<rparr>"

section \<open>The range of timestamps\<close>

definition validate_timestamp_range :: "mysql_time \<Rightarrow> bool" where
  "validate_timestamp_range t =
     (\<not> ((year t > TIMESTAMP_MAX_YEAR \<or> year t < TIMESTAMP_MIN_YEAR) \<or>
         (year t = TIMESTAMP_MAX_YEAR \<and> (month t > 1 \<or> day t > 19)) \<or>
         (year t = TIMESTAMP_MIN_YEAR \<and> (month t < 12 \<or> day t < 31))))"

definition IS_TIME_T_VALID_FOR_TIMESTAMP :: "int \<Rightarrow> bool" where
  "IS_TIME_T_VALID_FOR_TIMESTAMP x \<longleftrightarrow> x \<le> TIMESTAMP_MAX_VALUE \<and> x \<ge> TIMESTAMP_MIN_VALUE"

text \<open>The rough test keeps every date from 1969-12-31 to 2038-01-19, and no other.\<close>

lemma validate_timestamp_range_dates:
  assumes "1 \<le> month t" "month t \<le> 12" "day t \<le> 31"
  shows "validate_timestamp_range t \<longleftrightarrow>
    19691231 \<le> year t * 10000 + month t * 100 + day t \<and> year t * 10000 + month t * 100 + day t \<le> 20380119"
proof (cases "year t = TIMESTAMP_MAX_YEAR \<or> year t = TIMESTAMP_MIN_YEAR")
  case True
  then show ?thesis using assms by (auto simp: validate_timestamp_range_def time_limits)
next
  case False
  then have "validate_timestamp_range t \<longleftrightarrow> 1969 < year t \<and> year t < 2038"
    by (auto simp: validate_timestamp_range_def time_limits)
  then show ?thesis using assms False by (auto simp: time_limits)
qed

section \<open>Fractional digits\<close>

type_synonym pow_table = "nat list"

definition powers_of_ten :: "pow_table \<Rightarrow> bool" where
  "powers_of_ten log_10_int \<longleftrightarrow> length log_10_int = 20 \<and> list_all (\<lambda>i. log_10_int ! i = 10 ^ i) [0..<20]"

lemma powers_of_ten_nth: "powers_of_ten tab \<Longrightarrow> i < 20 \<Longrightarrow> tab ! i = 10 ^ i"
  by (auto simp: powers_of_ten_def list_all_iff)

lemma powers_of_ten_exist: "powers_of_ten (map (\<lambda>i. 10 ^ i) [0..<20])"
  by (auto simp: powers_of_ten_def list_all_iff)

definition digit_power :: "pow_table \<Rightarrow> nat \<Rightarrow> nat option" where
  "digit_power log_10_int digits =
     do { dbug_assert (digits \<le> TIME_SECOND_PART_DIGITS); Some (log_10_int ! (TIME_SECOND_PART_DIGITS - digits)) }"

definition sec_part_shift :: "pow_table \<Rightarrow> nat \<Rightarrow> nat \<Rightarrow> nat option" where
  "sec_part_shift log_10_int part digits =
     do { p \<leftarrow> digit_power log_10_int digits; Some (part div p) }"

definition sec_part_unshift :: "pow_table \<Rightarrow> nat \<Rightarrow> nat \<Rightarrow> nat option" where
  "sec_part_unshift log_10_int part digits =
     do { p \<leftarrow> digit_power log_10_int digits; Some (part * p) }"

definition my_time_fraction_remainder :: "pow_table \<Rightarrow> nat \<Rightarrow> nat \<Rightarrow> nat option" where
  "my_time_fraction_remainder log_10_int nr decimals =
     do { p \<leftarrow> digit_power log_10_int decimals; Some (nr mod p) }"

definition my_datetime_trunc :: "pow_table \<Rightarrow> mysql_time \<Rightarrow> nat \<Rightarrow> mysql_time option" where
  "my_datetime_trunc log_10_int t decimals =
     do { r \<leftarrow> my_time_fraction_remainder log_10_int (second_part t) decimals;
          Some (t\<lparr>second_part := second_part t - r\<rparr>) }"

text \<open>The last step of \<open>my_time_trunc\<close>, which clears the sign of zero.\<close>

definition no_neg_zero :: "mysql_time \<Rightarrow> mysql_time" where
  "no_neg_zero t = (if second_part t = 0 \<and> neg t \<and> hour t = 0 \<and> minute t = 0 \<and> second t = 0 then t\<lparr>neg := False\<rparr> else t)"

definition my_time_trunc :: "pow_table \<Rightarrow> mysql_time \<Rightarrow> nat \<Rightarrow> mysql_time option" where
  "my_time_trunc log_10_int t decimals =
     do { r \<leftarrow> my_time_fraction_remainder log_10_int (second_part t) decimals;
          Some (no_neg_zero (t\<lparr>second_part := second_part t - r\<rparr>)) }"

record timeval =
  tv_sec :: int
  tv_usec :: nat

definition my_timeval_trunc :: "pow_table \<Rightarrow> timeval \<Rightarrow> nat \<Rightarrow> timeval option" where
  "my_timeval_trunc log_10_int tv decimals =
     do { r \<leftarrow> my_time_fraction_remainder log_10_int (tv_usec tv) decimals;
          Some (tv\<lparr>tv_usec := tv_usec tv - r\<rparr>) }"

lemmas fraction_defs = digit_power_def sec_part_shift_def sec_part_unshift_def my_time_fraction_remainder_def
  my_datetime_trunc_def my_time_trunc_def my_timeval_trunc_def

text \<open>Truncation of a fraction to a number of digits, on the numbers.\<close>

definition trunc_frac :: "nat \<Rightarrow> nat \<Rightarrow> nat" where
  "trunc_frac d n = n div 10 ^ (6 - d) * 10 ^ (6 - d)"

lemma trunc_frac_minus: "n - n mod 10 ^ (6 - d) = trunc_frac d n"
  by (simp add: trunc_frac_def minus_mod_eq_div_mult)

lemma trunc_frac_le: "trunc_frac d n \<le> n"
  by (simp add: trunc_frac_def)

lemma trunc_frac_close: "n < trunc_frac d n + 10 ^ (6 - d)"
proof -
  have "n = trunc_frac d n + n mod 10 ^ (6 - d)" unfolding trunc_frac_def by (rule div_mult_mod_eq [symmetric])
  moreover have "n mod 10 ^ (6 - d) < 10 ^ (6 - d)" by simp
  ultimately show ?thesis by linarith
qed

lemma trunc_frac_idem: "trunc_frac d (trunc_frac d n) = trunc_frac d n"
  by (simp add: trunc_frac_def)

lemma trunc_frac_6 [simp]: "trunc_frac 6 n = n"
  by (simp add: trunc_frac_def)

lemma digit_power_ten: "powers_of_ten tab \<Longrightarrow> d \<le> 6 \<Longrightarrow> digit_power tab d = Some (10 ^ (6 - d))"
  by (simp add: digit_power_def time_limits powers_of_ten_nth)

lemma fraction_remainder_ten:
  "powers_of_ten tab \<Longrightarrow> d \<le> 6 \<Longrightarrow> my_time_fraction_remainder tab n d = Some (n mod 10 ^ (6 - d))"
  by (simp add: my_time_fraction_remainder_def digit_power_ten)

lemma my_datetime_trunc_ten:
  "powers_of_ten tab \<Longrightarrow> d \<le> 6 \<Longrightarrow> my_datetime_trunc tab t d = Some (t\<lparr>second_part := trunc_frac d (second_part t)\<rparr>)"
  by (simp add: my_datetime_trunc_def fraction_remainder_ten trunc_frac_minus)

lemma my_timeval_trunc_ten:
  "powers_of_ten tab \<Longrightarrow> d \<le> 6 \<Longrightarrow> my_timeval_trunc tab tv d = Some (tv\<lparr>tv_usec := trunc_frac d (tv_usec tv)\<rparr>)"
  by (simp add: my_timeval_trunc_def fraction_remainder_ten trunc_frac_minus)

text \<open>Shifting a fraction to fewer digits and back truncates it.\<close>

lemma sec_part_shift_unshift:
  assumes "powers_of_ten tab" "d \<le> 6"
  shows "\<exists>s. sec_part_shift tab n d = Some s \<and> sec_part_unshift tab s d = Some (trunc_frac d n)"
    and "\<exists>u. sec_part_unshift tab n d = Some u \<and> sec_part_shift tab u d = Some n"
  using assms by (simp_all add: sec_part_shift_def sec_part_unshift_def digit_power_ten trunc_frac_def)

section \<open>Values in microseconds\<close>

text \<open>The length of a \<open>TIME\<close> value, without and with its sign.\<close>

definition time_abs :: "mysql_time \<Rightarrow> nat" where
  "time_abs t = ((hour t * 60 + minute t) * 60 + second t) * 1000000 + second_part t"

definition time_val :: "mysql_time \<Rightarrow> int" where
  "time_val t = (if neg t then - int (time_abs t) else int (time_abs t))"

lemma no_neg_zero_val [simp]: "time_val (no_neg_zero t) = time_val t"
  by (simp add: no_neg_zero_def time_val_def time_abs_def)

lemma no_neg_zero_sign: "neg (no_neg_zero t) \<Longrightarrow> time_val (no_neg_zero t) < 0"
  by (auto simp: no_neg_zero_def time_val_def time_abs_def split: if_splits)

lemma no_neg_zero_fields [simp]:
  "second_part (no_neg_zero t) = second_part t" "second (no_neg_zero t) = second t" "minute (no_neg_zero t) = minute t"
  "hour (no_neg_zero t) = hour t" "day (no_neg_zero t) = day t" "month (no_neg_zero t) = month t"
  "year (no_neg_zero t) = year t" "time_type (no_neg_zero t) = time_type t" "no_neg_zero (no_neg_zero t) = no_neg_zero t"
  by (simp_all add: no_neg_zero_def)

lemma my_time_trunc_ten:
  "powers_of_ten tab \<Longrightarrow> d \<le> 6 \<Longrightarrow> my_time_trunc tab t d = Some (no_neg_zero (t\<lparr>second_part := trunc_frac d (second_part t)\<rparr>))"
  by (simp add: my_time_trunc_def fraction_remainder_ten trunc_frac_minus)

lemma second_part_same: "second_part t = n \<Longrightarrow> t\<lparr>second_part := n\<rparr> = t"
  by (cases t) simp

text \<open>
  Truncation to \<open>d\<close> fractional digits moves a value towards zero by less than one unit of the
  last digit, has no more effect the second time, and never leaves a negative zero.
\<close>

theorem time_trunc_correct:
  assumes "powers_of_ten tab" and "d \<le> 6"
  shows "\<exists>u. my_time_trunc tab t d = Some u \<and> \<bar>time_val u\<bar> \<le> \<bar>time_val t\<bar> \<and>
    \<bar>time_val t\<bar> - \<bar>time_val u\<bar> < 10 ^ (6 - d) \<and> 0 \<le> time_val u * time_val t \<and>
    (neg u \<longrightarrow> time_val u < 0) \<and> my_time_trunc tab u d = Some u"
proof -
  let ?f = "trunc_frac d (second_part t)"
  let ?t = "t\<lparr>second_part := ?f\<rparr>"
  have u: "my_time_trunc tab t d = Some (no_neg_zero ?t)" by (rule my_time_trunc_ten [OF assms])
  have le: "?f \<le> second_part t" "second_part t < ?f + 10 ^ (6 - d)" by (rule trunc_frac_le, rule trunc_frac_close)
  have abs: "\<bar>time_val ?t\<bar> = int (time_abs ?t)" "\<bar>time_val t\<bar> = int (time_abs t)" by (simp_all add: time_val_def)
  have diff: "time_abs ?t \<le> time_abs t" "time_abs t < time_abs ?t + 10 ^ (6 - d)"
    using le by (simp_all add: time_abs_def)
  then have "int (time_abs t) < int (time_abs ?t) + 10 ^ (6 - d)" by (metis of_nat_add of_nat_less_iff of_nat_numeral of_nat_power)
  moreover have "my_time_trunc tab (no_neg_zero ?t) d = Some (no_neg_zero ?t)"
    by (simp add: my_time_trunc_ten [OF assms] trunc_frac_idem second_part_same)
  moreover have "0 \<le> time_val ?t * time_val t" by (simp add: time_val_def)
  ultimately show ?thesis using u diff abs no_neg_zero_sign [of ?t] by auto
qed

theorem time_trunc_correct_witness:
  "\<exists>u. my_time_trunc (map (\<lambda>i. 10 ^ i) [0..<20]) \<lparr>year = 0, month = 0, day = 0, hour = 0, minute = 0, second = 0,
     second_part = 999, neg = True, time_type = MYSQL_TIMESTAMP_TIME\<rparr> 3 = Some u \<and> \<not> (neg u \<and> time_val u = 0)"
  using time_trunc_correct [OF powers_of_ten_exist, of 3 "\<lparr>year = 0, month = 0, day = 0, hour = 0, minute = 0, second = 0,
     second_part = 999, neg = True, time_type = MYSQL_TIMESTAMP_TIME\<rparr>"] by auto

section \<open>Dates and date-times\<close>

definition datetime_to_date :: "mysql_time \<Rightarrow> mysql_time option" where
  "datetime_to_date t =
     do { dbug_assert (time_type t = MYSQL_TIMESTAMP_DATE \<or> time_type t = MYSQL_TIMESTAMP_DATETIME);
          dbug_assert (\<not> neg t);
          Some (t\<lparr>second_part := 0, hour := 0, minute := 0, second := 0, time_type := MYSQL_TIMESTAMP_DATE\<rparr>) }"

definition date_to_datetime :: "mysql_time \<Rightarrow> mysql_time option" where
  "date_to_datetime t =
     do { dbug_assert (time_type t = MYSQL_TIMESTAMP_DATE \<or> time_type t = MYSQL_TIMESTAMP_DATETIME);
          dbug_assert (\<not> neg t);
          Some (t\<lparr>time_type := MYSQL_TIMESTAMP_DATETIME\<rparr>) }"

definition non_zero_hhmmssuu :: "mysql_time \<Rightarrow> bool" where
  "non_zero_hhmmssuu t \<longleftrightarrow> hour t \<noteq> 0 \<or> minute t \<noteq> 0 \<or> second t \<noteq> 0 \<or> second_part t \<noteq> 0"

definition non_zero_YYMMDD :: "mysql_time \<Rightarrow> bool" where
  "non_zero_YYMMDD t \<longleftrightarrow> year t \<noteq> 0 \<or> month t \<noteq> 0 \<or> day t \<noteq> 0"

definition non_zero_date :: "mysql_time \<Rightarrow> bool" where
  "non_zero_date t \<longleftrightarrow> non_zero_YYMMDD t \<or> (time_type t = MYSQL_TIMESTAMP_DATETIME \<and> non_zero_hhmmssuu t)"

lemma non_zero_hhmmssuu_abs: "non_zero_hhmmssuu t \<longleftrightarrow> time_abs t \<noteq> 0"
  by (auto simp: non_zero_hhmmssuu_def time_abs_def)

lemma date_round_trip:
  assumes "time_type t = MYSQL_TIMESTAMP_DATE" "\<not> neg t" "\<not> non_zero_hhmmssuu t"
  shows "Option.bind (date_to_datetime t) datetime_to_date = Some t"
  using assms by (simp add: date_to_datetime_def datetime_to_date_def non_zero_hhmmssuu_def)

end
