(* ===== verification/SecValues.thy ===== *)
theory SecValues
  imports MysqlTime
begin

text \<open>
  Seconds with a fraction (\<open>Sec6\<close>, \<open>Sec9\<close> and \<open>Sec6_add\<close> of \<open>sql_type.h\<close>), through which
  numbers are turned into temporal values. The conversion routines of \<open>my_time.h\<close> and
  \<open>sql_time.h\<close> that are only declared there are the fields of a record of parameters; what the
  theorems need of them is stated by named predicates on that record. An output argument
  is an argument for its old contents and a component of the result.
\<close>

unbundle bit_operations_syntax

record time_lib =
  log_10_int :: pow_table
  set_zero_time :: "mysql_time \<Rightarrow> timestamp_type \<Rightarrow> mysql_time"
  check_time_range :: "mysql_time \<Rightarrow> nat \<Rightarrow> warn \<Rightarrow> bool \<times> mysql_time \<times> warn"
  number_to_time_only :: "bool \<Rightarrow> nat \<Rightarrow> nat \<Rightarrow> nat \<Rightarrow> mysql_time \<Rightarrow> warn \<Rightarrow> bool \<times> mysql_time \<times> warn"
  number_to_datetime_or_date :: "int \<Rightarrow> nat \<Rightarrow> mysql_time \<Rightarrow> u64 \<Rightarrow> warn \<Rightarrow> int \<times> mysql_time \<times> warn"
  calc_time_diff :: "mysql_time \<Rightarrow> mysql_time \<Rightarrow> int \<Rightarrow> bool \<times> nat \<times> nat"
  calc_time_from_sec :: "mysql_time \<Rightarrow> nat \<Rightarrow> nat \<Rightarrow> mysql_time"
  get_date_from_daynr :: "nat \<Rightarrow> bool \<times> nat \<times> nat \<times> nat"
  adjust_time_range_with_warn :: "mysql_time \<Rightarrow> nat \<Rightarrow> bool \<times> mysql_time"

definition zero_time :: "timestamp_type \<Rightarrow> mysql_time" where
  "zero_time ty = \<lparr>year = 0, month = 0, day = 0, hour = 0, minute = 0, second = 0, second_part = 0, neg = False, time_type = ty\<rparr>"

definition zero_time_law :: "time_lib \<Rightarrow> bool" where
  "zero_time_law L \<longleftrightarrow> (\<forall>t ty. set_zero_time L t ty = zero_time ty)"

text \<open>\<open>check_time_range\<close> sets a value beyond the range of \<open>TIME\<close> to the largest one with \<open>dec\<close> digits.\<close>

definition time_range_law :: "time_lib \<Rightarrow> bool" where
  "time_range_law L \<longleftrightarrow> (\<forall>t dec w. TIME_MAX_HOUR < hour t \<and> dec \<le> 6 \<longrightarrow>
     fst (snd (check_time_range L t dec w)) =
       t\<lparr>hour := TIME_MAX_HOUR, minute := TIME_MAX_MINUTE, second := TIME_MAX_SECOND, second_part := trunc_frac dec TIME_MAX_SECOND_PART\<rparr>)"

section \<open>\<open>Sec6\<close>\<close>

record sec6 =
  m_sec :: nat
  m_usec :: nat
  m_neg :: bool
  m_truncated :: bool

definition sec6_make_from_int :: "longlong_hybrid \<Rightarrow> sec6" where
  "sec6_make_from_int nr = \<lparr>m_sec = unat (lh_abs nr), m_usec = 0, m_neg = lh_neg nr, m_truncated = False\<rparr>"

definition sec6_reset :: sec6 where
  "sec6_reset = \<lparr>m_sec = 0, m_usec = 0, m_neg = False, m_truncated = False\<rparr>"

definition sec6_add_nanoseconds :: "sec6 \<Rightarrow> nat \<Rightarrow> (bool \<times> sec6) option" where
  "sec6_add_nanoseconds s nsec =
     do { dbug_assert (nsec \<le> 1000000000);
          Some (if nsec < 500 then (False, s)
                else let s = s\<lparr>m_usec := m_usec s + (nsec + 500) div 1000\<rparr>
                     in if m_usec s < 1000000 then (False, s) else (True, s\<lparr>m_usec := m_usec s mod 1000000\<rparr>)) }"

text \<open>A \<open>ulonglong\<close> argument passed as a \<open>longlong\<close>.\<close>

definition as_longlong :: "nat \<Rightarrow> int" where
  "as_longlong n = (if n < 2 ^ 63 then int n else int n - 2 ^ 64)"

definition to_interval_hhmmssff_only :: "time_lib \<Rightarrow> sec6 \<Rightarrow> mysql_time \<Rightarrow> warn \<Rightarrow> bool \<times> mysql_time \<times> warn" where
  "to_interval_hhmmssff_only L s t w =
     number_to_time_only L (m_neg s) (m_sec s) (m_usec s) TIME_MAX_INTERVAL_HOUR t w"

definition to_datetime_or_date :: "time_lib \<Rightarrow> sec6 \<Rightarrow> mysql_time \<Rightarrow> warn \<Rightarrow> u64 \<Rightarrow> (bool \<times> mysql_time \<times> warn) option" where
  "to_datetime_or_date L s t w flags =
     (if m_neg s then Some (True, t, MYSQL_TIME_WARN_OUT_OF_RANGE)
      else case number_to_datetime_or_date L (as_longlong (m_sec s)) (m_usec s) t (flags AND TIME_MODE_FOR_XXX_TO_DATE) w of
             (nr, t, w) \<Rightarrow> do { let rc = (nr = - 1); dbug_assert (w \<noteq> 0 \<or> \<not> rc); Some (rc, t, w) })"

definition to_datetime_or_to_interval_hhmmssff :: "time_lib \<Rightarrow> sec6 \<Rightarrow> mysql_time \<Rightarrow> warn \<Rightarrow> (bool \<times> mysql_time \<times> warn) option" where
  "to_datetime_or_to_interval_hhmmssff L s t w =
     do { dbug_assert (TIME_MAX_INTERVAL_HOUR \<le> 999999995959);
          if m_sec s > 999999995959 \<and> m_sec s \<le> 99991231235959 \<and> \<not> m_neg s
          then to_datetime_or_date L s t w INVALID_DATES
          else if m_sec s div 10000 > TIME_MAX_INTERVAL_HOUR then Some (True, t, MYSQL_TIME_WARN_OUT_OF_RANGE)
          else Some (to_interval_hhmmssff_only L s t w) }"

definition to_datetime_or_time :: "time_lib \<Rightarrow> sec6 \<Rightarrow> mysql_time \<Rightarrow> warn \<Rightarrow> u64 \<Rightarrow> (bool \<times> mysql_time \<times> warn) option" where
  "to_datetime_or_time L s t w mode =
     do { let (rc, t, w) =
            (if m_sec s > 9999999 \<and> m_sec s \<le> 99991231235959 \<and> \<not> m_neg s
             then case number_to_datetime_or_date L (as_longlong (m_sec s)) (m_usec s) t (mode AND TIME_MODE_FOR_XXX_TO_DATE) w of
                    (nr, t, w) \<Rightarrow> (nr < 0, t, w)
             else number_to_time_only L (m_neg s) (m_sec s) (m_usec s) TIME_MAX_HOUR t w);
          dbug_assert (w \<noteq> 0 \<or> \<not> rc);
          Some (rc, t, w) }"

definition sec_to_time :: "time_lib \<Rightarrow> sec6 \<Rightarrow> mysql_time \<Rightarrow> nat \<Rightarrow> (bool \<times> mysql_time) option" where
  "sec_to_time L s t dec =
     do { let t = set_zero_time L t MYSQL_TIMESTAMP_TIME;
          let t = t\<lparr>neg := m_neg s\<rparr>;
          if m_sec s > TIME_MAX_VALUE_SECONDS
          then let t = t\<lparr>hour := TIME_MAX_HOUR + 1\<rparr> in Some (True, fst (snd (check_time_range L t dec 0)))
          else do { dbug_assert (m_usec s \<le> TIME_MAX_SECOND_PART);
                    Some (False, t\<lparr>hour := m_sec s div 3600 mod 2 ^ 32, minute := m_sec s mod 3600 mod 2 ^ 32 div 60,
                                   second := m_sec s mod 2 ^ 32 mod 60, second_part := m_usec s\<rparr>) } }"

definition sec6_trunc :: "pow_table \<Rightarrow> sec6 \<Rightarrow> nat \<Rightarrow> sec6 option" where
  "sec6_trunc tab s dec =
     do { r \<leftarrow> my_time_fraction_remainder tab (m_usec s) dec; Some (s\<lparr>m_usec := m_usec s - r\<rparr>) }"

section \<open>\<open>Sec9\<close>\<close>

record sec9 = sec6 +
  m_nsec :: nat

definition sec9_make_from_int :: "longlong_hybrid \<Rightarrow> sec9" where
  "sec9_make_from_int nr = sec6.extend (sec6_make_from_int nr) \<lparr>m_nsec = 0\<rparr>"

definition sec9_trunc :: "pow_table \<Rightarrow> sec9 \<Rightarrow> nat \<Rightarrow> sec9 option" where
  "sec9_trunc tab s dec =
     do { let s = s\<lparr>m_nsec := 0\<rparr>;
          r \<leftarrow> my_time_fraction_remainder tab (m_usec s) dec; Some (s\<lparr>m_usec := m_usec s - r\<rparr>) }"

text \<open>Rounding by mode; \<open>Sec9::round(uint)\<close> itself is only declared in the header.\<close>

definition sec9_round_mode :: "pow_table \<Rightarrow> (sec9 \<Rightarrow> nat \<Rightarrow> sec9) \<Rightarrow> sec9 \<Rightarrow> nat \<Rightarrow> u64 \<Rightarrow> sec9 option" where
  "sec9_round_mode tab round s dec mode = (if mode = FRAC_TRUNCATE then sec9_trunc tab s dec else Some (round s dec))"

section \<open>Values\<close>

definition sec6_val :: "'a sec6_scheme \<Rightarrow> int" where
  "sec6_val s = (if m_neg s then - int (m_sec s * 1000000 + m_usec s) else int (m_sec s * 1000000 + m_usec s))"

lemma lh_abs_unat: "int (unat (lh_abs nr)) = \<bar>number nr\<bar>"
proof (cases "m_unsigned nr")
  case True
  then show ?thesis by (simp add: lh_abs_def number_def)
next
  case False
  let ?v = "m_value nr"
  have range: "0 \<le> uint ?v" "uint ?v < 18446744073709551616" by (rule uint64_range)+
  have s: "sint ?v = (if uint ?v < 9223372036854775808 then uint ?v else uint ?v - 18446744073709551616)"
    using sint_uint64 [of ?v] by simp
  consider "?v = LONGLONG_MIN" | "?v \<noteq> LONGLONG_MIN" "sint ?v < 0" | "?v \<noteq> LONGLONG_MIN" "0 \<le> sint ?v" by linarith
  then show ?thesis
  proof cases
    case 1
    then have "uint ?v = 9223372036854775808" by (simp add: LONGLONG_MIN_def)
    with 1 False s show ?thesis by (simp add: lh_abs_def number_def LONGLONG_MAX_def)
  next
    case 2
    then have n: "9223372036854775808 \<le> uint ?v" using s range by (simp split: if_splits)
    then have "uint ?v \<noteq> 0" by linarith
    then have "uint (- ?v) = 18446744073709551616 - uint ?v" using uint_word_ariths(4) [of ?v] range
      by (simp add: zmod_zminus1_eq_if)
    with 2 False s n show ?thesis by (simp add: lh_abs_def number_def)
  next
    case 3
    with False s range show ?thesis by (simp add: lh_abs_def number_def split: if_splits)
  qed
qed

lemma sec6_make_from_int_val: "sec6_val (sec6_make_from_int nr) = number nr * 1000000"
proof -
  have "lh_neg nr \<longleftrightarrow> number nr < 0"
    using uint64_range [of "m_value nr"] by (auto simp: lh_neg_def number_def)
  then show ?thesis using lh_abs_unat [of nr] by (simp add: sec6_val_def sec6_make_from_int_def)
qed

lemma sec6_add_nanoseconds_val:
  assumes "m_usec s \<le> 999999" "n \<le> 1000000000"
  shows "\<exists>c u. sec6_add_nanoseconds s n = Some (c, u) \<and> m_usec u \<le> 999999 \<and> m_sec u = m_sec s \<and> m_neg u = m_neg s \<and>
    m_usec u + (if c then 1000000 else 0) = m_usec s + (n + 500) div 1000"
proof (cases "n < 500")
  case True
  then have "sec6_add_nanoseconds s n = Some (False, s)" using assms by (simp add: sec6_add_nanoseconds_def)
  with True show ?thesis using assms by auto
next
  case False
  let ?u = "m_usec s + (n + 500) div 1000"
  show ?thesis
  proof (cases "?u < 1000000")
    case True
    with False assms have "sec6_add_nanoseconds s n = Some (False, s\<lparr>m_usec := ?u\<rparr>)" by (simp add: sec6_add_nanoseconds_def Let_def)
    with True show ?thesis by auto
  next
    case c: False
    have "(n + 500) div 1000 \<le> 1000000" using assms(2) by simp
    then have "?u mod 1000000 + 1000000 = ?u" using c assms(1) by (simp add: mod_if)
    moreover have "sec6_add_nanoseconds s n = Some (True, s\<lparr>m_usec := ?u mod 1000000\<rparr>)"
      using False c assms by (simp add: sec6_add_nanoseconds_def Let_def)
    moreover have "?u mod 1000000 \<le> 999999" using mod_less_divisor [of 1000000 ?u] by linarith
    ultimately show ?thesis by auto
  qed
qed

lemma hms_split: "((n div 3600 * 60 + n mod 3600 div 60) * 60 + n mod 60) = (n :: nat)"
proof -
  have "n mod 3600 div 60 * 60 + n mod 3600 mod 60 = n mod 3600" by simp
  moreover have "n mod 3600 mod 60 = n mod 60" by (rule mod_mod_cancel) simp
  ultimately have "n mod 3600 div 60 * 60 + n mod 60 = n mod 3600" by simp
  moreover have "n div 3600 * 3600 + n mod 3600 = n" by simp
  moreover have "(a * 60 + b) * 60 + c = a * 3600 + (b * 60 + c)" for a b c :: nat by (simp add: add_mult_distrib)
  ultimately show ?thesis by metis
qed

text \<open>
  Elapsed seconds become a \<open>TIME\<close>: up to 838:59:59 with the same value, beyond that with the
  largest value of the requested precision, the sign kept, and a report of the overflow.
\<close>

theorem sec_to_time_saturates:
  assumes "zero_time_law L" and "time_range_law L" and "m_usec s \<le> TIME_MAX_SECOND_PART" and "dec \<le> 6"
  shows "\<exists>over v. sec_to_time L s t dec = Some (over, v) \<and> time_type v = MYSQL_TIMESTAMP_TIME \<and> neg v = m_neg s \<and>
    (over \<longleftrightarrow> m_sec s > TIME_MAX_VALUE_SECONDS) \<and>
    hour v \<le> TIME_MAX_HOUR \<and> minute v \<le> TIME_MAX_MINUTE \<and> second v \<le> TIME_MAX_SECOND \<and> second_part v \<le> TIME_MAX_SECOND_PART \<and>
    time_val v = (if over then (if m_neg s then - 1 else 1) * int (3020399 * 1000000 + trunc_frac dec 999999) else sec6_val s)"
proof (cases "m_sec s > TIME_MAX_VALUE_SECONDS")
  case True
  let ?t = "(zero_time MYSQL_TIMESTAMP_TIME)\<lparr>neg := m_neg s, hour := TIME_MAX_HOUR + 1\<rparr>"
  let ?v = "?t\<lparr>hour := TIME_MAX_HOUR, minute := TIME_MAX_MINUTE, second := TIME_MAX_SECOND, second_part := trunc_frac dec TIME_MAX_SECOND_PART\<rparr>"
  have "fst (snd (check_time_range L ?t dec 0)) = ?v" using assms(2, 4) by (simp add: time_range_law_def)
  then have "sec_to_time L s t dec = Some (True, ?v)"
    using True assms(1) by (simp add: sec_to_time_def zero_time_law_def Let_def)
  moreover have "trunc_frac dec 999999 \<le> 999999" by (rule trunc_frac_le)
  ultimately show ?thesis using True by (auto simp: zero_time_def time_val_def time_abs_def time_limits)
next
  case False
  let ?v = "(zero_time MYSQL_TIMESTAMP_TIME)\<lparr>neg := m_neg s, hour := m_sec s div 3600, minute := m_sec s mod 3600 div 60,
    second := m_sec s mod 60, second_part := m_usec s\<rparr>"
  from False have small: "m_sec s \<le> 3020399" by (simp add: time_limits)
  then have "m_sec s div 3600 mod 2 ^ 32 = m_sec s div 3600" "m_sec s mod 3600 mod 2 ^ 32 = m_sec s mod 3600"
    "m_sec s mod 2 ^ 32 = m_sec s" by simp_all
  then have "sec_to_time L s t dec = Some (False, ?v)"
    using False assms(1, 3) by (simp add: sec_to_time_def zero_time_law_def Let_def)
  moreover have "m_sec s div 3600 \<le> 838" "m_sec s mod 3600 div 60 \<le> 59" "m_sec s mod 60 \<le> 59" using small by simp_all
  moreover have "time_val ?v = sec6_val s"
    using hms_split [of "m_sec s"] by (simp add: zero_time_def time_val_def time_abs_def sec6_val_def)
  ultimately show ?thesis using False assms(3) by (auto simp: zero_time_def time_limits)
qed

text \<open>A library that satisfies both laws.\<close>

definition saturate_time :: "mysql_time \<Rightarrow> nat \<Rightarrow> mysql_time" where
  "saturate_time t dec = (if TIME_MAX_HOUR < hour t
     then t\<lparr>hour := TIME_MAX_HOUR, minute := TIME_MAX_MINUTE, second := TIME_MAX_SECOND, second_part := trunc_frac dec TIME_MAX_SECOND_PART\<rparr>
     else t)"

definition sample_lib :: time_lib where
  "sample_lib = \<lparr>log_10_int = map (\<lambda>i. 10 ^ i) [0..<20], set_zero_time = (\<lambda>t. zero_time),
     check_time_range = (\<lambda>t dec w. (False, saturate_time t dec, w)),
     number_to_time_only = (\<lambda>n s u mx t w. (False, t, w)),
     number_to_datetime_or_date = (\<lambda>n u t f w. (n, t, w)),
     calc_time_diff = (\<lambda>a b s. let d = int (time_abs a) - s * int (time_abs b)
        in (d < 0, nat \<bar>d\<bar> div 1000000, nat \<bar>d\<bar> mod 1000000)),
     calc_time_from_sec = (\<lambda>t n u. t\<lparr>hour := n div 3600, minute := n mod 3600 div 60, second := n mod 60, second_part := u\<rparr>),
     get_date_from_daynr = (\<lambda>n. (False, 0, 0, 0)),
     adjust_time_range_with_warn = (\<lambda>t dec. (False, saturate_time t dec))\<rparr>"

theorem sec_to_time_saturates_witness:
  "\<exists>v. sec_to_time sample_lib \<lparr>m_sec = 4000000, m_usec = 5, m_neg = True, m_truncated = False\<rparr> (zero_time MYSQL_TIMESTAMP_NONE) 3 = Some (True, v) \<and>
    time_val v = - 3020399999000"
  using sec_to_time_saturates [of sample_lib "\<lparr>m_sec = 4000000, m_usec = 5, m_neg = True, m_truncated = False\<rparr>" 3 "zero_time MYSQL_TIMESTAMP_NONE"]
  by (auto simp: zero_time_law_def time_range_law_def sample_lib_def saturate_time_def time_limits trunc_frac_def)

section \<open>\<open>Sec6_add\<close>\<close>

text \<open>
  The sum or difference of two values as seconds, a fraction and a sign. The object is built
  from the absolute values by \<open>calc_time_diff\<close>, which subtracts them for the sign 1 and adds
  them for -1 and reports whether the result is negative. When the second value is no \<open>TIME\<close>
  the other members stay unset, and no method reads them; they are written as zeros here.
\<close>

record sec6_add =
  a_sec :: nat
  a_usec :: nat
  a_neg :: bool
  a_error :: bool

definition Sec6_add :: "time_lib \<Rightarrow> mysql_time \<Rightarrow> mysql_time \<Rightarrow> int \<Rightarrow> sec6_add option" where
  "Sec6_add L ltime1 ltime2 sign =
     do { dbug_assert (sign = - 1 \<or> sign = 1);
          dbug_assert (\<not> neg ltime1 \<or> time_type ltime1 = MYSQL_TIMESTAMP_TIME);
          if time_type ltime2 \<noteq> MYSQL_TIMESTAMP_TIME
          then Some \<lparr>a_sec = 0, a_usec = 0, a_neg = False, a_error = True\<rparr>
          else let sign = (if neg ltime1 \<noteq> neg ltime2 then - sign else sign)
               in case calc_time_diff L ltime1 ltime2 (- sign) of
                    (n, s, u) \<Rightarrow> Some \<lparr>a_sec = s, a_usec = u,
                      a_neg = (if neg ltime1 \<and> (s \<noteq> 0 \<or> u \<noteq> 0) then \<not> n else n), a_error = False\<rparr> }"

definition to_days_abs :: "sec6_add \<Rightarrow> nat" where
  "to_days_abs a = a_sec a div SECONDS_IN_24H"

definition to_hh24mmssff :: "time_lib \<Rightarrow> sec6_add \<Rightarrow> timestamp_type \<Rightarrow> mysql_time" where
  "to_hh24mmssff L a tstype =
     (let t = (zero_time MYSQL_TIMESTAMP_DATE)\<lparr>neg := a_neg a\<rparr>
      in (calc_time_from_sec L t (a_sec a mod SECONDS_IN_24H) (a_usec a))\<lparr>time_type := tstype\<rparr>)"

definition add_to_time :: "time_lib \<Rightarrow> sec6_add \<Rightarrow> mysql_time \<Rightarrow> nat \<Rightarrow> bool \<times> mysql_time" where
  "add_to_time L a ltime decimals =
     (if a_error a then (True, ltime)
      else let t = to_hh24mmssff L a MYSQL_TIMESTAMP_TIME
           in adjust_time_range_with_warn L (t\<lparr>hour := (hour t + to_days_abs a * 24) mod 2 ^ 32\<rparr>) decimals)"

definition add_to_datetime :: "time_lib \<Rightarrow> sec6_add \<Rightarrow> mysql_time \<Rightarrow> bool \<times> mysql_time" where
  "add_to_datetime L a ltime =
     (if a_error a \<or> a_neg a then (True, ltime)
      else let t = to_hh24mmssff L a MYSQL_TIMESTAMP_DATETIME
           in case get_date_from_daynr L (to_days_abs a) of
                (rc, y, m, d) \<Rightarrow> (rc \<or> d = 0, t\<lparr>year := y, month := m, day := d\<rparr>))"

definition time_diff_law :: "time_lib \<Rightarrow> mysql_time \<Rightarrow> mysql_time \<Rightarrow> bool" where
  "time_diff_law L a b \<longleftrightarrow> (\<forall>sign \<in> {- 1, 1}. case calc_time_diff L a b sign of (n, s, u) \<Rightarrow>
     u < 1000000 \<and> (if n then - 1 else 1) * int (s * 1000000 + u) = int (time_abs a) - sign * int (time_abs b))"

definition time_from_sec_law :: "time_lib \<Rightarrow> bool" where
  "time_from_sec_law L \<longleftrightarrow> (\<forall>t n u. calc_time_from_sec L t n u =
     t\<lparr>hour := n div 3600, minute := n mod 3600 div 60, second := n mod 60, second_part := u\<rparr>)"

definition add_val :: "sec6_add \<Rightarrow> int" where
  "add_val a = (if a_neg a then - 1 else 1) * int (a_sec a * 1000000 + a_usec a)"

lemma Sec6_add_val:
  assumes "time_diff_law L t1 t2" "sign \<in> {- 1, 1}" "time_type t1 = MYSQL_TIMESTAMP_TIME" "time_type t2 = MYSQL_TIMESTAMP_TIME"
  shows "\<exists>a. Sec6_add L t1 t2 sign = Some a \<and> \<not> a_error a \<and> a_usec a < 1000000 \<and> add_val a = time_val t1 + sign * time_val t2"
proof -
  define g where "g = (if neg t1 \<noteq> neg t2 then - sign else sign)"
  obtain n s u where d: "calc_time_diff L t1 t2 (- g) = (n, s, u)" by (metis prod_cases3)
  have g: "- g \<in> {- 1, 1}" using assms(2) by (auto simp: g_def)
  from assms(1) g d have law: "u < 1000000" "(if n then - 1 else 1) * int (s * 1000000 + u) = int (time_abs t1) + g * int (time_abs t2)"
    by (auto simp: time_diff_law_def)
  let ?a = "\<lparr>a_sec = s, a_usec = u, a_neg = (if neg t1 \<and> (s \<noteq> 0 \<or> u \<noteq> 0) then \<not> n else n), a_error = False\<rparr>"
  have "Sec6_add L t1 t2 sign = Some ?a"
    using assms(2-4) d by (auto simp: Sec6_add_def g_def Let_def)
  moreover have "add_val ?a = (if neg t1 then - 1 else 1) * ((if n then - 1 else 1) * int (s * 1000000 + u))"
    by (auto simp: add_val_def)
  then have "add_val ?a = time_val t1 + sign * time_val t2" unfolding law(2) by (auto simp: time_val_def g_def)
  ultimately show ?thesis using law(1) by auto
qed

lemma to_hh24mmssff_time:
  assumes "time_from_sec_law L"
  shows "time_abs ((to_hh24mmssff L a ty)\<lparr>hour := hour (to_hh24mmssff L a ty) + to_days_abs a * 24\<rparr>) = a_sec a * 1000000 + a_usec a"
proof -
  let ?r = "a_sec a mod 86400"
  have "a_sec a = a_sec a div 86400 * 86400 + ?r" by simp
  moreover have "(?r div 3600 * 60 + ?r mod 3600 div 60) * 60 + ?r mod 60 = ?r" by (rule hms_split)
  moreover have "((x + d * 24) * 60 + y) * 60 + z = d * 86400 + ((x * 60 + y) * 60 + z)" for x y z d :: nat
    by (simp add: add_mult_distrib)
  ultimately have "((?r div 3600 + a_sec a div 86400 * 24) * 60 + ?r mod 3600 div 60) * 60 + ?r mod 60 = a_sec a"
    by metis
  then show ?thesis using assms
    by (simp add: to_hh24mmssff_def time_from_sec_law_def time_abs_def to_days_abs_def time_limits Let_def)
qed

text \<open>
  Property C25: adding or subtracting two \<open>TIME\<close> values through \<open>Sec6_add\<close> yields, before the range is adjusted,
  a value with exactly the sum or difference of the signed values, for every combination of
  signs; the hours do not wrap around as long as the result has fewer than \<open>2\<^sup>3\<^sup>2\<close> of them.
\<close>

theorem time_addition_exact:
  assumes "time_diff_law L t1 t2" and "time_from_sec_law L" and "sign \<in> {- 1, 1}"
    and "time_type t1 = MYSQL_TIMESTAMP_TIME" and "time_type t2 = MYSQL_TIMESTAMP_TIME"
    and "\<bar>time_val t1 + sign * time_val t2\<bar> < 2 ^ 32 * 3600000000"
  shows "\<exists>a u. Sec6_add L t1 t2 sign = Some a \<and> add_to_time L a t dec = adjust_time_range_with_warn L u dec \<and>
    time_type u = MYSQL_TIMESTAMP_TIME \<and> time_val u = time_val t1 + sign * time_val t2"
proof -
  from Sec6_add_val [OF assms(1, 3-5)] obtain a where a: "Sec6_add L t1 t2 sign = Some a" "\<not> a_error a"
    "a_usec a < 1000000" "add_val a = time_val t1 + sign * time_val t2" by blast
  let ?h = "to_hh24mmssff L a MYSQL_TIMESTAMP_TIME"
  let ?u = "?h\<lparr>hour := hour ?h + to_days_abs a * 24\<rparr>"
  have abs: "time_abs ?u = a_sec a * 1000000 + a_usec a" by (rule to_hh24mmssff_time [OF assms(2)])
  have "\<bar>add_val a\<bar> = int (a_sec a * 1000000 + a_usec a)" by (simp add: add_val_def)
  with assms(6) a(4) have "int (time_abs ?u) < 2 ^ 32 * 3600000000" by (simp only: abs)
  then have "hour ?u < 2 ^ 32" by (simp add: time_abs_def)
  then have "add_to_time L a t dec = adjust_time_range_with_warn L ?u dec"
    using a(2) by (simp add: add_to_time_def Let_def)
  moreover have "neg ?u = a_neg a" "time_type ?u = MYSQL_TIMESTAMP_TIME"
    using assms(2) by (simp_all add: to_hh24mmssff_def time_from_sec_law_def Let_def)
  moreover from this abs have "time_val ?u = add_val a" by (simp add: time_val_def add_val_def)
  ultimately show ?thesis using a by metis
qed

definition sample_time :: "nat \<Rightarrow> bool \<Rightarrow> mysql_time" where
  "sample_time h n = (zero_time MYSQL_TIMESTAMP_TIME)\<lparr>hour := h, neg := n\<rparr>"

lemma sample_diff_law: "time_diff_law sample_lib (sample_time 30 True) (sample_time 5 False)"
  by (simp add: time_diff_law_def sample_lib_def sample_time_def zero_time_def time_abs_def Let_def)

lemma sample_from_sec_law: "time_from_sec_law sample_lib"
  by (simp add: time_from_sec_law_def sample_lib_def)

lemma sample_time_val: "time_val (sample_time h n) = (if n then - 1 else 1) * 3600000000 * int h"
  by (simp add: sample_time_def zero_time_def time_val_def time_abs_def)

theorem time_addition_exact_witness:
  "\<exists>a u. Sec6_add sample_lib (sample_time 30 True) (sample_time 5 False) 1 = Some a \<and>
    add_to_time sample_lib a (zero_time MYSQL_TIMESTAMP_NONE) 6 = adjust_time_range_with_warn sample_lib u 6 \<and> time_val u = - 90000000000"
proof -
  have "time_type (sample_time h n) = MYSQL_TIMESTAMP_TIME" for h n by (simp add: sample_time_def zero_time_def)
  with time_addition_exact [OF sample_diff_law sample_from_sec_law, of 1 "zero_time MYSQL_TIMESTAMP_NONE" 6]
  show ?thesis by (simp add: sample_time_val; metis)
qed

end
