(* ===== verification/TimeValues.thy ===== *)
theory TimeValues
  imports SecValues
begin

text \<open>
  The classes \<open>Temporal\<close>, \<open>Extract_source\<close>, \<open>Interval_DDhhmmssff\<close> and \<open>Time\<close> of \<open>sql_type.h\<close>: checked
  \<open>TIME\<close> values and their conversion from dates, numbers and date-times. Routines that the header
  only declares are parameters, as in \<open>SecValues\<close>. Debug assertions are \<open>None\<close> branches, so a
  result \<open>Some\<close> says that none of them fails.
\<close>

unbundle bit_operations_syntax

record class_lib = time_lib +
  set_current_date :: mysql_time
  calc_time_diff_TIME :: "mysql_time \<Rightarrow> mysql_time \<Rightarrow> int \<Rightarrow> mysql_time"
  convert_to_mysql_time :: "sec6 \<Rightarrow> mysql_time \<Rightarrow> warn \<Rightarrow> u64 \<Rightarrow> bool \<times> mysql_time \<times> warn"
  add_nanoseconds_with_round :: "mysql_time \<Rightarrow> warn \<Rightarrow> u64 \<Rightarrow> nat \<Rightarrow> bool \<times> mysql_time \<times> warn"
  round_or_set_max_nsec :: "mysql_time \<Rightarrow> nat \<Rightarrow> warn \<Rightarrow> nat \<Rightarrow> mysql_time \<times> warn"
  round_or_set_max :: "mysql_time \<Rightarrow> nat \<Rightarrow> warn \<Rightarrow> mysql_time \<times> warn"
  pack_time :: "mysql_time \<Rightarrow> int"
  TIME_to_ulonglong_time :: "mysql_time \<Rightarrow> nat"

abbreviation lib_of :: "class_lib \<Rightarrow> time_lib" where
  "lib_of L \<equiv> time_lib.truncate L"

section \<open>\<open>Temporal\<close>\<close>

definition is_valid_temporal :: "mysql_time \<Rightarrow> bool option" where
  "is_valid_temporal t =
     do { dbug_assert (time_type t \<noteq> MYSQL_TIMESTAMP_ERROR); Some (time_type t \<noteq> MYSQL_TIMESTAMP_NONE) }"

fun type_name_by_timestamp_type :: "timestamp_type \<Rightarrow> string" where
  "type_name_by_timestamp_type MYSQL_TIMESTAMP_DATE = ''date''"
| "type_name_by_timestamp_type MYSQL_TIMESTAMP_TIME = ''time''"
| "type_name_by_timestamp_type _ = ''datetime''"

text \<open>The type name in a conversion warning.\<close>

definition warning_type_name :: "u64 \<Rightarrow> timestamp_type \<Rightarrow> string" where
  "warning_type_name mode tstype =
     (if type_no tstype \<ge> 0 then type_name_by_timestamp_type tstype
      else if mode AND (INTERVAL_hhmmssff OR INTERVAL_DAY) \<noteq> 0 then ''interval''
      else if mode AND TIME_ONLY \<noteq> 0 then ''time'' else ''datetime'')"

definition make_fuzzy_date :: "class_lib \<Rightarrow> mysql_time \<Rightarrow> u64 \<Rightarrow> mysql_time" where
  "make_fuzzy_date L t fuzzydate =
     set_zero_time L t
       (if fuzzydate AND FUZZY_DATES = 0 then MYSQL_TIMESTAMP_NONE
        else if fuzzydate AND TIME_ONLY \<noteq> 0 then MYSQL_TIMESTAMP_TIME else MYSQL_TIMESTAMP_DATETIME)"

definition make_from_out_of_range :: "mysql_time \<Rightarrow> warn \<Rightarrow> mysql_time \<times> warn" where
  "make_from_out_of_range t w = (t\<lparr>time_type := MYSQL_TIMESTAMP_NONE\<rparr>, MYSQL_TIME_WARN_OUT_OF_RANGE)"

definition add_nanoseconds :: "class_lib \<Rightarrow> mysql_time \<Rightarrow> warn \<Rightarrow> u64 \<Rightarrow> nat \<Rightarrow> (bool \<times> mysql_time \<times> warn) option" where
  "add_nanoseconds L t w mode nsec =
     do { r \<leftarrow> to_round_mode mode;
          Some (if r = FRAC_ROUND then add_nanoseconds_with_round L t w (to_conv_mode mode) nsec else (False, t, w)) }"

definition make_from_sec6 :: "class_lib \<Rightarrow> mysql_time \<Rightarrow> warn \<Rightarrow> sec6 \<Rightarrow> u64 \<Rightarrow> mysql_time \<times> warn" where
  "make_from_sec6 L t w nr mode =
     (case convert_to_mysql_time L nr t w mode of
        (True, t, w) \<Rightarrow> (make_fuzzy_date L t (to_conv_mode mode), w)
      | (False, t, w) \<Rightarrow> (t, w))"

definition make_from_sec9 :: "class_lib \<Rightarrow> mysql_time \<Rightarrow> warn \<Rightarrow> sec9 \<Rightarrow> u64 \<Rightarrow> (mysql_time \<times> warn) option" where
  "make_from_sec9 L t w nr mode =
     (case convert_to_mysql_time L (sec6.truncate nr) t w mode of
        (True, t, w) \<Rightarrow> Some (make_fuzzy_date L t (to_conv_mode mode), w)
      | (False, t, w) \<Rightarrow>
          do { (failed, t, w) \<leftarrow> add_nanoseconds L t w mode (m_nsec nr);
               Some (if failed then (make_fuzzy_date L t (to_conv_mode mode), w) else (t, w)) })"

definition has_valid_mmssff :: "mysql_time \<Rightarrow> bool" where
  "has_valid_mmssff t \<longleftrightarrow> minute t \<le> TIME_MAX_MINUTE \<and> second t \<le> TIME_MAX_SECOND \<and> second_part t \<le> TIME_MAX_SECOND_PART"

definition has_zero_YYYYMM :: "mysql_time \<Rightarrow> bool" where
  "has_zero_YYYYMM t \<longleftrightarrow> year t = 0 \<and> month t = 0"

definition has_zero_YYYYMMDD :: "mysql_time \<Rightarrow> bool" where
  "has_zero_YYYYMMDD t \<longleftrightarrow> year t = 0 \<and> month t = 0 \<and> day t = 0"

definition time_hhmmssff_set_max :: "mysql_time \<Rightarrow> nat \<Rightarrow> mysql_time" where
  "time_hhmmssff_set_max t max_hour =
     t\<lparr>hour := max_hour, minute := TIME_MAX_MINUTE, second := TIME_MAX_SECOND, second_part := TIME_MAX_SECOND_PART\<rparr>"

definition add_nanoseconds_ssff :: "mysql_time \<Rightarrow> nat \<Rightarrow> (bool \<times> mysql_time) option" where
  "add_nanoseconds_ssff t nsec =
     do { dbug_assert (nsec \<le> 1000000000);
          Some (if nsec < 500 then (False, t)
                else let t = t\<lparr>second_part := second_part t + (nsec + 500) div 1000\<rparr>
                     in if second_part t < 1000000 then (False, t)
                        else let t = t\<lparr>second_part := second_part t mod 1000000\<rparr>
                             in if second t < 59 then (False, t\<lparr>second := second t + 1\<rparr>) else (True, t\<lparr>second := 0\<rparr>)) }"

definition add_nanoseconds_mmssff :: "mysql_time \<Rightarrow> nat \<Rightarrow> (bool \<times> mysql_time) option" where
  "add_nanoseconds_mmssff t nsec =
     do { (carry, t) \<leftarrow> add_nanoseconds_ssff t nsec;
          Some (if \<not> carry then (False, t)
                else if minute t < 59 then (False, t\<lparr>minute := minute t + 1\<rparr>) else (True, t\<lparr>minute := 0\<rparr>)) }"

section \<open>Rounding nanoseconds\<close>

lemma frac_carry:
  fixes p n :: nat
  assumes "p \<le> 999999" "n \<le> 1000000000" "\<not> p + (n + 500) div 1000 < 1000000"
  shows "(p + (n + 500) div 1000) mod 1000000 + 1000000 = p + (n + 500) div 1000"
proof -
  have "(n + 500) div 1000 \<le> 1000000" using assms(2) by simp
  then show ?thesis using assms(1, 3) by (simp add: mod_if)
qed

lemma frac_mod_le: "(x :: nat) mod 1000000 \<le> 999999"
  using mod_less_divisor [of 1000000 x] by linarith

definition ssff :: "mysql_time \<Rightarrow> nat" where
  "ssff t = second t * 1000000 + second_part t"

lemma add_ssff_exact:
  assumes "has_valid_mmssff t" "n \<le> 1000000000"
  obtains c u where "add_nanoseconds_ssff t n = Some (c, u)" "has_valid_mmssff u"
    "u\<lparr>second := second t, second_part := second_part t\<rparr> = t" "ssff u + (if c then 60000000 else 0) = ssff t + (n + 500) div 1000"
proof (cases "n < 500")
  case True
  with assms that [of False t] show ?thesis by (simp add: add_nanoseconds_ssff_def)
next
  case n: False
  let ?p = "second_part t + (n + 500) div 1000"
  show ?thesis
  proof (cases "?p < 1000000")
    case True
    with n assms that [of False "t\<lparr>second_part := ?p\<rparr>"] show ?thesis
      by (simp add: add_nanoseconds_ssff_def ssff_def has_valid_mmssff_def time_limits Let_def)
  next
    case p: False
    from assms have "second_part t \<le> 999999" by (simp add: has_valid_mmssff_def time_limits)
    from frac_carry [OF this assms(2) p] have carry: "?p mod 1000000 + 1000000 = ?p" .
    from frac_mod_le [of ?p] have le: "?p mod 1000000 \<le> 999999" .
    show ?thesis
    proof (cases "second t < 59")
      case True
      then have "add_nanoseconds_ssff t n = Some (False, t\<lparr>second_part := ?p mod 1000000, second := second t + 1\<rparr>)"
        using n p assms by (simp add: add_nanoseconds_ssff_def Let_def)
      then show ?thesis
        by (rule that) (use True carry le assms(1) in \<open>simp_all add: ssff_def has_valid_mmssff_def time_limits\<close>)
    next
      case False
      with assms(1) have "second t = 59" by (simp add: has_valid_mmssff_def time_limits)
      have "add_nanoseconds_ssff t n = Some (True, t\<lparr>second_part := ?p mod 1000000, second := 0\<rparr>)"
        using n p assms False by (simp add: add_nanoseconds_ssff_def Let_def)
      then show ?thesis
        by (rule that) (use \<open>second t = 59\<close> carry le assms(1) in \<open>simp_all add: ssff_def has_valid_mmssff_def time_limits\<close>)
    qed
  qed
qed

text \<open>
  Adding nanoseconds to the minutes, seconds and fraction of a valid value rounds them to
  microseconds, half up, and adds exactly that amount, with the carry out of the hour reported.
\<close>

theorem add_nanoseconds_exact:
  assumes "has_valid_mmssff t" and "n \<le> 1000000000"
  shows "\<exists>c u. add_nanoseconds_mmssff t n = Some (c, u) \<and> has_valid_mmssff u \<and>
    time_abs u + (if c then 3600000000 else 0) = time_abs t + (n + 500) div 1000 \<and>
    hour u = hour t \<and> day u = day t \<and> month u = month t \<and> year u = year t \<and> neg u = neg t \<and> time_type u = time_type t"
proof -
  from add_ssff_exact [OF assms] obtain c u where u: "add_nanoseconds_ssff t n = Some (c, u)" "has_valid_mmssff u"
    "u\<lparr>second := second t, second_part := second_part t\<rparr> = t" "ssff u + (if c then 60000000 else 0) = ssff t + (n + 500) div 1000" .
  from u(3) have same: "hour u = hour t" "minute u = minute t" "day u = day t" "month u = month t" "year u = year t" "neg u = neg t"
    "time_type u = time_type t" by (metis (no_types) mysql_time.surjective mysql_time.update_convs mysql_time.select_convs)+
  let ?v = "if minute u < 59 then (False, u\<lparr>minute := minute u + 1\<rparr>) else (True, u\<lparr>minute := 0\<rparr>)"
  show ?thesis
  proof (cases c)
    case False
    then have "add_nanoseconds_mmssff t n = Some (False, u)" using u(1) by (simp add: add_nanoseconds_mmssff_def)
    then show ?thesis using u False same by (auto simp: time_abs_def ssff_def)
  next
    case True
    then have "add_nanoseconds_mmssff t n = Some ?v" using u(1) by (simp add: add_nanoseconds_mmssff_def)
    moreover have "minute u \<le> 59" using u(2) by (simp add: has_valid_mmssff_def time_limits)
    ultimately show ?thesis using u(2, 4) True same
      by (cases "minute u < 59") (auto simp: time_abs_def ssff_def has_valid_mmssff_def time_limits)
  qed
qed

definition late_time :: mysql_time where
  "late_time = (zero_time MYSQL_TIMESTAMP_TIME)\<lparr>hour := 3, minute := 59, second := 59, second_part := 999999\<rparr>"

lemma late_time_valid: "has_valid_mmssff late_time" "time_abs late_time = 14399999999"
  by (simp_all add: late_time_def has_valid_mmssff_def time_limits zero_time_def time_abs_def)

theorem add_nanoseconds_exact_witness:
  "\<exists>c u. add_nanoseconds_mmssff late_time 500 = Some (c, u) \<and> time_abs u + (if c then 3600000000 else 0) = 14400000000"
proof -
  from add_nanoseconds_exact [OF late_time_valid(1), of 500] obtain c u
    where "add_nanoseconds_mmssff late_time 500 = Some (c, u)"
      "time_abs u + (if c then 3600000000 else 0) = time_abs late_time + (500 + 500) div 1000" by auto
  then show ?thesis unfolding late_time_valid(2) by (intro exI conjI) simp_all
qed

end
