(* ===== verification/TimeClass.thy ===== *)
theory TimeClass
  imports TimeValues
begin

text \<open>
  The remaining parts of \<open>Temporal\<close>, and the classes \<open>Extract_source\<close>, \<open>Interval_DDhhmmssff\<close> and
  \<open>Time\<close> of \<open>sql_type.h\<close>. An object of these classes is the \<open>MYSQL_TIME\<close> it derives from.
\<close>

unbundle bit_operations_syntax

section \<open>Conversion of strings\<close>

record str_lib =
  str_to_datetime_or_date_or_interval_day :: "string \<Rightarrow> mysql_time \<Rightarrow> u64 \<Rightarrow> time_status \<Rightarrow> nat \<Rightarrow> nat \<Rightarrow> bool \<times> mysql_time \<times> time_status"
  str_to_datetime_or_date_or_interval_hhmmssff :: "string \<Rightarrow> mysql_time \<Rightarrow> u64 \<Rightarrow> time_status \<Rightarrow> nat \<Rightarrow> nat \<Rightarrow> bool \<times> mysql_time \<times> time_status"
  str_to_datetime_or_date_or_time :: "string \<Rightarrow> mysql_time \<Rightarrow> u64 \<Rightarrow> time_status \<Rightarrow> nat \<Rightarrow> nat \<Rightarrow> bool \<times> mysql_time \<times> time_status"
  temporal_str_to_datetime_or_date_or_time :: "string \<Rightarrow> mysql_time \<Rightarrow> time_status \<Rightarrow> u64 \<Rightarrow> bool \<times> mysql_time \<times> time_status"
  str_to_datetime_or_date :: "string \<Rightarrow> mysql_time \<Rightarrow> u64 \<Rightarrow> time_status \<Rightarrow> bool \<times> mysql_time \<times> time_status"

text \<open>Each conversion asserts that a failure left a warning.\<close>

definition checked_conversion :: "bool \<times> mysql_time \<times> time_status \<Rightarrow> (bool \<times> mysql_time \<times> time_status) option" where
  "checked_conversion r = (case r of (rc, t, st) \<Rightarrow> do { dbug_assert (\<not> rc \<or> warnings st \<noteq> 0); Some (rc, t, st) })"

definition ascii_to_datetime_or_date_or_interval_DDhhmmssff ::
  "str_lib \<Rightarrow> mysql_time \<Rightarrow> time_status \<Rightarrow> string \<Rightarrow> u64 \<Rightarrow> (bool \<times> mysql_time \<times> time_status) option" where
  "ascii_to_datetime_or_date_or_interval_DDhhmmssff S t st str mode =
     (let cflags = mode AND TIME_MODE_FOR_XXX_TO_DATE
      in checked_conversion
           (if mode AND INTERVAL_DAY \<noteq> 0
            then str_to_datetime_or_date_or_interval_day S str t cflags st TIME_MAX_INTERVAL_HOUR TIME_MAX_INTERVAL_HOUR
            else str_to_datetime_or_date_or_interval_hhmmssff S str t cflags st TIME_MAX_INTERVAL_HOUR TIME_MAX_INTERVAL_HOUR))"

definition ascii_to_datetime_or_date_or_time ::
  "str_lib \<Rightarrow> mysql_time \<Rightarrow> time_status \<Rightarrow> string \<Rightarrow> u64 \<Rightarrow> (bool \<times> mysql_time \<times> time_status) option" where
  "ascii_to_datetime_or_date_or_time S t st str fuzzydate =
     checked_conversion (str_to_datetime_or_date_or_time S str t (fuzzydate AND TIME_MODE_FOR_XXX_TO_DATE) st TIME_MAX_HOUR 0xFFFFFFFF)"

definition ascii_to_datetime_or_date ::
  "str_lib \<Rightarrow> mysql_time \<Rightarrow> time_status \<Rightarrow> string \<Rightarrow> u64 \<Rightarrow> (bool \<times> mysql_time \<times> time_status) option" where
  "ascii_to_datetime_or_date S t st str fuzzydate =
     do { dbug_assert (fuzzydate AND TIME_ONLY = 0);
          checked_conversion (str_to_datetime_or_date S str t (fuzzydate AND TIME_MODE_FOR_XXX_TO_DATE) st) }"

definition ascii_to_temporal :: "str_lib \<Rightarrow> mysql_time \<Rightarrow> time_status \<Rightarrow> string \<Rightarrow> u64 \<Rightarrow> (bool \<times> mysql_time \<times> time_status) option" where
  "ascii_to_temporal S t st str mode =
     (if mode AND (INTERVAL_hhmmssff OR INTERVAL_DAY) \<noteq> 0 then ascii_to_datetime_or_date_or_interval_DDhhmmssff S t st str mode
      else if mode AND TIME_ONLY \<noteq> 0 then ascii_to_datetime_or_date_or_time S t st str mode
      else ascii_to_datetime_or_date S t st str mode)"

text \<open>When the conversions warn of their failures, no assertion of the dispatch fails.\<close>

definition warns_on_failure :: "bool \<times> mysql_time \<times> time_status \<Rightarrow> bool" where
  "warns_on_failure r \<longleftrightarrow> (fst r \<longrightarrow> warnings (snd (snd r)) \<noteq> 0)"

definition str_lib_law :: "str_lib \<Rightarrow> bool" where
  "str_lib_law S \<longleftrightarrow>
     (\<forall>str t f st a b. warns_on_failure (str_to_datetime_or_date_or_interval_day S str t f st a b) \<and>
        warns_on_failure (str_to_datetime_or_date_or_interval_hhmmssff S str t f st a b) \<and>
        warns_on_failure (str_to_datetime_or_date_or_time S str t f st a b) \<and> warns_on_failure (str_to_datetime_or_date S str t f st))"

lemma checked_conversion_ok: "warns_on_failure r \<Longrightarrow> checked_conversion r = Some r"
  by (auto simp: warns_on_failure_def checked_conversion_def split: prod.splits)

lemma ascii_to_temporal_defined: "str_lib_law S \<Longrightarrow> ascii_to_temporal S t st str mode \<noteq> None"
  by (simp add: str_lib_law_def checked_conversion_ok ascii_to_temporal_def
    ascii_to_datetime_or_date_or_interval_DDhhmmssff_def ascii_to_datetime_or_date_or_time_def ascii_to_datetime_or_date_def Let_def del: not_None_eq)

section \<open>\<open>Extract_source\<close>\<close>

definition time_to_daytime_interval :: "mysql_time \<Rightarrow> mysql_time option" where
  "time_to_daytime_interval t =
     do { dbug_assert (time_type t = MYSQL_TIMESTAMP_TIME);
          dbug_assert (has_zero_YYYYMMDD t);
          Some (t\<lparr>day := hour t div 24, hour := hour t mod 24\<rparr>) }"

definition is_valid_extract_source_slow :: "mysql_time \<Rightarrow> bool option" where
  "is_valid_extract_source_slow t =
     do { v \<leftarrow> is_valid_temporal t; Some (v \<and> hour t < 24 \<and> (has_zero_YYYYMM t \<or> time_type t \<noteq> MYSQL_TIMESTAMP_TIME)) }"

definition extract_valid_value_slow :: "mysql_time \<Rightarrow> bool option" where
  "extract_valid_value_slow t = (if time_type t = MYSQL_TIMESTAMP_NONE then Some True else is_valid_extract_source_slow t)"

text \<open>The constructor, from the value that the item returned.\<close>

definition Extract_source :: "mysql_time \<Rightarrow> mysql_time option" where
  "Extract_source t =
     do { t \<leftarrow> if time_type t = MYSQL_TIMESTAMP_TIME then time_to_daytime_interval t else Some t;
          v \<leftarrow> extract_valid_value_slow t;
          dbug_assert v;
          Some t }"

definition extract_get :: "mysql_time \<Rightarrow> mysql_time option" where
  "extract_get t = do { v \<leftarrow> is_valid_extract_source_slow t; dbug_assert v; Some t }"

definition extract_sign :: "mysql_time \<Rightarrow> int" where
  "extract_sign t = (if neg t then - 1 else 1)"

definition extract_day :: "mysql_time \<Rightarrow> int" where "extract_day t = int (day t) * extract_sign t"
definition extract_hour :: "mysql_time \<Rightarrow> int" where "extract_hour t = int (hour t) * extract_sign t"
definition extract_minute :: "mysql_time \<Rightarrow> int" where "extract_minute t = int (minute t) * extract_sign t"
definition extract_second :: "mysql_time \<Rightarrow> int" where "extract_second t = int (second t) * extract_sign t"
definition microsecond :: "mysql_time \<Rightarrow> int" where "microsecond t = int (second_part t) * extract_sign t"

definition year_month :: "mysql_time \<Rightarrow> nat" where "year_month t = year t * 100 + month t"
definition extract_quarter :: "mysql_time \<Rightarrow> nat" where "extract_quarter t = (month t + 2) div 3"
definition second_microsecond :: "mysql_time \<Rightarrow> int" where "second_microsecond t = extract_second t * 1000000 + microsecond t"
definition day_hour :: "mysql_time \<Rightarrow> int" where "day_hour t = extract_day t * 100 + extract_hour t"
definition day_minute :: "mysql_time \<Rightarrow> int" where "day_minute t = day_hour t * 100 + extract_minute t"
definition day_second :: "mysql_time \<Rightarrow> int" where "day_second t = day_minute t * 100 + extract_second t"
definition day_microsecond :: "mysql_time \<Rightarrow> int" where "day_microsecond t = day_second t * 1000000 + microsecond t"
definition hour_minute :: "mysql_time \<Rightarrow> int" where "hour_minute t = extract_hour t * 100 + extract_minute t"
definition hour_second :: "mysql_time \<Rightarrow> int" where "hour_second t = hour_minute t * 100 + extract_second t"
definition hour_microsecond :: "mysql_time \<Rightarrow> int" where "hour_microsecond t = hour_second t * 1000000 + microsecond t"
definition minute_second :: "mysql_time \<Rightarrow> int" where "minute_second t = extract_minute t * 100 + extract_second t"
definition minute_microsecond :: "mysql_time \<Rightarrow> int" where "minute_microsecond t = minute_second t * 1000000 + microsecond t"

lemmas extract_defs = extract_sign_def extract_day_def extract_hour_def extract_minute_def extract_second_def microsecond_def
  day_hour_def day_minute_def day_second_def day_microsecond_def

lemma Extract_source_time:
  assumes "time_type t = MYSQL_TIMESTAMP_TIME" "has_zero_YYYYMMDD t"
  shows "Extract_source t = Some (t\<lparr>day := hour t div 24, hour := hour t mod 24\<rparr>)"
  using assms by (simp add: Extract_source_def time_to_daytime_interval_def extract_valid_value_slow_def
    is_valid_extract_source_slow_def is_valid_temporal_def has_zero_YYYYMMDD_def has_zero_YYYYMM_def)

lemma day_microsecond_digits:
  "\<bar>day_microsecond t\<bar> = int ((((day t * 100 + hour t) * 100 + minute t) * 100 + second t) * 1000000 + second_part t)"
  by (simp add: extract_defs abs_mult algebra_simps)

lemma digits_split:
  fixes d h m s f :: nat
  assumes "h < 100" "m < 100" "s < 100" "f < 1000000"
  shows "((((d * 100 + h) * 100 + m) * 100 + s) * 1000000 + f) mod 1000000 = f"
    "((((d * 100 + h) * 100 + m) * 100 + s) * 1000000 + f) div 1000000 mod 100 = s"
    "((((d * 100 + h) * 100 + m) * 100 + s) * 1000000 + f) div 1000000 div 100 mod 100 = m"
    "((((d * 100 + h) * 100 + m) * 100 + s) * 1000000 + f) div 1000000 div 100 div 100 mod 100 = h"
    "((((d * 100 + h) * 100 + m) * 100 + s) * 1000000 + f) div 1000000 div 100 div 100 div 100 = d"
proof -
  have step: "(a * k + b) mod k = b" "(a * k + b) div k = a" if "b < k" for a b k :: nat using that by simp_all
  show "((((d * 100 + h) * 100 + m) * 100 + s) * 1000000 + f) mod 1000000 = f"
    "((((d * 100 + h) * 100 + m) * 100 + s) * 1000000 + f) div 1000000 mod 100 = s"
    "((((d * 100 + h) * 100 + m) * 100 + s) * 1000000 + f) div 1000000 div 100 mod 100 = m"
    "((((d * 100 + h) * 100 + m) * 100 + s) * 1000000 + f) div 1000000 div 100 div 100 mod 100 = h"
    "((((d * 100 + h) * 100 + m) * 100 + s) * 1000000 + f) div 1000000 div 100 div 100 div 100 = d"
    by (simp_all only: step assms)
qed

text \<open>
  The number that EXTRACT(DAY_MICROSECOND) returns for a \<open>TIME\<close> value determines the value: its
  decimal digits are days, hours, minutes, seconds and microseconds, each below its limit, and
  they add up to the value.
\<close>

theorem extract_day_microsecond_exact:
  assumes "time_type t = MYSQL_TIMESTAMP_TIME" and "has_zero_YYYYMMDD t" and "has_valid_mmssff t"
  shows "\<exists>e. Extract_source t = Some e \<and> extract_get e = Some e \<and>
    (let n = nat \<bar>day_microsecond e\<bar>; d = n div 1000000 div 100 div 100 div 100; h = n div 1000000 div 100 div 100 mod 100;
         m = n div 1000000 div 100 mod 100; s = n div 1000000 mod 100; f = n mod 1000000
     in h < 24 \<and> m < 60 \<and> s < 60 \<and> time_abs t = ((((d * 24 + h) * 60 + m) * 60 + s) * 1000000 + f)) \<and>
    (day_microsecond e < 0 \<longleftrightarrow> time_val t < 0)"
proof -
  let ?e = "t\<lparr>day := hour t div 24, hour := hour t mod 24\<rparr>"
  have e: "Extract_source t = Some ?e" by (rule Extract_source_time [OF assms(1, 2)])
  have get: "extract_get ?e = Some ?e"
    using assms(1, 2) by (simp add: extract_get_def is_valid_extract_source_slow_def is_valid_temporal_def has_zero_YYYYMMDD_def has_zero_YYYYMM_def)
  have valid: "hour t mod 24 < 100" "minute t < 100" "second t < 100" "second_part t < 1000000"
    "hour t mod 24 < 24" "minute t < 60" "second t < 60"
    using assms(3) mod_less_divisor [of 24 "hour t"] by (simp_all add: has_valid_mmssff_def time_limits)
  have n: "nat \<bar>day_microsecond ?e\<bar> =
    (((hour t div 24 * 100 + hour t mod 24) * 100 + minute t) * 100 + second t) * 1000000 + second_part t"
    unfolding day_microsecond_digits nat_int by simp
  have "hour t div 24 * 24 + hour t mod 24 = hour t" by simp
  then have abs: "time_abs t = (((hour t div 24 * 24 + hour t mod 24) * 60 + minute t) * 60 + second t) * 1000000 + second_part t"
    by (simp only: time_abs_def)
  have "hour t = 0 \<longleftrightarrow> hour t div 24 = 0 \<and> hour t mod 24 = 0" by auto
  then have "day_microsecond ?e < 0 \<longleftrightarrow> time_val t < 0"
    by (auto simp: extract_defs time_val_def time_abs_def)
  with e get valid abs digits_split [OF valid(1-4), of "hour t div 24"] show ?thesis unfolding Let_def by (intro exI [of _ ?e]) (simp only: n)
qed

theorem extract_day_microsecond_exact_witness:
  "\<exists>e. Extract_source late_time = Some e \<and> (day_microsecond e < 0 \<longleftrightarrow> time_val late_time < 0)"
proof -
  have "time_type late_time = MYSQL_TIMESTAMP_TIME" "has_zero_YYYYMMDD late_time"
    by (simp_all add: late_time_def zero_time_def has_zero_YYYYMMDD_def)
  from extract_day_microsecond_exact [OF this late_time_valid(1)] show ?thesis by blast
qed

section \<open>\<open>Interval_DDhhmmssff\<close>\<close>

definition is_valid_interval_DDhhmmssff_slow :: "mysql_time \<Rightarrow> bool" where
  "is_valid_interval_DDhhmmssff_slow t \<longleftrightarrow> time_type t = MYSQL_TIMESTAMP_TIME \<and> has_zero_YYYYMMDD t \<and> has_valid_mmssff t"

definition max_int_part_char_length :: nat where
  "max_int_part_char_length = 1 + 7 + 1 + 8"

definition max_char_length :: "nat \<Rightarrow> nat option" where
  "max_char_length fsp =
     do { dbug_assert (fsp \<le> TIME_SECOND_PART_DIGITS); Some (max_int_part_char_length + (if fsp \<noteq> 0 then 1 else 0) + fsp) }"

lemma interval_limits: "TIME_MAX_INTERVAL_HOUR = TIME_MAX_INTERVAL_DAY * 24 + 23" "TIME_MAX_INTERVAL_DAY < 10 ^ 7"
  by (simp_all add: time_limits)

section \<open>\<open>Time\<close>\<close>

datatype datetime_to_time_mode_t = DATETIME_TO_TIME_DISALLOW | DATETIME_TO_TIME_YYYYMMDD_000000DD_MIX_TO_HOURS
  | DATETIME_TO_TIME_YYYYMMDD_TRUNCATE | DATETIME_TO_TIME_YYYYMMDD_00000000_ONLY | DATETIME_TO_TIME_MINUS_CURRENT_DATE

definition default_datetime_to_time_mode :: datetime_to_time_mode_t where
  "default_datetime_to_time_mode = DATETIME_TO_TIME_YYYYMMDD_000000DD_MIX_TO_HOURS"

record time_options =
  opt_mode :: u64
  opt_dtmode :: datetime_to_time_mode_t

definition default_flags_for_get_date :: u64 where "default_flags_for_get_date = TIME_ONLY OR INVALID_DATES"
definition comparison_flags_for_get_date :: u64 where "comparison_flags_for_get_date = TIME_ONLY OR INVALID_DATES OR FUZZY_DATES"

definition Time_Options :: "u64 \<Rightarrow> u64 \<Rightarrow> datetime_to_time_mode_t \<Rightarrow> time_options option" where
  "Time_Options fuzzydate round_mode dtmode =
     do { m \<leftarrow> Temporal_Options fuzzydate round_mode; Some \<lparr>opt_mode = m, opt_dtmode = dtmode\<rparr> }"

definition Options_for_cast :: "u64 \<Rightarrow> u64 \<Rightarrow> time_options option" where
  "Options_for_cast mode round_mode =
     Time_Options (default_flags_for_get_date OR (mode AND FUZZY_DATES)) round_mode DATETIME_TO_TIME_YYYYMMDD_TRUNCATE"

definition Options_for_round :: "u64 \<Rightarrow> time_options option" where
  "Options_for_round round_mode = Time_Options default_flags_for_get_date round_mode DATETIME_TO_TIME_DISALLOW"

definition is_valid_time_slow :: "mysql_time \<Rightarrow> bool" where
  "is_valid_time_slow t \<longleftrightarrow> time_type t = MYSQL_TIMESTAMP_TIME \<and> has_zero_YYYYMMDD t \<and> has_valid_mmssff t"

definition time_valid_value_slow :: "mysql_time \<Rightarrow> bool" where
  "time_valid_value_slow t \<longleftrightarrow> time_type t = MYSQL_TIMESTAMP_NONE \<or> is_valid_time_slow t"

definition is_valid_time :: "mysql_time \<Rightarrow> bool option" where
  "is_valid_time t = do { dbug_assert (time_valid_value_slow t); Some (time_type t = MYSQL_TIMESTAMP_TIME) }"

definition mix_to_hours :: "mysql_time \<Rightarrow> warn \<Rightarrow> nat \<Rightarrow> nat \<Rightarrow> nat \<Rightarrow> mysql_time \<times> warn" where
  "mix_to_hours t w from_year from_month from_day =
     (if from_year \<noteq> 0 \<or> from_month \<noteq> 0 then (t, w OR MYSQL_TIME_NOTE_TRUNCATED)
      else (t\<lparr>hour := (hour t + from_day * 24) mod 2 ^ 32\<rparr>, w))"

definition datetime_to_time_minus_current_date :: "class_lib \<Rightarrow> mysql_time \<Rightarrow> mysql_time option" where
  "datetime_to_time_minus_current_date L t =
     do { let t = calc_time_diff_TIME L t (set_current_date L) 1;
          let t = fst (snd (check_time_range L t TIME_SECOND_PART_DIGITS 0));
          v \<leftarrow> is_valid_time t;
          dbug_assert v;
          Some t }"

definition valid_datetime_to_valid_time :: "class_lib \<Rightarrow> mysql_time \<Rightarrow> warn \<Rightarrow> time_options \<Rightarrow> (mysql_time \<times> warn) option" where
  "valid_datetime_to_valid_time L t w opt =
     do { dbug_assert (time_type t = MYSQL_TIMESTAMP_DATE \<or> time_type t = MYSQL_TIMESTAMP_DATETIME);
          dbug_assert (day t < 32);
          dbug_assert (hour t < 24);
          (t, w) \<leftarrow>
            if opt_dtmode opt = DATETIME_TO_TIME_MINUS_CURRENT_DATE
            then do { t \<leftarrow> datetime_to_time_minus_current_date L t; Some (t, w) }
            else let (t, w) = (if opt_dtmode opt = DATETIME_TO_TIME_YYYYMMDD_000000DD_MIX_TO_HOURS
                               then mix_to_hours t w (year t) (month t) (day t) else (t, w))
                 in Some (t\<lparr>year := 0, month := 0, day := 0, time_type := MYSQL_TIMESTAMP_TIME\<rparr>, w);
          dbug_assert (is_valid_time_slow t);
          Some (t, w) }"

definition valid_MYSQL_TIME_to_valid_value :: "class_lib \<Rightarrow> mysql_time \<Rightarrow> warn \<Rightarrow> time_options \<Rightarrow> (mysql_time \<times> warn) option" where
  "valid_MYSQL_TIME_to_valid_value L t w opt =
     (if time_type t = MYSQL_TIMESTAMP_DATE \<or> time_type t = MYSQL_TIMESTAMP_DATETIME
      then (if opt_dtmode opt = DATETIME_TO_TIME_YYYYMMDD_00000000_ONLY \<and> (year t \<noteq> 0 \<or> month t \<noteq> 0 \<or> day t \<noteq> 0)
            then Some (make_from_out_of_range t w)
            else if opt_dtmode opt = DATETIME_TO_TIME_DISALLOW then Some (make_from_out_of_range t w)
            else valid_datetime_to_valid_time L t w opt)
      else if time_type t = MYSQL_TIMESTAMP_NONE then Some (t, w)
      else if time_type t = MYSQL_TIMESTAMP_ERROR then Some (set_zero_time L t MYSQL_TIMESTAMP_TIME, w)
      else do { dbug_assert (is_valid_time_slow t); Some (t, w) })"

definition xxx_to_time_result_to_valid_value :: "class_lib \<Rightarrow> mysql_time \<Rightarrow> warn \<Rightarrow> time_options \<Rightarrow> (mysql_time \<times> warn) option" where
  "xxx_to_time_result_to_valid_value L t w opt =
     do { dbug_assert (time_type t \<noteq> MYSQL_TIMESTAMP_ERROR); valid_MYSQL_TIME_to_valid_value L t w opt }"

definition adjust_time_range_or_invalidate :: "class_lib \<Rightarrow> mysql_time \<Rightarrow> warn \<Rightarrow> (mysql_time \<times> warn) option" where
  "adjust_time_range_or_invalidate L t w =
     (case check_time_range L t TIME_SECOND_PART_DIGITS w of (rc, t, w) \<Rightarrow>
        do { let t = (if rc then t\<lparr>time_type := MYSQL_TIMESTAMP_NONE\<rparr> else t);
             dbug_assert (time_valid_value_slow t);
             Some (t, w) })"

subsection \<open>Constructors\<close>

definition Time_of_mysql_time :: "class_lib \<Rightarrow> mysql_time \<Rightarrow> time_options \<Rightarrow> mysql_time option" where
  "Time_of_mysql_time L ltime opt =
     do { v \<leftarrow> is_valid_temporal ltime; dbug_assert v;
          (t, w) \<leftarrow> valid_MYSQL_TIME_to_valid_value L ltime 0 opt;
          Some t }"

definition Time_of_sec6 :: "class_lib \<Rightarrow> mysql_time \<Rightarrow> warn \<Rightarrow> sec6 \<Rightarrow> time_options \<Rightarrow> (mysql_time \<times> warn) option" where
  "Time_of_sec6 L t w nr opt =
     do { (rc, t, w) \<leftarrow> to_datetime_or_time (lib_of L) nr t w INVALID_DATES;
          xxx_to_time_result_to_valid_value L (if rc then t\<lparr>time_type := MYSQL_TIMESTAMP_NONE\<rparr> else t) w opt }"

definition Time_of_sec9 :: "class_lib \<Rightarrow> mysql_time \<Rightarrow> warn \<Rightarrow> sec9 \<Rightarrow> time_options \<Rightarrow> (mysql_time \<times> warn) option" where
  "Time_of_sec9 L t w nr opt =
     do { (t, w) \<leftarrow> Time_of_sec6 L t w (sec6.truncate nr) opt;
          v \<leftarrow> is_valid_time t;
          if v then do { r \<leftarrow> to_round_mode (opt_mode opt);
                         Some (if r = FRAC_ROUND then round_or_set_max_nsec L t 6 w (m_nsec nr) else (t, w)) }
          else Some (t, w) }"

definition Time_of_string :: "class_lib \<Rightarrow> str_lib \<Rightarrow> mysql_time \<Rightarrow> time_status \<Rightarrow> string \<Rightarrow> time_options \<Rightarrow> (mysql_time \<times> time_status) option" where
  "Time_of_string L S t st str opt =
     (case temporal_str_to_datetime_or_date_or_time S str t st (opt_mode opt) of
        (True, t, st) \<Rightarrow> Some (t\<lparr>time_type := MYSQL_TIMESTAMP_NONE\<rparr>, st)
      | (False, t, st) \<Rightarrow>
          do { (t, w) \<leftarrow> xxx_to_time_result_to_valid_value L t (warnings st) opt; Some (t, st\<lparr>warnings := w\<rparr>) })"

end
