(* ===== verification/TimeOps.thy ===== *)
theory TimeOps
  imports TimeClass
begin

text \<open>
  The methods of the class \<open>Time\<close> of \<open>sql_type.h\<close> on valid values, and what the construction of
  such values guarantees.
\<close>

unbundle bit_operations_syntax

section \<open>Methods\<close>

definition time_copy_to_mysql_time :: "mysql_time \<Rightarrow> mysql_time \<Rightarrow> (bool \<times> mysql_time) option" where
  "time_copy_to_mysql_time t ltime =
     (if time_type t = MYSQL_TIMESTAMP_NONE then Some (True, ltime\<lparr>time_type := MYSQL_TIMESTAMP_NONE\<rparr>)
      else do { dbug_assert (is_valid_time_slow t); Some (False, t) })"

definition time_to_packed :: "class_lib \<Rightarrow> mysql_time \<Rightarrow> int option" where
  "time_to_packed L t = do { v \<leftarrow> is_valid_time t; Some (if v then pack_time L t else 0) }"

definition time_cmp :: "class_lib \<Rightarrow> mysql_time \<Rightarrow> mysql_time \<Rightarrow> int option" where
  "time_cmp L t other =
     do { dbug_assert (is_valid_time_slow t);
          dbug_assert (is_valid_time_slow other);
          p0 \<leftarrow> time_to_packed L t;
          p1 \<leftarrow> time_to_packed L other;
          Some (if p0 < p1 then - 1 else if p0 > p1 then 1 else 0) }"

definition to_seconds_abs :: "mysql_time \<Rightarrow> int option" where
  "to_seconds_abs t = do { dbug_assert (is_valid_time_slow t); Some (int (hour t) * 3600 + int (minute t) * 60 + int (second t)) }"

definition to_seconds :: "mysql_time \<Rightarrow> int option" where
  "to_seconds t = do { n \<leftarrow> to_seconds_abs t; Some (if neg t then - n else n) }"

definition time_to_longlong :: "class_lib \<Rightarrow> mysql_time \<Rightarrow> int option" where
  "time_to_longlong L t =
     do { v \<leftarrow> is_valid_time t;
          Some (if \<not> v then 0 else let n = as_longlong (TIME_to_ulonglong_time L t) in if neg t then - n else n) }"

definition time_trunc :: "class_lib \<Rightarrow> mysql_time \<Rightarrow> nat \<Rightarrow> mysql_time option" where
  "time_trunc L t dec =
     do { v \<leftarrow> is_valid_time t;
          t \<leftarrow> if v then my_time_trunc (log_10_int L) t dec else Some t;
          dbug_assert (time_valid_value_slow t);
          Some t }"

definition time_ceiling :: "class_lib \<Rightarrow> mysql_time \<Rightarrow> warn \<Rightarrow> (mysql_time \<times> warn) option" where
  "time_ceiling L t w =
     do { v \<leftarrow> is_valid_time t;
          (t, w) \<leftarrow> if \<not> v then Some (t, w)
            else if neg t then do { t \<leftarrow> my_time_trunc (log_10_int L) t 0; Some (t, w) }
            else if second_part t \<noteq> 0 then Some (round_or_set_max_nsec L t 0 w 999999999)
            else Some (t, w);
          dbug_assert (time_valid_value_slow t);
          Some (t, w) }"

definition time_floor :: "class_lib \<Rightarrow> mysql_time \<Rightarrow> warn \<Rightarrow> (mysql_time \<times> warn) option" where
  "time_floor L t w =
     do { v \<leftarrow> is_valid_time t;
          (t, w) \<leftarrow> if \<not> v then Some (t, w)
            else if \<not> neg t then do { t \<leftarrow> my_time_trunc (log_10_int L) t 0; Some (t, w) }
            else if second_part t \<noteq> 0 then Some (round_or_set_max_nsec L t 0 w 999999999)
            else Some (t, w);
          dbug_assert (time_valid_value_slow t);
          Some (t, w) }"

definition time_round :: "class_lib \<Rightarrow> mysql_time \<Rightarrow> nat \<Rightarrow> warn \<Rightarrow> (mysql_time \<times> warn) option" where
  "time_round L t dec w =
     do { v \<leftarrow> is_valid_time t;
          let (t, w) = (if v then round_or_set_max L t dec w else (t, w));
          dbug_assert (time_valid_value_slow t);
          Some (t, w) }"

definition time_fraction_remainder :: "class_lib \<Rightarrow> mysql_time \<Rightarrow> nat \<Rightarrow> nat option" where
  "time_fraction_remainder L t dec =
     do { v \<leftarrow> is_valid_time t; dbug_assert v; my_time_fraction_remainder (log_10_int L) (second_part t) dec }"

definition time_round_mode :: "class_lib \<Rightarrow> mysql_time \<Rightarrow> nat \<Rightarrow> u64 \<Rightarrow> warn \<Rightarrow> (mysql_time \<times> warn) option" where
  "time_round_mode L t dec mode w =
     (if mode = FRAC_NONE
      then do { r \<leftarrow> time_fraction_remainder L t dec; dbug_assert (r = 0); t \<leftarrow> time_trunc L t dec; Some (t, w) }
      else if mode = FRAC_TRUNCATE then do { t \<leftarrow> time_trunc L t dec; Some (t, w) }
      else if mode = FRAC_ROUND then time_round L t dec w
      else Some (t, w))"

section \<open>Every constructed value is valid\<close>

text \<open>What the item, string and number conversions deliver.\<close>

definition valid_mysql_time :: "mysql_time \<Rightarrow> bool" where
  "valid_mysql_time t \<longleftrightarrow>
     (time_type t \<in> {MYSQL_TIMESTAMP_DATE, MYSQL_TIMESTAMP_DATETIME} \<longrightarrow> day t < 32 \<and> hour t < 24 \<and> has_valid_mmssff t) \<and>
     (time_type t = MYSQL_TIMESTAMP_TIME \<longrightarrow> is_valid_time_slow t \<and> hour t \<le> TIME_MAX_HOUR)"

text \<open>
  The microseconds from the origin of day numbers to a date with a time of day; \<open>daynr\<close> is \<open>calc_daynr\<close>,
  which is only declared.
\<close>

definition instant :: "(nat \<Rightarrow> nat \<Rightarrow> nat \<Rightarrow> int) \<Rightarrow> mysql_time \<Rightarrow> int" where
  "instant daynr t = daynr (year t) (month t) (day t) * 86400000000 + int (time_abs t)"

text \<open>
  \<open>calc_time_diff\<close> of two dates gives their difference as a \<open>TIME\<close>, which can be outside of the supported range;
  \<open>check_time_range\<close> cuts a \<open>TIME\<close> beyond the range (\<open>time_range_law\<close>) and keeps one inside.
\<close>

definition date_diff_law :: "(nat \<Rightarrow> nat \<Rightarrow> nat \<Rightarrow> int) \<Rightarrow> class_lib \<Rightarrow> bool" where
  "date_diff_law daynr L \<longleftrightarrow>
     (\<forall>t. time_type t \<in> {MYSQL_TIMESTAMP_DATE, MYSQL_TIMESTAMP_DATETIME} \<and> valid_mysql_time t \<longrightarrow>
        is_valid_time_slow (calc_time_diff_TIME L t (set_current_date L) 1) \<and>
        time_val (calc_time_diff_TIME L t (set_current_date L) 1) = instant daynr t - instant daynr (set_current_date L))"

definition in_range_law :: "class_lib \<Rightarrow> bool" where
  "in_range_law L \<longleftrightarrow>
     (\<forall>t w. is_valid_time_slow t \<and> hour t \<le> TIME_MAX_HOUR \<longrightarrow> fst (snd (check_time_range L t TIME_SECOND_PART_DIGITS w)) = t)"

text \<open>The largest value of \<open>TIME\<close>, 838:59:59.999999, in microseconds.\<close>

definition time_max_val :: int where "time_max_val = 3020399999999"

text \<open>
  What the conversion of a value \<open>t\<close> to \<open>TIME\<close> is to deliver: the value \<open>u\<close> with the warnings \<open>w\<close>.
\<close>

definition converted :: "(nat \<Rightarrow> nat \<Rightarrow> nat \<Rightarrow> int) \<Rightarrow> class_lib \<Rightarrow> time_options \<Rightarrow> mysql_time \<Rightarrow> mysql_time \<Rightarrow> warn \<Rightarrow> bool" where
  "converted daynr L opt t u w \<longleftrightarrow>
     time_valid_value_slow u \<and> (time_type u = MYSQL_TIMESTAMP_TIME \<longrightarrow> \<bar>time_val u\<bar> \<le> time_max_val) \<and>
     (case time_type t of
        MYSQL_TIMESTAMP_NONE \<Rightarrow> time_type u = MYSQL_TIMESTAMP_NONE
      | MYSQL_TIMESTAMP_ERROR \<Rightarrow> time_type u = MYSQL_TIMESTAMP_TIME \<and> time_val u = 0
      | MYSQL_TIMESTAMP_TIME \<Rightarrow> u = t
      | _ \<Rightarrow>
          (case opt_dtmode opt of
             DATETIME_TO_TIME_DISALLOW \<Rightarrow> time_type u = MYSQL_TIMESTAMP_NONE \<and> w = MYSQL_TIME_WARN_OUT_OF_RANGE
           | DATETIME_TO_TIME_YYYYMMDD_00000000_ONLY \<Rightarrow>
               if has_zero_YYYYMMDD t then time_type u = MYSQL_TIMESTAMP_TIME \<and> time_val u = time_val t
               else time_type u = MYSQL_TIMESTAMP_NONE \<and> w = MYSQL_TIME_WARN_OUT_OF_RANGE
           | DATETIME_TO_TIME_YYYYMMDD_TRUNCATE \<Rightarrow> time_type u = MYSQL_TIMESTAMP_TIME \<and> time_val u = time_val t
           | DATETIME_TO_TIME_YYYYMMDD_000000DD_MIX_TO_HOURS \<Rightarrow>
               time_type u = MYSQL_TIMESTAMP_TIME \<and> neg u = neg t \<and>
               time_abs u = time_abs t + (if has_zero_YYYYMM t then day t * 86400000000 else 0)
           | DATETIME_TO_TIME_MINUS_CURRENT_DATE \<Rightarrow>
               time_type u = MYSQL_TIMESTAMP_TIME \<and>
               time_val u = max (- time_max_val) (min time_max_val (instant daynr t - instant daynr (set_current_date L)))))"

lemma lib_of_simps [simp]:
  "set_zero_time (lib_of L) = set_zero_time L" "check_time_range (lib_of L) = check_time_range L"
  "log_10_int (lib_of L) = log_10_int L"
  by (simp_all add: time_lib.truncate_def)

lemma zero_time_valid: "is_valid_time_slow (zero_time MYSQL_TIMESTAMP_TIME)"
  by (simp add: is_valid_time_slow_def zero_time_def has_zero_YYYYMMDD_def has_valid_mmssff_def)

lemma time_val_range:
  assumes "is_valid_time_slow t"
  shows "hour t \<le> TIME_MAX_HOUR \<longleftrightarrow> \<bar>time_val t\<bar> \<le> time_max_val"
proof -
  from assms have v: "minute t \<le> 59" "second t \<le> 59" "second_part t \<le> 999999"
    by (simp_all add: is_valid_time_slow_def has_valid_mmssff_def time_limits)
  have "\<bar>time_val t\<bar> = int (time_abs t)" by (simp add: time_val_def)
  moreover have "hour t \<le> 838 \<longleftrightarrow> time_abs t \<le> 3020399999999"
  proof
    assume "hour t \<le> 838"
    then show "time_abs t \<le> 3020399999999" using v by (simp add: time_abs_def)
  next
    assume "time_abs t \<le> 3020399999999"
    then show "hour t \<le> 838" by (simp add: time_abs_def)
  qed
  ultimately show ?thesis by (simp add: time_max_val_def time_limits)
qed

lemma cut_difference:
  assumes "date_diff_law daynr L" and "time_range_law (lib_of L)" and "in_range_law L"
    and "time_type t \<in> {MYSQL_TIMESTAMP_DATE, MYSQL_TIMESTAMP_DATETIME}" and "valid_mysql_time t"
  defines "u \<equiv> fst (snd (check_time_range L (calc_time_diff_TIME L t (set_current_date L) 1) TIME_SECOND_PART_DIGITS 0))"
  shows "is_valid_time_slow u \<and> hour u \<le> TIME_MAX_HOUR \<and>
    time_val u = max (- time_max_val) (min time_max_val (instant daynr t - instant daynr (set_current_date L)))"
proof -
  let ?d = "calc_time_diff_TIME L t (set_current_date L) 1"
  from assms(1,4,5) have d: "is_valid_time_slow ?d" "time_val ?d = instant daynr t - instant daynr (set_current_date L)"
    by (auto simp: date_diff_law_def)
  show ?thesis
  proof (cases "hour ?d \<le> TIME_MAX_HOUR")
    case True
    then have "u = ?d" using assms(3) d(1) by (simp add: in_range_law_def u_def)
    then show ?thesis using d True time_val_range [OF d(1)] by (auto simp: max_def min_def)
  next
    case False
    then have u: "u = ?d\<lparr>hour := 838, minute := 59, second := 59, second_part := 999999\<rparr>"
      using assms(2) by (simp add: time_range_law_def u_def time_limits trunc_frac_def)
    then have "is_valid_time_slow u" "hour u \<le> TIME_MAX_HOUR"
      using d(1) by (simp_all add: is_valid_time_slow_def has_zero_YYYYMMDD_def has_valid_mmssff_def time_limits)
    moreover have "time_val u = (if neg ?d then - time_max_val else time_max_val)"
      by (simp add: u time_val_def time_abs_def time_max_val_def)
    moreover have "\<not> \<bar>time_val ?d\<bar> \<le> time_max_val" using False time_val_range [OF d(1)] by simp
    moreover have "0 \<le> time_max_val" "neg ?d \<Longrightarrow> time_val ?d \<le> 0" "\<not> neg ?d \<Longrightarrow> 0 \<le> time_val ?d"
      by (simp_all add: time_max_val_def time_val_def)
    ultimately show ?thesis unfolding d(2) [symmetric] by (cases "neg ?d") (auto simp: max_def min_def)
  qed
qed

lemma date_to_time_valid:
  assumes "time_type t = MYSQL_TIMESTAMP_DATE \<or> time_type t = MYSQL_TIMESTAMP_DATETIME" "valid_mysql_time t"
    and "date_diff_law daynr L" "time_range_law (lib_of L)" "in_range_law L"
  obtains u w' where "valid_datetime_to_valid_time L t w opt = Some (u, w')" "is_valid_time_slow u" "hour u \<le> TIME_MAX_HOUR"
    "opt_dtmode opt = DATETIME_TO_TIME_MINUS_CURRENT_DATE \<Longrightarrow>
       time_val u = max (- time_max_val) (min time_max_val (instant daynr t - instant daynr (set_current_date L)))"
    "opt_dtmode opt \<noteq> DATETIME_TO_TIME_MINUS_CURRENT_DATE \<Longrightarrow>
       time_abs u = time_abs t + (if opt_dtmode opt = DATETIME_TO_TIME_YYYYMMDD_000000DD_MIX_TO_HOURS \<and> has_zero_YYYYMM t
         then day t * 86400000000 else 0) \<and> neg u = neg t"
proof -
  let ?now = "opt_dtmode opt = DATETIME_TO_TIME_MINUS_CURRENT_DATE"
  let ?mix = "opt_dtmode opt = DATETIME_TO_TIME_YYYYMMDD_000000DD_MIX_TO_HOURS"
  from assms(1, 2) have t: "day t < 32" "hour t < 24" "has_valid_mmssff t" by (auto simp: valid_mysql_time_def)
  show thesis
  proof (cases ?now)
    case True
    define u where "u = fst (snd (check_time_range L (calc_time_diff_TIME L t (set_current_date L) 1) TIME_SECOND_PART_DIGITS 0))"
    have u: "is_valid_time_slow u" "hour u \<le> TIME_MAX_HOUR"
      "time_val u = max (- time_max_val) (min time_max_val (instant daynr t - instant daynr (set_current_date L)))"
      using cut_difference [OF assms(3-5) _ assms(2)] assms(1) by (auto simp: u_def)
    then have "datetime_to_time_minus_current_date L t = Some u"
      unfolding datetime_to_time_minus_current_date_def Let_def u_def [symmetric]
      by (simp add: is_valid_time_def time_valid_value_slow_def is_valid_time_slow_def)
    then have "valid_datetime_to_valid_time L t w opt = Some (u, w)"
      using True t assms(1) u by (auto simp: valid_datetime_to_valid_time_def)
    then show thesis using u by (rule that) (use True in simp_all)
  next
    case False
    have h: "(hour t + day t * 24) mod 4294967296 = hour t + day t * 24" using t by simp
    define v where "v = (if ?mix \<and> has_zero_YYYYMM t then t\<lparr>hour := hour t + day t * 24\<rparr> else t)"
    define w' where "w' = (if ?mix \<and> \<not> has_zero_YYYYMM t then w OR MYSQL_TIME_NOTE_TRUNCATED else w)"
    let ?u = "v\<lparr>year := 0, month := 0, day := 0, time_type := MYSQL_TIMESTAMP_TIME\<rparr>"
    have valid: "is_valid_time_slow ?u" "hour ?u \<le> TIME_MAX_HOUR"
      using t by (simp_all add: v_def is_valid_time_slow_def has_zero_YYYYMMDD_def has_valid_mmssff_def time_limits)
    have "(if ?mix then mix_to_hours t w (year t) (month t) (day t) else (t, w)) = (v, w')"
      by (simp add: mix_to_hours_def v_def w'_def h has_zero_YYYYMM_def)
    then have "valid_datetime_to_valid_time L t w opt = Some (?u, w')"
      using False t assms(1) valid by (auto simp: valid_datetime_to_valid_time_def)
    then show thesis using valid by (rule that) (use False in \<open>simp_all add: v_def time_abs_def\<close>)
  qed
qed

lemma conversion_delivers:
  assumes "valid_mysql_time t" and "zero_time_law (lib_of L)"
    and "date_diff_law daynr L" and "time_range_law (lib_of L)" and "in_range_law L"
  shows "\<exists>u w'. valid_MYSQL_TIME_to_valid_value L t w opt = Some (u, w') \<and> converted daynr L opt t u w'"
proof (cases "time_type t = MYSQL_TIMESTAMP_DATE \<or> time_type t = MYSQL_TIMESTAMP_DATETIME")
  case date: True
  show ?thesis
  proof (cases "opt_dtmode opt = DATETIME_TO_TIME_DISALLOW \<or> opt_dtmode opt = DATETIME_TO_TIME_YYYYMMDD_00000000_ONLY \<and> \<not> has_zero_YYYYMMDD t")
    case True
    then have "valid_MYSQL_TIME_to_valid_value L t w opt = Some (make_from_out_of_range t w)"
      using date by (auto simp: valid_MYSQL_TIME_to_valid_value_def has_zero_YYYYMMDD_def)
    then show ?thesis using True date by (auto simp: make_from_out_of_range_def time_valid_value_slow_def converted_def)
  next
    case False
    from date_to_time_valid [OF date assms(1, 3-5)] obtain u w' where
      u: "valid_datetime_to_valid_time L t w opt = Some (u, w')" "is_valid_time_slow u" "hour u \<le> TIME_MAX_HOUR"
      "opt_dtmode opt = DATETIME_TO_TIME_MINUS_CURRENT_DATE \<Longrightarrow>
         time_val u = max (- time_max_val) (min time_max_val (instant daynr t - instant daynr (set_current_date L)))"
      "opt_dtmode opt \<noteq> DATETIME_TO_TIME_MINUS_CURRENT_DATE \<Longrightarrow>
         time_abs u = time_abs t + (if opt_dtmode opt = DATETIME_TO_TIME_YYYYMMDD_000000DD_MIX_TO_HOURS \<and> has_zero_YYYYMM t
           then day t * 86400000000 else 0) \<and> neg u = neg t" by metis
    have "valid_MYSQL_TIME_to_valid_value L t w opt = Some (u, w')"
      using False date u(1) by (auto simp: valid_MYSQL_TIME_to_valid_value_def has_zero_YYYYMMDD_def)
    moreover have "\<bar>time_val u\<bar> \<le> time_max_val" "time_type u = MYSQL_TIMESTAMP_TIME"
      using u(2,3) time_val_range [OF u(2)] by (simp_all add: is_valid_time_slow_def)
    then have "converted daynr L opt t u w'" using u(2,4,5) False date
      by (cases "opt_dtmode opt") (auto simp: converted_def time_valid_value_slow_def time_val_def)
    ultimately show ?thesis by blast
  qed
next
  case False
  consider "time_type t = MYSQL_TIMESTAMP_NONE" | "time_type t = MYSQL_TIMESTAMP_ERROR" | "time_type t = MYSQL_TIMESTAMP_TIME"
    using False by (cases "time_type t") auto
  then show ?thesis
  proof cases
    case 1
    then show ?thesis by (simp add: valid_MYSQL_TIME_to_valid_value_def converted_def time_valid_value_slow_def)
  next
    case 2
    then have "valid_MYSQL_TIME_to_valid_value L t w opt = Some (zero_time MYSQL_TIMESTAMP_TIME, w)"
      using assms(2) by (simp add: valid_MYSQL_TIME_to_valid_value_def zero_time_law_def)
    moreover have "converted daynr L opt t (zero_time MYSQL_TIMESTAMP_TIME) w"
      using 2 zero_time_valid by (simp add: converted_def time_valid_value_slow_def zero_time_def time_val_def time_abs_def time_max_val_def)
    ultimately show ?thesis by blast
  next
    case 3
    then have t: "is_valid_time_slow t" "hour t \<le> TIME_MAX_HOUR" using assms(1) by (simp_all add: valid_mysql_time_def)
    then have "\<bar>time_val t\<bar> \<le> time_max_val" using time_val_range by blast
    then show ?thesis using 3 t(1) by (simp add: valid_MYSQL_TIME_to_valid_value_def converted_def time_valid_value_slow_def)
  qed
qed

text \<open>
  Property C24: whatever a conversion delivered, \<open>valid_MYSQL_TIME_to_valid_value\<close> fails no assertion and leaves a valid \<open>TIME\<close>
  between -838:59:59.999999 and 838:59:59.999999 or no value. A value of type \<open>TIME\<close> is kept. A date is refused with a warning in the
  modes that disallow it; otherwise the time of day is kept, and the days are added as hours
  when they are to be mixed in and there is no year or month; relative to the current date, the result is the difference of the two moments,
  cut to the range. The constructor from a \<open>MYSQL_TIME\<close> delivers the same for
  a value of one of the types \<open>TIME\<close>, \<open>DATE\<close> and \<open>DATETIME\<close>, and fails its assertion for the types \<open>NONE\<close> and \<open>ERROR\<close>.
\<close>

theorem time_construction_valid:
  assumes "valid_mysql_time t" and "zero_time_law (lib_of L)"
    and "date_diff_law daynr L" and "time_range_law (lib_of L)" and "in_range_law L"
  shows "(\<exists>u w'. valid_MYSQL_TIME_to_valid_value L t w opt = Some (u, w') \<and> converted daynr L opt t u w') \<and>
    (if time_type t \<in> {MYSQL_TIMESTAMP_NONE, MYSQL_TIMESTAMP_ERROR} then Time_of_mysql_time L t opt = None
     else \<exists>u w'. Time_of_mysql_time L t opt = Some u \<and> converted daynr L opt t u w')"
proof -
  from conversion_delivers [OF assms, of 0 opt] obtain u w' where
    "valid_MYSQL_TIME_to_valid_value L t 0 opt = Some (u, w')" "converted daynr L opt t u w'" by blast
  then have "if time_type t \<in> {MYSQL_TIMESTAMP_NONE, MYSQL_TIMESTAMP_ERROR} then Time_of_mysql_time L t opt = None
     else \<exists>u w'. Time_of_mysql_time L t opt = Some u \<and> converted daynr L opt t u w'"
    by (auto simp: Time_of_mysql_time_def is_valid_temporal_def)
  with conversion_delivers [OF assms, of w opt] show ?thesis by blast
qed

text \<open>A library over day numbers of months of 31 days, with the difference computed from them.\<close>

definition sample_daynr :: "nat \<Rightarrow> nat \<Rightarrow> nat \<Rightarrow> int" where
  "sample_daynr y m d = int ((y * 12 + m) * 31 + d)"

definition time_of_us :: "int \<Rightarrow> mysql_time" where
  "time_of_us d =
     (let s = nat \<bar>d\<bar> div 1000000
      in (zero_time MYSQL_TIMESTAMP_TIME)\<lparr>neg := d < 0, hour := s div 3600, minute := s mod 3600 div 60, second := s mod 60,
           second_part := nat \<bar>d\<bar> mod 1000000\<rparr>)"

lemma time_of_us_val: "is_valid_time_slow (time_of_us d)" "time_val (time_of_us d) = d"
proof -
  let ?s = "nat \<bar>d\<bar> div 1000000" and ?f = "nat \<bar>d\<bar> mod 1000000"
  have "?s mod 3600 div 60 \<le> 59" "?s mod 60 \<le> 59" "?f \<le> 999999" by simp_all
  then show "is_valid_time_slow (time_of_us d)"
    by (simp add: time_of_us_def Let_def is_valid_time_slow_def has_zero_YYYYMMDD_def has_valid_mmssff_def zero_time_def time_limits)
  have "time_abs (time_of_us d) = ((?s div 3600 * 60 + ?s mod 3600 div 60) * 60 + ?s mod 60) * 1000000 + ?f"
    by (simp add: time_of_us_def Let_def time_abs_def zero_time_def)
  also have "\<dots> = ?s * 1000000 + ?f" by (simp only: hms_split)
  also have "\<dots> = nat \<bar>d\<bar>" by simp
  finally have "time_abs (time_of_us d) = nat \<bar>d\<bar>" .
  moreover have "neg (time_of_us d) \<longleftrightarrow> d < 0" by (simp add: time_of_us_def Let_def)
  ultimately show "time_val (time_of_us d) = d" by (simp add: time_val_def)
qed

definition sample_class_lib :: class_lib where
  "sample_class_lib = time_lib.extend sample_lib
     \<lparr>set_current_date = (zero_time MYSQL_TIMESTAMP_DATE)\<lparr>year := 2025, month := 3, day := 1\<rparr>,
      calc_time_diff_TIME = (\<lambda>a b s. time_of_us (instant sample_daynr a - s * instant sample_daynr b)),
      convert_to_mysql_time = (\<lambda>s t w m. (False, t, w)), add_nanoseconds_with_round = (\<lambda>t w m n. (False, t, w)),
      round_or_set_max_nsec = (\<lambda>t d w n. (t, w)), round_or_set_max = (\<lambda>t d w. (t, w)),
      pack_time = time_val, TIME_to_ulonglong_time = time_abs\<rparr>"

lemma sample_class_lib_laws:
  "zero_time_law (lib_of sample_class_lib)" "date_diff_law sample_daynr sample_class_lib"
  "time_range_law (lib_of sample_class_lib)" "in_range_law sample_class_lib"
proof -
  have "lib_of sample_class_lib = sample_lib" by (simp add: sample_class_lib_def time_lib.extend_def time_lib.truncate_def sample_lib_def)
  then show "zero_time_law (lib_of sample_class_lib)" "time_range_law (lib_of sample_class_lib)" 
    by (simp_all add: zero_time_law_def time_range_law_def sample_lib_def saturate_time_def)
  show "date_diff_law sample_daynr sample_class_lib"
    by (simp add: date_diff_law_def sample_class_lib_def time_lib.extend_def time_of_us_val)
  show "in_range_law sample_class_lib"
    by (simp add: in_range_law_def sample_class_lib_def time_lib.extend_def sample_lib_def saturate_time_def)
qed

text \<open>The date-time 2025-03-02 05:00:00, a day and five hours after the start of the current date.\<close>

definition day_two :: mysql_time where
  "day_two = (zero_time MYSQL_TIMESTAMP_DATETIME)\<lparr>year := 2025, month := 3, day := 2, hour := 5\<rparr>"

theorem time_construction_valid_witness:
  "(\<exists>u. Time_of_mysql_time sample_class_lib day_two \<lparr>opt_mode = TIME_ONLY, opt_dtmode = DATETIME_TO_TIME_MINUS_CURRENT_DATE\<rparr> = Some u \<and>
     time_val u = 104400000000) \<and>
   Time_of_mysql_time sample_class_lib (zero_time MYSQL_TIMESTAMP_NONE) \<lparr>opt_mode = TIME_ONLY, opt_dtmode = DATETIME_TO_TIME_DISALLOW\<rparr> = None"
proof -
  let ?opt = "\<lparr>opt_mode = TIME_ONLY, opt_dtmode = DATETIME_TO_TIME_MINUS_CURRENT_DATE\<rparr>"
  have t: "valid_mysql_time day_two" "valid_mysql_time (zero_time MYSQL_TIMESTAMP_NONE)"
    by (simp_all add: day_two_def zero_time_def valid_mysql_time_def has_valid_mmssff_def)
  have ty: "time_type day_two = MYSQL_TIMESTAMP_DATETIME" "time_type (zero_time MYSQL_TIMESTAMP_NONE) = MYSQL_TIMESTAMP_NONE"
    by (simp_all add: day_two_def zero_time_def)
  have "instant sample_daynr day_two - instant sample_daynr (set_current_date sample_class_lib) = 104400000000"
    by (simp add: instant_def sample_daynr_def day_two_def zero_time_def time_abs_def sample_class_lib_def time_lib.extend_def)
  then have "time_val u = 104400000000" if "converted sample_daynr sample_class_lib ?opt day_two u w" for u w
    using that ty by (simp add: converted_def time_max_val_def)
  with time_construction_valid [OF t(1) sample_class_lib_laws, of 0 ?opt]
    time_construction_valid [OF t(2) sample_class_lib_laws, of 0 "\<lparr>opt_mode = TIME_ONLY, opt_dtmode = DATETIME_TO_TIME_DISALLOW\<rparr>"]
  show ?thesis using ty by auto
qed

section \<open>Whole seconds\<close>

lemma valid_time_type: "is_valid_time_slow t \<Longrightarrow> is_valid_time t = Some True"
  by (simp add: is_valid_time_def time_valid_value_slow_def is_valid_time_slow_def)

lemma to_seconds_val: "is_valid_time_slow t \<Longrightarrow> \<exists>n. to_seconds t = Some n \<and> time_val t = n * 1000000 + (if neg t then - 1 else 1) * int (second_part t)"
  by (auto simp: to_seconds_def to_seconds_abs_def time_val_def time_abs_def)

text \<open>Elapsed seconds in the range of \<open>TIME\<close> are read back by \<open>to_seconds\<close>.\<close>

lemma sec_to_time_to_seconds:
  assumes "zero_time_law L" "m_usec s \<le> TIME_MAX_SECOND_PART" "m_sec s \<le> TIME_MAX_VALUE_SECONDS"
  shows "\<exists>v. sec_to_time L s t dec = Some (False, v) \<and> is_valid_time_slow v \<and>
    to_seconds v = Some (if m_neg s then - int (m_sec s) else int (m_sec s))"
proof -
  let ?v = "(zero_time MYSQL_TIMESTAMP_TIME)\<lparr>neg := m_neg s, hour := m_sec s div 3600, minute := m_sec s mod 3600 div 60,
    second := m_sec s mod 60, second_part := m_usec s\<rparr>"
  from assms(3) have small: "m_sec s \<le> 3020399" by (simp add: time_limits)
  have "sec_to_time L s t dec = Some (False, ?v)"
    using small assms(1, 2) by (simp add: sec_to_time_def zero_time_law_def time_limits Let_def)
  moreover have "m_sec s mod 3600 div 60 \<le> 59" "m_sec s mod 60 \<le> 59" by simp_all
  then have valid: "is_valid_time_slow ?v"
    using assms(2) by (simp add: is_valid_time_slow_def has_zero_YYYYMMDD_def has_valid_mmssff_def zero_time_def time_limits)
  moreover have "(m_sec s div 3600 * 60 + m_sec s mod 3600 div 60) * 60 + m_sec s mod 60 = m_sec s" by (rule hms_split)
  then have "int (m_sec s div 3600) * 3600 + int (m_sec s mod 3600 div 60) * 60 + int (m_sec s mod 60) = int (m_sec s)"
    by (simp add: add_mult_distrib flip: of_nat_add of_nat_mult)
  ultimately show ?thesis by (simp add: to_seconds_def to_seconds_abs_def zero_time_def)
qed

lemma trunc_0: "trunc_frac 0 n = n div 1000000 * 1000000"
  by (simp add: trunc_frac_def)

lemma trunc_0_small: "n \<le> 999999 \<Longrightarrow> trunc_frac 0 n = 0"
  by (simp add: trunc_0)

lemma my_time_trunc_0:
  assumes "powers_of_ten tab" "is_valid_time_slow t"
  shows "\<exists>u. my_time_trunc tab t 0 = Some u \<and> is_valid_time_slow u \<and>
    time_val u = (if neg t then - int (time_abs t - second_part t) else int (time_abs t - second_part t))"
proof -
  from assms(2) have "second_part t \<le> 999999" by (simp add: is_valid_time_slow_def has_valid_mmssff_def time_limits)
  then have "my_time_trunc tab t 0 = Some (no_neg_zero (t\<lparr>second_part := 0\<rparr>))"
    using my_time_trunc_ten [OF assms(1), of 0 t] by (simp add: trunc_0_small)
  moreover have "time_val (t\<lparr>second_part := 0\<rparr>) = (if neg t then - int (time_abs t - second_part t) else int (time_abs t - second_part t))"
    by (simp add: time_val_def time_abs_def)
  ultimately show ?thesis using assms(2)
    by (auto simp: is_valid_time_slow_def has_zero_YYYYMMDD_def has_valid_mmssff_def)
qed

text \<open>
  The floor of a value that is not negative and the ceiling of a negative one are computed in
  place: they are the multiples of a second next to it, and values of whole seconds are kept.
\<close>

theorem time_floor_ceiling_exact:
  assumes "powers_of_ten (log_10_int L)" and "is_valid_time_slow t"
  shows "\<exists>u w'. (if neg t then time_ceiling L t w else time_floor L t w) = Some (u, w') \<and> w' = w \<and> is_valid_time_slow u \<and>
    time_val u = (if neg t then - ((- time_val t) div 1000000) else time_val t div 1000000) * 1000000"
proof -
  from my_time_trunc_0 [OF assms] obtain u where u: "my_time_trunc (log_10_int L) t 0 = Some u" "is_valid_time_slow u"
    "time_val u = (if neg t then - int (time_abs t - second_part t) else int (time_abs t - second_part t))" by blast
  from assms(2) have p: "second_part t \<le> 999999" by (simp add: is_valid_time_slow_def has_valid_mmssff_def time_limits)
  have "(n * 1000000 + f) div 1000000 * 1000000 = n * 1000000 + f - f" if "f \<le> 999999" for n f :: nat using that by simp
  then have split: "time_abs t div 1000000 * 1000000 = time_abs t - second_part t" using p by (simp only: time_abs_def)
  then have d: "int (time_abs t) div 1000000 * 1000000 = int (time_abs t - second_part t)"
    by (metis of_nat_mult of_nat_numeral zdiv_int)
  have "time_ceiling L t w = Some (u, w)" if "neg t"
    using that u(1, 2) valid_time_type [OF assms(2)] by (simp add: time_ceiling_def time_valid_value_slow_def)
  moreover have "time_floor L t w = Some (u, w)" if "\<not> neg t"
    using that u(1, 2) valid_time_type [OF assms(2)] by (simp add: time_floor_def time_valid_value_slow_def)
  ultimately show ?thesis using u(2, 3) d by (simp add: time_val_def)
qed

theorem time_floor_ceiling_exact_witness:
  "\<exists>u w'. time_floor sample_class_lib late_time 0 = Some (u, w') \<and> time_val u = 14399000000"
proof -
  have L: "powers_of_ten (log_10_int sample_class_lib)"
    using powers_of_ten_exist by (simp add: sample_class_lib_def time_lib.extend_def sample_lib_def)
  have t: "is_valid_time_slow late_time" "\<not> neg late_time"
    using late_time_valid(1) by (simp_all add: is_valid_time_slow_def has_zero_YYYYMMDD_def late_time_def zero_time_def)
  then have "time_val late_time = 14399999999" using late_time_valid(2) by (simp add: time_val_def)
  with time_floor_ceiling_exact [OF L t(1), of 0] t(2) show ?thesis by auto
qed

end
