(* ===== verification/DatetimeValues.thy ===== *)
theory DatetimeValues
  imports SecValues
begin

text \<open>
  The classes \<open>Temporal_with_date\<close>, \<open>Date\<close>, \<open>Datetime\<close>, \<open>Timestamp\<close> and \<open>Timestamp_or_zero_datetime\<close> of
  \<open>sql_type.h\<close>. Routines that the headers only declare are the fields of a record of parameters;
  a \<open>Timestamp\<close> is the \<open>timeval\<close> it derives from.
\<close>

unbundle bit_operations_syntax

record date_lib =
  pow_10 :: pow_table
  check_datetime_range :: "mysql_time \<Rightarrow> bool"
  check_date :: "mysql_time \<Rightarrow> bool \<Rightarrow> u64 \<Rightarrow> warn \<Rightarrow> bool \<times> warn"
  calc_daynr :: "nat \<Rightarrow> nat \<Rightarrow> nat \<Rightarrow> int"
  calc_weekday :: "int \<Rightarrow> bool \<Rightarrow> int"
  calc_week :: "mysql_time \<Rightarrow> nat \<Rightarrow> nat \<times> nat"
  datetime_round_or_invalidate :: "mysql_time \<Rightarrow> nat \<Rightarrow> warn \<Rightarrow> nat \<Rightarrow> bool \<times> mysql_time \<times> warn"
  round_or_invalidate_dec :: "mysql_time \<Rightarrow> nat \<Rightarrow> warn \<Rightarrow> bool \<times> mysql_time \<times> warn"
  TIME_to_ulonglong_date :: "mysql_time \<Rightarrow> nat"
  TIME_to_ulonglong_datetime :: "mysql_time \<Rightarrow> nat"
  timestamp_round_or_set_max :: "timeval \<Rightarrow> nat \<Rightarrow> warn \<Rightarrow> timeval \<times> warn"

section \<open>\<open>Temporal_with_date\<close>\<close>

definition twd_daynr :: "date_lib \<Rightarrow> mysql_time \<Rightarrow> int" where
  "twd_daynr D t = calc_daynr D (year t) (month t) (day t)"

definition twd_weekday :: "date_lib \<Rightarrow> mysql_time \<Rightarrow> bool \<Rightarrow> int" where
  "twd_weekday D t sunday_first_day_of_week = calc_weekday D (twd_daynr D t) sunday_first_day_of_week"

definition twd_dayofyear :: "date_lib \<Rightarrow> mysql_time \<Rightarrow> int" where
  "twd_dayofyear D t = twd_daynr D t - calc_daynr D (year t) 1 1 + 1"

definition twd_quarter :: "mysql_time \<Rightarrow> nat" where
  "twd_quarter t = (month t + 2) div 3"

definition twd_week :: "date_lib \<Rightarrow> mysql_time \<Rightarrow> nat \<Rightarrow> nat" where
  "twd_week D t week_behaviour = fst (calc_week D t week_behaviour)"

definition twd_yearweek :: "date_lib \<Rightarrow> mysql_time \<Rightarrow> nat \<Rightarrow> nat" where
  "twd_yearweek D t week_behaviour = (case calc_week D t week_behaviour of (week, yr) \<Rightarrow> week + yr * 100)"

definition twd_of_sec6 :: "time_lib \<Rightarrow> mysql_time \<Rightarrow> warn \<Rightarrow> sec6 \<Rightarrow> u64 \<Rightarrow> (mysql_time \<times> warn) option" where
  "twd_of_sec6 L t w nr flags =
     do { dbug_assert (flags AND TIME_ONLY = 0);
          (rc, t, w) \<leftarrow> to_datetime_or_date L nr t w (to_conv_mode flags);
          Some (if rc then t\<lparr>time_type := MYSQL_TIMESTAMP_NONE\<rparr> else t, w) }"

text \<open>The method of the two classes that follow; both pass the same flags on.\<close>

definition class_check_date :: "date_lib \<Rightarrow> mysql_time \<Rightarrow> u64 \<Rightarrow> warn \<Rightarrow> bool \<times> warn" where
  "class_check_date D t flags w =
     check_date D t (year t \<noteq> 0 \<or> month t \<noteq> 0 \<or> day t \<noteq> 0) (flags AND TIME_MODE_FOR_XXX_TO_DATE) w"

section \<open>\<open>Date\<close>\<close>

definition is_valid_date_slow :: "date_lib \<Rightarrow> mysql_time \<Rightarrow> bool option" where
  "is_valid_date_slow D t = do { dbug_assert (time_type t = MYSQL_TIMESTAMP_DATE); Some (\<not> check_datetime_range D t) }"

definition date_valid_value_slow :: "date_lib \<Rightarrow> mysql_time \<Rightarrow> bool option" where
  "date_valid_value_slow D t = (if time_type t = MYSQL_TIMESTAMP_NONE then Some True else is_valid_date_slow D t)"

definition assert_date :: "date_lib \<Rightarrow> mysql_time \<Rightarrow> unit option" where
  "assert_date D t = do { v \<leftarrow> is_valid_date_slow D t; dbug_assert v }"

definition is_valid_date :: "date_lib \<Rightarrow> mysql_time \<Rightarrow> bool option" where
  "is_valid_date D t = do { v \<leftarrow> date_valid_value_slow D t; dbug_assert v; Some (time_type t = MYSQL_TIMESTAMP_DATE) }"

text \<open>The constructors from an item, given the value the item delivered, and from a date with time.\<close>

definition Date_of_item :: "date_lib \<Rightarrow> mysql_time \<Rightarrow> mysql_time option" where
  "Date_of_item D t =
     do { t \<leftarrow> if time_type t = MYSQL_TIMESTAMP_DATETIME then datetime_to_date t else Some t;
          v \<leftarrow> date_valid_value_slow D t;
          dbug_assert v;
          Some t }"

definition Date_of_temporal :: "date_lib \<Rightarrow> mysql_time \<Rightarrow> mysql_time option" where
  "Date_of_temporal D t = do { t \<leftarrow> datetime_to_date t; assert_date D t; Some t }"

definition date_check_date :: "date_lib \<Rightarrow> mysql_time \<Rightarrow> u64 \<Rightarrow> warn \<Rightarrow> (bool \<times> warn) option" where
  "date_check_date D t flags w = do { assert_date D t; Some (class_check_date D t flags w) }"

definition date_copy_to_mysql_time :: "date_lib \<Rightarrow> mysql_time \<Rightarrow> mysql_time \<Rightarrow> (bool \<times> mysql_time) option" where
  "date_copy_to_mysql_time D t ltime =
     (if time_type t = MYSQL_TIMESTAMP_NONE then Some (True, ltime\<lparr>time_type := MYSQL_TIMESTAMP_NONE\<rparr>)
      else do { assert_date D t; Some (False, t) })"

definition date_daynr :: "date_lib \<Rightarrow> mysql_time \<Rightarrow> int option" where
  "date_daynr D t = do { assert_date D t; Some (twd_daynr D t) }"

definition date_dayofyear :: "date_lib \<Rightarrow> mysql_time \<Rightarrow> int option" where
  "date_dayofyear D t = do { assert_date D t; Some (twd_dayofyear D t) }"

definition date_quarter :: "date_lib \<Rightarrow> mysql_time \<Rightarrow> nat option" where
  "date_quarter D t = do { assert_date D t; Some (twd_quarter t) }"

definition date_to_longlong :: "date_lib \<Rightarrow> mysql_time \<Rightarrow> int option" where
  "date_to_longlong D t = do { v \<leftarrow> is_valid_date D t; Some (if v then as_longlong (TIME_to_ulonglong_date D t) else 0) }"

section \<open>\<open>Datetime\<close>\<close>

definition is_valid_datetime_slow :: "date_lib \<Rightarrow> mysql_time \<Rightarrow> bool option" where
  "is_valid_datetime_slow D t = do { dbug_assert (time_type t = MYSQL_TIMESTAMP_DATETIME); Some (\<not> check_datetime_range D t) }"

definition datetime_valid_value_slow :: "date_lib \<Rightarrow> mysql_time \<Rightarrow> bool option" where
  "datetime_valid_value_slow D t = (if time_type t = MYSQL_TIMESTAMP_NONE then Some True else is_valid_datetime_slow D t)"

definition assert_datetime :: "date_lib \<Rightarrow> mysql_time \<Rightarrow> unit option" where
  "assert_datetime D t = do { v \<leftarrow> is_valid_datetime_slow D t; dbug_assert v }"

definition assert_datetime_value :: "date_lib \<Rightarrow> mysql_time \<Rightarrow> unit option" where
  "assert_datetime_value D t = do { v \<leftarrow> datetime_valid_value_slow D t; dbug_assert v }"

definition is_valid_datetime :: "date_lib \<Rightarrow> mysql_time \<Rightarrow> bool option" where
  "is_valid_datetime D t = do { assert_datetime_value D t; Some (time_type t = MYSQL_TIMESTAMP_DATETIME) }"

definition date_to_datetime_if_needed :: "mysql_time \<Rightarrow> mysql_time option" where
  "date_to_datetime_if_needed t = (if time_type t = MYSQL_TIMESTAMP_DATE then date_to_datetime t else Some t)"

definition round_or_invalidate_nsec :: "date_lib \<Rightarrow> mysql_time \<Rightarrow> nat \<Rightarrow> warn \<Rightarrow> nat \<Rightarrow> (bool \<times> mysql_time \<times> warn) option" where
  "round_or_invalidate_nsec D t dec w nsec =
     do { assert_datetime D t;
          let (rc, t, w) = datetime_round_or_invalidate D t dec w nsec;
          assert_datetime_value D t;
          Some (rc, t, w) }"

definition Datetime_of_item :: "date_lib \<Rightarrow> mysql_time \<Rightarrow> mysql_time option" where
  "Datetime_of_item D t = do { t \<leftarrow> date_to_datetime_if_needed t; assert_datetime_value D t; Some t }"

definition Datetime_of_sec6 :: "date_lib \<Rightarrow> time_lib \<Rightarrow> mysql_time \<Rightarrow> warn \<Rightarrow> sec6 \<Rightarrow> u64 \<Rightarrow> (mysql_time \<times> warn) option" where
  "Datetime_of_sec6 D L t w nr flags =
     do { (t, w) \<leftarrow> twd_of_sec6 L t w nr flags;
          t \<leftarrow> date_to_datetime_if_needed t;
          assert_datetime_value D t;
          Some (t, w) }"

definition Datetime_of_sec9 :: "date_lib \<Rightarrow> time_lib \<Rightarrow> mysql_time \<Rightarrow> warn \<Rightarrow> sec9 \<Rightarrow> u64 \<Rightarrow> (mysql_time \<times> warn) option" where
  "Datetime_of_sec9 D L t w nr fuzzydate =
     do { (t, w) \<leftarrow> Datetime_of_sec6 D L t w (sec6.truncate nr) fuzzydate;
          v \<leftarrow> is_valid_datetime D t;
          (t, w) \<leftarrow> if v
            then do { r \<leftarrow> to_round_mode fuzzydate;
                      if r = FRAC_ROUND
                      then do { (rc, t, w) \<leftarrow> round_or_invalidate_nsec D t 6 w (m_nsec nr); Some (t, w) }
                      else Some (t, w) }
            else Some (t, w);
          assert_datetime_value D t;
          Some (t, w) }"

definition hhmmssff_is_zero :: "date_lib \<Rightarrow> mysql_time \<Rightarrow> bool option" where
  "hhmmssff_is_zero D t =
     do { assert_datetime D t; Some (hour t = 0 \<and> minute t = 0 \<and> second t = 0 \<and> second_part t = 0) }"

definition datetime_daynr :: "date_lib \<Rightarrow> mysql_time \<Rightarrow> int option" where
  "datetime_daynr D t = do { assert_datetime D t; Some (twd_daynr D t) }"

definition hhmmss_to_seconds_abs :: "date_lib \<Rightarrow> mysql_time \<Rightarrow> int option" where
  "hhmmss_to_seconds_abs D t =
     do { assert_datetime D t; Some (int (hour t) * 3600 + int (minute t) * 60 + int (second t)) }"

definition hhmmss_to_seconds :: "date_lib \<Rightarrow> mysql_time \<Rightarrow> int option" where
  "hhmmss_to_seconds D t = do { n \<leftarrow> hhmmss_to_seconds_abs D t; Some (if neg t then - n else n) }"

definition datetime_to_seconds :: "date_lib \<Rightarrow> mysql_time \<Rightarrow> int option" where
  "datetime_to_seconds D t = do { n \<leftarrow> hhmmss_to_seconds D t; d \<leftarrow> datetime_daynr D t; Some (n + d * 24 * 3600) }"

definition datetime_copy_to_mysql_time :: "date_lib \<Rightarrow> mysql_time \<Rightarrow> mysql_time \<Rightarrow> (bool \<times> mysql_time) option" where
  "datetime_copy_to_mysql_time D t ltime =
     (if time_type t = MYSQL_TIMESTAMP_NONE then Some (True, ltime\<lparr>time_type := MYSQL_TIMESTAMP_NONE\<rparr>)
      else do { assert_datetime D t; Some (False, t) })"

definition datetime_copy_as :: "date_lib \<Rightarrow> mysql_time \<Rightarrow> mysql_time \<Rightarrow> timestamp_type \<Rightarrow> (bool \<times> mysql_time) option" where
  "datetime_copy_as D t ltime ty =
     do { dbug_assert (ty = MYSQL_TIMESTAMP_DATE \<or> ty = MYSQL_TIMESTAMP_DATETIME);
          (rc, u) \<leftarrow> datetime_copy_to_mysql_time D t ltime;
          if rc then Some (True, u)
          else do { z \<leftarrow> if ty \<noteq> MYSQL_TIMESTAMP_DATE then Some True else hhmmssff_is_zero D t;
                    dbug_assert z;
                    Some (False, u\<lparr>time_type := ty\<rparr>) } }"

definition datetime_to_longlong :: "date_lib \<Rightarrow> mysql_time \<Rightarrow> int option" where
  "datetime_to_longlong D t =
     do { v \<leftarrow> is_valid_datetime D t; Some (if v then as_longlong (TIME_to_ulonglong_datetime D t) else 0) }"

definition datetime_fraction_remainder :: "date_lib \<Rightarrow> mysql_time \<Rightarrow> nat \<Rightarrow> nat option" where
  "datetime_fraction_remainder D t dec =
     do { v \<leftarrow> is_valid_datetime D t; dbug_assert v; my_time_fraction_remainder (pow_10 D) (second_part t) dec }"

definition datetime_trunc :: "date_lib \<Rightarrow> mysql_time \<Rightarrow> nat \<Rightarrow> mysql_time option" where
  "datetime_trunc D t dec =
     do { v \<leftarrow> is_valid_datetime D t;
          t \<leftarrow> if v then my_datetime_trunc (pow_10 D) t dec else Some t;
          assert_datetime_value D t;
          Some t }"

definition datetime_ceiling :: "date_lib \<Rightarrow> mysql_time \<Rightarrow> warn \<Rightarrow> (mysql_time \<times> warn) option" where
  "datetime_ceiling D t w =
     do { v \<leftarrow> is_valid_datetime D t;
          (t, w) \<leftarrow> if v \<and> second_part t \<noteq> 0
            then do { (rc, t, w) \<leftarrow> round_or_invalidate_nsec D t 0 w 999999999; Some (t, w) } else Some (t, w);
          assert_datetime_value D t;
          Some (t, w) }"

definition datetime_round :: "date_lib \<Rightarrow> mysql_time \<Rightarrow> nat \<Rightarrow> warn \<Rightarrow> (mysql_time \<times> warn) option" where
  "datetime_round D t dec w =
     do { v \<leftarrow> is_valid_datetime D t;
          let (t, w) = (if v then snd (round_or_invalidate_dec D t dec w) else (t, w));
          assert_datetime_value D t;
          Some (t, w) }"

definition datetime_round_mode :: "date_lib \<Rightarrow> mysql_time \<Rightarrow> nat \<Rightarrow> u64 \<Rightarrow> warn \<Rightarrow> (mysql_time \<times> warn) option" where
  "datetime_round_mode D t dec mode w =
     (if mode = FRAC_NONE
      then do { r \<leftarrow> datetime_fraction_remainder D t dec; dbug_assert (r = 0); t \<leftarrow> datetime_trunc D t dec; Some (t, w) }
      else if mode = FRAC_TRUNCATE then do { t \<leftarrow> datetime_trunc D t dec; Some (t, w) }
      else if mode = FRAC_ROUND then datetime_round D t dec w
      else Some (t, w))"

section \<open>\<open>Timestamp\<close>\<close>

text \<open>The constructor of \<open>Timeval\<close> asserts that the microseconds are less than a second.\<close>

definition Timeval :: "int \<Rightarrow> nat \<Rightarrow> timeval option" where
  "Timeval sec usec = do { dbug_assert (usec < 1000000); Some \<lparr>tv_sec = sec, tv_usec = usec mod 2 ^ 32\<rparr> }"

definition add_nanoseconds_usec :: "timeval \<Rightarrow> nat \<Rightarrow> (bool \<times> timeval) option" where
  "add_nanoseconds_usec tv nsec =
     do { dbug_assert (nsec \<le> 1000000000);
          Some (if nsec < 500 then (False, tv)
                else let tv = tv\<lparr>tv_usec := tv_usec tv + (nsec + 500) div 1000\<rparr>
                     in if tv_usec tv < 1000000 then (False, tv) else (True, tv\<lparr>tv_usec := tv_usec tv mod 1000000\<rparr>)) }"

definition timestamp_cmp :: "timeval \<Rightarrow> timeval \<Rightarrow> int" where
  "timestamp_cmp a other =
     (if tv_sec a < tv_sec other then - 1
      else if tv_sec a > tv_sec other then 1
      else if tv_usec a < tv_usec other then - 1
      else if tv_usec a > tv_usec other then 1 else 0)"

definition timestamp_trunc :: "date_lib \<Rightarrow> timeval \<Rightarrow> nat \<Rightarrow> timeval option" where
  "timestamp_trunc D tv dec = my_timeval_trunc (pow_10 D) tv dec"

definition timestamp_fraction_remainder :: "date_lib \<Rightarrow> timeval \<Rightarrow> nat \<Rightarrow> nat option" where
  "timestamp_fraction_remainder D tv dec = my_time_fraction_remainder (pow_10 D) (tv_usec tv) dec"

definition timestamp_round_mode :: "date_lib \<Rightarrow> timeval \<Rightarrow> nat \<Rightarrow> u64 \<Rightarrow> warn \<Rightarrow> (timeval \<times> warn) option" where
  "timestamp_round_mode D tv dec mode w =
     (if mode = FRAC_NONE
      then do { r \<leftarrow> timestamp_fraction_remainder D tv dec; dbug_assert (r = 0); tv \<leftarrow> timestamp_trunc D tv dec; Some (tv, w) }
      else if mode = FRAC_TRUNCATE then do { tv \<leftarrow> timestamp_trunc D tv dec; Some (tv, w) }
      else if mode = FRAC_ROUND then Some (timestamp_round_or_set_max D tv dec w)
      else Some (tv, w))"

record timestamp_or_zero =
  ts_value :: timeval
  m_is_zero_datetime :: bool

definition Timestamp_or_zero_datetime0 :: timestamp_or_zero where
  "Timestamp_or_zero_datetime0 = \<lparr>ts_value = \<lparr>tv_sec = 0, tv_usec = 0\<rparr>, m_is_zero_datetime = True\<rparr>"

definition tsz_trunc :: "date_lib \<Rightarrow> timestamp_or_zero \<Rightarrow> nat \<Rightarrow> timestamp_or_zero option" where
  "tsz_trunc D z dec =
     (if m_is_zero_datetime z then Some z else do { tv \<leftarrow> timestamp_trunc D (ts_value z) dec; Some (z\<lparr>ts_value := tv\<rparr>) })"

definition tsz_cmp :: "timestamp_or_zero \<Rightarrow> timestamp_or_zero \<Rightarrow> int" where
  "tsz_cmp a other =
     (if m_is_zero_datetime a then (if m_is_zero_datetime other then 0 else - 1)
      else if m_is_zero_datetime other then 1
      else timestamp_cmp (ts_value a) (ts_value other))"

section \<open>Date-times lose nothing\<close>

lemma assert_datetime_ok: "assert_datetime D t = Some () \<longleftrightarrow> time_type t = MYSQL_TIMESTAMP_DATETIME \<and> \<not> check_datetime_range D t"
  by (simp add: assert_datetime_def is_valid_datetime_slow_def)

lemma assert_datetime_value_ok:
  "assert_datetime_value D t = Some () \<longleftrightarrow>
     time_type t = MYSQL_TIMESTAMP_NONE \<or> time_type t = MYSQL_TIMESTAMP_DATETIME \<and> \<not> check_datetime_range D t"
  by (simp add: assert_datetime_value_def datetime_valid_value_slow_def is_valid_datetime_slow_def)

text \<open>Whether a value is in range does not depend on its being called a date or a date-time.\<close>

definition range_law :: "date_lib \<Rightarrow> bool" where
  "range_law D \<longleftrightarrow>
     (\<forall>t ty. check_datetime_range D (t\<lparr>time_type := ty\<rparr>) = check_datetime_range D t) \<and>
     (\<forall>t f. f \<le> second_part t \<and> \<not> check_datetime_range D t \<longrightarrow> \<not> check_datetime_range D (t\<lparr>second_part := f\<rparr>))"

text \<open>
  A valid date-time without a time of day can be copied as a date; read back, it becomes the same
  date-time. Truncating a valid date-time leaves a valid one, with all other members unchanged.
\<close>

theorem datetime_copies_and_truncates:
  assumes "range_law D" and "powers_of_ten (pow_10 D)" and "d \<le> 6"
    and "time_type t = MYSQL_TIMESTAMP_DATETIME" and "\<not> check_datetime_range D t" and "\<not> neg t"
  shows "(time_abs t = 0 \<longrightarrow>
      (\<exists>u. datetime_copy_as D t ltime MYSQL_TIMESTAMP_DATE = Some (False, u) \<and> time_type u = MYSQL_TIMESTAMP_DATE \<and>
        Date_of_item D u = Some u \<and> Datetime_of_item D u = Some t)) \<and>
    datetime_trunc D t d = Some (t\<lparr>second_part := trunc_frac d (second_part t)\<rparr>)"
proof (intro conjI impI)
  assume zero: "time_abs t = 0"
  let ?u = "t\<lparr>time_type := MYSQL_TIMESTAMP_DATE\<rparr>"
  from assms(1, 5) have range: "\<not> check_datetime_range D ?u" by (simp add: range_law_def)
  have "datetime_copy_as D t ltime MYSQL_TIMESTAMP_DATE = Some (False, ?u)"
    using assms(4, 5) zero by (simp add: datetime_copy_as_def datetime_copy_to_mysql_time_def hhmmssff_is_zero_def assert_datetime_def
      is_valid_datetime_slow_def time_abs_def)
  moreover have "Date_of_item D ?u = Some ?u"
    using range by (simp add: Date_of_item_def date_valid_value_slow_def is_valid_date_slow_def)
  moreover have "Datetime_of_item D ?u = Some t"
    using assms(4-6) by (simp add: Datetime_of_item_def date_to_datetime_if_needed_def date_to_datetime_def assert_datetime_value_def
      datetime_valid_value_slow_def is_valid_datetime_slow_def flip: assms(4))
  ultimately show "\<exists>u. datetime_copy_as D t ltime MYSQL_TIMESTAMP_DATE = Some (False, u) \<and> time_type u = MYSQL_TIMESTAMP_DATE \<and>
      Date_of_item D u = Some u \<and> Datetime_of_item D u = Some t" by (intro exI [of _ ?u]) simp
next
  let ?u = "t\<lparr>second_part := trunc_frac d (second_part t)\<rparr>"
  from assms(1, 5) trunc_frac_le have "\<not> check_datetime_range D ?u" by (simp add: range_law_def)
  then show "datetime_trunc D t d = Some ?u"
    using assms(4, 5) by (simp add: datetime_trunc_def is_valid_datetime_def assert_datetime_value_def datetime_valid_value_slow_def
      is_valid_datetime_slow_def my_datetime_trunc_ten [OF assms(2, 3)])
qed

definition sample_date_lib :: date_lib where
  "sample_date_lib = \<lparr>pow_10 = map (\<lambda>i. 10 ^ i) [0..<20], check_datetime_range = (\<lambda>t. year t > 9999),
     check_date = (\<lambda>t b f w. (False, w)), calc_daynr = (\<lambda>y m d. int (y * 372 + m * 31 + d)), calc_weekday = (\<lambda>n b. n mod 7),
     calc_week = (\<lambda>t b. (0, year t)), datetime_round_or_invalidate = (\<lambda>t d w n. (False, t, w)),
     round_or_invalidate_dec = (\<lambda>t d w. (False, t, w)), TIME_to_ulonglong_date = year, TIME_to_ulonglong_datetime = year,
     timestamp_round_or_set_max = (\<lambda>v d w. (v, w))\<rparr>"

lemma sample_date_lib_laws: "range_law sample_date_lib" "powers_of_ten (pow_10 sample_date_lib)"
  using powers_of_ten_exist by (simp_all add: range_law_def sample_date_lib_def)

definition new_year :: mysql_time where
  "new_year = (zero_time MYSQL_TIMESTAMP_DATETIME)\<lparr>year := 2024, month := 1, day := 1\<rparr>"

theorem datetime_copies_and_truncates_witness:
  "\<exists>u. datetime_copy_as sample_date_lib new_year new_year MYSQL_TIMESTAMP_DATE = Some (False, u) \<and> Datetime_of_item sample_date_lib u = Some new_year"
proof -
  have t: "time_type new_year = MYSQL_TIMESTAMP_DATETIME" "\<not> check_datetime_range sample_date_lib new_year" "\<not> neg new_year" "time_abs new_year = 0"
    by (simp_all add: new_year_def zero_time_def sample_date_lib_def time_abs_def)
  from datetime_copies_and_truncates [OF sample_date_lib_laws, of 3 new_year new_year] t show ?thesis by auto
qed

section \<open>Timestamps are ordered\<close>

definition usecs :: "timeval \<Rightarrow> int" where
  "usecs tv = tv_sec tv * 1000000 + int (tv_usec tv)"

lemma timestamp_cmp_usecs:
  assumes "tv_usec a < 1000000" "tv_usec b < 1000000"
  shows "timestamp_cmp a b = sgn (usecs a - usecs b)"
proof -
  consider "tv_sec a < tv_sec b" | "tv_sec a > tv_sec b" | "tv_sec a = tv_sec b" by linarith
  then show ?thesis
  proof cases
    case 1
    then have "usecs a < usecs b" using assms by (simp add: usecs_def)
    with 1 show ?thesis by (simp add: timestamp_cmp_def)
  next
    case 2
    then have "usecs b < usecs a" using assms by (simp add: usecs_def)
    with 2 show ?thesis by (simp add: timestamp_cmp_def)
  qed (auto simp: timestamp_cmp_def usecs_def sgn_if)
qed

lemma trunc_frac_mono: "m \<le> n \<Longrightarrow> trunc_frac d m \<le> trunc_frac d n"
  unfolding trunc_frac_def by (intro mult_le_mono1 div_le_mono)

definition tsz_ok :: "timestamp_or_zero \<Rightarrow> bool" where
  "tsz_ok z \<longleftrightarrow> tv_usec (ts_value z) < 1000000"

text \<open>The position of a value in the order: the zero date-time comes before every timestamp.\<close>

definition tsz_before :: "timestamp_or_zero \<Rightarrow> timestamp_or_zero \<Rightarrow> bool" where
  "tsz_before a b \<longleftrightarrow> \<not> m_is_zero_datetime b \<and> (m_is_zero_datetime a \<or> usecs (ts_value a) < usecs (ts_value b))"

lemma tsz_cmp_iff:
  assumes "tsz_ok a" "tsz_ok b"
  shows "tsz_cmp a b = (if tsz_before a b then - 1 else if tsz_before b a then 1 else 0)"
  using timestamp_cmp_usecs [of "ts_value a" "ts_value b"] assms by (auto simp: tsz_cmp_def tsz_before_def tsz_ok_def sgn_if)

lemma tsz_before_asym: "tsz_before x y \<Longrightarrow> \<not> tsz_before y x"
  by (auto simp: tsz_before_def)

lemma tsz_cmp_le_0: "tsz_ok a \<Longrightarrow> tsz_ok b \<Longrightarrow> tsz_cmp a b \<le> 0 \<longleftrightarrow> \<not> tsz_before b a"
  using tsz_before_asym [of a b] by (simp add: tsz_cmp_iff)

definition tsz_cut :: "nat \<Rightarrow> timestamp_or_zero \<Rightarrow> timestamp_or_zero" where
  "tsz_cut d z = (if m_is_zero_datetime z then z else z\<lparr>ts_value := (ts_value z)\<lparr>tv_usec := trunc_frac d (tv_usec (ts_value z))\<rparr>\<rparr>)"

lemma tsz_trunc_ten: "powers_of_ten (pow_10 D) \<Longrightarrow> d \<le> 6 \<Longrightarrow> tsz_trunc D z d = Some (tsz_cut d z)"
  by (simp add: tsz_trunc_def timestamp_trunc_def tsz_cut_def my_timeval_trunc_ten)

lemma tsz_cut_ok: "tsz_ok z \<Longrightarrow> tsz_ok (tsz_cut d z)"
  using trunc_frac_le [of d "tv_usec (ts_value z)"] by (simp add: tsz_ok_def tsz_cut_def)

lemma usecs_cut_mono:
  assumes "tv_usec a < 1000000" "tv_usec b < 1000000" "usecs a \<le> usecs b"
  shows "usecs (a\<lparr>tv_usec := trunc_frac d (tv_usec a)\<rparr>) \<le> usecs (b\<lparr>tv_usec := trunc_frac d (tv_usec b)\<rparr>)"
proof (cases "tv_sec a < tv_sec b")
  case True
  then show ?thesis using assms(1) trunc_frac_le [of d "tv_usec a"] by (simp add: usecs_def)
next
  case False
  with assms have "tv_sec a = tv_sec b" by (simp add: usecs_def)
  with assms(3) trunc_frac_mono [of "tv_usec a" "tv_usec b" d] show ?thesis by (simp add: usecs_def)
qed

lemma tsz_cut_order:
  assumes "tsz_ok a" "tsz_ok b" "\<not> tsz_before b a"
  shows "\<not> tsz_before (tsz_cut d b) (tsz_cut d a)"
proof (cases "m_is_zero_datetime a")
  case True
  then show ?thesis by (simp add: tsz_before_def tsz_cut_def)
next
  case False
  with assms(3) have b: "\<not> m_is_zero_datetime b" "usecs (ts_value a) \<le> usecs (ts_value b)" by (auto simp: tsz_before_def)
  from usecs_cut_mono [of "ts_value a" "ts_value b" d] assms(1, 2) b(2)
  have "usecs (ts_value (tsz_cut d a)) \<le> usecs (ts_value (tsz_cut d b))" using False b(1) by (simp add: tsz_ok_def tsz_cut_def)
  then show ?thesis using False b(1) by (simp add: tsz_before_def tsz_cut_def)
qed

text \<open>
  The comparison of timestamps and zero date-times is the order of the instants they stand for,
  the zero date-time first; truncation to any number of digits is defined and keeps the order.
\<close>

theorem timestamps_ordered:
  assumes "tsz_ok a" and "tsz_ok b" and "powers_of_ten (pow_10 D)" and "d \<le> 6"
  shows "tsz_cmp a b = (if tsz_before a b then - 1 else if tsz_before b a then 1 else 0) \<and> tsz_cmp b a = - tsz_cmp a b \<and>
    (\<exists>a' b'. tsz_trunc D a d = Some a' \<and> tsz_trunc D b d = Some b' \<and> (tsz_cmp a b \<le> 0 \<longrightarrow> tsz_cmp a' b' \<le> 0))"
proof -
  have "tsz_cmp a b \<le> 0 \<longrightarrow> tsz_cmp (tsz_cut d a) (tsz_cut d b) \<le> 0"
    using tsz_cut_order [OF assms(1, 2)] tsz_cmp_le_0 [OF assms(1, 2)] tsz_cmp_le_0 [OF tsz_cut_ok tsz_cut_ok, OF assms(1, 2)] by simp
  moreover have "tsz_cmp b a = - tsz_cmp a b"
    using tsz_before_asym [of a b] by (simp add: tsz_cmp_iff assms(1, 2))
  ultimately show ?thesis using tsz_cmp_iff [OF assms(1, 2)] tsz_trunc_ten [OF assms(3, 4)] by blast
qed

theorem timestamps_ordered_witness:
  "tsz_cmp Timestamp_or_zero_datetime0 \<lparr>ts_value = \<lparr>tv_sec = 0, tv_usec = 0\<rparr>, m_is_zero_datetime = False\<rparr> = - 1"
  using timestamps_ordered [of Timestamp_or_zero_datetime0 "\<lparr>ts_value = \<lparr>tv_sec = 0, tv_usec = 0\<rparr>, m_is_zero_datetime = False\<rparr>" sample_date_lib 0]
    sample_date_lib_laws(2) by (simp add: tsz_ok_def tsz_before_def Timestamp_or_zero_datetime0_def)

end
