(* ===== verification/Xid.thy ===== *)
theory Xid
  imports Prelude "HOL-Library.Monad_Syntax"
begin

text \<open>
  Transaction identifiers: \<open>struct xid_t\<close> of \<open>handler.h\<close> and their text form, \<open>serialize_xid\<close> of
  \<open>log_event.h\<close>. The size of \<open>long\<close> in bytes is a parameter \<open>W\<close>, 4 or 8, and numbers are copied with
  their low byte first, as on the machines the headers were installed for. The table of
  hexadecimal digits is defined in another library and is a parameter. Copying beyond the data
  array is the error \<open>None\<close>.
\<close>

section \<open>The structure\<close>

definition XIDDATASIZE :: nat where "XIDDATASIZE = 128"

record xid_t =
  formatID :: int
  gtrid_length :: nat
  bqual_length :: nat
  xdata :: "u8 list"

definition MYSQL_XID_PREFIX :: "u8 list" where "MYSQL_XID_PREFIX = [77, 121, 83, 81, 76, 88, 105, 100]"
definition MYSQL_XID_PREFIX_LEN :: nat where "MYSQL_XID_PREFIX_LEN = 8"
definition MYSQL_XID_OFFSET :: "nat \<Rightarrow> nat" where "MYSQL_XID_OFFSET W = MYSQL_XID_PREFIX_LEN + W"
definition MYSQL_XID_GTRID_LEN :: "nat \<Rightarrow> nat" where "MYSQL_XID_GTRID_LEN W = MYSQL_XID_OFFSET W + 8"

text \<open>\<open>memcpy\<close> into the data array.\<close>

definition copy_data :: "nat \<Rightarrow> u8 list \<Rightarrow> u8 list \<Rightarrow> u8 list option" where
  "copy_data at bs dat =
     (if at + length bs \<le> length dat then Some (take at dat @ bs @ List.drop (at + length bs) dat) else None)"

primrec le_bytes :: "nat \<Rightarrow> nat \<Rightarrow> u8 list" where
  "le_bytes 0 n = []"
| "le_bytes (Suc k) n = of_nat (n mod 256) # le_bytes k (n div 256)"

fun le_value :: "u8 list \<Rightarrow> nat" where
  "le_value [] = 0"
| "le_value (b # bs) = unat b + 256 * le_value bs"

definition xid_is_null :: "xid_t \<Rightarrow> bool" where "xid_is_null x \<longleftrightarrow> formatID x = - 1"

definition xid_null :: "xid_t \<Rightarrow> xid_t" where "xid_null x = x\<lparr>formatID := - 1\<rparr>"

definition xid_eq_parts :: "nat \<Rightarrow> nat \<Rightarrow> u8 list \<Rightarrow> xid_t \<Rightarrow> bool" where
  "xid_eq_parts g b d x \<longleftrightarrow> \<not> xid_is_null x \<and> g = gtrid_length x \<and> b = bqual_length x \<and> take (g + b) d = take (g + b) (xdata x)"

definition xid_eq :: "xid_t \<Rightarrow> xid_t \<Rightarrow> bool" where
  "xid_eq x xid \<longleftrightarrow> \<not> xid_is_null xid \<and> xid_eq_parts (gtrid_length xid) (bqual_length xid) (xdata xid) x"

definition xid_key_length :: "nat \<Rightarrow> xid_t \<Rightarrow> nat" where
  "xid_key_length W x = W + W + gtrid_length x + bqual_length x"

definition xid_length :: "nat \<Rightarrow> xid_t \<Rightarrow> nat" where
  "xid_length W x = W + xid_key_length W x"

text \<open>\<open>set(struct xid_t *)\<close> copies \<open>length()\<close> bytes: the three numbers and the used part of the data.\<close>

definition xid_set :: "nat \<Rightarrow> xid_t \<Rightarrow> xid_t \<Rightarrow> xid_t option" where
  "xid_set W xid x =
     do { d \<leftarrow> copy_data 0 (take (xid_length W xid - 3 * W) (xdata xid)) (xdata x);
          Some (x\<lparr>formatID := formatID xid, gtrid_length := gtrid_length xid, bqual_length := bqual_length xid, xdata := d\<rparr>) }"

definition xid_set_parts :: "int \<Rightarrow> u8 list \<Rightarrow> nat \<Rightarrow> u8 list \<Rightarrow> nat \<Rightarrow> xid_t \<Rightarrow> xid_t option" where
  "xid_set_parts f g gl b bl x =
     do { d \<leftarrow> if gl \<noteq> 0 then copy_data 0 (take gl g) (xdata x) else Some (xdata x);
          d \<leftarrow> if bl \<noteq> 0 then copy_data gl (take bl b) d else Some d;
          Some (x\<lparr>formatID := f, gtrid_length := gl, bqual_length := bl, xdata := d\<rparr>) }"

definition xid_set_data :: "nat \<Rightarrow> nat \<Rightarrow> u8 list \<Rightarrow> xid_t \<Rightarrow> xid_t option" where
  "xid_set_data g b d x =
     do { d \<leftarrow> copy_data 0 (take (g + b) d) (xdata x);
          Some (x\<lparr>formatID := 1, gtrid_length := g, bqual_length := b, xdata := d\<rparr>) }"

definition xid_set_my_xid :: "nat \<Rightarrow> nat \<Rightarrow> nat \<Rightarrow> xid_t \<Rightarrow> xid_t option" where
  "xid_set_my_xid W xid trx_server_id x =
     do { x \<leftarrow> xid_set_data MYSQL_XID_PREFIX_LEN 0 MYSQL_XID_PREFIX (x\<lparr>formatID := 1\<rparr>);
          d \<leftarrow> copy_data MYSQL_XID_PREFIX_LEN (le_bytes W trx_server_id) (xdata x);
          d \<leftarrow> copy_data (MYSQL_XID_OFFSET W) (le_bytes 8 xid) d;
          Some (x\<lparr>xdata := d, gtrid_length := MYSQL_XID_GTRID_LEN W\<rparr>) }"

definition quick_get_my_xid :: "nat \<Rightarrow> xid_t \<Rightarrow> nat" where
  "quick_get_my_xid W x = le_value (take 8 (List.drop (MYSQL_XID_OFFSET W) (xdata x)))"

definition get_my_xid :: "nat \<Rightarrow> xid_t \<Rightarrow> nat" where
  "get_my_xid W x =
     (if gtrid_length x = MYSQL_XID_GTRID_LEN W \<and> bqual_length x = 0 \<and> take MYSQL_XID_PREFIX_LEN (xdata x) = MYSQL_XID_PREFIX
      then quick_get_my_xid W x else 0)"

definition get_trx_server_id :: "nat \<Rightarrow> xid_t \<Rightarrow> nat" where
  "get_trx_server_id W x = le_value (take W (List.drop MYSQL_XID_PREFIX_LEN (xdata x)))"

section \<open>Numbers in the data\<close>

lemma length_le_bytes [simp]: "length (le_bytes k n) = k"
  by (induction k arbitrary: n) simp_all

lemma le_value_bytes: "n < 256 ^ k \<Longrightarrow> le_value (le_bytes k n) = n"
proof (induction k arbitrary: n)
  case (Suc k)
  have "n div 256 < 256 ^ k" using Suc.prems by (simp add: less_mult_imp_div_less mult.commute)
  moreover have "unat (of_nat (n mod 256) :: u8) = n mod 256" by (simp add: unat_of_nat)
  ultimately show ?case using Suc.IH by simp
qed simp

lemma copy_data_at:
  assumes "p + length bs \<le> length dat"
  shows "\<exists>d. copy_data p bs dat = Some d \<and> length d = length dat \<and> take (length bs) (List.drop p d) = bs \<and>
    take p d = take p dat \<and> (\<forall>q k. q + k \<le> p \<longrightarrow> take k (List.drop q d) = take k (List.drop q dat))"
proof (intro exI conjI allI impI)
  let ?d = "take p dat @ bs @ List.drop (p + length bs) dat"
  show "copy_data p bs dat = Some ?d" using assms by (simp add: copy_data_def)
  show "length ?d = length dat" "take (length bs) (List.drop p ?d) = bs" "take p ?d = take p dat" using assms by simp_all
  fix q k :: nat
  assume "q + k \<le> p"
  then show "take k (List.drop q ?d) = take k (List.drop q dat)"
    using assms by (simp add: take_drop min_def)
qed

lemma take_eq_nth: "n \<le> length xs \<Longrightarrow> n \<le> length ys \<Longrightarrow> take n xs = take n ys \<longleftrightarrow> (\<forall>i < n. xs ! i = ys ! i)"
  by (auto simp: list_eq_iff_nth_eq)

lemma xid_eq_same:
  "length (xdata u) = XIDDATASIZE \<and> length (xdata v) = XIDDATASIZE \<and> gtrid_length u + bqual_length u \<le> XIDDATASIZE \<Longrightarrow>
     xid_eq u v \<longleftrightarrow> \<not> xid_is_null u \<and> \<not> xid_is_null v \<and> gtrid_length u = gtrid_length v \<and> bqual_length u = bqual_length v \<and>
       (\<forall>i < gtrid_length u + bqual_length u. xdata u ! i = xdata v ! i)"
  using take_eq_nth [of "gtrid_length u + bqual_length u" "xdata u" "xdata v"] by (auto simp: xid_eq_def xid_eq_parts_def)

text \<open>
  Property C26: an internal transaction number and the identifier of its server, packed into a transaction
  identifier, are read back; identifiers set by \<open>set\<close> compare equal to their source; two identifiers compare equal exactly
  when neither is null and both parts are the same, so a null identifier, on either side, is equal to nothing,
  not even to itself.
\<close>

theorem my_xid_round_trip:
  assumes "W \<in> {4, 8}" and "length (xdata x) = XIDDATASIZE" and "n < 2 ^ 64" and "sid < 256 ^ W"
  shows "\<exists>y. xid_set_my_xid W n sid x = Some y \<and> get_my_xid W y = n \<and> get_trx_server_id W y = sid \<and>
    length (xdata y) = XIDDATASIZE \<and> \<not> xid_is_null y \<and>
    (\<forall>z. length (xdata z) = XIDDATASIZE \<longrightarrow> (\<exists>c. xid_set W y z = Some c \<and> xid_eq c y \<and> xid_eq y c \<and>
       \<not> xid_eq (xid_null y) c \<and> \<not> xid_eq c (xid_null y))) \<and>
    (\<forall>u v. length (xdata u) = XIDDATASIZE \<and> length (xdata v) = XIDDATASIZE \<and> gtrid_length u + bqual_length u \<le> XIDDATASIZE \<longrightarrow>
       (xid_eq u v \<longleftrightarrow> \<not> xid_is_null u \<and> \<not> xid_is_null v \<and> gtrid_length u = gtrid_length v \<and> bqual_length u = bqual_length v \<and>
          (\<forall>i < gtrid_length u + bqual_length u. xdata u ! i = xdata v ! i)))"
proof -
  let ?p = "MYSQL_XID_PREFIX"
  have W: "8 + W + 8 \<le> 128" using assms(1) by auto
  have p: "length ?p = 8" "take 8 ?p = ?p" by (simp_all add: MYSQL_XID_PREFIX_def)
  from assms(2) p have "0 + length ?p \<le> length (xdata x)" by (simp add: XIDDATASIZE_def)
  from copy_data_at [OF this] obtain d1 where d1: "copy_data 0 ?p (xdata x) = Some d1" "length d1 = length (xdata x)"
    "take 8 (List.drop 0 d1) = ?p" using p(1) by auto
  have "8 + length (le_bytes W sid) \<le> length d1" using W d1(2) assms(2) by (simp add: XIDDATASIZE_def)
  from copy_data_at [OF this] obtain d2 where d2: "copy_data 8 (le_bytes W sid) d1 = Some d2" "length d2 = length d1"
    "take W (List.drop 8 d2) = le_bytes W sid" "take 8 d2 = take 8 d1" by auto
  have "8 + W + length (le_bytes 8 n) \<le> length d2" using W d2(2) d1(2) assms(2) by (simp add: XIDDATASIZE_def)
  from copy_data_at [OF this] obtain d3 where d3: "copy_data (8 + W) (le_bytes 8 n) d2 = Some d3" "length d3 = length d2"
    "take 8 (List.drop (8 + W) d3) = le_bytes 8 n" "\<forall>q k. q + k \<le> 8 + W \<longrightarrow> take k (List.drop q d3) = take k (List.drop q d2)" by auto
  define y where "y = x\<lparr>formatID := 1, gtrid_length := 16 + W, bqual_length := 0, xdata := d3\<rparr>"
  have set: "xid_set_my_xid W n sid x = Some y"
    using d1(1) d2(1) d3(1) p by (simp add: xid_set_my_xid_def xid_set_data_def y_def MYSQL_XID_PREFIX_LEN_def MYSQL_XID_OFFSET_def MYSQL_XID_GTRID_LEN_def)
  have "take 8 (List.drop 0 d3) = take 8 (List.drop 0 d2)" using spec [OF spec [OF d3(4), of 0], of 8] by simp
  then have prefix: "take 8 d3 = ?p" using d1(3) d2(4) by simp
  have "take W (List.drop 8 d3) = le_bytes W sid" using d3(4) d2(3) by simp
  moreover have "n < 256 ^ 8" using assms(3) by simp
  ultimately have get: "get_my_xid W y = n" "get_trx_server_id W y = sid"
    using prefix d3(3) assms(4) by (simp_all add: get_my_xid_def quick_get_my_xid_def get_trx_server_id_def y_def le_value_bytes
      MYSQL_XID_PREFIX_LEN_def MYSQL_XID_OFFSET_def MYSQL_XID_GTRID_LEN_def add.commute)
  have len: "length (xdata y) = XIDDATASIZE" using d1(2) d2(2) d3(2) assms(2) by (simp add: y_def)
  have "\<exists>c. xid_set W y z = Some c \<and> xid_eq c y \<and> xid_eq y c \<and> \<not> xid_eq (xid_null y) c \<and> \<not> xid_eq c (xid_null y)" if z: "length (xdata z) = XIDDATASIZE" for z
  proof -
    have used: "xid_length W y - 3 * W = 16 + W" by (simp add: xid_length_def xid_key_length_def y_def)
    have l: "length (take (16 + W) (xdata y)) = 16 + W" using len W by (simp add: XIDDATASIZE_def)
    then have "0 + length (take (16 + W) (xdata y)) \<le> length (xdata z)" using z W by (simp add: XIDDATASIZE_def)
    from copy_data_at [OF this] obtain d where d: "copy_data 0 (take (16 + W) (xdata y)) (xdata z) = Some d"
      "take (16 + W) d = take (16 + W) (xdata y)" using l by auto
    let ?c = "z\<lparr>formatID := formatID y, gtrid_length := gtrid_length y, bqual_length := bqual_length y, xdata := d\<rparr>"
    have "xid_set W y z = Some ?c" using d(1) by (simp add: xid_set_def used)
    moreover have "xid_eq ?c y" "xid_eq y ?c" "\<not> xid_eq (xid_null y) ?c" "\<not> xid_eq ?c (xid_null y)"
      using d(2) by (simp_all add: xid_eq_def xid_eq_parts_def xid_is_null_def xid_null_def y_def)
    ultimately show ?thesis by blast
  qed
  moreover have "\<not> xid_is_null y" by (simp add: y_def xid_is_null_def)
  ultimately show ?thesis using set get len xid_eq_same by blast
qed

definition blank_xid :: xid_t where
  "blank_xid = \<lparr>formatID = - 1, gtrid_length = 0, bqual_length = 0, xdata = replicate 128 0\<rparr>"

theorem my_xid_round_trip_witness:
  "(\<exists>y. xid_set_my_xid 8 77 3 blank_xid = Some y \<and> get_my_xid 8 y = 77 \<and> get_trx_server_id 8 y = 3) \<and> \<not> xid_eq blank_xid blank_xid"
proof -
  have "length (xdata blank_xid) = XIDDATASIZE" "gtrid_length blank_xid + bqual_length blank_xid \<le> XIDDATASIZE" "xid_is_null blank_xid"
    by (simp_all add: blank_xid_def XIDDATASIZE_def xid_is_null_def)
  with my_xid_round_trip [of 8 blank_xid 77 3] show ?thesis by auto
qed

section \<open>Text form\<close>

type_synonym digit_table = string

definition hex_digits :: "digit_table \<Rightarrow> bool" where
  "hex_digits dig \<longleftrightarrow> 16 \<le> length dig \<and> distinct (take 16 dig) \<and> CHR 0x27 \<notin> set (take 16 dig)"

text \<open>The two loops over the bytes of the data.\<close>

fun hex_loop :: "digit_table \<Rightarrow> u8 list \<Rightarrow> string" where
  "hex_loop dig [] = []"
| "hex_loop dig (b # bs) = dig ! unat (drop_bit 4 b) # dig ! unat (and b 15) # hex_loop dig bs"

definition serialize_xid :: "nat \<Rightarrow> digit_table \<Rightarrow> int \<Rightarrow> nat \<Rightarrow> nat \<Rightarrow> u8 list \<Rightarrow> string option" where
  "serialize_xid W dig fmt gln bln dat =
     (if gln + bln \<le> length dat
      then Some ([CHR ''X'', CHR 0x27] @ hex_loop dig (take gln dat) @ [CHR 0x27, CHR '','', CHR ''X'', CHR 0x27] @
                 hex_loop dig (take bln (List.drop gln dat)) @ [CHR 0x27] @ [CHR '',''] @ show_nat (nat (fmt mod 256 ^ W)))
      else None)"

definition ser_buf_size :: "nat \<Rightarrow> nat" where
  "ser_buf_size W = 8 + 2 * XIDDATASIZE + 4 * W + 1"

definition event_xid_serialize :: "nat \<Rightarrow> digit_table \<Rightarrow> xid_t \<Rightarrow> string option" where
  "event_xid_serialize W dig x = serialize_xid W dig (formatID x) (gtrid_length x) (bqual_length x) (xdata x)"

lemma length_hex_loop [simp]: "length (hex_loop dig bs) = 2 * length bs"
  by (induction bs) simp_all

lemma high_nibble: "unat (drop_bit 4 (b :: u8)) = unat b div 16"
  by (simp only: unat_drop_bit_eq) (simp add: drop_bit_eq_div)

lemma low_nibble: "unat (and (b :: u8) 15) = unat b mod 16"
proof -
  have "unat (and b 15) = and (unat b) 15" by (simp add: unsigned_and_eq)
  also have "(15 :: nat) = mask 4" by (simp add: mask_eq_exp_minus_1)
  finally show ?thesis by (simp add: take_bit_eq_mod flip: take_bit_eq_mask)
qed

lemma nibble_bound: "unat (drop_bit 4 (b :: u8)) < 16" "unat (and (b :: u8) 15) < 16"
  using unat_less_exp [of b] by (simp_all only: high_nibble low_nibble) simp_all

lemma nibbles_eq: "unat (drop_bit 4 b) * 16 + unat (and b 15) = unat (b :: u8)"
  by (simp only: high_nibble low_nibble div_mult_mod_eq)

lemma digit_inj: "hex_digits dig \<Longrightarrow> i < 16 \<Longrightarrow> j < 16 \<Longrightarrow> dig ! i = dig ! j \<Longrightarrow> i = j"
  using nth_eq_iff_index_eq [of "take 16 dig" i j] by (auto simp: hex_digits_def)

lemma digit_no_quote: "hex_digits dig \<Longrightarrow> i < 16 \<Longrightarrow> dig ! i \<noteq> CHR 0x27"
proof
  assume "hex_digits dig" "i < 16" "dig ! i = CHR 0x27"
  then have "CHR 0x27 = take 16 dig ! i" "i < length (take 16 dig)" by (auto simp: hex_digits_def)
  then have "CHR 0x27 \<in> set (take 16 dig)" by (metis nth_mem)
  with \<open>hex_digits dig\<close> show False by (simp add: hex_digits_def)
qed

lemma hex_loop_no_quote: "hex_digits dig \<Longrightarrow> CHR 0x27 \<notin> set (hex_loop dig bs)"
proof (induction bs)
  case (Cons b bs)
  then show ?case using digit_no_quote [OF Cons.prems nibble_bound(1) [of b]] digit_no_quote [OF Cons.prems nibble_bound(2) [of b]] by auto
qed simp

lemma hex_loop_inj: "hex_digits dig \<Longrightarrow> hex_loop dig as = hex_loop dig bs \<Longrightarrow> as = bs"
proof (induction as arbitrary: bs)
  case Nil
  then show ?case by (cases bs) simp_all
next
  case (Cons a as)
  then obtain b cs where bs: "bs = b # cs" by (cases bs) simp_all
  from Cons.prems bs have "dig ! unat (drop_bit 4 a) = dig ! unat (drop_bit 4 b)" "dig ! unat (and a 15) = dig ! unat (and b 15)"
    "hex_loop dig as = hex_loop dig cs" by simp_all
  with digit_inj [OF Cons.prems(1)] nibble_bound have n: "unat (drop_bit 4 a) = unat (drop_bit 4 b)" "unat (and a 15) = unat (and b 15)" "as = cs"
    using Cons.IH [OF Cons.prems(1)] by blast+
  then have "unat a = unat b" using nibbles_eq [of a] nibbles_eq [of b] by simp
  then show ?case using bs n(3) by (simp add: word_unat_eq_iff)
qed

lemma split_at_mark: "c \<notin> set p \<Longrightarrow> c \<notin> set q \<Longrightarrow> p @ c # r = q @ c # s \<Longrightarrow> p = q \<and> r = s"
proof (induction p arbitrary: q)
  case Nil
  then show ?case by (cases q) auto
next
  case (Cons x p)
  then show ?case by (cases q) auto
qed

lemmas split_at_quote = split_at_mark [of "CHR 0x27"]

text \<open>
  Property C27: the text of a transaction identifier, with its final zero byte, fits into the buffer of
  \<open>ser_buf_size\<close> bytes whatever the identifier holds, and it determines the format number and
  both parts of the data.
\<close>

theorem serialized_xid_fits_and_determines:
  assumes "W \<in> {4, 8}" and "hex_digits dig" and "length d = XIDDATASIZE" and "g + b \<le> XIDDATASIZE"
    and "length d' = XIDDATASIZE" and "g' + b' \<le> XIDDATASIZE"
  shows "\<exists>s s'. serialize_xid W dig f g b d = Some s \<and> length s + 1 \<le> ser_buf_size W \<and> serialize_xid W dig f' g' b' d' = Some s' \<and>
    (s = s' \<longleftrightarrow> take g d = take g' d' \<and> take b (List.drop g d) = take b' (List.drop g' d') \<and> f mod 256 ^ W = f' mod 256 ^ W)"
proof -
  let ?s = "\<lambda>f g b d. [CHR ''X'', CHR 0x27] @ hex_loop dig (take g d) @ [CHR 0x27, CHR '','', CHR ''X'', CHR 0x27] @
    hex_loop dig (take b (List.drop g d)) @ [CHR 0x27] @ [CHR '',''] @ show_nat (nat (f mod 256 ^ W))"
  have ser: "serialize_xid W dig f g b d = Some (?s f g b d)" "serialize_xid W dig f' g' b' d' = Some (?s f' g' b' d')"
    using assms(3-6) by (simp_all add: serialize_xid_def)
  have digits: "length (show_nat (nat (f mod 256 ^ W))) \<le> (if W = 4 then 10 else 20)"
  proof (rule length_show_nat)
    have "f mod 256 ^ W < 256 ^ W" "0 \<le> f mod 256 ^ W" by simp_all
    then show "nat (f mod 256 ^ W) < 10 ^ (if W = 4 then 10 else 20)" using assms(1) by auto
  qed simp
  have "min (XIDDATASIZE - g) b = b" "min XIDDATASIZE g = g" using assms(4) by simp_all
  then have "length (?s f g b d) = 8 + 2 * (g + b) + length (show_nat (nat (f mod 256 ^ W)))"
    using assms(3) by simp
  also have "\<dots> + 1 \<le> ser_buf_size W"
    using digits assms(1, 4) by (auto simp: ser_buf_size_def XIDDATASIZE_def split: if_splits)
  finally have fits: "length (?s f g b d) + 1 \<le> ser_buf_size W" .
  have "take g d = take g' d' \<and> take b (List.drop g d) = take b' (List.drop g' d') \<and> f mod 256 ^ W = f' mod 256 ^ W"
    if "?s f g b d = ?s f' g' b' d'"
  proof -
    note q = hex_loop_no_quote [OF assms(2)]
    from that have "hex_loop dig (take g d) @ CHR 0x27 # CHR '','' # CHR ''X'' # CHR 0x27 # hex_loop dig (take b (List.drop g d)) @ CHR 0x27 # CHR '','' # show_nat (nat (f mod 256 ^ W)) =
      hex_loop dig (take g' d') @ CHR 0x27 # CHR '','' # CHR ''X'' # CHR 0x27 # hex_loop dig (take b' (List.drop g' d')) @ CHR 0x27 # CHR '','' # show_nat (nat (f' mod 256 ^ W))" by simp
    from split_at_quote [OF q q this] have 1: "hex_loop dig (take g d) = hex_loop dig (take g' d')"
      and r: "hex_loop dig (take b (List.drop g d)) @ CHR 0x27 # CHR '','' # show_nat (nat (f mod 256 ^ W)) =
        hex_loop dig (take b' (List.drop g' d')) @ CHR 0x27 # CHR '','' # show_nat (nat (f' mod 256 ^ W))" by simp_all
    from split_at_quote [OF q q r] have 2: "hex_loop dig (take b (List.drop g d)) = hex_loop dig (take b' (List.drop g' d'))"
      and "show_nat (nat (f mod 256 ^ W)) = show_nat (nat (f' mod 256 ^ W))" by simp_all
    then have "nat (f mod 256 ^ W) = nat (f' mod 256 ^ W)" by (blast dest: show_nat_inj)
    then have "f mod 256 ^ W = f' mod 256 ^ W" by (simp add: eq_nat_nat_iff)
    with 1 2 show ?thesis using hex_loop_inj [OF assms(2)] by blast
  qed
  with ser fits show ?thesis by auto
qed

theorem serialized_xid_fits_and_determines_witness:
  "\<exists>s. serialize_xid 8 ''0123456789abcdef'' (- 1) 64 64 (replicate 128 255) = Some s \<and> length s + 1 \<le> ser_buf_size 8"
  using serialized_xid_fits_and_determines [of 8 "''0123456789abcdef''" "replicate 128 255" 64 64 "replicate 128 0" 64 64 "- 1" 0]
  by (auto simp: hex_digits_def XIDDATASIZE_def)

end
