(* ===== verification/TransInfo.thy ===== *)
theory TransInfo
  imports Prelude "HOL-Library.Monad_Syntax"
begin

text \<open>
  The storage engines of a transaction (\<open>THD_TRANS\<close> and \<open>Ha_trx_info\<close> of \<open>handler.h\<close>). The objects
  \<open>Ha_trx_info\<close> lie in a store indexed by their addresses and form the list of engines that take
  part in the transaction. A storage engine is named by a number. Debug assertions are \<open>None\<close>
  branches, and so is following a pointer to no object.
\<close>

unbundle bit_operations_syntax

section \<open>Engines of a transaction\<close>

record ha_trx_info =
  m_next :: "nat option"
  m_ht :: "nat option"
  m_flags :: u8

type_synonym trx_store = "nat \<Rightarrow> ha_trx_info"

definition TRX_READ_ONLY :: u8 where "TRX_READ_ONLY = 0"
definition TRX_READ_WRITE :: u8 where "TRX_READ_WRITE = 1"

record thd_trans =
  no_2pc :: bool
  ha_list :: "nat option"
  modified_non_trans_table :: bool
  m_unsafe_rollback_flags :: u32

definition ha_reset :: ha_trx_info where
  "ha_reset = \<lparr>m_next = None, m_ht = None, m_flags = 0\<rparr>"

definition register_ha :: "nat \<Rightarrow> nat \<Rightarrow> thd_trans \<Rightarrow> trx_store \<Rightarrow> (thd_trans \<times> trx_store) option" where
  "register_ha p ht_arg tr h =
     do { dbug_assert (m_flags (h p) = 0);
          dbug_assert (m_ht (h p) = None);
          dbug_assert (m_next (h p) = None);
          Some (tr\<lparr>ha_list := Some p\<rparr>, h(p := \<lparr>m_next = ha_list tr, m_ht = Some ht_arg, m_flags = TRX_READ_ONLY\<rparr>)) }"

definition is_started :: "ha_trx_info \<Rightarrow> bool" where
  "is_started i \<longleftrightarrow> m_ht i \<noteq> None"

definition set_trx_read_write :: "nat \<Rightarrow> trx_store \<Rightarrow> trx_store option" where
  "set_trx_read_write p h =
     do { dbug_assert (is_started (h p)); Some (h(p := (h p)\<lparr>m_flags := m_flags (h p) OR TRX_READ_WRITE\<rparr>)) }"

definition info_read_write :: "ha_trx_info \<Rightarrow> bool option" where
  "info_read_write i = do { dbug_assert (is_started i); Some (m_flags i AND TRX_READ_WRITE \<noteq> 0) }"

definition coalesce_trx_with :: "nat \<Rightarrow> nat \<Rightarrow> trx_store \<Rightarrow> trx_store option" where
  "coalesce_trx_with p stmt_trx h =
     do { dbug_assert (is_started (h p));
          rw \<leftarrow> info_read_write (h stmt_trx);
          if rw then set_trx_read_write p h else Some h }"

definition info_next :: "ha_trx_info \<Rightarrow> nat option option" where
  "info_next i = do { dbug_assert (is_started i); Some (m_next i) }"

text \<open>The loop of \<open>THD_TRANS::is_trx_read_write\<close>; it need not end on a malformed list.\<close>

partial_function (option) read_write_loop :: "trx_store \<Rightarrow> nat option \<Rightarrow> bool option" where
  "read_write_loop h ha_info =
     (case ha_info of None \<Rightarrow> Some False
      | Some p \<Rightarrow> Option.bind (info_read_write (h p))
          (\<lambda>rw. if rw then Some True else Option.bind (info_next (h p)) (\<lambda>n. read_write_loop h n)))"

definition is_trx_read_write :: "thd_trans \<Rightarrow> trx_store \<Rightarrow> bool option" where
  "is_trx_read_write tr h = read_write_loop h (ha_list tr)"

definition trans_is_empty :: "thd_trans \<Rightarrow> bool" where
  "trans_is_empty tr \<longleftrightarrow> ha_list tr = None"

section \<open>Statements that cannot be rolled back\<close>

definition MODIFIED_NON_TRANS_TABLE :: u32 where "MODIFIED_NON_TRANS_TABLE = 1"
definition CREATED_TEMP_TABLE :: u32 where "CREATED_TEMP_TABLE = 2"
definition DROPPED_TEMP_TABLE :: u32 where "DROPPED_TEMP_TABLE = 4"
definition DID_WAIT :: u32 where "DID_WAIT = 8"
definition DID_DDL :: u32 where "DID_DDL = 0x10"
definition EXECUTED_TABLE_ADMIN_CMD :: u32 where "EXECUTED_TABLE_ADMIN_CMD = 0x20"

definition trans_reset :: "thd_trans \<Rightarrow> thd_trans" where
  "trans_reset t = t\<lparr>no_2pc := False, modified_non_trans_table := False, m_unsafe_rollback_flags := 0\<rparr>"

definition mark_modified_non_trans_temp_table :: "thd_trans \<Rightarrow> thd_trans" where
  "mark_modified_non_trans_temp_table t = t\<lparr>m_unsafe_rollback_flags := m_unsafe_rollback_flags t OR MODIFIED_NON_TRANS_TABLE\<rparr>"

definition has_modified_non_trans_temp_table :: "thd_trans \<Rightarrow> bool" where
  "has_modified_non_trans_temp_table t \<longleftrightarrow> m_unsafe_rollback_flags t AND MODIFIED_NON_TRANS_TABLE \<noteq> 0"

definition mark_executed_table_admin_cmd :: "thd_trans \<Rightarrow> thd_trans" where
  "mark_executed_table_admin_cmd t = t\<lparr>m_unsafe_rollback_flags := m_unsafe_rollback_flags t OR EXECUTED_TABLE_ADMIN_CMD\<rparr>"

definition trans_executed_admin_cmd :: "thd_trans \<Rightarrow> bool" where
  "trans_executed_admin_cmd t \<longleftrightarrow> m_unsafe_rollback_flags t AND EXECUTED_TABLE_ADMIN_CMD \<noteq> 0"

definition mark_created_temp_table :: "thd_trans \<Rightarrow> thd_trans" where
  "mark_created_temp_table t = t\<lparr>m_unsafe_rollback_flags := m_unsafe_rollback_flags t OR CREATED_TEMP_TABLE\<rparr>"

definition mark_dropped_temp_table :: "thd_trans \<Rightarrow> thd_trans" where
  "mark_dropped_temp_table t = t\<lparr>m_unsafe_rollback_flags := m_unsafe_rollback_flags t OR DROPPED_TEMP_TABLE\<rparr>"

definition has_created_dropped_temp_table :: "thd_trans \<Rightarrow> bool" where
  "has_created_dropped_temp_table t \<longleftrightarrow> m_unsafe_rollback_flags t AND (CREATED_TEMP_TABLE OR DROPPED_TEMP_TABLE) \<noteq> 0"

definition mark_trans_did_wait :: "thd_trans \<Rightarrow> thd_trans" where
  "mark_trans_did_wait t = t\<lparr>m_unsafe_rollback_flags := m_unsafe_rollback_flags t OR DID_WAIT\<rparr>"

definition trans_did_wait :: "thd_trans \<Rightarrow> bool" where
  "trans_did_wait t \<longleftrightarrow> m_unsafe_rollback_flags t AND DID_WAIT \<noteq> 0"

definition mark_trans_did_ddl :: "thd_trans \<Rightarrow> thd_trans" where
  "mark_trans_did_ddl t = t\<lparr>m_unsafe_rollback_flags := m_unsafe_rollback_flags t OR DID_DDL\<rparr>"

definition trans_did_ddl :: "thd_trans \<Rightarrow> bool" where
  "trans_did_ddl t \<longleftrightarrow> m_unsafe_rollback_flags t AND DID_DDL \<noteq> 0"

lemmas unsafe_flags = MODIFIED_NON_TRANS_TABLE_def CREATED_TEMP_TABLE_def DROPPED_TEMP_TABLE_def DID_WAIT_def DID_DDL_def
  EXECUTED_TABLE_ADMIN_CMD_def

lemmas unsafe_defs = mark_modified_non_trans_temp_table_def has_modified_non_trans_temp_table_def mark_executed_table_admin_cmd_def
  trans_executed_admin_cmd_def mark_created_temp_table_def mark_dropped_temp_table_def has_created_dropped_temp_table_def
  mark_trans_did_wait_def trans_did_wait_def mark_trans_did_ddl_def trans_did_ddl_def trans_reset_def

text \<open>The marks as a set of statement types: each mark adds one type, each test asks for its own.\<close>

datatype unsafe_type = UModified | UCreated | UDropped | UWait | UDdl | UAdmin

fun mark :: "unsafe_type \<Rightarrow> thd_trans \<Rightarrow> thd_trans" where
  "mark UModified = mark_modified_non_trans_temp_table"
| "mark UCreated = mark_created_temp_table"
| "mark UDropped = mark_dropped_temp_table"
| "mark UWait = mark_trans_did_wait"
| "mark UDdl = mark_trans_did_ddl"
| "mark UAdmin = mark_executed_table_admin_cmd"

definition marked :: "thd_trans \<Rightarrow> unsafe_type set \<Rightarrow> bool" where
  "marked t A \<longleftrightarrow>
     (has_modified_non_trans_temp_table t \<longleftrightarrow> UModified \<in> A) \<and> (has_created_dropped_temp_table t \<longleftrightarrow> UCreated \<in> A \<or> UDropped \<in> A) \<and>
     (trans_did_wait t \<longleftrightarrow> UWait \<in> A) \<and> (trans_did_ddl t \<longleftrightarrow> UDdl \<in> A) \<and> (trans_executed_admin_cmd t \<longleftrightarrow> UAdmin \<in> A)"

lemma flag_or: "(a OR b) AND c \<noteq> (0 :: u32) \<longleftrightarrow> a AND c \<noteq> 0 \<or> b AND c \<noteq> 0"
  by (simp add: bit.conj_disj_distrib2 or_eq_0_iff)

lemma marked_mark: "marked t A \<Longrightarrow> marked (mark u t) (insert u A)"
  by (cases u) (auto simp: marked_def unsafe_defs flag_or unsafe_flags)

lemma marked_reset: "marked (trans_reset t) {}"
  by (simp add: marked_def unsafe_defs)

lemma marks_are_sets: "marked (fold mark us (trans_reset t)) (set us)"
proof -
  have "marked t A \<Longrightarrow> marked (fold mark us t) (set us \<union> A)" for t A
  proof (induction us arbitrary: t A)
    case (Cons u us)
    from Cons.IH [OF marked_mark [OF Cons.prems], of u] show ?case by simp
  qed simp
  from this [OF marked_reset] show ?thesis by simp
qed

section \<open>The list of engines\<close>

text \<open>The list from a pointer on visits these objects, which all take part in the transaction.\<close>

fun trx_list :: "trx_store \<Rightarrow> nat option \<Rightarrow> nat list \<Rightarrow> bool" where
  "trx_list h p [] \<longleftrightarrow> p = None"
| "trx_list h p (x # xs) \<longleftrightarrow> p = Some x \<and> is_started (h x) \<and> trx_list h (m_next (h x)) xs"

lemma trx_list_frame: "x \<notin> set xs \<Longrightarrow> trx_list (h(x := i)) p xs = trx_list h p xs"
  by (induction xs arbitrary: p) auto

lemma read_write_loop_list:
  "trx_list h p xs \<Longrightarrow> read_write_loop h p = Some (\<exists>x \<in> set xs. m_flags (h x) AND TRX_READ_WRITE \<noteq> 0)"
proof (induction xs arbitrary: p)
  case Nil
  then show ?case by (simp add: read_write_loop.simps)
next
  case (Cons x xs)
  then show ?case
    by (subst read_write_loop.simps) (auto simp: info_read_write_def info_next_def)
qed

lemma register_ha_list:
  assumes "trx_list h (ha_list t) xs" "h p = ha_reset" "p \<notin> set xs"
  shows "\<exists>t' h'. register_ha p ht t h = Some (t', h') \<and> trx_list h' (ha_list t') (p # xs) \<and> m_ht (h' p) = Some ht \<and>
    m_flags (h' p) = 0 \<and> (\<forall>q. q \<noteq> p \<longrightarrow> h' q = h q)"
  using assms by (simp add: register_ha_def ha_reset_def trx_list_frame is_started_def TRX_READ_ONLY_def)

lemma set_read_write_list:
  assumes "trx_list h (ha_list t) xs" "p \<in> set xs"
  shows "\<exists>h'. set_trx_read_write p h = Some h' \<and> trx_list h' (ha_list t) xs \<and> m_flags (h' p) AND TRX_READ_WRITE \<noteq> 0 \<and>
    (\<forall>q. q \<noteq> p \<longrightarrow> h' q = h q) \<and> m_ht (h' p) = m_ht (h p)"
proof -
  have started: "trx_list h l xs \<Longrightarrow> p \<in> set xs \<Longrightarrow> is_started (h p)" for l
    by (induction xs arbitrary: l) auto
  let ?h = "h(p := (h p)\<lparr>m_flags := m_flags (h p) OR TRX_READ_WRITE\<rparr>)"
  have "trx_list ?h l xs = trx_list h l xs" for l
    by (induction xs arbitrary: l) (auto simp: is_started_def)
  moreover have "(f OR 1) AND 1 \<noteq> (0 :: u8)" for f by (simp add: bit.conj_disj_distrib2 or_eq_0_iff)
  ultimately show ?thesis using started [OF assms] assms(1) by (simp add: set_trx_read_write_def TRX_READ_WRITE_def)
qed

text \<open>A run: engines register themselves with fresh objects and are marked when they write.\<close>

datatype trx_op = Register nat nat | Writes nat

fun trx_run :: "trx_op list \<Rightarrow> thd_trans \<times> trx_store \<Rightarrow> (thd_trans \<times> trx_store) option" where
  "trx_run [] s = Some s"
| "trx_run (Register p ht # ops) (t, h) = do { s \<leftarrow> register_ha p ht t h; trx_run ops s }"
| "trx_run (Writes p # ops) (t, h) = do { h \<leftarrow> set_trx_read_write p h; trx_run ops (t, h) }"

text \<open>The rules of use: an object is registered once, and marked only after that.\<close>

fun trx_rules :: "trx_op list \<Rightarrow> nat set \<Rightarrow> bool" where
  "trx_rules [] A \<longleftrightarrow> True"
| "trx_rules (Register p ht # ops) A \<longleftrightarrow> p \<notin> A \<and> trx_rules ops (insert p A)"
| "trx_rules (Writes p # ops) A \<longleftrightarrow> p \<in> A \<and> trx_rules ops A"

fun registered :: "trx_op list \<Rightarrow> nat list" where
  "registered [] = []"
| "registered (Register p ht # ops) = registered ops @ [p]"
| "registered (Writes p # ops) = registered ops"

definition trx_state :: "nat list \<Rightarrow> nat set \<Rightarrow> thd_trans \<times> trx_store \<Rightarrow> bool" where
  "trx_state xs ws s \<longleftrightarrow> ws \<subseteq> set xs \<and> trx_list (snd s) (ha_list (fst s)) xs \<and> (\<forall>q. q \<notin> set xs \<longrightarrow> snd s q = ha_reset) \<and>
     (\<forall>q \<in> set xs. m_flags (snd s q) AND TRX_READ_WRITE \<noteq> 0 \<longleftrightarrow> q \<in> ws)"

lemma trx_run_state:
  "trx_state xs ws s \<Longrightarrow> trx_rules ops (set xs) \<Longrightarrow>
     \<exists>s'. trx_run ops s = Some s' \<and> trx_state (registered ops @ xs) (ws \<union> {p. Writes p \<in> set ops}) s'"
proof (induction ops arbitrary: xs ws s)
  case (Cons oper ops)
  obtain t h where s: "s = (t, h)" by (cases s)
  show ?case
  proof (cases oper)
    case (Register p ht)
    with Cons.prems s have fresh: "p \<notin> set xs" "h p = ha_reset" "trx_list h (ha_list t) xs" by (auto simp: trx_state_def)
    from register_ha_list [OF fresh(3, 2, 1), of ht] obtain t' h' where r: "register_ha p ht t h = Some (t', h')"
      "trx_list h' (ha_list t') (p # xs)" "m_flags (h' p) = 0" "\<forall>q. q \<noteq> p \<longrightarrow> h' q = h q" by blast
    have "\<forall>q \<in> set xs. h' q = h q" using r(4) fresh(1) by metis
    then have "trx_state (p # xs) ws (t', h')"
      using Cons.prems(1) s r(2-4) fresh(1) by (auto simp: trx_state_def)
    moreover have "trx_rules ops (set (p # xs))" using Cons.prems(2) Register by simp
    ultimately obtain s' where "trx_run ops (t', h') = Some s'"
      "trx_state (registered ops @ p # xs) (ws \<union> {p. Writes p \<in> set ops}) s'" using Cons.IH by blast
    then show ?thesis using Register s r(1) by simp
  next
    case (Writes p)
    with Cons.prems s have "p \<in> set xs" "trx_list h (ha_list t) xs" by (auto simp: trx_state_def)
    from set_read_write_list [OF this(2, 1)] obtain h' where r: "set_trx_read_write p h = Some h'" "trx_list h' (ha_list t) xs"
      "m_flags (h' p) AND TRX_READ_WRITE \<noteq> 0" "\<forall>q. q \<noteq> p \<longrightarrow> h' q = h q" by blast
    have "(m_flags (h' q) AND TRX_READ_WRITE \<noteq> 0) = (q \<in> insert p ws)" if "q \<in> set xs" for q
      using that Cons.prems(1) s r(3, 4) by (cases "q = p") (simp_all add: trx_state_def)
    moreover have "h' q = ha_reset" if "q \<notin> set xs" for q
      using that Cons.prems(1) s r(4) \<open>p \<in> set xs\<close> by (cases "q = p") (simp_all add: trx_state_def)
    ultimately have "trx_state xs (insert p ws) (t, h')"
      using Cons.prems(1) s r(2) \<open>p \<in> set xs\<close> by (simp add: trx_state_def)
    moreover have "trx_rules ops (set xs)" using Cons.prems(2) Writes by simp
    ultimately obtain s' where "trx_run ops (t, h') = Some s'"
      "trx_state (registered ops @ xs) (insert p ws \<union> {p. Writes p \<in> set ops}) s'" using Cons.IH by blast
    moreover have "insert p ws \<union> {p. Writes p \<in> set ops} = ws \<union> {p. Writes p \<in> set (oper # ops)}" using Writes by auto
    ultimately show ?thesis using Writes s r(1) by simp
  qed
qed simp

text \<open>
  Property C28: in a run that keeps the rules no assertion fails, the list of a transaction holds exactly the
  engines that registered, the latest first, and the transaction counts as read-write just when
  one of them was marked; the loop over the list ends.
\<close>

theorem transaction_engines_tracked:
  assumes "ha_list t = None" and "\<forall>p. h p = ha_reset" and "trx_rules ops {}"
  shows "\<exists>t' h'. trx_run ops (t, h) = Some (t', h') \<and> trx_list h' (ha_list t') (registered ops) \<and>
    is_trx_read_write t' h' = Some (\<exists>p. Writes p \<in> set ops) \<and> (trans_is_empty t' \<longleftrightarrow> registered ops = [])"
proof -
  have "trx_state [] {} (t, h)" using assms(1, 2) by (simp add: trx_state_def)
  from trx_run_state [OF this, of ops] assms(3) obtain t' h' where r: "trx_run ops (t, h) = Some (t', h')"
    "trx_state (registered ops) {p. Writes p \<in> set ops} (t', h')" by auto
  then have l: "trx_list h' (ha_list t') (registered ops)"
    and f: "\<forall>q \<in> set (registered ops). m_flags (h' q) AND TRX_READ_WRITE \<noteq> 0 \<longleftrightarrow> Writes q \<in> set ops" by (simp_all add: trx_state_def)
  have known: "trx_rules ops A \<Longrightarrow> Writes p \<in> set ops \<Longrightarrow> p \<in> set (registered ops) \<union> A" for p A
    by (induction ops A rule: trx_rules.induct) auto
  have "is_trx_read_write t' h' = Some (\<exists>p. Writes p \<in> set ops)"
    unfolding is_trx_read_write_def read_write_loop_list [OF l] using f known [OF assms(3)] by auto
  moreover have "trans_is_empty t' \<longleftrightarrow> registered ops = []" using l by (cases "registered ops") (auto simp: trans_is_empty_def)
  ultimately show ?thesis using r(1) l by blast
qed

definition empty_trans :: thd_trans where
  "empty_trans = \<lparr>no_2pc = False, ha_list = None, modified_non_trans_table = False, m_unsafe_rollback_flags = 0\<rparr>"

theorem transaction_engines_tracked_witness:
  "\<exists>t' h'. trx_run [Register 1 10, Register 2 20, Writes 1] (empty_trans, \<lambda>_. ha_reset) = Some (t', h') \<and> is_trx_read_write t' h' = Some True"
  using transaction_engines_tracked [of empty_trans "\<lambda>_. ha_reset" "[Register 1 10, Register 2 20, Writes 1]"]
  by (auto simp: empty_trans_def)

end
