(* ===== verification/Doubles.thy ===== *)
theory Doubles
  imports Complex_Main Prelude
begin

text \<open>
  Arithmetic on the \<open>double\<close>s of the server. A finite \<open>double\<close> is the real number it stands for; the
  operations compute the exact result and round it. The rounding \<open>rnd\<close> is a parameter of the definitions
  that use it; \<open>rnd_ok\<close> states what is relied on: it is monotone, and exact on the integers below
  \<open>2 ^ 53\<close>.
\<close>

definition rnd_ok :: "(real \<Rightarrow> real) \<Rightarrow> bool" where
  "rnd_ok rnd \<longleftrightarrow> mono rnd \<and> (\<forall>n < 2 ^ 53. rnd (real n) = real n)"

lemma rnd_mono: "rnd_ok rnd \<Longrightarrow> x \<le> y \<Longrightarrow> rnd x \<le> rnd y"
  by (auto simp: rnd_ok_def dest: monoD)

lemma rnd_nat: "rnd_ok rnd \<Longrightarrow> n < 2 ^ 53 \<Longrightarrow> rnd (real n) = real n"
  by (simp add: rnd_ok_def)

lemma rnd_ok_exact: "rnd_ok (\<lambda>x. x)"
  by (simp add: rnd_ok_def mono_def)

text \<open>
  The conversion of a \<open>double\<close> to an unsigned integer of \<open>k\<close> bits cuts off the fraction; C leaves it
  undefined (\<open>None\<close>) when the integer is not representable.
\<close>

definition to_uint :: "nat \<Rightarrow> real \<Rightarrow> nat option" where
  "to_uint k x = (if - 1 < x \<and> x < 2 ^ k then Some (nat \<lfloor>x\<rfloor>) else None)"

end
