(* ===== verification/CostEstimate.thy ===== *)
theory CostEstimate
  imports Doubles
begin

text \<open>
  The cost of a table access (\<open>Cost_estimate\<close> of \<open>handler.h\<close>): counts and average costs of I/O
  operations and totals of the other costs. The values are \<open>double\<close>s as in \<open>Doubles\<close>, with the
  rounding of each operation as a parameter; the algebraic laws are shown for exact arithmetic.
\<close>

record cost_estimate =
  io_count :: real
  avg_io_cost :: real
  idx_io_count :: real
  idx_avg_io_cost :: real
  cpu_cost :: real
  idx_cpu_cost :: real
  import_cost :: real
  mem_cost :: real

definition IO_COEFF :: real where "IO_COEFF = 1"
definition CPU_COEFF :: real where "CPU_COEFF = 1"
definition MEM_COEFF :: real where "MEM_COEFF = 1"
definition IMPORT_COEFF :: real where "IMPORT_COEFF = 1"

definition cost_reset :: cost_estimate where
  "cost_reset = \<lparr>io_count = 0, avg_io_cost = 1, idx_io_count = 0, idx_avg_io_cost = 1, cpu_cost = 0, idx_cpu_cost = 0,
     import_cost = 0, mem_cost = 0\<rparr>"

definition total_cost :: "(real \<Rightarrow> real) \<Rightarrow> cost_estimate \<Rightarrow> real" where
  "total_cost rnd c =
     rnd (rnd (rnd (rnd (rnd (rnd (IO_COEFF * io_count c) * avg_io_cost c) +
                         rnd (rnd (IO_COEFF * idx_io_count c) * idx_avg_io_cost c)) +
                    rnd (CPU_COEFF * rnd (cpu_cost c + idx_cpu_cost c))) +
               rnd (MEM_COEFF * mem_cost c)) + rnd (IMPORT_COEFF * import_cost c))"

definition index_only_cost :: "(real \<Rightarrow> real) \<Rightarrow> cost_estimate \<Rightarrow> real" where
  "index_only_cost rnd c =
     rnd (rnd (rnd (IO_COEFF * idx_io_count c) * idx_avg_io_cost c) + rnd (CPU_COEFF * idx_cpu_cost c))"

definition cost_is_zero :: "cost_estimate \<Rightarrow> bool" where
  "cost_is_zero c \<longleftrightarrow> io_count c = 0 \<and> idx_io_count c = 0 \<and> cpu_cost c = 0 \<and> import_cost c = 0 \<and> mem_cost c = 0"

definition cost_multiply :: "(real \<Rightarrow> real) \<Rightarrow> real \<Rightarrow> cost_estimate \<Rightarrow> cost_estimate" where
  "cost_multiply rnd m c =
     c\<lparr>io_count := rnd (io_count c * m), cpu_cost := rnd (cpu_cost c * m), idx_io_count := rnd (idx_io_count c * m),
       idx_cpu_cost := rnd (idx_cpu_cost c * m), import_cost := rnd (import_cost c * m)\<rparr>"

definition cost_add :: "(real \<Rightarrow> real) \<Rightarrow> cost_estimate \<Rightarrow> cost_estimate \<Rightarrow> cost_estimate" where
  "cost_add rnd cost c =
     (let c = (if io_count cost \<noteq> 0
               then let io_count_sum = rnd (io_count c + io_count cost)
                    in c\<lparr>avg_io_cost := rnd (rnd (rnd (io_count c * avg_io_cost c) + rnd (io_count cost * avg_io_cost cost)) / io_count_sum),
                         io_count := io_count_sum\<rparr>
               else c);
          c = (if idx_io_count cost \<noteq> 0
               then let idx_io_count_sum = rnd (idx_io_count c + idx_io_count cost)
                    in c\<lparr>idx_avg_io_cost := rnd (rnd (rnd (idx_io_count c * idx_avg_io_cost c) + rnd (idx_io_count cost * idx_avg_io_cost cost)) / idx_io_count_sum),
                         idx_io_count := idx_io_count_sum\<rparr>
               else c)
      in c\<lparr>cpu_cost := rnd (cpu_cost c + cpu_cost cost), idx_cpu_cost := rnd (idx_cpu_cost c + idx_cpu_cost cost),
           import_cost := rnd (import_cost c + import_cost cost)\<rparr>)"

definition add_io :: "(real \<Rightarrow> real) \<Rightarrow> real \<Rightarrow> real \<Rightarrow> cost_estimate \<Rightarrow> cost_estimate" where
  "add_io rnd add_io_cnt add_avg_cost c =
     (if add_io_cnt > 0
      then let io_count_sum = rnd (io_count c + add_io_cnt)
           in c\<lparr>avg_io_cost := rnd (rnd (rnd (io_count c * avg_io_cost c) + rnd (add_io_cnt * add_avg_cost)) / io_count_sum),
                io_count := io_count_sum\<rparr>
      else c)"

definition add_cpu :: "(real \<Rightarrow> real) \<Rightarrow> real \<Rightarrow> cost_estimate \<Rightarrow> cost_estimate" where
  "add_cpu rnd x c = c\<lparr>cpu_cost := rnd (cpu_cost c + x)\<rparr>"

definition add_import :: "(real \<Rightarrow> real) \<Rightarrow> real \<Rightarrow> cost_estimate \<Rightarrow> cost_estimate" where
  "add_import rnd x c = c\<lparr>import_cost := rnd (import_cost c + x)\<rparr>"

definition add_mem :: "(real \<Rightarrow> real) \<Rightarrow> real \<Rightarrow> cost_estimate \<Rightarrow> cost_estimate" where
  "add_mem rnd x c = c\<lparr>mem_cost := rnd (mem_cost c + x)\<rparr>"

definition convert_from_cost :: "real \<Rightarrow> cost_estimate" where
  "convert_from_cost cost = cost_reset\<lparr>io_count := cost\<rparr>"

lemmas cost_coeffs = IO_COEFF_def CPU_COEFF_def MEM_COEFF_def IMPORT_COEFF_def

section \<open>Exact arithmetic\<close>

definition exactly :: "real \<Rightarrow> real" where [simp]: "exactly x = x"

definition cost_ok :: "cost_estimate \<Rightarrow> bool" where
  "cost_ok c \<longleftrightarrow> 0 \<le> io_count c \<and> 0 \<le> idx_io_count c"

lemma total_cost_exact:
  "total_cost exactly c = io_count c * avg_io_cost c + idx_io_count c * idx_avg_io_cost c + cpu_cost c + idx_cpu_cost c + mem_cost c + import_cost c"
  by (simp add: total_cost_def cost_coeffs)

lemma weighted_average: "0 \<le> (a :: real) \<Longrightarrow> 0 < b \<Longrightarrow> (a + b) * ((a * x + b * y) / (a + b)) = a * x + b * y"
  by (simp add: divide_simps add_nonneg_pos)

lemma cost_add_io:
  assumes "cost_ok a" "cost_ok b"
  shows "io_count (cost_add exactly b a) * avg_io_cost (cost_add exactly b a) = io_count a * avg_io_cost a + io_count b * avg_io_cost b"
    and "idx_io_count (cost_add exactly b a) * idx_avg_io_cost (cost_add exactly b a) = idx_io_count a * idx_avg_io_cost a + idx_io_count b * idx_avg_io_cost b"
  using assms weighted_average [of "io_count a" "io_count b" "avg_io_cost a" "avg_io_cost b"]
    weighted_average [of "idx_io_count a" "idx_io_count b" "idx_avg_io_cost a" "idx_avg_io_cost b"]
  by (auto simp: cost_add_def cost_ok_def Let_def less_le)

text \<open>
  In exact arithmetic, adding an estimate adds its total cost except for the cost of memory,
  which is dropped; multiplying scales everything but the cost of memory; the other updates add
  the given amount. The numbers of operations stay non-negative.
\<close>

theorem cost_arithmetic:
  assumes "cost_ok a" and "cost_ok b" and "0 \<le> m"
  shows "total_cost exactly (cost_add exactly b a) = total_cost exactly a + total_cost exactly b - mem_cost b \<and>
    total_cost exactly (cost_multiply exactly m a) = m * (total_cost exactly a - mem_cost a) + mem_cost a \<and>
    total_cost exactly (add_io exactly m x a) = total_cost exactly a + m * x \<and>
    total_cost exactly (add_mem exactly x a) = total_cost exactly a + x \<and>
    total_cost exactly (convert_from_cost x) = x \<and>
    cost_ok (cost_add exactly b a) \<and> cost_ok (cost_multiply exactly m a) \<and> cost_ok (add_io exactly m x a)"
proof -
  have "total_cost exactly (cost_add exactly b a) = total_cost exactly a + total_cost exactly b - mem_cost b"
    unfolding total_cost_exact cost_add_io [OF assms(1, 2)] by (simp add: cost_add_def Let_def)
  moreover have "total_cost exactly (add_io exactly m x a) = total_cost exactly a + m * x"
    using assms weighted_average [of "io_count a" m "avg_io_cost a" x]
    by (cases "m = 0") (simp_all add: total_cost_exact add_io_def cost_ok_def Let_def)
  moreover have "total_cost exactly (cost_multiply exactly m a) = m * (total_cost exactly a - mem_cost a) + mem_cost a"
    by (simp add: total_cost_exact cost_multiply_def algebra_simps)
  moreover have "total_cost exactly (add_mem exactly x a) = total_cost exactly a + x" "total_cost exactly (convert_from_cost x) = x"
    by (simp_all add: total_cost_exact add_mem_def convert_from_cost_def cost_reset_def)
  moreover have "cost_ok (cost_add exactly b a)" "cost_ok (cost_multiply exactly m a)" "cost_ok (add_io exactly m x a)"
    using assms by (simp_all add: cost_ok_def cost_add_def cost_multiply_def add_io_def Let_def)
  ultimately show ?thesis by blast
qed

theorem cost_arithmetic_witness:
  "total_cost exactly (cost_add exactly (convert_from_cost 3) (convert_from_cost 2)) = 5"
  using cost_arithmetic [of "convert_from_cost 2" "convert_from_cost 3" 0]
  by (simp add: cost_ok_def convert_from_cost_def cost_reset_def total_cost_exact)

text \<open>The test for zero overlooks the cost of operations in the CPU for the index.\<close>

lemma is_zero_overlooks_index_cpu:
  "cost_is_zero (cost_reset\<lparr>idx_cpu_cost := 1\<rparr>) \<and> total_cost exactly (cost_reset\<lparr>idx_cpu_cost := 1\<rparr>) = 1"
  by (simp add: cost_is_zero_def cost_reset_def total_cost_exact)

end
