(* ===== verification/SqlBitmap.thy ===== *)
theory SqlBitmap
  imports Bits
begin

text \<open>
  The bitmap of \<open>sql_bitmap.h\<close>: \<open>Bitmap<width>\<close> keeps \<open>width\<close> bits in an array of 64-bit
  elements. A bitmap is the list of its elements; \<open>width\<close> is a parameter of every operation,
  as it is a template parameter of the class. Its loops over the array are folds over index
  ranges. Also the two iterators: \<open>Table_map_iterator\<close> over one element and
  \<open>Bitmap::Iterator\<close> over all of them. \<open>write_prefix\<close>, \<open>matches_prefix\<close>, \<open>write_all\<close> and
  \<open>write_and_pad\<close> are what \<open>set_prefix\<close>, \<open>is_prefix\<close>, \<open>set_all\<close> and \<open>intersect_and_pad\<close> do to the array, which is all
  that happens where assertions are compiled out; under their own names these operations include the
  assertions and are \<open>None\<close> when one fails, and so does \<open>bm_call\<close> for the operations on one bit. \<open>longlong2str\<close>, which \<open>print\<close> calls, is not part of the sources and is a
  parameter.
\<close>

unbundle bit_operations_syntax

section \<open>Iterator over one element\<close>

definition TABLE_MAP_END :: nat where
  "TABLE_MAP_END = 64"

definition next_bit :: "u64 \<Rightarrow> (nat \<times> u64) option" where
  "next_bit bmp =
     (if bmp = 0 then Some (TABLE_MAP_END, bmp)
      else case my_find_first_bit bmp of
             None \<Rightarrow> None
           | Some bt \<Rightarrow> Some (bt, bmp AND NOT (push_bit bt 1)))"

section \<open>The bitmap\<close>

definition BITS_PER_ELEMENT :: nat where
  "BITS_PER_ELEMENT = 64"

definition ARRAY_ELEMENTS :: "nat \<Rightarrow> nat" where
  "ARRAY_ELEMENTS width = (width + BITS_PER_ELEMENT - 1) div BITS_PER_ELEMENT"

definition ALL_BITS_SET :: u64 where
  "ALL_BITS_SET = NOT 0"

type_synonym bitmap = "u64 list"

definition bit_index :: "nat \<Rightarrow> nat \<Rightarrow> nat" where
  "bit_index width n = (if ARRAY_ELEMENTS width = 1 then 0 else n div BITS_PER_ELEMENT)"

definition bit_mask :: "nat \<Rightarrow> nat \<Rightarrow> u64" where
  "bit_mask width n =
     (if ARRAY_ELEMENTS width = 1 then push_bit n 1 else push_bit (n mod BITS_PER_ELEMENT) 1)"

definition last_element_mask :: "nat \<Rightarrow> nat \<Rightarrow> u64" where
  "last_element_mask width n = bit_mask width n - 1"

definition last_element_mask_asserts :: "nat \<Rightarrow> nat \<Rightarrow> bool" where
  "last_element_mask_asserts width n \<longleftrightarrow> n mod BITS_PER_ELEMENT \<noteq> 0 \<and> n < width"

definition bm_set_bit :: "nat \<Rightarrow> nat \<Rightarrow> bitmap \<Rightarrow> bitmap" where
  "bm_set_bit width n b = b[bit_index width n := b ! bit_index width n OR bit_mask width n]"

definition bm_clear_bit :: "nat \<Rightarrow> nat \<Rightarrow> bitmap \<Rightarrow> bitmap" where
  "bm_clear_bit width n b = b[bit_index width n := b ! bit_index width n AND NOT (bit_mask width n)]"

definition bm_is_set :: "nat \<Rightarrow> nat \<Rightarrow> bitmap \<Rightarrow> bool" where
  "bm_is_set width n b \<longleftrightarrow> b ! bit_index width n AND bit_mask width n \<noteq> 0"

definition fill :: "nat \<Rightarrow> nat \<Rightarrow> u64 \<Rightarrow> bitmap \<Rightarrow> bitmap" where
  "fill lo hi v b = fold (\<lambda>i b. b[i := v]) [lo..<hi] b"

definition write_prefix :: "nat \<Rightarrow> nat \<Rightarrow> bitmap \<Rightarrow> bitmap" where
  "write_prefix width prefix_size b =
     (let prefix_size = min prefix_size width;
          idx = prefix_size div BITS_PER_ELEMENT;
          b = fill 0 idx ALL_BITS_SET b;
          (b, idx) = (if prefix_size mod BITS_PER_ELEMENT \<noteq> 0
                      then (b[idx := last_element_mask width prefix_size], idx + 1) else (b, idx))
      in fill idx (ARRAY_ELEMENTS width) 0 b)"

definition set_prefix_asserts :: "nat \<Rightarrow> nat \<Rightarrow> bool" where
  "set_prefix_asserts width prefix_size \<longleftrightarrow>
     (let prefix_size = min prefix_size width
      in prefix_size mod BITS_PER_ELEMENT \<noteq> 0 \<longrightarrow> last_element_mask_asserts width prefix_size)"

definition matches_prefix :: "nat \<Rightarrow> nat \<Rightarrow> bitmap \<Rightarrow> bool" where
  "matches_prefix width prefix_size b =
     (let idx = prefix_size div BITS_PER_ELEMENT
      in if \<not> list_all (\<lambda>i. b ! i = ALL_BITS_SET) [0..<idx] then False
         else if prefix_size mod BITS_PER_ELEMENT \<noteq> 0
         then (if b ! idx \<noteq> last_element_mask width prefix_size then False
               else list_all (\<lambda>i. b ! i = 0) [idx + 1..<ARRAY_ELEMENTS width])
         else list_all (\<lambda>i. b ! i = 0) [idx..<ARRAY_ELEMENTS width])"

definition is_prefix :: "nat \<Rightarrow> nat \<Rightarrow> bitmap \<Rightarrow> bool option" where
  "is_prefix width prefix_size b =
     (let idx = prefix_size div BITS_PER_ELEMENT
      in if \<not> prefix_size \<le> width then None
         else if list_all (\<lambda>i. b ! i = ALL_BITS_SET) [0..<idx] \<and> prefix_size mod BITS_PER_ELEMENT \<noteq> 0 \<and>
           \<not> last_element_mask_asserts width prefix_size then None
         else Some (matches_prefix width prefix_size b))"

definition write_all :: "nat \<Rightarrow> bitmap \<Rightarrow> bitmap" where
  "write_all width b =
     (if width mod BITS_PER_ELEMENT \<noteq> 0 then write_prefix width width b
      else if ARRAY_ELEMENTS width > 1 then fill 0 (ARRAY_ELEMENTS width) ALL_BITS_SET b
      else b[0 := ALL_BITS_SET])"

text \<open>With the assertions: a number of bits equal to the width reaches \<open>bit_mask\<close>, which wants less.\<close>

definition set_prefix :: "nat \<Rightarrow> nat \<Rightarrow> bitmap \<Rightarrow> bitmap option" where
  "set_prefix width prefix_size b =
     (if set_prefix_asserts width prefix_size then Some (write_prefix width prefix_size b) else None)"

definition set_all :: "nat \<Rightarrow> bitmap \<Rightarrow> bitmap option" where
  "set_all width b =
     (if width mod BITS_PER_ELEMENT \<noteq> 0 then set_prefix width width b
      else if ARRAY_ELEMENTS width > 1 then Some (fill 0 (ARRAY_ELEMENTS width) ALL_BITS_SET b)
      else Some (b[0 := ALL_BITS_SET]))"

definition clear_all :: "nat \<Rightarrow> bitmap \<Rightarrow> bitmap" where
  "clear_all width b =
     (if ARRAY_ELEMENTS width > 1 then fill 0 (ARRAY_ELEMENTS width) 0 b else b[0 := 0])"

definition zip_elements :: "nat \<Rightarrow> (u64 \<Rightarrow> u64 \<Rightarrow> u64) \<Rightarrow> bitmap \<Rightarrow> bitmap \<Rightarrow> bitmap" where
  "zip_elements width f b m2 = fold (\<lambda>i b. b[i := f (b ! i) (m2 ! i)]) [0..<ARRAY_ELEMENTS width] b"

definition intersect :: "nat \<Rightarrow> bitmap \<Rightarrow> bitmap \<Rightarrow> bitmap" where
  "intersect width b m2 = zip_elements width (AND) b m2"

definition write_and_pad :: "nat \<Rightarrow> u64 \<Rightarrow> bool \<Rightarrow> bitmap \<Rightarrow> bitmap" where
  "write_and_pad width map2buff pad_with_ones b =
     (let b = b[0 := b ! 0 AND map2buff];
          b = fill 1 (ARRAY_ELEMENTS width) (if pad_with_ones then ALL_BITS_SET else 0) b
      in if ARRAY_ELEMENTS width > 1 \<and> width mod BITS_PER_ELEMENT \<noteq> 0 \<and> pad_with_ones
         then b[ARRAY_ELEMENTS width - 1 := last_element_mask width width] else b)"

definition intersect_and_pad :: "nat \<Rightarrow> u64 \<Rightarrow> bool \<Rightarrow> bitmap \<Rightarrow> bitmap option" where
  "intersect_and_pad width map2buff pad_with_ones b =
     (if ARRAY_ELEMENTS width > 1 \<and> width mod BITS_PER_ELEMENT \<noteq> 0 \<and> pad_with_ones \<and> \<not> last_element_mask_asserts width width
      then None else Some (write_and_pad width map2buff pad_with_ones b))"

definition intersect_ulonglong :: "nat \<Rightarrow> u64 \<Rightarrow> bitmap \<Rightarrow> bitmap option" where
  "intersect_ulonglong width map2buff b = intersect_and_pad width map2buff False b"

definition intersect_extended :: "nat \<Rightarrow> u64 \<Rightarrow> bitmap \<Rightarrow> bitmap option" where
  "intersect_extended width map2buff b =
     intersect_and_pad width map2buff (map2buff AND push_bit 63 1 \<noteq> 0) b"

definition subtract :: "nat \<Rightarrow> bitmap \<Rightarrow> bitmap \<Rightarrow> bitmap" where
  "subtract width b m2 = zip_elements width (\<lambda>x y. x AND NOT y) b m2"

definition bm_merge :: "nat \<Rightarrow> bitmap \<Rightarrow> bitmap \<Rightarrow> bitmap" where
  "bm_merge width b m2 = zip_elements width (OR) b m2"

definition is_clear_all :: "nat \<Rightarrow> bitmap \<Rightarrow> bool" where
  "is_clear_all width b \<longleftrightarrow> list_all (\<lambda>i. b ! i = 0) [0..<ARRAY_ELEMENTS width]"

definition is_subset :: "nat \<Rightarrow> bitmap \<Rightarrow> bitmap \<Rightarrow> bool" where
  "is_subset width b m2 \<longleftrightarrow> list_all (\<lambda>i. b ! i AND NOT (m2 ! i) = 0) [0..<ARRAY_ELEMENTS width]"

definition is_overlapping :: "nat \<Rightarrow> bitmap \<Rightarrow> bitmap \<Rightarrow> bool" where
  "is_overlapping width b m2 \<longleftrightarrow> list_ex (\<lambda>i. b ! i AND m2 ! i \<noteq> 0) [0..<ARRAY_ELEMENTS width]"

definition bm_equal :: "nat \<Rightarrow> bitmap \<Rightarrow> bitmap \<Rightarrow> bool" where
  "bm_equal width b m2 \<longleftrightarrow>
     (if ARRAY_ELEMENTS width > 1 then list_all (\<lambda>i. b ! i = m2 ! i) [0..<ARRAY_ELEMENTS width]
      else b ! 0 = m2 ! 0)"

definition bm_not_equal :: "nat \<Rightarrow> bitmap \<Rightarrow> bitmap \<Rightarrow> bool" where
  "bm_not_equal width b m2 \<longleftrightarrow> \<not> bm_equal width b m2"

text \<open>
  \<open>print\<close>: the digits of one element are taken at shifts that start at 60 and grow by 4; a
  shift of 64 or more is undefined in C (\<open>None\<close>). The last non-zero element is then converted
  into the start of the buffer.
\<close>

fun print_last :: "bitmap \<Rightarrow> nat \<Rightarrow> nat" where
  "print_last b 0 = 0"
| "print_last b (Suc k) = (if b ! Suc k = 0 then print_last b k else Suc k)"

fun print_digits :: "u64 \<Rightarrow> nat \<Rightarrow> nat \<Rightarrow> nat list option" where
  "print_digits num shift 0 = Some []"
| "print_digits num shift (Suc j) =
     (if 64 \<le> shift then None
      else case print_digits num (shift + 4) j of
             None \<Rightarrow> None
           | Some ds \<Rightarrow> Some (unat (drop_bit shift num AND 0xF) # ds))"

fun print_elements :: "bitmap \<Rightarrow> nat list option" where
  "print_elements [] = Some []"
| "print_elements (num # b) =
     (case print_digits num (BITS_PER_ELEMENT - 4) (BITS_PER_ELEMENT div 4) of
        None \<Rightarrow> None
      | Some ds \<Rightarrow> (case print_elements b of None \<Rightarrow> None | Some es \<Rightarrow> Some (ds @ es)))"

definition bm_print :: "(u64 \<Rightarrow> nat list) \<Rightarrow> nat \<Rightarrow> bitmap \<Rightarrow> nat list option" where
  "bm_print longlong2str width b =
     (let lst = print_last b (ARRAY_ELEMENTS width - 1)
      in case print_elements (take lst b) of
           None \<Rightarrow> None
         | Some ds \<Rightarrow> (let str = longlong2str (b ! lst) in Some (str @ drop (length str) ds)))"

definition to_ulonglong :: "bitmap \<Rightarrow> u64" where
  "to_ulonglong b = b ! 0"

definition bits_set :: "nat \<Rightarrow> bitmap \<Rightarrow> u32" where
  "bits_set width b = fold (\<lambda>i res. res + my_count_bits (b ! i)) [0..<ARRAY_ELEMENTS width] 0"

section \<open>Calls with their assertions\<close>

datatype 'b bit_op = SetBit nat | ClearBit nat | SetPrefix nat | SetAll | ClearAll
  | Intersect 'b | IntersectMap u64 | IntersectExtended u64 | Subtract 'b | Merge 'b

definition bm_call :: "nat \<Rightarrow> bitmap bit_op \<Rightarrow> bitmap \<Rightarrow> bitmap option" where
  "bm_call width p b =
     (case p of
        SetBit n \<Rightarrow> if n < width then Some (bm_set_bit width n b) else None
      | ClearBit n \<Rightarrow> if n < width then Some (bm_clear_bit width n b) else None
      | SetPrefix n \<Rightarrow> set_prefix width n b
      | SetAll \<Rightarrow> set_all width b
      | ClearAll \<Rightarrow> Some (clear_all width b)
      | Intersect m2 \<Rightarrow> Some (intersect width b m2)
      | IntersectMap w \<Rightarrow> intersect_ulonglong width w b
      | IntersectExtended w \<Rightarrow> intersect_extended width w b
      | Subtract m2 \<Rightarrow> Some (subtract width b m2)
      | Merge m2 \<Rightarrow> Some (bm_merge width b m2))"

fun bm_calls :: "nat \<Rightarrow> bitmap bit_op list \<Rightarrow> bitmap \<Rightarrow> bitmap option" where
  "bm_calls width [] b = Some b"
| "bm_calls width (p # ps) b = (case bm_call width p b of None \<Rightarrow> None | Some b \<Rightarrow> bm_calls width ps b)"

section \<open>Iterator over a bitmap\<close>

record bm_iterator =
  it_offset :: nat
  it_tmi :: u64

definition iterator_init :: "bitmap \<Rightarrow> bm_iterator" where
  "iterator_init m2 = \<lparr>it_offset = 0, it_tmi = m2 ! 0\<rparr>"

function iterator_next :: "nat \<Rightarrow> bitmap \<Rightarrow> bm_iterator \<Rightarrow> (nat \<times> bm_iterator) option" where
  "iterator_next width bm it =
     (case next_bit (it_tmi it) of
        None \<Rightarrow> None
      | Some (nextbit, tmi) \<Rightarrow>
          if nextbit \<noteq> TABLE_MAP_END then Some (it_offset it + nextbit, it\<lparr>it_tmi := tmi\<rparr>)
          else if it_offset it + BITS_PER_ELEMENT \<ge> width then Some (width, it\<lparr>it_tmi := tmi\<rparr>)
          else iterator_next width bm
                 \<lparr>it_offset = it_offset it + BITS_PER_ELEMENT,
                  it_tmi = bm ! ((it_offset it + BITS_PER_ELEMENT) div BITS_PER_ELEMENT)\<rparr>)"
  by pat_completeness auto
termination
  by (relation "measure (\<lambda>(width, bm, it). width - it_offset it)") (auto simp: BITS_PER_ELEMENT_def)

declare iterator_next.simps [simp del]

text \<open>The results of the first \<open>k\<close> calls of \<open>operator++\<close>.\<close>

fun iterator_run :: "nat \<Rightarrow> bitmap \<Rightarrow> nat \<Rightarrow> bm_iterator \<Rightarrow> nat list option" where
  "iterator_run width bm 0 it = Some []"
| "iterator_run width bm (Suc k) it =
     (case iterator_next width bm it of
        None \<Rightarrow> None
      | Some (r, it) \<Rightarrow> (case iterator_run width bm k it of None \<Rightarrow> None | Some rs \<Rightarrow> Some (r # rs)))"

section \<open>The set behind a bitmap\<close>

lemmas elem_defs = BITS_PER_ELEMENT_def

definition bm_bits :: "bitmap \<Rightarrow> nat set" where
  "bm_bits b = {n. n < 64 * length b \<and> bit (b ! (n div 64)) (n mod 64)}"

text \<open>The invariant: the array has its declared length and no bit from \<open>width\<close> on is set.\<close>

definition bm_inv :: "nat \<Rightarrow> bitmap \<Rightarrow> bool" where
  "bm_inv width b \<longleftrightarrow> length b = ARRAY_ELEMENTS width \<and> bm_bits b \<subseteq> {..<width}"

lemma ARRAY_ELEMENTS_bounds: "width \<le> 64 * ARRAY_ELEMENTS width" "64 * ARRAY_ELEMENTS width < width + 64"
  by (simp_all add: ARRAY_ELEMENTS_def elem_defs)

lemma bm_bits_iff:
  assumes "length b = ARRAY_ELEMENTS width" and "n < width"
  shows "n \<in> bm_bits b \<longleftrightarrow> bit (b ! (n div 64)) (n mod 64)"
  using assms ARRAY_ELEMENTS_bounds(1) [of width] by (auto simp: bm_bits_def)

lemma index_in_range: "n < width \<Longrightarrow> n div 64 < ARRAY_ELEMENTS width"
  using ARRAY_ELEMENTS_bounds(1) [of width] by (simp add: div_less_iff_less_mult mult.commute)

text \<open>The special case for a single element computes the same index and mask.\<close>

lemma bit_index_div: "n < width \<Longrightarrow> bit_index width n = n div 64"
  using index_in_range [of n width] by (auto simp: bit_index_def elem_defs)

lemma bit_mask_mod: "n < width \<Longrightarrow> bit_mask width n = push_bit (n mod 64) 1"
  using index_in_range [of n width] by (auto simp: bit_mask_def elem_defs)

lemma bit_push_1: "bit (2 ^ k :: u64) i \<longleftrightarrow> i = k \<and> k < 64"
  by (auto simp: bit_exp_iff)

lemma and_push_1: "x AND 2 ^ k = (0::u64) \<longleftrightarrow> \<not> bit x k"
  by (simp add: and_exp_eq_0_iff_not_bit)

lemma div_mod_eq: "(n div 64 = k div 64 \<and> n mod 64 = k mod 64) \<longleftrightarrow> n = (k::nat)"
  by (metis div_mult_mod_eq)

lemma bm_bits_ext:
  assumes "length b = length c" and "\<And>n. n < 64 * length b \<Longrightarrow>
    bit (b ! (n div 64)) (n mod 64) = bit (c ! (n div 64)) (n mod 64)"
  shows "bm_bits b = bm_bits c"
  using assms by (auto simp: bm_bits_def)

lemma bm_bits_inj:
  assumes "length b = length c" and "bm_bits b = bm_bits c"
  shows "b = c"
proof (rule nth_equalityI)
  fix i assume i: "i < length b"
  show "b ! i = c ! i"
  proof (rule bit_word_eqI)
    fix j assume "j < LENGTH(64)"
    then have "64 * i + j < 64 * length b" "(64 * i + j) div 64 = i" "(64 * i + j) mod 64 = j" using i by auto
    moreover have "64 * i + j \<in> bm_bits b \<longleftrightarrow> 64 * i + j \<in> bm_bits c" using assms(2) by simp
    ultimately show "bit (b ! i) j = bit (c ! i) j" using assms(1) by (simp add: bm_bits_def)
  qed
qed (rule assms(1))

lemma in_bits_update:
  "k < length b \<Longrightarrow>
     x \<in> bm_bits (b[k := v]) \<longleftrightarrow> (if x div 64 = k then bit v (x mod 64) else x \<in> bm_bits b)"
  by (auto simp: bm_bits_def nth_list_update div_less_iff_less_mult mult.commute)

lemma bit_elem_bits: "k < length b \<Longrightarrow> x div 64 = k \<Longrightarrow> bit (b ! k) (x mod 64) \<longleftrightarrow> x \<in> bm_bits b"
  by (auto simp: bm_bits_def div_less_iff_less_mult mult.commute)

lemma length_fill [simp]: "length (fill lo hi v b) = length b"
proof -
  have "length (fold (\<lambda>i b. b[i := v]) xs b) = length b" for xs
    by (induction xs arbitrary: b) simp_all
  then show ?thesis by (simp add: fill_def)
qed

lemma nth_fill: "i < length b \<Longrightarrow> fill lo hi v b ! i = (if lo \<le> i \<and> i < hi then v else b ! i)"
proof -
  assume i: "i < length b"
  have "i < length c \<Longrightarrow> fold (\<lambda>i b. b[i := v]) xs c ! i = (if i \<in> set xs then v else c ! i)" for xs c
    by (induction xs arbitrary: c) (auto simp: nth_list_update)
  from this [OF i, of "[lo..<hi]"] show ?thesis by (simp add: fill_def)
qed

lemma zip_elements_run:
  "k \<le> length b \<Longrightarrow> length (fold (\<lambda>i b. b[i := f (b ! i) (m2 ! i)]) [0..<k] b) = length b \<and>
     (\<forall>i < length b. fold (\<lambda>i b. b[i := f (b ! i) (m2 ! i)]) [0..<k] b ! i =
        (if i < k then f (b ! i) (m2 ! i) else b ! i))"
  by (induction k) (auto simp: nth_list_update)

lemma length_zip_elements: "length b = ARRAY_ELEMENTS width \<Longrightarrow> length (zip_elements width f b m2) = length b"
  using zip_elements_run [of "ARRAY_ELEMENTS width" b f m2] by (simp add: zip_elements_def)

lemma nth_zip_elements:
  "length b = ARRAY_ELEMENTS width \<Longrightarrow> i < length b \<Longrightarrow> zip_elements width f b m2 ! i = f (b ! i) (m2 ! i)"
  using zip_elements_run [of "ARRAY_ELEMENTS width" b f m2] by (simp add: zip_elements_def)

section \<open>The operations on sets of bit numbers\<close>

lemma set_bit_bits:
  assumes "length b = ARRAY_ELEMENTS width" and "n < width"
  shows "bm_bits (bm_set_bit width n b) = insert n (bm_bits b)"
proof (rule set_eqI)
  fix x
  have k: "n div 64 < length b" using index_in_range [OF assms(2)] assms(1) by simp
  show "x \<in> bm_bits (bm_set_bit width n b) \<longleftrightarrow> x \<in> insert n (bm_bits b)"
  proof (cases "x div 64 = n div 64")
    case True
    then show ?thesis
      using k bit_elem_bits [OF k True] div_mod_eq [of x n]
      by (auto simp: bm_set_bit_def bit_index_div bit_mask_mod assms(2) in_bits_update bit_or_iff bit_push_1)
  next
    case False
    then show ?thesis using k by (auto simp: bm_set_bit_def bit_index_div assms(2) in_bits_update)
  qed
qed

lemma clear_bit_bits:
  assumes "length b = ARRAY_ELEMENTS width" and "n < width"
  shows "bm_bits (bm_clear_bit width n b) = bm_bits b - {n}"
proof (rule set_eqI)
  fix x
  have k: "n div 64 < length b" using index_in_range [OF assms(2)] assms(1) by simp
  show "x \<in> bm_bits (bm_clear_bit width n b) \<longleftrightarrow> x \<in> bm_bits b - {n}"
  proof (cases "x div 64 = n div 64")
    case True
    then show ?thesis
      using k bit_elem_bits [OF k True] div_mod_eq [of x n]
      by (auto simp: bm_clear_bit_def bit_index_div bit_mask_mod assms(2) in_bits_update bit_and_iff
          bit_not_iff bit_push_1)
  next
    case False
    then show ?thesis using k by (auto simp: bm_clear_bit_def bit_index_div assms(2) in_bits_update)
  qed
qed

lemma is_set_bits:
  assumes "length b = ARRAY_ELEMENTS width" and "n < width"
  shows "bm_is_set width n b \<longleftrightarrow> n \<in> bm_bits b"
  using assms bm_bits_iff [OF assms] by (simp add: bm_is_set_def bit_index_div bit_mask_mod and_push_1)

lemma zip_bits:
  assumes "length b = ARRAY_ELEMENTS width" and "length c = ARRAY_ELEMENTS width"
    and "\<And>x y j. j < 64 \<Longrightarrow> bit (f x y) j \<longleftrightarrow> P (bit x j) (bit y j)" and "\<not> P False False"
  shows "bm_bits (zip_elements width f b c) = {n. P (n \<in> bm_bits b) (n \<in> bm_bits c)}"
proof (rule set_eqI)
  fix n
  show "n \<in> bm_bits (zip_elements width f b c) \<longleftrightarrow> n \<in> {n. P (n \<in> bm_bits b) (n \<in> bm_bits c)}"
  proof (cases "n < 64 * length b")
    case True
    then have "n div 64 < length b" by (simp add: div_less_iff_less_mult mult.commute)
    then show ?thesis using True assms(1,2,3)
      by (simp add: bm_bits_def length_zip_elements nth_zip_elements)
  next
    case False
    then show ?thesis using assms(1,2,4) by (simp add: bm_bits_def length_zip_elements)
  qed
qed

lemma merge_bits:
  "length b = ARRAY_ELEMENTS width \<Longrightarrow> length c = ARRAY_ELEMENTS width \<Longrightarrow>
     bm_bits (bm_merge width b c) = bm_bits b \<union> bm_bits c"
  unfolding bm_merge_def by (subst zip_bits [where P = "(\<or>)"]) (auto simp: bit_or_iff)

lemma intersect_bits:
  "length b = ARRAY_ELEMENTS width \<Longrightarrow> length c = ARRAY_ELEMENTS width \<Longrightarrow>
     bm_bits (intersect width b c) = bm_bits b \<inter> bm_bits c"
  unfolding intersect_def by (subst zip_bits [where P = "(\<and>)"]) (auto simp: bit_and_iff)

lemma subtract_bits:
  "length b = ARRAY_ELEMENTS width \<Longrightarrow> length c = ARRAY_ELEMENTS width \<Longrightarrow>
     bm_bits (subtract width b c) = bm_bits b - bm_bits c"
  unfolding subtract_def
  by (subst zip_bits [where P = "\<lambda>x y. x \<and> \<not> y"]) (auto simp: bit_and_iff bit_not_iff)

lemmas zip_ops = bm_merge_def intersect_def subtract_def

lemma zip_ops_length:
  assumes "length b = ARRAY_ELEMENTS width"
  shows "length (bm_merge width b c) = length b" "length (intersect width b c) = length b"
    "length (subtract width b c) = length b"
  using assms by (simp_all add: zip_ops length_zip_elements)

text \<open>A test on all elements is a test on all bits.\<close>

lemma all_elements_iff:
  assumes "length b = N" and "\<And>i. i < N \<Longrightarrow> P i \<longleftrightarrow> (\<forall>j < 64. Q (64 * i + j))"
  shows "list_all P [0..<N] \<longleftrightarrow> (\<forall>n < 64 * N. Q n)"
proof
  assume l: "list_all P [0..<N]"
  show "\<forall>n < 64 * N. Q n"
  proof (intro allI impI)
    fix n assume "n < 64 * N"
    then have "n div 64 < N" by (simp add: div_less_iff_less_mult mult.commute)
    then have "P (n div 64)" using l by (simp add: list_all_iff)
    then have "\<forall>j < 64. Q (64 * (n div 64) + j)" using assms(2) [OF \<open>n div 64 < N\<close>] by blast
    from this [rule_format, of "n mod 64"] show "Q n" by simp
  qed
next
  assume "\<forall>n < 64 * N. Q n"
  then show "list_all P [0..<N]" using assms(2) by (simp add: list_all_iff)
qed

lemma in_bits_elem: "i < length b \<Longrightarrow> j < 64 \<Longrightarrow> 64 * i + j \<in> bm_bits b \<longleftrightarrow> bit (b ! i) j"
  by (simp add: bm_bits_def)

lemma no_low_bit_iff: "(w :: u64) = 0 \<longleftrightarrow> (\<forall>j < 64. \<not> bit w j)"
  unfolding word_eq_0_iff_no_bit using bit_imp_le_length [of w] by auto

lemma elem_zero_iff: "i < length b \<Longrightarrow> b ! i = 0 \<longleftrightarrow> (\<forall>j < 64. 64 * i + j \<notin> bm_bits b)"
  by (simp add: in_bits_elem no_low_bit_iff)

lemma is_clear_all_iff: "length b = ARRAY_ELEMENTS width \<Longrightarrow> is_clear_all width b \<longleftrightarrow> bm_bits b = {}"
  unfolding is_clear_all_def
  by (subst all_elements_iff [where Q = "\<lambda>n. n \<notin> bm_bits b"]) (auto simp: elem_zero_iff bm_bits_def)

lemma is_subset_iff:
  assumes "length b = ARRAY_ELEMENTS width" and "length c = ARRAY_ELEMENTS width"
  shows "is_subset width b c \<longleftrightarrow> bm_bits b \<subseteq> bm_bits c"
proof -
  have "is_subset width b c \<longleftrightarrow> (\<forall>n < 64 * ARRAY_ELEMENTS width. n \<in> bm_bits b \<longrightarrow> n \<in> bm_bits c)"
    unfolding is_subset_def
    by (rule all_elements_iff) (use assms in \<open>auto simp: no_low_bit_iff in_bits_elem bit_and_iff bit_not_iff\<close>)
  also have "\<dots> \<longleftrightarrow> bm_bits b \<subseteq> bm_bits c" using assms by (auto simp: bm_bits_def)
  finally show ?thesis .
qed

lemma is_overlapping_iff:
  assumes "length b = ARRAY_ELEMENTS width" and "length c = ARRAY_ELEMENTS width"
  shows "is_overlapping width b c \<longleftrightarrow> bm_bits b \<inter> bm_bits c \<noteq> {}"
proof -
  have "\<not> is_overlapping width b c \<longleftrightarrow> list_all (\<lambda>i. b ! i AND c ! i = 0) [0..<ARRAY_ELEMENTS width]"
    by (auto simp: is_overlapping_def list_all_iff list_ex_iff)
  also have "\<dots> \<longleftrightarrow> (\<forall>n < 64 * ARRAY_ELEMENTS width. \<not> (n \<in> bm_bits b \<and> n \<in> bm_bits c))"
    by (rule all_elements_iff) (use assms in \<open>auto simp: no_low_bit_iff in_bits_elem bit_and_iff\<close>)
  also have "\<dots> \<longleftrightarrow> bm_bits b \<inter> bm_bits c = {}" using assms by (auto simp: bm_bits_def)
  finally show ?thesis by blast
qed

text \<open>Prefixes.\<close>

lemma last_element_mask_bits:
  assumes "0 < p mod 64" and "p \<le> width" and "j < 64"
  shows "bit (last_element_mask width p) j \<longleftrightarrow> j < p mod 64"
proof -
  have "bit_mask width p = 2 ^ (p mod 64)"
  proof (cases "ARRAY_ELEMENTS width = 1")
    case True
    then have "width \<le> 64" using ARRAY_ELEMENTS_bounds(1) [of width] by simp
    then have "p < 64" using assms(1,2) by (cases "p = 64") auto
    then show ?thesis by (simp add: bit_mask_def True)
  qed (simp add: bit_mask_def elem_defs)
  then have "last_element_mask width p = mask (p mod 64)"
    by (simp add: last_element_mask_def mask_eq_exp_minus_1)
  then show ?thesis using assms(3) by (simp add: bit_mask_iff)
qed

lemma length_write_prefix [simp]: "length (write_prefix width p b) = length b"
  by (simp add: write_prefix_def Let_def)

lemma nth_write_prefix:
  assumes "length b = ARRAY_ELEMENTS width" and "i < length b" and "j < 64"
  shows "bit (write_prefix width p b ! i) j \<longleftrightarrow> 64 * i + j < min p width"
proof -
  let ?p = "min p width"
  have le: "?p \<le> width" by simp
  have ALL: "bit ALL_BITS_SET j" using assms(3) by (simp add: ALL_BITS_SET_def bit_not_iff)
  consider "i < ?p div 64" | "i = ?p div 64" | "?p div 64 < i" by linarith
  then show ?thesis
  proof cases
    case 1
    then have "64 * i + j < ?p" using assms(3) by linarith
    moreover have "write_prefix width p b ! i = ALL_BITS_SET"
      using 1 assms(1,2) by (simp add: write_prefix_def Let_def nth_fill elem_defs)
    ultimately show ?thesis using ALL by simp
  next
    case 2
    have lt: "64 * i + j < ?p \<longleftrightarrow> j < ?p mod 64" using 2 assms(3) by (metis div_mult_mod_eq mult.commute nat_add_left_cancel_less)
    show ?thesis
    proof (cases "?p mod 64 = 0")
      case True
      then have "write_prefix width p b ! i = 0"
        using 2 assms(1,2) by (simp add: write_prefix_def Let_def nth_fill elem_defs)
      then show ?thesis using lt True by simp
    next
      case False
      then have "write_prefix width p b ! i = last_element_mask width ?p"
        using 2 assms(1,2) by (simp add: write_prefix_def Let_def nth_fill elem_defs)
      then show ?thesis using lt False last_element_mask_bits [OF _ le assms(3)] by simp
    qed
  next
    case 3
    then have "\<not> 64 * i + j < ?p" by linarith
    moreover have "write_prefix width p b ! i = 0"
      using 3 assms(1,2) by (simp add: write_prefix_def Let_def nth_fill elem_defs)
    ultimately show ?thesis by simp
  qed
qed

lemma bits_by_elements:
  assumes "length b = ARRAY_ELEMENTS width" and "S \<subseteq> {..<width}"
    and "\<And>i j. i < length b \<Longrightarrow> j < 64 \<Longrightarrow> bit (b ! i) j \<longleftrightarrow> 64 * i + j \<in> S"
  shows "bm_bits b = S"
proof (rule set_eqI)
  fix n
  show "n \<in> bm_bits b \<longleftrightarrow> n \<in> S"
  proof (cases "n < 64 * length b")
    case True
    then have "n div 64 < length b" by (simp add: div_less_iff_less_mult mult.commute)
    then show ?thesis using assms(3) [of "n div 64" "n mod 64"] True by (simp add: bm_bits_def)
  next
    case False
    then show ?thesis using assms(1,2) ARRAY_ELEMENTS_bounds(1) [of width] by (auto simp: bm_bits_def)
  qed
qed

lemma write_prefix_bits: "length b = ARRAY_ELEMENTS width \<Longrightarrow> bm_bits (write_prefix width p b) = {..<min p width}"
  by (rule bits_by_elements) (auto simp: nth_write_prefix)

lemma width_multiple: "width mod 64 = 0 \<Longrightarrow> 64 * ARRAY_ELEMENTS width = width"
  by (simp add: ARRAY_ELEMENTS_def elem_defs) (auto simp: mod_eq_0_iff_dvd elim!: dvdE)

lemma write_all_bits:
  assumes "length b = ARRAY_ELEMENTS width"
  shows "bm_bits (write_all width b) = {..<width}" and "length (write_all width b) = length b"
proof -
  show "length (write_all width b) = length b" by (simp add: write_all_def)
  show "bm_bits (write_all width b) = {..<width}"
  proof (cases "width mod 64 = 0")
    case True
    have "i < length b \<Longrightarrow> write_all width b ! i = ALL_BITS_SET" for i
      using True assms by (auto simp: write_all_def elem_defs nth_fill nth_list_update)
    then show ?thesis using width_multiple [OF True] assms \<open>length (write_all width b) = length b\<close>
      by (intro bits_by_elements) (auto simp: ALL_BITS_SET_def bit_not_iff)
  next
    case False
    then show ?thesis using assms by (simp add: write_all_def elem_defs write_prefix_bits)
  qed
qed

lemma clear_all_bits:
  assumes "length b = ARRAY_ELEMENTS width"
  shows "bm_bits (clear_all width b) = {}" and "length (clear_all width b) = length b"
proof -
  show l: "length (clear_all width b) = length b" by (simp add: clear_all_def)
  have "i < length b \<Longrightarrow> clear_all width b ! i = 0" for i
    using assms by (auto simp: clear_all_def nth_fill nth_list_update)
  then show "bm_bits (clear_all width b) = {}"
    using l assms by (intro bits_by_elements) auto
qed

end
