(* ===== verification/BitmapSet.thy ===== *)
theory BitmapSet
  imports SqlBitmap BitCount
begin

text \<open>
  What \<open>Bitmap<width>\<close> promises: it is a set of bit numbers below \<open>width\<close>. The promise is the
  locale \<open>bit_set\<close>, interpreted on the bitmap for every width; further the prefix operations,
  the padding intersections, the number of set bits, the iterator, and the two places where
  the class leaves its contract (\<open>print\<close>, and the assertions that a prefix of the whole width fails).
\<close>

unbundle bit_operations_syntax

section \<open>Equality and prefixes\<close>

lemma ARRAY_ELEMENTS_pos: "0 < width \<Longrightarrow> 0 < ARRAY_ELEMENTS width"
  using ARRAY_ELEMENTS_bounds(1) [of width] by auto

lemma bm_equal_iff:
  assumes "length b = ARRAY_ELEMENTS width" and "length c = ARRAY_ELEMENTS width" and "0 < width"
  shows "bm_equal width b c \<longleftrightarrow> bm_bits b = bm_bits c"
proof -
  have "bm_equal width b c \<longleftrightarrow> (\<forall>i < length b. b ! i = c ! i)"
  proof (cases "1 < ARRAY_ELEMENTS width")
    case True
    then show ?thesis using assms by (auto simp: bm_equal_def list_all_iff)
  next
    case False
    then have "ARRAY_ELEMENTS width = 1" using ARRAY_ELEMENTS_pos [OF assms(3)] by simp
    then show ?thesis using assms by (simp add: bm_equal_def)
  qed
  also have "\<dots> \<longleftrightarrow> b = c" using assms by (auto intro: nth_equalityI)
  also have "\<dots> \<longleftrightarrow> bm_bits b = bm_bits c" using assms bm_bits_inj [of b c] by auto
  finally show ?thesis .
qed

definition prefix_element :: "nat \<Rightarrow> nat \<Rightarrow> nat \<Rightarrow> u64" where
  "prefix_element width p i =
     (if i < p div 64 then ALL_BITS_SET
      else if i = p div 64 \<and> p mod 64 \<noteq> 0 then last_element_mask width p else 0)"

lemma write_prefix_element:
  assumes "length b = ARRAY_ELEMENTS width" and "p \<le> width" and "i < length b"
  shows "write_prefix width p b ! i = prefix_element width p i"
  using assms
  by (auto simp: write_prefix_def prefix_element_def Let_def nth_fill elem_defs min_absorb1 nth_list_update)

lemma prefix_index: "p \<le> width \<Longrightarrow> p mod 64 \<noteq> 0 \<Longrightarrow> p div 64 < ARRAY_ELEMENTS width"
  using ARRAY_ELEMENTS_bounds(1) [of width] mult_div_mod_eq [of 64 p] by linarith

lemma prefix_index_le: "p \<le> width \<Longrightarrow> p div 64 \<le> ARRAY_ELEMENTS width"
  using ARRAY_ELEMENTS_bounds(1) [of width] mult_div_mod_eq [of 64 p] by linarith

lemma all_below_split:
  "k \<le> N \<Longrightarrow> ((\<forall>i < k. P i) \<and> (\<forall>i. k \<le> i \<and> i < N \<longrightarrow> Q i)) \<longleftrightarrow> (\<forall>i < N. if i < k then P i else Q i)"
  for k N :: nat
  by (metis leD leI less_le_trans)

lemma one_then_rest:
  "(c \<Longrightarrow> k < N) \<Longrightarrow> (A \<and> (c \<longrightarrow> R k) \<and> (\<forall>i. k \<le> i \<and> i < N \<longrightarrow> \<not> (i = k \<and> c) \<longrightarrow> Z i)) \<longleftrightarrow>
     (A \<and> (\<forall>i. k \<le> i \<and> i < N \<longrightarrow> (if i = k \<and> c then R i else Z i)))"
  for k N :: nat
  by auto

lemma matches_prefix_elements:
  assumes "p \<le> width"
  shows "matches_prefix width p b \<longleftrightarrow> (\<forall>i < ARRAY_ELEMENTS width. b ! i = prefix_element width p i)"
proof -
  define k where "k = p div 64"
  have pe: "b ! i = prefix_element width p i \<longleftrightarrow> (if i < k then b ! i = ALL_BITS_SET
      else if i = k \<and> p mod 64 \<noteq> 0 then b ! i = last_element_mask width p else b ! i = 0)" for i
    by (simp add: prefix_element_def k_def)
  have "matches_prefix width p b \<longleftrightarrow> (\<forall>i < k. b ! i = ALL_BITS_SET) \<and>
      (p mod 64 \<noteq> 0 \<longrightarrow> b ! k = last_element_mask width p) \<and>
      (\<forall>i. k \<le> i \<and> i < ARRAY_ELEMENTS width \<longrightarrow> \<not> (i = k \<and> p mod 64 \<noteq> 0) \<longrightarrow> b ! i = 0)"
  proof (cases "p mod 64 = 0")
    case True
    then have "matches_prefix width p b \<longleftrightarrow> list_all (\<lambda>i. b ! i = ALL_BITS_SET) [0..<k] \<and>
        list_all (\<lambda>i. b ! i = 0) [k..<ARRAY_ELEMENTS width]"
      by (auto simp: matches_prefix_def elem_defs k_def Let_def)
    then show ?thesis using True by (simp add: list_all_iff Ball_def)
  next
    case False
    then have "matches_prefix width p b \<longleftrightarrow> list_all (\<lambda>i. b ! i = ALL_BITS_SET) [0..<k] \<and>
        b ! k = last_element_mask width p \<and> list_all (\<lambda>i. b ! i = 0) [Suc k..<ARRAY_ELEMENTS width]"
      by (auto simp: matches_prefix_def elem_defs k_def Let_def)
    moreover have "list_all (\<lambda>i. b ! i = 0) [Suc k..<N] \<longleftrightarrow>
        (\<forall>i. k \<le> i \<and> i < N \<longrightarrow> i \<noteq> k \<longrightarrow> b ! i = 0)" for N
      by (auto simp: list_all_iff)
    ultimately show ?thesis using False by (simp add: list_all_iff Ball_def)
  qed
  also have "\<dots> \<longleftrightarrow> (\<forall>i < k. b ! i = ALL_BITS_SET) \<and>
      (\<forall>i. k \<le> i \<and> i < ARRAY_ELEMENTS width \<longrightarrow>
        (if i = k \<and> p mod 64 \<noteq> 0 then b ! i = last_element_mask width p else b ! i = 0))"
    using prefix_index [OF assms] unfolding k_def [symmetric] by (rule one_then_rest)
  also have "\<dots> \<longleftrightarrow> (\<forall>i < ARRAY_ELEMENTS width. b ! i = prefix_element width p i)"
    using prefix_index_le [OF assms] unfolding pe k_def [symmetric] by (rule all_below_split)
  finally show ?thesis .
qed

lemma matches_prefix_iff:
  assumes "length b = ARRAY_ELEMENTS width" and "p \<le> width"
  shows "matches_prefix width p b \<longleftrightarrow> bm_bits b = {..<p}"
proof -
  have "matches_prefix width p b \<longleftrightarrow> (\<forall>i < length b. b ! i = write_prefix width p b ! i)"
    using assms by (simp add: matches_prefix_elements write_prefix_element)
  also have "\<dots> \<longleftrightarrow> b = write_prefix width p b" by (auto intro: nth_equalityI)
  also have "\<dots> \<longleftrightarrow> bm_bits b = bm_bits (write_prefix width p b)"
    using bm_bits_inj [of b "write_prefix width p b"] by auto
  finally show ?thesis using assms by (simp add: write_prefix_bits min_absorb1)
qed

section \<open>Intersection with a padded word\<close>

lemma length_write_and_pad [simp]: "length (write_and_pad width w pad b) = length b"
  by (simp add: write_and_pad_def Let_def)

lemma nth_write_and_pad:
  assumes "length b = ARRAY_ELEMENTS width" and "i < length b" and "j < 64"
  shows "bit (write_and_pad width w pad b ! i) j \<longleftrightarrow>
    (if i = 0 then bit (b ! 0) j \<and> bit w j else pad \<and> 64 * i + j < width)"
proof (cases "i = 0")
  case True
  then show ?thesis using assms
    by (auto simp: write_and_pad_def Let_def nth_fill bit_and_iff)
next
  case False
  have hi: "64 * i + j < width" if "width mod 64 = 0"
    using width_multiple [OF that] assms(1-3) by linarith
  have hi2: "64 * i + j < width" if "i < ARRAY_ELEMENTS width - 1"
    using ARRAY_ELEMENTS_bounds(2) [of width] that assms(3) by linarith
  have last: "64 * i + j < width \<longleftrightarrow> j < width mod 64" if "width mod 64 \<noteq> 0" "i = ARRAY_ELEMENTS width - 1"
  proof -
    have "ARRAY_ELEMENTS width = width div 64 + 1"
      using ARRAY_ELEMENTS_bounds [of width] that(1) mult_div_mod_eq [of 64 width] by linarith
    then have "i = width div 64" using that by simp
    then show ?thesis using mult_div_mod_eq [of 64 width] by linarith
  qed
  consider "width mod 64 = 0" | "width mod 64 \<noteq> 0" "i < ARRAY_ELEMENTS width - 1"
    | "width mod 64 \<noteq> 0" "i = ARRAY_ELEMENTS width - 1" using assms(1,2) by linarith
  then show ?thesis
  proof cases
    case 1
    then show ?thesis using False assms hi
      by (auto simp: write_and_pad_def Let_def nth_fill elem_defs ALL_BITS_SET_def bit_not_iff)
  next
    case 2
    then show ?thesis using False assms hi2
      by (auto simp: write_and_pad_def Let_def nth_fill elem_defs ALL_BITS_SET_def bit_not_iff)
  next
    case 3
    then show ?thesis using False assms last last_element_mask_bits [of width width j]
      by (auto simp: write_and_pad_def Let_def nth_fill elem_defs)
  qed
qed

lemma write_and_pad_bits:
  assumes "bm_inv width b"
  shows "bm_bits (write_and_pad width w pad b) =
    {n \<in> bm_bits b. n < 64 \<and> bit w n} \<union> (if pad then {64..<width} else {})"
proof (rule bits_by_elements)
  have l: "length b = ARRAY_ELEMENTS width" and s: "bm_bits b \<subseteq> {..<width}" using assms by (auto simp: bm_inv_def)
  show "length (write_and_pad width w pad b) = ARRAY_ELEMENTS width" using l by simp
  show "{n \<in> bm_bits b. n < 64 \<and> bit w n} \<union> (if pad then {64..<width} else {}) \<subseteq> {..<width}" using s by auto
  fix i j :: nat
  assume ij: "i < length (write_and_pad width w pad b)" "j < 64"
  show "bit (write_and_pad width w pad b ! i) j \<longleftrightarrow>
      64 * i + j \<in> {n \<in> bm_bits b. n < 64 \<and> bit w n} \<union> (if pad then {64..<width} else {})"
    using ij in_bits_elem [of i b j] nth_write_and_pad [OF l, of i j w pad] by (cases "i = 0") auto
qed

section \<open>The interface: a set of bit numbers\<close>

locale bit_set =
  fixes width :: nat and inv :: "'b \<Rightarrow> bool" and abs :: "'b \<Rightarrow> nat set"
    and setb clearb :: "nat \<Rightarrow> 'b \<Rightarrow> 'b" and isset :: "nat \<Rightarrow> 'b \<Rightarrow> bool"
    and prefix :: "nat \<Rightarrow> 'b \<Rightarrow> 'b" and alls nones :: "'b \<Rightarrow> 'b"
    and inter diff union :: "'b \<Rightarrow> 'b \<Rightarrow> 'b" and pad :: "u64 \<Rightarrow> bool \<Rightarrow> 'b \<Rightarrow> 'b"
    and empty :: "'b \<Rightarrow> bool" and subset overlap :: "'b \<Rightarrow> 'b \<Rightarrow> bool"
  assumes range: "inv b \<Longrightarrow> abs b \<subseteq> {..<width}"
    and setb: "inv b \<Longrightarrow> n < width \<Longrightarrow> inv (setb n b) \<and> abs (setb n b) = insert n (abs b)"
    and clearb: "inv b \<Longrightarrow> n < width \<Longrightarrow> inv (clearb n b) \<and> abs (clearb n b) = abs b - {n}"
    and isset: "inv b \<Longrightarrow> n < width \<Longrightarrow> isset n b \<longleftrightarrow> n \<in> abs b"
    and prefix: "inv b \<Longrightarrow> inv (prefix n b) \<and> abs (prefix n b) = {..<min n width}"
    and alls: "inv b \<Longrightarrow> inv (alls b) \<and> abs (alls b) = {..<width}"
    and nones: "inv b \<Longrightarrow> inv (nones b) \<and> abs (nones b) = {}"
    and inter: "inv b \<Longrightarrow> inv c \<Longrightarrow> inv (inter b c) \<and> abs (inter b c) = abs b \<inter> abs c"
    and pad: "inv b \<Longrightarrow> inv (pad w ones b) \<and>
      abs (pad w ones b) = {n \<in> abs b. n < 64 \<and> bit w n} \<union> (if ones then {64..<width} else {})"
    and diff: "inv b \<Longrightarrow> inv c \<Longrightarrow> inv (diff b c) \<and> abs (diff b c) = abs b - abs c"
    and union: "inv b \<Longrightarrow> inv c \<Longrightarrow> inv (union b c) \<and> abs (union b c) = abs b \<union> abs c"
    and empty: "inv b \<Longrightarrow> empty b \<longleftrightarrow> abs b = {}"
    and subset: "inv b \<Longrightarrow> inv c \<Longrightarrow> subset b c \<longleftrightarrow> abs b \<subseteq> abs c"
    and overlap: "inv b \<Longrightarrow> inv c \<Longrightarrow> overlap b c \<longleftrightarrow> abs b \<inter> abs c \<noteq> {}"
begin

definition op_ok :: "'b bit_op \<Rightarrow> bool" where
  "op_ok p = (case p of SetBit n \<Rightarrow> n < width | ClearBit n \<Rightarrow> n < width
     | Intersect c \<Rightarrow> inv c | Subtract c \<Rightarrow> inv c | Merge c \<Rightarrow> inv c | _ \<Rightarrow> True)"

definition run_op :: "'b bit_op \<Rightarrow> 'b \<Rightarrow> 'b" where
  "run_op p b = (case p of SetBit n \<Rightarrow> setb n b | ClearBit n \<Rightarrow> clearb n b | SetPrefix n \<Rightarrow> prefix n b
     | SetAll \<Rightarrow> alls b | ClearAll \<Rightarrow> nones b | Intersect c \<Rightarrow> inter b c
     | IntersectMap w \<Rightarrow> pad w False b | IntersectExtended w \<Rightarrow> pad w (bit w 63) b | Subtract c \<Rightarrow> diff b c
     | Merge c \<Rightarrow> union b c)"

definition spec_op :: "'b bit_op \<Rightarrow> nat set \<Rightarrow> nat set" where
  "spec_op p S = (case p of SetBit n \<Rightarrow> insert n S | ClearBit n \<Rightarrow> S - {n} | SetPrefix n \<Rightarrow> {..<min n width}
     | SetAll \<Rightarrow> {..<width} | ClearAll \<Rightarrow> {} | Intersect c \<Rightarrow> S \<inter> abs c
     | IntersectMap w \<Rightarrow> {n \<in> S. n < 64 \<and> bit w n}
     | IntersectExtended w \<Rightarrow> {n \<in> S. n < 64 \<and> bit w n} \<union> (if bit w 63 then {64..<width} else {}) | Subtract c \<Rightarrow> S - abs c
     | Merge c \<Rightarrow> S \<union> abs c)"

lemma run_op_refines: "inv b \<Longrightarrow> op_ok p \<Longrightarrow> inv (run_op p b) \<and> abs (run_op p b) = spec_op p (abs b)"
  by (cases p)
    (simp_all add: op_ok_def run_op_def spec_op_def setb clearb prefix alls nones inter pad diff union)

lemma run_ops_refine:
  "inv b \<Longrightarrow> list_all op_ok ps \<Longrightarrow> inv (fold run_op ps b) \<and> abs (fold run_op ps b) = fold spec_op ps (abs b)"
  by (induction ps arbitrary: b) (use run_op_refines in auto)

lemma isset_after:
  "inv b \<Longrightarrow> list_all op_ok ps \<Longrightarrow> n < width \<Longrightarrow> isset n (fold run_op ps b) \<longleftrightarrow> n \<in> fold spec_op ps (abs b)"
  using run_ops_refine [of b ps] isset by auto

lemma subset_iff_diff_empty: "inv b \<Longrightarrow> inv c \<Longrightarrow> subset b c \<longleftrightarrow> empty (diff b c)"
  using subset [of b c] diff [of b c] empty [of "diff b c"] by auto

lemma overlap_iff_inter: "inv b \<Longrightarrow> inv c \<Longrightarrow> overlap b c \<longleftrightarrow> \<not> empty (inter b c)"
  using overlap [of b c] inter [of b c] empty [of "inter b c"] by auto

lemma abs_finite: "inv b \<Longrightarrow> finite (abs b)"
  using range [of b] finite_subset by blast

end

lemmas bm_op_bits = set_bit_bits clear_bit_bits is_set_bits write_prefix_bits write_all_bits clear_all_bits
  intersect_bits subtract_bits merge_bits zip_ops_length is_clear_all_iff is_subset_iff is_overlapping_iff

lemma length_bm_set_clear [simp]:
  "length (bm_set_bit width n b) = length b" "length (bm_clear_bit width n b) = length b"
  by (simp_all add: bm_set_bit_def bm_clear_bit_def)

interpretation bms: bit_set width "bm_inv width" bm_bits "bm_set_bit width" "bm_clear_bit width"
  "bm_is_set width" "write_prefix width" "write_all width" "clear_all width" "intersect width"
  "subtract width" "bm_merge width" "write_and_pad width" "is_clear_all width" "is_subset width" "is_overlapping width"
  for width
proof unfold_locales
  fix w :: u64 and ones width b
  assume b: "bm_inv width b"
  then have "{n \<in> bm_bits b. n < 64 \<and> bit w n} \<union> (if ones then {64..<width} else {}) \<subseteq> {..<width}" by (auto simp: bm_inv_def)
  then show "bm_inv width (write_and_pad width w ones b) \<and>
      bm_bits (write_and_pad width w ones b) = {n \<in> bm_bits b. n < 64 \<and> bit w n} \<union> (if ones then {64..<width} else {})"
    using b by (simp add: bm_inv_def write_and_pad_bits)
qed (auto simp: bm_inv_def bm_op_bits)

text \<open>The arguments a call may be given, and when its assertions hold.\<close>

definition op_args :: "nat \<Rightarrow> bitmap bit_op \<Rightarrow> bool" where
  "op_args width p = (case p of Intersect c \<Rightarrow> bm_inv width c | Subtract c \<Rightarrow> bm_inv width c | Merge c \<Rightarrow> bm_inv width c | _ \<Rightarrow> True)"

definition op_asserts :: "nat \<Rightarrow> bitmap bit_op \<Rightarrow> bool" where
  "op_asserts width p =
     (case p of
        SetBit n \<Rightarrow> n < width
      | ClearBit n \<Rightarrow> n < width
      | SetPrefix n \<Rightarrow> n < width \<or> 64 dvd width
      | SetAll \<Rightarrow> 64 dvd width
      | IntersectExtended w \<Rightarrow> bit w 63 \<longrightarrow> width \<le> 64 \<or> 64 dvd width
      | _ \<Rightarrow> True)"

lemma ARRAY_ELEMENTS_many: "1 < ARRAY_ELEMENTS width \<longleftrightarrow> 64 < width"
  using ARRAY_ELEMENTS_bounds [of width] by linarith

lemma set_prefix_calls: "set_prefix width n b = (if n < width \<or> 64 dvd width then Some (write_prefix width n b) else None)"
proof (cases "n < width")
  case True
  then show ?thesis by (simp add: set_prefix_def set_prefix_asserts_def last_element_mask_asserts_def elem_defs min_absorb1)
next
  case False
  then show ?thesis by (simp add: set_prefix_def set_prefix_asserts_def last_element_mask_asserts_def elem_defs min_absorb2 dvd_eq_mod_eq_0)
qed

lemma set_all_calls: "set_all width b = (if 64 dvd width then Some (write_all width b) else None)"
  by (simp add: set_all_def set_prefix_calls write_all_def elem_defs dvd_eq_mod_eq_0)

lemma intersect_calls:
  "intersect_ulonglong width w b = Some (write_and_pad width w False b)"
  "intersect_extended width w b =
     (if bit w 63 \<longrightarrow> width \<le> 64 \<or> 64 dvd width then Some (write_and_pad width w (bit w 63) b) else None)"
proof -
  have "(w AND push_bit 63 1 \<noteq> 0) = bit w 63" unfolding push_bit_of_1 by (simp only: and_push_1 not_not)
  then show "intersect_ulonglong width w b = Some (write_and_pad width w False b)"
    "intersect_extended width w b =
       (if bit w 63 \<longrightarrow> width \<le> 64 \<or> 64 dvd width then Some (write_and_pad width w (bit w 63) b) else None)"
    unfolding intersect_ulonglong_def intersect_extended_def using ARRAY_ELEMENTS_many [of width]
    by (auto simp: intersect_and_pad_def last_element_mask_asserts_def elem_defs dvd_eq_mod_eq_0)
qed

lemma bm_call_run:
  "bm_call width p b = (if op_asserts width p then Some (bms.run_op width p b) else None)"
  by (cases p) (simp_all add: bm_call_def op_asserts_def bms.run_op_def set_prefix_calls set_all_calls intersect_calls)

lemma op_ok_split: "op_args width p \<Longrightarrow> op_asserts width p \<Longrightarrow> bms.op_ok width p"
  by (cases p) (simp_all add: op_args_def op_asserts_def bms.op_ok_def)

lemma bm_calls_run:
  "bm_calls width ps b = (if list_all (op_asserts width) ps then Some (fold (bms.run_op width) ps b) else None)"
  by (induction ps arbitrary: b) (simp_all add: bm_call_run)

lemma ops_ok_split: "list_all (op_args width) ps \<Longrightarrow> list_all (op_asserts width) ps \<Longrightarrow> list_all (bms.op_ok width) ps"
  by (auto simp: list_all_iff op_ok_split)

section \<open>The number of set bits\<close>

lemma bits_element_split:
  "bm_bits (b @ [w]) = bm_bits b \<union> (\<lambda>j. 64 * length b + j) ` {j. bit w j}"
proof (rule set_eqI)
  fix n
  have "n \<in> bm_bits (b @ [w]) \<longleftrightarrow> n \<in> bm_bits b \<or> n div 64 = length b \<and> bit w (n mod 64)"
    by (auto simp: bm_bits_def nth_append div_less_iff_less_mult mult.commute)
  also have "n div 64 = length b \<and> bit w (n mod 64) \<longleftrightarrow> n \<in> (\<lambda>j. 64 * length b + j) ` {j. bit w j}"
  proof
    assume "n div 64 = length b \<and> bit w (n mod 64)"
    then show "n \<in> (\<lambda>j. 64 * length b + j) ` {j. bit w j}"
      by (intro image_eqI [of _ _ "n mod 64"]) (metis mult_div_mod_eq, simp)
  next
    assume "n \<in> (\<lambda>j. 64 * length b + j) ` {j. bit w j}"
    then obtain j where "n = 64 * length b + j" "bit w j" by auto
    then show "n div 64 = length b \<and> bit w (n mod 64)" using bit_imp_le_length [of w j] by simp
  qed
  finally show "n \<in> bm_bits (b @ [w]) \<longleftrightarrow> n \<in> bm_bits b \<union> (\<lambda>j. 64 * length b + j) ` {j. bit w j}" by simp
qed

lemma card_bm_bits: "card (bm_bits b) = (\<Sum>w\<leftarrow>b. card {j. bit w j})"
proof (induction b rule: rev_induct)
  case Nil
  then show ?case by (simp add: bm_bits_def)
next
  case (snoc w b)
  have disj: "bm_bits b \<inter> (\<lambda>j. 64 * length b + j) ` {j. bit w j} = {}" by (auto simp: bm_bits_def)
  have "{j. bit w j} \<subseteq> {..<64}" using bit_imp_le_length [of w] by auto
  then have fin: "finite {j. bit w j}" by (rule finite_subset) simp
  have "finite (bm_bits b)" by (rule finite_subset [of _ "{..<64 * length b}"]) (auto simp: bm_bits_def)
  then have "card (bm_bits (b @ [w])) = card (bm_bits b) + card ((\<lambda>j. 64 * length b + j) ` {j. bit w j})"
    unfolding bits_element_split using fin disj by (intro card_Un_disjoint) auto
  also have "card ((\<lambda>j. 64 * length b + j) ` {j. bit w j}) = card {j. bit w j}"
    by (rule card_image) (simp add: inj_on_def)
  finally show ?case using snoc by simp
qed

lemma bits_set_run:
  "k \<le> length b \<Longrightarrow> fold (\<lambda>i res. res + my_count_bits (b ! i)) [0..<k] 0 =
     word_of_nat (\<Sum>w\<leftarrow>take k b. card {j. bit w j})"
proof (induction k)
  case (Suc k)
  have "my_count_bits (b ! k) = word_of_nat (card {j. bit (b ! k) j})"
    by (simp add: count_bits_card [symmetric])
  then show ?case using Suc by (simp add: take_Suc_conv_app_nth)
qed simp

section \<open>Iteration\<close>

lemma next_bit_least:
  assumes "bmp \<noteq> 0"
  obtains k where "k < 64" "bit bmp k" "\<forall>i < k. \<not> bit bmp i"
    "next_bit bmp = Some (k, bmp AND NOT (push_bit k 1))"
proof -
  obtain k where k: "find_first_loop bmp 0 = Some k" "bit bmp k" "\<forall>i < k. \<not> bit bmp i"
    using find_first_step [OF assms, of 0] by auto
  moreover have "k < 64" using bit_imp_le_length [OF k(2)] by simp
  ultimately show thesis using assms that by (simp add: next_bit_def my_find_first_bit_def)
qed

text \<open>The bit numbers an iterator still has to return.\<close>

definition it_rest :: "bitmap \<Rightarrow> bm_iterator \<Rightarrow> nat set" where
  "it_rest b it = (\<lambda>j. it_offset it + j) ` {j. bit (it_tmi it) j} \<union> {n \<in> bm_bits b. it_offset it + 64 \<le> n}"

definition it_ok :: "nat \<Rightarrow> bitmap \<Rightarrow> bm_iterator \<Rightarrow> bool" where
  "it_ok width b it \<longleftrightarrow> it_offset it mod 64 = 0 \<and> it_offset it < width \<and> it_rest b it \<subseteq> {..<width}"

lemma it_rest_finite: "it_ok width b it \<Longrightarrow> finite (it_rest b it)"
  unfolding it_ok_def using finite_subset by blast

lemma it_rest_step:
  assumes "bit (it_tmi it) k" and "\<forall>i < k. \<not> bit (it_tmi it) i"
  shows "it_rest b (it\<lparr>it_tmi := it_tmi it AND NOT (push_bit k 1)\<rparr>) = it_rest b it - {it_offset it + k}"
    and "\<forall>n \<in> it_rest b it. it_offset it + k \<le> n"
proof -
  have k: "k < 64" using bit_imp_le_length [OF assms(1)] by simp
  have eq: "bit (it_tmi it AND NOT (2 ^ k)) j \<longleftrightarrow> bit (it_tmi it) j \<and> j \<noteq> k" for j
    using bit_imp_le_length [of "it_tmi it" j] k by (auto simp: bit_and_iff bit_not_iff bit_push_1)
  show "it_rest b (it\<lparr>it_tmi := it_tmi it AND NOT (push_bit k 1)\<rparr>) = it_rest b it - {it_offset it + k}"
    using k unfolding it_rest_def by (auto simp: eq image_iff)
  show "\<forall>n \<in> it_rest b it. it_offset it + k \<le> n"
    using k assms(2) unfolding it_rest_def by (auto simp: not_less [symmetric])
qed

lemma it_rest_next_element:
  assumes "it_tmi it = 0" and "it_offset it mod 64 = 0" and "it_offset it + 64 < 64 * length b"
  shows "it_rest b \<lparr>it_offset = it_offset it + 64, it_tmi = b ! ((it_offset it + 64) div 64)\<rparr> = it_rest b it"
proof -
  define i where "i = (it_offset it + 64) div 64"
  have i: "it_offset it + 64 = 64 * i" using assms(2) unfolding i_def by (simp add: mult_div_mod_eq mod_0_imp_dvd)
  have il: "i < length b" using assms(3) i by simp
  have "(\<lambda>j. 64 * i + j) ` {j. bit (b ! i) j} = {n \<in> bm_bits b. 64 * i \<le> n \<and> n < 64 * i + 64}"
  proof (rule set_eqI, rule iffI)
    fix n assume "n \<in> (\<lambda>j. 64 * i + j) ` {j. bit (b ! i) j}"
    then obtain j where j: "n = 64 * i + j" "bit (b ! i) j" by auto
    moreover have "j < 64" using bit_imp_le_length [OF j(2)] by simp
    ultimately show "n \<in> {n \<in> bm_bits b. 64 * i \<le> n \<and> n < 64 * i + 64}" using il by (simp add: in_bits_elem)
  next
    fix n assume n: "n \<in> {n \<in> bm_bits b. 64 * i \<le> n \<and> n < 64 * i + 64}"
    then have "n = 64 * i + (n - 64 * i)" "n - 64 * i < 64" by auto
    then show "n \<in> (\<lambda>j. 64 * i + j) ` {j. bit (b ! i) j}"
      using n il in_bits_elem [of i b "n - 64 * i"] by (metis (no_types, lifting) image_eqI mem_Collect_eq)
  qed
  then show ?thesis using assms(1) unfolding it_rest_def i_def [symmetric] i by auto
qed

lemma iterator_next_spec:
  assumes "bm_inv width b" and "it_ok width b it"
  shows "\<exists>it'. it_ok width b it' \<and>
    iterator_next width b it = Some (if it_rest b it = {} then width else Min (it_rest b it), it') \<and>
    it_rest b it' = it_rest b it - {Min (it_rest b it)}"
  using assms
proof (induction width b it rule: iterator_next.induct)
  case (1 width b it)
  note ok = "1.prems"(2)
  let ?n = "it_offset it"
  show ?case
  proof (cases "it_tmi it = 0")
    case False
    then obtain k where k: "k < 64" "bit (it_tmi it) k" "\<forall>i < k. \<not> bit (it_tmi it) i"
      "next_bit (it_tmi it) = Some (k, it_tmi it AND NOT (push_bit k 1))" by (rule next_bit_least)
    have mem: "?n + k \<in> it_rest b it" using k(2) by (auto simp: it_rest_def)
    have min: "Min (it_rest b it) = ?n + k"
      using it_rest_step(2) [OF k(2,3), of b] mem it_rest_finite [OF ok] by (intro Min_eqI) auto
    let ?it = "it\<lparr>it_tmi := it_tmi it AND NOT (push_bit k 1)\<rparr>"
    have "iterator_next width b it = Some (?n + k, ?it)"
      using k(1,4) by (subst iterator_next.simps) (simp add: TABLE_MAP_END_def)
    moreover have "it_ok width b ?it"
      using ok it_rest_step(1) [OF k(2,3), of b] by (auto simp: it_ok_def)
    ultimately show ?thesis using min mem it_rest_step(1) [OF k(2,3), of b] by auto
  next
    case True
    have nb: "next_bit (it_tmi it) = Some (TABLE_MAP_END, 0)" by (simp add: next_bit_def True)
    show ?thesis
    proof (cases "?n + 64 \<ge> width")
      case fin: True
      have e: "it_rest b it = {}"
        using fin ok True by (auto simp: it_rest_def it_ok_def)
      have "iterator_next width b it = Some (width, it\<lparr>it_tmi := 0\<rparr>)"
        using fin nb by (subst iterator_next.simps) (simp add: elem_defs)
      then show ?thesis using e True ok by (intro exI [of _ it]) simp
    next
      case more: False
      let ?it = "\<lparr>it_offset = ?n + 64, it_tmi = b ! ((?n + 64) div 64)\<rparr>"
      have rest: "it_rest b ?it = it_rest b it"
        by (rule it_rest_next_element [OF True])
          (use ok "1.prems"(1) more ARRAY_ELEMENTS_bounds(1) [of width] in \<open>auto simp: it_ok_def bm_inv_def\<close>)
      have ok2: "it_ok width b ?it" using ok more rest by (simp add: it_ok_def)
      have "iterator_next width b it = iterator_next width b ?it"
        using more nb by (subst iterator_next.simps) (simp add: elem_defs)
      then show ?thesis using "1.IH" [of "(TABLE_MAP_END, 0)" TABLE_MAP_END 0] nb more ok2 rest "1.prems"(1)
        by (simp add: elem_defs cong: if_cong)
    qed
  qed
qed

text \<open>What is left of an iteration: the elements in increasing order, then the end mark for ever.\<close>

lemma iterator_run_rest:
  assumes "bm_inv width b" and "it_ok width b it"
  shows "iterator_run width b k it = Some (take k (sorted_list_of_set (it_rest b it) @ replicate k width))"
  using assms(2)
proof (induction k arbitrary: it)
  case (Suc k)
  obtain it' where it': "it_ok width b it'"
    "iterator_next width b it = Some (if it_rest b it = {} then width else Min (it_rest b it), it')"
    "it_rest b it' = it_rest b it - {Min (it_rest b it)}"
    using iterator_next_spec [OF assms(1) Suc.prems] by blast
  have IH: "iterator_run width b k it' = Some (take k (sorted_list_of_set (it_rest b it') @ replicate k width))"
    by (rule Suc.IH [OF it'(1)])
  show ?case
  proof (cases "it_rest b it = {}")
    case True
    then show ?thesis using IH it' by simp
  next
    case False
    have "sorted_list_of_set (it_rest b it) = Min (it_rest b it) # sorted_list_of_set (it_rest b it')"
      unfolding it'(3) by (rule sorted_list_of_set_nonempty) (use it_rest_finite [OF Suc.prems] False in auto)
    moreover have "take k (sorted_list_of_set (it_rest b it') @ replicate (Suc k) width) =
        take k (sorted_list_of_set (it_rest b it') @ replicate k width)" by (rule take_replicate_Suc)
    ultimately show ?thesis using IH it' False by simp
  qed
qed simp

lemma iterator_init_rest:
  assumes "bm_inv width b" and "0 < width"
  shows "it_rest b (iterator_init b) = bm_bits b" and "it_ok width b (iterator_init b)"
proof -
  have l: "0 < length b" using assms ARRAY_ELEMENTS_pos by (simp add: bm_inv_def)
  have "bit (b ! 0) j \<longleftrightarrow> j \<in> bm_bits b \<and> j < 64" for j
    using in_bits_elem [OF l, of j] bit_imp_le_length [of "b ! 0" j] by auto
  then have first: "{j. bit (b ! 0) j} = {n \<in> bm_bits b. n < 64}" by blast
  have "it_rest b (iterator_init b) = {n \<in> bm_bits b. n < 64} \<union> {n \<in> bm_bits b. 64 \<le> n}"
    unfolding it_rest_def by (simp add: iterator_init_def first)
  also have "\<dots> = bm_bits b"
    by (rule set_eqI) (unfold Un_iff mem_Collect_eq not_less [symmetric], blast)
  finally show rest: "it_rest b (iterator_init b) = bm_bits b" .
  show "it_ok width b (iterator_init b)"
    using assms rest by (simp add: it_ok_def bm_inv_def) (simp add: iterator_init_def)
qed

text \<open>An executable form of the invariant.\<close>

lemma bm_inv_exec:
  "bm_inv width b \<longleftrightarrow> length b = ARRAY_ELEMENTS width \<and>
     list_all (\<lambda>n. \<not> bit (b ! (n div 64)) (n mod 64)) [width..<64 * length b]"
  by (auto simp: bm_inv_def bm_bits_def list_all_iff subset_iff not_less [symmetric])

section \<open>Properties\<close>

text \<open>
  Property C10: a bitmap implements a set of bit numbers. Take any sequence of \<open>set_bit\<close>,
  \<open>clear_bit\<close>, \<open>set_prefix\<close>, \<open>set_all\<close>, \<open>clear_all\<close>, the three forms of \<open>intersect\<close>, \<open>subtract\<close> and \<open>merge\<close>. If bit numbers are
  below the width and, unless the width is a multiple of 64, no call asks for all bits, then no assertion fails, the
  invariant holds after them (no bit from \<open>width\<close> on is set), and \<open>is_set\<close> answers for every bit number as the
  set to which the same mathematical operations were applied. Otherwise the sequence fails an assertion.
\<close>

theorem bitmap_refines_set:
  assumes "bm_inv width b" and "list_all (op_args width) ps"
  shows "(list_all (op_asserts width) ps \<longrightarrow> (\<exists>b'. bm_calls width ps b = Some b' \<and> bm_inv width b' \<and>
      bm_bits b' = fold (bms.spec_op width) ps (bm_bits b) \<and>
      (\<forall>n < width. bm_is_set width n b' \<longleftrightarrow> n \<in> fold (bms.spec_op width) ps (bm_bits b)))) \<and>
    (\<not> list_all (op_asserts width) ps \<longrightarrow> bm_calls width ps b = None)"
  using bms.run_ops_refine [OF assms(1) ops_ok_split [OF assms(2)]] bms.isset_after [OF assms(1) ops_ok_split [OF assms(2)]]
  by (simp add: bm_calls_run)

theorem bitmap_refines_set_witness:
  "bm_inv 70 [5, 2] \<and>
   (\<exists>b'. bm_calls 70 [SetBit 69, Intersect [7, 2], ClearBit 0, SetPrefix 64] [5, 2] = Some b' \<and>
     bm_bits b' = fold (bms.spec_op 70) [SetBit 69, Intersect [7, 2], ClearBit 0, SetPrefix 64] (bm_bits [5, 2])) \<and>
   bm_calls 70 [SetBit 69, SetAll] [5, 2] = None"
proof -
  have 1: "bm_inv 70 [5, 2]" unfolding bm_inv_exec by code_simp
  have 2: "bm_inv 70 [7, 2]" unfolding bm_inv_exec by code_simp
  have n: "\<not> 64 dvd (70 :: nat)" by (simp add: dvd_eq_mod_eq_0)
  show ?thesis
    using bitmap_refines_set [OF 1, of "[SetBit 69, Intersect [7, 2], ClearBit 0, SetPrefix 64]"]
      bitmap_refines_set [OF 1, of "[SetBit 69, SetAll]"] 1 2 n
    by (auto simp: op_args_def op_asserts_def simp del: bm_calls.simps fold.simps)
qed

text \<open>
  \<open>bits_set\<close> returns the number of bits in the set, for every width an \<open>uint\<close> holds.
\<close>

theorem bits_set_card:
  assumes "bm_inv width b" and "width < 2 ^ 32"
  shows "unat (bits_set width b) = card (bm_bits b)"
proof -
  have l: "length b = ARRAY_ELEMENTS width" and s: "bm_bits b \<subseteq> {..<width}" using assms(1) by (auto simp: bm_inv_def)
  have "bits_set width b = word_of_nat (card (bm_bits b))"
    using bits_set_run [of "length b" b] l by (simp add: bits_set_def card_bm_bits)
  moreover have "card (bm_bits b) < 2 ^ 32"
    using card_mono [OF _ s] assms(2) by simp
  ultimately show ?thesis by (simp add: unat_of_nat take_bit_eq_mod)
qed

theorem bits_set_card_witness:
  "bm_inv 70 [5, 2] \<and> unat (bits_set 70 [5, 2]) = card (bm_bits [5, 2])"
proof -
  have "bm_inv 70 [5, 2]" unfolding bm_inv_exec by code_simp
  with bits_set_card [of 70 "[5, 2]"] show ?thesis by simp
qed

text \<open>
  Iterating over a bitmap always returns; it yields the set bits once each in
  increasing order and from then on \<open>BITMAP_END\<close>, which is \<open>width\<close>.
\<close>

theorem iterator_enumerates:
  assumes "bm_inv width b" and "0 < width"
  shows "iterator_run width b k (iterator_init b) =
    Some (take k (sorted_list_of_set (bm_bits b) @ replicate k width))"
  using iterator_run_rest [OF assms(1) iterator_init_rest(2) [OF assms]] iterator_init_rest(1) [OF assms] by simp

theorem iterator_enumerates_witness:
  "bm_inv 70 [5, 2] \<and> iterator_run 70 [5, 2] 5 (iterator_init [5, 2]) =
     Some (take 5 (sorted_list_of_set (bm_bits [5, 2]) @ replicate 5 70))"
proof -
  have "bm_inv 70 [5, 2]" unfolding bm_inv_exec by code_simp
  with iterator_enumerates [of 70 "[5, 2]" 5] show ?thesis by simp
qed

text \<open>
  The set tests decide the set relations: prefix, subset, overlap, emptiness and
  equality.
\<close>

theorem bitmap_tests_decide:
  assumes "bm_inv width b" and "bm_inv width c" and "0 < width" and "p \<le> width"
  shows "(matches_prefix width p b \<longleftrightarrow> bm_bits b = {..<p}) \<and>
    (bm_equal width b c \<longleftrightarrow> bm_bits b = bm_bits c) \<and>
    (is_subset width b c \<longleftrightarrow> bm_bits b \<subseteq> bm_bits c) \<and>
    (is_overlapping width b c \<longleftrightarrow> bm_bits b \<inter> bm_bits c \<noteq> {}) \<and>
    (is_clear_all width b \<longleftrightarrow> bm_bits b = {})"
  using matches_prefix_iff [of b width p] bm_equal_iff [of b width c] bms.subset [of width b c]
    bms.overlap [of width b c] bms.empty [of width b] assms by (simp add: bm_inv_def)

theorem bitmap_tests_decide_witness:
  "bm_inv 70 [5, 2] \<and> matches_prefix 70 3 [5, 2] = (bm_bits [5, 2] = {..<3})"
proof -
  have "bm_inv 70 [5, 2]" unfolding bm_inv_exec by code_simp
  with bitmap_tests_decide [of 70 "[5, 2]" "[5, 2]" 3] show ?thesis by simp
qed

lemma sixteen: "(16::nat) = Suc (Suc 14)"
  by simp

lemma print_digits_undefined: "print_digits num (BITS_PER_ELEMENT - 4) (BITS_PER_ELEMENT div 4) = None"
proof -
  have "print_digits num 60 (Suc (Suc j)) = None" for j by simp
  then have "print_digits num 60 16 = None" 
    by (simp only: sixteen)
  moreover have "BITS_PER_ELEMENT - 4 = 60" "BITS_PER_ELEMENT div 4 = 16" by (simp_all add: elem_defs)
  ultimately show ?thesis by (simp only:)
qed

lemma print_last_0_iff: "print_last b k = 0 \<longleftrightarrow> (\<forall>i. 0 < i \<and> i \<le> k \<longrightarrow> b ! i = 0)"
  by (induction k) (auto simp: le_Suc_eq)

text \<open>
  \<open>print\<close> is defined only when every element after the first is zero: with any bit
  from 64 on set, it shifts a 64-bit value by 64 (the shift starts at 60 and grows by 4).
\<close>

theorem bm_print_undefined:
  assumes "length b = ARRAY_ELEMENTS width" and "0 < width"
  shows "bm_print longlong2str width b = None \<longleftrightarrow> (\<exists>n \<in> bm_bits b. 64 \<le> n)"
proof -
  let ?last = "print_last b (ARRAY_ELEMENTS width - 1)"
  have ne: "b \<noteq> []" using ARRAY_ELEMENTS_pos [OF assms(2)] assms(1) by (cases b) simp_all
  have "bm_print longlong2str width b = None \<longleftrightarrow> ?last \<noteq> 0"
  proof (cases "?last")
    case 0
    then show ?thesis by (simp add: bm_print_def)
  next
    case (Suc l)
    then have "take ?last b = hd b # take l (tl b)" using ne by (cases b) auto
    then show ?thesis using Suc by (simp add: bm_print_def print_digits_undefined)
  qed
  also have "\<dots> \<longleftrightarrow> (\<exists>i. 0 < i \<and> i < length b \<and> b ! i \<noteq> 0)"
  proof -
    obtain m where "length b = Suc m" using ne by (cases b) auto
    moreover from this have "ARRAY_ELEMENTS width - 1 = m" using assms(1) by simp
    ultimately show ?thesis unfolding print_last_0_iff by (auto simp: less_Suc_eq_le)
  qed
  also have "\<dots> \<longleftrightarrow> (\<exists>n \<in> bm_bits b. 64 \<le> n)"
  proof
    assume "\<exists>i. 0 < i \<and> i < length b \<and> b ! i \<noteq> 0"
    then obtain i j where "0 < i" "i < length b" "j < 64" "64 * i + j \<in> bm_bits b"
      using elem_zero_iff by blast
    then show "\<exists>n \<in> bm_bits b. 64 \<le> n" by (intro bexI [of _ "64 * i + j"]) auto
  next
    assume "\<exists>n \<in> bm_bits b. 64 \<le> n"
    then obtain n where n: "n < 64 * length b" "bit (b ! (n div 64)) (n mod 64)" "64 \<le> n" by (auto simp: bm_bits_def)
    then have "0 < n div 64" "n div 64 < length b" "b ! (n div 64) \<noteq> 0"
      by (auto simp: div_less_iff_less_mult mult.commute div_greater_zero_iff)
    then show "\<exists>i. 0 < i \<and> i < length b \<and> b ! i \<noteq> 0" by blast
  qed
  finally show ?thesis .
qed

theorem bm_print_undefined_witness: "bm_print (\<lambda>w. [unat w]) 70 [5, 2] = None"
proof -
  have "\<exists>n \<in> bm_bits [5, 2]. 64 \<le> n" by (intro bexI [of _ 65]) (simp_all add: bm_bits_def)
  moreover have "ARRAY_ELEMENTS 70 = 2" by code_simp
  ultimately show ?thesis using bm_print_undefined [of "[5, 2]" 70] by simp
qed

end
