(* ===== verification/BaseList.thy ===== *)
theory BaseList
  imports Prelude
begin

text \<open>
  The singly linked list of \<open>sql_list.h\<close>: \<open>list_node\<close>, \<open>base_list\<close>, \<open>base_list_iterator\<close> and
  \<open>List\<close>. Nodes and list objects are addresses; a state holds the \<open>next\<close> and \<open>info\<close> fields of
  all nodes and the fields of all list objects, so that lists can share nodes as they do in
  the code. A \<open>list_node **\<close> is a \<open>slot\<close>: the \<open>first\<close> field of a list object or the \<open>next\<close> field
  of a node. \<open>new list_node\<close> takes its memory from the statement arena, which is not part of the
  sources: the node it returns is an argument, 0 when the arena is out of memory. Loops over a
  list need not end on a cyclic heap and are \<open>partial_function\<close>s; that they return on well-formed
  lists is proved.
\<close>

section \<open>State\<close>

type_synonym node = nat
type_synonym list_id = nat
type_synonym info = nat

definition NULL :: nat where
  "NULL = 0"

definition end_of_list :: node where
  "end_of_list = 1"

datatype slot = FirstOf list_id | NextOf node

record base_list =
  bl_first :: node
  bl_last :: slot
  bl_elements :: u32

record bheap =
  hnext :: "node \<Rightarrow> node"
  hinfo :: "node \<Rightarrow> info"
  hlist :: "list_id \<Rightarrow> base_list"

fun deref :: "bheap \<Rightarrow> slot \<Rightarrow> node" where
  "deref h (FirstOf l) = bl_first (hlist h l)"
| "deref h (NextOf n) = hnext h n"

fun assign :: "slot \<Rightarrow> node \<Rightarrow> bheap \<Rightarrow> bheap" where
  "assign (FirstOf l) v h = h\<lparr>hlist := (hlist h)(l := (hlist h l)\<lparr>bl_first := v\<rparr>)\<rparr>"
| "assign (NextOf n) v h = h\<lparr>hnext := (hnext h)(n := v)\<rparr>"

definition set_last :: "list_id \<Rightarrow> slot \<Rightarrow> bheap \<Rightarrow> bheap" where
  "set_last l s h = h\<lparr>hlist := (hlist h)(l := (hlist h l)\<lparr>bl_last := s\<rparr>)\<rparr>"

definition set_elements :: "list_id \<Rightarrow> u32 \<Rightarrow> bheap \<Rightarrow> bheap" where
  "set_elements l c h = h\<lparr>hlist := (hlist h)(l := (hlist h l)\<lparr>bl_elements := c\<rparr>)\<rparr>"

definition new_list_node :: "node \<Rightarrow> info \<Rightarrow> node \<Rightarrow> bheap \<Rightarrow> bheap" where
  "new_list_node n info_par next_par h =
     (if n = NULL then h
      else h\<lparr>hnext := (hnext h)(n := next_par), hinfo := (hinfo h)(n := info_par)\<rparr>)"

section \<open>Operations of \<open>base_list\<close>\<close>

definition bl_equal :: "bheap \<Rightarrow> list_id \<Rightarrow> list_id \<Rightarrow> bool" where
  "bl_equal h l rhs \<longleftrightarrow> bl_elements (hlist h l) = bl_elements (hlist h rhs) \<and>
     bl_first (hlist h l) = bl_first (hlist h rhs) \<and> bl_last (hlist h l) = bl_last (hlist h rhs)"

definition bl_assign :: "list_id \<Rightarrow> list_id \<Rightarrow> bheap \<Rightarrow> bheap" where
  "bl_assign l rhs h = h\<lparr>hlist := (hlist h)(l :=
     \<lparr>bl_first = bl_first (hlist h rhs),
      bl_last = (if bl_elements (hlist h rhs) \<noteq> 0 then bl_last (hlist h rhs) else FirstOf l),
      bl_elements = bl_elements (hlist h rhs)\<rparr>)\<rparr>"

definition bl_empty :: "list_id \<Rightarrow> bheap \<Rightarrow> bheap" where
  "bl_empty l h = h\<lparr>hlist := (hlist h)(l :=
     \<lparr>bl_first = end_of_list, bl_last = FirstOf l, bl_elements = 0\<rparr>)\<rparr>"

text \<open>The result \<open>True\<close> is the code's 1: out of memory.\<close>

definition bl_push_back :: "list_id \<Rightarrow> info \<Rightarrow> node \<Rightarrow> bheap \<Rightarrow> bool \<times> bheap" where
  "bl_push_back l info n h =
     (let h = new_list_node n info end_of_list h;
          h = assign (bl_last (hlist h l)) n h
      in if deref h (bl_last (hlist h l)) \<noteq> NULL
         then let h = set_last l (NextOf (deref h (bl_last (hlist h l)))) h;
                  h = set_elements l (bl_elements (hlist h l) + 1) h
              in (False, h)
         else (True, h))"

definition push_front_impl :: "list_id \<Rightarrow> node \<Rightarrow> bheap \<Rightarrow> bool \<times> bheap" where
  "push_front_impl l node h =
     (if node \<noteq> NULL
      then let h = (if bl_last (hlist h l) = FirstOf l then set_last l (NextOf node) h else h);
               h = assign (FirstOf l) node h;
               h = set_elements l (bl_elements (hlist h l) + 1) h
           in (False, h)
      else (True, h))"

definition bl_push_front :: "list_id \<Rightarrow> info \<Rightarrow> node \<Rightarrow> bheap \<Rightarrow> bool \<times> bheap" where
  "bl_push_front l info n h =
     push_front_impl l n (new_list_node n info (bl_first (hlist h l)) h)"

definition bl_remove :: "list_id \<Rightarrow> slot \<Rightarrow> bheap \<Rightarrow> bheap" where
  "bl_remove l prev h =
     (let node = hnext h (deref h prev);
          h = set_elements l (bl_elements (hlist h l) - 1) h;
          h = (if bl_elements (hlist h l) = 0 then set_last l (FirstOf l) h
               else if bl_last (hlist h l) = NextOf (deref h prev) then set_last l prev h else h)
      in assign prev node h)"

definition bl_is_empty :: "bheap \<Rightarrow> list_id \<Rightarrow> bool" where
  "bl_is_empty h l \<longleftrightarrow> bl_first (hlist h l) = end_of_list"

definition bl_append :: "list_id \<Rightarrow> list_id \<Rightarrow> bheap \<Rightarrow> bheap" where
  "bl_append l list h =
     (if bl_is_empty h list then h
      else if bl_is_empty h l then bl_assign l list h
      else let h = assign (bl_last (hlist h l)) (bl_first (hlist h list)) h;
               h = set_last l (bl_last (hlist h list)) h
           in set_elements l (bl_elements (hlist h l) + bl_elements (hlist h list)) h)"

definition bl_pop :: "list_id \<Rightarrow> bheap \<Rightarrow> info \<times> bheap" where
  "bl_pop l h =
     (if bl_first (hlist h l) = end_of_list then (NULL, h)
      else let tmp = bl_first (hlist h l);
               h = assign (FirstOf l) (hnext h tmp) h;
               h = set_elements l (bl_elements (hlist h l) - 1) h;
               h = (if bl_elements (hlist h l) = 0 then set_last l (FirstOf l) h else h)
           in (hinfo h tmp, h))"

text \<open>
  The loop of \<open>disjoin\<close>: the count of nodes kept, and the slot to cut at, or no slot when the
  loop returned at the end of the list.
\<close>

partial_function (option) disjoin_loop ::
    "(node \<Rightarrow> node) \<Rightarrow> node \<Rightarrow> slot \<Rightarrow> node \<Rightarrow> u32 \<Rightarrow> (u32 \<times> slot option) option" where
  "disjoin_loop nxt list_first prev node cnt =
     (if node \<noteq> end_of_list \<and> node \<noteq> list_first
      then if nxt node = end_of_list then Some (cnt + 1, None)
           else disjoin_loop nxt list_first (NextOf node) (nxt node) (cnt + 1)
      else Some (cnt, Some prev))"

definition bl_disjoin :: "list_id \<Rightarrow> list_id \<Rightarrow> bheap \<Rightarrow> bheap option" where
  "bl_disjoin l list h =
     (case disjoin_loop (hnext h) (bl_first (hlist h list)) (FirstOf l) (bl_first (hlist h l)) 0 of
        None \<Rightarrow> None
      | Some (cnt, None) \<Rightarrow> Some (set_elements l cnt h)
      | Some (cnt, Some prev) \<Rightarrow> Some (set_last l prev (assign prev end_of_list (set_elements l cnt h))))"

definition bl_prepend :: "list_id \<Rightarrow> list_id \<Rightarrow> bheap \<Rightarrow> bheap" where
  "bl_prepend l list h =
     (if bl_is_empty h list then h
      else let h = (if bl_is_empty h l then set_last l (bl_last (hlist h list)) h else h);
               h = assign (bl_last (hlist h list)) (bl_first (hlist h l)) h;
               h = assign (FirstOf l) (bl_first (hlist h list)) h
           in set_elements l (bl_elements (hlist h l) + bl_elements (hlist h list)) h)"

definition bl_swap :: "list_id \<Rightarrow> list_id \<Rightarrow> bheap \<Rightarrow> bheap" where
  "bl_swap l rhs h =
     (let rhs_last = bl_last (hlist h rhs);
          f = bl_first (hlist h l); e = bl_elements (hlist h l);
          h = assign (FirstOf l) (bl_first (hlist h rhs)) h;
          h = assign (FirstOf rhs) f h;
          h = set_elements l (bl_elements (hlist h rhs)) h;
          h = set_elements rhs e h;
          h = set_last rhs (if bl_last (hlist h l) = FirstOf l then FirstOf rhs else bl_last (hlist h l)) h
      in set_last l (if rhs_last = FirstOf rhs then FirstOf l else rhs_last) h)"

definition bl_last_node :: "bheap \<Rightarrow> list_id \<Rightarrow> node" where
  "bl_last_node h l = deref h (bl_last (hlist h l))"

definition bl_head :: "bheap \<Rightarrow> list_id \<Rightarrow> info" where
  "bl_head h l = hinfo h (bl_first (hlist h l))"

text \<open>A \<open>void **\<close> into a node is the node's address; 0 is the null pointer.\<close>

definition bl_head_ref :: "bheap \<Rightarrow> list_id \<Rightarrow> node" where
  "bl_head_ref h l = (if bl_first (hlist h l) \<noteq> end_of_list then bl_first (hlist h l) else NULL)"

partial_function (option) find_info :: "bheap \<Rightarrow> (info \<Rightarrow> info \<Rightarrow> bool) \<Rightarrow> info \<Rightarrow> node \<Rightarrow> node option" where
  "find_info h eq info node =
     (if node \<noteq> end_of_list \<and> \<not> eq (hinfo h node) info then find_info h eq info (hnext h node)
      else Some node)"

definition bl_add_unique ::
    "list_id \<Rightarrow> info \<Rightarrow> (info \<Rightarrow> info \<Rightarrow> bool) \<Rightarrow> node \<Rightarrow> bheap \<Rightarrow> (bool \<times> bheap) option" where
  "bl_add_unique l info eq n h =
     (case find_info h eq info (bl_first (hlist h l)) of
        None \<Rightarrow> None
      | Some node \<Rightarrow> Some (if node = end_of_list then bl_push_back l info n h else (True, h)))"

fun elem_loop :: "bheap \<Rightarrow> nat \<Rightarrow> node \<Rightarrow> info \<Rightarrow> info" where
  "elem_loop h 0 node data = data"
| "elem_loop h (Suc k) node data =
     (if node = end_of_list then NULL else elem_loop h k (hnext h node) (hinfo h node))"

definition bl_elem :: "bheap \<Rightarrow> list_id \<Rightarrow> nat \<Rightarrow> info" where
  "bl_elem h l n = elem_loop h (n + 1) (bl_first (hlist h l)) NULL"

partial_function (option) check_loop :: "bheap \<Rightarrow> node \<Rightarrow> u32 \<Rightarrow> (node \<times> u32) option option" where
  "check_loop h node cnt =
     (if hnext h node \<noteq> end_of_list
      then if hinfo h node = NULL then Some None else check_loop h (hnext h node) (cnt + 1)
      else Some (Some (node, cnt)))"

definition check_list :: "bheap \<Rightarrow> list_id \<Rightarrow> bool option" where
  "check_list h l =
     (case check_loop h (bl_first (hlist h l)) 0 of
        None \<Rightarrow> None
      | Some None \<Rightarrow> Some False
      | Some (Some (node, cnt)) \<Rightarrow>
          Some (if bl_last (hlist h l) \<noteq> NextOf node then False
                else if cnt + 1 \<noteq> bl_elements (hlist h l) then False else True))"

definition bl_after :: "list_id \<Rightarrow> info \<Rightarrow> node \<Rightarrow> node \<Rightarrow> bheap \<Rightarrow> bheap" where
  "bl_after l info node new_node h =
     (let h = new_list_node new_node info (hnext h node) h;
          h = assign (NextOf node) new_node h;
          h = set_elements l (bl_elements (hlist h l) + 1) h
      in if bl_last (hlist h l) = NextOf node then set_last l (NextOf new_node) h else h)"

section \<open>\<open>base_list_iterator\<close>\<close>

record bl_iter =
  itr_list :: list_id
  itr_el :: slot
  itr_prev :: "slot option"
  itr_current :: node

definition itr_init :: "list_id \<Rightarrow> bl_iter" where
  "itr_init l = \<lparr>itr_list = l, itr_el = FirstOf l, itr_prev = None, itr_current = NULL\<rparr>"

definition itr_next :: "bheap \<Rightarrow> bl_iter \<Rightarrow> info \<times> bl_iter" where
  "itr_next h it =
     (let c = deref h (itr_el it)
      in (hinfo h c, it\<lparr>itr_prev := Some (itr_el it), itr_current := c, itr_el := NextOf c\<rparr>))"

definition itr_peek :: "bheap \<Rightarrow> bl_iter \<Rightarrow> info" where
  "itr_peek h it = hinfo h (deref h (itr_el it))"

definition itr_next_fast :: "bheap \<Rightarrow> bl_iter \<Rightarrow> info \<times> bl_iter" where
  "itr_next_fast h it = (let tmp = deref h (itr_el it) in (hinfo h tmp, it\<lparr>itr_el := NextOf tmp\<rparr>))"

definition itr_rewind :: "bl_iter \<Rightarrow> bl_iter" where
  "itr_rewind it = it\<lparr>itr_el := FirstOf (itr_list it)\<rparr>"

definition set_info :: "node \<Rightarrow> info \<Rightarrow> bheap \<Rightarrow> bheap" where
  "set_info n v h = h\<lparr>hinfo := (hinfo h)(n := v)\<rparr>"

definition itr_replace :: "bl_iter \<Rightarrow> info \<Rightarrow> bheap \<Rightarrow> info \<times> bheap" where
  "itr_replace it element h = (hinfo h (itr_current it), set_info (itr_current it) element h)"

definition itr_replace_list :: "bl_iter \<Rightarrow> list_id \<Rightarrow> bheap \<Rightarrow> info \<times> bheap" where
  "itr_replace_list it new_list h =
     (let cur = itr_current it; l = itr_list it; ret_value = hinfo h cur
      in if bl_is_empty h new_list then (ret_value, h)
         else let h = assign (bl_last (hlist h new_list)) (hnext h cur) h;
                  h = set_info cur (hinfo h (bl_first (hlist h new_list))) h;
                  h = assign (NextOf cur) (hnext h (bl_first (hlist h new_list))) h;
                  h = (if bl_last (hlist h l) = NextOf cur \<and> bl_elements (hlist h new_list) > 1
                       then set_last l (bl_last (hlist h new_list)) h else h)
              in (ret_value, set_elements l (bl_elements (hlist h l) + (bl_elements (hlist h new_list) - 1)) h))"

definition itr_remove :: "bl_iter \<Rightarrow> bheap \<Rightarrow> (bl_iter \<times> bheap) option" where
  "itr_remove it h =
     (case itr_prev it of
        None \<Rightarrow> None
      | Some p \<Rightarrow> Some (it\<lparr>itr_el := p, itr_current := NULL\<rparr>, bl_remove (itr_list it) p h))"

definition itr_after :: "bl_iter \<Rightarrow> info \<Rightarrow> node \<Rightarrow> bheap \<Rightarrow> bl_iter \<times> bheap" where
  "itr_after it element new_node h =
     (let h = bl_after (itr_list it) element (itr_current it) new_node h;
          c = hnext h (itr_current it)
      in (it\<lparr>itr_current := c, itr_el := NextOf c\<rparr>, h))"

definition itr_is_last :: "bl_iter \<Rightarrow> bool" where
  "itr_is_last it \<longleftrightarrow> itr_el it = NextOf end_of_list"

definition itr_at_end :: "bl_iter \<Rightarrow> bool" where
  "itr_at_end it \<longleftrightarrow> itr_current it = end_of_list"

definition itr_sublist :: "bl_iter \<Rightarrow> list_id \<Rightarrow> u32 \<Rightarrow> bheap \<Rightarrow> bheap" where
  "itr_sublist it ls elm h =
     (let h = assign (FirstOf ls) (deref h (itr_el it)) h;
          h = set_last ls (bl_last (hlist h (itr_list it))) h
      in set_elements ls elm h)"

section \<open>Reads of updated states\<close>

lemma assign_reads [ptr_simps]:
  "hnext (assign s v h) x = (if s = NextOf x then v else hnext h x)"
  "hinfo (assign s v h) = hinfo h"
  "bl_first (hlist (assign s v h) k) = (if s = FirstOf k then v else bl_first (hlist h k))"
  "bl_last (hlist (assign s v h) k) = bl_last (hlist h k)"
  "bl_elements (hlist (assign s v h) k) = bl_elements (hlist h k)"
  by (cases s; simp)+

lemma set_last_reads [ptr_simps]:
  "hnext (set_last l s h) = hnext h" "hinfo (set_last l s h) = hinfo h"
  "bl_first (hlist (set_last l s h) k) = bl_first (hlist h k)"
  "bl_last (hlist (set_last l s h) k) = (if k = l then s else bl_last (hlist h k))"
  "bl_elements (hlist (set_last l s h) k) = bl_elements (hlist h k)"
  by (simp_all add: set_last_def)

lemma set_elements_reads [ptr_simps]:
  "hnext (set_elements l c h) = hnext h" "hinfo (set_elements l c h) = hinfo h"
  "bl_first (hlist (set_elements l c h) k) = bl_first (hlist h k)"
  "bl_last (hlist (set_elements l c h) k) = bl_last (hlist h k)"
  "bl_elements (hlist (set_elements l c h) k) = (if k = l then c else bl_elements (hlist h k))"
  by (simp_all add: set_elements_def)

lemma new_list_node_reads [ptr_simps]:
  "hnext (new_list_node n i p h) x = (if n \<noteq> NULL \<and> x = n then p else hnext h x)"
  "hinfo (new_list_node n i p h) x = (if n \<noteq> NULL \<and> x = n then i else hinfo h x)"
  "hlist (new_list_node n i p h) = hlist h"
  by (simp_all add: new_list_node_def)

lemma set_info_reads [ptr_simps]:
  "hnext (set_info n v h) = hnext h" "hlist (set_info n v h) = hlist h"
  "hinfo (set_info n v h) x = (if x = n then v else hinfo h x)"
  by (simp_all add: set_info_def)

lemma base_list_reads [ptr_simps]:
  "hnext (bl_empty l h) = hnext h" "hinfo (bl_empty l h) = hinfo h"
  "hlist (bl_empty l h) k = (if k = l then \<lparr>bl_first = end_of_list, bl_last = FirstOf l, bl_elements = 0\<rparr> else hlist h k)"
  "hnext (bl_assign l r h) = hnext h" "hinfo (bl_assign l r h) = hinfo h"
  "bl_first (hlist (bl_assign l r h) k) = (if k = l then bl_first (hlist h r) else bl_first (hlist h k))"
  "bl_elements (hlist (bl_assign l r h) k) = (if k = l then bl_elements (hlist h r) else bl_elements (hlist h k))"
  "bl_last (hlist (bl_assign l r h) k) = (if k = l then if bl_elements (hlist h r) \<noteq> 0 then bl_last (hlist h r)
     else FirstOf l else bl_last (hlist h k))"
  by (simp_all add: bl_empty_def bl_assign_def)

declare deref.simps [ptr_simps]

section \<open>Chains of nodes\<close>

fun chain :: "(node \<Rightarrow> node) \<Rightarrow> node \<Rightarrow> node list \<Rightarrow> node \<Rightarrow> bool" where
  "chain f p [] q \<longleftrightarrow> p = q"
| "chain f p (x # xs) q \<longleftrightarrow> p = x \<and> chain f (f x) xs q"

lemma chain_append: "chain f p (xs @ ys) q \<longleftrightarrow> (\<exists>m. chain f p xs m \<and> chain f m ys q)"
  by (induction xs arbitrary: p) auto

lemma chain_snoc [simp]: "chain f p (xs @ [a]) q \<longleftrightarrow> chain f p xs a \<and> f a = q"
  by (auto simp: chain_append)

lemma chain_cong: "(\<And>x. x \<in> set xs \<Longrightarrow> f x = g x) \<Longrightarrow> chain f p xs q \<longleftrightarrow> chain g p xs q"
  by (induction xs arbitrary: p) auto

lemma chain_next_last: "chain f p xs q \<Longrightarrow> xs \<noteq> [] \<Longrightarrow> f (last xs) = q"
  by (cases xs rule: rev_cases) auto

lemma chain_hd: "chain f p xs q \<Longrightarrow> p = (if xs = [] then q else hd xs)"
  by (cases xs) auto

lemma chain_unique: "chain f p xs q \<Longrightarrow> chain f p ys q \<Longrightarrow> q \<notin> set xs \<Longrightarrow> q \<notin> set ys \<Longrightarrow> xs = ys"
proof (induction xs arbitrary: p ys)
  case Nil
  then show ?case by (cases ys) auto
next
  case (Cons x xs)
  then show ?case by (cases ys) auto
qed

section \<open>Well-formed lists\<close>

definition is_node :: "node \<Rightarrow> bool" where
  "is_node n \<longleftrightarrow> n \<noteq> NULL \<and> n \<noteq> end_of_list"

definition tail_slot :: "list_id \<Rightarrow> node list \<Rightarrow> slot" where
  "tail_slot l ns = (if ns = [] then FirstOf l else NextOf (last ns))"

text \<open>
  The invariant the class documents in \<open>check_list\<close>: the nodes form a chain that ends in
  \<open>end_of_list\<close>, \<open>last\<close> is the slot that holds \<open>end_of_list\<close>, and \<open>elements\<close> counts the nodes.
\<close>

definition is_list :: "bheap \<Rightarrow> list_id \<Rightarrow> node list \<Rightarrow> bool" where
  "is_list h l ns \<longleftrightarrow> chain (hnext h) (bl_first (hlist h l)) ns end_of_list \<and>
     (\<forall>n \<in> set ns. is_node n) \<and> distinct ns \<and> bl_last (hlist h l) = tail_slot l ns \<and>
     bl_elements (hlist h l) = of_nat (length ns) \<and> length ns < 2 ^ 32"

lemmas is_node_simps = is_node_def NULL_def end_of_list_def

lemma node_facts: "is_node n \<Longrightarrow> n \<noteq> NULL" "is_node n \<Longrightarrow> n \<noteq> end_of_list" "end_of_list \<noteq> NULL" "\<not> is_node end_of_list"
  by (simp_all add: is_node_simps)

lemma is_listI:
  assumes "chain (hnext h) (bl_first (hlist h l)) ns end_of_list" and "\<And>n. n \<in> set ns \<Longrightarrow> is_node n" and "distinct ns"
    and "bl_last (hlist h l) = tail_slot l ns" and "bl_elements (hlist h l) = of_nat (length ns)"
    and "length ns < 2 ^ 32"
  shows "is_list h l ns"
  using assms by (auto simp: is_list_def)

lemma is_listD:
  assumes "is_list h l ns"
  shows "chain (hnext h) (bl_first (hlist h l)) ns end_of_list" and "\<And>n. n \<in> set ns \<Longrightarrow> is_node n" and "distinct ns"
    and "bl_last (hlist h l) = tail_slot l ns" and "bl_elements (hlist h l) = of_nat (length ns)"
    and "length ns < 2 ^ 32" and "end_of_list \<notin> set ns" and "NULL \<notin> set ns"
  using assms by (auto simp: is_list_def is_node_def)

lemma is_list_unique: "is_list h l ns \<Longrightarrow> is_list h l ms \<Longrightarrow> ns = ms"
  by (meson chain_unique is_listD(1,7))

lemma is_list_first: "is_list h l ns \<Longrightarrow> bl_first (hlist h l) = (if ns = [] then end_of_list else hd ns)"
  using chain_hd is_listD(1) by blast

lemma is_list_empty_iff: "is_list h l ns \<Longrightarrow> bl_is_empty h l \<longleftrightarrow> ns = []"
  using is_list_first [of h l ns] is_listD(7) [of h l ns] by (cases ns) (auto simp: bl_is_empty_def)

text \<open>A list whose own fields and nodes are left alone stays a list.\<close>

lemma is_list_frame:
  assumes "is_list h l ns" and "\<And>n. n \<in> set ns \<Longrightarrow> hnext h' n = hnext h n"
    and "bl_first (hlist h' l) = bl_first (hlist h l)" and "bl_last (hlist h' l) = bl_last (hlist h l)"
    and "bl_elements (hlist h' l) = bl_elements (hlist h l)"
  shows "is_list h' l ns"
  using assms chain_cong [of ns "hnext h'" "hnext h"] by (simp add: is_list_def)

lemma of_nat_u32_0: "n < 2 ^ 32 \<Longrightarrow> (of_nat n :: u32) = 0 \<longleftrightarrow> n = 0"
  using word_of_nat_eq_0_iff [where 'a = 32, of n] nat_dvd_not_less [of n "2 ^ 32"] by (cases "n = 0") auto

section \<open>The operations on well-formed lists\<close>

lemma bl_empty_list: "is_list (bl_empty l h) l []"
  by (simp add: is_list_def tail_slot_def ptr_simps)

lemma push_back_list:
  assumes "is_list h l ns" and "is_node n" and "n \<notin> set ns" and "length ns + 1 < 2 ^ 32"
  shows "fst (bl_push_back l v n h) = False" and "is_list (snd (bl_push_back l v n h)) l (ns @ [n])"
    and "hinfo (snd (bl_push_back l v n h)) = (hinfo h)(n := v)"
proof -
  note L = is_listD [OF assms(1)]
  have d: "deref (assign s n h') s = n" for s h' by (cases s) simp_all
  have n: "n \<noteq> NULL" "n \<noteq> end_of_list" using assms(2) by (simp_all add: node_facts)
  let ?h = "snd (bl_push_back l v n h)"
  show "fst (bl_push_back l v n h) = False" using n by (simp add: bl_push_back_def Let_def ptr_simps d)
  show "hinfo ?h = (hinfo h)(n := v)" using n by (auto simp: bl_push_back_def Let_def ptr_simps d)
  have nxt: "hnext ?h x = (if tail_slot l ns = NextOf x then n else if x = n then end_of_list else hnext h x)" for x
    using n L(4) by (simp add: bl_push_back_def Let_def ptr_simps d)
  have fst': "bl_first (hlist ?h l) = (if ns = [] then n else bl_first (hlist h l))"
    using n L(4) by (simp add: bl_push_back_def Let_def ptr_simps d tail_slot_def)
  show "is_list ?h l (ns @ [n])"
  proof (rule is_listI)
    show "chain (hnext ?h) (bl_first (hlist ?h l)) (ns @ [n]) end_of_list"
    proof (cases ns rule: rev_cases)
      case Nil
      then show ?thesis using fst' nxt by (simp add: tail_slot_def)
    next
      case (snoc ms a)
      have "chain (hnext ?h) (bl_first (hlist h l)) ms a = chain (hnext h) (bl_first (hlist h l)) ms a"
        using snoc L(3) assms(3) nxt by (intro chain_cong) (auto simp: tail_slot_def)
      then show ?thesis using snoc L(1) assms(3) fst' nxt by (auto simp: tail_slot_def chain_append)
    qed
  qed (use L assms(2-4) n in \<open>auto simp: bl_push_back_def Let_def ptr_simps d tail_slot_def\<close>)
qed

lemma push_front_list:
  assumes "is_list h l ns" and "is_node n" and "n \<notin> set ns" and "length ns + 1 < 2 ^ 32"
  shows "fst (bl_push_front l v n h) = False" and "is_list (snd (bl_push_front l v n h)) l (n # ns)"
    and "hinfo (snd (bl_push_front l v n h)) = (hinfo h)(n := v)"
proof -
  note L = is_listD [OF assms(1)]
  have n: "n \<noteq> NULL" "n \<noteq> end_of_list" using assms(2) by (simp_all add: node_facts)
  let ?h = "snd (bl_push_front l v n h)"
  note defs = bl_push_front_def push_front_impl_def Let_def
  show "fst (bl_push_front l v n h) = False" using n by (simp add: defs)
  show "hinfo ?h = (hinfo h)(n := v)" using n by (auto simp: defs ptr_simps)
  have nxt: "hnext ?h x = (if x = n then bl_first (hlist h l) else hnext h x)" for x
    using n by (simp add: defs ptr_simps)
  have "chain (hnext ?h) (bl_first (hlist h l)) ns end_of_list = chain (hnext h) (bl_first (hlist h l)) ns end_of_list"
    using assms(3) nxt by (intro chain_cong) auto
  then show "is_list ?h l (n # ns)"
    using L assms n nxt by (intro is_listI) (auto simp: defs ptr_simps tail_slot_def)
qed

lemma pop_list:
  assumes "is_list h l (n # ns)"
  shows "fst (bl_pop l h) = hinfo h n" and "is_list (snd (bl_pop l h)) l ns" and "hinfo (snd (bl_pop l h)) = hinfo h"
    and "hnext (snd (bl_pop l h)) = hnext h"
proof -
  note L = is_listD [OF assms]
  have f: "bl_first (hlist h l) = n" "n \<noteq> end_of_list" using L(1,7) by auto
  let ?h = "snd (bl_pop l h)"
  have e: "(of_nat (length ns) :: u32) = 0 \<longleftrightarrow> ns = []" using of_nat_u32_0 [of "length ns"] L(6) by simp
  note defs = bl_pop_def Let_def
  show "fst (bl_pop l h) = hinfo h n" using f by (simp add: defs ptr_simps)
  show "hinfo ?h = hinfo h" using f by (simp add: defs ptr_simps)
  show nxt: "hnext ?h = hnext h" using f by (auto simp: defs ptr_simps)
  show "is_list ?h l ns"
    by (rule is_listI; (unfold nxt)?) (use L f e in \<open>auto simp: defs ptr_simps tail_slot_def\<close>)
qed

lemma pop_empty: "is_list h l [] \<Longrightarrow> bl_pop l h = (NULL, h)"
  using is_list_first [of h l "[]"] by (simp add: bl_pop_def)

end
