(* ===== verification/SeqStore.thy ===== *)
theory SeqStore
  imports Prelude
begin

text \<open>
  The contract shared by the linked lists of the server headers: a store that represents a
  sequence, to which elements are added at either end and from which the first is taken.
  \<open>rep\<close> relates a state to the sequence it holds, \<open>ok\<close> says when an element may be added (it is
  not in the list already, the counter has room), \<open>val\<close> is what taking an element returns and
  \<open>none\<close> what taking from an empty list returns.
\<close>

datatype 'e seq_op = PushBack 'e | PushFront 'e | Pop

fun seq_run :: "('e \<Rightarrow> 'h \<Rightarrow> 'h) \<Rightarrow> ('e \<Rightarrow> 'h \<Rightarrow> 'h) \<Rightarrow> ('h \<Rightarrow> 'v \<times> 'h) \<Rightarrow> 'e seq_op list \<Rightarrow> 'h \<Rightarrow> 'v list \<times> 'h" where
  "seq_run pb pf pp [] h = ([], h)"
| "seq_run pb pf pp (PushBack e # ops) h = seq_run pb pf pp ops (pb e h)"
| "seq_run pb pf pp (PushFront e # ops) h = seq_run pb pf pp ops (pf e h)"
| "seq_run pb pf pp (Pop # ops) h =
     (let (v, h) = pp h; (vs, h) = seq_run pb pf pp ops h in (v # vs, h))"

fun spec_pop :: "('e \<Rightarrow> 'v) \<Rightarrow> 'v \<Rightarrow> 'e list \<Rightarrow> 'v \<times> 'e list" where
  "spec_pop val none [] = (none, [])"
| "spec_pop val none (x # xs) = (val x, xs)"

definition spec_run :: "('e \<Rightarrow> 'v) \<Rightarrow> 'v \<Rightarrow> 'e seq_op list \<Rightarrow> 'e list \<Rightarrow> 'v list \<times> 'e list" where
  "spec_run val none = seq_run (\<lambda>e xs. xs @ [e]) (\<lambda>e xs. e # xs) (spec_pop val none)"

fun ops_ok :: "('e list \<Rightarrow> 'e \<Rightarrow> bool) \<Rightarrow> 'e seq_op list \<Rightarrow> 'e list \<Rightarrow> bool" where
  "ops_ok ok [] xs \<longleftrightarrow> True"
| "ops_ok ok (PushBack e # ops) xs \<longleftrightarrow> ok xs e \<and> ops_ok ok ops (xs @ [e])"
| "ops_ok ok (PushFront e # ops) xs \<longleftrightarrow> ok xs e \<and> ops_ok ok ops (e # xs)"
| "ops_ok ok (Pop # ops) xs \<longleftrightarrow> ops_ok ok ops (tl xs)"

lemma spec_pop_tl: "snd (spec_pop val none xs) = tl xs"
  by (cases xs) simp_all

lemma seq_run_drain:
  "seq_run pb pf (spec_pop val none) (replicate (length xs) Pop) xs = (map val xs, [])"
  by (induction xs) simp_all

locale seq_store =
  fixes rep :: "'h \<Rightarrow> 'e list \<Rightarrow> bool" and ok :: "'e list \<Rightarrow> 'e \<Rightarrow> bool"
    and push_back push_front :: "'e \<Rightarrow> 'h \<Rightarrow> 'h" and pop :: "'h \<Rightarrow> 'v \<times> 'h"
    and val :: "'e \<Rightarrow> 'v" and none :: 'v
  assumes push_back: "rep h xs \<Longrightarrow> ok xs e \<Longrightarrow> rep (push_back e h) (xs @ [e])"
    and push_front: "rep h xs \<Longrightarrow> ok xs e \<Longrightarrow> rep (push_front e h) (e # xs)"
    and pop_Cons: "rep h (x # xs) \<Longrightarrow> fst (pop h) = val x \<and> rep (snd (pop h)) xs"
    and pop_Nil: "rep h [] \<Longrightarrow> fst (pop h) = none \<and> rep (snd (pop h)) []"
begin

lemma pop_spec: "rep h xs \<Longrightarrow> fst (pop h) = fst (spec_pop val none xs) \<and> rep (snd (pop h)) (tl xs)"
  using pop_Cons pop_Nil by (cases xs) auto

lemma run_refines:
  "rep h xs \<Longrightarrow> ops_ok ok ops xs \<Longrightarrow>
     fst (seq_run push_back push_front pop ops h) = fst (spec_run val none ops xs) \<and>
     rep (snd (seq_run push_back push_front pop ops h)) (snd (spec_run val none ops xs))"
proof (induction ops arbitrary: h xs)
  case Nil
  then show ?case by (simp add: spec_run_def)
next
  case (Cons p ops)
  show ?case
  proof (cases p)
    case Pop
    have "rep (snd (pop h)) (tl xs)" "fst (pop h) = fst (spec_pop val none xs)"
      using pop_spec [OF Cons.prems(1)] by auto
    then show ?thesis using Cons.IH [of "snd (pop h)" "tl xs"] Cons.prems(2) Pop spec_pop_tl [of val none xs]
      by (auto simp: spec_run_def case_prod_beta Let_def)
  qed (use Cons push_back push_front in \<open>auto simp: spec_run_def\<close>)
qed

lemma drain: "rep h xs \<Longrightarrow>
  fst (seq_run push_back push_front pop (replicate (length xs) Pop) h) = map val xs"
proof -
  have "ops_ok ok (replicate n Pop) ys" for n ys by (induction n arbitrary: ys) simp_all
  then show "rep h xs \<Longrightarrow> ?thesis"
    using run_refines [of h xs "replicate (length xs) Pop"] by (simp add: spec_run_def seq_run_drain)
qed

end

end
