(* ===== verification/BaseListOps.thy ===== *)
theory BaseListOps
  imports BaseList SeqStore
begin

text \<open>
  Correctness of the \<open>base_list\<close> operations that relink nodes or walk the list: removal,
  concatenation, cutting, swapping, insertion and replacement through an iterator, search and
  the self check; each as an equation on the sequence of nodes the list holds.
\<close>

section \<open>Slots inside a list\<close>

lemma deref_tail_slot:
  assumes "chain (hnext h) (bl_first (hlist h l)) (xs @ ys) q"
  shows "deref h (tail_slot l xs) = (if ys = [] then q else hd ys)"
proof -
  obtain m where m: "chain (hnext h) (bl_first (hlist h l)) xs m" "chain (hnext h) m ys q"
    using assms by (auto simp: chain_append)
  have "deref h (tail_slot l xs) = m"
    using m(1) chain_next_last [OF m(1)] by (cases "xs = []") (auto simp: tail_slot_def)
  then show ?thesis using chain_hd [OF m(2)] by simp
qed

text \<open>Writing the slot behind a prefix of a list keeps the prefix and redirects its end.\<close>

lemma chain_redirect:
  assumes "chain f p xs m" and "distinct xs" and "\<And>x. x \<in> set xs \<Longrightarrow> g x = (if x = last xs then q else f x)"
    and "p' = (if xs = [] then q else p)"
  shows "chain g p' xs q"
proof (cases xs rule: rev_cases)
  case Nil
  then show ?thesis using assms(4) by simp
next
  case (snoc ys a)
  have "chain g p ys a = chain f p ys a" using snoc assms(2,3) by (intro chain_cong) auto
  then show ?thesis using snoc assms by auto
qed

lemma chain_keep: "chain f p xs q \<Longrightarrow> (\<And>x. x \<in> set xs \<Longrightarrow> g x = f x) \<Longrightarrow> chain g p xs q"
  using chain_cong [of xs g f p q] by simp

lemma last_notin: "distinct (xs @ ys) \<Longrightarrow> x \<in> set ys \<Longrightarrow> xs \<noteq> [] \<Longrightarrow> x \<noteq> last xs"
  by (auto dest: last_in_set)

lemma last_disjoint: "set xs \<inter> set ys = {} \<Longrightarrow> xs \<noteq> [] \<Longrightarrow> last xs \<notin> set ys"
  using last_in_set [of xs] by blast

lemma tail_slot_eq_NextOf: "tail_slot l xs = NextOf x \<longleftrightarrow> xs \<noteq> [] \<and> x = last xs"
  by (auto simp: tail_slot_def)

lemma tail_slot_eq_FirstOf: "tail_slot l xs = FirstOf k \<longleftrightarrow> xs = [] \<and> k = l"
  by (auto simp: tail_slot_def)

lemmas slot_eqs = tail_slot_eq_NextOf tail_slot_eq_FirstOf

lemma assign_tail_chain:
  assumes "chain (hnext h) (bl_first (hlist h l)) xs m" and "distinct xs"
    and "\<And>x. x \<in> set xs \<Longrightarrow> hnext h' x = hnext (assign (tail_slot l xs) q h) x"
    and "bl_first (hlist h' l) = bl_first (hlist (assign (tail_slot l xs) q h) l)"
  shows "chain (hnext h') (bl_first (hlist h' l)) xs q"
  by (rule chain_redirect [OF assms(1,2)]) (use assms(3,4) in \<open>auto simp: ptr_simps slot_eqs\<close>)

section \<open>Removing and inserting\<close>

lemma remove_list:
  assumes "is_list h l (xs @ n # ys)"
  shows "is_list (bl_remove l (tail_slot l xs) h) l (xs @ ys)"
    and "hinfo (bl_remove l (tail_slot l xs) h) = hinfo h"
proof -
  note L = is_listD [OF assms]
  let ?h = "bl_remove l (tail_slot l xs) h" and ?v = "hnext h n"
  have n: "deref h' (tail_slot l xs) = n"
    if "hnext h' = hnext h" "bl_first (hlist h' l) = bl_first (hlist h l)" for h'
    using deref_tail_slot [of h' l xs "n # ys" end_of_list] L(1) that by simp
  obtain m where m: "chain (hnext h) (bl_first (hlist h l)) xs m" "m = n" "chain (hnext h) ?v ys end_of_list"
    using L(1) by (auto simp: chain_append)
  have e: "(of_nat (length (xs @ ys)) :: u32) = 0 \<longleftrightarrow> xs @ ys = []"
    using of_nat_u32_0 [of "length (xs @ ys)"] L(6) by simp
  show "hinfo ?h = hinfo h" by (simp add: bl_remove_def Let_def ptr_simps)
  have nxt: "hnext ?h x = (if tail_slot l xs = NextOf x then ?v else hnext h x)" for x
    by (simp add: bl_remove_def Let_def ptr_simps n)
  have cnt: "bl_elements (hlist ?h l) = of_nat (length (xs @ ys))"
    using L(5) by (simp add: bl_remove_def Let_def ptr_simps)
  have pre: "chain (hnext ?h) (bl_first (hlist ?h l)) xs ?v"
    by (rule assign_tail_chain [OF m(1)]) (use L(3) in \<open>auto simp: bl_remove_def Let_def ptr_simps n\<close>)
  have post: "chain (hnext ?h) ?v ys end_of_list"
    by (rule chain_keep [OF m(3)]) (use L(3) last_notin [of xs ys] nxt in \<open>auto simp: slot_eqs\<close>)
  have lst: "bl_last (hlist ?h l) = tail_slot l (xs @ ys)"
  proof (cases "xs @ ys = []")
    case True
    then show ?thesis using L(5) by (simp add: bl_remove_def Let_def ptr_simps tail_slot_def)
  next
    case False
    then have "bl_elements (hlist h l) - 1 \<noteq> 0" using e L(5) by simp
    then have "bl_last (hlist ?h l) = (if bl_last (hlist h l) = NextOf n then tail_slot l xs else bl_last (hlist h l))"
      by (simp add: bl_remove_def Let_def ptr_simps n)
    then show ?thesis using L(3,4) by (auto simp: tail_slot_def)
  qed
  show "is_list ?h l (xs @ ys)"
    by (rule is_listI) (use L pre post lst cnt in \<open>auto simp: chain_append\<close>)
qed

lemma after_list:
  assumes "is_list h l (xs @ n # ys)" and "is_node m" and "m \<notin> set (xs @ n # ys)" and "length (xs @ n # ys) + 1 < 2 ^ 32"
  shows "is_list (bl_after l v n m h) l (xs @ n # m # ys)" and "hinfo (bl_after l v n m h) = (hinfo h)(m := v)"
proof -
  note L = is_listD [OF assms(1)]
  let ?h = "bl_after l v n m h"
  have m: "m \<noteq> NULL" using assms(2) by (simp add: node_facts)
  show "hinfo ?h = (hinfo h)(m := v)" using m by (auto simp: bl_after_def Let_def ptr_simps)
  have nxt: "hnext ?h x = (if x = n then m else if x = m then hnext h n else hnext h x)" for x
    using m by (simp add: bl_after_def Let_def ptr_simps)
  have f: "bl_first (hlist ?h l) = bl_first (hlist h l)" by (simp add: bl_after_def Let_def ptr_simps)
  have 1: "chain (hnext h) (bl_first (hlist h l)) xs n" and 2: "chain (hnext h) (hnext h n) ys end_of_list"
    using L(1) by (auto simp: chain_append)
  have "chain (hnext ?h) (bl_first (hlist h l)) xs n"
    by (rule chain_keep [OF 1]) (use L(3) assms(3) nxt in auto)
  moreover have "chain (hnext ?h) (hnext h n) ys end_of_list"
    by (rule chain_keep [OF 2]) (use L(3) assms(3) nxt in auto)
  ultimately have c: "chain (hnext ?h) (bl_first (hlist ?h l)) (xs @ n # m # ys) end_of_list"
    using f nxt assms(3) by (auto simp: chain_append)
  show "is_list ?h l (xs @ n # m # ys)"
    by (rule is_listI) (use L assms c in \<open>auto simp: bl_after_def Let_def ptr_simps tail_slot_def\<close>)
qed

section \<open>Concatenating, cutting and swapping\<close>

lemma two_lists_bound: "length (xs @ ys) < 2 ^ 32 \<Longrightarrow> of_nat (length xs) + of_nat (length ys) = (of_nat (length (xs @ ys)) :: u32)"
  by simp

lemma append_list:
  assumes "is_list h l xs" and "is_list h k ys" and "l \<noteq> k" and "set xs \<inter> set ys = {}" and "length (xs @ ys) < 2 ^ 32"
  shows "is_list (bl_append l k h) l (xs @ ys)" and "hinfo (bl_append l k h) = hinfo h"
proof -
  note X = is_listD [OF assms(1)] and Y = is_listD [OF assms(2)]
  have ex: "bl_is_empty h l \<longleftrightarrow> xs = []" and ey: "bl_is_empty h k \<longleftrightarrow> ys = []"
    using assms(1,2) by (simp_all add: is_list_empty_iff)
  let ?h = "bl_append l k h"
  show "hinfo ?h = hinfo h" by (simp add: bl_append_def Let_def ptr_simps)
  show "is_list ?h l (xs @ ys)"
  proof (cases "xs = [] \<or> ys = []")
    case True
    then show ?thesis
    proof
      assume "xs = []"
      then show ?thesis using assms ex ey Y of_nat_u32_0 [of "length ys"]
        by (cases "ys = []") (auto intro!: is_listI simp: bl_append_def ptr_simps tail_slot_def)
    qed (use assms ey in \<open>simp add: bl_append_def\<close>)
  next
    case False
    let ?q = "bl_first (hlist h k)"
    have h: "?h = set_elements l (of_nat (length (xs @ ys))) (set_last l (tail_slot k ys) (assign (tail_slot l xs) ?q h))"
      using False ex ey X(4,5) Y(4,5) assms(3) by (simp add: bl_append_def Let_def ptr_simps)
    have pre: "chain (hnext ?h) (bl_first (hlist ?h l)) xs ?q"
      unfolding h by (rule assign_tail_chain [OF X(1,3)]) (simp_all add: ptr_simps)
    have "last xs \<notin> set ys" using assms(4) False last_in_set by blast
    then have post: "chain (hnext ?h) ?q ys end_of_list"
      unfolding h by (intro chain_keep [OF Y(1)]) (auto simp: ptr_simps slot_eqs)
    show ?thesis
      by (rule is_listI) (use X Y assms False pre post in \<open>auto simp: h chain_append ptr_simps tail_slot_def\<close>)
  qed
qed

lemma prepend_list:
  assumes "is_list h l xs" and "is_list h k ys" and "l \<noteq> k" and "set xs \<inter> set ys = {}" and "length (xs @ ys) < 2 ^ 32"
  shows "is_list (bl_prepend l k h) l (ys @ xs)" and "hinfo (bl_prepend l k h) = hinfo h"
proof -
  note X = is_listD [OF assms(1)] and Y = is_listD [OF assms(2)]
  have ex: "bl_is_empty h l \<longleftrightarrow> xs = []" and ey: "bl_is_empty h k \<longleftrightarrow> ys = []"
    using assms(1,2) by (simp_all add: is_list_empty_iff)
  let ?h = "bl_prepend l k h" and ?p = "bl_first (hlist h k)" and ?q = "bl_first (hlist h l)"
  show "hinfo ?h = hinfo h" by (simp add: bl_prepend_def Let_def ptr_simps)
  show "is_list ?h l (ys @ xs)"
  proof (cases "ys = []")
    case True
    then show ?thesis using assms(1) ey by (simp add: bl_prepend_def)
  next
    case False
    have nxt: "hnext ?h x = (if x = last ys then ?q else hnext h x)" for x
      using False ey Y(4) assms(3) by (auto simp: bl_prepend_def Let_def ptr_simps tail_slot_def)
    have f: "bl_first (hlist ?h l) = ?p"
      using False ey Y(4) assms(3) by (simp add: bl_prepend_def Let_def ptr_simps tail_slot_def)
    have pre: "chain (hnext ?h) ?p ys ?q" by (rule chain_redirect [OF Y(1,3)]) (use nxt False in auto)
    have "last ys \<notin> set xs" using assms(4) False last_in_set by blast
    then have post: "chain (hnext ?h) ?q xs end_of_list"
      by (intro chain_keep [OF X(1)]) (auto simp: nxt)
    have cnt: "bl_elements (hlist ?h l) = of_nat (length (ys @ xs))"
      using False ey X(5) Y(5) assms(3) by (simp add: bl_prepend_def Let_def ptr_simps)
    have lst: "bl_last (hlist ?h l) = tail_slot l (ys @ xs)"
      using False ex ey X(4) Y(4) assms(3) by (auto simp: bl_prepend_def Let_def ptr_simps tail_slot_def)
    show ?thesis
      by (rule is_listI) (use X Y assms f pre post cnt lst in \<open>auto simp: chain_append\<close>)
  qed
qed

lemma swap_list:
  assumes "is_list h l xs" and "is_list h k ys" and "l \<noteq> k"
  shows "is_list (bl_swap l k h) l ys" and "is_list (bl_swap l k h) k xs" and "hinfo (bl_swap l k h) = hinfo h"
proof -
  note X = is_listD [OF assms(1)] and Y = is_listD [OF assms(2)]
  have nxt: "hnext (bl_swap l k h) = hnext h" by (rule ext) (simp add: bl_swap_def Let_def ptr_simps)
  show "hinfo (bl_swap l k h) = hinfo h" by (simp add: bl_swap_def Let_def ptr_simps)
  have f: "bl_first (hlist (bl_swap l k h) l) = bl_first (hlist h k)" "bl_first (hlist (bl_swap l k h) k) = bl_first (hlist h l)"
    "bl_elements (hlist (bl_swap l k h) l) = bl_elements (hlist h k)" "bl_elements (hlist (bl_swap l k h) k) = bl_elements (hlist h l)"
    "bl_last (hlist (bl_swap l k h) l) = (if bl_last (hlist h k) = FirstOf k then FirstOf l else bl_last (hlist h k))"
    "bl_last (hlist (bl_swap l k h) k) = (if bl_last (hlist h l) = FirstOf l then FirstOf k else bl_last (hlist h l))"
    using assms(3) by (simp_all add: bl_swap_def Let_def ptr_simps)
  show "is_list (bl_swap l k h) l ys" by (rule is_listI) (use Y nxt f in \<open>auto simp: tail_slot_def\<close>)
  show "is_list (bl_swap l k h) k xs" by (rule is_listI) (use X nxt f in \<open>auto simp: tail_slot_def\<close>)
qed

lemma disjoin_loop_run:
  assumes "chain nxt node (xs @ ys) end_of_list" and "end_of_list \<notin> set (xs @ ys)" and "distinct (xs @ ys)"
    and "lf = (if ys = [] then end_of_list else hd ys)"
  shows "disjoin_loop nxt lf prev node cnt =
    Some (cnt + of_nat (length xs),
          if ys = [] \<and> xs \<noteq> [] then None else Some (if xs = [] then prev else NextOf (last xs)))"
  using assms
proof (induction xs arbitrary: node prev cnt)
  case Nil
  then have "node = lf" using chain_hd [of nxt node ys end_of_list] by simp
  then show ?case using Nil by (subst disjoin_loop.simps) simp
next
  case (Cons x xs)
  have x: "node = x" "x \<noteq> end_of_list" "chain nxt (nxt x) (xs @ ys) end_of_list" using Cons.prems by auto
  have "x \<noteq> lf" using Cons.prems x(2) by (cases ys) auto
  moreover have "nxt x = end_of_list \<longleftrightarrow> xs @ ys = []"
    using chain_hd [OF x(3)] Cons.prems(2) by (cases "xs @ ys") auto
  moreover have "disjoin_loop nxt lf (NextOf x) (nxt x) (cnt + 1) =
    Some (cnt + 1 + of_nat (length xs),
          if ys = [] \<and> xs \<noteq> [] then None else Some (if xs = [] then NextOf x else NextOf (last xs)))"
    using Cons.prems x(3) by (intro Cons.IH) auto
  ultimately show ?case using x(1,2) by (subst disjoin_loop.simps) (auto simp: add.assoc)
qed

lemma disjoin_list:
  assumes "is_list h l (xs @ ys)" and "bl_first (hlist h k) = (if ys = [] then end_of_list else hd ys)"
  obtains h' where "bl_disjoin l k h = Some h'" "is_list h' l xs" "hinfo h' = hinfo h"
proof -
  note L = is_listD [OF assms(1)]
  have run: "disjoin_loop (hnext h) (bl_first (hlist h k)) (FirstOf l) (bl_first (hlist h l)) 0 =
    Some (of_nat (length xs), if ys = [] \<and> xs \<noteq> [] then None else Some (tail_slot l xs))"
    using disjoin_loop_run [OF L(1) L(7) L(3) assms(2)] by (simp add: tail_slot_def)
  have len: "length xs < 2 ^ 32" using L(6) by simp
  show thesis
  proof (cases "ys = [] \<and> xs \<noteq> []")
    case True
    let ?h = "set_elements l (of_nat (length xs)) h"
    have "is_list ?h l xs" by (rule is_listI) (use True L in \<open>auto simp: ptr_simps\<close>)
    then show thesis using that [of ?h] True run by (simp add: bl_disjoin_def ptr_simps)
  next
    case False
    let ?h = "set_last l (tail_slot l xs) (assign (tail_slot l xs) end_of_list (set_elements l (of_nat (length xs)) h))"
    obtain m where m: "chain (hnext h) (bl_first (hlist h l)) xs m" using L(1) by (auto simp: chain_append)
    have "chain (hnext ?h) (bl_first (hlist ?h l)) xs end_of_list"
      by (rule assign_tail_chain [OF m]) (use L(3) in \<open>auto simp: ptr_simps\<close>)
    then have "is_list ?h l xs" by (rule is_listI) (use L len in \<open>auto simp: ptr_simps\<close>)
    then show thesis using that [of ?h] False run by (simp add: bl_disjoin_def ptr_simps)
  qed
qed

section \<open>Searching and checking\<close>

lemma find_info_run:
  assumes "chain (hnext h) node ns end_of_list" and "end_of_list \<notin> set ns"
  shows "find_info h eq v node =
    Some (case dropWhile (\<lambda>n. \<not> eq (hinfo h n) v) ns of [] \<Rightarrow> end_of_list | m # _ \<Rightarrow> m)"
  using assms
proof (induction ns arbitrary: node)
  case (Cons n ns)
  then show ?case by (subst find_info.simps) auto
qed (subst find_info.simps, simp)

lemma find_info_end_iff:
  assumes "is_list h l ns"
  shows "find_info h eq v (bl_first (hlist h l)) = Some end_of_list \<longleftrightarrow> (\<forall>n \<in> set ns. \<not> eq (hinfo h n) v)"
    and "\<exists>m. find_info h eq v (bl_first (hlist h l)) = Some m"
proof -
  let ?d = "dropWhile (\<lambda>n. \<not> eq (hinfo h n) v) ns"
  note run = find_info_run [OF is_listD(1,7) [OF assms], of eq v]
  show "\<exists>m. find_info h eq v (bl_first (hlist h l)) = Some m" unfolding run by simp
  have "set ?d \<subseteq> set ns" by (rule subsetI) (rule set_dropWhileD)
  then have "(case ?d of [] \<Rightarrow> end_of_list | m # _ \<Rightarrow> m) = end_of_list \<longleftrightarrow> ?d = []"
    using is_listD(7) [OF assms] by (cases ?d) (auto simp del: dropWhile_eq_Nil_conv)
  then show "find_info h eq v (bl_first (hlist h l)) = Some end_of_list \<longleftrightarrow> (\<forall>n \<in> set ns. \<not> eq (hinfo h n) v)"
    unfolding run by (simp add: dropWhile_eq_Nil_conv)
qed

lemma elem_loop_run:
  "chain (hnext h) node ns end_of_list \<Longrightarrow> end_of_list \<notin> set ns \<Longrightarrow>
     elem_loop h (Suc k) node d = (if k < length ns then hinfo h (ns ! k) else NULL)"
proof (induction ns arbitrary: node k d)
  case (Cons n ns)
  then show ?case by (cases k) auto
qed simp

lemma elem_list: "is_list h l ns \<Longrightarrow> bl_elem h l k = (if k < length ns then hinfo h (ns ! k) else NULL)"
  using elem_loop_run [of h "bl_first (hlist h l)" ns k NULL] is_listD(1,7) [of h l ns] by (simp add: bl_elem_def)

lemma check_loop_run:
  assumes "chain (hnext h) node (ns @ [a]) end_of_list" and "end_of_list \<notin> set (ns @ [a])" and "\<forall>n \<in> set ns. hinfo h n \<noteq> NULL"
  shows "check_loop h node cnt = Some (Some (a, cnt + of_nat (length ns)))"
  using assms
proof (induction ns arbitrary: node cnt)
  case Nil
  then show ?case by (subst check_loop.simps) simp
next
  case (Cons n ns)
  have n: "node = n" "chain (hnext h) (hnext h n) (ns @ [a]) end_of_list" using Cons.prems(1) by auto
  have "hnext h n \<noteq> end_of_list" using chain_hd [OF n(2)] Cons.prems(2) by (cases ns) auto
  moreover have "check_loop h (hnext h n) (cnt + 1) = Some (Some (a, cnt + 1 + of_nat (length ns)))"
    using Cons.prems n(2) by (intro Cons.IH) auto
  ultimately show ?case using Cons.prems(3) n(1) by (subst check_loop.simps) (simp add: add.assoc)
qed

lemma check_list_ok:
  assumes "is_list h l ns" and "ns \<noteq> []" and "\<forall>n \<in> set ns. hinfo h n \<noteq> NULL"
  shows "check_list h l = Some True"
proof -
  note L = is_listD [OF assms(1)]
  obtain ms a where ns: "ns = ms @ [a]" using assms(2) by (cases ns rule: rev_cases) auto
  have "check_loop h (bl_first (hlist h l)) 0 = Some (Some (a, of_nat (length ms)))"
    using check_loop_run [of h _ ms a 0] L(1,7) assms(3) ns by simp
  then show ?thesis using L(4,5) ns by (simp add: check_list_def tail_slot_def)
qed

section \<open>Iterating\<close>

text \<open>An iterator that has passed the nodes \<open>xs\<close> of list \<open>l\<close>.\<close>

definition itr_at :: "list_id \<Rightarrow> node list \<Rightarrow> bl_iter \<Rightarrow> bool" where
  "itr_at l xs it \<longleftrightarrow> itr_list it = l \<and> itr_el it = tail_slot l xs"

text \<open>\<open>end_of_list\<close> as its constructor leaves it.\<close>

definition eol_ok :: "bheap \<Rightarrow> bool" where
  "eol_ok h \<longleftrightarrow> hnext h end_of_list = end_of_list \<and> hinfo h end_of_list = NULL"

lemma itr_init_at: "itr_at l [] (itr_init l)"
  by (simp add: itr_at_def itr_init_def tail_slot_def)

lemma itr_next_at:
  assumes "is_list h l (xs @ n # ys)" and "itr_at l xs it"
  shows "fst (itr_next h it) = hinfo h n" and "itr_at l (xs @ [n]) (snd (itr_next h it))"
    and "itr_prev (snd (itr_next h it)) = Some (tail_slot l xs)" and "itr_current (snd (itr_next h it)) = n"
  using assms deref_tail_slot [of h l xs "n # ys" end_of_list] is_listD(1) [OF assms(1)]
  by (auto simp: itr_next_def itr_at_def Let_def tail_slot_def)

lemma itr_next_end:
  assumes "is_list h l xs" and "eol_ok h" and "itr_at l xs it \<or> itr_el it = NextOf end_of_list"
  shows "fst (itr_next h it) = NULL" and "itr_el (snd (itr_next h it)) = NextOf end_of_list"
    and "itr_at_end (snd (itr_next h it))"
proof -
  have "deref h (itr_el it) = end_of_list"
    using assms deref_tail_slot [of h l xs "[]" end_of_list] is_listD(1) [OF assms(1)]
    by (auto simp: itr_at_def eol_ok_def)
  then show "fst (itr_next h it) = NULL" "itr_el (snd (itr_next h it)) = NextOf end_of_list"
    "itr_at_end (snd (itr_next h it))"
    using assms(2) by (simp_all add: itr_next_def Let_def eol_ok_def itr_at_end_def)
qed

text \<open>The results of the first \<open>k\<close> calls of \<open>next\<close>.\<close>

fun itr_collect :: "bheap \<Rightarrow> nat \<Rightarrow> bl_iter \<Rightarrow> info list" where
  "itr_collect h 0 it = []"
| "itr_collect h (Suc k) it = fst (itr_next h it) # itr_collect h k (snd (itr_next h it))"

lemma itr_collect_end:
  "is_list h l xs \<Longrightarrow> eol_ok h \<Longrightarrow> itr_at l xs it \<or> itr_el it = NextOf end_of_list \<Longrightarrow>
     itr_collect h k it = replicate k NULL"
proof (induction k arbitrary: it)
  case (Suc k)
  then show ?case using itr_next_end [OF Suc.prems] by simp
qed simp

lemma itr_collect_from:
  assumes "is_list h l (xs @ ys)" and "eol_ok h" and "itr_at l xs it"
  shows "itr_collect h k it = take k (map (hinfo h) ys @ replicate k NULL)"
  using assms
proof (induction ys arbitrary: k xs it)
  case Nil
  then show ?case using itr_collect_end [of h l xs it k] by simp
next
  case (Cons y ys)
  show ?case
  proof (cases k)
    case (Suc k')
    have "take k' (map (hinfo h) ys @ replicate (Suc k') NULL) = take k' (map (hinfo h) ys @ replicate k' NULL)"
      by (rule take_replicate_Suc)
    then show ?thesis using Suc itr_next_at [OF Cons.prems(1,3)] Cons.IH [of "xs @ [y]"] Cons.prems by simp
  qed simp
qed

text \<open>Removing the current element leaves the iterator before its successor.\<close>

lemma itr_remove_at:
  assumes "is_list h l (xs @ n # ys)" and "itr_at l xs it"
  obtains it' h' where "itr_remove (snd (itr_next h it)) h = Some (it', h')" "is_list h' l (xs @ ys)"
    "itr_at l xs it'" "hinfo h' = hinfo h"
proof -
  note N = itr_next_at [OF assms]
  let ?it = "snd (itr_next h it)"
  have l: "itr_list ?it = l" using N(2) by (simp add: itr_at_def)
  show thesis
    by (rule that [of "?it\<lparr>itr_el := tail_slot l xs, itr_current := NULL\<rparr>" "bl_remove l (tail_slot l xs) h"])
      (use N l remove_list [OF assms(1)] in \<open>auto simp: itr_remove_def itr_at_def\<close>)
qed

text \<open>Replacing the current element by a list splices that list in.\<close>

lemma itr_replace_list_at:
  assumes "is_list h l (xs @ n # ys)" and "itr_list it = l" and "itr_current it = n" and "is_list h k (z # zs)"
    and "l \<noteq> k" and "set (xs @ n # ys) \<inter> set (z # zs) = {}" and "length (xs @ n # ys) + length zs < 2 ^ 32"
  shows "fst (itr_replace_list it k h) = hinfo h n"
    and "is_list (snd (itr_replace_list it k h)) l (xs @ n # zs @ ys)"
    and "hinfo (snd (itr_replace_list it k h)) = (hinfo h)(n := hinfo h z)"
proof -
  note X = is_listD [OF assms(1)] and Z = is_listD [OF assms(4)]
  let ?h = "snd (itr_replace_list it k h)" and ?q = "hnext h n"
  have ne: "\<not> bl_is_empty h k" using assms(4) by (simp add: is_list_empty_iff)
  have fz: "bl_first (hlist h k) = z" using Z(1) by simp
  have lz: "bl_last (hlist h k) = NextOf (last (z # zs))" using Z(4) by (simp add: tail_slot_def)
  have nz: "n \<noteq> z" "n \<noteq> last (z # zs)" using assms(6) last_in_set [of "z # zs"] by auto
  have zl: "zs \<noteq> [] \<Longrightarrow> z \<noteq> last zs" using Z(3) by auto
  note defs = itr_replace_list_def Let_def assms(2,3)
  show "fst (itr_replace_list it k h) = hinfo h n" by (simp add: defs)
  show "hinfo ?h = (hinfo h)(n := hinfo h z)" using ne fz lz by (auto simp: defs ptr_simps)
  have nxt: "hnext ?h x = (if x = n then (if zs = [] then ?q else hnext h z)
      else if x = last (z # zs) then ?q else hnext h x)" for x
    using ne fz lz nz zl by (auto simp: defs ptr_simps)
  have f: "bl_first (hlist ?h l) = bl_first (hlist h l)" using ne lz by (simp add: defs ptr_simps)
  have c: "chain (hnext h) (bl_first (hlist h l)) xs n" "chain (hnext h) ?q ys end_of_list"
    using X(1) by (auto simp: chain_append)
  have lzx: "last (z # zs) \<notin> set xs" "last (z # zs) \<notin> set ys" using assms(6) last_in_set [of "z # zs"] by auto
  have 1: "chain (hnext ?h) (bl_first (hlist h l)) xs n"
    by (rule chain_keep [OF c(1)]) (use X(3) lzx nxt in auto)
  have 2: "chain (hnext ?h) ?q ys end_of_list"
    by (rule chain_keep [OF c(2)]) (use X(3) lzx nxt in auto)
  have 3: "chain (hnext ?h) (hnext ?h n) zs ?q"
    by (rule chain_redirect [of "hnext h" "hnext h z" zs end_of_list])
      (use Z(1,3) assms(6) nxt in \<open>auto split: if_splits\<close>)
  have cnt: "bl_elements (hlist ?h l) = of_nat (length (xs @ n # zs @ ys))"
    using ne lz X(5) Z(5) assms(5) by (simp add: defs ptr_simps)
  have one: "(1 :: u32) < of_nat (length (z # zs)) \<longleftrightarrow> zs \<noteq> []"
    using Z(6) by (cases zs) (auto simp: word_less_nat_alt unat_of_nat take_bit_eq_mod unat_word_ariths)
  have lst: "bl_last (hlist ?h l) = (if bl_last (hlist h l) = NextOf n \<and> zs \<noteq> [] then NextOf (last (z # zs)) else bl_last (hlist h l))"
    using ne lz one Z(5) assms(5) by (simp add: defs ptr_simps)
  have "tail_slot l (xs @ n # zs @ ys) = bl_last (hlist ?h l)"
    unfolding lst using X(3,4) by (auto simp: tail_slot_def)
  then show "is_list ?h l (xs @ n # zs @ ys)"
    by (intro is_listI) (use X Z assms(6,7) f 1 2 3 cnt in \<open>auto simp: chain_append\<close>)
qed

section \<open>The list as a sequence\<close>

text \<open>The elements with their nodes: list \<open>l\<close> holds exactly these node/info pairs, in order.\<close>

definition holds :: "list_id \<Rightarrow> bheap \<Rightarrow> (node \<times> info) list \<Rightarrow> bool" where
  "holds l h es \<longleftrightarrow> is_list h l (map fst es) \<and> (\<forall>e \<in> set es. hinfo h (fst e) = snd e)"

definition fresh_node :: "(node \<times> info) list \<Rightarrow> node \<times> info \<Rightarrow> bool" where
  "fresh_node es e \<longleftrightarrow> is_node (fst e) \<and> fst e \<notin> fst ` set es \<and> length es + 1 < 2 ^ 32"

definition bl_push_back_pair :: "list_id \<Rightarrow> node \<times> info \<Rightarrow> bheap \<Rightarrow> bheap" where
  "bl_push_back_pair l e h = snd (bl_push_back l (snd e) (fst e) h)"

definition bl_push_front_pair :: "list_id \<Rightarrow> node \<times> info \<Rightarrow> bheap \<Rightarrow> bheap" where
  "bl_push_front_pair l e h = snd (bl_push_front l (snd e) (fst e) h)"

interpretation bl: seq_store "holds l" fresh_node "bl_push_back_pair l" "bl_push_front_pair l" "bl_pop l" snd NULL
  for l
proof unfold_locales
  fix h xs e
  assume h: "holds l h xs" and e: "fresh_node xs e"
  show "holds l (bl_push_back_pair l e h) (xs @ [e])"
    using push_back_list(2,3) [of h l "map fst xs" "fst e" "snd e"] h e
    by (auto simp: holds_def fresh_node_def image_iff bl_push_back_pair_def)
  show "holds l (bl_push_front_pair l e h) (e # xs)"
    using push_front_list(2,3) [of h l "map fst xs" "fst e" "snd e"] h e
    by (auto simp: holds_def fresh_node_def image_iff bl_push_front_pair_def)
next
  fix h x xs
  assume "holds l h (x # xs)"
  then show "fst (bl_pop l h) = snd x \<and> holds l (snd (bl_pop l h)) xs"
    using pop_list [of h l "fst x" "map fst xs"] by (auto simp: holds_def)
next
  fix h
  assume "holds l h []"
  then show "fst (bl_pop l h) = NULL \<and> holds l (snd (bl_pop l h)) []"
    using pop_empty [of h l] by (simp add: holds_def)
qed

text \<open>
  Property C38: \<open>base_list\<close> implements a sequence. From a well-formed list, any run of
  \<open>push_back\<close>, \<open>push_front\<close> and \<open>pop\<close> with fresh nodes returns what the same run on a sequence
  returns and leaves a well-formed list that holds the resulting sequence.
\<close>

theorem base_list_refines_sequence:
  assumes "holds l h es" and "ops_ok fresh_node ops es"
  shows "fst (seq_run (bl_push_back_pair l) (bl_push_front_pair l) (bl_pop l) ops h) = fst (spec_run snd NULL ops es) \<and>
    holds l (snd (seq_run (bl_push_back_pair l) (bl_push_front_pair l) (bl_pop l) ops h)) (snd (spec_run snd NULL ops es))"
  by (rule bl.run_refines [OF assms])

definition heap0 :: bheap where
  "heap0 = \<lparr>hnext = (\<lambda>n. n), hinfo = (\<lambda>n. 0), hlist = (\<lambda>l. \<lparr>bl_first = end_of_list, bl_last = FirstOf l, bl_elements = 0\<rparr>)\<rparr>"

lemma heap0_empty: "is_list heap0 l []" "holds l heap0 []" "eol_ok heap0"
  by (simp_all add: holds_def heap0_def is_list_def tail_slot_def eol_ok_def NULL_def)

text \<open>Two lists to instantiate the properties with: list 0 holds nodes 5, 6, 7, list 1 node 8.\<close>

definition heap1 :: bheap where
  "heap1 = snd (bl_push_back 1 80 8 (snd (bl_push_back 0 70 7 (snd (bl_push_back 0 60 6 (snd (bl_push_back 0 50 5 heap0)))))))"

lemma heap1_lists: "is_list heap1 0 [5, 6, 7]" "is_list heap1 1 [8]" "eol_ok heap1"
  "map (hinfo heap1) [5, 6, 7, 8] = [50, 60, 70, 80]"
  by (simp_all add: heap1_def heap0_def bl_push_back_def Let_def new_list_node_def set_last_def set_elements_def
      NULL_def end_of_list_def is_list_def tail_slot_def is_node_def eol_ok_def)

theorem base_list_refines_sequence_witness:
  "fst (seq_run (bl_push_back_pair 3) (bl_push_front_pair 3) (bl_pop 3) [PushBack (5, 50), PushFront (6, 60), Pop, Pop, Pop] heap0)
     = [60, 50, 0]"
  using base_list_refines_sequence [of 3 heap0 "[]" "[PushBack (5, 50), PushFront (6, 60), Pop, Pop, Pop]"]
  by (simp add: heap0_empty fresh_node_def is_node_simps spec_run_def)

text \<open>
  Concatenation and cutting. \<open>append\<close> and \<open>prepend\<close> of a disjoint well-formed list
  give a well-formed list of both sequences, and \<open>disjoin\<close> with a tail of the list always
  returns and leaves exactly the part before that tail.
\<close>

theorem append_prepend_disjoin:
  assumes "is_list h l xs" and "is_list h k ys" and "l \<noteq> k" and "set xs \<inter> set ys = {}" and "length (xs @ ys) < 2 ^ 32"
    and "is_list h m (us @ vs)" and "bl_first (hlist h r) = (if vs = [] then end_of_list else hd vs)"
  shows "is_list (bl_append l k h) l (xs @ ys) \<and> is_list (bl_prepend l k h) l (ys @ xs) \<and>
    (\<exists>h'. bl_disjoin m r h = Some h' \<and> is_list h' m us)"
  using append_list(1) [OF assms(1-5)] prepend_list(1) [OF assms(1-5)] disjoin_list [OF assms(6,7)] by blast

theorem append_prepend_disjoin_witness:
  "is_list (bl_append 0 1 heap1) 0 [5, 6, 7, 8] \<and> is_list (bl_prepend 0 1 heap1) 0 [8, 5, 6, 7] \<and>
   (\<exists>h'. bl_disjoin 1 1 heap1 = Some h' \<and> is_list h' 1 [])"
  using append_prepend_disjoin [of heap1 0 "[5, 6, 7]" 1 "[8]" 1 "[]" "[8]" 1] heap1_lists
    is_list_first [OF heap1_lists(2)] by simp

text \<open>
  An iterator returns the elements of a well-formed list in order and then null
  for ever; removing the element just returned and inserting or splicing after it keep the
  list well-formed and change exactly that position.
\<close>

theorem iterator_edits:
  assumes "is_list h l (xs @ n # ys)" and "eol_ok h" and "itr_at l xs it" and "length (xs @ n # ys) + length zs + 1 < 2 ^ 32"
    and "is_node m" and "m \<notin> set (xs @ n # ys)"
    and "is_list h r (z # zs)" and "l \<noteq> r" and "set (xs @ n # ys) \<inter> set (z # zs) = {}"
  shows "itr_collect h k (itr_init l) = take k (map (hinfo h) (xs @ n # ys) @ replicate k NULL) \<and>
    fst (itr_next h it) = hinfo h n \<and>
    (\<exists>it' h'. itr_remove (snd (itr_next h it)) h = Some (it', h') \<and> is_list h' l (xs @ ys) \<and> itr_at l xs it') \<and>
    is_list (snd (itr_after (snd (itr_next h it)) v m h)) l (xs @ n # m # ys) \<and>
    is_list (snd (itr_replace_list (snd (itr_next h it)) r h)) l (xs @ n # zs @ ys)"
proof (intro conjI)
  note N = itr_next_at [OF assms(1,3)]
  have l: "itr_list (snd (itr_next h it)) = l" using N(2) by (simp add: itr_at_def)
  show "itr_collect h k (itr_init l) = take k (map (hinfo h) (xs @ n # ys) @ replicate k NULL)"
    using itr_collect_from [of h l "[]" "xs @ n # ys" "itr_init l" k] assms itr_init_at by simp
  show "\<exists>it' h'. itr_remove (snd (itr_next h it)) h = Some (it', h') \<and> is_list h' l (xs @ ys) \<and> itr_at l xs it'"
    using itr_remove_at [OF assms(1,3)] by metis
  show "is_list (snd (itr_after (snd (itr_next h it)) v m h)) l (xs @ n # m # ys)"
    using after_list(1) [OF assms(1,5,6)] assms(4) l N(4) by (simp add: itr_after_def Let_def)
  show "is_list (snd (itr_replace_list (snd (itr_next h it)) r h)) l (xs @ n # zs @ ys)"
    using itr_replace_list_at(2) [OF assms(1) l N(4) assms(7,8,9)] assms(4) by simp
qed (rule itr_next_at(1) [OF assms(1,3)])

theorem iterator_edits_witness:
  "itr_collect heap1 4 (itr_init 0) = [50, 60, 70, 0] \<and>
   is_list (snd (itr_replace_list (snd (itr_next heap1 (itr_init 0))) 1 heap1)) 0 [5, 6, 7]"
  using iterator_edits [of heap1 0 "[]" 5 "[6, 7]" "itr_init 0" "[]" 9 1 8 4 90] heap1_lists itr_init_at
  by (simp add: NULL_def is_node_simps)

text \<open>
  Out of memory. When the arena returns no node, \<open>push_back\<close> reports it, but it has
  already overwritten the end of the list with the null pointer, so the list it was called on
  is no longer terminated by \<open>end_of_list\<close> whatever its contents were.
\<close>

theorem push_back_out_of_memory:
  assumes "is_list h l ns"
  shows "fst (bl_push_back l v NULL h) = True \<and>
    deref (snd (bl_push_back l v NULL h)) (tail_slot l ns) = NULL \<and>
    (\<nexists>ms. is_list (snd (bl_push_back l v NULL h)) l ms)"
proof (intro conjI)
  let ?h = "snd (bl_push_back l v NULL h)"
  have d: "deref (assign s n h') s = n" for s n h' by (cases s) simp_all
  show "fst (bl_push_back l v NULL h) = True" by (simp add: bl_push_back_def Let_def ptr_simps d)
  have eq: "?h = assign (tail_slot l ns) NULL h"
    using is_listD(4) [OF assms] by (simp add: bl_push_back_def Let_def ptr_simps d new_list_node_def)
  show nul: "deref ?h (tail_slot l ns) = NULL" unfolding eq by (rule d)
  show "\<nexists>ms. is_list ?h l ms"
  proof
    assume "\<exists>ms. is_list ?h l ms"
    then obtain ms where L: "is_list ?h l ms" ..
    have "tail_slot l ms = tail_slot l ns"
      using is_listD(4) [OF L] is_listD(4) [OF assms] unfolding eq by (simp add: ptr_simps)
    then have "deref ?h (tail_slot l ns) = end_of_list"
      using deref_tail_slot [of ?h l ms "[]" end_of_list] is_listD(1) [OF L] by simp
    then show False using nul node_facts(3) by simp
  qed
qed

theorem push_back_out_of_memory_witness:
  "fst (bl_push_back 0 90 NULL heap1) = True \<and> deref (snd (bl_push_back 0 90 NULL heap1)) (NextOf 7) = NULL"
  using push_back_out_of_memory [OF heap1_lists(1), of 90] by (simp add: tail_slot_def)

end
