(* ===== verification/ListSort.thy ===== *)
theory ListSort
  imports BaseListOps "HOL-Library.Multiset"
begin

text \<open>
  The algorithms \<open>sql_list.h\<close> builds on lists: \<open>bubble_sort\<close>, which exchanges the \<open>info\<close> pointers of
  neighbouring nodes through references into them, \<open>list_copy_and_replace_each_value\<close>,
  \<open>List::delete_elements\<close> and \<open>List::make\<close>. A reference \<open>T **\<close> into a node is the node's address.
  The comparison function and \<open>clone\<close> are the callers' and are parameters.
\<close>

section \<open>The code\<close>

partial_function (option) bubble_inner ::
    "(info \<Rightarrow> info \<Rightarrow> int) \<Rightarrow> node \<Rightarrow> bheap \<Rightarrow> bl_iter \<Rightarrow> info \<Rightarrow> node \<Rightarrow> bool \<Rightarrow>
      (bheap \<times> bl_iter \<times> node \<times> bool) option" where
  "bubble_inner sort_func last_ref h it item1 ref1 swap =
     (let item2 = fst (itr_next h it); it = snd (itr_next h it); ref2 = itr_current it
      in if item2 \<noteq> NULL \<and> ref2 \<noteq> last_ref
         then if sort_func item1 item2 > 0
              then bubble_inner sort_func last_ref (set_info ref2 item1 (set_info ref1 item2 h)) it item1 ref2 True
              else bubble_inner sort_func last_ref h it item2 ref2 swap
         else Some (h, it, ref1, swap))"

partial_function (option) bubble_outer ::
    "(info \<Rightarrow> info \<Rightarrow> int) \<Rightarrow> bheap \<Rightarrow> bl_iter \<Rightarrow> node \<Rightarrow> bheap option" where
  "bubble_outer sort_func h it ref1 =
     (let last_ref = ref1; item1 = fst (itr_next h it); it = snd (itr_next h it); ref1 = itr_current it
      in case bubble_inner sort_func last_ref h it item1 ref1 False of
           None \<Rightarrow> None
         | Some (h, it, ref1, swap) \<Rightarrow>
             if swap then bubble_outer sort_func h (itr_rewind it) ref1 else Some h)"

definition bubble_sort :: "(info \<Rightarrow> info \<Rightarrow> int) \<Rightarrow> list_id \<Rightarrow> bheap \<Rightarrow> bheap option" where
  "bubble_sort sort_func list_to_sort h = bubble_outer sort_func h (itr_init list_to_sort) NULL"

partial_function (option) replace_each :: "(info \<Rightarrow> info) \<Rightarrow> bl_iter \<Rightarrow> bheap \<Rightarrow> bheap option" where
  "replace_each clone it h =
     (let el = fst (itr_next h it); it = snd (itr_next h it)
      in if el \<noteq> NULL then replace_each clone it (snd (itr_replace it (clone el) h)) else Some h)"

definition list_copy_and_replace_each_value :: "(info \<Rightarrow> info) \<Rightarrow> list_id \<Rightarrow> bheap \<Rightarrow> bheap option" where
  "list_copy_and_replace_each_value clone list h = replace_each clone (itr_init list) h"

text \<open>\<open>delete_elements\<close>: the pointers deleted, in order, and the emptied list.\<close>

partial_function (option) delete_loop :: "bheap \<Rightarrow> node \<Rightarrow> info list \<Rightarrow> info list option" where
  "delete_loop h element ds =
     (if element \<noteq> end_of_list then delete_loop h (hnext h element) (ds @ [hinfo h element]) else Some ds)"

definition delete_elements :: "list_id \<Rightarrow> bheap \<Rightarrow> (info list \<times> bheap) option" where
  "delete_elements l h =
     (case delete_loop h (bl_first (hlist h l)) [] of None \<Rightarrow> None | Some ds \<Rightarrow> Some (ds, bl_empty l h))"

text \<open>\<open>make\<close>: \<open>res\<close> is the list object the arena returns (\<open>None\<close>: out of memory), \<open>n\<close> the node.\<close>

definition list_make :: "list_id option \<Rightarrow> node \<Rightarrow> info \<Rightarrow> bheap \<Rightarrow> list_id option \<times> bheap" where
  "list_make res n first h =
     (case res of
        None \<Rightarrow> (None, h)
      | Some l \<Rightarrow> let (err, h) = bl_push_back l first n (bl_empty l h) in (if err then None else Some l, h))"

section \<open>One pass on a sequence\<close>

fun pass :: "('a \<Rightarrow> 'a \<Rightarrow> int) \<Rightarrow> 'a \<Rightarrow> 'a list \<Rightarrow> 'a list \<times> bool" where
  "pass cmp x [] = ([x], False)"
| "pass cmp x (y # ys) =
     (if cmp x y > 0 then (y # fst (pass cmp x ys), True) else (x # fst (pass cmp y ys), snd (pass cmp y ys)))"

lemma pass_length [simp]: "length (fst (pass cmp x ys)) = Suc (length ys)"
  by (induction cmp x ys rule: pass.induct) simp_all

lemma pass_nonempty [simp]: "fst (pass cmp x ys) \<noteq> []"
  by (metis Suc_neq_Zero list.size(3) pass_length)

lemma pass_mset: "mset (fst (pass cmp x ys)) = add_mset x (mset ys)"
  by (induction cmp x ys rule: pass.induct) simp_all

definition order_func :: "('a \<Rightarrow> 'a \<Rightarrow> int) \<Rightarrow> bool" where
  "order_func cmp \<longleftrightarrow> (\<forall>x y. cmp x y > 0 \<longrightarrow> cmp y x \<le> 0) \<and>
     (\<forall>x y z. cmp x y \<le> 0 \<longrightarrow> cmp y z \<le> 0 \<longrightarrow> cmp x z \<le> 0)"

lemma order_func_refl: "order_func cmp \<Longrightarrow> cmp x x \<le> 0"
  unfolding order_func_def by (meson not_le)

lemma pass_set: "set (fst (pass cmp x ys)) = insert x (set ys)"
  using arg_cong [OF pass_mset [of cmp x ys], of set_mset] by simp

lemma pass_last_max:
  "order_func cmp \<Longrightarrow> \<forall>z \<in> insert x (set ys). cmp z (last (fst (pass cmp x ys))) \<le> 0"
proof (induction cmp x ys rule: pass.induct)
  case (1 cmp x)
  then show ?case by (simp add: order_func_refl)
next
  case (2 cmp x y ys)
  show ?case
  proof (cases "cmp x y > 0")
    case True
    then have "\<forall>z \<in> insert x (set ys). cmp z (last (fst (pass cmp x ys))) \<le> 0" and "cmp y x \<le> 0"
      using 2 by (auto simp: order_func_def)
    moreover from this have "cmp y (last (fst (pass cmp x ys))) \<le> 0"
      using "2.prems" by (metis insertI1 order_func_def)
    ultimately show ?thesis using True by simp
  next
    case False
    then have "\<forall>z \<in> insert y (set ys). cmp z (last (fst (pass cmp y ys))) \<le> 0" and "cmp x y \<le> 0"
      using 2 by auto
    moreover from this have "cmp x (last (fst (pass cmp y ys))) \<le> 0"
      using "2.prems" by (metis insertI1 order_func_def)
    ultimately show ?thesis using False by simp
  qed
qed

lemma pass_no_swap: "\<not> snd (pass cmp x ys) \<Longrightarrow> fst (pass cmp x ys) = x # ys"
  by (induction cmp x ys rule: pass.induct) (auto split: if_splits)

lemma pass_no_swap_sorted:
  "order_func cmp \<Longrightarrow> \<not> snd (pass cmp x ys) \<Longrightarrow> sorted_wrt (\<lambda>a b. cmp a b \<le> 0) (x # ys)"
proof (induction cmp x ys rule: pass.induct)
  case (2 cmp x y ys)
  then have xy: "cmp x y \<le> 0" and s: "sorted_wrt (\<lambda>a b. cmp a b \<le> 0) (y # ys)"
    by (auto split: if_splits)
  have "\<forall>z \<in> set ys. cmp x z \<le> 0" using xy s "2.prems"(1) by (auto simp: order_func_def)
  then show ?case using xy s by simp
qed simp

text \<open>The whole sort on a sequence: a pass, then the same on all but the last element.\<close>

function bsort :: "('a \<Rightarrow> 'a \<Rightarrow> int) \<Rightarrow> 'a list \<Rightarrow> 'a list" where
  "bsort cmp [] = []"
| "bsort cmp (x # xs) =
     (if snd (pass cmp x xs) then bsort cmp (butlast (fst (pass cmp x xs))) @ [last (fst (pass cmp x xs))]
      else fst (pass cmp x xs))"
  by pat_completeness auto
termination by (relation "measure (\<lambda>(cmp, xs). length xs)") auto

lemma bsort_mset: "mset (bsort cmp xs) = mset xs"
proof (induction cmp xs rule: bsort.induct)
  case (2 cmp x xs)
  show ?case
  proof (cases "snd (pass cmp x xs)")
    case True
    have "mset (butlast (fst (pass cmp x xs))) + {#last (fst (pass cmp x xs))#} = mset (fst (pass cmp x xs))"
      by (metis append_butlast_last_id mset_append mset_single_iff_right pass_nonempty)
    then show ?thesis using 2 True by (simp add: pass_mset)
  qed (simp add: pass_mset)
qed simp

lemma bsort_sorted: "order_func cmp \<Longrightarrow> sorted_wrt (\<lambda>a b. cmp a b \<le> 0) (bsort cmp xs)"
proof (induction cmp xs rule: bsort.induct)
  case (2 cmp x xs)
  show ?case
  proof (cases "snd (pass cmp x xs)")
    case True
    have "set (bsort cmp (butlast (fst (pass cmp x xs)))) \<subseteq> insert x (set xs)"
      using arg_cong [OF bsort_mset, of set_mset cmp "butlast (fst (pass cmp x xs))"]
        pass_set [of cmp x xs] by (auto dest: in_set_butlastD)
    then show ?thesis using 2 True pass_last_max [OF "2.prems", of x xs] by (auto simp: sorted_wrt_append)
  next
    case False
    then show ?thesis using pass_no_swap_sorted [OF "2.prems" False] pass_no_swap [OF False] by simp
  qed
qed simp

section \<open>The code on well-formed lists\<close>

text \<open>States that differ only in \<open>info\<close> fields hold the same lists.\<close>

lemma is_list_info: "is_list (h\<lparr>hinfo := g\<rparr>) l ns \<longleftrightarrow> is_list h l ns"
  by (simp add: is_list_def)

lemma itr_next_info_irrelevant: "snd (itr_next (h\<lparr>hinfo := g\<rparr>) it) = snd (itr_next h it)"
  by (cases "itr_el it") (simp_all add: itr_next_def Let_def)

text \<open>The active part of the list: \<open>a # bs\<close>, with \<open>last_ref\<close> just behind it.\<close>

definition stops_at :: "node \<Rightarrow> node list \<Rightarrow> bool" where
  "stops_at last_ref cs \<longleftrightarrow> (case cs of [] \<Rightarrow> True | c # _ \<Rightarrow> c = last_ref)"

lemma bubble_inner_run:
  assumes "is_list h l (xs @ a # bs @ cs)" and "eol_ok h" and "\<forall>n \<in> set (xs @ a # bs @ cs). hinfo h n \<noteq> NULL"
    and "itr_at l (xs @ [a]) it" and "stops_at last_ref cs" and "last_ref \<notin> set (a # bs)"
  shows "\<exists>g it'. bubble_inner cmp last_ref h it (hinfo h a) a swap =
      Some (h\<lparr>hinfo := g\<rparr>, it', last (a # bs), swap \<or> snd (pass cmp (hinfo h a) (map (hinfo h) bs))) \<and>
    map g (a # bs) = fst (pass cmp (hinfo h a) (map (hinfo h) bs)) \<and>
    (\<forall>n. n \<notin> set (a # bs) \<longrightarrow> g n = hinfo h n) \<and> itr_list it' = l"
  using assms
proof (induction bs arbitrary: xs a h it swap)
  case Nil
  let ?it = "snd (itr_next h it)"
  have l: "itr_list ?it = l" using Nil.prems(4) by (simp add: itr_next_def itr_at_def Let_def)
  have stop: "fst (itr_next h it) = NULL \<or> itr_current ?it = last_ref"
  proof (cases cs)
    case Nil
    then show ?thesis using itr_next_end(1) [of h l "xs @ [a]" it] Nil.prems by simp
  next
    case (Cons c cs')
    then show ?thesis using itr_next_at(4) [of h l "xs @ [a]" c cs' it] Nil.prems by (simp add: stops_at_def)
  qed
  then have "bubble_inner cmp last_ref h it (hinfo h a) a swap = Some (h, ?it, a, swap)"
    by (subst bubble_inner.simps) (auto simp: Let_def)
  then show ?case using l by (intro exI [of _ "hinfo h"] exI [of _ ?it]) simp
next
  case (Cons b bs)
  let ?it = "snd (itr_next h it)"
  have L: "is_list h l ((xs @ [a]) @ b # bs @ cs)" using Cons.prems(1) by simp
  note N = itr_next_at [OF L Cons.prems(4)]
  have nb: "hinfo h b \<noteq> NULL" "b \<noteq> last_ref" using Cons.prems(3,6) by auto
  have d: "distinct (xs @ a # b # bs @ cs)" "end_of_list \<notin> set (xs @ a # b # bs @ cs)"
    using is_listD(3,7) [OF Cons.prems(1)] by simp_all
  show ?case
  proof (cases "cmp (hinfo h a) (hinfo h b) > 0")
    case True
    let ?h = "set_info b (hinfo h a) (set_info a (hinfo h b) h)"
    have step: "bubble_inner cmp last_ref h it (hinfo h a) a swap =
        bubble_inner cmp last_ref ?h ?it (hinfo ?h b) b True"
      using True nb N by (subst bubble_inner.simps) (simp add: Let_def ptr_simps)
    have inf: "hinfo ?h n = (if n = b then hinfo h a else if n = a then hinfo h b else hinfo h n)" for n
      by (simp add: ptr_simps)
    have "is_list ?h l ((xs @ [a]) @ b # bs @ cs)" using L by (simp add: set_info_def is_list_def)
    moreover have "eol_ok ?h" using Cons.prems(2) d(2) by (auto simp: eol_ok_def ptr_simps)
    moreover have "\<forall>n \<in> set ((xs @ [a]) @ b # bs @ cs). hinfo ?h n \<noteq> NULL" using Cons.prems(3) by (auto simp: inf)
    ultimately obtain g it' where IH:
      "bubble_inner cmp last_ref ?h ?it (hinfo ?h b) b True =
         Some (?h\<lparr>hinfo := g\<rparr>, it', last (b # bs), True \<or> snd (pass cmp (hinfo ?h b) (map (hinfo ?h) bs)))"
      "map g (b # bs) = fst (pass cmp (hinfo ?h b) (map (hinfo ?h) bs))"
      "\<forall>n. n \<notin> set (b # bs) \<longrightarrow> g n = hinfo ?h n" "itr_list it' = l"
      using Cons.IH [of ?h "xs @ [a]" b ?it True] N(2) Cons.prems(5,6) by auto
    have m: "map (hinfo ?h) bs = map (hinfo h) bs" using d(1) by (auto simp: inf)
    have "g a = hinfo h b" using IH(3) d(1) by (simp add: inf)
    moreover have "\<forall>n. n \<notin> set (a # b # bs) \<longrightarrow> g n = hinfo h n" using IH(3) by (auto simp: inf)
    moreover have "?h\<lparr>hinfo := g\<rparr> = h\<lparr>hinfo := g\<rparr>" by (simp add: set_info_def)
    ultimately show ?thesis using True step IH m
      by (intro exI [of _ g] exI [of _ it']) (simp add: inf)
  next
    case False
    have step: "bubble_inner cmp last_ref h it (hinfo h a) a swap = bubble_inner cmp last_ref h ?it (hinfo h b) b swap"
      using False nb N by (subst bubble_inner.simps) (simp add: Let_def)
    obtain g it' where IH:
      "bubble_inner cmp last_ref h ?it (hinfo h b) b swap =
         Some (h\<lparr>hinfo := g\<rparr>, it', last (b # bs), swap \<or> snd (pass cmp (hinfo h b) (map (hinfo h) bs)))"
      "map g (b # bs) = fst (pass cmp (hinfo h b) (map (hinfo h) bs))"
      "\<forall>n. n \<notin> set (b # bs) \<longrightarrow> g n = hinfo h n" "itr_list it' = l"
      using Cons.IH [of h "xs @ [a]" b ?it swap] N(2) L Cons.prems by auto
    have "g a = hinfo h a" using IH(3) d(1) by simp
    then show ?thesis using False step IH by (intro exI [of _ g] exI [of _ it']) simp
  qed
qed

lemma bubble_outer_run:
  assumes "is_list h l (ns @ cs)" and "eol_ok h" and "\<forall>n \<in> set (ns @ cs). hinfo h n \<noteq> NULL"
    and "itr_at l [] it" and "stops_at last_ref cs" and "last_ref \<notin> set ns" and "ns = [] \<longrightarrow> cs = []"
  shows "\<exists>g. bubble_outer cmp h it last_ref = Some (h\<lparr>hinfo := g\<rparr>) \<and>
    map g ns = bsort cmp (map (hinfo h) ns) \<and> (\<forall>n. n \<notin> set ns \<longrightarrow> g n = hinfo h n)"
  using assms
proof (induction "length ns" arbitrary: ns cs h it last_ref rule: less_induct)
  case less
  let ?it = "snd (itr_next h it)"
  show ?case
  proof (cases ns)
    case Nil
    then have L: "is_list h l []" using less.prems by simp
    note E = itr_next_end [OF L less.prems(2) disjI1 [OF less.prems(4)]]
    have "fst (itr_next h ?it) = NULL" using itr_next_end(1) [OF L less.prems(2) disjI2 [OF E(2)]] .
    then have "bubble_outer cmp h it last_ref = Some h"
      by (subst bubble_outer.simps) (simp add: Let_def bubble_inner.simps)
    then show ?thesis using Nil by (intro exI [of _ "hinfo h"]) simp
  next
    case (Cons a bs)
    have L: "is_list h l ([] @ a # bs @ cs)" using less.prems(1) Cons by simp
    note N = itr_next_at [OF L less.prems(4)]
    obtain g it' where G:
      "bubble_inner cmp last_ref h ?it (hinfo h a) a False =
         Some (h\<lparr>hinfo := g\<rparr>, it', last ns, snd (pass cmp (hinfo h a) (map (hinfo h) bs)))"
      "map g ns = fst (pass cmp (hinfo h a) (map (hinfo h) bs))"
      "\<forall>n. n \<notin> set ns \<longrightarrow> g n = hinfo h n" "itr_list it' = l"
      using bubble_inner_run [OF L less.prems(2), of ?it last_ref cmp False] N(2) less.prems(3,5,6) Cons by auto
    let ?h = "h\<lparr>hinfo := g\<rparr>"
    have step: "bubble_outer cmp h it last_ref =
        (if snd (pass cmp (hinfo h a) (map (hinfo h) bs)) then bubble_outer cmp ?h (itr_rewind it') (last ns) else Some ?h)"
      using N G(1) by (subst bubble_outer.simps) (simp add: Let_def)
    show ?thesis
    proof (cases "snd (pass cmp (hinfo h a) (map (hinfo h) bs))")
      case False
      then show ?thesis using step G Cons by (intro exI [of _ g]) simp
    next
      case True
      have ns: "ns = butlast ns @ [last ns]" "distinct ns" "end_of_list \<notin> set ns"
        using Cons is_listD(3,7) [OF less.prems(1)] by simp_all
      have eq: "butlast ns @ last ns # cs = ns @ cs" using ns(1) by (metis append.assoc append_Cons append_Nil)
      have "set (map g ns) = set (map (hinfo h) ns)" using G(2) Cons by (simp add: pass_set)
      then have "\<forall>n \<in> set ns. g n \<noteq> NULL" using less.prems(3) by (metis (no_types, lifting) Un_iff imageE image_eqI list.set_map set_append)
      then have "\<forall>n \<in> set (ns @ cs). hinfo ?h n \<noteq> NULL" using less.prems(3) G(3) by fastforce
      then have nn: "\<forall>n \<in> set (butlast ns @ last ns # cs). hinfo ?h n \<noteq> NULL" unfolding eq .
      have at: "itr_at l [] (itr_rewind it')" using G(4) by (simp add: itr_at_def itr_rewind_def tail_slot_def)
      have nl: "last ns \<notin> set (butlast ns)" using ns(1,2) by (metis distinct_append disjoint_iff list.set_intros(1))
      have short: "length (butlast ns) < length ns" using Cons by simp
      have wf: "is_list ?h l (butlast ns @ last ns # cs)" using less.prems(1) by (simp add: is_list_info eq)
      have eol: "eol_ok ?h" using less.prems(2) G(3) ns(3) by (simp add: eol_ok_def)
      have st: "stops_at (last ns) (last ns # cs)" by (simp add: stops_at_def)
      have ne: "butlast ns = [] \<longrightarrow> last ns # cs = []" using True Cons by (cases bs) simp_all
      obtain g' where G':
        "bubble_outer cmp ?h (itr_rewind it') (last ns) = Some (?h\<lparr>hinfo := g'\<rparr>)"
        "map g' (butlast ns) = bsort cmp (map g (butlast ns))" "\<forall>n. n \<notin> set (butlast ns) \<longrightarrow> g' n = g n"
        using less.hyps [OF short wf eol nn at st nl ne] by auto
      have last: "g' (last ns) = last (fst (pass cmp (hinfo h a) (map (hinfo h) bs)))"
        using G'(3) nl G(2) by (metis last_map list.distinct(1) Cons)
      have "map g' ns = map g' (butlast ns) @ [g' (last ns)]" by (subst ns(1)) simp
      also have "\<dots> = bsort cmp (map (hinfo h) ns)"
        using G'(2) G(2) last True Cons by (simp add: map_butlast del: butlast.simps last.simps) 
      finally show ?thesis using step True G' G(3)
        by (intro exI [of _ g']) (auto dest: in_set_butlastD)
    qed
  qed
qed

lemma replace_each_run:
  assumes "is_list h l (xs @ ys)" and "eol_ok h" and "\<forall>n \<in> set ys. hinfo h n \<noteq> NULL" and "itr_at l xs it"
  shows "replace_each clone it h = Some (h\<lparr>hinfo := (\<lambda>n. if n \<in> set ys then clone (hinfo h n) else hinfo h n)\<rparr>)"
  using assms
proof (induction ys arbitrary: xs it h)
  case Nil
  then show ?case using itr_next_end(1) [of h l xs it] by (subst replace_each.simps) (simp add: Let_def)
next
  case (Cons y ys)
  note N = itr_next_at [OF Cons.prems(1,4)]
  let ?it = "snd (itr_next h it)" and ?h = "set_info y (clone (hinfo h y)) h"
  have y: "y \<notin> set ys" "y \<noteq> end_of_list" using is_listD(3,7) [OF Cons.prems(1)] by auto
  have "replace_each clone it h = replace_each clone ?it ?h"
    using N Cons.prems(3) by (subst replace_each.simps) (simp add: Let_def itr_replace_def)
  also have "\<dots> = Some (?h\<lparr>hinfo := (\<lambda>n. if n \<in> set ys then clone (hinfo ?h n) else hinfo ?h n)\<rparr>)"
  proof (rule Cons.IH [of _ "xs @ [y]"])
    show "is_list ?h l ((xs @ [y]) @ ys)" using Cons.prems(1) by (simp add: set_info_def is_list_def)
    show "eol_ok ?h" using Cons.prems(2) y by (simp add: eol_ok_def ptr_simps)
    show "\<forall>n \<in> set ys. hinfo ?h n \<noteq> NULL" using Cons.prems(3) y by (auto simp: ptr_simps)
  qed (rule N(2))
  also have "\<dots> = Some (h\<lparr>hinfo := (\<lambda>n. if n \<in> set (y # ys) then clone (hinfo h n) else hinfo h n)\<rparr>)"
    using y(1) by (auto simp: set_info_def fun_eq_iff)
  finally show ?case .
qed

lemma delete_loop_run:
  "chain (hnext h) node ns end_of_list \<Longrightarrow> end_of_list \<notin> set ns \<Longrightarrow>
     delete_loop h node ds = Some (ds @ map (hinfo h) ns)"
proof (induction ns arbitrary: node ds)
  case (Cons n ns)
  then show ?case by (subst delete_loop.simps) auto
qed (subst delete_loop.simps, simp)

text \<open>
  Property C39: \<open>bubble_sort\<close> always returns on a well-formed list without null elements, whatever
  the comparison function; it keeps the nodes in place and permutes the elements, and when
  the comparison is an order it leaves them sorted.
\<close>

theorem bubble_sort_sorts:
  assumes "is_list h l ns" and "eol_ok h" and "\<forall>n \<in> set ns. hinfo h n \<noteq> NULL"
  shows "\<exists>h'. bubble_sort cmp l h = Some h' \<and> is_list h' l ns \<and>
    mset (map (hinfo h') ns) = mset (map (hinfo h) ns) \<and>
    (order_func cmp \<longrightarrow> sorted_wrt (\<lambda>x y. cmp x y \<le> 0) (map (hinfo h') ns))"
proof -
  have "NULL \<notin> set ns" using is_listD(8) [OF assms(1)] .
  then obtain g where g: "bubble_sort cmp l h = Some (h\<lparr>hinfo := g\<rparr>)" "map g ns = bsort cmp (map (hinfo h) ns)"
    using bubble_outer_run [of h l ns "[]" "itr_init l" NULL cmp] assms itr_init_at
    by (auto simp: bubble_sort_def stops_at_def)
  then show ?thesis
    using assms(1) bsort_mset [of cmp "map (hinfo h) ns"] bsort_sorted [of cmp "map (hinfo h) ns"]
    by (intro exI [of _ "h\<lparr>hinfo := g\<rparr>"]) (simp add: is_list_info)
qed

lemma order_func_int: "order_func (\<lambda>x y. int y - int x)"
  by (simp add: order_func_def)

theorem bubble_sort_sorts_witness:
  "\<exists>h'. bubble_sort (\<lambda>x y. int y - int x) 0 heap1 = Some h' \<and>
     sorted_wrt (\<lambda>x y. int y - int x \<le> 0) (map (hinfo h') [5, 6, 7])"
proof -
  have "\<forall>n \<in> set [5, 6, 7]. hinfo heap1 n \<noteq> NULL" using heap1_lists(4) by (simp add: NULL_def)
  from bubble_sort_sorts [OF heap1_lists(1,3) this, of "\<lambda>x y. int y - int x"] show ?thesis
    using order_func_int by blast
qed

text \<open>
  \<open>list_copy_and_replace_each_value\<close> returns and replaces every element of the list by
  its clone, and \<open>delete_elements\<close> returns, deletes every element exactly once in list order and
  leaves an empty list.
\<close>

theorem copy_and_delete_each:
  assumes "is_list h l ns" and "eol_ok h" and "\<forall>n \<in> set ns. hinfo h n \<noteq> NULL"
  shows "(\<exists>h'. list_copy_and_replace_each_value clone l h = Some h' \<and> is_list h' l ns \<and>
      map (hinfo h') ns = map clone (map (hinfo h) ns)) \<and>
    (\<exists>h'. delete_elements l h = Some (map (hinfo h) ns, h') \<and> is_list h' l [])"
  using replace_each_run [of h l "[]" ns "itr_init l" clone] assms itr_init_at bl_empty_list
    delete_loop_run [OF is_listD(1,7) [OF assms(1)], of "[]"]
  by (simp add: list_copy_and_replace_each_value_def delete_elements_def is_list_info)

theorem copy_and_delete_each_witness:
  "\<exists>h'. list_copy_and_replace_each_value Suc 0 heap1 = Some h' \<and> map (hinfo h') [5, 6, 7] = [51, 61, 71]"
proof -
  have "\<forall>n \<in> set [5, 6, 7]. hinfo heap1 n \<noteq> NULL" using heap1_lists(4) by (simp add: NULL_def)
  then show ?thesis using copy_and_delete_each [OF heap1_lists(1,3), of Suc] heap1_lists(4) by auto
qed

end
