(* ===== verification/ILists.thy ===== *)
theory ILists
  imports BaseListOps
begin

text \<open>
  The intrusive lists of \<open>sql_list.h\<close>. \<open>SQL_I_List\<close> is singly linked through a \<open>next\<close> field of its
  elements and ends in the null pointer; its own field \<open>next\<close> is the slot the next element goes
  to. \<open>ilink\<close> and \<open>base_ilist\<close> are doubly linked: \<open>prev\<close> is the slot that points to the element, and
  the list object contains a sentinel element \<open>last\<close>.
\<close>

section \<open>\<open>SQL_I_List\<close>\<close>

record sql_i_list =
  si_elements :: u32
  si_first :: node
  si_next :: slot

record sheap =
  s_link :: "node \<Rightarrow> node"
  s_list :: "list_id \<Rightarrow> sql_i_list"

fun s_assign_slot :: "slot \<Rightarrow> node \<Rightarrow> sheap \<Rightarrow> sheap" where
  "s_assign_slot (FirstOf l) v h = h\<lparr>s_list := (s_list h)(l := (s_list h l)\<lparr>si_first := v\<rparr>)\<rparr>"
| "s_assign_slot (NextOf n) v h = h\<lparr>s_link := (s_link h)(n := v)\<rparr>"

definition set_list :: "list_id \<Rightarrow> sql_i_list \<Rightarrow> sheap \<Rightarrow> sheap" where
  "set_list l r h = h\<lparr>s_list := (s_list h)(l := r)\<rparr>"

definition si_empty :: "list_id \<Rightarrow> sheap \<Rightarrow> sheap" where
  "si_empty l h = set_list l \<lparr>si_elements = 0, si_first = NULL, si_next = FirstOf l\<rparr> h"

definition si_copy :: "list_id \<Rightarrow> list_id \<Rightarrow> sheap \<Rightarrow> sheap" where
  "si_copy l tmp h = set_list l \<lparr>si_elements = si_elements (s_list h tmp), si_first = si_first (s_list h tmp),
     si_next = (if si_elements (s_list h tmp) \<noteq> 0 then si_next (s_list h tmp) else FirstOf l)\<rparr> h"

definition si_assign :: "list_id \<Rightarrow> list_id \<Rightarrow> sheap \<Rightarrow> sheap" where
  "si_assign l tmp h = set_list l (s_list h tmp) h"

definition link_in_list :: "list_id \<Rightarrow> node \<Rightarrow> slot \<Rightarrow> sheap \<Rightarrow> sheap" where
  "link_in_list l element next_ptr h =
     (let h = set_list l ((s_list h l)\<lparr>si_elements := si_elements (s_list h l) + 1\<rparr>) h;
          h = s_assign_slot (si_next (s_list h l)) element h;
          h = set_list l ((s_list h l)\<lparr>si_next := next_ptr\<rparr>) h
      in s_assign_slot (si_next (s_list h l)) NULL h)"

definition save_and_clear :: "list_id \<Rightarrow> list_id \<Rightarrow> sheap \<Rightarrow> sheap" where
  "save_and_clear l save h = si_empty l (si_assign save l h)"

definition si_push_front :: "list_id \<Rightarrow> list_id \<Rightarrow> sheap \<Rightarrow> sheap" where
  "si_push_front l save h =
     (let h = s_assign_slot (si_next (s_list h save)) (si_first (s_list h l)) h;
          h = set_list l ((s_list h l)\<lparr>si_first := si_first (s_list h save)\<rparr>) h
      in set_list l ((s_list h l)\<lparr>si_elements := si_elements (s_list h l) + si_elements (s_list h save)\<rparr>) h)"

definition si_push_back :: "list_id \<Rightarrow> list_id \<Rightarrow> sheap \<Rightarrow> sheap" where
  "si_push_back l save h =
     (if si_first (s_list h save) \<noteq> NULL
      then let h = s_assign_slot (si_next (s_list h l)) (si_first (s_list h save)) h;
               h = set_list l ((s_list h l)\<lparr>si_next := si_next (s_list h save)\<rparr>) h
           in set_list l ((s_list h l)\<lparr>si_elements := si_elements (s_list h l) + si_elements (s_list h save)\<rparr>) h
      else h)"

section \<open>\<open>ilink\<close> and \<open>base_ilist\<close>\<close>

type_synonym ilist_id = nat

datatype link = LNull | Sentinel ilist_id | Link nat

datatype lslot = LFirst ilist_id | LNext link

record lheap =
  lk_next :: "link \<Rightarrow> link"
  lk_prev :: "link \<Rightarrow> lslot option"
  il_first :: "ilist_id \<Rightarrow> link"

fun l_assign :: "lslot \<Rightarrow> link \<Rightarrow> lheap \<Rightarrow> lheap" where
  "l_assign (LFirst l) v h = h\<lparr>il_first := (il_first h)(l := v)\<rparr>"
| "l_assign (LNext n) v h = h\<lparr>lk_next := (lk_next h)(n := v)\<rparr>"

fun l_deref :: "lheap \<Rightarrow> lslot \<Rightarrow> link" where
  "l_deref h (LFirst l) = il_first h l"
| "l_deref h (LNext n) = lk_next h n"

definition set_prev :: "link \<Rightarrow> lslot option \<Rightarrow> lheap \<Rightarrow> lheap" where
  "set_prev n s h = h\<lparr>lk_prev := (lk_prev h)(n := s)\<rparr>"

definition ilink_init :: "link \<Rightarrow> lheap \<Rightarrow> lheap" where
  "ilink_init a h = l_assign (LNext a) LNull (set_prev a None h)"

definition unlink :: "link \<Rightarrow> lheap \<Rightarrow> lheap" where
  "unlink a h =
     (let h = (case lk_prev h a of None \<Rightarrow> h | Some s \<Rightarrow> l_assign s (lk_next h a) h);
          h = (if lk_next h a \<noteq> LNull then set_prev (lk_next h a) (lk_prev h a) h else h)
      in l_assign (LNext a) LNull (set_prev a None h))"

definition il_empty :: "ilist_id \<Rightarrow> lheap \<Rightarrow> lheap" where
  "il_empty l h = set_prev (Sentinel l) (Some (LFirst l)) (l_assign (LFirst l) (Sentinel l) h)"

definition il_is_empty :: "lheap \<Rightarrow> ilist_id \<Rightarrow> bool" where
  "il_is_empty h l \<longleftrightarrow> il_first h l = Sentinel l"

definition il_is_last :: "lheap \<Rightarrow> ilist_id \<Rightarrow> link \<Rightarrow> bool" where
  "il_is_last h l p \<longleftrightarrow> lk_next h p = LNull \<or> lk_next h p = Sentinel l"

definition il_append :: "ilist_id \<Rightarrow> link \<Rightarrow> lheap \<Rightarrow> lheap" where
  "il_append l a h =
     (let h = set_prev (il_first h l) (Some (LNext a)) h;
          h = l_assign (LNext a) (il_first h l) h;
          h = set_prev a (Some (LFirst l)) h
      in l_assign (LFirst l) a h)"

text \<open>\<open>*last.prev\<close> is undefined when the sentinel's \<open>prev\<close> is null, which \<open>empty\<close> rules out.\<close>

definition il_push_back :: "ilist_id \<Rightarrow> link \<Rightarrow> lheap \<Rightarrow> lheap option" where
  "il_push_back l a h =
     (case lk_prev h (Sentinel l) of
        None \<Rightarrow> None
      | Some s \<Rightarrow>
          let h = l_assign s a h;
              h = l_assign (LNext a) (Sentinel l) h;
              h = set_prev a (lk_prev h (Sentinel l)) h
          in Some (set_prev (Sentinel l) (Some (LNext a)) h))"

definition il_get :: "ilist_id \<Rightarrow> lheap \<Rightarrow> link \<times> lheap" where
  "il_get l h =
     (let first_link = il_first h l
      in if first_link = Sentinel l then (LNull, h) else (first_link, unlink first_link h))"

definition il_head :: "lheap \<Rightarrow> ilist_id \<Rightarrow> link" where
  "il_head h l = (if il_first h l \<noteq> Sentinel l then il_first h l else LNull)"

definition move_elements_to :: "ilist_id \<Rightarrow> ilist_id \<Rightarrow> lheap \<Rightarrow> lheap" where
  "move_elements_to l new_owner h =
     (let h = l_assign (LFirst new_owner) (il_first h l) h;
          h = set_prev (Sentinel new_owner) (lk_prev h (Sentinel l)) h;
          h = l_assign (LNext (Sentinel new_owner)) (lk_next h (Sentinel l)) h
      in il_empty l h)"

text \<open>\<open>base_ilist_iterator\<close>: the slot \<open>el\<close>; \<open>next\<close> leaves it in place at the end.\<close>

definition ilit_init :: "ilist_id \<Rightarrow> lslot" where
  "ilit_init l = LFirst l"

definition ilit_next :: "lheap \<Rightarrow> ilist_id \<Rightarrow> lslot \<Rightarrow> link \<times> lslot" where
  "ilit_next h l el =
     (let current = l_deref h el in if current = Sentinel l then (LNull, el) else (current, LNext current))"

fun ilit_collect :: "lheap \<Rightarrow> ilist_id \<Rightarrow> nat \<Rightarrow> lslot \<Rightarrow> link list" where
  "ilit_collect h l 0 el = []"
| "ilit_collect h l (Suc k) el = fst (ilit_next h l el) # ilit_collect h l k (snd (ilit_next h l el))"

section \<open>\<open>SQL_I_List\<close> as a sequence\<close>

lemma s_reads [ptr_simps]:
  "s_link (s_assign_slot s v h) x = (if s = NextOf x then v else s_link h x)"
  "si_first (s_list (s_assign_slot s v h) k) = (if s = FirstOf k then v else si_first (s_list h k))"
  "si_elements (s_list (s_assign_slot s v h) k) = si_elements (s_list h k)"
  "si_next (s_list (s_assign_slot s v h) k) = si_next (s_list h k)"
  "s_link (set_list l r h) = s_link h" "s_list (set_list l r h) k = (if k = l then r else s_list h k)"
  by (cases s; simp add: set_list_def)+

definition is_slist :: "sheap \<Rightarrow> list_id \<Rightarrow> node list \<Rightarrow> bool" where
  "is_slist h l ns \<longleftrightarrow> chain (s_link h) (si_first (s_list h l)) ns NULL \<and> NULL \<notin> set ns \<and> distinct ns \<and>
     si_next (s_list h l) = tail_slot l ns \<and> si_elements (s_list h l) = of_nat (length ns)"

lemma is_slistI:
  assumes "chain (s_link h) (si_first (s_list h l)) ns NULL" and "NULL \<notin> set ns" and "distinct ns"
    and "si_next (s_list h l) = tail_slot l ns" and "si_elements (s_list h l) = of_nat (length ns)"
  shows "is_slist h l ns"
  using assms by (simp add: is_slist_def)

lemma is_slistD:
  assumes "is_slist h l ns"
  shows "chain (s_link h) (si_first (s_list h l)) ns NULL" and "NULL \<notin> set ns" and "distinct ns"
    and "si_next (s_list h l) = tail_slot l ns" and "si_elements (s_list h l) = of_nat (length ns)"
  using assms by (simp_all add: is_slist_def)

lemma si_empty_slist: "is_slist (si_empty l h) l []"
  by (simp add: is_slist_def si_empty_def tail_slot_def ptr_simps)

lemma link_in_list_slist:
  assumes "is_slist h l ns" and "n \<noteq> NULL" and "n \<notin> set ns"
  shows "is_slist (link_in_list l n (NextOf n) h) l (ns @ [n])"
proof -
  note L = is_slistD [OF assms(1)]
  let ?h = "link_in_list l n (NextOf n) h"
  have nxt: "s_link ?h x = (if x = n then NULL else if tail_slot l ns = NextOf x then n else s_link h x)" for x
    using L(4) by (auto simp: link_in_list_def Let_def ptr_simps)
  have f: "si_first (s_list ?h l) = (if ns = [] then n else si_first (s_list h l))"
    using L(4) by (simp add: link_in_list_def Let_def ptr_simps slot_eqs)
  have "chain (s_link ?h) (si_first (s_list ?h l)) ns n"
    by (rule chain_redirect [OF L(1,3)]) (use assms(3) nxt f in \<open>auto simp: slot_eqs\<close>)
  then show ?thesis
    using L assms nxt by (intro is_slistI) (auto simp: link_in_list_def Let_def ptr_simps tail_slot_def)
qed

lemma push_back_slist:
  assumes "is_slist h l xs" and "is_slist h k ys" and "l \<noteq> k" and "set xs \<inter> set ys = {}"
  shows "is_slist (si_push_back l k h) l (xs @ ys)"
proof (cases "ys = []")
  case True
  then show ?thesis using assms is_slistD(1) [OF assms(2)] by (simp add: si_push_back_def)
next
  case False
  note X = is_slistD [OF assms(1)] and Y = is_slistD [OF assms(2)]
  let ?h = "si_push_back l k h" and ?q = "si_first (s_list h k)"
  have q: "?q \<noteq> NULL" using chain_hd [OF Y(1)] Y(2) False by (cases ys) auto
  have nxt: "s_link ?h x = (if tail_slot l xs = NextOf x then ?q else s_link h x)" for x
    using q X(4) by (simp add: si_push_back_def Let_def ptr_simps)
  have f: "si_first (s_list ?h l) = (if xs = [] then ?q else si_first (s_list h l))"
    using q X(4) assms(3) by (simp add: si_push_back_def Let_def ptr_simps slot_eqs)
  have 1: "chain (s_link ?h) (si_first (s_list ?h l)) xs ?q"
    by (rule chain_redirect [OF X(1,3)]) (use nxt f in \<open>auto simp: slot_eqs\<close>)
  have 2: "chain (s_link ?h) ?q ys NULL"
    by (rule chain_keep [OF Y(1)]) (use nxt last_disjoint [OF assms(4)] in \<open>auto simp: slot_eqs\<close>)
  show ?thesis
    using X Y q assms(3,4) False 1 2
    by (intro is_slistI) (auto simp: chain_append si_push_back_def Let_def ptr_simps tail_slot_def)
qed

text \<open>
  \<open>push_front\<close> puts the saved list first when neither list is empty: only then do the slots
  \<open>save->next\<close> and \<open>next\<close> lie inside the lists.
\<close>

lemma push_front_slist:
  assumes "is_slist h l xs" and "is_slist h k ys" and "l \<noteq> k" and "set xs \<inter> set ys = {}" and "xs \<noteq> []" and "ys \<noteq> []"
  shows "is_slist (si_push_front l k h) l (ys @ xs)"
proof -
  note X = is_slistD [OF assms(1)] and Y = is_slistD [OF assms(2)]
  let ?h = "si_push_front l k h" and ?p = "si_first (s_list h k)" and ?q = "si_first (s_list h l)"
  have nxt: "s_link ?h x = (if x = last ys then ?q else s_link h x)" for x
    using Y(4) assms(6) by (auto simp: si_push_front_def Let_def ptr_simps tail_slot_def)
  have f: "si_first (s_list ?h l) = ?p"
    using Y(4) assms(6) by (simp add: si_push_front_def Let_def ptr_simps tail_slot_def)
  have 1: "chain (s_link ?h) ?p ys ?q" by (rule chain_redirect [OF Y(1,3)]) (use nxt assms(6) in auto)
  have 2: "chain (s_link ?h) ?q xs NULL"
    by (rule chain_keep [OF X(1)]) (use nxt assms(4,6) last_in_set [of ys] in auto)
  show ?thesis
    using X Y f assms(4-6) 1 2
    by (intro is_slistI) (auto simp: chain_append si_push_front_def Let_def ptr_simps tail_slot_def)
qed

lemma save_and_clear_slist:
  assumes "is_slist h l ns" and "l \<noteq> s" and "ns \<noteq> []"
  shows "is_slist (save_and_clear l s h) s ns \<and> is_slist (save_and_clear l s h) l []"
  using is_slistD [OF assms(1)] assms(2,3) si_empty_slist
  by (auto simp: is_slist_def save_and_clear_def si_empty_def si_assign_def ptr_simps tail_slot_def)

text \<open>
  Saving a list and putting it back in front. With both lists non-empty, \<open>push_front\<close>
  after \<open>save_and_clear\<close> gives the saved elements followed by those linked in between. When the
  saved list was empty, the copy's \<open>next\<close> still points into the list it was copied from, and
  \<open>push_front\<close> loses every element linked in between: the list then has no first element
  although its counter says otherwise.
\<close>

theorem save_and_push_front:
  assumes "is_slist h l ns" and "l \<noteq> s"
  shows "(ns \<noteq> [] \<longrightarrow> is_slist h' s ns \<longrightarrow> is_slist h' l (m # ms) \<longrightarrow> set (m # ms) \<inter> set ns = {} \<longrightarrow>
      is_slist (save_and_clear l s h) s ns \<and> is_slist (si_push_front l s h') l (ns @ m # ms)) \<and>
    (ns = [] \<longrightarrow> n \<noteq> NULL \<longrightarrow>
      si_first (s_list (si_push_front l s (link_in_list l n (NextOf n) (save_and_clear l s h))) l) = NULL \<and>
      si_elements (s_list (si_push_front l s (link_in_list l n (NextOf n) (save_and_clear l s h))) l) = 1)"
proof (intro conjI impI)
  assume "ns = []" and n: "n \<noteq> NULL"
  then have e: "si_first (s_list h l) = NULL" "si_next (s_list h l) = FirstOf l" "si_elements (s_list h l) = 0"
    using is_slistD [OF assms(1)] by (simp_all add: tail_slot_def)
  note defs = si_push_front_def link_in_list_def save_and_clear_def si_empty_def si_assign_def Let_def
  show "si_first (s_list (si_push_front l s (link_in_list l n (NextOf n) (save_and_clear l s h))) l) = NULL"
    using e assms(2) n by (simp add: defs ptr_simps)
  show "si_elements (s_list (si_push_front l s (link_in_list l n (NextOf n) (save_and_clear l s h))) l) = 1"
    using e assms(2) n by (simp add: defs ptr_simps)
qed (use assms save_and_clear_slist push_front_slist in auto)

definition sheap0 :: sheap where
  "sheap0 = \<lparr>s_link = (\<lambda>_. NULL), s_list = (\<lambda>l. \<lparr>si_elements = 0, si_first = NULL, si_next = FirstOf l\<rparr>)\<rparr>"

theorem save_and_push_front_witness:
  "is_slist sheap0 0 [] \<and>
   si_first (s_list (si_push_front 0 1 (link_in_list 0 5 (NextOf 5) (save_and_clear 0 1 sheap0))) 0) = NULL"
proof -
  have "is_slist sheap0 0 []" by (simp add: is_slist_def sheap0_def tail_slot_def)
  with save_and_push_front [of sheap0 0 "[]" 1 sheap0 5 "[]" 5] show ?thesis by (simp add: NULL_def)
qed

text \<open>
  \<open>link_in_list\<close> appends an element and \<open>push_back\<close> appends a whole list; the element
  count, the chain and the slot of the next element stay in step.
\<close>

theorem link_and_push_back:
  assumes "is_slist h l xs" and "n \<noteq> NULL" and "n \<notin> set xs" and "is_slist h k ys" and "l \<noteq> k" and "set xs \<inter> set ys = {}"
  shows "is_slist (link_in_list l n (NextOf n) h) l (xs @ [n]) \<and> is_slist (si_push_back l k h) l (xs @ ys)"
  using link_in_list_slist [OF assms(1-3)] push_back_slist [OF assms(1,4-6)] ..

theorem link_and_push_back_witness:
  "is_slist (link_in_list 0 5 (NextOf 5) sheap0) 0 [5] \<and> is_slist (si_push_back 0 1 sheap0) 0 []"
  using link_and_push_back [of sheap0 0 "[]" 5 1 "[]"]
  by (simp add: is_slist_def sheap0_def tail_slot_def NULL_def)

section \<open>Doubly linked segments\<close>

lemma l_reads [ptr_simps]:
  "lk_next (l_assign s v h) x = (if s = LNext x then v else lk_next h x)"
  "lk_prev (l_assign s v h) = lk_prev h"
  "il_first (l_assign s v h) k = (if s = LFirst k then v else il_first h k)"
  "lk_next (set_prev n p h) = lk_next h" "il_first (set_prev n p h) = il_first h"
  "lk_prev (set_prev n p h) x = (if x = n then p else lk_prev h x)"
  by (cases s; simp add: set_prev_def)+

text \<open>
  \<open>seg nx pv s p xs s' q\<close>: slot \<open>s\<close> holds \<open>p\<close>, the links \<open>xs\<close> follow with their back slots, and the
  slot \<open>s'\<close> behind them holds \<open>q\<close>.
\<close>

fun seg :: "(link \<Rightarrow> link) \<Rightarrow> (link \<Rightarrow> lslot option) \<Rightarrow> lslot \<Rightarrow> link \<Rightarrow> link list \<Rightarrow> lslot \<Rightarrow> link \<Rightarrow> bool" where
  "seg nx pv s p [] s' q \<longleftrightarrow> s = s' \<and> p = q"
| "seg nx pv s p (x # xs) s' q \<longleftrightarrow> p = x \<and> pv x = Some s \<and> seg nx pv (LNext x) (nx x) xs s' q"

lemma seg_append: "seg nx pv s p (xs @ ys) s' q \<longleftrightarrow> (\<exists>t r. seg nx pv s p xs t r \<and> seg nx pv t r ys s' q)"
  by (induction xs arbitrary: s p) auto

lemma seg_end: "seg nx pv s p xs s' q \<Longrightarrow> s' = (if xs = [] then s else LNext (last xs))"
  by (induction xs arbitrary: s p) auto

lemma seg_keep:
  "seg nx pv s p xs s' q \<Longrightarrow> (\<And>x. x \<in> set xs \<Longrightarrow> nx' x = nx x \<and> pv' x = pv x) \<Longrightarrow> seg nx' pv' s p xs s' q"
  by (induction xs arbitrary: s p) auto

lemma seg_redirect:
  assumes "seg nx pv s p xs s' q" and "distinct xs" and "\<And>x. x \<in> set xs \<Longrightarrow> pv' x = pv x"
    and "\<And>x. x \<in> set xs \<Longrightarrow> nx' x = (if s' = LNext x then q' else nx x)" and "p' = (if xs = [] then q' else p)"
  shows "seg nx' pv' s p' xs s' q'"
proof (cases xs rule: rev_cases)
  case Nil
  then show ?thesis using assms by simp
next
  case (snoc ys a)
  obtain t where t: "seg nx pv s p ys t a" "pv a = Some t" "s' = LNext a" using assms(1) snoc by (auto simp: seg_append)
  have "seg nx' pv' s p ys t a" by (rule seg_keep [OF t(1)]) (use assms(2-4) snoc t(3) in auto)
  then show ?thesis using snoc t assms by (auto simp: seg_append)
qed

text \<open>A link put between two neighbours, and a link taken out.\<close>

lemma seg_insert:
  assumes "seg nx pv s p (xs @ y # ys) s' q" and "distinct (xs @ y # ys)" and "a \<notin> set (xs @ y # ys)"
    and "t = (if xs = [] then s else LNext (last xs))"
    and "\<And>x. nx' x = (if x = a then y else if t = LNext x then a else nx x)"
    and "\<And>x. pv' x = (if x = y then Some (LNext a) else if x = a then Some t else pv x)"
    and "p' = (if xs = [] then a else p)" and "xs = [] \<Longrightarrow> \<forall>x \<in> set (y # ys). s \<noteq> LNext x" and "t \<noteq> LNext a"
  shows "seg nx' pv' s p' (xs @ a # y # ys) s' q"
proof -
  obtain r where r: "seg nx pv s p xs t r" "r = y" "seg nx pv (LNext y) (nx y) ys s' q"
    using assms(1,4) by (auto simp: seg_append dest: seg_end)
  have ty: "\<forall>x \<in> set (y # ys). t \<noteq> LNext x" using assms(2,4,8) last_disjoint [of xs ys] last_in_set [of xs] by (cases "xs = []") auto
  have 1: "seg nx' pv' s p' xs t a"
    by (rule seg_redirect [OF r(1)]) (use assms(2,3,5,6,7) in auto)
  have 2: "seg nx' pv' (LNext y) (nx y) ys s' q"
    by (rule seg_keep [OF r(3)]) (use assms(2,3,5,6) ty in auto)
  show ?thesis using 1 2 assms(3,5,6,9) ty by (auto simp: seg_append)
qed

lemma seg_delete:
  assumes "seg nx pv s p (xs @ a # y # ys) s' q" and "distinct (xs @ a # y # ys)"
    and "t = (if xs = [] then s else LNext (last xs))"
    and "\<And>x. nx' x = (if x = a then LNull else if t = LNext x then y else nx x)"
    and "\<And>x. pv' x = (if x = a then None else if x = y then Some t else pv x)"
    and "p' = (if xs = [] then y else p)" and "xs = [] \<Longrightarrow> \<forall>x \<in> set (y # ys). s \<noteq> LNext x"
  shows "seg nx' pv' s p' (xs @ y # ys) s' q"
proof -
  obtain r where r: "seg nx pv s p xs t r" "seg nx pv (LNext y) (nx y) ys s' q"
    using assms(1,3) by (auto simp: seg_append dest: seg_end)
  have ty: "\<forall>x \<in> set (y # ys). t \<noteq> LNext x" using assms(2,3,7) last_disjoint [of xs ys] last_in_set [of xs] by (cases "xs = []") auto
  have 1: "seg nx' pv' s p' xs t y"
    by (rule seg_redirect [OF r(1)]) (use assms(2,4,5,6) in auto)
  have 2: "seg nx' pv' (LNext y) (nx y) ys s' q"
    by (rule seg_keep [OF r(2)]) (use assms(2,4,5) ty in auto)
  show ?thesis using 1 2 assms(2,4,5) ty by (auto simp: seg_append)
qed

section \<open>\<open>base_ilist\<close> as a sequence\<close>

definition is_ilist :: "ilist_id \<Rightarrow> lheap \<Rightarrow> link list \<Rightarrow> bool" where
  "is_ilist l h ns \<longleftrightarrow>
     seg (lk_next h) (lk_prev h) (LFirst l) (il_first h l) (ns @ [Sentinel l]) (LNext (Sentinel l)) LNull \<and>
     distinct ns \<and> (\<forall>n \<in> set ns. \<exists>i. n = Link i)"

lemma is_ilist_facts:
  assumes "is_ilist l h ns"
  shows "distinct (ns @ [Sentinel l])" and "LNull \<notin> set (ns @ [Sentinel l])"
    and "il_first h l = hd (ns @ [Sentinel l])" and "lk_prev h (Sentinel l) = Some (if ns = [] then LFirst l else LNext (last ns))"
    and "il_first h l \<noteq> LNull"
proof -
  show d: "distinct (ns @ [Sentinel l])" "LNull \<notin> set (ns @ [Sentinel l])" using assms by (auto simp: is_ilist_def)
  show f: "il_first h l = hd (ns @ [Sentinel l])" using assms by (cases ns) (auto simp: is_ilist_def)
  show "lk_prev h (Sentinel l) = Some (if ns = [] then LFirst l else LNext (last ns))"
    using assms by (auto simp: is_ilist_def seg_append dest: seg_end)
  show "il_first h l \<noteq> LNull" using f d(2) by (cases ns) auto
qed

lemma il_empty_list:
  assumes "lk_next h (Sentinel l) = LNull"
  shows "is_ilist l (il_empty l h) []"
  using assms by (simp add: is_ilist_def il_empty_def ptr_simps)

lemma il_append_list:
  assumes "is_ilist l h ns" and "Link i \<notin> set ns"
  shows "is_ilist l (il_append l (Link i) h) (Link i # ns)"
proof -
  note F = is_ilist_facts [OF assms(1)]
  obtain y ys where y: "ns @ [Sentinel l] = y # ys" by (cases "ns @ [Sentinel l]") auto
  have S: "seg (lk_next h) (lk_prev h) (LFirst l) (il_first h l) ([] @ y # ys) (LNext (Sentinel l)) LNull"
    using assms(1) by (simp add: is_ilist_def y)
  have f: "il_first h l = y" and d: "distinct ([] @ y # ys)" using F(1,3) unfolding y by simp_all
  have fresh: "Link i \<notin> set ([] @ y # ys)" using assms(2) by (simp flip: y)
  have "seg (lk_next (il_append l (Link i) h)) (lk_prev (il_append l (Link i) h)) (LFirst l)
      (il_first (il_append l (Link i) h) l) ([] @ Link i # y # ys) (LNext (Sentinel l)) LNull"
    by (rule seg_insert [OF S d fresh, where t = "LFirst l"])
      (use f fresh in \<open>auto simp: il_append_def Let_def ptr_simps\<close>)
  then show ?thesis using assms by (simp add: is_ilist_def flip: y)
qed

lemma il_push_back_list:
  assumes "is_ilist l h ns" and "Link i \<notin> set ns"
  obtains h' where "il_push_back l (Link i) h = Some h'" and "is_ilist l h' (ns @ [Link i])"
proof -
  note F = is_ilist_facts [OF assms(1)]
  let ?t = "if ns = [] then LFirst l else LNext (last ns)" and ?S = "Sentinel l"
  let ?h = "set_prev ?S (Some (LNext (Link i))) (set_prev (Link i) (Some ?t) (l_assign (LNext (Link i)) ?S (l_assign ?t (Link i) h)))"
  have run: "il_push_back l (Link i) h = Some ?h" using F(4) by (simp add: il_push_back_def Let_def ptr_simps)
  have ti: "?t \<noteq> LNext (Link i)" using assms(2) by (metis last_in_set lslot.distinct(1) lslot.inject(2))
  have "seg (lk_next ?h) (lk_prev ?h) (LFirst l) (il_first ?h l) (ns @ Link i # ?S # []) (LNext ?S) LNull"
    by (rule seg_insert [where nx = "lk_next h" and pv = "lk_prev h" and p = "il_first h l" and t = ?t])
      (use assms F ti in \<open>auto simp: is_ilist_def ptr_simps\<close>)
  then have "is_ilist l ?h (ns @ [Link i])" using assms by (auto simp: is_ilist_def)
  with run show thesis by (rule that)
qed

lemma unlink_list:
  assumes "is_ilist l h (xs @ a # ys)"
  shows "is_ilist l (unlink a h) (xs @ ys)" and "lk_next (unlink a h) a = LNull" and "lk_prev (unlink a h) a = None"
proof -
  note F = is_ilist_facts [OF assms]
  let ?t = "if xs = [] then LFirst l else LNext (last xs)"
  obtain y zs where y: "ys @ [Sentinel l] = y # zs" by (cases "ys @ [Sentinel l]") auto
  have S: "seg (lk_next h) (lk_prev h) (LFirst l) (il_first h l) (xs @ a # y # zs) (LNext (Sentinel l)) LNull"
    using assms by (simp add: is_ilist_def flip: y)
  then have pa: "lk_prev h a = Some ?t" and na: "lk_next h a = y" by (auto simp: seg_append dest: seg_end)
  have e: "(xs @ a # ys) @ [Sentinel l] = xs @ a # y # zs" using y by simp
  have yn: "y \<noteq> LNull" "y \<noteq> a" "distinct (xs @ a # y # zs)" "a \<notin> set xs" using F(1,2) unfolding e by auto
  have ta: "?t \<noteq> LNext a" using yn(4) by (metis last_in_set lslot.distinct(1) lslot.inject(2))
  show "lk_next (unlink a h) a = LNull" "lk_prev (unlink a h) a = None"
    by (simp_all add: unlink_def Let_def ptr_simps)
  have "seg (lk_next (unlink a h)) (lk_prev (unlink a h)) (LFirst l) (il_first (unlink a h) l) (xs @ y # zs) (LNext (Sentinel l)) LNull"
    by (rule seg_delete [OF S, where t = ?t]) (use pa na yn ta in \<open>auto simp: unlink_def Let_def ptr_simps\<close>)
  then show "is_ilist l (unlink a h) (xs @ ys)" using assms by (auto simp: is_ilist_def simp flip: y)
qed

lemma il_get_list:
  assumes "is_ilist l h ns"
  shows "fst (il_get l h) = (case ns of [] \<Rightarrow> LNull | n # _ \<Rightarrow> n)" and "is_ilist l (snd (il_get l h)) (tl ns)"
proof -
  note F = is_ilist_facts [OF assms]
  have "fst (il_get l h) = (case ns of [] \<Rightarrow> LNull | n # _ \<Rightarrow> n) \<and> is_ilist l (snd (il_get l h)) (tl ns)"
  proof (cases ns)
    case Nil
    then show ?thesis using assms F(3) by (simp add: il_get_def)
  next
    case (Cons n ms)
    then show ?thesis using assms F(1,3) unlink_list(1) [of l h "[]" n ms] by (auto simp: il_get_def)
  qed
  then show "fst (il_get l h) = (case ns of [] \<Rightarrow> LNull | n # _ \<Rightarrow> n)" "is_ilist l (snd (il_get l h)) (tl ns)" by auto
qed

definition il_push_back_total :: "ilist_id \<Rightarrow> nat \<Rightarrow> lheap \<Rightarrow> lheap" where
  "il_push_back_total l i h = (case il_push_back l (Link i) h of None \<Rightarrow> h | Some h' \<Rightarrow> h')"

interpretation il: seq_store "\<lambda>h xs. is_ilist l h (map Link xs)" "\<lambda>xs i. i \<notin> set xs" "il_push_back_total l"
  "\<lambda>i. il_append l (Link i)" "il_get l" Link LNull for l
proof unfold_locales
  fix h xs i
  assume h: "is_ilist l h (map Link xs)" and i: "i \<notin> set xs"
  then have n: "Link i \<notin> set (map Link xs)" by auto
  obtain h' where "il_push_back l (Link i) h = Some h'" "is_ilist l h' (map Link xs @ [Link i])"
    using il_push_back_list [OF h n] .
  then show "is_ilist l (il_push_back_total l i h) (map Link (xs @ [i]))"
    by (simp add: il_push_back_total_def)
  from il_append_list [OF h n] show "is_ilist l (il_append l (Link i) h) (map Link (i # xs))" by simp
next
  fix h i xs
  assume "is_ilist l h (map Link (i # xs))"
  then show "fst (il_get l h) = Link i \<and> is_ilist l (snd (il_get l h)) (map Link xs)"
    using il_get_list [of l h "map Link (i # xs)"] by simp
next
  fix h
  assume "is_ilist l h (map Link [])"
  then show "fst (il_get l h) = LNull \<and> is_ilist l (snd (il_get l h)) (map Link [])"
    using il_get_list [of l h "[]"] by simp
qed

text \<open>
  \<open>base_ilist\<close> implements a sequence: a run of \<open>push_back\<close>, \<open>append\<close> (which links in
  front) and \<open>get\<close> with elements that are not linked yet returns what the run on a sequence
  returns and keeps every back pointer and the sentinel consistent.
\<close>

theorem base_ilist_refines_sequence:
  assumes "is_ilist l h (map Link xs)" and "ops_ok (\<lambda>xs i. i \<notin> set xs) ops xs"
  shows "fst (seq_run (il_push_back_total l) (\<lambda>i. il_append l (Link i)) (il_get l) ops h) = fst (spec_run Link LNull ops xs) \<and>
    is_ilist l (snd (seq_run (il_push_back_total l) (\<lambda>i. il_append l (Link i)) (il_get l) ops h))
      (map Link (snd (spec_run Link LNull ops xs)))"
  by (rule il.run_refines [OF assms])

definition lheap0 :: lheap where
  "lheap0 = il_empty 1 (il_empty 0 \<lparr>lk_next = (\<lambda>_. LNull), lk_prev = (\<lambda>_. None), il_first = (\<lambda>_. LNull)\<rparr>)"

lemma lheap0_lists: "is_ilist 0 lheap0 []" "is_ilist 1 lheap0 []"
  by (simp_all add: lheap0_def is_ilist_def il_empty_def ptr_simps)

theorem base_ilist_refines_sequence_witness:
  "fst (seq_run (il_push_back_total 0) (\<lambda>i. il_append 0 (Link i)) (il_get 0) [PushBack 3, PushFront 4, Pop, Pop, Pop] lheap0)
     = [Link 4, Link 3, LNull]"
  using base_ilist_refines_sequence [of 0 lheap0 "[]" "[PushBack 3, PushFront 4, Pop, Pop, Pop]"] lheap0_lists
  by (simp add: spec_run_def)

text \<open>
  An element can be unlinked from anywhere in the list without the list at hand;
  afterwards the list holds exactly the others, and the element is ready to be linked again.
\<close>

theorem unlink_anywhere:
  assumes "is_ilist l h (xs @ a # ys)"
  shows "is_ilist l (unlink a h) (xs @ ys) \<and> lk_next (unlink a h) a = LNull \<and> lk_prev (unlink a h) a = None"
  using unlink_list [OF assms] by simp

theorem unlink_anywhere_witness:
  "is_ilist 0 (unlink (Link 3) (il_append 0 (Link 4) (il_append 0 (Link 3) lheap0))) [Link 4]"
proof -
  have "is_ilist 0 (il_append 0 (Link 4) (il_append 0 (Link 3) lheap0)) ([Link 4] @ Link 3 # [])"
    using il_append_list [OF il_append_list [OF lheap0_lists(1), of 3], of 4] by simp
  from unlink_anywhere [OF this] show ?thesis by simp
qed

text \<open>
  \<open>move_elements_to\<close> does not move a non-empty list: the last element still points to
  the sentinel of the old owner, so the new owner is never a well-formed list, and an iterator
  over it returns the old owner's sentinel as if it were an element.
\<close>

theorem move_elements_to_broken:
  assumes "is_ilist l h [a]" and "is_ilist k h []" and "l \<noteq> k"
  shows "(\<nexists>ns. is_ilist k (move_elements_to l k h) ns) \<and>
    ilit_collect (move_elements_to l k h) k 2 (ilit_init k) = [a, Sentinel l]"
proof -
  let ?h = "move_elements_to l k h"
  note F = is_ilist_facts [OF assms(1)]
  have a: "lk_next h a = Sentinel l" "\<exists>i. a = Link i" "il_first h l = a" "lk_prev h a = Some (LFirst l)"
    using assms(1) by (auto simp: is_ilist_def)
  have n: "il_first ?h k = a" "lk_next ?h a = Sentinel l" "lk_prev ?h a = Some (LFirst l)"
    using a assms(3) by (auto simp: move_elements_to_def il_empty_def Let_def ptr_simps)
  have "\<not> is_ilist k ?h ns" for ns
    using n a(2) assms(3) by (cases ns) (auto simp: is_ilist_def)
  moreover have "ilit_collect ?h k 2 (ilit_init k) = [a, Sentinel l]"
    using n a(2) assms(3) by (auto simp: numeral_2_eq_2 ilit_next_def ilit_init_def Let_def)
  ultimately show ?thesis by simp
qed

theorem move_elements_to_broken_witness:
  "ilit_collect (move_elements_to 0 1 (il_append 0 (Link 3) lheap0)) 1 2 (ilit_init 1) = [Link 3, Sentinel 0]"
proof -
  have 1: "is_ilist 0 (il_append 0 (Link 3) lheap0) [Link 3]"
    using il_append_list [OF lheap0_lists(1), of 3] by simp
  have 2: "is_ilist 1 (il_append 0 (Link 3) lheap0) []"
    by (simp add: is_ilist_def lheap0_def il_append_def il_empty_def Let_def ptr_simps)
  from move_elements_to_broken [OF 1 2] show ?thesis by simp
qed

end
