(* ===== verification/IntrusiveList.thy ===== *)
theory IntrusiveList
  imports SeqStore
begin

text \<open>
  The intrusive circular lists of \<open>ilist.h\<close>: nodes with two links, a list object that is a sentinel
  node of the ring, and iterators that are node pointers. Nodes are addresses (0 is the null
  pointer) and the links of all nodes are two maps. The flag \<open>dbg\<close> selects the debug build, in
  which \<open>erase\<close> clears the links of the node it removes.
\<close>

section \<open>Nodes and operations\<close>

record rheap =
  nx :: "nat \<Rightarrow> nat"
  pv :: "nat \<Rightarrow> nat"

definition set_nx :: "nat \<Rightarrow> nat \<Rightarrow> rheap \<Rightarrow> rheap" where
  "set_nx a b h = h\<lparr>nx := (nx h)(a := b)\<rparr>"

definition set_pv :: "nat \<Rightarrow> nat \<Rightarrow> rheap \<Rightarrow> rheap" where
  "set_pv a b h = h\<lparr>pv := (pv h)(a := b)\<rparr>"

text \<open>The constructor of a list, and \<open>clear\<close>, which does the same.\<close>

definition ilist_init :: "nat \<Rightarrow> rheap \<Rightarrow> rheap" where
  "ilist_init l h = set_pv l l (set_nx l l h)"

definition ilist_clear :: "nat \<Rightarrow> rheap \<Rightarrow> rheap" where
  "ilist_clear l h = set_pv l l (set_nx l l h)"

definition ilist_begin :: "nat \<Rightarrow> rheap \<Rightarrow> nat" where
  "ilist_begin l h = nx h l"

definition ilist_end :: "nat \<Rightarrow> nat" where
  "ilist_end l = l"

definition ilist_is_empty :: "nat \<Rightarrow> rheap \<Rightarrow> bool" where
  "ilist_is_empty l h \<longleftrightarrow> nx h l = l"

text \<open>Moving an iterator asserts that the new node is not null.\<close>

definition iter_inc :: "rheap \<Rightarrow> nat \<Rightarrow> nat option" where
  "iter_inc h it = (if nx h it \<noteq> 0 then Some (nx h it) else None)"

definition iter_dec :: "rheap \<Rightarrow> nat \<Rightarrow> nat option" where
  "iter_dec h it = (if pv h it \<noteq> 0 then Some (pv h it) else None)"

definition ilist_front :: "nat \<Rightarrow> rheap \<Rightarrow> nat" where
  "ilist_front l h = ilist_begin l h"

definition ilist_back :: "nat \<Rightarrow> rheap \<Rightarrow> nat option" where
  "ilist_back l h = iter_dec h (ilist_end l)"

definition ilist_insert :: "nat \<Rightarrow> nat \<Rightarrow> rheap \<Rightarrow> nat \<times> rheap" where
  "ilist_insert pos v h =
     (let curr = pos; prev = pv h pos
      in (v, set_nx v curr (set_pv v prev (set_pv curr v (set_nx prev v h)))))"

definition ilist_erase :: "bool \<Rightarrow> nat \<Rightarrow> rheap \<Rightarrow> nat \<times> rheap" where
  "ilist_erase dbg pos h =
     (let prev = pv h pos; nxt = nx h pos; h = set_pv nxt prev (set_nx prev nxt h)
      in (nxt, if dbg then set_nx pos 0 (set_pv pos 0 h) else h))"

definition ilist_push_back :: "nat \<Rightarrow> nat \<Rightarrow> rheap \<Rightarrow> rheap" where
  "ilist_push_back l v h = snd (ilist_insert (ilist_end l) v h)"

definition ilist_pop_back :: "bool \<Rightarrow> nat \<Rightarrow> rheap \<Rightarrow> rheap" where
  "ilist_pop_back dbg l h = snd (ilist_erase dbg (ilist_end l) h)"

definition ilist_push_front :: "nat \<Rightarrow> nat \<Rightarrow> rheap \<Rightarrow> rheap" where
  "ilist_push_front l v h = snd (ilist_insert (ilist_begin l h) v h)"

definition ilist_pop_front :: "bool \<Rightarrow> nat \<Rightarrow> rheap \<Rightarrow> rheap" where
  "ilist_pop_front dbg l h = snd (ilist_erase dbg (ilist_begin l h) h)"

definition ilist_remove :: "bool \<Rightarrow> nat \<Rightarrow> rheap \<Rightarrow> rheap" where
  "ilist_remove dbg v h = snd (ilist_erase dbg v h)"

text \<open>Taking the first element: \<open>front\<close>, then \<open>pop_front\<close>.\<close>

definition take_front :: "bool \<Rightarrow> nat \<Rightarrow> rheap \<Rightarrow> nat \<times> rheap" where
  "take_front dbg l h = (ilist_front l h, ilist_pop_front dbg l h)"

text \<open>A loop over the list, from an iterator to \<open>end\<close>; \<open>None\<close> when the fuel runs out or an assertion fails.\<close>

fun ilist_walk :: "nat \<Rightarrow> nat \<Rightarrow> rheap \<Rightarrow> nat \<Rightarrow> nat list option" where
  "ilist_walk fuel l h it =
     (if it = ilist_end l then Some []
      else case fuel of
             0 \<Rightarrow> None
           | Suc fuel \<Rightarrow> (case iter_inc h it of None \<Rightarrow> None | Some it' \<Rightarrow> map_option ((#) it) (ilist_walk fuel l h it')))"

declare ilist_walk.simps [simp del]

section \<open>\<open>sized_ilist\<close>\<close>

text \<open>The stored size is a \<open>size_t\<close>; it wraps around.\<close>

type_synonym sized = "rheap \<times> u64"

definition sized_size :: "sized \<Rightarrow> u64" where
  "sized_size = snd"

definition sized_clear :: "nat \<Rightarrow> sized \<Rightarrow> sized" where
  "sized_clear l = (\<lambda>(h, n). (ilist_clear l h, 0))"

definition sized_insert :: "nat \<Rightarrow> nat \<Rightarrow> sized \<Rightarrow> nat \<times> sized" where
  "sized_insert pos v = (\<lambda>(h, n). let (it, h) = ilist_insert pos v h in (it, (h, n + 1)))"

definition sized_erase :: "bool \<Rightarrow> nat \<Rightarrow> sized \<Rightarrow> nat \<times> sized" where
  "sized_erase dbg pos = (\<lambda>(h, n). let (it, h) = ilist_erase dbg pos h in (it, (h, n - 1)))"

definition sized_push_back :: "nat \<Rightarrow> nat \<Rightarrow> sized \<Rightarrow> sized" where
  "sized_push_back l v s = snd (sized_insert (ilist_end l) v s)"

definition sized_push_front :: "nat \<Rightarrow> nat \<Rightarrow> sized \<Rightarrow> sized" where
  "sized_push_front l v s = snd (sized_insert (ilist_begin l (fst s)) v s)"

definition sized_pop_back :: "bool \<Rightarrow> nat \<Rightarrow> sized \<Rightarrow> sized" where
  "sized_pop_back dbg l s = snd (sized_erase dbg (ilist_end l) s)"

definition sized_pop_front :: "bool \<Rightarrow> nat \<Rightarrow> sized \<Rightarrow> sized" where
  "sized_pop_front dbg l s = snd (sized_erase dbg (ilist_begin l (fst s)) s)"

definition sized_remove :: "bool \<Rightarrow> nat \<Rightarrow> sized \<Rightarrow> sized" where
  "sized_remove dbg v s = snd (sized_erase dbg v s)"

section \<open>Rings\<close>

text \<open>Neighbours in a sequence of nodes are linked both ways.\<close>

fun links :: "rheap \<Rightarrow> nat list \<Rightarrow> bool" where
  "links h (a # b # cs) \<longleftrightarrow> nx h a = b \<and> pv h b = a \<and> links h (b # cs)"
| "links h _ \<longleftrightarrow> True"

definition ring :: "rheap \<Rightarrow> nat \<Rightarrow> nat list \<Rightarrow> bool" where
  "ring h l xs \<longleftrightarrow> links h (l # xs @ [l]) \<and> distinct (l # xs) \<and> 0 \<notin> set (l # xs)"

lemma links_join:
  "xs \<noteq> [] \<Longrightarrow> ys \<noteq> [] \<Longrightarrow>
     links h (xs @ ys) \<longleftrightarrow> links h xs \<and> nx h (last xs) = hd ys \<and> pv h (hd ys) = last xs \<and> links h ys"
proof (induction xs)
  case (Cons x xs)
  show ?case
  proof (cases xs)
    case Nil
    with Cons.prems(2) show ?thesis by (cases ys) auto
  next
    case (Cons y zs)
    then show ?thesis using Cons.IH Cons.prems(2) by auto
  qed
qed simp

lemma links_cong:
  "(\<And>a. a \<in> set (butlast xs) \<Longrightarrow> nx h' a = nx h a) \<Longrightarrow> (\<And>b. b \<in> set (tl xs) \<Longrightarrow> pv h' b = pv h b) \<Longrightarrow> links h' xs = links h xs"
proof (induction h xs rule: links.induct)
  case (1 h a b cs)
  have "links h' (b # cs) = links h (b # cs)"
    using 1(2,3) by (intro 1(1)) (auto simp: list.set_sel(2))
  moreover have "nx h' a = nx h a" "pv h' b = pv h b" using 1(2,3) by auto
  ultimately show ?case by simp
qed auto

text \<open>The node before and the node after a gap in the ring.\<close>

abbreviation before_gap :: "nat \<Rightarrow> nat list \<Rightarrow> nat" where
  "before_gap l us \<equiv> last (l # us)"

abbreviation after_gap :: "nat \<Rightarrow> nat list \<Rightarrow> nat" where
  "after_gap l vs \<equiv> hd (vs @ [l])"

lemma ring_split:
  "links h (l # us @ vs @ [l]) \<longleftrightarrow>
     links h (l # us) \<and> nx h (before_gap l us) = after_gap l vs \<and> pv h (after_gap l vs) = before_gap l us \<and> links h (vs @ [l])"
  using links_join [of "l # us" "vs @ [l]" h] by simp

lemma gap_nodes: "before_gap l us \<in> set (l # us)" "after_gap l vs \<in> set (vs @ [l])"
  using last_in_set [of "l # us"] hd_in_set [of "vs @ [l]"] by simp_all

lemma butlast_last_notin: "distinct xs \<Longrightarrow> xs \<noteq> [] \<Longrightarrow> last xs \<notin> set (butlast xs)"
  by (metis append_butlast_last_id distinct_append disjoint_insert(1) list.set_intros(1) insert_disjoint(2) Int_commute list.simps(15))

lemma gap_distinct:
  assumes "distinct (l # us @ vs)" and "p = before_gap l us" and "c = after_gap l vs"
  shows "p \<in> set (l # us)" "c \<in> set (vs @ [l])" "p \<notin> set (butlast (l # us))" "c \<notin> set us" "p \<notin> set vs" "c \<notin> set (tl (vs @ [l]))"
proof -
  show p: "p \<in> set (l # us)" and c: "c \<in> set (vs @ [l])" using gap_nodes assms(2,3) by blast+
  show "p \<notin> set (butlast (l # us))" using butlast_last_notin [of "l # us"] assms by simp
  show "c \<notin> set us" "p \<notin> set vs" using p c assms(1) by auto
  show "c \<notin> set (tl (vs @ [l]))" using assms(1,3) by (cases vs) auto
qed

text \<open>Changing links only across a gap, or of nodes outside, keeps both sides.\<close>

lemma gap_frame:
  assumes "distinct (l # us @ vs)" and "p = before_gap l us" and "c = after_gap l vs"
    and "\<And>a. a \<in> set (l # us @ vs) \<Longrightarrow> a \<noteq> p \<Longrightarrow> nx h' a = nx h a" and "\<And>a. a \<in> set (l # us @ vs) \<Longrightarrow> a \<noteq> c \<Longrightarrow> pv h' a = pv h a"
  shows "links h' (l # us) = links h (l # us)" and "links h' (vs @ [l]) = links h (vs @ [l])"
proof -
  note g = gap_distinct [OF assms(1-3)]
  show "links h' (l # us) = links h (l # us)"
  proof (rule links_cong)
    fix a assume "a \<in> set (butlast (l # us))"
    then have "a \<in> set (l # us)" "a \<noteq> p" using g(3) in_set_butlastD by fast+
    then show "nx h' a = nx h a" by (intro assms(4)) auto
  next
    fix a assume "a \<in> set (tl (l # us))"
    then show "pv h' a = pv h a" using g(4) assms(5) [of a] by auto
  qed
  show "links h' (vs @ [l]) = links h (vs @ [l])"
  proof (rule links_cong)
    fix a assume "a \<in> set (butlast (vs @ [l]))"
    then show "nx h' a = nx h a" using g(5) assms(4) [of a] by auto
  next
    fix a assume "a \<in> set (tl (vs @ [l]))"
    then have "a \<in> set (vs @ [l])" "a \<noteq> c" using g(6) list.set_sel(2) [of "vs @ [l]" a] by auto
    then show "pv h' a = pv h a" by (intro assms(5)) auto
  qed
qed

lemma ring_insert:
  assumes "ring h l (us @ vs)" and "v \<notin> set (l # us @ vs)" and "v \<noteq> 0"
  shows "fst (ilist_insert (after_gap l vs) v h) = v \<and> ring (snd (ilist_insert (after_gap l vs) v h)) l (us @ v # vs)"
proof -
  define p c where "p = before_gap l us" and "c = after_gap l vs"
  have d: "distinct (l # us @ vs)" and z: "0 \<notin> set (l # us @ vs)" and lk: "links h (l # us @ vs @ [l])" using assms(1) by (simp_all add: ring_def)
  have parts: "links h (l # us)" "nx h p = c" "pv h c = p" "links h (vs @ [l])" using lk unfolding ring_split p_def c_def by blast+
  note g = gap_distinct [OF d p_def c_def]
  have neq: "p \<noteq> v" "c \<noteq> v" using g(1,2) assms(2) by auto
  define h' where "h' = snd (ilist_insert c v h)"
  have nx: "nx h' a = (if a = v then c else if a = p then v else nx h a)" and pv: "pv h' a = (if a = v then p else if a = c then v else pv h a)" for a
    by (simp_all add: h'_def ilist_insert_def Let_def parts set_nx_def set_pv_def)
  have same_nx: "nx h' a = nx h a" if "a \<in> set (l # us @ vs)" "a \<noteq> p" for a using that nx [of a] assms(2) by auto
  have same_pv: "pv h' a = pv h a" if "a \<in> set (l # us @ vs)" "a \<noteq> c" for a using that pv [of a] assms(2) by auto
  have left: "links h' (l # us)" and right: "links h' (vs @ [l])"
    using gap_frame [OF d p_def c_def same_nx same_pv] parts by blast+
  have "links h' ((v # vs) @ [l])" using right links_join [of "[v]" "vs @ [l]" h'] neq by (simp add: nx pv flip: c_def)
  then have "links h' (l # us @ (v # vs) @ [l])" unfolding ring_split using left neq by (simp add: nx pv flip: p_def del: last.simps)
  then show ?thesis using d z assms(2,3) unfolding ring_def h'_def c_def by (simp add: ilist_insert_def Let_def)
qed

lemma ring_erase:
  assumes "ring h l (us @ x # vs)"
  shows "fst (ilist_erase dbg x h) = after_gap l vs \<and> ring (snd (ilist_erase dbg x h)) l (us @ vs)"
proof -
  define p c where "p = before_gap l us" and "c = after_gap l vs"
  have d: "distinct (l # us @ vs)" and x: "x \<notin> set (l # us @ vs)" and z: "0 \<notin> set (l # us @ vs)" and lk: "links h (l # us @ (x # vs) @ [l])"
    using assms by (auto simp: ring_def)
  have "links h (l # us)" "nx h p = x" "pv h x = p" "links h ([x] @ vs @ [l])" using lk unfolding ring_split p_def by simp_all
  then have parts: "links h (l # us)" "nx h p = x" "pv h x = p" "nx h x = c" "pv h c = x" "links h (vs @ [l])"
    using links_join [of "[x]" "vs @ [l]" h] unfolding c_def by simp_all
  note g = gap_distinct [OF d p_def c_def]
  have neq: "p \<noteq> x" "c \<noteq> x" using g(1,2) x by auto
  define h' where "h' = snd (ilist_erase dbg x h)"
  have nx: "nx h' a = (if a = p then c else nx h a)" and pv: "pv h' a = (if a = c then p else pv h a)" if "a \<noteq> x" for a
    using that neq by (simp_all add: h'_def ilist_erase_def Let_def parts set_nx_def set_pv_def)
  have same_nx: "nx h' a = nx h a" if "a \<in> set (l # us @ vs)" "a \<noteq> p" for a using that nx [of a] x by auto
  have same_pv: "pv h' a = pv h a" if "a \<in> set (l # us @ vs)" "a \<noteq> c" for a using that pv [of a] x by auto
  have left: "links h' (l # us)" and right: "links h' (vs @ [l])"
    using gap_frame [OF d p_def c_def same_nx same_pv] parts by blast+
  have "links h' (l # us @ vs @ [l])"
    unfolding ring_split using left right nx [OF neq(1)] pv [OF neq(2)] by (simp flip: p_def c_def del: last.simps)
  then show ?thesis using d z parts unfolding ring_def h'_def by (simp add: ilist_erase_def Let_def c_def)
qed

section \<open>The list is a sequence\<close>

definition fresh_in_ring :: "nat \<Rightarrow> nat list \<Rightarrow> nat \<Rightarrow> bool" where
  "fresh_in_ring l xs v \<longleftrightarrow> v \<notin> set xs \<and> v \<noteq> l \<and> v \<noteq> 0"

lemma ring_ends: "ring h l xs \<Longrightarrow> nx h l = after_gap l xs" "ring h l xs \<Longrightarrow> pv h l = before_gap l xs"
  using ring_split [of h l "[]" xs] ring_split [of h l xs "[]"] by (simp_all add: ring_def)

lemma ring_push_back: "ring h l xs \<Longrightarrow> fresh_in_ring l xs v \<Longrightarrow> ring (ilist_push_back l v h) l (xs @ [v])"
  using ring_insert [of h l xs "[]" v] by (simp add: ilist_push_back_def ilist_end_def fresh_in_ring_def)

lemma ring_push_front: "ring h l xs \<Longrightarrow> fresh_in_ring l xs v \<Longrightarrow> ring (ilist_push_front l v h) l (v # xs)"
  using ring_insert [of h l "[]" xs v] ring_ends(1) [of h l xs] by (simp add: ilist_push_front_def ilist_begin_def fresh_in_ring_def)

lemma ring_take_front:
  "ring h l (x # xs) \<Longrightarrow> fst (take_front dbg l h) = x \<and> ring (snd (take_front dbg l h)) l xs"
  using ring_erase [of h l "[]" x xs dbg] ring_ends(1) [of h l "x # xs"]
  by (simp add: take_front_def ilist_front_def ilist_pop_front_def ilist_begin_def)

lemma ring_take_empty: "ring h l [] \<Longrightarrow> fst (take_front False l h) = l \<and> ring (snd (take_front False l h)) l []"
  by (simp add: ring_def take_front_def ilist_front_def ilist_pop_front_def ilist_begin_def ilist_erase_def set_nx_def set_pv_def)

text \<open>The release build, where taking from an empty list returns the sentinel and changes nothing.\<close>

interpretation rl: seq_store "\<lambda>h. ring h l" "fresh_in_ring l" "ilist_push_back l" "ilist_push_front l" "take_front False l" "\<lambda>x. x" l for l
  by unfold_locales (simp_all add: ring_push_back ring_push_front ring_take_front ring_take_empty)

lemma walk_links:
  "links h (vs @ [l]) \<Longrightarrow> l \<notin> set vs \<Longrightarrow> 0 \<notin> set vs \<Longrightarrow> l \<noteq> 0 \<Longrightarrow> length vs \<le> fuel \<Longrightarrow> ilist_walk fuel l h (after_gap l vs) = Some vs"
proof (induction vs arbitrary: fuel)
  case Nil
  then show ?case by (simp add: ilist_walk.simps ilist_end_def)
next
  case (Cons v vs)
  then obtain n where n: "fuel = Suc n" by (cases fuel) auto
  have "links h (vs @ [l])" "nx h v = after_gap l vs" using Cons.prems(1) links_join [of "[v]" "vs @ [l]" h] by simp_all
  moreover have "after_gap l vs \<noteq> 0" using Cons.prems(3,4) by (cases vs) auto
  ultimately show ?case using Cons n by (simp add: ilist_walk.simps [of "Suc n"] ilist_end_def iter_inc_def)
qed

lemma walk_ring: "ring h l xs \<Longrightarrow> ilist_walk (length xs) l h (ilist_begin l h) = Some xs"
  using walk_links [of h xs l "length xs"] ring_split [of h l "[]" xs] ring_ends(1) [of h l xs] by (simp add: ring_def ilist_begin_def)

text \<open>
  \<open>ilist\<close> is a sequence. A run of \<open>push_back\<close>, \<open>push_front\<close> and takes from the front on a
  well-formed list, each pushed node not in the list, returns what the same run on a sequence
  returns and leaves a well-formed list of the resulting sequence, over which a loop from
  \<open>begin\<close> to \<open>end\<close> returns and visits exactly its elements in order.
\<close>

theorem ilist_refines_sequence:
  assumes "ring h l xs" and "ops_ok (fresh_in_ring l) ops xs"
  shows "\<exists>h' ys. seq_run (ilist_push_back l) (ilist_push_front l) (take_front False l) ops h = (fst (spec_run (\<lambda>x. x) l ops xs), h') \<and>
    ys = snd (spec_run (\<lambda>x. x) l ops xs) \<and> ring h' l ys \<and> ilist_walk (length ys) l h' (ilist_begin l h') = Some ys"
  using rl.run_refines [OF assms] walk_ring by (metis prod.collapse)

definition ring0 :: rheap where
  "ring0 = ilist_init 1 \<lparr>nx = (\<lambda>a. 0), pv = (\<lambda>a. 0)\<rparr>"

lemma ring0_ok: "ring ring0 1 []"
  by (simp add: ring0_def ring_def ilist_init_def set_nx_def set_pv_def)

theorem ilist_refines_sequence_witness:
  "\<exists>h'. seq_run (ilist_push_back 1) (ilist_push_front 1) (take_front False 1) [PushBack 5, PushFront 4, PushBack 6, Pop] ring0 = ([4], h') \<and>
     ilist_walk 2 1 h' (ilist_begin 1 h') = Some [5, 6]"
  using ilist_refines_sequence [OF ring0_ok, of "[PushBack 5, PushFront 4, PushBack 6, Pop]"]
  by (simp add: fresh_in_ring_def spec_run_def numeral_2_eq_2) blast

text \<open>
  Editing anywhere, in both builds. Inserting a node before any position and erasing
  any element of a \<open>sized_ilist\<close> keep the ring well-formed, change the sequence at that place
  only, return the iterator of the new element or of the element that followed, and keep the
  stored size equal to the number of elements; \<open>remove\<close> is \<open>erase\<close>.
\<close>

theorem sized_ilist_edits:
  assumes "ring h l (us @ vs)" and "fresh_in_ring l (us @ vs) v"
  shows "\<exists>h'. sized_insert (hd (vs @ [l])) v (h, of_nat (length (us @ vs))) = (v, h', of_nat (length (us @ v # vs))) \<and> ring h' l (us @ v # vs) \<and>
    (\<exists>h2. sized_erase dbg v (h', of_nat (length (us @ v # vs))) = (hd (vs @ [l]), h2, of_nat (length (us @ vs))) \<and>
       sized_remove dbg v (h', of_nat (length (us @ v # vs))) = (h2, of_nat (length (us @ vs))) \<and> ring h2 l (us @ vs))"
proof -
  let ?r = "ilist_insert (hd (vs @ [l])) v h"
  have i: "fst ?r = v" "ring (snd ?r) l (us @ v # vs)" using ring_insert [OF assms(1), of v] assms(2) by (auto simp: fresh_in_ring_def)
  have e: "fst (ilist_erase dbg v (snd ?r)) = hd (vs @ [l])" "ring (snd (ilist_erase dbg v (snd ?r))) l (us @ vs)"
    using ring_erase [OF i(2), of dbg] by blast+
  show ?thesis using i e by (intro exI [of _ "snd ?r"] conjI exI [of _ "snd (ilist_erase dbg v (snd ?r))"])
    (simp_all add: sized_insert_def sized_erase_def sized_remove_def case_prod_beta Let_def prod_eq_iff)
qed

theorem sized_ilist_edits_witness:
  "\<exists>h'. sized_insert 1 5 (ring0, 0) = (5, h', 1) \<and> ring h' 1 [5]"
  using sized_ilist_edits [of ring0 1 "[]" "[]" 5 True] ring0_ok by (auto simp: fresh_in_ring_def)

section \<open>\<open>pop_back\<close>\<close>

lemma links_closed: "links h (ys @ [l]) \<Longrightarrow> a \<in> set ys \<Longrightarrow> nx h a \<in> set ys \<or> a = last ys"
proof (induction ys)
  case (Cons y ys)
  then show ?case by (cases ys) auto
qed simp

lemma pop_back_release:
  assumes "ring h l (x # xs)" and "a \<in> set (x # xs)"
  shows "nx (ilist_pop_back False l h) a \<in> set (x # xs)"
proof -
  have lk: "links h ((x # xs) @ [l])" and neq: "l \<notin> set (x # xs)" using assms(1) by (auto simp: ring_def)
  have ends: "nx h l = x" "pv h l = last (x # xs)" using ring_ends [OF assms(1)] by simp_all
  have "nx (ilist_pop_back False l h) = (nx h)(last (x # xs) := x)"
    by (simp add: ilist_pop_back_def ilist_erase_def ilist_end_def Let_def ends set_nx_def set_pv_def del: last.simps)
  then show ?thesis using links_closed [OF lk assms(2)] by (auto simp del: last.simps)
qed

lemma pop_back_loops:
  assumes "ring h l (x # xs)"
  shows "it \<in> set (x # xs) \<Longrightarrow> ilist_walk fuel l (ilist_pop_back False l h) it = None"
proof (induction fuel arbitrary: it)
  case 0
  then show ?case using assms by (auto simp: ilist_walk.simps [of 0] ilist_end_def ring_def)
next
  case (Suc n)
  have "it \<noteq> l" using Suc.prems assms by (auto simp: ring_def)
  then show ?case using Suc.IH pop_back_release [OF assms Suc.prems]
    by (auto simp: ilist_walk.simps [of "Suc n"] ilist_end_def iter_inc_def)
qed

text \<open>
  \<open>pop_back\<close> does not remove the last element; it erases \<open>end\<close>, the sentinel. In the
  release build the elements of a non-empty list all stay, linked in a ring without the
  sentinel, so that no loop from \<open>begin\<close> to \<open>end\<close> ever ends; in the debug build the first node is
  null. The size of a \<open>sized_ilist\<close> goes down by one all the same.
\<close>

theorem ilist_pop_back_broken:
  assumes "ring h l (x # xs)"
  shows "ilist_begin l (ilist_pop_back False l h) = x \<and>
    (\<forall>fuel. ilist_walk fuel l (ilist_pop_back False l h) x = None) \<and>
    ilist_begin l (ilist_pop_back True l h) = 0 \<and>
    sized_pop_back dbg l (h, n) = (ilist_pop_back dbg l h, n - 1)"
proof -
  have neq: "last (x # xs) \<noteq> l" using assms last_in_set [of "x # xs"] unfolding ring_def by (metis distinct.simps(2) list.distinct(1))
  have "ilist_begin l (ilist_pop_back False l h) = x"
    using ring_ends [OF assms] neq
    by (simp add: ilist_begin_def ilist_pop_back_def ilist_erase_def ilist_end_def Let_def set_nx_def set_pv_def del: last.simps)
  moreover have "ilist_begin l (ilist_pop_back True l h) = 0"
    by (simp add: ilist_begin_def ilist_pop_back_def ilist_erase_def ilist_end_def Let_def set_nx_def set_pv_def)
  moreover have "sized_pop_back dbg l (h, n) = (ilist_pop_back dbg l h, n - 1)"
    by (simp add: sized_pop_back_def sized_erase_def ilist_pop_back_def case_prod_beta Let_def)
  ultimately show ?thesis using pop_back_loops [OF assms, of x] by simp
qed

theorem ilist_pop_back_broken_witness:
  "\<forall>fuel. ilist_walk fuel 1 (ilist_pop_back False 1 (ilist_push_back 1 5 ring0)) 5 = None"
proof -
  have "ring (ilist_push_back 1 5 ring0) 1 [5]" using ring_push_back [OF ring0_ok, of 5] by (simp add: fresh_in_ring_def)
  from ilist_pop_back_broken [OF this] show ?thesis by blast
qed

end
