(* ===== verification/HashFilo.thy ===== *)
theory HashFilo
  imports IntrusiveList "HOL-Library.Multiset"
begin

text \<open>
  The bounded cache of \<open>hash_filo.h\<close>: a hash table of entries and a doubly linked list of them in
  the order of their last use. The hash table (\<open>hash.h\<close>, whose functions are not part of the
  sources) is a parameter \<open>H\<close>; \<open>hash_ok\<close> states what its interface documents. The links of the
  entries are those of \<open>rheap\<close> (\<open>next_used\<close> is \<open>nx\<close>, \<open>prev_used\<close> is \<open>pv\<close>). The mutex is held by the
  caller of every operation and left out. A failed assertion is \<open>None\<close>. \<open>filo_freed\<close> lists, in order,
  the entries that were given back; the code hands each to \<open>free_element\<close> if it was given one.
\<close>

section \<open>The cache\<close>

text \<open>\<open>zeroed\<close> is the table object filled with zero bytes, \<open>my_hash_free\<close> the entries that it frees.\<close>

record ('c, 'k) hash_funs =
  zeroed :: 'c
  my_hash_init :: 'c
  my_hash_free :: "'c \<Rightarrow> nat list"
  my_hash_search :: "'c \<Rightarrow> 'k \<Rightarrow> nat"
  my_hash_insert :: "'c \<Rightarrow> nat \<Rightarrow> 'c option"
  my_hash_delete :: "'c \<Rightarrow> nat \<Rightarrow> 'c"
  records :: "'c \<Rightarrow> nat"

record 'c hash_filo =
  filo_size :: nat
  filo_init :: bool
  first_link :: nat
  last_link :: nat
  filo_cache :: 'c
  filo_freed :: "nat list"

definition Hash_filo :: "('c, 'k) hash_funs \<Rightarrow> nat \<Rightarrow> 'c hash_filo" where
  "Hash_filo H size_arg =
     \<lparr>filo_size = size_arg, filo_init = False, first_link = 0, last_link = 0, filo_cache = zeroed H, filo_freed = []\<rparr>"

text \<open>The destructor frees the table only when \<open>clear\<close> has been called; the result lists all freed entries.\<close>

definition filo_destroy :: "('c, 'k) hash_funs \<Rightarrow> 'c hash_filo \<Rightarrow> nat list" where
  "filo_destroy H s = (if filo_init s then filo_freed s @ my_hash_free H (filo_cache s) else filo_freed s)"

definition filo_clear :: "('c, 'k) hash_funs \<Rightarrow> 'c hash_filo \<Rightarrow> 'c hash_filo" where
  "filo_clear H s = s\<lparr>filo_init := True, first_link := 0, last_link := 0, filo_cache := my_hash_init H,
     filo_freed := filo_freed s @ my_hash_free H (filo_cache s)\<rparr>"

definition filo_first :: "'c hash_filo \<Rightarrow> nat" where
  "filo_first s = first_link s"

definition filo_last :: "'c hash_filo \<Rightarrow> nat" where
  "filo_last s = last_link s"

text \<open>Taking an entry that is not the first out of the list.\<close>

definition filo_unlink :: "nat \<Rightarrow> rheap \<times> 'c hash_filo \<Rightarrow> (rheap \<times> 'c hash_filo) option" where
  "filo_unlink entry = (\<lambda>(h, s).
     if entry = last_link s
     then let l = pv h (last_link s)
          in if l \<noteq> 0 then Some (set_nx l 0 h, s\<lparr>last_link := l\<rparr>) else None
     else if nx h entry \<noteq> 0 \<and> pv h entry \<noteq> 0
          then (let h = set_pv (nx h entry) (pv h entry) h; h = set_nx (pv h entry) (nx h entry) h in Some (h, s))
          else None)"

definition filo_search :: "('c, 'k) hash_funs \<Rightarrow> 'k \<Rightarrow> rheap \<times> 'c hash_filo \<Rightarrow> (nat \<times> rheap \<times> 'c hash_filo) option" where
  "filo_search H key = (\<lambda>(h, s).
     let entry = my_hash_search H (filo_cache s) key
     in if entry = 0 then Some (0, h, s)
        else if first_link s = 0 \<or> last_link s = 0 then None
        else if entry = first_link s then Some (entry, h, s)
        else (case filo_unlink entry (h, s) of
                None \<Rightarrow> None
              | Some (h, s) \<Rightarrow>
                  (let h = set_nx entry (first_link s) (set_pv entry 0 h);
                       h = set_pv (first_link s) entry h
                   in Some (entry, h, s\<lparr>first_link := entry\<rparr>))))"

text \<open>Dropping the entry used longest ago when the cache is full.\<close>

definition filo_evict :: "('c, 'k) hash_funs \<Rightarrow> rheap \<times> 'c hash_filo \<Rightarrow> rheap \<times> 'c hash_filo" where
  "filo_evict H = (\<lambda>(h, s).
     if records H (filo_cache s) = filo_size s
     then let tmp = last_link s;
              s = s\<lparr>last_link := pv h (last_link s)\<rparr>;
              (h, s) = (if last_link s \<noteq> 0 then (set_nx (last_link s) 0 h, s) else (h, s\<lparr>first_link := 0\<rparr>))
          in (h, s\<lparr>filo_cache := my_hash_delete H (filo_cache s) tmp, filo_freed := filo_freed s @ [tmp]\<rparr>)
     else (h, s))"

text \<open>\<open>add\<close>: true when the entry is not stored; it is freed when the hash table refuses it.\<close>

definition filo_add :: "('c, 'k) hash_funs \<Rightarrow> nat \<Rightarrow> rheap \<times> 'c hash_filo \<Rightarrow> bool \<times> rheap \<times> 'c hash_filo" where
  "filo_add H entry = (\<lambda>(h, s).
     if filo_size s = 0 then (True, h, s)
     else let (h, s) = filo_evict H (h, s)
          in case my_hash_insert H (filo_cache s) entry of
               None \<Rightarrow> (True, h, s\<lparr>filo_freed := filo_freed s @ [entry]\<rparr>)
             | Some c \<Rightarrow>
                 (let h = set_nx entry (first_link s) (set_pv entry 0 h);
                      (h, s) = (if first_link s \<noteq> 0 then (set_pv (first_link s) entry h, s) else (h, s\<lparr>last_link := entry\<rparr>))
                  in (False, h, s\<lparr>first_link := entry, filo_cache := c\<rparr>)))"

definition filo_resize :: "('c, 'k) hash_funs \<Rightarrow> nat \<Rightarrow> 'c hash_filo \<Rightarrow> 'c hash_filo" where
  "filo_resize H new_size s = filo_clear H (s\<lparr>filo_size := new_size\<rparr>)"

section \<open>What the cache relies on\<close>

definition hash_ok :: "('c, 'k) hash_funs \<Rightarrow> ('c \<Rightarrow> nat set) \<Rightarrow> (nat \<Rightarrow> 'k) \<Rightarrow> bool" where
  "hash_ok H entries key \<longleftrightarrow>
     entries (my_hash_init H) = {} \<and>
     (\<forall>c. finite (entries c) \<and> records H c = card (entries c)) \<and>
     (\<forall>c k. my_hash_search H c k \<noteq> 0 \<longrightarrow> my_hash_search H c k \<in> entries c \<and> key (my_hash_search H c k) = k) \<and>
     (\<forall>c k. my_hash_search H c k = 0 \<longrightarrow> (\<forall>e \<in> entries c. e \<noteq> 0 \<longrightarrow> key e \<noteq> k)) \<and>
     (\<forall>c e c'. my_hash_insert H c e = Some c' \<longrightarrow> entries c' = insert e (entries c)) \<and>
     (\<forall>c e. entries (my_hash_delete H c e) = entries c - {e}) \<and>
     (\<forall>c. distinct (my_hash_free H c) \<and> set (my_hash_free H c) = entries c)"

section \<open>The used-list\<close>

definition dll :: "rheap \<Rightarrow> nat list \<Rightarrow> bool" where
  "dll h xs \<longleftrightarrow> links h xs \<and> distinct xs \<and> 0 \<notin> set xs \<and> (xs \<noteq> [] \<longrightarrow> pv h (hd xs) = 0 \<and> nx h (last xs) = 0)"

definition used_list :: "rheap \<times> 'c hash_filo \<Rightarrow> nat list \<Rightarrow> bool" where
  "used_list = (\<lambda>(h, s) xs. dll h xs \<and> first_link s = (if xs = [] then 0 else hd xs) \<and> last_link s = (if xs = [] then 0 else last xs))"

text \<open>Putting an entry first.\<close>

lemma dll_push:
  assumes "dll h xs" and "e \<notin> set xs" and "e \<noteq> 0" and "h1 = set_nx e (if xs = [] then 0 else hd xs) (set_pv e 0 h)"
  shows "dll (if xs = [] then h1 else set_pv (hd xs) e h1) (e # xs)"
proof (cases xs)
  case Nil
  then show ?thesis using assms(3) by (simp add: dll_def assms(4) set_nx_def set_pv_def)
next
  case (Cons y ys)
  let ?h = "set_pv y e h1"
  have neq: "y \<noteq> e" "last (y # ys) \<noteq> e" using assms(2) Cons last_in_set [of "y # ys"] by auto
  have "links ?h (y # ys) = links h (y # ys)"
  proof (rule links_cong)
    fix a assume "a \<in> set (butlast (y # ys))"
    then have "a \<noteq> e" using assms(2) Cons in_set_butlastD [of a "y # ys"] by auto
    then show "nx ?h a = nx h a" by (simp add: assms(4) set_nx_def set_pv_def)
  next
    fix a assume "a \<in> set (tl (y # ys))"
    then have "a \<noteq> e" "a \<noteq> y" using assms(1,2) Cons by (auto simp: dll_def)
    then show "pv ?h a = pv h a" by (simp add: assms(4) set_nx_def set_pv_def)
  qed
  moreover have "nx ?h e = y" "pv ?h y = e" "pv ?h e = 0" "nx ?h (last (y # ys)) = nx h (last (y # ys))"
    using neq Cons by (simp_all add: assms(4) set_nx_def set_pv_def)
  ultimately show ?thesis using assms(1,2,3) Cons by (simp add: dll_def)
qed

lemma dll_prefix:
  assumes "dll h (us @ vs)" and "us \<noteq> []"
  shows "dll (set_nx (last us) 0 h) us"
proof -
  have d: "distinct us" "0 \<notin> set us" "pv h (hd us) = 0" "links h us"
    using assms links_join [of us vs h] by (cases vs; auto simp: dll_def)+
  have "links (set_nx (last us) 0 h) us = links h us"
    using butlast_last_notin [OF d(1) assms(2)] by (intro links_cong) (auto simp: set_nx_def)
  then show ?thesis using d by (simp add: dll_def set_nx_def)
qed

lemma dll_middle:
  assumes "dll h (us @ x # vs)" and "us \<noteq> []" and "vs \<noteq> []"
  shows "nx h x = hd vs \<and> pv h x = last us \<and> dll (set_nx (last us) (hd vs) (set_pv (hd vs) (last us) h)) (us @ vs)"
proof -
  let ?h = "set_nx (last us) (hd vs) (set_pv (hd vs) (last us) h)"
  have d: "distinct (us @ x # vs)" "0 \<notin> set (us @ x # vs)" "pv h (hd us) = 0" "nx h (last vs) = 0"
    using assms by (auto simp: dll_def)
  have lk: "links h us" "pv h x = last us" "nx h x = hd vs" "links h vs"
    using assms links_join [of us "x # vs" h] links_join [of "[x]" vs h] by (auto simp: dll_def)
  have in_us: "last us \<in> set us" "hd us \<in> set us" and in_vs: "hd vs \<in> set vs" "last vs \<in> set vs" using assms(2,3) by auto
  have "links ?h us = links h us"
    using butlast_last_notin [of us] d(1) assms(2) in_vs(1) by (intro links_cong) (auto simp: set_nx_def set_pv_def dest: list.set_sel(2) [OF assms(2)])
  moreover have "links ?h vs = links h vs"
  proof (rule links_cong)
    fix a assume "a \<in> set (butlast vs)"
    then show "nx ?h a = nx h a" using d(1) in_us(1) by (auto simp: set_nx_def set_pv_def dest: in_set_butlastD)
  next
    fix a assume "a \<in> set (tl vs)"
    then have "a \<noteq> hd vs" using d(1) assms(3) by (cases vs) auto
    then show "pv ?h a = pv h a" by (simp add: set_nx_def set_pv_def)
  qed
  moreover have "pv ?h (hd us) = 0" "nx ?h (last vs) = 0" "nx ?h (last us) = hd vs" "pv ?h (hd vs) = last us"
    using d in_us in_vs by (auto simp: set_nx_def set_pv_def)
  ultimately show ?thesis using lk d assms(2,3) links_join [of us vs ?h] by (auto simp: dll_def)
qed

lemma ends_nonnull: "0 \<notin> set xs \<Longrightarrow> xs \<noteq> [] \<Longrightarrow> hd xs \<noteq> 0 \<and> last xs \<noteq> 0" for xs :: "nat list"
  by (metis hd_in_set last_in_set)

lemma used_front:
  assumes "dll h xs" and "e \<notin> set xs" and "e \<noteq> 0" and "xs \<noteq> []"
  shows "dll (set_pv (hd xs) e (set_nx e (hd xs) (set_pv e 0 h))) (e # xs)"
  using dll_push [OF assms(1-3) refl] assms(4) by simp

lemma unlink_used:
  assumes "used_list (h, s) (us @ e # vs)" and "us \<noteq> []"
  shows "\<exists>h' s'. filo_unlink e (h, s) = Some (h', s') \<and> dll h' (us @ vs) \<and> first_link s' = hd us \<and>
    last_link s' = (if vs = [] then last us else last vs) \<and> filo_cache s' = filo_cache s \<and> filo_size s' = filo_size s \<and> filo_freed s' = filo_freed s"
proof (cases "vs = []")
  case True
  have d: "dll h (us @ [e])" "last_link s = e" "first_link s = hd us" using assms True by (auto simp: used_list_def)
  have p: "pv h e = last us" using d(1) links_join [of us "[e]" h] assms(2) by (simp add: dll_def)
  moreover have "last us \<noteq> 0" using d(1) ends_nonnull [of us] assms(2) by (simp add: dll_def)
  ultimately show ?thesis using d dll_prefix [OF d(1) assms(2)] True by (simp add: filo_unlink_def Let_def)
next
  case False
  have d: "dll h (us @ e # vs)" "last_link s = last vs" "first_link s = hd us" using assms False by (auto simp: used_list_def)
  note m = dll_middle [OF d(1) assms(2) False]
  have ne: "e \<noteq> last vs" "hd vs \<noteq> 0" "last us \<noteq> 0" "hd vs \<noteq> e" using d(1) last_in_set [OF assms(2)] last_in_set [OF False] hd_in_set [OF False] by (auto simp: dll_def)
  have "pv (set_pv (hd vs) (last us) h) e = last us" "nx (set_pv (hd vs) (last us) h) e = hd vs" using m ne by (simp_all add: set_pv_def)
  then show ?thesis using m ne d False by (simp add: filo_unlink_def Let_def)
qed

definition filo_ok :: "('c \<Rightarrow> nat set) \<Rightarrow> rheap \<times> 'c hash_filo \<Rightarrow> nat list \<Rightarrow> bool" where
  "filo_ok entries = (\<lambda>(h, s) xs. used_list (h, s) xs \<and> set xs = entries (filo_cache s) \<and> length xs \<le> filo_size s)"

lemma hash_okD:
  assumes "hash_ok H entries key"
  shows "records H c = card (entries c)" "my_hash_search H c k \<noteq> 0 \<Longrightarrow> my_hash_search H c k \<in> entries c \<and> key (my_hash_search H c k) = k"
    "my_hash_search H c k = 0 \<Longrightarrow> e \<in> entries c \<Longrightarrow> e \<noteq> 0 \<Longrightarrow> key e \<noteq> k"
    "my_hash_insert H c e = Some c' \<Longrightarrow> entries c' = insert e (entries c)" "entries (my_hash_delete H c e) = entries c - {e}"
    "entries (my_hash_init H) = {}"
  using assms unfolding hash_ok_def by auto

lemma search_ok:
  assumes "hash_ok H entries key" and "filo_ok entries (h, s) xs"
  shows "\<exists>e h' s'. filo_search H k (h, s) = Some (e, h', s') \<and>
    (if e = 0 then h' = h \<and> s' = s \<and> (\<forall>x \<in> set xs. key x \<noteq> k)
     else e \<in> set xs \<and> key e = k \<and> filo_ok entries (h', s') (e # remove1 e xs))"
proof -
  define e where "e = my_hash_search H (filo_cache s) k"
  have ul: "used_list (h, s) xs" and ent: "set xs = entries (filo_cache s)" and len: "length xs \<le> filo_size s" using assms(2) by (auto simp: filo_ok_def)
  have z: "0 \<notin> set xs" "distinct xs" using ul by (auto simp: used_list_def dll_def)
  show ?thesis
  proof (cases "e = 0")
    case True
    then have "\<forall>x \<in> set xs. key x \<noteq> k" using hash_okD(3) [OF assms(1), of "filo_cache s" k] ent z(1) unfolding e_def by metis
    then show ?thesis using True by (simp add: filo_search_def e_def)
  next
    case False
    have e: "e \<in> set xs" "key e = k" using hash_okD(2) [OF assms(1), of "filo_cache s" k] False ent by (auto simp: e_def)
    then obtain us vs where xs: "xs = us @ e # vs" by (meson split_list)
    have nn: "first_link s \<noteq> 0" "last_link s \<noteq> 0"
      using ul e(1) z(1) ends_nonnull [of xs] by (auto simp: used_list_def)
    show ?thesis
    proof (cases "us = []")
      case True
      then have "e = first_link s" using ul xs by (simp add: used_list_def)
      then have "filo_search H k (h, s) = Some (e, h, s)" using False nn by (simp add: filo_search_def flip: e_def)
      then show ?thesis using False e xs True assms(2) by simp
    next
      case us: False
      have ne: "e \<noteq> first_link s" using ul xs us z(2) hd_in_set [OF us] by (auto simp: used_list_def)
      obtain h1 s1 where u: "filo_unlink e (h, s) = Some (h1, s1)" "dll h1 (us @ vs)" "first_link s1 = hd us"
        "last_link s1 = (if vs = [] then last us else last vs)" "filo_cache s1 = filo_cache s" "filo_size s1 = filo_size s"
        using unlink_used [OF ul [unfolded xs] us] by blast
      let ?h = "set_pv (hd us) e (set_nx e (hd us) (set_pv e 0 h1))" and ?s = "s1\<lparr>first_link := e\<rparr>"
      have r: "filo_search H k (h, s) = Some (e, ?h, ?s)"
        using False nn ne u(1,3) by (simp add: filo_search_def Let_def flip: e_def)
      have "dll ?h (e # us @ vs)" using used_front [OF u(2), of e] xs z us False by simp
      moreover have "remove1 e xs = us @ vs" using xs z(2) by (simp add: remove1_append)
      ultimately have "filo_ok entries (?h, ?s) (e # remove1 e xs)"
        using u(4,5,6) us ent len xs by (auto simp: filo_ok_def used_list_def)
      then show ?thesis using r False e by simp
    qed
  qed
qed


lemma evict_ok:
  assumes "hash_ok H entries key" and "filo_ok entries (h, s) xs" and "0 < filo_size s"
  shows "\<exists>h' s'. filo_evict H (h, s) = (h', s') \<and> filo_size s' = filo_size s \<and>
    filo_ok entries (h', s') (if length xs = filo_size s then butlast xs else xs) \<and>
    filo_freed s' = filo_freed s @ (if length xs = filo_size s then [last xs] else [])"
proof -
  have ul: "used_list (h, s) xs" and ent: "set xs = entries (filo_cache s)" and len: "length xs \<le> filo_size s" using assms(2) by (auto simp: filo_ok_def)
  have d: "dll h xs" "distinct xs" using ul by (auto simp: used_list_def dll_def)
  have rec: "records H (filo_cache s) = length xs" using hash_okD(1) [OF assms(1)] ent d(2) by (metis distinct_card)
  show ?thesis
  proof (cases "length xs = filo_size s")
    case False
    then show ?thesis using rec assms(2) by (simp add: filo_evict_def)
  next
    case True
    then obtain us z where xs: "xs = us @ [z]" using assms(3) by (cases xs rule: rev_cases) auto
    have lz: "last_link s = z" using ul xs by (simp add: used_list_def)
    have del: "entries (my_hash_delete H (filo_cache s) z) = set us" using hash_okD(5) [OF assms(1)] ent [symmetric] xs d(2) by auto
    show ?thesis
    proof (cases "us = []")
      case us: True
      then have "pv h z = 0" using d(1) xs by (simp add: dll_def)
      then show ?thesis using True rec lz del xs us by (auto simp: filo_evict_def filo_ok_def used_list_def dll_def Let_def)
    next
      case us: False
      have p: "pv h z = last us" using d(1) xs us links_join [of us "[z]" h] by (simp add: dll_def)
      have "last us \<noteq> 0" using d(1) xs ends_nonnull [of us] us by (simp add: dll_def)
      moreover have "dll (set_nx (last us) 0 h) us" using dll_prefix [of h us "[z]"] d(1) xs us by simp
      moreover have "first_link s = hd us" using ul xs us by (simp add: used_list_def)
      ultimately show ?thesis using True rec lz del xs us p by (auto simp: filo_evict_def filo_ok_def used_list_def Let_def)
    qed
  qed
qed

lemma add_ok:
  assumes "hash_ok H entries key" and "filo_ok entries (h, s) xs" and "e \<notin> set xs" and "e \<noteq> 0"
  shows "if filo_size s = 0 then filo_add H e (h, s) = (True, h, s)
    else \<exists>r h' s' ys. filo_add H e (h, s) = (r, h', s') \<and> ys = (if length xs = filo_size s then butlast xs else xs) \<and>
      filo_ok entries (h', s') (if r then ys else e # ys) \<and>
      filo_freed s' = filo_freed s @ (if length xs = filo_size s then [last xs] else []) @ (if r then [e] else [])"
proof (cases "filo_size s = 0")
  case True
  then show ?thesis by (simp add: filo_add_def)
next
  case False
  define ys where "ys = (if length xs = filo_size s then butlast xs else xs)"
  define gone where "gone = (if length xs = filo_size s then [last xs] else [])"
  obtain h1 s1 where ev: "filo_evict H (h, s) = (h1, s1)" "filo_size s1 = filo_size s" "filo_ok entries (h1, s1) ys" "filo_freed s1 = filo_freed s @ gone"
    using evict_ok [OF assms(1,2)] False unfolding ys_def gone_def by blast
  have ul: "used_list (h1, s1) ys" and ent: "set ys = entries (filo_cache s1)" using ev(3) by (auto simp: filo_ok_def)
  have lt: "length ys < filo_size s" using assms(2) False by (auto simp: filo_ok_def ys_def)
  have fresh: "e \<notin> set ys" using assms(3) by (auto simp: ys_def dest: in_set_butlastD)
  have "\<exists>r h' s'. filo_add H e (h, s) = (r, h', s') \<and> filo_ok entries (h', s') (if r then ys else e # ys) \<and>
      filo_freed s' = filo_freed s @ gone @ (if r then [e] else [])"
  proof (cases "my_hash_insert H (filo_cache s1) e")
    case None
    then have "filo_add H e (h, s) = (True, h1, s1\<lparr>filo_freed := filo_freed s1 @ [e]\<rparr>)" using False ev(1) by (simp add: filo_add_def)
    moreover have "filo_ok entries (h1, s1\<lparr>filo_freed := filo_freed s1 @ [e]\<rparr>) ys" using ev(3) by (simp add: filo_ok_def used_list_def)
    ultimately show ?thesis using ev(4) by (intro exI [of _ True] exI [of _ h1] exI [of _ "s1\<lparr>filo_freed := filo_freed s1 @ [e]\<rparr>"]) simp
  next
    case (Some c)
    let ?h = "set_nx e (first_link s1) (set_pv e 0 h1)"
    define h2 where "h2 = (if ys = [] then ?h else set_pv (hd ys) e ?h)"
    define s2 where "s2 = (if ys = [] then s1\<lparr>last_link := e\<rparr> else s1)\<lparr>first_link := e, filo_cache := c\<rparr>"
    have fl: "first_link s1 = (if ys = [] then 0 else hd ys)" "ys \<noteq> [] \<Longrightarrow> hd ys \<noteq> 0"
      using ul ends_nonnull [of ys] by (auto simp: used_list_def dll_def)
    have r: "filo_add H e (h, s) = (False, h2, s2)"
      using False ev(1) Some fl by (cases "ys = []") (simp_all add: filo_add_def Let_def h2_def s2_def)
    have "dll h2 (e # ys)" using dll_push [of h1 ys e, OF _ fresh assms(4) refl] ul fl(1)
      by (cases "ys = []") (simp_all add: used_list_def h2_def)
    moreover have "entries c = insert e (set ys)" using hash_okD(4) [OF assms(1) Some] ent by simp
    ultimately have "filo_ok entries (h2, s2) (e # ys)" using ul lt ev(2) by (simp add: filo_ok_def used_list_def s2_def)
    moreover have "filo_freed s2 = filo_freed s1" by (simp add: s2_def)
    ultimately show ?thesis using r ev(4) by (intro exI [of _ False] exI [of _ h2] exI [of _ s2]) simp
  qed
  then show ?thesis using False unfolding ys_def gone_def by auto
qed

section \<open>Runs\<close>

text \<open>
  A run of \<open>add\<close>, \<open>search\<close> and \<open>resize\<close>. \<open>filo_given\<close> lists the entries the cache becomes responsible
  for: those added while its size is positive. \<open>add\<close> with size zero also returns 1 but does not
  free the entry, which stays with the caller.
\<close>

datatype 'k filo_op = FiloAdd nat | FiloSearch 'k | FiloResize nat

fun filo_step :: "('c, 'k) hash_funs \<Rightarrow> 'k filo_op \<Rightarrow> rheap \<times> 'c hash_filo \<Rightarrow> (rheap \<times> 'c hash_filo) option" where
  "filo_step H (FiloAdd e) st = Some (snd (filo_add H e st))"
| "filo_step H (FiloSearch k) st = map_option snd (filo_search H k st)"
| "filo_step H (FiloResize n) (h, s) = Some (h, filo_resize H n s)"

fun filo_run :: "('c, 'k) hash_funs \<Rightarrow> 'k filo_op list \<Rightarrow> rheap \<times> 'c hash_filo \<Rightarrow> (rheap \<times> 'c hash_filo) option" where
  "filo_run H [] st = Some st"
| "filo_run H (op # ops) st = (case filo_step H op st of None \<Rightarrow> None | Some st' \<Rightarrow> filo_run H ops st')"

fun filo_given :: "nat \<Rightarrow> 'k filo_op list \<Rightarrow> nat list" where
  "filo_given n [] = []"
| "filo_given n (FiloAdd e # ops) = (if n = 0 then [] else [e]) @ filo_given n ops"
| "filo_given n (FiloSearch k # ops) = filo_given n ops"
| "filo_given n (FiloResize m # ops) = filo_given m ops"

fun filo_adds :: "'k filo_op list \<Rightarrow> nat list" where
  "filo_adds [] = []"
| "filo_adds (FiloAdd e # ops) = e # filo_adds ops"
| "filo_adds (op # ops) = filo_adds ops"

fun next_size :: "nat \<Rightarrow> 'k filo_op \<Rightarrow> nat" where
  "next_size n (FiloResize m) = m"
| "next_size n _ = n"

lemma filo_given_Cons: "filo_given n (op # ops) = filo_given n [op] @ filo_given (next_size n op) ops"
  by (cases op) simp_all

lemma filo_adds_Cons: "filo_adds (op # ops) = filo_adds [op] @ filo_adds ops"
  by (cases op) simp_all

lemma filo_given_sub: "set (filo_given n [op]) \<subseteq> set (filo_adds [op])"
  by (cases op) simp_all

lemma search_frame:
  "filo_search H k (h, s) = Some (e, h', s') \<Longrightarrow> filo_size s' = filo_size s \<and> filo_freed s' = filo_freed s \<and> filo_init s' = filo_init s"
  by (auto simp: filo_search_def filo_unlink_def Let_def split: if_splits)

lemma add_frame: "filo_add H e (h, s) = (r, h', s') \<Longrightarrow> filo_size s' = filo_size s \<and> filo_init s' = filo_init s"
  by (auto simp: filo_add_def filo_evict_def Let_def split: if_splits option.splits)

lemma mset_butlast_last: "xs \<noteq> [] \<Longrightarrow> mset (butlast xs) + {#last xs#} = mset xs"
  by (metis append_butlast_last_id mset.simps mset_append)

lemma freed_entries:
  assumes "hash_ok H entries key" and "filo_ok entries (h, s) xs"
  shows "mset (my_hash_free H (filo_cache s)) = mset xs"
proof -
  have "distinct xs" "set xs = entries (filo_cache s)" using assms(2) by (auto simp: filo_ok_def used_list_def dll_def)
  then show ?thesis
    using assms(1) set_eq_iff_mset_eq_distinct [of "my_hash_free H (filo_cache s)" xs] by (auto simp: hash_ok_def)
qed

text \<open>One step keeps the cache consistent and accounts for every entry.\<close>

lemma filo_step_accounts:
  assumes "hash_ok H entries key" and "filo_ok entries (h, s) xs" and "filo_init s"
    and "set (filo_adds [op]) \<inter> set xs = {}" and "0 \<notin> set (filo_adds [op])"
  shows "\<exists>h' s' ys. filo_step H op (h, s) = Some (h', s') \<and> filo_ok entries (h', s') ys \<and> filo_init s' \<and>
    filo_size s' = next_size (filo_size s) op \<and> set ys \<subseteq> set xs \<union> set (filo_adds [op]) \<and>
    mset (filo_freed s') + mset ys = mset (filo_freed s) + mset xs + mset (filo_given (filo_size s) [op])"
proof (cases op)
  case (FiloAdd e)
  obtain r h' s' where a: "filo_add H e (h, s) = (r, h', s')" by (metis prod_cases3)
  define ys where "ys = (if length xs = filo_size s then butlast xs else xs)"
  show ?thesis
  proof (cases "filo_size s = 0")
    case True
    then show ?thesis using FiloAdd assms(2,3) by (auto simp: filo_add_def)
  next
    case False
    have "e \<notin> set xs" "e \<noteq> 0" using assms(4,5) FiloAdd by auto
    then have k: "filo_ok entries (h', s') (if r then ys else e # ys)"
      "filo_freed s' = filo_freed s @ (if length xs = filo_size s then [last xs] else []) @ (if r then [e] else [])"
      using add_ok [OF assms(1,2), of e] a False unfolding ys_def by auto
    have "mset ys + mset (if length xs = filo_size s then [last xs] else []) = mset xs"
      using False mset_butlast_last [of xs] by (cases "xs = []") (auto simp: ys_def)
    then have "mset (filo_freed s') + mset (if r then ys else e # ys) = mset (filo_freed s) + mset xs + mset (filo_given (filo_size s) [op])"
      using k(2) FiloAdd False by (cases r) (auto simp: ac_simps)
    moreover have "set (if r then ys else e # ys) \<subseteq> set xs \<union> {e}" by (auto simp: ys_def dest: in_set_butlastD split: if_splits)
    ultimately show ?thesis using k(1) a add_frame [OF a] FiloAdd assms(3)
      by (intro exI [of _ h'] exI [of _ s'] exI [of _ "if r then ys else e # ys"]) simp
  qed
next
  case (FiloSearch k)
  obtain e h' s' where r: "filo_search H k (h, s) = Some (e, h', s')"
    "if e = 0 then h' = h \<and> s' = s \<and> (\<forall>x \<in> set xs. key x \<noteq> k) else e \<in> set xs \<and> key e = k \<and> filo_ok entries (h', s') (e # remove1 e xs)"
    using search_ok [OF assms(1,2), of k] by blast
  have "filo_ok entries (h', s') (if e = 0 then xs else e # remove1 e xs)" "mset (if e = 0 then xs else e # remove1 e xs) = mset xs"
    using r(2) assms(2) by (auto split: if_splits)
  moreover from this(2) have "set (if e = 0 then xs else e # remove1 e xs) = set xs" by (metis set_mset_mset)
  ultimately show ?thesis using r(1) search_frame [OF r(1)] FiloSearch assms(3)
    by (intro exI [of _ h'] exI [of _ s'] exI [of _ "if e = 0 then xs else e # remove1 e xs"]) simp
next
  case (FiloResize n)
  have "mset (my_hash_free H (filo_cache s)) = mset xs" by (rule freed_entries [OF assms(1,2)])
  moreover have "filo_ok entries (h, filo_resize H n s) []"
    using hash_okD(6) [OF assms(1)] by (simp add: filo_ok_def filo_resize_def filo_clear_def used_list_def dll_def)
  ultimately show ?thesis using FiloResize
    by (intro exI [of _ h] exI [of _ "filo_resize H n s"] exI [of _ "[]"]) (simp add: filo_resize_def filo_clear_def)
qed

lemma filo_run_accounts:
  assumes "hash_ok H entries key"
  shows "filo_ok entries (h, s) xs \<Longrightarrow> filo_init s \<Longrightarrow> distinct (filo_adds ops) \<Longrightarrow> set (filo_adds ops) \<inter> set xs = {} \<Longrightarrow>
    0 \<notin> set (filo_adds ops) \<Longrightarrow>
    \<exists>h' s' ys. filo_run H ops (h, s) = Some (h', s') \<and> filo_ok entries (h', s') ys \<and> filo_init s' \<and>
      mset (filo_freed s') + mset ys = mset (filo_freed s) + mset xs + mset (filo_given (filo_size s) ops)"
proof (induction ops arbitrary: h s xs)
  case Nil
  then show ?case by auto
next
  case (Cons op ops)
  note split = filo_adds_Cons [of op ops]
  have "set (filo_adds [op]) \<inter> set xs = {}" "0 \<notin> set (filo_adds [op])" using Cons.prems(4,5) split by auto
  then obtain h1 s1 ys where 1: "filo_step H op (h, s) = Some (h1, s1)" "filo_ok entries (h1, s1) ys" "filo_init s1"
    "filo_size s1 = next_size (filo_size s) op" "set ys \<subseteq> set xs \<union> set (filo_adds [op])"
    "mset (filo_freed s1) + mset ys = mset (filo_freed s) + mset xs + mset (filo_given (filo_size s) [op])"
    using filo_step_accounts [OF assms Cons.prems(1,2)] by blast
  have "distinct (filo_adds ops)" "set (filo_adds ops) \<inter> set ys = {}" "0 \<notin> set (filo_adds ops)"
    using Cons.prems(3-5) 1(5) split by auto
  then obtain h' s' zs where 2: "filo_run H ops (h1, s1) = Some (h', s')" "filo_ok entries (h', s') zs" "filo_init s'"
    "mset (filo_freed s') + mset zs = mset (filo_freed s1) + mset ys + mset (filo_given (filo_size s1) ops)"
    using Cons.IH [OF 1(2,3)] by blast
  have "mset (filo_freed s') + mset zs = mset (filo_freed s) + mset xs + mset (filo_given (filo_size s) (op # ops))"
    using 2(4) 1(4,6) filo_given_Cons [of "filo_size s" op ops] by simp
  then show ?case using 1(1) 2(1-3) by (intro exI [of _ h'] exI [of _ s'] exI [of _ zs]) simp
qed

text \<open>
  Property C9: no entry is lost or freed twice. After any run of \<open>add\<close>, \<open>search\<close> and \<open>resize\<close> on an
  initialised cache, none of whose assertions fails, the destructor leaves exactly the entries
  cached at the start and those added while the size was positive freed, each as often as it
  was given: evicted entries, refused entries, entries dropped by \<open>resize\<close> and those still cached.
\<close>

theorem hash_filo_frees_once:
  assumes "hash_ok H entries key" and "filo_ok entries (h, s) xs" and "filo_init s"
    and "distinct (filo_adds ops)" and "set (filo_adds ops) \<inter> set xs = {}" and "0 \<notin> set (filo_adds ops)"
  shows "\<exists>h' s'. filo_run H ops (h, s) = Some (h', s') \<and>
    mset (filo_destroy H s') = mset (filo_freed s) + mset xs + mset (filo_given (filo_size s) ops)"
proof -
  obtain h' s' ys where r: "filo_run H ops (h, s) = Some (h', s')" "filo_ok entries (h', s') ys" "filo_init s'"
    "mset (filo_freed s') + mset ys = mset (filo_freed s) + mset xs + mset (filo_given (filo_size s) ops)"
    using filo_run_accounts [OF assms(1-6)] by blast
  then show ?thesis using freed_entries [OF assms(1) r(2)] by (auto simp: filo_destroy_def)
qed

text \<open>
  Looking up a key. On a consistent cache \<open>search\<close> passes its assertions; a miss means
  that no cached entry has the key and changes nothing; a hit returns the entry with the key and
  makes it the most recently used one, the others keeping their order, whether it was first,
  last or in between.
\<close>

theorem hash_filo_search_lru:
  assumes "hash_ok H entries key" and "filo_ok entries (h, s) xs"
  shows "\<exists>e h' s'. filo_search H k (h, s) = Some (e, h', s') \<and>
    (if e = 0 then h' = h \<and> s' = s \<and> (\<forall>x \<in> set xs. key x \<noteq> k)
     else e \<in> set xs \<and> key e = k \<and> filo_ok entries (h', s') (e # remove1 e xs))"
  using search_ok [OF assms] by blast
text \<open>
  Adding an entry. With a positive size, \<open>add\<close> of an entry that is not cached first
  drops the least recently used entry if the cache is full, and frees it; it then makes the new
  entry the most recently used one, or, when the hash table refuses it, frees it and reports
  that. The cache stays consistent, hence never exceeds its size. With size zero nothing is
  stored.
\<close>

theorem hash_filo_add_lru:
  assumes "hash_ok H entries key" and "filo_ok entries (h, s) xs" and "e \<notin> set xs" and "e \<noteq> 0"
  shows "if filo_size s = 0 then filo_add H e (h, s) = (True, h, s)
    else \<exists>r h' s' ys. filo_add H e (h, s) = (r, h', s') \<and> ys = (if length xs = filo_size s then butlast xs else xs) \<and>
      filo_ok entries (h', s') (if r then ys else e # ys) \<and>
      filo_freed s' = filo_freed s @ (if length xs = filo_size s then [last xs] else []) @ (if r then [e] else [])"
  using add_ok [OF assms] by blast

text \<open>A hash table in a list, with the identity as key, for which the hypothesis holds.\<close>

definition list_hash :: "(nat list, nat) hash_funs" where
  "list_hash = \<lparr>zeroed = [], my_hash_init = [], my_hash_free = remdups, my_hash_search = (\<lambda>c k. if k \<in> set c then k else 0),
     my_hash_insert = (\<lambda>c e. Some (List.insert e c)), my_hash_delete = (\<lambda>c e. filter (\<lambda>x. x \<noteq> e) c),
     records = (\<lambda>c. length (remdups c))\<rparr>"

lemma list_hash_ok: "hash_ok list_hash set (\<lambda>e. e)"
  by (auto simp: hash_ok_def list_hash_def length_remdups_card_conv)

definition filo2 :: "rheap \<times> nat list hash_filo" where
  "filo2 = (\<lparr>nx = (\<lambda>a. 0)(4 := 5), pv = (\<lambda>a. 0)(5 := 4)\<rparr>,
     (Hash_filo list_hash 2)\<lparr>first_link := 4, last_link := 5, filo_cache := [4, 5]\<rparr>)"

lemma filo2_ok: "filo_ok set filo2 [4, 5]"
  by (simp add: filo_ok_def filo2_def used_list_def dll_def Hash_filo_def)

theorem hash_filo_search_lru_witness:
  "\<exists>h' s'. filo_search list_hash 5 filo2 = Some (5, h', s') \<and> filo_ok set (h', s') [5, 4]"
proof -
  obtain h s where hs: "filo2 = (h, s)" by (cases filo2)
  obtain e h' s' where r: "filo_search list_hash 5 (h, s) = Some (e, h', s')"
    "if e = 0 then h' = h \<and> s' = s \<and> (\<forall>x \<in> set [4, 5 :: nat]. x \<noteq> 5) else e \<in> set [4, 5] \<and> e = 5 \<and> filo_ok set (h', s') (e # remove1 e [4, 5])"
    using hash_filo_search_lru [OF list_hash_ok filo2_ok [unfolded hs], of 5] by blast
  then show ?thesis unfolding hs by (cases "e = 0") auto
qed

theorem hash_filo_add_lru_witness:
  "\<exists>r h' s'. filo_add list_hash 9 filo2 = (r, h', s') \<and> filo_ok set (h', s') (if r then [4] else [9, 4]) \<and>
     filo_freed s' = [5] @ (if r then [9] else [])"
proof -
  obtain h s where hs: "filo2 = (h, s)" by (cases filo2)
  have c: "filo_size s = 2" "filo_freed s = []" using hs by (auto simp: filo2_def Hash_filo_def)
  show ?thesis unfolding hs using hash_filo_add_lru [OF list_hash_ok filo2_ok [unfolded hs], of 9] c by (simp add: numeral_2_eq_2)
qed

text \<open>Two entries are cached; a third evicts one, a lookup, then \<open>resize\<close> and one more entry.\<close>

theorem hash_filo_frees_once_witness:
  "\<exists>h' s'. filo_run list_hash [FiloAdd 9, FiloSearch 4, FiloResize 1, FiloAdd 7] (fst filo2, (snd filo2)\<lparr>filo_init := True\<rparr>) = Some (h', s') \<and>
     mset (filo_destroy list_hash s') = {#4, 5, 9, 7#}"
proof -
  let ?s = "(snd filo2)\<lparr>filo_init := True\<rparr>" and ?ops = "[FiloAdd 9, FiloSearch 4, FiloResize 1, FiloAdd 7]"
  have c: "filo_size ?s = 2" "filo_freed ?s = []" by (simp_all add: filo2_def Hash_filo_def)
  have "filo_ok set (fst filo2, ?s) [4, 5]" using filo2_ok by (simp add: filo_ok_def used_list_def case_prod_beta)
  from hash_filo_frees_once [OF list_hash_ok this, of ?ops]
  obtain h' s' where r: "filo_run list_hash ?ops (fst filo2, ?s) = Some (h', s')"
    "mset (filo_destroy list_hash s') = mset (filo_freed ?s) + mset [4, 5] + mset (filo_given (filo_size ?s) ?ops)" by auto
  have "mset (filo_destroy list_hash s') = {#4, 5, 9, 7#}" unfolding r(2) c by simp
  then show ?thesis using r(1) by blast
qed

end
