(* ===== verification/MemRootArray.thy ===== *)
theory MemRootArray
  imports Prelude "HOL-Library.Multiset"
begin

text \<open>
  The arrays of the server: \<open>Mem_root_array\<close> of \<open>mem_root_array.h\<close>, a vector that grows in memory
  of a \<open>MEM_ROOT\<close>, and \<open>Bounds_checked_array\<close> of \<open>sql_array.h\<close>, a pointer with a length. The
  allocator is a parameter: \<open>alloc n\<close> tells whether \<open>alloc_root\<close> returns memory for \<open>n\<close> bytes, of which
  there are \<open>unat n\<close>. A failed assertion, an access outside the memory and a read of a cell that
  holds no element are \<open>None\<close>. The fields \<open>built\<close> and \<open>destroyed\<close> record the constructor and
  destructor calls on elements.
\<close>

section \<open>\<open>Mem_root_array\<close>\<close>

record 'a mra =
  m_array :: "'a option list"
  m_size :: nat
  m_capacity :: nat
  built :: "'a list"
  destroyed :: "'a list"

text \<open>What is fixed for an array: the size of its elements and whether their destructor is trivial.\<close>

record mra_type =
  element_size :: nat
  has_trivial_destructor :: bool

definition Mem_root_array1 :: "'a mra" where
  "Mem_root_array1 = \<lparr>m_array = [], m_size = 0, m_capacity = 0, built = [], destroyed = []\<rparr>"

definition mra_at :: "nat \<Rightarrow> 'a mra \<Rightarrow> 'a option" where
  "mra_at n a = (if n < m_size a \<and> n < length (m_array a) then m_array a ! n else None)"

definition mra_back :: "'a mra \<Rightarrow> 'a option" where
  "mra_back a = (if m_size a = 0 then None else mra_at (m_size a - 1) a)"

text \<open>\<open>p->~Element_type()\<close> on the cell \<open>ix\<close>; a trivial destructor is not called.\<close>

definition destroy_at :: "mra_type \<Rightarrow> nat \<Rightarrow> 'a mra \<Rightarrow> 'a mra option" where
  "destroy_at t ix a =
     (if has_trivial_destructor t then Some a
      else if ix < length (m_array a)
      then (case m_array a ! ix of
              None \<Rightarrow> None
            | Some x \<Rightarrow> Some (a\<lparr>m_array := (m_array a)[ix := None], destroyed := destroyed a @ [x]\<rparr>))
      else None)"

fun destroy_range :: "mra_type \<Rightarrow> nat list \<Rightarrow> 'a mra \<Rightarrow> 'a mra option" where
  "destroy_range t [] a = Some a"
| "destroy_range t (ix # ixs) a = (case destroy_at t ix a of None \<Rightarrow> None | Some a \<Rightarrow> destroy_range t ixs a)"

definition mra_chop :: "mra_type \<Rightarrow> nat \<Rightarrow> 'a mra \<Rightarrow> 'a mra option" where
  "mra_chop t pos a =
     (if pos < m_size a
      then (case destroy_range t [pos..<m_size a] a of None \<Rightarrow> None | Some a \<Rightarrow> Some (a\<lparr>m_size := pos\<rparr>))
      else None)"

definition mra_empty :: "'a mra \<Rightarrow> bool" where
  "mra_empty a \<longleftrightarrow> m_size a = 0"

definition mra_clear :: "mra_type \<Rightarrow> 'a mra \<Rightarrow> 'a mra option" where
  "mra_clear t a = (if \<not> mra_empty a then mra_chop t 0 a else Some a)"

text \<open>Copying one element into the new memory and destroying the old one.\<close>

definition copy_elem :: "mra_type \<Rightarrow> nat \<Rightarrow> 'a option list \<times> 'a mra \<Rightarrow> ('a option list \<times> 'a mra) option" where
  "copy_elem t ix = (\<lambda>(new, a).
     if ix < length (m_array a) \<and> ix < length new
     then (case m_array a ! ix of
             None \<Rightarrow> None
           | Some x \<Rightarrow>
               (case destroy_at t ix (a\<lparr>built := built a @ [x]\<rparr>) of
                  None \<Rightarrow> None
                | Some a \<Rightarrow> Some (new[ix := Some x], a)))
     else None)"

fun copy_range :: "mra_type \<Rightarrow> nat list \<Rightarrow> 'a option list \<times> 'a mra \<Rightarrow> ('a option list \<times> 'a mra) option" where
  "copy_range t [] na = Some na"
| "copy_range t (ix # ixs) na = (case copy_elem t ix na of None \<Rightarrow> None | Some na \<Rightarrow> copy_range t ixs na)"

text \<open>\<open>reserve\<close>: true when out of memory; the product of the sizes is computed in 64 bits.\<close>

definition mra_reserve :: "(u64 \<Rightarrow> bool) \<Rightarrow> mra_type \<Rightarrow> nat \<Rightarrow> 'a mra \<Rightarrow> (bool \<times> 'a mra) option" where
  "mra_reserve alloc t n a =
     (if n \<le> m_capacity a then Some (False, a)
      else let bytes = word_of_nat n * word_of_nat (element_size t)
           in if \<not> alloc bytes then Some (True, a)
              else (case copy_range t [0..<m_size a] (replicate (unat bytes div element_size t) None, a) of
                      None \<Rightarrow> None
                    | Some (new, a) \<Rightarrow> Some (False, a\<lparr>m_array := new, m_capacity := n\<rparr>)))"

definition store_new :: "'a \<Rightarrow> 'a mra \<Rightarrow> 'a mra option" where
  "store_new x a =
     (if m_size a < length (m_array a)
      then Some (a\<lparr>m_array := (m_array a)[m_size a := Some x], m_size := m_size a + 1, built := built a @ [x]\<rparr>)
      else None)"

definition mra_push_back :: "(u64 \<Rightarrow> bool) \<Rightarrow> mra_type \<Rightarrow> 'a \<Rightarrow> 'a mra \<Rightarrow> (bool \<times> 'a mra) option" where
  "mra_push_back alloc t x a =
     (case (if m_capacity a = 0 then mra_reserve alloc t 20 a else Some (False, a)) of
        None \<Rightarrow> None
      | Some (True, a) \<Rightarrow> Some (True, a)
      | Some (False, a) \<Rightarrow>
          (case (if m_size a = m_capacity a then mra_reserve alloc t (m_capacity a * 2) a else Some (False, a)) of
             None \<Rightarrow> None
           | Some (True, a) \<Rightarrow> Some (True, a)
           | Some (False, a) \<Rightarrow> map_option (Pair False) (store_new x a)))"

definition mra_pop_back :: "mra_type \<Rightarrow> 'a mra \<Rightarrow> 'a mra option" where
  "mra_pop_back t a =
     (if mra_empty a then None
      else (case destroy_at t (m_size a - 1) a of None \<Rightarrow> None | Some a \<Rightarrow> Some (a\<lparr>m_size := m_size a - 1\<rparr>)))"

text \<open>
  The two loops of \<open>resize\<close>. The first repeats \<open>push_back\<close> until the size is reached whatever it
  returns: its fuel is the number of elements missing, and a failed \<open>push_back\<close> exhausts it.
\<close>

fun resize_grow :: "nat \<Rightarrow> (u64 \<Rightarrow> bool) \<Rightarrow> mra_type \<Rightarrow> nat \<Rightarrow> 'a \<Rightarrow> 'a mra \<Rightarrow> 'a mra option" where
  "resize_grow fuel alloc t n val a =
     (if n = m_size a then Some a
      else case fuel of
             0 \<Rightarrow> None
           | Suc fuel \<Rightarrow> (case mra_push_back alloc t val a of None \<Rightarrow> None | Some (_, a) \<Rightarrow> resize_grow fuel alloc t n val a))"

fun resize_shrink :: "nat \<Rightarrow> mra_type \<Rightarrow> nat \<Rightarrow> 'a mra \<Rightarrow> 'a mra option" where
  "resize_shrink fuel t n a =
     (if n = m_size a then Some a
      else case fuel of
             0 \<Rightarrow> None
           | Suc fuel \<Rightarrow> (case mra_pop_back t a of None \<Rightarrow> None | Some a \<Rightarrow> resize_shrink fuel t n a))"

definition mra_resize :: "(u64 \<Rightarrow> bool) \<Rightarrow> mra_type \<Rightarrow> nat \<Rightarrow> 'a \<Rightarrow> 'a mra \<Rightarrow> 'a mra option" where
  "mra_resize alloc t n val a =
     (if n = m_size a then Some a
      else if n > m_size a
      then (case mra_reserve alloc t n a of
              None \<Rightarrow> None
            | Some (True, a) \<Rightarrow> Some a
            | Some (False, a) \<Rightarrow> resize_grow (n - m_size a) alloc t n val a)
      else (case (if has_trivial_destructor t then Some a else resize_shrink (m_size a - n) t n a) of
              None \<Rightarrow> None
            | Some a \<Rightarrow> Some (a\<lparr>m_size := n\<rparr>)))"

definition Mem_root_array2 :: "(u64 \<Rightarrow> bool) \<Rightarrow> mra_type \<Rightarrow> nat \<Rightarrow> 'a \<Rightarrow> 'a mra option" where
  "Mem_root_array2 alloc t n val = mra_resize alloc t n val Mem_root_array1"

text \<open>\<open>~Mem_root_array\<close>.\<close>

definition mra_delete :: "mra_type \<Rightarrow> 'a mra \<Rightarrow> 'a mra option" where
  "mra_delete t a = mra_clear t a"

section \<open>The invariant\<close>

definition contents :: "'a mra \<Rightarrow> 'a list" where
  "contents a = map the (take (m_size a) (m_array a))"

text \<open>
  The memory has a cell for each unit of capacity, the first \<open>m_size\<close> cells hold elements, and
  (unless destructors are trivial) the elements built are those destroyed and those present.
\<close>

definition mra_ok :: "mra_type \<Rightarrow> 'a mra \<Rightarrow> bool" where
  "mra_ok t a \<longleftrightarrow>
     m_size a \<le> m_capacity a \<and> length (m_array a) = m_capacity a \<and>
     take (m_size a) (m_array a) = map Some (contents a) \<and>
     (\<not> has_trivial_destructor t \<longrightarrow> mset (built a) = mset (destroyed a) + mset (contents a))"

lemma length_contents: "mra_ok t a \<Longrightarrow> length (contents a) = m_size a"
  by (simp add: mra_ok_def contents_def)

lemma mra_ok_nth: "mra_ok t a \<Longrightarrow> i < m_size a \<Longrightarrow> m_array a ! i = Some (contents a ! i)"
proof -
  assume a: "mra_ok t a" "i < m_size a"
  then have "m_array a ! i = take (m_size a) (m_array a) ! i" by simp
  also have "\<dots> = Some (contents a ! i)" using a length_contents [OF a(1)] by (simp add: mra_ok_def del: nth_take)
  finally show ?thesis .
qed

lemma mra_ok_init: "mra_ok t Mem_root_array1"
  by (simp add: mra_ok_def Mem_root_array1_def contents_def)

lemma destroy_range_cells:
  assumes "distinct ixs" and "\<And>ix. ix \<in> set ixs \<Longrightarrow> ix < length (m_array a) \<and> m_array a ! ix = Some (g ix)"
  shows "\<exists>arr. destroy_range t ixs a =
      Some (a\<lparr>m_array := arr, destroyed := destroyed a @ (if has_trivial_destructor t then [] else map g ixs)\<rparr>) \<and>
    length arr = length (m_array a) \<and> (\<forall>j. j \<notin> set ixs \<longrightarrow> arr ! j = m_array a ! j)"
  using assms
proof (induction ixs arbitrary: a)
  case (Cons ix ixs)
  let ?a = "if has_trivial_destructor t then a else a\<lparr>m_array := (m_array a)[ix := None], destroyed := destroyed a @ [g ix]\<rparr>"
  have d: "destroy_at t ix a = Some ?a" using Cons.prems(2) [of ix] by (simp add: destroy_at_def)
  have "\<And>j. j \<in> set ixs \<Longrightarrow> j < length (m_array ?a) \<and> m_array ?a ! j = Some (g j)"
    using Cons.prems by (auto simp: nth_list_update)
  from Cons.IH [OF _ this] Cons.prems(1) obtain arr where
    "destroy_range t ixs ?a = Some (?a\<lparr>m_array := arr, destroyed := destroyed ?a @ (if has_trivial_destructor t then [] else map g ixs)\<rparr>)"
    "length arr = length (m_array ?a)" "\<forall>j. j \<notin> set ixs \<longrightarrow> arr ! j = m_array ?a ! j" by auto
  then show ?case using d by (intro exI [of _ arr]) (auto simp: nth_list_update)
next
  case Nil
  show ?case by (intro exI [of _ "m_array a"]) simp
qed

lemma copy_range_cells:
  assumes "distinct ixs" and "\<And>ix. ix \<in> set ixs \<Longrightarrow> ix < length (m_array a) \<and> ix < length new \<and> m_array a ! ix = Some (g ix)"
  shows "\<exists>arr new'. copy_range t ixs (new, a) =
      Some (new', a\<lparr>m_array := arr, built := built a @ map g ixs,
                    destroyed := destroyed a @ (if has_trivial_destructor t then [] else map g ixs)\<rparr>) \<and>
    length new' = length new \<and> (\<forall>j. new' ! j = (if j \<in> set ixs then Some (g j) else new ! j))"
  using assms
proof (induction ixs arbitrary: a new)
  case (Cons ix ixs)
  let ?b = "a\<lparr>built := built a @ [g ix]\<rparr>"
  let ?a = "if has_trivial_destructor t then ?b else ?b\<lparr>m_array := (m_array a)[ix := None], destroyed := destroyed a @ [g ix]\<rparr>"
  have c: "copy_elem t ix (new, a) = Some (new[ix := Some (g ix)], ?a)"
    using Cons.prems(2) [of ix] by (simp add: copy_elem_def destroy_at_def)
  have "\<And>j. j \<in> set ixs \<Longrightarrow> j < length (m_array ?a) \<and> j < length (new[ix := Some (g ix)]) \<and> m_array ?a ! j = Some (g j)"
    using Cons.prems by (auto simp: nth_list_update)
  from Cons.IH [OF _ this] Cons.prems(1) obtain arr new' where
    "copy_range t ixs (new[ix := Some (g ix)], ?a) =
      Some (new', ?a\<lparr>m_array := arr, built := built ?a @ map g ixs,
                    destroyed := destroyed ?a @ (if has_trivial_destructor t then [] else map g ixs)\<rparr>)"
    "length new' = length (new[ix := Some (g ix)])" "\<forall>j. new' ! j = (if j \<in> set ixs then Some (g j) else new[ix := Some (g ix)] ! j)" by auto
  then show ?case using c Cons.prems(1) Cons.prems(2) [of ix]
    by (intro exI [of _ arr] exI [of _ new']) (auto simp: nth_list_update)
next
  case Nil
  show ?case by (intro exI [of _ "m_array a"] exI [of _ new]) simp
qed

lemma bytes_cells:
  assumes "n * k < 2 ^ 64" and "0 < k"
  shows "unat (word_of_nat n * word_of_nat k :: u64) div k = n"
proof -
  have "(word_of_nat n * word_of_nat k :: u64) = word_of_nat (n * k)" by simp
  then have "unat (word_of_nat n * word_of_nat k :: u64) = take_bit 64 (n * k)" by (simp only: unat_of_nat) (simp add: take_bit_eq_mod)
  also have "\<dots> = n * k" using assms(1) by (rule take_bit_nat_eq_self)
  finally have "unat (word_of_nat n * word_of_nat k :: u64) = n * k" .
  then show ?thesis using assms(2) by simp
qed

lemma reserve_keeps:
  assumes "mra_ok t a" and "n * element_size t < 2 ^ 64" and "0 < element_size t"
  shows "\<exists>r a'. mra_reserve alloc t n a = Some (r, a') \<and> mra_ok t a' \<and> contents a' = contents a \<and> m_size a' = m_size a \<and>
    (r \<longrightarrow> a' = a \<and> m_capacity a < n \<and> (\<exists>k. \<not> alloc k)) \<and> (\<not> r \<longrightarrow> m_capacity a' = max n (m_capacity a))"
proof (cases "m_capacity a < n \<and> alloc (word_of_nat n * word_of_nat (element_size t))")
  case False
  then show ?thesis using assms(1) by (cases "n \<le> m_capacity a") (auto simp: mra_reserve_def Let_def max_def)
next
  case True
  have sz: "m_size a \<le> m_capacity a" "length (m_array a) = m_capacity a" using assms(1) by (simp_all add: mra_ok_def)
  obtain arr new where copy: "copy_range t [0..<m_size a] (replicate n None, a) =
      Some (new, a\<lparr>m_array := arr, built := built a @ map ((!) (contents a)) [0..<m_size a],
              destroyed := destroyed a @ (if has_trivial_destructor t then [] else map ((!) (contents a)) [0..<m_size a])\<rparr>)"
    "length new = n" "\<forall>j. new ! j = (if j \<in> set [0..<m_size a] then Some (contents a ! j) else replicate n None ! j)"
    using copy_range_cells [of "[0..<m_size a]" a "replicate n None" "(!) (contents a)" t] mra_ok_nth [OF assms(1)] sz True by auto
  let ?a = "a\<lparr>m_array := new, built := built a @ contents a,
      destroyed := destroyed a @ (if has_trivial_destructor t then [] else contents a), m_capacity := n\<rparr>"
  have all: "map ((!) (contents a)) [0..<m_size a] = contents a" using map_nth [of "contents a"] length_contents [OF assms(1)] by simp
  have r: "mra_reserve alloc t n a = Some (False, ?a)"
    using True copy(1) bytes_cells [OF assms(2,3)] by (simp add: mra_reserve_def Let_def all)
  have cells: "take (m_size a) new = map Some (contents a)"
    using copy(2,3) True sz length_contents [OF assms(1)] by (intro nth_equalityI) auto
  then have c: "contents ?a = contents a" by (simp add: contents_def comp_def)
  have "mra_ok t ?a" unfolding mra_ok_def c using cells copy(2) True sz assms(1) by (simp add: mra_ok_def)
  moreover have "m_size ?a = m_size a" "m_capacity ?a = max n (m_capacity a)" using True by simp_all
  ultimately show ?thesis using r c by blast
qed

lemma store_new_ok:
  assumes "mra_ok t a" and "m_size a < m_capacity a"
  shows "\<exists>a'. store_new x a = Some a' \<and> mra_ok t a' \<and> contents a' = contents a @ [x] \<and> m_capacity a' = m_capacity a \<and> m_size a' = Suc (m_size a)"
proof -
  have sz: "m_size a < length (m_array a)" "take (m_size a) (m_array a) = map Some (contents a)" using assms by (simp_all add: mra_ok_def)
  let ?a = "a\<lparr>m_array := (m_array a)[m_size a := Some x], m_size := m_size a + 1, built := built a @ [x]\<rparr>"
  have "take (Suc (m_size a)) ((m_array a)[m_size a := Some x]) = map Some (contents a @ [x])"
    using sz by (simp add: take_Suc_conv_app_nth)
  moreover from this have "contents ?a = contents a @ [x]" by (simp add: contents_def comp_def)
  ultimately show ?thesis using assms sz(1) by (simp add: store_new_def mra_ok_def)
qed

abbreviation mra_limit :: "mra_type \<Rightarrow> 'a mra \<Rightarrow> nat \<Rightarrow> bool" where
  "mra_limit t a n \<equiv> 0 < element_size t \<and> max n (max 20 (2 * m_capacity a)) * element_size t < 2 ^ 64"

lemma mra_limitD: "mra_limit t a n \<Longrightarrow> k \<le> max n (max 20 (2 * m_capacity a)) \<Longrightarrow> k * element_size t < 2 ^ 64"
  by (meson le_less_trans mult_le_mono1)

lemma push_back_ok:
  assumes "mra_ok t a" and "mra_limit t a n"
  shows "\<exists>r a'. mra_push_back alloc t x a = Some (r, a') \<and> mra_ok t a' \<and>
    (if r then contents a' = contents a \<and> (\<exists>k. \<not> alloc k) \<and> m_size a = m_capacity a
     else contents a' = contents a @ [x] \<and> m_size a' = Suc (m_size a) \<and> (m_size a < m_capacity a \<longrightarrow> m_capacity a' = m_capacity a))"
proof -
  let ?first = "if m_capacity a = 0 then mra_reserve alloc t 20 a else Some (False, a)"
  obtain r1 a1 where 1: "?first = Some (r1, a1)" "mra_ok t a1" "contents a1 = contents a" "m_size a1 = m_size a"
    "r1 \<Longrightarrow> m_capacity a = 0 \<and> (\<exists>k. \<not> alloc k)" "\<not> r1 \<Longrightarrow> m_capacity a1 = (if m_capacity a = 0 then 20 else m_capacity a)"
    using reserve_keeps [OF assms(1), of 20 alloc] mra_limitD [OF assms(2), of 20] assms by (cases "m_capacity a = 0") auto
  have z: "m_size a \<le> m_capacity a" using assms(1) by (simp add: mra_ok_def)
  show ?thesis
  proof (cases r1)
    case True
    then have "mra_push_back alloc t x a = Some (True, a1)" using 1(1) by (simp add: mra_push_back_def)
    then show ?thesis using 1(2,3,5) True z by auto
  next
    case False
    let ?second = "if m_size a1 = m_capacity a1 then mra_reserve alloc t (m_capacity a1 * 2) a1 else Some (False, a1)"
    have cap: "m_capacity a1 = (if m_capacity a = 0 then 20 else m_capacity a)" using 1(6) False by simp
    have pos: "0 < m_capacity a1" using cap by simp
    have "\<exists>r2 a2. ?second = Some (r2, a2) \<and> mra_ok t a2 \<and> contents a2 = contents a1 \<and> m_size a2 = m_size a1 \<and>
      (r2 \<longrightarrow> m_size a1 = m_capacity a1 \<and> (\<exists>k. \<not> alloc k)) \<and> (\<not> r2 \<longrightarrow> m_size a2 < m_capacity a2) \<and>
      (\<not> r2 \<longrightarrow> m_size a1 < m_capacity a1 \<longrightarrow> m_capacity a2 = m_capacity a1)"
    proof (cases "m_size a1 = m_capacity a1")
      case True
      then have bound: "m_capacity a1 * 2 * element_size t < 2 ^ 64"
        using mra_limitD [OF assms(2), of "m_capacity a1 * 2"] cap z 1(4) by (cases "m_capacity a = 0") simp_all
      obtain r2 a2 where "mra_reserve alloc t (m_capacity a1 * 2) a1 = Some (r2, a2)" "mra_ok t a2" "contents a2 = contents a1"
        "m_size a2 = m_size a1" "r2 \<longrightarrow> (\<exists>k. \<not> alloc k)" "\<not> r2 \<longrightarrow> m_capacity a2 = max (m_capacity a1 * 2) (m_capacity a1)"
        using reserve_keeps [OF 1(2) bound conjunct1 [OF assms(2)], of alloc] by blast
      then show ?thesis using True pos by (intro exI [of _ r2] exI [of _ a2]) simp
    next
      case False
      then show ?thesis using 1(2) by (intro exI [of _ False] exI [of _ a1]) (simp add: mra_ok_def)
    qed
    then obtain r2 a2 where 2: "?second = Some (r2, a2)" "mra_ok t a2" "contents a2 = contents a1" "m_size a2 = m_size a1"
      "r2 \<Longrightarrow> m_size a1 = m_capacity a1 \<and> (\<exists>k. \<not> alloc k)" "\<not> r2 \<Longrightarrow> m_size a2 < m_capacity a2"
      "\<not> r2 \<Longrightarrow> m_size a1 < m_capacity a1 \<Longrightarrow> m_capacity a2 = m_capacity a1" by blast
    show ?thesis
    proof (cases r2)
      case True
      have "mra_push_back alloc t x a = Some (True, a2)" using 1(1) 2(1) False True by (simp add: mra_push_back_def)
      moreover have "m_size a = m_capacity a" using 2(5) [OF True] cap 1(4) z by (cases "m_capacity a = 0") simp_all
      ultimately show ?thesis using 1(3) 2(2,3,5) True by auto
    next
      case no: False
      obtain a3 where a3: "store_new x a2 = Some a3" "mra_ok t a3" "contents a3 = contents a2 @ [x]" "m_capacity a3 = m_capacity a2" "m_size a3 = Suc (m_size a2)"
        using store_new_ok [OF 2(2) 2(6) [OF no], of x] by blast
      have "mra_push_back alloc t x a = Some (False, a3)" using 1(1) 2(1) a3(1) False no by (simp add: mra_push_back_def)
      moreover have "m_size a < m_capacity a \<longrightarrow> m_capacity a3 = m_capacity a" using 2(7) [OF no] a3(4) cap 1(4) by auto
      ultimately show ?thesis using 1(3,4) 2(3,4) a3(2,3,5) by auto
    qed
  qed
qed

lemma shorten_ok:
  assumes "mra_ok t a" and "pos \<le> m_size a" and "length arr = length (m_array a)" and "\<And>j. j < pos \<Longrightarrow> arr ! j = m_array a ! j"
    and "\<not> has_trivial_destructor t \<Longrightarrow> mset ds = mset (drop pos (contents a))"
  shows "mra_ok t (a\<lparr>m_array := arr, destroyed := destroyed a @ ds, m_size := pos\<rparr>) \<and>
    contents (a\<lparr>m_array := arr, destroyed := destroyed a @ ds, m_size := pos\<rparr>) = take pos (contents a)"
proof -
  have sz: "m_size a \<le> length (m_array a)" "length (contents a) = m_size a" using assms(1) by (simp_all add: mra_ok_def contents_def)
  have cells: "take pos arr = map Some (take pos (contents a))"
    using assms(2,3,4) sz mra_ok_nth [OF assms(1)] by (intro nth_equalityI) auto
  then have c: "contents (a\<lparr>m_array := arr, destroyed := destroyed a @ ds, m_size := pos\<rparr>) = take pos (contents a)"
    by (simp add: contents_def comp_def)
  have "mset (contents a) = mset (take pos (contents a)) + mset (drop pos (contents a))"
    by (metis append_take_drop_id mset_append)
  then show ?thesis unfolding mra_ok_def c using cells assms by (auto simp: mra_ok_def)
qed

lemma map_nth_drop: "length xs = n \<Longrightarrow> map ((!) xs) [k..<n] = drop k xs"
  using map_nth [of xs] by (metis drop_map drop_upt plus_nat.add_0)

lemma chop_ok:
  assumes "mra_ok t a" and "pos < m_size a"
  shows "\<exists>a'. mra_chop t pos a = Some a' \<and> mra_ok t a' \<and> contents a' = take pos (contents a)"
proof -
  have "m_size a \<le> length (m_array a)" using assms(1) by (simp add: mra_ok_def)
  then obtain arr where arr: "destroy_range t [pos..<m_size a] a =
      Some (a\<lparr>m_array := arr, destroyed := destroyed a @ (if has_trivial_destructor t then [] else map ((!) (contents a)) [pos..<m_size a])\<rparr>)"
    "length arr = length (m_array a)" "\<forall>j. j \<notin> set [pos..<m_size a] \<longrightarrow> arr ! j = m_array a ! j"
    using destroy_range_cells [of "[pos..<m_size a]" a "(!) (contents a)" t] mra_ok_nth [OF assms(1)] by auto
  let ?ds = "if has_trivial_destructor t then [] else map ((!) (contents a)) [pos..<m_size a]"
  have "mra_ok t (a\<lparr>m_array := arr, destroyed := destroyed a @ ?ds, m_size := pos\<rparr>) \<and>
      contents (a\<lparr>m_array := arr, destroyed := destroyed a @ ?ds, m_size := pos\<rparr>) = take pos (contents a)"
    using assms arr(2,3) map_nth_drop [OF length_contents [OF assms(1)], of pos] by (intro shorten_ok) auto
  then show ?thesis using arr(1) assms(2) by (simp add: mra_chop_def)
qed

lemma pop_back_ok:
  assumes "mra_ok t a" and "0 < m_size a"
  shows "\<exists>a'. mra_pop_back t a = Some a' \<and> mra_ok t a' \<and> contents a' = butlast (contents a) \<and> m_size a' = m_size a - 1"
proof -
  let ?k = "m_size a - 1"
  have k: "?k < length (m_array a)" "m_array a ! ?k = Some (contents a ! ?k)" "length (contents a) = m_size a"
    using assms mra_ok_nth [OF assms(1), of ?k] length_contents [OF assms(1)] by (auto simp: mra_ok_def)
  obtain arr ds where d: "destroy_at t ?k a = Some (a\<lparr>m_array := arr, destroyed := destroyed a @ ds\<rparr>)" "length arr = length (m_array a)"
    "\<forall>j. j < ?k \<longrightarrow> arr ! j = m_array a ! j" "ds = (if has_trivial_destructor t then [] else [contents a ! ?k])"
    using k(1,2) by (cases "has_trivial_destructor t") (force simp: destroy_at_def)+
  have "drop ?k (contents a) = [contents a ! ?k]" using k(3) assms(2) by (simp add: Cons_nth_drop_Suc [symmetric])
  then have "mra_ok t (a\<lparr>m_array := arr, destroyed := destroyed a @ ds, m_size := ?k\<rparr>) \<and>
      contents (a\<lparr>m_array := arr, destroyed := destroyed a @ ds, m_size := ?k\<rparr>) = take ?k (contents a)"
    using assms(1) d(2,3,4) by (intro shorten_ok) auto
  moreover have "take ?k (contents a) = butlast (contents a)" using k(3) by (simp add: butlast_conv_take)
  ultimately show ?thesis using d(1) assms(2) by (simp add: mra_pop_back_def mra_empty_def)
qed

lemma resize_shrink_ok:
  "mra_ok t a \<Longrightarrow> n \<le> m_size a \<Longrightarrow> k = m_size a - n \<Longrightarrow>
     \<exists>a'. resize_shrink k t n a = Some a' \<and> mra_ok t a' \<and> contents a' = take n (contents a) \<and> m_size a' = n"
proof (induction k arbitrary: a)
  case 0
  then show ?case using length_contents [of t a] by simp
next
  case (Suc k)
  have "0 < m_size a" using Suc.prems by simp
  then obtain b where b: "mra_pop_back t a = Some b" "mra_ok t b" "contents b = butlast (contents a)" "m_size b = m_size a - 1"
    using pop_back_ok [OF Suc.prems(1)] by blast
  have "n \<le> m_size b" "k = m_size b - n" using b(4) Suc.prems by simp_all
  then obtain c where "resize_shrink k t n b = Some c" "mra_ok t c" "contents c = take n (contents b)" "m_size c = n"
    using Suc.IH [OF b(2)] by blast
  moreover have "take n (contents b) = take n (contents a)"
    using b(3) Suc.prems(2,3) length_contents [OF Suc.prems(1)] by (simp add: butlast_conv_take)
  moreover have "n \<noteq> m_size a" using Suc.prems by simp
  ultimately show ?case using b(1) by simp
qed

lemma push_back_room:
  assumes "mra_ok t a" and "m_size a < m_capacity a"
  shows "\<exists>b. mra_push_back alloc t x a = Some (False, b) \<and> mra_ok t b \<and> contents b = contents a @ [x] \<and>
    m_capacity b = m_capacity a \<and> m_size b = Suc (m_size a)"
  using store_new_ok [OF assms, of x] assms(2) by (auto simp: mra_push_back_def)

lemma resize_grow_ok:
  "mra_ok t a \<Longrightarrow> m_size a \<le> n \<Longrightarrow> n \<le> m_capacity a \<Longrightarrow> k = n - m_size a \<Longrightarrow>
     \<exists>a'. resize_grow k alloc t n v a = Some a' \<and> mra_ok t a' \<and> contents a' = contents a @ replicate k v"
proof (induction k arbitrary: a)
  case 0
  then show ?case by simp
next
  case (Suc k)
  have lt: "m_size a < m_capacity a" "n \<noteq> m_size a" using Suc.prems by simp_all
  obtain b where b: "mra_push_back alloc t v a = Some (False, b)" "mra_ok t b" "contents b = contents a @ [v]" "m_capacity b = m_capacity a" "m_size b = Suc (m_size a)"
    using push_back_room [OF Suc.prems(1) lt(1), of alloc v] by blast
  have "m_size b \<le> n" "n \<le> m_capacity b" "k = n - m_size b" using b(4,5) Suc.prems by simp_all
  from Suc.IH [OF b(2) this] obtain c where "resize_grow k alloc t n v b = Some c" "mra_ok t c" "contents c = contents b @ replicate k v" by blast
  then show ?case using b(1,3) lt(2) by (simp add: replicate_append_same)
qed

section \<open>The array is a vector\<close>

datatype 'a mra_op = PushBackOp 'a | PopBackOp | ChopOp nat | ClearOp | ReserveOp nat | ResizeOp nat 'a

fun mra_step :: "(u64 \<Rightarrow> bool) \<Rightarrow> mra_type \<Rightarrow> 'a mra_op \<Rightarrow> 'a mra \<Rightarrow> (bool \<times> 'a mra) option" where
  "mra_step alloc t (PushBackOp x) a = mra_push_back alloc t x a"
| "mra_step alloc t PopBackOp a = map_option (Pair False) (mra_pop_back t a)"
| "mra_step alloc t (ChopOp n) a = map_option (Pair False) (mra_chop t n a)"
| "mra_step alloc t ClearOp a = map_option (Pair False) (mra_clear t a)"
| "mra_step alloc t (ReserveOp n) a = mra_reserve alloc t n a"
| "mra_step alloc t (ResizeOp n v) a = map_option (Pair False) (mra_resize alloc t n v a)"

fun op_pre :: "'a mra_op \<Rightarrow> 'a list \<Rightarrow> bool" where
  "op_pre PopBackOp xs = (xs \<noteq> [])"
| "op_pre (ChopOp n) xs = (n < length xs)"
| "op_pre _ xs = True"

fun op_spec :: "'a mra_op \<Rightarrow> 'a list \<Rightarrow> 'a list" where
  "op_spec (PushBackOp x) xs = xs @ [x]"
| "op_spec PopBackOp xs = butlast xs"
| "op_spec (ChopOp n) xs = take n xs"
| "op_spec ClearOp xs = []"
| "op_spec (ReserveOp n) xs = xs"
| "op_spec (ResizeOp n v) xs = take n xs @ replicate (n - length xs) v"

fun op_size :: "'a mra_op \<Rightarrow> nat" where
  "op_size (ReserveOp n) = n"
| "op_size (ResizeOp n v) = n"
| "op_size _ = 0"

definition mra_outcome :: "(u64 \<Rightarrow> bool) \<Rightarrow> 'a mra_op \<Rightarrow> 'a mra \<Rightarrow> bool \<Rightarrow> 'a mra \<Rightarrow> bool" where
  "mra_outcome alloc p a r a' \<longleftrightarrow>
     \<not> r \<and> contents a' = op_spec p (contents a) \<or>
     contents a' = contents a \<and> (\<exists>k. \<not> alloc k) \<and> (r \<or> (\<exists>n v. p = ResizeOp n v))"

lemma resize_ok:
  assumes "mra_ok t a" and "mra_limit t a n"
  shows "\<exists>a'. mra_resize alloc t n v a = Some a' \<and> mra_ok t a' \<and> mra_outcome alloc (ResizeOp n v) a False a'"
proof -
  have len: "length (contents a) = m_size a" by (rule length_contents [OF assms(1)])
  consider "n = m_size a" | "m_size a < n" | "n < m_size a" by linarith
  then show ?thesis
  proof cases
    case 1
    then show ?thesis using assms(1) len by (simp add: mra_resize_def mra_outcome_def)
  next
    case 2
    have bound: "n * element_size t < 2 ^ 64" using mra_limitD [OF assms(2), of n] by simp
    obtain r b where b: "mra_reserve alloc t n a = Some (r, b)" "mra_ok t b" "contents b = contents a" "m_size b = m_size a"
      "r \<longrightarrow> (\<exists>k. \<not> alloc k)" "\<not> r \<longrightarrow> m_capacity b = max n (m_capacity a)"
      using reserve_keeps [OF assms(1) bound conjunct1 [OF assms(2)], of alloc] by blast
    show ?thesis
    proof (cases r)
      case True
      then show ?thesis using 2 b(1,2,3,5) by (simp add: mra_resize_def mra_outcome_def)
    next
      case False
      have small: "n \<le> m_capacity b" "m_size b \<le> n" using b(4,6) False 2 by simp_all
      obtain c where "resize_grow (n - m_size b) alloc t n v b = Some c" "mra_ok t c" "contents c = contents b @ replicate (n - m_size b) v"
        using resize_grow_ok [OF b(2) small(2,1) refl, of alloc v] by blast
      then show ?thesis using 2 b(1,3,4) False len by (simp add: mra_resize_def mra_outcome_def)
    qed
  next
    case 3
    then obtain b where b: "(if has_trivial_destructor t then Some a else resize_shrink (m_size a - n) t n a) = Some b"
      "mra_ok t b" "take n (contents b) = take n (contents a)" "n \<le> m_size b"
      using resize_shrink_ok [OF assms(1), of n "m_size a - n"] assms(1) by (cases "has_trivial_destructor t") auto
    have "m_size b = n \<or> has_trivial_destructor t"
      using b(1) 3 resize_shrink_ok [OF assms(1), of n "m_size a - n"] by (cases "has_trivial_destructor t") auto
    then have drop: "\<not> has_trivial_destructor t \<Longrightarrow> mset [] = mset (drop n (contents b))"
      using length_contents [OF b(2)] by auto
    have "mra_ok t (b\<lparr>m_array := m_array b, destroyed := destroyed b @ [], m_size := n\<rparr>) \<and>
        contents (b\<lparr>m_array := m_array b, destroyed := destroyed b @ [], m_size := n\<rparr>) = take n (contents b)"
      using b(2,4) drop by (intro shorten_ok) simp_all
    then show ?thesis using 3 b(1,3) len by (simp add: mra_resize_def mra_outcome_def)
  qed
qed

text \<open>
  Property C8: every operation on a \<open>Mem_root_array\<close> in a consistent state ends without a failed
  assertion or a bad access exactly when its precondition on the contents holds (\<open>pop_back\<close> needs
  an element, \<open>chop\<close> an index inside), provided sizes in bytes fit in 64 bits; it keeps the state
  consistent (so every element built is destroyed once or still present) and computes the
  operation on a sequence, or leaves the contents alone because the allocator refused. In that
  case \<open>push_back\<close> and \<open>reserve\<close> report it but \<open>resize\<close> does not.
\<close>

theorem mem_root_array_refines_vector:
  assumes "mra_ok t a" and "mra_limit t a (op_size p)"
  shows "(mra_step alloc t p a = None \<longleftrightarrow> \<not> op_pre p (contents a)) \<and>
    (\<forall>r a'. mra_step alloc t p a = Some (r, a') \<longrightarrow> mra_ok t a' \<and> mra_outcome alloc p a r a')"
proof (cases p)
  case (PushBackOp x)
  then show ?thesis using push_back_ok [OF assms, of alloc x] by (auto simp: mra_outcome_def split: if_splits)
next
  case PopBackOp
  then show ?thesis using pop_back_ok [OF assms(1)] length_contents [OF assms(1)]
    by (cases "m_size a = 0") (auto simp: mra_outcome_def mra_pop_back_def mra_empty_def)
next
  case (ChopOp n)
  then show ?thesis using chop_ok [OF assms(1), of n] length_contents [OF assms(1)]
    by (cases "n < m_size a") (auto simp: mra_outcome_def mra_chop_def)
next
  case ClearOp
  then show ?thesis using chop_ok [OF assms(1), of 0] length_contents [OF assms(1)] assms(1)
    by (cases "m_size a = 0") (auto simp: mra_outcome_def mra_clear_def mra_empty_def)
next
  case (ReserveOp n)
  have bound: "n * element_size t < 2 ^ 64" using mra_limitD [OF assms(2), of n] ReserveOp by simp
  show ?thesis using reserve_keeps [OF assms(1) bound conjunct1 [OF assms(2)], of alloc] ReserveOp by (auto simp: mra_outcome_def)
next
  case (ResizeOp n v)
  then show ?thesis using resize_ok [OF assms(1), of n alloc v] assms(2) by auto
qed

theorem mem_root_array_refines_vector_witness:
  "\<exists>r a'. mra_step (\<lambda>k. True) \<lparr>element_size = 8, has_trivial_destructor = False\<rparr> (ResizeOp 3 (7::nat)) Mem_root_array1 = Some (r, a') \<and>
     contents a' = [7, 7, 7]"
proof -
  let ?t = "\<lparr>element_size = 8, has_trivial_destructor = False\<rparr>"
  have lim: "mra_limit ?t (Mem_root_array1 :: nat mra) (op_size (ResizeOp 3 (7::nat)))" by (simp add: Mem_root_array1_def)
  note step = mem_root_array_refines_vector [OF mra_ok_init lim, of "\<lambda>k. True"]
  then obtain r a' where "mra_step (\<lambda>k. True) ?t (ResizeOp 3 (7::nat)) Mem_root_array1 = Some (r, a')" by fastforce
  moreover from this step have "contents a' = [7, 7, 7]"
    by (auto simp: mra_outcome_def Mem_root_array1_def contents_def numeral_3_eq_3)
  ultimately show ?thesis by blast
qed

text \<open>
  No element is leaked or destroyed twice. When an array whose elements have a
  destructor is itself destroyed, the destructor calls over its life are exactly the constructor
  calls.
\<close>

theorem mem_root_array_no_leak:
  assumes "mra_ok t a" and "\<not> has_trivial_destructor t"
  shows "\<exists>a'. mra_delete t a = Some a' \<and> mset (destroyed a') = mset (built a') \<and> contents a' = []"
proof -
  have "\<exists>a'. mra_clear t a = Some a' \<and> mra_ok t a' \<and> contents a' = []"
    using chop_ok [OF assms(1), of 0] length_contents [OF assms(1)] assms(1)
    by (cases "m_size a = 0") (auto simp: mra_clear_def mra_empty_def)
  then show ?thesis using assms(2) by (auto simp: mra_delete_def mra_ok_def)
qed

theorem mem_root_array_no_leak_witness:
  "\<exists>a'. mra_delete \<lparr>element_size = 8, has_trivial_destructor = False\<rparr> (Mem_root_array1 :: nat mra) = Some a' \<and>
     mset (destroyed a') = mset (built a') \<and> contents a' = []"
  by (rule mem_root_array_no_leak [OF mra_ok_init]) simp

section \<open>\<open>Bounds_checked_array\<close>\<close>

text \<open>A pointer into an array of the caller, here the index of its first element, and a length.\<close>

record bca =
  bca_array :: "nat option"
  bca_size :: nat

definition Bounds_checked_array0 :: bca where
  "Bounds_checked_array0 = \<lparr>bca_array = None, bca_size = 0\<rparr>"

definition Bounds_checked_array2 :: "nat option \<Rightarrow> nat \<Rightarrow> bca" where
  "Bounds_checked_array2 el sz = \<lparr>bca_array = el, bca_size = sz\<rparr>"

definition bca_reset :: "nat option \<Rightarrow> nat \<Rightarrow> bca \<Rightarrow> bca" where
  "bca_reset el sz b = b\<lparr>bca_array := el, bca_size := sz\<rparr>"

definition bca_resize :: "nat \<Rightarrow> bca \<Rightarrow> bca option" where
  "bca_resize new_size b = (if new_size \<le> bca_size b then Some (b\<lparr>bca_size := new_size\<rparr>) else None)"

text \<open>\<open>operator[]\<close>: the index of the element in the underlying array.\<close>

definition bca_index :: "nat \<Rightarrow> bca \<Rightarrow> nat option" where
  "bca_index n b = (if n < bca_size b then map_option (\<lambda>p. p + n) (bca_array b) else None)"

definition bca_pop_front :: "bca \<Rightarrow> bca option" where
  "bca_pop_front b =
     (if 0 < bca_size b then Some (b\<lparr>bca_array := map_option Suc (bca_array b), bca_size := bca_size b - 1\<rparr>) else None)"

definition bca_eq :: "bca \<Rightarrow> bca \<Rightarrow> bool" where
  "bca_eq b c \<longleftrightarrow> bca_array b = bca_array c \<and> bca_size b = bca_size c"

definition bca_end :: "bca \<Rightarrow> nat option" where
  "bca_end b = map_option (\<lambda>p. p + bca_size b) (bca_array b)"

definition bca_is_null :: "bca \<Rightarrow> bool" where
  "bca_is_null b \<longleftrightarrow> bca_array b = None"

text \<open>The elements a bounded array denotes in the underlying array, and how the operations act on them.\<close>

definition bca_view :: "'a list \<Rightarrow> bca \<Rightarrow> 'a list" where
  "bca_view xs b = (case bca_array b of None \<Rightarrow> [] | Some p \<Rightarrow> take (bca_size b) (drop p xs))"

lemma bca_operations:
  assumes "bca_array b = Some p" and "p + bca_size b \<le> length xs"
  shows "bca_index n b = Some k \<Longrightarrow> k < length xs \<and> xs ! k = bca_view xs b ! n"
    and "bca_resize n b = Some b' \<Longrightarrow> bca_view xs b' = take n (bca_view xs b)"
    and "bca_pop_front b = Some b' \<Longrightarrow> bca_view xs b' = tl (bca_view xs b) \<and> bca_end b' = bca_end b"
proof -
  show "bca_index n b = Some k \<Longrightarrow> k < length xs \<and> xs ! k = bca_view xs b ! n"
    using assms by (auto simp: bca_index_def bca_view_def split: if_splits)
  show "bca_resize n b = Some b' \<Longrightarrow> bca_view xs b' = take n (bca_view xs b)"
    using assms by (auto simp: bca_resize_def bca_view_def min_def split: if_splits)
  show "bca_pop_front b = Some b' \<Longrightarrow> bca_view xs b' = tl (bca_view xs b) \<and> bca_end b' = bca_end b"
    using assms by (auto simp: bca_pop_front_def bca_view_def bca_end_def drop_Suc tl_take tl_drop split: if_splits)
qed

end
