(* ===== verification/LifoBuffer.thy ===== *)
theory LifoBuffer
  imports Prelude
begin

text \<open>
  The LIFO buffers of \<open>sql_lifo_buffer.h\<close>: fixed-size elements (one or two byte strings) stacked
  in memory the user provides, growing up (\<open>Forward_lifo_buffer\<close>) or down
  (\<open>Backward_lifo_buffer\<close>), and the iterator over them. The virtual functions of \<open>Lifo_buffer\<close> are
  functions of the direction. An assertion that fails is \<open>None\<close>. \<open>my_qsort2\<close>, which is not part
  of the sources, is a parameter of \<open>lifo_sort\<close>; the scribbling of \<open>TRASH_ALLOC\<close>, a parameter
  \<open>trash\<close> of the operations that call it.
\<close>

section \<open>The buffers\<close>

datatype enum_direction = BACKWARD | FORWARD

record lifo_buffer =
  lifo_size1 :: nat
  lifo_size2 :: nat
  write_ptr1 :: nat
  write_ptr2 :: nat
  read_ptr1 :: nat
  read_ptr2 :: nat
  lifo_start :: nat
  lifo_end :: nat
  lifo_pos :: nat

definition setup_writing :: "nat \<Rightarrow> nat \<Rightarrow> lifo_buffer \<Rightarrow> lifo_buffer" where
  "setup_writing len1 len2 b = b\<lparr>lifo_size1 := len1, lifo_size2 := len2\<rparr>"

definition setup_reading :: "nat \<Rightarrow> nat \<Rightarrow> lifo_buffer \<Rightarrow> lifo_buffer option" where
  "setup_reading len1 len2 b = (if len1 = lifo_size1 b \<and> len2 = lifo_size2 b then Some b else None)"

subsection \<open>\<open>Forward_lifo_buffer\<close>\<close>

definition fw_used_size :: "lifo_buffer \<Rightarrow> nat" where
  "fw_used_size b = lifo_pos b - lifo_start b"

definition fw_reset :: "lifo_buffer \<Rightarrow> lifo_buffer" where
  "fw_reset b = b\<lparr>lifo_pos := lifo_start b\<rparr>"

definition fw_end_of_space :: "lifo_buffer \<Rightarrow> nat" where
  "fw_end_of_space b = lifo_pos b"

definition fw_have_space_for :: "nat \<Rightarrow> lifo_buffer \<Rightarrow> bool" where
  "fw_have_space_for bytes b \<longleftrightarrow> lifo_pos b + bytes < lifo_end b"

definition fw_write_bytes :: "nat \<Rightarrow> nat \<Rightarrow> mem \<times> lifo_buffer \<Rightarrow> (mem \<times> lifo_buffer) option" where
  "fw_write_bytes data bytes = (\<lambda>(m, b).
     if fw_have_space_for bytes b
     then Some (memcpy m (lifo_pos b) data bytes, b\<lparr>lifo_pos := lifo_pos b + bytes\<rparr>) else None)"

definition fw_write :: "mem \<times> lifo_buffer \<Rightarrow> (mem \<times> lifo_buffer) option" where
  "fw_write mb =
     (case fw_write_bytes (write_ptr1 (snd mb)) (lifo_size1 (snd mb)) mb of
        None \<Rightarrow> None
      | Some mb' \<Rightarrow> if lifo_size2 (snd mb) \<noteq> 0 then fw_write_bytes (write_ptr2 (snd mb)) (lifo_size2 (snd mb)) mb' else Some mb')"

definition fw_have_data :: "nat \<Rightarrow> nat \<Rightarrow> lifo_buffer \<Rightarrow> bool" where
  "fw_have_data position bytes b \<longleftrightarrow> int position - int (lifo_start b) \<ge> int bytes"

text \<open>\<open>read_bytes\<close>: the new position and the pointer returned.\<close>

definition fw_read_bytes :: "nat \<Rightarrow> nat \<Rightarrow> lifo_buffer \<Rightarrow> (nat \<times> nat) option" where
  "fw_read_bytes position bytes b =
     (if fw_have_data position bytes b then Some (position - bytes, position - bytes) else None)"

text \<open>
  \<open>read\<close> with the position and the two pointers it updates: true at the end of the data.
\<close>

type_synonym cursor = "nat \<times> nat \<times> nat"

definition fw_read_at :: "lifo_buffer \<Rightarrow> cursor \<Rightarrow> (bool \<times> cursor) option" where
  "fw_read_at b = (\<lambda>(position, ptr1, ptr2).
     if \<not> fw_have_data position (lifo_size1 b + lifo_size2 b) b then Some (True, (position, ptr1, ptr2))
     else case (if lifo_size2 b \<noteq> 0 then fw_read_bytes position (lifo_size2 b) b else Some (position, ptr2)) of
            None \<Rightarrow> None
          | Some (position, ptr2) \<Rightarrow>
              (case fw_read_bytes position (lifo_size1 b) b of
                 None \<Rightarrow> None
               | Some (position, ptr1) \<Rightarrow> Some (False, (position, ptr1, ptr2))))"

definition fw_grow :: "(nat \<Rightarrow> nat \<Rightarrow> mem \<Rightarrow> mem) \<Rightarrow> nat \<Rightarrow> nat \<Rightarrow> mem \<times> lifo_buffer \<Rightarrow> (mem \<times> lifo_buffer) option" where
  "fw_grow trash unused_start unused_end = (\<lambda>(m, b).
     if unused_start \<le> unused_end \<and> lifo_end b = unused_start
     then Some (trash unused_start (unused_end - unused_start) m, b\<lparr>lifo_end := unused_end\<rparr>) else None)"

definition fw_used_area :: "lifo_buffer \<Rightarrow> nat" where
  "fw_used_area b = lifo_start b"

subsection \<open>\<open>Backward_lifo_buffer\<close>\<close>

definition bw_used_size :: "lifo_buffer \<Rightarrow> nat" where
  "bw_used_size b = lifo_end b - lifo_pos b"

definition bw_reset :: "lifo_buffer \<Rightarrow> lifo_buffer" where
  "bw_reset b = b\<lparr>lifo_pos := lifo_end b\<rparr>"

definition bw_end_of_space :: "lifo_buffer \<Rightarrow> nat" where
  "bw_end_of_space b = lifo_end b"

definition bw_have_space_for :: "nat \<Rightarrow> lifo_buffer \<Rightarrow> bool" where
  "bw_have_space_for bytes b \<longleftrightarrow> int (lifo_pos b) - int bytes \<ge> int (lifo_start b)"

definition bw_write_bytes :: "nat \<Rightarrow> nat \<Rightarrow> mem \<times> lifo_buffer \<Rightarrow> (mem \<times> lifo_buffer) option" where
  "bw_write_bytes data bytes = (\<lambda>(m, b).
     if bw_have_space_for bytes b
     then Some (memcpy m (lifo_pos b - bytes) data bytes, b\<lparr>lifo_pos := lifo_pos b - bytes\<rparr>) else None)"

definition bw_write :: "mem \<times> lifo_buffer \<Rightarrow> (mem \<times> lifo_buffer) option" where
  "bw_write mb =
     (case (if write_ptr2 (snd mb) \<noteq> 0 then bw_write_bytes (write_ptr2 (snd mb)) (lifo_size2 (snd mb)) mb else Some mb) of
        None \<Rightarrow> None
      | Some mb' \<Rightarrow> bw_write_bytes (write_ptr1 (snd mb)) (lifo_size1 (snd mb)) mb')"

definition bw_have_data :: "nat \<Rightarrow> nat \<Rightarrow> lifo_buffer \<Rightarrow> bool" where
  "bw_have_data position bytes b \<longleftrightarrow> int (lifo_end b) - int position \<ge> int bytes"

definition bw_read_bytes :: "nat \<Rightarrow> nat \<Rightarrow> lifo_buffer \<Rightarrow> (nat \<times> nat) option" where
  "bw_read_bytes position bytes b = (if bw_have_data position bytes b then Some (position + bytes, position) else None)"

definition bw_read_at :: "lifo_buffer \<Rightarrow> cursor \<Rightarrow> (bool \<times> cursor) option" where
  "bw_read_at b = (\<lambda>(position, ptr1, ptr2).
     if \<not> bw_have_data position (lifo_size1 b + lifo_size2 b) b then Some (True, (position, ptr1, ptr2))
     else case bw_read_bytes position (lifo_size1 b) b of
            None \<Rightarrow> None
          | Some (position, ptr1) \<Rightarrow>
              (case (if lifo_size2 b \<noteq> 0 then bw_read_bytes position (lifo_size2 b) b else Some (position, ptr2)) of
                 None \<Rightarrow> None
               | Some (position, ptr2) \<Rightarrow> Some (False, (position, ptr1, ptr2))))"

text \<open>The unused space (its start and end) and the buffer without it.\<close>

definition bw_remove_unused_space :: "lifo_buffer \<Rightarrow> (nat \<times> nat) \<times> lifo_buffer" where
  "bw_remove_unused_space b = ((lifo_start b, lifo_pos b), b\<lparr>lifo_start := lifo_pos b\<rparr>)"

definition bw_used_area :: "lifo_buffer \<Rightarrow> nat" where
  "bw_used_area b = lifo_pos b"

subsection \<open>\<open>Lifo_buffer\<close>\<close>

fun lifo_reset :: "enum_direction \<Rightarrow> lifo_buffer \<Rightarrow> lifo_buffer" where
  "lifo_reset FORWARD = fw_reset"
| "lifo_reset BACKWARD = bw_reset"

fun used_size :: "enum_direction \<Rightarrow> lifo_buffer \<Rightarrow> nat" where
  "used_size FORWARD = fw_used_size"
| "used_size BACKWARD = bw_used_size"

fun used_area :: "enum_direction \<Rightarrow> lifo_buffer \<Rightarrow> nat" where
  "used_area FORWARD = fw_used_area"
| "used_area BACKWARD = bw_used_area"

fun have_space_for :: "enum_direction \<Rightarrow> nat \<Rightarrow> lifo_buffer \<Rightarrow> bool" where
  "have_space_for FORWARD = fw_have_space_for"
| "have_space_for BACKWARD = bw_have_space_for"

fun lifo_write :: "enum_direction \<Rightarrow> mem \<times> lifo_buffer \<Rightarrow> (mem \<times> lifo_buffer) option" where
  "lifo_write FORWARD = fw_write"
| "lifo_write BACKWARD = bw_write"

fun lifo_read_at :: "enum_direction \<Rightarrow> lifo_buffer \<Rightarrow> cursor \<Rightarrow> (bool \<times> cursor) option" where
  "lifo_read_at FORWARD = fw_read_at"
| "lifo_read_at BACKWARD = bw_read_at"

definition get_pos :: "lifo_buffer \<Rightarrow> nat" where
  "get_pos b = lifo_pos b"

definition lifo_read :: "enum_direction \<Rightarrow> lifo_buffer \<Rightarrow> (bool \<times> lifo_buffer) option" where
  "lifo_read d b =
     (case lifo_read_at d b (lifo_pos b, read_ptr1 b, read_ptr2 b) of
        None \<Rightarrow> None
      | Some (eof, p, ptr1, ptr2) \<Rightarrow> Some (eof, b\<lparr>lifo_pos := p, read_ptr1 := ptr1, read_ptr2 := ptr2\<rparr>))"

definition can_write :: "enum_direction \<Rightarrow> lifo_buffer \<Rightarrow> bool" where
  "can_write d b = have_space_for d (lifo_size1 b + lifo_size2 b) b"

definition lifo_is_empty :: "enum_direction \<Rightarrow> lifo_buffer \<Rightarrow> bool" where
  "lifo_is_empty d b \<longleftrightarrow> used_size d b = 0"

definition set_buffer_space ::
    "(nat \<Rightarrow> nat \<Rightarrow> mem \<Rightarrow> mem) \<Rightarrow> enum_direction \<Rightarrow> nat \<Rightarrow> nat \<Rightarrow> mem \<times> lifo_buffer \<Rightarrow> mem \<times> lifo_buffer" where
  "set_buffer_space trash d start_arg end_arg = (\<lambda>(m, b).
     (if end_arg \<noteq> start_arg then trash start_arg (end_arg - start_arg) m else m,
      lifo_reset d (b\<lparr>lifo_start := start_arg, lifo_end := end_arg\<rparr>)))"

definition lifo_sort :: "(nat \<Rightarrow> nat \<Rightarrow> nat \<Rightarrow> mem \<Rightarrow> mem) \<Rightarrow> enum_direction \<Rightarrow> mem \<times> lifo_buffer \<Rightarrow> mem \<times> lifo_buffer" where
  "lifo_sort my_qsort2 d = (\<lambda>(m, b).
     let elem_size = lifo_size1 b + lifo_size2 b; n_elements = used_size d b div elem_size
     in (my_qsort2 (used_area d b) n_elements elem_size m, b))"

subsection \<open>\<open>Lifo_buffer_iterator\<close>\<close>

record lifo_iterator =
  it_pos :: nat
  it_ptr1 :: nat
  it_ptr2 :: nat

definition lifo_it_init :: "lifo_buffer \<Rightarrow> lifo_iterator \<Rightarrow> lifo_iterator" where
  "lifo_it_init b it = it\<lparr>it_pos := get_pos b\<rparr>"

definition lifo_it_read :: "enum_direction \<Rightarrow> lifo_buffer \<Rightarrow> lifo_iterator \<Rightarrow> (bool \<times> lifo_iterator) option" where
  "lifo_it_read d b it =
     (case lifo_read_at d b (it_pos it, it_ptr1 it, it_ptr2 it) of
        None \<Rightarrow> None
      | Some (eof, p, ptr1, ptr2) \<Rightarrow> Some (eof, \<lparr>it_pos = p, it_ptr1 = ptr1, it_ptr2 = ptr2\<rparr>))"

lemmas fw_defs = fw_used_size_def fw_reset_def fw_have_space_for_def fw_write_bytes_def fw_write_def
  fw_have_data_def fw_read_bytes_def fw_read_at_def
lemmas bw_defs = bw_used_size_def bw_reset_def bw_have_space_for_def bw_write_bytes_def bw_write_def
  bw_have_data_def bw_read_bytes_def bw_read_at_def

end
