(* ===== verification/LifoStack.thy ===== *)
theory LifoStack
  imports LifoBuffer
begin

text \<open>
  The LIFO buffers implement a stack. The contract is a locale in two parts, for readers (a
  buffer or an iterator) and for buffers that are written; both directions and the iterator are
  interpretations of it. The consequences: what is written is read back in reverse order, up to
  the capacity of the space, and two adjacent buffers can hand over unused space without
  disturbing each other.
\<close>

section \<open>The contract\<close>

fun read_all :: "('h \<Rightarrow> (bool \<times> 'h) option) \<Rightarrow> ('h \<Rightarrow> 'd) \<Rightarrow> nat \<Rightarrow> 'h \<Rightarrow> 'd list option" where
  "read_all get got 0 h = None"
| "read_all get got (Suc fuel) h =
     (case get h of
        None \<Rightarrow> None
      | Some (True, h') \<Rightarrow> Some []
      | Some (False, h') \<Rightarrow> map_option ((#) (got h')) (read_all get got fuel h'))"

fun put_all :: "('a \<Rightarrow> 'h \<Rightarrow> 'h option) \<Rightarrow> ('h \<Rightarrow> bool) \<Rightarrow> 'a list \<Rightarrow> 'h \<Rightarrow> 'h option" where
  "put_all put room [] h = Some h"
| "put_all put room (a # as) h =
     (if room h then (case put a h of None \<Rightarrow> None | Some h' \<Rightarrow> put_all put room as h') else None)"

locale lifo_reader =
  fixes rep :: "'h \<Rightarrow> 'd list \<Rightarrow> bool" and get :: "'h \<Rightarrow> (bool \<times> 'h) option" and got :: "'h \<Rightarrow> 'd"
  assumes get_Cons: "rep h (x # xs) \<Longrightarrow> \<exists>h'. get h = Some (False, h') \<and> got h' = x \<and> rep h' xs"
    and get_Nil: "rep h [] \<Longrightarrow> \<exists>h'. get h = Some (True, h')"
begin

lemma drains: "rep h xs \<Longrightarrow> length xs < fuel \<Longrightarrow> read_all get got fuel h = Some xs"
proof (induction xs arbitrary: h fuel)
  case Nil
  then obtain n where "fuel = Suc n" by (cases fuel) auto
  with get_Nil [OF Nil.prems(1)] show ?case by auto
next
  case (Cons x xs)
  then obtain n where n: "fuel = Suc n" by (cases fuel) auto
  with get_Cons [OF Cons.prems(1)] Cons show ?case by auto
qed

end

locale lifo_store = lifo_reader rep get got
  for rep :: "'h \<Rightarrow> 'd list \<Rightarrow> bool" and get :: "'h \<Rightarrow> (bool \<times> 'h) option" and got :: "'h \<Rightarrow> 'd" +
  fixes put :: "'a \<Rightarrow> 'h \<Rightarrow> 'h option" and room :: "'h \<Rightarrow> bool" and cap :: "'h \<Rightarrow> nat"
    and src :: "'h \<Rightarrow> 'a \<Rightarrow> bool" and item :: "'h \<Rightarrow> 'a \<Rightarrow> 'd"
  assumes room_cap: "rep h xs \<Longrightarrow> room h \<longleftrightarrow> 0 < cap h"
    and put: "rep h xs \<Longrightarrow> room h \<Longrightarrow> src h a \<Longrightarrow>
      \<exists>h'. put a h = Some h' \<and> rep h' (item h a # xs) \<and> cap h' = cap h - 1 \<and>
        (\<forall>a'. src h a' \<longrightarrow> src h' a' \<and> item h' a' = item h a')"
begin

lemma put_all_stacks:
  "rep h xs \<Longrightarrow> length as \<le> cap h \<Longrightarrow> (\<And>a. a \<in> set as \<Longrightarrow> src h a) \<Longrightarrow>
     \<exists>h'. put_all put room as h = Some h' \<and> rep h' (rev (map (item h) as) @ xs)"
proof (induction as arbitrary: h xs)
  case (Cons a as)
  have room: "room h" using room_cap [OF Cons.prems(1)] Cons.prems(2) by simp
  obtain h' where h': "put a h = Some h'" "rep h' (item h a # xs)" "cap h' = cap h - 1"
    "\<And>a'. src h a' \<Longrightarrow> src h' a' \<and> item h' a' = item h a'"
    using put [OF Cons.prems(1) room, of a] Cons.prems(3) by auto
  have len: "length as \<le> cap h'" using Cons.prems(2) h'(3) by simp
  have "\<exists>h2. put_all put room as h' = Some h2 \<and> rep h2 (rev (map (item h') as) @ item h a # xs)"
    using Cons.IH [OF h'(2) len] h'(4) Cons.prems(3) by simp
  moreover have "map (item h') as = map (item h) as" using h'(4) Cons.prems(3) by simp
  ultimately show ?case using room h'(1) by simp
qed simp

lemma last_in_first_out:
  assumes "rep h []" and "length as \<le> cap h" and "\<And>a. a \<in> set as \<Longrightarrow> src h a"
  shows "\<exists>h'. put_all put room as h = Some h' \<and> read_all get got (Suc (length as)) h' = Some (rev (map (item h) as))"
proof -
  obtain h' where "put_all put room as h = Some h'" "rep h' (rev (map (item h) as) @ [])"
    using put_all_stacks [OF assms] by auto
  then show ?thesis using drains [of h' "rev (map (item h) as)" "Suc (length as)"] by auto
qed

end

section \<open>The stack a buffer holds\<close>

type_synonym element = "u8 list \<times> u8 list"

abbreviation elem_bytes :: "element \<Rightarrow> u8 list" where
  "elem_bytes \<equiv> \<lambda>(d1, d2). d1 @ d2"

abbreviation elem_size :: "lifo_buffer \<Rightarrow> nat" where
  "elem_size b \<equiv> lifo_size1 b + lifo_size2 b"

definition elem_sized :: "lifo_buffer \<Rightarrow> element \<Rightarrow> bool" where
  "elem_sized b = (\<lambda>(d1, d2). length d1 = lifo_size1 b \<and> length d2 = lifo_size2 b)"

lemma concat_sized: "list_all (elem_sized b) xs \<Longrightarrow> length (concat (map elem_bytes xs)) = length xs * elem_size b"
  by (induction xs) (auto simp: elem_sized_def)

text \<open>The elements in a buffer, last written first.\<close>

fun lifo_holds :: "enum_direction \<Rightarrow> mem \<times> lifo_buffer \<Rightarrow> element list \<Rightarrow> bool" where
  "lifo_holds FORWARD (m, b) xs \<longleftrightarrow>
     0 < elem_size b \<and> list_all (elem_sized b) xs \<and> lifo_pos b \<le> lifo_end b \<and>
     lifo_pos b = lifo_start b + length xs * elem_size b \<and>
     bytes_at m (lifo_start b) (length xs * elem_size b) = concat (map elem_bytes (rev xs))"
| "lifo_holds BACKWARD (m, b) xs \<longleftrightarrow>
     0 < elem_size b \<and> list_all (elem_sized b) xs \<and> lifo_start b \<le> lifo_pos b \<and>
     lifo_end b = lifo_pos b + length xs * elem_size b \<and>
     bytes_at m (lifo_pos b) (length xs * elem_size b) = concat (map elem_bytes xs)"

text \<open>What the write pointers and the read pointers refer to.\<close>

definition element_at :: "mem \<Rightarrow> lifo_buffer \<Rightarrow> nat \<times> nat \<Rightarrow> element" where
  "element_at m b = (\<lambda>(p1, p2). (bytes_at m p1 (lifo_size1 b), if lifo_size2 b \<noteq> 0 then bytes_at m p2 (lifo_size2 b) else []))"

definition written :: "mem \<times> lifo_buffer \<Rightarrow> nat \<times> nat \<Rightarrow> element" where
  "written = (\<lambda>(m, b) p. element_at m b p)"

definition read_data :: "mem \<times> lifo_buffer \<Rightarrow> element" where
  "read_data = (\<lambda>(m, b). element_at m b (read_ptr1 b, read_ptr2 b))"

text \<open>Source data lies outside the space of the buffer, and the second pointer is set exactly for pairs.\<close>

definition source_ok :: "mem \<times> lifo_buffer \<Rightarrow> nat \<times> nat \<Rightarrow> bool" where
  "source_ok = (\<lambda>(m, b) (p1, p2).
     (p1 + lifo_size1 b \<le> lifo_start b \<or> lifo_end b \<le> p1) \<and> (p2 + lifo_size2 b \<le> lifo_start b \<or> lifo_end b \<le> p2) \<and>
     (lifo_size2 b \<noteq> 0 \<longleftrightarrow> p2 \<noteq> 0))"

definition put_element :: "enum_direction \<Rightarrow> nat \<times> nat \<Rightarrow> mem \<times> lifo_buffer \<Rightarrow> (mem \<times> lifo_buffer) option" where
  "put_element d = (\<lambda>(p1, p2) (m, b). lifo_write d (m, b\<lparr>write_ptr1 := p1, write_ptr2 := p2\<rparr>))"

definition get_element :: "enum_direction \<Rightarrow> mem \<times> lifo_buffer \<Rightarrow> (bool \<times> mem \<times> lifo_buffer) option" where
  "get_element d = (\<lambda>(m, b). case lifo_read d b of None \<Rightarrow> None | Some (eof, b') \<Rightarrow> Some (eof, m, b'))"

fun capacity :: "enum_direction \<Rightarrow> mem \<times> lifo_buffer \<Rightarrow> nat" where
  "capacity FORWARD (m, b) = (lifo_end b - lifo_pos b - 1) div elem_size b"
| "capacity BACKWARD (m, b) = (lifo_pos b - lifo_start b) div elem_size b"

lemma holds_Nil: "lifo_holds d (m, b) [] \<Longrightarrow> lifo_read_at d b (lifo_pos b, p1, p2) = Some (True, lifo_pos b, p1, p2)"
  by (cases d) (auto simp: fw_defs bw_defs)

lemma holds_FORWARD_Cons:
  assumes "lifo_holds FORWARD (m, b) ((d1, d2) # xs)"
  shows "lifo_holds FORWARD (m, b\<lparr>lifo_pos := lifo_pos b - elem_size b\<rparr>) xs \<and>
    bytes_at m (lifo_pos b - elem_size b) (lifo_size1 b) = d1 \<and> bytes_at m (lifo_pos b - lifo_size2 b) (lifo_size2 b) = d2"
proof -
  let ?n = "length xs * elem_size b"
  have len: "length d1 = lifo_size1 b" "length d2 = lifo_size2 b" and pos: "lifo_pos b = lifo_start b + ?n + elem_size b"
    using assms by (auto simp: elem_sized_def)
  have body: "length (concat (map elem_bytes (rev xs))) = ?n" using concat_sized [of b "rev xs"] assms by simp
  have n: "length ((d1, d2) # xs) * elem_size b = ?n + (lifo_size1 b + lifo_size2 b)" by simp
  have "bytes_at m (lifo_start b) (length ((d1, d2) # xs) * elem_size b) = concat (map elem_bytes (rev ((d1, d2) # xs)))"
    using assms by (simp only: lifo_holds.simps)
  then have "bytes_at m (lifo_start b) (?n + (lifo_size1 b + lifo_size2 b)) = concat (map elem_bytes (rev xs)) @ d1 @ d2"
    unfolding n by simp
  then have "bytes_at m (lifo_start b) ?n @ bytes_at m (lifo_start b + ?n) (lifo_size1 b) @ bytes_at m (lifo_start b + ?n + lifo_size1 b) (lifo_size2 b) =
      concat (map elem_bytes (rev xs)) @ d1 @ d2"
    unfolding bytes_add3 .
  then have "bytes_at m (lifo_start b) ?n = concat (map elem_bytes (rev xs))" "bytes_at m (lifo_start b + ?n) (lifo_size1 b) = d1"
    "bytes_at m (lifo_start b + ?n + lifo_size1 b) (lifo_size2 b) = d2"
    using body len by (auto simp: append_eq_append_conv)
  then show ?thesis using assms pos by (auto simp: elem_sized_def add.assoc)
qed

lemma holds_BACKWARD_Cons:
  assumes "lifo_holds BACKWARD (m, b) ((d1, d2) # xs)"
  shows "lifo_holds BACKWARD (m, b\<lparr>lifo_pos := lifo_pos b + elem_size b\<rparr>) xs \<and>
    bytes_at m (lifo_pos b) (lifo_size1 b) = d1 \<and> bytes_at m (lifo_pos b + lifo_size1 b) (lifo_size2 b) = d2"
proof -
  let ?n = "length xs * elem_size b"
  have len: "length d1 = lifo_size1 b" "length d2 = lifo_size2 b" using assms by (auto simp: elem_sized_def)
  have "bytes_at m (lifo_pos b) (lifo_size1 b) @ bytes_at m (lifo_pos b + lifo_size1 b) (lifo_size2 b) @
      bytes_at m (lifo_pos b + lifo_size1 b + lifo_size2 b) ?n = d1 @ d2 @ concat (map elem_bytes xs)"
    using assms bytes_add3 [of m "lifo_pos b" "lifo_size1 b" "lifo_size2 b" ?n] by (simp add: add.assoc)
  then have "bytes_at m (lifo_pos b) (lifo_size1 b) = d1" "bytes_at m (lifo_pos b + lifo_size1 b) (lifo_size2 b) = d2"
    "bytes_at m (lifo_pos b + lifo_size1 b + lifo_size2 b) ?n = concat (map elem_bytes xs)"
    using len by (auto simp: append_eq_append_conv)
  then show ?thesis using assms by (auto simp: elem_sized_def add.assoc)
qed

lemma holds_ptrs [simp]:
  "lifo_holds d (m, b\<lparr>read_ptr1 := p\<rparr>) xs = lifo_holds d (m, b) xs" "lifo_holds d (m, b\<lparr>read_ptr2 := p\<rparr>) xs = lifo_holds d (m, b) xs"
  "lifo_holds d (m, b\<lparr>write_ptr1 := p\<rparr>) xs = lifo_holds d (m, b) xs" "lifo_holds d (m, b\<lparr>write_ptr2 := p\<rparr>) xs = lifo_holds d (m, b) xs"
  by (cases d; simp add: elem_sized_def)+

lemma holds_read:
  assumes "lifo_holds d (m, b) (x # xs)"
  shows "\<exists>pos p1 p2. lifo_read_at d b (lifo_pos b, q1, q2) = Some (False, pos, p1, p2) \<and>
    lifo_holds d (m, b\<lparr>lifo_pos := pos\<rparr>) xs \<and> element_at m b (p1, p2) = x"
proof (cases d)
  case FORWARD
  obtain d1 d2 where x: "x = (d1, d2)" by (cases x)
  have h: "lifo_holds FORWARD (m, b) ((d1, d2) # xs)" using assms FORWARD x by simp
  have sz: "lifo_start b + elem_size b \<le> lifo_pos b" "lifo_size2 b = 0 \<Longrightarrow> d2 = []" using h by (auto simp: elem_sized_def)
  have eq: "lifo_pos b - elem_size b = lifo_pos b - lifo_size2 b - lifo_size1 b" by simp
  show ?thesis using holds_FORWARD_Cons [OF h] sz unfolding FORWARD x eq
    by (cases "lifo_size2 b = 0") (auto simp: fw_defs element_at_def)
next
  case BACKWARD
  obtain d1 d2 where x: "x = (d1, d2)" by (cases x)
  have h: "lifo_holds BACKWARD (m, b) ((d1, d2) # xs)" using assms BACKWARD x by simp
  have sz: "lifo_pos b + elem_size b \<le> lifo_end b" "lifo_size2 b = 0 \<Longrightarrow> d2 = []" using h by (auto simp: elem_sized_def)
  show ?thesis using holds_BACKWARD_Cons [OF h] sz unfolding BACKWARD x
    by (cases "lifo_size2 b = 0") (auto simp: bw_defs element_at_def add.assoc)
qed

lemma element_at_sizes [simp]:
  "element_at m (b\<lparr>lifo_pos := p\<rparr>) = element_at m b" "element_at m (b\<lparr>read_ptr1 := p\<rparr>) = element_at m b"
  "element_at m (b\<lparr>read_ptr2 := p\<rparr>) = element_at m b" "element_at m (b\<lparr>write_ptr1 := p\<rparr>) = element_at m b"
  "element_at m (b\<lparr>write_ptr2 := p\<rparr>) = element_at m b"
  by (simp_all add: element_at_def cong: if_cong)

lemma lifo_read_at_pos: "lifo_read_at d (b\<lparr>lifo_pos := p\<rparr>) c = lifo_read_at d b c"
  by (cases d; cases c) (simp_all add: fw_defs bw_defs cong: if_cong option.case_cong)

interpretation rd: lifo_reader "lifo_holds d" "get_element d" read_data for d
proof
  fix h x xs assume h: "lifo_holds d h (x # xs)"
  obtain m b where mb: "h = (m, b)" by (cases h)
  obtain pos p1 p2 where r: "lifo_read_at d b (lifo_pos b, read_ptr1 b, read_ptr2 b) = Some (False, pos, p1, p2)"
    "lifo_holds d (m, b\<lparr>lifo_pos := pos\<rparr>) xs" "element_at m b (p1, p2) = x"
    using holds_read [OF h [unfolded mb]] by blast
  show "\<exists>h'. get_element d h = Some (False, h') \<and> read_data h' = x \<and> lifo_holds d h' xs"
    using r by (intro exI [of _ "(m, b\<lparr>lifo_pos := pos, read_ptr1 := p1, read_ptr2 := p2\<rparr>)"])
      (simp add: mb get_element_def lifo_read_def read_data_def)
next
  fix h assume h: "lifo_holds d h []"
  obtain m b where "h = (m, b)" by (cases h)
  then show "\<exists>h'. get_element d h = Some (True, h')"
    using holds_Nil h by (auto simp: get_element_def lifo_read_def)
qed

text \<open>The iterator reads the same elements from a position of its own.\<close>

interpretation it: lifo_reader "\<lambda>it. lifo_holds d (m, b\<lparr>lifo_pos := it_pos it\<rparr>)" "lifo_it_read d b"
    "\<lambda>it. read_data (m, b\<lparr>read_ptr1 := it_ptr1 it, read_ptr2 := it_ptr2 it\<rparr>)" for d m b
proof
  fix it :: lifo_iterator and x xs assume "lifo_holds d (m, b\<lparr>lifo_pos := it_pos it\<rparr>) (x # xs)"
  then obtain pos p1 p2 where r: "lifo_read_at d (b\<lparr>lifo_pos := it_pos it\<rparr>) (it_pos it, it_ptr1 it, it_ptr2 it) = Some (False, pos, p1, p2)"
    "lifo_holds d (m, b\<lparr>lifo_pos := pos\<rparr>) xs" "element_at m b (p1, p2) = x"
    using holds_read [of d m "b\<lparr>lifo_pos := it_pos it\<rparr>" x xs "it_ptr1 it" "it_ptr2 it"] by auto
  then show "\<exists>it'. lifo_it_read d b it = Some (False, it') \<and> read_data (m, b\<lparr>read_ptr1 := it_ptr1 it', read_ptr2 := it_ptr2 it'\<rparr>) = x \<and>
      lifo_holds d (m, b\<lparr>lifo_pos := it_pos it'\<rparr>) xs"
    using r unfolding lifo_read_at_pos by (intro exI [of _ "\<lparr>it_pos = pos, it_ptr1 = p1, it_ptr2 = p2\<rparr>"]) (simp add: lifo_it_read_def read_data_def)
next
  fix it :: lifo_iterator assume "lifo_holds d (m, b\<lparr>lifo_pos := it_pos it\<rparr>) []"
  then show "\<exists>it'. lifo_it_read d b it = Some (True, it')"
    using holds_Nil [of d m "b\<lparr>lifo_pos := it_pos it\<rparr>" "it_ptr1 it" "it_ptr2 it"] by (simp add: lifo_it_read_def lifo_read_at_pos)
qed

section \<open>Writing\<close>

text \<open>Two copies into adjacent places, the first one before the second.\<close>

lemma memcpy_pair:
  assumes "p2 + n2 \<le> dst \<or> dst + n1 \<le> p2" and "m' = memcpy (memcpy m dst p1 n1) (dst + n1) p2 n2"
  shows "bytes_at m' dst n1 = bytes_at m p1 n1" "bytes_at m' (dst + n1) n2 = bytes_at m p2 n2"
    "\<And>a. a < dst \<or> dst + n1 + n2 \<le> a \<Longrightarrow> m' a = m a"
proof -
  show "bytes_at m' dst n1 = bytes_at m p1 n1" unfolding assms(2) by (simp add: bytes_memcpy bytes_memcpy_outside)
  show "bytes_at m' (dst + n1) n2 = bytes_at m p2 n2"
    unfolding assms(2) bytes_memcpy using assms(1) by (rule bytes_memcpy_outside)
  show "\<And>a. a < dst \<or> dst + n1 + n2 \<le> a \<Longrightarrow> m' a = m a" unfolding assms(2) by (auto simp: memcpy_def)
qed

text \<open>The second one before the first.\<close>

lemma memcpy_pair_down:
  assumes "p1 + n1 \<le> dst + n1 \<or> dst + n1 + n2 \<le> p1" and "m' = memcpy (memcpy m (dst + n1) p2 n2) dst p1 n1"
  shows "bytes_at m' dst n1 = bytes_at m p1 n1" "bytes_at m' (dst + n1) n2 = bytes_at m p2 n2"
    "\<And>a. a < dst \<or> dst + n1 + n2 \<le> a \<Longrightarrow> m' a = m a"
proof -
  show "bytes_at m' dst n1 = bytes_at m p1 n1"
    unfolding assms(2) bytes_memcpy using assms(1) by (rule bytes_memcpy_outside)
  show "bytes_at m' (dst + n1) n2 = bytes_at m p2 n2" unfolding assms(2) by (simp add: bytes_memcpy bytes_memcpy_outside)
  show "\<And>a. a < dst \<or> dst + n1 + n2 \<le> a \<Longrightarrow> m' a = m a" unfolding assms(2) by (auto simp: memcpy_def)
qed

lemma fw_put:
  assumes "lifo_holds FORWARD (m, b) xs" and "can_write FORWARD b" and "source_ok (m, b) (p1, p2)"
  shows "\<exists>m'. put_element FORWARD (p1, p2) (m, b) = Some (m', b\<lparr>write_ptr1 := p1, write_ptr2 := p2, lifo_pos := lifo_pos b + elem_size b\<rparr>) \<and>
    lifo_holds FORWARD (m', b\<lparr>lifo_pos := lifo_pos b + elem_size b\<rparr>) (written (m, b) (p1, p2) # xs) \<and>
    (\<forall>a. a < lifo_start b \<or> lifo_end b \<le> a \<longrightarrow> m' a = m a)"
proof -
  let ?m = "memcpy (memcpy m (lifo_pos b) p1 (lifo_size1 b)) (lifo_pos b + lifo_size1 b) p2 (lifo_size2 b)" and ?n = "length xs * elem_size b"
  have room: "lifo_pos b + elem_size b < lifo_end b" and pos: "lifo_pos b = lifo_start b + ?n"
    using assms(1,2) by (simp_all add: can_write_def fw_defs)
  have src: "p2 + lifo_size2 b \<le> lifo_pos b \<or> lifo_pos b + lifo_size1 b \<le> p2" using assms(3) room pos by (auto simp: source_ok_def)
  note copied = memcpy_pair [OF src, of ?m m p1, OF refl]
  have put: "put_element FORWARD (p1, p2) (m, b) = Some (?m, b\<lparr>write_ptr1 := p1, write_ptr2 := p2, lifo_pos := lifo_pos b + elem_size b\<rparr>)"
    using room by (auto simp: put_element_def fw_defs add.assoc)
  have "bytes_at ?m (lifo_start b) ?n = bytes_at m (lifo_start b) ?n" using copied(3) pos by (intro bytes_cong) auto
  moreover have "bytes_at ?m (lifo_start b) (?n + (lifo_size1 b + lifo_size2 b)) =
      bytes_at ?m (lifo_start b) ?n @ bytes_at ?m (lifo_pos b) (lifo_size1 b) @ bytes_at ?m (lifo_pos b + lifo_size1 b) (lifo_size2 b)"
    by (simp add: bytes_add3 pos)
  ultimately have "bytes_at ?m (lifo_start b) (?n + (lifo_size1 b + lifo_size2 b)) = concat (map elem_bytes (rev (written (m, b) (p1, p2) # xs)))"
    using assms(1) copied(1,2) by (auto simp: written_def element_at_def)
  then have "lifo_holds FORWARD (?m, b\<lparr>lifo_pos := lifo_pos b + elem_size b\<rparr>) (written (m, b) (p1, p2) # xs)"
    using assms(1) room pos by (auto simp: elem_sized_def written_def element_at_def add.commute add.left_commute)
  then show ?thesis using put copied(3) room pos by (intro exI [of _ ?m]) auto
qed

lemma bw_put:
  assumes "lifo_holds BACKWARD (m, b) xs" and "can_write BACKWARD b" and "source_ok (m, b) (p1, p2)"
  shows "\<exists>m'. put_element BACKWARD (p1, p2) (m, b) = Some (m', b\<lparr>write_ptr1 := p1, write_ptr2 := p2, lifo_pos := lifo_pos b - elem_size b\<rparr>) \<and>
    lifo_holds BACKWARD (m', b\<lparr>lifo_pos := lifo_pos b - elem_size b\<rparr>) (written (m, b) (p1, p2) # xs) \<and>
    (\<forall>a. a < lifo_start b \<or> lifo_end b \<le> a \<longrightarrow> m' a = m a)"
proof -
  let ?q = "lifo_pos b - elem_size b" and ?n = "length xs * elem_size b"
  let ?m = "memcpy (memcpy m (?q + lifo_size1 b) p2 (lifo_size2 b)) ?q p1 (lifo_size1 b)"
  have room: "lifo_start b + elem_size b \<le> lifo_pos b" and fin: "lifo_end b = lifo_pos b + ?n"
    using assms(1,2) by (auto simp: can_write_def bw_defs)
  have src: "p1 + lifo_size1 b \<le> ?q + lifo_size1 b \<or> ?q + lifo_size1 b + lifo_size2 b \<le> p1" using assms(3) room fin by (auto simp: source_ok_def)
  note copied = memcpy_pair_down [OF src, of ?m m p2, OF refl]
  have q: "?q + lifo_size1 b = lifo_pos b - lifo_size2 b" "?q + lifo_size1 b + lifo_size2 b = lifo_pos b" "lifo_pos b - lifo_size2 b - lifo_size1 b = ?q"
    using room by simp_all
  have null: "p2 = 0 \<longleftrightarrow> lifo_size2 b = 0" using assms(3) by (auto simp: source_ok_def)
  have put: "put_element BACKWARD (p1, p2) (m, b) = Some (?m, b\<lparr>write_ptr1 := p1, write_ptr2 := p2, lifo_pos := ?q\<rparr>)"
    unfolding q(1) using room null by (cases "p2 = 0") (auto simp: put_element_def bw_defs add.commute)
  have "bytes_at ?m (lifo_pos b) ?n = bytes_at m (lifo_pos b) ?n" using copied(3) q by (intro bytes_cong) auto
  moreover have "bytes_at ?m ?q (lifo_size1 b + (lifo_size2 b + ?n)) =
      bytes_at ?m ?q (lifo_size1 b) @ bytes_at ?m (?q + lifo_size1 b) (lifo_size2 b) @ bytes_at ?m (lifo_pos b) ?n"
    unfolding bytes_add3 q(2) ..
  ultimately have "bytes_at ?m ?q (lifo_size1 b + (lifo_size2 b + ?n)) = concat (map elem_bytes (written (m, b) (p1, p2) # xs))"
    using assms(1) copied(1,2) by (auto simp: written_def element_at_def)
  then have "lifo_holds BACKWARD (?m, b\<lparr>lifo_pos := ?q\<rparr>) (written (m, b) (p1, p2) # xs)"
    using assms(1) room fin by (auto simp: elem_sized_def written_def element_at_def add.assoc)
  then show ?thesis using put copied(3) room fin by (intro exI [of _ ?m]) auto
qed

lemma div_minus: "0 < n \<Longrightarrow> n \<le> k \<Longrightarrow> (k - n) div n = k div n - 1" for n :: nat
  by (simp add: le_div_geq)

lemma capacity_room: "lifo_holds d (m, b) xs \<Longrightarrow> can_write d b \<longleftrightarrow> 0 < capacity d (m, b)"
  by (cases d) (fastforce simp: can_write_def fw_defs bw_defs div_greater_zero_iff)+

lemma capacity_put:
  assumes "lifo_holds d (m, b) xs" and "can_write d b"
  shows "capacity d (m', b\<lparr>lifo_pos := (if d = FORWARD then lifo_pos b + elem_size b else lifo_pos b - elem_size b)\<rparr>) = capacity d (m, b) - 1"
proof (cases d)
  case FORWARD
  then have k: "elem_size b \<le> lifo_end b - lifo_pos b - 1" "0 < elem_size b"
    using assms by (simp_all add: can_write_def fw_defs)
  have "lifo_end b - (lifo_pos b + elem_size b) - 1 = lifo_end b - lifo_pos b - 1 - elem_size b" by simp
  then have "(lifo_end b - (lifo_pos b + elem_size b) - 1) div elem_size b = (lifo_end b - lifo_pos b - 1) div elem_size b - 1"
    using div_minus [OF k(2,1)] by (simp only:)
  then show ?thesis using FORWARD by simp
next
  case BACKWARD
  then have k: "elem_size b \<le> lifo_pos b - lifo_start b" "0 < elem_size b"
    using assms by (auto simp: can_write_def bw_defs)
  have "lifo_pos b - elem_size b - lifo_start b = lifo_pos b - lifo_start b - elem_size b" by simp
  then have "(lifo_pos b - elem_size b - lifo_start b) div elem_size b = (lifo_pos b - lifo_start b) div elem_size b - 1"
    using div_minus [OF k(2,1)] by (simp only:)
  then show ?thesis using BACKWARD by simp
qed

lemma put_element_holds:
  assumes "lifo_holds d (m, b) xs" and "can_write d b" and "source_ok (m, b) p"
  shows "\<exists>m' b'. put_element d p (m, b) = Some (m', b') \<and> lifo_holds d (m', b') (written (m, b) p # xs) \<and>
    capacity d (m', b') = capacity d (m, b) - 1 \<and> lifo_start b' = lifo_start b \<and> lifo_end b' = lifo_end b \<and>
    lifo_size1 b' = lifo_size1 b \<and> lifo_size2 b' = lifo_size2 b \<and>
    (\<forall>a. a < lifo_start b \<or> lifo_end b \<le> a \<longrightarrow> m' a = m a)"
proof -
  obtain p1 p2 where p: "p = (p1, p2)" by (cases p)
  let ?pos = "if d = FORWARD then lifo_pos b + elem_size b else lifo_pos b - elem_size b"
  let ?b = "b\<lparr>write_ptr1 := p1, write_ptr2 := p2, lifo_pos := ?pos\<rparr>"
  obtain m' where m': "put_element d (p1, p2) (m, b) = Some (m', ?b)"
    "lifo_holds d (m', b\<lparr>lifo_pos := ?pos\<rparr>) (written (m, b) (p1, p2) # xs)" "\<forall>a. a < lifo_start b \<or> lifo_end b \<le> a \<longrightarrow> m' a = m a"
    using fw_put bw_put assms unfolding p by (cases d) (simp, blast, simp, blast)
  have "lifo_holds d (m', ?b) (written (m, b) (p1, p2) # xs)" using m'(2) by (cases d) (simp_all add: elem_sized_def)
  moreover have "capacity d (m', ?b) = capacity d (m, b) - 1"
    using capacity_put [OF assms(1,2), of m'] by (cases d) simp_all
  ultimately show ?thesis using m'(1,3) p by (intro exI [of _ m'] exI [of _ ?b]) simp
qed

lemma source_frame:
  assumes "source_ok (m, b) p" and "\<forall>a. a < lifo_start b \<or> lifo_end b \<le> a \<longrightarrow> m' a = m a"
    and "lifo_start b' = lifo_start b" "lifo_end b' = lifo_end b" "lifo_size1 b' = lifo_size1 b" "lifo_size2 b' = lifo_size2 b"
  shows "source_ok (m', b') p \<and> written (m', b') p = written (m, b) p"
proof -
  obtain p1 p2 where p: "p = (p1, p2)" by (cases p)
  have "bytes_at m' p1 (lifo_size1 b) = bytes_at m p1 (lifo_size1 b)" "bytes_at m' p2 (lifo_size2 b) = bytes_at m p2 (lifo_size2 b)"
    using assms(1,2) by (auto simp: source_ok_def p intro!: bytes_cong)
  then show ?thesis using assms by (simp add: source_ok_def written_def element_at_def p)
qed

interpretation st: lifo_store "lifo_holds d" "get_element d" read_data "put_element d" "\<lambda>h. can_write d (snd h)" "capacity d" source_ok written for d
proof
  fix h :: "mem \<times> lifo_buffer" and xs assume "lifo_holds d h xs"
  then show "can_write d (snd h) \<longleftrightarrow> 0 < capacity d h" using capacity_room by (cases h) simp
next
  fix h xs p assume h: "lifo_holds d h xs" "can_write d (snd h)" "source_ok h p"
  obtain m b where mb: "h = (m, b)" by (cases h)
  obtain m' b' where put: "put_element d p (m, b) = Some (m', b')" "lifo_holds d (m', b') (written (m, b) p # xs)"
    "capacity d (m', b') = capacity d (m, b) - 1" and
    frame: "\<forall>a. a < lifo_start b \<or> lifo_end b \<le> a \<longrightarrow> m' a = m a" "lifo_start b' = lifo_start b" "lifo_end b' = lifo_end b"
      "lifo_size1 b' = lifo_size1 b" "lifo_size2 b' = lifo_size2 b"
    using put_element_holds [of d m b xs p] h unfolding mb by auto
  show "\<exists>h'. put_element d p h = Some h' \<and> lifo_holds d h' (written h p # xs) \<and> capacity d h' = capacity d h - 1 \<and>
      (\<forall>p'. source_ok h p' \<longrightarrow> source_ok h' p' \<and> written h' p' = written h p')"
    using put source_frame [OF _ frame] unfolding mb by (intro exI [of _ "(m', b')"]) auto
qed

section \<open>Properties\<close>

text \<open>
  Property C7: the buffers are last-in first-out. In either direction, after \<open>set_buffer_space\<close> a
  run of writes of elements that lie outside the space succeeds as long as there is capacity
  for them, and reading until the end then returns exactly those elements, the last written
  first, without a failed assertion.
\<close>

theorem lifo_last_in_first_out:
  assumes "set_buffer_space trash d s e (m, b) = h" and "s \<le> e" and "0 < elem_size b"
    and "\<forall>p \<in> set ps. source_ok h p" and "length ps \<le> capacity d h"
  shows "\<exists>h'. put_all (put_element d) (\<lambda>h. can_write d (snd h)) ps h = Some h' \<and>
    read_all (get_element d) read_data (Suc (length ps)) h' = Some (rev (map (written h) ps))"
proof (rule st.last_in_first_out)
  show "lifo_holds d h []" using assms(1-3) by (cases d) (auto simp: set_buffer_space_def fw_reset_def bw_reset_def)
qed (use assms(4,5) in auto)

definition buf0 :: lifo_buffer where
  "buf0 = \<lparr>lifo_size1 = 2, lifo_size2 = 1, write_ptr1 = 0, write_ptr2 = 0, read_ptr1 = 0, read_ptr2 = 0,
     lifo_start = 0, lifo_end = 0, lifo_pos = 0\<rparr>"

theorem lifo_last_in_first_out_witness:
  "\<exists>h'. put_all (put_element BACKWARD) (\<lambda>h. can_write BACKWARD (snd h)) [(10, 12), (20, 22)] (set_buffer_space (\<lambda>p n m. m) BACKWARD 100 106 (of_nat, buf0)) = Some h' \<and>
     read_all (get_element BACKWARD) read_data 3 h' = Some [([20, 21], [22]), ([10, 11], [12])]"
proof -
  let ?h = "set_buffer_space (\<lambda>p n m. m) BACKWARD 100 106 (of_nat, buf0)"
  have h: "?h = (of_nat, buf0\<lparr>lifo_start := 100, lifo_end := 106, lifo_pos := 106\<rparr>)"
    by (simp add: set_buffer_space_def bw_reset_def)
  have "\<forall>p \<in> set [(10, 12), (20, 22)]. source_ok ?h p" "length [(10::nat, 12::nat), (20, 22)] \<le> capacity BACKWARD ?h"
    unfolding h by (simp_all add: source_ok_def buf0_def)
  moreover have "rev (map (written ?h) [(10, 12), (20, 22)]) = [([20, 21], [22]), ([10, 11], [12])]"
    unfolding h by (simp add: written_def element_at_def bytes_at_def buf0_def upt_rec)
  ultimately show ?thesis
    using lifo_last_in_first_out [OF refl, of 100 106 buf0 "[(10, 12), (20, 22)]" "\<lambda>p n m. m" BACKWARD of_nat]
    by (simp add: buf0_def numeral_3_eq_3)
qed

text \<open>
  The iterator. Walking over a buffer returns its elements in the order in which
  reading would, then the end mark, and the walk leaves the buffer as it is (the buffer is only
  an argument of the iterator).
\<close>

theorem lifo_iterator_walks:
  assumes "lifo_holds d (m, b) xs"
  shows "read_all (lifo_it_read d b) (\<lambda>it. read_data (m, b\<lparr>read_ptr1 := it_ptr1 it, read_ptr2 := it_ptr2 it\<rparr>))
      (Suc (length xs)) (lifo_it_init b it) = Some xs \<and>
    read_all (get_element d) read_data (Suc (length xs)) (m, b) = Some xs"
  using it.drains [where d = d and m = m and b = b and h = "lifo_it_init b it" and xs = xs and fuel = "Suc (length xs)"] rd.drains [OF assms, of "Suc (length xs)"] assms
  by (simp add: lifo_it_init_def get_pos_def del: read_all.simps)

definition buf1 :: lifo_buffer where
  "buf1 = buf0\<lparr>lifo_size1 := 1, lifo_start := 50, lifo_end := 60, lifo_pos := 54\<rparr>"

lemma holds_buf1: "lifo_holds FORWARD (of_nat, buf1) [([52], [53]), ([50], [51])]"
  by (simp add: buf1_def buf0_def elem_sized_def bytes_at_def upt_rec)

theorem lifo_iterator_walks_witness:
  "read_all (get_element FORWARD) read_data 3 (of_nat, buf1) = Some [([52], [53]), ([50], [51])]"
  using lifo_iterator_walks [OF holds_buf1] by (simp add: numeral_3_eq_3)

text \<open>
  Adjacent buffers. When a backward buffer lies just above a forward buffer and
  hands its unused space over (\<open>remove_unused_space\<close>, then \<open>grow\<close>), both keep their elements, the
  buffers stay adjacent, the forward buffer gains exactly the bytes given up, and a following
  write to the forward buffer stores its element and still leaves the backward buffer intact.
\<close>

theorem adjacent_buffers_share_space:
  assumes "lifo_holds FORWARD (m, f) xs" and "lifo_holds BACKWARD (m, b) ys" and "lifo_end f = lifo_start b"
    and "\<forall>p n m a. a < p \<or> p + n \<le> a \<longrightarrow> trash p n m a = m a"
    and "bw_remove_unused_space b = ((us, ue), b')"
  shows "\<exists>m' f'. fw_grow trash us ue (m, f) = Some (m', f') \<and> lifo_holds FORWARD (m', f') xs \<and> lifo_holds BACKWARD (m', b') ys \<and>
    lifo_end f' = lifo_start b' \<and> lifo_end f' - lifo_pos f' = (lifo_end f - lifo_pos f) + (lifo_pos b - lifo_start b) \<and>
    (\<forall>p. can_write FORWARD f' \<and> source_ok (m', f') p \<longrightarrow>
       (\<exists>m2 f2. put_element FORWARD p (m', f') = Some (m2, f2) \<and> lifo_holds FORWARD (m2, f2) (written (m', f') p # xs) \<and> lifo_holds BACKWARD (m2, b') ys))"
proof -
  have u: "us = lifo_start b" "ue = lifo_pos b" "b' = b\<lparr>lifo_start := lifo_pos b\<rparr>" using assms(5) by (auto simp: bw_remove_unused_space_def)
  let ?m = "trash us (ue - us) m" and ?f = "f\<lparr>lifo_end := ue\<rparr>"
  have le: "us \<le> ue" "lifo_pos f \<le> us" using assms(1,2,3) u by simp_all
  have keep: "?m a = m a" if "a < us \<or> ue \<le> a" for a using assms(4) [rule_format, of a us "ue - us" m] that le(1) by auto
  have grow: "fw_grow trash us ue (m, f) = Some (?m, ?f)" using le(1) assms(3) u(1) by (simp add: fw_grow_def)
  have "bytes_at ?m (lifo_start f) (length xs * elem_size f) = bytes_at m (lifo_start f) (length xs * elem_size f)"
    using assms(1) le keep by (intro bytes_cong) auto
  then have hf: "lifo_holds FORWARD (?m, ?f) xs" using assms(1) le by (auto simp: elem_sized_def)
  have below: "lifo_holds BACKWARD (m2, b') ys" if "\<And>a. ue \<le> a \<Longrightarrow> m2 a = m a" for m2
  proof -
    have "bytes_at m2 (lifo_pos b) (length ys * elem_size b) = bytes_at m (lifo_pos b) (length ys * elem_size b)"
      using that u(2) by (intro bytes_cong) auto
    then show ?thesis using assms(2) u by (auto simp: elem_sized_def)
  qed
  have hb: "lifo_holds BACKWARD (?m, b') ys" using keep by (intro below) auto
  have written: "\<exists>m2 f2. put_element FORWARD p (?m, ?f) = Some (m2, f2) \<and> lifo_holds FORWARD (m2, f2) (written (?m, ?f) p # xs) \<and> lifo_holds BACKWARD (m2, b') ys"
    if ok: "can_write FORWARD ?f" "source_ok (?m, ?f) p" for p
  proof -
    obtain m2 f2 where w: "put_element FORWARD p (?m, ?f) = Some (m2, f2)" "lifo_holds FORWARD (m2, f2) (written (?m, ?f) p # xs)"
      "\<forall>a. a < lifo_start f \<or> ue \<le> a \<longrightarrow> m2 a = ?m a"
      using put_element_holds [OF hf ok] by auto
    then show ?thesis using below [of m2] keep by auto
  qed
  show ?thesis using grow hf hb written u le assms(3) by (intro exI [of _ ?m] exI [of _ ?f]) auto
qed

definition buf2 :: lifo_buffer where
  "buf2 = buf1\<lparr>lifo_start := 60, lifo_end := 70, lifo_pos := 68\<rparr>"

theorem adjacent_buffers_share_space_witness:
  "\<exists>m' f'. fw_grow (\<lambda>p n m. m) 60 68 (of_nat, buf1) = Some (m', f') \<and> lifo_holds FORWARD (m', f') [([52], [53]), ([50], [51])] \<and>
     lifo_end f' - lifo_pos f' = 14"
proof -
  have "lifo_holds BACKWARD (of_nat, buf2) [([68], [69])]" by (simp add: buf2_def buf1_def buf0_def elem_sized_def bytes_at_def upt_rec)
  moreover have "lifo_end buf1 = lifo_start buf2" "bw_remove_unused_space buf2 = ((60, 68), buf2\<lparr>lifo_start := 68\<rparr>)"
    "(lifo_end buf1 - lifo_pos buf1) + (lifo_pos buf2 - lifo_start buf2) = 14"
    by (simp_all add: buf1_def buf2_def buf0_def bw_remove_unused_space_def)
  ultimately show ?thesis using adjacent_buffers_share_space [OF holds_buf1, of buf2 "[([68], [69])]" "\<lambda>p n m. m"] by auto
qed

end
