(* ===== verification/ThreadCache.thy ===== *)
theory ThreadCache
  imports Prelude
begin

text \<open>
  The thread cache of \<open>thread_cache.h\<close>: a queue of connections waiting for a parked thread, the
  number of parked threads no connection is queued for, and the number of flush requests. The
  operations run under one mutex, which they release only while waiting on a condition
  variable; so each operation is split at its waits into atomic functions on the cache, and the
  interleaving of any number of threads is a step relation on a system state that counts the
  threads at each wait. The queue \<open>I_List\<close> is the sequence that \<open>ILists\<close> shows it to implement.
  The two counters are integers: the first is shown to stay between 0 and the configured size,
  the second is the number of flush calls in progress plus final flushes, taken to be below
  the \<open>2\<^sup>3\<^sup>2\<close> at which the code's counter would wrap around.
\<close>

section \<open>The cache\<close>

type_synonym connect = nat

record thread_cache =
  tc_list :: "connect list"
  cached_thread_count :: int
  kill_cached_threads :: int

definition tc_init :: thread_cache where
  "tc_init = \<lparr>tc_list = [], cached_thread_count = 0, kill_cached_threads = 0\<rparr>"

text \<open>\<open>destroy\<close> asserts that the cache is empty.\<close>

definition tc_destroy :: "thread_cache \<Rightarrow> unit option" where
  "tc_destroy c = (if cached_thread_count c = 0 \<and> tc_list c = [] then Some () else None)"

definition list_get :: "thread_cache \<Rightarrow> connect option \<times> thread_cache" where
  "list_get c = (case tc_list c of [] \<Rightarrow> (None, c) | k # ks \<Rightarrow> (Some k, c\<lparr>tc_list := ks\<rparr>))"

definition enqueue :: "connect \<Rightarrow> thread_cache \<Rightarrow> bool \<times> thread_cache" where
  "enqueue k c =
     (if cached_thread_count c \<noteq> 0
      then (True, c\<lparr>tc_list := tc_list c @ [k], cached_thread_count := cached_thread_count c - 1\<rparr>)
      else (False, c))"

text \<open>
  \<open>park\<close> up to its wait, and from a wake-up to the next wait or the return. A return carries the
  connection to serve, if any, and whether the waiting flush requests are to be signalled.
\<close>

datatype park_outcome = Wait | Return "connect option" bool

definition park_begin :: "nat \<Rightarrow> thread_cache \<Rightarrow> park_outcome \<times> thread_cache" where
  "park_begin thread_cache_size c =
     (case list_get c of
        (Some k, c) \<Rightarrow> (Return (Some k) False, c\<lparr>cached_thread_count := cached_thread_count c + 1\<rparr>)
      | (None, c) \<Rightarrow>
          if cached_thread_count c < int thread_cache_size \<and> kill_cached_threads c = 0
          then (Wait, c\<lparr>cached_thread_count := cached_thread_count c + 1\<rparr>)
          else (Return None False, c))"

definition park_resume :: "bool \<Rightarrow> thread_cache \<Rightarrow> park_outcome \<times> thread_cache" where
  "park_resume timed_out c =
     (let flushed = (kill_cached_threads c \<noteq> 0)
      in case list_get c of
           (Some k, c) \<Rightarrow> (Return (Some k) flushed, c)
         | (None, c) \<Rightarrow>
             if flushed \<or> timed_out
             then (Return None flushed, c\<lparr>cached_thread_count := cached_thread_count c - 1\<rparr>)
             else (Wait, c))"

text \<open>\<open>flush\<close>: its first step, and the test of its loop, which tells whether it waits.\<close>

definition flush_begin :: "thread_cache \<Rightarrow> thread_cache" where
  "flush_begin c = c\<lparr>kill_cached_threads := kill_cached_threads c + 1\<rparr>"

definition flush_test :: "thread_cache \<Rightarrow> bool \<times> thread_cache" where
  "flush_test c =
     (if cached_thread_count c \<noteq> 0 then (True, c)
      else (False, c\<lparr>kill_cached_threads := kill_cached_threads c - 1\<rparr>))"

text \<open>
  \<open>final_flush\<close> increments the count of requests once more, without the mutex (taken as one step
  here), then flushes.
\<close>

definition final_flush_begin :: "thread_cache \<Rightarrow> thread_cache" where
  "final_flush_begin c = c\<lparr>kill_cached_threads := kill_cached_threads c + 1\<rparr>"

definition tc_size :: "thread_cache \<Rightarrow> int" where
  "tc_size c = cached_thread_count c"

lemmas cache_defs = list_get_def enqueue_def park_begin_def park_resume_def flush_begin_def flush_test_def final_flush_begin_def

section \<open>The threads\<close>

text \<open>
  Parked threads are blocked, woken or woken by their time limit; threads that left \<open>enqueue\<close> or
  \<open>park\<close> may still have to signal. The last two fields are the histories of the connections the
  cache accepted and of those handed to a thread.
\<close>

record tc_system =
  cache :: thread_cache
  sleeping :: nat
  woken :: nat
  expired :: nat
  to_signal :: nat
  to_signal_flush :: nat
  flush_sleeping :: nat
  flush_woken :: nat
  finals :: nat
  accepted :: "connect list"
  served :: "connect list"

definition sys_init :: tc_system where
  "sys_init = \<lparr>cache = tc_init, sleeping = 0, woken = 0, expired = 0, to_signal = 0, to_signal_flush = 0,
     flush_sleeping = 0, flush_woken = 0, finals = 0, accepted = [], served = []\<rparr>"

definition waiting :: "tc_system \<Rightarrow> nat" where
  "waiting s = sleeping s + woken s + expired s"

definition signal_parked :: "tc_system \<Rightarrow> tc_system" where
  "signal_parked s = (if sleeping s = 0 then s else s\<lparr>sleeping := sleeping s - 1, woken := woken s + 1\<rparr>)"

definition broadcast_parked :: "tc_system \<Rightarrow> tc_system" where
  "broadcast_parked s = s\<lparr>sleeping := 0, woken := woken s + sleeping s\<rparr>"

definition signal_flush :: "tc_system \<Rightarrow> tc_system" where
  "signal_flush s =
     (if flush_sleeping s = 0 then s else s\<lparr>flush_sleeping := flush_sleeping s - 1, flush_woken := flush_woken s + 1\<rparr>)"

fun park_done :: "park_outcome \<Rightarrow> tc_system \<Rightarrow> tc_system" where
  "park_done Wait s = s\<lparr>sleeping := sleeping s + 1\<rparr>"
| "park_done (Return k flushed) s =
     s\<lparr>served := served s @ (case k of None \<Rightarrow> [] | Some c \<Rightarrow> [c]),
       to_signal_flush := to_signal_flush s + (if flushed then 1 else 0)\<rparr>"

definition flush_done :: "bool \<Rightarrow> tc_system \<Rightarrow> tc_system" where
  "flush_done wait s = (if wait then (broadcast_parked s)\<lparr>flush_sleeping := flush_sleeping s + 1\<rparr> else s)"

text \<open>
  The steps of the threads that are in the cache already: they send the signals they owe and run
  from a wake-up to the next wait or to the end of the operation.
\<close>

inductive own_step :: "tc_system \<Rightarrow> tc_system \<Rightarrow> bool" where
  signal: "0 < to_signal s \<Longrightarrow> own_step s (signal_parked (s\<lparr>to_signal := to_signal s - 1\<rparr>))"
| resume: "0 < woken s \<Longrightarrow> park_resume False (cache s) = (r, c) \<Longrightarrow>
    own_step s (park_done r (s\<lparr>cache := c, woken := woken s - 1\<rparr>))"
| resume_expired: "0 < expired s \<Longrightarrow> park_resume True (cache s) = (r, c) \<Longrightarrow>
    own_step s (park_done r (s\<lparr>cache := c, expired := expired s - 1\<rparr>))"
| flush_resume: "0 < flush_woken s \<Longrightarrow> flush_test (cache s) = (w, c) \<Longrightarrow>
    own_step s (flush_done w (s\<lparr>cache := c, flush_woken := flush_woken s - 1\<rparr>))"
| flush_signal: "0 < to_signal_flush s \<Longrightarrow> own_step s (signal_flush (s\<lparr>to_signal_flush := to_signal_flush s - 1\<rparr>))"

text \<open>
  All steps: those, the calls of \<open>enqueue\<close>, \<open>park\<close>, \<open>flush\<close> and \<open>final_flush\<close> by newcomers, and the
  wake-ups that no signal causes.
\<close>

inductive tc_step :: "nat \<Rightarrow> tc_system \<Rightarrow> tc_system \<Rightarrow> bool" for sz :: nat where
  own: "own_step s t \<Longrightarrow> tc_step sz s t"
| accept: "enqueue k (cache s) = (True, c) \<Longrightarrow>
    tc_step sz s (s\<lparr>cache := c, accepted := accepted s @ [k], to_signal := to_signal s + 1\<rparr>)"
| refuse: "enqueue k (cache s) = (False, c) \<Longrightarrow> tc_step sz s (s\<lparr>cache := c\<rparr>)"
| park: "park_begin sz (cache s) = (r, c) \<Longrightarrow> tc_step sz s (park_done r (s\<lparr>cache := c\<rparr>))"
| time_out: "0 < sleeping s \<Longrightarrow> tc_step sz s (s\<lparr>sleeping := sleeping s - 1, expired := expired s + 1\<rparr>)"
| spurious: "0 < sleeping s \<Longrightarrow> tc_step sz s (s\<lparr>sleeping := sleeping s - 1, woken := woken s + 1\<rparr>)"
| flush: "flush_test (flush_begin (cache s)) = (w, c) \<Longrightarrow> tc_step sz s (flush_done w (s\<lparr>cache := c\<rparr>))"
| final: "tc_step sz s (s\<lparr>cache := final_flush_begin (cache s), finals := finals s + 1\<rparr>)"

inductive tc_steps :: "nat \<Rightarrow> tc_system \<Rightarrow> tc_system \<Rightarrow> bool" for sz :: nat where
  here: "tc_steps sz s s"
| there: "tc_steps sz s t \<Longrightarrow> tc_step sz t u \<Longrightarrow> tc_steps sz s u"

lemmas sys_defs = waiting_def signal_parked_def broadcast_parked_def signal_flush_def flush_done_def

section \<open>The invariant\<close>

text \<open>
  Every parked thread is counted either as free or by a connection queued for it, so the queue
  never holds more connections than there are parked threads; parked threads never exceed the
  configured size; the flush count is the number of requests in progress; connections leave in
  the order they were accepted; and for every queued connection a thread is awake or about to
  be signalled.
\<close>

definition tc_inv :: "nat \<Rightarrow> tc_system \<Rightarrow> bool" where
  "tc_inv sz s \<longleftrightarrow>
     int (waiting s) = cached_thread_count (cache s) + int (length (tc_list (cache s))) \<and>
     0 \<le> cached_thread_count (cache s) \<and> waiting s \<le> sz \<and>
     kill_cached_threads (cache s) = int (flush_sleeping s + flush_woken s + finals s) \<and>
     accepted s = served s @ tc_list (cache s) \<and>
     length (tc_list (cache s)) \<le> woken s + expired s + to_signal s"

lemma tc_inv_init: "tc_inv sz sys_init"
  by (simp add: tc_inv_def sys_init_def tc_init_def waiting_def)

lemma tc_inv_own: "own_step s t \<Longrightarrow> tc_inv sz s \<Longrightarrow> tc_inv sz t"
  by (induction rule: own_step.induct)
    (auto simp: tc_inv_def cache_defs sys_defs Let_def split: if_splits list.splits prod.splits option.splits)

lemma tc_inv_step: "tc_step sz s t \<Longrightarrow> tc_inv sz s \<Longrightarrow> tc_inv sz t"
proof (induction rule: tc_step.induct)
  case (own s t)
  then show ?case by (rule tc_inv_own)
qed (auto simp: tc_inv_def cache_defs sys_defs Let_def split: if_splits list.splits prod.splits option.splits)

lemma tc_inv_reachable: "tc_steps sz sys_init s \<Longrightarrow> tc_inv sz s"
  by (induction sys_init s rule: tc_steps.induct) (auto intro: tc_inv_init tc_inv_step)

text \<open>
  The steps of the threads in the cache cannot go on for ever: a thread leaves the cache, or a
  signal is sent, or a woken thread goes back to sleep, and what precedes in this list can only
  decrease.
\<close>

lemma own_steps_end: "wf {(t, s). own_step s t}"
proof (rule wf_subset [of "measures [waiting, to_signal_flush, flush_woken, to_signal, woken]"])
  show "{(t, s). own_step s t} \<subseteq> measures [waiting, to_signal_flush, flush_woken, to_signal, woken]"
    by (auto elim!: own_step.cases simp: cache_defs sys_defs Let_def split: if_splits list.splits prod.splits option.splits)
qed simp

lemma own_accepted: "own_step\<^sup>*\<^sup>* s t \<Longrightarrow> accepted t = accepted s"
proof (induction rule: rtranclp_induct)
  case (step t u)
  from step(2) have "accepted u = accepted t"
    by (induction rule: own_step.induct) (auto simp: cache_defs sys_defs Let_def split: if_splits list.splits prod.splits option.splits)
  then show ?case using step(3) by simp
qed simp

lemma own_inv: "own_step\<^sup>*\<^sup>* s t \<Longrightarrow> tc_inv sz s \<Longrightarrow> tc_inv sz t"
  by (induction rule: rtranclp_induct) (auto intro: tc_inv_own)

lemma rest_awake: "\<nexists>u. own_step s u \<Longrightarrow> woken s = 0 \<and> expired s = 0 \<and> to_signal s = 0"
  using own_step.signal [of s] own_step.resume [of s] own_step.resume_expired [of s] by (metis gr0I surj_pair)

lemma rest_served:
  assumes "tc_inv sz s" and "own_step\<^sup>*\<^sup>* s t" and "\<nexists>u. own_step t u"
  shows "tc_list (cache t) = [] \<and> served t = accepted s"
  using own_inv [OF assms(2,1)] own_accepted [OF assms(2)] rest_awake [OF assms(3)] by (auto simp: tc_inv_def)

text \<open>
  Property C6: the thread cache under every interleaving. In every reachable state the parked
  threads are at most the configured number and are exactly the free ones plus one per queued
  connection; no connection is lost, duplicated or overtaken (the accepted connections are
  those handed to threads followed by those queued); for every queued connection a thread of
  the cache is awake or will be signalled. So queued connections are served by the threads in the cache
  alone, without any newcomer or time limit: in whatever order these threads run, they
  come to rest after finitely many steps, and when they rest the queue is empty and every
  accepted connection was handed to a thread, in the order of acceptance.
\<close>

theorem thread_cache_safe:
  assumes "tc_steps sz sys_init s"
  shows "waiting s \<le> sz \<and> int (waiting s) = tc_size (cache s) + int (length (tc_list (cache s))) \<and> 0 \<le> tc_size (cache s) \<and>
    accepted s = served s @ tc_list (cache s) \<and>
    length (tc_list (cache s)) \<le> woken s + expired s + to_signal s \<and>
    wf {(t, s). own_step s t} \<and>
    (\<forall>t. own_step\<^sup>*\<^sup>* s t \<and> (\<nexists>u. own_step t u) \<longrightarrow> tc_list (cache t) = [] \<and> served t = accepted s)"
  using tc_inv_reachable [OF assms] rest_served [OF tc_inv_reachable [OF assms]] own_steps_end by (simp add: tc_inv_def tc_size_def)

text \<open>A thread parks, a connection is queued for it, and a second thread takes it without waiting.\<close>

definition parked1 :: tc_system where
  "parked1 = sys_init\<lparr>cache := tc_init\<lparr>cached_thread_count := 1\<rparr>, sleeping := 1\<rparr>"

definition queued1 :: tc_system where
  "queued1 = sys_init\<lparr>cache := tc_init\<lparr>tc_list := [7]\<rparr>, sleeping := 1, to_signal := 1, accepted := [7]\<rparr>"

lemma steps_parked1: "0 < sz \<Longrightarrow> tc_steps sz sys_init parked1"
  using tc_steps.there [OF tc_steps.here [of sz sys_init] tc_step.park [of sz sys_init Wait "tc_init\<lparr>cached_thread_count := 1\<rparr>"]]
  by (simp add: parked1_def sys_init_def tc_init_def cache_defs)

lemma steps_queued1: "0 < sz \<Longrightarrow> tc_steps sz sys_init queued1"
  using tc_steps.there [OF steps_parked1 [of sz] tc_step.accept [of 7 parked1 "tc_init\<lparr>tc_list := [7]\<rparr>" sz]]
  by (simp add: parked1_def queued1_def sys_init_def tc_init_def cache_defs)

theorem thread_cache_safe_witness:
  "tc_steps 1 sys_init queued1 \<and> (\<exists>t. own_step\<^sup>*\<^sup>* queued1 t \<and> (\<nexists>u. own_step t u) \<and> served t = [7])"
proof -
  have "wf {(t, s). own_step s t}" using thread_cache_safe [OF steps_queued1 [of 1]] by simp
  moreover have "queued1 \<in> {t. own_step\<^sup>*\<^sup>* queued1 t}" by simp
  ultimately obtain t where t: "own_step\<^sup>*\<^sup>* queued1 t" "\<forall>u. own_step t u \<longrightarrow> \<not> own_step\<^sup>*\<^sup>* queued1 u"
    by (rule wfE_min) auto
  then have "\<nexists>u. own_step t u" using rtranclp.rtrancl_into_rtrancl [of own_step queued1 t] by blast
  have "accepted queued1 = [7]" by (simp add: queued1_def)
  then show ?thesis using thread_cache_safe [OF steps_queued1 [of 1]] t steps_queued1 [of 1] \<open>\<nexists>u. own_step t u\<close> by auto
qed

section \<open>Flushing\<close>

inductive one_flush_steps :: "nat \<Rightarrow> tc_system \<Rightarrow> tc_system \<Rightarrow> bool" for sz :: nat where
  here1: "one_flush_steps sz s s"
| there1: "one_flush_steps sz s t \<Longrightarrow> tc_step sz t u \<Longrightarrow> flush_sleeping u + flush_woken u \<le> 1 \<Longrightarrow> one_flush_steps sz s u"

definition flush_inv :: "tc_system \<Rightarrow> bool" where
  "flush_inv s \<longleftrightarrow> flush_sleeping s + flush_woken s \<le> 1 \<and>
     (0 < flush_sleeping s \<longrightarrow> sleeping s = 0 \<and> 0 < woken s + expired s + to_signal_flush s)"

lemma flush_inv_own: "own_step s t \<Longrightarrow> tc_inv sz s \<Longrightarrow> flush_inv s \<Longrightarrow> flush_inv t"
  by (induction rule: own_step.induct)
    (auto simp: tc_inv_def flush_inv_def cache_defs sys_defs Let_def split: if_splits list.splits prod.splits option.splits)

lemma flush_inv_step:
  "tc_step sz s t \<Longrightarrow> tc_inv sz s \<Longrightarrow> flush_inv s \<Longrightarrow> flush_sleeping t + flush_woken t \<le> 1 \<Longrightarrow> flush_inv t"
proof (induction rule: tc_step.induct)
  case (own s t)
  then show ?case using flush_inv_own by blast
qed (auto simp: tc_inv_def flush_inv_def cache_defs sys_defs Let_def split: if_splits list.splits prod.splits option.splits)

lemma one_flush_inv: "one_flush_steps sz sys_init s \<Longrightarrow> tc_inv sz s \<and> flush_inv s"
proof (induction sys_init s rule: one_flush_steps.induct)
  case here1
  show ?case using tc_inv_init by (simp add: flush_inv_def sys_init_def)
next
  case (there1 t u)
  then show ?case using tc_inv_step flush_inv_step by blast
qed

lemma own_waiting: "own_step s t \<Longrightarrow> waiting t \<le> waiting s"
  by (induction rule: own_step.induct) (auto simp: cache_defs sys_defs Let_def split: if_splits list.splits prod.splits option.splits)

lemma flush_waiting_decreases:
  "tc_step sz s t \<Longrightarrow> tc_inv sz s \<Longrightarrow> 0 < flush_sleeping s \<Longrightarrow> waiting t \<le> waiting s"
  by (induction rule: tc_step.induct)
    (auto dest: own_waiting simp: tc_inv_def cache_defs sys_defs Let_def split: if_splits list.splits prod.splits option.splits)

lemma flush_step_enabled:
  assumes "tc_inv sz s" and "flush_inv s" and "0 < flush_sleeping s"
  shows "\<exists>t. tc_step sz s t \<and> (flush_woken t = 1 \<or> waiting t < waiting s)"
proof -
  have kill: "kill_cached_threads (cache s) \<noteq> 0" using assms(1,3) by (simp add: tc_inv_def)
  consider "0 < woken s" | "0 < expired s" | "0 < to_signal_flush s" using assms(2,3) by (auto simp: flush_inv_def)
  then show ?thesis
  proof cases
    case 1
    obtain r c where r: "park_resume False (cache s) = (r, c)" by (cases "park_resume False (cache s)")
    then have "r \<noteq> Wait" using kill by (auto simp: cache_defs Let_def split: list.splits)
    then have "waiting (park_done r (s\<lparr>cache := c, woken := woken s - 1\<rparr>)) < waiting s" using 1 by (cases r) (auto simp: waiting_def)
    then show ?thesis using tc_step.own [OF own_step.resume [OF 1 r]] by blast
  next
    case 2
    obtain r c where r: "park_resume True (cache s) = (r, c)" by (cases "park_resume True (cache s)")
    then have "r \<noteq> Wait" by (auto simp: cache_defs Let_def split: list.splits if_splits)
    then have "waiting (park_done r (s\<lparr>cache := c, expired := expired s - 1\<rparr>)) < waiting s" using 2 by (cases r) (auto simp: waiting_def)
    then show ?thesis using tc_step.own [OF own_step.resume_expired [OF 2 r]] by blast
  next
    case 3
    then show ?thesis using tc_step.own [OF own_step.flush_signal [OF 3]] assms(2,3) by (fastforce simp: signal_flush_def flush_inv_def)
  qed
qed

text \<open>
  A flush makes progress as long as flush requests do not overlap. While the flush
  waits, no parked thread is blocked, no thread parks, and in every state some step of a parked
  thread or a signal is possible that wakes the flush or makes a parked thread leave; since the
  number of parked threads never grows meanwhile, only finitely many of these steps remain
  before the flush is woken.
\<close>

theorem flush_progress:
  assumes "one_flush_steps sz sys_init s" and "0 < flush_sleeping s"
  shows "sleeping s = 0 \<and> (\<exists>t. tc_step sz s t \<and> (flush_woken t = 1 \<or> waiting t < waiting s)) \<and>
    (\<forall>t. tc_step sz s t \<longrightarrow> waiting t \<le> waiting s)"
  using one_flush_inv [OF assms(1)] assms(2) flush_step_enabled flush_waiting_decreases by (auto simp: flush_inv_def)

definition flushing1 :: tc_system where
  "flushing1 = sys_init\<lparr>cache := tc_init\<lparr>cached_thread_count := 1, kill_cached_threads := 1\<rparr>, woken := 1, flush_sleeping := 1\<rparr>"

lemma step_flushing1: "tc_step sz parked1 flushing1"
  using tc_step.flush [of parked1 True "tc_init\<lparr>cached_thread_count := 1, kill_cached_threads := 1\<rparr>" sz]
  by (simp add: parked1_def flushing1_def sys_init_def tc_init_def cache_defs sys_defs)

theorem flush_progress_witness: "\<exists>t. tc_step 1 flushing1 t \<and> (flush_woken t = 1 \<or> waiting t < waiting flushing1)"
proof -
  have "tc_step 1 sys_init parked1"
    using tc_step.park [of 1 sys_init Wait "tc_init\<lparr>cached_thread_count := 1\<rparr>"]
    by (simp add: parked1_def sys_init_def tc_init_def cache_defs)
  moreover have "flush_sleeping parked1 + flush_woken parked1 \<le> 1" "flush_sleeping flushing1 + flush_woken flushing1 \<le> 1"
    "0 < flush_sleeping flushing1"
    by (simp_all add: parked1_def flushing1_def sys_init_def)
  ultimately show ?thesis
    using flush_progress [OF one_flush_steps.there1 [OF one_flush_steps.there1 [OF one_flush_steps.here1] step_flushing1]] by blast
qed

text \<open>
  Two overlapping requests: the last parked thread to leave signals one of them, and the one
  that is woken leaves without signalling the other.
\<close>

definition stuck :: "tc_system \<Rightarrow> bool" where
  "stuck s \<longleftrightarrow> tc_list (cache s) = [] \<and> cached_thread_count (cache s) = 0 \<and> 0 < kill_cached_threads (cache s) \<and>
     waiting s = 0 \<and> to_signal_flush s = 0 \<and> flush_woken s = 0 \<and> 0 < flush_sleeping s"

lemma stuck_own: "own_step s t \<Longrightarrow> stuck s \<Longrightarrow> stuck t \<and> accepted t = accepted s"
  by (induction rule: own_step.induct)
    (auto simp: stuck_def cache_defs sys_defs Let_def split: if_splits list.splits prod.splits option.splits)

lemma stuck_step: "tc_step sz s t \<Longrightarrow> stuck s \<Longrightarrow> stuck t \<and> accepted t = accepted s"
proof (induction rule: tc_step.induct)
  case (own s t)
  then show ?case by (rule stuck_own)
qed (auto simp: stuck_def cache_defs sys_defs Let_def split: if_splits list.splits prod.splits option.splits)

lemma stuck_forever: "tc_steps sz s t \<Longrightarrow> stuck s \<Longrightarrow> stuck t \<and> accepted t = accepted s"
  by (induction rule: tc_steps.induct) (auto dest: stuck_step)

definition flushing2 :: tc_system where
  "flushing2 = sys_init\<lparr>cache := tc_init\<lparr>cached_thread_count := 1, kill_cached_threads := 2\<rparr>, woken := 1, flush_sleeping := 2\<rparr>"

definition left1 :: tc_system where
  "left1 = sys_init\<lparr>cache := tc_init\<lparr>kill_cached_threads := 2\<rparr>, to_signal_flush := 1, flush_sleeping := 2\<rparr>"

definition signalled1 :: tc_system where
  "signalled1 = sys_init\<lparr>cache := tc_init\<lparr>kill_cached_threads := 2\<rparr>, flush_sleeping := 1, flush_woken := 1\<rparr>"

definition stuck1 :: tc_system where
  "stuck1 = sys_init\<lparr>cache := tc_init\<lparr>kill_cached_threads := 1\<rparr>, flush_sleeping := 1\<rparr>"

lemma two_flushes:
  "tc_step sz flushing1 flushing2" "tc_step sz flushing2 left1" "tc_step sz left1 signalled1" "tc_step sz signalled1 stuck1"
proof -
  show "tc_step sz flushing1 flushing2"
    using tc_step.flush [of flushing1 True "tc_init\<lparr>cached_thread_count := 1, kill_cached_threads := 2\<rparr>" sz]
    by (simp add: flushing1_def flushing2_def sys_init_def tc_init_def cache_defs sys_defs numeral_2_eq_2)
  show "tc_step sz flushing2 left1"
    using tc_step.own [OF own_step.resume [of flushing2 "Return None True" "tc_init\<lparr>kill_cached_threads := 2\<rparr>"], of sz]
    by (simp add: flushing2_def left1_def sys_init_def tc_init_def cache_defs)
  show "tc_step sz left1 signalled1"
    using tc_step.own [OF own_step.flush_signal [of left1], of sz] by (simp add: left1_def signalled1_def sys_init_def signal_flush_def)
  show "tc_step sz signalled1 stuck1"
    using tc_step.own [OF own_step.flush_resume [of signalled1 False "tc_init\<lparr>kill_cached_threads := 1\<rparr>"], of sz]
    by (simp add: signalled1_def stuck1_def sys_init_def tc_init_def cache_defs flush_done_def)
qed

text \<open>
  Property C40: overlapping flush requests can block for ever and disable the cache. With any
  positive cache size a state is reachable from the initial one in which a flush request waits,
  no thread is parked, and this stays so in every later state whatever the threads do (short of
  a spurious wake-up of the waiting flush); from then on no connection is ever accepted.
\<close>

theorem overlapping_flush_blocks:
  assumes "0 < sz"
  shows "\<exists>s. tc_steps sz sys_init s \<and> (\<forall>t. tc_steps sz s t \<longrightarrow>
    0 < flush_sleeping t \<and> flush_woken t = 0 \<and> waiting t = 0 \<and> accepted t = accepted s)"
proof -
  have "tc_steps sz sys_init stuck1"
    using tc_steps.there [OF tc_steps.there [OF tc_steps.there [OF tc_steps.there [OF tc_steps.there [OF steps_parked1 [OF assms]
      step_flushing1] two_flushes(1)] two_flushes(2)] two_flushes(3)] two_flushes(4)] .
  moreover have "stuck stuck1" by (simp add: stuck_def stuck1_def sys_init_def tc_init_def waiting_def)
  ultimately show ?thesis using stuck_forever by (intro exI [of _ stuck1]) (auto simp: stuck_def)
qed

theorem overlapping_flush_blocks_witness:
  "\<exists>s. tc_steps 8 sys_init s \<and> (\<forall>t. tc_steps 8 s t \<longrightarrow>
    0 < flush_sleeping t \<and> flush_woken t = 0 \<and> waiting t = 0 \<and> accepted t = accepted s)"
  by (rule overlapping_flush_blocks) simp

end
