(* ===== verification/SqlLimit.thy ===== *)
theory SqlLimit
  imports Prelude
begin

text \<open>
  \<open>Select_limit_counters\<close> of \<open>sql_limit.h\<close>: the counters a query with \<open>LIMIT\<close> and \<open>OFFSET\<close> is run
  with. \<open>ha_rows\<close> is a 64-bit word, \<open>HA_POS_ERROR\<close> its largest value.
\<close>

record select_limit =
  select_limit_cnt :: u64
  offset_limit_cnt :: u64
  with_ties :: bool

definition HA_POS_ERROR :: u64 where
  "HA_POS_ERROR = NOT 0"

definition Select_limit_counters :: select_limit where
  "Select_limit_counters = \<lparr>select_limit_cnt = 0, offset_limit_cnt = 0, with_ties = False\<rparr>"

definition set_limit :: "u64 \<Rightarrow> u64 \<Rightarrow> bool \<Rightarrow> select_limit \<Rightarrow> select_limit" where
  "set_limit limit offset with_ties_arg c =
     (let offset = (if limit = 0 then 0 else offset);
          c = c\<lparr>offset_limit_cnt := offset, select_limit_cnt := limit, with_ties := with_ties_arg\<rparr>
      in if select_limit_cnt c + offset_limit_cnt c \<ge> select_limit_cnt c
         then c\<lparr>select_limit_cnt := select_limit_cnt c + offset_limit_cnt c\<rparr>
         else c\<lparr>select_limit_cnt := HA_POS_ERROR\<rparr>)"

definition set_single_row :: "select_limit \<Rightarrow> select_limit" where
  "set_single_row c = c\<lparr>offset_limit_cnt := 0, select_limit_cnt := 1, with_ties := False\<rparr>"

definition is_unlimited :: "select_limit \<Rightarrow> bool" where
  "is_unlimited c \<longleftrightarrow> select_limit_cnt c = HA_POS_ERROR"

definition set_unlimited :: "select_limit \<Rightarrow> select_limit" where
  "set_unlimited c = c\<lparr>select_limit_cnt := HA_POS_ERROR\<rparr>"

definition limit_clear :: "select_limit \<Rightarrow> select_limit" where
  "limit_clear c = c\<lparr>select_limit_cnt := HA_POS_ERROR, offset_limit_cnt := 0, with_ties := False\<rparr>"

definition check_offset :: "u64 \<Rightarrow> select_limit \<Rightarrow> bool" where
  "check_offset sent c \<longleftrightarrow> sent < offset_limit_cnt c"

definition remove_offset :: "select_limit \<Rightarrow> select_limit" where
  "remove_offset c = c\<lparr>offset_limit_cnt := 0\<rparr>"

definition get_select_limit :: "select_limit \<Rightarrow> u64" where
  "get_select_limit c = select_limit_cnt c"

definition get_offset_limit :: "select_limit \<Rightarrow> u64" where
  "get_offset_limit c = offset_limit_cnt c"

section \<open>The rows a limit selects\<close>

lemma word_less_unat: "unat a < unat b \<longleftrightarrow> a < b" for a b :: u64
  by (simp add: word_less_nat_alt)

lemma add_no_wrap: "a \<le> a + b \<longleftrightarrow> unat a + unat b < 2 ^ 64" for a b :: u64
proof
  assume "a \<le> a + b"
  show "unat a + unat b < 2 ^ 64"
  proof (rule ccontr)
    assume big: "\<not> unat a + unat b < 2 ^ 64"
    have "unat (a + b) = (unat a + unat b) mod 2 ^ 64" by (simp add: unat_word_ariths)
    also have "\<dots> = unat a + unat b - 2 ^ 64"
      using big unat_less_exp [of a] unat_less_exp [of b] by (simp add: mod_if)
    finally have "unat (a + b) < unat a" using unat_less_exp [of b] big by simp
    with \<open>a \<le> a + b\<close> show False by (simp add: word_le_nat_alt)
  qed
next
  assume "unat a + unat b < 2 ^ 64"
  then show "a \<le> a + b" by (simp add: word_le_nat_alt unat_word_ariths)
qed

lemma unat_max64: "unat (- 1 :: u64) = 2 ^ 64 - 1"
  by (simp add: unsigned_minus_1_eq_mask mask_eq_exp_minus_1)

lemma set_limit_counters:
  "unat (offset_limit_cnt (set_limit l f t c)) = (if l = 0 then 0 else unat f) \<and>
   unat (select_limit_cnt (set_limit l f t c)) = (if l = 0 then 0 else min (unat l + unat f) (2 ^ 64 - 1))"
proof -
  have "unat HA_POS_ERROR = 2 ^ 64 - 1" by (simp add: HA_POS_ERROR_def unat_max64)
  then show ?thesis
    using add_no_wrap [of l f] by (auto simp: set_limit_def Let_def unat_word_ariths)
qed

lemma limit_tests:
  "\<not> check_offset i c \<and> i < get_select_limit c \<longleftrightarrow> unat (offset_limit_cnt c) \<le> unat i \<and> unat i < unat (select_limit_cnt c)"
  by (simp add: check_offset_def get_select_limit_def word_le_nat_alt word_less_nat_alt not_less)

lemma is_unlimited_unat: "is_unlimited c \<longleftrightarrow> unat (select_limit_cnt c) = 2 ^ 64 - 1"
  by (simp add: is_unlimited_def HA_POS_ERROR_def word_unat_eq_iff [of _ "- 1"] unat_max64)

text \<open>
  Property C4: \<open>LIMIT\<close> and \<open>OFFSET\<close> select a slice, whatever their values. After \<open>set_limit\<close> the row numbers
  that \<open>check_offset\<close> does not skip and that are below \<open>get_select_limit\<close> are exactly the \<open>limit\<close> numbers from
  \<open>offset\<close> on; when \<open>limit + offset\<close> does not fit in 64 bits they are all the numbers from \<open>offset\<close> on, less the largest one,
  which stands for no limit, and with a limit of zero there are none.
  \<open>is_unlimited\<close> holds exactly when the two add up to at least the largest count and the limit is not zero. Removing the
  offset adds the skipped rows and no others, \<open>set_unlimited\<close> removes the upper end only, and
  \<open>set_single_row\<close> selects row 0 alone, whatever was set before.
\<close>

theorem limit_selects_slice:
  "let c = set_limit limit offset t c0 in
    (\<not> check_offset i c \<and> i < get_select_limit c \<longleftrightarrow>
      limit \<noteq> 0 \<and> unat offset \<le> unat i \<and> unat i < min (unat offset + unat limit) (2 ^ 64 - 1)) \<and>
    (is_unlimited c \<longleftrightarrow> limit \<noteq> 0 \<and> 2 ^ 64 - 1 \<le> unat limit + unat offset) \<and>
    get_offset_limit c = (if limit = 0 then 0 else offset) \<and> with_ties c = t \<and>
    (\<not> check_offset i (remove_offset c) \<and> i < get_select_limit (remove_offset c) \<longleftrightarrow>
      limit \<noteq> 0 \<and> unat i < min (unat offset + unat limit) (2 ^ 64 - 1)) \<and>
    (\<not> check_offset i (set_unlimited c) \<and> i < get_select_limit (set_unlimited c) \<longleftrightarrow>
      (limit = 0 \<or> unat offset \<le> unat i) \<and> unat i < 2 ^ 64 - 1) \<and>
    (\<not> check_offset i (set_single_row c) \<and> i < get_select_limit (set_single_row c) \<longleftrightarrow> i = 0)"
proof -
  define c where "c = set_limit limit offset t c0"
  note cnt = set_limit_counters [of limit offset t c0, folded c_def]
  have "\<not> check_offset i c \<and> i < get_select_limit c \<longleftrightarrow>
      limit \<noteq> 0 \<and> unat offset \<le> unat i \<and> unat i < min (unat offset + unat limit) (2 ^ 64 - 1)"
    unfolding limit_tests using cnt by (simp add: add.commute)
  moreover have "is_unlimited c \<longleftrightarrow> limit \<noteq> 0 \<and> 2 ^ 64 - 1 \<le> unat limit + unat offset"
    unfolding is_unlimited_unat using cnt by (auto simp: min_def)
  moreover have "get_offset_limit c = (if limit = 0 then 0 else offset) \<and> with_ties c = t"
    by (simp add: c_def set_limit_def get_offset_limit_def Let_def)
  moreover have "\<not> check_offset i (remove_offset c) \<and> i < get_select_limit (remove_offset c) \<longleftrightarrow>
      limit \<noteq> 0 \<and> unat i < min (unat offset + unat limit) (2 ^ 64 - 1)"
    unfolding limit_tests using cnt by (simp add: remove_offset_def add.commute)
  moreover have "\<not> check_offset i (set_unlimited c) \<and> i < get_select_limit (set_unlimited c) \<longleftrightarrow>
      (limit = 0 \<or> unat offset \<le> unat i) \<and> unat i < 2 ^ 64 - 1"
    unfolding limit_tests using cnt by (auto simp: set_unlimited_def HA_POS_ERROR_def unat_max64)
  moreover have "\<not> check_offset i (set_single_row c) \<and> i < get_select_limit (set_single_row c) \<longleftrightarrow> i = 0"
    unfolding limit_tests by (simp add: set_single_row_def unat_eq_0)
  ultimately show ?thesis unfolding Let_def c_def [symmetric] by blast
qed

end
