(* ===== verification/Privilege.thy ===== *)
theory Privilege
  imports Bits
begin

text \<open>
  The access privileges of \<open>privilege.h\<close>: the single-bit values of \<open>privilege_t\<close>, the combinations the
  server grants and requires, and the functions that pack the privileges of a database, a
  table, a column and a procedure into the contiguous sets stored in the grant tables.
  A \<open>privilege_t\<close> is its 64-bit representation; \<open>acl_bit n\<close> is the source's \<open>1ULL << n\<close>.
\<close>

unbundle bit_operations_syntax

section \<open>Single privileges\<close>

type_synonym privilege_t = u64

definition acl_bit :: "nat \<Rightarrow> privilege_t" where
  "acl_bit n = push_bit n 1"

definition NO_ACL :: privilege_t where
  "NO_ACL = 0"

definition SELECT_ACL :: privilege_t where
  "SELECT_ACL = acl_bit 0"

definition INSERT_ACL :: privilege_t where
  "INSERT_ACL = acl_bit 1"

definition UPDATE_ACL :: privilege_t where
  "UPDATE_ACL = acl_bit 2"

definition DELETE_ACL :: privilege_t where
  "DELETE_ACL = acl_bit 3"

definition CREATE_ACL :: privilege_t where
  "CREATE_ACL = acl_bit 4"

definition DROP_ACL :: privilege_t where
  "DROP_ACL = acl_bit 5"

definition RELOAD_ACL :: privilege_t where
  "RELOAD_ACL = acl_bit 6"

definition SHUTDOWN_ACL :: privilege_t where
  "SHUTDOWN_ACL = acl_bit 7"

definition PROCESS_ACL :: privilege_t where
  "PROCESS_ACL = acl_bit 8"

definition FILE_ACL :: privilege_t where
  "FILE_ACL = acl_bit 9"

definition GRANT_ACL :: privilege_t where
  "GRANT_ACL = acl_bit 10"

definition REFERENCES_ACL :: privilege_t where
  "REFERENCES_ACL = acl_bit 11"

definition INDEX_ACL :: privilege_t where
  "INDEX_ACL = acl_bit 12"

definition ALTER_ACL :: privilege_t where
  "ALTER_ACL = acl_bit 13"

definition SHOW_DB_ACL :: privilege_t where
  "SHOW_DB_ACL = acl_bit 14"

definition SUPER_ACL :: privilege_t where
  "SUPER_ACL = acl_bit 15"

definition CREATE_TMP_ACL :: privilege_t where
  "CREATE_TMP_ACL = acl_bit 16"

definition LOCK_TABLES_ACL :: privilege_t where
  "LOCK_TABLES_ACL = acl_bit 17"

definition EXECUTE_ACL :: privilege_t where
  "EXECUTE_ACL = acl_bit 18"

definition REPL_SLAVE_ACL :: privilege_t where
  "REPL_SLAVE_ACL = acl_bit 19"

definition BINLOG_MONITOR_ACL :: privilege_t where
  "BINLOG_MONITOR_ACL = acl_bit 20"

definition CREATE_VIEW_ACL :: privilege_t where
  "CREATE_VIEW_ACL = acl_bit 21"

definition SHOW_VIEW_ACL :: privilege_t where
  "SHOW_VIEW_ACL = acl_bit 22"

definition CREATE_PROC_ACL :: privilege_t where
  "CREATE_PROC_ACL = acl_bit 23"

definition ALTER_PROC_ACL :: privilege_t where
  "ALTER_PROC_ACL = acl_bit 24"

definition CREATE_USER_ACL :: privilege_t where
  "CREATE_USER_ACL = acl_bit 25"

definition EVENT_ACL :: privilege_t where
  "EVENT_ACL = acl_bit 26"

definition TRIGGER_ACL :: privilege_t where
  "TRIGGER_ACL = acl_bit 27"

definition CREATE_TABLESPACE_ACL :: privilege_t where
  "CREATE_TABLESPACE_ACL = acl_bit 28"

definition DELETE_HISTORY_ACL :: privilege_t where
  "DELETE_HISTORY_ACL = acl_bit 29"

definition SET_USER_ACL :: privilege_t where
  "SET_USER_ACL = acl_bit 30"

definition FEDERATED_ADMIN_ACL :: privilege_t where
  "FEDERATED_ADMIN_ACL = acl_bit 31"

definition CONNECTION_ADMIN_ACL :: privilege_t where
  "CONNECTION_ADMIN_ACL = acl_bit 32"

definition READ_ONLY_ADMIN_ACL :: privilege_t where
  "READ_ONLY_ADMIN_ACL = acl_bit 33"

definition REPL_SLAVE_ADMIN_ACL :: privilege_t where
  "REPL_SLAVE_ADMIN_ACL = acl_bit 34"

definition REPL_MASTER_ADMIN_ACL :: privilege_t where
  "REPL_MASTER_ADMIN_ACL = acl_bit 35"

definition BINLOG_ADMIN_ACL :: privilege_t where
  "BINLOG_ADMIN_ACL = acl_bit 36"

definition BINLOG_REPLAY_ACL :: privilege_t where
  "BINLOG_REPLAY_ACL = acl_bit 37"

definition SLAVE_MONITOR_ACL :: privilege_t where
  "SLAVE_MONITOR_ACL = acl_bit 38"

definition all_single_acls :: "privilege_t list" where
  "all_single_acls = [SELECT_ACL, INSERT_ACL, UPDATE_ACL, DELETE_ACL, CREATE_ACL,
     DROP_ACL, RELOAD_ACL, SHUTDOWN_ACL, PROCESS_ACL, FILE_ACL,
     GRANT_ACL, REFERENCES_ACL, INDEX_ACL, ALTER_ACL, SHOW_DB_ACL,
     SUPER_ACL, CREATE_TMP_ACL, LOCK_TABLES_ACL, EXECUTE_ACL, REPL_SLAVE_ACL,
     BINLOG_MONITOR_ACL, CREATE_VIEW_ACL, SHOW_VIEW_ACL, CREATE_PROC_ACL, ALTER_PROC_ACL,
     CREATE_USER_ACL, EVENT_ACL, TRIGGER_ACL, CREATE_TABLESPACE_ACL, DELETE_HISTORY_ACL,
     SET_USER_ACL, FEDERATED_ADMIN_ACL, CONNECTION_ADMIN_ACL, READ_ONLY_ADMIN_ACL, REPL_SLAVE_ADMIN_ACL,
     REPL_MASTER_ADMIN_ACL, BINLOG_ADMIN_ACL, BINLOG_REPLAY_ACL, SLAVE_MONITOR_ACL]"

section \<open>Combinations\<close>

definition ALL_KNOWN_BITS :: "privilege_t \<Rightarrow> privilege_t" where
  "ALL_KNOWN_BITS x = x OR (x - 1)"

definition LAST_100304_ACL :: privilege_t where
  "LAST_100304_ACL = DELETE_HISTORY_ACL"

definition LAST_100502_ACL :: privilege_t where
  "LAST_100502_ACL = BINLOG_REPLAY_ACL"

definition LAST_100508_ACL :: privilege_t where
  "LAST_100508_ACL = SLAVE_MONITOR_ACL"

definition LAST_CURRENT_ACL :: privilege_t where
  "LAST_CURRENT_ACL = LAST_100508_ACL"

definition PRIVILEGE_T_MAX_BIT :: u32 where
  "PRIVILEGE_T_MAX_BIT = my_bit_log2_uint64 LAST_CURRENT_ACL"

definition ALL_KNOWN_ACL_100304 :: privilege_t where
  "ALL_KNOWN_ACL_100304 = ALL_KNOWN_BITS LAST_100304_ACL"

definition ALL_KNOWN_ACL_100502 :: privilege_t where
  "ALL_KNOWN_ACL_100502 = ALL_KNOWN_BITS LAST_100502_ACL"

definition ALL_KNOWN_ACL_100508 :: privilege_t where
  "ALL_KNOWN_ACL_100508 = ALL_KNOWN_BITS LAST_100508_ACL"

definition ALL_KNOWN_ACL_100509 :: privilege_t where
  "ALL_KNOWN_ACL_100509 = ALL_KNOWN_ACL_100508"

definition ALL_KNOWN_ACL :: privilege_t where
  "ALL_KNOWN_ACL = ALL_KNOWN_BITS LAST_CURRENT_ACL"

definition GLOBAL_SUPER_ADDED_SINCE_USER_TABLE_ACLS :: privilege_t where
  "GLOBAL_SUPER_ADDED_SINCE_USER_TABLE_ACLS =
     SET_USER_ACL OR FEDERATED_ADMIN_ACL OR CONNECTION_ADMIN_ACL OR READ_ONLY_ADMIN_ACL OR
     REPL_SLAVE_ADMIN_ACL OR BINLOG_ADMIN_ACL OR BINLOG_REPLAY_ACL"

definition COL_DML_ACLS :: privilege_t where
  "COL_DML_ACLS = SELECT_ACL OR INSERT_ACL OR UPDATE_ACL OR DELETE_ACL"

definition VIEW_ACLS :: privilege_t where
  "VIEW_ACLS = CREATE_VIEW_ACL OR SHOW_VIEW_ACL"

definition STD_TABLE_DDL_ACLS :: privilege_t where
  "STD_TABLE_DDL_ACLS = CREATE_ACL OR DROP_ACL OR ALTER_ACL"

definition ALL_TABLE_DDL_ACLS :: privilege_t where
  "ALL_TABLE_DDL_ACLS = STD_TABLE_DDL_ACLS OR INDEX_ACL"

definition COL_ACLS :: privilege_t where
  "COL_ACLS = SELECT_ACL OR INSERT_ACL OR UPDATE_ACL OR REFERENCES_ACL"

definition PROC_DDL_ACLS :: privilege_t where
  "PROC_DDL_ACLS = CREATE_PROC_ACL OR ALTER_PROC_ACL"

definition SHOW_PROC_ACLS :: privilege_t where
  "SHOW_PROC_ACLS = PROC_DDL_ACLS OR EXECUTE_ACL"

definition TABLE_ACLS :: privilege_t where
  "TABLE_ACLS =
     COL_DML_ACLS OR ALL_TABLE_DDL_ACLS OR VIEW_ACLS OR GRANT_ACL OR REFERENCES_ACL OR
     TRIGGER_ACL OR DELETE_HISTORY_ACL"

definition DB_ACLS :: privilege_t where
  "DB_ACLS =
     TABLE_ACLS OR PROC_DDL_ACLS OR EXECUTE_ACL OR CREATE_TMP_ACL OR LOCK_TABLES_ACL OR
     EVENT_ACL"

definition PROC_ACLS :: privilege_t where
  "PROC_ACLS = ALTER_PROC_ACL OR EXECUTE_ACL OR GRANT_ACL"

definition GLOBAL_ACLS :: privilege_t where
  "GLOBAL_ACLS =
     DB_ACLS OR SHOW_DB_ACL OR CREATE_USER_ACL OR CREATE_TABLESPACE_ACL OR SUPER_ACL OR
     RELOAD_ACL OR SHUTDOWN_ACL OR PROCESS_ACL OR FILE_ACL OR REPL_SLAVE_ACL OR
     BINLOG_MONITOR_ACL OR GLOBAL_SUPER_ADDED_SINCE_USER_TABLE_ACLS OR REPL_MASTER_ADMIN_ACL OR
     SLAVE_MONITOR_ACL"

definition DEFAULT_CREATE_PROC_ACLS :: privilege_t where
  "DEFAULT_CREATE_PROC_ACLS = ALTER_PROC_ACL OR EXECUTE_ACL"

definition SHOW_CREATE_TABLE_ACLS :: privilege_t where
  "SHOW_CREATE_TABLE_ACLS =
     COL_DML_ACLS OR ALL_TABLE_DDL_ACLS OR TRIGGER_ACL OR REFERENCES_ACL OR GRANT_ACL OR
     VIEW_ACLS"

definition TMP_TABLE_ACLS :: privilege_t where
  "TMP_TABLE_ACLS = COL_DML_ACLS OR ALL_TABLE_DDL_ACLS"

definition DB_CHUNK0 :: privilege_t where
  "DB_CHUNK0 = COL_DML_ACLS OR CREATE_ACL OR DROP_ACL"

definition DB_CHUNK1 :: privilege_t where
  "DB_CHUNK1 = GRANT_ACL OR REFERENCES_ACL OR INDEX_ACL OR ALTER_ACL"

definition DB_CHUNK2 :: privilege_t where
  "DB_CHUNK2 = CREATE_TMP_ACL OR LOCK_TABLES_ACL"

definition DB_CHUNK3 :: privilege_t where
  "DB_CHUNK3 = VIEW_ACLS OR PROC_DDL_ACLS"

definition DB_CHUNK4 :: privilege_t where
  "DB_CHUNK4 = EXECUTE_ACL"

definition DB_CHUNK5 :: privilege_t where
  "DB_CHUNK5 = EVENT_ACL OR TRIGGER_ACL"

definition DB_CHUNK6 :: privilege_t where
  "DB_CHUNK6 = DELETE_HISTORY_ACL"

section \<open>Packing for the grant tables\<close>

definition fix_rights_for_db :: "privilege_t \<Rightarrow> privilege_t" where
  "fix_rights_for_db A =
     (A AND DB_CHUNK0) OR (push_bit 4 A AND DB_CHUNK1) OR (push_bit 6 A AND DB_CHUNK2) OR
     (push_bit 9 A AND DB_CHUNK3) OR (push_bit 2 A AND DB_CHUNK4) OR (push_bit 9 A AND DB_CHUNK5) OR
     (push_bit 10 A AND DB_CHUNK6)"

definition get_rights_for_db :: "privilege_t \<Rightarrow> privilege_t" where
  "get_rights_for_db A =
     (A AND DB_CHUNK0) OR drop_bit 4 (A AND DB_CHUNK1) OR drop_bit 6 (A AND DB_CHUNK2) OR
     drop_bit 9 (A AND DB_CHUNK3) OR drop_bit 2 (A AND DB_CHUNK4) OR drop_bit 9 (A AND DB_CHUNK5) OR
     drop_bit 10 (A AND DB_CHUNK6)"

definition TBL_CHUNK0 :: privilege_t where
  "TBL_CHUNK0 = DB_CHUNK0"

definition TBL_CHUNK1 :: privilege_t where
  "TBL_CHUNK1 = DB_CHUNK1"

definition TBL_CHUNK2 :: privilege_t where
  "TBL_CHUNK2 = CREATE_VIEW_ACL OR SHOW_VIEW_ACL"

definition TBL_CHUNK3 :: privilege_t where
  "TBL_CHUNK3 = TRIGGER_ACL"

definition TBL_CHUNK4 :: privilege_t where
  "TBL_CHUNK4 = DELETE_HISTORY_ACL"

definition fix_rights_for_table :: "privilege_t \<Rightarrow> privilege_t" where
  "fix_rights_for_table A =
     (A AND TBL_CHUNK0) OR (push_bit 4 A AND TBL_CHUNK1) OR (push_bit 11 A AND TBL_CHUNK2) OR
     (push_bit 15 A AND TBL_CHUNK3) OR (push_bit 16 A AND TBL_CHUNK4)"

definition get_rights_for_table :: "privilege_t \<Rightarrow> privilege_t" where
  "get_rights_for_table A =
     (A AND TBL_CHUNK0) OR drop_bit 4 (A AND TBL_CHUNK1) OR drop_bit 11 (A AND TBL_CHUNK2) OR
     drop_bit 15 (A AND TBL_CHUNK3) OR drop_bit 16 (A AND TBL_CHUNK4)"

definition fix_rights_for_column :: "privilege_t \<Rightarrow> privilege_t" where
  "fix_rights_for_column A =
     (let msk = SELECT_ACL OR INSERT_ACL OR UPDATE_ACL
      in (A AND msk) OR push_bit 8 (A AND NOT msk))"

definition get_rights_for_column :: "privilege_t \<Rightarrow> privilege_t" where
  "get_rights_for_column A =
     (let msk = SELECT_ACL OR INSERT_ACL OR UPDATE_ACL
      in (A AND msk) OR drop_bit 8 A)"

definition fix_rights_for_procedure :: "privilege_t \<Rightarrow> privilege_t" where
  "fix_rights_for_procedure A =
     (push_bit 18 A AND EXECUTE_ACL) OR (push_bit 23 A AND ALTER_PROC_ACL) OR (push_bit 8 A AND GRANT_ACL)"

definition get_rights_for_procedure :: "privilege_t \<Rightarrow> privilege_t" where
  "get_rights_for_procedure A =
     drop_bit 18 (A AND EXECUTE_ACL) OR drop_bit 23 (A AND ALTER_PROC_ACL) OR drop_bit 8 (A AND GRANT_ACL)"

section \<open>Privileges as sets of bits\<close>

lemma bit_acl_bit [simp]: "bit (acl_bit k) n \<longleftrightarrow> n = k \<and> k < 64"
  by (auto simp: acl_bit_def bit_simps)

lemmas acl_defs = SELECT_ACL_def INSERT_ACL_def UPDATE_ACL_def DELETE_ACL_def CREATE_ACL_def DROP_ACL_def RELOAD_ACL_def SHUTDOWN_ACL_def PROCESS_ACL_def FILE_ACL_def GRANT_ACL_def REFERENCES_ACL_def INDEX_ACL_def ALTER_ACL_def SHOW_DB_ACL_def SUPER_ACL_def CREATE_TMP_ACL_def LOCK_TABLES_ACL_def EXECUTE_ACL_def REPL_SLAVE_ACL_def BINLOG_MONITOR_ACL_def CREATE_VIEW_ACL_def SHOW_VIEW_ACL_def CREATE_PROC_ACL_def ALTER_PROC_ACL_def CREATE_USER_ACL_def EVENT_ACL_def TRIGGER_ACL_def CREATE_TABLESPACE_ACL_def DELETE_HISTORY_ACL_def SET_USER_ACL_def FEDERATED_ADMIN_ACL_def CONNECTION_ADMIN_ACL_def READ_ONLY_ADMIN_ACL_def REPL_SLAVE_ADMIN_ACL_def REPL_MASTER_ADMIN_ACL_def BINLOG_ADMIN_ACL_def BINLOG_REPLAY_ACL_def SLAVE_MONITOR_ACL_def

lemmas set_defs = COL_DML_ACLS_def VIEW_ACLS_def STD_TABLE_DDL_ACLS_def ALL_TABLE_DDL_ACLS_def COL_ACLS_def PROC_DDL_ACLS_def
  SHOW_PROC_ACLS_def TABLE_ACLS_def DB_ACLS_def PROC_ACLS_def GLOBAL_SUPER_ADDED_SINCE_USER_TABLE_ACLS_def GLOBAL_ACLS_def
  DEFAULT_CREATE_PROC_ACLS_def SHOW_CREATE_TABLE_ACLS_def TMP_TABLE_ACLS_def

lemmas chunk_defs = DB_CHUNK0_def DB_CHUNK1_def DB_CHUNK2_def DB_CHUNK3_def DB_CHUNK4_def DB_CHUNK5_def DB_CHUNK6_def
  TBL_CHUNK0_def TBL_CHUNK1_def TBL_CHUNK2_def TBL_CHUNK3_def TBL_CHUNK4_def

lemmas bit_ops = bit_and_iff bit_or_iff bit_not_iff bit_push_bit_iff bit_drop_bit_eq

lemma upt_64: "[0..<64] =
  [0, 1, 2, 3, 4, 5, 6, 7, 8, 9, 10, 11, 12, 13, 14, 15, 16, 17, 18, 19, 20, 21, 22, 23, 24, 25, 26, 27, 28, 29, 30, 31, 32, 33, 34, 35, 36, 37, 38, 39, 40, 41, 42, 43, 44, 45, 46, 47, 48, 49, 50, 51, 52, 53, 54, 55, 56, 57, 58, 59, 60, 61, 62, 63]"
  by code_simp

text \<open>Two words of 64 bits are equal when each of the 64 bits agrees.\<close>

lemma u64_bits_eqI: "list_all (\<lambda>n. bit v n \<longleftrightarrow> bit w n) [0..<64] \<Longrightarrow> v = w" for v w :: u64
  by (rule bit_word_eqI) (simp add: list_all_iff)

lemma db_round_trip: "fix_rights_for_db (get_rights_for_db A) = A AND DB_ACLS"
  unfolding fix_rights_for_db_def get_rights_for_db_def
  by (rule u64_bits_eqI) (simp add: upt_64 bit_ops chunk_defs set_defs acl_defs)

lemma db_round_trip2: "get_rights_for_db (fix_rights_for_db A) = take_bit 20 A"
  unfolding fix_rights_for_db_def get_rights_for_db_def
  by (rule u64_bits_eqI) (simp add: upt_64 bit_ops bit_take_bit_iff chunk_defs set_defs acl_defs)

lemma table_round_trip: "fix_rights_for_table (get_rights_for_table A) = A AND TABLE_ACLS"
  unfolding fix_rights_for_table_def get_rights_for_table_def
  by (rule u64_bits_eqI) (simp add: upt_64 bit_ops chunk_defs set_defs acl_defs)

lemma table_round_trip2: "get_rights_for_table (fix_rights_for_table A) = take_bit 14 A"
  unfolding fix_rights_for_table_def get_rights_for_table_def
  by (rule u64_bits_eqI) (simp add: upt_64 bit_ops bit_take_bit_iff chunk_defs set_defs acl_defs)

lemma procedure_round_trip: "fix_rights_for_procedure (get_rights_for_procedure A) = A AND PROC_ACLS"
  unfolding fix_rights_for_procedure_def get_rights_for_procedure_def
  by (rule u64_bits_eqI) (simp add: upt_64 bit_ops set_defs acl_defs)

lemma procedure_round_trip2: "get_rights_for_procedure (fix_rights_for_procedure A) = take_bit 3 A"
  unfolding fix_rights_for_procedure_def get_rights_for_procedure_def
  by (rule u64_bits_eqI) (simp add: upt_64 bit_ops bit_take_bit_iff acl_defs)

lemma column_round_trip: "fix_rights_for_column (get_rights_for_column (A AND COL_ACLS)) = A AND COL_ACLS"
  unfolding fix_rights_for_column_def get_rights_for_column_def Let_def
  by (rule u64_bits_eqI) (simp add: upt_64 bit_ops set_defs acl_defs)

lemma column_round_trip2: "get_rights_for_column (fix_rights_for_column A) = take_bit 56 A"
  unfolding fix_rights_for_column_def get_rights_for_column_def Let_def
  by (rule u64_bits_eqI) (simp add: upt_64 bit_ops bit_take_bit_iff acl_defs)

lemma ALL_KNOWN_ACL_mask: "ALL_KNOWN_ACL = mask 39"
  by (simp add: ALL_KNOWN_ACL_def ALL_KNOWN_BITS_def LAST_CURRENT_ACL_def LAST_100508_ACL_def SLAVE_MONITOR_ACL_def acl_bit_def mask_eq_exp_minus_1)

text \<open>
  Property C11: packing and unpacking the privileges of a grant table. Unpacking what was
  packed restores exactly the privileges that exist at that level (database, table,
  procedure, and column when only column privileges were given), and every packed
  representation comes back: the chunks fill the stored set without gaps or overlaps.
\<close>

theorem grant_table_round_trips:
  "fix_rights_for_db (get_rights_for_db A) = A AND DB_ACLS \<and>
   get_rights_for_db (fix_rights_for_db A) = take_bit 20 A \<and>
   fix_rights_for_table (get_rights_for_table A) = A AND TABLE_ACLS \<and>
   get_rights_for_table (fix_rights_for_table A) = take_bit 14 A \<and>
   fix_rights_for_procedure (get_rights_for_procedure A) = A AND PROC_ACLS \<and>
   get_rights_for_procedure (fix_rights_for_procedure A) = take_bit 3 A \<and>
   fix_rights_for_column (get_rights_for_column (A AND COL_ACLS)) = A AND COL_ACLS \<and>
   get_rights_for_column (fix_rights_for_column A) = take_bit 56 A"
  by (intro conjI db_round_trip db_round_trip2 table_round_trip table_round_trip2 procedure_round_trip
      procedure_round_trip2 column_round_trip column_round_trip2)

lemma acls_distinct: "distinct all_single_acls"
  unfolding all_single_acls_def acl_defs by code_simp

lemma acls_cover: "foldr (OR) all_single_acls 0 = ALL_KNOWN_ACL"
  unfolding ALL_KNOWN_ACL_mask all_single_acls_def acl_defs by code_simp

lemma global_is_all_known: "GLOBAL_ACLS = ALL_KNOWN_ACL"
  unfolding ALL_KNOWN_ACL_mask
  by (rule u64_bits_eqI) (simp add: upt_64 bit_ops bit_mask_iff set_defs acl_defs)

text \<open>
  The privilege sets are consistent. Every single-bit privilege is a different bit,
  together they are exactly the known bits, all of them can be granted globally, the last one
  is the highest bit, and the levels are nested: column and table privileges are database
  privileges, procedure privileges are database privileges.
\<close>

theorem privilege_sets_consistent:
  "distinct all_single_acls \<and> foldr (OR) all_single_acls 0 = ALL_KNOWN_ACL \<and> GLOBAL_ACLS = ALL_KNOWN_ACL \<and>
   acl_bit (unat PRIVILEGE_T_MAX_BIT) = LAST_CURRENT_ACL \<and>
   COL_ACLS AND NOT TABLE_ACLS = NO_ACL \<and> TABLE_ACLS AND NOT DB_ACLS = NO_ACL \<and> PROC_ACLS AND NOT DB_ACLS = NO_ACL \<and>
   DB_ACLS AND NOT GLOBAL_ACLS = NO_ACL"
proof (intro conjI acls_distinct acls_cover global_is_all_known)
  show "acl_bit (unat PRIVILEGE_T_MAX_BIT) = LAST_CURRENT_ACL" by code_simp
  show "COL_ACLS AND NOT TABLE_ACLS = NO_ACL"
    by (rule u64_bits_eqI) (simp add: upt_64 bit_ops set_defs acl_defs NO_ACL_def)
  show "TABLE_ACLS AND NOT DB_ACLS = NO_ACL"
    by (rule u64_bits_eqI) (simp add: upt_64 bit_ops set_defs acl_defs NO_ACL_def)
  show "PROC_ACLS AND NOT DB_ACLS = NO_ACL"
    by (rule u64_bits_eqI) (simp add: upt_64 bit_ops set_defs acl_defs NO_ACL_def)
  show "DB_ACLS AND NOT GLOBAL_ACLS = NO_ACL"
    by (rule u64_bits_eqI) (simp add: upt_64 bit_ops set_defs acl_defs NO_ACL_def)
qed

end
