(* ===== verification/PrivilegeActions.thy ===== *)
theory PrivilegeActions
  imports Privilege
begin

text \<open>
  The privileges each administrative action requires, from \<open>privilege.h\<close>: holding any bit of the
  set allows the action. One definition per constant of the header, in its order.
\<close>

unbundle bit_operations_syntax

definition PRIV_LOCK_TABLES :: privilege_t where
  "PRIV_LOCK_TABLES = SELECT_ACL OR LOCK_TABLES_ACL"

definition PRIV_DEFINER_CLAUSE :: privilege_t where
  "PRIV_DEFINER_CLAUSE = SET_USER_ACL OR SUPER_ACL"

definition PRIV_REVEAL_MISSING_DEFINER :: privilege_t where
  "PRIV_REVEAL_MISSING_DEFINER = SET_USER_ACL OR SUPER_ACL"

definition PRIV_DES_DECRYPT_ONE_ARG :: privilege_t where
  "PRIV_DES_DECRYPT_ONE_ARG = SUPER_ACL"

definition PRIV_LOG_BIN_TRUSTED_SP_CREATOR :: privilege_t where
  "PRIV_LOG_BIN_TRUSTED_SP_CREATOR = SUPER_ACL"

definition PRIV_DEBUG :: privilege_t where
  "PRIV_DEBUG = SUPER_ACL"

definition PRIV_SET_GLOBAL_SYSTEM_VARIABLE :: privilege_t where
  "PRIV_SET_GLOBAL_SYSTEM_VARIABLE = SUPER_ACL"

definition PRIV_SET_RESTRICTED_SESSION_SYSTEM_VARIABLE :: privilege_t where
  "PRIV_SET_RESTRICTED_SESSION_SYSTEM_VARIABLE = SUPER_ACL"

definition PRIV_SET_SYSTEM_VAR_BINLOG_FORMAT :: privilege_t where
  "PRIV_SET_SYSTEM_VAR_BINLOG_FORMAT = SUPER_ACL OR BINLOG_ADMIN_ACL"

definition PRIV_SET_SYSTEM_VAR_BINLOG_DIRECT_NON_TRANSACTIONAL_UPDATES :: privilege_t where
  "PRIV_SET_SYSTEM_VAR_BINLOG_DIRECT_NON_TRANSACTIONAL_UPDATES = SUPER_ACL OR BINLOG_ADMIN_ACL"

definition PRIV_SET_SYSTEM_VAR_BINLOG_ANNOTATE_ROW_EVENTS :: privilege_t where
  "PRIV_SET_SYSTEM_VAR_BINLOG_ANNOTATE_ROW_EVENTS = SUPER_ACL OR BINLOG_ADMIN_ACL"

definition PRIV_SET_SYSTEM_VAR_BINLOG_ROW_IMAGE :: privilege_t where
  "PRIV_SET_SYSTEM_VAR_BINLOG_ROW_IMAGE = SUPER_ACL OR BINLOG_ADMIN_ACL"

definition PRIV_SET_SYSTEM_VAR_SQL_LOG_BIN :: privilege_t where
  "PRIV_SET_SYSTEM_VAR_SQL_LOG_BIN = SUPER_ACL OR BINLOG_ADMIN_ACL"

definition PRIV_SET_SYSTEM_GLOBAL_VAR_BINLOG_CACHE_SIZE :: privilege_t where
  "PRIV_SET_SYSTEM_GLOBAL_VAR_BINLOG_CACHE_SIZE = SUPER_ACL OR BINLOG_ADMIN_ACL"

definition PRIV_SET_SYSTEM_GLOBAL_VAR_BINLOG_FILE_CACHE_SIZE :: privilege_t where
  "PRIV_SET_SYSTEM_GLOBAL_VAR_BINLOG_FILE_CACHE_SIZE = SUPER_ACL OR BINLOG_ADMIN_ACL"

definition PRIV_SET_SYSTEM_GLOBAL_VAR_BINLOG_STMT_CACHE_SIZE :: privilege_t where
  "PRIV_SET_SYSTEM_GLOBAL_VAR_BINLOG_STMT_CACHE_SIZE = SUPER_ACL OR BINLOG_ADMIN_ACL"

definition PRIV_SET_SYSTEM_GLOBAL_VAR_BINLOG_COMMIT_WAIT_COUNT :: privilege_t where
  "PRIV_SET_SYSTEM_GLOBAL_VAR_BINLOG_COMMIT_WAIT_COUNT = SUPER_ACL OR BINLOG_ADMIN_ACL"

definition PRIV_SET_SYSTEM_GLOBAL_VAR_BINLOG_COMMIT_WAIT_USEC :: privilege_t where
  "PRIV_SET_SYSTEM_GLOBAL_VAR_BINLOG_COMMIT_WAIT_USEC = SUPER_ACL OR BINLOG_ADMIN_ACL"

definition PRIV_SET_SYSTEM_GLOBAL_VAR_BINLOG_ROW_METADATA :: privilege_t where
  "PRIV_SET_SYSTEM_GLOBAL_VAR_BINLOG_ROW_METADATA = SUPER_ACL OR BINLOG_ADMIN_ACL"

definition PRIV_SET_SYSTEM_GLOBAL_VAR_EXPIRE_LOGS_DAYS :: privilege_t where
  "PRIV_SET_SYSTEM_GLOBAL_VAR_EXPIRE_LOGS_DAYS = SUPER_ACL OR BINLOG_ADMIN_ACL"

definition PRIV_SET_SYSTEM_GLOBAL_VAR_LOG_BIN_COMPRESS :: privilege_t where
  "PRIV_SET_SYSTEM_GLOBAL_VAR_LOG_BIN_COMPRESS = SUPER_ACL OR BINLOG_ADMIN_ACL"

definition PRIV_SET_SYSTEM_GLOBAL_VAR_LOG_BIN_COMPRESS_MIN_LEN :: privilege_t where
  "PRIV_SET_SYSTEM_GLOBAL_VAR_LOG_BIN_COMPRESS_MIN_LEN = SUPER_ACL OR BINLOG_ADMIN_ACL"

definition PRIV_SET_SYSTEM_GLOBAL_VAR_LOG_BIN_TRUST_FUNCTION_CREATORS :: privilege_t where
  "PRIV_SET_SYSTEM_GLOBAL_VAR_LOG_BIN_TRUST_FUNCTION_CREATORS = SUPER_ACL OR BINLOG_ADMIN_ACL"

definition PRIV_SET_SYSTEM_GLOBAL_VAR_MAX_BINLOG_CACHE_SIZE :: privilege_t where
  "PRIV_SET_SYSTEM_GLOBAL_VAR_MAX_BINLOG_CACHE_SIZE = SUPER_ACL OR BINLOG_ADMIN_ACL"

definition PRIV_SET_SYSTEM_GLOBAL_VAR_MAX_BINLOG_STMT_CACHE_SIZE :: privilege_t where
  "PRIV_SET_SYSTEM_GLOBAL_VAR_MAX_BINLOG_STMT_CACHE_SIZE = SUPER_ACL OR BINLOG_ADMIN_ACL"

definition PRIV_SET_SYSTEM_GLOBAL_VAR_MAX_BINLOG_SIZE :: privilege_t where
  "PRIV_SET_SYSTEM_GLOBAL_VAR_MAX_BINLOG_SIZE = SUPER_ACL OR BINLOG_ADMIN_ACL"

definition PRIV_SET_SYSTEM_GLOBAL_VAR_SYNC_BINLOG :: privilege_t where
  "PRIV_SET_SYSTEM_GLOBAL_VAR_SYNC_BINLOG = SUPER_ACL OR BINLOG_ADMIN_ACL"

definition PRIV_IGNORE_READ_ONLY :: privilege_t where
  "PRIV_IGNORE_READ_ONLY = READ_ONLY_ADMIN_ACL OR SUPER_ACL"

definition PRIV_SET_SYSTEM_GLOBAL_VAR_READ_ONLY :: privilege_t where
  "PRIV_SET_SYSTEM_GLOBAL_VAR_READ_ONLY = READ_ONLY_ADMIN_ACL OR SUPER_ACL"

definition PRIV_IGNORE_INIT_CONNECT :: privilege_t where
  "PRIV_IGNORE_INIT_CONNECT = CONNECTION_ADMIN_ACL OR SUPER_ACL"

definition PRIV_IGNORE_MAX_USER_CONNECTIONS :: privilege_t where
  "PRIV_IGNORE_MAX_USER_CONNECTIONS = CONNECTION_ADMIN_ACL OR SUPER_ACL"

definition PRIV_IGNORE_MAX_CONNECTIONS :: privilege_t where
  "PRIV_IGNORE_MAX_CONNECTIONS = CONNECTION_ADMIN_ACL OR SUPER_ACL"

definition PRIV_IGNORE_MAX_PASSWORD_ERRORS :: privilege_t where
  "PRIV_IGNORE_MAX_PASSWORD_ERRORS = CONNECTION_ADMIN_ACL OR SUPER_ACL"

definition PRIV_KILL_OTHER_USER_PROCESS :: privilege_t where
  "PRIV_KILL_OTHER_USER_PROCESS = CONNECTION_ADMIN_ACL OR SUPER_ACL"

definition PRIV_SET_SYSTEM_GLOBAL_VAR_CONNECT_TIMEOUT :: privilege_t where
  "PRIV_SET_SYSTEM_GLOBAL_VAR_CONNECT_TIMEOUT = CONNECTION_ADMIN_ACL OR SUPER_ACL"

definition PRIV_SET_SYSTEM_GLOBAL_VAR_DISCONNECT_ON_EXPIRED_PASSWORD :: privilege_t where
  "PRIV_SET_SYSTEM_GLOBAL_VAR_DISCONNECT_ON_EXPIRED_PASSWORD = CONNECTION_ADMIN_ACL OR SUPER_ACL"

definition PRIV_SET_SYSTEM_GLOBAL_VAR_EXTRA_MAX_CONNECTIONS :: privilege_t where
  "PRIV_SET_SYSTEM_GLOBAL_VAR_EXTRA_MAX_CONNECTIONS = CONNECTION_ADMIN_ACL OR SUPER_ACL"

definition PRIV_SET_SYSTEM_GLOBAL_VAR_INIT_CONNECT :: privilege_t where
  "PRIV_SET_SYSTEM_GLOBAL_VAR_INIT_CONNECT = CONNECTION_ADMIN_ACL OR SUPER_ACL"

definition PRIV_SET_SYSTEM_GLOBAL_VAR_MAX_CONNECTIONS :: privilege_t where
  "PRIV_SET_SYSTEM_GLOBAL_VAR_MAX_CONNECTIONS = CONNECTION_ADMIN_ACL OR SUPER_ACL"

definition PRIV_SET_SYSTEM_GLOBAL_VAR_MAX_CONNECT_ERRORS :: privilege_t where
  "PRIV_SET_SYSTEM_GLOBAL_VAR_MAX_CONNECT_ERRORS = CONNECTION_ADMIN_ACL OR SUPER_ACL"

definition PRIV_SET_SYSTEM_GLOBAL_VAR_MAX_PASSWORD_ERRORS :: privilege_t where
  "PRIV_SET_SYSTEM_GLOBAL_VAR_MAX_PASSWORD_ERRORS = CONNECTION_ADMIN_ACL OR SUPER_ACL"

definition PRIV_SET_SYSTEM_GLOBAL_VAR_PROXY_PROTOCOL_NETWORKS :: privilege_t where
  "PRIV_SET_SYSTEM_GLOBAL_VAR_PROXY_PROTOCOL_NETWORKS = CONNECTION_ADMIN_ACL OR SUPER_ACL"

definition PRIV_SET_SYSTEM_GLOBAL_VAR_SECURE_AUTH :: privilege_t where
  "PRIV_SET_SYSTEM_GLOBAL_VAR_SECURE_AUTH = CONNECTION_ADMIN_ACL OR SUPER_ACL"

definition PRIV_SET_SYSTEM_GLOBAL_VAR_SLOW_LAUNCH_TIME :: privilege_t where
  "PRIV_SET_SYSTEM_GLOBAL_VAR_SLOW_LAUNCH_TIME = CONNECTION_ADMIN_ACL OR SUPER_ACL"

definition PRIV_SET_SYSTEM_GLOBAL_VAR_THREAD_POOL :: privilege_t where
  "PRIV_SET_SYSTEM_GLOBAL_VAR_THREAD_POOL = CONNECTION_ADMIN_ACL OR SUPER_ACL"

definition PRIV_STMT_SHOW_BINLOG_STATUS :: privilege_t where
  "PRIV_STMT_SHOW_BINLOG_STATUS = BINLOG_MONITOR_ACL OR SUPER_ACL"

definition PRIV_STMT_SHOW_BINARY_LOGS :: privilege_t where
  "PRIV_STMT_SHOW_BINARY_LOGS = BINLOG_MONITOR_ACL OR SUPER_ACL"

definition PRIV_STMT_PURGE_BINLOG :: privilege_t where
  "PRIV_STMT_PURGE_BINLOG = BINLOG_ADMIN_ACL OR SUPER_ACL"

definition PRIV_STMT_SHOW_BINLOG_EVENTS :: privilege_t where
  "PRIV_STMT_SHOW_BINLOG_EVENTS = BINLOG_MONITOR_ACL"

definition PRIV_COM_REGISTER_SLAVE :: privilege_t where
  "PRIV_COM_REGISTER_SLAVE = REPL_SLAVE_ACL"

definition PRIV_COM_BINLOG_DUMP :: privilege_t where
  "PRIV_COM_BINLOG_DUMP = REPL_SLAVE_ACL"

definition PRIV_STMT_SHOW_SLAVE_HOSTS :: privilege_t where
  "PRIV_STMT_SHOW_SLAVE_HOSTS = REPL_MASTER_ADMIN_ACL"

definition PRIV_SET_SYSTEM_GLOBAL_VAR_RPL_SEMI_SYNC_MASTER_ENABLED :: privilege_t where
  "PRIV_SET_SYSTEM_GLOBAL_VAR_RPL_SEMI_SYNC_MASTER_ENABLED = REPL_MASTER_ADMIN_ACL OR SUPER_ACL"

definition PRIV_SET_SYSTEM_GLOBAL_VAR_RPL_SEMI_SYNC_MASTER_TIMEOUT :: privilege_t where
  "PRIV_SET_SYSTEM_GLOBAL_VAR_RPL_SEMI_SYNC_MASTER_TIMEOUT = REPL_MASTER_ADMIN_ACL OR SUPER_ACL"

definition PRIV_SET_SYSTEM_GLOBAL_VAR_RPL_SEMI_SYNC_MASTER_WAIT_NO_SLAVE :: privilege_t where
  "PRIV_SET_SYSTEM_GLOBAL_VAR_RPL_SEMI_SYNC_MASTER_WAIT_NO_SLAVE =
     REPL_MASTER_ADMIN_ACL OR SUPER_ACL"

definition PRIV_SET_SYSTEM_GLOBAL_VAR_RPL_SEMI_SYNC_MASTER_TRACE_LEVEL :: privilege_t where
  "PRIV_SET_SYSTEM_GLOBAL_VAR_RPL_SEMI_SYNC_MASTER_TRACE_LEVEL =
     REPL_MASTER_ADMIN_ACL OR SUPER_ACL"

definition PRIV_SET_SYSTEM_GLOBAL_VAR_RPL_SEMI_SYNC_MASTER_WAIT_POINT :: privilege_t where
  "PRIV_SET_SYSTEM_GLOBAL_VAR_RPL_SEMI_SYNC_MASTER_WAIT_POINT =
     REPL_MASTER_ADMIN_ACL OR SUPER_ACL"

definition PRIV_SET_SYSTEM_GLOBAL_VAR_MASTER_VERIFY_CHECKSUM :: privilege_t where
  "PRIV_SET_SYSTEM_GLOBAL_VAR_MASTER_VERIFY_CHECKSUM = REPL_MASTER_ADMIN_ACL OR SUPER_ACL"

definition PRIV_SET_SYSTEM_GLOBAL_VAR_GTID_BINLOG_STATE :: privilege_t where
  "PRIV_SET_SYSTEM_GLOBAL_VAR_GTID_BINLOG_STATE = REPL_MASTER_ADMIN_ACL OR SUPER_ACL"

definition PRIV_SET_SYSTEM_GLOBAL_VAR_SERVER_ID :: privilege_t where
  "PRIV_SET_SYSTEM_GLOBAL_VAR_SERVER_ID = REPL_MASTER_ADMIN_ACL OR SUPER_ACL"

definition PRIV_SET_SYSTEM_GLOBAL_VAR_GTID_DOMAIN_ID :: privilege_t where
  "PRIV_SET_SYSTEM_GLOBAL_VAR_GTID_DOMAIN_ID = REPL_MASTER_ADMIN_ACL OR SUPER_ACL"

definition PRIV_STMT_START_SLAVE :: privilege_t where
  "PRIV_STMT_START_SLAVE = REPL_SLAVE_ADMIN_ACL OR SUPER_ACL"

definition PRIV_STMT_STOP_SLAVE :: privilege_t where
  "PRIV_STMT_STOP_SLAVE = REPL_SLAVE_ADMIN_ACL OR SUPER_ACL"

definition PRIV_STMT_CHANGE_MASTER :: privilege_t where
  "PRIV_STMT_CHANGE_MASTER = REPL_SLAVE_ADMIN_ACL OR SUPER_ACL"

definition PRIV_STMT_SHOW_SLAVE_STATUS :: privilege_t where
  "PRIV_STMT_SHOW_SLAVE_STATUS = SLAVE_MONITOR_ACL OR SUPER_ACL"

definition PRIV_STMT_SHOW_RELAYLOG_EVENTS :: privilege_t where
  "PRIV_STMT_SHOW_RELAYLOG_EVENTS = SLAVE_MONITOR_ACL"

definition PRIV_STMT_BINLOG :: privilege_t where
  "PRIV_STMT_BINLOG = BINLOG_REPLAY_ACL OR SUPER_ACL"

definition PRIV_SET_SYSTEM_SESSION_VAR_GTID_SEQ_NO :: privilege_t where
  "PRIV_SET_SYSTEM_SESSION_VAR_GTID_SEQ_NO = BINLOG_REPLAY_ACL OR SUPER_ACL"

definition PRIV_SET_SYSTEM_SESSION_VAR_PSEUDO_THREAD_ID :: privilege_t where
  "PRIV_SET_SYSTEM_SESSION_VAR_PSEUDO_THREAD_ID = BINLOG_REPLAY_ACL OR SUPER_ACL"

definition PRIV_SET_SYSTEM_SESSION_VAR_SERVER_ID :: privilege_t where
  "PRIV_SET_SYSTEM_SESSION_VAR_SERVER_ID = BINLOG_REPLAY_ACL OR SUPER_ACL"

definition PRIV_SET_SYSTEM_SESSION_VAR_GTID_DOMAIN_ID :: privilege_t where
  "PRIV_SET_SYSTEM_SESSION_VAR_GTID_DOMAIN_ID = BINLOG_REPLAY_ACL OR SUPER_ACL"

definition PRIV_SET_SYSTEM_GLOBAL_VAR_REPLICATE_EVENTS_MARKED_FOR_SKIP :: privilege_t where
  "PRIV_SET_SYSTEM_GLOBAL_VAR_REPLICATE_EVENTS_MARKED_FOR_SKIP =
     REPL_SLAVE_ADMIN_ACL OR SUPER_ACL"

definition PRIV_SET_SYSTEM_GLOBAL_VAR_REPLICATE_DO_DB :: privilege_t where
  "PRIV_SET_SYSTEM_GLOBAL_VAR_REPLICATE_DO_DB = REPL_SLAVE_ADMIN_ACL OR SUPER_ACL"

definition PRIV_SET_SYSTEM_GLOBAL_VAR_REPLICATE_DO_TABLE :: privilege_t where
  "PRIV_SET_SYSTEM_GLOBAL_VAR_REPLICATE_DO_TABLE = REPL_SLAVE_ADMIN_ACL OR SUPER_ACL"

definition PRIV_SET_SYSTEM_GLOBAL_VAR_REPLICATE_IGNORE_DB :: privilege_t where
  "PRIV_SET_SYSTEM_GLOBAL_VAR_REPLICATE_IGNORE_DB = REPL_SLAVE_ADMIN_ACL OR SUPER_ACL"

definition PRIV_SET_SYSTEM_GLOBAL_VAR_REPLICATE_IGNORE_TABLE :: privilege_t where
  "PRIV_SET_SYSTEM_GLOBAL_VAR_REPLICATE_IGNORE_TABLE = REPL_SLAVE_ADMIN_ACL OR SUPER_ACL"

definition PRIV_SET_SYSTEM_GLOBAL_VAR_REPLICATE_WILD_DO_TABLE :: privilege_t where
  "PRIV_SET_SYSTEM_GLOBAL_VAR_REPLICATE_WILD_DO_TABLE = REPL_SLAVE_ADMIN_ACL OR SUPER_ACL"

definition PRIV_SET_SYSTEM_GLOBAL_VAR_REPLICATE_WILD_IGNORE_TABLE :: privilege_t where
  "PRIV_SET_SYSTEM_GLOBAL_VAR_REPLICATE_WILD_IGNORE_TABLE = REPL_SLAVE_ADMIN_ACL OR SUPER_ACL"

definition PRIV_SET_SYSTEM_GLOBAL_VAR_READ_BINLOG_SPEED_LIMIT :: privilege_t where
  "PRIV_SET_SYSTEM_GLOBAL_VAR_READ_BINLOG_SPEED_LIMIT = REPL_SLAVE_ADMIN_ACL OR SUPER_ACL"

definition PRIV_SET_SYSTEM_GLOBAL_VAR_SLAVE_COMPRESSED_PROTOCOL :: privilege_t where
  "PRIV_SET_SYSTEM_GLOBAL_VAR_SLAVE_COMPRESSED_PROTOCOL = REPL_SLAVE_ADMIN_ACL OR SUPER_ACL"

definition PRIV_SET_SYSTEM_GLOBAL_VAR_SLAVE_DDL_EXEC_MODE :: privilege_t where
  "PRIV_SET_SYSTEM_GLOBAL_VAR_SLAVE_DDL_EXEC_MODE = REPL_SLAVE_ADMIN_ACL OR SUPER_ACL"

definition PRIV_SET_SYSTEM_GLOBAL_VAR_SLAVE_DOMAIN_PARALLEL_THREADS :: privilege_t where
  "PRIV_SET_SYSTEM_GLOBAL_VAR_SLAVE_DOMAIN_PARALLEL_THREADS = REPL_SLAVE_ADMIN_ACL OR SUPER_ACL"

definition PRIV_SET_SYSTEM_GLOBAL_VAR_SLAVE_EXEC_MODE :: privilege_t where
  "PRIV_SET_SYSTEM_GLOBAL_VAR_SLAVE_EXEC_MODE = REPL_SLAVE_ADMIN_ACL OR SUPER_ACL"

definition PRIV_SET_SYSTEM_GLOBAL_VAR_SLAVE_MAX_ALLOWED_PACKET :: privilege_t where
  "PRIV_SET_SYSTEM_GLOBAL_VAR_SLAVE_MAX_ALLOWED_PACKET = REPL_SLAVE_ADMIN_ACL OR SUPER_ACL"

definition PRIV_SET_SYSTEM_GLOBAL_VAR_SLAVE_NET_TIMEOUT :: privilege_t where
  "PRIV_SET_SYSTEM_GLOBAL_VAR_SLAVE_NET_TIMEOUT = REPL_SLAVE_ADMIN_ACL OR SUPER_ACL"

definition PRIV_SET_SYSTEM_GLOBAL_VAR_SLAVE_PARALLEL_MAX_QUEUED :: privilege_t where
  "PRIV_SET_SYSTEM_GLOBAL_VAR_SLAVE_PARALLEL_MAX_QUEUED = REPL_SLAVE_ADMIN_ACL OR SUPER_ACL"

definition PRIV_SET_SYSTEM_GLOBAL_VAR_SLAVE_PARALLEL_MODE :: privilege_t where
  "PRIV_SET_SYSTEM_GLOBAL_VAR_SLAVE_PARALLEL_MODE = REPL_SLAVE_ADMIN_ACL OR SUPER_ACL"

definition PRIV_SET_SYSTEM_GLOBAL_VAR_SLAVE_PARALLEL_THREADS :: privilege_t where
  "PRIV_SET_SYSTEM_GLOBAL_VAR_SLAVE_PARALLEL_THREADS = REPL_SLAVE_ADMIN_ACL OR SUPER_ACL"

definition PRIV_SET_SYSTEM_GLOBAL_VAR_SLAVE_PARALLEL_WORKERS :: privilege_t where
  "PRIV_SET_SYSTEM_GLOBAL_VAR_SLAVE_PARALLEL_WORKERS = REPL_SLAVE_ADMIN_ACL OR SUPER_ACL"

definition PRIV_SET_SYSTEM_GLOBAL_VAR_SLAVE_RUN_TRIGGERS_FOR_RBR :: privilege_t where
  "PRIV_SET_SYSTEM_GLOBAL_VAR_SLAVE_RUN_TRIGGERS_FOR_RBR = REPL_SLAVE_ADMIN_ACL OR SUPER_ACL"

definition PRIV_SET_SYSTEM_GLOBAL_VAR_SLAVE_SQL_VERIFY_CHECKSUM :: privilege_t where
  "PRIV_SET_SYSTEM_GLOBAL_VAR_SLAVE_SQL_VERIFY_CHECKSUM = REPL_SLAVE_ADMIN_ACL OR SUPER_ACL"

definition PRIV_SET_SYSTEM_GLOBAL_VAR_SLAVE_TRANSACTION_RETRY_INTERVAL :: privilege_t where
  "PRIV_SET_SYSTEM_GLOBAL_VAR_SLAVE_TRANSACTION_RETRY_INTERVAL =
     REPL_SLAVE_ADMIN_ACL OR SUPER_ACL"

definition PRIV_SET_SYSTEM_GLOBAL_VAR_SLAVE_TYPE_CONVERSIONS :: privilege_t where
  "PRIV_SET_SYSTEM_GLOBAL_VAR_SLAVE_TYPE_CONVERSIONS = REPL_SLAVE_ADMIN_ACL OR SUPER_ACL"

definition PRIV_SET_SYSTEM_GLOBAL_VAR_INIT_SLAVE :: privilege_t where
  "PRIV_SET_SYSTEM_GLOBAL_VAR_INIT_SLAVE = REPL_SLAVE_ADMIN_ACL OR SUPER_ACL"

definition PRIV_SET_SYSTEM_GLOBAL_VAR_RPL_SEMI_SYNC_SLAVE_ENABLED :: privilege_t where
  "PRIV_SET_SYSTEM_GLOBAL_VAR_RPL_SEMI_SYNC_SLAVE_ENABLED = REPL_SLAVE_ADMIN_ACL OR SUPER_ACL"

definition PRIV_SET_SYSTEM_GLOBAL_VAR_RPL_SEMI_SYNC_SLAVE_TRACE_LEVEL :: privilege_t where
  "PRIV_SET_SYSTEM_GLOBAL_VAR_RPL_SEMI_SYNC_SLAVE_TRACE_LEVEL =
     REPL_SLAVE_ADMIN_ACL OR SUPER_ACL"

definition PRIV_SET_SYSTEM_GLOBAL_VAR_RPL_SEMI_SYNC_SLAVE_DELAY_MASTER :: privilege_t where
  "PRIV_SET_SYSTEM_GLOBAL_VAR_RPL_SEMI_SYNC_SLAVE_DELAY_MASTER =
     REPL_SLAVE_ADMIN_ACL OR SUPER_ACL"

definition PRIV_SET_SYSTEM_GLOBAL_VAR_RPL_SEMI_SYNC_SLAVE_KILL_CONN_TIMEOUT :: privilege_t where
  "PRIV_SET_SYSTEM_GLOBAL_VAR_RPL_SEMI_SYNC_SLAVE_KILL_CONN_TIMEOUT =
     REPL_SLAVE_ADMIN_ACL OR SUPER_ACL"

definition PRIV_SET_SYSTEM_GLOBAL_VAR_RELAY_LOG_PURGE :: privilege_t where
  "PRIV_SET_SYSTEM_GLOBAL_VAR_RELAY_LOG_PURGE = REPL_SLAVE_ADMIN_ACL OR SUPER_ACL"

definition PRIV_SET_SYSTEM_GLOBAL_VAR_RELAY_LOG_RECOVERY :: privilege_t where
  "PRIV_SET_SYSTEM_GLOBAL_VAR_RELAY_LOG_RECOVERY = REPL_SLAVE_ADMIN_ACL OR SUPER_ACL"

definition PRIV_SET_SYSTEM_GLOBAL_VAR_SYNC_MASTER_INFO :: privilege_t where
  "PRIV_SET_SYSTEM_GLOBAL_VAR_SYNC_MASTER_INFO = REPL_SLAVE_ADMIN_ACL OR SUPER_ACL"

definition PRIV_SET_SYSTEM_GLOBAL_VAR_SYNC_RELAY_LOG :: privilege_t where
  "PRIV_SET_SYSTEM_GLOBAL_VAR_SYNC_RELAY_LOG = REPL_SLAVE_ADMIN_ACL OR SUPER_ACL"

definition PRIV_SET_SYSTEM_GLOBAL_VAR_SYNC_RELAY_LOG_INFO :: privilege_t where
  "PRIV_SET_SYSTEM_GLOBAL_VAR_SYNC_RELAY_LOG_INFO = REPL_SLAVE_ADMIN_ACL OR SUPER_ACL"

definition PRIV_SET_SYSTEM_GLOBAL_VAR_GTID_CLEANUP_BATCH_SIZE :: privilege_t where
  "PRIV_SET_SYSTEM_GLOBAL_VAR_GTID_CLEANUP_BATCH_SIZE = REPL_SLAVE_ADMIN_ACL OR SUPER_ACL"

definition PRIV_SET_SYSTEM_GLOBAL_VAR_GTID_IGNORE_DUPLICATES :: privilege_t where
  "PRIV_SET_SYSTEM_GLOBAL_VAR_GTID_IGNORE_DUPLICATES = REPL_SLAVE_ADMIN_ACL OR SUPER_ACL"

definition PRIV_SET_SYSTEM_GLOBAL_VAR_GTID_POS_AUTO_ENGINES :: privilege_t where
  "PRIV_SET_SYSTEM_GLOBAL_VAR_GTID_POS_AUTO_ENGINES = REPL_SLAVE_ADMIN_ACL OR SUPER_ACL"

definition PRIV_SET_SYSTEM_GLOBAL_VAR_GTID_SLAVE_POS :: privilege_t where
  "PRIV_SET_SYSTEM_GLOBAL_VAR_GTID_SLAVE_POS = REPL_SLAVE_ADMIN_ACL OR SUPER_ACL"

definition PRIV_SET_SYSTEM_GLOBAL_VAR_GTID_STRICT_MODE :: privilege_t where
  "PRIV_SET_SYSTEM_GLOBAL_VAR_GTID_STRICT_MODE = REPL_SLAVE_ADMIN_ACL OR SUPER_ACL"

definition PRIV_STMT_CREATE_SERVER :: privilege_t where
  "PRIV_STMT_CREATE_SERVER = FEDERATED_ADMIN_ACL OR SUPER_ACL"

definition PRIV_STMT_ALTER_SERVER :: privilege_t where
  "PRIV_STMT_ALTER_SERVER = FEDERATED_ADMIN_ACL OR SUPER_ACL"

definition PRIV_STMT_DROP_SERVER :: privilege_t where
  "PRIV_STMT_DROP_SERVER = FEDERATED_ADMIN_ACL OR SUPER_ACL"

definition PRIV_COM_PROCESS_INFO :: privilege_t where
  "PRIV_COM_PROCESS_INFO = PROCESS_ACL"

definition PRIV_STMT_SHOW_EXPLAIN :: privilege_t where
  "PRIV_STMT_SHOW_EXPLAIN = PROCESS_ACL"

definition PRIV_STMT_SHOW_ENGINE_STATUS :: privilege_t where
  "PRIV_STMT_SHOW_ENGINE_STATUS = PROCESS_ACL"

definition PRIV_STMT_SHOW_ENGINE_MUTEX :: privilege_t where
  "PRIV_STMT_SHOW_ENGINE_MUTEX = PROCESS_ACL"

definition PRIV_STMT_SHOW_PROCESSLIST :: privilege_t where
  "PRIV_STMT_SHOW_PROCESSLIST = PROCESS_ACL"


text \<open>All of them, in the order of the header.\<close>

definition all_action_privs :: "privilege_t list" where
  "all_action_privs =
     [PRIV_LOCK_TABLES,
      PRIV_DEFINER_CLAUSE,
      PRIV_REVEAL_MISSING_DEFINER,
      PRIV_DES_DECRYPT_ONE_ARG,
      PRIV_LOG_BIN_TRUSTED_SP_CREATOR,
      PRIV_DEBUG,
      PRIV_SET_GLOBAL_SYSTEM_VARIABLE,
      PRIV_SET_RESTRICTED_SESSION_SYSTEM_VARIABLE,
      PRIV_SET_SYSTEM_VAR_BINLOG_FORMAT,
      PRIV_SET_SYSTEM_VAR_BINLOG_DIRECT_NON_TRANSACTIONAL_UPDATES,
      PRIV_SET_SYSTEM_VAR_BINLOG_ANNOTATE_ROW_EVENTS,
      PRIV_SET_SYSTEM_VAR_BINLOG_ROW_IMAGE,
      PRIV_SET_SYSTEM_VAR_SQL_LOG_BIN,
      PRIV_SET_SYSTEM_GLOBAL_VAR_BINLOG_CACHE_SIZE,
      PRIV_SET_SYSTEM_GLOBAL_VAR_BINLOG_FILE_CACHE_SIZE,
      PRIV_SET_SYSTEM_GLOBAL_VAR_BINLOG_STMT_CACHE_SIZE,
      PRIV_SET_SYSTEM_GLOBAL_VAR_BINLOG_COMMIT_WAIT_COUNT,
      PRIV_SET_SYSTEM_GLOBAL_VAR_BINLOG_COMMIT_WAIT_USEC,
      PRIV_SET_SYSTEM_GLOBAL_VAR_BINLOG_ROW_METADATA,
      PRIV_SET_SYSTEM_GLOBAL_VAR_EXPIRE_LOGS_DAYS,
      PRIV_SET_SYSTEM_GLOBAL_VAR_LOG_BIN_COMPRESS,
      PRIV_SET_SYSTEM_GLOBAL_VAR_LOG_BIN_COMPRESS_MIN_LEN,
      PRIV_SET_SYSTEM_GLOBAL_VAR_LOG_BIN_TRUST_FUNCTION_CREATORS,
      PRIV_SET_SYSTEM_GLOBAL_VAR_MAX_BINLOG_CACHE_SIZE,
      PRIV_SET_SYSTEM_GLOBAL_VAR_MAX_BINLOG_STMT_CACHE_SIZE,
      PRIV_SET_SYSTEM_GLOBAL_VAR_MAX_BINLOG_SIZE,
      PRIV_SET_SYSTEM_GLOBAL_VAR_SYNC_BINLOG,
      PRIV_IGNORE_READ_ONLY,
      PRIV_SET_SYSTEM_GLOBAL_VAR_READ_ONLY,
      PRIV_IGNORE_INIT_CONNECT,
      PRIV_IGNORE_MAX_USER_CONNECTIONS,
      PRIV_IGNORE_MAX_CONNECTIONS,
      PRIV_IGNORE_MAX_PASSWORD_ERRORS,
      PRIV_KILL_OTHER_USER_PROCESS,
      PRIV_SET_SYSTEM_GLOBAL_VAR_CONNECT_TIMEOUT,
      PRIV_SET_SYSTEM_GLOBAL_VAR_DISCONNECT_ON_EXPIRED_PASSWORD,
      PRIV_SET_SYSTEM_GLOBAL_VAR_EXTRA_MAX_CONNECTIONS,
      PRIV_SET_SYSTEM_GLOBAL_VAR_INIT_CONNECT,
      PRIV_SET_SYSTEM_GLOBAL_VAR_MAX_CONNECTIONS,
      PRIV_SET_SYSTEM_GLOBAL_VAR_MAX_CONNECT_ERRORS,
      PRIV_SET_SYSTEM_GLOBAL_VAR_MAX_PASSWORD_ERRORS,
      PRIV_SET_SYSTEM_GLOBAL_VAR_PROXY_PROTOCOL_NETWORKS,
      PRIV_SET_SYSTEM_GLOBAL_VAR_SECURE_AUTH,
      PRIV_SET_SYSTEM_GLOBAL_VAR_SLOW_LAUNCH_TIME,
      PRIV_SET_SYSTEM_GLOBAL_VAR_THREAD_POOL,
      PRIV_STMT_SHOW_BINLOG_STATUS,
      PRIV_STMT_SHOW_BINARY_LOGS,
      PRIV_STMT_PURGE_BINLOG,
      PRIV_STMT_SHOW_BINLOG_EVENTS,
      PRIV_COM_REGISTER_SLAVE,
      PRIV_COM_BINLOG_DUMP,
      PRIV_STMT_SHOW_SLAVE_HOSTS,
      PRIV_SET_SYSTEM_GLOBAL_VAR_RPL_SEMI_SYNC_MASTER_ENABLED,
      PRIV_SET_SYSTEM_GLOBAL_VAR_RPL_SEMI_SYNC_MASTER_TIMEOUT,
      PRIV_SET_SYSTEM_GLOBAL_VAR_RPL_SEMI_SYNC_MASTER_WAIT_NO_SLAVE,
      PRIV_SET_SYSTEM_GLOBAL_VAR_RPL_SEMI_SYNC_MASTER_TRACE_LEVEL,
      PRIV_SET_SYSTEM_GLOBAL_VAR_RPL_SEMI_SYNC_MASTER_WAIT_POINT,
      PRIV_SET_SYSTEM_GLOBAL_VAR_MASTER_VERIFY_CHECKSUM,
      PRIV_SET_SYSTEM_GLOBAL_VAR_GTID_BINLOG_STATE,
      PRIV_SET_SYSTEM_GLOBAL_VAR_SERVER_ID,
      PRIV_SET_SYSTEM_GLOBAL_VAR_GTID_DOMAIN_ID,
      PRIV_STMT_START_SLAVE,
      PRIV_STMT_STOP_SLAVE,
      PRIV_STMT_CHANGE_MASTER,
      PRIV_STMT_SHOW_SLAVE_STATUS,
      PRIV_STMT_SHOW_RELAYLOG_EVENTS,
      PRIV_STMT_BINLOG,
      PRIV_SET_SYSTEM_SESSION_VAR_GTID_SEQ_NO,
      PRIV_SET_SYSTEM_SESSION_VAR_PSEUDO_THREAD_ID,
      PRIV_SET_SYSTEM_SESSION_VAR_SERVER_ID,
      PRIV_SET_SYSTEM_SESSION_VAR_GTID_DOMAIN_ID,
      PRIV_SET_SYSTEM_GLOBAL_VAR_REPLICATE_EVENTS_MARKED_FOR_SKIP,
      PRIV_SET_SYSTEM_GLOBAL_VAR_REPLICATE_DO_DB,
      PRIV_SET_SYSTEM_GLOBAL_VAR_REPLICATE_DO_TABLE,
      PRIV_SET_SYSTEM_GLOBAL_VAR_REPLICATE_IGNORE_DB,
      PRIV_SET_SYSTEM_GLOBAL_VAR_REPLICATE_IGNORE_TABLE,
      PRIV_SET_SYSTEM_GLOBAL_VAR_REPLICATE_WILD_DO_TABLE,
      PRIV_SET_SYSTEM_GLOBAL_VAR_REPLICATE_WILD_IGNORE_TABLE,
      PRIV_SET_SYSTEM_GLOBAL_VAR_READ_BINLOG_SPEED_LIMIT,
      PRIV_SET_SYSTEM_GLOBAL_VAR_SLAVE_COMPRESSED_PROTOCOL,
      PRIV_SET_SYSTEM_GLOBAL_VAR_SLAVE_DDL_EXEC_MODE,
      PRIV_SET_SYSTEM_GLOBAL_VAR_SLAVE_DOMAIN_PARALLEL_THREADS,
      PRIV_SET_SYSTEM_GLOBAL_VAR_SLAVE_EXEC_MODE,
      PRIV_SET_SYSTEM_GLOBAL_VAR_SLAVE_MAX_ALLOWED_PACKET,
      PRIV_SET_SYSTEM_GLOBAL_VAR_SLAVE_NET_TIMEOUT,
      PRIV_SET_SYSTEM_GLOBAL_VAR_SLAVE_PARALLEL_MAX_QUEUED,
      PRIV_SET_SYSTEM_GLOBAL_VAR_SLAVE_PARALLEL_MODE,
      PRIV_SET_SYSTEM_GLOBAL_VAR_SLAVE_PARALLEL_THREADS,
      PRIV_SET_SYSTEM_GLOBAL_VAR_SLAVE_PARALLEL_WORKERS,
      PRIV_SET_SYSTEM_GLOBAL_VAR_SLAVE_RUN_TRIGGERS_FOR_RBR,
      PRIV_SET_SYSTEM_GLOBAL_VAR_SLAVE_SQL_VERIFY_CHECKSUM,
      PRIV_SET_SYSTEM_GLOBAL_VAR_SLAVE_TRANSACTION_RETRY_INTERVAL,
      PRIV_SET_SYSTEM_GLOBAL_VAR_SLAVE_TYPE_CONVERSIONS,
      PRIV_SET_SYSTEM_GLOBAL_VAR_INIT_SLAVE,
      PRIV_SET_SYSTEM_GLOBAL_VAR_RPL_SEMI_SYNC_SLAVE_ENABLED,
      PRIV_SET_SYSTEM_GLOBAL_VAR_RPL_SEMI_SYNC_SLAVE_TRACE_LEVEL,
      PRIV_SET_SYSTEM_GLOBAL_VAR_RPL_SEMI_SYNC_SLAVE_DELAY_MASTER,
      PRIV_SET_SYSTEM_GLOBAL_VAR_RPL_SEMI_SYNC_SLAVE_KILL_CONN_TIMEOUT,
      PRIV_SET_SYSTEM_GLOBAL_VAR_RELAY_LOG_PURGE,
      PRIV_SET_SYSTEM_GLOBAL_VAR_RELAY_LOG_RECOVERY,
      PRIV_SET_SYSTEM_GLOBAL_VAR_SYNC_MASTER_INFO,
      PRIV_SET_SYSTEM_GLOBAL_VAR_SYNC_RELAY_LOG,
      PRIV_SET_SYSTEM_GLOBAL_VAR_SYNC_RELAY_LOG_INFO,
      PRIV_SET_SYSTEM_GLOBAL_VAR_GTID_CLEANUP_BATCH_SIZE,
      PRIV_SET_SYSTEM_GLOBAL_VAR_GTID_IGNORE_DUPLICATES,
      PRIV_SET_SYSTEM_GLOBAL_VAR_GTID_POS_AUTO_ENGINES,
      PRIV_SET_SYSTEM_GLOBAL_VAR_GTID_SLAVE_POS,
      PRIV_SET_SYSTEM_GLOBAL_VAR_GTID_STRICT_MODE,
      PRIV_STMT_CREATE_SERVER,
      PRIV_STMT_ALTER_SERVER,
      PRIV_STMT_DROP_SERVER,
      PRIV_COM_PROCESS_INFO,
      PRIV_STMT_SHOW_EXPLAIN,
      PRIV_STMT_SHOW_ENGINE_STATUS,
      PRIV_STMT_SHOW_ENGINE_MUTEX,
      PRIV_STMT_SHOW_PROCESSLIST]"

text \<open>The actions that needed \<open>SUPER\<close> before the privilege was split up.\<close>

definition super_action_privs :: "privilege_t list" where
  "super_action_privs =
     [PRIV_DEFINER_CLAUSE,
      PRIV_REVEAL_MISSING_DEFINER,
      PRIV_DES_DECRYPT_ONE_ARG,
      PRIV_LOG_BIN_TRUSTED_SP_CREATOR,
      PRIV_DEBUG,
      PRIV_SET_GLOBAL_SYSTEM_VARIABLE,
      PRIV_SET_RESTRICTED_SESSION_SYSTEM_VARIABLE,
      PRIV_SET_SYSTEM_VAR_BINLOG_FORMAT,
      PRIV_SET_SYSTEM_VAR_BINLOG_DIRECT_NON_TRANSACTIONAL_UPDATES,
      PRIV_SET_SYSTEM_VAR_BINLOG_ANNOTATE_ROW_EVENTS,
      PRIV_SET_SYSTEM_VAR_BINLOG_ROW_IMAGE,
      PRIV_SET_SYSTEM_VAR_SQL_LOG_BIN,
      PRIV_SET_SYSTEM_GLOBAL_VAR_BINLOG_CACHE_SIZE,
      PRIV_SET_SYSTEM_GLOBAL_VAR_BINLOG_FILE_CACHE_SIZE,
      PRIV_SET_SYSTEM_GLOBAL_VAR_BINLOG_STMT_CACHE_SIZE,
      PRIV_SET_SYSTEM_GLOBAL_VAR_BINLOG_COMMIT_WAIT_COUNT,
      PRIV_SET_SYSTEM_GLOBAL_VAR_BINLOG_COMMIT_WAIT_USEC,
      PRIV_SET_SYSTEM_GLOBAL_VAR_BINLOG_ROW_METADATA,
      PRIV_SET_SYSTEM_GLOBAL_VAR_EXPIRE_LOGS_DAYS,
      PRIV_SET_SYSTEM_GLOBAL_VAR_LOG_BIN_COMPRESS,
      PRIV_SET_SYSTEM_GLOBAL_VAR_LOG_BIN_COMPRESS_MIN_LEN,
      PRIV_SET_SYSTEM_GLOBAL_VAR_LOG_BIN_TRUST_FUNCTION_CREATORS,
      PRIV_SET_SYSTEM_GLOBAL_VAR_MAX_BINLOG_CACHE_SIZE,
      PRIV_SET_SYSTEM_GLOBAL_VAR_MAX_BINLOG_STMT_CACHE_SIZE,
      PRIV_SET_SYSTEM_GLOBAL_VAR_MAX_BINLOG_SIZE,
      PRIV_SET_SYSTEM_GLOBAL_VAR_SYNC_BINLOG,
      PRIV_IGNORE_READ_ONLY,
      PRIV_SET_SYSTEM_GLOBAL_VAR_READ_ONLY,
      PRIV_IGNORE_INIT_CONNECT,
      PRIV_IGNORE_MAX_USER_CONNECTIONS,
      PRIV_IGNORE_MAX_CONNECTIONS,
      PRIV_IGNORE_MAX_PASSWORD_ERRORS,
      PRIV_KILL_OTHER_USER_PROCESS,
      PRIV_SET_SYSTEM_GLOBAL_VAR_CONNECT_TIMEOUT,
      PRIV_SET_SYSTEM_GLOBAL_VAR_DISCONNECT_ON_EXPIRED_PASSWORD,
      PRIV_SET_SYSTEM_GLOBAL_VAR_EXTRA_MAX_CONNECTIONS,
      PRIV_SET_SYSTEM_GLOBAL_VAR_INIT_CONNECT,
      PRIV_SET_SYSTEM_GLOBAL_VAR_MAX_CONNECTIONS,
      PRIV_SET_SYSTEM_GLOBAL_VAR_MAX_CONNECT_ERRORS,
      PRIV_SET_SYSTEM_GLOBAL_VAR_MAX_PASSWORD_ERRORS,
      PRIV_SET_SYSTEM_GLOBAL_VAR_PROXY_PROTOCOL_NETWORKS,
      PRIV_SET_SYSTEM_GLOBAL_VAR_SECURE_AUTH,
      PRIV_SET_SYSTEM_GLOBAL_VAR_SLOW_LAUNCH_TIME,
      PRIV_SET_SYSTEM_GLOBAL_VAR_THREAD_POOL,
      PRIV_STMT_SHOW_BINLOG_STATUS,
      PRIV_STMT_SHOW_BINARY_LOGS,
      PRIV_STMT_PURGE_BINLOG,
      PRIV_SET_SYSTEM_GLOBAL_VAR_RPL_SEMI_SYNC_MASTER_ENABLED,
      PRIV_SET_SYSTEM_GLOBAL_VAR_RPL_SEMI_SYNC_MASTER_TIMEOUT,
      PRIV_SET_SYSTEM_GLOBAL_VAR_RPL_SEMI_SYNC_MASTER_WAIT_NO_SLAVE,
      PRIV_SET_SYSTEM_GLOBAL_VAR_RPL_SEMI_SYNC_MASTER_TRACE_LEVEL,
      PRIV_SET_SYSTEM_GLOBAL_VAR_RPL_SEMI_SYNC_MASTER_WAIT_POINT,
      PRIV_SET_SYSTEM_GLOBAL_VAR_MASTER_VERIFY_CHECKSUM,
      PRIV_SET_SYSTEM_GLOBAL_VAR_GTID_BINLOG_STATE,
      PRIV_SET_SYSTEM_GLOBAL_VAR_SERVER_ID,
      PRIV_SET_SYSTEM_GLOBAL_VAR_GTID_DOMAIN_ID,
      PRIV_STMT_START_SLAVE,
      PRIV_STMT_STOP_SLAVE,
      PRIV_STMT_CHANGE_MASTER,
      PRIV_STMT_SHOW_SLAVE_STATUS,
      PRIV_STMT_BINLOG,
      PRIV_SET_SYSTEM_SESSION_VAR_GTID_SEQ_NO,
      PRIV_SET_SYSTEM_SESSION_VAR_PSEUDO_THREAD_ID,
      PRIV_SET_SYSTEM_SESSION_VAR_SERVER_ID,
      PRIV_SET_SYSTEM_SESSION_VAR_GTID_DOMAIN_ID,
      PRIV_SET_SYSTEM_GLOBAL_VAR_REPLICATE_EVENTS_MARKED_FOR_SKIP,
      PRIV_SET_SYSTEM_GLOBAL_VAR_REPLICATE_DO_DB,
      PRIV_SET_SYSTEM_GLOBAL_VAR_REPLICATE_DO_TABLE,
      PRIV_SET_SYSTEM_GLOBAL_VAR_REPLICATE_IGNORE_DB,
      PRIV_SET_SYSTEM_GLOBAL_VAR_REPLICATE_IGNORE_TABLE,
      PRIV_SET_SYSTEM_GLOBAL_VAR_REPLICATE_WILD_DO_TABLE,
      PRIV_SET_SYSTEM_GLOBAL_VAR_REPLICATE_WILD_IGNORE_TABLE,
      PRIV_SET_SYSTEM_GLOBAL_VAR_READ_BINLOG_SPEED_LIMIT,
      PRIV_SET_SYSTEM_GLOBAL_VAR_SLAVE_COMPRESSED_PROTOCOL,
      PRIV_SET_SYSTEM_GLOBAL_VAR_SLAVE_DDL_EXEC_MODE,
      PRIV_SET_SYSTEM_GLOBAL_VAR_SLAVE_DOMAIN_PARALLEL_THREADS,
      PRIV_SET_SYSTEM_GLOBAL_VAR_SLAVE_EXEC_MODE,
      PRIV_SET_SYSTEM_GLOBAL_VAR_SLAVE_MAX_ALLOWED_PACKET,
      PRIV_SET_SYSTEM_GLOBAL_VAR_SLAVE_NET_TIMEOUT,
      PRIV_SET_SYSTEM_GLOBAL_VAR_SLAVE_PARALLEL_MAX_QUEUED,
      PRIV_SET_SYSTEM_GLOBAL_VAR_SLAVE_PARALLEL_MODE,
      PRIV_SET_SYSTEM_GLOBAL_VAR_SLAVE_PARALLEL_THREADS,
      PRIV_SET_SYSTEM_GLOBAL_VAR_SLAVE_PARALLEL_WORKERS,
      PRIV_SET_SYSTEM_GLOBAL_VAR_SLAVE_RUN_TRIGGERS_FOR_RBR,
      PRIV_SET_SYSTEM_GLOBAL_VAR_SLAVE_SQL_VERIFY_CHECKSUM,
      PRIV_SET_SYSTEM_GLOBAL_VAR_SLAVE_TRANSACTION_RETRY_INTERVAL,
      PRIV_SET_SYSTEM_GLOBAL_VAR_SLAVE_TYPE_CONVERSIONS,
      PRIV_SET_SYSTEM_GLOBAL_VAR_INIT_SLAVE,
      PRIV_SET_SYSTEM_GLOBAL_VAR_RPL_SEMI_SYNC_SLAVE_ENABLED,
      PRIV_SET_SYSTEM_GLOBAL_VAR_RPL_SEMI_SYNC_SLAVE_TRACE_LEVEL,
      PRIV_SET_SYSTEM_GLOBAL_VAR_RPL_SEMI_SYNC_SLAVE_DELAY_MASTER,
      PRIV_SET_SYSTEM_GLOBAL_VAR_RPL_SEMI_SYNC_SLAVE_KILL_CONN_TIMEOUT,
      PRIV_SET_SYSTEM_GLOBAL_VAR_RELAY_LOG_PURGE,
      PRIV_SET_SYSTEM_GLOBAL_VAR_RELAY_LOG_RECOVERY,
      PRIV_SET_SYSTEM_GLOBAL_VAR_SYNC_MASTER_INFO,
      PRIV_SET_SYSTEM_GLOBAL_VAR_SYNC_RELAY_LOG,
      PRIV_SET_SYSTEM_GLOBAL_VAR_SYNC_RELAY_LOG_INFO,
      PRIV_SET_SYSTEM_GLOBAL_VAR_GTID_CLEANUP_BATCH_SIZE,
      PRIV_SET_SYSTEM_GLOBAL_VAR_GTID_IGNORE_DUPLICATES,
      PRIV_SET_SYSTEM_GLOBAL_VAR_GTID_POS_AUTO_ENGINES,
      PRIV_SET_SYSTEM_GLOBAL_VAR_GTID_SLAVE_POS,
      PRIV_SET_SYSTEM_GLOBAL_VAR_GTID_STRICT_MODE,
      PRIV_STMT_CREATE_SERVER,
      PRIV_STMT_ALTER_SERVER,
      PRIV_STMT_DROP_SERVER]"

lemmas action_defs = PRIV_LOCK_TABLES_def
  PRIV_DEFINER_CLAUSE_def
  PRIV_REVEAL_MISSING_DEFINER_def
  PRIV_DES_DECRYPT_ONE_ARG_def
  PRIV_LOG_BIN_TRUSTED_SP_CREATOR_def
  PRIV_DEBUG_def
  PRIV_SET_GLOBAL_SYSTEM_VARIABLE_def
  PRIV_SET_RESTRICTED_SESSION_SYSTEM_VARIABLE_def
  PRIV_SET_SYSTEM_VAR_BINLOG_FORMAT_def
  PRIV_SET_SYSTEM_VAR_BINLOG_DIRECT_NON_TRANSACTIONAL_UPDATES_def
  PRIV_SET_SYSTEM_VAR_BINLOG_ANNOTATE_ROW_EVENTS_def
  PRIV_SET_SYSTEM_VAR_BINLOG_ROW_IMAGE_def
  PRIV_SET_SYSTEM_VAR_SQL_LOG_BIN_def
  PRIV_SET_SYSTEM_GLOBAL_VAR_BINLOG_CACHE_SIZE_def
  PRIV_SET_SYSTEM_GLOBAL_VAR_BINLOG_FILE_CACHE_SIZE_def
  PRIV_SET_SYSTEM_GLOBAL_VAR_BINLOG_STMT_CACHE_SIZE_def
  PRIV_SET_SYSTEM_GLOBAL_VAR_BINLOG_COMMIT_WAIT_COUNT_def
  PRIV_SET_SYSTEM_GLOBAL_VAR_BINLOG_COMMIT_WAIT_USEC_def
  PRIV_SET_SYSTEM_GLOBAL_VAR_BINLOG_ROW_METADATA_def
  PRIV_SET_SYSTEM_GLOBAL_VAR_EXPIRE_LOGS_DAYS_def
  PRIV_SET_SYSTEM_GLOBAL_VAR_LOG_BIN_COMPRESS_def
  PRIV_SET_SYSTEM_GLOBAL_VAR_LOG_BIN_COMPRESS_MIN_LEN_def
  PRIV_SET_SYSTEM_GLOBAL_VAR_LOG_BIN_TRUST_FUNCTION_CREATORS_def
  PRIV_SET_SYSTEM_GLOBAL_VAR_MAX_BINLOG_CACHE_SIZE_def
  PRIV_SET_SYSTEM_GLOBAL_VAR_MAX_BINLOG_STMT_CACHE_SIZE_def
  PRIV_SET_SYSTEM_GLOBAL_VAR_MAX_BINLOG_SIZE_def
  PRIV_SET_SYSTEM_GLOBAL_VAR_SYNC_BINLOG_def
  PRIV_IGNORE_READ_ONLY_def
  PRIV_SET_SYSTEM_GLOBAL_VAR_READ_ONLY_def
  PRIV_IGNORE_INIT_CONNECT_def
  PRIV_IGNORE_MAX_USER_CONNECTIONS_def
  PRIV_IGNORE_MAX_CONNECTIONS_def
  PRIV_IGNORE_MAX_PASSWORD_ERRORS_def
  PRIV_KILL_OTHER_USER_PROCESS_def
  PRIV_SET_SYSTEM_GLOBAL_VAR_CONNECT_TIMEOUT_def
  PRIV_SET_SYSTEM_GLOBAL_VAR_DISCONNECT_ON_EXPIRED_PASSWORD_def
  PRIV_SET_SYSTEM_GLOBAL_VAR_EXTRA_MAX_CONNECTIONS_def
  PRIV_SET_SYSTEM_GLOBAL_VAR_INIT_CONNECT_def
  PRIV_SET_SYSTEM_GLOBAL_VAR_MAX_CONNECTIONS_def
  PRIV_SET_SYSTEM_GLOBAL_VAR_MAX_CONNECT_ERRORS_def
  PRIV_SET_SYSTEM_GLOBAL_VAR_MAX_PASSWORD_ERRORS_def
  PRIV_SET_SYSTEM_GLOBAL_VAR_PROXY_PROTOCOL_NETWORKS_def
  PRIV_SET_SYSTEM_GLOBAL_VAR_SECURE_AUTH_def
  PRIV_SET_SYSTEM_GLOBAL_VAR_SLOW_LAUNCH_TIME_def
  PRIV_SET_SYSTEM_GLOBAL_VAR_THREAD_POOL_def
  PRIV_STMT_SHOW_BINLOG_STATUS_def
  PRIV_STMT_SHOW_BINARY_LOGS_def
  PRIV_STMT_PURGE_BINLOG_def
  PRIV_STMT_SHOW_BINLOG_EVENTS_def
  PRIV_COM_REGISTER_SLAVE_def
  PRIV_COM_BINLOG_DUMP_def
  PRIV_STMT_SHOW_SLAVE_HOSTS_def
  PRIV_SET_SYSTEM_GLOBAL_VAR_RPL_SEMI_SYNC_MASTER_ENABLED_def
  PRIV_SET_SYSTEM_GLOBAL_VAR_RPL_SEMI_SYNC_MASTER_TIMEOUT_def
  PRIV_SET_SYSTEM_GLOBAL_VAR_RPL_SEMI_SYNC_MASTER_WAIT_NO_SLAVE_def
  PRIV_SET_SYSTEM_GLOBAL_VAR_RPL_SEMI_SYNC_MASTER_TRACE_LEVEL_def
  PRIV_SET_SYSTEM_GLOBAL_VAR_RPL_SEMI_SYNC_MASTER_WAIT_POINT_def
  PRIV_SET_SYSTEM_GLOBAL_VAR_MASTER_VERIFY_CHECKSUM_def
  PRIV_SET_SYSTEM_GLOBAL_VAR_GTID_BINLOG_STATE_def
  PRIV_SET_SYSTEM_GLOBAL_VAR_SERVER_ID_def
  PRIV_SET_SYSTEM_GLOBAL_VAR_GTID_DOMAIN_ID_def
  PRIV_STMT_START_SLAVE_def
  PRIV_STMT_STOP_SLAVE_def
  PRIV_STMT_CHANGE_MASTER_def
  PRIV_STMT_SHOW_SLAVE_STATUS_def
  PRIV_STMT_SHOW_RELAYLOG_EVENTS_def
  PRIV_STMT_BINLOG_def
  PRIV_SET_SYSTEM_SESSION_VAR_GTID_SEQ_NO_def
  PRIV_SET_SYSTEM_SESSION_VAR_PSEUDO_THREAD_ID_def
  PRIV_SET_SYSTEM_SESSION_VAR_SERVER_ID_def
  PRIV_SET_SYSTEM_SESSION_VAR_GTID_DOMAIN_ID_def
  PRIV_SET_SYSTEM_GLOBAL_VAR_REPLICATE_EVENTS_MARKED_FOR_SKIP_def
  PRIV_SET_SYSTEM_GLOBAL_VAR_REPLICATE_DO_DB_def
  PRIV_SET_SYSTEM_GLOBAL_VAR_REPLICATE_DO_TABLE_def
  PRIV_SET_SYSTEM_GLOBAL_VAR_REPLICATE_IGNORE_DB_def
  PRIV_SET_SYSTEM_GLOBAL_VAR_REPLICATE_IGNORE_TABLE_def
  PRIV_SET_SYSTEM_GLOBAL_VAR_REPLICATE_WILD_DO_TABLE_def
  PRIV_SET_SYSTEM_GLOBAL_VAR_REPLICATE_WILD_IGNORE_TABLE_def
  PRIV_SET_SYSTEM_GLOBAL_VAR_READ_BINLOG_SPEED_LIMIT_def
  PRIV_SET_SYSTEM_GLOBAL_VAR_SLAVE_COMPRESSED_PROTOCOL_def
  PRIV_SET_SYSTEM_GLOBAL_VAR_SLAVE_DDL_EXEC_MODE_def
  PRIV_SET_SYSTEM_GLOBAL_VAR_SLAVE_DOMAIN_PARALLEL_THREADS_def
  PRIV_SET_SYSTEM_GLOBAL_VAR_SLAVE_EXEC_MODE_def
  PRIV_SET_SYSTEM_GLOBAL_VAR_SLAVE_MAX_ALLOWED_PACKET_def
  PRIV_SET_SYSTEM_GLOBAL_VAR_SLAVE_NET_TIMEOUT_def
  PRIV_SET_SYSTEM_GLOBAL_VAR_SLAVE_PARALLEL_MAX_QUEUED_def
  PRIV_SET_SYSTEM_GLOBAL_VAR_SLAVE_PARALLEL_MODE_def
  PRIV_SET_SYSTEM_GLOBAL_VAR_SLAVE_PARALLEL_THREADS_def
  PRIV_SET_SYSTEM_GLOBAL_VAR_SLAVE_PARALLEL_WORKERS_def
  PRIV_SET_SYSTEM_GLOBAL_VAR_SLAVE_RUN_TRIGGERS_FOR_RBR_def
  PRIV_SET_SYSTEM_GLOBAL_VAR_SLAVE_SQL_VERIFY_CHECKSUM_def
  PRIV_SET_SYSTEM_GLOBAL_VAR_SLAVE_TRANSACTION_RETRY_INTERVAL_def
  PRIV_SET_SYSTEM_GLOBAL_VAR_SLAVE_TYPE_CONVERSIONS_def
  PRIV_SET_SYSTEM_GLOBAL_VAR_INIT_SLAVE_def
  PRIV_SET_SYSTEM_GLOBAL_VAR_RPL_SEMI_SYNC_SLAVE_ENABLED_def
  PRIV_SET_SYSTEM_GLOBAL_VAR_RPL_SEMI_SYNC_SLAVE_TRACE_LEVEL_def
  PRIV_SET_SYSTEM_GLOBAL_VAR_RPL_SEMI_SYNC_SLAVE_DELAY_MASTER_def
  PRIV_SET_SYSTEM_GLOBAL_VAR_RPL_SEMI_SYNC_SLAVE_KILL_CONN_TIMEOUT_def
  PRIV_SET_SYSTEM_GLOBAL_VAR_RELAY_LOG_PURGE_def
  PRIV_SET_SYSTEM_GLOBAL_VAR_RELAY_LOG_RECOVERY_def
  PRIV_SET_SYSTEM_GLOBAL_VAR_SYNC_MASTER_INFO_def
  PRIV_SET_SYSTEM_GLOBAL_VAR_SYNC_RELAY_LOG_def
  PRIV_SET_SYSTEM_GLOBAL_VAR_SYNC_RELAY_LOG_INFO_def
  PRIV_SET_SYSTEM_GLOBAL_VAR_GTID_CLEANUP_BATCH_SIZE_def
  PRIV_SET_SYSTEM_GLOBAL_VAR_GTID_IGNORE_DUPLICATES_def
  PRIV_SET_SYSTEM_GLOBAL_VAR_GTID_POS_AUTO_ENGINES_def
  PRIV_SET_SYSTEM_GLOBAL_VAR_GTID_SLAVE_POS_def
  PRIV_SET_SYSTEM_GLOBAL_VAR_GTID_STRICT_MODE_def
  PRIV_STMT_CREATE_SERVER_def
  PRIV_STMT_ALTER_SERVER_def
  PRIV_STMT_DROP_SERVER_def
  PRIV_COM_PROCESS_INFO_def
  PRIV_STMT_SHOW_EXPLAIN_def
  PRIV_STMT_SHOW_ENGINE_STATUS_def
  PRIV_STMT_SHOW_ENGINE_MUTEX_def
  PRIV_STMT_SHOW_PROCESSLIST_def

lemma actions_global: "list_all (\<lambda>p. p \<noteq> 0 \<and> p AND NOT (mask 39) = 0) all_action_privs"
  unfolding all_action_privs_def action_defs acl_defs by code_simp

lemma actions_super: "list_all (\<lambda>p. p AND SUPER_ACL = SUPER_ACL) super_action_privs"
  unfolding super_action_privs_def action_defs acl_defs by code_simp

text \<open>
  Every action of the server requires a non-empty set of privileges that can all be
  granted globally, so no action is out of reach; and a holder of \<open>SUPER\<close> may still perform every
  action that was split off that privilege.
\<close>

theorem actions_reachable:
  "list_all (\<lambda>p. p \<noteq> NO_ACL \<and> p AND NOT GLOBAL_ACLS = NO_ACL) all_action_privs \<and>
   list_all (\<lambda>p. p AND SUPER_ACL = SUPER_ACL) super_action_privs"
  using actions_global actions_super by (simp add: global_is_all_known ALL_KNOWN_ACL_mask NO_ACL_def)

end
