(* ===== verification/ErrorCodes.thy ===== *)
theory ErrorCodes
  imports Prelude
begin

text \<open>
  The error numbers of the server and the client library and their SQLSTATE values:
  \<open>mysqld_error.h\<close>, \<open>errmsg.h\<close>, \<open>sql_state.h\<close>, \<open>handler_state.h\<close> and the handler errors of
  \<open>my_base.h\<close>. The headers are tables of macro definitions and initialisers; a table is the
  list of its rows in the order of the header, which the server searches by bisection. The
  macros themselves are abbreviations of their numbers.
\<close>

section \<open>\<open>mysqld_error.h\<close>\<close>

text \<open>The markers of the sections, and the errors, in blocks of consecutive lines.\<close>

abbreviation ER_ERROR_FIRST :: int where "ER_ERROR_FIRST \<equiv> 1000"
abbreviation ER_ERROR_LAST_SECTION_1 :: int where "ER_ERROR_LAST_SECTION_1 \<equiv> 1880"
abbreviation ER_ERROR_FIRST_SECTION_2 :: int where "ER_ERROR_FIRST_SECTION_2 \<equiv> 1900"
abbreviation ER_ERROR_LAST_SECTION_2 :: int where "ER_ERROR_LAST_SECTION_2 \<equiv> 1982"
abbreviation ER_ERROR_FIRST_SECTION_3 :: int where "ER_ERROR_FIRST_SECTION_3 \<equiv> 2000"
abbreviation ER_ERROR_LAST_SECTION_3 :: int where "ER_ERROR_LAST_SECTION_3 \<equiv> 2000"
abbreviation ER_ERROR_FIRST_SECTION_4 :: int where "ER_ERROR_FIRST_SECTION_4 \<equiv> 3000"
abbreviation ER_ERROR_LAST_SECTION_4 :: int where "ER_ERROR_LAST_SECTION_4 \<equiv> 3060"
abbreviation ER_ERROR_FIRST_SECTION_5 :: int where "ER_ERROR_FIRST_SECTION_5 \<equiv> 4000"
abbreviation ER_ERROR_LAST :: int where "ER_ERROR_LAST \<equiv> 4188"

definition er_sections :: "int list" where
  "er_sections =
     [ER_ERROR_FIRST, ER_ERROR_LAST_SECTION_1, ER_ERROR_FIRST_SECTION_2, ER_ERROR_LAST_SECTION_2,
      ER_ERROR_FIRST_SECTION_3, ER_ERROR_LAST_SECTION_3, ER_ERROR_FIRST_SECTION_4,
      ER_ERROR_LAST_SECTION_4, ER_ERROR_FIRST_SECTION_5, ER_ERROR_LAST]"

abbreviation ER_HASHCHK :: int where "ER_HASHCHK \<equiv> 1000"
abbreviation ER_NISAMCHK :: int where "ER_NISAMCHK \<equiv> 1001"
abbreviation ER_NO :: int where "ER_NO \<equiv> 1002"
abbreviation ER_YES :: int where "ER_YES \<equiv> 1003"
abbreviation ER_CANT_CREATE_FILE :: int where "ER_CANT_CREATE_FILE \<equiv> 1004"
abbreviation ER_CANT_CREATE_TABLE :: int where "ER_CANT_CREATE_TABLE \<equiv> 1005"
abbreviation ER_CANT_CREATE_DB :: int where "ER_CANT_CREATE_DB \<equiv> 1006"
abbreviation ER_DB_CREATE_EXISTS :: int where "ER_DB_CREATE_EXISTS \<equiv> 1007"
abbreviation ER_DB_DROP_EXISTS :: int where "ER_DB_DROP_EXISTS \<equiv> 1008"
abbreviation ER_DB_DROP_DELETE :: int where "ER_DB_DROP_DELETE \<equiv> 1009"
abbreviation ER_DB_DROP_RMDIR :: int where "ER_DB_DROP_RMDIR \<equiv> 1010"
abbreviation ER_CANT_DELETE_FILE :: int where "ER_CANT_DELETE_FILE \<equiv> 1011"
abbreviation ER_CANT_FIND_SYSTEM_REC :: int where "ER_CANT_FIND_SYSTEM_REC \<equiv> 1012"
abbreviation ER_CANT_GET_STAT :: int where "ER_CANT_GET_STAT \<equiv> 1013"
abbreviation ER_CANT_GET_WD :: int where "ER_CANT_GET_WD \<equiv> 1014"
abbreviation ER_CANT_LOCK :: int where "ER_CANT_LOCK \<equiv> 1015"
abbreviation ER_CANT_OPEN_FILE :: int where "ER_CANT_OPEN_FILE \<equiv> 1016"
abbreviation ER_FILE_NOT_FOUND :: int where "ER_FILE_NOT_FOUND \<equiv> 1017"
abbreviation ER_CANT_READ_DIR :: int where "ER_CANT_READ_DIR \<equiv> 1018"
abbreviation ER_CANT_SET_WD :: int where "ER_CANT_SET_WD \<equiv> 1019"
abbreviation ER_CHECKREAD :: int where "ER_CHECKREAD \<equiv> 1020"
abbreviation ER_DISK_FULL :: int where "ER_DISK_FULL \<equiv> 1021"
abbreviation ER_DUP_KEY :: int where "ER_DUP_KEY \<equiv> 1022"
abbreviation ER_ERROR_ON_CLOSE :: int where "ER_ERROR_ON_CLOSE \<equiv> 1023"
abbreviation ER_ERROR_ON_READ :: int where "ER_ERROR_ON_READ \<equiv> 1024"
abbreviation ER_ERROR_ON_RENAME :: int where "ER_ERROR_ON_RENAME \<equiv> 1025"
abbreviation ER_ERROR_ON_WRITE :: int where "ER_ERROR_ON_WRITE \<equiv> 1026"
abbreviation ER_FILE_USED :: int where "ER_FILE_USED \<equiv> 1027"
abbreviation ER_FILSORT_ABORT :: int where "ER_FILSORT_ABORT \<equiv> 1028"
abbreviation ER_FORM_NOT_FOUND :: int where "ER_FORM_NOT_FOUND \<equiv> 1029"
abbreviation ER_GET_ERRNO :: int where "ER_GET_ERRNO \<equiv> 1030"
abbreviation ER_ILLEGAL_HA :: int where "ER_ILLEGAL_HA \<equiv> 1031"
abbreviation ER_KEY_NOT_FOUND :: int where "ER_KEY_NOT_FOUND \<equiv> 1032"
abbreviation ER_NOT_FORM_FILE :: int where "ER_NOT_FORM_FILE \<equiv> 1033"
abbreviation ER_NOT_KEYFILE :: int where "ER_NOT_KEYFILE \<equiv> 1034"
abbreviation ER_OLD_KEYFILE :: int where "ER_OLD_KEYFILE \<equiv> 1035"
abbreviation ER_OPEN_AS_READONLY :: int where "ER_OPEN_AS_READONLY \<equiv> 1036"
abbreviation ER_OUTOFMEMORY :: int where "ER_OUTOFMEMORY \<equiv> 1037"
abbreviation ER_OUT_OF_SORTMEMORY :: int where "ER_OUT_OF_SORTMEMORY \<equiv> 1038"
abbreviation ER_UNEXPECTED_EOF :: int where "ER_UNEXPECTED_EOF \<equiv> 1039"
abbreviation ER_CON_COUNT_ERROR :: int where "ER_CON_COUNT_ERROR \<equiv> 1040"
abbreviation ER_OUT_OF_RESOURCES :: int where "ER_OUT_OF_RESOURCES \<equiv> 1041"
abbreviation ER_BAD_HOST_ERROR :: int where "ER_BAD_HOST_ERROR \<equiv> 1042"
abbreviation ER_HANDSHAKE_ERROR :: int where "ER_HANDSHAKE_ERROR \<equiv> 1043"
abbreviation ER_DBACCESS_DENIED_ERROR :: int where "ER_DBACCESS_DENIED_ERROR \<equiv> 1044"
abbreviation ER_ACCESS_DENIED_ERROR :: int where "ER_ACCESS_DENIED_ERROR \<equiv> 1045"
abbreviation ER_NO_DB_ERROR :: int where "ER_NO_DB_ERROR \<equiv> 1046"
abbreviation ER_UNKNOWN_COM_ERROR :: int where "ER_UNKNOWN_COM_ERROR \<equiv> 1047"
abbreviation ER_BAD_NULL_ERROR :: int where "ER_BAD_NULL_ERROR \<equiv> 1048"
abbreviation ER_BAD_DB_ERROR :: int where "ER_BAD_DB_ERROR \<equiv> 1049"
abbreviation ER_TABLE_EXISTS_ERROR :: int where "ER_TABLE_EXISTS_ERROR \<equiv> 1050"
abbreviation ER_BAD_TABLE_ERROR :: int where "ER_BAD_TABLE_ERROR \<equiv> 1051"
abbreviation ER_NON_UNIQ_ERROR :: int where "ER_NON_UNIQ_ERROR \<equiv> 1052"
abbreviation ER_SERVER_SHUTDOWN :: int where "ER_SERVER_SHUTDOWN \<equiv> 1053"
abbreviation ER_BAD_FIELD_ERROR :: int where "ER_BAD_FIELD_ERROR \<equiv> 1054"
abbreviation ER_WRONG_FIELD_WITH_GROUP :: int where "ER_WRONG_FIELD_WITH_GROUP \<equiv> 1055"
abbreviation ER_WRONG_GROUP_FIELD :: int where "ER_WRONG_GROUP_FIELD \<equiv> 1056"
abbreviation ER_WRONG_SUM_SELECT :: int where "ER_WRONG_SUM_SELECT \<equiv> 1057"
abbreviation ER_WRONG_VALUE_COUNT :: int where "ER_WRONG_VALUE_COUNT \<equiv> 1058"
abbreviation ER_TOO_LONG_IDENT :: int where "ER_TOO_LONG_IDENT \<equiv> 1059"
abbreviation ER_DUP_FIELDNAME :: int where "ER_DUP_FIELDNAME \<equiv> 1060"
abbreviation ER_DUP_KEYNAME :: int where "ER_DUP_KEYNAME \<equiv> 1061"
abbreviation ER_DUP_ENTRY :: int where "ER_DUP_ENTRY \<equiv> 1062"
abbreviation ER_WRONG_FIELD_SPEC :: int where "ER_WRONG_FIELD_SPEC \<equiv> 1063"
abbreviation ER_PARSE_ERROR :: int where "ER_PARSE_ERROR \<equiv> 1064"
abbreviation ER_EMPTY_QUERY :: int where "ER_EMPTY_QUERY \<equiv> 1065"
abbreviation ER_NONUNIQ_TABLE :: int where "ER_NONUNIQ_TABLE \<equiv> 1066"
abbreviation ER_INVALID_DEFAULT :: int where "ER_INVALID_DEFAULT \<equiv> 1067"
abbreviation ER_MULTIPLE_PRI_KEY :: int where "ER_MULTIPLE_PRI_KEY \<equiv> 1068"
abbreviation ER_TOO_MANY_KEYS :: int where "ER_TOO_MANY_KEYS \<equiv> 1069"
abbreviation ER_TOO_MANY_KEY_PARTS :: int where "ER_TOO_MANY_KEY_PARTS \<equiv> 1070"
abbreviation ER_TOO_LONG_KEY :: int where "ER_TOO_LONG_KEY \<equiv> 1071"
abbreviation ER_KEY_COLUMN_DOES_NOT_EXIST :: int where "ER_KEY_COLUMN_DOES_NOT_EXIST \<equiv> 1072"
abbreviation ER_BLOB_USED_AS_KEY :: int where "ER_BLOB_USED_AS_KEY \<equiv> 1073"
abbreviation ER_TOO_BIG_FIELDLENGTH :: int where "ER_TOO_BIG_FIELDLENGTH \<equiv> 1074"
abbreviation ER_WRONG_AUTO_KEY :: int where "ER_WRONG_AUTO_KEY \<equiv> 1075"
abbreviation ER_BINLOG_CANT_DELETE_GTID_DOMAIN :: int where "ER_BINLOG_CANT_DELETE_GTID_DOMAIN \<equiv> 1076"
abbreviation ER_NORMAL_SHUTDOWN :: int where "ER_NORMAL_SHUTDOWN \<equiv> 1077"
abbreviation ER_GOT_SIGNAL :: int where "ER_GOT_SIGNAL \<equiv> 1078"
abbreviation ER_SHUTDOWN_COMPLETE :: int where "ER_SHUTDOWN_COMPLETE \<equiv> 1079"
abbreviation ER_FORCING_CLOSE :: int where "ER_FORCING_CLOSE \<equiv> 1080"
abbreviation ER_IPSOCK_ERROR :: int where "ER_IPSOCK_ERROR \<equiv> 1081"
abbreviation ER_NO_SUCH_INDEX :: int where "ER_NO_SUCH_INDEX \<equiv> 1082"
abbreviation ER_WRONG_FIELD_TERMINATORS :: int where "ER_WRONG_FIELD_TERMINATORS \<equiv> 1083"
abbreviation ER_BLOBS_AND_NO_TERMINATED :: int where "ER_BLOBS_AND_NO_TERMINATED \<equiv> 1084"
abbreviation ER_TEXTFILE_NOT_READABLE :: int where "ER_TEXTFILE_NOT_READABLE \<equiv> 1085"
abbreviation ER_FILE_EXISTS_ERROR :: int where "ER_FILE_EXISTS_ERROR \<equiv> 1086"
abbreviation ER_LOAD_INFO :: int where "ER_LOAD_INFO \<equiv> 1087"
abbreviation ER_ALTER_INFO :: int where "ER_ALTER_INFO \<equiv> 1088"
abbreviation ER_WRONG_SUB_KEY :: int where "ER_WRONG_SUB_KEY \<equiv> 1089"
abbreviation ER_CANT_REMOVE_ALL_FIELDS :: int where "ER_CANT_REMOVE_ALL_FIELDS \<equiv> 1090"
abbreviation ER_CANT_DROP_FIELD_OR_KEY :: int where "ER_CANT_DROP_FIELD_OR_KEY \<equiv> 1091"
abbreviation ER_INSERT_INFO :: int where "ER_INSERT_INFO \<equiv> 1092"
abbreviation ER_UPDATE_TABLE_USED :: int where "ER_UPDATE_TABLE_USED \<equiv> 1093"
abbreviation ER_NO_SUCH_THREAD :: int where "ER_NO_SUCH_THREAD \<equiv> 1094"
abbreviation ER_KILL_DENIED_ERROR :: int where "ER_KILL_DENIED_ERROR \<equiv> 1095"
abbreviation ER_NO_TABLES_USED :: int where "ER_NO_TABLES_USED \<equiv> 1096"
abbreviation ER_TOO_BIG_SET :: int where "ER_TOO_BIG_SET \<equiv> 1097"
abbreviation ER_NO_UNIQUE_LOGFILE :: int where "ER_NO_UNIQUE_LOGFILE \<equiv> 1098"
abbreviation ER_TABLE_NOT_LOCKED_FOR_WRITE :: int where "ER_TABLE_NOT_LOCKED_FOR_WRITE \<equiv> 1099"
abbreviation ER_TABLE_NOT_LOCKED :: int where "ER_TABLE_NOT_LOCKED \<equiv> 1100"
abbreviation ER_UNUSED_17 :: int where "ER_UNUSED_17 \<equiv> 1101"
abbreviation ER_WRONG_DB_NAME :: int where "ER_WRONG_DB_NAME \<equiv> 1102"
abbreviation ER_WRONG_TABLE_NAME :: int where "ER_WRONG_TABLE_NAME \<equiv> 1103"
abbreviation ER_TOO_BIG_SELECT :: int where "ER_TOO_BIG_SELECT \<equiv> 1104"
abbreviation ER_UNKNOWN_ERROR :: int where "ER_UNKNOWN_ERROR \<equiv> 1105"
abbreviation ER_UNKNOWN_PROCEDURE :: int where "ER_UNKNOWN_PROCEDURE \<equiv> 1106"
abbreviation ER_WRONG_PARAMCOUNT_TO_PROCEDURE :: int where "ER_WRONG_PARAMCOUNT_TO_PROCEDURE \<equiv> 1107"
abbreviation ER_WRONG_PARAMETERS_TO_PROCEDURE :: int where "ER_WRONG_PARAMETERS_TO_PROCEDURE \<equiv> 1108"
abbreviation ER_UNKNOWN_TABLE :: int where "ER_UNKNOWN_TABLE \<equiv> 1109"
abbreviation ER_FIELD_SPECIFIED_TWICE :: int where "ER_FIELD_SPECIFIED_TWICE \<equiv> 1110"
abbreviation ER_INVALID_GROUP_FUNC_USE :: int where "ER_INVALID_GROUP_FUNC_USE \<equiv> 1111"
abbreviation ER_UNSUPPORTED_EXTENSION :: int where "ER_UNSUPPORTED_EXTENSION \<equiv> 1112"
abbreviation ER_TABLE_MUST_HAVE_COLUMNS :: int where "ER_TABLE_MUST_HAVE_COLUMNS \<equiv> 1113"
abbreviation ER_RECORD_FILE_FULL :: int where "ER_RECORD_FILE_FULL \<equiv> 1114"
abbreviation ER_UNKNOWN_CHARACTER_SET :: int where "ER_UNKNOWN_CHARACTER_SET \<equiv> 1115"
abbreviation ER_TOO_MANY_TABLES :: int where "ER_TOO_MANY_TABLES \<equiv> 1116"
abbreviation ER_TOO_MANY_FIELDS :: int where "ER_TOO_MANY_FIELDS \<equiv> 1117"
abbreviation ER_TOO_BIG_ROWSIZE :: int where "ER_TOO_BIG_ROWSIZE \<equiv> 1118"
abbreviation ER_STACK_OVERRUN :: int where "ER_STACK_OVERRUN \<equiv> 1119"
abbreviation ER_WRONG_OUTER_JOIN :: int where "ER_WRONG_OUTER_JOIN \<equiv> 1120"
abbreviation ER_NULL_COLUMN_IN_INDEX :: int where "ER_NULL_COLUMN_IN_INDEX \<equiv> 1121"
abbreviation ER_CANT_FIND_UDF :: int where "ER_CANT_FIND_UDF \<equiv> 1122"
abbreviation ER_CANT_INITIALIZE_UDF :: int where "ER_CANT_INITIALIZE_UDF \<equiv> 1123"
abbreviation ER_UDF_NO_PATHS :: int where "ER_UDF_NO_PATHS \<equiv> 1124"
abbreviation ER_UDF_EXISTS :: int where "ER_UDF_EXISTS \<equiv> 1125"
abbreviation ER_CANT_OPEN_LIBRARY :: int where "ER_CANT_OPEN_LIBRARY \<equiv> 1126"
abbreviation ER_CANT_FIND_DL_ENTRY :: int where "ER_CANT_FIND_DL_ENTRY \<equiv> 1127"
abbreviation ER_FUNCTION_NOT_DEFINED :: int where "ER_FUNCTION_NOT_DEFINED \<equiv> 1128"
abbreviation ER_HOST_IS_BLOCKED :: int where "ER_HOST_IS_BLOCKED \<equiv> 1129"
abbreviation ER_HOST_NOT_PRIVILEGED :: int where "ER_HOST_NOT_PRIVILEGED \<equiv> 1130"
abbreviation ER_PASSWORD_ANONYMOUS_USER :: int where "ER_PASSWORD_ANONYMOUS_USER \<equiv> 1131"
abbreviation ER_PASSWORD_NOT_ALLOWED :: int where "ER_PASSWORD_NOT_ALLOWED \<equiv> 1132"
abbreviation ER_PASSWORD_NO_MATCH :: int where "ER_PASSWORD_NO_MATCH \<equiv> 1133"
abbreviation ER_UPDATE_INFO :: int where "ER_UPDATE_INFO \<equiv> 1134"
abbreviation ER_CANT_CREATE_THREAD :: int where "ER_CANT_CREATE_THREAD \<equiv> 1135"
abbreviation ER_WRONG_VALUE_COUNT_ON_ROW :: int where "ER_WRONG_VALUE_COUNT_ON_ROW \<equiv> 1136"
abbreviation ER_CANT_REOPEN_TABLE :: int where "ER_CANT_REOPEN_TABLE \<equiv> 1137"
abbreviation ER_INVALID_USE_OF_NULL :: int where "ER_INVALID_USE_OF_NULL \<equiv> 1138"
abbreviation ER_REGEXP_ERROR :: int where "ER_REGEXP_ERROR \<equiv> 1139"
abbreviation ER_MIX_OF_GROUP_FUNC_AND_FIELDS :: int where "ER_MIX_OF_GROUP_FUNC_AND_FIELDS \<equiv> 1140"
abbreviation ER_NONEXISTING_GRANT :: int where "ER_NONEXISTING_GRANT \<equiv> 1141"
abbreviation ER_TABLEACCESS_DENIED_ERROR :: int where "ER_TABLEACCESS_DENIED_ERROR \<equiv> 1142"
abbreviation ER_COLUMNACCESS_DENIED_ERROR :: int where "ER_COLUMNACCESS_DENIED_ERROR \<equiv> 1143"
abbreviation ER_ILLEGAL_GRANT_FOR_TABLE :: int where "ER_ILLEGAL_GRANT_FOR_TABLE \<equiv> 1144"
abbreviation ER_GRANT_WRONG_HOST_OR_USER :: int where "ER_GRANT_WRONG_HOST_OR_USER \<equiv> 1145"
abbreviation ER_NO_SUCH_TABLE :: int where "ER_NO_SUCH_TABLE \<equiv> 1146"
abbreviation ER_NONEXISTING_TABLE_GRANT :: int where "ER_NONEXISTING_TABLE_GRANT \<equiv> 1147"
abbreviation ER_NOT_ALLOWED_COMMAND :: int where "ER_NOT_ALLOWED_COMMAND \<equiv> 1148"
abbreviation ER_SYNTAX_ERROR :: int where "ER_SYNTAX_ERROR \<equiv> 1149"

definition er_codes_1 :: "int list" where
  "er_codes_1 =
     [ER_HASHCHK, ER_NISAMCHK, ER_NO, ER_YES, ER_CANT_CREATE_FILE, ER_CANT_CREATE_TABLE,
      ER_CANT_CREATE_DB, ER_DB_CREATE_EXISTS, ER_DB_DROP_EXISTS, ER_DB_DROP_DELETE, ER_DB_DROP_RMDIR,
      ER_CANT_DELETE_FILE, ER_CANT_FIND_SYSTEM_REC, ER_CANT_GET_STAT, ER_CANT_GET_WD, ER_CANT_LOCK,
      ER_CANT_OPEN_FILE, ER_FILE_NOT_FOUND, ER_CANT_READ_DIR, ER_CANT_SET_WD, ER_CHECKREAD,
      ER_DISK_FULL, ER_DUP_KEY, ER_ERROR_ON_CLOSE, ER_ERROR_ON_READ, ER_ERROR_ON_RENAME,
      ER_ERROR_ON_WRITE, ER_FILE_USED, ER_FILSORT_ABORT, ER_FORM_NOT_FOUND, ER_GET_ERRNO, ER_ILLEGAL_HA,
      ER_KEY_NOT_FOUND, ER_NOT_FORM_FILE, ER_NOT_KEYFILE, ER_OLD_KEYFILE, ER_OPEN_AS_READONLY,
      ER_OUTOFMEMORY, ER_OUT_OF_SORTMEMORY, ER_UNEXPECTED_EOF, ER_CON_COUNT_ERROR, ER_OUT_OF_RESOURCES,
      ER_BAD_HOST_ERROR, ER_HANDSHAKE_ERROR, ER_DBACCESS_DENIED_ERROR, ER_ACCESS_DENIED_ERROR,
      ER_NO_DB_ERROR, ER_UNKNOWN_COM_ERROR, ER_BAD_NULL_ERROR, ER_BAD_DB_ERROR, ER_TABLE_EXISTS_ERROR,
      ER_BAD_TABLE_ERROR, ER_NON_UNIQ_ERROR, ER_SERVER_SHUTDOWN, ER_BAD_FIELD_ERROR,
      ER_WRONG_FIELD_WITH_GROUP, ER_WRONG_GROUP_FIELD, ER_WRONG_SUM_SELECT, ER_WRONG_VALUE_COUNT,
      ER_TOO_LONG_IDENT, ER_DUP_FIELDNAME, ER_DUP_KEYNAME, ER_DUP_ENTRY, ER_WRONG_FIELD_SPEC,
      ER_PARSE_ERROR, ER_EMPTY_QUERY, ER_NONUNIQ_TABLE, ER_INVALID_DEFAULT, ER_MULTIPLE_PRI_KEY,
      ER_TOO_MANY_KEYS, ER_TOO_MANY_KEY_PARTS, ER_TOO_LONG_KEY, ER_KEY_COLUMN_DOES_NOT_EXIST,
      ER_BLOB_USED_AS_KEY, ER_TOO_BIG_FIELDLENGTH, ER_WRONG_AUTO_KEY, ER_BINLOG_CANT_DELETE_GTID_DOMAIN,
      ER_NORMAL_SHUTDOWN, ER_GOT_SIGNAL, ER_SHUTDOWN_COMPLETE, ER_FORCING_CLOSE, ER_IPSOCK_ERROR,
      ER_NO_SUCH_INDEX, ER_WRONG_FIELD_TERMINATORS, ER_BLOBS_AND_NO_TERMINATED,
      ER_TEXTFILE_NOT_READABLE, ER_FILE_EXISTS_ERROR, ER_LOAD_INFO, ER_ALTER_INFO, ER_WRONG_SUB_KEY,
      ER_CANT_REMOVE_ALL_FIELDS, ER_CANT_DROP_FIELD_OR_KEY, ER_INSERT_INFO, ER_UPDATE_TABLE_USED,
      ER_NO_SUCH_THREAD, ER_KILL_DENIED_ERROR, ER_NO_TABLES_USED, ER_TOO_BIG_SET, ER_NO_UNIQUE_LOGFILE,
      ER_TABLE_NOT_LOCKED_FOR_WRITE, ER_TABLE_NOT_LOCKED, ER_UNUSED_17, ER_WRONG_DB_NAME,
      ER_WRONG_TABLE_NAME, ER_TOO_BIG_SELECT, ER_UNKNOWN_ERROR, ER_UNKNOWN_PROCEDURE,
      ER_WRONG_PARAMCOUNT_TO_PROCEDURE, ER_WRONG_PARAMETERS_TO_PROCEDURE, ER_UNKNOWN_TABLE,
      ER_FIELD_SPECIFIED_TWICE, ER_INVALID_GROUP_FUNC_USE, ER_UNSUPPORTED_EXTENSION,
      ER_TABLE_MUST_HAVE_COLUMNS, ER_RECORD_FILE_FULL, ER_UNKNOWN_CHARACTER_SET, ER_TOO_MANY_TABLES,
      ER_TOO_MANY_FIELDS, ER_TOO_BIG_ROWSIZE, ER_STACK_OVERRUN, ER_WRONG_OUTER_JOIN,
      ER_NULL_COLUMN_IN_INDEX, ER_CANT_FIND_UDF, ER_CANT_INITIALIZE_UDF, ER_UDF_NO_PATHS, ER_UDF_EXISTS,
      ER_CANT_OPEN_LIBRARY, ER_CANT_FIND_DL_ENTRY, ER_FUNCTION_NOT_DEFINED, ER_HOST_IS_BLOCKED,
      ER_HOST_NOT_PRIVILEGED, ER_PASSWORD_ANONYMOUS_USER, ER_PASSWORD_NOT_ALLOWED, ER_PASSWORD_NO_MATCH,
      ER_UPDATE_INFO, ER_CANT_CREATE_THREAD, ER_WRONG_VALUE_COUNT_ON_ROW, ER_CANT_REOPEN_TABLE,
      ER_INVALID_USE_OF_NULL, ER_REGEXP_ERROR, ER_MIX_OF_GROUP_FUNC_AND_FIELDS, ER_NONEXISTING_GRANT,
      ER_TABLEACCESS_DENIED_ERROR, ER_COLUMNACCESS_DENIED_ERROR, ER_ILLEGAL_GRANT_FOR_TABLE,
      ER_GRANT_WRONG_HOST_OR_USER, ER_NO_SUCH_TABLE, ER_NONEXISTING_TABLE_GRANT, ER_NOT_ALLOWED_COMMAND,
      ER_SYNTAX_ERROR]"

abbreviation ER_DELAYED_CANT_CHANGE_LOCK :: int where "ER_DELAYED_CANT_CHANGE_LOCK \<equiv> 1150"
abbreviation ER_TOO_MANY_DELAYED_THREADS :: int where "ER_TOO_MANY_DELAYED_THREADS \<equiv> 1151"
abbreviation ER_ABORTING_CONNECTION :: int where "ER_ABORTING_CONNECTION \<equiv> 1152"
abbreviation ER_NET_PACKET_TOO_LARGE :: int where "ER_NET_PACKET_TOO_LARGE \<equiv> 1153"
abbreviation ER_NET_READ_ERROR_FROM_PIPE :: int where "ER_NET_READ_ERROR_FROM_PIPE \<equiv> 1154"
abbreviation ER_NET_FCNTL_ERROR :: int where "ER_NET_FCNTL_ERROR \<equiv> 1155"
abbreviation ER_NET_PACKETS_OUT_OF_ORDER :: int where "ER_NET_PACKETS_OUT_OF_ORDER \<equiv> 1156"
abbreviation ER_NET_UNCOMPRESS_ERROR :: int where "ER_NET_UNCOMPRESS_ERROR \<equiv> 1157"
abbreviation ER_NET_READ_ERROR :: int where "ER_NET_READ_ERROR \<equiv> 1158"
abbreviation ER_NET_READ_INTERRUPTED :: int where "ER_NET_READ_INTERRUPTED \<equiv> 1159"
abbreviation ER_NET_ERROR_ON_WRITE :: int where "ER_NET_ERROR_ON_WRITE \<equiv> 1160"
abbreviation ER_NET_WRITE_INTERRUPTED :: int where "ER_NET_WRITE_INTERRUPTED \<equiv> 1161"
abbreviation ER_TOO_LONG_STRING :: int where "ER_TOO_LONG_STRING \<equiv> 1162"
abbreviation ER_TABLE_CANT_HANDLE_BLOB :: int where "ER_TABLE_CANT_HANDLE_BLOB \<equiv> 1163"
abbreviation ER_TABLE_CANT_HANDLE_AUTO_INCREMENT :: int where "ER_TABLE_CANT_HANDLE_AUTO_INCREMENT \<equiv> 1164"
abbreviation ER_DELAYED_INSERT_TABLE_LOCKED :: int where "ER_DELAYED_INSERT_TABLE_LOCKED \<equiv> 1165"
abbreviation ER_WRONG_COLUMN_NAME :: int where "ER_WRONG_COLUMN_NAME \<equiv> 1166"
abbreviation ER_WRONG_KEY_COLUMN :: int where "ER_WRONG_KEY_COLUMN \<equiv> 1167"
abbreviation ER_WRONG_MRG_TABLE :: int where "ER_WRONG_MRG_TABLE \<equiv> 1168"
abbreviation ER_DUP_UNIQUE :: int where "ER_DUP_UNIQUE \<equiv> 1169"
abbreviation ER_BLOB_KEY_WITHOUT_LENGTH :: int where "ER_BLOB_KEY_WITHOUT_LENGTH \<equiv> 1170"
abbreviation ER_PRIMARY_CANT_HAVE_NULL :: int where "ER_PRIMARY_CANT_HAVE_NULL \<equiv> 1171"
abbreviation ER_TOO_MANY_ROWS :: int where "ER_TOO_MANY_ROWS \<equiv> 1172"
abbreviation ER_REQUIRES_PRIMARY_KEY :: int where "ER_REQUIRES_PRIMARY_KEY \<equiv> 1173"
abbreviation ER_NO_RAID_COMPILED :: int where "ER_NO_RAID_COMPILED \<equiv> 1174"
abbreviation ER_UPDATE_WITHOUT_KEY_IN_SAFE_MODE :: int where "ER_UPDATE_WITHOUT_KEY_IN_SAFE_MODE \<equiv> 1175"
abbreviation ER_KEY_DOES_NOT_EXISTS :: int where "ER_KEY_DOES_NOT_EXISTS \<equiv> 1176"
abbreviation ER_CHECK_NO_SUCH_TABLE :: int where "ER_CHECK_NO_SUCH_TABLE \<equiv> 1177"
abbreviation ER_CHECK_NOT_IMPLEMENTED :: int where "ER_CHECK_NOT_IMPLEMENTED \<equiv> 1178"
abbreviation ER_CANT_DO_THIS_DURING_AN_TRANSACTION :: int where "ER_CANT_DO_THIS_DURING_AN_TRANSACTION \<equiv> 1179"
abbreviation ER_ERROR_DURING_COMMIT :: int where "ER_ERROR_DURING_COMMIT \<equiv> 1180"
abbreviation ER_ERROR_DURING_ROLLBACK :: int where "ER_ERROR_DURING_ROLLBACK \<equiv> 1181"
abbreviation ER_ERROR_DURING_FLUSH_LOGS :: int where "ER_ERROR_DURING_FLUSH_LOGS \<equiv> 1182"
abbreviation ER_ERROR_DURING_CHECKPOINT :: int where "ER_ERROR_DURING_CHECKPOINT \<equiv> 1183"
abbreviation ER_NEW_ABORTING_CONNECTION :: int where "ER_NEW_ABORTING_CONNECTION \<equiv> 1184"
abbreviation ER_UNUSED_10 :: int where "ER_UNUSED_10 \<equiv> 1185"
abbreviation ER_FLUSH_MASTER_BINLOG_CLOSED :: int where "ER_FLUSH_MASTER_BINLOG_CLOSED \<equiv> 1186"
abbreviation ER_INDEX_REBUILD :: int where "ER_INDEX_REBUILD \<equiv> 1187"
abbreviation ER_MASTER :: int where "ER_MASTER \<equiv> 1188"
abbreviation ER_MASTER_NET_READ :: int where "ER_MASTER_NET_READ \<equiv> 1189"
abbreviation ER_MASTER_NET_WRITE :: int where "ER_MASTER_NET_WRITE \<equiv> 1190"
abbreviation ER_FT_MATCHING_KEY_NOT_FOUND :: int where "ER_FT_MATCHING_KEY_NOT_FOUND \<equiv> 1191"
abbreviation ER_LOCK_OR_ACTIVE_TRANSACTION :: int where "ER_LOCK_OR_ACTIVE_TRANSACTION \<equiv> 1192"
abbreviation ER_UNKNOWN_SYSTEM_VARIABLE :: int where "ER_UNKNOWN_SYSTEM_VARIABLE \<equiv> 1193"
abbreviation ER_CRASHED_ON_USAGE :: int where "ER_CRASHED_ON_USAGE \<equiv> 1194"
abbreviation ER_CRASHED_ON_REPAIR :: int where "ER_CRASHED_ON_REPAIR \<equiv> 1195"
abbreviation ER_WARNING_NOT_COMPLETE_ROLLBACK :: int where "ER_WARNING_NOT_COMPLETE_ROLLBACK \<equiv> 1196"
abbreviation ER_TRANS_CACHE_FULL :: int where "ER_TRANS_CACHE_FULL \<equiv> 1197"
abbreviation ER_SLAVE_MUST_STOP :: int where "ER_SLAVE_MUST_STOP \<equiv> 1198"
abbreviation ER_SLAVE_NOT_RUNNING :: int where "ER_SLAVE_NOT_RUNNING \<equiv> 1199"
abbreviation ER_BAD_SLAVE :: int where "ER_BAD_SLAVE \<equiv> 1200"
abbreviation ER_MASTER_INFO :: int where "ER_MASTER_INFO \<equiv> 1201"
abbreviation ER_SLAVE_THREAD :: int where "ER_SLAVE_THREAD \<equiv> 1202"
abbreviation ER_TOO_MANY_USER_CONNECTIONS :: int where "ER_TOO_MANY_USER_CONNECTIONS \<equiv> 1203"
abbreviation ER_SET_CONSTANTS_ONLY :: int where "ER_SET_CONSTANTS_ONLY \<equiv> 1204"
abbreviation ER_LOCK_WAIT_TIMEOUT :: int where "ER_LOCK_WAIT_TIMEOUT \<equiv> 1205"
abbreviation ER_LOCK_TABLE_FULL :: int where "ER_LOCK_TABLE_FULL \<equiv> 1206"
abbreviation ER_READ_ONLY_TRANSACTION :: int where "ER_READ_ONLY_TRANSACTION \<equiv> 1207"
abbreviation ER_DROP_DB_WITH_READ_LOCK :: int where "ER_DROP_DB_WITH_READ_LOCK \<equiv> 1208"
abbreviation ER_CREATE_DB_WITH_READ_LOCK :: int where "ER_CREATE_DB_WITH_READ_LOCK \<equiv> 1209"
abbreviation ER_WRONG_ARGUMENTS :: int where "ER_WRONG_ARGUMENTS \<equiv> 1210"
abbreviation ER_NO_PERMISSION_TO_CREATE_USER :: int where "ER_NO_PERMISSION_TO_CREATE_USER \<equiv> 1211"
abbreviation ER_UNION_TABLES_IN_DIFFERENT_DIR :: int where "ER_UNION_TABLES_IN_DIFFERENT_DIR \<equiv> 1212"
abbreviation ER_LOCK_DEADLOCK :: int where "ER_LOCK_DEADLOCK \<equiv> 1213"
abbreviation ER_TABLE_CANT_HANDLE_FT :: int where "ER_TABLE_CANT_HANDLE_FT \<equiv> 1214"
abbreviation ER_CANNOT_ADD_FOREIGN :: int where "ER_CANNOT_ADD_FOREIGN \<equiv> 1215"
abbreviation ER_NO_REFERENCED_ROW :: int where "ER_NO_REFERENCED_ROW \<equiv> 1216"
abbreviation ER_ROW_IS_REFERENCED :: int where "ER_ROW_IS_REFERENCED \<equiv> 1217"
abbreviation ER_CONNECT_TO_MASTER :: int where "ER_CONNECT_TO_MASTER \<equiv> 1218"
abbreviation ER_QUERY_ON_MASTER :: int where "ER_QUERY_ON_MASTER \<equiv> 1219"
abbreviation ER_ERROR_WHEN_EXECUTING_COMMAND :: int where "ER_ERROR_WHEN_EXECUTING_COMMAND \<equiv> 1220"
abbreviation ER_WRONG_USAGE :: int where "ER_WRONG_USAGE \<equiv> 1221"
abbreviation ER_WRONG_NUMBER_OF_COLUMNS_IN_SELECT :: int where "ER_WRONG_NUMBER_OF_COLUMNS_IN_SELECT \<equiv> 1222"
abbreviation ER_CANT_UPDATE_WITH_READLOCK :: int where "ER_CANT_UPDATE_WITH_READLOCK \<equiv> 1223"
abbreviation ER_MIXING_NOT_ALLOWED :: int where "ER_MIXING_NOT_ALLOWED \<equiv> 1224"
abbreviation ER_DUP_ARGUMENT :: int where "ER_DUP_ARGUMENT \<equiv> 1225"
abbreviation ER_USER_LIMIT_REACHED :: int where "ER_USER_LIMIT_REACHED \<equiv> 1226"
abbreviation ER_SPECIFIC_ACCESS_DENIED_ERROR :: int where "ER_SPECIFIC_ACCESS_DENIED_ERROR \<equiv> 1227"
abbreviation ER_LOCAL_VARIABLE :: int where "ER_LOCAL_VARIABLE \<equiv> 1228"
abbreviation ER_GLOBAL_VARIABLE :: int where "ER_GLOBAL_VARIABLE \<equiv> 1229"
abbreviation ER_NO_DEFAULT :: int where "ER_NO_DEFAULT \<equiv> 1230"
abbreviation ER_WRONG_VALUE_FOR_VAR :: int where "ER_WRONG_VALUE_FOR_VAR \<equiv> 1231"
abbreviation ER_WRONG_TYPE_FOR_VAR :: int where "ER_WRONG_TYPE_FOR_VAR \<equiv> 1232"
abbreviation ER_VAR_CANT_BE_READ :: int where "ER_VAR_CANT_BE_READ \<equiv> 1233"
abbreviation ER_CANT_USE_OPTION_HERE :: int where "ER_CANT_USE_OPTION_HERE \<equiv> 1234"
abbreviation ER_NOT_SUPPORTED_YET :: int where "ER_NOT_SUPPORTED_YET \<equiv> 1235"
abbreviation ER_MASTER_FATAL_ERROR_READING_BINLOG :: int where "ER_MASTER_FATAL_ERROR_READING_BINLOG \<equiv> 1236"
abbreviation ER_SLAVE_IGNORED_TABLE :: int where "ER_SLAVE_IGNORED_TABLE \<equiv> 1237"
abbreviation ER_INCORRECT_GLOBAL_LOCAL_VAR :: int where "ER_INCORRECT_GLOBAL_LOCAL_VAR \<equiv> 1238"
abbreviation ER_WRONG_FK_DEF :: int where "ER_WRONG_FK_DEF \<equiv> 1239"
abbreviation ER_KEY_REF_DO_NOT_MATCH_TABLE_REF :: int where "ER_KEY_REF_DO_NOT_MATCH_TABLE_REF \<equiv> 1240"
abbreviation ER_OPERAND_COLUMNS :: int where "ER_OPERAND_COLUMNS \<equiv> 1241"
abbreviation ER_SUBQUERY_NO_1_ROW :: int where "ER_SUBQUERY_NO_1_ROW \<equiv> 1242"
abbreviation ER_UNKNOWN_STMT_HANDLER :: int where "ER_UNKNOWN_STMT_HANDLER \<equiv> 1243"
abbreviation ER_CORRUPT_HELP_DB :: int where "ER_CORRUPT_HELP_DB \<equiv> 1244"
abbreviation ER_CYCLIC_REFERENCE :: int where "ER_CYCLIC_REFERENCE \<equiv> 1245"
abbreviation ER_AUTO_CONVERT :: int where "ER_AUTO_CONVERT \<equiv> 1246"
abbreviation ER_ILLEGAL_REFERENCE :: int where "ER_ILLEGAL_REFERENCE \<equiv> 1247"
abbreviation ER_DERIVED_MUST_HAVE_ALIAS :: int where "ER_DERIVED_MUST_HAVE_ALIAS \<equiv> 1248"
abbreviation ER_SELECT_REDUCED :: int where "ER_SELECT_REDUCED \<equiv> 1249"
abbreviation ER_TABLENAME_NOT_ALLOWED_HERE :: int where "ER_TABLENAME_NOT_ALLOWED_HERE \<equiv> 1250"
abbreviation ER_NOT_SUPPORTED_AUTH_MODE :: int where "ER_NOT_SUPPORTED_AUTH_MODE \<equiv> 1251"
abbreviation ER_SPATIAL_CANT_HAVE_NULL :: int where "ER_SPATIAL_CANT_HAVE_NULL \<equiv> 1252"
abbreviation ER_COLLATION_CHARSET_MISMATCH :: int where "ER_COLLATION_CHARSET_MISMATCH \<equiv> 1253"
abbreviation ER_SLAVE_WAS_RUNNING :: int where "ER_SLAVE_WAS_RUNNING \<equiv> 1254"
abbreviation ER_SLAVE_WAS_NOT_RUNNING :: int where "ER_SLAVE_WAS_NOT_RUNNING \<equiv> 1255"
abbreviation ER_TOO_BIG_FOR_UNCOMPRESS :: int where "ER_TOO_BIG_FOR_UNCOMPRESS \<equiv> 1256"
abbreviation ER_ZLIB_Z_MEM_ERROR :: int where "ER_ZLIB_Z_MEM_ERROR \<equiv> 1257"
abbreviation ER_ZLIB_Z_BUF_ERROR :: int where "ER_ZLIB_Z_BUF_ERROR \<equiv> 1258"
abbreviation ER_ZLIB_Z_DATA_ERROR :: int where "ER_ZLIB_Z_DATA_ERROR \<equiv> 1259"
abbreviation ER_CUT_VALUE_GROUP_CONCAT :: int where "ER_CUT_VALUE_GROUP_CONCAT \<equiv> 1260"
abbreviation ER_WARN_TOO_FEW_RECORDS :: int where "ER_WARN_TOO_FEW_RECORDS \<equiv> 1261"
abbreviation ER_WARN_TOO_MANY_RECORDS :: int where "ER_WARN_TOO_MANY_RECORDS \<equiv> 1262"
abbreviation ER_WARN_NULL_TO_NOTNULL :: int where "ER_WARN_NULL_TO_NOTNULL \<equiv> 1263"
abbreviation ER_WARN_DATA_OUT_OF_RANGE :: int where "ER_WARN_DATA_OUT_OF_RANGE \<equiv> 1264"
abbreviation WARN_DATA_TRUNCATED :: int where "WARN_DATA_TRUNCATED \<equiv> 1265"
abbreviation ER_WARN_USING_OTHER_HANDLER :: int where "ER_WARN_USING_OTHER_HANDLER \<equiv> 1266"
abbreviation ER_CANT_AGGREGATE_2COLLATIONS :: int where "ER_CANT_AGGREGATE_2COLLATIONS \<equiv> 1267"
abbreviation ER_DROP_USER :: int where "ER_DROP_USER \<equiv> 1268"
abbreviation ER_REVOKE_GRANTS :: int where "ER_REVOKE_GRANTS \<equiv> 1269"
abbreviation ER_CANT_AGGREGATE_3COLLATIONS :: int where "ER_CANT_AGGREGATE_3COLLATIONS \<equiv> 1270"
abbreviation ER_CANT_AGGREGATE_NCOLLATIONS :: int where "ER_CANT_AGGREGATE_NCOLLATIONS \<equiv> 1271"
abbreviation ER_VARIABLE_IS_NOT_STRUCT :: int where "ER_VARIABLE_IS_NOT_STRUCT \<equiv> 1272"
abbreviation ER_UNKNOWN_COLLATION :: int where "ER_UNKNOWN_COLLATION \<equiv> 1273"
abbreviation ER_SLAVE_IGNORED_SSL_PARAMS :: int where "ER_SLAVE_IGNORED_SSL_PARAMS \<equiv> 1274"
abbreviation ER_SERVER_IS_IN_SECURE_AUTH_MODE :: int where "ER_SERVER_IS_IN_SECURE_AUTH_MODE \<equiv> 1275"
abbreviation ER_WARN_FIELD_RESOLVED :: int where "ER_WARN_FIELD_RESOLVED \<equiv> 1276"
abbreviation ER_BAD_SLAVE_UNTIL_COND :: int where "ER_BAD_SLAVE_UNTIL_COND \<equiv> 1277"
abbreviation ER_MISSING_SKIP_SLAVE :: int where "ER_MISSING_SKIP_SLAVE \<equiv> 1278"
abbreviation ER_UNTIL_COND_IGNORED :: int where "ER_UNTIL_COND_IGNORED \<equiv> 1279"
abbreviation ER_WRONG_NAME_FOR_INDEX :: int where "ER_WRONG_NAME_FOR_INDEX \<equiv> 1280"
abbreviation ER_WRONG_NAME_FOR_CATALOG :: int where "ER_WRONG_NAME_FOR_CATALOG \<equiv> 1281"
abbreviation ER_WARN_QC_RESIZE :: int where "ER_WARN_QC_RESIZE \<equiv> 1282"
abbreviation ER_BAD_FT_COLUMN :: int where "ER_BAD_FT_COLUMN \<equiv> 1283"
abbreviation ER_UNKNOWN_KEY_CACHE :: int where "ER_UNKNOWN_KEY_CACHE \<equiv> 1284"
abbreviation ER_WARN_HOSTNAME_WONT_WORK :: int where "ER_WARN_HOSTNAME_WONT_WORK \<equiv> 1285"
abbreviation ER_UNKNOWN_STORAGE_ENGINE :: int where "ER_UNKNOWN_STORAGE_ENGINE \<equiv> 1286"
abbreviation ER_WARN_DEPRECATED_SYNTAX :: int where "ER_WARN_DEPRECATED_SYNTAX \<equiv> 1287"
abbreviation ER_NON_UPDATABLE_TABLE :: int where "ER_NON_UPDATABLE_TABLE \<equiv> 1288"
abbreviation ER_FEATURE_DISABLED :: int where "ER_FEATURE_DISABLED \<equiv> 1289"
abbreviation ER_OPTION_PREVENTS_STATEMENT :: int where "ER_OPTION_PREVENTS_STATEMENT \<equiv> 1290"
abbreviation ER_DUPLICATED_VALUE_IN_TYPE :: int where "ER_DUPLICATED_VALUE_IN_TYPE \<equiv> 1291"
abbreviation ER_TRUNCATED_WRONG_VALUE :: int where "ER_TRUNCATED_WRONG_VALUE \<equiv> 1292"
abbreviation ER_TOO_MUCH_AUTO_TIMESTAMP_COLS :: int where "ER_TOO_MUCH_AUTO_TIMESTAMP_COLS \<equiv> 1293"
abbreviation ER_INVALID_ON_UPDATE :: int where "ER_INVALID_ON_UPDATE \<equiv> 1294"
abbreviation ER_UNSUPPORTED_PS :: int where "ER_UNSUPPORTED_PS \<equiv> 1295"
abbreviation ER_GET_ERRMSG :: int where "ER_GET_ERRMSG \<equiv> 1296"
abbreviation ER_GET_TEMPORARY_ERRMSG :: int where "ER_GET_TEMPORARY_ERRMSG \<equiv> 1297"
abbreviation ER_UNKNOWN_TIME_ZONE :: int where "ER_UNKNOWN_TIME_ZONE \<equiv> 1298"
abbreviation ER_WARN_INVALID_TIMESTAMP :: int where "ER_WARN_INVALID_TIMESTAMP \<equiv> 1299"

definition er_codes_2 :: "int list" where
  "er_codes_2 =
     [ER_DELAYED_CANT_CHANGE_LOCK, ER_TOO_MANY_DELAYED_THREADS, ER_ABORTING_CONNECTION,
      ER_NET_PACKET_TOO_LARGE, ER_NET_READ_ERROR_FROM_PIPE, ER_NET_FCNTL_ERROR,
      ER_NET_PACKETS_OUT_OF_ORDER, ER_NET_UNCOMPRESS_ERROR, ER_NET_READ_ERROR, ER_NET_READ_INTERRUPTED,
      ER_NET_ERROR_ON_WRITE, ER_NET_WRITE_INTERRUPTED, ER_TOO_LONG_STRING, ER_TABLE_CANT_HANDLE_BLOB,
      ER_TABLE_CANT_HANDLE_AUTO_INCREMENT, ER_DELAYED_INSERT_TABLE_LOCKED, ER_WRONG_COLUMN_NAME,
      ER_WRONG_KEY_COLUMN, ER_WRONG_MRG_TABLE, ER_DUP_UNIQUE, ER_BLOB_KEY_WITHOUT_LENGTH,
      ER_PRIMARY_CANT_HAVE_NULL, ER_TOO_MANY_ROWS, ER_REQUIRES_PRIMARY_KEY, ER_NO_RAID_COMPILED,
      ER_UPDATE_WITHOUT_KEY_IN_SAFE_MODE, ER_KEY_DOES_NOT_EXISTS, ER_CHECK_NO_SUCH_TABLE,
      ER_CHECK_NOT_IMPLEMENTED, ER_CANT_DO_THIS_DURING_AN_TRANSACTION, ER_ERROR_DURING_COMMIT,
      ER_ERROR_DURING_ROLLBACK, ER_ERROR_DURING_FLUSH_LOGS, ER_ERROR_DURING_CHECKPOINT,
      ER_NEW_ABORTING_CONNECTION, ER_UNUSED_10, ER_FLUSH_MASTER_BINLOG_CLOSED, ER_INDEX_REBUILD,
      ER_MASTER, ER_MASTER_NET_READ, ER_MASTER_NET_WRITE, ER_FT_MATCHING_KEY_NOT_FOUND,
      ER_LOCK_OR_ACTIVE_TRANSACTION, ER_UNKNOWN_SYSTEM_VARIABLE, ER_CRASHED_ON_USAGE,
      ER_CRASHED_ON_REPAIR, ER_WARNING_NOT_COMPLETE_ROLLBACK, ER_TRANS_CACHE_FULL, ER_SLAVE_MUST_STOP,
      ER_SLAVE_NOT_RUNNING, ER_BAD_SLAVE, ER_MASTER_INFO, ER_SLAVE_THREAD, ER_TOO_MANY_USER_CONNECTIONS,
      ER_SET_CONSTANTS_ONLY, ER_LOCK_WAIT_TIMEOUT, ER_LOCK_TABLE_FULL, ER_READ_ONLY_TRANSACTION,
      ER_DROP_DB_WITH_READ_LOCK, ER_CREATE_DB_WITH_READ_LOCK, ER_WRONG_ARGUMENTS,
      ER_NO_PERMISSION_TO_CREATE_USER, ER_UNION_TABLES_IN_DIFFERENT_DIR, ER_LOCK_DEADLOCK,
      ER_TABLE_CANT_HANDLE_FT, ER_CANNOT_ADD_FOREIGN, ER_NO_REFERENCED_ROW, ER_ROW_IS_REFERENCED,
      ER_CONNECT_TO_MASTER, ER_QUERY_ON_MASTER, ER_ERROR_WHEN_EXECUTING_COMMAND, ER_WRONG_USAGE,
      ER_WRONG_NUMBER_OF_COLUMNS_IN_SELECT, ER_CANT_UPDATE_WITH_READLOCK, ER_MIXING_NOT_ALLOWED,
      ER_DUP_ARGUMENT, ER_USER_LIMIT_REACHED, ER_SPECIFIC_ACCESS_DENIED_ERROR, ER_LOCAL_VARIABLE,
      ER_GLOBAL_VARIABLE, ER_NO_DEFAULT, ER_WRONG_VALUE_FOR_VAR, ER_WRONG_TYPE_FOR_VAR,
      ER_VAR_CANT_BE_READ, ER_CANT_USE_OPTION_HERE, ER_NOT_SUPPORTED_YET,
      ER_MASTER_FATAL_ERROR_READING_BINLOG, ER_SLAVE_IGNORED_TABLE, ER_INCORRECT_GLOBAL_LOCAL_VAR,
      ER_WRONG_FK_DEF, ER_KEY_REF_DO_NOT_MATCH_TABLE_REF, ER_OPERAND_COLUMNS, ER_SUBQUERY_NO_1_ROW,
      ER_UNKNOWN_STMT_HANDLER, ER_CORRUPT_HELP_DB, ER_CYCLIC_REFERENCE, ER_AUTO_CONVERT,
      ER_ILLEGAL_REFERENCE, ER_DERIVED_MUST_HAVE_ALIAS, ER_SELECT_REDUCED,
      ER_TABLENAME_NOT_ALLOWED_HERE, ER_NOT_SUPPORTED_AUTH_MODE, ER_SPATIAL_CANT_HAVE_NULL,
      ER_COLLATION_CHARSET_MISMATCH, ER_SLAVE_WAS_RUNNING, ER_SLAVE_WAS_NOT_RUNNING,
      ER_TOO_BIG_FOR_UNCOMPRESS, ER_ZLIB_Z_MEM_ERROR, ER_ZLIB_Z_BUF_ERROR, ER_ZLIB_Z_DATA_ERROR,
      ER_CUT_VALUE_GROUP_CONCAT, ER_WARN_TOO_FEW_RECORDS, ER_WARN_TOO_MANY_RECORDS,
      ER_WARN_NULL_TO_NOTNULL, ER_WARN_DATA_OUT_OF_RANGE, WARN_DATA_TRUNCATED,
      ER_WARN_USING_OTHER_HANDLER, ER_CANT_AGGREGATE_2COLLATIONS, ER_DROP_USER, ER_REVOKE_GRANTS,
      ER_CANT_AGGREGATE_3COLLATIONS, ER_CANT_AGGREGATE_NCOLLATIONS, ER_VARIABLE_IS_NOT_STRUCT,
      ER_UNKNOWN_COLLATION, ER_SLAVE_IGNORED_SSL_PARAMS, ER_SERVER_IS_IN_SECURE_AUTH_MODE,
      ER_WARN_FIELD_RESOLVED, ER_BAD_SLAVE_UNTIL_COND, ER_MISSING_SKIP_SLAVE, ER_UNTIL_COND_IGNORED,
      ER_WRONG_NAME_FOR_INDEX, ER_WRONG_NAME_FOR_CATALOG, ER_WARN_QC_RESIZE, ER_BAD_FT_COLUMN,
      ER_UNKNOWN_KEY_CACHE, ER_WARN_HOSTNAME_WONT_WORK, ER_UNKNOWN_STORAGE_ENGINE,
      ER_WARN_DEPRECATED_SYNTAX, ER_NON_UPDATABLE_TABLE, ER_FEATURE_DISABLED,
      ER_OPTION_PREVENTS_STATEMENT, ER_DUPLICATED_VALUE_IN_TYPE, ER_TRUNCATED_WRONG_VALUE,
      ER_TOO_MUCH_AUTO_TIMESTAMP_COLS, ER_INVALID_ON_UPDATE, ER_UNSUPPORTED_PS, ER_GET_ERRMSG,
      ER_GET_TEMPORARY_ERRMSG, ER_UNKNOWN_TIME_ZONE, ER_WARN_INVALID_TIMESTAMP]"

abbreviation ER_INVALID_CHARACTER_STRING :: int where "ER_INVALID_CHARACTER_STRING \<equiv> 1300"
abbreviation ER_WARN_ALLOWED_PACKET_OVERFLOWED :: int where "ER_WARN_ALLOWED_PACKET_OVERFLOWED \<equiv> 1301"
abbreviation ER_CONFLICTING_DECLARATIONS :: int where "ER_CONFLICTING_DECLARATIONS \<equiv> 1302"
abbreviation ER_SP_NO_RECURSIVE_CREATE :: int where "ER_SP_NO_RECURSIVE_CREATE \<equiv> 1303"
abbreviation ER_SP_ALREADY_EXISTS :: int where "ER_SP_ALREADY_EXISTS \<equiv> 1304"
abbreviation ER_SP_DOES_NOT_EXIST :: int where "ER_SP_DOES_NOT_EXIST \<equiv> 1305"
abbreviation ER_SP_DROP_FAILED :: int where "ER_SP_DROP_FAILED \<equiv> 1306"
abbreviation ER_SP_STORE_FAILED :: int where "ER_SP_STORE_FAILED \<equiv> 1307"
abbreviation ER_SP_LILABEL_MISMATCH :: int where "ER_SP_LILABEL_MISMATCH \<equiv> 1308"
abbreviation ER_SP_LABEL_REDEFINE :: int where "ER_SP_LABEL_REDEFINE \<equiv> 1309"
abbreviation ER_SP_LABEL_MISMATCH :: int where "ER_SP_LABEL_MISMATCH \<equiv> 1310"
abbreviation ER_SP_UNINIT_VAR :: int where "ER_SP_UNINIT_VAR \<equiv> 1311"
abbreviation ER_SP_BADSELECT :: int where "ER_SP_BADSELECT \<equiv> 1312"
abbreviation ER_SP_BADRETURN :: int where "ER_SP_BADRETURN \<equiv> 1313"
abbreviation ER_SP_BADSTATEMENT :: int where "ER_SP_BADSTATEMENT \<equiv> 1314"
abbreviation ER_UPDATE_LOG_DEPRECATED_IGNORED :: int where "ER_UPDATE_LOG_DEPRECATED_IGNORED \<equiv> 1315"
abbreviation ER_UPDATE_LOG_DEPRECATED_TRANSLATED :: int where "ER_UPDATE_LOG_DEPRECATED_TRANSLATED \<equiv> 1316"
abbreviation ER_QUERY_INTERRUPTED :: int where "ER_QUERY_INTERRUPTED \<equiv> 1317"
abbreviation ER_SP_WRONG_NO_OF_ARGS :: int where "ER_SP_WRONG_NO_OF_ARGS \<equiv> 1318"
abbreviation ER_SP_COND_MISMATCH :: int where "ER_SP_COND_MISMATCH \<equiv> 1319"
abbreviation ER_SP_NORETURN :: int where "ER_SP_NORETURN \<equiv> 1320"
abbreviation ER_SP_NORETURNEND :: int where "ER_SP_NORETURNEND \<equiv> 1321"
abbreviation ER_SP_BAD_CURSOR_QUERY :: int where "ER_SP_BAD_CURSOR_QUERY \<equiv> 1322"
abbreviation ER_SP_BAD_CURSOR_SELECT :: int where "ER_SP_BAD_CURSOR_SELECT \<equiv> 1323"
abbreviation ER_SP_CURSOR_MISMATCH :: int where "ER_SP_CURSOR_MISMATCH \<equiv> 1324"
abbreviation ER_SP_CURSOR_ALREADY_OPEN :: int where "ER_SP_CURSOR_ALREADY_OPEN \<equiv> 1325"
abbreviation ER_SP_CURSOR_NOT_OPEN :: int where "ER_SP_CURSOR_NOT_OPEN \<equiv> 1326"
abbreviation ER_SP_UNDECLARED_VAR :: int where "ER_SP_UNDECLARED_VAR \<equiv> 1327"
abbreviation ER_SP_WRONG_NO_OF_FETCH_ARGS :: int where "ER_SP_WRONG_NO_OF_FETCH_ARGS \<equiv> 1328"
abbreviation ER_SP_FETCH_NO_DATA :: int where "ER_SP_FETCH_NO_DATA \<equiv> 1329"
abbreviation ER_SP_DUP_PARAM :: int where "ER_SP_DUP_PARAM \<equiv> 1330"
abbreviation ER_SP_DUP_VAR :: int where "ER_SP_DUP_VAR \<equiv> 1331"
abbreviation ER_SP_DUP_COND :: int where "ER_SP_DUP_COND \<equiv> 1332"
abbreviation ER_SP_DUP_CURS :: int where "ER_SP_DUP_CURS \<equiv> 1333"
abbreviation ER_SP_CANT_ALTER :: int where "ER_SP_CANT_ALTER \<equiv> 1334"
abbreviation ER_SP_SUBSELECT_NYI :: int where "ER_SP_SUBSELECT_NYI \<equiv> 1335"
abbreviation ER_STMT_NOT_ALLOWED_IN_SF_OR_TRG :: int where "ER_STMT_NOT_ALLOWED_IN_SF_OR_TRG \<equiv> 1336"
abbreviation ER_SP_VARCOND_AFTER_CURSHNDLR :: int where "ER_SP_VARCOND_AFTER_CURSHNDLR \<equiv> 1337"
abbreviation ER_SP_CURSOR_AFTER_HANDLER :: int where "ER_SP_CURSOR_AFTER_HANDLER \<equiv> 1338"
abbreviation ER_SP_CASE_NOT_FOUND :: int where "ER_SP_CASE_NOT_FOUND \<equiv> 1339"
abbreviation ER_FPARSER_TOO_BIG_FILE :: int where "ER_FPARSER_TOO_BIG_FILE \<equiv> 1340"
abbreviation ER_FPARSER_BAD_HEADER :: int where "ER_FPARSER_BAD_HEADER \<equiv> 1341"
abbreviation ER_FPARSER_EOF_IN_COMMENT :: int where "ER_FPARSER_EOF_IN_COMMENT \<equiv> 1342"
abbreviation ER_FPARSER_ERROR_IN_PARAMETER :: int where "ER_FPARSER_ERROR_IN_PARAMETER \<equiv> 1343"
abbreviation ER_FPARSER_EOF_IN_UNKNOWN_PARAMETER :: int where "ER_FPARSER_EOF_IN_UNKNOWN_PARAMETER \<equiv> 1344"
abbreviation ER_VIEW_NO_EXPLAIN :: int where "ER_VIEW_NO_EXPLAIN \<equiv> 1345"
abbreviation ER_FRM_UNKNOWN_TYPE :: int where "ER_FRM_UNKNOWN_TYPE \<equiv> 1346"
abbreviation ER_WRONG_OBJECT :: int where "ER_WRONG_OBJECT \<equiv> 1347"
abbreviation ER_NONUPDATEABLE_COLUMN :: int where "ER_NONUPDATEABLE_COLUMN \<equiv> 1348"
abbreviation ER_VIEW_SELECT_DERIVED :: int where "ER_VIEW_SELECT_DERIVED \<equiv> 1349"
abbreviation ER_VIEW_SELECT_CLAUSE :: int where "ER_VIEW_SELECT_CLAUSE \<equiv> 1350"
abbreviation ER_VIEW_SELECT_VARIABLE :: int where "ER_VIEW_SELECT_VARIABLE \<equiv> 1351"
abbreviation ER_VIEW_SELECT_TMPTABLE :: int where "ER_VIEW_SELECT_TMPTABLE \<equiv> 1352"
abbreviation ER_VIEW_WRONG_LIST :: int where "ER_VIEW_WRONG_LIST \<equiv> 1353"
abbreviation ER_WARN_VIEW_MERGE :: int where "ER_WARN_VIEW_MERGE \<equiv> 1354"
abbreviation ER_WARN_VIEW_WITHOUT_KEY :: int where "ER_WARN_VIEW_WITHOUT_KEY \<equiv> 1355"
abbreviation ER_VIEW_INVALID :: int where "ER_VIEW_INVALID \<equiv> 1356"
abbreviation ER_SP_NO_DROP_SP :: int where "ER_SP_NO_DROP_SP \<equiv> 1357"
abbreviation ER_SP_GOTO_IN_HNDLR :: int where "ER_SP_GOTO_IN_HNDLR \<equiv> 1358"
abbreviation ER_TRG_ALREADY_EXISTS :: int where "ER_TRG_ALREADY_EXISTS \<equiv> 1359"
abbreviation ER_TRG_DOES_NOT_EXIST :: int where "ER_TRG_DOES_NOT_EXIST \<equiv> 1360"
abbreviation ER_TRG_ON_VIEW_OR_TEMP_TABLE :: int where "ER_TRG_ON_VIEW_OR_TEMP_TABLE \<equiv> 1361"
abbreviation ER_TRG_CANT_CHANGE_ROW :: int where "ER_TRG_CANT_CHANGE_ROW \<equiv> 1362"
abbreviation ER_TRG_NO_SUCH_ROW_IN_TRG :: int where "ER_TRG_NO_SUCH_ROW_IN_TRG \<equiv> 1363"
abbreviation ER_NO_DEFAULT_FOR_FIELD :: int where "ER_NO_DEFAULT_FOR_FIELD \<equiv> 1364"
abbreviation ER_DIVISION_BY_ZERO :: int where "ER_DIVISION_BY_ZERO \<equiv> 1365"
abbreviation ER_TRUNCATED_WRONG_VALUE_FOR_FIELD :: int where "ER_TRUNCATED_WRONG_VALUE_FOR_FIELD \<equiv> 1366"
abbreviation ER_ILLEGAL_VALUE_FOR_TYPE :: int where "ER_ILLEGAL_VALUE_FOR_TYPE \<equiv> 1367"
abbreviation ER_VIEW_NONUPD_CHECK :: int where "ER_VIEW_NONUPD_CHECK \<equiv> 1368"
abbreviation ER_VIEW_CHECK_FAILED :: int where "ER_VIEW_CHECK_FAILED \<equiv> 1369"
abbreviation ER_PROCACCESS_DENIED_ERROR :: int where "ER_PROCACCESS_DENIED_ERROR \<equiv> 1370"
abbreviation ER_RELAY_LOG_FAIL :: int where "ER_RELAY_LOG_FAIL \<equiv> 1371"
abbreviation ER_PASSWD_LENGTH :: int where "ER_PASSWD_LENGTH \<equiv> 1372"
abbreviation ER_UNKNOWN_TARGET_BINLOG :: int where "ER_UNKNOWN_TARGET_BINLOG \<equiv> 1373"
abbreviation ER_IO_ERR_LOG_INDEX_READ :: int where "ER_IO_ERR_LOG_INDEX_READ \<equiv> 1374"
abbreviation ER_BINLOG_PURGE_PROHIBITED :: int where "ER_BINLOG_PURGE_PROHIBITED \<equiv> 1375"
abbreviation ER_FSEEK_FAIL :: int where "ER_FSEEK_FAIL \<equiv> 1376"
abbreviation ER_BINLOG_PURGE_FATAL_ERR :: int where "ER_BINLOG_PURGE_FATAL_ERR \<equiv> 1377"
abbreviation ER_LOG_IN_USE :: int where "ER_LOG_IN_USE \<equiv> 1378"
abbreviation ER_LOG_PURGE_UNKNOWN_ERR :: int where "ER_LOG_PURGE_UNKNOWN_ERR \<equiv> 1379"
abbreviation ER_RELAY_LOG_INIT :: int where "ER_RELAY_LOG_INIT \<equiv> 1380"
abbreviation ER_NO_BINARY_LOGGING :: int where "ER_NO_BINARY_LOGGING \<equiv> 1381"
abbreviation ER_RESERVED_SYNTAX :: int where "ER_RESERVED_SYNTAX \<equiv> 1382"
abbreviation ER_WSAS_FAILED :: int where "ER_WSAS_FAILED \<equiv> 1383"
abbreviation ER_DIFF_GROUPS_PROC :: int where "ER_DIFF_GROUPS_PROC \<equiv> 1384"
abbreviation ER_NO_GROUP_FOR_PROC :: int where "ER_NO_GROUP_FOR_PROC \<equiv> 1385"
abbreviation ER_ORDER_WITH_PROC :: int where "ER_ORDER_WITH_PROC \<equiv> 1386"
abbreviation ER_LOGGING_PROHIBIT_CHANGING_OF :: int where "ER_LOGGING_PROHIBIT_CHANGING_OF \<equiv> 1387"
abbreviation ER_NO_FILE_MAPPING :: int where "ER_NO_FILE_MAPPING \<equiv> 1388"
abbreviation ER_WRONG_MAGIC :: int where "ER_WRONG_MAGIC \<equiv> 1389"
abbreviation ER_PS_MANY_PARAM :: int where "ER_PS_MANY_PARAM \<equiv> 1390"
abbreviation ER_KEY_PART_0 :: int where "ER_KEY_PART_0 \<equiv> 1391"
abbreviation ER_VIEW_CHECKSUM :: int where "ER_VIEW_CHECKSUM \<equiv> 1392"
abbreviation ER_VIEW_MULTIUPDATE :: int where "ER_VIEW_MULTIUPDATE \<equiv> 1393"
abbreviation ER_VIEW_NO_INSERT_FIELD_LIST :: int where "ER_VIEW_NO_INSERT_FIELD_LIST \<equiv> 1394"
abbreviation ER_VIEW_DELETE_MERGE_VIEW :: int where "ER_VIEW_DELETE_MERGE_VIEW \<equiv> 1395"
abbreviation ER_CANNOT_USER :: int where "ER_CANNOT_USER \<equiv> 1396"
abbreviation ER_XAER_NOTA :: int where "ER_XAER_NOTA \<equiv> 1397"
abbreviation ER_XAER_INVAL :: int where "ER_XAER_INVAL \<equiv> 1398"
abbreviation ER_XAER_RMFAIL :: int where "ER_XAER_RMFAIL \<equiv> 1399"
abbreviation ER_XAER_OUTSIDE :: int where "ER_XAER_OUTSIDE \<equiv> 1400"
abbreviation ER_XAER_RMERR :: int where "ER_XAER_RMERR \<equiv> 1401"
abbreviation ER_XA_RBROLLBACK :: int where "ER_XA_RBROLLBACK \<equiv> 1402"
abbreviation ER_NONEXISTING_PROC_GRANT :: int where "ER_NONEXISTING_PROC_GRANT \<equiv> 1403"
abbreviation ER_PROC_AUTO_GRANT_FAIL :: int where "ER_PROC_AUTO_GRANT_FAIL \<equiv> 1404"
abbreviation ER_PROC_AUTO_REVOKE_FAIL :: int where "ER_PROC_AUTO_REVOKE_FAIL \<equiv> 1405"
abbreviation ER_DATA_TOO_LONG :: int where "ER_DATA_TOO_LONG \<equiv> 1406"
abbreviation ER_SP_BAD_SQLSTATE :: int where "ER_SP_BAD_SQLSTATE \<equiv> 1407"
abbreviation ER_STARTUP :: int where "ER_STARTUP \<equiv> 1408"
abbreviation ER_LOAD_FROM_FIXED_SIZE_ROWS_TO_VAR :: int where "ER_LOAD_FROM_FIXED_SIZE_ROWS_TO_VAR \<equiv> 1409"
abbreviation ER_CANT_CREATE_USER_WITH_GRANT :: int where "ER_CANT_CREATE_USER_WITH_GRANT \<equiv> 1410"
abbreviation ER_WRONG_VALUE_FOR_TYPE :: int where "ER_WRONG_VALUE_FOR_TYPE \<equiv> 1411"
abbreviation ER_TABLE_DEF_CHANGED :: int where "ER_TABLE_DEF_CHANGED \<equiv> 1412"
abbreviation ER_SP_DUP_HANDLER :: int where "ER_SP_DUP_HANDLER \<equiv> 1413"
abbreviation ER_SP_NOT_VAR_ARG :: int where "ER_SP_NOT_VAR_ARG \<equiv> 1414"
abbreviation ER_SP_NO_RETSET :: int where "ER_SP_NO_RETSET \<equiv> 1415"
abbreviation ER_CANT_CREATE_GEOMETRY_OBJECT :: int where "ER_CANT_CREATE_GEOMETRY_OBJECT \<equiv> 1416"
abbreviation ER_FAILED_ROUTINE_BREAK_BINLOG :: int where "ER_FAILED_ROUTINE_BREAK_BINLOG \<equiv> 1417"
abbreviation ER_BINLOG_UNSAFE_ROUTINE :: int where "ER_BINLOG_UNSAFE_ROUTINE \<equiv> 1418"
abbreviation ER_BINLOG_CREATE_ROUTINE_NEED_SUPER :: int where "ER_BINLOG_CREATE_ROUTINE_NEED_SUPER \<equiv> 1419"
abbreviation ER_EXEC_STMT_WITH_OPEN_CURSOR :: int where "ER_EXEC_STMT_WITH_OPEN_CURSOR \<equiv> 1420"
abbreviation ER_STMT_HAS_NO_OPEN_CURSOR :: int where "ER_STMT_HAS_NO_OPEN_CURSOR \<equiv> 1421"
abbreviation ER_COMMIT_NOT_ALLOWED_IN_SF_OR_TRG :: int where "ER_COMMIT_NOT_ALLOWED_IN_SF_OR_TRG \<equiv> 1422"
abbreviation ER_NO_DEFAULT_FOR_VIEW_FIELD :: int where "ER_NO_DEFAULT_FOR_VIEW_FIELD \<equiv> 1423"
abbreviation ER_SP_NO_RECURSION :: int where "ER_SP_NO_RECURSION \<equiv> 1424"
abbreviation ER_TOO_BIG_SCALE :: int where "ER_TOO_BIG_SCALE \<equiv> 1425"
abbreviation ER_TOO_BIG_PRECISION :: int where "ER_TOO_BIG_PRECISION \<equiv> 1426"
abbreviation ER_M_BIGGER_THAN_D :: int where "ER_M_BIGGER_THAN_D \<equiv> 1427"
abbreviation ER_WRONG_LOCK_OF_SYSTEM_TABLE :: int where "ER_WRONG_LOCK_OF_SYSTEM_TABLE \<equiv> 1428"
abbreviation ER_CONNECT_TO_FOREIGN_DATA_SOURCE :: int where "ER_CONNECT_TO_FOREIGN_DATA_SOURCE \<equiv> 1429"
abbreviation ER_QUERY_ON_FOREIGN_DATA_SOURCE :: int where "ER_QUERY_ON_FOREIGN_DATA_SOURCE \<equiv> 1430"
abbreviation ER_FOREIGN_DATA_SOURCE_DOESNT_EXIST :: int where "ER_FOREIGN_DATA_SOURCE_DOESNT_EXIST \<equiv> 1431"
abbreviation ER_FOREIGN_DATA_STRING_INVALID_CANT_CREATE :: int where "ER_FOREIGN_DATA_STRING_INVALID_CANT_CREATE \<equiv> 1432"
abbreviation ER_FOREIGN_DATA_STRING_INVALID :: int where "ER_FOREIGN_DATA_STRING_INVALID \<equiv> 1433"
abbreviation ER_CANT_CREATE_FEDERATED_TABLE :: int where "ER_CANT_CREATE_FEDERATED_TABLE \<equiv> 1434"
abbreviation ER_TRG_IN_WRONG_SCHEMA :: int where "ER_TRG_IN_WRONG_SCHEMA \<equiv> 1435"
abbreviation ER_STACK_OVERRUN_NEED_MORE :: int where "ER_STACK_OVERRUN_NEED_MORE \<equiv> 1436"
abbreviation ER_TOO_LONG_BODY :: int where "ER_TOO_LONG_BODY \<equiv> 1437"
abbreviation ER_WARN_CANT_DROP_DEFAULT_KEYCACHE :: int where "ER_WARN_CANT_DROP_DEFAULT_KEYCACHE \<equiv> 1438"
abbreviation ER_TOO_BIG_DISPLAYWIDTH :: int where "ER_TOO_BIG_DISPLAYWIDTH \<equiv> 1439"
abbreviation ER_XAER_DUPID :: int where "ER_XAER_DUPID \<equiv> 1440"
abbreviation ER_DATETIME_FUNCTION_OVERFLOW :: int where "ER_DATETIME_FUNCTION_OVERFLOW \<equiv> 1441"
abbreviation ER_CANT_UPDATE_USED_TABLE_IN_SF_OR_TRG :: int where "ER_CANT_UPDATE_USED_TABLE_IN_SF_OR_TRG \<equiv> 1442"
abbreviation ER_VIEW_PREVENT_UPDATE :: int where "ER_VIEW_PREVENT_UPDATE \<equiv> 1443"
abbreviation ER_PS_NO_RECURSION :: int where "ER_PS_NO_RECURSION \<equiv> 1444"
abbreviation ER_SP_CANT_SET_AUTOCOMMIT :: int where "ER_SP_CANT_SET_AUTOCOMMIT \<equiv> 1445"
abbreviation ER_MALFORMED_DEFINER :: int where "ER_MALFORMED_DEFINER \<equiv> 1446"
abbreviation ER_VIEW_FRM_NO_USER :: int where "ER_VIEW_FRM_NO_USER \<equiv> 1447"
abbreviation ER_VIEW_OTHER_USER :: int where "ER_VIEW_OTHER_USER \<equiv> 1448"
abbreviation ER_NO_SUCH_USER :: int where "ER_NO_SUCH_USER \<equiv> 1449"

definition er_codes_3 :: "int list" where
  "er_codes_3 =
     [ER_INVALID_CHARACTER_STRING, ER_WARN_ALLOWED_PACKET_OVERFLOWED, ER_CONFLICTING_DECLARATIONS,
      ER_SP_NO_RECURSIVE_CREATE, ER_SP_ALREADY_EXISTS, ER_SP_DOES_NOT_EXIST, ER_SP_DROP_FAILED,
      ER_SP_STORE_FAILED, ER_SP_LILABEL_MISMATCH, ER_SP_LABEL_REDEFINE, ER_SP_LABEL_MISMATCH,
      ER_SP_UNINIT_VAR, ER_SP_BADSELECT, ER_SP_BADRETURN, ER_SP_BADSTATEMENT,
      ER_UPDATE_LOG_DEPRECATED_IGNORED, ER_UPDATE_LOG_DEPRECATED_TRANSLATED, ER_QUERY_INTERRUPTED,
      ER_SP_WRONG_NO_OF_ARGS, ER_SP_COND_MISMATCH, ER_SP_NORETURN, ER_SP_NORETURNEND,
      ER_SP_BAD_CURSOR_QUERY, ER_SP_BAD_CURSOR_SELECT, ER_SP_CURSOR_MISMATCH, ER_SP_CURSOR_ALREADY_OPEN,
      ER_SP_CURSOR_NOT_OPEN, ER_SP_UNDECLARED_VAR, ER_SP_WRONG_NO_OF_FETCH_ARGS, ER_SP_FETCH_NO_DATA,
      ER_SP_DUP_PARAM, ER_SP_DUP_VAR, ER_SP_DUP_COND, ER_SP_DUP_CURS, ER_SP_CANT_ALTER,
      ER_SP_SUBSELECT_NYI, ER_STMT_NOT_ALLOWED_IN_SF_OR_TRG, ER_SP_VARCOND_AFTER_CURSHNDLR,
      ER_SP_CURSOR_AFTER_HANDLER, ER_SP_CASE_NOT_FOUND, ER_FPARSER_TOO_BIG_FILE, ER_FPARSER_BAD_HEADER,
      ER_FPARSER_EOF_IN_COMMENT, ER_FPARSER_ERROR_IN_PARAMETER, ER_FPARSER_EOF_IN_UNKNOWN_PARAMETER,
      ER_VIEW_NO_EXPLAIN, ER_FRM_UNKNOWN_TYPE, ER_WRONG_OBJECT, ER_NONUPDATEABLE_COLUMN,
      ER_VIEW_SELECT_DERIVED, ER_VIEW_SELECT_CLAUSE, ER_VIEW_SELECT_VARIABLE, ER_VIEW_SELECT_TMPTABLE,
      ER_VIEW_WRONG_LIST, ER_WARN_VIEW_MERGE, ER_WARN_VIEW_WITHOUT_KEY, ER_VIEW_INVALID,
      ER_SP_NO_DROP_SP, ER_SP_GOTO_IN_HNDLR, ER_TRG_ALREADY_EXISTS, ER_TRG_DOES_NOT_EXIST,
      ER_TRG_ON_VIEW_OR_TEMP_TABLE, ER_TRG_CANT_CHANGE_ROW, ER_TRG_NO_SUCH_ROW_IN_TRG,
      ER_NO_DEFAULT_FOR_FIELD, ER_DIVISION_BY_ZERO, ER_TRUNCATED_WRONG_VALUE_FOR_FIELD,
      ER_ILLEGAL_VALUE_FOR_TYPE, ER_VIEW_NONUPD_CHECK, ER_VIEW_CHECK_FAILED, ER_PROCACCESS_DENIED_ERROR,
      ER_RELAY_LOG_FAIL, ER_PASSWD_LENGTH, ER_UNKNOWN_TARGET_BINLOG, ER_IO_ERR_LOG_INDEX_READ,
      ER_BINLOG_PURGE_PROHIBITED, ER_FSEEK_FAIL, ER_BINLOG_PURGE_FATAL_ERR, ER_LOG_IN_USE,
      ER_LOG_PURGE_UNKNOWN_ERR, ER_RELAY_LOG_INIT, ER_NO_BINARY_LOGGING, ER_RESERVED_SYNTAX,
      ER_WSAS_FAILED, ER_DIFF_GROUPS_PROC, ER_NO_GROUP_FOR_PROC, ER_ORDER_WITH_PROC,
      ER_LOGGING_PROHIBIT_CHANGING_OF, ER_NO_FILE_MAPPING, ER_WRONG_MAGIC, ER_PS_MANY_PARAM,
      ER_KEY_PART_0, ER_VIEW_CHECKSUM, ER_VIEW_MULTIUPDATE, ER_VIEW_NO_INSERT_FIELD_LIST,
      ER_VIEW_DELETE_MERGE_VIEW, ER_CANNOT_USER, ER_XAER_NOTA, ER_XAER_INVAL, ER_XAER_RMFAIL,
      ER_XAER_OUTSIDE, ER_XAER_RMERR, ER_XA_RBROLLBACK, ER_NONEXISTING_PROC_GRANT,
      ER_PROC_AUTO_GRANT_FAIL, ER_PROC_AUTO_REVOKE_FAIL, ER_DATA_TOO_LONG, ER_SP_BAD_SQLSTATE,
      ER_STARTUP, ER_LOAD_FROM_FIXED_SIZE_ROWS_TO_VAR, ER_CANT_CREATE_USER_WITH_GRANT,
      ER_WRONG_VALUE_FOR_TYPE, ER_TABLE_DEF_CHANGED, ER_SP_DUP_HANDLER, ER_SP_NOT_VAR_ARG,
      ER_SP_NO_RETSET, ER_CANT_CREATE_GEOMETRY_OBJECT, ER_FAILED_ROUTINE_BREAK_BINLOG,
      ER_BINLOG_UNSAFE_ROUTINE, ER_BINLOG_CREATE_ROUTINE_NEED_SUPER, ER_EXEC_STMT_WITH_OPEN_CURSOR,
      ER_STMT_HAS_NO_OPEN_CURSOR, ER_COMMIT_NOT_ALLOWED_IN_SF_OR_TRG, ER_NO_DEFAULT_FOR_VIEW_FIELD,
      ER_SP_NO_RECURSION, ER_TOO_BIG_SCALE, ER_TOO_BIG_PRECISION, ER_M_BIGGER_THAN_D,
      ER_WRONG_LOCK_OF_SYSTEM_TABLE, ER_CONNECT_TO_FOREIGN_DATA_SOURCE, ER_QUERY_ON_FOREIGN_DATA_SOURCE,
      ER_FOREIGN_DATA_SOURCE_DOESNT_EXIST, ER_FOREIGN_DATA_STRING_INVALID_CANT_CREATE,
      ER_FOREIGN_DATA_STRING_INVALID, ER_CANT_CREATE_FEDERATED_TABLE, ER_TRG_IN_WRONG_SCHEMA,
      ER_STACK_OVERRUN_NEED_MORE, ER_TOO_LONG_BODY, ER_WARN_CANT_DROP_DEFAULT_KEYCACHE,
      ER_TOO_BIG_DISPLAYWIDTH, ER_XAER_DUPID, ER_DATETIME_FUNCTION_OVERFLOW,
      ER_CANT_UPDATE_USED_TABLE_IN_SF_OR_TRG, ER_VIEW_PREVENT_UPDATE, ER_PS_NO_RECURSION,
      ER_SP_CANT_SET_AUTOCOMMIT, ER_MALFORMED_DEFINER, ER_VIEW_FRM_NO_USER, ER_VIEW_OTHER_USER,
      ER_NO_SUCH_USER]"

abbreviation ER_FORBID_SCHEMA_CHANGE :: int where "ER_FORBID_SCHEMA_CHANGE \<equiv> 1450"
abbreviation ER_ROW_IS_REFERENCED_2 :: int where "ER_ROW_IS_REFERENCED_2 \<equiv> 1451"
abbreviation ER_NO_REFERENCED_ROW_2 :: int where "ER_NO_REFERENCED_ROW_2 \<equiv> 1452"
abbreviation ER_SP_BAD_VAR_SHADOW :: int where "ER_SP_BAD_VAR_SHADOW \<equiv> 1453"
abbreviation ER_TRG_NO_DEFINER :: int where "ER_TRG_NO_DEFINER \<equiv> 1454"
abbreviation ER_OLD_FILE_FORMAT :: int where "ER_OLD_FILE_FORMAT \<equiv> 1455"
abbreviation ER_SP_RECURSION_LIMIT :: int where "ER_SP_RECURSION_LIMIT \<equiv> 1456"
abbreviation ER_SP_PROC_TABLE_CORRUPT :: int where "ER_SP_PROC_TABLE_CORRUPT \<equiv> 1457"
abbreviation ER_SP_WRONG_NAME :: int where "ER_SP_WRONG_NAME \<equiv> 1458"
abbreviation ER_TABLE_NEEDS_UPGRADE :: int where "ER_TABLE_NEEDS_UPGRADE \<equiv> 1459"
abbreviation ER_SP_NO_AGGREGATE :: int where "ER_SP_NO_AGGREGATE \<equiv> 1460"
abbreviation ER_MAX_PREPARED_STMT_COUNT_REACHED :: int where "ER_MAX_PREPARED_STMT_COUNT_REACHED \<equiv> 1461"
abbreviation ER_VIEW_RECURSIVE :: int where "ER_VIEW_RECURSIVE \<equiv> 1462"
abbreviation ER_NON_GROUPING_FIELD_USED :: int where "ER_NON_GROUPING_FIELD_USED \<equiv> 1463"
abbreviation ER_TABLE_CANT_HANDLE_SPKEYS :: int where "ER_TABLE_CANT_HANDLE_SPKEYS \<equiv> 1464"
abbreviation ER_NO_TRIGGERS_ON_SYSTEM_SCHEMA :: int where "ER_NO_TRIGGERS_ON_SYSTEM_SCHEMA \<equiv> 1465"
abbreviation ER_REMOVED_SPACES :: int where "ER_REMOVED_SPACES \<equiv> 1466"
abbreviation ER_AUTOINC_READ_FAILED :: int where "ER_AUTOINC_READ_FAILED \<equiv> 1467"
abbreviation ER_USERNAME :: int where "ER_USERNAME \<equiv> 1468"
abbreviation ER_HOSTNAME :: int where "ER_HOSTNAME \<equiv> 1469"
abbreviation ER_WRONG_STRING_LENGTH :: int where "ER_WRONG_STRING_LENGTH \<equiv> 1470"
abbreviation ER_NON_INSERTABLE_TABLE :: int where "ER_NON_INSERTABLE_TABLE \<equiv> 1471"
abbreviation ER_ADMIN_WRONG_MRG_TABLE :: int where "ER_ADMIN_WRONG_MRG_TABLE \<equiv> 1472"
abbreviation ER_TOO_HIGH_LEVEL_OF_NESTING_FOR_SELECT :: int where "ER_TOO_HIGH_LEVEL_OF_NESTING_FOR_SELECT \<equiv> 1473"
abbreviation ER_NAME_BECOMES_EMPTY :: int where "ER_NAME_BECOMES_EMPTY \<equiv> 1474"
abbreviation ER_AMBIGUOUS_FIELD_TERM :: int where "ER_AMBIGUOUS_FIELD_TERM \<equiv> 1475"
abbreviation ER_FOREIGN_SERVER_EXISTS :: int where "ER_FOREIGN_SERVER_EXISTS \<equiv> 1476"
abbreviation ER_FOREIGN_SERVER_DOESNT_EXIST :: int where "ER_FOREIGN_SERVER_DOESNT_EXIST \<equiv> 1477"
abbreviation ER_ILLEGAL_HA_CREATE_OPTION :: int where "ER_ILLEGAL_HA_CREATE_OPTION \<equiv> 1478"
abbreviation ER_PARTITION_REQUIRES_VALUES_ERROR :: int where "ER_PARTITION_REQUIRES_VALUES_ERROR \<equiv> 1479"
abbreviation ER_PARTITION_WRONG_VALUES_ERROR :: int where "ER_PARTITION_WRONG_VALUES_ERROR \<equiv> 1480"
abbreviation ER_PARTITION_MAXVALUE_ERROR :: int where "ER_PARTITION_MAXVALUE_ERROR \<equiv> 1481"
abbreviation ER_PARTITION_SUBPARTITION_ERROR :: int where "ER_PARTITION_SUBPARTITION_ERROR \<equiv> 1482"
abbreviation ER_PARTITION_SUBPART_MIX_ERROR :: int where "ER_PARTITION_SUBPART_MIX_ERROR \<equiv> 1483"
abbreviation ER_PARTITION_WRONG_NO_PART_ERROR :: int where "ER_PARTITION_WRONG_NO_PART_ERROR \<equiv> 1484"
abbreviation ER_PARTITION_WRONG_NO_SUBPART_ERROR :: int where "ER_PARTITION_WRONG_NO_SUBPART_ERROR \<equiv> 1485"
abbreviation ER_WRONG_EXPR_IN_PARTITION_FUNC_ERROR :: int where "ER_WRONG_EXPR_IN_PARTITION_FUNC_ERROR \<equiv> 1486"
abbreviation ER_NOT_CONSTANT_EXPRESSION :: int where "ER_NOT_CONSTANT_EXPRESSION \<equiv> 1487"
abbreviation ER_FIELD_NOT_FOUND_PART_ERROR :: int where "ER_FIELD_NOT_FOUND_PART_ERROR \<equiv> 1488"
abbreviation ER_LIST_OF_FIELDS_ONLY_IN_HASH_ERROR :: int where "ER_LIST_OF_FIELDS_ONLY_IN_HASH_ERROR \<equiv> 1489"
abbreviation ER_INCONSISTENT_PARTITION_INFO_ERROR :: int where "ER_INCONSISTENT_PARTITION_INFO_ERROR \<equiv> 1490"
abbreviation ER_PARTITION_FUNC_NOT_ALLOWED_ERROR :: int where "ER_PARTITION_FUNC_NOT_ALLOWED_ERROR \<equiv> 1491"
abbreviation ER_PARTITIONS_MUST_BE_DEFINED_ERROR :: int where "ER_PARTITIONS_MUST_BE_DEFINED_ERROR \<equiv> 1492"
abbreviation ER_RANGE_NOT_INCREASING_ERROR :: int where "ER_RANGE_NOT_INCREASING_ERROR \<equiv> 1493"
abbreviation ER_INCONSISTENT_TYPE_OF_FUNCTIONS_ERROR :: int where "ER_INCONSISTENT_TYPE_OF_FUNCTIONS_ERROR \<equiv> 1494"
abbreviation ER_MULTIPLE_DEF_CONST_IN_LIST_PART_ERROR :: int where "ER_MULTIPLE_DEF_CONST_IN_LIST_PART_ERROR \<equiv> 1495"
abbreviation ER_PARTITION_ENTRY_ERROR :: int where "ER_PARTITION_ENTRY_ERROR \<equiv> 1496"
abbreviation ER_MIX_HANDLER_ERROR :: int where "ER_MIX_HANDLER_ERROR \<equiv> 1497"
abbreviation ER_PARTITION_NOT_DEFINED_ERROR :: int where "ER_PARTITION_NOT_DEFINED_ERROR \<equiv> 1498"
abbreviation ER_TOO_MANY_PARTITIONS_ERROR :: int where "ER_TOO_MANY_PARTITIONS_ERROR \<equiv> 1499"
abbreviation ER_SUBPARTITION_ERROR :: int where "ER_SUBPARTITION_ERROR \<equiv> 1500"
abbreviation ER_CANT_CREATE_HANDLER_FILE :: int where "ER_CANT_CREATE_HANDLER_FILE \<equiv> 1501"
abbreviation ER_BLOB_FIELD_IN_PART_FUNC_ERROR :: int where "ER_BLOB_FIELD_IN_PART_FUNC_ERROR \<equiv> 1502"
abbreviation ER_UNIQUE_KEY_NEED_ALL_FIELDS_IN_PF :: int where "ER_UNIQUE_KEY_NEED_ALL_FIELDS_IN_PF \<equiv> 1503"
abbreviation ER_NO_PARTS_ERROR :: int where "ER_NO_PARTS_ERROR \<equiv> 1504"
abbreviation ER_PARTITION_MGMT_ON_NONPARTITIONED :: int where "ER_PARTITION_MGMT_ON_NONPARTITIONED \<equiv> 1505"
abbreviation ER_FEATURE_NOT_SUPPORTED_WITH_PARTITIONING :: int where "ER_FEATURE_NOT_SUPPORTED_WITH_PARTITIONING \<equiv> 1506"
abbreviation ER_PARTITION_DOES_NOT_EXIST :: int where "ER_PARTITION_DOES_NOT_EXIST \<equiv> 1507"
abbreviation ER_DROP_LAST_PARTITION :: int where "ER_DROP_LAST_PARTITION \<equiv> 1508"
abbreviation ER_COALESCE_ONLY_ON_HASH_PARTITION :: int where "ER_COALESCE_ONLY_ON_HASH_PARTITION \<equiv> 1509"
abbreviation ER_REORG_HASH_ONLY_ON_SAME_NO :: int where "ER_REORG_HASH_ONLY_ON_SAME_NO \<equiv> 1510"
abbreviation ER_REORG_NO_PARAM_ERROR :: int where "ER_REORG_NO_PARAM_ERROR \<equiv> 1511"
abbreviation ER_ONLY_ON_RANGE_LIST_PARTITION :: int where "ER_ONLY_ON_RANGE_LIST_PARTITION \<equiv> 1512"
abbreviation ER_ADD_PARTITION_SUBPART_ERROR :: int where "ER_ADD_PARTITION_SUBPART_ERROR \<equiv> 1513"
abbreviation ER_ADD_PARTITION_NO_NEW_PARTITION :: int where "ER_ADD_PARTITION_NO_NEW_PARTITION \<equiv> 1514"
abbreviation ER_COALESCE_PARTITION_NO_PARTITION :: int where "ER_COALESCE_PARTITION_NO_PARTITION \<equiv> 1515"
abbreviation ER_REORG_PARTITION_NOT_EXIST :: int where "ER_REORG_PARTITION_NOT_EXIST \<equiv> 1516"
abbreviation ER_SAME_NAME_PARTITION :: int where "ER_SAME_NAME_PARTITION \<equiv> 1517"
abbreviation ER_NO_BINLOG_ERROR :: int where "ER_NO_BINLOG_ERROR \<equiv> 1518"
abbreviation ER_CONSECUTIVE_REORG_PARTITIONS :: int where "ER_CONSECUTIVE_REORG_PARTITIONS \<equiv> 1519"
abbreviation ER_REORG_OUTSIDE_RANGE :: int where "ER_REORG_OUTSIDE_RANGE \<equiv> 1520"
abbreviation ER_PARTITION_FUNCTION_FAILURE :: int where "ER_PARTITION_FUNCTION_FAILURE \<equiv> 1521"
abbreviation ER_PART_STATE_ERROR :: int where "ER_PART_STATE_ERROR \<equiv> 1522"
abbreviation ER_LIMITED_PART_RANGE :: int where "ER_LIMITED_PART_RANGE \<equiv> 1523"
abbreviation ER_PLUGIN_IS_NOT_LOADED :: int where "ER_PLUGIN_IS_NOT_LOADED \<equiv> 1524"
abbreviation ER_WRONG_VALUE :: int where "ER_WRONG_VALUE \<equiv> 1525"
abbreviation ER_NO_PARTITION_FOR_GIVEN_VALUE :: int where "ER_NO_PARTITION_FOR_GIVEN_VALUE \<equiv> 1526"
abbreviation ER_FILEGROUP_OPTION_ONLY_ONCE :: int where "ER_FILEGROUP_OPTION_ONLY_ONCE \<equiv> 1527"
abbreviation ER_CREATE_FILEGROUP_FAILED :: int where "ER_CREATE_FILEGROUP_FAILED \<equiv> 1528"
abbreviation ER_DROP_FILEGROUP_FAILED :: int where "ER_DROP_FILEGROUP_FAILED \<equiv> 1529"
abbreviation ER_TABLESPACE_AUTO_EXTEND_ERROR :: int where "ER_TABLESPACE_AUTO_EXTEND_ERROR \<equiv> 1530"
abbreviation ER_WRONG_SIZE_NUMBER :: int where "ER_WRONG_SIZE_NUMBER \<equiv> 1531"
abbreviation ER_SIZE_OVERFLOW_ERROR :: int where "ER_SIZE_OVERFLOW_ERROR \<equiv> 1532"
abbreviation ER_ALTER_FILEGROUP_FAILED :: int where "ER_ALTER_FILEGROUP_FAILED \<equiv> 1533"
abbreviation ER_BINLOG_ROW_LOGGING_FAILED :: int where "ER_BINLOG_ROW_LOGGING_FAILED \<equiv> 1534"
abbreviation ER_BINLOG_ROW_WRONG_TABLE_DEF :: int where "ER_BINLOG_ROW_WRONG_TABLE_DEF \<equiv> 1535"
abbreviation ER_BINLOG_ROW_RBR_TO_SBR :: int where "ER_BINLOG_ROW_RBR_TO_SBR \<equiv> 1536"
abbreviation ER_EVENT_ALREADY_EXISTS :: int where "ER_EVENT_ALREADY_EXISTS \<equiv> 1537"
abbreviation ER_EVENT_STORE_FAILED :: int where "ER_EVENT_STORE_FAILED \<equiv> 1538"
abbreviation ER_EVENT_DOES_NOT_EXIST :: int where "ER_EVENT_DOES_NOT_EXIST \<equiv> 1539"
abbreviation ER_EVENT_CANT_ALTER :: int where "ER_EVENT_CANT_ALTER \<equiv> 1540"
abbreviation ER_EVENT_DROP_FAILED :: int where "ER_EVENT_DROP_FAILED \<equiv> 1541"
abbreviation ER_EVENT_INTERVAL_NOT_POSITIVE_OR_TOO_BIG :: int where "ER_EVENT_INTERVAL_NOT_POSITIVE_OR_TOO_BIG \<equiv> 1542"
abbreviation ER_EVENT_ENDS_BEFORE_STARTS :: int where "ER_EVENT_ENDS_BEFORE_STARTS \<equiv> 1543"
abbreviation ER_EVENT_EXEC_TIME_IN_THE_PAST :: int where "ER_EVENT_EXEC_TIME_IN_THE_PAST \<equiv> 1544"
abbreviation ER_EVENT_OPEN_TABLE_FAILED :: int where "ER_EVENT_OPEN_TABLE_FAILED \<equiv> 1545"
abbreviation ER_EVENT_NEITHER_M_EXPR_NOR_M_AT :: int where "ER_EVENT_NEITHER_M_EXPR_NOR_M_AT \<equiv> 1546"
abbreviation ER_UNUSED_2 :: int where "ER_UNUSED_2 \<equiv> 1547"
abbreviation ER_UNUSED_3 :: int where "ER_UNUSED_3 \<equiv> 1548"
abbreviation ER_EVENT_CANNOT_DELETE :: int where "ER_EVENT_CANNOT_DELETE \<equiv> 1549"
abbreviation ER_EVENT_COMPILE_ERROR :: int where "ER_EVENT_COMPILE_ERROR \<equiv> 1550"
abbreviation ER_EVENT_SAME_NAME :: int where "ER_EVENT_SAME_NAME \<equiv> 1551"
abbreviation ER_EVENT_DATA_TOO_LONG :: int where "ER_EVENT_DATA_TOO_LONG \<equiv> 1552"
abbreviation ER_DROP_INDEX_FK :: int where "ER_DROP_INDEX_FK \<equiv> 1553"
abbreviation ER_WARN_DEPRECATED_SYNTAX_WITH_VER :: int where "ER_WARN_DEPRECATED_SYNTAX_WITH_VER \<equiv> 1554"
abbreviation ER_CANT_WRITE_LOCK_LOG_TABLE :: int where "ER_CANT_WRITE_LOCK_LOG_TABLE \<equiv> 1555"
abbreviation ER_CANT_LOCK_LOG_TABLE :: int where "ER_CANT_LOCK_LOG_TABLE \<equiv> 1556"
abbreviation ER_UNUSED_4 :: int where "ER_UNUSED_4 \<equiv> 1557"
abbreviation ER_COL_COUNT_DOESNT_MATCH_PLEASE_UPDATE :: int where "ER_COL_COUNT_DOESNT_MATCH_PLEASE_UPDATE \<equiv> 1558"
abbreviation ER_TEMP_TABLE_PREVENTS_SWITCH_OUT_OF_RBR :: int where "ER_TEMP_TABLE_PREVENTS_SWITCH_OUT_OF_RBR \<equiv> 1559"
abbreviation ER_STORED_FUNCTION_PREVENTS_SWITCH_BINLOG_FORMAT :: int where "ER_STORED_FUNCTION_PREVENTS_SWITCH_BINLOG_FORMAT \<equiv> 1560"
abbreviation ER_UNUSED_13 :: int where "ER_UNUSED_13 \<equiv> 1561"
abbreviation ER_PARTITION_NO_TEMPORARY :: int where "ER_PARTITION_NO_TEMPORARY \<equiv> 1562"
abbreviation ER_PARTITION_CONST_DOMAIN_ERROR :: int where "ER_PARTITION_CONST_DOMAIN_ERROR \<equiv> 1563"
abbreviation ER_PARTITION_FUNCTION_IS_NOT_ALLOWED :: int where "ER_PARTITION_FUNCTION_IS_NOT_ALLOWED \<equiv> 1564"
abbreviation ER_DDL_LOG_ERROR :: int where "ER_DDL_LOG_ERROR \<equiv> 1565"
abbreviation ER_NULL_IN_VALUES_LESS_THAN :: int where "ER_NULL_IN_VALUES_LESS_THAN \<equiv> 1566"
abbreviation ER_WRONG_PARTITION_NAME :: int where "ER_WRONG_PARTITION_NAME \<equiv> 1567"
abbreviation ER_CANT_CHANGE_TX_CHARACTERISTICS :: int where "ER_CANT_CHANGE_TX_CHARACTERISTICS \<equiv> 1568"
abbreviation ER_DUP_ENTRY_AUTOINCREMENT_CASE :: int where "ER_DUP_ENTRY_AUTOINCREMENT_CASE \<equiv> 1569"
abbreviation ER_EVENT_MODIFY_QUEUE_ERROR :: int where "ER_EVENT_MODIFY_QUEUE_ERROR \<equiv> 1570"
abbreviation ER_EVENT_SET_VAR_ERROR :: int where "ER_EVENT_SET_VAR_ERROR \<equiv> 1571"
abbreviation ER_PARTITION_MERGE_ERROR :: int where "ER_PARTITION_MERGE_ERROR \<equiv> 1572"
abbreviation ER_CANT_ACTIVATE_LOG :: int where "ER_CANT_ACTIVATE_LOG \<equiv> 1573"
abbreviation ER_RBR_NOT_AVAILABLE :: int where "ER_RBR_NOT_AVAILABLE \<equiv> 1574"
abbreviation ER_BASE64_DECODE_ERROR :: int where "ER_BASE64_DECODE_ERROR \<equiv> 1575"
abbreviation ER_EVENT_RECURSION_FORBIDDEN :: int where "ER_EVENT_RECURSION_FORBIDDEN \<equiv> 1576"
abbreviation ER_EVENTS_DB_ERROR :: int where "ER_EVENTS_DB_ERROR \<equiv> 1577"
abbreviation ER_ONLY_INTEGERS_ALLOWED :: int where "ER_ONLY_INTEGERS_ALLOWED \<equiv> 1578"
abbreviation ER_UNSUPORTED_LOG_ENGINE :: int where "ER_UNSUPORTED_LOG_ENGINE \<equiv> 1579"
abbreviation ER_BAD_LOG_STATEMENT :: int where "ER_BAD_LOG_STATEMENT \<equiv> 1580"
abbreviation ER_CANT_RENAME_LOG_TABLE :: int where "ER_CANT_RENAME_LOG_TABLE \<equiv> 1581"
abbreviation ER_WRONG_PARAMCOUNT_TO_NATIVE_FCT :: int where "ER_WRONG_PARAMCOUNT_TO_NATIVE_FCT \<equiv> 1582"
abbreviation ER_WRONG_PARAMETERS_TO_NATIVE_FCT :: int where "ER_WRONG_PARAMETERS_TO_NATIVE_FCT \<equiv> 1583"
abbreviation ER_WRONG_PARAMETERS_TO_STORED_FCT :: int where "ER_WRONG_PARAMETERS_TO_STORED_FCT \<equiv> 1584"
abbreviation ER_NATIVE_FCT_NAME_COLLISION :: int where "ER_NATIVE_FCT_NAME_COLLISION \<equiv> 1585"
abbreviation ER_DUP_ENTRY_WITH_KEY_NAME :: int where "ER_DUP_ENTRY_WITH_KEY_NAME \<equiv> 1586"
abbreviation ER_BINLOG_PURGE_EMFILE :: int where "ER_BINLOG_PURGE_EMFILE \<equiv> 1587"
abbreviation ER_EVENT_CANNOT_CREATE_IN_THE_PAST :: int where "ER_EVENT_CANNOT_CREATE_IN_THE_PAST \<equiv> 1588"
abbreviation ER_EVENT_CANNOT_ALTER_IN_THE_PAST :: int where "ER_EVENT_CANNOT_ALTER_IN_THE_PAST \<equiv> 1589"
abbreviation ER_SLAVE_INCIDENT :: int where "ER_SLAVE_INCIDENT \<equiv> 1590"
abbreviation ER_NO_PARTITION_FOR_GIVEN_VALUE_SILENT :: int where "ER_NO_PARTITION_FOR_GIVEN_VALUE_SILENT \<equiv> 1591"
abbreviation ER_BINLOG_UNSAFE_STATEMENT :: int where "ER_BINLOG_UNSAFE_STATEMENT \<equiv> 1592"
abbreviation ER_SLAVE_FATAL_ERROR :: int where "ER_SLAVE_FATAL_ERROR \<equiv> 1593"
abbreviation ER_SLAVE_RELAY_LOG_READ_FAILURE :: int where "ER_SLAVE_RELAY_LOG_READ_FAILURE \<equiv> 1594"
abbreviation ER_SLAVE_RELAY_LOG_WRITE_FAILURE :: int where "ER_SLAVE_RELAY_LOG_WRITE_FAILURE \<equiv> 1595"
abbreviation ER_SLAVE_CREATE_EVENT_FAILURE :: int where "ER_SLAVE_CREATE_EVENT_FAILURE \<equiv> 1596"
abbreviation ER_SLAVE_MASTER_COM_FAILURE :: int where "ER_SLAVE_MASTER_COM_FAILURE \<equiv> 1597"
abbreviation ER_BINLOG_LOGGING_IMPOSSIBLE :: int where "ER_BINLOG_LOGGING_IMPOSSIBLE \<equiv> 1598"
abbreviation ER_VIEW_NO_CREATION_CTX :: int where "ER_VIEW_NO_CREATION_CTX \<equiv> 1599"

definition er_codes_4 :: "int list" where
  "er_codes_4 =
     [ER_FORBID_SCHEMA_CHANGE, ER_ROW_IS_REFERENCED_2, ER_NO_REFERENCED_ROW_2, ER_SP_BAD_VAR_SHADOW,
      ER_TRG_NO_DEFINER, ER_OLD_FILE_FORMAT, ER_SP_RECURSION_LIMIT, ER_SP_PROC_TABLE_CORRUPT,
      ER_SP_WRONG_NAME, ER_TABLE_NEEDS_UPGRADE, ER_SP_NO_AGGREGATE, ER_MAX_PREPARED_STMT_COUNT_REACHED,
      ER_VIEW_RECURSIVE, ER_NON_GROUPING_FIELD_USED, ER_TABLE_CANT_HANDLE_SPKEYS,
      ER_NO_TRIGGERS_ON_SYSTEM_SCHEMA, ER_REMOVED_SPACES, ER_AUTOINC_READ_FAILED, ER_USERNAME,
      ER_HOSTNAME, ER_WRONG_STRING_LENGTH, ER_NON_INSERTABLE_TABLE, ER_ADMIN_WRONG_MRG_TABLE,
      ER_TOO_HIGH_LEVEL_OF_NESTING_FOR_SELECT, ER_NAME_BECOMES_EMPTY, ER_AMBIGUOUS_FIELD_TERM,
      ER_FOREIGN_SERVER_EXISTS, ER_FOREIGN_SERVER_DOESNT_EXIST, ER_ILLEGAL_HA_CREATE_OPTION,
      ER_PARTITION_REQUIRES_VALUES_ERROR, ER_PARTITION_WRONG_VALUES_ERROR, ER_PARTITION_MAXVALUE_ERROR,
      ER_PARTITION_SUBPARTITION_ERROR, ER_PARTITION_SUBPART_MIX_ERROR, ER_PARTITION_WRONG_NO_PART_ERROR,
      ER_PARTITION_WRONG_NO_SUBPART_ERROR, ER_WRONG_EXPR_IN_PARTITION_FUNC_ERROR,
      ER_NOT_CONSTANT_EXPRESSION, ER_FIELD_NOT_FOUND_PART_ERROR, ER_LIST_OF_FIELDS_ONLY_IN_HASH_ERROR,
      ER_INCONSISTENT_PARTITION_INFO_ERROR, ER_PARTITION_FUNC_NOT_ALLOWED_ERROR,
      ER_PARTITIONS_MUST_BE_DEFINED_ERROR, ER_RANGE_NOT_INCREASING_ERROR,
      ER_INCONSISTENT_TYPE_OF_FUNCTIONS_ERROR, ER_MULTIPLE_DEF_CONST_IN_LIST_PART_ERROR,
      ER_PARTITION_ENTRY_ERROR, ER_MIX_HANDLER_ERROR, ER_PARTITION_NOT_DEFINED_ERROR,
      ER_TOO_MANY_PARTITIONS_ERROR, ER_SUBPARTITION_ERROR, ER_CANT_CREATE_HANDLER_FILE,
      ER_BLOB_FIELD_IN_PART_FUNC_ERROR, ER_UNIQUE_KEY_NEED_ALL_FIELDS_IN_PF, ER_NO_PARTS_ERROR,
      ER_PARTITION_MGMT_ON_NONPARTITIONED, ER_FEATURE_NOT_SUPPORTED_WITH_PARTITIONING,
      ER_PARTITION_DOES_NOT_EXIST, ER_DROP_LAST_PARTITION, ER_COALESCE_ONLY_ON_HASH_PARTITION,
      ER_REORG_HASH_ONLY_ON_SAME_NO, ER_REORG_NO_PARAM_ERROR, ER_ONLY_ON_RANGE_LIST_PARTITION,
      ER_ADD_PARTITION_SUBPART_ERROR, ER_ADD_PARTITION_NO_NEW_PARTITION,
      ER_COALESCE_PARTITION_NO_PARTITION, ER_REORG_PARTITION_NOT_EXIST, ER_SAME_NAME_PARTITION,
      ER_NO_BINLOG_ERROR, ER_CONSECUTIVE_REORG_PARTITIONS, ER_REORG_OUTSIDE_RANGE,
      ER_PARTITION_FUNCTION_FAILURE, ER_PART_STATE_ERROR, ER_LIMITED_PART_RANGE,
      ER_PLUGIN_IS_NOT_LOADED, ER_WRONG_VALUE, ER_NO_PARTITION_FOR_GIVEN_VALUE,
      ER_FILEGROUP_OPTION_ONLY_ONCE, ER_CREATE_FILEGROUP_FAILED, ER_DROP_FILEGROUP_FAILED,
      ER_TABLESPACE_AUTO_EXTEND_ERROR, ER_WRONG_SIZE_NUMBER, ER_SIZE_OVERFLOW_ERROR,
      ER_ALTER_FILEGROUP_FAILED, ER_BINLOG_ROW_LOGGING_FAILED, ER_BINLOG_ROW_WRONG_TABLE_DEF,
      ER_BINLOG_ROW_RBR_TO_SBR, ER_EVENT_ALREADY_EXISTS, ER_EVENT_STORE_FAILED, ER_EVENT_DOES_NOT_EXIST,
      ER_EVENT_CANT_ALTER, ER_EVENT_DROP_FAILED, ER_EVENT_INTERVAL_NOT_POSITIVE_OR_TOO_BIG,
      ER_EVENT_ENDS_BEFORE_STARTS, ER_EVENT_EXEC_TIME_IN_THE_PAST, ER_EVENT_OPEN_TABLE_FAILED,
      ER_EVENT_NEITHER_M_EXPR_NOR_M_AT, ER_UNUSED_2, ER_UNUSED_3, ER_EVENT_CANNOT_DELETE,
      ER_EVENT_COMPILE_ERROR, ER_EVENT_SAME_NAME, ER_EVENT_DATA_TOO_LONG, ER_DROP_INDEX_FK,
      ER_WARN_DEPRECATED_SYNTAX_WITH_VER, ER_CANT_WRITE_LOCK_LOG_TABLE, ER_CANT_LOCK_LOG_TABLE,
      ER_UNUSED_4, ER_COL_COUNT_DOESNT_MATCH_PLEASE_UPDATE, ER_TEMP_TABLE_PREVENTS_SWITCH_OUT_OF_RBR,
      ER_STORED_FUNCTION_PREVENTS_SWITCH_BINLOG_FORMAT, ER_UNUSED_13, ER_PARTITION_NO_TEMPORARY,
      ER_PARTITION_CONST_DOMAIN_ERROR, ER_PARTITION_FUNCTION_IS_NOT_ALLOWED, ER_DDL_LOG_ERROR,
      ER_NULL_IN_VALUES_LESS_THAN, ER_WRONG_PARTITION_NAME, ER_CANT_CHANGE_TX_CHARACTERISTICS,
      ER_DUP_ENTRY_AUTOINCREMENT_CASE, ER_EVENT_MODIFY_QUEUE_ERROR, ER_EVENT_SET_VAR_ERROR,
      ER_PARTITION_MERGE_ERROR, ER_CANT_ACTIVATE_LOG, ER_RBR_NOT_AVAILABLE, ER_BASE64_DECODE_ERROR,
      ER_EVENT_RECURSION_FORBIDDEN, ER_EVENTS_DB_ERROR, ER_ONLY_INTEGERS_ALLOWED,
      ER_UNSUPORTED_LOG_ENGINE, ER_BAD_LOG_STATEMENT, ER_CANT_RENAME_LOG_TABLE,
      ER_WRONG_PARAMCOUNT_TO_NATIVE_FCT, ER_WRONG_PARAMETERS_TO_NATIVE_FCT,
      ER_WRONG_PARAMETERS_TO_STORED_FCT, ER_NATIVE_FCT_NAME_COLLISION, ER_DUP_ENTRY_WITH_KEY_NAME,
      ER_BINLOG_PURGE_EMFILE, ER_EVENT_CANNOT_CREATE_IN_THE_PAST, ER_EVENT_CANNOT_ALTER_IN_THE_PAST,
      ER_SLAVE_INCIDENT, ER_NO_PARTITION_FOR_GIVEN_VALUE_SILENT, ER_BINLOG_UNSAFE_STATEMENT,
      ER_SLAVE_FATAL_ERROR, ER_SLAVE_RELAY_LOG_READ_FAILURE, ER_SLAVE_RELAY_LOG_WRITE_FAILURE,
      ER_SLAVE_CREATE_EVENT_FAILURE, ER_SLAVE_MASTER_COM_FAILURE, ER_BINLOG_LOGGING_IMPOSSIBLE,
      ER_VIEW_NO_CREATION_CTX]"

abbreviation ER_VIEW_INVALID_CREATION_CTX :: int where "ER_VIEW_INVALID_CREATION_CTX \<equiv> 1600"
abbreviation ER_SR_INVALID_CREATION_CTX :: int where "ER_SR_INVALID_CREATION_CTX \<equiv> 1601"
abbreviation ER_TRG_CORRUPTED_FILE :: int where "ER_TRG_CORRUPTED_FILE \<equiv> 1602"
abbreviation ER_TRG_NO_CREATION_CTX :: int where "ER_TRG_NO_CREATION_CTX \<equiv> 1603"
abbreviation ER_TRG_INVALID_CREATION_CTX :: int where "ER_TRG_INVALID_CREATION_CTX \<equiv> 1604"
abbreviation ER_EVENT_INVALID_CREATION_CTX :: int where "ER_EVENT_INVALID_CREATION_CTX \<equiv> 1605"
abbreviation ER_TRG_CANT_OPEN_TABLE :: int where "ER_TRG_CANT_OPEN_TABLE \<equiv> 1606"
abbreviation ER_CANT_CREATE_SROUTINE :: int where "ER_CANT_CREATE_SROUTINE \<equiv> 1607"
abbreviation ER_UNUSED_11 :: int where "ER_UNUSED_11 \<equiv> 1608"
abbreviation ER_NO_FORMAT_DESCRIPTION_EVENT_BEFORE_BINLOG_STATEMENT :: int where "ER_NO_FORMAT_DESCRIPTION_EVENT_BEFORE_BINLOG_STATEMENT \<equiv> 1609"
abbreviation ER_SLAVE_CORRUPT_EVENT :: int where "ER_SLAVE_CORRUPT_EVENT \<equiv> 1610"
abbreviation ER_LOAD_DATA_INVALID_COLUMN :: int where "ER_LOAD_DATA_INVALID_COLUMN \<equiv> 1611"
abbreviation ER_LOG_PURGE_NO_FILE :: int where "ER_LOG_PURGE_NO_FILE \<equiv> 1612"
abbreviation ER_XA_RBTIMEOUT :: int where "ER_XA_RBTIMEOUT \<equiv> 1613"
abbreviation ER_XA_RBDEADLOCK :: int where "ER_XA_RBDEADLOCK \<equiv> 1614"
abbreviation ER_NEED_REPREPARE :: int where "ER_NEED_REPREPARE \<equiv> 1615"
abbreviation ER_DELAYED_NOT_SUPPORTED :: int where "ER_DELAYED_NOT_SUPPORTED \<equiv> 1616"
abbreviation WARN_NO_MASTER_INFO :: int where "WARN_NO_MASTER_INFO \<equiv> 1617"
abbreviation WARN_OPTION_IGNORED :: int where "WARN_OPTION_IGNORED \<equiv> 1618"
abbreviation ER_PLUGIN_DELETE_BUILTIN :: int where "ER_PLUGIN_DELETE_BUILTIN \<equiv> 1619"
abbreviation WARN_PLUGIN_BUSY :: int where "WARN_PLUGIN_BUSY \<equiv> 1620"
abbreviation ER_VARIABLE_IS_READONLY :: int where "ER_VARIABLE_IS_READONLY \<equiv> 1621"
abbreviation ER_WARN_ENGINE_TRANSACTION_ROLLBACK :: int where "ER_WARN_ENGINE_TRANSACTION_ROLLBACK \<equiv> 1622"
abbreviation ER_SLAVE_HEARTBEAT_FAILURE :: int where "ER_SLAVE_HEARTBEAT_FAILURE \<equiv> 1623"
abbreviation ER_SLAVE_HEARTBEAT_VALUE_OUT_OF_RANGE :: int where "ER_SLAVE_HEARTBEAT_VALUE_OUT_OF_RANGE \<equiv> 1624"
abbreviation ER_UNUSED_14 :: int where "ER_UNUSED_14 \<equiv> 1625"
abbreviation ER_CONFLICT_FN_PARSE_ERROR :: int where "ER_CONFLICT_FN_PARSE_ERROR \<equiv> 1626"
abbreviation ER_EXCEPTIONS_WRITE_ERROR :: int where "ER_EXCEPTIONS_WRITE_ERROR \<equiv> 1627"
abbreviation ER_TOO_LONG_TABLE_COMMENT :: int where "ER_TOO_LONG_TABLE_COMMENT \<equiv> 1628"
abbreviation ER_TOO_LONG_FIELD_COMMENT :: int where "ER_TOO_LONG_FIELD_COMMENT \<equiv> 1629"
abbreviation ER_FUNC_INEXISTENT_NAME_COLLISION :: int where "ER_FUNC_INEXISTENT_NAME_COLLISION \<equiv> 1630"
abbreviation ER_DATABASE_NAME :: int where "ER_DATABASE_NAME \<equiv> 1631"
abbreviation ER_TABLE_NAME :: int where "ER_TABLE_NAME \<equiv> 1632"
abbreviation ER_PARTITION_NAME :: int where "ER_PARTITION_NAME \<equiv> 1633"
abbreviation ER_SUBPARTITION_NAME :: int where "ER_SUBPARTITION_NAME \<equiv> 1634"
abbreviation ER_TEMPORARY_NAME :: int where "ER_TEMPORARY_NAME \<equiv> 1635"
abbreviation ER_RENAMED_NAME :: int where "ER_RENAMED_NAME \<equiv> 1636"
abbreviation ER_TOO_MANY_CONCURRENT_TRXS :: int where "ER_TOO_MANY_CONCURRENT_TRXS \<equiv> 1637"
abbreviation WARN_NON_ASCII_SEPARATOR_NOT_IMPLEMENTED :: int where "WARN_NON_ASCII_SEPARATOR_NOT_IMPLEMENTED \<equiv> 1638"
abbreviation ER_DEBUG_SYNC_TIMEOUT :: int where "ER_DEBUG_SYNC_TIMEOUT \<equiv> 1639"
abbreviation ER_DEBUG_SYNC_HIT_LIMIT :: int where "ER_DEBUG_SYNC_HIT_LIMIT \<equiv> 1640"
abbreviation ER_DUP_SIGNAL_SET :: int where "ER_DUP_SIGNAL_SET \<equiv> 1641"
abbreviation ER_SIGNAL_WARN :: int where "ER_SIGNAL_WARN \<equiv> 1642"
abbreviation ER_SIGNAL_NOT_FOUND :: int where "ER_SIGNAL_NOT_FOUND \<equiv> 1643"
abbreviation ER_SIGNAL_EXCEPTION :: int where "ER_SIGNAL_EXCEPTION \<equiv> 1644"
abbreviation ER_RESIGNAL_WITHOUT_ACTIVE_HANDLER :: int where "ER_RESIGNAL_WITHOUT_ACTIVE_HANDLER \<equiv> 1645"
abbreviation ER_SIGNAL_BAD_CONDITION_TYPE :: int where "ER_SIGNAL_BAD_CONDITION_TYPE \<equiv> 1646"
abbreviation WARN_COND_ITEM_TRUNCATED :: int where "WARN_COND_ITEM_TRUNCATED \<equiv> 1647"
abbreviation ER_COND_ITEM_TOO_LONG :: int where "ER_COND_ITEM_TOO_LONG \<equiv> 1648"
abbreviation ER_UNKNOWN_LOCALE :: int where "ER_UNKNOWN_LOCALE \<equiv> 1649"
abbreviation ER_SLAVE_IGNORE_SERVER_IDS :: int where "ER_SLAVE_IGNORE_SERVER_IDS \<equiv> 1650"
abbreviation ER_QUERY_CACHE_DISABLED :: int where "ER_QUERY_CACHE_DISABLED \<equiv> 1651"
abbreviation ER_SAME_NAME_PARTITION_FIELD :: int where "ER_SAME_NAME_PARTITION_FIELD \<equiv> 1652"
abbreviation ER_PARTITION_COLUMN_LIST_ERROR :: int where "ER_PARTITION_COLUMN_LIST_ERROR \<equiv> 1653"
abbreviation ER_WRONG_TYPE_COLUMN_VALUE_ERROR :: int where "ER_WRONG_TYPE_COLUMN_VALUE_ERROR \<equiv> 1654"
abbreviation ER_TOO_MANY_PARTITION_FUNC_FIELDS_ERROR :: int where "ER_TOO_MANY_PARTITION_FUNC_FIELDS_ERROR \<equiv> 1655"
abbreviation ER_MAXVALUE_IN_VALUES_IN :: int where "ER_MAXVALUE_IN_VALUES_IN \<equiv> 1656"
abbreviation ER_TOO_MANY_VALUES_ERROR :: int where "ER_TOO_MANY_VALUES_ERROR \<equiv> 1657"
abbreviation ER_ROW_SINGLE_PARTITION_FIELD_ERROR :: int where "ER_ROW_SINGLE_PARTITION_FIELD_ERROR \<equiv> 1658"
abbreviation ER_FIELD_TYPE_NOT_ALLOWED_AS_PARTITION_FIELD :: int where "ER_FIELD_TYPE_NOT_ALLOWED_AS_PARTITION_FIELD \<equiv> 1659"
abbreviation ER_PARTITION_FIELDS_TOO_LONG :: int where "ER_PARTITION_FIELDS_TOO_LONG \<equiv> 1660"
abbreviation ER_BINLOG_ROW_ENGINE_AND_STMT_ENGINE :: int where "ER_BINLOG_ROW_ENGINE_AND_STMT_ENGINE \<equiv> 1661"
abbreviation ER_BINLOG_ROW_MODE_AND_STMT_ENGINE :: int where "ER_BINLOG_ROW_MODE_AND_STMT_ENGINE \<equiv> 1662"
abbreviation ER_BINLOG_UNSAFE_AND_STMT_ENGINE :: int where "ER_BINLOG_UNSAFE_AND_STMT_ENGINE \<equiv> 1663"
abbreviation ER_BINLOG_ROW_INJECTION_AND_STMT_ENGINE :: int where "ER_BINLOG_ROW_INJECTION_AND_STMT_ENGINE \<equiv> 1664"
abbreviation ER_BINLOG_STMT_MODE_AND_ROW_ENGINE :: int where "ER_BINLOG_STMT_MODE_AND_ROW_ENGINE \<equiv> 1665"
abbreviation ER_BINLOG_ROW_INJECTION_AND_STMT_MODE :: int where "ER_BINLOG_ROW_INJECTION_AND_STMT_MODE \<equiv> 1666"
abbreviation ER_BINLOG_MULTIPLE_ENGINES_AND_SELF_LOGGING_ENGINE :: int where "ER_BINLOG_MULTIPLE_ENGINES_AND_SELF_LOGGING_ENGINE \<equiv> 1667"
abbreviation ER_BINLOG_UNSAFE_LIMIT :: int where "ER_BINLOG_UNSAFE_LIMIT \<equiv> 1668"
abbreviation ER_BINLOG_UNSAFE_INSERT_DELAYED :: int where "ER_BINLOG_UNSAFE_INSERT_DELAYED \<equiv> 1669"
abbreviation ER_BINLOG_UNSAFE_SYSTEM_TABLE :: int where "ER_BINLOG_UNSAFE_SYSTEM_TABLE \<equiv> 1670"
abbreviation ER_BINLOG_UNSAFE_AUTOINC_COLUMNS :: int where "ER_BINLOG_UNSAFE_AUTOINC_COLUMNS \<equiv> 1671"
abbreviation ER_BINLOG_UNSAFE_UDF :: int where "ER_BINLOG_UNSAFE_UDF \<equiv> 1672"
abbreviation ER_BINLOG_UNSAFE_SYSTEM_VARIABLE :: int where "ER_BINLOG_UNSAFE_SYSTEM_VARIABLE \<equiv> 1673"
abbreviation ER_BINLOG_UNSAFE_SYSTEM_FUNCTION :: int where "ER_BINLOG_UNSAFE_SYSTEM_FUNCTION \<equiv> 1674"
abbreviation ER_BINLOG_UNSAFE_NONTRANS_AFTER_TRANS :: int where "ER_BINLOG_UNSAFE_NONTRANS_AFTER_TRANS \<equiv> 1675"
abbreviation ER_MESSAGE_AND_STATEMENT :: int where "ER_MESSAGE_AND_STATEMENT \<equiv> 1676"
abbreviation ER_SLAVE_CONVERSION_FAILED :: int where "ER_SLAVE_CONVERSION_FAILED \<equiv> 1677"
abbreviation ER_SLAVE_CANT_CREATE_CONVERSION :: int where "ER_SLAVE_CANT_CREATE_CONVERSION \<equiv> 1678"
abbreviation ER_INSIDE_TRANSACTION_PREVENTS_SWITCH_BINLOG_FORMAT :: int where "ER_INSIDE_TRANSACTION_PREVENTS_SWITCH_BINLOG_FORMAT \<equiv> 1679"
abbreviation ER_PATH_LENGTH :: int where "ER_PATH_LENGTH \<equiv> 1680"
abbreviation ER_WARN_DEPRECATED_SYNTAX_NO_REPLACEMENT :: int where "ER_WARN_DEPRECATED_SYNTAX_NO_REPLACEMENT \<equiv> 1681"
abbreviation ER_WRONG_NATIVE_TABLE_STRUCTURE :: int where "ER_WRONG_NATIVE_TABLE_STRUCTURE \<equiv> 1682"
abbreviation ER_WRONG_PERFSCHEMA_USAGE :: int where "ER_WRONG_PERFSCHEMA_USAGE \<equiv> 1683"
abbreviation ER_WARN_I_S_SKIPPED_TABLE :: int where "ER_WARN_I_S_SKIPPED_TABLE \<equiv> 1684"
abbreviation ER_INSIDE_TRANSACTION_PREVENTS_SWITCH_BINLOG_DIRECT :: int where "ER_INSIDE_TRANSACTION_PREVENTS_SWITCH_BINLOG_DIRECT \<equiv> 1685"
abbreviation ER_STORED_FUNCTION_PREVENTS_SWITCH_BINLOG_DIRECT :: int where "ER_STORED_FUNCTION_PREVENTS_SWITCH_BINLOG_DIRECT \<equiv> 1686"
abbreviation ER_SPATIAL_MUST_HAVE_GEOM_COL :: int where "ER_SPATIAL_MUST_HAVE_GEOM_COL \<equiv> 1687"
abbreviation ER_TOO_LONG_INDEX_COMMENT :: int where "ER_TOO_LONG_INDEX_COMMENT \<equiv> 1688"
abbreviation ER_LOCK_ABORTED :: int where "ER_LOCK_ABORTED \<equiv> 1689"
abbreviation ER_DATA_OUT_OF_RANGE :: int where "ER_DATA_OUT_OF_RANGE \<equiv> 1690"
abbreviation ER_WRONG_SPVAR_TYPE_IN_LIMIT :: int where "ER_WRONG_SPVAR_TYPE_IN_LIMIT \<equiv> 1691"
abbreviation ER_BINLOG_UNSAFE_MULTIPLE_ENGINES_AND_SELF_LOGGING_ENGINE :: int where "ER_BINLOG_UNSAFE_MULTIPLE_ENGINES_AND_SELF_LOGGING_ENGINE \<equiv> 1692"
abbreviation ER_BINLOG_UNSAFE_MIXED_STATEMENT :: int where "ER_BINLOG_UNSAFE_MIXED_STATEMENT \<equiv> 1693"
abbreviation ER_INSIDE_TRANSACTION_PREVENTS_SWITCH_SQL_LOG_BIN :: int where "ER_INSIDE_TRANSACTION_PREVENTS_SWITCH_SQL_LOG_BIN \<equiv> 1694"
abbreviation ER_STORED_FUNCTION_PREVENTS_SWITCH_SQL_LOG_BIN :: int where "ER_STORED_FUNCTION_PREVENTS_SWITCH_SQL_LOG_BIN \<equiv> 1695"
abbreviation ER_FAILED_READ_FROM_PAR_FILE :: int where "ER_FAILED_READ_FROM_PAR_FILE \<equiv> 1696"
abbreviation ER_VALUES_IS_NOT_INT_TYPE_ERROR :: int where "ER_VALUES_IS_NOT_INT_TYPE_ERROR \<equiv> 1697"
abbreviation ER_ACCESS_DENIED_NO_PASSWORD_ERROR :: int where "ER_ACCESS_DENIED_NO_PASSWORD_ERROR \<equiv> 1698"
abbreviation ER_SET_PASSWORD_AUTH_PLUGIN :: int where "ER_SET_PASSWORD_AUTH_PLUGIN \<equiv> 1699"
abbreviation ER_GRANT_PLUGIN_USER_EXISTS :: int where "ER_GRANT_PLUGIN_USER_EXISTS \<equiv> 1700"
abbreviation ER_TRUNCATE_ILLEGAL_FK :: int where "ER_TRUNCATE_ILLEGAL_FK \<equiv> 1701"
abbreviation ER_PLUGIN_IS_PERMANENT :: int where "ER_PLUGIN_IS_PERMANENT \<equiv> 1702"
abbreviation ER_SLAVE_HEARTBEAT_VALUE_OUT_OF_RANGE_MIN :: int where "ER_SLAVE_HEARTBEAT_VALUE_OUT_OF_RANGE_MIN \<equiv> 1703"
abbreviation ER_SLAVE_HEARTBEAT_VALUE_OUT_OF_RANGE_MAX :: int where "ER_SLAVE_HEARTBEAT_VALUE_OUT_OF_RANGE_MAX \<equiv> 1704"
abbreviation ER_STMT_CACHE_FULL :: int where "ER_STMT_CACHE_FULL \<equiv> 1705"
abbreviation ER_MULTI_UPDATE_KEY_CONFLICT :: int where "ER_MULTI_UPDATE_KEY_CONFLICT \<equiv> 1706"
abbreviation ER_TABLE_NEEDS_REBUILD :: int where "ER_TABLE_NEEDS_REBUILD \<equiv> 1707"
abbreviation WARN_OPTION_BELOW_LIMIT :: int where "WARN_OPTION_BELOW_LIMIT \<equiv> 1708"
abbreviation ER_INDEX_COLUMN_TOO_LONG :: int where "ER_INDEX_COLUMN_TOO_LONG \<equiv> 1709"
abbreviation ER_ERROR_IN_TRIGGER_BODY :: int where "ER_ERROR_IN_TRIGGER_BODY \<equiv> 1710"
abbreviation ER_ERROR_IN_UNKNOWN_TRIGGER_BODY :: int where "ER_ERROR_IN_UNKNOWN_TRIGGER_BODY \<equiv> 1711"
abbreviation ER_INDEX_CORRUPT :: int where "ER_INDEX_CORRUPT \<equiv> 1712"
abbreviation ER_UNDO_RECORD_TOO_BIG :: int where "ER_UNDO_RECORD_TOO_BIG \<equiv> 1713"
abbreviation ER_BINLOG_UNSAFE_INSERT_IGNORE_SELECT :: int where "ER_BINLOG_UNSAFE_INSERT_IGNORE_SELECT \<equiv> 1714"
abbreviation ER_BINLOG_UNSAFE_INSERT_SELECT_UPDATE :: int where "ER_BINLOG_UNSAFE_INSERT_SELECT_UPDATE \<equiv> 1715"
abbreviation ER_BINLOG_UNSAFE_REPLACE_SELECT :: int where "ER_BINLOG_UNSAFE_REPLACE_SELECT \<equiv> 1716"
abbreviation ER_BINLOG_UNSAFE_CREATE_IGNORE_SELECT :: int where "ER_BINLOG_UNSAFE_CREATE_IGNORE_SELECT \<equiv> 1717"
abbreviation ER_BINLOG_UNSAFE_CREATE_REPLACE_SELECT :: int where "ER_BINLOG_UNSAFE_CREATE_REPLACE_SELECT \<equiv> 1718"
abbreviation ER_BINLOG_UNSAFE_UPDATE_IGNORE :: int where "ER_BINLOG_UNSAFE_UPDATE_IGNORE \<equiv> 1719"
abbreviation ER_UNUSED_15 :: int where "ER_UNUSED_15 \<equiv> 1720"
abbreviation ER_UNUSED_16 :: int where "ER_UNUSED_16 \<equiv> 1721"
abbreviation ER_BINLOG_UNSAFE_WRITE_AUTOINC_SELECT :: int where "ER_BINLOG_UNSAFE_WRITE_AUTOINC_SELECT \<equiv> 1722"
abbreviation ER_BINLOG_UNSAFE_CREATE_SELECT_AUTOINC :: int where "ER_BINLOG_UNSAFE_CREATE_SELECT_AUTOINC \<equiv> 1723"
abbreviation ER_BINLOG_UNSAFE_INSERT_TWO_KEYS :: int where "ER_BINLOG_UNSAFE_INSERT_TWO_KEYS \<equiv> 1724"
abbreviation ER_UNUSED_28 :: int where "ER_UNUSED_28 \<equiv> 1725"
abbreviation ER_VERS_NOT_ALLOWED :: int where "ER_VERS_NOT_ALLOWED \<equiv> 1726"
abbreviation ER_BINLOG_UNSAFE_AUTOINC_NOT_FIRST :: int where "ER_BINLOG_UNSAFE_AUTOINC_NOT_FIRST \<equiv> 1727"
abbreviation ER_CANNOT_LOAD_FROM_TABLE_V2 :: int where "ER_CANNOT_LOAD_FROM_TABLE_V2 \<equiv> 1728"
abbreviation ER_MASTER_DELAY_VALUE_OUT_OF_RANGE :: int where "ER_MASTER_DELAY_VALUE_OUT_OF_RANGE \<equiv> 1729"
abbreviation ER_ONLY_FD_AND_RBR_EVENTS_ALLOWED_IN_BINLOG_STATEMENT :: int where "ER_ONLY_FD_AND_RBR_EVENTS_ALLOWED_IN_BINLOG_STATEMENT \<equiv> 1730"
abbreviation ER_PARTITION_EXCHANGE_DIFFERENT_OPTION :: int where "ER_PARTITION_EXCHANGE_DIFFERENT_OPTION \<equiv> 1731"
abbreviation ER_PARTITION_EXCHANGE_PART_TABLE :: int where "ER_PARTITION_EXCHANGE_PART_TABLE \<equiv> 1732"
abbreviation ER_PARTITION_EXCHANGE_TEMP_TABLE :: int where "ER_PARTITION_EXCHANGE_TEMP_TABLE \<equiv> 1733"
abbreviation ER_PARTITION_INSTEAD_OF_SUBPARTITION :: int where "ER_PARTITION_INSTEAD_OF_SUBPARTITION \<equiv> 1734"
abbreviation ER_UNKNOWN_PARTITION :: int where "ER_UNKNOWN_PARTITION \<equiv> 1735"
abbreviation ER_TABLES_DIFFERENT_METADATA :: int where "ER_TABLES_DIFFERENT_METADATA \<equiv> 1736"
abbreviation ER_ROW_DOES_NOT_MATCH_PARTITION :: int where "ER_ROW_DOES_NOT_MATCH_PARTITION \<equiv> 1737"
abbreviation ER_BINLOG_CACHE_SIZE_GREATER_THAN_MAX :: int where "ER_BINLOG_CACHE_SIZE_GREATER_THAN_MAX \<equiv> 1738"
abbreviation ER_WARN_INDEX_NOT_APPLICABLE :: int where "ER_WARN_INDEX_NOT_APPLICABLE \<equiv> 1739"
abbreviation ER_PARTITION_EXCHANGE_FOREIGN_KEY :: int where "ER_PARTITION_EXCHANGE_FOREIGN_KEY \<equiv> 1740"
abbreviation ER_NO_SUCH_KEY_VALUE :: int where "ER_NO_SUCH_KEY_VALUE \<equiv> 1741"
abbreviation ER_VALUE_TOO_LONG :: int where "ER_VALUE_TOO_LONG \<equiv> 1742"
abbreviation ER_NETWORK_READ_EVENT_CHECKSUM_FAILURE :: int where "ER_NETWORK_READ_EVENT_CHECKSUM_FAILURE \<equiv> 1743"
abbreviation ER_BINLOG_READ_EVENT_CHECKSUM_FAILURE :: int where "ER_BINLOG_READ_EVENT_CHECKSUM_FAILURE \<equiv> 1744"
abbreviation ER_BINLOG_STMT_CACHE_SIZE_GREATER_THAN_MAX :: int where "ER_BINLOG_STMT_CACHE_SIZE_GREATER_THAN_MAX \<equiv> 1745"
abbreviation ER_CANT_UPDATE_TABLE_IN_CREATE_TABLE_SELECT :: int where "ER_CANT_UPDATE_TABLE_IN_CREATE_TABLE_SELECT \<equiv> 1746"
abbreviation ER_PARTITION_CLAUSE_ON_NONPARTITIONED :: int where "ER_PARTITION_CLAUSE_ON_NONPARTITIONED \<equiv> 1747"
abbreviation ER_ROW_DOES_NOT_MATCH_GIVEN_PARTITION_SET :: int where "ER_ROW_DOES_NOT_MATCH_GIVEN_PARTITION_SET \<equiv> 1748"
abbreviation ER_UNUSED_5 :: int where "ER_UNUSED_5 \<equiv> 1749"

definition er_codes_5 :: "int list" where
  "er_codes_5 =
     [ER_VIEW_INVALID_CREATION_CTX, ER_SR_INVALID_CREATION_CTX, ER_TRG_CORRUPTED_FILE,
      ER_TRG_NO_CREATION_CTX, ER_TRG_INVALID_CREATION_CTX, ER_EVENT_INVALID_CREATION_CTX,
      ER_TRG_CANT_OPEN_TABLE, ER_CANT_CREATE_SROUTINE, ER_UNUSED_11,
      ER_NO_FORMAT_DESCRIPTION_EVENT_BEFORE_BINLOG_STATEMENT, ER_SLAVE_CORRUPT_EVENT,
      ER_LOAD_DATA_INVALID_COLUMN, ER_LOG_PURGE_NO_FILE, ER_XA_RBTIMEOUT, ER_XA_RBDEADLOCK,
      ER_NEED_REPREPARE, ER_DELAYED_NOT_SUPPORTED, WARN_NO_MASTER_INFO, WARN_OPTION_IGNORED,
      ER_PLUGIN_DELETE_BUILTIN, WARN_PLUGIN_BUSY, ER_VARIABLE_IS_READONLY,
      ER_WARN_ENGINE_TRANSACTION_ROLLBACK, ER_SLAVE_HEARTBEAT_FAILURE,
      ER_SLAVE_HEARTBEAT_VALUE_OUT_OF_RANGE, ER_UNUSED_14, ER_CONFLICT_FN_PARSE_ERROR,
      ER_EXCEPTIONS_WRITE_ERROR, ER_TOO_LONG_TABLE_COMMENT, ER_TOO_LONG_FIELD_COMMENT,
      ER_FUNC_INEXISTENT_NAME_COLLISION, ER_DATABASE_NAME, ER_TABLE_NAME, ER_PARTITION_NAME,
      ER_SUBPARTITION_NAME, ER_TEMPORARY_NAME, ER_RENAMED_NAME, ER_TOO_MANY_CONCURRENT_TRXS,
      WARN_NON_ASCII_SEPARATOR_NOT_IMPLEMENTED, ER_DEBUG_SYNC_TIMEOUT, ER_DEBUG_SYNC_HIT_LIMIT,
      ER_DUP_SIGNAL_SET, ER_SIGNAL_WARN, ER_SIGNAL_NOT_FOUND, ER_SIGNAL_EXCEPTION,
      ER_RESIGNAL_WITHOUT_ACTIVE_HANDLER, ER_SIGNAL_BAD_CONDITION_TYPE, WARN_COND_ITEM_TRUNCATED,
      ER_COND_ITEM_TOO_LONG, ER_UNKNOWN_LOCALE, ER_SLAVE_IGNORE_SERVER_IDS, ER_QUERY_CACHE_DISABLED,
      ER_SAME_NAME_PARTITION_FIELD, ER_PARTITION_COLUMN_LIST_ERROR, ER_WRONG_TYPE_COLUMN_VALUE_ERROR,
      ER_TOO_MANY_PARTITION_FUNC_FIELDS_ERROR, ER_MAXVALUE_IN_VALUES_IN, ER_TOO_MANY_VALUES_ERROR,
      ER_ROW_SINGLE_PARTITION_FIELD_ERROR, ER_FIELD_TYPE_NOT_ALLOWED_AS_PARTITION_FIELD,
      ER_PARTITION_FIELDS_TOO_LONG, ER_BINLOG_ROW_ENGINE_AND_STMT_ENGINE,
      ER_BINLOG_ROW_MODE_AND_STMT_ENGINE, ER_BINLOG_UNSAFE_AND_STMT_ENGINE,
      ER_BINLOG_ROW_INJECTION_AND_STMT_ENGINE, ER_BINLOG_STMT_MODE_AND_ROW_ENGINE,
      ER_BINLOG_ROW_INJECTION_AND_STMT_MODE, ER_BINLOG_MULTIPLE_ENGINES_AND_SELF_LOGGING_ENGINE,
      ER_BINLOG_UNSAFE_LIMIT, ER_BINLOG_UNSAFE_INSERT_DELAYED, ER_BINLOG_UNSAFE_SYSTEM_TABLE,
      ER_BINLOG_UNSAFE_AUTOINC_COLUMNS, ER_BINLOG_UNSAFE_UDF, ER_BINLOG_UNSAFE_SYSTEM_VARIABLE,
      ER_BINLOG_UNSAFE_SYSTEM_FUNCTION, ER_BINLOG_UNSAFE_NONTRANS_AFTER_TRANS, ER_MESSAGE_AND_STATEMENT,
      ER_SLAVE_CONVERSION_FAILED, ER_SLAVE_CANT_CREATE_CONVERSION,
      ER_INSIDE_TRANSACTION_PREVENTS_SWITCH_BINLOG_FORMAT, ER_PATH_LENGTH,
      ER_WARN_DEPRECATED_SYNTAX_NO_REPLACEMENT, ER_WRONG_NATIVE_TABLE_STRUCTURE,
      ER_WRONG_PERFSCHEMA_USAGE, ER_WARN_I_S_SKIPPED_TABLE,
      ER_INSIDE_TRANSACTION_PREVENTS_SWITCH_BINLOG_DIRECT,
      ER_STORED_FUNCTION_PREVENTS_SWITCH_BINLOG_DIRECT, ER_SPATIAL_MUST_HAVE_GEOM_COL,
      ER_TOO_LONG_INDEX_COMMENT, ER_LOCK_ABORTED, ER_DATA_OUT_OF_RANGE, ER_WRONG_SPVAR_TYPE_IN_LIMIT,
      ER_BINLOG_UNSAFE_MULTIPLE_ENGINES_AND_SELF_LOGGING_ENGINE, ER_BINLOG_UNSAFE_MIXED_STATEMENT,
      ER_INSIDE_TRANSACTION_PREVENTS_SWITCH_SQL_LOG_BIN, ER_STORED_FUNCTION_PREVENTS_SWITCH_SQL_LOG_BIN,
      ER_FAILED_READ_FROM_PAR_FILE, ER_VALUES_IS_NOT_INT_TYPE_ERROR, ER_ACCESS_DENIED_NO_PASSWORD_ERROR,
      ER_SET_PASSWORD_AUTH_PLUGIN, ER_GRANT_PLUGIN_USER_EXISTS, ER_TRUNCATE_ILLEGAL_FK,
      ER_PLUGIN_IS_PERMANENT, ER_SLAVE_HEARTBEAT_VALUE_OUT_OF_RANGE_MIN,
      ER_SLAVE_HEARTBEAT_VALUE_OUT_OF_RANGE_MAX, ER_STMT_CACHE_FULL, ER_MULTI_UPDATE_KEY_CONFLICT,
      ER_TABLE_NEEDS_REBUILD, WARN_OPTION_BELOW_LIMIT, ER_INDEX_COLUMN_TOO_LONG,
      ER_ERROR_IN_TRIGGER_BODY, ER_ERROR_IN_UNKNOWN_TRIGGER_BODY, ER_INDEX_CORRUPT,
      ER_UNDO_RECORD_TOO_BIG, ER_BINLOG_UNSAFE_INSERT_IGNORE_SELECT,
      ER_BINLOG_UNSAFE_INSERT_SELECT_UPDATE, ER_BINLOG_UNSAFE_REPLACE_SELECT,
      ER_BINLOG_UNSAFE_CREATE_IGNORE_SELECT, ER_BINLOG_UNSAFE_CREATE_REPLACE_SELECT,
      ER_BINLOG_UNSAFE_UPDATE_IGNORE, ER_UNUSED_15, ER_UNUSED_16, ER_BINLOG_UNSAFE_WRITE_AUTOINC_SELECT,
      ER_BINLOG_UNSAFE_CREATE_SELECT_AUTOINC, ER_BINLOG_UNSAFE_INSERT_TWO_KEYS, ER_UNUSED_28,
      ER_VERS_NOT_ALLOWED, ER_BINLOG_UNSAFE_AUTOINC_NOT_FIRST, ER_CANNOT_LOAD_FROM_TABLE_V2,
      ER_MASTER_DELAY_VALUE_OUT_OF_RANGE, ER_ONLY_FD_AND_RBR_EVENTS_ALLOWED_IN_BINLOG_STATEMENT,
      ER_PARTITION_EXCHANGE_DIFFERENT_OPTION, ER_PARTITION_EXCHANGE_PART_TABLE,
      ER_PARTITION_EXCHANGE_TEMP_TABLE, ER_PARTITION_INSTEAD_OF_SUBPARTITION, ER_UNKNOWN_PARTITION,
      ER_TABLES_DIFFERENT_METADATA, ER_ROW_DOES_NOT_MATCH_PARTITION,
      ER_BINLOG_CACHE_SIZE_GREATER_THAN_MAX, ER_WARN_INDEX_NOT_APPLICABLE,
      ER_PARTITION_EXCHANGE_FOREIGN_KEY, ER_NO_SUCH_KEY_VALUE, ER_VALUE_TOO_LONG,
      ER_NETWORK_READ_EVENT_CHECKSUM_FAILURE, ER_BINLOG_READ_EVENT_CHECKSUM_FAILURE,
      ER_BINLOG_STMT_CACHE_SIZE_GREATER_THAN_MAX, ER_CANT_UPDATE_TABLE_IN_CREATE_TABLE_SELECT,
      ER_PARTITION_CLAUSE_ON_NONPARTITIONED, ER_ROW_DOES_NOT_MATCH_GIVEN_PARTITION_SET, ER_UNUSED_5]"

abbreviation ER_CHANGE_RPL_INFO_REPOSITORY_FAILURE :: int where "ER_CHANGE_RPL_INFO_REPOSITORY_FAILURE \<equiv> 1750"
abbreviation ER_WARNING_NOT_COMPLETE_ROLLBACK_WITH_CREATED_TEMP_TABLE :: int where "ER_WARNING_NOT_COMPLETE_ROLLBACK_WITH_CREATED_TEMP_TABLE \<equiv> 1751"
abbreviation ER_WARNING_NOT_COMPLETE_ROLLBACK_WITH_DROPPED_TEMP_TABLE :: int where "ER_WARNING_NOT_COMPLETE_ROLLBACK_WITH_DROPPED_TEMP_TABLE \<equiv> 1752"
abbreviation ER_MTS_FEATURE_IS_NOT_SUPPORTED :: int where "ER_MTS_FEATURE_IS_NOT_SUPPORTED \<equiv> 1753"
abbreviation ER_MTS_UPDATED_DBS_GREATER_MAX :: int where "ER_MTS_UPDATED_DBS_GREATER_MAX \<equiv> 1754"
abbreviation ER_MTS_CANT_PARALLEL :: int where "ER_MTS_CANT_PARALLEL \<equiv> 1755"
abbreviation ER_MTS_INCONSISTENT_DATA :: int where "ER_MTS_INCONSISTENT_DATA \<equiv> 1756"
abbreviation ER_FULLTEXT_NOT_SUPPORTED_WITH_PARTITIONING :: int where "ER_FULLTEXT_NOT_SUPPORTED_WITH_PARTITIONING \<equiv> 1757"
abbreviation ER_DA_INVALID_CONDITION_NUMBER :: int where "ER_DA_INVALID_CONDITION_NUMBER \<equiv> 1758"
abbreviation ER_INSECURE_PLAIN_TEXT :: int where "ER_INSECURE_PLAIN_TEXT \<equiv> 1759"
abbreviation ER_INSECURE_CHANGE_MASTER :: int where "ER_INSECURE_CHANGE_MASTER \<equiv> 1760"
abbreviation ER_FOREIGN_DUPLICATE_KEY_WITH_CHILD_INFO :: int where "ER_FOREIGN_DUPLICATE_KEY_WITH_CHILD_INFO \<equiv> 1761"
abbreviation ER_FOREIGN_DUPLICATE_KEY_WITHOUT_CHILD_INFO :: int where "ER_FOREIGN_DUPLICATE_KEY_WITHOUT_CHILD_INFO \<equiv> 1762"
abbreviation ER_SQLTHREAD_WITH_SECURE_SLAVE :: int where "ER_SQLTHREAD_WITH_SECURE_SLAVE \<equiv> 1763"
abbreviation ER_TABLE_HAS_NO_FT :: int where "ER_TABLE_HAS_NO_FT \<equiv> 1764"
abbreviation ER_VARIABLE_NOT_SETTABLE_IN_SF_OR_TRIGGER :: int where "ER_VARIABLE_NOT_SETTABLE_IN_SF_OR_TRIGGER \<equiv> 1765"
abbreviation ER_VARIABLE_NOT_SETTABLE_IN_TRANSACTION :: int where "ER_VARIABLE_NOT_SETTABLE_IN_TRANSACTION \<equiv> 1766"
abbreviation ER_GTID_NEXT_IS_NOT_IN_GTID_NEXT_LIST :: int where "ER_GTID_NEXT_IS_NOT_IN_GTID_NEXT_LIST \<equiv> 1767"
abbreviation ER_CANT_CHANGE_GTID_NEXT_IN_TRANSACTION_WHEN_GTID_NEXT_LIST_IS_NULL :: int where "ER_CANT_CHANGE_GTID_NEXT_IN_TRANSACTION_WHEN_GTID_NEXT_LIST_IS_NULL \<equiv> 1768"
abbreviation ER_SET_STATEMENT_CANNOT_INVOKE_FUNCTION :: int where "ER_SET_STATEMENT_CANNOT_INVOKE_FUNCTION \<equiv> 1769"
abbreviation ER_GTID_NEXT_CANT_BE_AUTOMATIC_IF_GTID_NEXT_LIST_IS_NON_NULL :: int where "ER_GTID_NEXT_CANT_BE_AUTOMATIC_IF_GTID_NEXT_LIST_IS_NON_NULL \<equiv> 1770"
abbreviation ER_SKIPPING_LOGGED_TRANSACTION :: int where "ER_SKIPPING_LOGGED_TRANSACTION \<equiv> 1771"
abbreviation ER_MALFORMED_GTID_SET_SPECIFICATION :: int where "ER_MALFORMED_GTID_SET_SPECIFICATION \<equiv> 1772"
abbreviation ER_MALFORMED_GTID_SET_ENCODING :: int where "ER_MALFORMED_GTID_SET_ENCODING \<equiv> 1773"
abbreviation ER_MALFORMED_GTID_SPECIFICATION :: int where "ER_MALFORMED_GTID_SPECIFICATION \<equiv> 1774"
abbreviation ER_GNO_EXHAUSTED :: int where "ER_GNO_EXHAUSTED \<equiv> 1775"
abbreviation ER_BAD_SLAVE_AUTO_POSITION :: int where "ER_BAD_SLAVE_AUTO_POSITION \<equiv> 1776"
abbreviation ER_AUTO_POSITION_REQUIRES_GTID_MODE_ON :: int where "ER_AUTO_POSITION_REQUIRES_GTID_MODE_ON \<equiv> 1777"
abbreviation ER_CANT_DO_IMPLICIT_COMMIT_IN_TRX_WHEN_GTID_NEXT_IS_SET :: int where "ER_CANT_DO_IMPLICIT_COMMIT_IN_TRX_WHEN_GTID_NEXT_IS_SET \<equiv> 1778"
abbreviation ER_GTID_MODE_2_OR_3_REQUIRES_ENFORCE_GTID_CONSISTENCY_ON :: int where "ER_GTID_MODE_2_OR_3_REQUIRES_ENFORCE_GTID_CONSISTENCY_ON \<equiv> 1779"
abbreviation ER_GTID_MODE_REQUIRES_BINLOG :: int where "ER_GTID_MODE_REQUIRES_BINLOG \<equiv> 1780"
abbreviation ER_CANT_SET_GTID_NEXT_TO_GTID_WHEN_GTID_MODE_IS_OFF :: int where "ER_CANT_SET_GTID_NEXT_TO_GTID_WHEN_GTID_MODE_IS_OFF \<equiv> 1781"
abbreviation ER_CANT_SET_GTID_NEXT_TO_ANONYMOUS_WHEN_GTID_MODE_IS_ON :: int where "ER_CANT_SET_GTID_NEXT_TO_ANONYMOUS_WHEN_GTID_MODE_IS_ON \<equiv> 1782"
abbreviation ER_CANT_SET_GTID_NEXT_LIST_TO_NON_NULL_WHEN_GTID_MODE_IS_OFF :: int where "ER_CANT_SET_GTID_NEXT_LIST_TO_NON_NULL_WHEN_GTID_MODE_IS_OFF \<equiv> 1783"
abbreviation ER_FOUND_GTID_EVENT_WHEN_GTID_MODE_IS_OFF :: int where "ER_FOUND_GTID_EVENT_WHEN_GTID_MODE_IS_OFF \<equiv> 1784"
abbreviation ER_GTID_UNSAFE_NON_TRANSACTIONAL_TABLE :: int where "ER_GTID_UNSAFE_NON_TRANSACTIONAL_TABLE \<equiv> 1785"
abbreviation ER_GTID_UNSAFE_CREATE_SELECT :: int where "ER_GTID_UNSAFE_CREATE_SELECT \<equiv> 1786"
abbreviation ER_GTID_UNSAFE_CREATE_DROP_TEMPORARY_TABLE_IN_TRANSACTION :: int where "ER_GTID_UNSAFE_CREATE_DROP_TEMPORARY_TABLE_IN_TRANSACTION \<equiv> 1787"
abbreviation ER_GTID_MODE_CAN_ONLY_CHANGE_ONE_STEP_AT_A_TIME :: int where "ER_GTID_MODE_CAN_ONLY_CHANGE_ONE_STEP_AT_A_TIME \<equiv> 1788"
abbreviation ER_MASTER_HAS_PURGED_REQUIRED_GTIDS :: int where "ER_MASTER_HAS_PURGED_REQUIRED_GTIDS \<equiv> 1789"
abbreviation ER_CANT_SET_GTID_NEXT_WHEN_OWNING_GTID :: int where "ER_CANT_SET_GTID_NEXT_WHEN_OWNING_GTID \<equiv> 1790"
abbreviation ER_UNKNOWN_EXPLAIN_FORMAT :: int where "ER_UNKNOWN_EXPLAIN_FORMAT \<equiv> 1791"
abbreviation ER_CANT_EXECUTE_IN_READ_ONLY_TRANSACTION :: int where "ER_CANT_EXECUTE_IN_READ_ONLY_TRANSACTION \<equiv> 1792"
abbreviation ER_TOO_LONG_TABLE_PARTITION_COMMENT :: int where "ER_TOO_LONG_TABLE_PARTITION_COMMENT \<equiv> 1793"
abbreviation ER_SLAVE_CONFIGURATION :: int where "ER_SLAVE_CONFIGURATION \<equiv> 1794"
abbreviation ER_INNODB_FT_LIMIT :: int where "ER_INNODB_FT_LIMIT \<equiv> 1795"
abbreviation ER_INNODB_NO_FT_TEMP_TABLE :: int where "ER_INNODB_NO_FT_TEMP_TABLE \<equiv> 1796"
abbreviation ER_INNODB_FT_WRONG_DOCID_COLUMN :: int where "ER_INNODB_FT_WRONG_DOCID_COLUMN \<equiv> 1797"
abbreviation ER_INNODB_FT_WRONG_DOCID_INDEX :: int where "ER_INNODB_FT_WRONG_DOCID_INDEX \<equiv> 1798"
abbreviation ER_INNODB_ONLINE_LOG_TOO_BIG :: int where "ER_INNODB_ONLINE_LOG_TOO_BIG \<equiv> 1799"
abbreviation ER_UNKNOWN_ALTER_ALGORITHM :: int where "ER_UNKNOWN_ALTER_ALGORITHM \<equiv> 1800"
abbreviation ER_UNKNOWN_ALTER_LOCK :: int where "ER_UNKNOWN_ALTER_LOCK \<equiv> 1801"
abbreviation ER_MTS_CHANGE_MASTER_CANT_RUN_WITH_GAPS :: int where "ER_MTS_CHANGE_MASTER_CANT_RUN_WITH_GAPS \<equiv> 1802"
abbreviation ER_MTS_RECOVERY_FAILURE :: int where "ER_MTS_RECOVERY_FAILURE \<equiv> 1803"
abbreviation ER_MTS_RESET_WORKERS :: int where "ER_MTS_RESET_WORKERS \<equiv> 1804"
abbreviation ER_COL_COUNT_DOESNT_MATCH_CORRUPTED_V2 :: int where "ER_COL_COUNT_DOESNT_MATCH_CORRUPTED_V2 \<equiv> 1805"
abbreviation ER_SLAVE_SILENT_RETRY_TRANSACTION :: int where "ER_SLAVE_SILENT_RETRY_TRANSACTION \<equiv> 1806"
abbreviation ER_UNUSED_22 :: int where "ER_UNUSED_22 \<equiv> 1807"
abbreviation ER_TABLE_SCHEMA_MISMATCH :: int where "ER_TABLE_SCHEMA_MISMATCH \<equiv> 1808"
abbreviation ER_TABLE_IN_SYSTEM_TABLESPACE :: int where "ER_TABLE_IN_SYSTEM_TABLESPACE \<equiv> 1809"
abbreviation ER_IO_READ_ERROR :: int where "ER_IO_READ_ERROR \<equiv> 1810"
abbreviation ER_IO_WRITE_ERROR :: int where "ER_IO_WRITE_ERROR \<equiv> 1811"
abbreviation ER_TABLESPACE_MISSING :: int where "ER_TABLESPACE_MISSING \<equiv> 1812"
abbreviation ER_TABLESPACE_EXISTS :: int where "ER_TABLESPACE_EXISTS \<equiv> 1813"
abbreviation ER_TABLESPACE_DISCARDED :: int where "ER_TABLESPACE_DISCARDED \<equiv> 1814"
abbreviation ER_INTERNAL_ERROR :: int where "ER_INTERNAL_ERROR \<equiv> 1815"
abbreviation ER_INNODB_IMPORT_ERROR :: int where "ER_INNODB_IMPORT_ERROR \<equiv> 1816"
abbreviation ER_INNODB_INDEX_CORRUPT :: int where "ER_INNODB_INDEX_CORRUPT \<equiv> 1817"
abbreviation ER_INVALID_YEAR_COLUMN_LENGTH :: int where "ER_INVALID_YEAR_COLUMN_LENGTH \<equiv> 1818"
abbreviation ER_NOT_VALID_PASSWORD :: int where "ER_NOT_VALID_PASSWORD \<equiv> 1819"
abbreviation ER_MUST_CHANGE_PASSWORD :: int where "ER_MUST_CHANGE_PASSWORD \<equiv> 1820"
abbreviation ER_FK_NO_INDEX_CHILD :: int where "ER_FK_NO_INDEX_CHILD \<equiv> 1821"
abbreviation ER_FK_NO_INDEX_PARENT :: int where "ER_FK_NO_INDEX_PARENT \<equiv> 1822"
abbreviation ER_FK_FAIL_ADD_SYSTEM :: int where "ER_FK_FAIL_ADD_SYSTEM \<equiv> 1823"
abbreviation ER_FK_CANNOT_OPEN_PARENT :: int where "ER_FK_CANNOT_OPEN_PARENT \<equiv> 1824"
abbreviation ER_FK_INCORRECT_OPTION :: int where "ER_FK_INCORRECT_OPTION \<equiv> 1825"
abbreviation ER_DUP_CONSTRAINT_NAME :: int where "ER_DUP_CONSTRAINT_NAME \<equiv> 1826"
abbreviation ER_PASSWORD_FORMAT :: int where "ER_PASSWORD_FORMAT \<equiv> 1827"
abbreviation ER_FK_COLUMN_CANNOT_DROP :: int where "ER_FK_COLUMN_CANNOT_DROP \<equiv> 1828"
abbreviation ER_FK_COLUMN_CANNOT_DROP_CHILD :: int where "ER_FK_COLUMN_CANNOT_DROP_CHILD \<equiv> 1829"
abbreviation ER_FK_COLUMN_NOT_NULL :: int where "ER_FK_COLUMN_NOT_NULL \<equiv> 1830"
abbreviation ER_DUP_INDEX :: int where "ER_DUP_INDEX \<equiv> 1831"
abbreviation ER_FK_COLUMN_CANNOT_CHANGE :: int where "ER_FK_COLUMN_CANNOT_CHANGE \<equiv> 1832"
abbreviation ER_FK_COLUMN_CANNOT_CHANGE_CHILD :: int where "ER_FK_COLUMN_CANNOT_CHANGE_CHILD \<equiv> 1833"
abbreviation ER_FK_CANNOT_DELETE_PARENT :: int where "ER_FK_CANNOT_DELETE_PARENT \<equiv> 1834"
abbreviation ER_MALFORMED_PACKET :: int where "ER_MALFORMED_PACKET \<equiv> 1835"
abbreviation ER_READ_ONLY_MODE :: int where "ER_READ_ONLY_MODE \<equiv> 1836"
abbreviation ER_GTID_NEXT_TYPE_UNDEFINED_GROUP :: int where "ER_GTID_NEXT_TYPE_UNDEFINED_GROUP \<equiv> 1837"
abbreviation ER_VARIABLE_NOT_SETTABLE_IN_SP :: int where "ER_VARIABLE_NOT_SETTABLE_IN_SP \<equiv> 1838"
abbreviation ER_CANT_SET_GTID_PURGED_WHEN_GTID_MODE_IS_OFF :: int where "ER_CANT_SET_GTID_PURGED_WHEN_GTID_MODE_IS_OFF \<equiv> 1839"
abbreviation ER_CANT_SET_GTID_PURGED_WHEN_GTID_EXECUTED_IS_NOT_EMPTY :: int where "ER_CANT_SET_GTID_PURGED_WHEN_GTID_EXECUTED_IS_NOT_EMPTY \<equiv> 1840"
abbreviation ER_CANT_SET_GTID_PURGED_WHEN_OWNED_GTIDS_IS_NOT_EMPTY :: int where "ER_CANT_SET_GTID_PURGED_WHEN_OWNED_GTIDS_IS_NOT_EMPTY \<equiv> 1841"
abbreviation ER_GTID_PURGED_WAS_CHANGED :: int where "ER_GTID_PURGED_WAS_CHANGED \<equiv> 1842"
abbreviation ER_GTID_EXECUTED_WAS_CHANGED :: int where "ER_GTID_EXECUTED_WAS_CHANGED \<equiv> 1843"
abbreviation ER_BINLOG_STMT_MODE_AND_NO_REPL_TABLES :: int where "ER_BINLOG_STMT_MODE_AND_NO_REPL_TABLES \<equiv> 1844"
abbreviation ER_ALTER_OPERATION_NOT_SUPPORTED :: int where "ER_ALTER_OPERATION_NOT_SUPPORTED \<equiv> 1845"
abbreviation ER_ALTER_OPERATION_NOT_SUPPORTED_REASON :: int where "ER_ALTER_OPERATION_NOT_SUPPORTED_REASON \<equiv> 1846"
abbreviation ER_ALTER_OPERATION_NOT_SUPPORTED_REASON_COPY :: int where "ER_ALTER_OPERATION_NOT_SUPPORTED_REASON_COPY \<equiv> 1847"
abbreviation ER_ALTER_OPERATION_NOT_SUPPORTED_REASON_PARTITION :: int where "ER_ALTER_OPERATION_NOT_SUPPORTED_REASON_PARTITION \<equiv> 1848"
abbreviation ER_ALTER_OPERATION_NOT_SUPPORTED_REASON_FK_RENAME :: int where "ER_ALTER_OPERATION_NOT_SUPPORTED_REASON_FK_RENAME \<equiv> 1849"
abbreviation ER_ALTER_OPERATION_NOT_SUPPORTED_REASON_COLUMN_TYPE :: int where "ER_ALTER_OPERATION_NOT_SUPPORTED_REASON_COLUMN_TYPE \<equiv> 1850"
abbreviation ER_ALTER_OPERATION_NOT_SUPPORTED_REASON_FK_CHECK :: int where "ER_ALTER_OPERATION_NOT_SUPPORTED_REASON_FK_CHECK \<equiv> 1851"
abbreviation ER_ALTER_OPERATION_NOT_SUPPORTED_REASON_IGNORE :: int where "ER_ALTER_OPERATION_NOT_SUPPORTED_REASON_IGNORE \<equiv> 1852"
abbreviation ER_ALTER_OPERATION_NOT_SUPPORTED_REASON_NOPK :: int where "ER_ALTER_OPERATION_NOT_SUPPORTED_REASON_NOPK \<equiv> 1853"
abbreviation ER_ALTER_OPERATION_NOT_SUPPORTED_REASON_AUTOINC :: int where "ER_ALTER_OPERATION_NOT_SUPPORTED_REASON_AUTOINC \<equiv> 1854"
abbreviation ER_ALTER_OPERATION_NOT_SUPPORTED_REASON_HIDDEN_FTS :: int where "ER_ALTER_OPERATION_NOT_SUPPORTED_REASON_HIDDEN_FTS \<equiv> 1855"
abbreviation ER_ALTER_OPERATION_NOT_SUPPORTED_REASON_CHANGE_FTS :: int where "ER_ALTER_OPERATION_NOT_SUPPORTED_REASON_CHANGE_FTS \<equiv> 1856"
abbreviation ER_ALTER_OPERATION_NOT_SUPPORTED_REASON_FTS :: int where "ER_ALTER_OPERATION_NOT_SUPPORTED_REASON_FTS \<equiv> 1857"
abbreviation ER_SQL_SLAVE_SKIP_COUNTER_NOT_SETTABLE_IN_GTID_MODE :: int where "ER_SQL_SLAVE_SKIP_COUNTER_NOT_SETTABLE_IN_GTID_MODE \<equiv> 1858"
abbreviation ER_DUP_UNKNOWN_IN_INDEX :: int where "ER_DUP_UNKNOWN_IN_INDEX \<equiv> 1859"
abbreviation ER_IDENT_CAUSES_TOO_LONG_PATH :: int where "ER_IDENT_CAUSES_TOO_LONG_PATH \<equiv> 1860"
abbreviation ER_ALTER_OPERATION_NOT_SUPPORTED_REASON_NOT_NULL :: int where "ER_ALTER_OPERATION_NOT_SUPPORTED_REASON_NOT_NULL \<equiv> 1861"
abbreviation ER_MUST_CHANGE_PASSWORD_LOGIN :: int where "ER_MUST_CHANGE_PASSWORD_LOGIN \<equiv> 1862"
abbreviation ER_ROW_IN_WRONG_PARTITION :: int where "ER_ROW_IN_WRONG_PARTITION \<equiv> 1863"
abbreviation ER_MTS_EVENT_BIGGER_PENDING_JOBS_SIZE_MAX :: int where "ER_MTS_EVENT_BIGGER_PENDING_JOBS_SIZE_MAX \<equiv> 1864"
abbreviation ER_INNODB_NO_FT_USES_PARSER :: int where "ER_INNODB_NO_FT_USES_PARSER \<equiv> 1865"
abbreviation ER_BINLOG_LOGICAL_CORRUPTION :: int where "ER_BINLOG_LOGICAL_CORRUPTION \<equiv> 1866"
abbreviation ER_WARN_PURGE_LOG_IN_USE :: int where "ER_WARN_PURGE_LOG_IN_USE \<equiv> 1867"
abbreviation ER_WARN_PURGE_LOG_IS_ACTIVE :: int where "ER_WARN_PURGE_LOG_IS_ACTIVE \<equiv> 1868"
abbreviation ER_AUTO_INCREMENT_CONFLICT :: int where "ER_AUTO_INCREMENT_CONFLICT \<equiv> 1869"
abbreviation WARN_ON_BLOCKHOLE_IN_RBR :: int where "WARN_ON_BLOCKHOLE_IN_RBR \<equiv> 1870"
abbreviation ER_SLAVE_MI_INIT_REPOSITORY :: int where "ER_SLAVE_MI_INIT_REPOSITORY \<equiv> 1871"
abbreviation ER_SLAVE_RLI_INIT_REPOSITORY :: int where "ER_SLAVE_RLI_INIT_REPOSITORY \<equiv> 1872"
abbreviation ER_ACCESS_DENIED_CHANGE_USER_ERROR :: int where "ER_ACCESS_DENIED_CHANGE_USER_ERROR \<equiv> 1873"
abbreviation ER_INNODB_READ_ONLY :: int where "ER_INNODB_READ_ONLY \<equiv> 1874"
abbreviation ER_STOP_SLAVE_SQL_THREAD_TIMEOUT :: int where "ER_STOP_SLAVE_SQL_THREAD_TIMEOUT \<equiv> 1875"
abbreviation ER_STOP_SLAVE_IO_THREAD_TIMEOUT :: int where "ER_STOP_SLAVE_IO_THREAD_TIMEOUT \<equiv> 1876"
abbreviation ER_TABLE_CORRUPT :: int where "ER_TABLE_CORRUPT \<equiv> 1877"
abbreviation ER_TEMP_FILE_WRITE_FAILURE :: int where "ER_TEMP_FILE_WRITE_FAILURE \<equiv> 1878"
abbreviation ER_INNODB_FT_AUX_NOT_HEX_ID :: int where "ER_INNODB_FT_AUX_NOT_HEX_ID \<equiv> 1879"
abbreviation ER_LAST_MYSQL_ERROR_MESSAGE :: int where "ER_LAST_MYSQL_ERROR_MESSAGE \<equiv> 1880"
abbreviation ER_UNUSED_18 :: int where "ER_UNUSED_18 \<equiv> 1900"
abbreviation ER_GENERATED_COLUMN_FUNCTION_IS_NOT_ALLOWED :: int where "ER_GENERATED_COLUMN_FUNCTION_IS_NOT_ALLOWED \<equiv> 1901"
abbreviation ER_UNUSED_19 :: int where "ER_UNUSED_19 \<equiv> 1902"
abbreviation ER_PRIMARY_KEY_BASED_ON_GENERATED_COLUMN :: int where "ER_PRIMARY_KEY_BASED_ON_GENERATED_COLUMN \<equiv> 1903"
abbreviation ER_KEY_BASED_ON_GENERATED_VIRTUAL_COLUMN :: int where "ER_KEY_BASED_ON_GENERATED_VIRTUAL_COLUMN \<equiv> 1904"
abbreviation ER_WRONG_FK_OPTION_FOR_GENERATED_COLUMN :: int where "ER_WRONG_FK_OPTION_FOR_GENERATED_COLUMN \<equiv> 1905"
abbreviation ER_WARNING_NON_DEFAULT_VALUE_FOR_GENERATED_COLUMN :: int where "ER_WARNING_NON_DEFAULT_VALUE_FOR_GENERATED_COLUMN \<equiv> 1906"
abbreviation ER_UNSUPPORTED_ACTION_ON_GENERATED_COLUMN :: int where "ER_UNSUPPORTED_ACTION_ON_GENERATED_COLUMN \<equiv> 1907"
abbreviation ER_UNUSED_20 :: int where "ER_UNUSED_20 \<equiv> 1908"
abbreviation ER_UNUSED_21 :: int where "ER_UNUSED_21 \<equiv> 1909"
abbreviation ER_UNSUPPORTED_ENGINE_FOR_GENERATED_COLUMNS :: int where "ER_UNSUPPORTED_ENGINE_FOR_GENERATED_COLUMNS \<equiv> 1910"
abbreviation ER_UNKNOWN_OPTION :: int where "ER_UNKNOWN_OPTION \<equiv> 1911"
abbreviation ER_BAD_OPTION_VALUE :: int where "ER_BAD_OPTION_VALUE \<equiv> 1912"
abbreviation ER_UNUSED_6 :: int where "ER_UNUSED_6 \<equiv> 1913"

definition er_codes_6 :: "int list" where
  "er_codes_6 =
     [ER_CHANGE_RPL_INFO_REPOSITORY_FAILURE, ER_WARNING_NOT_COMPLETE_ROLLBACK_WITH_CREATED_TEMP_TABLE,
      ER_WARNING_NOT_COMPLETE_ROLLBACK_WITH_DROPPED_TEMP_TABLE, ER_MTS_FEATURE_IS_NOT_SUPPORTED,
      ER_MTS_UPDATED_DBS_GREATER_MAX, ER_MTS_CANT_PARALLEL, ER_MTS_INCONSISTENT_DATA,
      ER_FULLTEXT_NOT_SUPPORTED_WITH_PARTITIONING, ER_DA_INVALID_CONDITION_NUMBER,
      ER_INSECURE_PLAIN_TEXT, ER_INSECURE_CHANGE_MASTER, ER_FOREIGN_DUPLICATE_KEY_WITH_CHILD_INFO,
      ER_FOREIGN_DUPLICATE_KEY_WITHOUT_CHILD_INFO, ER_SQLTHREAD_WITH_SECURE_SLAVE, ER_TABLE_HAS_NO_FT,
      ER_VARIABLE_NOT_SETTABLE_IN_SF_OR_TRIGGER, ER_VARIABLE_NOT_SETTABLE_IN_TRANSACTION,
      ER_GTID_NEXT_IS_NOT_IN_GTID_NEXT_LIST,
      ER_CANT_CHANGE_GTID_NEXT_IN_TRANSACTION_WHEN_GTID_NEXT_LIST_IS_NULL,
      ER_SET_STATEMENT_CANNOT_INVOKE_FUNCTION,
      ER_GTID_NEXT_CANT_BE_AUTOMATIC_IF_GTID_NEXT_LIST_IS_NON_NULL, ER_SKIPPING_LOGGED_TRANSACTION,
      ER_MALFORMED_GTID_SET_SPECIFICATION, ER_MALFORMED_GTID_SET_ENCODING,
      ER_MALFORMED_GTID_SPECIFICATION, ER_GNO_EXHAUSTED, ER_BAD_SLAVE_AUTO_POSITION,
      ER_AUTO_POSITION_REQUIRES_GTID_MODE_ON, ER_CANT_DO_IMPLICIT_COMMIT_IN_TRX_WHEN_GTID_NEXT_IS_SET,
      ER_GTID_MODE_2_OR_3_REQUIRES_ENFORCE_GTID_CONSISTENCY_ON, ER_GTID_MODE_REQUIRES_BINLOG,
      ER_CANT_SET_GTID_NEXT_TO_GTID_WHEN_GTID_MODE_IS_OFF,
      ER_CANT_SET_GTID_NEXT_TO_ANONYMOUS_WHEN_GTID_MODE_IS_ON,
      ER_CANT_SET_GTID_NEXT_LIST_TO_NON_NULL_WHEN_GTID_MODE_IS_OFF,
      ER_FOUND_GTID_EVENT_WHEN_GTID_MODE_IS_OFF, ER_GTID_UNSAFE_NON_TRANSACTIONAL_TABLE,
      ER_GTID_UNSAFE_CREATE_SELECT, ER_GTID_UNSAFE_CREATE_DROP_TEMPORARY_TABLE_IN_TRANSACTION,
      ER_GTID_MODE_CAN_ONLY_CHANGE_ONE_STEP_AT_A_TIME, ER_MASTER_HAS_PURGED_REQUIRED_GTIDS,
      ER_CANT_SET_GTID_NEXT_WHEN_OWNING_GTID, ER_UNKNOWN_EXPLAIN_FORMAT,
      ER_CANT_EXECUTE_IN_READ_ONLY_TRANSACTION, ER_TOO_LONG_TABLE_PARTITION_COMMENT,
      ER_SLAVE_CONFIGURATION, ER_INNODB_FT_LIMIT, ER_INNODB_NO_FT_TEMP_TABLE,
      ER_INNODB_FT_WRONG_DOCID_COLUMN, ER_INNODB_FT_WRONG_DOCID_INDEX, ER_INNODB_ONLINE_LOG_TOO_BIG,
      ER_UNKNOWN_ALTER_ALGORITHM, ER_UNKNOWN_ALTER_LOCK, ER_MTS_CHANGE_MASTER_CANT_RUN_WITH_GAPS,
      ER_MTS_RECOVERY_FAILURE, ER_MTS_RESET_WORKERS, ER_COL_COUNT_DOESNT_MATCH_CORRUPTED_V2,
      ER_SLAVE_SILENT_RETRY_TRANSACTION, ER_UNUSED_22, ER_TABLE_SCHEMA_MISMATCH,
      ER_TABLE_IN_SYSTEM_TABLESPACE, ER_IO_READ_ERROR, ER_IO_WRITE_ERROR, ER_TABLESPACE_MISSING,
      ER_TABLESPACE_EXISTS, ER_TABLESPACE_DISCARDED, ER_INTERNAL_ERROR, ER_INNODB_IMPORT_ERROR,
      ER_INNODB_INDEX_CORRUPT, ER_INVALID_YEAR_COLUMN_LENGTH, ER_NOT_VALID_PASSWORD,
      ER_MUST_CHANGE_PASSWORD, ER_FK_NO_INDEX_CHILD, ER_FK_NO_INDEX_PARENT, ER_FK_FAIL_ADD_SYSTEM,
      ER_FK_CANNOT_OPEN_PARENT, ER_FK_INCORRECT_OPTION, ER_DUP_CONSTRAINT_NAME, ER_PASSWORD_FORMAT,
      ER_FK_COLUMN_CANNOT_DROP, ER_FK_COLUMN_CANNOT_DROP_CHILD, ER_FK_COLUMN_NOT_NULL, ER_DUP_INDEX,
      ER_FK_COLUMN_CANNOT_CHANGE, ER_FK_COLUMN_CANNOT_CHANGE_CHILD, ER_FK_CANNOT_DELETE_PARENT,
      ER_MALFORMED_PACKET, ER_READ_ONLY_MODE, ER_GTID_NEXT_TYPE_UNDEFINED_GROUP,
      ER_VARIABLE_NOT_SETTABLE_IN_SP, ER_CANT_SET_GTID_PURGED_WHEN_GTID_MODE_IS_OFF,
      ER_CANT_SET_GTID_PURGED_WHEN_GTID_EXECUTED_IS_NOT_EMPTY,
      ER_CANT_SET_GTID_PURGED_WHEN_OWNED_GTIDS_IS_NOT_EMPTY, ER_GTID_PURGED_WAS_CHANGED,
      ER_GTID_EXECUTED_WAS_CHANGED, ER_BINLOG_STMT_MODE_AND_NO_REPL_TABLES,
      ER_ALTER_OPERATION_NOT_SUPPORTED, ER_ALTER_OPERATION_NOT_SUPPORTED_REASON,
      ER_ALTER_OPERATION_NOT_SUPPORTED_REASON_COPY, ER_ALTER_OPERATION_NOT_SUPPORTED_REASON_PARTITION,
      ER_ALTER_OPERATION_NOT_SUPPORTED_REASON_FK_RENAME,
      ER_ALTER_OPERATION_NOT_SUPPORTED_REASON_COLUMN_TYPE,
      ER_ALTER_OPERATION_NOT_SUPPORTED_REASON_FK_CHECK, ER_ALTER_OPERATION_NOT_SUPPORTED_REASON_IGNORE,
      ER_ALTER_OPERATION_NOT_SUPPORTED_REASON_NOPK, ER_ALTER_OPERATION_NOT_SUPPORTED_REASON_AUTOINC,
      ER_ALTER_OPERATION_NOT_SUPPORTED_REASON_HIDDEN_FTS,
      ER_ALTER_OPERATION_NOT_SUPPORTED_REASON_CHANGE_FTS, ER_ALTER_OPERATION_NOT_SUPPORTED_REASON_FTS,
      ER_SQL_SLAVE_SKIP_COUNTER_NOT_SETTABLE_IN_GTID_MODE, ER_DUP_UNKNOWN_IN_INDEX,
      ER_IDENT_CAUSES_TOO_LONG_PATH, ER_ALTER_OPERATION_NOT_SUPPORTED_REASON_NOT_NULL,
      ER_MUST_CHANGE_PASSWORD_LOGIN, ER_ROW_IN_WRONG_PARTITION,
      ER_MTS_EVENT_BIGGER_PENDING_JOBS_SIZE_MAX, ER_INNODB_NO_FT_USES_PARSER,
      ER_BINLOG_LOGICAL_CORRUPTION, ER_WARN_PURGE_LOG_IN_USE, ER_WARN_PURGE_LOG_IS_ACTIVE,
      ER_AUTO_INCREMENT_CONFLICT, WARN_ON_BLOCKHOLE_IN_RBR, ER_SLAVE_MI_INIT_REPOSITORY,
      ER_SLAVE_RLI_INIT_REPOSITORY, ER_ACCESS_DENIED_CHANGE_USER_ERROR, ER_INNODB_READ_ONLY,
      ER_STOP_SLAVE_SQL_THREAD_TIMEOUT, ER_STOP_SLAVE_IO_THREAD_TIMEOUT, ER_TABLE_CORRUPT,
      ER_TEMP_FILE_WRITE_FAILURE, ER_INNODB_FT_AUX_NOT_HEX_ID, ER_LAST_MYSQL_ERROR_MESSAGE,
      ER_UNUSED_18, ER_GENERATED_COLUMN_FUNCTION_IS_NOT_ALLOWED, ER_UNUSED_19,
      ER_PRIMARY_KEY_BASED_ON_GENERATED_COLUMN, ER_KEY_BASED_ON_GENERATED_VIRTUAL_COLUMN,
      ER_WRONG_FK_OPTION_FOR_GENERATED_COLUMN, ER_WARNING_NON_DEFAULT_VALUE_FOR_GENERATED_COLUMN,
      ER_UNSUPPORTED_ACTION_ON_GENERATED_COLUMN, ER_UNUSED_20, ER_UNUSED_21,
      ER_UNSUPPORTED_ENGINE_FOR_GENERATED_COLUMNS, ER_UNKNOWN_OPTION, ER_BAD_OPTION_VALUE, ER_UNUSED_6]"

abbreviation ER_UNUSED_7 :: int where "ER_UNUSED_7 \<equiv> 1914"
abbreviation ER_UNUSED_8 :: int where "ER_UNUSED_8 \<equiv> 1915"
abbreviation ER_DATA_OVERFLOW :: int where "ER_DATA_OVERFLOW \<equiv> 1916"
abbreviation ER_DATA_TRUNCATED :: int where "ER_DATA_TRUNCATED \<equiv> 1917"
abbreviation ER_BAD_DATA :: int where "ER_BAD_DATA \<equiv> 1918"
abbreviation ER_DYN_COL_WRONG_FORMAT :: int where "ER_DYN_COL_WRONG_FORMAT \<equiv> 1919"
abbreviation ER_DYN_COL_IMPLEMENTATION_LIMIT :: int where "ER_DYN_COL_IMPLEMENTATION_LIMIT \<equiv> 1920"
abbreviation ER_DYN_COL_DATA :: int where "ER_DYN_COL_DATA \<equiv> 1921"
abbreviation ER_DYN_COL_WRONG_CHARSET :: int where "ER_DYN_COL_WRONG_CHARSET \<equiv> 1922"
abbreviation ER_ILLEGAL_SUBQUERY_OPTIMIZER_SWITCHES :: int where "ER_ILLEGAL_SUBQUERY_OPTIMIZER_SWITCHES \<equiv> 1923"
abbreviation ER_QUERY_CACHE_IS_DISABLED :: int where "ER_QUERY_CACHE_IS_DISABLED \<equiv> 1924"
abbreviation ER_QUERY_CACHE_IS_GLOBALY_DISABLED :: int where "ER_QUERY_CACHE_IS_GLOBALY_DISABLED \<equiv> 1925"
abbreviation ER_VIEW_ORDERBY_IGNORED :: int where "ER_VIEW_ORDERBY_IGNORED \<equiv> 1926"
abbreviation ER_CONNECTION_KILLED :: int where "ER_CONNECTION_KILLED \<equiv> 1927"
abbreviation ER_UNUSED_12 :: int where "ER_UNUSED_12 \<equiv> 1928"
abbreviation ER_INSIDE_TRANSACTION_PREVENTS_SWITCH_SKIP_REPLICATION :: int where "ER_INSIDE_TRANSACTION_PREVENTS_SWITCH_SKIP_REPLICATION \<equiv> 1929"
abbreviation ER_STORED_FUNCTION_PREVENTS_SWITCH_SKIP_REPLICATION :: int where "ER_STORED_FUNCTION_PREVENTS_SWITCH_SKIP_REPLICATION \<equiv> 1930"
abbreviation ER_QUERY_EXCEEDED_ROWS_EXAMINED_LIMIT :: int where "ER_QUERY_EXCEEDED_ROWS_EXAMINED_LIMIT \<equiv> 1931"
abbreviation ER_NO_SUCH_TABLE_IN_ENGINE :: int where "ER_NO_SUCH_TABLE_IN_ENGINE \<equiv> 1932"
abbreviation ER_TARGET_NOT_EXPLAINABLE :: int where "ER_TARGET_NOT_EXPLAINABLE \<equiv> 1933"
abbreviation ER_CONNECTION_ALREADY_EXISTS :: int where "ER_CONNECTION_ALREADY_EXISTS \<equiv> 1934"
abbreviation ER_MASTER_LOG_PREFIX :: int where "ER_MASTER_LOG_PREFIX \<equiv> 1935"
abbreviation ER_CANT_START_STOP_SLAVE :: int where "ER_CANT_START_STOP_SLAVE \<equiv> 1936"
abbreviation ER_SLAVE_STARTED :: int where "ER_SLAVE_STARTED \<equiv> 1937"
abbreviation ER_SLAVE_STOPPED :: int where "ER_SLAVE_STOPPED \<equiv> 1938"
abbreviation ER_SQL_DISCOVER_ERROR :: int where "ER_SQL_DISCOVER_ERROR \<equiv> 1939"
abbreviation ER_FAILED_GTID_STATE_INIT :: int where "ER_FAILED_GTID_STATE_INIT \<equiv> 1940"
abbreviation ER_INCORRECT_GTID_STATE :: int where "ER_INCORRECT_GTID_STATE \<equiv> 1941"
abbreviation ER_CANNOT_UPDATE_GTID_STATE :: int where "ER_CANNOT_UPDATE_GTID_STATE \<equiv> 1942"
abbreviation ER_DUPLICATE_GTID_DOMAIN :: int where "ER_DUPLICATE_GTID_DOMAIN \<equiv> 1943"
abbreviation ER_GTID_OPEN_TABLE_FAILED :: int where "ER_GTID_OPEN_TABLE_FAILED \<equiv> 1944"
abbreviation ER_GTID_POSITION_NOT_FOUND_IN_BINLOG :: int where "ER_GTID_POSITION_NOT_FOUND_IN_BINLOG \<equiv> 1945"
abbreviation ER_CANNOT_LOAD_SLAVE_GTID_STATE :: int where "ER_CANNOT_LOAD_SLAVE_GTID_STATE \<equiv> 1946"
abbreviation ER_MASTER_GTID_POS_CONFLICTS_WITH_BINLOG :: int where "ER_MASTER_GTID_POS_CONFLICTS_WITH_BINLOG \<equiv> 1947"
abbreviation ER_MASTER_GTID_POS_MISSING_DOMAIN :: int where "ER_MASTER_GTID_POS_MISSING_DOMAIN \<equiv> 1948"
abbreviation ER_UNTIL_REQUIRES_USING_GTID :: int where "ER_UNTIL_REQUIRES_USING_GTID \<equiv> 1949"
abbreviation ER_GTID_STRICT_OUT_OF_ORDER :: int where "ER_GTID_STRICT_OUT_OF_ORDER \<equiv> 1950"
abbreviation ER_GTID_START_FROM_BINLOG_HOLE :: int where "ER_GTID_START_FROM_BINLOG_HOLE \<equiv> 1951"
abbreviation ER_SLAVE_UNEXPECTED_MASTER_SWITCH :: int where "ER_SLAVE_UNEXPECTED_MASTER_SWITCH \<equiv> 1952"
abbreviation ER_INSIDE_TRANSACTION_PREVENTS_SWITCH_GTID_DOMAIN_ID_SEQ_NO :: int where "ER_INSIDE_TRANSACTION_PREVENTS_SWITCH_GTID_DOMAIN_ID_SEQ_NO \<equiv> 1953"
abbreviation ER_STORED_FUNCTION_PREVENTS_SWITCH_GTID_DOMAIN_ID_SEQ_NO :: int where "ER_STORED_FUNCTION_PREVENTS_SWITCH_GTID_DOMAIN_ID_SEQ_NO \<equiv> 1954"
abbreviation ER_GTID_POSITION_NOT_FOUND_IN_BINLOG2 :: int where "ER_GTID_POSITION_NOT_FOUND_IN_BINLOG2 \<equiv> 1955"
abbreviation ER_BINLOG_MUST_BE_EMPTY :: int where "ER_BINLOG_MUST_BE_EMPTY \<equiv> 1956"
abbreviation ER_NO_SUCH_QUERY :: int where "ER_NO_SUCH_QUERY \<equiv> 1957"
abbreviation ER_BAD_BASE64_DATA :: int where "ER_BAD_BASE64_DATA \<equiv> 1958"
abbreviation ER_INVALID_ROLE :: int where "ER_INVALID_ROLE \<equiv> 1959"
abbreviation ER_INVALID_CURRENT_USER :: int where "ER_INVALID_CURRENT_USER \<equiv> 1960"
abbreviation ER_CANNOT_GRANT_ROLE :: int where "ER_CANNOT_GRANT_ROLE \<equiv> 1961"
abbreviation ER_CANNOT_REVOKE_ROLE :: int where "ER_CANNOT_REVOKE_ROLE \<equiv> 1962"
abbreviation ER_CHANGE_SLAVE_PARALLEL_THREADS_ACTIVE :: int where "ER_CHANGE_SLAVE_PARALLEL_THREADS_ACTIVE \<equiv> 1963"
abbreviation ER_PRIOR_COMMIT_FAILED :: int where "ER_PRIOR_COMMIT_FAILED \<equiv> 1964"
abbreviation ER_IT_IS_A_VIEW :: int where "ER_IT_IS_A_VIEW \<equiv> 1965"
abbreviation ER_SLAVE_SKIP_NOT_IN_GTID :: int where "ER_SLAVE_SKIP_NOT_IN_GTID \<equiv> 1966"
abbreviation ER_TABLE_DEFINITION_TOO_BIG :: int where "ER_TABLE_DEFINITION_TOO_BIG \<equiv> 1967"
abbreviation ER_PLUGIN_INSTALLED :: int where "ER_PLUGIN_INSTALLED \<equiv> 1968"
abbreviation ER_STATEMENT_TIMEOUT :: int where "ER_STATEMENT_TIMEOUT \<equiv> 1969"
abbreviation ER_SUBQUERIES_NOT_SUPPORTED :: int where "ER_SUBQUERIES_NOT_SUPPORTED \<equiv> 1970"
abbreviation ER_SET_STATEMENT_NOT_SUPPORTED :: int where "ER_SET_STATEMENT_NOT_SUPPORTED \<equiv> 1971"
abbreviation ER_UNUSED_9 :: int where "ER_UNUSED_9 \<equiv> 1972"
abbreviation ER_USER_CREATE_EXISTS :: int where "ER_USER_CREATE_EXISTS \<equiv> 1973"
abbreviation ER_USER_DROP_EXISTS :: int where "ER_USER_DROP_EXISTS \<equiv> 1974"
abbreviation ER_ROLE_CREATE_EXISTS :: int where "ER_ROLE_CREATE_EXISTS \<equiv> 1975"
abbreviation ER_ROLE_DROP_EXISTS :: int where "ER_ROLE_DROP_EXISTS \<equiv> 1976"
abbreviation ER_CANNOT_CONVERT_CHARACTER :: int where "ER_CANNOT_CONVERT_CHARACTER \<equiv> 1977"
abbreviation ER_INVALID_DEFAULT_VALUE_FOR_FIELD :: int where "ER_INVALID_DEFAULT_VALUE_FOR_FIELD \<equiv> 1978"
abbreviation ER_KILL_QUERY_DENIED_ERROR :: int where "ER_KILL_QUERY_DENIED_ERROR \<equiv> 1979"
abbreviation ER_NO_EIS_FOR_FIELD :: int where "ER_NO_EIS_FOR_FIELD \<equiv> 1980"
abbreviation ER_WARN_AGGFUNC_DEPENDENCE :: int where "ER_WARN_AGGFUNC_DEPENDENCE \<equiv> 1981"
abbreviation WARN_INNODB_PARTITION_OPTION_IGNORED :: int where "WARN_INNODB_PARTITION_OPTION_IGNORED \<equiv> 1982"
abbreviation ER_FILE_CORRUPT :: int where "ER_FILE_CORRUPT \<equiv> 3000"
abbreviation ER_ERROR_ON_MASTER :: int where "ER_ERROR_ON_MASTER \<equiv> 3001"
abbreviation ER_INCONSISTENT_ERROR :: int where "ER_INCONSISTENT_ERROR \<equiv> 3002"
abbreviation ER_STORAGE_ENGINE_NOT_LOADED :: int where "ER_STORAGE_ENGINE_NOT_LOADED \<equiv> 3003"
abbreviation ER_GET_STACKED_DA_WITHOUT_ACTIVE_HANDLER :: int where "ER_GET_STACKED_DA_WITHOUT_ACTIVE_HANDLER \<equiv> 3004"
abbreviation ER_WARN_LEGACY_SYNTAX_CONVERTED :: int where "ER_WARN_LEGACY_SYNTAX_CONVERTED \<equiv> 3005"
abbreviation ER_BINLOG_UNSAFE_FULLTEXT_PLUGIN :: int where "ER_BINLOG_UNSAFE_FULLTEXT_PLUGIN \<equiv> 3006"
abbreviation ER_CANNOT_DISCARD_TEMPORARY_TABLE :: int where "ER_CANNOT_DISCARD_TEMPORARY_TABLE \<equiv> 3007"
abbreviation ER_FK_DEPTH_EXCEEDED :: int where "ER_FK_DEPTH_EXCEEDED \<equiv> 3008"
abbreviation ER_COL_COUNT_DOESNT_MATCH_PLEASE_UPDATE_V2 :: int where "ER_COL_COUNT_DOESNT_MATCH_PLEASE_UPDATE_V2 \<equiv> 3009"
abbreviation ER_WARN_TRIGGER_DOESNT_HAVE_CREATED :: int where "ER_WARN_TRIGGER_DOESNT_HAVE_CREATED \<equiv> 3010"
abbreviation ER_REFERENCED_TRG_DOES_NOT_EXIST_MYSQL :: int where "ER_REFERENCED_TRG_DOES_NOT_EXIST_MYSQL \<equiv> 3011"
abbreviation ER_EXPLAIN_NOT_SUPPORTED :: int where "ER_EXPLAIN_NOT_SUPPORTED \<equiv> 3012"
abbreviation ER_INVALID_FIELD_SIZE :: int where "ER_INVALID_FIELD_SIZE \<equiv> 3013"
abbreviation ER_MISSING_HA_CREATE_OPTION :: int where "ER_MISSING_HA_CREATE_OPTION \<equiv> 3014"
abbreviation ER_ENGINE_OUT_OF_MEMORY :: int where "ER_ENGINE_OUT_OF_MEMORY \<equiv> 3015"
abbreviation ER_PASSWORD_EXPIRE_ANONYMOUS_USER :: int where "ER_PASSWORD_EXPIRE_ANONYMOUS_USER \<equiv> 3016"
abbreviation ER_SLAVE_SQL_THREAD_MUST_STOP :: int where "ER_SLAVE_SQL_THREAD_MUST_STOP \<equiv> 3017"
abbreviation ER_NO_FT_MATERIALIZED_SUBQUERY :: int where "ER_NO_FT_MATERIALIZED_SUBQUERY \<equiv> 3018"
abbreviation ER_INNODB_UNDO_LOG_FULL :: int where "ER_INNODB_UNDO_LOG_FULL \<equiv> 3019"
abbreviation ER_INVALID_ARGUMENT_FOR_LOGARITHM :: int where "ER_INVALID_ARGUMENT_FOR_LOGARITHM \<equiv> 3020"
abbreviation ER_SLAVE_CHANNEL_IO_THREAD_MUST_STOP :: int where "ER_SLAVE_CHANNEL_IO_THREAD_MUST_STOP \<equiv> 3021"
abbreviation ER_WARN_OPEN_TEMP_TABLES_MUST_BE_ZERO :: int where "ER_WARN_OPEN_TEMP_TABLES_MUST_BE_ZERO \<equiv> 3022"
abbreviation ER_WARN_ONLY_MASTER_LOG_FILE_NO_POS :: int where "ER_WARN_ONLY_MASTER_LOG_FILE_NO_POS \<equiv> 3023"
abbreviation ER_QUERY_TIMEOUT :: int where "ER_QUERY_TIMEOUT \<equiv> 3024"
abbreviation ER_NON_RO_SELECT_DISABLE_TIMER :: int where "ER_NON_RO_SELECT_DISABLE_TIMER \<equiv> 3025"
abbreviation ER_DUP_LIST_ENTRY :: int where "ER_DUP_LIST_ENTRY \<equiv> 3026"
abbreviation ER_SQL_MODE_NO_EFFECT :: int where "ER_SQL_MODE_NO_EFFECT \<equiv> 3027"
abbreviation ER_AGGREGATE_ORDER_FOR_UNION :: int where "ER_AGGREGATE_ORDER_FOR_UNION \<equiv> 3028"
abbreviation ER_AGGREGATE_ORDER_NON_AGG_QUERY :: int where "ER_AGGREGATE_ORDER_NON_AGG_QUERY \<equiv> 3029"
abbreviation ER_SLAVE_WORKER_STOPPED_PREVIOUS_THD_ERROR :: int where "ER_SLAVE_WORKER_STOPPED_PREVIOUS_THD_ERROR \<equiv> 3030"
abbreviation ER_DONT_SUPPORT_SLAVE_PRESERVE_COMMIT_ORDER :: int where "ER_DONT_SUPPORT_SLAVE_PRESERVE_COMMIT_ORDER \<equiv> 3031"
abbreviation ER_SERVER_OFFLINE_MODE :: int where "ER_SERVER_OFFLINE_MODE \<equiv> 3032"
abbreviation ER_GIS_DIFFERENT_SRIDS :: int where "ER_GIS_DIFFERENT_SRIDS \<equiv> 3033"
abbreviation ER_GIS_UNSUPPORTED_ARGUMENT :: int where "ER_GIS_UNSUPPORTED_ARGUMENT \<equiv> 3034"
abbreviation ER_GIS_UNKNOWN_ERROR :: int where "ER_GIS_UNKNOWN_ERROR \<equiv> 3035"
abbreviation ER_GIS_UNKNOWN_EXCEPTION :: int where "ER_GIS_UNKNOWN_EXCEPTION \<equiv> 3036"
abbreviation ER_GIS_INVALID_DATA :: int where "ER_GIS_INVALID_DATA \<equiv> 3037"
abbreviation ER_BOOST_GEOMETRY_EMPTY_INPUT_EXCEPTION :: int where "ER_BOOST_GEOMETRY_EMPTY_INPUT_EXCEPTION \<equiv> 3038"
abbreviation ER_BOOST_GEOMETRY_CENTROID_EXCEPTION :: int where "ER_BOOST_GEOMETRY_CENTROID_EXCEPTION \<equiv> 3039"
abbreviation ER_BOOST_GEOMETRY_OVERLAY_INVALID_INPUT_EXCEPTION :: int where "ER_BOOST_GEOMETRY_OVERLAY_INVALID_INPUT_EXCEPTION \<equiv> 3040"
abbreviation ER_BOOST_GEOMETRY_TURN_INFO_EXCEPTION :: int where "ER_BOOST_GEOMETRY_TURN_INFO_EXCEPTION \<equiv> 3041"
abbreviation ER_BOOST_GEOMETRY_SELF_INTERSECTION_POINT_EXCEPTION :: int where "ER_BOOST_GEOMETRY_SELF_INTERSECTION_POINT_EXCEPTION \<equiv> 3042"
abbreviation ER_BOOST_GEOMETRY_UNKNOWN_EXCEPTION :: int where "ER_BOOST_GEOMETRY_UNKNOWN_EXCEPTION \<equiv> 3043"
abbreviation ER_STD_BAD_ALLOC_ERROR :: int where "ER_STD_BAD_ALLOC_ERROR \<equiv> 3044"
abbreviation ER_STD_DOMAIN_ERROR :: int where "ER_STD_DOMAIN_ERROR \<equiv> 3045"
abbreviation ER_STD_LENGTH_ERROR :: int where "ER_STD_LENGTH_ERROR \<equiv> 3046"
abbreviation ER_STD_INVALID_ARGUMENT :: int where "ER_STD_INVALID_ARGUMENT \<equiv> 3047"
abbreviation ER_STD_OUT_OF_RANGE_ERROR :: int where "ER_STD_OUT_OF_RANGE_ERROR \<equiv> 3048"
abbreviation ER_STD_OVERFLOW_ERROR :: int where "ER_STD_OVERFLOW_ERROR \<equiv> 3049"
abbreviation ER_STD_RANGE_ERROR :: int where "ER_STD_RANGE_ERROR \<equiv> 3050"
abbreviation ER_STD_UNDERFLOW_ERROR :: int where "ER_STD_UNDERFLOW_ERROR \<equiv> 3051"
abbreviation ER_STD_LOGIC_ERROR :: int where "ER_STD_LOGIC_ERROR \<equiv> 3052"
abbreviation ER_STD_RUNTIME_ERROR :: int where "ER_STD_RUNTIME_ERROR \<equiv> 3053"
abbreviation ER_STD_UNKNOWN_EXCEPTION :: int where "ER_STD_UNKNOWN_EXCEPTION \<equiv> 3054"
abbreviation ER_GIS_DATA_WRONG_ENDIANESS :: int where "ER_GIS_DATA_WRONG_ENDIANESS \<equiv> 3055"
abbreviation ER_CHANGE_MASTER_PASSWORD_LENGTH :: int where "ER_CHANGE_MASTER_PASSWORD_LENGTH \<equiv> 3056"
abbreviation ER_USER_LOCK_WRONG_NAME :: int where "ER_USER_LOCK_WRONG_NAME \<equiv> 3057"
abbreviation ER_USER_LOCK_DEADLOCK :: int where "ER_USER_LOCK_DEADLOCK \<equiv> 3058"
abbreviation ER_REPLACE_INACCESSIBLE_ROWS :: int where "ER_REPLACE_INACCESSIBLE_ROWS \<equiv> 3059"
abbreviation ER_ALTER_OPERATION_NOT_SUPPORTED_REASON_GIS :: int where "ER_ALTER_OPERATION_NOT_SUPPORTED_REASON_GIS \<equiv> 3060"
abbreviation ER_UNUSED_26 :: int where "ER_UNUSED_26 \<equiv> 4000"
abbreviation ER_UNUSED_27 :: int where "ER_UNUSED_27 \<equiv> 4001"
abbreviation ER_WITH_COL_WRONG_LIST :: int where "ER_WITH_COL_WRONG_LIST \<equiv> 4002"
abbreviation ER_TOO_MANY_DEFINITIONS_IN_WITH_CLAUSE :: int where "ER_TOO_MANY_DEFINITIONS_IN_WITH_CLAUSE \<equiv> 4003"
abbreviation ER_DUP_QUERY_NAME :: int where "ER_DUP_QUERY_NAME \<equiv> 4004"

definition er_codes_7 :: "int list" where
  "er_codes_7 =
     [ER_UNUSED_7, ER_UNUSED_8, ER_DATA_OVERFLOW, ER_DATA_TRUNCATED, ER_BAD_DATA,
      ER_DYN_COL_WRONG_FORMAT, ER_DYN_COL_IMPLEMENTATION_LIMIT, ER_DYN_COL_DATA,
      ER_DYN_COL_WRONG_CHARSET, ER_ILLEGAL_SUBQUERY_OPTIMIZER_SWITCHES, ER_QUERY_CACHE_IS_DISABLED,
      ER_QUERY_CACHE_IS_GLOBALY_DISABLED, ER_VIEW_ORDERBY_IGNORED, ER_CONNECTION_KILLED, ER_UNUSED_12,
      ER_INSIDE_TRANSACTION_PREVENTS_SWITCH_SKIP_REPLICATION,
      ER_STORED_FUNCTION_PREVENTS_SWITCH_SKIP_REPLICATION, ER_QUERY_EXCEEDED_ROWS_EXAMINED_LIMIT,
      ER_NO_SUCH_TABLE_IN_ENGINE, ER_TARGET_NOT_EXPLAINABLE, ER_CONNECTION_ALREADY_EXISTS,
      ER_MASTER_LOG_PREFIX, ER_CANT_START_STOP_SLAVE, ER_SLAVE_STARTED, ER_SLAVE_STOPPED,
      ER_SQL_DISCOVER_ERROR, ER_FAILED_GTID_STATE_INIT, ER_INCORRECT_GTID_STATE,
      ER_CANNOT_UPDATE_GTID_STATE, ER_DUPLICATE_GTID_DOMAIN, ER_GTID_OPEN_TABLE_FAILED,
      ER_GTID_POSITION_NOT_FOUND_IN_BINLOG, ER_CANNOT_LOAD_SLAVE_GTID_STATE,
      ER_MASTER_GTID_POS_CONFLICTS_WITH_BINLOG, ER_MASTER_GTID_POS_MISSING_DOMAIN,
      ER_UNTIL_REQUIRES_USING_GTID, ER_GTID_STRICT_OUT_OF_ORDER, ER_GTID_START_FROM_BINLOG_HOLE,
      ER_SLAVE_UNEXPECTED_MASTER_SWITCH, ER_INSIDE_TRANSACTION_PREVENTS_SWITCH_GTID_DOMAIN_ID_SEQ_NO,
      ER_STORED_FUNCTION_PREVENTS_SWITCH_GTID_DOMAIN_ID_SEQ_NO, ER_GTID_POSITION_NOT_FOUND_IN_BINLOG2,
      ER_BINLOG_MUST_BE_EMPTY, ER_NO_SUCH_QUERY, ER_BAD_BASE64_DATA, ER_INVALID_ROLE,
      ER_INVALID_CURRENT_USER, ER_CANNOT_GRANT_ROLE, ER_CANNOT_REVOKE_ROLE,
      ER_CHANGE_SLAVE_PARALLEL_THREADS_ACTIVE, ER_PRIOR_COMMIT_FAILED, ER_IT_IS_A_VIEW,
      ER_SLAVE_SKIP_NOT_IN_GTID, ER_TABLE_DEFINITION_TOO_BIG, ER_PLUGIN_INSTALLED, ER_STATEMENT_TIMEOUT,
      ER_SUBQUERIES_NOT_SUPPORTED, ER_SET_STATEMENT_NOT_SUPPORTED, ER_UNUSED_9, ER_USER_CREATE_EXISTS,
      ER_USER_DROP_EXISTS, ER_ROLE_CREATE_EXISTS, ER_ROLE_DROP_EXISTS, ER_CANNOT_CONVERT_CHARACTER,
      ER_INVALID_DEFAULT_VALUE_FOR_FIELD, ER_KILL_QUERY_DENIED_ERROR, ER_NO_EIS_FOR_FIELD,
      ER_WARN_AGGFUNC_DEPENDENCE, WARN_INNODB_PARTITION_OPTION_IGNORED, ER_FILE_CORRUPT,
      ER_ERROR_ON_MASTER, ER_INCONSISTENT_ERROR, ER_STORAGE_ENGINE_NOT_LOADED,
      ER_GET_STACKED_DA_WITHOUT_ACTIVE_HANDLER, ER_WARN_LEGACY_SYNTAX_CONVERTED,
      ER_BINLOG_UNSAFE_FULLTEXT_PLUGIN, ER_CANNOT_DISCARD_TEMPORARY_TABLE, ER_FK_DEPTH_EXCEEDED,
      ER_COL_COUNT_DOESNT_MATCH_PLEASE_UPDATE_V2, ER_WARN_TRIGGER_DOESNT_HAVE_CREATED,
      ER_REFERENCED_TRG_DOES_NOT_EXIST_MYSQL, ER_EXPLAIN_NOT_SUPPORTED, ER_INVALID_FIELD_SIZE,
      ER_MISSING_HA_CREATE_OPTION, ER_ENGINE_OUT_OF_MEMORY, ER_PASSWORD_EXPIRE_ANONYMOUS_USER,
      ER_SLAVE_SQL_THREAD_MUST_STOP, ER_NO_FT_MATERIALIZED_SUBQUERY, ER_INNODB_UNDO_LOG_FULL,
      ER_INVALID_ARGUMENT_FOR_LOGARITHM, ER_SLAVE_CHANNEL_IO_THREAD_MUST_STOP,
      ER_WARN_OPEN_TEMP_TABLES_MUST_BE_ZERO, ER_WARN_ONLY_MASTER_LOG_FILE_NO_POS, ER_QUERY_TIMEOUT,
      ER_NON_RO_SELECT_DISABLE_TIMER, ER_DUP_LIST_ENTRY, ER_SQL_MODE_NO_EFFECT,
      ER_AGGREGATE_ORDER_FOR_UNION, ER_AGGREGATE_ORDER_NON_AGG_QUERY,
      ER_SLAVE_WORKER_STOPPED_PREVIOUS_THD_ERROR, ER_DONT_SUPPORT_SLAVE_PRESERVE_COMMIT_ORDER,
      ER_SERVER_OFFLINE_MODE, ER_GIS_DIFFERENT_SRIDS, ER_GIS_UNSUPPORTED_ARGUMENT, ER_GIS_UNKNOWN_ERROR,
      ER_GIS_UNKNOWN_EXCEPTION, ER_GIS_INVALID_DATA, ER_BOOST_GEOMETRY_EMPTY_INPUT_EXCEPTION,
      ER_BOOST_GEOMETRY_CENTROID_EXCEPTION, ER_BOOST_GEOMETRY_OVERLAY_INVALID_INPUT_EXCEPTION,
      ER_BOOST_GEOMETRY_TURN_INFO_EXCEPTION, ER_BOOST_GEOMETRY_SELF_INTERSECTION_POINT_EXCEPTION,
      ER_BOOST_GEOMETRY_UNKNOWN_EXCEPTION, ER_STD_BAD_ALLOC_ERROR, ER_STD_DOMAIN_ERROR,
      ER_STD_LENGTH_ERROR, ER_STD_INVALID_ARGUMENT, ER_STD_OUT_OF_RANGE_ERROR, ER_STD_OVERFLOW_ERROR,
      ER_STD_RANGE_ERROR, ER_STD_UNDERFLOW_ERROR, ER_STD_LOGIC_ERROR, ER_STD_RUNTIME_ERROR,
      ER_STD_UNKNOWN_EXCEPTION, ER_GIS_DATA_WRONG_ENDIANESS, ER_CHANGE_MASTER_PASSWORD_LENGTH,
      ER_USER_LOCK_WRONG_NAME, ER_USER_LOCK_DEADLOCK, ER_REPLACE_INACCESSIBLE_ROWS,
      ER_ALTER_OPERATION_NOT_SUPPORTED_REASON_GIS, ER_UNUSED_26, ER_UNUSED_27, ER_WITH_COL_WRONG_LIST,
      ER_TOO_MANY_DEFINITIONS_IN_WITH_CLAUSE, ER_DUP_QUERY_NAME]"

abbreviation ER_RECURSIVE_WITHOUT_ANCHORS :: int where "ER_RECURSIVE_WITHOUT_ANCHORS \<equiv> 4005"
abbreviation ER_UNACCEPTABLE_MUTUAL_RECURSION :: int where "ER_UNACCEPTABLE_MUTUAL_RECURSION \<equiv> 4006"
abbreviation ER_REF_TO_RECURSIVE_WITH_TABLE_IN_DERIVED :: int where "ER_REF_TO_RECURSIVE_WITH_TABLE_IN_DERIVED \<equiv> 4007"
abbreviation ER_NOT_STANDARD_COMPLIANT_RECURSIVE :: int where "ER_NOT_STANDARD_COMPLIANT_RECURSIVE \<equiv> 4008"
abbreviation ER_WRONG_WINDOW_SPEC_NAME :: int where "ER_WRONG_WINDOW_SPEC_NAME \<equiv> 4009"
abbreviation ER_DUP_WINDOW_NAME :: int where "ER_DUP_WINDOW_NAME \<equiv> 4010"
abbreviation ER_PARTITION_LIST_IN_REFERENCING_WINDOW_SPEC :: int where "ER_PARTITION_LIST_IN_REFERENCING_WINDOW_SPEC \<equiv> 4011"
abbreviation ER_ORDER_LIST_IN_REFERENCING_WINDOW_SPEC :: int where "ER_ORDER_LIST_IN_REFERENCING_WINDOW_SPEC \<equiv> 4012"
abbreviation ER_WINDOW_FRAME_IN_REFERENCED_WINDOW_SPEC :: int where "ER_WINDOW_FRAME_IN_REFERENCED_WINDOW_SPEC \<equiv> 4013"
abbreviation ER_BAD_COMBINATION_OF_WINDOW_FRAME_BOUND_SPECS :: int where "ER_BAD_COMBINATION_OF_WINDOW_FRAME_BOUND_SPECS \<equiv> 4014"
abbreviation ER_WRONG_PLACEMENT_OF_WINDOW_FUNCTION :: int where "ER_WRONG_PLACEMENT_OF_WINDOW_FUNCTION \<equiv> 4015"
abbreviation ER_WINDOW_FUNCTION_IN_WINDOW_SPEC :: int where "ER_WINDOW_FUNCTION_IN_WINDOW_SPEC \<equiv> 4016"
abbreviation ER_NOT_ALLOWED_WINDOW_FRAME :: int where "ER_NOT_ALLOWED_WINDOW_FRAME \<equiv> 4017"
abbreviation ER_NO_ORDER_LIST_IN_WINDOW_SPEC :: int where "ER_NO_ORDER_LIST_IN_WINDOW_SPEC \<equiv> 4018"
abbreviation ER_RANGE_FRAME_NEEDS_SIMPLE_ORDERBY :: int where "ER_RANGE_FRAME_NEEDS_SIMPLE_ORDERBY \<equiv> 4019"
abbreviation ER_WRONG_TYPE_FOR_ROWS_FRAME :: int where "ER_WRONG_TYPE_FOR_ROWS_FRAME \<equiv> 4020"
abbreviation ER_WRONG_TYPE_FOR_RANGE_FRAME :: int where "ER_WRONG_TYPE_FOR_RANGE_FRAME \<equiv> 4021"
abbreviation ER_FRAME_EXCLUSION_NOT_SUPPORTED :: int where "ER_FRAME_EXCLUSION_NOT_SUPPORTED \<equiv> 4022"
abbreviation ER_WINDOW_FUNCTION_DONT_HAVE_FRAME :: int where "ER_WINDOW_FUNCTION_DONT_HAVE_FRAME \<equiv> 4023"
abbreviation ER_INVALID_NTILE_ARGUMENT :: int where "ER_INVALID_NTILE_ARGUMENT \<equiv> 4024"
abbreviation ER_CONSTRAINT_FAILED :: int where "ER_CONSTRAINT_FAILED \<equiv> 4025"
abbreviation ER_EXPRESSION_IS_TOO_BIG :: int where "ER_EXPRESSION_IS_TOO_BIG \<equiv> 4026"
abbreviation ER_ERROR_EVALUATING_EXPRESSION :: int where "ER_ERROR_EVALUATING_EXPRESSION \<equiv> 4027"
abbreviation ER_CALCULATING_DEFAULT_VALUE :: int where "ER_CALCULATING_DEFAULT_VALUE \<equiv> 4028"
abbreviation ER_EXPRESSION_REFERS_TO_UNINIT_FIELD :: int where "ER_EXPRESSION_REFERS_TO_UNINIT_FIELD \<equiv> 4029"
abbreviation ER_PARTITION_DEFAULT_ERROR :: int where "ER_PARTITION_DEFAULT_ERROR \<equiv> 4030"
abbreviation ER_REFERENCED_TRG_DOES_NOT_EXIST :: int where "ER_REFERENCED_TRG_DOES_NOT_EXIST \<equiv> 4031"
abbreviation ER_INVALID_DEFAULT_PARAM :: int where "ER_INVALID_DEFAULT_PARAM \<equiv> 4032"
abbreviation ER_BINLOG_NON_SUPPORTED_BULK :: int where "ER_BINLOG_NON_SUPPORTED_BULK \<equiv> 4033"
abbreviation ER_BINLOG_UNCOMPRESS_ERROR :: int where "ER_BINLOG_UNCOMPRESS_ERROR \<equiv> 4034"
abbreviation ER_JSON_BAD_CHR :: int where "ER_JSON_BAD_CHR \<equiv> 4035"
abbreviation ER_JSON_NOT_JSON_CHR :: int where "ER_JSON_NOT_JSON_CHR \<equiv> 4036"
abbreviation ER_JSON_EOS :: int where "ER_JSON_EOS \<equiv> 4037"
abbreviation ER_JSON_SYNTAX :: int where "ER_JSON_SYNTAX \<equiv> 4038"
abbreviation ER_JSON_ESCAPING :: int where "ER_JSON_ESCAPING \<equiv> 4039"
abbreviation ER_JSON_DEPTH :: int where "ER_JSON_DEPTH \<equiv> 4040"
abbreviation ER_JSON_PATH_EOS :: int where "ER_JSON_PATH_EOS \<equiv> 4041"
abbreviation ER_JSON_PATH_SYNTAX :: int where "ER_JSON_PATH_SYNTAX \<equiv> 4042"
abbreviation ER_JSON_PATH_DEPTH :: int where "ER_JSON_PATH_DEPTH \<equiv> 4043"
abbreviation ER_JSON_PATH_NO_WILDCARD :: int where "ER_JSON_PATH_NO_WILDCARD \<equiv> 4044"
abbreviation ER_JSON_PATH_ARRAY :: int where "ER_JSON_PATH_ARRAY \<equiv> 4045"
abbreviation ER_JSON_ONE_OR_ALL :: int where "ER_JSON_ONE_OR_ALL \<equiv> 4046"
abbreviation ER_UNSUPPORTED_COMPRESSED_TABLE :: int where "ER_UNSUPPORTED_COMPRESSED_TABLE \<equiv> 4047"
abbreviation ER_GEOJSON_INCORRECT :: int where "ER_GEOJSON_INCORRECT \<equiv> 4048"
abbreviation ER_GEOJSON_TOO_FEW_POINTS :: int where "ER_GEOJSON_TOO_FEW_POINTS \<equiv> 4049"
abbreviation ER_GEOJSON_NOT_CLOSED :: int where "ER_GEOJSON_NOT_CLOSED \<equiv> 4050"
abbreviation ER_JSON_PATH_EMPTY :: int where "ER_JSON_PATH_EMPTY \<equiv> 4051"
abbreviation ER_SLAVE_SAME_ID :: int where "ER_SLAVE_SAME_ID \<equiv> 4052"
abbreviation ER_FLASHBACK_NOT_SUPPORTED :: int where "ER_FLASHBACK_NOT_SUPPORTED \<equiv> 4053"
abbreviation ER_KEYS_OUT_OF_ORDER :: int where "ER_KEYS_OUT_OF_ORDER \<equiv> 4054"
abbreviation ER_OVERLAPPING_KEYS :: int where "ER_OVERLAPPING_KEYS \<equiv> 4055"
abbreviation ER_REQUIRE_ROW_BINLOG_FORMAT :: int where "ER_REQUIRE_ROW_BINLOG_FORMAT \<equiv> 4056"
abbreviation ER_ISOLATION_MODE_NOT_SUPPORTED :: int where "ER_ISOLATION_MODE_NOT_SUPPORTED \<equiv> 4057"
abbreviation ER_ON_DUPLICATE_DISABLED :: int where "ER_ON_DUPLICATE_DISABLED \<equiv> 4058"
abbreviation ER_UPDATES_WITH_CONSISTENT_SNAPSHOT :: int where "ER_UPDATES_WITH_CONSISTENT_SNAPSHOT \<equiv> 4059"
abbreviation ER_ROLLBACK_ONLY :: int where "ER_ROLLBACK_ONLY \<equiv> 4060"
abbreviation ER_ROLLBACK_TO_SAVEPOINT :: int where "ER_ROLLBACK_TO_SAVEPOINT \<equiv> 4061"
abbreviation ER_ISOLATION_LEVEL_WITH_CONSISTENT_SNAPSHOT :: int where "ER_ISOLATION_LEVEL_WITH_CONSISTENT_SNAPSHOT \<equiv> 4062"
abbreviation ER_UNSUPPORTED_COLLATION :: int where "ER_UNSUPPORTED_COLLATION \<equiv> 4063"
abbreviation ER_METADATA_INCONSISTENCY :: int where "ER_METADATA_INCONSISTENCY \<equiv> 4064"
abbreviation ER_CF_DIFFERENT :: int where "ER_CF_DIFFERENT \<equiv> 4065"
abbreviation ER_RDB_TTL_DURATION_FORMAT :: int where "ER_RDB_TTL_DURATION_FORMAT \<equiv> 4066"
abbreviation ER_RDB_STATUS_GENERAL :: int where "ER_RDB_STATUS_GENERAL \<equiv> 4067"
abbreviation ER_RDB_STATUS_MSG :: int where "ER_RDB_STATUS_MSG \<equiv> 4068"
abbreviation ER_RDB_TTL_UNSUPPORTED :: int where "ER_RDB_TTL_UNSUPPORTED \<equiv> 4069"
abbreviation ER_RDB_TTL_COL_FORMAT :: int where "ER_RDB_TTL_COL_FORMAT \<equiv> 4070"
abbreviation ER_PER_INDEX_CF_DEPRECATED :: int where "ER_PER_INDEX_CF_DEPRECATED \<equiv> 4071"
abbreviation ER_KEY_CREATE_DURING_ALTER :: int where "ER_KEY_CREATE_DURING_ALTER \<equiv> 4072"
abbreviation ER_SK_POPULATE_DURING_ALTER :: int where "ER_SK_POPULATE_DURING_ALTER \<equiv> 4073"
abbreviation ER_SUM_FUNC_WITH_WINDOW_FUNC_AS_ARG :: int where "ER_SUM_FUNC_WITH_WINDOW_FUNC_AS_ARG \<equiv> 4074"
abbreviation ER_NET_OK_PACKET_TOO_LARGE :: int where "ER_NET_OK_PACKET_TOO_LARGE \<equiv> 4075"
abbreviation ER_GEOJSON_EMPTY_COORDINATES :: int where "ER_GEOJSON_EMPTY_COORDINATES \<equiv> 4076"
abbreviation ER_MYROCKS_CANT_NOPAD_COLLATION :: int where "ER_MYROCKS_CANT_NOPAD_COLLATION \<equiv> 4077"
abbreviation ER_ILLEGAL_PARAMETER_DATA_TYPES2_FOR_OPERATION :: int where "ER_ILLEGAL_PARAMETER_DATA_TYPES2_FOR_OPERATION \<equiv> 4078"
abbreviation ER_ILLEGAL_PARAMETER_DATA_TYPE_FOR_OPERATION :: int where "ER_ILLEGAL_PARAMETER_DATA_TYPE_FOR_OPERATION \<equiv> 4079"
abbreviation ER_WRONG_PARAMCOUNT_TO_CURSOR :: int where "ER_WRONG_PARAMCOUNT_TO_CURSOR \<equiv> 4080"
abbreviation ER_UNKNOWN_STRUCTURED_VARIABLE :: int where "ER_UNKNOWN_STRUCTURED_VARIABLE \<equiv> 4081"
abbreviation ER_ROW_VARIABLE_DOES_NOT_HAVE_FIELD :: int where "ER_ROW_VARIABLE_DOES_NOT_HAVE_FIELD \<equiv> 4082"
abbreviation ER_END_IDENTIFIER_DOES_NOT_MATCH :: int where "ER_END_IDENTIFIER_DOES_NOT_MATCH \<equiv> 4083"
abbreviation ER_SEQUENCE_RUN_OUT :: int where "ER_SEQUENCE_RUN_OUT \<equiv> 4084"
abbreviation ER_SEQUENCE_INVALID_DATA :: int where "ER_SEQUENCE_INVALID_DATA \<equiv> 4085"
abbreviation ER_SEQUENCE_INVALID_TABLE_STRUCTURE :: int where "ER_SEQUENCE_INVALID_TABLE_STRUCTURE \<equiv> 4086"
abbreviation ER_SEQUENCE_ACCESS_ERROR :: int where "ER_SEQUENCE_ACCESS_ERROR \<equiv> 4087"
abbreviation ER_SEQUENCE_BINLOG_FORMAT :: int where "ER_SEQUENCE_BINLOG_FORMAT \<equiv> 4088"
abbreviation ER_NOT_SEQUENCE :: int where "ER_NOT_SEQUENCE \<equiv> 4089"
abbreviation ER_NOT_SEQUENCE2 :: int where "ER_NOT_SEQUENCE2 \<equiv> 4090"
abbreviation ER_UNKNOWN_SEQUENCES :: int where "ER_UNKNOWN_SEQUENCES \<equiv> 4091"
abbreviation ER_UNKNOWN_VIEW :: int where "ER_UNKNOWN_VIEW \<equiv> 4092"
abbreviation ER_WRONG_INSERT_INTO_SEQUENCE :: int where "ER_WRONG_INSERT_INTO_SEQUENCE \<equiv> 4093"
abbreviation ER_SP_STACK_TRACE :: int where "ER_SP_STACK_TRACE \<equiv> 4094"
abbreviation ER_PACKAGE_ROUTINE_IN_SPEC_NOT_DEFINED_IN_BODY :: int where "ER_PACKAGE_ROUTINE_IN_SPEC_NOT_DEFINED_IN_BODY \<equiv> 4095"
abbreviation ER_PACKAGE_ROUTINE_FORWARD_DECLARATION_NOT_DEFINED :: int where "ER_PACKAGE_ROUTINE_FORWARD_DECLARATION_NOT_DEFINED \<equiv> 4096"
abbreviation ER_COMPRESSED_COLUMN_USED_AS_KEY :: int where "ER_COMPRESSED_COLUMN_USED_AS_KEY \<equiv> 4097"
abbreviation ER_UNKNOWN_COMPRESSION_METHOD :: int where "ER_UNKNOWN_COMPRESSION_METHOD \<equiv> 4098"
abbreviation ER_WRONG_NUMBER_OF_VALUES_IN_TVC :: int where "ER_WRONG_NUMBER_OF_VALUES_IN_TVC \<equiv> 4099"
abbreviation ER_FIELD_REFERENCE_IN_TVC :: int where "ER_FIELD_REFERENCE_IN_TVC \<equiv> 4100"
abbreviation ER_WRONG_TYPE_FOR_PERCENTILE_FUNC :: int where "ER_WRONG_TYPE_FOR_PERCENTILE_FUNC \<equiv> 4101"
abbreviation ER_ARGUMENT_NOT_CONSTANT :: int where "ER_ARGUMENT_NOT_CONSTANT \<equiv> 4102"
abbreviation ER_ARGUMENT_OUT_OF_RANGE :: int where "ER_ARGUMENT_OUT_OF_RANGE \<equiv> 4103"
abbreviation ER_WRONG_TYPE_OF_ARGUMENT :: int where "ER_WRONG_TYPE_OF_ARGUMENT \<equiv> 4104"
abbreviation ER_NOT_AGGREGATE_FUNCTION :: int where "ER_NOT_AGGREGATE_FUNCTION \<equiv> 4105"
abbreviation ER_INVALID_AGGREGATE_FUNCTION :: int where "ER_INVALID_AGGREGATE_FUNCTION \<equiv> 4106"
abbreviation ER_INVALID_VALUE_TO_LIMIT :: int where "ER_INVALID_VALUE_TO_LIMIT \<equiv> 4107"
abbreviation ER_INVISIBLE_NOT_NULL_WITHOUT_DEFAULT :: int where "ER_INVISIBLE_NOT_NULL_WITHOUT_DEFAULT \<equiv> 4108"
abbreviation ER_UPDATE_INFO_WITH_SYSTEM_VERSIONING :: int where "ER_UPDATE_INFO_WITH_SYSTEM_VERSIONING \<equiv> 4109"
abbreviation ER_VERS_FIELD_WRONG_TYPE :: int where "ER_VERS_FIELD_WRONG_TYPE \<equiv> 4110"
abbreviation ER_VERS_ENGINE_UNSUPPORTED :: int where "ER_VERS_ENGINE_UNSUPPORTED \<equiv> 4111"
abbreviation ER_UNUSED_23 :: int where "ER_UNUSED_23 \<equiv> 4112"
abbreviation ER_PARTITION_WRONG_TYPE :: int where "ER_PARTITION_WRONG_TYPE \<equiv> 4113"
abbreviation WARN_VERS_PART_FULL :: int where "WARN_VERS_PART_FULL \<equiv> 4114"
abbreviation WARN_VERS_PARAMETERS :: int where "WARN_VERS_PARAMETERS \<equiv> 4115"
abbreviation ER_VERS_DROP_PARTITION_INTERVAL :: int where "ER_VERS_DROP_PARTITION_INTERVAL \<equiv> 4116"
abbreviation ER_UNUSED_25 :: int where "ER_UNUSED_25 \<equiv> 4117"
abbreviation WARN_VERS_PART_NON_HISTORICAL :: int where "WARN_VERS_PART_NON_HISTORICAL \<equiv> 4118"
abbreviation ER_VERS_ALTER_NOT_ALLOWED :: int where "ER_VERS_ALTER_NOT_ALLOWED \<equiv> 4119"
abbreviation ER_VERS_ALTER_ENGINE_PROHIBITED :: int where "ER_VERS_ALTER_ENGINE_PROHIBITED \<equiv> 4120"
abbreviation ER_VERS_RANGE_PROHIBITED :: int where "ER_VERS_RANGE_PROHIBITED \<equiv> 4121"
abbreviation ER_CONFLICTING_FOR_SYSTEM_TIME :: int where "ER_CONFLICTING_FOR_SYSTEM_TIME \<equiv> 4122"
abbreviation ER_VERS_TABLE_MUST_HAVE_COLUMNS :: int where "ER_VERS_TABLE_MUST_HAVE_COLUMNS \<equiv> 4123"
abbreviation ER_VERS_NOT_VERSIONED :: int where "ER_VERS_NOT_VERSIONED \<equiv> 4124"
abbreviation ER_MISSING :: int where "ER_MISSING \<equiv> 4125"
abbreviation ER_VERS_PERIOD_COLUMNS :: int where "ER_VERS_PERIOD_COLUMNS \<equiv> 4126"
abbreviation ER_PART_WRONG_VALUE :: int where "ER_PART_WRONG_VALUE \<equiv> 4127"
abbreviation ER_VERS_WRONG_PARTS :: int where "ER_VERS_WRONG_PARTS \<equiv> 4128"
abbreviation ER_VERS_NO_TRX_ID :: int where "ER_VERS_NO_TRX_ID \<equiv> 4129"
abbreviation ER_VERS_ALTER_SYSTEM_FIELD :: int where "ER_VERS_ALTER_SYSTEM_FIELD \<equiv> 4130"
abbreviation ER_DROP_VERSIONING_SYSTEM_TIME_PARTITION :: int where "ER_DROP_VERSIONING_SYSTEM_TIME_PARTITION \<equiv> 4131"
abbreviation ER_VERS_DB_NOT_SUPPORTED :: int where "ER_VERS_DB_NOT_SUPPORTED \<equiv> 4132"
abbreviation ER_VERS_TRT_IS_DISABLED :: int where "ER_VERS_TRT_IS_DISABLED \<equiv> 4133"
abbreviation ER_VERS_DUPLICATE_ROW_START_END :: int where "ER_VERS_DUPLICATE_ROW_START_END \<equiv> 4134"
abbreviation ER_VERS_ALREADY_VERSIONED :: int where "ER_VERS_ALREADY_VERSIONED \<equiv> 4135"
abbreviation ER_UNUSED_24 :: int where "ER_UNUSED_24 \<equiv> 4136"
abbreviation ER_VERS_NOT_SUPPORTED :: int where "ER_VERS_NOT_SUPPORTED \<equiv> 4137"
abbreviation ER_VERS_TRX_PART_HISTORIC_ROW_NOT_SUPPORTED :: int where "ER_VERS_TRX_PART_HISTORIC_ROW_NOT_SUPPORTED \<equiv> 4138"
abbreviation ER_INDEX_FILE_FULL :: int where "ER_INDEX_FILE_FULL \<equiv> 4139"
abbreviation ER_UPDATED_COLUMN_ONLY_ONCE :: int where "ER_UPDATED_COLUMN_ONLY_ONCE \<equiv> 4140"
abbreviation ER_EMPTY_ROW_IN_TVC :: int where "ER_EMPTY_ROW_IN_TVC \<equiv> 4141"
abbreviation ER_VERS_QUERY_IN_PARTITION :: int where "ER_VERS_QUERY_IN_PARTITION \<equiv> 4142"
abbreviation ER_KEY_DOESNT_SUPPORT :: int where "ER_KEY_DOESNT_SUPPORT \<equiv> 4143"
abbreviation ER_ALTER_OPERATION_TABLE_OPTIONS_NEED_REBUILD :: int where "ER_ALTER_OPERATION_TABLE_OPTIONS_NEED_REBUILD \<equiv> 4144"
abbreviation ER_BACKUP_LOCK_IS_ACTIVE :: int where "ER_BACKUP_LOCK_IS_ACTIVE \<equiv> 4145"
abbreviation ER_BACKUP_NOT_RUNNING :: int where "ER_BACKUP_NOT_RUNNING \<equiv> 4146"
abbreviation ER_BACKUP_WRONG_STAGE :: int where "ER_BACKUP_WRONG_STAGE \<equiv> 4147"
abbreviation ER_BACKUP_STAGE_FAILED :: int where "ER_BACKUP_STAGE_FAILED \<equiv> 4148"
abbreviation ER_BACKUP_UNKNOWN_STAGE :: int where "ER_BACKUP_UNKNOWN_STAGE \<equiv> 4149"
abbreviation ER_USER_IS_BLOCKED :: int where "ER_USER_IS_BLOCKED \<equiv> 4150"
abbreviation ER_ACCOUNT_HAS_BEEN_LOCKED :: int where "ER_ACCOUNT_HAS_BEEN_LOCKED \<equiv> 4151"
abbreviation ER_PERIOD_TEMPORARY_NOT_ALLOWED :: int where "ER_PERIOD_TEMPORARY_NOT_ALLOWED \<equiv> 4152"
abbreviation ER_PERIOD_TYPES_MISMATCH :: int where "ER_PERIOD_TYPES_MISMATCH \<equiv> 4153"
abbreviation ER_MORE_THAN_ONE_PERIOD :: int where "ER_MORE_THAN_ONE_PERIOD \<equiv> 4154"

definition er_codes_8 :: "int list" where
  "er_codes_8 =
     [ER_RECURSIVE_WITHOUT_ANCHORS, ER_UNACCEPTABLE_MUTUAL_RECURSION,
      ER_REF_TO_RECURSIVE_WITH_TABLE_IN_DERIVED, ER_NOT_STANDARD_COMPLIANT_RECURSIVE,
      ER_WRONG_WINDOW_SPEC_NAME, ER_DUP_WINDOW_NAME, ER_PARTITION_LIST_IN_REFERENCING_WINDOW_SPEC,
      ER_ORDER_LIST_IN_REFERENCING_WINDOW_SPEC, ER_WINDOW_FRAME_IN_REFERENCED_WINDOW_SPEC,
      ER_BAD_COMBINATION_OF_WINDOW_FRAME_BOUND_SPECS, ER_WRONG_PLACEMENT_OF_WINDOW_FUNCTION,
      ER_WINDOW_FUNCTION_IN_WINDOW_SPEC, ER_NOT_ALLOWED_WINDOW_FRAME, ER_NO_ORDER_LIST_IN_WINDOW_SPEC,
      ER_RANGE_FRAME_NEEDS_SIMPLE_ORDERBY, ER_WRONG_TYPE_FOR_ROWS_FRAME, ER_WRONG_TYPE_FOR_RANGE_FRAME,
      ER_FRAME_EXCLUSION_NOT_SUPPORTED, ER_WINDOW_FUNCTION_DONT_HAVE_FRAME, ER_INVALID_NTILE_ARGUMENT,
      ER_CONSTRAINT_FAILED, ER_EXPRESSION_IS_TOO_BIG, ER_ERROR_EVALUATING_EXPRESSION,
      ER_CALCULATING_DEFAULT_VALUE, ER_EXPRESSION_REFERS_TO_UNINIT_FIELD, ER_PARTITION_DEFAULT_ERROR,
      ER_REFERENCED_TRG_DOES_NOT_EXIST, ER_INVALID_DEFAULT_PARAM, ER_BINLOG_NON_SUPPORTED_BULK,
      ER_BINLOG_UNCOMPRESS_ERROR, ER_JSON_BAD_CHR, ER_JSON_NOT_JSON_CHR, ER_JSON_EOS, ER_JSON_SYNTAX,
      ER_JSON_ESCAPING, ER_JSON_DEPTH, ER_JSON_PATH_EOS, ER_JSON_PATH_SYNTAX, ER_JSON_PATH_DEPTH,
      ER_JSON_PATH_NO_WILDCARD, ER_JSON_PATH_ARRAY, ER_JSON_ONE_OR_ALL, ER_UNSUPPORTED_COMPRESSED_TABLE,
      ER_GEOJSON_INCORRECT, ER_GEOJSON_TOO_FEW_POINTS, ER_GEOJSON_NOT_CLOSED, ER_JSON_PATH_EMPTY,
      ER_SLAVE_SAME_ID, ER_FLASHBACK_NOT_SUPPORTED, ER_KEYS_OUT_OF_ORDER, ER_OVERLAPPING_KEYS,
      ER_REQUIRE_ROW_BINLOG_FORMAT, ER_ISOLATION_MODE_NOT_SUPPORTED, ER_ON_DUPLICATE_DISABLED,
      ER_UPDATES_WITH_CONSISTENT_SNAPSHOT, ER_ROLLBACK_ONLY, ER_ROLLBACK_TO_SAVEPOINT,
      ER_ISOLATION_LEVEL_WITH_CONSISTENT_SNAPSHOT, ER_UNSUPPORTED_COLLATION, ER_METADATA_INCONSISTENCY,
      ER_CF_DIFFERENT, ER_RDB_TTL_DURATION_FORMAT, ER_RDB_STATUS_GENERAL, ER_RDB_STATUS_MSG,
      ER_RDB_TTL_UNSUPPORTED, ER_RDB_TTL_COL_FORMAT, ER_PER_INDEX_CF_DEPRECATED,
      ER_KEY_CREATE_DURING_ALTER, ER_SK_POPULATE_DURING_ALTER, ER_SUM_FUNC_WITH_WINDOW_FUNC_AS_ARG,
      ER_NET_OK_PACKET_TOO_LARGE, ER_GEOJSON_EMPTY_COORDINATES, ER_MYROCKS_CANT_NOPAD_COLLATION,
      ER_ILLEGAL_PARAMETER_DATA_TYPES2_FOR_OPERATION, ER_ILLEGAL_PARAMETER_DATA_TYPE_FOR_OPERATION,
      ER_WRONG_PARAMCOUNT_TO_CURSOR, ER_UNKNOWN_STRUCTURED_VARIABLE,
      ER_ROW_VARIABLE_DOES_NOT_HAVE_FIELD, ER_END_IDENTIFIER_DOES_NOT_MATCH, ER_SEQUENCE_RUN_OUT,
      ER_SEQUENCE_INVALID_DATA, ER_SEQUENCE_INVALID_TABLE_STRUCTURE, ER_SEQUENCE_ACCESS_ERROR,
      ER_SEQUENCE_BINLOG_FORMAT, ER_NOT_SEQUENCE, ER_NOT_SEQUENCE2, ER_UNKNOWN_SEQUENCES,
      ER_UNKNOWN_VIEW, ER_WRONG_INSERT_INTO_SEQUENCE, ER_SP_STACK_TRACE,
      ER_PACKAGE_ROUTINE_IN_SPEC_NOT_DEFINED_IN_BODY,
      ER_PACKAGE_ROUTINE_FORWARD_DECLARATION_NOT_DEFINED, ER_COMPRESSED_COLUMN_USED_AS_KEY,
      ER_UNKNOWN_COMPRESSION_METHOD, ER_WRONG_NUMBER_OF_VALUES_IN_TVC, ER_FIELD_REFERENCE_IN_TVC,
      ER_WRONG_TYPE_FOR_PERCENTILE_FUNC, ER_ARGUMENT_NOT_CONSTANT, ER_ARGUMENT_OUT_OF_RANGE,
      ER_WRONG_TYPE_OF_ARGUMENT, ER_NOT_AGGREGATE_FUNCTION, ER_INVALID_AGGREGATE_FUNCTION,
      ER_INVALID_VALUE_TO_LIMIT, ER_INVISIBLE_NOT_NULL_WITHOUT_DEFAULT,
      ER_UPDATE_INFO_WITH_SYSTEM_VERSIONING, ER_VERS_FIELD_WRONG_TYPE, ER_VERS_ENGINE_UNSUPPORTED,
      ER_UNUSED_23, ER_PARTITION_WRONG_TYPE, WARN_VERS_PART_FULL, WARN_VERS_PARAMETERS,
      ER_VERS_DROP_PARTITION_INTERVAL, ER_UNUSED_25, WARN_VERS_PART_NON_HISTORICAL,
      ER_VERS_ALTER_NOT_ALLOWED, ER_VERS_ALTER_ENGINE_PROHIBITED, ER_VERS_RANGE_PROHIBITED,
      ER_CONFLICTING_FOR_SYSTEM_TIME, ER_VERS_TABLE_MUST_HAVE_COLUMNS, ER_VERS_NOT_VERSIONED,
      ER_MISSING, ER_VERS_PERIOD_COLUMNS, ER_PART_WRONG_VALUE, ER_VERS_WRONG_PARTS, ER_VERS_NO_TRX_ID,
      ER_VERS_ALTER_SYSTEM_FIELD, ER_DROP_VERSIONING_SYSTEM_TIME_PARTITION, ER_VERS_DB_NOT_SUPPORTED,
      ER_VERS_TRT_IS_DISABLED, ER_VERS_DUPLICATE_ROW_START_END, ER_VERS_ALREADY_VERSIONED, ER_UNUSED_24,
      ER_VERS_NOT_SUPPORTED, ER_VERS_TRX_PART_HISTORIC_ROW_NOT_SUPPORTED, ER_INDEX_FILE_FULL,
      ER_UPDATED_COLUMN_ONLY_ONCE, ER_EMPTY_ROW_IN_TVC, ER_VERS_QUERY_IN_PARTITION,
      ER_KEY_DOESNT_SUPPORT, ER_ALTER_OPERATION_TABLE_OPTIONS_NEED_REBUILD, ER_BACKUP_LOCK_IS_ACTIVE,
      ER_BACKUP_NOT_RUNNING, ER_BACKUP_WRONG_STAGE, ER_BACKUP_STAGE_FAILED, ER_BACKUP_UNKNOWN_STAGE,
      ER_USER_IS_BLOCKED, ER_ACCOUNT_HAS_BEEN_LOCKED, ER_PERIOD_TEMPORARY_NOT_ALLOWED,
      ER_PERIOD_TYPES_MISMATCH, ER_MORE_THAN_ONE_PERIOD]"

abbreviation ER_PERIOD_FIELD_WRONG_ATTRIBUTES :: int where "ER_PERIOD_FIELD_WRONG_ATTRIBUTES \<equiv> 4155"
abbreviation ER_PERIOD_NOT_FOUND :: int where "ER_PERIOD_NOT_FOUND \<equiv> 4156"
abbreviation ER_PERIOD_COLUMNS_UPDATED :: int where "ER_PERIOD_COLUMNS_UPDATED \<equiv> 4157"
abbreviation ER_PERIOD_CONSTRAINT_DROP :: int where "ER_PERIOD_CONSTRAINT_DROP \<equiv> 4158"
abbreviation ER_TOO_LONG_KEYPART :: int where "ER_TOO_LONG_KEYPART \<equiv> 4159"
abbreviation ER_TOO_LONG_DATABASE_COMMENT :: int where "ER_TOO_LONG_DATABASE_COMMENT \<equiv> 4160"
abbreviation ER_UNKNOWN_DATA_TYPE :: int where "ER_UNKNOWN_DATA_TYPE \<equiv> 4161"
abbreviation ER_UNKNOWN_OPERATOR :: int where "ER_UNKNOWN_OPERATOR \<equiv> 4162"
abbreviation ER_WARN_HISTORY_ROW_START_TIME :: int where "ER_WARN_HISTORY_ROW_START_TIME \<equiv> 4163"
abbreviation ER_PART_STARTS_BEYOND_INTERVAL :: int where "ER_PART_STARTS_BEYOND_INTERVAL \<equiv> 4164"
abbreviation ER_GALERA_REPLICATION_NOT_SUPPORTED :: int where "ER_GALERA_REPLICATION_NOT_SUPPORTED \<equiv> 4165"
abbreviation ER_LOAD_INFILE_CAPABILITY_DISABLED :: int where "ER_LOAD_INFILE_CAPABILITY_DISABLED \<equiv> 4166"
abbreviation ER_NO_SECURE_TRANSPORTS_CONFIGURED :: int where "ER_NO_SECURE_TRANSPORTS_CONFIGURED \<equiv> 4167"
abbreviation ER_SLAVE_IGNORED_SHARED_TABLE :: int where "ER_SLAVE_IGNORED_SHARED_TABLE \<equiv> 4168"
abbreviation ER_NO_AUTOINCREMENT_WITH_UNIQUE :: int where "ER_NO_AUTOINCREMENT_WITH_UNIQUE \<equiv> 4169"
abbreviation ER_KEY_CONTAINS_PERIOD_FIELDS :: int where "ER_KEY_CONTAINS_PERIOD_FIELDS \<equiv> 4170"
abbreviation ER_KEY_CANT_HAVE_WITHOUT_OVERLAPS :: int where "ER_KEY_CANT_HAVE_WITHOUT_OVERLAPS \<equiv> 4171"
abbreviation ER_NOT_ALLOWED_IN_THIS_CONTEXT :: int where "ER_NOT_ALLOWED_IN_THIS_CONTEXT \<equiv> 4172"
abbreviation ER_DATA_WAS_COMMITED_UNDER_ROLLBACK :: int where "ER_DATA_WAS_COMMITED_UNDER_ROLLBACK \<equiv> 4173"
abbreviation ER_PK_INDEX_CANT_BE_IGNORED :: int where "ER_PK_INDEX_CANT_BE_IGNORED \<equiv> 4174"
abbreviation ER_BINLOG_UNSAFE_SKIP_LOCKED :: int where "ER_BINLOG_UNSAFE_SKIP_LOCKED \<equiv> 4175"
abbreviation ER_JSON_TABLE_ERROR_ON_FIELD :: int where "ER_JSON_TABLE_ERROR_ON_FIELD \<equiv> 4176"
abbreviation ER_JSON_TABLE_ALIAS_REQUIRED :: int where "ER_JSON_TABLE_ALIAS_REQUIRED \<equiv> 4177"
abbreviation ER_JSON_TABLE_SCALAR_EXPECTED :: int where "ER_JSON_TABLE_SCALAR_EXPECTED \<equiv> 4178"
abbreviation ER_JSON_TABLE_MULTIPLE_MATCHES :: int where "ER_JSON_TABLE_MULTIPLE_MATCHES \<equiv> 4179"
abbreviation ER_WITH_TIES_NEEDS_ORDER :: int where "ER_WITH_TIES_NEEDS_ORDER \<equiv> 4180"
abbreviation ER_REMOVED_ORPHAN_TRIGGER :: int where "ER_REMOVED_ORPHAN_TRIGGER \<equiv> 4181"
abbreviation ER_STORAGE_ENGINE_DISABLED :: int where "ER_STORAGE_ENGINE_DISABLED \<equiv> 4182"
abbreviation WARN_SFORMAT_ERROR :: int where "WARN_SFORMAT_ERROR \<equiv> 4183"
abbreviation ER_PARTITION_CONVERT_SUBPARTITIONED :: int where "ER_PARTITION_CONVERT_SUBPARTITIONED \<equiv> 4184"
abbreviation ER_PROVIDER_NOT_LOADED :: int where "ER_PROVIDER_NOT_LOADED \<equiv> 4185"
abbreviation ER_JSON_HISTOGRAM_PARSE_FAILED :: int where "ER_JSON_HISTOGRAM_PARSE_FAILED \<equiv> 4186"
abbreviation ER_SF_OUT_INOUT_ARG_NOT_ALLOWED :: int where "ER_SF_OUT_INOUT_ARG_NOT_ALLOWED \<equiv> 4187"
abbreviation ER_INCONSISTENT_SLAVE_TEMP_TABLE :: int where "ER_INCONSISTENT_SLAVE_TEMP_TABLE \<equiv> 4188"

definition er_codes_9 :: "int list" where
  "er_codes_9 =
     [ER_PERIOD_FIELD_WRONG_ATTRIBUTES, ER_PERIOD_NOT_FOUND, ER_PERIOD_COLUMNS_UPDATED,
      ER_PERIOD_CONSTRAINT_DROP, ER_TOO_LONG_KEYPART, ER_TOO_LONG_DATABASE_COMMENT,
      ER_UNKNOWN_DATA_TYPE, ER_UNKNOWN_OPERATOR, ER_WARN_HISTORY_ROW_START_TIME,
      ER_PART_STARTS_BEYOND_INTERVAL, ER_GALERA_REPLICATION_NOT_SUPPORTED,
      ER_LOAD_INFILE_CAPABILITY_DISABLED, ER_NO_SECURE_TRANSPORTS_CONFIGURED,
      ER_SLAVE_IGNORED_SHARED_TABLE, ER_NO_AUTOINCREMENT_WITH_UNIQUE, ER_KEY_CONTAINS_PERIOD_FIELDS,
      ER_KEY_CANT_HAVE_WITHOUT_OVERLAPS, ER_NOT_ALLOWED_IN_THIS_CONTEXT,
      ER_DATA_WAS_COMMITED_UNDER_ROLLBACK, ER_PK_INDEX_CANT_BE_IGNORED, ER_BINLOG_UNSAFE_SKIP_LOCKED,
      ER_JSON_TABLE_ERROR_ON_FIELD, ER_JSON_TABLE_ALIAS_REQUIRED, ER_JSON_TABLE_SCALAR_EXPECTED,
      ER_JSON_TABLE_MULTIPLE_MATCHES, ER_WITH_TIES_NEEDS_ORDER, ER_REMOVED_ORPHAN_TRIGGER,
      ER_STORAGE_ENGINE_DISABLED, WARN_SFORMAT_ERROR, ER_PARTITION_CONVERT_SUBPARTITIONED,
      ER_PROVIDER_NOT_LOADED, ER_JSON_HISTOGRAM_PARSE_FAILED, ER_SF_OUT_INOUT_ARG_NOT_ALLOWED,
      ER_INCONSISTENT_SLAVE_TEMP_TABLE]"

definition er_codes :: "int list" where
  "er_codes = er_codes_1 @ er_codes_2 @ er_codes_3 @ er_codes_4 @ er_codes_5 @ er_codes_6 @ er_codes_7 @ er_codes_8 @ er_codes_9"

section \<open>\<open>sql_state.h\<close> and \<open>handler_state.h\<close>\<close>

text \<open>Error name, ODBC state, JDBC state.\<close>

definition sql_state_1 :: "(int \<times> string \<times> string) list" where
  "sql_state_1 =
     [(ER_DUP_KEY, ''23000'', ''''),
      (ER_OUTOFMEMORY, ''HY001'', ''S1001''),
      (ER_OUT_OF_SORTMEMORY, ''HY001'', ''S1001''),
      (ER_CON_COUNT_ERROR, ''08004'', ''''),
      (ER_BAD_HOST_ERROR, ''08S01'', ''''),
      (ER_HANDSHAKE_ERROR, ''08S01'', ''''),
      (ER_DBACCESS_DENIED_ERROR, ''42000'', ''''),
      (ER_ACCESS_DENIED_ERROR, ''28000'', ''''),
      (ER_NO_DB_ERROR, ''3D000'', ''''),
      (ER_UNKNOWN_COM_ERROR, ''08S01'', ''''),
      (ER_BAD_NULL_ERROR, ''23000'', ''''),
      (ER_BAD_DB_ERROR, ''42000'', ''''),
      (ER_TABLE_EXISTS_ERROR, ''42S01'', ''''),
      (ER_BAD_TABLE_ERROR, ''42S02'', ''''),
      (ER_NON_UNIQ_ERROR, ''23000'', ''''),
      (ER_SERVER_SHUTDOWN, ''08S01'', ''''),
      (ER_BAD_FIELD_ERROR, ''42S22'', ''S0022''),
      (ER_WRONG_FIELD_WITH_GROUP, ''42000'', ''S1009''),
      (ER_WRONG_GROUP_FIELD, ''42000'', ''S1009''),
      (ER_WRONG_SUM_SELECT, ''42000'', ''S1009''),
      (ER_WRONG_VALUE_COUNT, ''21S01'', ''''),
      (ER_TOO_LONG_IDENT, ''42000'', ''S1009''),
      (ER_DUP_FIELDNAME, ''42S21'', ''S1009''),
      (ER_DUP_KEYNAME, ''42000'', ''S1009''),
      (ER_DUP_ENTRY, ''23000'', ''S1009''),
      (ER_WRONG_FIELD_SPEC, ''42000'', ''S1009''),
      (ER_PARSE_ERROR, ''42000'', ''s1009''),
      (ER_EMPTY_QUERY, ''42000'', ''''),
      (ER_NONUNIQ_TABLE, ''42000'', ''S1009''),
      (ER_INVALID_DEFAULT, ''42000'', ''S1009''),
      (ER_MULTIPLE_PRI_KEY, ''42000'', ''S1009''),
      (ER_TOO_MANY_KEYS, ''42000'', ''S1009''),
      (ER_TOO_MANY_KEY_PARTS, ''42000'', ''S1009''),
      (ER_TOO_LONG_KEY, ''42000'', ''S1009''),
      (ER_KEY_COLUMN_DOES_NOT_EXIST, ''42000'', ''S1009''),
      (ER_BLOB_USED_AS_KEY, ''42000'', ''S1009''),
      (ER_TOO_BIG_FIELDLENGTH, ''42000'', ''S1009''),
      (ER_WRONG_AUTO_KEY, ''42000'', ''S1009''),
      (ER_FORCING_CLOSE, ''08S01'', ''''),
      (ER_IPSOCK_ERROR, ''08S01'', ''''),
      (ER_NO_SUCH_INDEX, ''42S12'', ''S1009''),
      (ER_WRONG_FIELD_TERMINATORS, ''42000'', ''S1009''),
      (ER_BLOBS_AND_NO_TERMINATED, ''42000'', ''S1009''),
      (ER_CANT_REMOVE_ALL_FIELDS, ''42000'', ''''),
      (ER_CANT_DROP_FIELD_OR_KEY, ''42000'', ''''),
      (ER_WRONG_DB_NAME, ''42000'', ''''),
      (ER_WRONG_TABLE_NAME, ''42000'', ''''),
      (ER_TOO_BIG_SELECT, ''42000'', ''''),
      (ER_UNKNOWN_PROCEDURE, ''42000'', ''''),
      (ER_WRONG_PARAMCOUNT_TO_PROCEDURE, ''42000'', ''''),
      (ER_UNKNOWN_TABLE, ''42S02'', ''''),
      (ER_FIELD_SPECIFIED_TWICE, ''42000'', ''''),
      (ER_UNSUPPORTED_EXTENSION, ''42000'', ''''),
      (ER_TABLE_MUST_HAVE_COLUMNS, ''42000'', ''''),
      (ER_UNKNOWN_CHARACTER_SET, ''42000'', ''''),
      (ER_TOO_BIG_ROWSIZE, ''42000'', ''''),
      (ER_WRONG_OUTER_JOIN, ''42000'', ''''),
      (ER_NULL_COLUMN_IN_INDEX, ''42000'', ''''),
      (ER_PASSWORD_ANONYMOUS_USER, ''42000'', ''''),
      (ER_PASSWORD_NOT_ALLOWED, ''42000'', ''''),
      (ER_PASSWORD_NO_MATCH, ''28000'', ''''),
      (ER_WRONG_VALUE_COUNT_ON_ROW, ''21S01'', ''''),
      (ER_INVALID_USE_OF_NULL, ''22004'', ''''),
      (ER_REGEXP_ERROR, ''42000'', ''''),
      (ER_MIX_OF_GROUP_FUNC_AND_FIELDS, ''42000'', ''''),
      (ER_NONEXISTING_GRANT, ''42000'', ''''),
      (ER_TABLEACCESS_DENIED_ERROR, ''42000'', ''''),
      (ER_COLUMNACCESS_DENIED_ERROR, ''42000'', ''''),
      (ER_ILLEGAL_GRANT_FOR_TABLE, ''42000'', ''''),
      (ER_GRANT_WRONG_HOST_OR_USER, ''42000'', ''''),
      (ER_NO_SUCH_TABLE, ''42S02'', ''''),
      (ER_NONEXISTING_TABLE_GRANT, ''42000'', ''''),
      (ER_NOT_ALLOWED_COMMAND, ''42000'', ''''),
      (ER_SYNTAX_ERROR, ''42000'', ''''),
      (ER_ABORTING_CONNECTION, ''08S01'', ''''),
      (ER_NET_PACKET_TOO_LARGE, ''08S01'', ''''),
      (ER_NET_READ_ERROR_FROM_PIPE, ''08S01'', ''''),
      (ER_NET_FCNTL_ERROR, ''08S01'', ''''),
      (ER_NET_PACKETS_OUT_OF_ORDER, ''08S01'', ''''),
      (ER_NET_UNCOMPRESS_ERROR, ''08S01'', ''''),
      (ER_NET_READ_ERROR, ''08S01'', ''''),
      (ER_NET_READ_INTERRUPTED, ''08S01'', ''''),
      (ER_NET_ERROR_ON_WRITE, ''08S01'', ''''),
      (ER_NET_WRITE_INTERRUPTED, ''08S01'', ''''),
      (ER_TOO_LONG_STRING, ''42000'', ''''),
      (ER_TABLE_CANT_HANDLE_BLOB, ''42000'', ''''),
      (ER_TABLE_CANT_HANDLE_AUTO_INCREMENT, ''42000'', ''''),
      (ER_WRONG_COLUMN_NAME, ''42000'', ''''),
      (ER_WRONG_KEY_COLUMN, ''42000'', ''''),
      (ER_DUP_UNIQUE, ''23000'', ''''),
      (ER_BLOB_KEY_WITHOUT_LENGTH, ''42000'', ''''),
      (ER_PRIMARY_CANT_HAVE_NULL, ''42000'', ''''),
      (ER_TOO_MANY_ROWS, ''42000'', ''''),
      (ER_REQUIRES_PRIMARY_KEY, ''42000'', ''''),
      (ER_KEY_DOES_NOT_EXISTS, ''42000'', ''S1009''),
      (ER_CHECK_NO_SUCH_TABLE, ''42000'', ''''),
      (ER_CHECK_NOT_IMPLEMENTED, ''42000'', ''''),
      (ER_CANT_DO_THIS_DURING_AN_TRANSACTION, ''25000'', ''''),
      (ER_NEW_ABORTING_CONNECTION, ''08S01'', ''''),
      (ER_MASTER_NET_READ, ''08S01'', ''''),
      (ER_MASTER_NET_WRITE, ''08S01'', ''''),
      (ER_TOO_MANY_USER_CONNECTIONS, ''42000'', ''''),
      (ER_READ_ONLY_TRANSACTION, ''25000'', ''''),
      (ER_NO_PERMISSION_TO_CREATE_USER, ''42000'', ''''),
      (ER_LOCK_DEADLOCK, ''40001'', ''''),
      (ER_NO_REFERENCED_ROW, ''23000'', ''''),
      (ER_ROW_IS_REFERENCED, ''23000'', ''''),
      (ER_CONNECT_TO_MASTER, ''08S01'', ''''),
      (ER_WRONG_NUMBER_OF_COLUMNS_IN_SELECT, ''21000'', ''''),
      (ER_USER_LIMIT_REACHED, ''42000'', ''''),
      (ER_SPECIFIC_ACCESS_DENIED_ERROR, ''42000'', ''''),
      (ER_NO_DEFAULT, ''42000'', ''''),
      (ER_WRONG_VALUE_FOR_VAR, ''42000'', ''''),
      (ER_WRONG_TYPE_FOR_VAR, ''42000'', ''''),
      (ER_CANT_USE_OPTION_HERE, ''42000'', ''''),
      (ER_NOT_SUPPORTED_YET, ''42000'', ''''),
      (ER_WRONG_FK_DEF, ''42000'', ''''),
      (ER_OPERAND_COLUMNS, ''21000'', ''''),
      (ER_SUBQUERY_NO_1_ROW, ''21000'', ''''),
      (ER_ILLEGAL_REFERENCE, ''42S22'', ''''),
      (ER_DERIVED_MUST_HAVE_ALIAS, ''42000'', ''''),
      (ER_SELECT_REDUCED, ''01000'', ''''),
      (ER_TABLENAME_NOT_ALLOWED_HERE, ''42000'', ''''),
      (ER_NOT_SUPPORTED_AUTH_MODE, ''08004'', ''''),
      (ER_SPATIAL_CANT_HAVE_NULL, ''42000'', ''''),
      (ER_COLLATION_CHARSET_MISMATCH, ''42000'', '''')]"

definition sql_state_2 :: "(int \<times> string \<times> string) list" where
  "sql_state_2 =
     [(ER_WARN_TOO_FEW_RECORDS, ''01000'', ''''),
      (ER_WARN_TOO_MANY_RECORDS, ''01000'', ''''),
      (ER_WARN_NULL_TO_NOTNULL, ''22004'', ''''),
      (ER_WARN_DATA_OUT_OF_RANGE, ''22003'', ''''),
      (WARN_DATA_TRUNCATED, ''01000'', ''''),
      (ER_WRONG_NAME_FOR_INDEX, ''42000'', ''''),
      (ER_WRONG_NAME_FOR_CATALOG, ''42000'', ''''),
      (ER_UNKNOWN_STORAGE_ENGINE, ''42000'', ''''),
      (ER_TRUNCATED_WRONG_VALUE, ''22007'', ''''),
      (ER_SP_NO_RECURSIVE_CREATE, ''2F003'', ''''),
      (ER_SP_ALREADY_EXISTS, ''42000'', ''''),
      (ER_SP_DOES_NOT_EXIST, ''42000'', ''''),
      (ER_SP_LILABEL_MISMATCH, ''42000'', ''''),
      (ER_SP_LABEL_REDEFINE, ''42000'', ''''),
      (ER_SP_LABEL_MISMATCH, ''42000'', ''''),
      (ER_SP_UNINIT_VAR, ''01000'', ''''),
      (ER_SP_BADSELECT, ''0A000'', ''''),
      (ER_SP_BADRETURN, ''42000'', ''''),
      (ER_SP_BADSTATEMENT, ''0A000'', ''''),
      (ER_UPDATE_LOG_DEPRECATED_IGNORED, ''42000'', ''''),
      (ER_UPDATE_LOG_DEPRECATED_TRANSLATED, ''42000'', ''''),
      (ER_QUERY_INTERRUPTED, ''70100'', ''''),
      (ER_SP_WRONG_NO_OF_ARGS, ''42000'', ''''),
      (ER_SP_COND_MISMATCH, ''42000'', ''''),
      (ER_SP_NORETURN, ''42000'', ''''),
      (ER_SP_NORETURNEND, ''2F005'', ''''),
      (ER_SP_BAD_CURSOR_QUERY, ''42000'', ''''),
      (ER_SP_BAD_CURSOR_SELECT, ''42000'', ''''),
      (ER_SP_CURSOR_MISMATCH, ''42000'', ''''),
      (ER_SP_CURSOR_ALREADY_OPEN, ''24000'', ''''),
      (ER_SP_CURSOR_NOT_OPEN, ''24000'', ''''),
      (ER_SP_UNDECLARED_VAR, ''42000'', ''''),
      (ER_SP_FETCH_NO_DATA, ''02000'', ''''),
      (ER_SP_DUP_PARAM, ''42000'', ''''),
      (ER_SP_DUP_VAR, ''42000'', ''''),
      (ER_SP_DUP_COND, ''42000'', ''''),
      (ER_SP_DUP_CURS, ''42000'', ''''),
      (ER_SP_SUBSELECT_NYI, ''0A000'', ''''),
      (ER_STMT_NOT_ALLOWED_IN_SF_OR_TRG, ''0A000'', ''''),
      (ER_SP_VARCOND_AFTER_CURSHNDLR, ''42000'', ''''),
      (ER_SP_CURSOR_AFTER_HANDLER, ''42000'', ''''),
      (ER_SP_CASE_NOT_FOUND, ''20000'', ''''),
      (ER_DIVISION_BY_ZERO, ''22012'', ''''),
      (ER_TRUNCATED_WRONG_VALUE_FOR_FIELD, ''22007'', ''''),
      (ER_ILLEGAL_VALUE_FOR_TYPE, ''22007'', ''''),
      (ER_VIEW_CHECK_FAILED, ''44000'', ''''),
      (ER_PROCACCESS_DENIED_ERROR, ''42000'', ''''),
      (ER_XAER_NOTA, ''XAE04'', ''''),
      (ER_XAER_INVAL, ''XAE05'', ''''),
      (ER_XAER_RMFAIL, ''XAE07'', ''''),
      (ER_XAER_OUTSIDE, ''XAE09'', ''''),
      (ER_XAER_RMERR, ''XAE03'', ''''),
      (ER_XA_RBROLLBACK, ''XA100'', ''''),
      (ER_NONEXISTING_PROC_GRANT, ''42000'', ''''),
      (ER_DATA_TOO_LONG, ''22001'', ''''),
      (ER_SP_BAD_SQLSTATE, ''42000'', ''''),
      (ER_CANT_CREATE_USER_WITH_GRANT, ''42000'', ''''),
      (ER_SP_DUP_HANDLER, ''42000'', ''''),
      (ER_SP_NOT_VAR_ARG, ''42000'', ''''),
      (ER_SP_NO_RETSET, ''0A000'', ''''),
      (ER_CANT_CREATE_GEOMETRY_OBJECT, ''22003'', ''''),
      (ER_TOO_BIG_SCALE, ''42000'', ''S1009''),
      (ER_TOO_BIG_PRECISION, ''42000'', ''S1009''),
      (ER_M_BIGGER_THAN_D, ''42000'', ''S1009''),
      (ER_TOO_LONG_BODY, ''42000'', ''S1009''),
      (ER_TOO_BIG_DISPLAYWIDTH, ''42000'', ''S1009''),
      (ER_XAER_DUPID, ''XAE08'', ''''),
      (ER_DATETIME_FUNCTION_OVERFLOW, ''22008'', ''''),
      (ER_MALFORMED_DEFINER, ''0L000'', ''''),
      (ER_ROW_IS_REFERENCED_2, ''23000'', ''''),
      (ER_NO_REFERENCED_ROW_2, ''23000'', ''''),
      (ER_SP_BAD_VAR_SHADOW, ''42000'', ''''),
      (ER_SP_WRONG_NAME, ''42000'', ''''),
      (ER_SP_NO_AGGREGATE, ''42000'', ''''),
      (ER_MAX_PREPARED_STMT_COUNT_REACHED, ''42000'', ''''),
      (ER_NON_GROUPING_FIELD_USED, ''42000'', ''''),
      (ER_CANT_CHANGE_TX_CHARACTERISTICS, ''25001'', ''''),
      (ER_WRONG_PARAMCOUNT_TO_NATIVE_FCT, ''42000'', ''''),
      (ER_WRONG_PARAMETERS_TO_NATIVE_FCT, ''42000'', ''''),
      (ER_WRONG_PARAMETERS_TO_STORED_FCT, ''42000'', ''''),
      (ER_DUP_ENTRY_WITH_KEY_NAME, ''23000'', ''S1009''),
      (ER_XA_RBTIMEOUT, ''XA106'', ''''),
      (ER_XA_RBDEADLOCK, ''XA102'', ''''),
      (ER_FUNC_INEXISTENT_NAME_COLLISION, ''42000'', ''''),
      (ER_DUP_SIGNAL_SET, ''42000'', ''''),
      (ER_SIGNAL_WARN, ''01000'', ''''),
      (ER_SIGNAL_NOT_FOUND, ''02000'', ''''),
      (ER_SIGNAL_EXCEPTION, ''HY000'', ''''),
      (ER_RESIGNAL_WITHOUT_ACTIVE_HANDLER, ''0K000'', ''''),
      (ER_SPATIAL_MUST_HAVE_GEOM_COL, ''42000'', ''''),
      (ER_DATA_OUT_OF_RANGE, ''22003'', ''''),
      (ER_ACCESS_DENIED_NO_PASSWORD_ERROR, ''28000'', ''''),
      (ER_TRUNCATE_ILLEGAL_FK, ''42000'', ''''),
      (ER_DA_INVALID_CONDITION_NUMBER, ''35000'', ''''),
      (ER_FOREIGN_DUPLICATE_KEY_WITH_CHILD_INFO, ''23000'', ''S1009''),
      (ER_FOREIGN_DUPLICATE_KEY_WITHOUT_CHILD_INFO, ''23000'', ''S1009''),
      (ER_CANT_EXECUTE_IN_READ_ONLY_TRANSACTION, ''25006'', ''''),
      (ER_ALTER_OPERATION_NOT_SUPPORTED, ''0A000'', ''''),
      (ER_ALTER_OPERATION_NOT_SUPPORTED_REASON, ''0A000'', ''''),
      (ER_DUP_UNKNOWN_IN_INDEX, ''23000'', ''''),
      (ER_ACCESS_DENIED_CHANGE_USER_ERROR, ''28000'', ''''),
      (ER_DATA_OVERFLOW, ''22003'', ''''),
      (ER_DATA_TRUNCATED, ''22003'', ''''),
      (ER_BAD_DATA, ''22007'', ''''),
      (ER_DYN_COL_DATA, ''22007'', ''''),
      (ER_CONNECTION_KILLED, ''70100'', ''''),
      (ER_NO_SUCH_TABLE_IN_ENGINE, ''42S02'', ''''),
      (ER_INVALID_ROLE, ''OP000'', ''''),
      (ER_INVALID_CURRENT_USER, ''0L000'', ''''),
      (ER_IT_IS_A_VIEW, ''42S02'', ''''),
      (ER_STATEMENT_TIMEOUT, ''70100'', ''''),
      (ER_SUBQUERIES_NOT_SUPPORTED, ''42000'', ''''),
      (ER_SET_STATEMENT_NOT_SUPPORTED, ''42000'', ''''),
      (ER_INVALID_DEFAULT_VALUE_FOR_FIELD, ''22007'', ''''),
      (ER_GET_STACKED_DA_WITHOUT_ACTIVE_HANDLER, ''0Z002'', ''''),
      (ER_INVALID_ARGUMENT_FOR_LOGARITHM, ''2201E'', ''''),
      (ER_GIS_INVALID_DATA, ''22023'', ''''),
      (ER_USER_LOCK_WRONG_NAME, ''42000'', ''''),
      (ER_UNUSED_26, ''0A000'', ''''),
      (ER_CONSTRAINT_FAILED, ''23000'', ''''),
      (ER_EXPRESSION_REFERS_TO_UNINIT_FIELD, ''01000'', ''''),
      (ER_WRONG_PARAMCOUNT_TO_CURSOR, ''42000'', ''''),
      (ER_NOT_SEQUENCE, ''42S02'', ''''),
      (ER_NOT_SEQUENCE2, ''42S02'', ''''),
      (ER_UNKNOWN_SEQUENCES, ''42S02'', ''''),
      (ER_UNKNOWN_VIEW, ''42S02'', ''''),
      (ER_TOO_LONG_KEYPART, ''42000'', ''S1009'')]"

definition sql_state :: "(int \<times> string \<times> string) list" where
  "sql_state = sql_state_1 @ sql_state_2"

abbreviation HA_ERR_KEY_NOT_FOUND :: int where "HA_ERR_KEY_NOT_FOUND \<equiv> 120"
abbreviation HA_ERR_FOUND_DUPP_KEY :: int where "HA_ERR_FOUND_DUPP_KEY \<equiv> 121"
abbreviation HA_ERR_INTERNAL_ERROR :: int where "HA_ERR_INTERNAL_ERROR \<equiv> 122"
abbreviation HA_ERR_RECORD_CHANGED :: int where "HA_ERR_RECORD_CHANGED \<equiv> 123"
abbreviation HA_ERR_WRONG_INDEX :: int where "HA_ERR_WRONG_INDEX \<equiv> 124"
abbreviation HA_ERR_CRASHED :: int where "HA_ERR_CRASHED \<equiv> 126"
abbreviation HA_ERR_WRONG_IN_RECORD :: int where "HA_ERR_WRONG_IN_RECORD \<equiv> 127"
abbreviation HA_ERR_OUT_OF_MEM :: int where "HA_ERR_OUT_OF_MEM \<equiv> 128"
abbreviation HA_ERR_NOT_A_TABLE :: int where "HA_ERR_NOT_A_TABLE \<equiv> 130"
abbreviation HA_ERR_WRONG_COMMAND :: int where "HA_ERR_WRONG_COMMAND \<equiv> 131"
abbreviation HA_ERR_OLD_FILE :: int where "HA_ERR_OLD_FILE \<equiv> 132"
abbreviation HA_ERR_NO_ACTIVE_RECORD :: int where "HA_ERR_NO_ACTIVE_RECORD \<equiv> 133"
abbreviation HA_ERR_RECORD_DELETED :: int where "HA_ERR_RECORD_DELETED \<equiv> 134"
abbreviation HA_ERR_RECORD_FILE_FULL :: int where "HA_ERR_RECORD_FILE_FULL \<equiv> 135"
abbreviation HA_ERR_INDEX_FILE_FULL :: int where "HA_ERR_INDEX_FILE_FULL \<equiv> 136"
abbreviation HA_ERR_END_OF_FILE :: int where "HA_ERR_END_OF_FILE \<equiv> 137"
abbreviation HA_ERR_UNSUPPORTED :: int where "HA_ERR_UNSUPPORTED \<equiv> 138"
abbreviation HA_ERR_TO_BIG_ROW :: int where "HA_ERR_TO_BIG_ROW \<equiv> 139"
abbreviation HA_WRONG_CREATE_OPTION :: int where "HA_WRONG_CREATE_OPTION \<equiv> 140"
abbreviation HA_ERR_FOUND_DUPP_UNIQUE :: int where "HA_ERR_FOUND_DUPP_UNIQUE \<equiv> 141"
abbreviation HA_ERR_UNKNOWN_CHARSET :: int where "HA_ERR_UNKNOWN_CHARSET \<equiv> 142"
abbreviation HA_ERR_WRONG_MRG_TABLE_DEF :: int where "HA_ERR_WRONG_MRG_TABLE_DEF \<equiv> 143"
abbreviation HA_ERR_CRASHED_ON_REPAIR :: int where "HA_ERR_CRASHED_ON_REPAIR \<equiv> 144"
abbreviation HA_ERR_CRASHED_ON_USAGE :: int where "HA_ERR_CRASHED_ON_USAGE \<equiv> 145"
abbreviation HA_ERR_LOCK_WAIT_TIMEOUT :: int where "HA_ERR_LOCK_WAIT_TIMEOUT \<equiv> 146"
abbreviation HA_ERR_LOCK_TABLE_FULL :: int where "HA_ERR_LOCK_TABLE_FULL \<equiv> 147"
abbreviation HA_ERR_READ_ONLY_TRANSACTION :: int where "HA_ERR_READ_ONLY_TRANSACTION \<equiv> 148"
abbreviation HA_ERR_LOCK_DEADLOCK :: int where "HA_ERR_LOCK_DEADLOCK \<equiv> 149"
abbreviation HA_ERR_CANNOT_ADD_FOREIGN :: int where "HA_ERR_CANNOT_ADD_FOREIGN \<equiv> 150"
abbreviation HA_ERR_NO_REFERENCED_ROW :: int where "HA_ERR_NO_REFERENCED_ROW \<equiv> 151"
abbreviation HA_ERR_ROW_IS_REFERENCED :: int where "HA_ERR_ROW_IS_REFERENCED \<equiv> 152"
abbreviation HA_ERR_NO_SAVEPOINT :: int where "HA_ERR_NO_SAVEPOINT \<equiv> 153"
abbreviation HA_ERR_NON_UNIQUE_BLOCK_SIZE :: int where "HA_ERR_NON_UNIQUE_BLOCK_SIZE \<equiv> 154"
abbreviation HA_ERR_NO_SUCH_TABLE :: int where "HA_ERR_NO_SUCH_TABLE \<equiv> 155"
abbreviation HA_ERR_TABLE_EXIST :: int where "HA_ERR_TABLE_EXIST \<equiv> 156"
abbreviation HA_ERR_NO_CONNECTION :: int where "HA_ERR_NO_CONNECTION \<equiv> 157"
abbreviation HA_ERR_NULL_IN_SPATIAL :: int where "HA_ERR_NULL_IN_SPATIAL \<equiv> 158"
abbreviation HA_ERR_TABLE_DEF_CHANGED :: int where "HA_ERR_TABLE_DEF_CHANGED \<equiv> 159"
abbreviation HA_ERR_NO_PARTITION_FOUND :: int where "HA_ERR_NO_PARTITION_FOUND \<equiv> 160"
abbreviation HA_ERR_RBR_LOGGING_FAILED :: int where "HA_ERR_RBR_LOGGING_FAILED \<equiv> 161"
abbreviation HA_ERR_DROP_INDEX_FK :: int where "HA_ERR_DROP_INDEX_FK \<equiv> 162"
abbreviation HA_ERR_FOREIGN_DUPLICATE_KEY :: int where "HA_ERR_FOREIGN_DUPLICATE_KEY \<equiv> 163"
abbreviation HA_ERR_TABLE_NEEDS_UPGRADE :: int where "HA_ERR_TABLE_NEEDS_UPGRADE \<equiv> 164"
abbreviation HA_ERR_TABLE_READONLY :: int where "HA_ERR_TABLE_READONLY \<equiv> 165"
abbreviation HA_ERR_AUTOINC_READ_FAILED :: int where "HA_ERR_AUTOINC_READ_FAILED \<equiv> 166"
abbreviation HA_ERR_AUTOINC_ERANGE :: int where "HA_ERR_AUTOINC_ERANGE \<equiv> 167"
abbreviation HA_ERR_GENERIC :: int where "HA_ERR_GENERIC \<equiv> 168"
abbreviation HA_ERR_RECORD_IS_THE_SAME :: int where "HA_ERR_RECORD_IS_THE_SAME \<equiv> 169"
abbreviation HA_ERR_LOGGING_IMPOSSIBLE :: int where "HA_ERR_LOGGING_IMPOSSIBLE \<equiv> 170"
abbreviation HA_ERR_CORRUPT_EVENT :: int where "HA_ERR_CORRUPT_EVENT \<equiv> 171"
abbreviation HA_ERR_NEW_FILE :: int where "HA_ERR_NEW_FILE \<equiv> 172"
abbreviation HA_ERR_ROWS_EVENT_APPLY :: int where "HA_ERR_ROWS_EVENT_APPLY \<equiv> 173"
abbreviation HA_ERR_INITIALIZATION :: int where "HA_ERR_INITIALIZATION \<equiv> 174"
abbreviation HA_ERR_FILE_TOO_SHORT :: int where "HA_ERR_FILE_TOO_SHORT \<equiv> 175"
abbreviation HA_ERR_WRONG_CRC :: int where "HA_ERR_WRONG_CRC \<equiv> 176"
abbreviation HA_ERR_TOO_MANY_CONCURRENT_TRXS :: int where "HA_ERR_TOO_MANY_CONCURRENT_TRXS \<equiv> 177"
abbreviation HA_ERR_NOT_IN_LOCK_PARTITIONS :: int where "HA_ERR_NOT_IN_LOCK_PARTITIONS \<equiv> 178"
abbreviation HA_ERR_INDEX_COL_TOO_LONG :: int where "HA_ERR_INDEX_COL_TOO_LONG \<equiv> 179"
abbreviation HA_ERR_INDEX_CORRUPT :: int where "HA_ERR_INDEX_CORRUPT \<equiv> 180"
abbreviation HA_ERR_UNDO_REC_TOO_BIG :: int where "HA_ERR_UNDO_REC_TOO_BIG \<equiv> 181"
abbreviation HA_ERR_TABLESPACE_EXISTS :: int where "HA_ERR_TABLESPACE_EXISTS \<equiv> 184"
abbreviation HA_ERR_TOO_MANY_FIELDS :: int where "HA_ERR_TOO_MANY_FIELDS \<equiv> 185"
abbreviation HA_ERR_ROW_IN_WRONG_PARTITION :: int where "HA_ERR_ROW_IN_WRONG_PARTITION \<equiv> 186"
abbreviation HA_ERR_ROW_NOT_VISIBLE :: int where "HA_ERR_ROW_NOT_VISIBLE \<equiv> 187"
abbreviation HA_ERR_ABORTED_BY_USER :: int where "HA_ERR_ABORTED_BY_USER \<equiv> 188"
abbreviation HA_ERR_DISK_FULL :: int where "HA_ERR_DISK_FULL \<equiv> 189"
abbreviation HA_ERR_INCOMPATIBLE_DEFINITION :: int where "HA_ERR_INCOMPATIBLE_DEFINITION \<equiv> 190"
abbreviation HA_ERR_FTS_TOO_MANY_WORDS_IN_PHRASE :: int where "HA_ERR_FTS_TOO_MANY_WORDS_IN_PHRASE \<equiv> 191"
abbreviation HA_ERR_DECRYPTION_FAILED :: int where "HA_ERR_DECRYPTION_FAILED \<equiv> 192"
abbreviation HA_ERR_FK_DEPTH_EXCEEDED :: int where "HA_ERR_FK_DEPTH_EXCEEDED \<equiv> 193"
abbreviation HA_ERR_TABLESPACE_MISSING :: int where "HA_ERR_TABLESPACE_MISSING \<equiv> 194"
abbreviation HA_ERR_SEQUENCE_INVALID_DATA :: int where "HA_ERR_SEQUENCE_INVALID_DATA \<equiv> 195"
abbreviation HA_ERR_SEQUENCE_RUN_OUT :: int where "HA_ERR_SEQUENCE_RUN_OUT \<equiv> 196"
abbreviation HA_ERR_COMMIT_ERROR :: int where "HA_ERR_COMMIT_ERROR \<equiv> 197"
abbreviation HA_ERR_PARTITION_LIST :: int where "HA_ERR_PARTITION_LIST \<equiv> 198"

definition ha_errors :: "int list" where
  "ha_errors =
     [HA_ERR_KEY_NOT_FOUND, HA_ERR_FOUND_DUPP_KEY, HA_ERR_INTERNAL_ERROR, HA_ERR_RECORD_CHANGED,
      HA_ERR_WRONG_INDEX, HA_ERR_CRASHED, HA_ERR_WRONG_IN_RECORD, HA_ERR_OUT_OF_MEM, HA_ERR_NOT_A_TABLE,
      HA_ERR_WRONG_COMMAND, HA_ERR_OLD_FILE, HA_ERR_NO_ACTIVE_RECORD, HA_ERR_RECORD_DELETED,
      HA_ERR_RECORD_FILE_FULL, HA_ERR_INDEX_FILE_FULL, HA_ERR_END_OF_FILE, HA_ERR_UNSUPPORTED,
      HA_ERR_TO_BIG_ROW, HA_WRONG_CREATE_OPTION, HA_ERR_FOUND_DUPP_UNIQUE, HA_ERR_UNKNOWN_CHARSET,
      HA_ERR_WRONG_MRG_TABLE_DEF, HA_ERR_CRASHED_ON_REPAIR, HA_ERR_CRASHED_ON_USAGE,
      HA_ERR_LOCK_WAIT_TIMEOUT, HA_ERR_LOCK_TABLE_FULL, HA_ERR_READ_ONLY_TRANSACTION,
      HA_ERR_LOCK_DEADLOCK, HA_ERR_CANNOT_ADD_FOREIGN, HA_ERR_NO_REFERENCED_ROW,
      HA_ERR_ROW_IS_REFERENCED, HA_ERR_NO_SAVEPOINT, HA_ERR_NON_UNIQUE_BLOCK_SIZE, HA_ERR_NO_SUCH_TABLE,
      HA_ERR_TABLE_EXIST, HA_ERR_NO_CONNECTION, HA_ERR_NULL_IN_SPATIAL, HA_ERR_TABLE_DEF_CHANGED,
      HA_ERR_NO_PARTITION_FOUND, HA_ERR_RBR_LOGGING_FAILED, HA_ERR_DROP_INDEX_FK,
      HA_ERR_FOREIGN_DUPLICATE_KEY, HA_ERR_TABLE_NEEDS_UPGRADE, HA_ERR_TABLE_READONLY,
      HA_ERR_AUTOINC_READ_FAILED, HA_ERR_AUTOINC_ERANGE, HA_ERR_GENERIC, HA_ERR_RECORD_IS_THE_SAME,
      HA_ERR_LOGGING_IMPOSSIBLE, HA_ERR_CORRUPT_EVENT, HA_ERR_NEW_FILE, HA_ERR_ROWS_EVENT_APPLY,
      HA_ERR_INITIALIZATION, HA_ERR_FILE_TOO_SHORT, HA_ERR_WRONG_CRC, HA_ERR_TOO_MANY_CONCURRENT_TRXS,
      HA_ERR_NOT_IN_LOCK_PARTITIONS, HA_ERR_INDEX_COL_TOO_LONG, HA_ERR_INDEX_CORRUPT,
      HA_ERR_UNDO_REC_TOO_BIG, HA_ERR_TABLESPACE_EXISTS, HA_ERR_TOO_MANY_FIELDS,
      HA_ERR_ROW_IN_WRONG_PARTITION, HA_ERR_ROW_NOT_VISIBLE, HA_ERR_ABORTED_BY_USER, HA_ERR_DISK_FULL,
      HA_ERR_INCOMPATIBLE_DEFINITION, HA_ERR_FTS_TOO_MANY_WORDS_IN_PHRASE, HA_ERR_DECRYPTION_FAILED,
      HA_ERR_FK_DEPTH_EXCEEDED, HA_ERR_TABLESPACE_MISSING, HA_ERR_SEQUENCE_INVALID_DATA,
      HA_ERR_SEQUENCE_RUN_OUT, HA_ERR_COMMIT_ERROR, HA_ERR_PARTITION_LIST]"

definition handler_state :: "(int \<times> string \<times> string) list" where
  "handler_state =
     [(HA_ERR_KEY_NOT_FOUND, ''02000'', ''''),
      (HA_ERR_FOUND_DUPP_KEY, ''23000'', ''''),
      (HA_ERR_WRONG_COMMAND, ''0A000'', ''''),
      (HA_ERR_UNSUPPORTED, ''0A000'', ''''),
      (HA_WRONG_CREATE_OPTION, ''0A000'', ''''),
      (HA_ERR_FOUND_DUPP_UNIQUE, ''23000'', ''''),
      (HA_ERR_UNKNOWN_CHARSET, ''0A000'', ''''),
      (HA_ERR_READ_ONLY_TRANSACTION, ''25000'', ''''),
      (HA_ERR_LOCK_DEADLOCK, ''40001'', ''''),
      (HA_ERR_NO_REFERENCED_ROW, ''23000'', ''''),
      (HA_ERR_ROW_IS_REFERENCED, ''23000'', ''''),
      (HA_ERR_TABLE_EXIST, ''42S01'', ''''),
      (HA_ERR_FOREIGN_DUPLICATE_KEY, ''23000'', ''''),
      (HA_ERR_TABLE_READONLY, ''25000'', ''''),
      (HA_ERR_AUTOINC_ERANGE, ''22003'', '''')]"

section \<open>\<open>errmsg.h\<close>\<close>

definition CR_MIN_ERROR :: int where
  "CR_MIN_ERROR = 2000"

definition CR_MAX_ERROR :: int where
  "CR_MAX_ERROR = 2999"

definition CR_ERROR_FIRST :: int where
  "CR_ERROR_FIRST = 2000"

definition CR_ERROR_LAST :: int where
  "CR_ERROR_LAST = 2061"

abbreviation CR_UNKNOWN_ERROR :: int where "CR_UNKNOWN_ERROR \<equiv> 2000"
abbreviation CR_SOCKET_CREATE_ERROR :: int where "CR_SOCKET_CREATE_ERROR \<equiv> 2001"
abbreviation CR_CONNECTION_ERROR :: int where "CR_CONNECTION_ERROR \<equiv> 2002"
abbreviation CR_CONN_HOST_ERROR :: int where "CR_CONN_HOST_ERROR \<equiv> 2003"
abbreviation CR_IPSOCK_ERROR :: int where "CR_IPSOCK_ERROR \<equiv> 2004"
abbreviation CR_UNKNOWN_HOST :: int where "CR_UNKNOWN_HOST \<equiv> 2005"
abbreviation CR_SERVER_GONE_ERROR :: int where "CR_SERVER_GONE_ERROR \<equiv> 2006"
abbreviation CR_VERSION_ERROR :: int where "CR_VERSION_ERROR \<equiv> 2007"
abbreviation CR_OUT_OF_MEMORY :: int where "CR_OUT_OF_MEMORY \<equiv> 2008"
abbreviation CR_WRONG_HOST_INFO :: int where "CR_WRONG_HOST_INFO \<equiv> 2009"
abbreviation CR_LOCALHOST_CONNECTION :: int where "CR_LOCALHOST_CONNECTION \<equiv> 2010"
abbreviation CR_TCP_CONNECTION :: int where "CR_TCP_CONNECTION \<equiv> 2011"
abbreviation CR_SERVER_HANDSHAKE_ERR :: int where "CR_SERVER_HANDSHAKE_ERR \<equiv> 2012"
abbreviation CR_SERVER_LOST :: int where "CR_SERVER_LOST \<equiv> 2013"
abbreviation CR_COMMANDS_OUT_OF_SYNC :: int where "CR_COMMANDS_OUT_OF_SYNC \<equiv> 2014"
abbreviation CR_NAMEDPIPE_CONNECTION :: int where "CR_NAMEDPIPE_CONNECTION \<equiv> 2015"
abbreviation CR_NAMEDPIPEWAIT_ERROR :: int where "CR_NAMEDPIPEWAIT_ERROR \<equiv> 2016"
abbreviation CR_NAMEDPIPEOPEN_ERROR :: int where "CR_NAMEDPIPEOPEN_ERROR \<equiv> 2017"
abbreviation CR_NAMEDPIPESETSTATE_ERROR :: int where "CR_NAMEDPIPESETSTATE_ERROR \<equiv> 2018"
abbreviation CR_CANT_READ_CHARSET :: int where "CR_CANT_READ_CHARSET \<equiv> 2019"
abbreviation CR_NET_PACKET_TOO_LARGE :: int where "CR_NET_PACKET_TOO_LARGE \<equiv> 2020"
abbreviation CR_EMBEDDED_CONNECTION :: int where "CR_EMBEDDED_CONNECTION \<equiv> 2021"
abbreviation CR_PROBE_SLAVE_STATUS :: int where "CR_PROBE_SLAVE_STATUS \<equiv> 2022"
abbreviation CR_PROBE_SLAVE_HOSTS :: int where "CR_PROBE_SLAVE_HOSTS \<equiv> 2023"
abbreviation CR_PROBE_SLAVE_CONNECT :: int where "CR_PROBE_SLAVE_CONNECT \<equiv> 2024"
abbreviation CR_PROBE_MASTER_CONNECT :: int where "CR_PROBE_MASTER_CONNECT \<equiv> 2025"
abbreviation CR_SSL_CONNECTION_ERROR :: int where "CR_SSL_CONNECTION_ERROR \<equiv> 2026"
abbreviation CR_MALFORMED_PACKET :: int where "CR_MALFORMED_PACKET \<equiv> 2027"
abbreviation CR_WRONG_LICENSE :: int where "CR_WRONG_LICENSE \<equiv> 2028"
abbreviation CR_NULL_POINTER :: int where "CR_NULL_POINTER \<equiv> 2029"
abbreviation CR_NO_PREPARE_STMT :: int where "CR_NO_PREPARE_STMT \<equiv> 2030"
abbreviation CR_PARAMS_NOT_BOUND :: int where "CR_PARAMS_NOT_BOUND \<equiv> 2031"
abbreviation CR_DATA_TRUNCATED :: int where "CR_DATA_TRUNCATED \<equiv> 2032"
abbreviation CR_NO_PARAMETERS_EXISTS :: int where "CR_NO_PARAMETERS_EXISTS \<equiv> 2033"
abbreviation CR_INVALID_PARAMETER_NO :: int where "CR_INVALID_PARAMETER_NO \<equiv> 2034"
abbreviation CR_INVALID_BUFFER_USE :: int where "CR_INVALID_BUFFER_USE \<equiv> 2035"
abbreviation CR_UNSUPPORTED_PARAM_TYPE :: int where "CR_UNSUPPORTED_PARAM_TYPE \<equiv> 2036"
abbreviation CR_SHARED_MEMORY_CONNECTION :: int where "CR_SHARED_MEMORY_CONNECTION \<equiv> 2037"
abbreviation CR_SHARED_MEMORY_CONNECT_REQUEST_ERROR :: int where "CR_SHARED_MEMORY_CONNECT_REQUEST_ERROR \<equiv> 2038"
abbreviation CR_SHARED_MEMORY_CONNECT_ANSWER_ERROR :: int where "CR_SHARED_MEMORY_CONNECT_ANSWER_ERROR \<equiv> 2039"
abbreviation CR_SHARED_MEMORY_CONNECT_FILE_MAP_ERROR :: int where "CR_SHARED_MEMORY_CONNECT_FILE_MAP_ERROR \<equiv> 2040"
abbreviation CR_SHARED_MEMORY_CONNECT_MAP_ERROR :: int where "CR_SHARED_MEMORY_CONNECT_MAP_ERROR \<equiv> 2041"
abbreviation CR_SHARED_MEMORY_FILE_MAP_ERROR :: int where "CR_SHARED_MEMORY_FILE_MAP_ERROR \<equiv> 2042"
abbreviation CR_SHARED_MEMORY_MAP_ERROR :: int where "CR_SHARED_MEMORY_MAP_ERROR \<equiv> 2043"
abbreviation CR_SHARED_MEMORY_EVENT_ERROR :: int where "CR_SHARED_MEMORY_EVENT_ERROR \<equiv> 2044"
abbreviation CR_SHARED_MEMORY_CONNECT_ABANDONED_ERROR :: int where "CR_SHARED_MEMORY_CONNECT_ABANDONED_ERROR \<equiv> 2045"
abbreviation CR_SHARED_MEMORY_CONNECT_SET_ERROR :: int where "CR_SHARED_MEMORY_CONNECT_SET_ERROR \<equiv> 2046"
abbreviation CR_CONN_UNKNOW_PROTOCOL :: int where "CR_CONN_UNKNOW_PROTOCOL \<equiv> 2047"
abbreviation CR_INVALID_CONN_HANDLE :: int where "CR_INVALID_CONN_HANDLE \<equiv> 2048"
abbreviation CR_SECURE_AUTH :: int where "CR_SECURE_AUTH \<equiv> 2049"
abbreviation CR_FETCH_CANCELED :: int where "CR_FETCH_CANCELED \<equiv> 2050"
abbreviation CR_NO_DATA :: int where "CR_NO_DATA \<equiv> 2051"
abbreviation CR_NO_STMT_METADATA :: int where "CR_NO_STMT_METADATA \<equiv> 2052"
abbreviation CR_NO_RESULT_SET :: int where "CR_NO_RESULT_SET \<equiv> 2053"
abbreviation CR_NOT_IMPLEMENTED :: int where "CR_NOT_IMPLEMENTED \<equiv> 2054"
abbreviation CR_SERVER_LOST_EXTENDED :: int where "CR_SERVER_LOST_EXTENDED \<equiv> 2055"
abbreviation CR_STMT_CLOSED :: int where "CR_STMT_CLOSED \<equiv> 2056"
abbreviation CR_NEW_STMT_METADATA :: int where "CR_NEW_STMT_METADATA \<equiv> 2057"
abbreviation CR_ALREADY_CONNECTED :: int where "CR_ALREADY_CONNECTED \<equiv> 2058"
abbreviation CR_AUTH_PLUGIN_CANNOT_LOAD :: int where "CR_AUTH_PLUGIN_CANNOT_LOAD \<equiv> 2059"
abbreviation CR_DUPLICATE_CONNECTION_ATTR :: int where "CR_DUPLICATE_CONNECTION_ATTR \<equiv> 2060"
abbreviation CR_AUTH_PLUGIN_ERR :: int where "CR_AUTH_PLUGIN_ERR \<equiv> 2061"

definition cr_codes :: "int list" where
  "cr_codes =
     [CR_UNKNOWN_ERROR, CR_SOCKET_CREATE_ERROR, CR_CONNECTION_ERROR, CR_CONN_HOST_ERROR,
      CR_IPSOCK_ERROR, CR_UNKNOWN_HOST, CR_SERVER_GONE_ERROR, CR_VERSION_ERROR, CR_OUT_OF_MEMORY,
      CR_WRONG_HOST_INFO, CR_LOCALHOST_CONNECTION, CR_TCP_CONNECTION, CR_SERVER_HANDSHAKE_ERR,
      CR_SERVER_LOST, CR_COMMANDS_OUT_OF_SYNC, CR_NAMEDPIPE_CONNECTION, CR_NAMEDPIPEWAIT_ERROR,
      CR_NAMEDPIPEOPEN_ERROR, CR_NAMEDPIPESETSTATE_ERROR, CR_CANT_READ_CHARSET, CR_NET_PACKET_TOO_LARGE,
      CR_EMBEDDED_CONNECTION, CR_PROBE_SLAVE_STATUS, CR_PROBE_SLAVE_HOSTS, CR_PROBE_SLAVE_CONNECT,
      CR_PROBE_MASTER_CONNECT, CR_SSL_CONNECTION_ERROR, CR_MALFORMED_PACKET, CR_WRONG_LICENSE,
      CR_NULL_POINTER, CR_NO_PREPARE_STMT, CR_PARAMS_NOT_BOUND, CR_DATA_TRUNCATED,
      CR_NO_PARAMETERS_EXISTS, CR_INVALID_PARAMETER_NO, CR_INVALID_BUFFER_USE,
      CR_UNSUPPORTED_PARAM_TYPE, CR_SHARED_MEMORY_CONNECTION, CR_SHARED_MEMORY_CONNECT_REQUEST_ERROR,
      CR_SHARED_MEMORY_CONNECT_ANSWER_ERROR, CR_SHARED_MEMORY_CONNECT_FILE_MAP_ERROR,
      CR_SHARED_MEMORY_CONNECT_MAP_ERROR, CR_SHARED_MEMORY_FILE_MAP_ERROR, CR_SHARED_MEMORY_MAP_ERROR,
      CR_SHARED_MEMORY_EVENT_ERROR, CR_SHARED_MEMORY_CONNECT_ABANDONED_ERROR,
      CR_SHARED_MEMORY_CONNECT_SET_ERROR, CR_CONN_UNKNOW_PROTOCOL, CR_INVALID_CONN_HANDLE,
      CR_SECURE_AUTH, CR_FETCH_CANCELED, CR_NO_DATA, CR_NO_STMT_METADATA, CR_NO_RESULT_SET,
      CR_NOT_IMPLEMENTED, CR_SERVER_LOST_EXTENDED, CR_STMT_CLOSED, CR_NEW_STMT_METADATA,
      CR_ALREADY_CONNECTED, CR_AUTH_PLUGIN_CANNOT_LOAD, CR_DUPLICATE_CONNECTION_ATTR,
      CR_AUTH_PLUGIN_ERR]"

text \<open>The message of an error; \<open>client_errors\<close> is the library's array of texts, and reading it out of range is undefined.\<close>

definition ER :: "string list \<Rightarrow> int \<Rightarrow> string option" where
  "ER client_errors X =
     (let i = (if CR_ERROR_FIRST \<le> X \<and> X \<le> CR_ERROR_LAST then X - CR_ERROR_FIRST
               else CR_UNKNOWN_ERROR - CR_ERROR_FIRST)
      in if 0 \<le> i \<and> nat i < length client_errors then Some (client_errors ! nat i) else None)"

section \<open>Order and form of the tables\<close>

fun ascending :: "int list \<Rightarrow> bool" where
  "ascending (x # y # zs) \<longleftrightarrow> x < y \<and> ascending (y # zs)"
| "ascending _ \<longleftrightarrow> True"

lemma ascending_sorted: "ascending xs \<longleftrightarrow> sorted_wrt (<) xs"
  by (induction xs rule: ascending.induct) (auto intro: less_trans)

definition state_char :: "char \<Rightarrow> bool" where
  "state_char c \<longleftrightarrow> c \<in> set ''0123456789ABCDEFGHIJKLMNOPQRSTUVWXYZ''"

definition state_ok :: "string \<Rightarrow> bool" where
  "state_ok s \<longleftrightarrow> length s = 5 \<and> list_all state_char s"

lemma states_ascending: "ascending (map fst (handler_state @ sql_state))"
  by code_simp

text \<open>
  In the SQLSTATE map, the handler errors followed by the server errors, the error
  numbers increase strictly, as the bisection over it requires (\<open>this list MUST be in
  increasing order\<close>); so no error has two states.
\<close>

theorem sqlstate_map_increasing: "sorted_wrt (<) (map fst (handler_state @ sql_state))"
  using states_ascending by (simp only: ascending_sorted)

lemma er_ascending: "ascending er_codes"
  by code_simp

lemma er_range: "list_all (\<lambda>c. 1000 \<le> c \<and> c \<le> 4188 \<and> (c < 2000 \<or> 2999 < c)) er_codes"
  by code_simp

lemma cr_codes_upt: "cr_codes = [CR_ERROR_FIRST..CR_ERROR_LAST]"
  by code_simp

text \<open>
  No two server errors share a number, the numbers lie between the first and last
  marker, and none lies in the range of the client library, whose numbers are exactly
  2000 to 2061 without gaps.
\<close>

theorem error_numbers_disjoint:
  "sorted_wrt (<) er_codes \<and>
   list_all (\<lambda>c. 1000 \<le> c \<and> c \<le> 4188 \<and> (c < CR_MIN_ERROR \<or> CR_MAX_ERROR < c)) er_codes \<and>
   cr_codes = [CR_ERROR_FIRST..CR_ERROR_LAST]"
  using er_ascending er_range cr_codes_upt unfolding ascending_sorted CR_MIN_ERROR_def CR_MAX_ERROR_def by (intro conjI)

text \<open>
  With the library's 62 messages, the macro \<open>ER\<close> never reads outside the array: a
  client error gets its own message and every other number the message of the unknown error.
\<close>

theorem ER_in_bounds:
  assumes "length client_errors = 62"
  shows "ER client_errors X =
    Some (client_errors ! (if 2000 \<le> X \<and> X \<le> 2061 then nat (X - 2000) else 0))"
  using assms by (auto simp: ER_def CR_ERROR_FIRST_def CR_ERROR_LAST_def Let_def)

theorem ER_in_bounds_witness:
  "ER (replicate 62 ''x'') 2061 = Some ''x'' \<and> ER (replicate 62 ''x'') 5 = Some ''x''"
  using ER_in_bounds [of "replicate 62 ''x''" 2061] ER_in_bounds [of "replicate 62 ''x''" 5] by simp

lemma odbc_states_ok: "list_all (\<lambda>(n, s, j). state_ok s) (handler_state @ sql_state)"
  by code_simp

lemma jdbc_states_ok:
  "list_all (\<lambda>(n, s, j). j = [] \<or> state_ok j \<or> n = ER_PARSE_ERROR \<and> j = ''s1009'') (handler_state @ sql_state)"
  by code_simp

text \<open>
  Every SQLSTATE is five digits or upper-case letters, and so is every JDBC state
  that is given, except that of \<open>ER_PARSE_ERROR\<close>, which is written in lower case.
\<close>

theorem sqlstates_well_formed:
  "list_all (\<lambda>(n, s, j). state_ok s \<and> (j = [] \<or> state_ok j \<or> n = ER_PARSE_ERROR \<and> j = ''s1009''))
     (handler_state @ sql_state)"
  using odbc_states_ok jdbc_states_ok unfolding list_all_iff by blast

end
