(* ===== verification/FilesortBuffer.thy ===== *)
theory FilesortBuffer
  imports MemRootArray
begin

text \<open>
  The sort buffer of \<open>filesort_utils.h\<close>: one block of memory with the records to be sorted at its
  start and an array of pointers to them that grows down from its end. Addresses are numbers;
  the entries of the pointer array are a map from their index, which the code counts downwards
  from 0, to the address stored there (a pointer takes 8 bytes). Allocation is defined outside
  the sources: \<open>allocated\<close> states the layout the header documents for it.
\<close>

section \<open>The buffer\<close>

record filesort_buffer =
  m_next_rec_ptr :: nat
  m_rawmem :: nat
  m_record_pointers :: nat
  pointer_at :: "int \<Rightarrow> nat"
  m_sort_keys :: "int option"
  m_num_records :: u32
  m_record_length :: u32
  m_sort_length :: u32
  m_size_in_bytes :: u64
  m_idx :: int

definition Filesort_buffer0 :: "(int \<Rightarrow> nat) \<Rightarrow> filesort_buffer" where
  "Filesort_buffer0 ptrs =
     \<lparr>m_next_rec_ptr = 0, m_rawmem = 0, m_record_pointers = 0, pointer_at = ptrs, m_sort_keys = None, m_num_records = 0,
      m_record_length = 0, m_sort_length = 0, m_size_in_bytes = 0, m_idx = 0\<rparr>"

definition init_next_record_pointer :: "filesort_buffer \<Rightarrow> filesort_buffer" where
  "init_next_record_pointer b = b\<lparr>m_idx := 0, m_next_rec_ptr := m_rawmem b, m_sort_keys := None\<rparr>"

definition get_next_record_pointer :: "filesort_buffer \<Rightarrow> nat \<times> filesort_buffer" where
  "get_next_record_pointer b =
     (let retval = m_next_rec_ptr b;
          b = b\<lparr>pointer_at := (pointer_at b)(- m_idx b := m_next_rec_ptr b)\<rparr>;
          b = b\<lparr>m_idx := m_idx b + 1\<rparr>
      in (retval, b\<lparr>m_next_rec_ptr := m_next_rec_ptr b + unat (m_record_length b)\<rparr>))"

text \<open>The difference is a \<open>uint\<close>; moving the pointer below the start of the buffer is undefined.\<close>

definition adjust_next_record_pointer :: "u32 \<Rightarrow> filesort_buffer \<Rightarrow> filesort_buffer option" where
  "adjust_next_record_pointer val b =
     (let d = unat (m_record_length b - val)
      in if m_rawmem b + d \<le> m_next_rec_ptr b then Some (b\<lparr>m_next_rec_ptr := m_next_rec_ptr b - d\<rparr>) else None)"

definition space_used_for_data :: "filesort_buffer \<Rightarrow> u64" where
  "space_used_for_data b = (if m_next_rec_ptr b \<noteq> 0 then of_nat (m_next_rec_ptr b - m_rawmem b) else 0)"

definition spaceleft :: "filesort_buffer \<Rightarrow> u64 option" where
  "spaceleft b =
     (if m_rawmem b \<le> m_next_rec_ptr b
      then let spaceused = of_nat (m_next_rec_ptr b - m_rawmem b) + word_of_int (m_idx b) * 8
           in Some (m_size_in_bytes b - spaceused)
      else None)"

definition isfull :: "filesort_buffer \<Rightarrow> bool option" where
  "isfull b =
     (if m_idx b < uint (m_num_records b) then Some False
      else map_option (\<lambda>left. left < ucast (m_record_length b) + 8) (spaceleft b))"

text \<open>The sort keys are the pointer array seen from its lowest entry in use; the result is that entry's index.\<close>

definition get_sort_keys :: "filesort_buffer \<Rightarrow> int option" where
  "get_sort_keys b = (if m_idx b = 0 then None else Some (1 - m_idx b))"

definition get_sorted_record :: "nat \<Rightarrow> filesort_buffer \<Rightarrow> nat option" where
  "get_sorted_record ix b = map_option (\<lambda>keys. pointer_at b (keys + int ix)) (m_sort_keys b)"

function reverse_loop :: "int \<Rightarrow> int \<Rightarrow> int \<Rightarrow> (int \<Rightarrow> nat) \<Rightarrow> int \<Rightarrow> nat" where
  "reverse_loop keys cnt ix ptr =
     (if ix \<le> cnt div 2
      then let tmp = ptr (keys + (cnt - ix));
               ptr = ptr(keys + (cnt - ix) := ptr (keys + ix));
               ptr = ptr(keys + ix := tmp)
           in reverse_loop keys cnt (ix + 1) ptr
      else ptr)"
  by pat_completeness auto
termination by (relation "measure (\<lambda>(keys, cnt, ix, ptr). nat (cnt div 2 + 1 - ix))") auto

declare reverse_loop.simps [simp del]

definition reverse_record_pointers :: "filesort_buffer \<Rightarrow> filesort_buffer" where
  "reverse_record_pointers b =
     (if m_idx b < 2 then b
      else case get_sort_keys b of
             None \<Rightarrow> b
           | Some keys \<Rightarrow> b\<lparr>pointer_at := reverse_loop keys (m_idx b - 1) 0 (pointer_at b)\<rparr>)"

function pointers_loop :: "filesort_buffer \<Rightarrow> filesort_buffer" where
  "pointers_loop b = (if m_idx b < uint (m_num_records b) then pointers_loop (snd (get_next_record_pointer b)) else b)"
  by pat_completeness auto
termination by (relation "measure (\<lambda>b. nat (uint (m_num_records b) - m_idx b))") (auto simp: get_next_record_pointer_def)

declare pointers_loop.simps [simp del]

definition init_record_pointers :: "filesort_buffer \<Rightarrow> filesort_buffer" where
  "init_record_pointers b = reverse_record_pointers (pointers_loop (init_next_record_pointer b))"

definition is_allocated :: "filesort_buffer \<Rightarrow> bool" where
  "is_allocated b \<longleftrightarrow> m_rawmem b \<noteq> 0"

definition fb_reset :: "filesort_buffer \<Rightarrow> filesort_buffer" where
  "fb_reset b = b\<lparr>m_rawmem := 0\<rparr>"

definition sort_buffer_size :: "filesort_buffer \<Rightarrow> u64" where
  "sort_buffer_size b = m_size_in_bytes b"

definition get_raw_buf :: "filesort_buffer \<Rightarrow> bca" where
  "get_raw_buf b = Bounds_checked_array2 (if m_rawmem b = 0 then None else Some (m_rawmem b)) (unat (m_size_in_bytes b))"

section \<open>Filling the buffer\<close>

text \<open>
  The documented layout after \<open>alloc_sort_buffer(num_records, record_length)\<close>: the size is that of
  the records and of as many pointers, and the last pointer of the block is entry 0.
\<close>

definition allocated :: "filesort_buffer \<Rightarrow> bool" where
  "allocated b \<longleftrightarrow>
     unat (m_size_in_bytes b) = unat (m_num_records b) * (unat (m_record_length b) + 8) \<and>
     m_record_pointers b + 8 = m_rawmem b + unat (m_size_in_bytes b)"

text \<open>
  How the buffer is filled: for each record, as long as the buffer is not full, a pointer for the
  longest possible record is taken, then given back down to the length the record turned out to
  have. \<open>None\<close> when a record has to wait (the buffer is full) or an assertion fails.
\<close>

definition add_record :: "u32 \<Rightarrow> filesort_buffer \<Rightarrow> filesort_buffer option" where
  "add_record len b =
     (if isfull b = Some False then adjust_next_record_pointer len (snd (get_next_record_pointer b)) else None)"

fun add_records :: "u32 list \<Rightarrow> filesort_buffer \<Rightarrow> filesort_buffer option" where
  "add_records [] b = Some b"
| "add_records (len # lens) b = (case add_record len b of None \<Rightarrow> None | Some b' \<Rightarrow> add_records lens b')"

abbreviation total_len :: "u32 list \<Rightarrow> nat" where
  "total_len lens \<equiv> sum_list (map unat lens)"

definition starts :: "nat \<Rightarrow> u32 list \<Rightarrow> nat list" where
  "starts raw lens = map (\<lambda>i. raw + total_len (take i lens)) [0..<length lens]"

definition fb_inv :: "filesort_buffer \<Rightarrow> u32 list \<Rightarrow> bool" where
  "fb_inv b lens \<longleftrightarrow>
     allocated b \<and> m_idx b = int (length lens) \<and> list_all (\<lambda>l. l \<le> m_record_length b) lens \<and>
     m_next_rec_ptr b = m_rawmem b + total_len lens \<and>
     total_len lens + 8 * length lens \<le> unat (m_size_in_bytes b) \<and>
     map (\<lambda>i. pointer_at b (- int i)) [0..<length lens] = starts (m_rawmem b) lens"

lemma starts_snoc: "starts raw (lens @ [l]) = starts raw lens @ [raw + total_len lens]"
  by (simp add: starts_def)

lemma total_len_le: "list_all (\<lambda>l. l \<le> r) lens \<Longrightarrow> total_len lens \<le> length lens * unat r"
  by (induction lens) (auto simp: word_le_nat_alt)

lemma fb_inv_init: "allocated b \<Longrightarrow> fb_inv (init_next_record_pointer b) []"
  by (simp add: fb_inv_def init_next_record_pointer_def allocated_def starts_def)

lemma spaceleft_exact:
  assumes "fb_inv b lens"
  shows "spaceleft b = Some (of_nat (unat (m_size_in_bytes b) - (total_len lens + 8 * length lens)))"
proof -
  have "total_len lens + 8 * length lens \<le> unat (m_size_in_bytes b)" using assms by (simp add: fb_inv_def)
  then have "(of_nat (unat (m_size_in_bytes b) - (total_len lens + 8 * length lens)) :: u64) =
      m_size_in_bytes b - (of_nat (total_len lens) + of_nat (length lens) * 8)"
    by (simp add: of_nat_diff)
  then show ?thesis using assms by (simp add: spaceleft_def fb_inv_def)
qed

lemma isfull_iff:
  assumes "fb_inv b lens"
  shows "isfull b = Some (unat (m_num_records b) \<le> length lens \<and>
    unat (m_size_in_bytes b) < total_len lens + 8 * length lens + (unat (m_record_length b) + 8))"
proof -
  let ?free = "unat (m_size_in_bytes b) - (total_len lens + 8 * length lens)"
  have "unat (of_nat ?free :: u64) = ?free"
    using unat_less_exp [of "m_size_in_bytes b"] by (simp add: unat_of_nat take_bit_nat_eq_self)
  moreover have "unat (ucast (m_record_length b) + 8 :: u64) = unat (m_record_length b) + 8"
    using unat_less_exp [of "m_record_length b"] by (simp add: unat_word_ariths unsigned_ucast_eq take_bit_nat_eq_self)
  ultimately have "(of_nat ?free :: u64) < ucast (m_record_length b) + 8 \<longleftrightarrow> ?free < unat (m_record_length b) + 8"
    by (simp add: word_less_nat_alt)
  moreover have "int (unat (m_num_records b)) = uint (m_num_records b)" by simp
  then have "m_idx b < uint (m_num_records b) \<longleftrightarrow> length lens < unat (m_num_records b)"
    using assms unfolding fb_inv_def by linarith
  ultimately show ?thesis using assms spaceleft_exact [OF assms] by (auto simp: isfull_def fb_inv_def)
qed

text \<open>Room is guaranteed for the announced number of records, whatever their lengths.\<close>

lemma room:
  assumes "fb_inv b lens" and "isfull b = Some False"
  shows "total_len lens + unat (m_record_length b) + 8 * (length lens + 1) \<le> unat (m_size_in_bytes b)"
proof (cases "unat (m_num_records b) \<le> length lens")
  case True
  then show ?thesis using assms isfull_iff [OF assms(1)] by simp
next
  case False
  let ?r = "unat (m_record_length b)"
  have "total_len lens + ?r + 8 * (length lens + 1) \<le> length lens * ?r + ?r + 8 * (length lens + 1)"
    using assms(1) total_len_le [of "m_record_length b" lens] by (simp add: fb_inv_def)
  also have "\<dots> = (length lens + 1) * (?r + 8)" by (simp add: algebra_simps)
  also have "\<dots> \<le> unat (m_num_records b) * (?r + 8)" using False by (intro mult_le_mono1) simp
  finally show ?thesis using assms(1) by (simp add: fb_inv_def allocated_def)
qed

lemma add_record_inv:
  assumes "fb_inv b lens" and "len \<le> m_record_length b" and "isfull b = Some False"
  shows "\<exists>b'. add_record len b = Some b' \<and> fb_inv b' (lens @ [len]) \<and> m_record_length b' = m_record_length b \<and>
    m_num_records b' = m_num_records b \<and> m_rawmem b' = m_rawmem b \<and> m_size_in_bytes b' = m_size_in_bytes b"
proof -
  let ?r = "m_record_length b"
  let ?d = "unat (?r - len)"
  have d: "?d = unat ?r - unat len" using assms(2) by (simp add: unat_sub)
  have le: "unat len \<le> unat ?r" using assms(2) by (simp add: word_le_nat_alt)
  define b' where "b' = b\<lparr>pointer_at := (pointer_at b)(- m_idx b := m_next_rec_ptr b), m_idx := m_idx b + 1,
    m_next_rec_ptr := m_next_rec_ptr b + unat ?r - ?d\<rparr>"
  have inv: "m_idx b = int (length lens)" "m_next_rec_ptr b = m_rawmem b + total_len lens"
    "map (\<lambda>i. pointer_at b (- int i)) [0..<length lens] = starts (m_rawmem b) lens"
    using assms(1) by (auto simp: fb_inv_def)
  have "add_record len b = Some b'"
    using assms(3) inv(2) d le by (simp add: add_record_def get_next_record_pointer_def adjust_next_record_pointer_def Let_def b'_def)
  moreover have "map (\<lambda>i. pointer_at b' (- int i)) [0..<length lens] = starts (m_rawmem b) lens"
    unfolding inv(3) [symmetric] using inv(1) by (intro map_cong) (auto simp: b'_def)
  then have "fb_inv b' (lens @ [len])"
    using assms(1,2) room [OF assms(1,3)] d le inv
    by (auto simp: fb_inv_def allocated_def b'_def starts_snoc)
  ultimately show ?thesis by (intro exI [of _ b']) (simp add: b'_def)
qed

lemma add_records_inv:
  "fb_inv b lens \<Longrightarrow> list_all (\<lambda>l. l \<le> m_record_length b) ls \<Longrightarrow> add_records ls b = Some b' \<Longrightarrow>
     fb_inv b' (lens @ ls) \<and> m_record_length b' = m_record_length b \<and> m_num_records b' = m_num_records b \<and>
     m_rawmem b' = m_rawmem b \<and> m_size_in_bytes b' = m_size_in_bytes b"
proof (induction ls arbitrary: b lens)
  case (Cons l ls)
  have "isfull b = Some False" using Cons.prems(3) by (auto simp: add_record_def split: if_splits)
  then obtain b1 where 1: "add_record l b = Some b1" "fb_inv b1 (lens @ [l])" "m_record_length b1 = m_record_length b"
    "m_num_records b1 = m_num_records b" "m_rawmem b1 = m_rawmem b" "m_size_in_bytes b1 = m_size_in_bytes b"
    using add_record_inv [OF Cons.prems(1), of l] Cons.prems(2) by auto
  then show ?case using Cons.IH [OF 1(2)] Cons.prems(2,3) by simp
qed simp






section \<open>The array of sort keys\<close>

text \<open>The array \<open>get_sort_keys\<close> returns, as the list of the pointers in it.\<close>

definition sort_keys_list :: "filesort_buffer \<Rightarrow> nat list" where
  "sort_keys_list b = (case get_sort_keys b of None \<Rightarrow> [] | Some k \<Rightarrow> map (\<lambda>j. pointer_at b (k + int j)) [0..<nat (m_idx b)])"

lemma reverse_loop_reverses:
  "0 \<le> ix \<Longrightarrow> (\<And>j. 0 \<le> j \<Longrightarrow> j \<le> cnt \<Longrightarrow> ptr (keys + j) = (if j < ix \<or> cnt - ix < j then g (cnt - j) else g j)) \<Longrightarrow>
   0 \<le> j \<Longrightarrow> j \<le> cnt \<Longrightarrow> reverse_loop keys cnt ix ptr (keys + j) = g (cnt - j)"
proof (induction keys cnt ix ptr arbitrary: j rule: reverse_loop.induct)
  case (1 keys cnt ix ptr)
  show ?case
  proof (cases "ix \<le> cnt div 2")
    case False
    then have "j < ix \<or> cnt - ix < j" by linarith
    then show ?thesis using False "1.prems" by (simp add: reverse_loop.simps)
  next
    case True
    define p where "p = ptr(keys + (cnt - ix) := ptr (keys + ix), keys + ix := ptr (keys + (cnt - ix)))"
    have ends: "ptr (keys + ix) = g ix" "ptr (keys + (cnt - ix)) = g (cnt - ix)"
      using True "1.prems"(1) "1.prems"(2) [of ix] "1.prems"(2) [of "cnt - ix"] by auto
    have p: "p (keys + k) = (if k < ix + 1 \<or> cnt - (ix + 1) < k then g (cnt - k) else g k)" if "0 \<le> k" "k \<le> cnt" for k
      using "1.prems"(2) [OF that] ends by (auto simp: p_def)
    have "reverse_loop keys cnt ix ptr = reverse_loop keys cnt (ix + 1) p"
      using True by (simp add: reverse_loop.simps [of keys cnt ix] Let_def p_def)
    moreover have "reverse_loop keys cnt (ix + 1) p (keys + j) = g (cnt - j)"
      by (rule "1.IH" [OF True refl refl refl, folded p_def]) (use p "1.prems"(1,3,4) in auto)
    ultimately show ?thesis by simp
  qed
qed

lemma reverse_keys: "0 \<le> m_idx b \<Longrightarrow> sort_keys_list (reverse_record_pointers b) = rev (sort_keys_list b)"
proof -
  assume nn: "0 \<le> m_idx b"
  let ?n = "nat (m_idx b)"
  show ?thesis
  proof (cases "m_idx b < 2")
    case True
    then have "m_idx b = 0 \<or> m_idx b = 1" using nn by linarith
    then show ?thesis by (auto simp: reverse_record_pointers_def sort_keys_list_def get_sort_keys_def)
  next
    case False
    let ?k = "1 - m_idx b"
    let ?p = "reverse_loop ?k (m_idx b - 1) 0 (pointer_at b)"
    have "?p (?k + int j) = pointer_at b (?k + (m_idx b - 1 - int j))" if "j < ?n" for j
      using that by (intro reverse_loop_reverses [where g = "\<lambda>j. pointer_at b (?k + j)"]) auto
    then have "map (\<lambda>j. ?p (?k + int j)) [0..<?n] = rev (map (\<lambda>j. pointer_at b (?k + int j)) [0..<?n])"
      by (intro nth_equalityI) (auto simp: rev_nth of_nat_diff)
    then show ?thesis using False by (simp add: reverse_record_pointers_def sort_keys_list_def get_sort_keys_def)
  qed
qed

lemma filled_keys: "fb_inv b lens \<Longrightarrow> sort_keys_list b = rev (starts (m_rawmem b) lens)"
proof -
  assume inv: "fb_inv b lens"
  then have idx: "m_idx b = int (length lens)" and p: "map (\<lambda>i. pointer_at b (- int i)) [0..<length lens] = starts (m_rawmem b) lens"
    by (simp_all add: fb_inv_def)
  have "map (\<lambda>j. pointer_at b (1 - int (length lens) + int j)) [0..<length lens] = rev (map (\<lambda>i. pointer_at b (- int i)) [0..<length lens])"
    by (intro nth_equalityI) (auto simp: rev_nth of_nat_diff intro: arg_cong [of _ _ "pointer_at b"])
  then show ?thesis using p by (simp add: sort_keys_list_def get_sort_keys_def idx starts_def)
qed

text \<open>The loop of \<open>init_record_pointers\<close> adds full-length records up to the announced number.\<close>

lemma pointers_loop_fills:
  "fb_inv b lens \<Longrightarrow> length lens \<le> unat (m_num_records b) \<Longrightarrow> lens = replicate (length lens) (m_record_length b) \<Longrightarrow>
   fb_inv (pointers_loop b) (replicate (unat (m_num_records b)) (m_record_length b)) \<and> m_rawmem (pointers_loop b) = m_rawmem b"
proof (induction "unat (m_num_records b) - length lens" arbitrary: b lens)
  case 0
  have "int (unat (m_num_records b)) = uint (m_num_records b)" by simp
  then have "\<not> m_idx b < uint (m_num_records b)" using 0 unfolding fb_inv_def by linarith
  moreover have "length lens = unat (m_num_records b)" using 0 by simp
  ultimately show ?case using 0 by (simp add: pointers_loop.simps [of b])
next
  case (Suc n)
  have "int (unat (m_num_records b)) = uint (m_num_records b)" by simp
  then have lt: "m_idx b < uint (m_num_records b)" using Suc.hyps(2) Suc.prems(1) unfolding fb_inv_def by linarith
  then have nf: "isfull b = Some False" by (simp add: isfull_def)
  let ?b = "snd (get_next_record_pointer b)" and ?l = "lens @ [m_record_length b]"
  have "add_record (m_record_length b) b = Some ?b"
    using nf by (simp add: add_record_def adjust_next_record_pointer_def get_next_record_pointer_def Let_def) (use Suc.prems(1) in \<open>simp add: fb_inv_def\<close>)
  then have inv: "fb_inv ?b ?l" "m_record_length ?b = m_record_length b" "m_num_records ?b = m_num_records b" "m_rawmem ?b = m_rawmem b"
    using add_record_inv [OF Suc.prems(1) order_refl nf] by auto
  have "?l = replicate (length ?l) (m_record_length ?b)" using Suc.prems(3) inv(2) by (metis length_append_singleton replicate_Suc replicate_append_same)
  moreover have "n = unat (m_num_records ?b) - length ?l" "length ?l \<le> unat (m_num_records ?b)" using Suc.hyps(2) inv(3) by simp_all
  ultimately show ?case using Suc.hyps(1) [OF _ inv(1)] inv lt by (simp add: pointers_loop.simps [of b])
qed

text \<open>
  The array handed to the sort. After records were added, the array \<open>get_sort_keys\<close>
  returns holds their pointers in reverse order, and \<open>reverse_record_pointers\<close> brings them into the
  order of the records, for every number of them. \<open>init_record_pointers\<close> always returns, with an
  array of pointers to equally spaced records in increasing order.
\<close>

theorem filesort_keys_in_order:
  assumes "allocated b"
  shows "(\<forall>lens b'. list_all (\<lambda>l. l \<le> m_record_length b) lens \<and> add_records lens (init_next_record_pointer b) = Some b' \<longrightarrow>
      sort_keys_list b' = rev (starts (m_rawmem b) lens) \<and>
      sort_keys_list (reverse_record_pointers b') = starts (m_rawmem b) lens) \<and>
    sort_keys_list (init_record_pointers b) =
      map (\<lambda>i. m_rawmem b + i * unat (m_record_length b)) [0..<unat (m_num_records b)]"
proof (intro conjI allI impI)
  have i0: "fb_inv (init_next_record_pointer b) []" by (rule fb_inv_init [OF assms(1)])
  have f: "m_record_length (init_next_record_pointer b) = m_record_length b" "m_num_records (init_next_record_pointer b) = m_num_records b"
    "m_rawmem (init_next_record_pointer b) = m_rawmem b" by (simp_all add: init_next_record_pointer_def)
  {
    fix lens b' assume a: "list_all (\<lambda>l. l \<le> m_record_length b) lens \<and> add_records lens (init_next_record_pointer b) = Some b'"
    then have inv: "fb_inv b' lens" "m_rawmem b' = m_rawmem b" using add_records_inv [OF i0, of lens b'] f by simp_all
    show k: "sort_keys_list b' = rev (starts (m_rawmem b) lens)" using filled_keys [OF inv(1)] inv(2) by simp
    show "sort_keys_list (reverse_record_pointers b') = starts (m_rawmem b) lens"
      using reverse_keys [of b'] inv(1) k by (simp add: fb_inv_def)
  }
  let ?p = "pointers_loop (init_next_record_pointer b)" and ?l = "replicate (unat (m_num_records b)) (m_record_length b)"
  have inv: "fb_inv ?p ?l" "m_rawmem ?p = m_rawmem b" using pointers_loop_fills [OF i0] f by simp_all
  have "sort_keys_list (init_record_pointers b) = starts (m_rawmem b) ?l"
    using reverse_keys [of ?p] filled_keys [OF inv(1)] inv by (simp add: init_record_pointers_def fb_inv_def)
  then show "sort_keys_list (init_record_pointers b) = map (\<lambda>i. m_rawmem b + i * unat (m_record_length b)) [0..<unat (m_num_records b)]"
    by (simp add: starts_def sum_list_replicate min_def)
qed

text \<open>A buffer at address 1000 for two records of 16 bytes; three records fit when two are short.\<close>

definition fb2 :: filesort_buffer where
  "fb2 = (Filesort_buffer0 (\<lambda>i. 0))\<lparr>m_rawmem := 1000, m_record_pointers := 1040, m_num_records := 2, m_record_length := 16, m_size_in_bytes := 48\<rparr>"

lemma fb2_allocated: "allocated fb2"
  by (simp add: allocated_def fb2_def Filesort_buffer0_def)


theorem filesort_keys_in_order_witness: "sort_keys_list (init_record_pointers fb2) = [1000, 1016]"
  using filesort_keys_in_order [OF fb2_allocated] by (simp add: fb2_def Filesort_buffer0_def upt_rec)

end
