(* ===== verification/SortRecord.thy ===== *)
theory SortRecord
  imports ByteOrder
begin

text \<open>
  The records and merge chunks of \<open>sql_sort.h\<close>: descriptors of sorted runs, and the layout of the
  records in the sort buffer, whose sort key and companion fields may each be packed behind a
  length field. Pointers are addresses into a byte memory (0 is null), lengths are \<open>uint\<close>. A
  failed assertion is \<open>None\<close>.
\<close>

section \<open>Merge chunks\<close>

record merge_chunk =
  m_current_key :: nat
  m_file_position :: u64
  m_buffer_start :: nat
  m_buffer_end :: nat
  m_rowcount :: u64
  m_mem_count :: u64
  m_max_keys :: u64

definition Merge_chunk0 :: merge_chunk where
  "Merge_chunk0 = \<lparr>m_current_key = 0, m_file_position = 0, m_buffer_start = 0, m_buffer_end = 0, m_rowcount = 0,
     m_mem_count = 0, m_max_keys = 0\<rparr>"

definition advance_file_position :: "u64 \<Rightarrow> merge_chunk \<Rightarrow> merge_chunk" where
  "advance_file_position val c = c\<lparr>m_file_position := m_file_position c + val\<rparr>"

definition set_buffer :: "nat \<Rightarrow> nat \<Rightarrow> merge_chunk \<Rightarrow> merge_chunk" where
  "set_buffer s e c = c\<lparr>m_buffer_start := s, m_buffer_end := e\<rparr>"

definition set_buffer_end :: "nat \<Rightarrow> merge_chunk \<Rightarrow> merge_chunk option" where
  "set_buffer_end e c = (if m_buffer_end c = 0 \<or> e \<le> m_buffer_end c then Some (c\<lparr>m_buffer_end := e\<rparr>) else None)"

definition init_current_key :: "merge_chunk \<Rightarrow> merge_chunk" where
  "init_current_key c = c\<lparr>m_current_key := m_buffer_start c\<rparr>"

definition advance_current_key :: "u32 \<Rightarrow> merge_chunk \<Rightarrow> merge_chunk" where
  "advance_current_key val c = c\<lparr>m_current_key := m_current_key c + unat val\<rparr>"

definition decrement_rowcount :: "u64 \<Rightarrow> merge_chunk \<Rightarrow> merge_chunk" where
  "decrement_rowcount val c = c\<lparr>m_rowcount := m_rowcount c - val\<rparr>"

definition decrement_mem_count :: "merge_chunk \<Rightarrow> u64 \<times> merge_chunk" where
  "decrement_mem_count c = (m_mem_count c - 1, c\<lparr>m_mem_count := m_mem_count c - 1\<rparr>)"

definition buffer_size :: "merge_chunk \<Rightarrow> nat" where
  "buffer_size c = m_buffer_end c - m_buffer_start c"

text \<open>\<open>merge_freed_buff\<close> of a chunk \<open>c\<close> that is no longer used, offered to \<open>mc\<close>.\<close>

definition merge_freed_buff :: "merge_chunk \<Rightarrow> merge_chunk \<Rightarrow> bool \<times> merge_chunk" where
  "merge_freed_buff c mc =
     (if m_buffer_end mc = m_buffer_start c
      then (True, mc\<lparr>m_buffer_end := m_buffer_end c, m_max_keys := m_max_keys mc + m_max_keys c\<rparr>)
      else if m_buffer_start mc = m_buffer_end c
           then (True, mc\<lparr>m_buffer_start := m_buffer_start c, m_max_keys := m_max_keys mc + m_max_keys c\<rparr>)
           else (False, mc))"

definition region :: "merge_chunk \<Rightarrow> nat set" where
  "region c = {m_buffer_start c ..< m_buffer_end c}"

definition chunk_ok :: "merge_chunk \<Rightarrow> bool" where
  "chunk_ok c \<longleftrightarrow> m_buffer_start c < m_buffer_end c"

text \<open>
  Handing a freed buffer over: between two non-empty buffers that do not overlap, the offer is
  taken exactly when they are adjacent; the receiver then owns exactly the bytes of both, keeps
  its place in the file and its rows, and can hold as many keys as both.
\<close>

lemma merge_freed_space:
  assumes "chunk_ok c" and "chunk_ok mc" and "region c \<inter> region mc = {}" and "merge_freed_buff c mc = (ok, mc')"
  shows "(ok \<longleftrightarrow> (\<exists>a b. region c \<union> region mc = {a..<b})) \<and>
    region mc' = region mc \<union> (if ok then region c else {}) \<and> chunk_ok mc' \<and>
    m_max_keys mc' = m_max_keys mc + (if ok then m_max_keys c else 0) \<and>
    m_current_key mc' = m_current_key mc \<and> m_rowcount mc' = m_rowcount mc \<and> m_mem_count mc' = m_mem_count mc"
proof -
  let ?a = "m_buffer_start c" and ?b = "m_buffer_end c" and ?s = "m_buffer_start mc" and ?e = "m_buffer_end mc"
  have ne: "?a < ?b" "?s < ?e" using assms(1,2) by (auto simp: chunk_ok_def)
  have apart: "?b \<le> ?s \<or> ?e \<le> ?a"
  proof (rule ccontr)
    assume "\<not> (?b \<le> ?s \<or> ?e \<le> ?a)"
    then have "max ?a ?s \<in> region c \<inter> region mc" using ne by (auto simp: region_def)
    then show False using assms(3) by simp
  qed
  have "(?e = ?a \<or> ?s = ?b) \<longleftrightarrow> (\<exists>x y. region c \<union> region mc = {x..<y})"
  proof
    assume "?e = ?a \<or> ?s = ?b"
    then show "\<exists>x y. region c \<union> region mc = {x..<y}"
      using ne by (auto simp: region_def ivl_disj_un intro: exI [of _ ?s] exI [of _ ?a])
        (metis Un_commute ivl_disj_un_two(3) less_imp_le_nat)+
  next
    assume "\<exists>x y. region c \<union> region mc = {x..<y}"
    then obtain x y where u: "region c \<union> region mc = {x..<y}" by blast
    show "?e = ?a \<or> ?s = ?b"
    proof (rule ccontr)
      assume no: "\<not> (?e = ?a \<or> ?s = ?b)"
      have in4: "?a \<in> {x..<y}" "?b - 1 \<in> {x..<y}" "?s \<in> {x..<y}" "?e - 1 \<in> {x..<y}"
        using ne unfolding u [symmetric] by (auto simp: region_def)
      have "?b \<in> {x..<y} \<or> ?e \<in> {x..<y}" using apart no in4 ne by auto
      then show False using apart no ne unfolding u [symmetric] by (auto simp: region_def)
    qed
  qed
  then show ?thesis using assms(4) ne apart
    by (auto simp: merge_freed_buff_def region_def chunk_ok_def split: if_splits)
qed

section \<open>Companion fields and sort keys\<close>

record addon_fields =
  m_addon_buf :: nat
  m_addon_buf_length :: u32
  m_using_packed_addons :: bool

definition Addon_fields1 :: addon_fields where
  "Addon_fields1 = \<lparr>m_addon_buf = 0, m_addon_buf_length = 0, m_using_packed_addons = False\<rparr>"

text \<open>\<open>malloc\<close> returns the address of the block, or 0.\<close>

definition allocate_addon_buf :: "(u32 \<Rightarrow> nat) \<Rightarrow> u32 \<Rightarrow> addon_fields \<Rightarrow> nat \<times> addon_fields" where
  "allocate_addon_buf malloc sz a =
     (let a = a\<lparr>m_addon_buf := malloc sz\<rparr>
      in (m_addon_buf a, if m_addon_buf a \<noteq> 0 then a\<lparr>m_addon_buf_length := sz\<rparr> else a))"

definition free_addon_buff :: "addon_fields \<Rightarrow> addon_fields" where
  "free_addon_buff a = a\<lparr>m_addon_buf := 0, m_addon_buf_length := 0\<rparr>"

definition set_using_packed_addons :: "bool \<Rightarrow> addon_fields \<Rightarrow> addon_fields" where
  "set_using_packed_addons val a = a\<lparr>m_using_packed_addons := val\<rparr>"

definition can_pack_addon_fields :: "u32 \<Rightarrow> bool" where
  "can_pack_addon_fields record_length \<longleftrightarrow> record_length \<le> 0xFFFF"

definition read_addon_length :: "mem \<Rightarrow> nat \<Rightarrow> u32" where
  "read_addon_length m p = 2 + ucast (uint2korr m p)"

definition store_addon_length :: "mem \<Rightarrow> nat \<Rightarrow> u32 \<Rightarrow> mem" where
  "store_addon_length m p sz = int2store m p (ucast (sz - 2))"

record sort_keys =
  m_using_packed_sortkeys :: bool
  size_of_packable_fields :: u32
  sort_length_with_original_values :: u32
  sort_length_with_memcmp_values :: u32
  parameters_computed :: bool

definition Sort_keys2 :: sort_keys where
  "Sort_keys2 = \<lparr>m_using_packed_sortkeys = False, size_of_packable_fields = 0, sort_length_with_original_values = 0,
     sort_length_with_memcmp_values = 0, parameters_computed = False\<rparr>"

definition increment_size_of_packable_fields :: "u32 \<Rightarrow> sort_keys \<Rightarrow> sort_keys" where
  "increment_size_of_packable_fields len k = k\<lparr>size_of_packable_fields := size_of_packable_fields k + len\<rparr>"

definition increment_original_sort_length :: "u32 \<Rightarrow> sort_keys \<Rightarrow> sort_keys" where
  "increment_original_sort_length len k = k\<lparr>sort_length_with_original_values := sort_length_with_original_values k + len\<rparr>"

definition store_sortkey_length :: "mem \<Rightarrow> nat \<Rightarrow> u32 \<Rightarrow> mem" where
  "store_sortkey_length m p sz = int4store m p (ucast (sz - 4))"

definition read_sortkey_length :: "mem \<Rightarrow> nat \<Rightarrow> u32" where
  "read_sortkey_length m p = 4 + uint4korr m p"

section \<open>Lengths of records\<close>

record sort_param =
  rec_length :: u32
  sort_length :: u32
  addon_length :: u32
  res_length :: u32
  sp_addon_fields :: "addon_fields option"
  sp_sort_keys :: "sort_keys option"
  sp_using_packed_addons :: bool
  sp_using_packed_sortkeys :: bool
  m_packed_format :: bool

definition using_packed_addons :: "sort_param \<Rightarrow> bool option" where
  "using_packed_addons sp =
     (if sp_using_packed_addons sp = (case sp_addon_fields sp of None \<Rightarrow> False | Some a \<Rightarrow> m_using_packed_addons a)
      then Some (sp_using_packed_addons sp) else None)"

definition using_packed_sortkeys :: "sort_param \<Rightarrow> bool option" where
  "using_packed_sortkeys sp =
     (if sp_using_packed_sortkeys sp = (case sp_sort_keys sp of None \<Rightarrow> False | Some k \<Rightarrow> m_using_packed_sortkeys k)
      then Some (sp_using_packed_sortkeys sp) else None)"

definition using_addon_fields :: "sort_param \<Rightarrow> bool" where
  "using_addon_fields sp \<longleftrightarrow> sp_addon_fields sp \<noteq> None"

definition get_result_length :: "sort_param \<Rightarrow> mem \<Rightarrow> nat \<Rightarrow> u32" where
  "get_result_length sp m plen = (if \<not> sp_using_packed_addons sp then res_length sp else read_addon_length m plen)"

definition get_addon_length :: "sort_param \<Rightarrow> mem \<Rightarrow> nat \<Rightarrow> u32 option" where
  "get_addon_length sp m plen =
     map_option (\<lambda>packed. if packed then read_addon_length m plen else addon_length sp) (using_packed_addons sp)"

definition get_sort_length :: "sort_param \<Rightarrow> mem \<Rightarrow> nat \<Rightarrow> u32 option" where
  "get_sort_length sp m plen =
     map_option (\<lambda>packed. if packed then read_sortkey_length m plen + (if using_addon_fields sp then 0 else res_length sp)
                         else sort_length sp) (using_packed_sortkeys sp)"

definition get_record_length :: "sort_param \<Rightarrow> mem \<Rightarrow> nat \<Rightarrow> u32 option" where
  "get_record_length sp m plen =
     (if m_packed_format sp
      then case get_sort_length sp m plen of
             None \<Rightarrow> None
           | Some sort_len \<Rightarrow> map_option (\<lambda>l. sort_len + l) (get_addon_length sp m (plen + unat sort_len))
      else Some (rec_length sp))"

definition get_rec_and_res_len :: "sort_param \<Rightarrow> mem \<Rightarrow> nat \<Rightarrow> (u32 \<times> u32) option" where
  "get_rec_and_res_len sp m p =
     (if m_packed_format sp
      then case get_sort_length sp m p of
             None \<Rightarrow> None
           | Some sort_len \<Rightarrow>
               map_option (\<lambda>addon_len. (sort_len + addon_len, if using_addon_fields sp then addon_len else res_length sp))
                 (get_addon_length sp m (p + unat sort_len))
      else Some (rec_length sp, res_length sp))"

lemma record_length_agrees: "get_record_length sp m p = map_option fst (get_rec_and_res_len sp m p)"
  by (auto simp: get_record_length_def get_rec_and_res_len_def option.map_comp comp_def split: option.splits)

section \<open>Length fields read back\<close>

lemma sortkey_length_round_trip: "read_sortkey_length (store_sortkey_length m p sz) p = sz"
  by (simp add: read_sortkey_length_def store_sortkey_length_def uint4korr_int4store)

text \<open>Two bytes hold the length behind the field up to 65535.\<close>

lemma addon_length_round_trip:
  assumes "2 \<le> sz" and "sz \<le> 0xFFFF + 2"
  shows "read_addon_length (store_addon_length m p sz) p = sz"
proof -
  let ?v = "sz - 2"
  have "unat ?v < 2 ^ 16" using assms by (simp add: unat_sub word_le_nat_alt)
  then have "unat (uint2korr (int2store m p (ucast ?v)) p) = unat ?v"
    using arg_cong [OF le2.load_store [of m p "ucast ?v"], of unat] by (simp add: unat_widen unat_low take_bit_nat_eq_self)
  then have "(ucast (uint2korr (int2store m p (ucast ?v)) p) :: u32) = ?v" by (simp add: word_unat_eq_iff unat_widen)
  then show ?thesis by (simp add: read_addon_length_def store_addon_length_def)
qed

section \<open>Packed records one after the other\<close>

text \<open>A record is the bytes of its sort key and those of its companion fields.\<close>

type_synonym sort_row = "u8 list \<times> u8 list"

abbreviation key_size :: "sort_row \<Rightarrow> nat" where "key_size r \<equiv> 4 + length (fst r)"
abbreviation row_size :: "sort_row \<Rightarrow> nat" where "row_size r \<equiv> key_size r + (2 + length (snd r))"

definition row_fits :: "sort_row \<Rightarrow> bool" where
  "row_fits r \<longleftrightarrow> row_size r < 2 ^ 32 \<and> length (snd r) \<le> 0xFFFF"

definition put_bytes :: "nat \<Rightarrow> u8 list \<Rightarrow> mem \<Rightarrow> mem" where
  "put_bytes p bs m = (\<lambda>a. if p \<le> a \<and> a < p + length bs then bs ! (a - p) else m a)"

definition put_row :: "nat \<Rightarrow> sort_row \<Rightarrow> mem \<Rightarrow> mem" where
  "put_row p r m =
     put_bytes (p + key_size r + 2) (snd r)
       (store_addon_length
         (put_bytes (p + 4) (fst r) (store_sortkey_length m p (of_nat (key_size r))))
         (p + key_size r) (of_nat (2 + length (snd r))))"

fun put_rows :: "nat \<Rightarrow> sort_row list \<Rightarrow> mem \<Rightarrow> mem" where
  "put_rows p [] m = m"
| "put_rows p (r # rs) m = put_rows (p + row_size r) rs (put_row p r m)"

text \<open>Walking over \<open>n\<close> records with the lengths the code computes.\<close>

fun walk_rows :: "sort_param \<Rightarrow> mem \<Rightarrow> nat \<Rightarrow> nat \<Rightarrow> sort_row list option" where
  "walk_rows sp m p 0 = Some []"
| "walk_rows sp m p (Suc n) =
     (case get_rec_and_res_len sp m p of
        None \<Rightarrow> None
      | Some (recl, resl) \<Rightarrow>
          let q = p + unat (recl - resl)
          in map_option ((#) (bytes_at m (p + 4) (unat (recl - resl) - 4), bytes_at m (q + 2) (unat resl - 2)))
               (walk_rows sp m (p + unat recl) n))"

definition row_at :: "mem \<Rightarrow> nat \<Rightarrow> sort_row \<Rightarrow> bool" where
  "row_at m p r \<longleftrightarrow>
     read_sortkey_length m p = of_nat (key_size r) \<and> bytes_at m (p + 4) (length (fst r)) = fst r \<and>
     read_addon_length m (p + key_size r) = of_nat (2 + length (snd r)) \<and>
     bytes_at m (p + key_size r + 2) (length (snd r)) = snd r"

lemma read_sortkey_cong:
  assumes "\<And>a. p \<le> a \<Longrightarrow> a < p + 4 \<Longrightarrow> m a = m' a"
  shows "read_sortkey_length m p = read_sortkey_length m' p"
proof -
  have "unat (uint4korr m p) = unat (uint4korr m' p)" using arg_cong [OF le4.load_cong [OF assms], where f = unat] by (simp add: unat_widen)
  then have "uint4korr m p = uint4korr m' p" by (simp add: word_unat_eq_iff)
  then show ?thesis by (simp add: read_sortkey_length_def)
qed

lemma read_addon_cong:
  assumes "\<And>a. p \<le> a \<Longrightarrow> a < p + 2 \<Longrightarrow> m a = m' a"
  shows "read_addon_length m p = read_addon_length m' p"
proof -
  have "unat (uint2korr m p) = unat (uint2korr m' p)" using arg_cong [OF le2.load_cong [OF assms], where f = unat] by (simp add: unat_widen)
  then have "uint2korr m p = uint2korr m' p" by (simp add: word_unat_eq_iff)
  then show ?thesis by (simp add: read_addon_length_def)
qed

lemma row_at_cong:
  assumes "\<And>a. p \<le> a \<Longrightarrow> a < p + row_size r \<Longrightarrow> m a = m' a"
  shows "row_at m p r = row_at m' p r"
proof -
  have "read_sortkey_length m p = read_sortkey_length m' p" by (rule read_sortkey_cong) (simp add: assms)
  moreover have "read_addon_length m (p + key_size r) = read_addon_length m' (p + key_size r)" by (rule read_addon_cong) (simp add: assms)
  moreover have "bytes_at m (p + 4) (length (fst r)) = bytes_at m' (p + 4) (length (fst r))" by (rule bytes_cong) (simp add: assms)
  moreover have "bytes_at m (p + key_size r + 2) (length (snd r)) = bytes_at m' (p + key_size r + 2) (length (snd r))"
    by (rule bytes_cong) (simp add: assms)
  ultimately show ?thesis by (simp add: row_at_def)
qed

lemma bytes_put: "bytes_at (put_bytes p bs m) p (length bs) = bs"
  by (rule nth_equalityI) (simp_all add: bytes_at_def put_bytes_def)

lemma frames:
  "a < p \<or> p + 4 \<le> a \<Longrightarrow> store_sortkey_length m p sz a = m a" "a < p \<or> p + 2 \<le> a \<Longrightarrow> store_addon_length m p sz a = m a"
  "a < p \<or> p + length bs \<le> a \<Longrightarrow> put_bytes p bs m a = m a"
  by (auto simp: store_sortkey_length_def store_addon_length_def put_bytes_def le4.store_frame le2.store_frame)

lemma put_row_below: "a < p \<Longrightarrow> put_row p r m a = m a"
  by (simp add: put_row_def frames)

lemma put_rows_below: "a < p \<Longrightarrow> put_rows p rs m a = m a"
  by (induction rs arbitrary: p m) (simp_all add: put_row_below)

lemma put_row_at:
  assumes "row_fits r"
  shows "row_at (put_row p r m) p r"
proof -
  let ?q = "p + key_size r" and ?m1 = "put_bytes (p + 4) (fst r) (store_sortkey_length m p (of_nat (key_size r)))"
  let ?m2 = "store_addon_length ?m1 ?q (of_nat (2 + length (snd r)))"
  let ?m = "put_row p r m"
  have "read_sortkey_length ?m p = read_sortkey_length (store_sortkey_length m p (of_nat (key_size r))) p"
    by (rule read_sortkey_cong) (simp add: put_row_def frames)
  then have 1: "read_sortkey_length ?m p = of_nat (key_size r)" by (simp add: sortkey_length_round_trip)
  have "bytes_at ?m (p + 4) (length (fst r)) = bytes_at ?m1 (p + 4) (length (fst r))"
    by (rule bytes_cong) (simp add: put_row_def frames)
  then have 2: "bytes_at ?m (p + 4) (length (fst r)) = fst r" by (simp add: bytes_put)
  have "unat (of_nat (2 + length (snd r)) :: u32) = 2 + length (snd r)"
    using assms by (simp add: row_fits_def unat_of_nat take_bit_nat_eq_self del: of_nat_add of_nat_Suc)
  then have "read_addon_length ?m2 ?q = of_nat (2 + length (snd r))"
    using assms by (intro addon_length_round_trip) (simp_all add: word_le_nat_alt row_fits_def del: of_nat_add)
  moreover have "read_addon_length ?m ?q = read_addon_length ?m2 ?q" by (rule read_addon_cong) (simp add: put_row_def frames)
  ultimately have 3: "read_addon_length ?m ?q = of_nat (2 + length (snd r))" by simp
  have 4: "bytes_at ?m (?q + 2) (length (snd r)) = snd r" unfolding put_row_def by (rule bytes_put)
  show ?thesis using 1 2 3 4 by (simp add: row_at_def)
qed

lemma walk_step:
  assumes "row_at m p r" and "row_fits r" and "m_packed_format sp" and "using_packed_sortkeys sp = Some True" and "using_packed_addons sp = Some True"
    and "using_addon_fields sp"
  shows "\<exists>recl resl. get_rec_and_res_len sp m p = Some (recl, resl) \<and> unat recl = row_size r \<and> unat resl = 2 + length (snd r) \<and>
    unat (recl - resl) = key_size r"
proof -
  let ?k = "of_nat (key_size r) :: u32" and ?a = "of_nat (2 + length (snd r)) :: u32"
  have u: "unat ?k = key_size r" "unat ?a = 2 + length (snd r)" "unat (?k + ?a) = row_size r"
    using assms(2) by (simp_all add: row_fits_def unat_of_nat take_bit_nat_eq_self flip: of_nat_add del: of_nat_Suc)
  have "get_rec_and_res_len sp m p = Some (?k + ?a, ?a)"
    using assms(1,3-6) u(1) by (simp add: get_rec_and_res_len_def get_sort_length_def get_addon_length_def row_at_def del: of_nat_add)
  moreover have "unat (?k + ?a - ?a) = key_size r" using u(1) by simp
  ultimately show ?thesis using u by blast
qed

text \<open>
  Property C30: packed records can be parsed again. Records with packed sort keys and packed companion
  fields, written one behind the other with \<open>store_sortkey_length\<close> and \<open>store_addon_length\<close>, are found
  again in order, each with its own bytes, by advancing with the lengths \<open>get_rec_and_res_len\<close> reads,
  for every number of records and any sizes the length fields can hold; \<open>get_record_length\<close> agrees.
\<close>

theorem packed_records_round_trip:
  assumes "m_packed_format sp" and "using_packed_sortkeys sp = Some True" and "using_packed_addons sp = Some True"
    and "using_addon_fields sp" and "list_all row_fits rs"
  shows "walk_rows sp (put_rows p rs m) p (length rs) = Some rs \<and>
    (rs \<noteq> [] \<longrightarrow> map_option unat (get_record_length sp (put_rows p rs m) p) = Some (row_size (hd rs)))"
proof -
  have first: "row_at (put_rows p (r # ls) m) p r" if "row_fits r" for p r ls m
  proof -
    have "row_at (put_rows p (r # ls) m) p r = row_at (put_row p r m) p r" by (rule row_at_cong) (simp add: put_rows_below)
    then show ?thesis using put_row_at [OF that] by simp
  qed
  have "walk_rows sp (put_rows p rs m) p (length rs) = Some rs"
    using assms(5)
  proof (induction rs arbitrary: p m)
    case (Cons r ls)
    let ?m = "put_rows p (r # ls) m"
    have at: "row_at ?m p r" using first Cons.prems by simp
    obtain recl resl where l: "get_rec_and_res_len sp ?m p = Some (recl, resl)" "unat recl = row_size r" "unat resl = 2 + length (snd r)"
      "unat (recl - resl) = key_size r"
      using walk_step [OF at _ assms(1-4)] Cons.prems by auto
    have "walk_rows sp ?m (p + row_size r) (length ls) = Some ls" using Cons.IH [of "p + row_size r" "put_row p r m"] Cons.prems by simp
    then show ?case using l at by (simp add: row_at_def Let_def del: put_rows.simps)
  qed simp
  moreover have "map_option unat (get_record_length sp (put_rows p rs m) p) = Some (row_size (hd rs))" if "rs \<noteq> []"
    using that walk_step [OF first _ assms(1-4)] assms(5) by (cases rs) (fastforce simp: record_length_agrees)+
  ultimately show ?thesis by blast
qed

definition sp0 :: sort_param where
  "sp0 = \<lparr>rec_length = 0, sort_length = 0, addon_length = 0, res_length = 0,
     sp_addon_fields = Some (set_using_packed_addons True Addon_fields1), sp_sort_keys = Some (Sort_keys2\<lparr>m_using_packed_sortkeys := True\<rparr>),
     sp_using_packed_addons = True, sp_using_packed_sortkeys = True, m_packed_format = True\<rparr>"

theorem packed_records_round_trip_witness:
  "walk_rows sp0 (put_rows 100 [([1, 2, 3], []), ([], [7])] (\<lambda>a. 0)) 100 2 = Some [([1, 2, 3], []), ([], [7])]"
proof -
  let ?rs = "[([1, 2, 3], []), ([], [7])] :: sort_row list"
  have sp: "m_packed_format sp0" "using_packed_sortkeys sp0 = Some True" "using_packed_addons sp0 = Some True" "using_addon_fields sp0"
    by (simp_all add: sp0_def using_packed_sortkeys_def using_packed_addons_def using_addon_fields_def set_using_packed_addons_def)
  have "list_all row_fits ?rs" by (simp add: row_fits_def)
  then have "walk_rows sp0 (put_rows 100 ?rs (\<lambda>a. 0)) 100 (length ?rs) = Some ?rs" using packed_records_round_trip [OF sp] by blast
  moreover have "length ?rs = 2" by simp
  ultimately show ?thesis by metis
qed

end
