(* ===== verification/SelArg.thy ===== *)
theory SelArg
  imports Prelude
begin

text \<open>
  The intervals of the range optimizer, \<open>SEL_ARG\<close> of \<open>opt_range.h\<close>: an interval over one key part is a
  minimum and a maximum image with flags that say whether an end is open or missing. The
  function \<open>sel_cmp\<close> that compares two end points is defined outside the sources and is a
  parameter; \<open>sel_cmp_ok\<close> states that it orders end points by their position, which the header's
  description of the flags fixes. \<open>key\<close> maps an image to the value it stands for. The constructor of an interval
  over the field is only declared and is a parameter too; \<open>sel_new_ok\<close> states that the arguments named after a member
  become that member.
\<close>

section \<open>Flags\<close>

abbreviation NO_MIN_RANGE :: "'a::len word" where "NO_MIN_RANGE \<equiv> 1"
abbreviation NO_MAX_RANGE :: "'a::len word" where "NO_MAX_RANGE \<equiv> 2"
abbreviation NEAR_MIN :: "'a::len word" where "NEAR_MIN \<equiv> 4"
abbreviation NEAR_MAX :: "'a::len word" where "NEAR_MAX \<equiv> 8"
abbreviation GEOM_FLAG :: "'a::len word" where "GEOM_FLAG \<equiv> 128"

definition has :: "'a::len word \<Rightarrow> 'a word \<Rightarrow> bool" where
  "has f k \<longleftrightarrow> f AND k \<noteq> 0"

definition invert_min_flag :: "u32 \<Rightarrow> u32" where
  "invert_min_flag min_flag =
     (let out = min_flag AND NOT (NEAR_MIN OR NO_MIN_RANGE);
          out = (if has min_flag NEAR_MIN then out OR NEAR_MAX else out)
      in if has min_flag NO_MIN_RANGE then out OR NO_MAX_RANGE else out)"

definition invert_max_flag :: "u32 \<Rightarrow> u32" where
  "invert_max_flag max_flag =
     (let out = max_flag AND NOT (NEAR_MAX OR NO_MAX_RANGE);
          out = (if has max_flag NEAR_MAX then out OR NEAR_MIN else out)
      in if has max_flag NO_MAX_RANGE then out OR NO_MIN_RANGE else out)"

section \<open>Intervals\<close>

type_synonym image = "u8 list"

datatype sel_type = IMPOSSIBLE | MAYBE | MAYBE_KEY | KEY_RANGE

record sel_arg =
  min_flag :: u8
  max_flag :: u8
  maybe_flag :: u8
  part :: nat
  maybe_null :: bool
  min_value :: image
  max_value :: image
  sel_arg_type :: sel_type

type_synonym end_cmp = "image \<Rightarrow> image \<Rightarrow> u8 \<Rightarrow> u8 \<Rightarrow> int"

definition cmp_min_to_min :: "end_cmp \<Rightarrow> sel_arg \<Rightarrow> sel_arg \<Rightarrow> int" where
  "cmp_min_to_min sel_cmp a b = sel_cmp (min_value a) (min_value b) (min_flag a) (min_flag b)"

definition cmp_min_to_max :: "end_cmp \<Rightarrow> sel_arg \<Rightarrow> sel_arg \<Rightarrow> int" where
  "cmp_min_to_max sel_cmp a b = sel_cmp (min_value a) (max_value b) (min_flag a) (max_flag b)"

definition cmp_max_to_max :: "end_cmp \<Rightarrow> sel_arg \<Rightarrow> sel_arg \<Rightarrow> int" where
  "cmp_max_to_max sel_cmp a b = sel_cmp (max_value a) (max_value b) (max_flag a) (max_flag b)"

definition cmp_max_to_min :: "end_cmp \<Rightarrow> sel_arg \<Rightarrow> sel_arg \<Rightarrow> int" where
  "cmp_max_to_min sel_cmp a b = sel_cmp (max_value a) (min_value b) (max_flag a) (min_flag b)"

definition is_same :: "end_cmp \<Rightarrow> sel_arg \<Rightarrow> sel_arg \<Rightarrow> bool" where
  "is_same sel_cmp a b \<longleftrightarrow>
     sel_arg_type a = sel_arg_type b \<and> part a = part b \<and>
     (sel_arg_type a \<noteq> KEY_RANGE \<or> cmp_min_to_min sel_cmp a b = 0 \<and> cmp_max_to_max sel_cmp a b = 0)"

text \<open>\<open>all_same\<close> walks two interval lists, given with their roots.\<close>

fun same_loop :: "end_cmp \<Rightarrow> sel_arg list \<Rightarrow> sel_arg list \<Rightarrow> bool" where
  "same_loop sel_cmp (a # as) (b # bs) = (if is_same sel_cmp a b then same_loop sel_cmp as bs else False)"
| "same_loop sel_cmp [] [] = True"
| "same_loop sel_cmp _ _ = False"

definition all_same :: "end_cmp \<Rightarrow> sel_arg \<times> sel_arg list \<Rightarrow> sel_arg \<times> sel_arg list \<Rightarrow> bool" where
  "all_same sel_cmp = (\<lambda>(a, as) (b, bs).
     if sel_arg_type a \<noteq> sel_arg_type b \<or> part a \<noteq> part b then False
     else if sel_arg_type a \<noteq> KEY_RANGE then True
     else same_loop sel_cmp as bs)"

definition merge_flags :: "sel_arg \<Rightarrow> sel_arg \<Rightarrow> sel_arg" where
  "merge_flags a b = a\<lparr>maybe_flag := maybe_flag a OR maybe_flag b\<rparr>"

definition maybe_smaller :: "sel_arg \<Rightarrow> sel_arg" where
  "maybe_smaller a = a\<lparr>maybe_flag := 1\<rparr>"

definition is_null_interval :: "sel_arg \<Rightarrow> bool" where
  "is_null_interval a \<longleftrightarrow> maybe_null a \<and> hd (max_value a) = 1"

text \<open>The constructor with the part, the images and the flags of an interval over the field at hand.\<close>

type_synonym sel_new = "nat \<Rightarrow> image \<Rightarrow> image \<Rightarrow> u8 \<Rightarrow> u8 \<Rightarrow> u8 \<Rightarrow> sel_arg"

definition sel_new_ok :: "sel_new \<Rightarrow> bool" where
  "sel_new_ok new \<longleftrightarrow>
     (\<forall>p minv maxv minf maxf maybe.
        part (new p minv maxv minf maxf maybe) = p \<and>
        min_value (new p minv maxv minf maxf maybe) = minv \<and> max_value (new p minv maxv minf maxf maybe) = maxv \<and>
        min_flag (new p minv maxv minf maxf maybe) = minf \<and> max_flag (new p minv maxv minf maxf maybe) = maxf \<and>
        maybe_flag (new p minv maxv minf maxf maybe) = maybe)"

definition clone_and :: "sel_new \<Rightarrow> end_cmp \<Rightarrow> sel_arg \<Rightarrow> sel_arg \<Rightarrow> sel_arg" where
  "clone_and new sel_cmp a arg =
     (let (new_min, flag_min) =
            (if cmp_min_to_min sel_cmp a arg \<ge> 0 then (min_value a, min_flag a) else (min_value arg, min_flag arg));
          (new_max, flag_max) =
            (if cmp_max_to_max sel_cmp a arg \<le> 0 then (max_value a, max_flag a) else (max_value arg, max_flag arg))
      in new (part a) new_min new_max flag_min flag_max (if maybe_flag a \<noteq> 0 \<and> maybe_flag arg \<noteq> 0 then 1 else 0))"

definition clone_first :: "sel_new \<Rightarrow> sel_arg \<Rightarrow> sel_arg \<Rightarrow> sel_arg" where
  "clone_first new a arg =
     new (part a) (min_value a) (min_value arg) (min_flag a) (if has (min_flag arg) NEAR_MIN then 0 else NEAR_MAX)
       (maybe_flag a OR maybe_flag arg)"

definition clone_last :: "sel_new \<Rightarrow> sel_arg \<Rightarrow> sel_arg \<Rightarrow> sel_arg" where
  "clone_last new a arg =
     new (part a) (min_value a) (max_value arg) (min_flag a) (max_flag arg) (maybe_flag a OR maybe_flag arg)"

text \<open>\<open>copy_min\<close> and \<open>copy_max\<close> report whether the interval has become the full range.\<close>

definition copy_min :: "end_cmp \<Rightarrow> sel_arg \<Rightarrow> sel_arg \<Rightarrow> bool \<times> sel_arg" where
  "copy_min sel_cmp a arg =
     (let b = (if cmp_min_to_min sel_cmp a arg > 0 then a\<lparr>min_value := min_value arg, min_flag := min_flag arg\<rparr> else a)
      in if cmp_min_to_min sel_cmp a arg > 0 \<and> max_flag b AND (NO_MAX_RANGE OR NO_MIN_RANGE) = (NO_MAX_RANGE OR NO_MIN_RANGE)
         then (True, b)
         else (False, b\<lparr>maybe_flag := maybe_flag b OR maybe_flag arg\<rparr>))"

definition copy_max :: "end_cmp \<Rightarrow> sel_arg \<Rightarrow> sel_arg \<Rightarrow> bool \<times> sel_arg" where
  "copy_max sel_cmp a arg =
     (let b = (if cmp_max_to_max sel_cmp a arg \<le> 0 then a\<lparr>max_value := max_value arg, max_flag := max_flag arg\<rparr> else a)
      in if cmp_max_to_max sel_cmp a arg \<le> 0 \<and> max_flag b AND (NO_MAX_RANGE OR NO_MIN_RANGE) = (NO_MAX_RANGE OR NO_MIN_RANGE)
         then (True, b)
         else (False, b\<lparr>maybe_flag := maybe_flag b OR maybe_flag arg\<rparr>))"

definition copy_min_to_min :: "sel_arg \<Rightarrow> sel_arg \<Rightarrow> sel_arg" where
  "copy_min_to_min a arg = a\<lparr>min_value := min_value arg, min_flag := min_flag arg\<rparr>"

definition copy_min_to_max :: "sel_arg \<Rightarrow> sel_arg \<Rightarrow> sel_arg" where
  "copy_min_to_max a arg = a\<lparr>max_value := min_value arg, max_flag := (if has (min_flag arg) NEAR_MIN then 0 else NEAR_MAX)\<rparr>"

definition copy_max_to_min :: "sel_arg \<Rightarrow> sel_arg \<Rightarrow> sel_arg" where
  "copy_max_to_min a arg = a\<lparr>min_value := max_value arg, min_flag := (if has (max_flag arg) NEAR_MAX then 0 else NEAR_MIN)\<rparr>"

text \<open>\<open>is_singlepoint\<close>; \<open>key_cmp\<close> of the field is a parameter.\<close>

definition is_singlepoint :: "(image \<Rightarrow> image \<Rightarrow> int) \<Rightarrow> sel_arg \<Rightarrow> bool" where
  "is_singlepoint key_cmp a \<longleftrightarrow>
     (if min_flag a \<noteq> 0 \<or> max_flag a \<noteq> 0 then False
      else if maybe_null a
      then (if hd (min_value a) \<noteq> hd (max_value a) then False
            else if hd (min_value a) \<noteq> 0 then True
            else key_cmp (tl (min_value a)) (tl (max_value a)) = 0)
      else key_cmp (min_value a) (max_value a) = 0)"

section \<open>Positions of end points\<close>

datatype nearness = Below | At | Above

instantiation nearness :: linorder
begin

definition less_eq_nearness :: "nearness \<Rightarrow> nearness \<Rightarrow> bool" where
  "a \<le> b \<longleftrightarrow> a = Below \<or> b = Above \<or> a = b"

definition less_nearness :: "nearness \<Rightarrow> nearness \<Rightarrow> bool" where
  "a < b \<longleftrightarrow> a \<le> b \<and> a \<noteq> (b :: nearness)"

instance
proof
  fix a b c :: nearness
  show "a < b \<longleftrightarrow> a \<le> b \<and> \<not> b \<le> a" by (cases a; cases b) (simp_all add: less_eq_nearness_def less_nearness_def)
  show "a \<le> a" by (simp add: less_eq_nearness_def)
  show "a \<le> b \<Longrightarrow> b \<le> c \<Longrightarrow> a \<le> c" by (cases a; cases b; cases c) (simp_all add: less_eq_nearness_def)
  show "a \<le> b \<Longrightarrow> b \<le> a \<Longrightarrow> a = b" by (cases a; cases b) (simp_all add: less_eq_nearness_def)
  show "a \<le> b \<or> b \<le> a" by (cases a; cases b) (simp_all add: less_eq_nearness_def)
qed

end

text \<open>An end point lies below all values, just below, at or just above a value, or above all values.\<close>

datatype 'v bound = NoMin | Pos 'v nearness | NoMax

instantiation bound :: (linorder) linorder
begin

definition less_eq_bound :: "'a bound \<Rightarrow> 'a bound \<Rightarrow> bool" where
  "a \<le> b \<longleftrightarrow> (case a of NoMin \<Rightarrow> True | NoMax \<Rightarrow> b = NoMax
     | Pos v n \<Rightarrow> (case b of NoMin \<Rightarrow> False | NoMax \<Rightarrow> True | Pos w k \<Rightarrow> v < w \<or> v = w \<and> n \<le> k))"

definition less_bound :: "'a bound \<Rightarrow> 'a bound \<Rightarrow> bool" where
  "a < b \<longleftrightarrow> a \<le> b \<and> a \<noteq> (b :: 'a bound)"

instance
proof
  fix a b c :: "'a bound"
  show "a < b \<longleftrightarrow> a \<le> b \<and> \<not> b \<le> a" by (cases a; cases b) (auto simp: less_eq_bound_def less_bound_def)
  show "a \<le> a" by (cases a) (simp_all add: less_eq_bound_def)
  show "a \<le> b \<Longrightarrow> b \<le> c \<Longrightarrow> a \<le> c" by (cases a; cases b; cases c) (auto simp: less_eq_bound_def)
  show "a \<le> b \<Longrightarrow> b \<le> a \<Longrightarrow> a = b" by (cases a; cases b) (auto simp: less_eq_bound_def)
  show "a \<le> b \<or> b \<le> a" by (cases a; cases b) (auto simp: less_eq_bound_def)
qed

end

definition position :: "(image \<Rightarrow> 'v) \<Rightarrow> image \<Rightarrow> u8 \<Rightarrow> 'v bound" where
  "position key v f =
     (if has f NO_MIN_RANGE then NoMin else if has f NO_MAX_RANGE then NoMax
      else Pos (key v) (if has f NEAR_MIN then Above else if has f NEAR_MAX then Below else At))"

definition sel_cmp_ok :: "(image \<Rightarrow> 'v::linorder) \<Rightarrow> end_cmp \<Rightarrow> bool" where
  "sel_cmp_ok key sel_cmp \<longleftrightarrow>
     (\<forall>a b fa fb. sgn (sel_cmp a b fa fb) =
        (if position key a fa < position key b fb then - 1 else if position key a fa = position key b fb then 0 else 1))"

text \<open>The values in an interval, as the header describes the flags.\<close>

definition sel_range :: "(image \<Rightarrow> 'v::linorder) \<Rightarrow> sel_arg \<Rightarrow> 'v set" where
  "sel_range key a =
     {x. (has (min_flag a) NO_MIN_RANGE \<or> (if has (min_flag a) NEAR_MIN then key (min_value a) < x else key (min_value a) \<le> x)) \<and>
         (has (max_flag a) NO_MAX_RANGE \<or> (if has (max_flag a) NEAR_MAX then x < key (max_value a) else x \<le> key (max_value a)))}"

text \<open>The flags of each end concern that end only.\<close>

definition flags_ok :: "sel_arg \<Rightarrow> bool" where
  "flags_ok a \<longleftrightarrow> \<not> has (min_flag a) NO_MAX_RANGE \<and> \<not> has (min_flag a) NEAR_MAX \<and>
     \<not> has (max_flag a) NO_MIN_RANGE \<and> \<not> has (max_flag a) NEAR_MIN"

abbreviation lo :: "(image \<Rightarrow> 'v) \<Rightarrow> sel_arg \<Rightarrow> 'v bound" where "lo key a \<equiv> position key (min_value a) (min_flag a)"
abbreviation hi :: "(image \<Rightarrow> 'v) \<Rightarrow> sel_arg \<Rightarrow> 'v bound" where "hi key a \<equiv> position key (max_value a) (max_flag a)"

lemma bound_le [simp]:
  "Pos v n \<le> Pos w k \<longleftrightarrow> v < w \<or> v = w \<and> n \<le> k" "NoMin \<le> b" "b \<le> NoMax" "\<not> Pos v n \<le> NoMin" "\<not> NoMax \<le> Pos v n"
  "At \<le> Above" "Below \<le> At" "\<not> Above \<le> At" "\<not> At \<le> Below" for v w :: "'v::linorder"
  by (auto simp: less_eq_bound_def less_eq_nearness_def split: bound.splits)

lemma sel_range_bounds: "flags_ok a \<Longrightarrow> sel_range key a = {x. lo key a \<le> Pos x At \<and> Pos x At \<le> hi key a}"
  by (auto simp: sel_range_def position_def flags_ok_def)

lemma sel_cmp_sign:
  assumes "sel_cmp_ok key sel_cmp"
  shows "sel_cmp a b fa fb < 0 \<longleftrightarrow> position key a fa < position key b fb" "sel_cmp a b fa fb \<le> 0 \<longleftrightarrow> position key a fa \<le> position key b fb"
    "sel_cmp a b fa fb > 0 \<longleftrightarrow> position key b fb < position key a fa" "sel_cmp a b fa fb \<ge> 0 \<longleftrightarrow> position key b fb \<le> position key a fa"
    "sel_cmp a b fa fb = 0 \<longleftrightarrow> position key a fa = position key b fb"
  using assms unfolding sel_cmp_ok_def
  by (metis (no_types, opaque_lifting) linorder_neqE not_less_iff_gr_or_eq sgn_less sgn_greater sgn_0_0 zero_less_one neg_less_0_iff_less less_le_not_le linorder_not_le)+

lemma has_simps [simp]:
  "has (0 :: u8) k = False" "has (8 :: u8) 8" "\<not> has (8 :: u8) 1" "\<not> has (8 :: u8) 2" "\<not> has (8 :: u8) 4"
  "has (4 :: u8) 4" "\<not> has (4 :: u8) 1" "\<not> has (4 :: u8) 2" "\<not> has (4 :: u8) 8"
  by (simp_all add: has_def)

lemma flags_clone:
  assumes "flags_ok a" and "flags_ok b" and "sel_new_ok new"
  shows "flags_ok (clone_and new sel_cmp a b)" "flags_ok (clone_first new a b)" "flags_ok (clone_last new a b)" "flags_ok (copy_min_to_min a b)"
    "flags_ok (copy_min_to_max a b)" "flags_ok (copy_max_to_min a b)"
  using assms by (simp_all add: flags_ok_def clone_and_def clone_first_def clone_last_def copy_min_to_min_def copy_min_to_max_def
    copy_max_to_min_def sel_new_ok_def Let_def split: prod.splits)

lemma clone_and_ends:
  assumes "sel_cmp_ok key sel_cmp" and "sel_new_ok new"
  shows "lo key (clone_and new sel_cmp a b) = max (lo key a) (lo key b)" "hi key (clone_and new sel_cmp a b) = min (hi key a) (hi key b)"
  using sel_cmp_sign [OF assms(1)] assms(2)
  by (auto simp: clone_and_def sel_new_ok_def cmp_min_to_min_def cmp_max_to_max_def max_def min_def)

text \<open>The end made from the start of another interval is the complement of that start, and the other way round.\<close>

lemma from_start:
  assumes "flags_ok b" and "\<not> has (min_flag b) NO_MIN_RANGE"
  shows "Pos x At \<le> position key (min_value b) (if has (min_flag b) NEAR_MIN then 0 else NEAR_MAX) \<longleftrightarrow> \<not> lo key b \<le> Pos x At"
  using assms by (auto simp: position_def flags_ok_def)

lemma from_end:
  assumes "flags_ok b" and "\<not> has (max_flag b) NO_MAX_RANGE"
  shows "position key (max_value b) (if has (max_flag b) NEAR_MAX then 0 else NEAR_MIN) \<le> Pos x At \<longleftrightarrow> \<not> Pos x At \<le> hi key b"
  using assms by (auto simp: position_def flags_ok_def)

definition before :: "(image \<Rightarrow> 'v::linorder) \<Rightarrow> sel_arg \<Rightarrow> 'v \<Rightarrow> bool" where
  "before key b x \<longleftrightarrow>
     \<not> has (min_flag b) NO_MIN_RANGE \<and> (if has (min_flag b) NEAR_MIN then x \<le> key (min_value b) else x < key (min_value b))"

definition beyond :: "(image \<Rightarrow> 'v::linorder) \<Rightarrow> sel_arg \<Rightarrow> 'v \<Rightarrow> bool" where
  "beyond key b x \<longleftrightarrow>
     \<not> has (max_flag b) NO_MAX_RANGE \<and> (if has (max_flag b) NEAR_MAX then key (max_value b) \<le> x else key (max_value b) < x)"

lemma before_beyond:
  "flags_ok b \<Longrightarrow> before key b x \<longleftrightarrow> \<not> lo key b \<le> Pos x At" "flags_ok b \<Longrightarrow> beyond key b x \<longleftrightarrow> \<not> Pos x At \<le> hi key b"
  by (auto simp: before_def beyond_def position_def flags_ok_def)

lemma clone_ends:
  assumes "sel_new_ok new"
  shows "lo key (clone_first new a b) = lo key a" "hi key (clone_first new a b) = position key (min_value b) (if has (min_flag b) NEAR_MIN then 0 else NEAR_MAX)"
  "lo key (clone_last new a b) = lo key a" "hi key (clone_last new a b) = hi key b"
  "lo key (copy_min_to_min a b) = lo key b" "hi key (copy_min_to_min a b) = hi key a"
  "lo key (copy_max_to_min a b) = position key (max_value b) (if has (max_flag b) NEAR_MAX then 0 else NEAR_MIN)"
  "hi key (copy_max_to_min a b) = hi key a"
  using assms by (simp_all add: clone_first_def clone_last_def copy_min_to_min_def copy_max_to_min_def sel_new_ok_def)

lemma cut_at_start:
  assumes "flags_ok a" and "flags_ok b" and "sel_new_ok new" and "lo key a < lo key b" and "lo key b \<le> hi key a"
  shows "sel_range key (clone_first new a b) = {x \<in> sel_range key a. before key b x}"
    and "sel_range key (copy_min_to_min a b) = {x \<in> sel_range key a. \<not> before key b x}"
proof -
  have "\<not> has (min_flag b) NO_MIN_RANGE"
  proof
    assume "has (min_flag b) NO_MIN_RANGE"
    then have "lo key b = NoMin" by (simp add: position_def)
    then show False using assms(4) by (metis bound_le(2) less_le_not_le)
  qed
  note fs = from_start [OF assms(2) this]
  show "sel_range key (clone_first new a b) = {x \<in> sel_range key a. before key b x}"
    unfolding sel_range_bounds [OF assms(1)] sel_range_bounds [OF flags_clone(2) [OF assms(1-3)]] before_beyond(1) [OF assms(2)] clone_ends [OF assms(3)] fs
    using assms(5) by (auto intro: order.trans less_imp_le simp: not_le)
  show "sel_range key (copy_min_to_min a b) = {x \<in> sel_range key a. \<not> before key b x}"
    unfolding sel_range_bounds [OF assms(1)] sel_range_bounds [OF flags_clone(4) [OF assms(1-3)]] before_beyond(1) [OF assms(2)] clone_ends [OF assms(3)]
    using assms(4) by auto
qed

lemma cut_at_end:
  assumes "flags_ok a" and "flags_ok b" and "sel_new_ok new" and "hi key b < hi key a" and "lo key a \<le> hi key b"
  shows "sel_range key (copy_max_to_min a b) = {x \<in> sel_range key a. beyond key b x}"
    and "sel_range key (clone_last new a b) = {x \<in> sel_range key a. \<not> beyond key b x}"
proof -
  have "\<not> has (max_flag b) NO_MAX_RANGE"
  proof
    assume "has (max_flag b) NO_MAX_RANGE"
    then have "hi key b = NoMax" using assms(2) by (simp add: position_def flags_ok_def)
    then show False using assms(4) by (metis bound_le(3) less_le_not_le)
  qed
  note fe = from_end [OF assms(2) this]
  show "sel_range key (copy_max_to_min a b) = {x \<in> sel_range key a. beyond key b x}"
    unfolding sel_range_bounds [OF assms(1)] sel_range_bounds [OF flags_clone(6) [OF assms(1-3)]] before_beyond(2) [OF assms(2)] clone_ends [OF assms(3)] fe
    using assms(5) by (auto intro: order.trans less_imp_le simp: not_le)
  show "sel_range key (clone_last new a b) = {x \<in> sel_range key a. \<not> beyond key b x}"
    unfolding sel_range_bounds [OF assms(1)] sel_range_bounds [OF flags_clone(3) [OF assms(1-3)]] before_beyond(2) [OF assms(2)] clone_ends [OF assms(3)]
    using assms(4) by auto
qed

text \<open>
  Property C14: the algebra of intervals. \<open>clone_and\<close> is the intersection. When an interval starts before
  another one and reaches it, \<open>clone_first\<close> and \<open>copy_min_to_min\<close> cut it at that start; when it ends after
  the other one and reaches it, \<open>clone_last\<close> and \<open>copy_max_to_min\<close> cut it at that end, open and closed ends
  included; the pieces keep the part. \<open>is_same\<close> holds for two key ranges exactly when they concern the same
  part and both ends lie at the same position, and then they contain the same values.
\<close>

theorem interval_algebra:
  assumes "sel_cmp_ok key sel_cmp" and "flags_ok a" and "flags_ok b" and "sel_new_ok new"
  shows "sel_range key (clone_and new sel_cmp a b) = sel_range key a \<inter> sel_range key b \<and>
    (cmp_min_to_min sel_cmp a b < 0 \<and> cmp_max_to_min sel_cmp a b \<ge> 0 \<longrightarrow>
       sel_range key (clone_first new a b) = {x \<in> sel_range key a. before key b x} \<and>
       sel_range key (copy_min_to_min a b) = {x \<in> sel_range key a. \<not> before key b x}) \<and>
    (cmp_max_to_max sel_cmp a b > 0 \<and> cmp_min_to_max sel_cmp a b \<le> 0 \<longrightarrow>
       sel_range key (copy_max_to_min a b) = {x \<in> sel_range key a. beyond key b x} \<and>
       sel_range key (clone_last new a b) = {x \<in> sel_range key a. \<not> beyond key b x}) \<and>
    part (clone_and new sel_cmp a b) = part a \<and> part (clone_first new a b) = part a \<and> part (clone_last new a b) = part a \<and>
    (sel_arg_type a = KEY_RANGE \<and> sel_arg_type b = KEY_RANGE \<longrightarrow>
       (is_same sel_cmp a b \<longleftrightarrow> part a = part b \<and> lo key a = lo key b \<and> hi key a = hi key b) \<and>
       (is_same sel_cmp a b \<longrightarrow> sel_range key a = sel_range key b))"
proof (intro conjI impI)
  note s = sel_cmp_sign [OF assms(1)]
  show "sel_range key (clone_and new sel_cmp a b) = sel_range key a \<inter> sel_range key b"
    unfolding sel_range_bounds [OF assms(2)] sel_range_bounds [OF assms(3)] sel_range_bounds [OF flags_clone(1) [OF assms(2-4)]]
      clone_and_ends [OF assms(1,4)] by auto
  show "sel_range key (clone_first new a b) = {x \<in> sel_range key a. before key b x}"
    and "sel_range key (copy_min_to_min a b) = {x \<in> sel_range key a. \<not> before key b x}"
    if "cmp_min_to_min sel_cmp a b < 0 \<and> cmp_max_to_min sel_cmp a b \<ge> 0"
    using that cut_at_start [OF assms(2-4), of key] by (simp_all add: cmp_min_to_min_def cmp_max_to_min_def s)
  show "sel_range key (copy_max_to_min a b) = {x \<in> sel_range key a. beyond key b x}"
    and "sel_range key (clone_last new a b) = {x \<in> sel_range key a. \<not> beyond key b x}"
    if "cmp_max_to_max sel_cmp a b > 0 \<and> cmp_min_to_max sel_cmp a b \<le> 0"
    using that cut_at_end [OF assms(2-4), of key] by (simp_all add: cmp_max_to_max_def cmp_min_to_max_def s)
  show "part (clone_and new sel_cmp a b) = part a" "part (clone_first new a b) = part a" "part (clone_last new a b) = part a"
    using assms(4) by (auto simp: clone_and_def clone_first_def clone_last_def sel_new_ok_def Let_def split: prod.splits)
  assume key: "sel_arg_type a = KEY_RANGE \<and> sel_arg_type b = KEY_RANGE"
  then show same: "is_same sel_cmp a b \<longleftrightarrow> part a = part b \<and> lo key a = lo key b \<and> hi key a = hi key b"
    by (simp add: is_same_def cmp_min_to_min_def cmp_max_to_max_def s)
  show "sel_range key a = sel_range key b" if "is_same sel_cmp a b"
    using that same by (simp add: sel_range_bounds [OF assms(2)] sel_range_bounds [OF assms(3)])
qed

section \<open>Widening an interval\<close>

lemma full_flag: "\<not> has f NO_MIN_RANGE \<Longrightarrow> f AND (NO_MAX_RANGE OR NO_MIN_RANGE) \<noteq> (NO_MAX_RANGE OR NO_MIN_RANGE)" for f :: u8
proof
  assume f: "\<not> has f NO_MIN_RANGE" and "f AND (NO_MAX_RANGE OR NO_MIN_RANGE) = (NO_MAX_RANGE OR NO_MIN_RANGE)"
  then have "(f AND 3) AND 1 = (1 :: u8)" by simp
  then have "f AND 1 = 1" by (simp add: and.assoc)
  then show False using f by (simp add: has_def)
qed

lemma copy_ends:
  assumes "sel_cmp_ok key sel_cmp"
  shows "lo key (snd (copy_min sel_cmp a b)) = min (lo key a) (lo key b)" "hi key (snd (copy_min sel_cmp a b)) = hi key a"
    "lo key (snd (copy_max sel_cmp a b)) = lo key a" "hi key (snd (copy_max sel_cmp a b)) = max (hi key a) (hi key b)"
  using sel_cmp_sign [OF assms]
  by (auto simp: copy_min_def copy_max_def cmp_min_to_min_def cmp_max_to_max_def Let_def max_def min_def)

lemma copy_flags:
  assumes "flags_ok a" and "flags_ok b"
  shows "flags_ok (snd (copy_min sel_cmp a b))" "flags_ok (snd (copy_max sel_cmp a b))"
    "\<not> fst (copy_min sel_cmp a b)" "\<not> fst (copy_max sel_cmp a b)"
  using assms full_flag [of "max_flag a"] full_flag [of "max_flag b"]
  by (auto simp: copy_min_def copy_max_def flags_ok_def Let_def)

text \<open>
  \<open>copy_min\<close> and \<open>copy_max\<close> widen an interval to the smaller start or the larger end of the two.
  They are to return 1 when the result is the full range, but they look for both missing-end
  flags in \<open>max_flag\<close>, so they return 0 always, also when the result has neither end.
\<close>

theorem copy_never_full:
  assumes "sel_cmp_ok key sel_cmp" and "flags_ok a" and "flags_ok b"
  shows "sel_range key (snd (copy_min sel_cmp a b)) = {x. (\<not> before key a x \<or> \<not> before key b x) \<and> \<not> beyond key a x} \<and>
    sel_range key (snd (copy_max sel_cmp a b)) = {x. \<not> before key a x \<and> (\<not> beyond key a x \<or> \<not> beyond key b x)} \<and>
    \<not> fst (copy_min sel_cmp a b) \<and> \<not> fst (copy_max sel_cmp a b)"
  using copy_flags [OF assms(2,3), of sel_cmp]
  by (auto simp: before_beyond [OF assms(2)] before_beyond [OF assms(3)] sel_range_bounds [OF copy_flags(1) [OF assms(2,3)]] sel_range_bounds [OF copy_flags(2) [OF assms(2,3)]]
    copy_ends [OF assms(1)] min_le_iff_disj le_max_iff_disj)

text \<open>A comparison by position, for images of one byte.\<close>

definition byte_key :: "nat \<Rightarrow> image \<Rightarrow> nat" where
  "byte_key p v = (case v of [] \<Rightarrow> 0 | b # bs \<Rightarrow> unat b)"

definition closed :: "nat \<Rightarrow> u8 \<Rightarrow> u8 \<Rightarrow> sel_arg" where
  "closed p l h = \<lparr>min_flag = 0, max_flag = 0, maybe_flag = 0, part = p, maybe_null = False, min_value = [l], max_value = [h], sel_arg_type = KEY_RANGE\<rparr>"

definition position_cmp :: "(image \<Rightarrow> 'v::linorder) \<Rightarrow> end_cmp" where
  "position_cmp key a b fa fb =
     (if position key a fa < position key b fb then - 1 else if position key a fa = position key b fb then 0 else 1)"

lemma position_cmp_ok: "sel_cmp_ok key (position_cmp key)"
  by (simp add: sel_cmp_ok_def position_cmp_def)

lemma closed_range: "sel_range (byte_key p) (closed p l h) = {unat l..unat h}"
  by (auto simp: sel_range_def closed_def byte_key_def)

lemma closed_ok: "flags_ok (closed p l h)" "part (closed p l h) = p" "\<not> has (min_flag (closed p l h)) GEOM_FLAG"
  by (simp_all add: flags_ok_def closed_def)

definition plain_new :: sel_new where
  "plain_new p minv maxv minf maxf maybe =
     \<lparr>min_flag = minf, max_flag = maxf, maybe_flag = maybe, part = p, maybe_null = False, min_value = minv, max_value = maxv, sel_arg_type = KEY_RANGE\<rparr>"

lemma plain_new_ok: "sel_new_ok plain_new"
  by (simp add: sel_new_ok_def plain_new_def)

theorem interval_algebra_witness:
  "sel_range (byte_key 0) (clone_and plain_new (position_cmp (byte_key 0)) (closed 0 1 5) (closed 0 3 9)) = {3..5} \<and>
   sel_range (byte_key 0) (clone_first plain_new (closed 0 1 5) (closed 0 3 9)) = {1..<3}"
proof -
  have "cmp_min_to_min (position_cmp (byte_key 0)) (closed 0 1 5) (closed 0 3 9) < 0" "cmp_max_to_min (position_cmp (byte_key 0)) (closed 0 1 5) (closed 0 3 9) \<ge> 0"
    by (simp_all add: cmp_min_to_min_def cmp_max_to_min_def position_cmp_def position_def closed_def byte_key_def less_bound_def)
  note alg = interval_algebra [OF position_cmp_ok [of "byte_key 0"] closed_ok(1) [of 0 1 5] closed_ok(1) [of 0 3 9] plain_new_ok]
  have "sel_range (byte_key 0) (clone_and plain_new (position_cmp (byte_key 0)) (closed 0 1 5) (closed 0 3 9)) = {unat (1 :: u8)..unat (5 :: u8)} \<inter> {unat (3 :: u8)..unat (9 :: u8)}"
    using conjunct1 [OF alg] unfolding closed_range .
  moreover have "sel_range (byte_key 0) (clone_first plain_new (closed 0 1 5) (closed 0 3 9)) =
      {x \<in> {unat (1 :: u8)..unat (5 :: u8)}. before (byte_key 0) (closed 0 3 9) x}"
    using conjunct1 [OF mp [OF conjunct1 [OF conjunct2 [OF alg]] conjI [OF \<open>cmp_min_to_min _ _ _ < 0\<close> \<open>cmp_max_to_min _ _ _ \<ge> 0\<close>]]] unfolding closed_range .
  moreover have "before (byte_key 0) (closed 0 3 9) x \<longleftrightarrow> x < 3" for x by (simp add: before_def closed_def byte_key_def)
  ultimately show ?thesis by auto
qed

text \<open>\<open>x >= 3\<close> widened by \<open>x <= 9\<close> is the full range, and the result is 0.\<close>

theorem copy_never_full_witness:
  "sel_range (byte_key 0) (snd (copy_min (position_cmp (byte_key 0)) ((closed 0 3 0)\<lparr>max_flag := NO_MAX_RANGE\<rparr>) ((closed 0 0 9)\<lparr>min_flag := NO_MIN_RANGE\<rparr>))) = UNIV \<and>
   \<not> fst (copy_min (position_cmp (byte_key 0)) ((closed 0 3 0)\<lparr>max_flag := NO_MAX_RANGE\<rparr>) ((closed 0 0 9)\<lparr>min_flag := NO_MIN_RANGE\<rparr>))"
proof -
  let ?a = "(closed 0 3 0)\<lparr>max_flag := NO_MAX_RANGE\<rparr>" and ?b = "(closed 0 0 9)\<lparr>min_flag := NO_MIN_RANGE\<rparr>"
  have "flags_ok ?a" "flags_ok ?b" by (simp_all add: flags_ok_def closed_def has_def)
  from copy_never_full [OF position_cmp_ok [of "byte_key 0"] this]
  show ?thesis by (simp add: before_def beyond_def closed_def has_def)
qed

end
