(* ===== verification/SelKeys.thy ===== *)
theory SelKeys
  imports SelArg
begin

text \<open>
  The keys of multi-part ranges in \<open>opt_range.h\<close>: storing the ends of intervals into a key buffer,
  descending key parts, and the recursion over the graph of intervals. A graph selects tuples of
  values, one per key part; the stored keys are compared with the tuples it selects.
\<close>

section \<open>Storing the ends of ranges\<close>

record key_part =
  kp_key :: nat
  kp_part :: nat
  store_length :: nat
  kp_length :: nat
  null_bit :: u8
  kp_flag :: u8

definition reverse_sort :: "(nat \<Rightarrow> key_part) \<Rightarrow> nat \<Rightarrow> bool" where
  "reverse_sort kp p \<longleftrightarrow> has (kp_flag (kp p)) 128"

definition stored_image :: "nat \<Rightarrow> bool \<Rightarrow> image \<Rightarrow> image" where
  "stored_image len nullable v = (if nullable \<and> hd v \<noteq> 0 then 1 # replicate (len - 1) 0 else take len v)"

text \<open>\<open>store_min\<close> and \<open>store_max\<close> append to the key buffer and return the number of key parts stored.\<close>

definition store_min :: "nat \<Rightarrow> sel_arg \<Rightarrow> image \<Rightarrow> u32 \<Rightarrow> nat \<times> image" where
  "store_min len a min_key min_key_flag =
     (if has (min_flag a) GEOM_FLAG \<or> \<not> has (min_flag a) NO_MIN_RANGE \<and> \<not> has min_key_flag (NO_MIN_RANGE OR NEAR_MIN)
      then (1, min_key @ stored_image len (maybe_null a) (min_value a)) else (0, min_key))"

definition store_max :: "nat \<Rightarrow> sel_arg \<Rightarrow> image \<Rightarrow> u32 \<Rightarrow> nat \<times> image" where
  "store_max len a max_key max_key_flag =
     (if \<not> has (max_flag a) NO_MAX_RANGE \<and> \<not> has max_key_flag (NO_MAX_RANGE OR NEAR_MAX)
      then (1, max_key @ stored_image len (maybe_null a) (max_value a)) else (0, max_key))"

definition store_min_max ::
    "(nat \<Rightarrow> key_part) \<Rightarrow> nat \<Rightarrow> sel_arg \<Rightarrow> image \<Rightarrow> u32 \<Rightarrow> image \<Rightarrow> u32 \<Rightarrow> (nat \<times> image) \<times> (nat \<times> image)" where
  "store_min_max kp len a min_key minf max_key maxf =
     (if reverse_sort kp (part a) then (store_max len a min_key maxf, store_min len a max_key minf)
      else (store_min len a min_key minf, store_max len a max_key maxf))"

definition get_min_flag :: "(nat \<Rightarrow> key_part) \<Rightarrow> sel_arg \<Rightarrow> u32" where
  "get_min_flag kp a = (if reverse_sort kp (part a) then invert_max_flag (ucast (max_flag a)) else ucast (min_flag a))"

definition get_max_flag :: "(nat \<Rightarrow> key_part) \<Rightarrow> sel_arg \<Rightarrow> u32" where
  "get_max_flag kp a = (if reverse_sort kp (part a) then invert_min_flag (ucast (min_flag a)) else ucast (max_flag a))"

text \<open>
  The graph below an interval list, with shared parts written out: the type and key part of its
  root and its intervals in order, each with the interval list of the next key part, if any.
\<close>

datatype sel_tree = Sel (root_type: sel_type) (root_part: nat) (intervals: "(sel_arg \<times> sel_tree option) list")

lemma next_smaller [termination_simp]: "(a, Some t) \<in> set ns \<Longrightarrow> size t < size (Sel ty p ns)"
proof (induction ns)
  case (Cons n ns)
  then show ?case by (cases n) auto
qed simp

lemma next_in_first: "intervals t = (a, Some n) # rest \<Longrightarrow> size n < size t"
  by (cases t) (simp add: next_smaller)

lemma next_in_last: "rev (intervals t) = (a, Some n) # rest \<Longrightarrow> size n < size t"
proof (cases t)
  case (Sel ty p ns)
  assume "rev (intervals t) = (a, Some n) # rest"
  then have "(a, Some n) \<in> set ns" using Sel by (metis list.set_intros(1) sel_tree.sel(3) set_rev)
  then show ?thesis using Sel next_smaller by simp
qed

function store_min_key :: "(nat \<Rightarrow> key_part) \<Rightarrow> nat \<Rightarrow> bool \<Rightarrow> sel_tree \<Rightarrow> image \<Rightarrow> u32 \<Rightarrow> nat \<times> image \<times> u32"
  and store_max_key :: "(nat \<Rightarrow> key_part) \<Rightarrow> nat \<Rightarrow> bool \<Rightarrow> sel_tree \<Rightarrow> image \<Rightarrow> u32 \<Rightarrow> nat \<times> image \<times> u32" where
  "store_min_key kp last_part start_key t buf flag =
     (case intervals t of
        [] \<Rightarrow> (0, buf, flag)
      | (a, nkp) # rest \<Rightarrow>
          case store_min (store_length (kp (part a))) a buf flag of (res, buf) \<Rightarrow>
          if res = 0 then (0, buf, flag)
          else let flag = flag OR ucast (min_flag a)
               in case nkp of
                    None \<Rightarrow> (res, buf, flag)
                  | Some n \<Rightarrow>
                      if root_type n = KEY_RANGE \<and> part a \<noteq> last_part \<and> root_part n = part a + 1 \<and> \<not> has flag (NO_MIN_RANGE OR NEAR_MIN)
                      then let asc = \<not> reverse_sort kp (part a)
                           in if start_key = asc
                              then (case store_min_key kp last_part start_key n buf flag of (r, buf, flag) \<Rightarrow> (res + r, buf, flag))
                              else (case store_max_key kp last_part start_key n buf (invert_min_flag flag) of
                                      (r, buf, tmp_flag) \<Rightarrow> (res + r, buf, invert_max_flag tmp_flag))
                      else (res, buf, flag))"
| "store_max_key kp last_part start_key t buf flag =
     (case rev (intervals t) of
        [] \<Rightarrow> (0, buf, flag)
      | (a, nkp) # rest \<Rightarrow>
          case store_max (store_length (kp (part a))) a buf flag of (res, buf) \<Rightarrow>
          if res = 0 then (0, buf, flag)
          else let flag = flag OR ucast (max_flag a)
               in case nkp of
                    None \<Rightarrow> (res, buf, flag)
                  | Some n \<Rightarrow>
                      if root_type n = KEY_RANGE \<and> part a \<noteq> last_part \<and> root_part n = part a + 1 \<and> \<not> has flag (NO_MAX_RANGE OR NEAR_MAX)
                      then let asc = \<not> reverse_sort kp (part a)
                           in if \<not> start_key \<and> asc \<or> start_key \<and> \<not> asc
                              then (case store_max_key kp last_part start_key n buf flag of (r, buf, flag) \<Rightarrow> (res + r, buf, flag))
                              else (case store_min_key kp last_part start_key n buf (invert_max_flag flag) of
                                      (r, buf, tmp_flag) \<Rightarrow> (res + r, buf, invert_min_flag tmp_flag))
                      else (res, buf, flag))"
  by pat_completeness auto

termination
  by (relation "measure (\<lambda>x. case x of Inl (kp, l, s, t, b, f) \<Rightarrow> size t | Inr (kp, l, s, t, b, f) \<Rightarrow> size t)")
    (auto simp: next_in_first next_in_last)

declare store_min_key.simps [simp del] store_max_key.simps [simp del]

section \<open>What the stored keys bound\<close>

lemma has_bits: "has f k \<longleftrightarrow> (\<exists>n. bit f n \<and> bit k n)"
  by (auto simp: has_def bit_eq_iff bit_and_iff dest: bit_imp_le_length)

lemma has_or [simp]: "has (f OR g) k \<longleftrightarrow> has f k \<or> has g k" "has f (k OR l) \<longleftrightarrow> has f k \<or> has f l"
  by (auto simp: has_bits bit_or_iff)

lemma has_two [simp]: "has f 5 \<longleftrightarrow> has f NO_MIN_RANGE \<or> has f NEAR_MIN" "has f 10 \<longleftrightarrow> has f NO_MAX_RANGE \<or> has f NEAR_MAX" for f :: u32
  using has_or(2) [of f 1 4] has_or(2) [of f 2 8] by simp_all

lemma has_bit: "has (f :: 'a::len word) 1 \<longleftrightarrow> bit f 0" "has f 2 \<longleftrightarrow> bit f 1" "has f 4 \<longleftrightarrow> bit f 2" "has f 8 \<longleftrightarrow> bit f 3"
  using and_exp_eq_0_iff_not_bit [of f 0] and_exp_eq_0_iff_not_bit [of f 1] and_exp_eq_0_iff_not_bit [of f 2] and_exp_eq_0_iff_not_bit [of f 3]
  by (simp_all add: has_def)

lemma has_widen [simp]: "has (ucast f :: u32) 1 = has f 1" "has (ucast f :: u32) 2 = has f 2" "has (ucast f :: u32) 4 = has f 4"
    "has (ucast f :: u32) 8 = has f 8" for f :: u8
  by (simp_all add: has_bit bit_simps)

text \<open>The tuples of key values a graph selects, and well-formed graphs: ordered, disjoint, non-empty intervals over one key part.\<close>

inductive sat :: "(nat \<Rightarrow> image \<Rightarrow> 'v::linorder) \<Rightarrow> (nat \<Rightarrow> 'v) \<Rightarrow> sel_tree \<Rightarrow> bool" for key x where
  sat: "(a, n) \<in> set ns \<Longrightarrow> x (part a) \<in> sel_range (key (part a)) a \<Longrightarrow> (\<And>t. n = Some t \<Longrightarrow> root_type t = KEY_RANGE \<Longrightarrow> sat key x t) \<Longrightarrow>
    sat key x (Sel ty p ns)"

inductive_cases satE: "sat key x (Sel ty p ns)"

inductive tree_ok :: "(nat \<Rightarrow> image \<Rightarrow> 'v::linorder) \<Rightarrow> sel_tree \<Rightarrow> bool" for key where
  tree_ok: "ns \<noteq> [] \<Longrightarrow>
    sorted_wrt (\<lambda>u v. \<forall>x \<in> sel_range (key p) (fst u). \<forall>y \<in> sel_range (key p) (fst v). x < y) ns \<Longrightarrow>
    (\<And>a n. (a, n) \<in> set ns \<Longrightarrow> part a = p \<and> flags_ok a \<and> \<not> has (min_flag a) GEOM_FLAG \<and> sel_range (key p) a \<noteq> {}) \<Longrightarrow>
    (\<And>a t. (a, Some t) \<in> set ns \<Longrightarrow> tree_ok key t) \<Longrightarrow>
    tree_ok key (Sel ty p ns)"

text \<open>A tuple at or after the key made of the starts of some intervals, in the order of the key parts; strictly after it for an open start.\<close>

fun after_key :: "(nat \<Rightarrow> image \<Rightarrow> 'v::linorder) \<Rightarrow> bool \<Rightarrow> (nat \<Rightarrow> 'v) \<Rightarrow> sel_arg list \<Rightarrow> bool" where
  "after_key key strict x [] \<longleftrightarrow> \<not> strict"
| "after_key key strict x (a # as) \<longleftrightarrow>
     key (part a) (min_value a) < x (part a) \<or> key (part a) (min_value a) = x (part a) \<and> after_key key strict x as"

abbreviation min_image :: "(nat \<Rightarrow> key_part) \<Rightarrow> sel_arg \<Rightarrow> image" where
  "min_image kp a \<equiv> stored_image (store_length (kp (part a))) (maybe_null a) (min_value a)"

lemma in_range_min:
  "y \<in> sel_range k a \<Longrightarrow> \<not> has (min_flag a) NO_MIN_RANGE \<Longrightarrow> if has (min_flag a) NEAR_MIN then k (min_value a) < y else k (min_value a) \<le> y"
  by (auto simp: sel_range_def)

lemma first_start:
  assumes "tree_ok key (Sel ty p ((a, n) # rest))" and "sat key x (Sel ty p ((a, n) # rest))" and "\<not> has (min_flag a) NO_MIN_RANGE"
  shows "part a = p \<and> (key p (min_value a) < x p \<or>
    \<not> has (min_flag a) NEAR_MIN \<and> key p (min_value a) = x p \<and> (\<forall>t. n = Some t \<and> root_type t = KEY_RANGE \<longrightarrow> sat key x t))"
proof -
  from assms(1) have wf: "sorted_wrt (\<lambda>u v. \<forall>x \<in> sel_range (key p) (fst u). \<forall>y \<in> sel_range (key p) (fst v). x < y) ((a, n) # rest)"
    and nodes: "\<And>b m. (b, m) \<in> set ((a, n) # rest) \<Longrightarrow> part b = p \<and> flags_ok b \<and> sel_range (key p) b \<noteq> {}"
    by (cases; auto)+
  from assms(2) obtain b m where b: "(b, m) \<in> set ((a, n) # rest)" "x (part b) \<in> sel_range (key (part b)) b"
    "\<And>t. m = Some t \<Longrightarrow> root_type t = KEY_RANGE \<Longrightarrow> sat key x t" by (rule satE) blast
  have pa: "part a = p" and pb: "part b = p" using nodes b(1) by auto
  show ?thesis
  proof (cases "(b, m) = (a, n)")
    case True
    then show ?thesis using in_range_min [of "x p" "key p" a] b(2,3) assms(3) pa by (auto split: if_splits)
  next
    case False
    then have "(b, m) \<in> set rest" using b(1) by auto
    obtain y where y: "y \<in> sel_range (key p) a" using nodes [of a n] by auto
    have "y < x p" using wf \<open>(b, m) \<in> set rest\<close> y b(2) pb by auto
    moreover have "key p (min_value a) \<le> y" using in_range_min [OF y assms(3)] by (auto split: if_splits)
    ultimately show ?thesis using pa by auto
  qed
qed

lemma store_min_key_spec:
  assumes "tree_ok key t" and "\<And>q. reverse_sort kp q \<longleftrightarrow> \<not> start_key"
  shows "\<not> has flag (NO_MIN_RANGE OR NEAR_MIN) \<Longrightarrow>
    \<exists>as flag'. store_min_key kp last_part start_key t buf flag = (length as, buf @ concat (map (min_image kp) as), flag') \<and>
      (as = [] \<longrightarrow> flag' = flag) \<and> (\<forall>x. sat key x t \<longrightarrow> as = [] \<or> after_key key (has flag' NEAR_MIN) x as)"
  using assms(1)
proof (induction t arbitrary: buf flag rule: tree_ok.induct)
  case (tree_ok ns p ty)
  let ?t = "Sel ty p ns"
  have ok: "tree_ok key ?t" using tree_ok.hyps by (auto intro: tree_ok.intros)
  obtain a n rest where ns: "ns = (a, n) # rest" using tree_ok.hyps(1) by (metis list.exhaust surj_pair)
  have wf: "part a = p" "\<not> has (min_flag a) GEOM_FLAG" using tree_ok.hyps(3) [of a n] ns by auto
  define f where "f = flag OR ucast (min_flag a)"
  show ?case
  proof (cases "has (min_flag a) NO_MIN_RANGE")
    case True
    then have "store_min_key kp last_part start_key ?t buf flag = (0, buf, flag)"
      using wf by (simp add: store_min_key.simps ns store_min_def)
    then show ?thesis by (intro exI [of _ "[]"] exI [of _ flag]) simp
  next
    case False
    let ?buf = "buf @ min_image kp a"
    have st: "store_min (store_length (kp (part a))) a buf flag = (1, ?buf)"
      using False tree_ok.prems by (simp add: store_min_def)
    have near: "has f NEAR_MIN \<longleftrightarrow> has (min_flag a) NEAR_MIN" "has f (NO_MIN_RANGE OR NEAR_MIN) \<longleftrightarrow> has (min_flag a) NEAR_MIN"
      using tree_ok.prems False by (simp_all add: f_def)
    have one: "after_key key (has f NEAR_MIN) x [a]" if "sat key x ?t" for x
      using first_start [of key ty p a n rest x] ok that False unfolding ns near by auto
    show ?thesis
    proof (cases "\<exists>t'. n = Some t' \<and> root_type t' = KEY_RANGE \<and> part a \<noteq> last_part \<and> root_part t' = part a + 1 \<and> \<not> has f (NO_MIN_RANGE OR NEAR_MIN)")
      case False
      then have "store_min_key kp last_part start_key ?t buf flag = (1, ?buf, f)"
        using st unfolding ns f_def
        by (auto simp: store_min_key.simps [of kp last_part start_key "Sel ty p ((a, n) # rest)"] Let_def split: option.splits)
      then show ?thesis using one by (intro exI [of _ "[a]"] exI [of _ f]) auto
    next
      case True
      then obtain t' where t': "n = Some t'" "root_type t' = KEY_RANGE" "part a \<noteq> last_part" "root_part t' = part a + 1" "\<not> has f (NO_MIN_RANGE OR NEAR_MIN)"
        by blast
      obtain as f' where r: "store_min_key kp last_part start_key t' ?buf f = (length as, ?buf @ concat (map (min_image kp) as), f')"
        "as = [] \<longrightarrow> f' = f" "\<forall>x. sat key x t' \<longrightarrow> as = [] \<or> after_key key (has f' NEAR_MIN) x as"
        using tree_ok.IH [of a t' f ?buf] t'(1,5) ns by auto
      have "store_min_key kp last_part start_key ?t buf flag = (length (a # as), buf @ concat (map (min_image kp) (a # as)), f')"
        using st t'(2-5) r(1) assms(2) [of "part a"] unfolding ns f_def t'(1)
        by (simp add: store_min_key.simps [of kp last_part start_key "Sel ty p ((a, Some t') # rest)"] Let_def)
      moreover have "after_key key (has f' NEAR_MIN) x (a # as)" if "sat key x ?t" for x
        using first_start [of key ty p a n rest x] ok that False r(2,3) t'(1,2,5) near wf(1) unfolding ns by auto
      ultimately show ?thesis by (intro exI [of _ "a # as"] exI [of _ f']) auto
    qed
  qed
qed

text \<open>A tuple at or before the key made of the ends of some intervals; strictly before it for an open end.\<close>

fun before_key :: "(nat \<Rightarrow> image \<Rightarrow> 'v::linorder) \<Rightarrow> bool \<Rightarrow> (nat \<Rightarrow> 'v) \<Rightarrow> sel_arg list \<Rightarrow> bool" where
  "before_key key strict x [] \<longleftrightarrow> \<not> strict"
| "before_key key strict x (a # as) \<longleftrightarrow>
     x (part a) < key (part a) (max_value a) \<or> key (part a) (max_value a) = x (part a) \<and> before_key key strict x as"

abbreviation max_image :: "(nat \<Rightarrow> key_part) \<Rightarrow> sel_arg \<Rightarrow> image" where
  "max_image kp a \<equiv> stored_image (store_length (kp (part a))) (maybe_null a) (max_value a)"

lemma in_range_max:
  "y \<in> sel_range k a \<Longrightarrow> \<not> has (max_flag a) NO_MAX_RANGE \<Longrightarrow> if has (max_flag a) NEAR_MAX then y < k (max_value a) else y \<le> k (max_value a)"
  by (auto simp: sel_range_def)

lemma last_end:
  assumes "tree_ok key (Sel ty p (rest @ [(a, n)]))" and "sat key x (Sel ty p (rest @ [(a, n)]))" and "\<not> has (max_flag a) NO_MAX_RANGE"
  shows "part a = p \<and> (x p < key p (max_value a) \<or>
    \<not> has (max_flag a) NEAR_MAX \<and> key p (max_value a) = x p \<and> (\<forall>t. n = Some t \<and> root_type t = KEY_RANGE \<longrightarrow> sat key x t))"
proof -
  from assms(1) have wf: "sorted_wrt (\<lambda>u v. \<forall>x \<in> sel_range (key p) (fst u). \<forall>y \<in> sel_range (key p) (fst v). x < y) (rest @ [(a, n)])"
    and nodes: "\<And>b m. (b, m) \<in> set (rest @ [(a, n)]) \<Longrightarrow> part b = p \<and> flags_ok b \<and> sel_range (key p) b \<noteq> {}"
    by (cases; auto)+
  from assms(2) obtain b m where b: "(b, m) \<in> set (rest @ [(a, n)])" "x (part b) \<in> sel_range (key (part b)) b"
    "\<And>t. m = Some t \<Longrightarrow> root_type t = KEY_RANGE \<Longrightarrow> sat key x t" by (rule satE) blast
  have pa: "part a = p" and pb: "part b = p" using nodes b(1) by auto
  show ?thesis
  proof (cases "(b, m) = (a, n)")
    case True
    then show ?thesis using in_range_max [of "x p" "key p" a] b(2,3) assms(3) pa by (auto split: if_splits)
  next
    case False
    then have "(b, m) \<in> set rest" using b(1) by auto
    obtain y where y: "y \<in> sel_range (key p) a" using nodes [of a n] by auto
    have "x p < y" using wf \<open>(b, m) \<in> set rest\<close> y b(2) pb by (auto simp: sorted_wrt_append)
    moreover have "y \<le> key p (max_value a)" using in_range_max [OF y assms(3)] by (auto split: if_splits)
    ultimately show ?thesis using pa by auto
  qed
qed

lemma store_max_key_spec:
  assumes "tree_ok key t" and "\<And>q. reverse_sort kp q \<longleftrightarrow> start_key"
  shows "\<not> has flag (NO_MAX_RANGE OR NEAR_MAX) \<Longrightarrow>
    \<exists>as flag'. store_max_key kp last_part start_key t buf flag = (length as, buf @ concat (map (max_image kp) as), flag') \<and>
      (as = [] \<longrightarrow> flag' = flag) \<and> (\<forall>x. sat key x t \<longrightarrow> as = [] \<or> before_key key (has flag' NEAR_MAX) x as)"
  using assms(1)
proof (induction t arbitrary: buf flag rule: tree_ok.induct)
  case (tree_ok ns p ty)
  let ?t = "Sel ty p ns"
  have ok: "tree_ok key ?t" using tree_ok.hyps by (auto intro: tree_ok.intros)
  obtain a n rest where ns: "ns = rest @ [(a, n)]" using tree_ok.hyps(1) by (metis rev_exhaust surj_pair)
  have wf: "part a = p" using tree_ok.hyps(3) [of a n] ns by auto
  define f where "f = flag OR ucast (max_flag a)"
  show ?case
  proof (cases "has (max_flag a) NO_MAX_RANGE")
    case True
    then have "store_max_key kp last_part start_key ?t buf flag = (0, buf, flag)"
      using wf by (simp add: store_max_key.simps ns store_max_def)
    then show ?thesis by (intro exI [of _ "[]"] exI [of _ flag]) simp
  next
    case False
    let ?buf = "buf @ max_image kp a"
    have st: "store_max (store_length (kp (part a))) a buf flag = (1, ?buf)"
      using False tree_ok.prems by (simp add: store_max_def)
    have near: "has f NEAR_MAX \<longleftrightarrow> has (max_flag a) NEAR_MAX" "has f (NO_MAX_RANGE OR NEAR_MAX) \<longleftrightarrow> has (max_flag a) NEAR_MAX"
      using tree_ok.prems False by (simp_all add: f_def)
    have one: "before_key key (has f NEAR_MAX) x [a]" if "sat key x ?t" for x
      using last_end [of key ty p rest a n x] ok that False unfolding ns near by auto
    show ?thesis
    proof (cases "\<exists>t'. n = Some t' \<and> root_type t' = KEY_RANGE \<and> part a \<noteq> last_part \<and> root_part t' = part a + 1 \<and> \<not> has f (NO_MAX_RANGE OR NEAR_MAX)")
      case False
      then have "store_max_key kp last_part start_key ?t buf flag = (1, ?buf, f)"
        using st unfolding ns f_def
        by (auto simp: store_max_key.simps [of kp last_part start_key "Sel ty p (rest @ [(a, n)])"] Let_def split: option.splits)
      then show ?thesis using one by (intro exI [of _ "[a]"] exI [of _ f]) auto
    next
      case True
      then obtain t' where t': "n = Some t'" "root_type t' = KEY_RANGE" "part a \<noteq> last_part" "root_part t' = part a + 1" "\<not> has f (NO_MAX_RANGE OR NEAR_MAX)"
        by blast
      obtain as f' where r: "store_max_key kp last_part start_key t' ?buf f = (length as, ?buf @ concat (map (max_image kp) as), f')"
        "as = [] \<longrightarrow> f' = f" "\<forall>x. sat key x t' \<longrightarrow> as = [] \<or> before_key key (has f' NEAR_MAX) x as"
        using tree_ok.IH [of a t' f ?buf] t'(1,5) ns by auto
      have "store_max_key kp last_part start_key ?t buf flag = (length (a # as), buf @ concat (map (max_image kp) (a # as)), f')"
        using st t'(2-5) r(1) assms(2) [of "part a"] unfolding ns f_def t'(1)
        by (simp add: store_max_key.simps [of kp last_part start_key "Sel ty p (rest @ [(a, Some t')])"] Let_def)
      moreover have "before_key key (has f' NEAR_MAX) x (a # as)" if "sat key x ?t" for x
        using last_end [of key ty p rest a n x] ok that False r(2,3) t'(1,2,5) near wf(1) unfolding ns by auto
      ultimately show ?thesis by (intro exI [of _ "a # as"] exI [of _ f']) auto
    qed
  qed
qed

text \<open>
  Property C15: keys stored for a range with several key parts bound the range. For an index whose key
  parts all run in the same direction, \<open>store_min_key\<close> appends the images of the starts of as many
  leading key parts as it returns, and every tuple of values the graph selects lies at or after
  this key, strictly after it when the flags say so; \<open>store_max_key\<close> likewise bounds the tuples from
  above.
\<close>

theorem stored_keys_bound_range:
  assumes "tree_ok key t" and "\<not> has flag (NO_MIN_RANGE OR NEAR_MIN)" and "\<not> has flag (NO_MAX_RANGE OR NEAR_MAX)"
    and "\<forall>q. reverse_sort kp q = dir"
  shows "(\<exists>as flag'. store_min_key kp last_part (\<not> dir) t buf flag = (length as, buf @ concat (map (min_image kp) as), flag') \<and>
      (\<forall>x. sat key x t \<longrightarrow> as = [] \<or> after_key key (has flag' NEAR_MIN) x as)) \<and>
    (\<exists>as flag'. store_max_key kp last_part dir t buf flag = (length as, buf @ concat (map (max_image kp) as), flag') \<and>
      (\<forall>x. sat key x t \<longrightarrow> as = [] \<or> before_key key (has flag' NEAR_MAX) x as))"
  using store_min_key_spec [OF assms(1), of kp "\<not> dir" flag last_part buf] store_max_key_spec [OF assms(1), of kp dir flag last_part buf] assms(2-4)
  by blast

text \<open>One key byte per part, read as a number; \<open>kp1\<close> between 3 and 7 below \<open>kp0 = 5\<close>.\<close>

definition tree57 :: sel_tree where
  "tree57 = Sel KEY_RANGE 0 [(closed 0 5 5, Some (Sel KEY_RANGE 1 [(closed 1 3 7, None)]))]"

definition index_parts :: "u8 \<Rightarrow> nat \<Rightarrow> key_part" where
  "index_parts f p = \<lparr>kp_key = 0, kp_part = p, store_length = 1, kp_length = 1, null_bit = 0, kp_flag = (if p = 1 then f else 0)\<rparr>"

lemma tree57_ok: "tree_ok byte_key tree57"
  unfolding tree57_def by (intro tree_ok.intros) (auto simp: closed_ok closed_range intro!: tree_ok.intros)

lemma tree57_sat: "3 \<le> v \<Longrightarrow> v \<le> 7 \<Longrightarrow> sat byte_key (\<lambda>p. if p = 0 then 5 else v) tree57"
  unfolding tree57_def by (rule sat.intros [of "closed 0 5 5" "Some (Sel KEY_RANGE 1 [(closed 1 3 7, None)])"])
    (auto simp: closed_ok closed_range intro!: sat.intros)

theorem stored_keys_bound_range_witness:
  "\<exists>as flag'. store_min_key (index_parts 0) 9 True tree57 [] 0 = (length as, concat (map (min_image (index_parts 0)) as), flag') \<and>
     (as = [] \<or> after_key byte_key (has flag' NEAR_MIN) (\<lambda>p. if p = 0 then 5 else 4) as)"
  using stored_keys_bound_range [OF tree57_ok, of 0 "index_parts 0" False 9 "[]"] tree57_sat [of 4]
  by (simp add: reverse_sort_def index_parts_def has_def) blast

text \<open>
  Key parts that run in different directions. The direction in which to continue is taken
  from the key part just stored, not from the next one. With an index on \<open>kp0\<close> ascending and \<open>kp1\<close>
  descending and the condition \<open>kp0 = 5\<close> and \<open>kp1\<close> between 3 and 7, the start of the range is stored
  as \<open>(5, 3)\<close>, the same key as for an index with both parts ascending; but the tuple \<open>(5, 7)\<close> satisfies
  the condition and comes before \<open>(5, 3)\<close> in the descending order of \<open>kp1\<close>.
\<close>

theorem mixed_directions_start_key:
  "store_min_key (index_parts 128) 9 True tree57 [] 0 = (2, [5, 3], 0) \<and>
   store_min_key (index_parts 0) 9 True tree57 [] 0 = (2, [5, 3], 0) \<and>
   \<not> reverse_sort (index_parts 128) 0 \<and> reverse_sort (index_parts 128) 1 \<and>
   sat byte_key (\<lambda>p. if p = 0 then 5 else 7) tree57"
  using tree57_sat [of 7]
  by (simp add: store_min_key.simps tree57_def closed_def store_min_def stored_image_def index_parts_def reverse_sort_def Let_def has_def)

text \<open>
  Descending key parts: exchanging the two ends with \<open>get_min_flag\<close> and \<open>get_max_flag\<close> keeps which end is
  open and which is missing.
\<close>

lemma inverted_flags:
  "has (invert_max_flag f) NEAR_MIN \<longleftrightarrow> has f NEAR_MAX \<or> has f NEAR_MIN" "has (invert_max_flag f) NO_MIN_RANGE \<longleftrightarrow> has f NO_MAX_RANGE \<or> has f NO_MIN_RANGE"
  "has (invert_min_flag f) NEAR_MAX \<longleftrightarrow> has f NEAR_MIN \<or> has f NEAR_MAX" "has (invert_min_flag f) NO_MAX_RANGE \<longleftrightarrow> has f NO_MIN_RANGE \<or> has f NO_MAX_RANGE"
  by (auto simp: invert_max_flag_def invert_min_flag_def Let_def has_bit bit_simps)

end
