(* ===== verification/BinaryString.thy ===== *)
theory BinaryString
  imports ByteOrder "HOL-Library.Monad_Syntax"
begin

text \<open>
  \<open>Binary_string\<close> of \<open>sql_string.h\<close>: a byte string with a buffer that it may own, borrow for writing, or
  borrow for reading only (\<open>Alloced_length\<close> zero). Memory is an arena of blocks, those of the heap and
  those of the callers' buffers; an access outside a block, a copy between overlapping areas, the
  release of what is not a heap block and a failed debug assertion are undefined, \<open>None\<close>. Lengths are
  32-bit words and sizes 64-bit words, as in the code. \<open>real_alloc\<close> and \<open>realloc_raw\<close> are defined outside
  the sources: they are parameters.
\<close>

section \<open>The arena\<close>

record arena =
  mem_of :: mem
  blocks :: "(nat \<times> nat) list"
  buffers :: "(nat \<times> nat) list"

definition accessible :: "arena \<Rightarrow> nat \<Rightarrow> nat \<Rightarrow> bool" where
  "accessible w p n \<longleftrightarrow> n = 0 \<or> list_ex (\<lambda>(q, k). q \<le> p \<and> p + n \<le> q + k) (blocks w @ buffers w)"

definition load_byte :: "arena \<Rightarrow> nat \<Rightarrow> u8 option" where
  "load_byte w p = (if accessible w p 1 then Some (mem_of w p) else None)"

definition store_byte :: "nat \<Rightarrow> u8 \<Rightarrow> arena \<Rightarrow> arena option" where
  "store_byte p v w = (if accessible w p 1 then Some (w\<lparr>mem_of := (mem_of w)(p := v)\<rparr>) else None)"

definition store_with :: "nat \<Rightarrow> nat \<Rightarrow> (mem \<Rightarrow> mem) \<Rightarrow> arena \<Rightarrow> arena option" where
  "store_with p n f w = (if accessible w p n then Some (w\<lparr>mem_of := f (mem_of w)\<rparr>) else None)"

definition copy_bytes_to :: "nat \<Rightarrow> nat \<Rightarrow> nat \<Rightarrow> arena \<Rightarrow> arena option" where
  "copy_bytes_to dst src n w =
     (if accessible w dst n \<and> accessible w src n \<and> (dst + n \<le> src \<or> src + n \<le> dst)
      then Some (w\<lparr>mem_of := memcpy (mem_of w) dst src n\<rparr>) else None)"

definition my_free :: "nat \<Rightarrow> arena \<Rightarrow> arena option" where
  "my_free p w = (if p = 0 then Some w else if p \<in> fst ` set (blocks w) then Some (w\<lparr>blocks := filter (\<lambda>b. fst b \<noteq> p) (blocks w)\<rparr>) else None)"

lemma accessible_part: "accessible w p n \<Longrightarrow> p \<le> q \<Longrightarrow> q + k \<le> p + n \<Longrightarrow> accessible w q k"
proof (cases "k = 0")
  case False
  assume "accessible w p n" and q: "p \<le> q" "q + k \<le> p + n"
  then have "n \<noteq> 0" using False by linarith
  then obtain a b where "(a, b) \<in> set (blocks w @ buffers w)" "a \<le> p" "p + n \<le> a + b"
    using \<open>accessible w p n\<close> unfolding accessible_def list_ex_iff by auto
  then have "(a, b) \<in> set (blocks w @ buffers w)" "a \<le> q \<and> q + k \<le> a + b" using q by linarith+
  then show ?thesis unfolding accessible_def list_ex_iff by blast
qed (simp add: accessible_def)

lemma accessible_mem_of [simp]: "accessible (w\<lparr>mem_of := m\<rparr>) p n = accessible w p n"
  by (simp add: accessible_def)

section \<open>The string\<close>

record bstr =
  Ptr :: nat
  str_length :: u32
  Alloced_length :: u32
  extra_alloc :: u32
  alloced :: bool
  thread_specific :: bool

record string_memory =
  real_alloc :: "u64 \<Rightarrow> bstr \<Rightarrow> arena \<Rightarrow> bool \<times> bstr \<times> arena"
  realloc_raw :: "u64 \<Rightarrow> bstr \<Rightarrow> arena \<Rightarrow> bool \<times> bstr \<times> arena"

definition UINT_MAX32 :: nat where "UINT_MAX32 = 4294967295"

definition init_private_data :: bstr where
  "init_private_data = \<lparr>Ptr = 0, str_length = 0, Alloced_length = 0, extra_alloc = 0, alloced = False, thread_specific = False\<rparr>"

definition free_buffer :: "bstr \<Rightarrow> arena \<Rightarrow> (bstr \<times> arena) option" where
  "free_buffer s w =
     (if alloced s then do { w \<leftarrow> my_free (Ptr s) w; Some (s\<lparr>alloced := False\<rparr>, w) } else Some (s, w))"

definition Binary_string_alloc :: "string_memory \<Rightarrow> u64 \<Rightarrow> arena \<Rightarrow> bstr \<times> arena" where
  "Binary_string_alloc F length_arg w = snd (real_alloc F length_arg init_private_data w)"

definition Binary_string_const :: "nat \<Rightarrow> u64 \<Rightarrow> bstr" where
  "Binary_string_const str len =
     \<lparr>Ptr = str, str_length = ucast len, Alloced_length = 0, extra_alloc = 0, alloced = False, thread_specific = False\<rparr>"

definition Binary_string_buffer :: "nat \<Rightarrow> u64 \<Rightarrow> bstr" where
  "Binary_string_buffer str len =
     \<lparr>Ptr = str, str_length = ucast len, Alloced_length = ucast len, extra_alloc = 0, alloced = False, thread_specific = False\<rparr>"

definition Binary_string_copy :: "bstr \<Rightarrow> bstr" where
  "Binary_string_copy str =
     \<lparr>Ptr = Ptr str, str_length = str_length str, Alloced_length = Alloced_length str, extra_alloc = 0, alloced = False, thread_specific = False\<rparr>"

definition bs_free :: "bstr \<Rightarrow> arena \<Rightarrow> (bstr \<times> arena) option" where
  "bs_free s w = do {
     (s, w) \<leftarrow> free_buffer s w;
     Some (s\<lparr>Ptr := 0, str_length := 0, Alloced_length := 0, extra_alloc := 0\<rparr>, w) }"

definition bs_destroy :: "bstr \<Rightarrow> arena \<Rightarrow> arena option" where
  "bs_destroy s w = do { (s, w) \<leftarrow> bs_free s w; Some w }"

definition set_length :: "u64 \<Rightarrow> bstr \<Rightarrow> bstr" where
  "set_length len s = s\<lparr>str_length := ucast len\<rparr>"

definition bs_is_empty :: "bstr \<Rightarrow> bool" where
  "bs_is_empty s \<longleftrightarrow> str_length s = 0"

definition bs_end :: "bstr \<Rightarrow> nat" where
  "bs_end s = Ptr s + unat (str_length s)"

definition bs_index :: "nat \<Rightarrow> bstr \<Rightarrow> arena \<Rightarrow> u8 option" where
  "bs_index i s w = load_byte w (Ptr s + i)"

text \<open>The loop of \<open>has_8bit_bytes\<close> over the addresses from \<open>c\<close> on, \<open>n\<close> of them.\<close>

fun eight_bit_loop :: "nat \<Rightarrow> nat \<Rightarrow> arena \<Rightarrow> bool option" where
  "eight_bit_loop c 0 w = Some False"
| "eight_bit_loop c (Suc n) w = do { b \<leftarrow> load_byte w c; if b \<ge> 128 then Some True else eight_bit_loop (c + 1) n w }"

definition has_8bit_bytes :: "bstr \<Rightarrow> arena \<Rightarrow> bool option" where
  "has_8bit_bytes s w = eight_bit_loop (Ptr s) (bs_end s - Ptr s) w"

definition bin_eq :: "bstr \<Rightarrow> bstr \<Rightarrow> arena \<Rightarrow> bool option" where
  "bin_eq s other w =
     (if str_length s \<noteq> str_length other then Some False
      else let n = unat (str_length s)
           in if accessible w (Ptr s) n \<and> accessible w (Ptr other) n
              then Some (bytes_at (mem_of w) (Ptr s) n = bytes_at (mem_of w) (Ptr other) n) else None)"

text \<open>
  The assertion of \<open>chop\<close> compares with \<open>strlen\<close>: after the zero byte has been stored at the new
  length, it holds when no byte before is zero.
\<close>

definition chop :: "bstr \<Rightarrow> arena \<Rightarrow> (bstr \<times> arena) option" where
  "chop s w =
     (if str_length s \<noteq> 0 then
        let s = s\<lparr>str_length := str_length s - 1\<rparr>
        in do {
          w \<leftarrow> store_byte (bs_end s) 0 w;
          _ \<leftarrow> dbug_assert (0 \<notin> set (bytes_at (mem_of w) (Ptr s) (unat (str_length s))));
          Some (s, w) }
      else Some (s, w))"

section \<open>Appending without growing\<close>

definition ASSERT_LENGTH :: "u32 \<Rightarrow> bstr \<Rightarrow> bool" where
  "ASSERT_LENGTH A s \<longleftrightarrow> str_length s + A \<le> Alloced_length s"

definition q_append_char :: "u8 \<Rightarrow> bstr \<Rightarrow> arena \<Rightarrow> (bstr \<times> arena) option" where
  "q_append_char c s w = do {
     _ \<leftarrow> dbug_assert (ASSERT_LENGTH 1 s);
     w \<leftarrow> store_byte (bs_end s) c w;
     Some (s\<lparr>str_length := str_length s + 1\<rparr>, w) }"

definition q_append2b :: "u32 \<Rightarrow> bstr \<Rightarrow> arena \<Rightarrow> (bstr \<times> arena) option" where
  "q_append2b n s w = do {
     _ \<leftarrow> dbug_assert (ASSERT_LENGTH 2 s);
     w \<leftarrow> store_with (bs_end s) 2 (\<lambda>m. int2store m (bs_end s) (ucast n)) w;
     Some (s\<lparr>str_length := str_length s + 2\<rparr>, w) }"

definition q_append_uint32 :: "u32 \<Rightarrow> bstr \<Rightarrow> arena \<Rightarrow> (bstr \<times> arena) option" where
  "q_append_uint32 n s w = do {
     _ \<leftarrow> dbug_assert (ASSERT_LENGTH 4 s);
     w \<leftarrow> store_with (bs_end s) 4 (\<lambda>m. int4store m (bs_end s) (ucast n)) w;
     Some (s\<lparr>str_length := str_length s + 4\<rparr>, w) }"

text \<open>The double is given by the address it is stored at; \<open>float8store\<close> copies its eight bytes.\<close>

definition q_append_double :: "nat \<Rightarrow> bstr \<Rightarrow> arena \<Rightarrow> (bstr \<times> arena) option" where
  "q_append_double d s w = do {
     _ \<leftarrow> dbug_assert (ASSERT_LENGTH 8 s);
     _ \<leftarrow> dbug_assert (accessible w d 8);
     w \<leftarrow> store_with (bs_end s) 8 (\<lambda>m. float8store_le m (bs_end s) d) w;
     Some (s\<lparr>str_length := str_length s + 8\<rparr>, w) }"

definition q_append :: "nat \<Rightarrow> u64 \<Rightarrow> bstr \<Rightarrow> arena \<Rightarrow> (bstr \<times> arena) option" where
  "q_append data data_len s w = do {
     _ \<leftarrow> dbug_assert (ASSERT_LENGTH (ucast data_len) s);
     w \<leftarrow> (if data_len \<noteq> 0 then copy_bytes_to (bs_end s) data (unat data_len) w else Some w);
     _ \<leftarrow> dbug_assert (ucast (str_length s) \<le> (4294967295 :: u64) - data_len);
     Some (s\<lparr>str_length := str_length s + ucast data_len\<rparr>, w) }"

definition write_at_position :: "u32 \<Rightarrow> u32 \<Rightarrow> bstr \<Rightarrow> arena \<Rightarrow> arena option" where
  "write_at_position position val s w = do {
     _ \<leftarrow> dbug_assert (position + 4 \<le> str_length s);
     store_with (Ptr s + unat position) 4 (\<lambda>m. int4store m (Ptr s + unat position) (ucast val)) w }"

definition qs_append_char :: "u8 \<Rightarrow> bstr \<Rightarrow> arena \<Rightarrow> (bstr \<times> arena) option" where
  "qs_append_char c s w = do {
     _ \<leftarrow> dbug_assert (ASSERT_LENGTH 1 s);
     w \<leftarrow> store_byte (bs_end s) c w;
     Some (s\<lparr>str_length := str_length s + 1\<rparr>, w) }"

section \<open>Buffers\<close>

definition set_thread_specific :: "bstr \<Rightarrow> bstr" where
  "set_thread_specific s = (if \<not> alloced s then s\<lparr>thread_specific := True\<rparr> else s)"

definition extra_allocation :: "u64 \<Rightarrow> bstr \<Rightarrow> bstr" where
  "extra_allocation len s = s\<lparr>extra_alloc := ucast len\<rparr>"

definition mark_as_const :: "bstr \<Rightarrow> bstr" where
  "mark_as_const s = s\<lparr>Alloced_length := 0\<rparr>"

definition uses_buffer_owned_by :: "bstr \<Rightarrow> bstr \<Rightarrow> bool" where
  "uses_buffer_owned_by t s \<longleftrightarrow> alloced s \<and> Ptr s \<le> Ptr t \<and> Ptr t < Ptr s + unat (Alloced_length s)"

definition bs_swap :: "bstr \<Rightarrow> bstr \<Rightarrow> bstr \<times> bstr" where
  "bs_swap a b =
     (a\<lparr>Ptr := Ptr b, str_length := str_length b, Alloced_length := Alloced_length b, alloced := alloced b\<rparr>,
      b\<lparr>Ptr := Ptr a, str_length := str_length a, Alloced_length := Alloced_length a, alloced := alloced a\<rparr>)"

definition set_alloced :: "nat \<Rightarrow> u64 \<Rightarrow> u64 \<Rightarrow> bstr \<Rightarrow> arena \<Rightarrow> (bstr \<times> arena) option" where
  "set_alloced str len alloced_length s w = do {
     (s, w) \<leftarrow> free_buffer s w;
     _ \<leftarrow> dbug_assert (unat alloced_length < UINT_MAX32);
     Some (s\<lparr>Ptr := str, str_length := ucast len, Alloced_length := ucast alloced_length\<rparr>, w) }"

definition set_buf :: "nat \<Rightarrow> u64 \<Rightarrow> bstr \<Rightarrow> arena \<Rightarrow> (bstr \<times> arena) option" where
  "set_buf str arg_length s w = set_alloced str arg_length arg_length s w"

definition set_const :: "nat \<Rightarrow> u64 \<Rightarrow> bstr \<Rightarrow> arena \<Rightarrow> (bstr \<times> arena) option" where
  "set_const str len s w = do {
     (s, w) \<leftarrow> free_buffer s w;
     Some (s\<lparr>Ptr := str, str_length := ucast len, Alloced_length := 0\<rparr>, w) }"

text \<open>\<open>set\<close> to a part of another string; the caller's \<open>s\<close> and \<open>str\<close> are different objects.\<close>

definition set_part :: "bstr \<Rightarrow> u64 \<Rightarrow> u64 \<Rightarrow> bstr \<Rightarrow> arena \<Rightarrow> (bstr \<times> arena) option" where
  "set_part str offset len s w = do {
     (s, w) \<leftarrow> free_buffer s w;
     Some (s\<lparr>Ptr := Ptr str + unat offset, str_length := ucast len,
             Alloced_length := (if Alloced_length str \<noteq> 0 then ucast (ucast (Alloced_length str) - offset) else 0)\<rparr>, w) }"

definition bs_reset :: "nat \<Rightarrow> u64 \<Rightarrow> u64 \<Rightarrow> bstr \<Rightarrow> arena \<Rightarrow> (bstr \<times> arena) option" where
  "bs_reset ptr_arg length_arg alloced_length_arg s w = do {
     (s, w) \<leftarrow> set_alloced ptr_arg length_arg alloced_length_arg s w;
     Some (s\<lparr>alloced := (ptr_arg \<noteq> 0)\<rparr>, w) }"

definition release :: "bstr \<Rightarrow> nat \<times> bstr" where
  "release s = (Ptr s, init_private_data)"

definition set_buffer_if_not_allocated :: "nat \<Rightarrow> u64 \<Rightarrow> bstr \<Rightarrow> bstr" where
  "set_buffer_if_not_allocated str arg_length s =
     (if \<not> alloced s then s\<lparr>Ptr := str, str_length := ucast arg_length, Alloced_length := ucast arg_length\<rparr> else s)"

text \<open>Assignment of a different object.\<close>

definition bs_assign :: "bstr \<Rightarrow> bstr \<Rightarrow> arena \<Rightarrow> (bstr \<times> arena) option" where
  "bs_assign s this w = do {
     _ \<leftarrow> dbug_assert (\<not> uses_buffer_owned_by s this);
     set_alloced (Ptr s) (ucast (str_length s)) (ucast (Alloced_length s)) this w }"

definition bs_move :: "bstr \<Rightarrow> bstr \<Rightarrow> arena \<Rightarrow> (bstr \<times> bstr \<times> arena) option" where
  "bs_move s this w = do {
     (this, w) \<leftarrow> set_alloced (Ptr s) (ucast (str_length s)) (ucast (Alloced_length s)) this w;
     Some (this\<lparr>extra_alloc := extra_alloc s, alloced := alloced s, thread_specific := thread_specific s\<rparr>, s\<lparr>alloced := False\<rparr>, w) }"

section \<open>Growing\<close>

text \<open>Results are pairs of the returned error flag and the new state.\<close>

definition bs_alloc :: "string_memory \<Rightarrow> u64 \<Rightarrow> bstr \<Rightarrow> arena \<Rightarrow> bool \<times> bstr \<times> arena" where
  "bs_alloc F arg_length s w =
     (if arg_length \<le> ucast (Alloced_length s) \<and> Alloced_length s \<noteq> 0 then (False, s, w) else real_alloc F arg_length s w)"

definition bs_realloc :: "string_memory \<Rightarrow> u64 \<Rightarrow> bstr \<Rightarrow> arena \<Rightarrow> (bool \<times> bstr \<times> arena) option" where
  "bs_realloc F arg_length s w =
     (case realloc_raw F (arg_length + 1) s w of
        (True, s, w) \<Rightarrow> Some (True, s, w)
      | (False, s, w) \<Rightarrow> do { w \<leftarrow> store_byte (Ptr s + unat arg_length) 0 w; Some (False, s, w) })"

definition realloc_with_extra :: "string_memory \<Rightarrow> u64 \<Rightarrow> bstr \<Rightarrow> arena \<Rightarrow> (bool \<times> bstr \<times> arena) option" where
  "realloc_with_extra F arg_length s w =
     (let s = (if extra_alloc s < 4096 then s\<lparr>extra_alloc := extra_alloc s * 2 + 128\<rparr> else s)
      in case realloc_raw F (arg_length + ucast (extra_alloc s)) s w of
           (True, s, w) \<Rightarrow> Some (True, s, w)
         | (False, s, w) \<Rightarrow> do { w \<leftarrow> store_byte (Ptr s + unat arg_length) 0 w; Some (False, s, w) })"

definition realloc_with_extra_if_needed :: "string_memory \<Rightarrow> u64 \<Rightarrow> bstr \<Rightarrow> arena \<Rightarrow> (bool \<times> bstr \<times> arena) option" where
  "realloc_with_extra_if_needed F arg_length s w =
     (if arg_length < ucast (Alloced_length s)
      then do { w \<leftarrow> store_byte (Ptr s + unat arg_length) 0 w; Some (False, s, w) }
      else realloc_with_extra F arg_length s w)"

definition bs_append :: "string_memory \<Rightarrow> nat \<Rightarrow> u64 \<Rightarrow> bstr \<Rightarrow> arena \<Rightarrow> (bool \<times> bstr \<times> arena) option" where
  "bs_append F src n s w =
     (if n = 0 then Some (False, s, w)
      else do {
        (failed, s, w) \<leftarrow> realloc_with_extra_if_needed F (ucast (str_length s) + n) s w;
        if failed then Some (True, s, w) else do { (s, w) \<leftarrow> q_append src n s w; Some (False, s, w) } })"

definition append_string :: "string_memory \<Rightarrow> bstr \<Rightarrow> bstr \<Rightarrow> arena \<Rightarrow> (bool \<times> bstr \<times> arena) option" where
  "append_string F other s w = bs_append F (Ptr other) (ucast (str_length other)) s w"

definition append_char :: "string_memory \<Rightarrow> u8 \<Rightarrow> bstr \<Rightarrow> arena \<Rightarrow> (bool \<times> bstr \<times> arena) option" where
  "append_char F chr s w =
     (if str_length s < Alloced_length s
      then do { w \<leftarrow> store_byte (bs_end s) chr w; Some (False, s\<lparr>str_length := str_length s + 1\<rparr>, w) }
      else do {
        (failed, s, w) \<leftarrow> realloc_with_extra F (ucast (str_length s + 1)) s w;
        if failed then Some (True, s, w)
        else do { w \<leftarrow> store_byte (bs_end s) chr w; Some (False, s\<lparr>str_length := str_length s + 1\<rparr>, w) } })"

definition dig_vec_lower :: "nat \<Rightarrow> u8" where
  "dig_vec_lower i = (if i < 10 then of_nat (48 + i) else of_nat (87 + i))"

fun append_hex :: "string_memory \<Rightarrow> nat \<Rightarrow> nat \<Rightarrow> bstr \<Rightarrow> arena \<Rightarrow> (bool \<times> bstr \<times> arena) option" where
  "append_hex F src 0 s w = Some (False, s, w)"
| "append_hex F src (Suc srclen) s w = do {
     b \<leftarrow> load_byte w src;
     (failed, s, w) \<leftarrow> append_char F (dig_vec_lower (unat (drop_bit 4 b))) s w;
     if failed then Some (True, s, w)
     else do {
       b \<leftarrow> load_byte w src;
       (failed, s, w) \<leftarrow> append_char F (dig_vec_lower (unat (b AND 15))) s w;
       if failed then Some (True, s, w) else append_hex F (src + 1) srclen s w } }"

definition append_with_step :: "string_memory \<Rightarrow> nat \<Rightarrow> u32 \<Rightarrow> u32 \<Rightarrow> bstr \<Rightarrow> arena \<Rightarrow> (bool \<times> bstr \<times> arena) option" where
  "append_with_step F src arg_length step_alloc s w =
     (let new_length = arg_length + str_length s
      in do {
        (failed, s, w) \<leftarrow> (if new_length > Alloced_length s then bs_realloc F (ucast (new_length + step_alloc)) s w else Some (False, s, w));
        if failed then Some (True, s, w) else do { (s, w) \<leftarrow> q_append src (ucast arg_length) s w; Some (False, s, w) } })"

text \<open>
  \<open>c_ptr\<close> returns a pointer to a C string; the empty literal it returns for a null pointer is the
  address \<open>empty_str\<close>.
\<close>

definition c_ptr :: "string_memory \<Rightarrow> nat \<Rightarrow> bstr \<Rightarrow> arena \<Rightarrow> (nat \<times> bstr \<times> arena) option" where
  "c_ptr F empty_str s w =
     (if Ptr s = 0 then Some (empty_str, s, w)
      else do {
        ended \<leftarrow> (if alloced s then Some False else do { b \<leftarrow> load_byte w (bs_end s); Some (b = 0) });
        if ended then Some (Ptr s, s, w)
        else if str_length s < Alloced_length s
        then do { w \<leftarrow> store_byte (bs_end s) 0 w; Some (Ptr s, s, w) }
        else do { (_, s, w) \<leftarrow> bs_realloc F (ucast (str_length s)) s w; Some (Ptr s, s, w) } })"

definition c_ptr_safe :: "string_memory \<Rightarrow> bstr \<Rightarrow> arena \<Rightarrow> (nat \<times> bstr \<times> arena) option" where
  "c_ptr_safe F s w =
     (if Ptr s \<noteq> 0 \<and> str_length s < Alloced_length s
      then do { w \<leftarrow> store_byte (bs_end s) 0 w; Some (Ptr s, s, w) }
      else do { (_, s, w) \<leftarrow> bs_realloc F (ucast (str_length s)) s w; Some (Ptr s, s, w) })"

definition c_ptr_quick :: "string_memory \<Rightarrow> bstr \<Rightarrow> arena \<Rightarrow> (nat \<times> bstr \<times> arena) option" where
  "c_ptr_quick F s w = c_ptr_safe F s w"

definition reserve :: "string_memory \<Rightarrow> u64 \<Rightarrow> bstr \<Rightarrow> arena \<Rightarrow> (bool \<times> bstr \<times> arena) option" where
  "reserve F space_needed s w = do {
     _ \<leftarrow> dbug_assert (unat (ucast (str_length s) + space_needed) < UINT_MAX32);
     bs_realloc F (ucast (str_length s) + space_needed) s w }"

text \<open>The address of the area to fill, or zero.\<close>

definition prep_append :: "string_memory \<Rightarrow> u32 \<Rightarrow> u32 \<Rightarrow> bstr \<Rightarrow> arena \<Rightarrow> (nat \<times> bstr \<times> arena) option" where
  "prep_append F arg_length step_alloc s w =
     (let new_length = arg_length + str_length s
      in do {
        (failed, s, w) \<leftarrow> (if new_length > Alloced_length s then bs_realloc F (ucast (new_length + step_alloc)) s w else Some (False, s, w));
        if failed then Some (0, s, w) else Some (bs_end s, s\<lparr>str_length := str_length s + arg_length\<rparr>, w) })"

end
