(* ===== verification/StringAppend.thy ===== *)
theory StringAppend
  imports BinaryString "HOL-Library.Sublist"
begin

text \<open>
  Appending to a \<open>Binary_string\<close> computes concatenation of byte strings, whatever buffer it starts
  with and however often it grows. \<open>bs_ok\<close> is the invariant of a string in an arena, \<open>realloc_ok\<close> what is
  relied on from \<open>realloc_raw\<close>, and \<open>appended\<close> the contract of every operation that appends.
\<close>

section \<open>The invariant\<close>

abbreviation content :: "bstr \<Rightarrow> arena \<Rightarrow> u8 list" where
  "content s w \<equiv> bytes_at (mem_of w) (Ptr s) (unat (str_length s))"

definition bs_ok :: "bstr \<Rightarrow> arena \<Rightarrow> bool" where
  "bs_ok s w \<longleftrightarrow> accessible w (Ptr s) (unat (Alloced_length s)) \<and> accessible w (Ptr s) (unat (str_length s)) \<and>
     (alloced s \<longrightarrow> Ptr s \<noteq> 0 \<and> Ptr s \<in> fst ` set (blocks w)) \<and> (Alloced_length s = 0 \<or> str_length s \<le> Alloced_length s)"

definition others :: "bstr \<Rightarrow> arena \<Rightarrow> (nat \<times> nat) list" where
  "others s w = (if alloced s then filter (\<lambda>b. fst b \<noteq> Ptr s) (blocks w) else blocks w)"

definition apart :: "nat \<Rightarrow> nat \<Rightarrow> nat \<times> nat \<Rightarrow> bool" where
  "apart p n r \<longleftrightarrow> p + n \<le> fst r \<or> fst r + snd r \<le> p"

text \<open>Areas that data is appended from: blocks other than the string's own, outside its buffer.\<close>

definition sources :: "(nat \<times> nat) set \<Rightarrow> bstr \<Rightarrow> arena \<Rightarrow> bool" where
  "sources R s w \<longleftrightarrow> (\<forall>r\<in>R. r \<in> set (others s w @ buffers w) \<and> apart (Ptr s) (unat (Alloced_length s)) r)"

definition unchanged :: "(nat \<times> nat) set \<Rightarrow> arena \<Rightarrow> arena \<Rightarrow> bool" where
  "unchanged R w w' \<longleftrightarrow> (\<forall>(q, k)\<in>R. \<forall>a. q \<le> a \<and> a < q + k \<longrightarrow> mem_of w' a = mem_of w a)"

text \<open>
  What is relied on from \<open>realloc_raw\<close>: it either fails and changes nothing, or leaves a buffer of at
  least the requested size; when it moves the string, the new buffer is a heap block of its own
  that replaces the one owned before and holds the same bytes.
\<close>

definition moved :: "bstr \<Rightarrow> arena \<Rightarrow> bstr \<Rightarrow> arena \<Rightarrow> bool" where
  "moved s w s' w' \<longleftrightarrow>
     (\<exists>k. unat (Alloced_length s') \<le> k \<and> blocks w' = (Ptr s', k) # others s w \<and> (\<forall>r\<in>set (others s w @ buffers w). apart (Ptr s') k r)) \<and>
     s' = s\<lparr>Ptr := Ptr s', Alloced_length := Alloced_length s', alloced := True\<rparr> \<and> Ptr s' \<noteq> 0 \<and> Ptr s' \<notin> fst ` set (others s w) \<and>
     str_length s \<le> Alloced_length s' \<and> buffers w' = buffers w \<and> content s' w' = content s w \<and> unchanged (set (others s w @ buffers w)) w w'"

definition realloc_ok :: "string_memory \<Rightarrow> bool" where
  "realloc_ok F \<longleftrightarrow> (\<forall>n s w. bs_ok s w \<longrightarrow>
     (case realloc_raw F n s w of (failed, s', w') \<Rightarrow>
        if failed then s' = s \<and> w' = w
        else unat n \<le> unat (Alloced_length s') \<and> (s' = s \<and> w' = w \<or> moved s w s' w')))"

lemma apart_less: "apart p k r \<Longrightarrow> n \<le> k \<Longrightarrow> apart p n r"
  by (auto simp: apart_def)

lemma bs_ok_mem_of [simp]: "bs_ok s (w\<lparr>mem_of := m\<rparr>) = bs_ok s w"
  by (simp add: bs_ok_def)

lemma others_mem_of [simp]: "others s (w\<lparr>mem_of := m\<rparr>) = others s w"
  by (simp add: others_def)

lemma sources_mem_of [simp]: "sources R s (w\<lparr>mem_of := m\<rparr>) = sources R s w"
  by (simp add: sources_def)

lemma sources_cong:
  "Ptr s' = Ptr s \<Longrightarrow> Alloced_length s' = Alloced_length s \<Longrightarrow> alloced s' = alloced s \<Longrightarrow> sources R s' w = sources R s w"
  by (simp add: sources_def others_def)

lemma bs_ok_extra [simp]: "bs_ok (s\<lparr>extra_alloc := e\<rparr>) w = bs_ok s w"
  by (simp add: bs_ok_def)

lemma sources_update [simp]: "sources R (s\<lparr>extra_alloc := e\<rparr>) w = sources R s w" "sources R (s\<lparr>str_length := l\<rparr>) w = sources R s w"
  by (simp_all add: sources_def others_def)

text \<open>A write inside the string's buffer leaves every source as it is.\<close>

lemma write_keeps_sources:
  assumes "sources R s w" and "\<And>a. a < Ptr s \<or> Ptr s + unat (Alloced_length s) \<le> a \<Longrightarrow> m a = mem_of w a"
  shows "unchanged R w (w\<lparr>mem_of := m\<rparr>)"
proof -
  have "m a = mem_of w a" if "(q, k) \<in> R" "q \<le> a" "a < q + k" for q k a
  proof (rule assms(2))
    have "apart (Ptr s) (unat (Alloced_length s)) (q, k)" using assms(1) that(1) by (auto simp: sources_def)
    then show "a < Ptr s \<or> Ptr s + unat (Alloced_length s) \<le> a" using that(2,3) by (auto simp: apart_def)
  qed
  then show ?thesis by (auto simp: unchanged_def)
qed

lemma unchanged_trans: "unchanged R w w' \<Longrightarrow> unchanged R w' w'' \<Longrightarrow> unchanged R w w''"
  by (fastforce simp: unchanged_def)

lemma unchanged_refl [simp]: "unchanged R w w"
  by (simp add: unchanged_def)

lemma unchanged_bytes: "unchanged R w w' \<Longrightarrow> (q, k) \<in> R \<Longrightarrow> q \<le> p \<Longrightarrow> p + n \<le> q + k \<Longrightarrow> bytes_at (mem_of w') p n = bytes_at (mem_of w) p n"
  by (rule bytes_cong) (fastforce simp: unchanged_def)

lemma source_accessible: "sources R s w \<Longrightarrow> (q, k) \<in> R \<Longrightarrow> q \<le> p \<Longrightarrow> p + n \<le> q + k \<Longrightarrow> accessible w p n"
  by (fastforce simp: sources_def others_def accessible_def list_ex_iff split: if_splits)

lemma realloc_fails: "realloc_ok F \<Longrightarrow> bs_ok s w \<Longrightarrow> realloc_raw F n s w = (True, s', w') \<Longrightarrow> s' = s \<and> w' = w"
  unfolding realloc_ok_def by (drule spec [of _ n], drule spec [of _ s], drule spec [of _ w]) simp

lemma realloc_result:
  assumes "realloc_ok F" and "bs_ok s w" and "realloc_raw F n s w = (failed, s', w')"
  shows "s' = s \<and> w' = w \<or> moved s w s' w'"
  using assms(1) [unfolded realloc_ok_def, rule_format, OF assms(2), of n] assms(3) by (simp split: if_splits)

lemma realloc_grows:
  assumes "realloc_ok F" and "bs_ok s w" and "sources R s w" and "realloc_raw F n s w = (False, s', w')"
  shows "bs_ok s' w'" "unat n \<le> unat (Alloced_length s')" "str_length s' = str_length s" "extra_alloc s' = extra_alloc s"
    "content s' w' = content s w" "sources R s' w'" "unchanged R w w'"
proof -
  have result: "unat n \<le> unat (Alloced_length s')" "s' = s \<and> w' = w \<or> moved s w s' w'"
    using assms(1,2,4) unfolding realloc_ok_def by (fastforce split: prod.splits)+
  show "unat n \<le> unat (Alloced_length s')" by (rule result)
  consider "s' = s" "w' = w" | "moved s w s' w'" using result(2) by blast
  then have "bs_ok s' w' \<and> str_length s' = str_length s \<and> extra_alloc s' = extra_alloc s \<and> content s' w' = content s w \<and> sources R s' w' \<and> unchanged R w w'"
  proof cases
    case 1
    then show ?thesis using assms by simp
  next
    case 2
    then obtain k where k: "unat (Alloced_length s') \<le> k" "blocks w' = (Ptr s', k) # others s w" "\<forall>r\<in>set (others s w @ buffers w). apart (Ptr s') k r"
      unfolding moved_def by blast
    have s': "str_length s' = str_length s" "extra_alloc s' = extra_alloc s" "alloced s'" "Ptr s' \<noteq> 0" "Ptr s' \<notin> fst ` set (others s w)"
      "str_length s \<le> Alloced_length s'" "buffers w' = buffers w" "content s' w' = content s w" "unchanged (set (others s w @ buffers w)) w w'"
      using 2 unfolding moved_def by (auto dest: arg_cong [of s' _ str_length] arg_cong [of s' _ extra_alloc] arg_cong [of s' _ alloced])
    have le: "unat (str_length s) \<le> unat (Alloced_length s')" using s'(6) by (simp add: word_le_nat_alt)
    have "bs_ok s' w'" using k(1,2) s'(1,3,4,6) le by (auto simp: bs_ok_def accessible_def)
    moreover have "others s' w' = others s w"
      using s'(3,5) k(2) unfolding others_def [of s' w'] by (auto simp: filter_id_conv image_iff)
    then have "sources R s' w'" using assms(3) k(1,3) s'(7) by (auto simp: sources_def intro: apart_less)
    moreover have "unchanged R w w'" using s'(9) assms(3) by (auto simp: unchanged_def sources_def)
    ultimately show ?thesis using s' by simp
  qed
  then show "bs_ok s' w'" "str_length s' = str_length s" "extra_alloc s' = extra_alloc s"
    "content s' w' = content s w" "sources R s' w'" "unchanged R w w'" by blast+
qed

section \<open>The contract of appending\<close>

definition appended :: "(nat \<times> nat) set \<Rightarrow> u8 list \<Rightarrow> bstr \<Rightarrow> arena \<Rightarrow> (bool \<times> bstr \<times> arena) option \<Rightarrow> bool" where
  "appended R xs s w res \<longleftrightarrow> (\<exists>failed s' w'. res = Some (failed, s', w') \<and> bs_ok s' w' \<and> sources R s' w' \<and> unchanged R w w' \<and>
     (\<exists>ys. prefix ys xs \<and> (\<not> failed \<longrightarrow> ys = xs) \<and> content s' w' = content s w @ ys))"

text \<open>The contract of growing: the same content, and room for more than \<open>n\<close> bytes unless it failed.\<close>

definition room_made :: "(nat \<times> nat) set \<Rightarrow> nat \<Rightarrow> bstr \<Rightarrow> arena \<Rightarrow> (bool \<times> bstr \<times> arena) option \<Rightarrow> bool" where
  "room_made R n s w res \<longleftrightarrow> (\<exists>failed s' w'. res = Some (failed, s', w') \<and> bs_ok s' w' \<and> sources R s' w' \<and> unchanged R w w' \<and>
     str_length s' = str_length s \<and> content s' w' = content s w \<and> (\<not> failed \<longrightarrow> n < unat (Alloced_length s')))"

lemma unat_u32_add: "unat a + unat b < 2 ^ 32 \<Longrightarrow> unat (a + b :: u32) = unat a + unat b"
  by (simp add: unat_word_ariths)

lemma unat_u64_add: "unat a + unat b < 2 ^ 64 \<Longrightarrow> unat (a + b :: u64) = unat a + unat b"
  by (simp add: unat_word_ariths)

lemma unat_u32_less: "unat (x :: u32) < 2 ^ 32"
  using unat_less_exp [of x] by simp

lemma unat_low32: "unat n < 2 ^ 32 \<Longrightarrow> unat (ucast (n :: u64) :: u32) = unat n"
  by (simp add: unsigned_ucast_eq unsigned_take_bit_eq take_bit_nat_eq_self)

lemma byte_after_content:
  assumes "bs_ok s w" and "sources R s w" and "unat (str_length s) \<le> n" and "n < unat (Alloced_length s)"
  shows "\<exists>w'. store_byte (Ptr s + n) b w = Some w' \<and> bs_ok s w' \<and> sources R s w' \<and> unchanged R w w' \<and> content s w' = content s w \<and> mem_of w' (Ptr s + n) = b"
proof -
  have "accessible w (Ptr s + n) 1" 
    by (rule accessible_part [of w "Ptr s" "unat (Alloced_length s)"]) (use assms in \<open>simp_all add: bs_ok_def\<close>)
  moreover have "content s (w\<lparr>mem_of := (mem_of w)(Ptr s + n := b)\<rparr>) = content s w" using assms(3) by (intro bytes_cong) simp
  moreover have "unchanged R w (w\<lparr>mem_of := (mem_of w)(Ptr s + n := b)\<rparr>)" using assms(2,4) by (intro write_keeps_sources) auto
  ultimately show ?thesis using assms(1,2) by (simp add: store_byte_def)
qed

lemma zero_after_realloc:
  assumes "realloc_ok F" and "bs_ok s w" and "sources R s w" and "unat (str_length s) \<le> n" and "n < unat k"
  shows "room_made R n s w (case realloc_raw F k s w of (True, s, w) \<Rightarrow> Some (True, s, w)
    | (False, s, w) \<Rightarrow> do { w \<leftarrow> store_byte (Ptr s + n) 0 w; Some (False, s, w) })"
proof -
  obtain failed s1 w1 where r: "realloc_raw F k s w = (failed, s1, w1)" by (cases "realloc_raw F k s w") auto
  show ?thesis
  proof (cases failed)
    case True
    then have "s1 = s \<and> w1 = w" using r realloc_fails [OF assms(1,2)] by simp
    then show ?thesis using True r assms(2,3) by (auto simp: room_made_def)
  next
    case False
    then have r': "realloc_raw F k s w = (False, s1, w1)" using r by simp
    note g = realloc_grows [OF assms(1-3) r']
    obtain w2 where w2: "store_byte (Ptr s1 + n) 0 w1 = Some w2" "bs_ok s1 w2" "sources R s1 w2" "unchanged R w1 w2" "content s1 w2 = content s1 w1"
      using byte_after_content [OF g(1,6), of n 0] assms(4,5) g(2,3) by auto
    then show ?thesis using r' g assms(5) unchanged_trans [OF g(7) w2(4)] by (auto simp: room_made_def)
  qed
qed

lemma realloc_room:
  assumes "realloc_ok F" and "bs_ok s w" and "sources R s w" and "unat (str_length s) \<le> unat n" and "unat n + 1 < 2 ^ 64"
  shows "room_made R (unat n) s w (bs_realloc F n s w)"
  unfolding bs_realloc_def using zero_after_realloc [OF assms(1-4), of "n + 1"] unat_u64_add [of n 1] assms(5) by simp

lemma realloc_with_extra_room:
  assumes "realloc_ok F" and "bs_ok s w" and "sources R s w" and "unat (str_length s) \<le> unat n" and "unat n < 2 ^ 63"
  shows "room_made R (unat n) s w (realloc_with_extra F n s w)"
proof -
  define s1 where "s1 = (if extra_alloc s < 4096 then s\<lparr>extra_alloc := extra_alloc s * 2 + 128\<rparr> else s)"
  have s1: "bs_ok s1 w" "sources R s1 w" "str_length s1 = str_length s" "Ptr s1 = Ptr s" using assms(2,3) by (simp_all add: s1_def)
  have "0 < unat (extra_alloc s1)"
  proof (cases "extra_alloc s < 4096")
    case True
    then have "unat (extra_alloc s) < 4096" by (simp add: word_less_nat_alt)
    then have "unat (extra_alloc s * 2 + 128) = unat (extra_alloc s) * 2 + 128" by (simp add: unat_word_ariths)
    then show ?thesis using True by (simp add: s1_def)
  next
    case False
    then show ?thesis by (simp add: s1_def word_less_nat_alt)
  qed
  moreover have "unat (n + ucast (extra_alloc s1)) = unat n + unat (extra_alloc s1)"
    using unat_u64_add [of n "ucast (extra_alloc s1)"] assms(5) unat_u32_less [of "extra_alloc s1"] by (simp add: unat_widen(1))
  ultimately have "room_made R (unat n) s1 w (realloc_with_extra F n s w)"
    unfolding realloc_with_extra_def Let_def s1_def [symmetric]
    using zero_after_realloc [OF assms(1) s1(1,2), of "unat n" "n + ucast (extra_alloc s1)"] assms(4) s1(3) by simp
  then show ?thesis using s1(3,4) by (simp add: room_made_def)
qed

lemma realloc_if_needed_room:
  assumes "realloc_ok F" and "bs_ok s w" and "sources R s w" and "unat (str_length s) \<le> unat n" and "unat n < 2 ^ 63"
  shows "room_made R (unat n) s w (realloc_with_extra_if_needed F n s w)"
proof (cases "n < ucast (Alloced_length s)")
  case True
  then have "unat n < unat (Alloced_length s)" by (simp add: word_less_nat_alt unat_widen(1))
  then show ?thesis
    using True byte_after_content [OF assms(2-4), of 0] assms(2,3) by (auto simp: realloc_with_extra_if_needed_def room_made_def)
next
  case False
  then show ?thesis using realloc_with_extra_room [OF assms] by (simp add: realloc_with_extra_if_needed_def)
qed

lemma bs_ok_longer:
  assumes "bs_ok s w" and "unat (str_length s) + n \<le> unat (Alloced_length s)" and "unat l = unat (str_length s) + n"
  shows "bs_ok (s\<lparr>str_length := l\<rparr>) w"
proof -
  have "accessible w (Ptr s) (unat l)"
    by (rule accessible_part [of w "Ptr s" "unat (Alloced_length s)"]) (use assms in \<open>simp_all add: bs_ok_def\<close>)
  then show ?thesis using assms by (auto simp: bs_ok_def word_le_nat_alt)
qed

text \<open>A byte stored at the end of a string with room.\<close>

lemma put_byte:
  assumes "bs_ok s w" and "sources R s w" and "unat (str_length s) < unat (Alloced_length s)"
  shows "appended R [c] s w (do { w \<leftarrow> store_byte (bs_end s) c w; Some (False, s\<lparr>str_length := str_length s + 1\<rparr>, w) })"
proof -
  obtain w' where w': "store_byte (bs_end s) c w = Some w'" "bs_ok s w'" "sources R s w'" "unchanged R w w'" "content s w' = content s w" "mem_of w' (bs_end s) = c"
    using byte_after_content [OF assms(1,2) order_refl assms(3)] unfolding bs_end_def by blast
  have l: "unat (str_length s + 1) = unat (str_length s) + 1"
    using unat_u32_add [of "str_length s" 1] assms(3) unat_u32_less [of "Alloced_length s"] by simp
  have "content (s\<lparr>str_length := str_length s + 1\<rparr>) w' = content s w @ [c]"
    using w'(5,6) l bytes_add [of "mem_of w'" "Ptr s" "unat (str_length s)" 1] by (simp add: bytes_1 [unfolded One_nat_def] bs_end_def)
  moreover have "bs_ok (s\<lparr>str_length := str_length s + 1\<rparr>) w'" using bs_ok_longer [OF w'(2), of 1] l assms(3) by simp
  ultimately show ?thesis using w' by (auto simp: appended_def)
qed

lemma append_char_appends:
  assumes "realloc_ok F" and "bs_ok s w" and "sources R s w" and "unat (str_length s) + 1 < 2 ^ 32"
  shows "appended R [c] s w (append_char F c s w)"
proof (cases "str_length s < Alloced_length s")
  case True
  then show ?thesis using put_byte [OF assms(2,3), of c] by (simp add: append_char_def word_less_nat_alt)
next
  case False
  have l: "unat (ucast (str_length s + 1) :: u64) = unat (str_length s) + 1"
    using unat_u32_add [of "str_length s" 1] assms(4) by (simp add: unat_widen(1))
  then have "room_made R (unat (str_length s) + 1) s w (realloc_with_extra F (ucast (str_length s + 1)) s w)"
    using realloc_with_extra_room [OF assms(1-3), of "ucast (str_length s + 1)"] assms(4) by simp
  then obtain failed s' w' where r: "realloc_with_extra F (ucast (str_length s + 1)) s w = Some (failed, s', w')"
    "bs_ok s' w'" "sources R s' w'" "unchanged R w w'" "str_length s' = str_length s" "content s' w' = content s w"
    "\<not> failed \<longrightarrow> unat (str_length s) + 1 < unat (Alloced_length s')" unfolding room_made_def by blast
  show ?thesis
  proof (cases failed)
    case True
    then show ?thesis using False r by (auto simp: append_char_def appended_def)
  next
    case ok: False
    then have "appended R [c] s' w' (append_char F c s w)"
      using False r put_byte [OF r(2,3), of c] by (simp add: append_char_def)
    then show ?thesis using r(4,6) by (auto simp: appended_def intro: unchanged_trans)
  qed
qed

lemma q_append_copies:
  assumes "bs_ok s w" and "sources R s w" and "(q, k) \<in> R" and "q \<le> src" and "src + unat n \<le> q + k"
    and "unat (str_length s) + unat n \<le> unat (Alloced_length s)"
  shows "\<exists>s' w'. q_append src n s w = Some (s', w') \<and> bs_ok s' w' \<and> sources R s' w' \<and> unchanged R w w' \<and>
    content s' w' = content s w @ bytes_at (mem_of w) src (unat n)"
proof -
  have n: "unat (ucast n :: u32) = unat n" using assms(6) unat_u32_less [of "Alloced_length s"] by (intro unat_low32) linarith
  have l: "unat (str_length s + ucast n) = unat (str_length s) + unat n"
    using unat_u32_add [of "str_length s" "ucast n"] assms(6) unat_u32_less [of "Alloced_length s"] n by simp
  have "unat ((4294967295 :: u64) - n) = 4294967295 - unat n"
    using assms(6) unat_u32_less [of "Alloced_length s"] by (subst unat_sub) (simp_all add: word_le_nat_alt)
  then have fits: "ucast (str_length s) \<le> (4294967295 :: u64) - n"
    using assms(6) unat_u32_less [of "Alloced_length s"] by (simp add: word_le_nat_alt unat_widen(1))
  have far: "apart (Ptr s) (unat (Alloced_length s)) (q, k)" using assms(2,3) by (auto simp: sources_def)
  define w' where "w' = w\<lparr>mem_of := memcpy (mem_of w) (bs_end s) src (unat n)\<rparr>"
  have "accessible w (bs_end s) (unat n)"
    by (rule accessible_part [of w "Ptr s" "unat (Alloced_length s)"]) (use assms(1,6) in \<open>simp_all add: bs_ok_def bs_end_def\<close>)
  moreover have "accessible w src (unat n)" by (rule source_accessible [OF assms(2,3,4,5)])
  moreover have "bs_end s + unat n \<le> src \<or> src + unat n \<le> bs_end s"
    using far assms(4,5,6) by (auto simp: apart_def bs_end_def)
  ultimately have "copy_bytes_to (bs_end s) src (unat n) w = Some w'" by (simp add: copy_bytes_to_def w'_def)
  moreover have "n = 0 \<Longrightarrow> w' = w" by (simp add: w'_def memcpy_0)
  ultimately have run: "q_append src n s w = Some (s\<lparr>str_length := str_length s + ucast n\<rparr>, w')"
    using fits l assms(6) by (auto simp: q_append_def ASSERT_LENGTH_def word_le_nat_alt)
  have "content (s\<lparr>str_length := str_length s + ucast n\<rparr>) w' = content s w @ bytes_at (mem_of w) src (unat n)"
    using l by (simp add: bytes_add w'_def bs_end_def bytes_memcpy bytes_memcpy_outside)
  moreover have "unchanged R w w'"
    unfolding w'_def by (rule write_keeps_sources [OF assms(2)]) (use assms(6) in \<open>auto simp: memcpy_def bs_end_def\<close>)
  moreover have "bs_ok (s\<lparr>str_length := str_length s + ucast n\<rparr>) w'"
    using bs_ok_longer [OF assms(1,6), of "str_length s + ucast n"] l by (simp add: bs_ok_def w'_def)
  ultimately show ?thesis using run assms(2) by (simp add: w'_def)
qed

section \<open>Growing, then copying\<close>

lemma room_then_append:
  assumes "room_made R n s w res" and "(q, k) \<in> R" and "q \<le> src" and "src + unat len \<le> q + k" and "unat (str_length s) + unat len \<le> n"
  shows "appended R (bytes_at (mem_of w) src (unat len)) s w
    (do { (failed, s, w) \<leftarrow> res; if failed then Some (True, s, w) else do { (s, w) \<leftarrow> q_append src len s w; Some (False, s, w) } })"
proof -
  obtain failed s' w' where r: "res = Some (failed, s', w')" "bs_ok s' w'" "sources R s' w'" "unchanged R w w'" "str_length s' = str_length s"
    "content s' w' = content s w" "\<not> failed \<longrightarrow> n < unat (Alloced_length s')" using assms(1) unfolding room_made_def by blast
  show ?thesis
  proof (cases failed)
    case True
    then show ?thesis using r by (auto simp: appended_def)
  next
    case False
    obtain s2 w2 where q: "q_append src len s' w' = Some (s2, w2)" "bs_ok s2 w2" "sources R s2 w2" "unchanged R w' w2"
      "content s2 w2 = content s' w' @ bytes_at (mem_of w') src (unat len)"
      using q_append_copies [OF r(2,3) assms(2-4)] False r(5,7) assms(5) by auto
    have "bytes_at (mem_of w') src (unat len) = bytes_at (mem_of w) src (unat len)" by (rule unchanged_bytes [OF r(4) assms(2-4)])
    then show ?thesis using False r q unchanged_trans [OF r(4) q(4)] by (auto simp: appended_def)
  qed
qed

lemma append_appends:
  assumes "realloc_ok F" and "bs_ok s w" and "sources R s w" and "(q, k) \<in> R" and "q \<le> src" and "src + unat n \<le> q + k"
    and "unat (str_length s) + unat n < 2 ^ 63"
  shows "appended R (bytes_at (mem_of w) src (unat n)) s w (bs_append F src n s w)"
proof (cases "n = 0")
  case True
  then show ?thesis using assms(2,3) by (auto simp: bs_append_def appended_def)
next
  case False
  have l: "unat (ucast (str_length s) + n) = unat (str_length s) + unat n"
    using unat_u64_add [of "ucast (str_length s)" n] assms(7) by (simp add: unat_widen(1))
  then have "room_made R (unat (str_length s) + unat n) s w (realloc_with_extra_if_needed F (ucast (str_length s) + n) s w)"
    using realloc_if_needed_room [OF assms(1-3), of "ucast (str_length s) + n"] assms(7) by simp
  from room_then_append [OF this assms(4-6) order_refl] show ?thesis using False by (simp add: bs_append_def)
qed

lemma append_with_step_appends:
  assumes "realloc_ok F" and "bs_ok s w" and "sources R s w" and "(q, k) \<in> R" and "q \<le> src" and "src + unat n \<le> q + k"
    and "unat (str_length s) + unat n + unat step < 2 ^ 32"
  shows "appended R (bytes_at (mem_of w) src (unat n)) s w (append_with_step F src n step s w)"
proof -
  have l: "unat (n + str_length s) = unat (str_length s) + unat n" using unat_u32_add [of n "str_length s"] assms(7) by simp
  have l2: "unat (n + str_length s + step) = unat (str_length s) + unat n + unat step"
    using unat_u32_add [of "n + str_length s" step] assms(7) l by simp
  have l3: "unat (ucast (n + str_length s + step) :: u64) = unat (str_length s) + unat n + unat step" using l2 by (simp add: unat_widen(1))
  have src: "src + unat (ucast n :: u64) \<le> q + k" using assms(6) by (simp add: unat_widen(1))
  show ?thesis
  proof (cases "n + str_length s > Alloced_length s")
    case True
    have "room_made R (unat (str_length s) + unat n + unat step) s w (bs_realloc F (ucast (n + str_length s + step)) s w)"
      using realloc_room [OF assms(1-3), of "ucast (n + str_length s + step)"] l3 assms(7) by simp
    from room_then_append [OF this assms(4,5) src] show ?thesis using True by (simp add: append_with_step_def Let_def unat_widen(1))
  next
    case False
    then have "unat (str_length s) + unat (ucast n :: u64) \<le> unat (Alloced_length s)" using l by (simp add: word_less_nat_alt unat_widen(1))
    from q_append_copies [OF assms(2,3,4,5) src this] obtain s' w' where
      "q_append src (ucast n) s w = Some (s', w')" "bs_ok s' w'" "sources R s' w'" "unchanged R w w'"
      "content s' w' = content s w @ bytes_at (mem_of w) src (unat n)" by (auto simp: unat_widen(1))
    then show ?thesis using False by (auto simp: append_with_step_def Let_def appended_def)
  qed
qed

section \<open>Sequences of operations\<close>

lemma content_length: "unat (str_length s) = length (content s w)"
  by simp

lemma appended_bind:
  assumes "appended R xs s w res"
    and "\<And>s' w'. bs_ok s' w' \<Longrightarrow> sources R s' w' \<Longrightarrow> unchanged R w w' \<Longrightarrow> unat (str_length s') = unat (str_length s) + length xs \<Longrightarrow>
      appended R ys s' w' (g s' w')"
  shows "appended R (xs @ ys) s w (do { (failed, s, w) \<leftarrow> res; if failed then Some (True, s, w) else g s w })"
proof -
  obtain failed s' w' zs where r: "res = Some (failed, s', w')" "bs_ok s' w'" "sources R s' w'" "unchanged R w w'"
    "prefix zs xs" "\<not> failed \<longrightarrow> zs = xs" "content s' w' = content s w @ zs" using assms(1) unfolding appended_def by blast
  show ?thesis
  proof (cases failed)
    case True
    then show ?thesis using r by (auto simp: appended_def)
  next
    case False
    have "unat (str_length s') = unat (str_length s) + length xs"
      using arg_cong [OF r(7), of length] r(6) False by simp
    then have "appended R ys s' w' (g s' w')" using assms(2) r by blast
    then show ?thesis using False r by (fastforce simp: appended_def intro: unchanged_trans)
  qed
qed

definition hex_of :: "u8 \<Rightarrow> u8 list" where
  "hex_of b = [dig_vec_lower (unat (drop_bit 4 b)), dig_vec_lower (unat (b AND 15))]"

lemma append_hex_appends:
  assumes "realloc_ok F" and "bs_ok s w" and "sources R s w" and "(q, k) \<in> R" and "q \<le> src" and "src + n \<le> q + k"
    and "unat (str_length s) + 2 * n < 2 ^ 32"
  shows "appended R (concat (map hex_of (bytes_at (mem_of w) src n))) s w (append_hex F src n s w)"
  using assms(2-)
proof (induction n arbitrary: src s w)
  case 0
  then show ?case by (auto simp: appended_def)
next
  case (Suc n)
  define b where "b = mem_of w src"
  have load: "load_byte w' src = Some b" if "sources R s' w'" "unchanged R w w'" for s' w'
  proof -
    have "bytes_at (mem_of w') src 1 = bytes_at (mem_of w) src 1" by (rule unchanged_bytes [OF that(2) Suc.prems(3)]) (use Suc.prems in auto)
    then show ?thesis
      using source_accessible [OF that(1) Suc.prems(3,4), of 1] Suc.prems(5) by (simp add: load_byte_def b_def bytes_1 [unfolded One_nat_def])
  qed
  have step2: "appended R (concat (map hex_of (bytes_at (mem_of w) (src + 1) n))) s2 w2 (append_hex F (src + 1) n s2 w2)"
    if "bs_ok s2 w2" "sources R s2 w2" "unchanged R w w2" "unat (str_length s2) = unat (str_length s) + 2" for s2 w2
  proof -
    have "bytes_at (mem_of w2) (src + 1) n = bytes_at (mem_of w) (src + 1) n"
      by (rule unchanged_bytes [OF that(3) Suc.prems(3)]) (use Suc.prems in auto)
    then show ?thesis using Suc.IH [OF that(1,2) Suc.prems(3), of "src + 1"] Suc.prems(4-6) that(4) by simp
  qed
  have step1: "appended R (dig_vec_lower (unat (b AND 15)) # concat (map hex_of (bytes_at (mem_of w) (src + 1) n))) s1 w1
      (do { (failed, s, w) \<leftarrow> append_char F (dig_vec_lower (unat (b AND 15))) s1 w1; if failed then Some (True, s, w) else append_hex F (src + 1) n s w })"
    if "bs_ok s1 w1" "sources R s1 w1" "unchanged R w w1" "unat (str_length s1) = unat (str_length s) + 1" for s1 w1
    using appended_bind [OF append_char_appends [OF assms(1) that(1,2)] step2, of "dig_vec_lower (unat (b AND 15))"] that(3,4) Suc.prems(6)
    by (simp add: unchanged_trans [OF that(3)])
  have "bytes_at (mem_of w) src (Suc n) = b # bytes_at (mem_of w) (src + 1) n"
    using bytes_add [of "mem_of w" src 1 n] by (simp add: bytes_1 [unfolded One_nat_def] b_def)
  then have "concat (map hex_of (bytes_at (mem_of w) src (Suc n))) =
      [dig_vec_lower (unat (drop_bit 4 b))] @ (dig_vec_lower (unat (b AND 15)) # concat (map hex_of (bytes_at (mem_of w) (src + 1) n)))"
    by (simp add: hex_of_def)
  moreover have "append_hex F src (Suc n) s w = (do { (failed, s, w) \<leftarrow> append_char F (dig_vec_lower (unat (drop_bit 4 b))) s w;
      if failed then Some (True, s, w) else (do { b \<leftarrow> load_byte w src;
        (failed, s, w) \<leftarrow> append_char F (dig_vec_lower (unat (b AND 15))) s w; if failed then Some (True, s, w) else append_hex F (src + 1) n s w }) })"
    using load [OF Suc.prems(2)] by simp
  moreover have "unat (str_length s) + 1 < 2 ^ 32" using Suc.prems(6) by simp
  ultimately show ?case
    using appended_bind [OF append_char_appends [OF assms(1) Suc.prems(1,2)], of _
        "dig_vec_lower (unat (b AND 15)) # concat (map hex_of (bytes_at (mem_of w) (src + 1) n))"] load step1
    by (simp del: append_hex.simps)
qed

text \<open>Callers append piece by piece and stop at the first failure.\<close>

datatype str_op = Append nat u64 | Append_char u8 | Append_hex nat nat | Append_step nat u32 u32

fun exec_op :: "string_memory \<Rightarrow> str_op \<Rightarrow> bstr \<Rightarrow> arena \<Rightarrow> (bool \<times> bstr \<times> arena) option" where
  "exec_op F (Append src n) s w = bs_append F src n s w"
| "exec_op F (Append_char c) s w = append_char F c s w"
| "exec_op F (Append_hex src n) s w = append_hex F src n s w"
| "exec_op F (Append_step src n step) s w = append_with_step F src n step s w"

fun exec_ops :: "string_memory \<Rightarrow> str_op list \<Rightarrow> bstr \<Rightarrow> arena \<Rightarrow> (bool \<times> bstr \<times> arena) option" where
  "exec_ops F [] s w = Some (False, s, w)"
| "exec_ops F (x # xs) s w = do { (failed, s, w) \<leftarrow> exec_op F x s w; if failed then Some (True, s, w) else exec_ops F xs s w }"

fun op_bytes :: "arena \<Rightarrow> str_op \<Rightarrow> u8 list" where
  "op_bytes w (Append src n) = bytes_at (mem_of w) src (unat n)"
| "op_bytes w (Append_char c) = [c]"
| "op_bytes w (Append_hex src n) = concat (map hex_of (bytes_at (mem_of w) src n))"
| "op_bytes w (Append_step src n step) = bytes_at (mem_of w) src (unat n)"

fun op_source :: "str_op \<Rightarrow> nat \<times> nat" where
  "op_source (Append src n) = (src, unat n)"
| "op_source (Append_char c) = (0, 0)"
| "op_source (Append_hex src n) = (src, n)"
| "op_source (Append_step src n step) = (src, unat n)"

fun op_step :: "str_op \<Rightarrow> nat" where
  "op_step (Append_step src n step) = unat step"
| "op_step _ = 0"

definition reads_from :: "(nat \<times> nat) set \<Rightarrow> str_op \<Rightarrow> bool" where
  "reads_from R x \<longleftrightarrow> (case x of Append_char c \<Rightarrow> True | _ \<Rightarrow> \<exists>(q, k)\<in>R. q \<le> fst (op_source x) \<and> fst (op_source x) + snd (op_source x) \<le> q + k)"

lemma length_hex: "length (concat (map hex_of xs)) = 2 * length xs"
  by (induction xs) (simp_all add: hex_of_def)

lemma exec_op_appends:
  assumes "realloc_ok F" and "bs_ok s w" and "sources R s w" and "reads_from R x"
    and "unat (str_length s) + length (op_bytes w x) + op_step x < 2 ^ 32"
  shows "appended R (op_bytes w x) s w (exec_op F x s w)"
  using assms(4,5)
  by (cases x) (auto simp: reads_from_def length_hex intro!: append_char_appends [OF assms(1-3)] append_appends [OF assms(1-3)]
      append_hex_appends [OF assms(1-3)] append_with_step_appends [OF assms(1-3)])

lemma op_bytes_unchanged: "unchanged R w w' \<Longrightarrow> reads_from R x \<Longrightarrow> op_bytes w' x = op_bytes w x"
  by (cases x) (auto simp: reads_from_def unchanged_bytes)

lemma exec_ops_append:
  assumes "realloc_ok F" and "bs_ok s w" and "sources R s w" and "list_all (reads_from R) xs"
    and "unat (str_length s) + length (concat (map (op_bytes w) xs)) + sum_list (map op_step xs) < 2 ^ 32"
  shows "appended R (concat (map (op_bytes w) xs)) s w (exec_ops F xs s w)"
  using assms(2-)
proof (induction xs arbitrary: s w)
  case Nil
  then show ?case by (auto simp: appended_def)
next
  case (Cons x xs)
  have "appended R (op_bytes w x) s w (exec_op F x s w)"
    using exec_op_appends [OF assms(1) Cons.prems(1,2)] Cons.prems(3,4) by simp
  moreover have "appended R (concat (map (op_bytes w) xs)) s' w' (exec_ops F xs s' w')"
    if "bs_ok s' w'" "sources R s' w'" "unchanged R w w'" "unat (str_length s') = unat (str_length s) + length (op_bytes w x)" for s' w'
  proof -
    have eq: "map (op_bytes w') xs = map (op_bytes w) xs" using Cons.prems(3) op_bytes_unchanged [OF that(3)] by (simp add: list_all_iff)
    show ?thesis using Cons.IH [OF that(1,2), unfolded eq] Cons.prems(3,4) that(4) by simp
  qed
  ultimately show ?case using appended_bind by simp
qed

section \<open>An allocator\<close>

text \<open>New blocks come after every block in use; requests that need more than 32 bits fail.\<close>

definition next_free :: "arena \<Rightarrow> nat" where
  "next_free w = Suc (fold max (map (\<lambda>(q, k). q + k) (blocks w @ buffers w)) 0)"

definition bump_realloc :: "u64 \<Rightarrow> bstr \<Rightarrow> arena \<Rightarrow> bool \<times> bstr \<times> arena" where
  "bump_realloc n s w =
     (let k = max (unat n) (unat (str_length s)); p = next_free w
      in if unat n \<le> unat (Alloced_length s) then (False, s, w)
         else if k \<ge> 2 ^ 32 then (True, s, w)
         else (False, s\<lparr>Ptr := p, Alloced_length := of_nat k, alloced := True\<rparr>,
               w\<lparr>mem_of := memcpy (mem_of w) p (Ptr s) (unat (str_length s)), blocks := (p, k) # others s w\<rparr>))"

definition bump :: string_memory where
  "bump = \<lparr>real_alloc = (\<lambda>n s w. bump_realloc n (s\<lparr>str_length := 0\<rparr>) w), realloc_raw = bump_realloc\<rparr>"

lemma fold_max_bound: "x \<in> set xs \<Longrightarrow> x \<le> fold max xs (a :: nat)" "a \<le> fold max xs a"
  by (induction xs arbitrary: a) (auto, (metis max.bounded_iff max.cobounded1 order_trans)+)

lemma next_free_beyond: "(q, k) \<in> set (blocks w @ buffers w) \<Longrightarrow> q + k < next_free w"
  unfolding next_free_def less_Suc_eq_le by (rule fold_max_bound(1)) force

lemma bump_ok: "realloc_ok bump"
  unfolding realloc_ok_def
proof (intro allI impI)
  fix n :: u64 and s w
  assume ok: "bs_ok s w"
  define k where "k = max (unat n) (unat (str_length s))"
  have used: "q + j < next_free w" if "(q, j) \<in> set (others s w @ buffers w)" for q j
    using that by (intro next_free_beyond) (auto simp: others_def split: if_splits)
  have "moved s w (s\<lparr>Ptr := next_free w, Alloced_length := of_nat k, alloced := True\<rparr>)
      (w\<lparr>mem_of := memcpy (mem_of w) (next_free w) (Ptr s) (unat (str_length s)), blocks := (next_free w, k) # others s w\<rparr>)" if "k < 2 ^ 32"
    unfolding moved_def
  proof (intro conjI exI [of _ k])
    have k: "unat (of_nat k :: u32) = k" using that by (simp add: unat_of_nat take_bit_nat_eq_self)
    then show "unat (Alloced_length (s\<lparr>Ptr := next_free w, Alloced_length := of_nat k, alloced := True\<rparr>)) \<le> k" by simp
    show "str_length s \<le> Alloced_length (s\<lparr>Ptr := next_free w, Alloced_length := of_nat k, alloced := True\<rparr>)"
      using k by (simp add: word_le_nat_alt k_def)
    show "\<forall>r\<in>set (others s w @ buffers w). apart (Ptr (s\<lparr>Ptr := next_free w, Alloced_length := of_nat k, alloced := True\<rparr>)) k r"
      using used by (fastforce simp: apart_def)
    show "Ptr (s\<lparr>Ptr := next_free w, Alloced_length := of_nat k, alloced := True\<rparr>) \<notin> fst ` set (others s w)"
      using used by fastforce
    show "unchanged (set (others s w @ buffers w)) w (w\<lparr>mem_of := memcpy (mem_of w) (next_free w) (Ptr s) (unat (str_length s)), blocks := (next_free w, k) # others s w\<rparr>)"
      using used by (fastforce simp: unchanged_def memcpy_def)
  qed (simp_all add: next_free_def bytes_memcpy)
  moreover have "unat (of_nat k :: u32) \<ge> unat n" if "k < 2 ^ 32"
    using that by (simp add: unat_of_nat take_bit_nat_eq_self k_def)
  ultimately show "case realloc_raw bump n s w of (failed, s', w') \<Rightarrow>
      if failed then s' = s \<and> w' = w else unat n \<le> unat (Alloced_length s') \<and> (s' = s \<and> w' = w \<or> moved s w s' w')"
    by (simp add: bump_def bump_realloc_def Let_def k_def [symmetric])
qed

section \<open>Properties\<close>

text \<open>No buffer is longer than 32 bits, so a longer request fails.\<close>

lemma realloc_too_long:
  assumes "realloc_ok F" and "bs_ok s w" and "2 ^ 32 \<le> unat k"
  shows "realloc_raw F k s w = (True, s, w)"
proof -
  obtain failed s' w' where r: "realloc_raw F k s w = (failed, s', w')" by (cases "realloc_raw F k s w") auto
  have "failed"
  proof (rule ccontr)
    assume "\<not> failed"
    then have "realloc_raw F k s w = (False, s', w')" using r by simp
    from realloc_grows(2) [OF assms(1,2) _ this, of "{}"] have "unat k \<le> unat (Alloced_length s')" by (simp add: sources_def)
    then show False using assms(3) unat_u32_less [of "Alloced_length s'"] by linarith
  qed
  then show ?thesis using r realloc_fails [OF assms(1,2)] by simp
qed

lemma realloc_with_extra_too_long:
  assumes "realloc_ok F" and "bs_ok s w" and "2 ^ 32 \<le> unat n" and "unat n < 2 ^ 63"
  shows "\<exists>s'. realloc_with_extra F n s w = Some (True, s', w) \<and> content s' w = content s w"
proof -
  define s1 where "s1 = (if extra_alloc s < 4096 then s\<lparr>extra_alloc := extra_alloc s * 2 + 128\<rparr> else s)"
  have "unat (n + ucast (extra_alloc s1)) = unat n + unat (extra_alloc s1)"
    using unat_u64_add [of n "ucast (extra_alloc s1)"] assms(4) unat_u32_less [of "extra_alloc s1"] by (simp add: unat_widen(1))
  then have "realloc_raw F (n + ucast (extra_alloc s1)) s1 w = (True, s1, w)"
    using assms(2,3) by (intro realloc_too_long [OF assms(1)]) (simp_all add: s1_def)
  then show ?thesis by (simp add: realloc_with_extra_def Let_def s1_def [symmetric]) (simp add: s1_def)
qed

text \<open>
  Property C12: building a string piece by piece. For every well-formed string, whether it owns its
  buffer, borrows one or only reads one, a sequence of \<open>append\<close>, \<open>append_char\<close>, \<open>append_hex\<close> and
  \<open>append_with_step\<close> calls is defined (no access outside a block, no failed assertion) and leaves a
  well-formed string that holds the old bytes followed by the appended ones; when an allocation
  fails, by those of a prefix. The areas the data comes from are outside the string's buffer and
  stay as they are, and the total with the steps fits in 32 bits.
\<close>

theorem appends_concatenate:
  assumes "realloc_ok F" and "bs_ok s w" and "sources R s w" and "list_all (reads_from R) xs"
    and "unat (str_length s) + length (concat (map (op_bytes w) xs)) + sum_list (map op_step xs) < 2 ^ 32"
  shows "\<exists>failed s' w' ys. exec_ops F xs s w = Some (failed, s', w') \<and> bs_ok s' w' \<and> sources R s' w' \<and> unchanged R w w' \<and>
    content s' w' = content s w @ ys \<and> prefix ys (concat (map (op_bytes w) xs)) \<and> (\<not> failed \<longrightarrow> ys = concat (map (op_bytes w) xs))"
  using exec_ops_append [OF assms] unfolding appended_def by blast

text \<open>A literal of two bytes in a caller's buffer, and a string that only reads it.\<close>

definition arena2 :: arena where
  "arena2 = \<lparr>mem_of = (\<lambda>a. if a = 100 then 0x4a else if a = 101 then 0xf0 else 0), blocks = [], buffers = [(100, 2), (200, 2)]\<rparr>"

definition literal2 :: bstr where "literal2 = Binary_string_const 200 2"

lemma literal2_ok: "bs_ok literal2 arena2" "sources {(100, 2)} literal2 arena2"
  by (simp_all add: literal2_def arena2_def Binary_string_const_def bs_ok_def accessible_def sources_def apart_def)

lemma hex_bytes: "hex_of 0x4a = [0x34, 0x61]" "hex_of 0xf0 = [0x66, 0x30]"
  by (simp_all add: hex_of_def dig_vec_lower_def drop_bit_eq_div)

theorem appends_concatenate_witness:
  "\<exists>failed s' w' ys. exec_ops bump [Append_hex 100 2, Append_char 0x2c, Append 100 2] literal2 arena2 = Some (failed, s', w') \<and>
     content s' w' = [0, 0] @ ys \<and> prefix ys [0x34, 0x61, 0x66, 0x30, 0x2c, 0x4a, 0xf0] \<and>
     (\<not> failed \<longrightarrow> ys = [0x34, 0x61, 0x66, 0x30, 0x2c, 0x4a, 0xf0])"
proof -
  let ?xs = "[Append_hex 100 2, Append_char 0x2c, Append 100 2]"
  have bytes: "concat (map (op_bytes arena2) ?xs) = [0x34, 0x61, 0x66, 0x30, 0x2c, 0x4a, 0xf0]"
    by (simp add: bytes_at_def arena2_def hex_bytes upt_rec)
  have old: "content literal2 arena2 = [0, 0]"
    by (simp add: literal2_def Binary_string_const_def bytes_at_def arena2_def upt_rec)
  have "unat (str_length literal2) + length (concat (map (op_bytes arena2) ?xs)) + sum_list (map op_step ?xs) < 2 ^ 32"
    unfolding bytes by (simp add: literal2_def Binary_string_const_def)
  moreover have "list_all (reads_from {(100, 2)}) ?xs" by (simp add: reads_from_def)
  ultimately show ?thesis
    using appends_concatenate [OF bump_ok literal2_ok, of ?xs] unfolding bytes old by blast
qed

text \<open>
  Lengths that do not fit in 32 bits. When the new length of a string reaches \<open>2 ^ 32\<close>,
  \<open>append\<close> reports the failure and keeps the string. \<open>append_with_step\<close> computes the length in 32 bits:
  the sum wraps around, the buffer is not enlarged, the assertion of \<open>q_append\<close> that the data fits
  wraps around as well and passes, and the data is copied past the end of the buffer; the call is
  undefined.
\<close>

theorem append_with_step_wraps:
  assumes "realloc_ok F" and "bs_ok s w" and "Alloced_length s \<noteq> 0" and "2 ^ 32 \<le> unat (str_length s) + unat n"
  shows "append_with_step F src n step s w = None \<and> ASSERT_LENGTH n s \<and> unat (Alloced_length s) < unat (str_length s) + unat n \<and>
    (\<exists>s'. bs_append F src (ucast n) s w = Some (True, s', w) \<and> content s' w = content s w)"
proof -
  have le: "unat (str_length s) \<le> unat (Alloced_length s)" using assms(2,3) by (simp add: bs_ok_def word_le_nat_alt)
  have "unat (str_length s + n) = unat (str_length s) + unat n - 2 ^ 32"
    using assms(4) unat_u32_less [of "str_length s"] unat_u32_less [of n] by (simp add: unat_word_ariths mod_if)
  then have small: "str_length s + n \<le> Alloced_length s" using le unat_u32_less [of n] by (simp add: word_le_nat_alt)
  have "unat ((4294967295 :: u64) - ucast n) = 4294967295 - unat n"
    using unat_u32_less [of n] by (subst unat_sub) (simp_all add: word_le_nat_alt unat_widen(1))
  then have "\<not> ucast (str_length s) \<le> (4294967295 :: u64) - ucast n"
    using assms(4) unat_u32_less [of n] by (simp add: word_le_nat_alt unat_widen(1))
  then have none: "q_append src (ucast n) s w = None" by (auto simp: q_append_def Option.bind_eq_None_conv)
  have l: "unat (ucast (str_length s) + ucast n :: u64) = unat (str_length s) + unat n"
    using unat_u64_add [of "ucast (str_length s)" "ucast n"] unat_u32_less [of "str_length s"] unat_u32_less [of n] by (simp add: unat_widen(1))
  have "n \<noteq> 0" using assms(4) unat_u32_less [of "str_length s"] by auto
  then have n0: "(ucast n :: u64) \<noteq> 0" using unat_widen(1) [of n] by (metis unat_0 unsigned_eq_0_iff)
  have "\<exists>s'. realloc_with_extra F (ucast (str_length s) + ucast n) s w = Some (True, s', w) \<and> content s' w = content s w"
    using assms(4) l unat_u32_less [of "str_length s"] unat_u32_less [of n] by (intro realloc_with_extra_too_long [OF assms(1,2)]) simp_all
  moreover have "\<not> ucast (str_length s) + ucast n < (ucast (Alloced_length s) :: u64)"
    using assms(4) l unat_u32_less [of "Alloced_length s"] by (simp add: word_less_nat_alt unat_widen(1))
  ultimately have "\<exists>s'. bs_append F src (ucast n) s w = Some (True, s', w) \<and> content s' w = content s w"
    using n0 by (auto simp: bs_append_def realloc_with_extra_if_needed_def)
  moreover have "unat (Alloced_length s) < unat (str_length s) + unat n" using assms(4) unat_u32_less [of "Alloced_length s"] by linarith
  moreover have "\<not> Alloced_length s < n + str_length s" using small by (simp add: add.commute not_less)
  then have "append_with_step F src n step s w = None" using none by (simp add: append_with_step_def Let_def)
  ultimately show ?thesis using small by (simp add: ASSERT_LENGTH_def)
qed

text \<open>A buffer of almost 4 GB, full to its last byte, and three bytes to append.\<close>

definition arena4g :: arena where
  "arena4g = \<lparr>mem_of = (\<lambda>a. 0), blocks = [(1000, 4294967295)], buffers = [(100, 3)]\<rparr>"

definition string4g :: bstr where
  "string4g = \<lparr>Ptr = 1000, str_length = 4294967294, Alloced_length = 4294967295, extra_alloc = 0, alloced = True, thread_specific = False\<rparr>"

lemma ucast_3: "(ucast (3 :: u32) :: u64) = 3"
  by simp

theorem append_with_step_wraps_witness:
  "append_with_step bump 100 3 0 string4g arena4g = None \<and> ASSERT_LENGTH 3 string4g \<and>
   (\<exists>s'. bs_append bump 100 3 string4g arena4g = Some (True, s', arena4g) \<and> unat (str_length s') = 4294967294)"
proof -
  have ok: "bs_ok string4g arena4g" by (simp add: bs_ok_def string4g_def arena4g_def accessible_def)
  have "append_with_step bump 100 3 0 string4g arena4g = None \<and> ASSERT_LENGTH 3 string4g \<and> unat (Alloced_length string4g) < unat (str_length string4g) + unat (3 :: u32) \<and>
      (\<exists>s'. bs_append bump 100 (ucast (3 :: u32)) string4g arena4g = Some (True, s', arena4g) \<and> content s' arena4g = content string4g arena4g)"
    by (rule append_with_step_wraps [OF bump_ok ok]) (simp_all add: string4g_def)
  moreover have "unat (str_length s') = 4294967294" if "content s' arena4g = content string4g arena4g" for s'
    using arg_cong [OF that, of length] by (simp add: string4g_def)
  ultimately show ?thesis by (metis ucast_3)
qed

end
