(* ===== verification/StringOwner.thy ===== *)
theory StringOwner
  imports StringAppend
begin

text \<open>
  Who owns the buffer of a \<open>Binary_string\<close>. Strings hand their buffers to each other (\<open>move\<close>, \<open>swap\<close>),
  alias them without owning them (assignment, \<open>set\<close>), and release or grow their own. The states
  reachable by these operations are those of the step relation \<open>own_step\<close> on a family of string
  objects; in all of them every owned heap block has one owner.
\<close>

section \<open>Objects and their steps\<close>

inductive own_step :: "string_memory \<Rightarrow> nat \<Rightarrow> (nat \<Rightarrow> bstr) \<times> arena \<Rightarrow> (nat \<Rightarrow> bstr) \<times> arena \<Rightarrow> bool" for F n where
  own_free: "i < n \<Longrightarrow> bs_free (ss i) w = Some (s, w') \<Longrightarrow> own_step F n (ss, w) (ss(i := s), w')"
| own_assign: "i < n \<Longrightarrow> j < n \<Longrightarrow> i \<noteq> j \<Longrightarrow> bs_assign (ss j) (ss i) w = Some (s, w') \<Longrightarrow> own_step F n (ss, w) (ss(i := s), w')"
| own_set_buf: "i < n \<Longrightarrow> set_buf p len (ss i) w = Some (s, w') \<Longrightarrow> own_step F n (ss, w) (ss(i := s), w')"
| own_set_const: "i < n \<Longrightarrow> set_const p len (ss i) w = Some (s, w') \<Longrightarrow> own_step F n (ss, w) (ss(i := s), w')"
| own_set_part: "i < n \<Longrightarrow> j < n \<Longrightarrow> i \<noteq> j \<Longrightarrow> set_part (ss j) offset len (ss i) w = Some (s, w') \<Longrightarrow> own_step F n (ss, w) (ss(i := s), w')"
| own_set_buffer: "i < n \<Longrightarrow> own_step F n (ss, w) (ss(i := set_buffer_if_not_allocated p len (ss i)), w)"
| own_move: "i < n \<Longrightarrow> j < n \<Longrightarrow> i \<noteq> j \<Longrightarrow> bs_move (ss j) (ss i) w = Some (s, t, w') \<Longrightarrow> own_step F n (ss, w) (ss(i := s, j := t), w')"
| own_swap: "i < n \<Longrightarrow> j < n \<Longrightarrow> i \<noteq> j \<Longrightarrow> bs_swap (ss i) (ss j) = (s, t) \<Longrightarrow> own_step F n (ss, w) (ss(i := s, j := t), w)"
| own_grow: "i < n \<Longrightarrow> bs_ok (ss i) w \<Longrightarrow> realloc_raw F k (ss i) w = (failed, s, w') \<Longrightarrow> own_step F n (ss, w) (ss(i := s), w')"

definition owners :: "nat \<Rightarrow> (nat \<Rightarrow> bstr) \<Rightarrow> nat set" where
  "owners n ss = {i. i < n \<and> alloced (ss i)}"

definition own_ok :: "nat \<Rightarrow> (nat \<Rightarrow> bstr) \<Rightarrow> arena \<Rightarrow> bool" where
  "own_ok n ss w \<longleftrightarrow> inj_on (\<lambda>i. Ptr (ss i)) (owners n ss) \<and> (\<forall>i\<in>owners n ss. Ptr (ss i) \<noteq> 0 \<and> Ptr (ss i) \<in> fst ` set (blocks w))"

definition loose :: "nat \<Rightarrow> (nat \<Rightarrow> bstr) \<Rightarrow> arena \<Rightarrow> (nat \<times> nat) set" where
  "loose n ss w = {b \<in> set (blocks w). fst b \<notin> (\<lambda>i. Ptr (ss i)) ` owners n ss}"

fun destroy_all :: "nat \<Rightarrow> (nat \<Rightarrow> bstr) \<Rightarrow> arena \<Rightarrow> arena option" where
  "destroy_all 0 ss w = Some w"
| "destroy_all (Suc n) ss w = do { w \<leftarrow> destroy_all n ss w; bs_destroy (ss n) w }"

section \<open>Steps keep the owners apart\<close>

lemma free_buffer_defined:
  assumes "own_ok n ss w" and "i < n"
  shows "\<exists>w'. free_buffer (ss i) w = Some ((ss i)\<lparr>alloced := False\<rparr>, w') \<and> blocks w' = others (ss i) w \<and> buffers w' = buffers w \<and> mem_of w' = mem_of w"
proof (cases "alloced (ss i)")
  case True
  then have "Ptr (ss i) \<noteq> 0" "Ptr (ss i) \<in> fst ` set (blocks w)" using assms by (auto simp: own_ok_def owners_def)
  then show ?thesis using True by (simp add: free_buffer_def my_free_def others_def)
next
  case False
  then have "(ss i)\<lparr>alloced := False\<rparr> = ss i" by (cases "ss i") simp
  then show ?thesis using False by (simp add: free_buffer_def others_def)
qed

text \<open>The object gives up its buffer, which is freed when it was owned.\<close>

lemma gives_up:
  assumes "own_ok n ss w" and "i < n" and "free_buffer (ss i) w = Some (s, w')" and "\<not> alloced t"
  shows "own_ok n (ss(i := t)) w'" "loose n (ss(i := t)) w' = loose n ss w" "\<not> alloced s"
proof -
  have w': "blocks w' = others (ss i) w" "s = (ss i)\<lparr>alloced := False\<rparr>" using free_buffer_defined [OF assms(1,2)] assms(3) by auto
  have rest: "owners n (ss(i := t)) = owners n ss - {i}" using assms(4) by (auto simp: owners_def)
  have apart_ptr: "Ptr (ss j) \<noteq> Ptr (ss i)" if "j \<in> owners n ss" "j \<noteq> i" "alloced (ss i)" for j
    using assms(1,2) that by (auto simp: own_ok_def owners_def inj_on_def)
  have "inj_on (\<lambda>k. Ptr ((ss(i := t)) k)) (owners n ss - {i})" using assms(1) by (auto simp: own_ok_def inj_on_def)
  moreover have "Ptr (ss j) \<noteq> 0 \<and> Ptr (ss j) \<in> fst ` set (others (ss i) w)" if "j \<in> owners n ss" "j \<noteq> i" for j
    using assms(1) that apart_ptr [OF that] by (force simp: own_ok_def others_def)
  ultimately show "own_ok n (ss(i := t)) w'" by (simp add: own_ok_def rest w'(1))
  have ptrs: "(\<lambda>k. Ptr ((ss(i := t)) k)) ` (owners n ss - {i}) = (\<lambda>k. Ptr (ss k)) ` (owners n ss - {i})" by (rule image_cong) auto
  have "b \<in> set (others (ss i) w) \<and> fst b \<notin> (\<lambda>k. Ptr (ss k)) ` (owners n ss - {i}) \<longleftrightarrow> b \<in> loose n ss w" for b
    using assms(2) by (auto simp: others_def loose_def owners_def image_iff)
  then show "loose n (ss(i := t)) w' = loose n ss w" unfolding loose_def [of n "ss(i := t)"] rest ptrs w'(1) by blast
  show "\<not> alloced s" using w'(2) by simp
qed

text \<open>Ownership moves along with the pointers when they are permuted among the objects.\<close>

lemma exchange:
  assumes "own_ok n ss w" and "i < n" and "j < n" and "i \<noteq> j"
    and "alloced s = alloced (ss j)" and "alloced s \<Longrightarrow> Ptr s = Ptr (ss j)" and "alloced t = alloced (ss i)" and "alloced t \<Longrightarrow> Ptr t = Ptr (ss i)"
  shows "own_ok n (ss(i := s, j := t)) w" "loose n (ss(i := s, j := t)) w = loose n ss w"
proof -
  define f where "f k = (if k = i then j else if k = j then i else k)" for k
  have f: "bij_betw f (owners n (ss(i := s, j := t))) (owners n ss)"
    unfolding bij_betw_def
  proof (intro conjI)
    show "inj_on f (owners n (ss(i := s, j := t)))" by (auto simp: inj_on_def f_def)
    have "k \<in> f ` owners n (ss(i := s, j := t))" if "k \<in> owners n ss" for k
      by (rule image_eqI [of _ f "f k"]) (use that assms in \<open>auto simp: f_def owners_def\<close>)
    moreover have "f k \<in> owners n ss" if "k \<in> owners n (ss(i := s, j := t))" for k
      using that assms by (auto simp: f_def owners_def split: if_splits)
    ultimately show "f ` owners n (ss(i := s, j := t)) = owners n ss" by blast
  qed
  have ptr: "Ptr ((ss(i := s, j := t)) k) = Ptr (ss (f k))" if "k \<in> owners n (ss(i := s, j := t))" for k
    using that assms by (auto simp: f_def owners_def split: if_splits)
  have img: "(\<lambda>k. Ptr ((ss(i := s, j := t)) k)) ` owners n (ss(i := s, j := t)) = (\<lambda>k. Ptr (ss k)) ` owners n ss"
  proof -
    have "(\<lambda>k. Ptr ((ss(i := s, j := t)) k)) ` owners n (ss(i := s, j := t)) = (\<lambda>k. Ptr (ss (f k))) ` owners n (ss(i := s, j := t))"
      by (rule image_cong [OF refl ptr])
    also have "\<dots> = (\<lambda>k. Ptr (ss k)) ` f ` owners n (ss(i := s, j := t))" by (simp add: image_image)
    finally show ?thesis using f by (simp add: bij_betw_def)
  qed
  show "loose n (ss(i := s, j := t)) w = loose n ss w" unfolding loose_def img ..
  have "inj_on (\<lambda>k. Ptr ((ss(i := s, j := t)) k)) (owners n (ss(i := s, j := t)))"
  proof (rule inj_onI)
    fix k l
    assume kl: "k \<in> owners n (ss(i := s, j := t))" "l \<in> owners n (ss(i := s, j := t))" "Ptr ((ss(i := s, j := t)) k) = Ptr ((ss(i := s, j := t)) l)"
    then have "f k \<in> owners n ss" "f l \<in> owners n ss" "Ptr (ss (f k)) = Ptr (ss (f l))"
      using f ptr by (auto simp only: bij_betw_def)
    then have "f k = f l" using assms(1) by (auto simp: own_ok_def inj_on_def)
    then show "k = l" using f kl by (auto simp: bij_betw_def inj_on_def)
  qed
  moreover have "\<forall>p\<in>(\<lambda>k. Ptr (ss k)) ` owners n ss. p \<noteq> 0 \<and> p \<in> fst ` set (blocks w)" using assms(1) by (simp add: own_ok_def)
  then have "\<forall>k\<in>owners n (ss(i := s, j := t)). Ptr ((ss(i := s, j := t)) k) \<noteq> 0 \<and> Ptr ((ss(i := s, j := t)) k) \<in> fst ` set (blocks w)"
    unfolding img [symmetric] by (simp only: ball_simps)
  ultimately show "own_ok n (ss(i := s, j := t)) w" by (simp only: own_ok_def)
qed

lemma set_alloced_frees:
  "set_alloced p l a s w = Some (t, w') \<Longrightarrow> \<exists>s0. free_buffer s w = Some (s0, w') \<and> t = s0\<lparr>Ptr := p, str_length := ucast l, Alloced_length := ucast a\<rparr>"
  by (auto simp: set_alloced_def bind_eq_Some_conv split: if_splits)

lemma given_up:
  assumes "own_ok n ss w" and "i < n" and "free_buffer (ss i) w = Some (s0, w')" and "alloced t = alloced s0"
  shows "own_ok n (ss(i := t)) w' \<and> loose n (ss(i := t)) w' = loose n ss w"
proof -
  have "\<not> alloced t" using free_buffer_defined [OF assms(1,2)] assms(3,4) by auto
  then show ?thesis using gives_up [OF assms(1-3)] by blast
qed

lemma grow_keeps:
  assumes "own_ok n ss w" and "i < n" and "moved (ss i) w s w'"
  shows "own_ok n (ss(i := s)) w'" "loose n (ss(i := s)) w' = loose n ss w"
proof -
  have s: "alloced s" "Ptr s \<noteq> 0" "Ptr s \<notin> fst ` set (others (ss i) w)"
    using assms(3) unfolding moved_def by (auto dest: arg_cong [of s _ alloced])
  obtain k where k: "blocks w' = (Ptr s, k) # others (ss i) w" using assms(3) unfolding moved_def by blast
  obtain w1 where w1: "free_buffer (ss i) w = Some ((ss i)\<lparr>alloced := False\<rparr>, w1)" "blocks w1 = others (ss i) w"
    using free_buffer_defined [OF assms(1,2)] by blast
  define ss1 where "ss1 = ss(i := (ss i)\<lparr>alloced := False\<rparr>)"
  have ss1: "own_ok n ss1 w1" "loose n ss1 w1 = loose n ss w"
    unfolding ss1_def by (rule gives_up [OF assms(1,2) w1(1)], simp)+
  have ptr: "Ptr (ss j) \<in> fst ` set (others (ss i) w)" "Ptr (ss j) \<noteq> 0" if "j \<in> owners n ss" "j \<noteq> i" for j
  proof -
    have "j \<in> owners n ss1" "ss1 j = ss j" using that by (simp_all add: owners_def ss1_def)
    then show "Ptr (ss j) \<in> fst ` set (others (ss i) w)" "Ptr (ss j) \<noteq> 0"
      using ss1(1) w1(2) unfolding own_ok_def by (metis, metis)
  qed
  have own: "owners n (ss(i := s)) = insert i (owners n ss - {i})" "owners n ss1 = owners n ss - {i}" using s(1) assms(2) by (auto simp: owners_def ss1_def)
  have "inj_on (\<lambda>j. Ptr ((ss(i := s)) j)) (owners n ss - {i})" using assms(1) by (auto simp: own_ok_def inj_on_def)
  moreover have "Ptr (ss j) \<noteq> Ptr s" if "j \<in> owners n ss" "j \<noteq> i" for j using ptr(1) [OF that] s(3) by metis
  ultimately have "inj_on (\<lambda>j. Ptr ((ss(i := s)) j)) (owners n (ss(i := s)))" unfolding own by (auto simp: inj_on_def dest: sym)
  then show "own_ok n (ss(i := s)) w'" using ptr s(2) k unfolding own_ok_def own by auto
  have img: "(\<lambda>j. Ptr ((ss(i := s)) j)) ` owners n (ss(i := s)) = insert (Ptr s) ((\<lambda>j. Ptr (ss1 j)) ` owners n ss1)"
    unfolding own image_insert by (auto simp: ss1_def intro!: image_eqI)
  have "\<forall>b\<in>set (others (ss i) w). fst b \<noteq> Ptr s" using s(3) by force
  then have "b \<in> loose n (ss(i := s)) w' \<longleftrightarrow> b \<in> loose n ss1 w1" for b
    using k w1(2) unfolding loose_def img by fastforce
  then show "loose n (ss(i := s)) w' = loose n ss w" using ss1(2) by blast
qed

lemma own_step_keeps:
  assumes "own_step F n (ss, w) (ss', w')" and "realloc_ok F" and "own_ok n ss w"
  shows "own_ok n ss' w' \<and> loose n ss' w' = loose n ss w"
  using assms(1)
proof cases
  case (own_free i s)
  then obtain s0 where s0: "free_buffer (ss i) w = Some (s0, w')" "alloced s = alloced s0" by (auto simp: bs_free_def bind_eq_Some_conv)
  then show ?thesis using own_free(1) given_up [OF assms(3) own_free(2) s0] by simp
next
  case (own_assign i j s)
  then have "set_alloced (Ptr (ss j)) (ucast (str_length (ss j))) (ucast (Alloced_length (ss j))) (ss i) w = Some (s, w')"
    by (simp add: bs_assign_def split: if_splits)
  then obtain s0 where s0: "free_buffer (ss i) w = Some (s0, w')" "alloced s = alloced s0" using set_alloced_frees by fastforce
  then show ?thesis using own_assign(1) given_up [OF assms(3) own_assign(2) s0] by simp
next
  case (own_set_buf i p len s)
  then obtain s0 where s0: "free_buffer (ss i) w = Some (s0, w')" "alloced s = alloced s0" using set_alloced_frees by (fastforce simp: set_buf_def)
  then show ?thesis using own_set_buf(1) given_up [OF assms(3) own_set_buf(2) s0] by simp
next
  case (own_set_const i p len s)
  then obtain s0 where s0: "free_buffer (ss i) w = Some (s0, w')" "alloced s = alloced s0" by (auto simp: set_const_def bind_eq_Some_conv)
  then show ?thesis using own_set_const(1) given_up [OF assms(3) own_set_const(2) s0] by simp
next
  case (own_set_part i j offset len s)
  then obtain s0 where s0: "free_buffer (ss i) w = Some (s0, w')" "alloced s = alloced s0" by (auto simp: set_part_def bind_eq_Some_conv)
  then show ?thesis using own_set_part(1) given_up [OF assms(3) own_set_part(2) s0] by simp
next
  case (own_set_buffer i p len)
  have "own_ok n (ss(i := s)) w \<and> loose n (ss(i := s)) w = loose n ss w" if "\<not> alloced (ss i)" "\<not> alloced s" for s
    using gives_up [OF assms(3) own_set_buffer(3), of "ss i" w s] that by (simp add: free_buffer_def)
  then show ?thesis using own_set_buffer(1,2) assms(3) by (cases "alloced (ss i)") (simp_all add: set_buffer_if_not_allocated_def)
next
  case (own_move i j s t)
  then obtain this0 where set: "set_alloced (Ptr (ss j)) (ucast (str_length (ss j))) (ucast (Alloced_length (ss j))) (ss i) w = Some (this0, w')"
    "s = this0\<lparr>extra_alloc := extra_alloc (ss j), alloced := alloced (ss j), thread_specific := thread_specific (ss j)\<rparr>" "t = (ss j)\<lparr>alloced := False\<rparr>"
    by (auto simp: bs_move_def bind_eq_Some_conv)
  then obtain s0 where s0: "free_buffer (ss i) w = Some (s0, w')" "Ptr this0 = Ptr (ss j)" "alloced this0 = alloced s0" using set_alloced_frees by fastforce
  have this0: "\<not> alloced this0" "own_ok n (ss(i := this0)) w'" "loose n (ss(i := this0)) w' = loose n ss w"
    using given_up [OF assms(3) own_move(2) s0(1,3)] free_buffer_defined [OF assms(3) own_move(2)] s0(1,3) by auto
  then show ?thesis
    using exchange [OF this0(2) own_move(2,3,4), of s t] own_move(1,4) s0(2) set(2,3) by simp
next
  case (own_swap i j s t)
  then have "alloced s = alloced (ss j)" "Ptr s = Ptr (ss j)" "alloced t = alloced (ss i)" "Ptr t = Ptr (ss i)" by (auto simp: bs_swap_def)
  then show ?thesis using exchange [OF assms(3) own_swap(3-5), of s t] own_swap(1,2) by simp
next
  case (own_grow i k failed s)
  have "s = ss i \<and> w' = w \<or> moved (ss i) w s w'"
    by (rule realloc_result [OF assms(2) own_grow(3,4)])
  then show ?thesis using assms(3) grow_keeps [OF assms(3) own_grow(2)] own_grow(1) by (auto simp: fun_upd_idem)
qed

lemma own_steps_keep:
  assumes "(own_step F n)\<^sup>*\<^sup>* (ss, w) (ss', w')" and "realloc_ok F" and "own_ok n ss w"
  shows "own_ok n ss' w' \<and> loose n ss' w' = loose n ss w"
  using assms(1)
proof (induction rule: rtranclp_induct2)
  case refl
  then show ?case using assms(3) by simp
next
  case (step a b c d)
  then show ?case using own_step_keeps [OF step(2) assms(2)] by simp
qed

lemma own_ok_less: "own_ok (Suc n) ss w \<Longrightarrow> own_ok n ss w"
  by (auto simp: own_ok_def owners_def inj_on_def)

lemma destroy_all_frees: "own_ok n ss w \<Longrightarrow> \<exists>w'. destroy_all n ss w = Some w' \<and> set (blocks w') = loose n ss w"
proof (induction n)
  case 0
  then show ?case by (simp add: loose_def owners_def)
next
  case (Suc n)
  then obtain w1 where w1: "destroy_all n ss w = Some w1" "set (blocks w1) = loose n ss w" using own_ok_less by blast
  have mine: "Ptr (ss n) \<noteq> 0 \<and> Ptr (ss n) \<in> fst ` set (blocks w) \<and> Ptr (ss n) \<notin> (\<lambda>i. Ptr (ss i)) ` owners n ss" if "alloced (ss n)"
  proof (intro conjI)
    have n: "n \<in> owners (Suc n) ss" using that by (simp add: owners_def)
    then show "Ptr (ss n) \<noteq> 0" "Ptr (ss n) \<in> fst ` set (blocks w)" using Suc.prems by (simp_all add: own_ok_def)
    have "Ptr (ss i) \<noteq> Ptr (ss n)" if "i \<in> owners n ss" for i
      using inj_onD [of "\<lambda>i. Ptr (ss i)" "owners (Suc n) ss" i n] Suc.prems n that by (auto simp: own_ok_def owners_def)
    then show "Ptr (ss n) \<notin> (\<lambda>i. Ptr (ss i)) ` owners n ss" by force
  qed
  have all: "owners (Suc n) ss = (if alloced (ss n) then insert n (owners n ss) else owners n ss)" by (auto simp: owners_def less_Suc_eq)
  show ?case
  proof (cases "alloced (ss n)")
    case True
    then have "Ptr (ss n) \<in> fst ` set (blocks w1)" using mine w1(2) by (force simp: loose_def)
    moreover have "set (filter (\<lambda>b. fst b \<noteq> Ptr (ss n)) (blocks w1)) = loose (Suc n) ss w"
      using w1(2) True by (auto simp: loose_def all)
    ultimately show ?thesis using True w1(1) mine by (simp add: bs_destroy_def bs_free_def free_buffer_def my_free_def)
  next
    case False
    then show ?thesis using w1 by (simp add: bs_destroy_def bs_free_def free_buffer_def loose_def all)
  qed
qed

section \<open>Properties\<close>

text \<open>
  Property C13: every buffer is freed exactly once. However a family of strings passes its buffers around
  (assignment, \<open>set\<close>, \<open>set_buffer_if_not_allocated\<close>, \<open>move\<close>, \<open>swap\<close>, \<open>free\<close>, growing), no two own the same heap
  block, the buffer of each object can be freed, and when all are destroyed exactly the blocks
  that belonged to none of them at the start are left on the heap: nothing is freed twice, freed
  on behalf of somebody else, or lost.
\<close>

theorem strings_own_once:
  assumes "realloc_ok F" and "own_ok n ss w" and "(own_step F n)\<^sup>*\<^sup>* (ss, w) (ss', w')"
  shows "inj_on (\<lambda>i. Ptr (ss' i)) (owners n ss') \<and> (\<forall>i < n. \<exists>s w''. bs_free (ss' i) w' = Some (s, w'')) \<and>
    (\<exists>w''. destroy_all n ss' w' = Some w'' \<and> set (blocks w'') = loose n ss w)"
proof -
  have ok: "own_ok n ss' w'" "loose n ss' w' = loose n ss w" using own_steps_keep [OF assms(3,1,2)] by simp_all
  have "\<exists>s w''. bs_free (ss' i) w' = Some (s, w'')" if "i < n" for i
    using free_buffer_defined [OF ok(1) that] by (auto simp: bs_free_def)
  then show ?thesis using ok destroy_all_frees [OF ok(1)] by (simp add: own_ok_def)
qed

text \<open>Two objects: the buffer of the first moves to the second, beside a block of somebody else.\<close>

definition arena_owned :: arena where
  "arena_owned = \<lparr>mem_of = (\<lambda>a. 0), blocks = [(8, 4), (64, 16)], buffers = []\<rparr>"

definition two_strings :: "nat \<Rightarrow> bstr" where
  "two_strings i = (if i = 0 then init_private_data\<lparr>Ptr := 64, Alloced_length := 16, alloced := True\<rparr> else init_private_data)"

theorem strings_own_once_witness:
  "\<exists>ss' w' w''. own_step bump 2 (two_strings, arena_owned) (ss', w') \<and> alloced (ss' 1) \<and> \<not> alloced (ss' 0) \<and>
     destroy_all 2 ss' w' = Some w'' \<and> set (blocks w'') = {(8, 4)}"
proof -
  define s where "s = init_private_data\<lparr>Ptr := 64, Alloced_length := 16, alloced := True\<rparr>"
  have two: "{i. i < (2 :: nat) \<and> alloced (two_strings i)} = {0}" by (auto simp: two_strings_def init_private_data_def)
  have ok: "own_ok 2 two_strings arena_owned" unfolding own_ok_def owners_def two by (simp add: two_strings_def arena_owned_def)
  have free: "loose 2 two_strings arena_owned = {(8, 4)}" unfolding loose_def owners_def two by (auto simp: two_strings_def arena_owned_def)
  have "bs_move (two_strings 0) (two_strings 1) arena_owned = Some (s, s\<lparr>alloced := False\<rparr>, arena_owned)"
    by (simp add: bs_move_def set_alloced_def free_buffer_def two_strings_def init_private_data_def s_def UINT_MAX32_def)
  then have step: "own_step bump 2 (two_strings, arena_owned) (two_strings(1 := s, 0 := s\<lparr>alloced := False\<rparr>), arena_owned)"
    by (intro own_step.own_move) simp_all
  then have "(own_step bump 2)\<^sup>*\<^sup>* (two_strings, arena_owned) (two_strings(1 := s, 0 := s\<lparr>alloced := False\<rparr>), arena_owned)" by blast
  from strings_own_once [OF bump_ok ok this] free step show ?thesis by (force simp: s_def)
qed

end
