(* ===== verification/StringRead.thy ===== *)
theory StringRead
  imports StringAppend
begin

text \<open>
  Reading a \<open>Binary_string\<close> back: as a C string, as numbers stored by the \<open>q_append\<close> family, byte by
  byte, and after \<open>chop\<close>.
\<close>

section \<open>Comparing and scanning\<close>

lemma eight_bit_loop_scans:
  "accessible w c n \<Longrightarrow> eight_bit_loop c n w = Some (\<exists>b\<in>set (bytes_at (mem_of w) c n). 128 \<le> b)"
proof (induction n arbitrary: c)
  case (Suc n)
  have "accessible w c 1" by (rule accessible_part [OF Suc.prems]) simp_all
  moreover have "accessible w (c + 1) n" by (rule accessible_part [OF Suc.prems]) simp_all
  moreover have "bytes_at (mem_of w) c (Suc n) = mem_of w c # bytes_at (mem_of w) (c + 1) n"
    using bytes_add [of "mem_of w" c 1 n] by (simp add: bytes_1 [unfolded One_nat_def])
  ultimately show ?case using Suc.IH by (simp add: load_byte_def)
qed simp

lemma has_8bit_bytes_scans: "bs_ok s w \<Longrightarrow> has_8bit_bytes s w = Some (\<exists>b\<in>set (content s w). 128 \<le> b)"
  by (simp add: has_8bit_bytes_def bs_end_def eight_bit_loop_scans bs_ok_def)

lemma bin_eq_compares: "bs_ok s w \<Longrightarrow> bs_ok t w \<Longrightarrow> bin_eq s t w = Some (content s w = content t w)"
proof (cases "str_length s = str_length t")
  case False
  then have "length (content s w) \<noteq> length (content t w)" by (simp add: word_unat_eq_iff)
  then have "content s w \<noteq> content t w" by metis
  then show ?thesis using False by (simp add: bin_eq_def)
qed (simp add: bin_eq_def bs_ok_def Let_def)

section \<open>Removing the last byte\<close>

lemma chop_drops:
  assumes "bs_ok s w" and "Alloced_length s \<noteq> 0" and "0 \<notin> set (butlast (content s w))"
  shows "\<exists>s' w'. chop s w = Some (s', w') \<and> bs_ok s' w' \<and> content s' w' = butlast (content s w)"
proof (cases "str_length s = 0")
  case True
  then show ?thesis using assms by (simp add: chop_def)
next
  case False
  define s1 where "s1 = s\<lparr>str_length := str_length s - 1\<rparr>"
  define w1 where "w1 = w\<lparr>mem_of := (mem_of w)(bs_end s1 := 0)\<rparr>"
  have l: "unat (str_length s) = Suc (unat (str_length s - 1))" using False by (simp add: unat_minus_one unat_gt_0)
  have le: "unat (str_length s) \<le> unat (Alloced_length s)" using assms(1,2) by (simp add: bs_ok_def word_le_nat_alt)
  have end1: "bs_end s1 = Ptr s + unat (str_length s - 1)" by (simp add: s1_def bs_end_def)
  have "accessible w (bs_end s1) 1"
    by (rule accessible_part [of w "Ptr s" "unat (str_length s)"]) (use assms(1) l in \<open>simp_all add: bs_ok_def end1\<close>)
  then have store: "store_byte (bs_end s1) 0 w = Some w1" by (simp add: store_byte_def w1_def)
  have "accessible w (Ptr s) (unat (str_length s - 1))"
    by (rule accessible_part [of w "Ptr s" "unat (str_length s)"]) (use assms(1) l in \<open>simp_all add: bs_ok_def\<close>)
  then have ok: "bs_ok s1 w1" using assms(1,2) l le by (auto simp: bs_ok_def s1_def w1_def word_le_nat_alt)
  have "content s w = content s1 w @ [mem_of w (bs_end s1)]"
    using bytes_add [of "mem_of w" "Ptr s" "unat (str_length s - 1)" 1] l by (simp add: s1_def bs_end_def bytes_1 [unfolded One_nat_def])
  moreover have "content s1 w1 = content s1 w" by (rule bytes_cong) (simp add: w1_def bs_end_def)
  ultimately have "content s1 w1 = butlast (content s w)" by simp
  then show ?thesis using False store ok assms(3) by (simp add: chop_def Let_def s1_def)
qed

section \<open>C strings\<close>

text \<open>
  \<open>c_ptr\<close> terminates the string with a zero byte, except when growing the buffer for it fails: the
  result of \<open>realloc\<close> is not tested and the pointer returned is not terminated.
\<close>

definition terminated :: "bstr \<Rightarrow> arena \<Rightarrow> bool" where
  "terminated s w \<longleftrightarrow> mem_of w (bs_end s) = 0"

lemma realloc_terminates:
  assumes "realloc_ok F" and "bs_ok s w"
  shows "\<exists>failed s' w'. bs_realloc F (ucast (str_length s)) s w = Some (failed, s', w') \<and> bs_ok s' w' \<and> content s' w' = content s w \<and>
    (if failed then s' = s \<and> w' = w else terminated s' w')"
proof -
  define n where "n = (ucast (str_length s) :: u64)"
  have n: "unat n = unat (str_length s)" by (simp add: n_def unat_widen(1))
  have n1: "unat (n + 1) = unat (str_length s) + 1" using unat_u64_add [of n 1] n unat_u32_less [of "str_length s"] by simp
  obtain failed s1 w1 where r: "realloc_raw F (n + 1) s w = (failed, s1, w1)" by (cases "realloc_raw F (n + 1) s w") auto
  show ?thesis
  proof (cases failed)
    case True
    then show ?thesis using r realloc_fails [OF assms] assms(2) by (auto simp: bs_realloc_def n_def)
  next
    case False
    then have r': "realloc_raw F (n + 1) s w = (False, s1, w1)" using r by simp
    note g = realloc_grows [OF assms _ r', of "{}"]
    obtain w2 where "store_byte (Ptr s1 + unat (str_length s)) 0 w1 = Some w2" "bs_ok s1 w2" "content s1 w2 = content s1 w1" "mem_of w2 (Ptr s1 + unat (str_length s)) = 0"
      using byte_after_content [of s1 w1 "{}" "unat (str_length s)" 0] g n1 by (auto simp: sources_def)
    then show ?thesis using r' g n by (auto simp: bs_realloc_def n_def [symmetric] sources_def terminated_def bs_end_def)
  qed
qed

text \<open>
  What \<open>c_ptr\<close> returns. For a well-formed string with a buffer, whose next byte can be read
  when the string does not own its buffer, \<open>c_ptr\<close> is defined, keeps the bytes of the string, and
  returns the address of its buffer, which is followed by a zero byte, or, when the buffer is full
  and cannot grow, the buffer as it is.
\<close>

theorem c_ptr_returns_terminated:
  assumes "realloc_ok F" and "bs_ok s w" and "Ptr s \<noteq> 0" and "alloced s \<or> accessible w (bs_end s) 1"
  shows "\<exists>s' w'. c_ptr F e s w = Some (Ptr s', s', w') \<and> bs_ok s' w' \<and> content s' w' = content s w \<and>
    (terminated s' w' \<or> s' = s \<and> w' = w \<and> Alloced_length s \<le> str_length s)"
proof -
  have room: "\<exists>w'. store_byte (bs_end s) 0 w = Some w' \<and> bs_ok s w' \<and> content s w' = content s w \<and> terminated s w'" if "str_length s < Alloced_length s"
    using byte_after_content [of s w "{}" "unat (str_length s)" 0] assms(2) that by (auto simp: sources_def terminated_def bs_end_def word_less_nat_alt)
  obtain failed s' w' where r: "bs_realloc F (ucast (str_length s)) s w = Some (failed, s', w')" "bs_ok s' w'" "content s' w' = content s w"
    "if failed then s' = s \<and> w' = w else terminated s' w'" using realloc_terminates [OF assms(1,2)] by blast
  consider (ended) "\<not> alloced s" "mem_of w (bs_end s) = 0" | (room) "alloced s \<or> mem_of w (bs_end s) \<noteq> 0" "str_length s < Alloced_length s"
    | (full) "alloced s \<or> mem_of w (bs_end s) \<noteq> 0" "Alloced_length s \<le> str_length s" by (meson not_less)
  then show ?thesis
  proof cases
    case ended
    then show ?thesis using assms by (auto simp: c_ptr_def load_byte_def terminated_def)
  next
    case room
    then show ?thesis using assms(3,4) \<open>str_length s < Alloced_length s \<Longrightarrow> _\<close> by (auto simp: c_ptr_def load_byte_def)
  next
    case full
    then show ?thesis using assms(3,4) r by (auto simp: c_ptr_def load_byte_def not_less split: if_splits)
  qed
qed

theorem c_ptr_returns_terminated_witness:
  "\<exists>s' w'. c_ptr bump 1 (Binary_string_const 100 1) arena2 = Some (Ptr s', s', w') \<and> content s' w' = [0x4a] \<and>
     (terminated s' w' \<or> s' = Binary_string_const 100 1)"
proof -
  let ?s = "Binary_string_const 100 1"
  have "bs_ok ?s arena2" "Ptr ?s \<noteq> 0" "alloced ?s \<or> accessible arena2 (bs_end ?s) 1" "content ?s arena2 = [0x4a]"
    by (simp_all add: bs_ok_def accessible_def arena2_def Binary_string_const_def bs_end_def bytes_at_def)
  then show ?thesis using c_ptr_returns_terminated [OF bump_ok, of ?s arena2 1] by auto
qed

section \<open>Numbers\<close>

lemma q_append_uint32_reads_back:
  assumes "bs_ok s w" and "unat (str_length s) + 4 \<le> unat (Alloced_length s)"
  shows "\<exists>s' w'. q_append_uint32 n s w = Some (s', w') \<and> bs_ok s' w' \<and> unat (str_length s') = unat (str_length s) + 4 \<and>
    uint4korr (mem_of w') (bs_end s) = n \<and> bytes_at (mem_of w') (Ptr s) (unat (str_length s)) = content s w"
proof -
  have l: "unat (str_length s + 4) = unat (str_length s) + 4" using unat_u32_add [of "str_length s" 4] assms(2) unat_u32_less [of "Alloced_length s"] by simp
  have acc: "accessible w (bs_end s) 4"
    by (rule accessible_part [of w "Ptr s" "unat (Alloced_length s)"]) (use assms in \<open>simp_all add: bs_ok_def bs_end_def\<close>)
  define w' where "w' = w\<lparr>mem_of := int4store (mem_of w) (bs_end s) (ucast n)\<rparr>"
  have "q_append_uint32 n s w = Some (s\<lparr>str_length := str_length s + 4\<rparr>, w')"
    using acc l assms(2) by (simp add: q_append_uint32_def ASSERT_LENGTH_def store_with_def w'_def word_le_nat_alt)
  moreover have "bs_ok (s\<lparr>str_length := str_length s + 4\<rparr>) w'" using bs_ok_longer [OF assms, of "str_length s + 4"] l by (simp add: w'_def)
  moreover have "bytes_at (mem_of w') (Ptr s) (unat (str_length s)) = content s w"
    by (rule bytes_cong) (simp add: w'_def int4store_def bs_end_def)
  moreover have "uint4korr (mem_of w') (bs_end s) = n" by (simp add: w'_def uint4korr_int4store)
  ultimately show ?thesis using l by simp
qed

end
