(* ===== verification/PList.thy ===== *)
theory PList
  imports ILists
begin

text \<open>
  \<open>I_P_List\<close> of \<open>sql_plist.h\<close>, the intrusive list whose elements point back to the slot that points to
  them. Elements and slots are the links and slots of \<open>ILists\<close>; the list ends in the null pointer
  instead of a sentinel. The two policy classes are the fields of \<open>policy\<close>: \<open>counted\<close> stands for
  \<open>I_P_List_counter\<close> against \<open>I_P_List_null_counter\<close>, \<open>fast\<close> for \<open>I_P_List_fast_push_back\<close> against
  \<open>I_P_List_no_push_back\<close>.
\<close>

section \<open>The list\<close>

record policy =
  counted :: bool
  fast :: bool

record pheap =
  lnk :: lheap
  m_last :: "ilist_id \<Rightarrow> lslot"
  m_counter :: "ilist_id \<Rightarrow> u32"

definition on_lnk :: "(lheap \<Rightarrow> lheap) \<Rightarrow> pheap \<Rightarrow> pheap" where
  "on_lnk f h = h\<lparr>lnk := f (lnk h)\<rparr>"

definition pl_set_last :: "policy \<Rightarrow> ilist_id \<Rightarrow> lslot \<Rightarrow> pheap \<Rightarrow> pheap" where
  "pl_set_last P l a h = (if fast P then h\<lparr>m_last := (m_last h)(l := a)\<rparr> else h)"

definition counter_reset :: "policy \<Rightarrow> ilist_id \<Rightarrow> pheap \<Rightarrow> pheap" where
  "counter_reset P l h = (if counted P then h\<lparr>m_counter := (m_counter h)(l := 0)\<rparr> else h)"

definition counter_inc :: "policy \<Rightarrow> ilist_id \<Rightarrow> pheap \<Rightarrow> pheap" where
  "counter_inc P l h = (if counted P then h\<lparr>m_counter := (m_counter h)(l := m_counter h l + 1)\<rparr> else h)"

definition counter_dec :: "policy \<Rightarrow> ilist_id \<Rightarrow> pheap \<Rightarrow> pheap" where
  "counter_dec P l h = (if counted P then h\<lparr>m_counter := (m_counter h)(l := m_counter h l - 1)\<rparr> else h)"

abbreviation first_of :: "pheap \<Rightarrow> ilist_id \<Rightarrow> link" where
  "first_of h l \<equiv> il_first (lnk h) l"

definition pl_empty :: "policy \<Rightarrow> ilist_id \<Rightarrow> pheap \<Rightarrow> pheap" where
  "pl_empty P l h = pl_set_last P l (LFirst l) (counter_reset P l (on_lnk (l_assign (LFirst l) LNull) h))"

definition pl_is_empty :: "pheap \<Rightarrow> ilist_id \<Rightarrow> bool" where
  "pl_is_empty h l \<longleftrightarrow> first_of h l = LNull"

definition pl_push_front :: "policy \<Rightarrow> ilist_id \<Rightarrow> link \<Rightarrow> pheap \<Rightarrow> pheap" where
  "pl_push_front P l a h =
     (let h = on_lnk (l_assign (LNext a) (first_of h l)) h;
          h = (if first_of h l \<noteq> LNull then on_lnk (set_prev (first_of h l) (Some (LNext a))) h else pl_set_last P l (LNext a) h);
          h = on_lnk (l_assign (LFirst l) a) h;
          h = on_lnk (set_prev a (Some (LFirst l))) h
      in counter_inc P l h)"

text \<open>\<open>get_last\<close> exists with the policy \<open>fast\<close> only.\<close>

definition pl_push_back :: "policy \<Rightarrow> ilist_id \<Rightarrow> link \<Rightarrow> pheap \<Rightarrow> pheap" where
  "pl_push_back P l a h =
     (let last = m_last h l;
          h = on_lnk (l_assign (LNext a) (l_deref (lnk h) last)) h;
          h = on_lnk (l_assign last a) h;
          h = on_lnk (set_prev a (Some last)) h;
          h = pl_set_last P l (LNext a) h
      in counter_inc P l h)"

definition pl_insert_after :: "policy \<Rightarrow> ilist_id \<Rightarrow> link \<Rightarrow> link \<Rightarrow> pheap \<Rightarrow> pheap" where
  "pl_insert_after P l pos a h =
     (if pos = LNull then pl_push_front P l a h
      else let h = on_lnk (l_assign (LNext a) (lk_next (lnk h) pos)) h;
               h = on_lnk (set_prev a (Some (LNext pos))) h;
               h = on_lnk (l_assign (LNext pos) a) h;
               h = (if lk_next (lnk h) a \<noteq> LNull then on_lnk (set_prev (lk_next (lnk h) a) (Some (LNext a))) h
                    else pl_set_last P l (LNext a) h)
           in counter_inc P l h)"

text \<open>Removing an element whose \<open>prev\<close> is null is undefined.\<close>

definition pl_remove :: "policy \<Rightarrow> ilist_id \<Rightarrow> link \<Rightarrow> pheap \<Rightarrow> pheap option" where
  "pl_remove P l a h =
     (case lk_prev (lnk h) a of
        None \<Rightarrow> None
      | Some prev \<Rightarrow>
          let nxt = lk_next (lnk h) a;
              h = (if nxt \<noteq> LNull then on_lnk (set_prev nxt (Some prev)) h else pl_set_last P l prev h);
              h = on_lnk (l_assign prev nxt) h
          in Some (counter_dec P l h))"

definition pl_pop_front :: "policy \<Rightarrow> ilist_id \<Rightarrow> pheap \<Rightarrow> (link \<times> pheap) option" where
  "pl_pop_front P l h =
     (let result = first_of h l
      in if result \<noteq> LNull then map_option (Pair result) (pl_remove P l result h) else Some (result, h))"

text \<open>
  The parameter of \<open>swap\<close> is a list without fast \<open>push_back\<close>, so that \<open>set_last\<close> and the exchange of the
  insertion policies do nothing.
\<close>

definition pl_swap :: "policy \<Rightarrow> ilist_id \<Rightarrow> ilist_id \<Rightarrow> pheap \<Rightarrow> pheap" where
  "pl_swap P l rhs h =
     (let f = first_of h l; g = first_of h rhs;
          h = on_lnk (l_assign (LFirst l) g) h;
          h = on_lnk (l_assign (LFirst rhs) f) h;
          h = (if first_of h l \<noteq> LNull then on_lnk (set_prev (first_of h l) (Some (LFirst l))) h else h);
          h = (if first_of h rhs \<noteq> LNull then on_lnk (set_prev (first_of h rhs) (Some (LFirst rhs))) h else h)
      in if counted P then h\<lparr>m_counter := (m_counter h)(l := m_counter h rhs, rhs := m_counter h l)\<rparr> else h)"

section \<open>The iterator\<close>

record pl_iterator =
  it_list :: ilist_id
  it_current :: link

definition plit_init :: "ilist_id \<Rightarrow> pheap \<Rightarrow> pl_iterator" where
  "plit_init l h = \<lparr>it_list = l, it_current = first_of h l\<rparr>"

definition plit_post_inc :: "pl_iterator \<Rightarrow> pheap \<Rightarrow> link \<times> pl_iterator" where
  "plit_post_inc it h =
     (let result = it_current it
      in (result, if result \<noteq> LNull then it\<lparr>it_current := lk_next (lnk h) (it_current it)\<rparr> else it))"

text \<open>\<open>++it\<close> follows the pointer without testing it.\<close>

definition plit_pre_inc :: "pl_iterator \<Rightarrow> pheap \<Rightarrow> (link \<times> pl_iterator) option" where
  "plit_pre_inc it h =
     (if it_current it = LNull then None
      else let c = lk_next (lnk h) (it_current it) in Some (c, it\<lparr>it_current := c\<rparr>))"

definition plit_rewind :: "pl_iterator \<Rightarrow> pheap \<Rightarrow> pl_iterator" where
  "plit_rewind it h = it\<lparr>it_current := first_of h (it_list it)\<rparr>"

section \<open>Segments that end in the null pointer\<close>

lemma lnk_reads [ptr_simps]:
  "lnk (on_lnk f h) = f (lnk h)" "lnk (pl_set_last P l a h) = lnk h" "lnk (counter_reset P l h) = lnk h" "lnk (counter_inc P l h) = lnk h"
  "lnk (counter_dec P l h) = lnk h" "m_last (on_lnk f h) = m_last h" "m_last (counter_reset P l h) = m_last h" "m_last (counter_inc P l h) = m_last h"
  "m_last (counter_dec P l h) = m_last h" "m_counter (on_lnk f h) = m_counter h" "m_counter (pl_set_last P l a h) = m_counter h"
  "m_last (pl_set_last P l a h) k = (if fast P \<and> k = l then a else m_last h k)"
  "m_counter (counter_reset P l h) k = (if counted P \<and> k = l then 0 else m_counter h k)"
  "m_counter (counter_inc P l h) k = (if counted P \<and> k = l then m_counter h k + 1 else m_counter h k)"
  "m_counter (counter_dec P l h) k = (if counted P \<and> k = l then m_counter h k - 1 else m_counter h k)"
  by (simp_all add: on_lnk_def pl_set_last_def counter_reset_def counter_inc_def counter_dec_def)

abbreviation end_slot :: "lslot \<Rightarrow> link list \<Rightarrow> lslot" where
  "end_slot s xs \<equiv> if xs = [] then s else LNext (last xs)"

definition next_link :: "link list \<Rightarrow> link" where
  "next_link xs = (case xs of [] \<Rightarrow> LNull | x # _ \<Rightarrow> x)"

lemma next_link_simps [simp]: "next_link [] = LNull" "next_link (x # xs) = x"
  by (simp_all add: next_link_def)

text \<open>An element put after \<open>xs\<close>, and one taken out after \<open>xs\<close>; \<open>t\<close> is the slot at that place.\<close>

lemma null_seg_insert:
  assumes "seg nx pv s p (xs @ ys) (end_slot s (xs @ ys)) LNull" and "distinct (xs @ ys)" and "a \<notin> set (xs @ ys)" and "t = end_slot s xs"
    and "\<And>x. x = a \<or> x \<in> set (xs @ ys) \<Longrightarrow> nx' x = (if x = a then next_link ys else if t = LNext x then a else nx x)"
    and "\<And>x. x = a \<or> x \<in> set (xs @ ys) \<Longrightarrow> pv' x = (if x = a then Some t else if ys \<noteq> [] \<and> x = next_link ys then Some (LNext a) else pv x)"
    and "p' = (if xs = [] then a else p)" and "\<forall>x \<in> set (a # xs @ ys). s \<noteq> LNext x"
  shows "seg nx' pv' s p' (xs @ a # ys) (end_slot s (xs @ a # ys)) LNull"
proof -
  obtain r where r: "seg nx pv s p xs t r" "seg nx pv t r ys (end_slot s (xs @ ys)) LNull"
    using assms(1,4) by (auto simp: seg_append dest: seg_end)
  have ty: "\<forall>x \<in> set (a # ys). t \<noteq> LNext x" using assms(2,3,4,8) last_disjoint [of xs ys] last_in_set [of xs] by (cases "xs = []") auto
  have 1: "seg nx' pv' s p' xs t a"
    by (rule seg_redirect [OF r(1)]) (use assms(2,3,5,6,7) in \<open>auto simp: next_link_def split: list.splits\<close>)
  have 2: "seg nx' pv' (LNext a) (next_link ys) ys (end_slot s (xs @ a # ys)) LNull"
  proof (cases ys)
    case Nil
    then show ?thesis by simp
  next
    case (Cons y zs)
    then have y: "seg nx pv (LNext y) (nx y) zs (end_slot s (xs @ ys)) LNull" using r(2) by simp
    have "seg nx' pv' (LNext y) (nx y) zs (end_slot s (xs @ ys)) LNull"
      by (rule seg_keep [OF y]) (use assms(2,3,5,6) ty Cons in auto)
    then show ?thesis using Cons assms(2,3,5,6) ty by auto
  qed
  show ?thesis using 1 2 assms(3,5,6) by (auto simp: seg_append)
qed

lemma null_seg_delete:
  assumes "seg nx pv s p (xs @ a # ys) (end_slot s (xs @ a # ys)) LNull" and "distinct (xs @ a # ys)" and "t = end_slot s xs"
    and "\<And>x. x \<in> set (xs @ ys) \<Longrightarrow> nx' x = (if t = LNext x then next_link ys else nx x)"
    and "\<And>x. x \<in> set (xs @ ys) \<Longrightarrow> pv' x = (if ys \<noteq> [] \<and> x = next_link ys then Some t else pv x)"
    and "p' = (if xs = [] then next_link ys else p)" and "\<forall>x \<in> set (a # xs @ ys). s \<noteq> LNext x"
  shows "seg nx' pv' s p' (xs @ ys) (end_slot s (xs @ ys)) LNull"
proof -
  obtain r where r: "seg nx pv s p xs t r" "seg nx pv (LNext a) (nx a) ys (end_slot s (xs @ a # ys)) LNull"
    using assms(1,3) by (auto simp: seg_append dest: seg_end)
  have ty: "\<forall>x \<in> set (a # ys). t \<noteq> LNext x" using assms(2,3,7) last_disjoint [of xs ys] last_in_set [of xs] by (cases "xs = []") auto
  have 1: "seg nx' pv' s p' xs t (next_link ys)"
    by (rule seg_redirect [OF r(1)]) (use assms(2,4,5,6) in \<open>auto simp: next_link_def split: list.splits\<close>)
  have 2: "seg nx' pv' t (next_link ys) ys (end_slot s (xs @ ys)) LNull"
  proof (cases ys)
    case Nil
    then show ?thesis using assms(3) by simp
  next
    case (Cons y zs)
    then have y: "seg nx pv (LNext y) (nx y) zs (end_slot s (xs @ ys)) LNull" using r(2) by simp
    have "seg nx' pv' (LNext y) (nx y) zs (end_slot s (xs @ ys)) LNull"
      by (rule seg_keep [OF y]) (use assms(2,4,5) ty Cons in auto)
    then show ?thesis using Cons assms(2,4,5) ty by simp
  qed
  show ?thesis unfolding seg_append using 1 2 by blast
qed

section \<open>The list as a sequence\<close>

definition is_plist :: "policy \<Rightarrow> ilist_id \<Rightarrow> pheap \<Rightarrow> link list \<Rightarrow> bool" where
  "is_plist P l h ns \<longleftrightarrow> seg (lk_next (lnk h)) (lk_prev (lnk h)) (LFirst l) (first_of h l) ns (end_slot (LFirst l) ns) LNull \<and>
     distinct ns \<and> LNull \<notin> set ns \<and> (fast P \<longrightarrow> m_last h l = end_slot (LFirst l) ns) \<and> (counted P \<longrightarrow> m_counter h l = of_nat (length ns))"

lemma plist_first: "is_plist P l h ns \<Longrightarrow> first_of h l = next_link ns"
  by (cases ns) (auto simp: is_plist_def)

lemma plist_at:
  assumes "is_plist P l h (xs @ a # ys)"
  shows "lk_prev (lnk h) a = Some (end_slot (LFirst l) xs)" "lk_next (lnk h) a = next_link ys" "a \<noteq> LNull"
proof -
  have S: "seg (lk_next (lnk h)) (lk_prev (lnk h)) (LFirst l) (first_of h l) (xs @ a # ys) (end_slot (LFirst l) (xs @ a # ys)) LNull"
    using assms by (simp add: is_plist_def)
  then show "lk_prev (lnk h) a = Some (end_slot (LFirst l) xs)" by (auto simp: seg_append dest: seg_end)
  show "lk_next (lnk h) a = next_link ys" using S by (cases ys) (auto simp: seg_append)
  show "a \<noteq> LNull" using assms by (auto simp: is_plist_def)
qed

lemma plist_put:
  assumes "is_plist P l h (xs @ ys)" and "a \<notin> set (xs @ ys)" and "a \<noteq> LNull"
    and "\<And>x. lk_next (lnk h') x = (if x = a then next_link ys else if end_slot (LFirst l) xs = LNext x then a else lk_next (lnk h) x)"
    and "\<And>x. lk_prev (lnk h') x = (if x = a then Some (end_slot (LFirst l) xs) else if ys \<noteq> [] \<and> x = next_link ys then Some (LNext a) else lk_prev (lnk h) x)"
    and "first_of h' l = (if xs = [] then a else first_of h l)"
    and "fast P \<Longrightarrow> m_last h' l = (if ys = [] then LNext a else m_last h l)" and "counted P \<Longrightarrow> m_counter h' l = m_counter h l + 1"
  shows "is_plist P l h' (xs @ a # ys)"
proof -
  have "seg (lk_next (lnk h')) (lk_prev (lnk h')) (LFirst l) (first_of h' l) (xs @ a # ys) (end_slot (LFirst l) (xs @ a # ys)) LNull"
    by (rule null_seg_insert [where nx = "lk_next (lnk h)" and pv = "lk_prev (lnk h)" and p = "first_of h l" and t = "end_slot (LFirst l) xs"])
      (use assms in \<open>auto simp: is_plist_def\<close>)
  then show ?thesis using assms unfolding is_plist_def by (auto simp: algebra_simps)
qed

lemma plist_take:
  assumes "is_plist P l h (xs @ a # ys)"
    and "\<And>x. lk_next (lnk h') x = (if end_slot (LFirst l) xs = LNext x then next_link ys else lk_next (lnk h) x)"
    and "\<And>x. lk_prev (lnk h') x = (if ys \<noteq> [] \<and> x = next_link ys then Some (end_slot (LFirst l) xs) else lk_prev (lnk h) x)"
    and "first_of h' l = (if xs = [] then next_link ys else first_of h l)"
    and "fast P \<Longrightarrow> m_last h' l = (if ys = [] then end_slot (LFirst l) xs else m_last h l)" and "counted P \<Longrightarrow> m_counter h' l = m_counter h l - 1"
  shows "is_plist P l h' (xs @ ys)"
proof -
  have "seg (lk_next (lnk h')) (lk_prev (lnk h')) (LFirst l) (first_of h' l) (xs @ ys) (end_slot (LFirst l) (xs @ ys)) LNull"
    by (rule null_seg_delete [where nx = "lk_next (lnk h)" and pv = "lk_prev (lnk h)" and p = "first_of h l" and t = "end_slot (LFirst l) xs" and a = a])
      (use assms in \<open>auto simp: is_plist_def\<close>)
  then show ?thesis using assms unfolding is_plist_def by (auto simp: algebra_simps)
qed

lemma next_link_null: "LNull \<notin> set ys \<Longrightarrow> (next_link ys = LNull) = (ys = [])"
  by (cases ys) auto

lemma pl_push_front_list:
  assumes "is_plist P l h ns" and "a \<notin> set ns" and "a \<noteq> LNull"
  shows "is_plist P l (pl_push_front P l a h) (a # ns)"
proof -
  have "is_plist P l (pl_push_front P l a h) ([] @ a # ns)"
    by (rule plist_put [where h = h]) (use assms plist_first [OF assms(1)] next_link_null [of ns] in
        \<open>auto simp: pl_push_front_def Let_def ptr_simps is_plist_def next_link_def split: list.splits\<close>)
  then show ?thesis by simp
qed

lemma end_slot_fresh: "a \<notin> set xs \<Longrightarrow> end_slot (LFirst l) xs \<noteq> LNext a"
  by (auto dest: last_in_set)

lemma end_slot_value: "is_plist P l h ns \<Longrightarrow> l_deref (lnk h) (end_slot (LFirst l) ns) = LNull"
  by (cases ns rule: rev_cases) (auto simp: is_plist_def seg_append)

lemma pl_push_back_list:
  assumes "is_plist P l h ns" and "a \<notin> set ns" and "a \<noteq> LNull" and "fast P"
  shows "is_plist P l (pl_push_back P l a h) (ns @ [a])"
proof -
  have "m_last h l = end_slot (LFirst l) ns" using assms(1,4) by (simp add: is_plist_def)
  then show ?thesis
    by (intro plist_put [where h = h]) (use assms end_slot_fresh [OF assms(2), of l] end_slot_value [OF assms(1)] in
        \<open>auto simp: pl_push_back_def Let_def ptr_simps\<close>)
qed

lemma pl_insert_after_list:
  assumes "is_plist P l h (xs @ pos # ys)" and "a \<notin> set (xs @ pos # ys)" and "a \<noteq> LNull"
  shows "is_plist P l (pl_insert_after P l pos a h) (xs @ pos # a # ys)"
proof -
  note at = plist_at [OF assms(1)]
  have nn: "LNull \<notin> set ys" using assms(1) by (simp add: is_plist_def)
  have "is_plist P l (pl_insert_after P l pos a h) ((xs @ [pos]) @ a # ys)"
    by (rule plist_put [where h = h]) (use assms at next_link_null [OF nn] in
        \<open>auto simp: pl_insert_after_def Let_def ptr_simps next_link_def split: list.splits\<close>)
  then show ?thesis by simp
qed

lemma pl_remove_list:
  assumes "is_plist P l h (xs @ a # ys)"
  shows "\<exists>h'. pl_remove P l a h = Some h' \<and> is_plist P l h' (xs @ ys) \<and> (\<forall>x. x \<notin> set xs \<longrightarrow> lk_next (lnk h') x = lk_next (lnk h) x)"
proof -
  note at = plist_at [OF assms]
  have nn: "LNull \<notin> set ys" using assms by (simp add: is_plist_def)
  obtain h' where h': "pl_remove P l a h = Some h'" using at(1) by (auto simp: pl_remove_def Let_def)
  have "is_plist P l h' (xs @ ys)"
    by (rule plist_take [where h = h and a = a]) (use assms h' at next_link_null [OF nn] in
        \<open>auto simp: pl_remove_def Let_def ptr_simps split: if_splits\<close>)
  moreover have "lk_next (lnk h') x = lk_next (lnk h) x" if "x \<notin> set xs" for x
    using h' at(1) end_slot_fresh [OF that, of l] by (auto simp: pl_remove_def Let_def ptr_simps split: if_splits)
  ultimately show ?thesis using h' by blast
qed

lemma pl_pop_front_list:
  assumes "is_plist P l h ns"
  shows "\<exists>h'. pl_pop_front P l h = Some (next_link ns, h') \<and> is_plist P l h' (tl ns)"
proof (cases ns)
  case Nil
  then show ?thesis using assms plist_first [OF assms] by (simp add: pl_pop_front_def)
next
  case (Cons a ms)
  then have "a \<noteq> LNull" "is_plist P l h ([] @ a # ms)" using assms by (auto simp: is_plist_def)
  then show ?thesis using pl_remove_list [of P l h "[]" a ms] plist_first [OF assms] Cons by (auto simp: pl_pop_front_def)
qed

text \<open>The operations as total functions on elements numbered by naturals.\<close>

definition pl_pop_total :: "policy \<Rightarrow> ilist_id \<Rightarrow> pheap \<Rightarrow> link \<times> pheap" where
  "pl_pop_total P l h = (case pl_pop_front P l h of None \<Rightarrow> (LNull, h) | Some r \<Rightarrow> r)"

definition fast_policy :: "bool \<Rightarrow> policy" where
  "fast_policy c = \<lparr>counted = c, fast = True\<rparr>"

interpretation pl: seq_store "\<lambda>h xs. is_plist (fast_policy c) l h (map Link xs)" "\<lambda>xs i. i \<notin> set xs" "\<lambda>i. pl_push_back (fast_policy c) l (Link i)"
  "\<lambda>i. pl_push_front (fast_policy c) l (Link i)" "pl_pop_total (fast_policy c) l" Link LNull for c l
proof unfold_locales
  fix h xs i
  assume h: "is_plist (fast_policy c) l h (map Link xs)" and i: "i \<notin> set xs"
  then have n: "Link i \<notin> set (map Link xs)" by auto
  show "is_plist (fast_policy c) l (pl_push_back (fast_policy c) l (Link i) h) (map Link (xs @ [i]))"
    using pl_push_back_list [OF h n] by (simp add: fast_policy_def)
  show "is_plist (fast_policy c) l (pl_push_front (fast_policy c) l (Link i) h) (map Link (i # xs))"
    using pl_push_front_list [OF h n] by simp
next
  fix h x xs
  assume "is_plist (fast_policy c) l h (map Link (x # xs))"
  from pl_pop_front_list [OF this] show "fst (pl_pop_total (fast_policy c) l h) = Link x \<and> is_plist (fast_policy c) l (snd (pl_pop_total (fast_policy c) l h)) (map Link xs)"
    by (auto simp: pl_pop_total_def)
next
  fix h
  assume "is_plist (fast_policy c) l h (map Link [])"
  from pl_pop_front_list [OF this] show "fst (pl_pop_total (fast_policy c) l h) = LNull \<and> is_plist (fast_policy c) l (snd (pl_pop_total (fast_policy c) l h)) (map Link [])"
    by (auto simp: pl_pop_total_def)
qed

text \<open>Exchanging two disjoint lists.\<close>

lemma seg_moved:
  assumes "seg nx pv s p ns (end_slot s ns) LNull" and "distinct ns"
    and "\<And>x. x \<in> set ns \<Longrightarrow> nx' x = nx x" and "\<And>x. x \<in> set ns \<Longrightarrow> pv' x = (if x = next_link ns then Some s' else pv x)"
  shows "seg nx' pv' s' p ns (end_slot s' ns) LNull"
proof (cases ns)
  case Nil
  then show ?thesis using assms(1) by simp
next
  case (Cons y zs)
  have "seg nx' pv' (LNext y) (nx y) zs (end_slot s ns) LNull"
    by (rule seg_keep [of nx pv]) (use assms Cons in auto)
  then show ?thesis using assms Cons by simp
qed

lemma pl_swap_lists:
  assumes "is_plist P l h xs" and "is_plist P r h ys" and "set xs \<inter> set ys = {}" and "l \<noteq> r" and "\<not> fast P"
  shows "is_plist P l (pl_swap P l r h) ys" "is_plist P r (pl_swap P l r h) xs"
proof -
  have f: "first_of h l = next_link xs" "first_of h r = next_link ys" using plist_first assms(1,2) by blast+
  have nn: "LNull \<notin> set xs" "LNull \<notin> set ys" using assms(1,2) by (auto simp: is_plist_def)
  define h' where "h' = pl_swap P l r h"
  have n: "lk_next (lnk h') = lk_next (lnk h)" "first_of h' l = next_link ys" "first_of h' r = next_link xs"
    using assms(4) f by (auto simp: h'_def pl_swap_def Let_def ptr_simps fun_eq_iff)
  have "lk_prev (lnk h') x = (if xs \<noteq> [] \<and> x = next_link xs then Some (LFirst r) else if ys \<noteq> [] \<and> x = next_link ys then Some (LFirst l) else lk_prev (lnk h) x)" for x
    using assms(4) f next_link_null [OF nn(1)] next_link_null [OF nn(2)] by (auto simp: h'_def pl_swap_def Let_def ptr_simps)
  moreover have "xs \<noteq> [] \<Longrightarrow> next_link xs \<in> set xs" "ys \<noteq> [] \<Longrightarrow> next_link ys \<in> set ys" by (auto simp: next_link_def split: list.splits)
  ultimately have p: "x \<in> set xs \<Longrightarrow> lk_prev (lnk h') x = (if x = next_link xs then Some (LFirst r) else lk_prev (lnk h) x)"
    "x \<in> set ys \<Longrightarrow> lk_prev (lnk h') x = (if x = next_link ys then Some (LFirst l) else lk_prev (lnk h) x)" for x
    using assms(3) by (auto split: if_splits)
  have c: "counted P \<Longrightarrow> m_counter h' l = m_counter h r \<and> m_counter h' r = m_counter h l"
    using assms(4) by (simp add: h'_def pl_swap_def Let_def ptr_simps)
  have sl: "seg (lk_next (lnk h)) (lk_prev (lnk h)) (LFirst l) (next_link xs) xs (end_slot (LFirst l) xs) LNull"
    and sr: "seg (lk_next (lnk h)) (lk_prev (lnk h)) (LFirst r) (next_link ys) ys (end_slot (LFirst r) ys) LNull"
    using assms(1,2) f by (simp_all add: is_plist_def)
  have "seg (lk_next (lnk h')) (lk_prev (lnk h')) (LFirst r) (next_link xs) xs (end_slot (LFirst r) xs) LNull"
    by (rule seg_moved [OF sl]) (use assms(1) n(1) p(1) in \<open>auto simp: is_plist_def\<close>)
  then show "is_plist P r (pl_swap P l r h) xs" using assms(1,5) n(3) c unfolding is_plist_def h'_def [symmetric] by simp
  have "seg (lk_next (lnk h')) (lk_prev (lnk h')) (LFirst l) (next_link ys) ys (end_slot (LFirst l) ys) LNull"
    by (rule seg_moved [OF sr]) (use assms(2) n(1) p(2) in \<open>auto simp: is_plist_def\<close>)
  then show "is_plist P l (pl_swap P l r h) ys" using assms(2,5) n(2) c unfolding is_plist_def h'_def [symmetric] by simp
qed

section \<open>Removing elements while iterating\<close>

text \<open>The loop of a caller that removes some of the elements an iterator returns.\<close>

fun sweep :: "policy \<Rightarrow> (link \<Rightarrow> bool) \<Rightarrow> nat \<Rightarrow> pl_iterator \<Rightarrow> pheap \<Rightarrow> (link list \<times> pheap) option" where
  "sweep P doomed 0 it h = None"
| "sweep P doomed (Suc k) it h =
     (case plit_post_inc it h of (a, it) \<Rightarrow>
        if a = LNull then Some ([], h)
        else case (if doomed a then pl_remove P (it_list it) a h else Some h) of
               None \<Rightarrow> None
             | Some h \<Rightarrow> map_option (\<lambda>(as, h). (a # as, h)) (sweep P doomed k it h))"

lemma sweep_from:
  "is_plist P l h (xs @ ys) \<Longrightarrow> length ys < k \<Longrightarrow>
    \<exists>h'. sweep P doomed k \<lparr>it_list = l, it_current = next_link ys\<rparr> h = Some (ys, h') \<and> is_plist P l h' (xs @ filter (\<lambda>a. \<not> doomed a) ys)"
proof (induction ys arbitrary: xs h k)
  case Nil
  then show ?case by (cases k) (simp_all add: plit_post_inc_def)
next
  case (Cons a ys)
  then obtain k' where k: "k = Suc k'" "length ys < k'" by (cases k) auto
  note at = plist_at [OF Cons.prems(1)]
  obtain h1 where h1: "(if doomed a then pl_remove P l a h else Some h) = Some h1" "is_plist P l h1 ((if doomed a then xs else xs @ [a]) @ ys)"
    using pl_remove_list [OF Cons.prems(1)] Cons.prems(1) by (cases "doomed a") auto
  obtain h' where "sweep P doomed k' \<lparr>it_list = l, it_current = next_link ys\<rparr> h1 = Some (ys, h')"
    "is_plist P l h' ((if doomed a then xs else xs @ [a]) @ filter (\<lambda>a. \<not> doomed a) ys)" using Cons.IH [OF h1(2) k(2)] by blast
  then show ?case using h1(1) at(2,3) k(1) by (auto simp: plit_post_inc_def)
qed

section \<open>Properties\<close>

text \<open>
  \<open>I_P_List\<close> is a sequence from which elements may be removed during iteration. Inserting
  after any element and removing any element edit the sequence at that place, \<open>swap\<close> exchanges two
  lists, and a loop over the iterator that removes some of the elements it returns, as the comment
  on \<open>operator++\<close> allows, ends, sees every element once in order, and leaves the others.
\<close>

theorem plist_edits:
  assumes "is_plist P l h (xs @ a # ys)" and "b \<notin> set (xs @ a # ys)" and "b \<noteq> LNull"
  shows "is_plist P l (pl_insert_after P l a b h) (xs @ a # b # ys) \<and> is_plist P l (pl_insert_after P l LNull b h) (b # xs @ a # ys) \<and>
    (\<exists>h'. pl_remove P l a h = Some h' \<and> is_plist P l h' (xs @ ys)) \<and>
    (\<forall>r zs. is_plist P r h zs \<and> l \<noteq> r \<and> set (xs @ a # ys) \<inter> set zs = {} \<and> \<not> fast P \<longrightarrow>
       is_plist P l (pl_swap P l r h) zs \<and> is_plist P r (pl_swap P l r h) (xs @ a # ys)) \<and>
    (\<exists>h'. sweep P doomed (Suc (length (xs @ a # ys))) (plit_init l h) h = Some (xs @ a # ys, h') \<and>
       is_plist P l h' (filter (\<lambda>x. \<not> doomed x) (xs @ a # ys)))"
proof (intro conjI)
  show "is_plist P l (pl_insert_after P l a b h) (xs @ a # b # ys)" by (rule pl_insert_after_list [OF assms])
  show "is_plist P l (pl_insert_after P l LNull b h) (b # xs @ a # ys)"
    using pl_push_front_list [OF assms] by (simp add: pl_insert_after_def)
  show "\<exists>h'. pl_remove P l a h = Some h' \<and> is_plist P l h' (xs @ ys)" using pl_remove_list [OF assms(1)] by blast
  show "\<forall>r zs. is_plist P r h zs \<and> l \<noteq> r \<and> set (xs @ a # ys) \<inter> set zs = {} \<and> \<not> fast P \<longrightarrow>
      is_plist P l (pl_swap P l r h) zs \<and> is_plist P r (pl_swap P l r h) (xs @ a # ys)"
    using pl_swap_lists [OF assms(1)] by blast
  show "\<exists>h'. sweep P doomed (Suc (length (xs @ a # ys))) (plit_init l h) h = Some (xs @ a # ys, h') \<and>
      is_plist P l h' (filter (\<lambda>x. \<not> doomed x) (xs @ a # ys))"
    using sweep_from [of P l h "[]" "xs @ a # ys" "Suc (length (xs @ a # ys))" doomed] assms(1) plist_first [OF assms(1)]
    by (simp only: plit_init_def append_Nil lessI simp_thms)
qed

definition pheap0 :: pheap where
  "pheap0 = \<lparr>lnk = \<lparr>lk_next = (\<lambda>x. LNull), lk_prev = (\<lambda>x. None), il_first = (\<lambda>l. LNull)\<rparr>, m_last = LFirst, m_counter = (\<lambda>l. 0)\<rparr>"

lemma pheap0_lists: "is_plist P l pheap0 []" "is_plist P l (pl_push_front P l (Link 1) pheap0) [Link 1]"
proof -
  show 0: "is_plist P l pheap0 []" by (simp add: is_plist_def pheap0_def)
  show "is_plist P l (pl_push_front P l (Link 1) pheap0) [Link 1]" using pl_push_front_list [OF 0, of "Link 1"] by simp
qed

theorem plist_edits_witness:
  "is_plist (fast_policy True) 0 (pl_insert_after (fast_policy True) 0 (Link 1) (Link 2) (pl_push_front (fast_policy True) 0 (Link 1) pheap0)) [Link 1, Link 2]"
  using plist_edits [of "fast_policy True" 0 "pl_push_front (fast_policy True) 0 (Link 1) pheap0" "[]" "Link 1" "[]" "Link 2"] pheap0_lists(2) by simp

text \<open>
  With fast \<open>push_back\<close>, any run of \<open>push_back\<close>, \<open>push_front\<close> and \<open>pop_front\<close> on an \<open>I_P_List\<close>, counted
  or not, returns and leaves what the same run on a sequence does.
\<close>

theorem plist_refines_sequence:
  assumes "is_plist (fast_policy c) l h (map Link xs)" and "ops_ok (\<lambda>xs i. i \<notin> set xs) ops xs"
  shows "fst (seq_run (\<lambda>i. pl_push_back (fast_policy c) l (Link i)) (\<lambda>i. pl_push_front (fast_policy c) l (Link i)) (pl_pop_total (fast_policy c) l) ops h) =
      fst (spec_run Link LNull ops xs) \<and>
    is_plist (fast_policy c) l (snd (seq_run (\<lambda>i. pl_push_back (fast_policy c) l (Link i)) (\<lambda>i. pl_push_front (fast_policy c) l (Link i)) (pl_pop_total (fast_policy c) l) ops h))
      (map Link (snd (spec_run Link LNull ops xs)))"
  by (rule pl.run_refines [OF assms])

theorem plist_refines_sequence_witness:
  "fst (seq_run (\<lambda>i. pl_push_back (fast_policy True) 0 (Link i)) (\<lambda>i. pl_push_front (fast_policy True) 0 (Link i)) (pl_pop_total (fast_policy True) 0)
     [PushBack 1, PushFront 2, Pop, Pop, Pop] pheap0) = [Link 2, Link 1, LNull]"
  using plist_refines_sequence [of True 0 pheap0 "[]" "[PushBack 1, PushFront 2, Pop, Pop, Pop]"] pheap0_lists(1) [of "fast_policy True" 0]
  by (simp add: spec_run_def)

end
