(* ===== verification/DiscreteInterval.thy ===== *)
theory DiscreteInterval
  imports Prelude
begin

text \<open>
  The intervals of automatically generated identifiers in \<open>structs.h\<close>: \<open>Discrete_interval\<close>, the numbers
  \<open>min + k * increment\<close> for \<open>k\<close> below a number of values, at 64 bits, and \<open>Discrete_intervals_list\<close>, the list
  of reserved intervals a statement consumes. \<open>append\<close> of the list is defined outside the sources.
\<close>

section \<open>Intervals\<close>

record discrete_interval =
  interval_min :: u64
  interval_values :: u64
  interval_max :: u64

abbreviation ULONGLONG_MAX :: u64 where "ULONGLONG_MAX \<equiv> 0xFFFFFFFFFFFFFFFF"

definition di_replace :: "u64 \<Rightarrow> u64 \<Rightarrow> u64 \<Rightarrow> discrete_interval" where
  "di_replace start val incr =
     \<lparr>interval_min = start, interval_values = val, interval_max = (if val = ULONGLONG_MAX then val else start + val * incr)\<rparr>"

definition Discrete_interval3 :: "u64 \<Rightarrow> u64 \<Rightarrow> u64 \<Rightarrow> discrete_interval" where
  "Discrete_interval3 start val incr = di_replace start val incr"

definition Discrete_interval0 :: discrete_interval where
  "Discrete_interval0 = di_replace 0 0 0"

text \<open>Returns false when the new values were merged into the interval.\<close>

definition merge_if_contiguous :: "u64 \<Rightarrow> u64 \<Rightarrow> u64 \<Rightarrow> discrete_interval \<Rightarrow> bool \<times> discrete_interval" where
  "merge_if_contiguous start val incr i =
     (if interval_max i = start
      then (False, if val = ULONGLONG_MAX then i\<lparr>interval_values := val, interval_max := val\<rparr>
                   else i\<lparr>interval_values := interval_values i + val, interval_max := start + val * incr\<rparr>)
      else (True, i))"

section \<open>The list of intervals\<close>

text \<open>Nodes have addresses; \<open>di_freed\<close> records the deleted ones.\<close>

record di_heap =
  di_node :: "nat \<Rightarrow> discrete_interval"
  di_next :: "nat \<Rightarrow> nat option"
  di_freed :: "nat list"

record di_list =
  di_head :: "nat option"
  di_tail :: "nat option"
  di_current :: "nat option"
  di_elements :: u32

definition set_members :: "nat option \<Rightarrow> nat option \<Rightarrow> nat option \<Rightarrow> u32 \<Rightarrow> di_list" where
  "set_members h t c el = \<lparr>di_head = h, di_tail = t, di_current = c, di_elements = el\<rparr>"

definition empty_no_free :: di_list where
  "empty_no_free = set_members None None None 0"

text \<open>The loop of \<open>empty\<close>; \<open>None\<close> when it does not end.\<close>

partial_function (option) di_delete_loop :: "nat option \<Rightarrow> di_heap \<Rightarrow> di_heap option" where
  "di_delete_loop i h =
     (case i of
        None \<Rightarrow> Some h
      | Some n \<Rightarrow> let nxt = di_next h n in di_delete_loop nxt (h\<lparr>di_freed := di_freed h @ [n]\<rparr>))"

definition di_empty :: "di_list \<Rightarrow> di_heap \<Rightarrow> (di_list \<times> di_heap) option" where
  "di_empty l h = map_option (Pair empty_no_free) (di_delete_loop (di_head l) h)"

definition copy_shallow :: "di_list \<Rightarrow> di_list" where
  "copy_shallow dli = \<lparr>di_head = di_head dli, di_tail = di_tail dli, di_current = di_current dli, di_elements = di_elements dli\<rparr>"

definition di_swap :: "di_list \<Rightarrow> di_list \<Rightarrow> di_list \<times> di_list" where
  "di_swap this dli =
     (let h = di_head dli; t = di_tail dli; c = di_current dli; el = di_elements dli;
          dli = copy_shallow this
      in (set_members h t c el, dli))"

definition di_get_next :: "di_list \<Rightarrow> di_heap \<Rightarrow> nat option \<times> di_list" where
  "di_get_next l h =
     (case di_current l of None \<Rightarrow> (None, l) | Some n \<Rightarrow> (Some n, l\<lparr>di_current := di_next h n\<rparr>))"

definition di_minimum :: "di_list \<Rightarrow> di_heap \<Rightarrow> u64" where
  "di_minimum l h = (case di_head l of None \<Rightarrow> 0 | Some n \<Rightarrow> interval_min (di_node h n))"

text \<open>A null tail with a head that is not null would be dereferenced.\<close>

definition di_maximum :: "di_list \<Rightarrow> di_heap \<Rightarrow> u64 option" where
  "di_maximum l h = (case di_head l of None \<Rightarrow> Some 0 | Some _ \<Rightarrow> map_option (\<lambda>n. interval_max (di_node h n)) (di_tail l))"

section \<open>The numbers of an interval\<close>

definition di_numbers :: "u64 \<Rightarrow> discrete_interval \<Rightarrow> u64 list" where
  "di_numbers incr i = map (\<lambda>k. interval_min i + of_nat k * incr) [0..<unat (interval_values i)]"

definition di_ok :: "u64 \<Rightarrow> discrete_interval \<Rightarrow> bool" where
  "di_ok incr i \<longleftrightarrow> interval_values i \<noteq> ULONGLONG_MAX \<and> interval_max i = interval_min i + interval_values i * incr"

lemma replace_ok: "val \<noteq> ULONGLONG_MAX \<Longrightarrow> di_ok incr (di_replace start val incr)"
  by (simp add: di_ok_def di_replace_def)

lemma merge_numbers:
  assumes "di_ok incr i" and "val \<noteq> ULONGLONG_MAX" and "unat (interval_values i) + unat val < 2 ^ 64 - 1" and "interval_max i = start"
  shows "di_ok incr (snd (merge_if_contiguous start val incr i))"
    "di_numbers incr (snd (merge_if_contiguous start val incr i)) = di_numbers incr i @ di_numbers incr (di_replace start val incr)"
proof -
  have n: "unat (interval_values i + val) = unat (interval_values i) + unat val" using assms(3) by (simp add: unat_word_ariths)
  have "interval_values i + val \<noteq> ULONGLONG_MAX"
  proof
    assume "interval_values i + val = ULONGLONG_MAX"
    from arg_cong [OF this, of unat] show False using n assms(3) by simp
  qed
  then show "di_ok incr (snd (merge_if_contiguous start val incr i))"
    using assms by (auto simp: di_ok_def merge_if_contiguous_def algebra_simps)
  have start: "interval_min i + interval_values i * incr = start" using assms(1,4) by (simp add: di_ok_def)
  have shift: "interval_min i + of_nat (unat (interval_values i) + k) * incr = start + of_nat k * incr" for k
    using start by (simp add: algebra_simps)
  have "map (\<lambda>k. interval_min i + of_nat k * incr) [0..<unat (interval_values i) + unat val] =
      di_numbers incr i @ map (\<lambda>k. interval_min i + of_nat (unat (interval_values i) + k) * incr) [0..<unat val]"
    by (simp only: di_numbers_def map_upt_add)
  then show "di_numbers incr (snd (merge_if_contiguous start val incr i)) = di_numbers incr i @ di_numbers incr (di_replace start val incr)"
    using assms(2,4) n unfolding shift by (simp add: di_numbers_def merge_if_contiguous_def di_replace_def)
qed

section \<open>Consuming and deleting a list\<close>

fun di_chain :: "di_heap \<Rightarrow> nat option \<Rightarrow> nat list \<Rightarrow> bool" where
  "di_chain h p [] \<longleftrightarrow> p = None"
| "di_chain h p (n # ns) \<longleftrightarrow> p = Some n \<and> di_chain h (di_next h n) ns"

definition di_list_ok :: "di_list \<Rightarrow> di_heap \<Rightarrow> nat list \<Rightarrow> nat list \<Rightarrow> bool" where
  "di_list_ok l h past todo \<longleftrightarrow> di_chain h (di_head l) (past @ todo) \<and> di_chain h (di_current l) todo \<and>
     di_tail l = (if past @ todo = [] then None else Some (last (past @ todo)))"

text \<open>Taking \<open>k\<close> intervals from the list.\<close>

fun di_take :: "nat \<Rightarrow> di_list \<Rightarrow> di_heap \<Rightarrow> nat option list \<times> di_list" where
  "di_take 0 l h = ([], l)"
| "di_take (Suc k) l h = (let (n, l) = di_get_next l h; (ns, l) = di_take k l h in (n # ns, l))"

lemma di_take_all:
  "di_chain h (di_current l) todo \<Longrightarrow> length todo \<le> k \<Longrightarrow>
     fst (di_take k l h) = map Some todo @ replicate (k - length todo) None \<and> di_head (snd (di_take k l h)) = di_head l \<and>
     di_tail (snd (di_take k l h)) = di_tail l \<and> di_elements (snd (di_take k l h)) = di_elements l"
proof (induction k arbitrary: l todo)
  case (Suc k)
  show ?case
  proof (cases todo)
    case Nil
    then have "di_get_next l h = (None, l)" using Suc.prems by (simp add: di_get_next_def)
    then show ?thesis using Suc.IH [of l "[]"] Suc.prems Nil by (simp add: case_prod_beta Let_def)
  next
    case (Cons n ns)
    then have "di_get_next l h = (Some n, l\<lparr>di_current := di_next h n\<rparr>)" using Suc.prems by (simp add: di_get_next_def)
    then show ?thesis using Suc.IH [of "l\<lparr>di_current := di_next h n\<rparr>" ns] Suc.prems Cons by (simp add: case_prod_beta Let_def)
  qed
qed simp

lemma di_chain_freed [simp]: "di_chain (h\<lparr>di_freed := f\<rparr>) p ns = di_chain h p ns"
  by (induction ns arbitrary: p) simp_all

lemma di_delete_loop_deletes: "di_chain h p ns \<Longrightarrow> di_delete_loop p h = Some (h\<lparr>di_freed := di_freed h @ ns\<rparr>)"
proof (induction ns arbitrary: p h)
  case Nil
  then show ?case by (subst di_delete_loop.simps) simp
next
  case (Cons n ns)
  then have "di_delete_loop (di_next h n) (h\<lparr>di_freed := di_freed h @ [n]\<rparr>) = Some (h\<lparr>di_freed := di_freed h @ n # ns\<rparr>)"
    using Cons.IH [of "h\<lparr>di_freed := di_freed h @ [n]\<rparr>" "di_next h n"] by simp
  then show ?case using Cons.prems by (subst di_delete_loop.simps) (simp add: Let_def)
qed

section \<open>Properties\<close>

text \<open>
  Merging reserved intervals keeps the identifiers. When values of the same increment are
  offered to an interval, they are merged exactly if they start where it ends; the merged interval
  then stands for the numbers of both in order, nothing lost and nothing repeated, also when the
  numbers wrap around; otherwise it is unchanged. The number of values stays below the mark
  for unbounded intervals.
\<close>

theorem merged_interval_keeps_numbers:
  assumes "di_ok incr i" and "val \<noteq> ULONGLONG_MAX" and "unat (interval_values i) + unat val < 2 ^ 64 - 1"
  shows "case merge_if_contiguous start val incr i of (rejected, i') \<Rightarrow>
    rejected = (start \<noteq> interval_min i + interval_values i * incr) \<and> di_ok incr i' \<and>
    di_numbers incr i' = di_numbers incr i @ (if rejected then [] else di_numbers incr (Discrete_interval3 start val incr))"
proof (cases "interval_max i = start")
  case True
  then obtain i' where m: "merge_if_contiguous start val incr i = (False, i')" by (simp add: merge_if_contiguous_def)
  have "start = interval_min i + interval_values i * incr" using True assms(1) by (simp add: di_ok_def)
  then show ?thesis using merge_numbers [OF assms True] unfolding m Discrete_interval3_def by simp
next
  case False
  then show ?thesis using assms(1) by (auto simp: merge_if_contiguous_def di_ok_def)
qed

theorem merged_interval_keeps_numbers_witness:
  "merge_if_contiguous 7 2 3 (Discrete_interval3 1 2 3) = (False, \<lparr>interval_min = 1, interval_values = 4, interval_max = 13\<rparr>) \<and>
   di_numbers 3 \<lparr>interval_min = 1, interval_values = 4, interval_max = 13\<rparr> = [1, 4] @ [7, 10]"
proof -
  have m: "merge_if_contiguous 7 2 3 (Discrete_interval3 1 2 3) = (False, \<lparr>interval_min = 1, interval_values = 4, interval_max = 13\<rparr>)"
    by (simp add: merge_if_contiguous_def Discrete_interval3_def di_replace_def)
  have "di_ok 3 (Discrete_interval3 1 2 3)" by (simp add: Discrete_interval3_def replace_ok)
  from merged_interval_keeps_numbers [OF this, of 2 7] m show ?thesis
    by (simp add: Discrete_interval3_def di_replace_def di_numbers_def upt_rec)
qed

text \<open>
  An unbounded interval and a start at the largest number. The end of an unbounded interval
  is the same mark as the largest number, so values that start there are merged, the number of
  values wraps around, and the interval is no longer unbounded: with one value it becomes empty.
\<close>

theorem merge_after_unbounded:
  "merge_if_contiguous ULONGLONG_MAX 1 incr (Discrete_interval3 start ULONGLONG_MAX incr) =
     (False, \<lparr>interval_min = start, interval_values = 0, interval_max = ULONGLONG_MAX + incr\<rparr>)"
  by (simp add: merge_if_contiguous_def Discrete_interval3_def di_replace_def)

text \<open>
  A list of intervals is consumed once and deleted once. \<open>get_next\<close> returns the intervals that
  were not consumed yet, in order, and then null for ever; \<open>empty\<close> ends and deletes every node once,
  consumed or not; \<open>swap\<close> exchanges two lists with their positions.
\<close>

theorem intervals_consumed_in_order:
  assumes "di_list_ok l h past todo" and "length todo \<le> k"
  shows "fst (di_take k l h) = map Some todo @ replicate (k - length todo) None \<and>
    di_empty l h = Some (empty_no_free, h\<lparr>di_freed := di_freed h @ past @ todo\<rparr>) \<and>
    di_empty (snd (di_take k l h)) h = di_empty l h \<and> di_swap l l' = (l', l)"
proof -
  have c: "di_chain h (di_head l) (past @ todo)" "di_chain h (di_current l) todo" using assms(1) by (simp_all add: di_list_ok_def)
  show ?thesis using di_take_all [OF c(2) assms(2)] di_delete_loop_deletes [OF c(1)]
    by (simp add: di_empty_def di_swap_def copy_shallow_def set_members_def Let_def)
qed

theorem intervals_consumed_in_order_witness:
  "fst (di_take 3 \<lparr>di_head = Some 1, di_tail = Some 2, di_current = Some 1, di_elements = 2\<rparr>
     \<lparr>di_node = (\<lambda>n. Discrete_interval0), di_next = (\<lambda>n. if n = 1 then Some 2 else None), di_freed = []\<rparr>) = [Some 1, Some 2, None]"
  using intervals_consumed_in_order [of "\<lparr>di_head = Some 1, di_tail = Some 2, di_current = Some 1, di_elements = 2\<rparr>"
    "\<lparr>di_node = (\<lambda>n. Discrete_interval0), di_next = (\<lambda>n. if n = 1 then Some 2 else None), di_freed = []\<rparr>" "[]" "[1, 2]" 3]
  by (simp add: di_list_ok_def)

end
