(* ===== verification/LexInput.thy ===== *)
theory LexInput
  imports BinaryString
begin

text \<open>
  \<open>Lex_input_stream\<close> of \<open>sql_lex.h\<close>, the character stream of the SQL lexer. It reads the raw query and, in
  echo mode, copies what it accepts to a second buffer, in which comments that must not be seen are
  left out. Memory is the arena of \<open>BinaryString\<close>: a read or write outside a buffer is \<open>None\<close>. The
  scanner itself and \<open>init\<close> are defined outside the sources.
\<close>

section \<open>The stream\<close>

datatype enum_comment_state = NO_COMMENT | PRESERVE_COMMENT | DISCARD_COMMENT

record lex_input_stream =
  lookahead_token :: int
  m_ptr :: nat
  m_tok_start :: nat
  m_tok_end :: nat
  m_end_of_query :: nat
  m_tok_start_prev :: nat
  m_buf :: nat
  m_buf_length :: nat
  m_echo :: bool
  m_echo_saved :: bool
  m_cpp_buf :: nat
  m_cpp_ptr :: nat
  m_cpp_tok_start :: nat
  m_cpp_tok_start_prev :: nat
  m_cpp_tok_end :: nat
  in_comment :: enum_comment_state
  in_comment_saved :: enum_comment_state

definition set_echo :: "bool \<Rightarrow> lex_input_stream \<Rightarrow> lex_input_stream" where
  "set_echo echo s = s\<lparr>m_echo := echo\<rparr>"

definition save_in_comment_state :: "lex_input_stream \<Rightarrow> lex_input_stream" where
  "save_in_comment_state s = s\<lparr>m_echo_saved := m_echo s, in_comment_saved := in_comment s\<rparr>"

definition restore_in_comment_state :: "lex_input_stream \<Rightarrow> lex_input_stream" where
  "restore_in_comment_state s = s\<lparr>m_echo := m_echo_saved s, in_comment := in_comment_saved s\<rparr>"

definition skip_binary :: "nat \<Rightarrow> lex_input_stream \<Rightarrow> arena \<Rightarrow> (lex_input_stream \<times> arena) option" where
  "skip_binary n s w = do {
     (s, w) \<leftarrow> (if m_echo s
               then do { w \<leftarrow> copy_bytes_to (m_cpp_ptr s) (m_ptr s) n w; Some (s\<lparr>m_cpp_ptr := m_cpp_ptr s + n\<rparr>, w) }
               else Some (s, w));
     Some (s\<lparr>m_ptr := m_ptr s + n\<rparr>, w) }"

definition yyGet :: "lex_input_stream \<Rightarrow> arena \<Rightarrow> (u8 \<times> lex_input_stream \<times> arena) option" where
  "yyGet s w = do {
     c \<leftarrow> load_byte w (m_ptr s);
     let s = s\<lparr>m_ptr := m_ptr s + 1\<rparr>;
     if m_echo s
     then do { w \<leftarrow> store_byte (m_cpp_ptr s) c w; Some (c, s\<lparr>m_cpp_ptr := m_cpp_ptr s + 1\<rparr>, w) }
     else Some (c, s, w) }"

definition yyGetLast :: "lex_input_stream \<Rightarrow> arena \<Rightarrow> u8 option" where
  "yyGetLast s w = load_byte w (m_ptr s - 1)"

definition yyPeek :: "lex_input_stream \<Rightarrow> arena \<Rightarrow> u8 option" where
  "yyPeek s w = load_byte w (m_ptr s)"

definition yyPeekn :: "nat \<Rightarrow> lex_input_stream \<Rightarrow> arena \<Rightarrow> u8 option" where
  "yyPeekn n s w = load_byte w (m_ptr s + n)"

definition yyUnget :: "lex_input_stream \<Rightarrow> lex_input_stream" where
  "yyUnget s = (let s = s\<lparr>m_ptr := m_ptr s - 1\<rparr> in if m_echo s then s\<lparr>m_cpp_ptr := m_cpp_ptr s - 1\<rparr> else s)"

definition yySkip :: "lex_input_stream \<Rightarrow> arena \<Rightarrow> (lex_input_stream \<times> arena) option" where
  "yySkip s w =
     (if m_echo s
      then do { c \<leftarrow> load_byte w (m_ptr s); w \<leftarrow> store_byte (m_cpp_ptr s) c w;
                Some (s\<lparr>m_cpp_ptr := m_cpp_ptr s + 1, m_ptr := m_ptr s + 1\<rparr>, w) }
      else Some (s\<lparr>m_ptr := m_ptr s + 1\<rparr>, w))"

definition yySkipn :: "nat \<Rightarrow> lex_input_stream \<Rightarrow> arena \<Rightarrow> (lex_input_stream \<times> arena) option" where
  "yySkipn n s w = do {
     (s, w) \<leftarrow> (if m_echo s
               then do { w \<leftarrow> copy_bytes_to (m_cpp_ptr s) (m_ptr s) n w; Some (s\<lparr>m_cpp_ptr := m_cpp_ptr s + n\<rparr>, w) }
               else Some (s, w));
     Some (s\<lparr>m_ptr := m_ptr s + n\<rparr>, w) }"

definition yyUnput :: "u8 \<Rightarrow> lex_input_stream \<Rightarrow> arena \<Rightarrow> (lex_input_stream \<times> arena) option" where
  "yyUnput ch s w = do {
     let s = s\<lparr>m_ptr := m_ptr s - 1\<rparr>;
     w \<leftarrow> store_byte (m_ptr s) ch w;
     Some (if m_echo s then s\<lparr>m_cpp_ptr := m_cpp_ptr s - 1\<rparr> else s, w) }"

definition eof_n :: "nat \<Rightarrow> lex_input_stream \<Rightarrow> bool" where
  "eof_n n s \<longleftrightarrow> m_ptr s + n \<ge> m_end_of_query s"

definition eof :: "lex_input_stream \<Rightarrow> bool" where
  "eof s \<longleftrightarrow> m_ptr s \<ge> m_end_of_query s"

section \<open>Tokens\<close>

definition start_token :: "lex_input_stream \<Rightarrow> lex_input_stream" where
  "start_token s = s\<lparr>m_tok_start_prev := m_tok_start s, m_tok_start := m_ptr s, m_tok_end := m_ptr s,
     m_cpp_tok_start_prev := m_cpp_tok_start s, m_cpp_tok_start := m_cpp_ptr s, m_cpp_tok_end := m_cpp_ptr s\<rparr>"

definition restart_token :: "lex_input_stream \<Rightarrow> lex_input_stream" where
  "restart_token s = s\<lparr>m_tok_start := m_ptr s, m_cpp_tok_start := m_cpp_ptr s\<rparr>"

definition yyLength :: "lex_input_stream \<Rightarrow> nat option" where
  "yyLength s = (if m_ptr s > m_tok_start s then Some (m_ptr s - m_tok_start s - 1) else None)"

definition has_lookahead :: "lex_input_stream \<Rightarrow> bool" where
  "has_lookahead s \<longleftrightarrow> lookahead_token s \<ge> 0"

definition get_tok_start :: "lex_input_stream \<Rightarrow> nat" where
  "get_tok_start s = (if has_lookahead s then m_tok_start_prev s else m_tok_start s)"

definition set_cpp_tok_start :: "nat \<Rightarrow> lex_input_stream \<Rightarrow> lex_input_stream" where
  "set_cpp_tok_start pos s = s\<lparr>m_cpp_tok_start := pos\<rparr>"

definition get_cpp_tok_start :: "lex_input_stream \<Rightarrow> nat" where
  "get_cpp_tok_start s = (if has_lookahead s then m_cpp_tok_start_prev s else m_cpp_tok_start s)"

text \<open>The loop that steps back over trailing spaces; \<open>isspace\<close> is \<open>my_isspace\<close> of the system character set.\<close>

fun rtrim_loop :: "(u8 \<Rightarrow> bool) \<Rightarrow> nat \<Rightarrow> arena \<Rightarrow> nat \<Rightarrow> nat option" where
  "rtrim_loop isspace buf w p =
     (if p > buf
      then do { c \<leftarrow> load_byte w (p - 1); if isspace c then rtrim_loop isspace buf w (p - 1) else Some p }
      else Some p)"

definition get_cpp_tok_end_rtrim :: "(u8 \<Rightarrow> bool) \<Rightarrow> lex_input_stream \<Rightarrow> arena \<Rightarrow> nat option" where
  "get_cpp_tok_end_rtrim isspace s w = rtrim_loop isspace (m_cpp_buf s) w (m_cpp_tok_end s)"

definition get_cpp_ptr_rtrim :: "(u8 \<Rightarrow> bool) \<Rightarrow> lex_input_stream \<Rightarrow> arena \<Rightarrow> nat option" where
  "get_cpp_ptr_rtrim isspace s w = rtrim_loop isspace (m_cpp_buf s) w (m_cpp_ptr s)"

section \<open>What the stream keeps\<close>

text \<open>The accepted characters that were echoed, given the echo mode at each of them.\<close>

definition echoed :: "u8 list \<Rightarrow> bool list \<Rightarrow> u8 list" where
  "echoed xs fs = map fst (filter snd (zip xs fs))"

lemma echoed_append: "length xs = length fs \<Longrightarrow> echoed (xs @ ys) (fs @ gs) = echoed xs fs @ echoed ys gs"
  by (simp add: echoed_def)

lemma echoed_same: "length xs = n \<Longrightarrow> echoed xs (replicate n b) = (if b then xs else [])"
  by (induction xs arbitrary: n) (auto simp: echoed_def)

lemma length_echoed: "length xs = length fs \<Longrightarrow> length (echoed xs fs) = length (filter (\<lambda>b. b) fs)"
  by (induction xs fs rule: list_induct2) (auto simp: echoed_def)

text \<open>
  \<open>fs\<close> are the echo modes of the characters accepted so far. Both buffers have \<open>cap\<close> bytes; the second
  one holds the echoed characters.
\<close>

definition lex_ok :: "nat \<Rightarrow> lex_input_stream \<Rightarrow> arena \<Rightarrow> bool list \<Rightarrow> bool" where
  "lex_ok cap s w fs \<longleftrightarrow> m_ptr s = m_buf s + length fs \<and> length fs \<le> cap \<and> m_cpp_ptr s = m_cpp_buf s + length (filter (\<lambda>b. b) fs) \<and>
     (m_buf s, cap) \<in> set (buffers w) \<and> (m_cpp_buf s, cap) \<in> set (buffers w) \<and> (m_buf s + cap \<le> m_cpp_buf s \<or> m_cpp_buf s + cap \<le> m_buf s) \<and>
     bytes_at (mem_of w) (m_cpp_buf s) (length (filter (\<lambda>b. b) fs)) = echoed (bytes_at (mem_of w) (m_buf s) (length fs)) fs"

lemma buffer_accessible: "(q, k) \<in> set (buffers w) \<Longrightarrow> q \<le> p \<Longrightarrow> p + n \<le> q + k \<Longrightarrow> accessible w p n"
  by (auto simp: accessible_def list_ex_iff)

lemma lex_room:
  assumes "lex_ok cap s w fs" and "length fs + n \<le> cap"
  shows "accessible w (m_ptr s) n" "accessible w (m_cpp_ptr s) n" "m_cpp_ptr s + n \<le> m_ptr s \<or> m_ptr s + n \<le> m_cpp_ptr s"
    "m_buf s + cap \<le> m_cpp_ptr s \<or> m_cpp_ptr s + n \<le> m_buf s"
proof -
  have le: "length (filter (\<lambda>b. b) fs) \<le> length fs" by simp
  have f: "m_ptr s = m_buf s + length fs" "m_cpp_ptr s = m_cpp_buf s + length (filter (\<lambda>b. b) fs)" "(m_buf s, cap) \<in> set (buffers w)"
    "(m_cpp_buf s, cap) \<in> set (buffers w)" "m_buf s + cap \<le> m_cpp_buf s \<or> m_cpp_buf s + cap \<le> m_buf s" using assms(1) by (simp_all add: lex_ok_def)
  show "accessible w (m_ptr s) n" by (rule buffer_accessible [OF f(3)]) (use f(1) assms(2) in linarith)+
  show "accessible w (m_cpp_ptr s) n" by (rule buffer_accessible [OF f(4)]) (use f(2) assms(2) le in linarith)+
  show "m_cpp_ptr s + n \<le> m_ptr s \<or> m_ptr s + n \<le> m_cpp_ptr s" using f(1,2,5) assms(2) le by linarith
  show "m_buf s + cap \<le> m_cpp_ptr s \<or> m_cpp_ptr s + n \<le> m_buf s" using f(1,2,5) assms(2) le by linarith
qed

text \<open>Accepting \<open>n\<close> characters in echo mode.\<close>

lemma lex_accept_echo:
  assumes "lex_ok cap s w fs" and "length fs + n \<le> cap"
    and "w' = w\<lparr>mem_of := memcpy (mem_of w) (m_cpp_ptr s) (m_ptr s) n\<rparr>"
    and "s' = s\<lparr>m_cpp_ptr := m_cpp_ptr s + n, m_ptr := m_ptr s + n\<rparr>"
  shows "lex_ok cap s' w' (fs @ replicate n True)" "bytes_at (mem_of w') (m_buf s) cap = bytes_at (mem_of w) (m_buf s) cap"
proof -
  let ?m = "mem_of w" and ?c = "length (filter (\<lambda>b. b) fs)"
  note far = lex_room(4) [OF assms(1,2)]
  have raw: "bytes_at (mem_of w') (m_buf s) k = bytes_at ?m (m_buf s) k" if "k \<le> cap" for k
  proof -
    have "m_buf s + k \<le> m_cpp_ptr s \<or> m_cpp_ptr s + n \<le> m_buf s" using far that by linarith
    then show ?thesis unfolding assms(3) by (simp add: bytes_memcpy_outside)
  qed
  show "bytes_at (mem_of w') (m_buf s) cap = bytes_at ?m (m_buf s) cap" by (rule raw) simp
  have cp: "m_cpp_ptr s = m_cpp_buf s + ?c" "m_ptr s = m_buf s + length fs" using assms(1) by (simp_all add: lex_ok_def)
  have "bytes_at (mem_of w') (m_cpp_buf s) (?c + n) = bytes_at ?m (m_cpp_buf s) ?c @ bytes_at ?m (m_ptr s) n"
    unfolding assms(3) bytes_add using cp(1) by (simp add: bytes_memcpy bytes_memcpy_outside)
  also have "bytes_at ?m (m_cpp_buf s) ?c = echoed (bytes_at ?m (m_buf s) (length fs)) fs" using assms(1) by (simp add: lex_ok_def)
  also have "echoed (bytes_at ?m (m_buf s) (length fs)) fs @ bytes_at ?m (m_ptr s) n = echoed (bytes_at ?m (m_buf s) (length fs + n)) (fs @ replicate n True)"
    using cp(2) by (simp add: bytes_add echoed_append echoed_same)
  finally show "lex_ok cap s' w' (fs @ replicate n True)"
    using assms(1,2) raw [OF assms(2)] unfolding assms(4) by (simp add: lex_ok_def assms(3))
qed

lemma lex_accept_silent:
  assumes "lex_ok cap s w fs" and "length fs + n \<le> cap"
  shows "lex_ok cap (s\<lparr>m_ptr := m_ptr s + n\<rparr>) w (fs @ replicate n False)"
  using assms by (simp add: lex_ok_def bytes_add echoed_append echoed_same)

lemma store_is_memcpy: "m(p := m q) = memcpy m p q 1"
  by (auto simp: memcpy_def fun_eq_iff)

lemma skipn_accepts:
  assumes "lex_ok cap s w fs" and "length fs + n \<le> cap"
  shows "\<exists>s' w'. yySkipn n s w = Some (s', w') \<and> lex_ok cap s' w' (fs @ replicate n (m_echo s)) \<and>
    s' = s\<lparr>m_ptr := m_ptr s', m_cpp_ptr := m_cpp_ptr s'\<rparr> \<and> bytes_at (mem_of w') (m_buf s) cap = bytes_at (mem_of w) (m_buf s) cap"
proof (cases "m_echo s")
  case True
  then show ?thesis using lex_room [OF assms] lex_accept_echo [OF assms refl refl] by (simp add: yySkipn_def copy_bytes_to_def)
next
  case False
  then show ?thesis using lex_accept_silent [OF assms] by (simp add: yySkipn_def)
qed

text \<open>One character at a time is the same as accepting a run of length one.\<close>

lemma get_is_skipn:
  assumes "lex_ok cap s w fs" and "length fs < cap"
  shows "yySkip s w = yySkipn 1 s w" "yyGet s w = map_option (Pair (mem_of w (m_ptr s))) (yySkipn 1 s w)" "skip_binary n s w = yySkipn n s w"
  using lex_room [OF assms(1), of 1] assms(2)
  by (auto simp: yySkip_def yyGet_def yySkipn_def skip_binary_def load_byte_def store_byte_def copy_bytes_to_def store_is_memcpy)

lemma unget_takes_back:
  assumes "lex_ok cap s w (fs @ [m_echo s])"
  shows "lex_ok cap (yyUnget s) w fs"
  using assms by (cases "m_echo s") (auto simp: lex_ok_def yyUnget_def Let_def echoed_append echoed_def bytes_Suc)

lemma unput_puts_back:
  assumes "lex_ok cap s w (fs @ [m_echo s])"
  shows "\<exists>w'. yyUnput ch s w = Some (yyUnget s, w') \<and> lex_ok cap (yyUnget s) w' fs \<and> yyPeek (yyUnget s) w' = Some ch"
proof -
  define p where "p = m_buf s + length fs"
  have p: "m_ptr s - 1 = p" "p < m_buf s + cap" "(m_buf s, cap) \<in> set (buffers w)" using assms by (simp_all add: lex_ok_def p_def)
  have acc: "accessible w p 1" by (rule buffer_accessible [OF p(3)]) (use p(2) p_def in linarith)+
  define w' where "w' = w\<lparr>mem_of := (mem_of w)(p := ch)\<rparr>"
  have ok: "lex_ok cap (yyUnget s) w fs" by (rule unget_takes_back [OF assms])
  have fields: "m_buf (yyUnget s) = m_buf s" "m_cpp_buf (yyUnget s) = m_cpp_buf s" "m_ptr (yyUnget s) = p" using p(1) by (simp_all add: yyUnget_def Let_def)
  have le: "length (filter (\<lambda>b. b) fs) \<le> length fs" by simp
  have far: "m_buf s + cap \<le> m_cpp_buf s \<or> m_cpp_buf s + cap \<le> m_buf s" "length fs < cap" using assms by (auto simp: lex_ok_def)
  have "bytes_at (mem_of w') (m_cpp_buf s) (length (filter (\<lambda>b. b) fs)) = bytes_at (mem_of w) (m_cpp_buf s) (length (filter (\<lambda>b. b) fs))"
  proof (rule bytes_cong)
    fix a assume "m_cpp_buf s \<le> a" "a < m_cpp_buf s + length (filter (\<lambda>b. b) fs)"
    then have "a \<noteq> p" using far le unfolding p_def by linarith
    then show "mem_of w' a = mem_of w a" by (simp add: w'_def)
  qed
  moreover have "bytes_at (mem_of w') (m_buf s) (length fs) = bytes_at (mem_of w) (m_buf s) (length fs)"
    by (rule bytes_cong) (simp add: w'_def p_def)
  ultimately have "lex_ok cap (yyUnget s) w' fs" using ok unfolding lex_ok_def fields by (simp add: w'_def)
  moreover have "yyUnput ch s w = Some (yyUnget s, w')" using p(1) acc by (simp add: yyUnput_def yyUnget_def store_byte_def w'_def Let_def)
  moreover have "yyPeek (yyUnget s) w' = Some ch" using fields(3) acc by (simp add: yyPeek_def load_byte_def w'_def)
  ultimately show ?thesis by blast
qed

section \<open>Runs of the lexer\<close>

datatype lex_op = Get | Skip | Skipn nat | Skip_binary nat | Unget | Unput u8 | Echo bool | Save_state | Restore_state | Start_token | Restart_token

fun lex_exec :: "lex_op \<Rightarrow> lex_input_stream \<Rightarrow> arena \<Rightarrow> (lex_input_stream \<times> arena) option" where
  "lex_exec Get s w = map_option snd (yyGet s w)"
| "lex_exec Skip s w = yySkip s w"
| "lex_exec (Skipn n) s w = yySkipn n s w"
| "lex_exec (Skip_binary n) s w = skip_binary n s w"
| "lex_exec Unget s w = Some (yyUnget s, w)"
| "lex_exec (Unput ch) s w = yyUnput ch s w"
| "lex_exec (Echo b) s w = Some (set_echo b s, w)"
| "lex_exec Save_state s w = Some (save_in_comment_state s, w)"
| "lex_exec Restore_state s w = Some (restore_in_comment_state s, w)"
| "lex_exec Start_token s w = Some (start_token s, w)"
| "lex_exec Restart_token s w = Some (restart_token s, w)"

fun lex_run :: "lex_op list \<Rightarrow> lex_input_stream \<Rightarrow> arena \<Rightarrow> (lex_input_stream \<times> arena) option" where
  "lex_run [] s w = Some (s, w)"
| "lex_run (x # xs) s w = do { (s, w) \<leftarrow> lex_exec x s w; lex_run xs s w }"

text \<open>
  The modes under which characters were accepted, the current mode and the saved one; \<open>None\<close> for a
  caller that reads past the buffer, takes back more than was accepted, or takes back under
  another mode than the one it accepted under, which the comments of the code forbid.
\<close>

type_synonym lex_modes = "bool list \<times> bool \<times> bool"

fun lex_spec :: "nat \<Rightarrow> lex_op \<Rightarrow> lex_modes \<Rightarrow> lex_modes option" where
  "lex_spec cap (Skipn n) (fs, e, sv) = (if length fs + n \<le> cap then Some (fs @ replicate n e, e, sv) else None)"
| "lex_spec cap (Skip_binary n) (fs, e, sv) = (if length fs + n \<le> cap then Some (fs @ replicate n e, e, sv) else None)"
| "lex_spec cap Get (fs, e, sv) = (if length fs < cap then Some (fs @ [e], e, sv) else None)"
| "lex_spec cap Skip (fs, e, sv) = (if length fs < cap then Some (fs @ [e], e, sv) else None)"
| "lex_spec cap Unget (fs, e, sv) = (if fs \<noteq> [] \<and> last fs = e then Some (butlast fs, e, sv) else None)"
| "lex_spec cap (Unput ch) (fs, e, sv) = (if fs \<noteq> [] \<and> last fs = e then Some (butlast fs, e, sv) else None)"
| "lex_spec cap (Echo b) (fs, e, sv) = Some (fs, b, sv)"
| "lex_spec cap Save_state (fs, e, sv) = Some (fs, e, e)"
| "lex_spec cap Restore_state (fs, e, sv) = Some (fs, sv, sv)"
| "lex_spec cap Start_token (fs, e, sv) = Some (fs, e, sv)"
| "lex_spec cap Restart_token (fs, e, sv) = Some (fs, e, sv)"

fun lex_specs :: "nat \<Rightarrow> lex_op list \<Rightarrow> lex_modes \<Rightarrow> lex_modes option" where
  "lex_specs cap [] a = Some a"
| "lex_specs cap (x # xs) a = do { a \<leftarrow> lex_spec cap x a; lex_specs cap xs a }"

definition lex_rep :: "nat \<Rightarrow> lex_input_stream \<Rightarrow> arena \<Rightarrow> lex_modes \<Rightarrow> bool" where
  "lex_rep cap s w a \<longleftrightarrow> lex_ok cap s w (fst a) \<and> m_echo s = fst (snd a) \<and> m_echo_saved s = snd (snd a)"

definition same_buffers :: "lex_input_stream \<Rightarrow> lex_input_stream \<Rightarrow> bool" where
  "same_buffers s s' \<longleftrightarrow> m_buf s' = m_buf s \<and> m_cpp_buf s' = m_cpp_buf s \<and> m_end_of_query s' = m_end_of_query s"

lemma lex_ok_fields:
  "lex_ok cap (set_echo b s) w fs = lex_ok cap s w fs" "lex_ok cap (save_in_comment_state s) w fs = lex_ok cap s w fs"
  "lex_ok cap (restore_in_comment_state s) w fs = lex_ok cap s w fs" "lex_ok cap (start_token s) w fs = lex_ok cap s w fs"
  "lex_ok cap (restart_token s) w fs = lex_ok cap s w fs"
  by (simp_all add: lex_ok_def set_echo_def save_in_comment_state_def restore_in_comment_state_def start_token_def restart_token_def)

lemma skipn_rep:
  assumes "lex_ok cap s w fs" and "length fs + n \<le> cap"
  shows "\<exists>s' w'. yySkipn n s w = Some (s', w') \<and> lex_rep cap s' w' (fs @ replicate n (m_echo s), m_echo s, m_echo_saved s) \<and> same_buffers s s' \<and>
    bytes_at (mem_of w') (m_buf s) cap = bytes_at (mem_of w) (m_buf s) cap"
proof -
  obtain s' w' where r: "yySkipn n s w = Some (s', w')" "lex_ok cap s' w' (fs @ replicate n (m_echo s))"
    "s' = s\<lparr>m_ptr := m_ptr s', m_cpp_ptr := m_cpp_ptr s'\<rparr>" "bytes_at (mem_of w') (m_buf s) cap = bytes_at (mem_of w) (m_buf s) cap"
    using skipn_accepts [OF assms] by blast
  have "m_echo s' = m_echo s \<and> m_echo_saved s' = m_echo_saved s \<and> same_buffers s s'"
    unfolding same_buffers_def by (subst r(3), subst r(3), subst r(3), subst r(3), subst r(3)) simp
  then show ?thesis using r(1,2,4) by (auto simp: lex_rep_def)
qed

lemma unget_fields: "m_echo (yyUnget s) = m_echo s" "m_echo_saved (yyUnget s) = m_echo_saved s" "same_buffers s (yyUnget s)"
  by (simp_all add: same_buffers_def yyUnget_def Let_def)

definition is_unput :: "lex_op \<Rightarrow> bool" where
  "is_unput x = (case x of Unput _ \<Rightarrow> True | _ \<Rightarrow> False)"

lemma lex_exec_refines:
  assumes "lex_rep cap s w a" and "lex_spec cap x a = Some b"
  shows "\<exists>s' w'. lex_exec x s w = Some (s', w') \<and> lex_rep cap s' w' b \<and> same_buffers s s' \<and>
    (\<not> is_unput x \<longrightarrow> bytes_at (mem_of w') (m_buf s) cap = bytes_at (mem_of w) (m_buf s) cap)"
proof -
  obtain fs where a: "a = (fs, m_echo s, m_echo_saved s)" and ok: "lex_ok cap s w fs" using assms(1) by (cases a) (auto simp: lex_rep_def)
  have taken: "lex_ok cap s w (butlast fs @ [m_echo s])" if "fs \<noteq> []" "last fs = m_echo s"
    using ok append_butlast_last_id [OF that(1), unfolded that(2)] by simp
  show ?thesis
  proof (cases x)
    case Get
    then have "length fs < cap" "b = (fs @ [m_echo s], m_echo s, m_echo_saved s)" using assms(2) a by (auto split: if_splits)
    then show ?thesis using Get skipn_rep [OF ok, of 1] get_is_skipn(2) [OF ok] by (auto simp: is_unput_def)
  next
    case Skip
    then have "length fs < cap" "b = (fs @ [m_echo s], m_echo s, m_echo_saved s)" using assms(2) a by (auto split: if_splits)
    then show ?thesis using Skip skipn_rep [OF ok, of 1] get_is_skipn(1) [OF ok] by (auto simp: is_unput_def)
  next
    case (Unput ch)
    then have u: "fs \<noteq> []" "last fs = m_echo s" "b = (butlast fs, m_echo s, m_echo_saved s)" using assms(2) a by (auto split: if_splits)
    obtain w' where "yyUnput ch s w = Some (yyUnget s, w')" "lex_ok cap (yyUnget s) w' (butlast fs)" using unput_puts_back [OF taken [OF u(1,2)]] by blast
    then show ?thesis using Unput u(3) unget_fields [of s] by (simp add: is_unput_def lex_rep_def)
  next
    case Unget
    then have u: "fs \<noteq> []" "last fs = m_echo s" "b = (butlast fs, m_echo s, m_echo_saved s)" using assms(2) a by (auto split: if_splits)
    then show ?thesis using Unget unget_takes_back [OF taken [OF u(1,2)]] unget_fields [of s] by (simp add: is_unput_def lex_rep_def)
  next
    case (Skipn n)
    then have "length fs + n \<le> cap" "b = (fs @ replicate n (m_echo s), m_echo s, m_echo_saved s)" using assms(2) a by (auto split: if_splits)
    then show ?thesis using Skipn skipn_rep [OF ok, of n] by (auto simp: is_unput_def)
  next
    case (Skip_binary n)
    then have "length fs + n \<le> cap" "b = (fs @ replicate n (m_echo s), m_echo s, m_echo_saved s)" using assms(2) a by (auto split: if_splits)
    then show ?thesis using Skip_binary skipn_rep [OF ok, of n] by (auto simp: is_unput_def skip_binary_def yySkipn_def)
  qed (use assms(2) a ok in \<open>auto simp: lex_rep_def same_buffers_def is_unput_def lex_ok_fields\<close>,
      (auto simp: set_echo_def save_in_comment_state_def restore_in_comment_state_def start_token_def restart_token_def))
qed

lemma lex_run_refines:
  assumes "lex_rep cap s w a" and "lex_specs cap xs a = Some b"
  shows "\<exists>s' w'. lex_run xs s w = Some (s', w') \<and> lex_rep cap s' w' b \<and> same_buffers s s' \<and>
    (list_all (\<lambda>x. \<not> is_unput x) xs \<longrightarrow> bytes_at (mem_of w') (m_buf s) cap = bytes_at (mem_of w) (m_buf s) cap)"
  using assms
proof (induction xs arbitrary: s w a)
  case Nil
  then show ?case by (simp add: same_buffers_def)
next
  case (Cons x xs)
  then obtain c where c: "lex_spec cap x a = Some c" "lex_specs cap xs c = Some b" by (auto simp: bind_eq_Some_conv)
  obtain s1 w1 where r1: "lex_exec x s w = Some (s1, w1)" "lex_rep cap s1 w1 c" "same_buffers s s1"
    "\<not> is_unput x \<longrightarrow> bytes_at (mem_of w1) (m_buf s) cap = bytes_at (mem_of w) (m_buf s) cap" using lex_exec_refines [OF Cons.prems(1) c(1)] by blast
  obtain s2 w2 where r2: "lex_run xs s1 w1 = Some (s2, w2)" "lex_rep cap s2 w2 b" "same_buffers s1 s2"
    "list_all (\<lambda>x. \<not> is_unput x) xs \<longrightarrow> bytes_at (mem_of w2) (m_buf s1) cap = bytes_at (mem_of w1) (m_buf s1) cap" using Cons.IH [OF r1(2) c(2)] by blast
  then show ?case using r1 by (auto simp: same_buffers_def)
qed

text \<open>Trailing spaces: the loop ends at the first position that no space precedes.\<close>

declare rtrim_loop.simps [simp del]

lemma rtrim_loop_trims:
  assumes "accessible w buf (p - buf)" and "buf \<le> p"
  shows "\<exists>q. rtrim_loop isspace buf w p = Some q \<and> buf \<le> q \<and> q \<le> p \<and> (\<forall>a. q \<le> a \<and> a < p \<longrightarrow> isspace (mem_of w a)) \<and>
    (q = buf \<or> \<not> isspace (mem_of w (q - 1)))"
  using assms
proof (induction isspace buf w p rule: rtrim_loop.induct)
  case (1 isspace buf w p)
  show ?case
  proof (cases "p > buf")
    case False
    then show ?thesis using 1(3) by (subst rtrim_loop.simps) auto
  next
    case True
    have acc: "accessible w (p - 1) 1" "accessible w buf (p - 1 - buf)"
      using True by (auto intro: accessible_part [OF 1(2)])
    then have load: "load_byte w (p - 1) = Some (mem_of w (p - 1))" by (simp add: load_byte_def)
    show ?thesis
    proof (cases "isspace (mem_of w (p - 1))")
      case space: True
      have below: "buf \<le> p - 1" using True by simp
      obtain q where q: "rtrim_loop isspace buf w (p - 1) = Some q" "buf \<le> q" "q \<le> p - 1" "\<forall>a. q \<le> a \<and> a < p - 1 \<longrightarrow> isspace (mem_of w a)"
        "q = buf \<or> \<not> isspace (mem_of w (q - 1))" using 1(1) [OF True load space acc(2) below] by blast
      have "isspace (mem_of w a)" if "q \<le> a" "a < p" for a using q(4) space that by (cases "a = p - 1") auto
      then show ?thesis using True load space q by (subst rtrim_loop.simps) auto
    next
      case False
      then show ?thesis using True load by (subst rtrim_loop.simps) auto
    qed
  qed
qed

section \<open>Properties\<close>

text \<open>
  Property C31: the two buffers of the lexer stay in step. Any run of the stream operations that keeps the
  rules of the comments (no reading past the buffer, taking a character back only under the echo
  mode it was accepted under) is defined, so that it never reads or writes outside the two
  buffers; the pre-processed buffer then holds exactly the characters that were accepted with echo
  on, in order; and without \<open>yyUnput\<close> the query text is unchanged.
\<close>

theorem lexer_buffers_in_step:
  assumes "lex_ok cap s w fs" and "lex_specs cap xs (fs, m_echo s, m_echo_saved s) = Some (fs', e, sv)"
  shows "\<exists>s' w'. lex_run xs s w = Some (s', w') \<and> m_echo s' = e \<and> m_buf s' = m_buf s \<and> m_cpp_buf s' = m_cpp_buf s \<and> m_ptr s' = m_buf s + length fs' \<and>
    bytes_at (mem_of w') (m_cpp_buf s) (m_cpp_ptr s' - m_cpp_buf s) = echoed (bytes_at (mem_of w') (m_buf s) (length fs')) fs' \<and>
    m_cpp_ptr s' - m_cpp_buf s \<le> length fs' \<and> length fs' \<le> cap \<and>
    (list_all (\<lambda>x. \<not> is_unput x) xs \<longrightarrow> bytes_at (mem_of w') (m_buf s) cap = bytes_at (mem_of w) (m_buf s) cap)"
proof -
  have "lex_rep cap s w (fs, m_echo s, m_echo_saved s)" using assms(1) by (simp add: lex_rep_def)
  from lex_run_refines [OF this assms(2)] obtain s' w' where r: "lex_run xs s w = Some (s', w')" "lex_rep cap s' w' (fs', e, sv)" "same_buffers s s'"
    "list_all (\<lambda>x. \<not> is_unput x) xs \<longrightarrow> bytes_at (mem_of w') (m_buf s) cap = bytes_at (mem_of w) (m_buf s) cap" by blast
  then show ?thesis by (auto simp: lex_rep_def lex_ok_def same_buffers_def)
qed

text \<open>A query of four characters, of which the second and third are read with echo off.\<close>

definition lex_arena :: arena where
  "lex_arena = \<lparr>mem_of = (\<lambda>a. of_nat a), blocks = [], buffers = [(10, 5), (20, 5)]\<rparr>"

definition lex_start :: lex_input_stream where
  "lex_start = \<lparr>lookahead_token = -1, m_ptr = 10, m_tok_start = 10, m_tok_end = 10, m_end_of_query = 14, m_tok_start_prev = 10, m_buf = 10, m_buf_length = 4,
     m_echo = True, m_echo_saved = True, m_cpp_buf = 20, m_cpp_ptr = 20, m_cpp_tok_start = 20, m_cpp_tok_start_prev = 20, m_cpp_tok_end = 20,
     in_comment = NO_COMMENT, in_comment_saved = NO_COMMENT\<rparr>"

theorem lexer_buffers_in_step_witness:
  "\<exists>s' w'. lex_run [Get, Echo False, Skipn 2, Echo True, Get, Get, Unget] lex_start lex_arena = Some (s', w') \<and> m_ptr s' = 14 \<and>
     bytes_at (mem_of w') 20 (m_cpp_ptr s' - 20) = [10, 13]"
proof -
  let ?xs = "[Get, Echo False, Skipn 2, Echo True, Get, Get, Unget]"
  have ok: "lex_ok 5 lex_start lex_arena []" by (simp add: lex_ok_def lex_start_def lex_arena_def echoed_def)
  have start: "m_echo lex_start" "m_echo_saved lex_start" "m_buf lex_start = 10" "m_cpp_buf lex_start = 20" by (simp_all add: lex_start_def)
  have "lex_specs 5 ?xs ([], m_echo lex_start, m_echo_saved lex_start) = Some ([True, False, False, True], True, True)"
    by (simp add: start numeral_2_eq_2)
  from lexer_buffers_in_step [OF ok this] obtain s' w' where r: "lex_run ?xs lex_start lex_arena = Some (s', w')" "m_ptr s' = 14"
    "bytes_at (mem_of w') 20 (m_cpp_ptr s' - 20) = echoed (bytes_at (mem_of w') 10 (length [True, False, False, True])) [True, False, False, True]"
    "bytes_at (mem_of w') 10 5 = bytes_at (mem_of lex_arena) 10 5" by (auto simp: start is_unput_def)
  have "bytes_at (mem_of w') 10 (length [True, False, False, True]) = [10, 11, 12, 13]"
    using arg_cong [OF r(4), of "take 4"] by (simp add: bytes_at_def lex_arena_def upt_rec)
  then have "bytes_at (mem_of w') 20 (m_cpp_ptr s' - 20) = [10, 13]" using r(3) by (simp add: echoed_def)
  then show ?thesis using r(1,2) by blast
qed

text \<open>
  Trimming a token. The position \<open>get_cpp_tok_end_rtrim\<close> returns is inside the pre-processed
  buffer, only spaces lie between it and the end of the token, and no space precedes it; the loop
  always ends.
\<close>

theorem token_end_trimmed:
  assumes "accessible w (m_cpp_buf s) (m_cpp_tok_end s - m_cpp_buf s)" and "m_cpp_buf s \<le> m_cpp_tok_end s"
  shows "\<exists>q. get_cpp_tok_end_rtrim isspace s w = Some q \<and> m_cpp_buf s \<le> q \<and> q \<le> m_cpp_tok_end s \<and>
    (\<forall>a. q \<le> a \<and> a < m_cpp_tok_end s \<longrightarrow> isspace (mem_of w a)) \<and> (q = m_cpp_buf s \<or> \<not> isspace (mem_of w (q - 1)))"
  using rtrim_loop_trims [OF assms] by (simp add: get_cpp_tok_end_rtrim_def)

theorem token_end_trimmed_witness:
  "\<exists>q. get_cpp_tok_end_rtrim (\<lambda>c. c \<ge> 22) (lex_start\<lparr>m_cpp_tok_end := 24\<rparr>) lex_arena = Some q \<and> 20 \<le> q \<and> q \<le> 24"
  using token_end_trimmed [of lex_arena "lex_start\<lparr>m_cpp_tok_end := 24\<rparr>" "\<lambda>c. c \<ge> 22"]
  by (auto simp: lex_start_def lex_arena_def accessible_def)

end
