(* ===== verification/QueryTables.thy ===== *)
theory QueryTables
  imports Prelude
begin

text \<open>
  \<open>Query_tables_list\<close> of \<open>sql_lex.h\<close>: the flags that say why a statement is unsafe to log as a
  statement, the kinds of tables it accesses, the test for mixed statements, and the list of the
  tables of a statement with the tables added for prelocking at its end. The table
  \<open>binlog_unsafe_map\<close> is defined outside the sources and is a parameter.
\<close>

section \<open>Unsafe statements\<close>

datatype enum_binlog_stmt_unsafe =
    BINLOG_STMT_UNSAFE_LIMIT | BINLOG_STMT_UNSAFE_INSERT_DELAYED | BINLOG_STMT_UNSAFE_SYSTEM_TABLE | BINLOG_STMT_UNSAFE_AUTOINC_COLUMNS
  | BINLOG_STMT_UNSAFE_UDF | BINLOG_STMT_UNSAFE_SYSTEM_VARIABLE | BINLOG_STMT_UNSAFE_SYSTEM_FUNCTION | BINLOG_STMT_UNSAFE_NONTRANS_AFTER_TRANS
  | BINLOG_STMT_UNSAFE_MULTIPLE_ENGINES_AND_SELF_LOGGING_ENGINE | BINLOG_STMT_UNSAFE_MIXED_STATEMENT | BINLOG_STMT_UNSAFE_INSERT_IGNORE_SELECT
  | BINLOG_STMT_UNSAFE_INSERT_SELECT_UPDATE | BINLOG_STMT_UNSAFE_WRITE_AUTOINC_SELECT | BINLOG_STMT_UNSAFE_REPLACE_SELECT
  | BINLOG_STMT_UNSAFE_CREATE_IGNORE_SELECT | BINLOG_STMT_UNSAFE_CREATE_REPLACE_SELECT | BINLOG_STMT_UNSAFE_CREATE_SELECT_AUTOINC
  | BINLOG_STMT_UNSAFE_UPDATE_IGNORE | BINLOG_STMT_UNSAFE_INSERT_TWO_KEYS | BINLOG_STMT_UNSAFE_AUTOINC_NOT_FIRST
  | BINLOG_STMT_UNSAFE_AUTOINC_LOCK_MODE | BINLOG_STMT_UNSAFE_SKIP_LOCKED

text \<open>The values of the enumeration, in the order of its declaration.\<close>

definition all_unsafe :: "enum_binlog_stmt_unsafe list" where
  "all_unsafe =
     [BINLOG_STMT_UNSAFE_LIMIT, BINLOG_STMT_UNSAFE_INSERT_DELAYED, BINLOG_STMT_UNSAFE_SYSTEM_TABLE, BINLOG_STMT_UNSAFE_AUTOINC_COLUMNS,
      BINLOG_STMT_UNSAFE_UDF, BINLOG_STMT_UNSAFE_SYSTEM_VARIABLE, BINLOG_STMT_UNSAFE_SYSTEM_FUNCTION, BINLOG_STMT_UNSAFE_NONTRANS_AFTER_TRANS,
      BINLOG_STMT_UNSAFE_MULTIPLE_ENGINES_AND_SELF_LOGGING_ENGINE, BINLOG_STMT_UNSAFE_MIXED_STATEMENT, BINLOG_STMT_UNSAFE_INSERT_IGNORE_SELECT,
      BINLOG_STMT_UNSAFE_INSERT_SELECT_UPDATE, BINLOG_STMT_UNSAFE_WRITE_AUTOINC_SELECT, BINLOG_STMT_UNSAFE_REPLACE_SELECT,
      BINLOG_STMT_UNSAFE_CREATE_IGNORE_SELECT, BINLOG_STMT_UNSAFE_CREATE_REPLACE_SELECT, BINLOG_STMT_UNSAFE_CREATE_SELECT_AUTOINC,
      BINLOG_STMT_UNSAFE_UPDATE_IGNORE, BINLOG_STMT_UNSAFE_INSERT_TWO_KEYS, BINLOG_STMT_UNSAFE_AUTOINC_NOT_FIRST,
      BINLOG_STMT_UNSAFE_AUTOINC_LOCK_MODE, BINLOG_STMT_UNSAFE_SKIP_LOCKED]"

definition BINLOG_STMT_UNSAFE_COUNT :: nat where
  "BINLOG_STMT_UNSAFE_COUNT = length all_unsafe"

fun index_of :: "'a list \<Rightarrow> 'a \<Rightarrow> nat" where
  "index_of [] x = 0"
| "index_of (y # ys) x = (if x = y then 0 else Suc (index_of ys x))"

definition unsafe_no :: "enum_binlog_stmt_unsafe \<Rightarrow> nat" where
  "unsafe_no t = index_of all_unsafe t"

definition BINLOG_STMT_UNSAFE_ALL_FLAGS :: u32 where
  "BINLOG_STMT_UNSAFE_ALL_FLAGS = push_bit BINLOG_STMT_UNSAFE_COUNT 1 - 1"

definition BINLOG_STMT_TYPE_ROW_INJECTION :: nat where
  "BINLOG_STMT_TYPE_ROW_INJECTION = BINLOG_STMT_UNSAFE_COUNT"

record query_tables_list =
  binlog_stmt_flags :: u32
  stmt_accessed_table_flag :: u32

definition get_stmt_unsafe_flags :: "query_tables_list \<Rightarrow> u32" where
  "get_stmt_unsafe_flags q = binlog_stmt_flags q AND BINLOG_STMT_UNSAFE_ALL_FLAGS"

definition is_stmt_unsafe :: "query_tables_list \<Rightarrow> bool" where
  "is_stmt_unsafe q \<longleftrightarrow> get_stmt_unsafe_flags q \<noteq> 0"

definition is_stmt_unsafe_type :: "enum_binlog_stmt_unsafe \<Rightarrow> query_tables_list \<Rightarrow> bool" where
  "is_stmt_unsafe_type unsafe q \<longleftrightarrow> binlog_stmt_flags q AND push_bit (unsafe_no unsafe) 1 \<noteq> 0"

definition set_stmt_unsafe :: "enum_binlog_stmt_unsafe \<Rightarrow> query_tables_list \<Rightarrow> query_tables_list" where
  "set_stmt_unsafe unsafe_type q = q\<lparr>binlog_stmt_flags := binlog_stmt_flags q OR push_bit (unsafe_no unsafe_type) 1\<rparr>"

definition set_stmt_unsafe_flags :: "u32 \<Rightarrow> query_tables_list \<Rightarrow> query_tables_list option" where
  "set_stmt_unsafe_flags flags q =
     (if flags AND NOT BINLOG_STMT_UNSAFE_ALL_FLAGS = 0 then Some (q\<lparr>binlog_stmt_flags := binlog_stmt_flags q OR flags\<rparr>) else None)"

definition clear_stmt_unsafe :: "query_tables_list \<Rightarrow> query_tables_list" where
  "clear_stmt_unsafe q = q\<lparr>binlog_stmt_flags := binlog_stmt_flags q AND NOT BINLOG_STMT_UNSAFE_ALL_FLAGS\<rparr>"

definition is_stmt_row_injection :: "query_tables_list \<Rightarrow> bool" where
  "is_stmt_row_injection q \<longleftrightarrow> binlog_stmt_flags q AND push_bit BINLOG_STMT_TYPE_ROW_INJECTION 1 \<noteq> 0"

definition set_stmt_row_injection :: "query_tables_list \<Rightarrow> query_tables_list" where
  "set_stmt_row_injection q = q\<lparr>binlog_stmt_flags := binlog_stmt_flags q OR push_bit BINLOG_STMT_TYPE_ROW_INJECTION 1\<rparr>"

section \<open>Accessed tables\<close>

datatype enum_stmt_accessed_table =
    STMT_READS_TRANS_TABLE | STMT_READS_NON_TRANS_TABLE | STMT_READS_TEMP_TRANS_TABLE | STMT_READS_TEMP_NON_TRANS_TABLE
  | STMT_WRITES_TRANS_TABLE | STMT_WRITES_NON_TRANS_TABLE | STMT_WRITES_TEMP_TRANS_TABLE | STMT_WRITES_TEMP_NON_TRANS_TABLE

fun access_no :: "enum_stmt_accessed_table \<Rightarrow> nat" where
  "access_no STMT_READS_TRANS_TABLE = 0"
| "access_no STMT_READS_NON_TRANS_TABLE = 1"
| "access_no STMT_READS_TEMP_TRANS_TABLE = 2"
| "access_no STMT_READS_TEMP_NON_TRANS_TABLE = 3"
| "access_no STMT_WRITES_TRANS_TABLE = 4"
| "access_no STMT_WRITES_NON_TRANS_TABLE = 5"
| "access_no STMT_WRITES_TEMP_TRANS_TABLE = 6"
| "access_no STMT_WRITES_TEMP_NON_TRANS_TABLE = 7"

definition set_stmt_accessed_table :: "enum_stmt_accessed_table \<Rightarrow> query_tables_list \<Rightarrow> query_tables_list" where
  "set_stmt_accessed_table t q = q\<lparr>stmt_accessed_table_flag := stmt_accessed_table_flag q OR push_bit (access_no t) 1\<rparr>"

definition stmt_accessed_table :: "enum_stmt_accessed_table \<Rightarrow> query_tables_list \<Rightarrow> bool" where
  "stmt_accessed_table t q \<longleftrightarrow> stmt_accessed_table_flag q AND push_bit (access_no t) 1 \<noteq> 0"

definition stmt_accessed_trans_temp_table :: "query_tables_list \<Rightarrow> bool" where
  "stmt_accessed_trans_temp_table q \<longleftrightarrow>
     stmt_accessed_table_flag q AND (push_bit (access_no STMT_READS_TEMP_TRANS_TABLE) 1 OR push_bit (access_no STMT_WRITES_TEMP_TRANS_TABLE) 1) \<noteq> 0"

definition stmt_writes_to_non_temp_table :: "query_tables_list \<Rightarrow> bool" where
  "stmt_writes_to_non_temp_table q \<longleftrightarrow>
     stmt_accessed_table_flag q AND (push_bit (access_no STMT_WRITES_TRANS_TABLE) 1 OR push_bit (access_no STMT_WRITES_NON_TRANS_TABLE) 1) \<noteq> 0"

definition stmt_accessed_non_trans_temp_table :: "query_tables_list \<Rightarrow> bool" where
  "stmt_accessed_non_trans_temp_table q \<longleftrightarrow>
     stmt_accessed_table_flag q AND (push_bit (access_no STMT_READS_TEMP_NON_TRANS_TABLE) 1 OR push_bit (access_no STMT_WRITES_TEMP_NON_TRANS_TABLE) 1) \<noteq> 0"

definition stmt_accessed_temp_table :: "query_tables_list \<Rightarrow> bool" where
  "stmt_accessed_temp_table q \<longleftrightarrow> stmt_accessed_non_trans_temp_table q \<or> stmt_accessed_trans_temp_table q"

definition BINLOG_DIRECT_ON :: u32 where "BINLOG_DIRECT_ON = 0xF0"
definition BINLOG_DIRECT_OFF :: u32 where "BINLOG_DIRECT_OFF = 0xF"
definition TRX_CACHE_EMPTY :: u32 where "TRX_CACHE_EMPTY = 0x33"
definition TRX_CACHE_NOT_EMPTY :: u32 where "TRX_CACHE_NOT_EMPTY = 0xCC"
definition IL_LT_REPEATABLE :: u32 where "IL_LT_REPEATABLE = 0xAA"
definition IL_GTE_REPEATABLE :: u32 where "IL_GTE_REPEATABLE = 0x55"

abbreviation ISO_REPEATABLE_READ :: nat where "ISO_REPEATABLE_READ \<equiv> 2"

definition mixed_condition :: "bool \<Rightarrow> bool \<Rightarrow> nat \<Rightarrow> u32" where
  "mixed_condition binlog_direct trx_cache_is_not_empty tx_isolation =
     (if binlog_direct then BINLOG_DIRECT_ON else BINLOG_DIRECT_OFF) AND
     (if trx_cache_is_not_empty then TRX_CACHE_NOT_EMPTY else TRX_CACHE_EMPTY) AND
     (if tx_isolation \<ge> ISO_REPEATABLE_READ then IL_GTE_REPEATABLE else IL_LT_REPEATABLE)"

definition is_mixed_stmt_unsafe :: "(u32 \<Rightarrow> u32) \<Rightarrow> bool \<Rightarrow> bool \<Rightarrow> bool \<Rightarrow> nat \<Rightarrow> query_tables_list \<Rightarrow> bool" where
  "is_mixed_stmt_unsafe binlog_unsafe_map in_multi_stmt_transaction_mode binlog_direct trx_cache_is_not_empty tx_isolation q =
     (let unsafe = (if in_multi_stmt_transaction_mode
                    then binlog_unsafe_map (stmt_accessed_table_flag q) AND mixed_condition binlog_direct trx_cache_is_not_empty tx_isolation \<noteq> 0
                    else False)
      in if stmt_accessed_table STMT_WRITES_NON_TRANS_TABLE q \<and> stmt_accessed_table STMT_READS_TRANS_TABLE q \<and> tx_isolation < ISO_REPEATABLE_READ then True
         else if stmt_accessed_table STMT_WRITES_TEMP_NON_TRANS_TABLE q \<and> stmt_accessed_table STMT_READS_TRANS_TABLE q \<and> tx_isolation < ISO_REPEATABLE_READ then True
         else unsafe)"

section \<open>The tables of a statement\<close>

text \<open>Slots are addresses of pointers: the head of the list, or \<open>next_global\<close> of a table.\<close>

datatype table_slot = Tables_head | Next_global nat

record tables_state =
  query_tables :: "nat option"
  next_global :: "nat \<Rightarrow> nat option"
  prev_global :: "nat \<Rightarrow> table_slot"
  query_tables_last :: table_slot
  query_tables_own_last :: "table_slot option"

fun put_slot :: "table_slot \<Rightarrow> nat option \<Rightarrow> tables_state \<Rightarrow> tables_state" where
  "put_slot Tables_head v q = q\<lparr>query_tables := v\<rparr>"
| "put_slot (Next_global t) v q = q\<lparr>next_global := (next_global q)(t := v)\<rparr>"

fun get_slot :: "table_slot \<Rightarrow> tables_state \<Rightarrow> nat option" where
  "get_slot Tables_head q = query_tables q"
| "get_slot (Next_global t) q = next_global q t"

definition add_to_query_tables :: "nat \<Rightarrow> tables_state \<Rightarrow> tables_state" where
  "add_to_query_tables t q =
     (let q = q\<lparr>prev_global := (prev_global q)(t := query_tables_last q)\<rparr>;
          q = put_slot (query_tables_last q) (Some t) q
      in q\<lparr>query_tables_last := Next_global t\<rparr>)"

definition requires_prelocking :: "tables_state \<Rightarrow> bool" where
  "requires_prelocking q \<longleftrightarrow> query_tables_own_last q \<noteq> None"

definition mark_as_requiring_prelocking :: "table_slot option \<Rightarrow> tables_state \<Rightarrow> tables_state" where
  "mark_as_requiring_prelocking tables_own_last q = q\<lparr>query_tables_own_last := tables_own_last\<rparr>"

definition first_not_own_table :: "tables_state \<Rightarrow> nat option" where
  "first_not_own_table q = (case query_tables_own_last q of None \<Rightarrow> None | Some s \<Rightarrow> get_slot s q)"

definition chop_off_not_own_tables :: "tables_state \<Rightarrow> tables_state" where
  "chop_off_not_own_tables q =
     (case query_tables_own_last q of
        None \<Rightarrow> q
      | Some s \<Rightarrow> (put_slot s None q)\<lparr>query_tables_last := s, query_tables_own_last := None\<rparr>)"

text \<open>The table whose \<open>next_global\<close> the slot is; for a list with tables the slot is not the head.\<close>

definition last_table :: "tables_state \<Rightarrow> nat option" where
  "last_table q =
     (if query_tables q = None then None else case query_tables_last q of Next_global t \<Rightarrow> Some t | Tables_head \<Rightarrow> None)"

section \<open>Flags as sets\<close>

lemma and_bit_iff: "(w :: u32) AND push_bit n 1 \<noteq> 0 \<longleftrightarrow> bit w n"
  by (simp add: and_exp_eq_0_iff_not_bit)

lemma bit_push_one: "bit (2 ^ n :: u32) k \<longleftrightarrow> k = n \<and> n < 32"
  by (auto simp: bit_exp_iff)

lemma index_of_bound: "x \<in> set xs \<Longrightarrow> index_of xs x < length xs"
  by (induction xs) auto

lemma nth_index_of: "x \<in> set xs \<Longrightarrow> xs ! index_of xs x = x"
  by (induction xs) auto

lemma index_of_nth: "distinct xs \<Longrightarrow> n < length xs \<Longrightarrow> index_of xs (xs ! n) = n"
proof (induction xs arbitrary: n)
  case (Cons x xs)
  then show ?case by (cases n) auto
qed simp

lemma all_unsafe_complete: "t \<in> set all_unsafe"
  by (cases t) (simp_all add: all_unsafe_def)

lemma all_unsafe_distinct: "distinct all_unsafe"
  by (simp add: all_unsafe_def)

lemma unsafe_count: "BINLOG_STMT_UNSAFE_COUNT = 22"
  by (simp add: BINLOG_STMT_UNSAFE_COUNT_def all_unsafe_def)

lemma unsafe_no_less: "unsafe_no t < 22"
  using index_of_bound [OF all_unsafe_complete] unsafe_count by (simp add: unsafe_no_def BINLOG_STMT_UNSAFE_COUNT_def)

lemma unsafe_no_inj: "unsafe_no t = unsafe_no u \<longleftrightarrow> t = u"
  using nth_index_of [OF all_unsafe_complete] unfolding unsafe_no_def by metis

lemma unsafe_no_surj: "n < 22 \<Longrightarrow> \<exists>t. unsafe_no t = n"
  using index_of_nth [OF all_unsafe_distinct, of n] unsafe_count by (auto simp: unsafe_no_def BINLOG_STMT_UNSAFE_COUNT_def)

lemma bit_all_flags: "bit BINLOG_STMT_UNSAFE_ALL_FLAGS n \<longleftrightarrow> n < 22"
proof -
  have flags: "BINLOG_STMT_UNSAFE_ALL_FLAGS = mask 22" by (simp add: BINLOG_STMT_UNSAFE_ALL_FLAGS_def unsafe_count mask_eq_exp_minus_1)
  show ?thesis unfolding flags by (simp only: bit_mask_iff possible_bit_word) auto
qed

lemma bit_row: "bit (2 ^ BINLOG_STMT_TYPE_ROW_INJECTION :: u32) k \<longleftrightarrow> k = 22"
  unfolding bit_push_one by (simp add: BINLOG_STMT_TYPE_ROW_INJECTION_def unsafe_count)

abbreviation unsafe_set :: "query_tables_list \<Rightarrow> enum_binlog_stmt_unsafe set" where
  "unsafe_set q \<equiv> {t. is_stmt_unsafe_type t q}"

lemma is_unsafe_bit: "is_stmt_unsafe_type t q \<longleftrightarrow> bit (binlog_stmt_flags q) (unsafe_no t)"
  by (simp only: is_stmt_unsafe_type_def and_bit_iff)

lemma is_row_bit: "is_stmt_row_injection q \<longleftrightarrow> bit (binlog_stmt_flags q) 22"
  by (simp only: is_stmt_row_injection_def and_bit_iff BINLOG_STMT_TYPE_ROW_INJECTION_def unsafe_count)

lemma unsafe_iff_marked: "is_stmt_unsafe q \<longleftrightarrow> unsafe_set q \<noteq> {}"
proof -
  have "is_stmt_unsafe q \<longleftrightarrow> (\<exists>n < 22. bit (binlog_stmt_flags q) n)"
    by (auto simp: is_stmt_unsafe_def get_stmt_unsafe_flags_def word_eq_0_iff_no_bit bit_and_iff bit_all_flags)
  also have "\<dots> \<longleftrightarrow> (\<exists>t. bit (binlog_stmt_flags q) (unsafe_no t))" using unsafe_no_surj unsafe_no_less by metis
  finally show ?thesis by (simp add: is_unsafe_bit)
qed

text \<open>
  The flags of a statement are a set of reasons and one mark. Marking a reason adds it,
  \<open>set_stmt_unsafe_flags\<close> adds a set of them and refuses any other bit, clearing removes all; a
  statement is unsafe exactly if some reason is marked; and the mark for row injections is
  independent of the reasons, whatever the order of the calls.
\<close>

theorem unsafe_flags_are_a_set:
  "unsafe_set (set_stmt_unsafe t q) = insert t (unsafe_set q) \<and> unsafe_set (clear_stmt_unsafe q) = {} \<and> unsafe_set (set_stmt_row_injection q) = unsafe_set q \<and>
   (is_stmt_unsafe q \<longleftrightarrow> unsafe_set q \<noteq> {}) \<and> is_stmt_row_injection (set_stmt_row_injection q) \<and>
   is_stmt_row_injection (set_stmt_unsafe t q) = is_stmt_row_injection q \<and> is_stmt_row_injection (clear_stmt_unsafe q) = is_stmt_row_injection q \<and>
   (case set_stmt_unsafe_flags flags q of
      None \<Rightarrow> \<exists>n \<ge> 22. bit flags n
    | Some q' \<Rightarrow> unsafe_set q' = unsafe_set q \<union> {t. bit flags (unsafe_no t)} \<and> is_stmt_row_injection q' = is_stmt_row_injection q)"
proof -
  have ne: "unsafe_no u \<noteq> 22" for u using unsafe_no_less [of u] by simp
  have lt: "unsafe_no u < 32" for u using unsafe_no_less [of u] by simp
  have 1: "unsafe_set (set_stmt_unsafe t q) = insert t (unsafe_set q)" "is_stmt_row_injection (set_stmt_unsafe t q) = is_stmt_row_injection q"
    using lt ne by (auto simp: is_unsafe_bit is_row_bit set_stmt_unsafe_def bit_or_iff bit_push_one unsafe_no_inj)
  have 2: "unsafe_set (clear_stmt_unsafe q) = {}" "is_stmt_row_injection (clear_stmt_unsafe q) = is_stmt_row_injection q"
    using unsafe_no_less lt by (auto simp: is_unsafe_bit is_row_bit clear_stmt_unsafe_def bit_and_iff bit_not_iff bit_all_flags)
  have 3: "unsafe_set (set_stmt_row_injection q) = unsafe_set q" "is_stmt_row_injection (set_stmt_row_injection q)"
    using ne by (auto simp: is_unsafe_bit is_row_bit set_stmt_row_injection_def bit_or_iff bit_row)
  have "flags AND NOT BINLOG_STMT_UNSAFE_ALL_FLAGS = 0 \<longleftrightarrow> (\<forall>n \<ge> 22. \<not> bit flags n)"
    unfolding word_eq_0_iff_no_bit using bit_imp_le_length [of flags]
    by (auto simp: bit_and_iff bit_not_iff bit_all_flags not_less [symmetric])
  then have 4: "case set_stmt_unsafe_flags flags q of None \<Rightarrow> \<exists>n \<ge> 22. bit flags n
    | Some q' \<Rightarrow> unsafe_set q' = unsafe_set q \<union> {t. bit flags (unsafe_no t)} \<and> is_stmt_row_injection q' = is_stmt_row_injection q"
    by (auto simp: set_stmt_unsafe_flags_def is_unsafe_bit is_row_bit bit_or_iff)
  show ?thesis using 1 2 3 4 unsafe_iff_marked by blast
qed

text \<open>The kinds of accessed tables index the 256 entries of \<open>binlog_unsafe_map\<close>.\<close>

lemma access_no_less: "access_no t < 8"
  by (cases t) simp_all

lemma accessed_index:
  assumes "unat (stmt_accessed_table_flag q) < 256"
  shows "unat (stmt_accessed_table_flag (set_stmt_accessed_table t q)) < 256"
proof -
  have small: "unat w < 256 \<longleftrightarrow> take_bit 8 w = w" for w :: u32
    by (simp add: word_unat_eq_iff unsigned_take_bit_eq take_bit_nat_eq_self_iff)
  have "take_bit 8 (push_bit (access_no t) 1 :: u32) = push_bit (access_no t) 1"
    using access_no_less [of t] by (auto intro!: bit_word_eqI simp: bit_simps)
  then show ?thesis using assms unfolding small set_stmt_accessed_table_def by (simp add: take_bit_or)
qed

lemma accessed_tables: "stmt_accessed_table u (set_stmt_accessed_table t q) \<longleftrightarrow> u = t \<or> stmt_accessed_table u q"
proof -
  have "access_no u = access_no t \<longleftrightarrow> u = t" by (cases u; cases t) simp_all
  then show ?thesis unfolding stmt_accessed_table_def and_bit_iff set_stmt_accessed_table_def
    using access_no_less [of t] by (auto simp: bit_or_iff bit_push_one)
qed

lemma temp_tables:
  "stmt_accessed_temp_table q \<longleftrightarrow> stmt_accessed_table STMT_READS_TEMP_TRANS_TABLE q \<or> stmt_accessed_table STMT_WRITES_TEMP_TRANS_TABLE q \<or>
     stmt_accessed_table STMT_READS_TEMP_NON_TRANS_TABLE q \<or> stmt_accessed_table STMT_WRITES_TEMP_NON_TRANS_TABLE q"
  "stmt_writes_to_non_temp_table q \<longleftrightarrow> stmt_accessed_table STMT_WRITES_TRANS_TABLE q \<or> stmt_accessed_table STMT_WRITES_NON_TRANS_TABLE q"
proof -
  have either: "w AND (a OR b) \<noteq> 0 \<longleftrightarrow> w AND a \<noteq> 0 \<or> w AND b \<noteq> 0" for w a b :: u32
    by (auto simp: word_eq_0_iff_no_bit bit_and_iff bit_or_iff)
  show "stmt_accessed_temp_table q \<longleftrightarrow> stmt_accessed_table STMT_READS_TEMP_TRANS_TABLE q \<or> stmt_accessed_table STMT_WRITES_TEMP_TRANS_TABLE q \<or>
     stmt_accessed_table STMT_READS_TEMP_NON_TRANS_TABLE q \<or> stmt_accessed_table STMT_WRITES_TEMP_NON_TRANS_TABLE q"
    unfolding stmt_accessed_temp_table_def stmt_accessed_trans_temp_table_def stmt_accessed_non_trans_temp_table_def stmt_accessed_table_def either by blast
  show "stmt_writes_to_non_temp_table q \<longleftrightarrow> stmt_accessed_table STMT_WRITES_TRANS_TABLE q \<or> stmt_accessed_table STMT_WRITES_NON_TRANS_TABLE q"
    unfolding stmt_writes_to_non_temp_table_def stmt_accessed_table_def either ..
qed

text \<open>The bit of a configuration in the layout documented for \<open>binlog_unsafe_map\<close>.\<close>

definition documented_bit :: "bool \<Rightarrow> bool \<Rightarrow> nat \<Rightarrow> nat" where
  "documented_bit direct not_empty level = (if direct then 4 else 0) + (if not_empty then 2 else 0) + (if level < ISO_REPEATABLE_READ then 1 else 0)"

lemma mixed_condition_bit: "mixed_condition direct not_empty level = push_bit (documented_bit direct not_empty level) 1"
  by (simp add: mixed_condition_def documented_bit_def BINLOG_DIRECT_ON_def BINLOG_DIRECT_OFF_def TRX_CACHE_EMPTY_def TRX_CACHE_NOT_EMPTY_def
      IL_LT_REPEATABLE_def IL_GTE_REPEATABLE_def)

text \<open>
  The test for mixed statements. The three masks combine to exactly the bit that the comment
  on \<open>binlog_unsafe_map\<close> documents for the configuration, so that inside a transaction the test reads
  that one bit of the entry of the accessed tables, an index within the map; and at an isolation
  level below repeatable read, writing a non-transactional table while reading a transactional one
  is always unsafe.
\<close>

theorem mixed_statement_test:
  "(is_mixed_stmt_unsafe unsafe_map in_trans direct not_empty level q \<longleftrightarrow>
     in_trans \<and> bit (unsafe_map (stmt_accessed_table_flag q)) (documented_bit direct not_empty level) \<or>
     level < ISO_REPEATABLE_READ \<and> stmt_accessed_table STMT_READS_TRANS_TABLE q \<and>
       (stmt_accessed_table STMT_WRITES_NON_TRANS_TABLE q \<or> stmt_accessed_table STMT_WRITES_TEMP_NON_TRANS_TABLE q)) \<and>
   unat (stmt_accessed_table_flag (fold set_stmt_accessed_table ts \<lparr>binlog_stmt_flags = f, stmt_accessed_table_flag = 0\<rparr>)) < 256"
proof
  show "is_mixed_stmt_unsafe unsafe_map in_trans direct not_empty level q \<longleftrightarrow>
     in_trans \<and> bit (unsafe_map (stmt_accessed_table_flag q)) (documented_bit direct not_empty level) \<or>
     level < ISO_REPEATABLE_READ \<and> stmt_accessed_table STMT_READS_TRANS_TABLE q \<and>
       (stmt_accessed_table STMT_WRITES_NON_TRANS_TABLE q \<or> stmt_accessed_table STMT_WRITES_TEMP_NON_TRANS_TABLE q)"
    unfolding is_mixed_stmt_unsafe_def Let_def mixed_condition_bit and_bit_iff by auto
  have "unat (stmt_accessed_table_flag q) < 256 \<Longrightarrow> unat (stmt_accessed_table_flag (fold set_stmt_accessed_table ts q)) < 256" for q
    by (induction ts arbitrary: q) (simp_all add: accessed_index)
  then show "unat (stmt_accessed_table_flag (fold set_stmt_accessed_table ts \<lparr>binlog_stmt_flags = f, stmt_accessed_table_flag = 0\<rparr>)) < 256" by simp
qed

section \<open>The list of tables\<close>

fun table_chain :: "tables_state \<Rightarrow> table_slot \<Rightarrow> nat list \<Rightarrow> bool" where
  "table_chain q s [] \<longleftrightarrow> get_slot s q = None"
| "table_chain q s (t # ts) \<longleftrightarrow> get_slot s q = Some t \<and> prev_global q t = s \<and> table_chain q (Next_global t) ts"

abbreviation slot_after :: "nat list \<Rightarrow> table_slot" where
  "slot_after ts \<equiv> if ts = [] then Tables_head else Next_global (last ts)"

definition tables_ok :: "tables_state \<Rightarrow> nat list \<Rightarrow> bool" where
  "tables_ok q ts \<longleftrightarrow> table_chain q Tables_head ts \<and> distinct ts \<and> query_tables_last q = slot_after ts"

lemma get_put_slot: "get_slot s (put_slot s' v q) = (if s = s' then v else get_slot s q)"
  by (cases s; cases s') auto

lemma put_slot_fields [simp]:
  "prev_global (put_slot s v q) = prev_global q" "query_tables_last (put_slot s v q) = query_tables_last q"
  "query_tables_own_last (put_slot s v q) = query_tables_own_last q"
  by (cases s; simp)+

lemma get_slot_cong: "query_tables q' = query_tables q \<Longrightarrow> next_global q' = next_global q \<Longrightarrow> get_slot s q' = get_slot s q"
  by (cases s) auto

text \<open>A chain depends on its own slots and back pointers only.\<close>

lemma table_chain_cut:
  assumes "table_chain q s (xs @ ys)" and "distinct (xs @ ys)" and "s \<notin> Next_global ` set (xs @ ys)"
    and "e = (if xs = [] then s else Next_global (last xs))"
    and "get_slot e q' = None" and "\<And>r. r \<noteq> e \<Longrightarrow> get_slot r q' = get_slot r q" and "\<And>t. t \<in> set xs \<Longrightarrow> prev_global q' t = prev_global q t"
  shows "table_chain q' s xs"
  using assms
proof (induction xs arbitrary: s)
  case (Cons t xs)
  have "s \<noteq> e" using Cons.prems(3,4) by (auto split: if_splits)
  moreover have "table_chain q' (Next_global t) xs"
    by (rule Cons.IH) (use Cons.prems in auto)
  ultimately show ?case using Cons.prems by simp
qed simp

lemma table_chain_extend:
  assumes "table_chain q s xs" and "distinct xs" and "s \<notin> Next_global ` set (t # xs)" and "t \<notin> set xs" and "next_global q t = None"
    and "e = (if xs = [] then s else Next_global (last xs))"
    and "\<And>r. get_slot r q' = (if r = e then Some t else get_slot r q)" and "\<And>u. prev_global q' u = (if u = t then e else prev_global q u)"
  shows "table_chain q' s (xs @ [t])"
  using assms
proof (induction xs arbitrary: s)
  case Nil
  then show ?case by auto
next
  case (Cons u xs)
  have "s \<noteq> e" using Cons.prems(3,6) by (auto split: if_splits)
  moreover have "table_chain q' (Next_global u) (xs @ [t])"
    by (rule Cons.IH) (use Cons.prems in auto)
  ultimately show ?case using Cons.prems by auto
qed

lemma add_table:
  assumes "tables_ok q ts" and "t \<notin> set ts" and "next_global q t = None"
  shows "tables_ok (add_to_query_tables t q) (ts @ [t])" "query_tables_own_last (add_to_query_tables t q) = query_tables_own_last q"
    "u \<noteq> t \<Longrightarrow> u \<notin> set ts \<Longrightarrow> next_global (add_to_query_tables t q) u = next_global q u"
proof -
  have last: "query_tables_last q = slot_after ts" using assms(1) by (simp add: tables_ok_def)
  have slots: "get_slot r (add_to_query_tables t q) = (if r = slot_after ts then Some t else get_slot r q)" for r
  proof -
    have "get_slot r (add_to_query_tables t q) = get_slot r (put_slot (slot_after ts) (Some t) (q\<lparr>prev_global := (prev_global q)(t := slot_after ts)\<rparr>))"
      unfolding add_to_query_tables_def Let_def using last by (intro get_slot_cong) simp_all
    moreover have "get_slot r (q\<lparr>prev_global := p\<rparr>) = get_slot r q" for p by (cases r) simp_all
    ultimately show ?thesis by (simp add: get_put_slot)
  qed
  have "table_chain (add_to_query_tables t q) Tables_head (ts @ [t])"
    by (rule table_chain_extend [where q = q and e = "slot_after ts"])
      (use assms slots last in \<open>auto simp: tables_ok_def add_to_query_tables_def Let_def\<close>)
  then show "tables_ok (add_to_query_tables t q) (ts @ [t])" using assms(1,2) by (simp add: tables_ok_def add_to_query_tables_def Let_def)
  show "query_tables_own_last (add_to_query_tables t q) = query_tables_own_last q" by (simp add: add_to_query_tables_def Let_def)
  show "next_global (add_to_query_tables t q) u = next_global q u" if "u \<noteq> t" "u \<notin> set ts"
    using slots [of "Next_global u"] that last_in_set [of ts] by (auto split: if_splits)
qed

lemma add_tables:
  assumes "tables_ok q ts" and "distinct (ts @ us)" and "\<forall>u\<in>set us. next_global q u = None"
  shows "tables_ok (fold add_to_query_tables us q) (ts @ us) \<and> query_tables_own_last (fold add_to_query_tables us q) = query_tables_own_last q"
  using assms
proof (induction us arbitrary: q ts)
  case (Cons u us)
  have u: "u \<notin> set ts" "next_global q u = None" using Cons.prems by auto
  have "\<forall>v\<in>set us. next_global (add_to_query_tables u q) v = None"
  proof
    fix v assume v: "v \<in> set us"
    then have "v \<noteq> u" "v \<notin> set ts" using Cons.prems(2) by auto
    then have "next_global (add_to_query_tables u q) v = next_global q v" by (rule add_table(3) [OF Cons.prems(1) u])
    then show "next_global (add_to_query_tables u q) v = None" using v Cons.prems(3) by simp
  qed
  then show ?case using Cons.IH [OF add_table(1) [OF Cons.prems(1) u]] add_table(2) [OF Cons.prems(1) u] Cons.prems(2) by simp
qed simp

lemma table_chain_first:
  assumes "table_chain q s (xs @ ys)"
  shows "get_slot (if xs = [] then s else Next_global (last xs)) q = (case ys of [] \<Rightarrow> None | t # _ \<Rightarrow> Some t)"
  using assms by (induction xs arbitrary: s) (auto split: list.splits if_splits)

lemma tables_ok_mark: "tables_ok (mark_as_requiring_prelocking s q) ts \<longleftrightarrow> tables_ok q ts"
proof -
  have "get_slot r (mark_as_requiring_prelocking s q) = get_slot r q" for r by (cases r) (simp_all add: mark_as_requiring_prelocking_def)
  then have "table_chain (mark_as_requiring_prelocking s q) r ts = table_chain q r ts" for r
    by (induction ts arbitrary: r) (simp_all add: mark_as_requiring_prelocking_def)
  then show ?thesis by (simp add: tables_ok_def mark_as_requiring_prelocking_def)
qed

lemma last_table_ok:
  assumes "tables_ok q ts"
  shows "last_table q = (if ts = [] then None else Some (last ts))"
  using assms by (cases ts) (auto simp: tables_ok_def last_table_def)

lemma chop_off_ok:
  assumes "tables_ok q (own @ others)" and "query_tables_own_last q = Some (slot_after own)"
  shows "tables_ok (chop_off_not_own_tables q) own"
proof -
  define e where "e = slot_after own"
  have slots: "get_slot r (chop_off_not_own_tables q) = (if r = e then None else get_slot r q)" for r
  proof -
    have "get_slot r (chop_off_not_own_tables q) = get_slot r (put_slot e None q)"
      unfolding chop_off_not_own_tables_def using assms(2) by (intro get_slot_cong) (simp_all add: e_def)
    then show ?thesis by (simp add: get_put_slot)
  qed
  have "table_chain (chop_off_not_own_tables q) Tables_head own"
    by (rule table_chain_cut [where q = q and ys = others and e = e])
      (use assms slots in \<open>auto simp: tables_ok_def e_def chop_off_not_own_tables_def\<close>)
  then show ?thesis using assms by (simp add: tables_ok_def chop_off_not_own_tables_def)
qed

text \<open>
  Property C32: tables added for prelocking can be taken off again. When the end of the own tables is
  marked and further tables are added, the list holds both in order, the first table that is not
  an own one and the last table are found, and \<open>chop_off_not_own_tables\<close> restores exactly the own
  tables, ready for tables to be added again.
\<close>

theorem prelocking_tables_chopped_off:
  assumes "tables_ok q own" and "distinct (own @ more_tables)" and "\<forall>t\<in>set more_tables. next_global q t = None"
    and "q' = fold add_to_query_tables more_tables (mark_as_requiring_prelocking (Some (query_tables_last q)) q)"
  shows "tables_ok q' (own @ more_tables) \<and> requires_prelocking q' \<and>
    first_not_own_table q' = (case more_tables of [] \<Rightarrow> None | t # _ \<Rightarrow> Some t) \<and>
    last_table q' = (if own @ more_tables = [] then None else Some (last (own @ more_tables))) \<and>
    tables_ok (chop_off_not_own_tables q') own \<and> \<not> requires_prelocking (chop_off_not_own_tables q')"
proof -
  have own: "query_tables_last q = slot_after own" using assms(1) by (simp add: tables_ok_def)
  have "tables_ok q' (own @ more_tables) \<and> query_tables_own_last q' = query_tables_own_last (mark_as_requiring_prelocking (Some (query_tables_last q)) q)"
    unfolding assms(4)
  proof (rule add_tables)
    show "tables_ok (mark_as_requiring_prelocking (Some (query_tables_last q)) q) own" using assms(1) by (simp only: tables_ok_mark)
    show "\<forall>u\<in>set more_tables. next_global (mark_as_requiring_prelocking (Some (query_tables_last q)) q) u = None"
      using assms(3) by (simp add: mark_as_requiring_prelocking_def)
  qed (rule assms(2))
  then have ok: "tables_ok q' (own @ more_tables)" and last: "query_tables_own_last q' = Some (slot_after own)"
    using own by (simp_all add: mark_as_requiring_prelocking_def)
  have "get_slot (slot_after own) q' = (case more_tables of [] \<Rightarrow> None | t # _ \<Rightarrow> Some t)"
    by (rule table_chain_first) (use ok in \<open>simp add: tables_ok_def\<close>)
  moreover have "\<not> requires_prelocking (chop_off_not_own_tables q')"
    by (simp add: requires_prelocking_def chop_off_not_own_tables_def split: option.split)
  ultimately show ?thesis
    using ok last last_table_ok [OF ok] chop_off_ok [OF ok last] by (simp add: requires_prelocking_def first_not_own_table_def)
qed

definition no_tables :: tables_state where
  "no_tables = \<lparr>query_tables = None, next_global = (\<lambda>_. None), prev_global = (\<lambda>_. Tables_head), query_tables_last = Tables_head,
     query_tables_own_last = None\<rparr>"

theorem prelocking_tables_chopped_off_witness:
  "\<exists>q'. q' = fold add_to_query_tables [7, 8] (mark_as_requiring_prelocking (Some (Next_global 5)) (add_to_query_tables 5 no_tables)) \<and>
     first_not_own_table q' = Some 7 \<and> last_table q' = Some 8 \<and> tables_ok (chop_off_not_own_tables q') [5]"
  using prelocking_tables_chopped_off [of "add_to_query_tables 5 no_tables" "[5]" "[7, 8]", OF _ _ _ refl]
  by (simp add: tables_ok_def add_to_query_tables_def no_tables_def mark_as_requiring_prelocking_def)

end
