(* ===== verification/BoundedQueue.thy ===== *)
theory BoundedQueue
  imports Prelude "HOL-Library.Multiset"
begin

text \<open>
  \<open>Bounded_queue\<close> of \<open>bounded_queue.h\<close>, with which \<open>ORDER BY\<close> with \<open>LIMIT\<close> keeps the best rows only. Key buffers are
  numbered; \<open>sort_keys\<close> maps a number to the key in the buffer. The queue below it is declared in \<open>queues.h\<close>
  and defined outside the sources: \<open>queue_insert\<close> and \<open>_downheap\<close>, which \<open>queue_replace_top\<close> stands for, are parameters, with
  the hypothesis \<open>queue_ok\<close> that they keep the elements and the order of a heap. \<open>rank\<close> gives the order of
  the keys, the worst key being at the top.
\<close>

section \<open>The queue\<close>

record 'k queue_funs =
  queue_insert :: "(nat \<Rightarrow> 'k) \<Rightarrow> nat \<Rightarrow> nat list \<Rightarrow> nat list"
  downheap :: "(nat \<Rightarrow> 'k) \<Rightarrow> nat list \<Rightarrow> nat list"

record 'k bounded_queue =
  root :: "nat list"
  elements :: u32
  max_elements :: u32
  sort_keys :: "nat \<Rightarrow> 'k"

definition Bounded_queue :: "(nat \<Rightarrow> 'k) \<Rightarrow> 'k bounded_queue" where
  "Bounded_queue keys = \<lparr>root = [], elements = 0, max_elements = 0, sort_keys = keys\<rparr>"

text \<open>\<open>init_fails\<close> is the result of \<open>init_queue\<close>; the first component is the result, true for an error.\<close>

definition bq_init :: "bool \<Rightarrow> u64 \<Rightarrow> (nat \<Rightarrow> 'k) \<Rightarrow> 'k bounded_queue \<Rightarrow> bool \<times> 'k bounded_queue" where
  "bq_init init_fails n keys q =
     (let q = q\<lparr>sort_keys := keys\<rparr>
      in if n \<ge> 0xFFFFFFFE then (True, q)
         else if init_fails then (True, q)
         else (False, q\<lparr>root := [], elements := 0, max_elements := ucast n + 1\<rparr>))"

definition is_initialized :: "'k bounded_queue \<Rightarrow> bool" where
  "is_initialized q \<longleftrightarrow> max_elements q > 0"

definition queue_is_full :: "'k bounded_queue \<Rightarrow> bool" where
  "queue_is_full q \<longleftrightarrow> elements q = max_elements q"

definition bq_push :: "'k queue_funs \<Rightarrow> ('e \<Rightarrow> 'k) \<Rightarrow> 'e \<Rightarrow> 'k bounded_queue \<Rightarrow> 'k bounded_queue option" where
  "bq_push F keymaker element q =
     (if \<not> is_initialized q then None
      else if queue_is_full q
      then (case root q of
              [] \<Rightarrow> None
            | pq_top # _ \<Rightarrow>
                let q = q\<lparr>sort_keys := (sort_keys q)(pq_top := keymaker element)\<rparr>
                in Some (q\<lparr>root := downheap F (sort_keys q) (root q)\<rparr>))
      else let i = unat (elements q);
               q = q\<lparr>sort_keys := (sort_keys q)(i := keymaker element)\<rparr>
           in Some (q\<lparr>root := queue_insert F (sort_keys q) i (root q), elements := elements q + 1\<rparr>))"

section \<open>The contract of the heap\<close>

definition heap_below :: "nat \<Rightarrow> ('k \<Rightarrow> 'r::linorder) \<Rightarrow> (nat \<Rightarrow> 'k) \<Rightarrow> nat list \<Rightarrow> bool" where
  "heap_below k rank keys xs \<longleftrightarrow> (\<forall>i < length xs. k \<le> (i - 1) div 2 \<and> 0 < i \<longrightarrow> rank (keys (xs ! i)) \<le> rank (keys (xs ! ((i - 1) div 2))))"

text \<open>Inserting keeps a heap; sifting down the top repairs a heap that is broken there only.\<close>

definition queue_ok :: "('k \<Rightarrow> 'r::linorder) \<Rightarrow> 'k queue_funs \<Rightarrow> bool" where
  "queue_ok rank F \<longleftrightarrow>
     (\<forall>keys xs x. heap_below 0 rank keys xs \<longrightarrow>
        heap_below 0 rank keys (queue_insert F keys x xs) \<and> mset (queue_insert F keys x xs) = add_mset x (mset xs)) \<and>
     (\<forall>keys xs. heap_below 1 rank keys xs \<longrightarrow> heap_below 0 rank keys (downheap F keys xs) \<and> mset (downheap F keys xs) = mset xs)"

lemma heap_top: "heap_below 0 rank keys xs \<Longrightarrow> i < length xs \<Longrightarrow> rank (keys (xs ! i)) \<le> rank (keys (xs ! 0))"
proof (induction i rule: less_induct)
  case (less i)
  show ?case
  proof (cases "i = 0")
    case False
    then have p: "(i - 1) div 2 < i" by auto
    then have "rank (keys (xs ! ((i - 1) div 2))) \<le> rank (keys (xs ! 0))" using less by simp
    moreover have "rank (keys (xs ! i)) \<le> rank (keys (xs ! ((i - 1) div 2)))" using less.prems False by (simp add: heap_below_def)
    ultimately show ?thesis by simp
  qed simp
qed

lemma heap_change_top:
  assumes "heap_below 0 rank keys xs" and "distinct xs"
  shows "heap_below 1 rank (keys(hd xs := v)) xs"
  unfolding heap_below_def
proof (intro allI impI)
  fix i assume i: "i < length xs" and k: "1 \<le> (i - 1) div 2 \<and> 0 < i"
  have hd: "hd xs = xs ! 0" using i by (cases xs) auto
  have "(i - 1) div 2 < length xs" using i by linarith
  moreover have "0 < length xs" using i by linarith
  ultimately have "xs ! i \<noteq> hd xs" "xs ! ((i - 1) div 2) \<noteq> hd xs"
    using nth_eq_iff_index_eq [OF assms(2), of _ 0] i k unfolding hd by auto
  then show "rank ((keys(hd xs := v)) (xs ! i)) \<le> rank ((keys(hd xs := v)) (xs ! ((i - 1) div 2)))"
    using assms(1) i k by (simp add: heap_below_def)
qed

lemma heap_cong:
  assumes "heap_below 0 rank keys xs" and "\<And>y. y \<in> set xs \<Longrightarrow> keys' y = keys y"
  shows "heap_below 0 rank keys' xs"
  unfolding heap_below_def
proof (intro allI impI)
  fix i assume i: "i < length xs" and k: "0 \<le> (i - 1) div 2 \<and> 0 < i"
  have "(i - 1) div 2 < length xs" using i by linarith
  then have "keys' (xs ! i) = keys (xs ! i)" "keys' (xs ! ((i - 1) div 2)) = keys (xs ! ((i - 1) div 2))" using assms(2) i by simp_all
  then show "rank (keys' (xs ! i)) \<le> rank (keys' (xs ! ((i - 1) div 2)))" using assms(1) i k by (simp add: heap_below_def)
qed

section \<open>The best elements\<close>

lemma take_insort: "sorted ys \<Longrightarrow> take n (insort x ys) = take n (insort x (take n ys))"
proof (induction n arbitrary: ys)
  case (Suc n)
  show ?case
  proof (cases ys)
    case (Cons y zs)
    show ?thesis
    proof (cases "x \<le> y")
      case True
      have "take n (y # zs) = take n (y # take n zs)" by (cases n) (simp_all add: take_Cons')
      then show ?thesis using Cons True by simp
    next
      case False
      have "take n (insort x zs) = take n (insort x (take n zs))" by (rule Suc.IH) (use Suc.prems Cons in simp)
      then show ?thesis using Cons False by simp
    qed
  qed simp
qed simp

lemma best_insert: "take n (sort (x # xs)) = take n (insort x (take n (sort xs)))"
  using take_insort [OF sorted_sort, of n x xs] by simp

lemma sort_perm: "mset xs = mset ys \<Longrightarrow> sort xs = sort ys"
  by (metis properties_for_sort sorted_sort mset_sort)

lemma sort_with_max: "\<forall>y\<in>set ys. y \<le> x \<Longrightarrow> sort (x # ys) = sort ys @ [x]"
  by (rule properties_for_sort) (simp_all add: sorted_append)

text \<open>The keys in the buffers after pushing \<open>pushed\<close> into a queue for \<open>n\<close> elements.\<close>

definition bq_ok :: "('k \<Rightarrow> 'r::linorder) \<Rightarrow> nat \<Rightarrow> 'k list \<Rightarrow> 'k bounded_queue \<Rightarrow> bool" where
  "bq_ok rank n pushed q \<longleftrightarrow>
     max_elements q = of_nat (n + 1) \<and> elements q = of_nat (length (root q)) \<and> length (root q) = min (length pushed) (n + 1) \<and>
     mset (root q) = mset [0..<length (root q)] \<and> heap_below 0 rank (sort_keys q) (root q) \<and>
     take n (sort (map (rank \<circ> sort_keys q) (root q))) = take n (sort (map rank pushed))"

lemma unat_count: "m < 2 ^ 32 \<Longrightarrow> unat (of_nat m :: u32) = m"
  by (simp add: unat_of_nat take_bit_nat_eq_self)

lemma bq_push_ok:
  assumes "queue_ok rank F" and "bq_ok rank n pushed q" and "n + 1 < 2 ^ 32"
  shows "\<exists>q'. bq_push F keymaker x q = Some q' \<and> bq_ok rank n (pushed @ [keymaker x]) q'"
proof -
  let ?k = "keymaker x" let ?xs = "root q"
  have ok: "max_elements q = of_nat (n + 1)" "elements q = of_nat (length ?xs)" "length ?xs = min (length pushed) (n + 1)"
    "mset ?xs = mset [0..<length ?xs]" "heap_below 0 rank (sort_keys q) ?xs"
    "take n (sort (map (rank \<circ> sort_keys q) ?xs)) = take n (sort (map rank pushed))"
    using assms(2) by (auto simp: bq_ok_def)
  have dist: "distinct ?xs" and set: "set ?xs = {0..<length ?xs}"
    using ok(4) mset_eq_imp_distinct_iff [of ?xs "[0..<length ?xs]"] mset_eq_setD [OF ok(4)] by auto
  have len: "length ?xs < 2 ^ 32" using ok(3) assms(3) by linarith
  have init: "is_initialized q" using unat_count [OF assms(3)] unfolding is_initialized_def ok(1) word_less_nat_alt by simp
  have full: "queue_is_full q \<longleftrightarrow> length ?xs = n + 1"
    unfolding queue_is_full_def ok(1,2) word_unat_eq_iff unat_count [OF len] unat_count [OF assms(3)] ..
  have goal: "take n (sort (map rank (pushed @ [?k]))) = take n (insort (rank ?k) (take n (sort (map rank pushed))))"
    using sort_perm [of "map rank (pushed @ [?k])" "rank ?k # map rank pushed"] best_insert [of n "rank ?k" "map rank pushed"] by simp
  show ?thesis
  proof (cases "queue_is_full q")
    case True
    then obtain t ys where xs: "?xs = t # ys" "length ys = n" using full by (cases ?xs) auto
    define keys where "keys = (sort_keys q)(t := ?k)"
    define q' where "q' = q\<lparr>root := downheap F keys ?xs, sort_keys := keys\<rparr>"
    have "heap_below 1 rank keys ?xs" using heap_change_top [OF ok(5) dist, of ?k] xs(1) by (simp add: keys_def)
    then have h: "heap_below 0 rank keys (root q')" "mset (root q') = mset ?xs" using assms(1) by (simp_all add: queue_ok_def q'_def)
    have l: "length (root q') = length ?xs" using h(2) by (metis size_mset)
    have "t \<notin> set ys" using dist xs(1) by simp
    then have same: "map (rank \<circ> keys) ?xs = rank ?k # map (rank \<circ> sort_keys q) ys" unfolding xs(1) by (simp add: keys_def)
    have "\<forall>y\<in>set (map (rank \<circ> sort_keys q) ys). y \<le> rank (sort_keys q t)"
      using heap_top [OF ok(5)] xs(1) by (fastforce simp: in_set_conv_nth)
    then have "sort (map (rank \<circ> sort_keys q) ?xs) = sort (map (rank \<circ> sort_keys q) ys) @ [rank (sort_keys q t)]"
      using sort_with_max [of "map (rank \<circ> sort_keys q) ys"] xs(1) by simp
    then have best: "take n (sort (map (rank \<circ> sort_keys q) ys)) = take n (sort (map rank pushed))" using ok(6) xs(2) by simp
    have "mset (map (rank \<circ> keys) (root q')) = mset (rank ?k # map (rank \<circ> sort_keys q) ys)" using h(2) same by (metis mset_map)
    then have "take n (sort (map (rank \<circ> keys) (root q'))) = take n (sort (map rank (pushed @ [?k])))"
      using sort_perm best_insert [of n "rank ?k" "map (rank \<circ> sort_keys q) ys"] best goal by metis
    moreover have "bq_push F keymaker x q = Some q'" using init True xs(1) by (simp add: bq_push_def Let_def keys_def q'_def)
    moreover have "sort_keys q' = keys" "max_elements q' = max_elements q" "elements q' = elements q" by (simp_all add: q'_def)
    moreover have "length ?xs = min (length (pushed @ [?k])) (n + 1)" using ok(3) xs by simp
    ultimately show ?thesis using h l ok(1,2,4) unfolding bq_ok_def by (intro exI [of _ q']) simp
  next
    case False
    let ?i = "length ?xs"
    define keys where "keys = (sort_keys q)(?i := ?k)"
    define q' where "q' = q\<lparr>root := queue_insert F keys ?i ?xs, elements := elements q + 1, sort_keys := keys\<rparr>"
    have other: "keys y = sort_keys q y" if "y \<in> set ?xs" for y using that set by (simp add: keys_def)
    have "heap_below 0 rank keys ?xs" by (rule heap_cong [OF ok(5)]) (rule other)
    then have h: "heap_below 0 rank keys (root q')" "mset (root q') = add_mset ?i (mset ?xs)" using assms(1) by (simp_all add: queue_ok_def q'_def)
    have l: "length (root q') = Suc ?i" using h(2) by (metis size_mset size_add_mset)
    have "mset (map (rank \<circ> keys) (root q')) = mset (rank ?k # map (rank \<circ> sort_keys q) ?xs)"
      unfolding mset_map h(2) using other by (auto simp: keys_def intro!: image_mset_cong)
    then have "take n (sort (map (rank \<circ> keys) (root q'))) = take n (sort (map rank (pushed @ [?k])))"
      using sort_perm best_insert [of n "rank ?k" "map (rank \<circ> sort_keys q) ?xs"] ok(6) goal by metis
    moreover have "bq_push F keymaker x q = Some q'" using init False ok(2) unat_count [OF len] by (simp add: bq_push_def Let_def keys_def q'_def)
    moreover have "sort_keys q' = keys" "max_elements q' = max_elements q" "elements q' = of_nat (Suc ?i)" using ok(2) by (simp_all add: q'_def add.commute)
    moreover have "Suc ?i = min (length (pushed @ [?k])) (n + 1)" using ok(3) False full by auto
    moreover have "mset (root q') = mset [0..<Suc ?i]" using h(2) ok(4) by simp
    ultimately show ?thesis using h l ok(1) unfolding bq_ok_def by (intro exI [of _ q']) simp
  qed
qed

fun bq_pushes :: "'k queue_funs \<Rightarrow> ('e \<Rightarrow> 'k) \<Rightarrow> 'e list \<Rightarrow> 'k bounded_queue \<Rightarrow> 'k bounded_queue option" where
  "bq_pushes F keymaker [] q = Some q"
| "bq_pushes F keymaker (x # xs) q = (case bq_push F keymaker x q of None \<Rightarrow> None | Some q \<Rightarrow> bq_pushes F keymaker xs q)"

lemma bq_pushes_ok:
  assumes "queue_ok rank F" and "n + 1 < 2 ^ 32" and "bq_ok rank n pushed q"
  shows "\<exists>q'. bq_pushes F keymaker xs q = Some q' \<and> bq_ok rank n (pushed @ map keymaker xs) q'"
  using assms(3)
proof (induction xs arbitrary: pushed q)
  case (Cons x xs)
  from bq_push_ok [OF assms(1) Cons.prems assms(2), of keymaker x] obtain q1 where q1: "bq_push F keymaker x q = Some q1" "bq_ok rank n (pushed @ [keymaker x]) q1" by blast
  from Cons.IH [OF q1(2)] q1(1) show ?case by simp
qed simp

lemma queue_best:
  assumes "queue_ok rank F" and "n < 2 ^ 32 - 2" and "bq_init False (of_nat n) keys q0 = (e, q)"
  shows "\<exists>q'. \<not> e \<and> bq_pushes F keymaker xs q = Some q' \<and> elements q' = of_nat (min (length xs) (n + 1)) \<and>
    mset (root q') = mset [0..<min (length xs) (n + 1)] \<and>
    take n (sort (map (rank \<circ> sort_keys q') [0..<min (length xs) (n + 1)])) = take n (sort (map (rank \<circ> keymaker) xs))"
proof -
  have n: "unat (of_nat n :: u64) = n" using assms(2) by (simp add: unat_of_nat take_bit_nat_eq_self)
  then have "\<not> (of_nat n :: u64) \<ge> 0xFFFFFFFE" using assms(2) by (simp add: word_le_nat_alt)
  moreover have "(ucast (of_nat n :: u64) :: u32) = of_nat n" 
    using assms(2) by (simp add: word_unat_eq_iff unsigned_ucast_eq n unat_of_nat take_bit_nat_eq_self)
  ultimately have q: "\<not> e" "q = q0\<lparr>root := [], elements := 0, max_elements := of_nat n + 1, sort_keys := keys\<rparr>"
    using assms(3) by (auto simp: bq_init_def Let_def)
  then have "bq_ok rank n [] q" by (simp add: bq_ok_def heap_below_def)
  from bq_pushes_ok [OF assms(1) _ this, of keymaker xs] assms(2) obtain q' where q': "bq_pushes F keymaker xs q = Some q'" "bq_ok rank n (map keymaker xs) q'" by auto
  then have len: "length (root q') = min (length xs) (n + 1)" and perm: "mset (root q') = mset [0..<min (length xs) (n + 1)]"
    by (auto simp: bq_ok_def)
  have "mset (map (rank \<circ> sort_keys q') (root q')) = mset (map (rank \<circ> sort_keys q') [0..<min (length xs) (n + 1)])" using perm by (metis mset_map)
  from sort_perm [OF this] q'(2) have "take n (sort (map (rank \<circ> sort_keys q') [0..<min (length xs) (n + 1)])) = take n (sort (map (rank \<circ> keymaker) xs))"
    by (simp add: bq_ok_def)
  moreover have "elements q' = of_nat (min (length xs) (n + 1))" using q'(2) len by (simp add: bq_ok_def)
  ultimately show ?thesis using q(1) q'(1) perm by blast
qed

text \<open>
  Property C33: a bounded queue keeps the best rows. Whatever is pushed into a queue for \<open>n\<close> rows, no push
  fails, the key buffers in use are the first \<open>n + 1\<close> at most, each referred to once, and the \<open>n\<close> best keys
  found in them are the \<open>n\<close> best of all keys that were pushed, although a full queue replaces its worst
  key without comparing it with the new one. Sizes that do not fit the queue are refused.
\<close>

theorem bounded_queue_keeps_best:
  assumes "queue_ok rank F" and "n < 2 ^ 32 - 2" and "bq_init False (of_nat n) keys q0 = (e, q)"
  shows "\<exists>q'. \<not> e \<and> bq_pushes F keymaker xs q = Some q' \<and> elements q' = of_nat (min (length xs) (n + 1)) \<and>
    mset (root q') = mset [0..<min (length xs) (n + 1)] \<and>
    take n (sort (map (rank \<circ> sort_keys q') [0..<min (length xs) (n + 1)])) = take n (sort (map (rank \<circ> keymaker) xs)) \<and>
    (m \<ge> 0xFFFFFFFE \<longrightarrow> fst (bq_init fails m keys q0))"
  using queue_best [OF assms, of keymaker xs] by (auto simp: bq_init_def Let_def)

text \<open>A queue that sorts its elements satisfies the contract.\<close>

definition sorting_queue :: "nat queue_funs" where
  "sorting_queue = \<lparr>queue_insert = (\<lambda>keys x xs. rev (sort_key keys (x # xs))), downheap = (\<lambda>keys xs. rev (sort_key keys xs))\<rparr>"

lemma sorting_queue_ok: "queue_ok (\<lambda>k. k) sorting_queue"
proof -
  have h: "heap_below 0 (\<lambda>k. k) keys (rev (sort_key keys xs))" for keys :: "nat \<Rightarrow> nat" and xs
    unfolding heap_below_def
  proof (intro allI impI)
    let ?ys = "sort_key keys xs"
    fix i assume "i < length (rev ?ys)" and "0 \<le> (i - 1) div 2 \<and> 0 < i"
    then have i: "i < length ?ys" "(i - 1) div 2 < length ?ys" "length ?ys - Suc i \<le> length ?ys - Suc ((i - 1) div 2)" by auto
    have "sorted (map keys ?ys)" by simp
    then have "map keys ?ys ! (length ?ys - Suc i) \<le> map keys ?ys ! (length ?ys - Suc ((i - 1) div 2))" by (rule sorted_nth_mono) (use i in auto)
    then show "keys (rev ?ys ! i) \<le> keys (rev ?ys ! ((i - 1) div 2))" using i by (simp add: rev_nth)
  qed
  show ?thesis unfolding queue_ok_def sorting_queue_def by (simp add: h del: sort_key_simps)
qed

theorem bounded_queue_keeps_best_witness:
  "\<exists>q'. bq_pushes sorting_queue (\<lambda>x. x * 10) [7, 3, 9, 1, 5] (snd (bq_init False 2 (\<lambda>i. 0) (Bounded_queue (\<lambda>i. 0)))) = Some q' \<and> elements q' = 3 \<and>
     take 2 (sort (map (sort_keys q') [0..<3])) = [10, 30 :: nat]"
proof -
  let ?xs = "[7, 3, 9, 1, 5] :: nat list"
  obtain e q where q: "bq_init False (of_nat 2) (\<lambda>i. 0) (Bounded_queue (\<lambda>i. 0 :: nat)) = (e, q)" by fastforce
  have "(2 :: nat) < 2 ^ 32 - 2" by simp
  from bounded_queue_keeps_best [OF sorting_queue_ok this q, of "\<lambda>x. x * 10" ?xs 0 False]
  obtain q' where r: "bq_pushes sorting_queue (\<lambda>x. x * 10) ?xs q = Some q'" "elements q' = of_nat (min (length ?xs) (2 + 1))"
    "take 2 (sort (map ((\<lambda>k. k) \<circ> sort_keys q') [0..<min (length ?xs) (2 + 1)])) = take 2 (sort (map ((\<lambda>k. k) \<circ> (\<lambda>x. x * 10)) ?xs))" by blast
  have "snd (bq_init False 2 (\<lambda>i. 0) (Bounded_queue (\<lambda>i. 0 :: nat))) = q" using q by simp
  moreover have three: "min (length ?xs) (2 + 1) = 3" by simp
  have "take 2 (sort (map (sort_keys q') [0..<3])) = [10, 30]" using r(3) unfolding three comp_def by simp
  moreover have "elements q' = 3" using r(2) by simp
  ultimately show ?thesis using r(1) by blast
qed

end
