(* ===== verification/TranxAllocator.thy ===== *)
theory TranxAllocator
  imports Prelude "HOL-Library.Multiset"
begin

text \<open>
  \<open>Tranx_node_allocator\<close> of \<open>semisync_master.h\<close>: nodes for the active transactions of semi-synchronous
  replication, taken from a linked list of blocks of sixteen nodes and released in the order in
  which they were taken. Blocks and nodes are addresses, so that the search for the block of a node
  compares addresses as the code does. \<open>my_malloc\<close> is outside the sources: its result is an argument
  of the operations that call it. The fields \<open>malloced\<close> and \<open>freed\<close> log its results and the calls of
  \<open>my_free\<close>.
\<close>

section \<open>The allocator\<close>

record tranx_node =
  log_name0 :: u8
  log_pos :: u64
  tn_next :: "nat option"
  hash_next :: "nat option"

definition BLOCK_TRANX_NODES :: nat where "BLOCK_TRANX_NODES = 16"

text \<open>The layout of \<open>Tranx_node\<close> and \<open>Block\<close> with 64-bit pointers: a name of \<open>FN_REFLEN\<close> bytes and three words; a link and the nodes.\<close>

definition sizeof_Tranx_node :: nat where "sizeof_Tranx_node = 512 + 3 * 8"

definition node_at :: "nat \<Rightarrow> nat \<Rightarrow> nat" where
  "node_at b i = b + 8 + i * sizeof_Tranx_node"

definition sizeof_Block :: nat where "sizeof_Block = 8 + BLOCK_TRANX_NODES * sizeof_Tranx_node"

record tranx_node_allocator =
  reserved_blocks :: u32
  first_block :: "nat option"
  last_block :: "nat option"
  current_block :: "nat option"
  last_node :: int
  block_num :: u32
  b_next :: "nat \<Rightarrow> nat option"
  tnodes :: "nat \<Rightarrow> tranx_node"
  malloced :: "nat list"
  freed :: "nat list"

type_synonym ta = tranx_node_allocator

definition Tranx_node_allocator :: "u32 \<Rightarrow> (nat \<Rightarrow> nat option) \<Rightarrow> (nat \<Rightarrow> tranx_node) \<Rightarrow> ta" where
  "Tranx_node_allocator reserved_nodes nx nd =
     \<lparr>reserved_blocks = reserved_nodes div 16 + (if reserved_nodes mod 16 > 1 then 2 else 1), first_block = None, last_block = None,
      current_block = None, last_node = -1, block_num = 0, b_next = nx, tnodes = nd, malloced = [], freed = []\<rparr>"

definition set_next :: "nat \<Rightarrow> nat option \<Rightarrow> ta \<Rightarrow> ta" where
  "set_next b v a = a\<lparr>b_next := (b_next a)(b := v)\<rparr>"

text \<open>The first component is the result: true reports an error.\<close>

definition allocate_block :: "nat option \<Rightarrow> ta \<Rightarrow> (bool \<times> ta) option" where
  "allocate_block m a =
     (case m of
        None \<Rightarrow> Some (True, a)
      | Some block \<Rightarrow>
          let a = set_next block None (a\<lparr>malloced := malloced a @ [block]\<rparr>);
              finish = (\<lambda>a. Some (False, a\<lparr>last_block := Some block, current_block := Some block, block_num := block_num a + 1\<rparr>))
          in if first_block a = None then finish (a\<lparr>first_block := Some block\<rparr>)
             else case last_block a of None \<Rightarrow> None | Some l \<Rightarrow> finish (set_next l (Some block) a))"

definition free_block :: "nat \<Rightarrow> ta \<Rightarrow> ta" where
  "free_block b a = a\<lparr>freed := freed a @ [b], block_num := block_num a - 1\<rparr>"

definition blank_node :: tranx_node where
  "blank_node = \<lparr>log_name0 = 0, log_pos = 0, tn_next = None, hash_next = None\<rparr>"

definition take_node :: "ta \<Rightarrow> (nat option \<times> ta) option" where
  "take_node a =
     (case current_block a of
        None \<Rightarrow> None
      | Some c \<Rightarrow>
          let n = last_node a + 1; x = node_at c (nat n)
          in Some (Some x, a\<lparr>last_node := n, tnodes := (tnodes a)(x := blank_node)\<rparr>))"

definition allocate_node :: "nat option \<Rightarrow> ta \<Rightarrow> (nat option \<times> ta) option" where
  "allocate_node m a =
     (let block = current_block a
      in case (if last_node a = int BLOCK_TRANX_NODES - 1
               then (case current_block a of None \<Rightarrow> None | Some c \<Rightarrow> Some (a\<lparr>current_block := b_next a c, last_node := -1\<rparr>)) else Some a) of
           None \<Rightarrow> None
         | Some a \<Rightarrow>
             if current_block a = None
             then (case allocate_block m a of
                     None \<Rightarrow> None
                   | Some (True, a) \<Rightarrow> let a = a\<lparr>current_block := block\<rparr> in Some (None, if block \<noteq> None then a\<lparr>last_node := int BLOCK_TRANX_NODES - 1\<rparr> else a)
                   | Some (False, a) \<Rightarrow> take_node a)
             else take_node a)"

partial_function (option) free_blocks_loop :: "nat option \<Rightarrow> ta \<Rightarrow> (nat option \<times> ta) option" where
  "free_blocks_loop s a =
     (if block_num a > reserved_blocks a
      then (case s of None \<Rightarrow> Some (s, a) | Some b \<Rightarrow> free_blocks_loop (b_next a b) (free_block b a))
      else Some (s, a))"

definition free_blocks :: "ta \<Rightarrow> ta option" where
  "free_blocks a =
     (case current_block a of
        None \<Rightarrow> Some a
      | Some c \<Rightarrow>
          (case b_next a c of
             None \<Rightarrow> Some a
           | Some d \<Rightarrow>
               map_option (\<lambda>(s, a). let a = set_next d s a in if s = None then a\<lparr>last_block := Some d\<rparr> else a) (free_blocks_loop (b_next a d) a)))"

definition free_all_nodes :: "ta \<Rightarrow> ta option" where
  "free_all_nodes a = free_blocks (a\<lparr>current_block := first_block a, last_node := -1\<rparr>)"

definition contains_node :: "nat \<Rightarrow> nat \<Rightarrow> bool" where
  "contains_node b x \<longleftrightarrow> node_at b 0 \<le> x \<and> node_at b BLOCK_TRANX_NODES \<ge> x"

definition rotate_blocks :: "nat \<Rightarrow> nat option \<Rightarrow> ta \<Rightarrow> ta option" where
  "rotate_blocks b prev a =
     (if first_block a \<noteq> Some b
      then (case (last_block a, prev) of
              (Some l, Some p) \<Rightarrow>
                let a = set_next l (first_block a) a; a = a\<lparr>first_block := Some b, last_block := Some p\<rparr>; a = set_next p None a in free_blocks a
            | _ \<Rightarrow> None)
      else Some a)"

partial_function (option) free_before_loop :: "nat \<Rightarrow> nat option \<Rightarrow> nat option \<Rightarrow> ta \<Rightarrow> ta option" where
  "free_before_loop x block prev a =
     (case current_block a of
        None \<Rightarrow> None
      | Some c \<Rightarrow>
          if block = b_next a c then None
          else (case block of
                  None \<Rightarrow> None
                | Some b \<Rightarrow> if contains_node b x then rotate_blocks b prev a else free_before_loop x (b_next a b) block a))"

text \<open>The value is the state after the return value 0; the debug assertion at the end of the list is \<open>None\<close>.\<close>

definition free_nodes_before :: "nat \<Rightarrow> ta \<Rightarrow> ta option" where
  "free_nodes_before x a = free_before_loop x (first_block a) None a"

partial_function (option) ta_destroy_loop :: "nat option \<Rightarrow> ta \<Rightarrow> ta option" where
  "ta_destroy_loop s a = (case s of None \<Rightarrow> Some a | Some b \<Rightarrow> ta_destroy_loop (b_next a b) (free_block b a))"

definition ta_destroy :: "ta \<Rightarrow> ta option" where
  "ta_destroy a = ta_destroy_loop (first_block a) a"

section \<open>Segments of linked blocks\<close>

fun bseg :: "(nat \<Rightarrow> nat option) \<Rightarrow> nat option \<Rightarrow> nat list \<Rightarrow> nat option \<Rightarrow> bool" where
  "bseg nx s [] e \<longleftrightarrow> s = e"
| "bseg nx s (b # bs) e \<longleftrightarrow> s = Some b \<and> bseg nx (nx b) bs e"

lemma bseg_append: "bseg nx s (xs @ ys) e \<longleftrightarrow> (\<exists>m. bseg nx s xs m \<and> bseg nx m ys e)"
  by (induction xs arbitrary: s) auto

lemma bseg_outside: "b \<notin> set xs \<Longrightarrow> bseg (nx(b := v)) s xs e = bseg nx s xs e"
  by (induction xs arbitrary: s) auto

lemma bseg_relink: "bseg nx s xs e \<Longrightarrow> distinct xs \<Longrightarrow> xs \<noteq> [] \<Longrightarrow> bseg (nx(last xs := e')) s xs e'"
proof (induction xs arbitrary: s)
  case (Cons b xs)
  show ?case
  proof (cases "xs = []")
    case False
    then have "b \<noteq> last xs" using Cons.prems(2) by auto
    then show ?thesis using Cons False by auto
  qed (use Cons.prems in simp)
qed simp

lemma bseg_rotate:
  assumes "bseg nx s (xs @ ys) None" and "distinct (xs @ ys)" and "xs \<noteq> []" and "ys \<noteq> []"
  shows "bseg (nx(last ys := s, last xs := None)) (Some (hd ys)) (ys @ xs) None"
proof -
  obtain m where m: "bseg nx s xs m" "bseg nx m ys None" using assms(1) by (auto simp: bseg_append)
  have nin: "last ys \<notin> set xs" "last xs \<notin> set ys"
    using assms(2-4) last_in_set [of xs] last_in_set [of ys] by (auto simp: disjoint_iff)
  have head: "m = Some (hd ys)" using m(2) assms(4) by (cases ys) auto
  have "bseg (nx(last ys := s, last xs := None)) m ys s"
    using bseg_relink [OF m(2), of s] assms(2,4) bseg_outside [OF nin(2)] by simp
  moreover have "bseg (nx(last ys := s)) s xs m" using m(1) bseg_outside [OF nin(1)] by simp
  then have "bseg (nx(last ys := s, last xs := None)) s xs None" using bseg_relink assms(2,3) by simp
  ultimately show ?thesis using head by (auto simp: bseg_append)
qed

section \<open>The invariant\<close>

definition separate :: "nat list \<Rightarrow> bool" where
  "separate bs \<longleftrightarrow> (\<forall>b\<in>set bs. \<forall>b'\<in>set bs. b \<noteq> b' \<longrightarrow> b + sizeof_Block \<le> b' \<or> b' + sizeof_Block \<le> b)"

text \<open>The blocks \<open>us\<close> before the current one are in use; the current one heads \<open>cs\<close>, the others there are free.\<close>

definition ta_ok :: "ta \<Rightarrow> nat list \<Rightarrow> nat list \<Rightarrow> bool" where
  "ta_ok a us cs \<longleftrightarrow>
     bseg (b_next a) (first_block a) (us @ cs) None \<and> distinct (us @ cs) \<and> separate (us @ cs) \<and>
     block_num a = of_nat (length (us @ cs)) \<and> length (us @ cs) < 2 ^ 32 \<and> (cs = [] \<longrightarrow> us = [] \<and> last_node a = -1) \<and>
     (cs \<noteq> [] \<longrightarrow> last_block a = Some (last cs)) \<and> current_block a = (if cs = [] then None else Some (hd cs)) \<and>
     - 1 \<le> last_node a \<and> last_node a < int BLOCK_TRANX_NODES \<and> mset (us @ cs) + mset (freed a) = mset (malloced a)"

definition nodes_of :: "nat \<Rightarrow> nat list" where
  "nodes_of b = map (node_at b) [0..<BLOCK_TRANX_NODES]"

definition issued :: "ta \<Rightarrow> nat list \<Rightarrow> nat list \<Rightarrow> nat list" where
  "issued a us cs = concat (map nodes_of us) @ map (node_at (hd cs)) [0..<nat (last_node a + 1)]"

definition ta_rep :: "ta \<Rightarrow> nat list \<Rightarrow> bool" where
  "ta_rep a live \<longleftrightarrow> (\<exists>us cs k. ta_ok a us cs \<and> live = drop k (issued a us cs))"

lemma node_at_inj: "node_at b i = node_at b j \<longleftrightarrow> i = j"
  by (simp add: node_at_def sizeof_Tranx_node_def)

lemma node_in_block: "i < BLOCK_TRANX_NODES \<Longrightarrow> b + 8 \<le> node_at b i \<and> node_at b i < b + sizeof_Block"
  by (simp add: node_at_def sizeof_Block_def sizeof_Tranx_node_def BLOCK_TRANX_NODES_def)

lemma contains_node_iff:
  assumes "separate bs" and "b \<in> set bs" and "b' \<in> set bs" and "i < BLOCK_TRANX_NODES"
  shows "contains_node b' (node_at b i) \<longleftrightarrow> b' = b"
proof (cases "b' = b")
  case True
  have "i * sizeof_Tranx_node \<le> BLOCK_TRANX_NODES * sizeof_Tranx_node" using assms(4) by (intro mult_le_mono1) simp
  then show ?thesis using True by (simp add: contains_node_def node_at_def)
next
  case False
  then have "b + sizeof_Block \<le> b' \<or> b' + sizeof_Block \<le> b" using assms(1-3) by (auto simp: separate_def)
  moreover have "node_at b' BLOCK_TRANX_NODES = b' + sizeof_Block" "node_at b' 0 = b' + 8" by (simp_all add: node_at_def sizeof_Block_def)
  ultimately show ?thesis using False node_in_block [OF assms(4), of b] by (auto simp: contains_node_def)
qed

lemma nodes_of_mem: "x \<in> set (nodes_of b) \<longleftrightarrow> (\<exists>i < BLOCK_TRANX_NODES. x = node_at b i)"
  by (auto simp: nodes_of_def)

lemma length_nodes_of [simp]: "length (nodes_of b) = BLOCK_TRANX_NODES"
  by (simp add: nodes_of_def)

lemma separate_sub: "separate bs \<Longrightarrow> set cs \<subseteq> set bs \<Longrightarrow> separate cs"
  by (auto simp: separate_def)

lemma distinct_nodes: "separate bs \<Longrightarrow> distinct bs \<Longrightarrow> distinct (concat (map nodes_of bs))"
proof (induction bs)
  case (Cons b bs)
  have "distinct (nodes_of b)" by (auto simp: nodes_of_def distinct_map inj_on_def node_at_inj)
  moreover have "set (nodes_of b) \<inter> set (concat (map nodes_of bs)) = {}"
  proof (rule equals0I)
    fix x assume "x \<in> set (nodes_of b) \<inter> set (concat (map nodes_of bs))"
    then obtain b' i j where x: "b' \<in> set bs" "i < BLOCK_TRANX_NODES" "j < BLOCK_TRANX_NODES" "x = node_at b i" "x = node_at b' j"
      by (auto simp: nodes_of_mem)
    then have "contains_node b' (node_at b i)" using contains_node_iff [OF Cons.prems(1), of b' b' j] by simp
    then show False using contains_node_iff [OF Cons.prems(1), of b b' i] x Cons.prems(2) by auto
  qed
  moreover have "distinct (concat (map nodes_of bs))"
    by (rule Cons.IH) (use Cons.prems in \<open>auto intro: separate_sub\<close>)
  ultimately show ?case by simp
qed simp

lemma issued_distinct:
  assumes "ta_ok a us cs"
  shows "distinct (issued a us cs)"
proof (cases cs)
  case Nil
  then show ?thesis using assms by (simp add: ta_ok_def issued_def)
next
  case (Cons c fs)
  have "distinct (concat (map nodes_of (us @ [c])))"
    by (rule distinct_nodes) (use assms Cons in \<open>auto simp: ta_ok_def intro: separate_sub\<close>)
  then have all: "distinct (concat (map nodes_of us))" "distinct (nodes_of c)" "set (concat (map nodes_of us)) \<inter> set (nodes_of c) = {}" by auto
  have "nat (last_node a + 1) \<le> BLOCK_TRANX_NODES" using assms by (auto simp: ta_ok_def)
  then have part: "map (node_at c) [0..<nat (last_node a + 1)] = take (nat (last_node a + 1)) (nodes_of c)"
    by (simp add: nodes_of_def take_map take_upt)
  show ?thesis using all set_take_subset [of _ "nodes_of c"] unfolding issued_def Cons list.sel part by (auto simp: disjoint_iff dest: in_set_takeD)
qed

section \<open>Taking a node\<close>

definition held :: "ta \<Rightarrow> nat multiset" where
  "held a = mset (malloced a) - mset (freed a)"

text \<open>What \<open>my_malloc\<close> returns is null or does not overlap a block that is still held.\<close>

definition malloc_ok :: "nat option \<Rightarrow> ta \<Rightarrow> bool" where
  "malloc_ok m a \<longleftrightarrow> (\<forall>b. m = Some b \<longrightarrow> (\<forall>b'\<in>set_mset (held a). b + sizeof_Block \<le> b' \<or> b' + sizeof_Block \<le> b)) \<and> length (malloced a) < 2 ^ 32 - 1"

lemma held_blocks: "ta_ok a us cs \<Longrightarrow> held a = mset (us @ cs)"
  unfolding held_def ta_ok_def by (metis add_diff_cancel_right')

lemma few_blocks: "ta_ok a us cs \<Longrightarrow> length (us @ cs) \<le> length (malloced a)"
proof -
  assume "ta_ok a us cs"
  then have "size (mset (us @ cs)) + size (mset (freed a)) = size (mset (malloced a))" unfolding ta_ok_def by (metis size_union)
  then show ?thesis by simp
qed

lemma take_node_ok:
  assumes "ta_ok a us (c # fs)" and "last_node a < int BLOCK_TRANX_NODES - 1"
  shows "\<exists>x a'. take_node a = Some (Some x, a') \<and> ta_ok a' us (c # fs) \<and> issued a' us (c # fs) = issued a us (c # fs) @ [x] \<and>
    tnodes a' = (tnodes a)(x := blank_node) \<and> malloced a' = malloced a \<and> freed a' = freed a"
proof -
  have cur: "current_block a = Some c" "- 1 \<le> last_node a" using assms(1) by (auto simp: ta_ok_def)
  then have "nat (last_node a + 1 + 1) = Suc (nat (last_node a + 1))" by simp
  then show ?thesis using cur assms unfolding take_node_def ta_ok_def issued_def by (simp add: Let_def)
qed

lemma next_block_ok:
  assumes "ta_ok a us (c # d # fs)" and "last_node a = int BLOCK_TRANX_NODES - 1"
  shows "b_next a c = Some d" "ta_ok (a\<lparr>current_block := Some d, last_node := -1\<rparr>) (us @ [c]) (d # fs)"
    "issued (a\<lparr>current_block := Some d, last_node := -1\<rparr>) (us @ [c]) (d # fs) = issued a us (c # d # fs)"
proof -
  show "b_next a c = Some d" using assms(1) by (auto simp: ta_ok_def bseg_append)
  show "ta_ok (a\<lparr>current_block := Some d, last_node := -1\<rparr>) (us @ [c]) (d # fs)" using assms(1) unfolding ta_ok_def by simp
  show "issued (a\<lparr>current_block := Some d, last_node := -1\<rparr>) (us @ [c]) (d # fs) = issued a us (c # d # fs)"
    using assms(2) by (simp add: issued_def nodes_of_def)
qed

lemma allocate_block_ok:
  assumes "ta_ok a us cs" and "malloc_ok (Some b) a"
  shows "\<exists>a'. allocate_block (Some b) (a\<lparr>current_block := None, last_node := -1\<rparr>) = Some (False, a') \<and> ta_ok a' (us @ cs) [b] \<and>
    last_node a' = -1 \<and> tnodes a' = tnodes a \<and> malloced a' = malloced a @ [b] \<and> freed a' = freed a"
proof -
  have fresh: "\<forall>b'\<in>set (us @ cs). b + sizeof_Block \<le> b' \<or> b' + sizeof_Block \<le> b"
    using assms(2) held_blocks [OF assms(1)] by (simp add: malloc_ok_def)
  have pos: "0 < sizeof_Block" by (simp add: sizeof_Block_def)
  then have new: "b \<notin> set (us @ cs)" using fresh by fastforce
  have sep: "separate (us @ cs @ [b])" using fresh assms(1) by (auto simp: ta_ok_def separate_def)
  have len: "length (us @ cs) + 1 < 2 ^ 32" using few_blocks [OF assms(1)] assms(2) by (simp add: malloc_ok_def)
  have ok: "bseg (b_next a) (first_block a) (us @ cs) None" "distinct (us @ cs)" "block_num a = of_nat (length (us @ cs))"
    "mset (us @ cs) + mset (freed a) = mset (malloced a)" "cs = [] \<longrightarrow> us = []" "cs \<noteq> [] \<longrightarrow> last_block a = Some (last cs)"
    using assms(1) by (auto simp: ta_ok_def)
  show ?thesis
  proof (cases "cs = []")
    case True
    then have "us = []" "first_block a = None" using ok by auto
    then show ?thesis using True ok sep len unfolding allocate_block_def set_next_def ta_ok_def by (simp add: Let_def BLOCK_TRANX_NODES_def)
  next
    case False
    have lst: "last_block a = Some (last (us @ cs))" "first_block a \<noteq> None" using False ok by (auto simp: neq_Nil_conv) (cases us; auto)+
    have "bseg ((b_next a)(b := None, last (us @ cs) := Some b)) (first_block a) (us @ cs) (Some b)"
      by (rule bseg_relink) (use ok new False bseg_outside [OF new] in auto)
    then have "bseg ((b_next a)(b := None, last (us @ cs) := Some b)) (first_block a) ((us @ cs) @ [b]) None"
      unfolding bseg_append using new False last_in_set [of "us @ cs"] by (intro exI [of _ "Some b"]) auto
    then show ?thesis using lst ok sep len new False unfolding allocate_block_def set_next_def ta_ok_def
      by (auto simp: Let_def BLOCK_TRANX_NODES_def)
  qed
qed

definition node_taken :: "nat option \<Rightarrow> ta \<Rightarrow> nat list \<Rightarrow> nat list \<Rightarrow> bool" where
  "node_taken m a us cs \<longleftrightarrow>
     (\<exists>r a'. allocate_node m a = Some (r, a') \<and>
        (case r of
           None \<Rightarrow> m = None \<and> a' = a
         | Some x \<Rightarrow> (\<exists>us' cs'. ta_ok a' us' cs' \<and> issued a' us' cs' = issued a us cs @ [x]) \<and> tnodes a' = (tnodes a)(x := blank_node)))"

lemma allocate_from_new_block:
  assumes "ta_ok a us cs" and "malloc_ok m a" and "cs = [] \<or> (\<exists>c. cs = [c]) \<and> last_node a = int BLOCK_TRANX_NODES - 1"
  shows "node_taken m a us cs"
proof -
  let ?a = "a\<lparr>current_block := None, last_node := -1\<rparr>"
  have ok: "last_node a = -1 \<longleftrightarrow> cs = []" "current_block a = (if cs = [] then None else Some (hd cs))" "cs \<noteq> [] \<longrightarrow> b_next a (hd cs) = None"
    using assms(1,3) by (auto simp: ta_ok_def bseg_append BLOCK_TRANX_NODES_def)
  have step: "allocate_node m a =
      (case allocate_block m ?a of
         None \<Rightarrow> None
       | Some (True, a1) \<Rightarrow> Some (None, if cs = [] then a1\<lparr>current_block := None\<rparr> else a1\<lparr>current_block := Some (hd cs), last_node := int BLOCK_TRANX_NODES - 1\<rparr>)
       | Some (False, a1) \<Rightarrow> take_node a1)"
  proof (cases "cs = []")
    case True
    have same: "?a = a" using ok True by simp
    show ?thesis unfolding same using ok True by (simp add: allocate_node_def Let_def BLOCK_TRANX_NODES_def split: option.splits prod.splits bool.splits)
  next
    case False
    then show ?thesis using ok assms(3) by (auto simp: allocate_node_def Let_def BLOCK_TRANX_NODES_def split: option.splits prod.splits bool.splits)
  qed
  show ?thesis
  proof (cases m)
    case None
    then have "allocate_block m ?a = Some (True, ?a)" by (simp add: allocate_block_def)
    moreover have "(if cs = [] then ?a\<lparr>current_block := None\<rparr> else ?a\<lparr>current_block := Some (hd cs), last_node := int BLOCK_TRANX_NODES - 1\<rparr>) = a"
      using ok assms(3) by auto
    ultimately show ?thesis unfolding node_taken_def step using None by simp
  next
    case (Some b)
    obtain a1 where a1: "allocate_block m ?a = Some (False, a1)" "ta_ok a1 (us @ cs) [b]" "last_node a1 = -1" "tnodes a1 = tnodes a"
      using allocate_block_ok [OF assms(1), of b] assms(2) Some by blast
    have same: "issued a1 (us @ cs) [b] = issued a us cs"
      using assms(3) ok a1(3) by (auto simp: issued_def nodes_of_def)
    have "last_node a1 < int BLOCK_TRANX_NODES - 1" using a1(3) by (simp add: BLOCK_TRANX_NODES_def)
    from take_node_ok [OF a1(2) this] obtain x a' where "take_node a1 = Some (Some x, a')" "ta_ok a' (us @ cs) [b]"
      "issued a' (us @ cs) [b] = issued a us cs @ [x]" "tnodes a' = (tnodes a)(x := blank_node)" using a1(4) same by auto
    then show ?thesis unfolding node_taken_def step a1(1) by auto
  qed
qed

lemma allocate_node_ok:
  assumes "ta_ok a us cs" and "malloc_ok m a"
  shows "node_taken m a us cs"
proof (cases "cs = [] \<or> (\<exists>c. cs = [c]) \<and> last_node a = int BLOCK_TRANX_NODES - 1")
  case True
  then show ?thesis by (rule allocate_from_new_block [OF assms])
next
  case False
  then obtain c fs where cs: "cs = c # fs" by (cases cs) auto
  have cur: "current_block a = Some c" "last_node a < int BLOCK_TRANX_NODES" using assms(1) cs by (auto simp: ta_ok_def)
  show ?thesis
  proof (cases "last_node a = int BLOCK_TRANX_NODES - 1")
    case True
    then obtain d es where fs: "fs = d # es" using False cs by (cases fs) auto
    let ?a = "a\<lparr>current_block := Some d, last_node := -1\<rparr>"
    have ok: "ta_ok a us (c # d # es)" using assms(1) cs fs by simp
    have "allocate_node m a = take_node ?a" using True cur next_block_ok(1) [OF ok True] by (simp add: allocate_node_def Let_def)
    then show ?thesis using take_node_ok [OF next_block_ok(2) [OF ok True]] next_block_ok(3) [OF ok True] cs fs
      unfolding node_taken_def by (fastforce simp: BLOCK_TRANX_NODES_def)
  next
    case False
    then have "last_node a < int BLOCK_TRANX_NODES - 1" using cur(2) by simp
    moreover have "allocate_node m a = take_node a" using False cur by (simp add: allocate_node_def Let_def)
    ultimately show ?thesis using take_node_ok [of a us c fs] assms(1) cs unfolding node_taken_def by fastforce
  qed
qed

section \<open>Releasing nodes\<close>

lemma free_blocks_loop_ok:
  assumes "bseg (b_next a) s es None" and "block_num a = of_nat n" and "length es \<le> n" and "n < 2 ^ 32"
  shows "\<exists>s' ds es'. es = ds @ es' \<and> free_blocks_loop s a = Some (s', a\<lparr>freed := freed a @ ds, block_num := of_nat (n - length ds)\<rparr>) \<and>
    bseg (b_next a) s' es' None \<and> (es' = [] \<or> n - length ds \<le> unat (reserved_blocks a))"
  using assms
proof (induction es arbitrary: s a n)
  case Nil
  then have "free_blocks_loop s a = Some (s, a\<lparr>freed := freed a @ [], block_num := of_nat (n - length [])\<rparr>)"
    by (subst free_blocks_loop.simps) simp
  then show ?case using Nil.prems(1) by (intro exI [of _ s] exI [of _ "[]"]) simp
next
  case (Cons b es)
  have n: "unat (block_num a) = n" using Cons.prems(2,4) by (simp add: unat_of_nat take_bit_nat_eq_self)
  show ?case
  proof (cases "block_num a > reserved_blocks a")
    case False
    then have "free_blocks_loop s a = Some (s, a\<lparr>freed := freed a @ [], block_num := of_nat (n - length [])\<rparr>)"
      using Cons.prems(2) by (subst free_blocks_loop.simps) simp
    moreover have "n \<le> unat (reserved_blocks a)" using False n by (simp add: word_less_nat_alt)
    ultimately show ?thesis using Cons.prems(1) by (intro exI [of _ s] exI [of _ "[]"] exI [of _ "b # es"]) simp
  next
    case True
    obtain k where k: "n = Suc k" using Cons.prems(3) by (cases n) auto
    let ?a = "free_block b a"
    have "bseg (b_next ?a) (b_next a b) es None" "block_num ?a = of_nat k" "length es \<le> k" "k < 2 ^ 32"
      using Cons.prems k by (simp_all add: free_block_def)
    from Cons.IH [OF this] obtain s' ds es' where r: "es = ds @ es'"
      "free_blocks_loop (b_next a b) ?a = Some (s', ?a\<lparr>freed := freed ?a @ ds, block_num := of_nat (k - length ds)\<rparr>)"
      "bseg (b_next ?a) s' es' None" "es' = [] \<or> k - length ds \<le> unat (reserved_blocks ?a)" by blast
    have "free_blocks_loop s a = Some (s', a\<lparr>freed := freed a @ (b # ds), block_num := of_nat (n - length (b # ds))\<rparr>)"
      using True Cons.prems(1) r(2) k by (subst free_blocks_loop.simps) (simp add: free_block_def)
    then show ?thesis using r k by (intro exI [of _ s'] exI [of _ "b # ds"] exI [of _ es']) (simp add: free_block_def)
  qed
qed

lemma free_blocks_ok:
  assumes "ta_ok a us (c # fs)"
  shows "\<exists>a' fs'. free_blocks a = Some a' \<and> ta_ok a' us (c # fs') \<and> last_node a' = last_node a \<and> tnodes a' = tnodes a \<and> malloced a' = malloced a \<and>
    reserved_blocks a' = reserved_blocks a \<and> (length fs' \<le> 1 \<or> length (us @ c # fs') \<le> unat (reserved_blocks a))"
proof (cases fs)
  case Nil
  then have "free_blocks a = Some a" using assms by (auto simp: ta_ok_def bseg_append free_blocks_def)
  then show ?thesis using assms Nil by (intro exI [of _ a] exI [of _ fs]) simp
next
  case (Cons d es)
  define n where "n = length (us @ c # fs)"
  have ok: "distinct (us @ c # d # es)" "separate (us @ c # d # es)" "block_num a = of_nat n" "n < 2 ^ 32" "current_block a = Some c"
    "last_block a = Some (last (d # es))" "mset (us @ c # d # es) + mset (freed a) = mset (malloced a)"
    "- 1 \<le> last_node a" "last_node a < int BLOCK_TRANX_NODES"
    using assms Cons by (auto simp: ta_ok_def n_def)
  obtain m where seg: "bseg (b_next a) (first_block a) (us @ [c, d]) m" "bseg (b_next a) m es None"
    using assms Cons unfolding ta_ok_def by (auto simp: bseg_append)
  have links: "b_next a c = Some d" "b_next a d = m" using seg(1) by (auto simp: bseg_append)
  have "length es \<le> n" using Cons by (simp add: n_def)
  from free_blocks_loop_ok [OF seg(2) ok(3) this ok(4)] obtain s' ds es' where r: "es = ds @ es'"
    "free_blocks_loop m a = Some (s', a\<lparr>freed := freed a @ ds, block_num := of_nat (n - length ds)\<rparr>)" "bseg (b_next a) s' es' None"
    "es' = [] \<or> n - length ds \<le> unat (reserved_blocks a)" by blast
  define a' where "a' = (let b = set_next d s' (a\<lparr>freed := freed a @ ds, block_num := of_nat (n - length ds)\<rparr>) in if s' = None then b\<lparr>last_block := Some d\<rparr> else b)"
  have run: "free_blocks a = Some a'" using ok(5) links r(2) by (simp add: free_blocks_def a'_def)
  have s': "s' = None \<longleftrightarrow> es' = []" using r(3) by (cases es') auto
  have last: "last_block a' = Some (last (d # es'))" using ok(6) r(1) s' by (auto simp: a'_def set_next_def Let_def)
  have same: "first_block a' = first_block a" "current_block a' = Some c" "last_node a' = last_node a" "tnodes a' = tnodes a" "malloced a' = malloced a"
    "reserved_blocks a' = reserved_blocks a" "freed a' = freed a @ ds" "block_num a' = of_nat (n - length ds)" "b_next a' = (b_next a)(d := s')"
    using ok(5) by (simp_all add: a'_def set_next_def Let_def)
  have "distinct (us @ [c, d])" "d \<notin> set es'" using ok(1) r(1) by auto
  then have "bseg ((b_next a)(d := s')) (first_block a) (us @ [c, d]) s'" "bseg ((b_next a)(d := s')) s' es' None"
    using bseg_relink [OF seg(1), of s'] bseg_outside [of d es'] r(3) by simp_all
  then have chain: "bseg (b_next a') (first_block a') (us @ c # d # es') None"
    unfolding same using bseg_append [of "(b_next a)(d := s')" "first_block a" "us @ [c, d]" es' None] by auto
  have len: "n - length ds = length (us @ c # d # es')" using r(1) Cons by (simp add: n_def)
  have "distinct (us @ c # d # es')" "separate (us @ c # d # es')" using ok(1) separate_sub [OF ok(2), of "us @ c # d # es'"] r(1) by auto
  moreover have "length (us @ c # d # es') < 2 ^ 32" using len ok(4) by linarith
  moreover have "mset (us @ c # d # es') + mset (freed a') = mset (malloced a')" unfolding same using ok(7) r(1) by (simp add: ac_simps)
  ultimately have "ta_ok a' us (c # d # es')"
    unfolding ta_ok_def using chain ok(8,9) last len same(2,3,8) by simp
  then show ?thesis using run same r(4) len by (intro exI [of _ a'] exI [of _ "d # es'"]) auto
qed

lemma find_block:
  assumes "bseg (b_next a) s (vs @ b # zs) None" and "current_block a = Some c" and "\<And>v. v \<in> set vs \<or> v = b \<Longrightarrow> b_next a c \<noteq> Some v"
    and "\<And>v. v \<in> set vs \<Longrightarrow> \<not> contains_node v x" and "contains_node b x"
  shows "free_before_loop x s p a = rotate_blocks b (if vs = [] then p else Some (last vs)) a"
  using assms
proof (induction vs arbitrary: s p)
  case Nil
  then have "s = Some b" "Some b \<noteq> b_next a c" by (auto dest: sym)
  then show ?case using Nil by (subst free_before_loop.simps) simp
next
  case (Cons v vs)
  have s: "s = Some v" "Some v \<noteq> b_next a c" using Cons.prems(1,3) by (auto dest: sym)
  have "free_before_loop x (b_next a v) s a = rotate_blocks b (if vs = [] then s else Some (last vs)) a"
    by (rule Cons.IH) (use Cons.prems in auto)
  then show ?case using s Cons.prems(2,4) by (subst free_before_loop.simps) simp
qed

lemma rotate_ok:
  assumes "ta_ok a (vs @ us) cs" and "us @ cs = b # zs" and "cs \<noteq> []"
  shows "\<exists>a' cs'. rotate_blocks b (if vs = [] then None else Some (last vs)) a = Some a' \<and> ta_ok a' us cs' \<and> hd cs' = hd cs \<and> last_node a' = last_node a \<and>
    tnodes a' = tnodes a"
proof (cases "vs = []")
  case True
  then have "first_block a = Some b" using assms by (simp add: ta_ok_def)
  then show ?thesis using True assms(1) by (intro exI [of _ a] exI [of _ cs]) (simp add: rotate_blocks_def)
next
  case False
  have ok: "bseg (b_next a) (first_block a) (vs @ us @ cs) None" "distinct (vs @ us @ cs)" "last_block a = Some (last (us @ cs))"
    using assms(1,3) by (auto simp: ta_ok_def)
  define a1 where "a1 = a\<lparr>first_block := Some b, last_block := Some (last vs), b_next := (b_next a)(last (us @ cs) := first_block a, last vs := None)\<rparr>"
  have "first_block a = Some (hd vs)" using ok(1) False by (cases vs) auto
  moreover have "hd vs \<noteq> b" using ok(2) assms(2) False by (cases vs) auto
  ultimately have run: "rotate_blocks b (Some (last vs)) a = free_blocks a1"
    using ok(3) by (simp add: rotate_blocks_def a1_def set_next_def Let_def)
  have "bseg (b_next a1) (first_block a1) ((us @ cs) @ vs) None"
    using bseg_rotate [OF ok(1,2) False] assms(2) by (simp add: a1_def)
  moreover have "separate ((us @ cs) @ vs)" using assms(1) by (auto simp: ta_ok_def elim: separate_sub)
  ultimately have ok1: "ta_ok a1 us (cs @ vs)"
    using assms(1,3) False unfolding ta_ok_def by (auto simp: a1_def ac_simps)
  obtain c fs where c: "cs = c # fs" using assms(3) by (cases cs) auto
  from free_blocks_ok [of a1 us c "fs @ vs"] ok1 c obtain a' fs' where
    "free_blocks a1 = Some a'" "ta_ok a' us (c # fs')" "last_node a' = last_node a1" "tnodes a' = tnodes a1" by auto
  then show ?thesis using run False c by (intro exI [of _ a'] exI [of _ "c # fs'"]) (simp add: a1_def)
qed

lemma issued_block:
  assumes "ta_ok a us cs" and "x \<in> set (issued a us cs)"
  shows "\<exists>vs us' b zs i. us = vs @ us' \<and> us' @ cs = b # zs \<and> cs \<noteq> [] \<and> i < BLOCK_TRANX_NODES \<and> x = node_at b i \<and>
    i < length (issued a us' cs) \<and> issued a us' cs ! i = x"
proof -
  have cs: "cs \<noteq> []" using assms by (auto simp: ta_ok_def issued_def)
  consider (before) b where "b \<in> set us" "x \<in> set (nodes_of b)" | (current) i where "i < nat (last_node a + 1)" "x = node_at (hd cs) i"
    using assms(2) by (auto simp: issued_def)
  then show ?thesis
  proof cases
    case before
    then obtain vs ws i where "us = vs @ b # ws" "i < BLOCK_TRANX_NODES" "x = node_at b i" by (auto simp: nodes_of_mem dest!: split_list)
    then show ?thesis using cs by (intro exI [of _ vs] exI [of _ "b # ws"] exI [of _ b] exI [of _ "ws @ cs"] exI [of _ i]) (auto simp: issued_def nth_append nodes_of_def)
  next
    case current
    then have "i < BLOCK_TRANX_NODES" using assms(1) by (auto simp: ta_ok_def)
    then show ?thesis using cs current by (intro exI [of _ us] exI [of _ "[]"] exI [of _ "hd cs"] exI [of _ "tl cs"] exI [of _ i]) (auto simp: issued_def)
  qed
qed

lemma free_nodes_before_ok:
  assumes "ta_ok a us cs" and "x \<in> set (issued a us cs)"
  shows "\<exists>a' us' cs' ys i. free_nodes_before x a = Some a' \<and> ta_ok a' us' cs' \<and> issued a us cs = ys @ issued a' us' cs' \<and>
    i < length (issued a' us' cs') \<and> issued a' us' cs' ! i = x \<and> tnodes a' = tnodes a"
proof -
  obtain vs us' b zs i where d: "us = vs @ us'" "us' @ cs = b # zs" "cs \<noteq> []" "i < BLOCK_TRANX_NODES" "x = node_at b i"
    "i < length (issued a us' cs)" "issued a us' cs ! i = x" using issued_block [OF assms] by blast
  have ok: "bseg (b_next a) (first_block a) (vs @ b # zs) None" "distinct (vs @ b # zs)" "separate (vs @ b # zs)" "current_block a = Some (hd cs)"
    using assms(1) d(1-3) by (auto simp: ta_ok_def)
  have hit: "contains_node v x \<longleftrightarrow> v = b" if "v \<in> set (vs @ b # zs)" for v
    using contains_node_iff [OF ok(3) _ that d(4), of b] d(5) by simp
  have "b_next a (hd cs) \<noteq> Some v" if "v \<in> set vs \<or> v = b" for v
  proof -
    have "bseg (b_next a) (b_next a (hd cs)) (tl cs) None" using assms(1) d(3) by (auto simp: ta_ok_def bseg_append neq_Nil_conv)
    moreover have "v \<notin> set (tl cs)" using that ok(2) d(2,3) by (cases us'; cases cs) auto
    ultimately show ?thesis by (cases "tl cs") auto
  qed
  then have "free_nodes_before x a = rotate_blocks b (if vs = [] then None else Some (last vs)) a"
    unfolding free_nodes_before_def by (intro find_block [OF ok(1,4)]) (use hit ok(2) in auto)
  then obtain a' cs' where r: "free_nodes_before x a = Some a'" "ta_ok a' us' cs'" "hd cs' = hd cs" "last_node a' = last_node a" "tnodes a' = tnodes a"
    using rotate_ok [of a vs us' cs b zs] assms(1) d(1-3) by auto
  then have "issued a' us' cs' = issued a us' cs" by (simp add: issued_def)
  then show ?thesis using r d(1,6,7) by (intro exI [of _ a'] exI [of _ us'] exI [of _ cs'] exI [of _ "concat (map nodes_of vs)"] exI [of _ i]) (simp add: issued_def)
qed

lemma free_all_nodes_ok:
  assumes "ta_ok a us cs"
  shows "\<exists>a' cs'. free_all_nodes a = Some a' \<and> ta_ok a' [] cs' \<and> issued a' [] cs' = [] \<and> (length cs' \<le> 2 \<or> length cs' \<le> unat (reserved_blocks a))"
proof (cases "us @ cs")
  case Nil
  then have "free_all_nodes a = Some (a\<lparr>current_block := None, last_node := -1\<rparr>)" using assms by (simp add: ta_ok_def free_all_nodes_def free_blocks_def)
  moreover have "ta_ok (a\<lparr>current_block := None, last_node := -1\<rparr>) [] []" using assms Nil by (simp add: ta_ok_def)
  ultimately show ?thesis by (intro exI [of _ "a\<lparr>current_block := None, last_node := -1\<rparr>"] exI [of _ "[]"]) (simp add: issued_def)
next
  case (Cons c fs)
  let ?a = "a\<lparr>current_block := first_block a, last_node := -1\<rparr>"
  have "last (us @ cs) = last cs" "us @ cs \<noteq> []" using assms Cons unfolding ta_ok_def by (metis append_Nil2 last_appendR list.distinct(1), simp)
  then have "ta_ok ?a [] (us @ cs)" using assms Cons unfolding ta_ok_def by (auto simp: BLOCK_TRANX_NODES_def simp del: last_append)
  then obtain a' fs' where "free_blocks ?a = Some a'" "ta_ok a' [] (c # fs')" "last_node a' = -1" "length fs' \<le> 1 \<or> length (c # fs') \<le> unat (reserved_blocks a)"
    using free_blocks_ok [of ?a "[]" c fs] Cons by auto
  then show ?thesis by (intro exI [of _ a'] exI [of _ "c # fs'"]) (auto simp: free_all_nodes_def issued_def)
qed

lemma ta_destroy_loop_ok: "bseg (b_next a) s bs None \<Longrightarrow> \<exists>a'. ta_destroy_loop s a = Some a' \<and> freed a' = freed a @ bs \<and> malloced a' = malloced a"
proof (induction bs arbitrary: s a)
  case Nil
  then show ?case by (subst ta_destroy_loop.simps) simp
next
  case (Cons b bs)
  have "bseg (b_next (free_block b a)) (b_next a b) bs None" using Cons.prems by (simp add: free_block_def)
  from Cons.IH [OF this] show ?case using Cons.prems by (subst ta_destroy_loop.simps) (auto simp: free_block_def)
qed

lemma dropWhile_nth: "distinct xs \<Longrightarrow> i < length xs \<Longrightarrow> dropWhile (\<lambda>y. y \<noteq> xs ! i) xs = drop i xs"
proof (induction xs arbitrary: i)
  case (Cons x xs)
  then show ?case by (cases i) (auto simp: nth_mem)
qed simp

lemma dropWhile_drop:
  assumes "distinct xs" and "p < length xs" and "x = xs ! p" and "x \<in> set (drop k xs)"
  shows "dropWhile (\<lambda>y. y \<noteq> x) (drop k xs) = drop p xs"
proof -
  obtain j where "j < length (drop k xs)" "drop k xs ! j = x" using assms(4) by (metis in_set_conv_nth)
  then have j: "k + j < length xs" "xs ! (k + j) = x" by auto
  then have p: "k + j = p" using nth_eq_iff_index_eq [OF assms(1)] assms(2,3) by metis
  have "dropWhile (\<lambda>y. y \<noteq> drop k xs ! j) (drop k xs) = drop j (drop k xs)"
    using j(1) by (intro dropWhile_nth distinct_drop [OF assms(1)]) simp
  then show ?thesis using j p by (simp add: add.commute)
qed

lemma dropWhile_suffix:
  assumes "distinct (ys @ zs)" and "i < length zs" and "x = zs ! i" and "x \<in> set (drop k (ys @ zs))"
  shows "dropWhile (\<lambda>y. y \<noteq> x) (drop k (ys @ zs)) = drop i zs"
proof -
  have "dropWhile (\<lambda>y. y \<noteq> x) (drop k (ys @ zs)) = drop (length ys + i) (ys @ zs)"
    by (rule dropWhile_drop) (use assms in simp_all)
  then show ?thesis by simp
qed

section \<open>Properties\<close>

text \<open>The states an allocator can reach, with the nodes that are taken and not yet released, oldest first.\<close>

inductive ta_reach :: "u32 \<Rightarrow> ta \<Rightarrow> nat list \<Rightarrow> bool" for n where
  start: "ta_reach n (Tranx_node_allocator n nx nd) []"
| taken: "ta_reach n a live \<Longrightarrow> malloc_ok m a \<Longrightarrow> allocate_node m a = Some (Some x, a') \<Longrightarrow> ta_reach n a' (live @ [x])"
| refused: "ta_reach n a live \<Longrightarrow> malloc_ok m a \<Longrightarrow> allocate_node m a = Some (None, a') \<Longrightarrow> ta_reach n a' live"
| released: "ta_reach n a live \<Longrightarrow> x \<in> set live \<Longrightarrow> free_nodes_before x a = Some a' \<Longrightarrow> ta_reach n a' (dropWhile (\<lambda>y. y \<noteq> x) live)"
| all_released: "ta_reach n a live \<Longrightarrow> free_all_nodes a = Some a' \<Longrightarrow> ta_reach n a' []"

lemma free_before_rep:
  assumes "ta_rep a live" and "x \<in> set live"
  shows "\<exists>a'. free_nodes_before x a = Some a' \<and> tnodes a' = tnodes a \<and> ta_rep a' (dropWhile (\<lambda>y. y \<noteq> x) live)"
proof -
  obtain us cs k where ok: "ta_ok a us cs" "live = drop k (issued a us cs)" using assms(1) by (auto simp: ta_rep_def)
  then have "x \<in> set (issued a us cs)" using assms(2) by (auto dest: in_set_dropD)
  from free_nodes_before_ok [OF ok(1) this] obtain a' us' cs' ys i where r: "free_nodes_before x a = Some a'" "ta_ok a' us' cs'"
    "issued a us cs = ys @ issued a' us' cs'" "i < length (issued a' us' cs')" "issued a' us' cs' ! i = x" "tnodes a' = tnodes a" by blast
  have "dropWhile (\<lambda>y. y \<noteq> x) live = drop i (issued a' us' cs')"
    unfolding ok(2) r(3) by (rule dropWhile_suffix) (use issued_distinct [OF ok(1)] r assms(2) ok(2) in auto)
  then show ?thesis using r by (auto simp: ta_rep_def)
qed

lemma allocate_rep:
  assumes "ta_rep a live" and "malloc_ok m a"
  shows "case allocate_node m a of
      None \<Rightarrow> False
    | Some (None, a') \<Rightarrow> m = None \<and> a' = a
    | Some (Some x, a') \<Rightarrow> x \<notin> set live \<and> tnodes a' = (tnodes a)(x := blank_node) \<and> ta_rep a' (live @ [x])"
proof -
  obtain us cs k where ok: "ta_ok a us cs" "live = drop k (issued a us cs)" using assms(1) by (auto simp: ta_rep_def)
  from allocate_node_ok [OF ok(1) assms(2)] obtain r a' where run: "allocate_node m a = Some (r, a')"
    and r: "case r of None \<Rightarrow> m = None \<and> a' = a
      | Some x \<Rightarrow> (\<exists>us' cs'. ta_ok a' us' cs' \<and> issued a' us' cs' = issued a us cs @ [x]) \<and> tnodes a' = (tnodes a)(x := blank_node)"
    by (auto simp: node_taken_def)
  show ?thesis
  proof (cases r)
    case (Some x)
    then obtain us' cs' where new: "ta_ok a' us' cs'" "issued a' us' cs' = issued a us cs @ [x]" using r by auto
    have "x \<notin> set (issued a us cs)" using issued_distinct [OF new(1)] new(2) by simp
    then have fresh: "x \<notin> set live" using ok(2) by (auto dest: in_set_dropD)
    have "live @ [x] = drop (min k (length (issued a us cs))) (issued a' us' cs')" using ok(2) new(2) by (simp add: min_def)
    then have "ta_rep a' (live @ [x])" using new(1) unfolding ta_rep_def by blast
    then show ?thesis using run r Some fresh by simp
  qed (use run r in simp)
qed

lemma reach_rep: "ta_reach n a live \<Longrightarrow> ta_rep a live"
proof (induction rule: ta_reach.induct)
  case (start nx nd)
  have "ta_ok (Tranx_node_allocator n nx nd) [] []" by (simp add: ta_ok_def Tranx_node_allocator_def separate_def BLOCK_TRANX_NODES_def)
  then show ?case unfolding ta_rep_def by (intro exI [of _ "[]"] exI [of _ 0]) (auto simp: issued_def Tranx_node_allocator_def)
next
  case (taken a live m x a')
  then show ?case using allocate_rep [of a live m] by simp
next
  case (refused a live m a')
  then show ?case using allocate_rep [of a live m] by simp
next
  case (released a live x a')
  then show ?case using free_before_rep [of a live x] by auto
next
  case (all_released a live a')
  then obtain us cs where "ta_ok a us cs" by (auto simp: ta_rep_def)
  then obtain cs' where "ta_ok a' [] cs'" "issued a' [] cs' = []" using free_all_nodes_ok all_released(2) by fastforce
  then show ?case unfolding ta_rep_def by (metis drop_Nil)
qed

lemma live_in_held:
  assumes "ta_rep a live" and "x \<in> set live"
  shows "\<exists>b\<in>#held a. \<exists>i < BLOCK_TRANX_NODES. x = node_at b i"
proof -
  obtain us cs where ok: "ta_ok a us cs" "x \<in> set (issued a us cs)" using assms by (auto simp: ta_rep_def dest: in_set_dropD)
  from issued_block [OF ok] obtain vs us' b zs i where "us = vs @ us'" "us' @ cs = b # zs" "i < BLOCK_TRANX_NODES" "x = node_at b i" by blast
  moreover then have "b \<in> set (us @ cs)" by auto
  ultimately show ?thesis using held_blocks [OF ok(1)] by auto
qed

text \<open>
  Property C34: the allocator hands out every node once. In every state that can be reached, the nodes in
  use are distinct and lie in blocks that are still held; a node that is handed out is not in use
  and comes cleared, the contents of the others are untouched, and it is refused only if \<open>my_malloc\<close>
  fails, which leaves the allocator as it was; releasing is always possible; and destroying the
  allocator frees every block exactly once, counting those freed before.
\<close>

theorem nodes_handed_out_once:
  assumes "ta_reach n a live"
  shows "distinct live \<and> (\<forall>x\<in>set live. \<exists>b\<in>#held a. \<exists>i < BLOCK_TRANX_NODES. x = node_at b i) \<and>
    (\<forall>m. malloc_ok m a \<longrightarrow>
       (case allocate_node m a of
          None \<Rightarrow> False
        | Some (None, a') \<Rightarrow> m = None \<and> a' = a
        | Some (Some x, a') \<Rightarrow> x \<notin> set live \<and> tnodes a' = (tnodes a)(x := blank_node))) \<and>
    (\<forall>x\<in>set live. \<exists>a'. free_nodes_before x a = Some a' \<and> tnodes a' = tnodes a) \<and>
    (\<exists>a'. free_all_nodes a = Some a') \<and> (\<exists>a'. ta_destroy a = Some a' \<and> mset (freed a') = mset (malloced a))"
proof -
  have rep: "ta_rep a live" by (rule reach_rep [OF assms])
  then obtain us cs k where ok: "ta_ok a us cs" "live = drop k (issued a us cs)" by (auto simp: ta_rep_def)
  have "distinct live" using issued_distinct [OF ok(1)] ok(2) by simp
  moreover have "\<exists>a'. ta_destroy a = Some a' \<and> mset (freed a') = mset (malloced a)"
    using ta_destroy_loop_ok [of a "first_block a" "us @ cs"] ok(1) unfolding ta_destroy_def ta_ok_def by (metis mset_append union_commute)
  moreover have "\<forall>m. malloc_ok m a \<longrightarrow> (case allocate_node m a of None \<Rightarrow> False | Some (None, a') \<Rightarrow> m = None \<and> a' = a
      | Some (Some x, a') \<Rightarrow> x \<notin> set live \<and> tnodes a' = (tnodes a)(x := blank_node))"
    using allocate_rep [OF rep] by (fastforce split: option.splits prod.splits)
  ultimately show ?thesis using live_in_held [OF rep] free_before_rep [OF rep] free_all_nodes_ok [OF ok(1)] by blast
qed

definition ta_empty :: ta where
  "ta_empty = Tranx_node_allocator 3 (\<lambda>b. None) (\<lambda>x. blank_node)"

theorem nodes_handed_out_once_witness:
  "\<exists>a. allocate_node (Some 1000) ta_empty = Some (Some 1008, a) \<and> (\<exists>a'. free_nodes_before 1008 a = Some a') \<and>
     (\<exists>a'. ta_destroy a = Some a' \<and> mset (freed a') = {#1000#})"
proof -
  obtain a where a: "allocate_node (Some 1000) ta_empty = Some (Some 1008, a)" "malloced a = [1000]"
    by (simp add: ta_empty_def Tranx_node_allocator_def allocate_node_def allocate_block_def take_node_def set_next_def node_at_def BLOCK_TRANX_NODES_def)
  have "ta_reach 3 ta_empty []" unfolding ta_empty_def by (rule ta_reach.start)
  moreover have "malloc_ok (Some 1000) ta_empty" by (simp add: malloc_ok_def held_def ta_empty_def Tranx_node_allocator_def)
  ultimately have "ta_reach 3 a ([] @ [1008])" using a(1) by (rule ta_reach.taken)
  from nodes_handed_out_once [OF this] a show ?thesis by auto
qed

text \<open>
  After all nodes are released the allocator keeps at most the reserved number of blocks, or
  two where fewer are reserved.
\<close>

theorem reserve_kept:
  assumes "ta_reach n a live"
  shows "\<exists>a'. free_all_nodes a = Some a' \<and> size (held a') \<le> max 2 (unat (reserved_blocks a))"
proof -
  obtain us cs where ok: "ta_ok a us cs" using reach_rep [OF assms] by (auto simp: ta_rep_def)
  from free_all_nodes_ok [OF this] obtain a' cs' where "free_all_nodes a = Some a'" "ta_ok a' [] cs'" "length cs' \<le> 2 \<or> length cs' \<le> unat (reserved_blocks a)" by blast
  moreover then have "size (held a') = length cs'" using held_blocks [of a' "[]" cs'] by simp
  ultimately show ?thesis by auto
qed

theorem reserve_kept_witness:
  "\<exists>a'. free_all_nodes ta_empty = Some a' \<and> size (held a') \<le> 2"
  using reserve_kept [of 3 ta_empty "[]"] ta_reach.start [of 3 "\<lambda>b. None" "\<lambda>x. blank_node"]
  by (simp add: ta_empty_def Tranx_node_allocator_def)

end
