(* ===== verification/Histogram.thy ===== *)
theory Histogram
  imports Doubles ByteOrder "HOL-Library.Signed_Division"
begin

text \<open>
  The height-balanced histograms of \<open>sql_statistics.h\<close>: the packed array of bucket bounds, the search
  for the bucket of a position, the collector of the counters, and the bitmap that says which
  statistics of a column are present. Positions are \<open>double\<close>s (\<open>Doubles\<close>). A failed assertion and an
  undefined conversion are errors of the sum type; the value \<open>None\<close> of the search stands only for a loop
  that does not end.
\<close>

section \<open>The histogram\<close>

datatype hist_error = OutsideArray | WrongType | UndefinedConversion

datatype histogram_type = SINGLE_PREC_HB | DOUBLE_PREC_HB | JSON_HB | INVALID_HISTOGRAM

record histogram_binary =
  hb_type :: histogram_type
  hb_size :: u8
  hb_values :: nat

definition prec_factor :: "histogram_binary \<Rightarrow> nat option" where
  "prec_factor h = (case hb_type h of SINGLE_PREC_HB \<Rightarrow> Some (2 ^ 8 - 1) | DOUBLE_PREC_HB \<Rightarrow> Some (2 ^ 16 - 1) | _ \<Rightarrow> None)"

definition get_width :: "histogram_binary \<Rightarrow> nat option" where
  "get_width h = (case hb_type h of SINGLE_PREC_HB \<Rightarrow> Some (unat (hb_size h)) | DOUBLE_PREC_HB \<Rightarrow> Some (unat (hb_size h) div 2) | _ \<Rightarrow> None)"

definition get_value :: "mem \<Rightarrow> histogram_binary \<Rightarrow> nat \<Rightarrow> hist_error + nat" where
  "get_value m h i =
     (case get_width h of
        None \<Rightarrow> Inl WrongType
      | Some w \<Rightarrow>
          if i < w
          then (case hb_type h of
                  SINGLE_PREC_HB \<Rightarrow> Inr (unat (m (hb_values h + i)))
                | DOUBLE_PREC_HB \<Rightarrow> Inr (unat (uint2korr m (hb_values h + i * 2)))
                | _ \<Rightarrow> Inl WrongType)
          else Inl OutsideArray)"

text \<open>The binary search; \<open>gv\<close> is \<open>get_value\<close>.\<close>

partial_function (option) find_loop ::
    "(nat \<Rightarrow> hist_error + nat) \<Rightarrow> nat \<Rightarrow> int \<Rightarrow> int \<Rightarrow> int \<Rightarrow> nat \<Rightarrow> (hist_error + nat) option" where
  "find_loop gv val lp rp d i =
     (if d = 0 then Some (Inr i)
      else case gv i of
             Inl e \<Rightarrow> Some (Inl e)
           | Inr x \<Rightarrow>
               if val = x then Some (Inr i)
               else if val < x then (let rp = int i; d = (rp - lp) sdiv 2 in find_loop gv val lp rp d (nat (lp + d)))
               else case gv (i + 1) of
                      Inl e \<Rightarrow> Some (Inl e)
                    | Inr y \<Rightarrow> if val > y then (let lp = int i + 1; d = (rp - lp) sdiv 2 in find_loop gv val lp rp d (nat (lp + d))) else Some (Inr i))"

fun first_loop :: "(nat \<Rightarrow> hist_error + nat) \<Rightarrow> nat \<Rightarrow> nat \<Rightarrow> hist_error + nat" where
  "first_loop gv val 0 = Inr 0"
| "first_loop gv val (Suc i) = (case gv i of Inl e \<Rightarrow> Inl e | Inr x \<Rightarrow> if val = x then first_loop gv val i else Inr (Suc i))"

function last_loop :: "(nat \<Rightarrow> hist_error + nat) \<Rightarrow> nat \<Rightarrow> nat \<Rightarrow> nat \<Rightarrow> hist_error + nat" where
  "last_loop gv w val i =
     (if i + 1 < w then (case gv (i + 1) of Inl e \<Rightarrow> Inl e | Inr x \<Rightarrow> if val = x then last_loop gv w val (i + 1) else Inr i) else Inr i)"
  by pat_completeness auto
termination
  by (relation "measure (\<lambda>(gv, w, val, i). w - i)") auto

declare last_loop.simps [simp del]

definition find_bucket_of :: "(nat \<Rightarrow> hist_error + nat) \<Rightarrow> nat \<Rightarrow> nat \<Rightarrow> bool \<Rightarrow> (hist_error + nat) option" where
  "find_bucket_of gv w val first =
     (case find_loop gv val 0 (int w - 1) (int w sdiv 2) (w div 2) of
        None \<Rightarrow> None
      | Some (Inl e) \<Rightarrow> Some (Inl e)
      | Some (Inr i) \<Rightarrow>
          (case gv i of
             Inl e \<Rightarrow> Some (Inl e)
           | Inr x \<Rightarrow>
               let i = (if val > x \<and> i < w - 1 then i + 1 else i)
               in case gv i of
                    Inl e \<Rightarrow> Some (Inl e)
                  | Inr x \<Rightarrow> Some (if val = x then (if first then first_loop gv val i else last_loop gv w val i) else Inr i)))"

definition find_bucket :: "(real \<Rightarrow> real) \<Rightarrow> mem \<Rightarrow> histogram_binary \<Rightarrow> real \<Rightarrow> bool \<Rightarrow> (hist_error + nat) option" where
  "find_bucket rnd m h pos first =
     (case (prec_factor h, get_width h) of
        (Some p, Some w) \<Rightarrow>
          (case to_uint 32 (rnd (pos * real p)) of
             None \<Rightarrow> Some (Inl UndefinedConversion)
           | Some val \<Rightarrow> find_bucket_of (get_value m h) w val first)
      | _ \<Rightarrow> Some (Inl WrongType))"

definition set_value :: "(real \<Rightarrow> real) \<Rightarrow> histogram_binary \<Rightarrow> nat \<Rightarrow> real \<Rightarrow> mem \<Rightarrow> hist_error + mem" where
  "set_value rnd h i val m =
     (case hb_type h of
        SINGLE_PREC_HB \<Rightarrow>
          (case to_uint 8 (rnd (val * real (2 ^ 8 - 1))) of
             None \<Rightarrow> Inl UndefinedConversion | Some n \<Rightarrow> Inr (m(hb_values h + i := of_nat n)))
      | DOUBLE_PREC_HB \<Rightarrow>
          (case to_uint 16 (rnd (val * real (2 ^ 16 - 1))) of
             None \<Rightarrow> Inl UndefinedConversion | Some n \<Rightarrow> Inr (int2store m (hb_values h + i * 2) (of_nat n)))
      | _ \<Rightarrow> Inl WrongType)"

definition set_prev_value :: "histogram_binary \<Rightarrow> nat \<Rightarrow> mem \<Rightarrow> mem option" where
  "set_prev_value h i m =
     (case hb_type h of
        SINGLE_PREC_HB \<Rightarrow> Some (m(hb_values h + i := m (hb_values h + i - 1)))
      | DOUBLE_PREC_HB \<Rightarrow> Some (int2store m (hb_values h + i * 2) (ucast (uint2korr m (hb_values h + i * 2 - 2))))
      | _ \<Rightarrow> None)"

section \<open>Counters and the bitmap of a column\<close>

record basic_stats =
  bs_count :: u64
  count_distinct :: u64
  count_distinct_single_occurence :: u64

definition Basic_stats_collector :: basic_stats where
  "Basic_stats_collector = \<lparr>bs_count = 0, count_distinct = 0, count_distinct_single_occurence = 0\<rparr>"

definition stats_next :: "u32 \<Rightarrow> basic_stats \<Rightarrow> basic_stats" where
  "stats_next elem_cnt s =
     (let s = s\<lparr>count_distinct := count_distinct s + 1\<rparr>;
          s = (if elem_cnt = 1 then s\<lparr>count_distinct_single_occurence := count_distinct_single_occurence s + 1\<rparr> else s)
      in s\<lparr>bs_count := bs_count s + ucast elem_cnt\<rparr>)"

definition COLUMN_STAT_COLUMN_NAME :: nat where "COLUMN_STAT_COLUMN_NAME = 2"
definition COLUMN_STAT_MIN_VALUE :: nat where "COLUMN_STAT_MIN_VALUE = 3"
definition COLUMN_STAT_MAX_VALUE :: nat where "COLUMN_STAT_MAX_VALUE = 4"
definition COLUMN_STAT_HISTOGRAM :: nat where "COLUMN_STAT_HISTOGRAM = 10"

definition no_values_provided_bitmap :: u32 where
  "no_values_provided_bitmap = push_bit (COLUMN_STAT_COLUMN_NAME + 1) (push_bit (COLUMN_STAT_HISTOGRAM - COLUMN_STAT_COLUMN_NAME) 1 - 1)"

text \<open>The field \<open>column_stat_nulls\<close> is the state of these operations.\<close>

definition set_all_nulls :: "u32 \<Rightarrow> u32" where
  "set_all_nulls nulls = no_values_provided_bitmap"

definition set_not_null :: "nat \<Rightarrow> u32 \<Rightarrow> u32" where
  "set_not_null stat_field_no nulls = nulls AND NOT (push_bit stat_field_no 1)"

definition stat_is_null :: "nat \<Rightarrow> u32 \<Rightarrow> bool" where
  "stat_is_null stat_field_no nulls \<longleftrightarrow> nulls AND push_bit stat_field_no 1 \<noteq> 0"

definition min_max_values_are_provided :: "u32 \<Rightarrow> bool" where
  "min_max_values_are_provided nulls \<longleftrightarrow> \<not> stat_is_null COLUMN_STAT_MIN_VALUE nulls \<and> \<not> stat_is_null COLUMN_STAT_MAX_VALUE nulls"

definition no_stat_values_provided :: "u32 \<Rightarrow> bool" where
  "no_stat_values_provided nulls \<longleftrightarrow> nulls = no_values_provided_bitmap"

section \<open>The search\<close>

abbreviation vals :: "nat \<Rightarrow> (nat \<Rightarrow> nat) \<Rightarrow> nat \<Rightarrow> hist_error + nat" where
  "vals w v \<equiv> \<lambda>i. if i < w then Inr (v i) else Inl OutsideArray"

text \<open>Where the search can stop: at the value, before a bucket that holds it, at the first bucket, or near the last one.\<close>

definition near :: "nat \<Rightarrow> (nat \<Rightarrow> nat) \<Rightarrow> nat \<Rightarrow> nat \<Rightarrow> bool" where
  "near w v val i \<longleftrightarrow> i < w \<and> (val < v i \<longrightarrow> i = 0) \<and> (v i < val \<longrightarrow> i + 1 = w \<or> i + 2 = w \<or> val \<le> v (i + 1))"

lemma find_loop_near:
  assumes "0 \<le> lp" and "lp \<le> rp" and "rp < int w" and "i = nat (lp + d)" and "d = (rp - lp) div 2 \<or> 0 < d \<and> lp + d < rp"
    and "lp = 0 \<or> v (nat lp) < val" and "rp = int w - 1 \<or> val < v (nat rp)"
  shows "\<exists>j. find_loop (vals w v) val lp rp d i = Some (Inr j) \<and> near w v val j"
  using assms
proof (induction "nat (rp - lp)" arbitrary: lp rp d i rule: less_induct)
  case less
  have sdiv2: "x sdiv 2 = x div 2" if "0 \<le> x" for x :: int using that by (simp add: signed_divide_int_def sgn_if)
  show ?case
  proof (cases "d = 0")
    case True
    then have near_end: "rp \<le> lp + 1" "i = nat lp" using less.prems(2,4,5) by auto
    then have "nat rp = i \<or> nat rp = Suc i" using less.prems(1,2) by auto
    then have "near w v val i" using near_end less.prems(1-3,6,7) unfolding near_def by auto
    then show ?thesis using True by (subst find_loop.simps) simp
  next
    case False
    have d: "0 < d" "lp + d < rp" using less.prems(2,5) False by auto
    then have i: "int i = lp + d" "i + 1 < w" using less.prems(1,3,4) by auto
    consider "val = v i" | "val < v i" | "v i < val" "v (i + 1) < val" | "v i < val" "val \<le> v (i + 1)" by linarith
    then show ?thesis
    proof cases
      case 1
      then have "near w v val i" using i by (simp add: near_def)
      then show ?thesis using 1 False i by (subst find_loop.simps) simp
    next
      case 2
      have "\<exists>j. find_loop (vals w v) val lp (int i) ((int i - lp) div 2) (nat (lp + (int i - lp) div 2)) = Some (Inr j) \<and> near w v val j"
        by (rule less.hyps) (use less.prems d i 2 in auto)
      moreover have "(int i - lp) sdiv 2 = (int i - lp) div 2" by (rule sdiv2) (use d i in simp)
      ultimately show ?thesis using 2 False i by (subst find_loop.simps) (simp add: Let_def)
    next
      case 3
      have "\<exists>j. find_loop (vals w v) val (int i + 1) rp ((rp - (int i + 1)) div 2) (nat (int i + 1 + (rp - (int i + 1)) div 2)) = Some (Inr j) \<and> near w v val j"
        by (rule less.hyps) (use less.prems d i 3 in \<open>auto simp: nat_add_distrib\<close>)
      moreover have "(rp - (int i + 1)) sdiv 2 = (rp - (int i + 1)) div 2" by (rule sdiv2) (use d i in simp)
      ultimately show ?thesis using 3 False i by (subst find_loop.simps) (simp add: Let_def)
    next
      case 4
      then have "near w v val i" using i by (simp add: near_def)
      then show ?thesis using 4 False i by (subst find_loop.simps) simp
    qed
  qed
qed

lemma sdiv2: "int w sdiv 2 = int (w div 2)"
  by (simp add: signed_divide_int_def sgn_if zdiv_int)

text \<open>With two buckets the search looks past the end of the array for values above the last bound.\<close>

lemma find_loop_start:
  assumes "1 \<le> w" and "w \<noteq> 2 \<or> val \<le> v 1"
  shows "\<exists>j. find_loop (vals w v) val 0 (int w - 1) (int w sdiv 2) (w div 2) = Some (Inr j) \<and> near w v val j"
proof (cases "w = 2")
  case True
  consider "val = v 1" | "val < v 1" using assms True by fastforce
  then show ?thesis
  proof cases
    case 1
    then show ?thesis using True by (subst find_loop.simps) (simp add: near_def)
  next
    case 2
    have z: "find_loop (vals w v) val 0 1 0 0 = Some (Inr 0)" by (subst find_loop.simps) simp
    have "find_loop (vals w v) val 0 (int w - 1) (int w sdiv 2) (w div 2) = find_loop (vals w v) val 0 1 0 0"
      using True 2 by (subst find_loop.simps) (simp add: Let_def signed_divide_int_def)
    then show ?thesis using z True 2 by (simp add: near_def)
  qed
next
  case False
  have "w = 1 \<or> w div 2 < w - 1" using assms(1) False by presburger
  then have "int (w div 2) = (int w - 1 - 0) div 2 \<or> 0 < int (w div 2) \<and> 0 + int (w div 2) < int w - 1" using assms(1) False by auto
  then show ?thesis unfolding sdiv2 using assms(1) by (intro find_loop_near) simp_all
qed

definition ascending :: "nat \<Rightarrow> (nat \<Rightarrow> nat) \<Rightarrow> bool" where
  "ascending w v \<longleftrightarrow> (\<forall>a b. a \<le> b \<and> b < w \<longrightarrow> v a \<le> v b)"

lemma ascendingD: "ascending w v \<Longrightarrow> a \<le> b \<Longrightarrow> b < w \<Longrightarrow> v a \<le> v b"
  by (simp add: ascending_def)

lemma first_loop_ok:
  assumes "ascending w v" and "j < w" and "v j = val"
  shows "\<exists>r. first_loop (vals w v) val j = Inr r \<and> r < w \<and> v r = val \<and> (\<forall>k < r. v k < val)"
  using assms(2,3)
proof (induction j)
  case (Suc j)
  show ?case
  proof (cases "v j = val")
    case False
    then have "v j < val" using ascendingD [OF assms(1), of j "Suc j"] Suc.prems by simp
    then have "v k < val" if "k < Suc j" for k using that ascendingD [OF assms(1), of k j] Suc.prems by simp
    then show ?thesis using False Suc.prems by simp
  qed (use Suc in simp)
qed simp

lemma last_loop_ok:
  assumes "ascending w v" and "j < w" and "v j = val"
  shows "\<exists>r. last_loop (vals w v) w val j = Inr r \<and> r < w \<and> v r = val \<and> (\<forall>k. r < k \<and> k < w \<longrightarrow> val < v k)"
  using assms(2,3)
proof (induction "w - j" arbitrary: j rule: less_induct)
  case less
  show ?case
  proof (cases "j + 1 < w \<and> v (j + 1) = val")
    case True
    then have "\<exists>r. last_loop (vals w v) w val (j + 1) = Inr r \<and> r < w \<and> v r = val \<and> (\<forall>k. r < k \<and> k < w \<longrightarrow> val < v k)"
      by (intro less.hyps) auto
    then show ?thesis using True by (subst last_loop.simps) simp
  next
    case False
    have "val < v k" if "j < k" "k < w" for k
    proof -
      have "v j \<le> v (j + 1)" "v (j + 1) \<le> v k" using that by (auto intro!: ascendingD [OF assms(1)])
      then show ?thesis using that False less.prems(2) by simp
    qed
    then show ?thesis using False less.prems by (subst last_loop.simps) auto
  qed
qed

definition bucket_ok :: "nat \<Rightarrow> (nat \<Rightarrow> nat) \<Rightarrow> nat \<Rightarrow> bool \<Rightarrow> nat \<Rightarrow> bool" where
  "bucket_ok w v val first r \<longleftrightarrow>
     r < w \<and> (if \<exists>j < w. v j = val then v r = val \<and> (if first then \<forall>j < r. v j < val else \<forall>j. r < j \<and> j < w \<longrightarrow> val < v j)
             else (\<forall>j < r. v j < val) \<and> (val < v r \<or> r = w - 1))"

lemma bucket_okI:
  assumes "ascending w v" and "i < w" and "v i \<noteq> val"
    and "val < v i \<longrightarrow> i = 0 \<or> v (i - 1) < val" and "v i < val \<longrightarrow> i + 1 = w"
  shows "bucket_ok w v val first i"
proof -
  have below: "v j < val" if "j < i" for j
  proof (cases "val < v i")
    case True
    have "v j \<le> v (i - 1)" by (rule ascendingD [OF assms(1)]) (use that assms(2) in auto)
    then show ?thesis using True assms(4) that by simp
  next
    case False
    have "v j \<le> v i" by (rule ascendingD [OF assms(1)]) (use that assms(2) in auto)
    then show ?thesis using False assms(3) by simp
  qed
  moreover have "v j \<noteq> val" if "j < w" for j
  proof (cases "j < i")
    case False
    then have "v i \<le> v j" "val < v i \<or> j = i" using ascendingD [OF assms(1), of i j] assms(3,5) that by (simp, linarith)
    then show ?thesis using assms(3) by auto
  qed (use below in auto)
  moreover have "val < v i \<or> i = w - 1" using assms(3,5) by linarith
  ultimately show ?thesis using assms(2) unfolding bucket_ok_def by auto
qed

lemma find_bucket_of_ok:
  assumes "ascending w v" and "1 \<le> w" and "w \<noteq> 2 \<or> val \<le> v 1"
  shows "\<exists>r. find_bucket_of (vals w v) w val first = Some (Inr r) \<and> bucket_ok w v val first r"
proof -
  obtain j where j: "find_loop (vals w v) val 0 (int w - 1) (int w sdiv 2) (w div 2) = Some (Inr j)" "near w v val j"
    using find_loop_start [of w val v] assms(2,3) by blast
  define i where "i = (if val > v j \<and> j < w - 1 then j + 1 else j)"
  have i: "i < w" using j(2) by (auto simp: i_def near_def)
  have run: "find_bucket_of (vals w v) w val first =
      Some (if val = v i then (if first then first_loop (vals w v) val i else last_loop (vals w v) w val i) else Inr i)"
    using j i unfolding find_bucket_of_def by (simp add: near_def i_def Let_def)
  show ?thesis
  proof (cases "val = v i")
    case True
    then show ?thesis using run i first_loop_ok [OF assms(1) i] last_loop_ok [OF assms(1) i] by (cases first) (auto simp: bucket_ok_def)
  next
    case False
    have "bucket_ok w v val first i"
      by (rule bucket_okI [OF assms(1) i]) (use False j(2) in \<open>auto simp: i_def near_def split: if_splits\<close>)
    then show ?thesis using run False by simp
  qed
qed

section \<open>Storing the bounds\<close>

definition scaled :: "(real \<Rightarrow> real) \<Rightarrow> nat \<Rightarrow> real \<Rightarrow> nat" where
  "scaled rnd p f = nat \<lfloor>rnd (f * real p)\<rfloor>"

lemma scaled_mono: "rnd_ok rnd \<Longrightarrow> f \<le> g \<Longrightarrow> scaled rnd p f \<le> scaled rnd p g"
  unfolding scaled_def by (rule nat_mono, rule floor_mono, rule rnd_mono) (simp_all add: mult_right_mono)

lemma scaled_le:
  assumes "rnd_ok rnd" and "f \<le> 1" and "p < 2 ^ 53"
  shows "scaled rnd p f \<le> p"
proof -
  have "scaled rnd p f \<le> scaled rnd p 1" by (rule scaled_mono) (use assms in auto)
  also have "scaled rnd p 1 = p" using rnd_nat [OF assms(1,3)] by (simp add: scaled_def)
  finally show ?thesis .
qed

lemma to_uint_scaled:
  assumes "rnd_ok rnd" and "0 \<le> f" and "f \<le> 1" and "p < 2 ^ 53" and "p < 2 ^ k"
  shows "to_uint k (rnd (f * real p)) = Some (scaled rnd p f)"
proof -
  have "f * real p \<le> 1 * real p" by (rule mult_right_mono) (use assms(3) in simp_all)
  then have "rnd (f * real p) \<le> rnd (real p)" by (intro rnd_mono [OF assms(1)]) simp
  moreover have "rnd (real 0) \<le> rnd (f * real p)" by (intro rnd_mono [OF assms(1)]) (simp add: assms(2))
  ultimately have "0 \<le> rnd (f * real p)" "rnd (f * real p) \<le> real p"
    using rnd_nat [OF assms(1), of 0] rnd_nat [OF assms(1,4)] by simp_all
  moreover have "real p < 2 ^ k" using assms(5) by (metis of_nat_less_iff of_nat_numeral of_nat_power)
  ultimately have "0 \<le> rnd (f * real p)" "rnd (f * real p) < 2 ^ k" by linarith+
  then show ?thesis by (simp add: to_uint_def scaled_def)
qed

lemma widths: "get_width h = Some w \<Longrightarrow> w < 256" "prec_factor h = Some p \<Longrightarrow> p < 2 ^ 53"
  using unat_less_exp [of "hb_size h"] by (auto simp: get_width_def prec_factor_def split: histogram_type.splits)

lemma set_value_get:
  assumes "rnd_ok rnd" and "get_width h = Some w" and "prec_factor h = Some p" and "i < w" and "0 \<le> f" and "f \<le> 1"
  shows "\<exists>m'. set_value rnd h i f m = Inr m' \<and> get_value m' h i = Inr (scaled rnd p f) \<and> (\<forall>j < w. j \<noteq> i \<longrightarrow> get_value m' h j = get_value m h j)"
proof (cases "hb_type h")
  case SINGLE_PREC_HB
  then have p: "p = 2 ^ 8 - 1" using assms(3) by (simp add: prec_factor_def)
  have "scaled rnd p f \<le> 2 ^ 8 - 1" using scaled_le [OF assms(1,6), of p] p by simp
  then have "unat (of_nat (scaled rnd p f) :: u8) = scaled rnd p f" by (simp add: unat_of_nat take_bit_nat_eq_self)
  moreover have "to_uint 8 (rnd (f * real (2 ^ 8 - 1))) = Some (scaled rnd p f)"
    using to_uint_scaled [OF assms(1,5,6), of p 8] p by simp
  ultimately show ?thesis using SINGLE_PREC_HB assms(2,4) p by (auto simp: set_value_def get_value_def)
next
  case DOUBLE_PREC_HB
  then have p: "p = 2 ^ 16 - 1" using assms(3) by (simp add: prec_factor_def)
  let ?n = "scaled rnd p f" let ?a = "\<lambda>i. hb_values h + i * 2" let ?m = "int2store m (?a i) (of_nat ?n)"
  have n: "?n < 2 ^ 16" using scaled_le [OF assms(1,6), of p] p by simp
  have "unat (ucast (uint2korr ?m (?a i)) :: u64) = unat (take_bit 16 (of_nat ?n :: u64))" using le2.load_store [of m "?a i" "of_nat ?n"] by simp
  also have "\<dots> = ?n" using n by (simp add: unsigned_take_bit_eq unat_of_nat take_bit_nat_eq_self)
  finally have "unat (uint2korr ?m (?a i)) = ?n" by (simp add: unat_widen)
  moreover have "unat (uint2korr ?m (?a j)) = unat (uint2korr m (?a j))" if "j \<noteq> i" for j
  proof -
    have "?a j + 2 \<le> ?a i \<or> ?a i + 2 \<le> ?a j" using that by linarith
    from arg_cong [OF le2.load_disjoint [OF this, of m "of_nat ?n"], of unat] show ?thesis by (simp add: unat_widen)
  qed
  moreover have "to_uint 16 (rnd (f * real (2 ^ 16 - 1))) = Some ?n"
    using to_uint_scaled [OF assms(1,5,6), of p 16] p by simp
  ultimately show ?thesis using DOUBLE_PREC_HB assms(2,4) p by (auto simp: set_value_def get_value_def)
qed (use assms(2) in \<open>simp_all add: get_width_def\<close>)

text \<open>Setting the bounds one after the other.\<close>

fun fill_values :: "(real \<Rightarrow> real) \<Rightarrow> histogram_binary \<Rightarrow> nat \<Rightarrow> real list \<Rightarrow> mem \<Rightarrow> hist_error + mem" where
  "fill_values rnd h i [] m = Inr m"
| "fill_values rnd h i (f # fs) m = (case set_value rnd h i f m of Inl e \<Rightarrow> Inl e | Inr m \<Rightarrow> fill_values rnd h (i + 1) fs m)"

lemma fill_values_get:
  assumes "rnd_ok rnd" and "get_width h = Some w" and "prec_factor h = Some p" and "i + length fs \<le> w" and "\<forall>f\<in>set fs. 0 \<le> f \<and> f \<le> 1"
  shows "\<exists>m'. fill_values rnd h i fs m = Inr m' \<and> (\<forall>k < length fs. get_value m' h (i + k) = Inr (scaled rnd p (fs ! k))) \<and>
    (\<forall>j < i. get_value m' h j = get_value m h j)"
  using assms(4,5)
proof (induction fs arbitrary: i m)
  case (Cons f fs)
  obtain m1 where m1: "set_value rnd h i f m = Inr m1" "get_value m1 h i = Inr (scaled rnd p f)" "\<forall>j < w. j \<noteq> i \<longrightarrow> get_value m1 h j = get_value m h j"
    using set_value_get [OF assms(1-3), of i f m] Cons.prems by auto
  obtain m' where m': "fill_values rnd h (i + 1) fs m1 = Inr m'" "\<forall>k < length fs. get_value m' h (i + 1 + k) = Inr (scaled rnd p (fs ! k))"
    "\<forall>j < i + 1. get_value m' h j = get_value m1 h j" using Cons.IH [of "i + 1" m1] Cons.prems by auto
  have "get_value m' h (i + k) = Inr (scaled rnd p ((f # fs) ! k))" if "k < length (f # fs)" for k
    using that m' m1(2) by (cases k) auto
  then show ?case using m1 m' Cons.prems(1) by (intro exI [of _ m']) auto
qed simp

section \<open>Properties\<close>

text \<open>
  Property C36: the search finds the bucket of a position. Take a histogram of either precision, filled with ascending bounds
  between 0 and 1, and a position between 0 and 1. No conversion is undefined, and unless the histogram has
  two buckets and the position, at the precision of the stored values, exceeds the last bound, the search ends without
  reading outside the array and returns, at that precision, the first or the last bucket whose bound
  equals the position, or else the first bucket whose bound exceeds it, or the last bucket;
  all bounds before the first bucket found are below the position.
\<close>

theorem histogram_bucket_found:
  assumes "rnd_ok rnd" and "get_width h = Some w" and "prec_factor h = Some p" and "length fs = w" and "1 \<le> w"
    and "sorted fs" and "\<forall>f\<in>set fs. 0 \<le> f \<and> f \<le> 1" and "0 \<le> pos" and "pos \<le> 1"
    and "w = 2 \<Longrightarrow> scaled rnd p pos \<le> scaled rnd p (fs ! 1)"
  shows "\<exists>m' r. fill_values rnd h 0 fs m = Inr m' \<and> find_bucket rnd m' h pos first = Some (Inr r) \<and>
    bucket_ok w (\<lambda>i. scaled rnd p (fs ! i)) (scaled rnd p pos) first r \<and> (first \<longrightarrow> (\<forall>j < r. fs ! j < pos))"
proof -
  let ?v = "\<lambda>i. scaled rnd p (fs ! i)"
  obtain m' where m': "fill_values rnd h 0 fs m = Inr m'" "\<forall>k < w. get_value m' h k = Inr (?v k)"
    using fill_values_get [OF assms(1-3), of 0 fs m] assms(4,7) by auto
  have "get_value m' h = vals w ?v" using m'(2) assms(2) by (auto simp: fun_eq_iff get_value_def)
  moreover have "ascending w ?v" using assms(1,4,6) by (auto simp: ascending_def sorted_iff_nth_mono intro!: scaled_mono)
  moreover have "w \<noteq> 2 \<or> scaled rnd p pos \<le> ?v 1" using assms(10) by blast
  moreover have "p < 2 ^ 32" using assms(3) by (auto simp: prec_factor_def split: histogram_type.splits)
  then have "to_uint 32 (rnd (pos * real p)) = Some (scaled rnd p pos)" using assms(1,8,9) by (intro to_uint_scaled) auto
  ultimately obtain r where r: "find_bucket rnd m' h pos first = Some (Inr r)" "bucket_ok w ?v (scaled rnd p pos) first r"
    using find_bucket_of_ok [of w ?v "scaled rnd p pos" first] assms(2,3,5) by (auto simp: find_bucket_def)
  have "fs ! j < pos" if "first" "j < r" for j
  proof (rule ccontr)
    assume "\<not> fs ! j < pos"
    then have "scaled rnd p pos \<le> ?v j" by (intro scaled_mono assms(1)) simp
    then show False using r(2) that by (auto simp: bucket_ok_def split: if_splits)
  qed
  then show ?thesis using m'(1) r by blast
qed

theorem histogram_bucket_found_witness:
  "\<exists>m' r. fill_values (\<lambda>x. x) \<lparr>hb_type = SINGLE_PREC_HB, hb_size = 3, hb_values = 100\<rparr> 0 [0.2, 0.4, 0.8] (\<lambda>a. 0) = Inr m' \<and>
     find_bucket (\<lambda>x. x) m' \<lparr>hb_type = SINGLE_PREC_HB, hb_size = 3, hb_values = 100\<rparr> 0.6 True = Some (Inr r) \<and> r < 3"
  using histogram_bucket_found [OF rnd_ok_exact, of "\<lparr>hb_type = SINGLE_PREC_HB, hb_size = 3, hb_values = 100\<rparr>" 3 255 "[0.2, 0.4, 0.8]" "0.6" "\<lambda>a. 0" True]
  by (auto simp: get_width_def prec_factor_def bucket_ok_def)

text \<open>
  Property C37: a histogram of two buckets is read past its end. Whenever the position, scaled and truncated to the
  precision of the stored values, exceeds the last bound, the search reads the bound after it, which the
  assertion of \<open>get_value\<close> forbids. The witness fills a histogram with \<open>set_value\<close>
  and searches it past its end, with bounds and position between 0 and 1.
\<close>

theorem two_buckets_overrun:
  assumes "get_width h = Some 2" and "prec_factor h = Some p" and "get_value m h 1 = Inr x"
    and "to_uint 32 (rnd (pos * real p)) = Some val" and "x < val"
  shows "find_bucket rnd m h pos first = Some (Inl OutsideArray)"
proof -
  have "get_value m h 2 = Inl OutsideArray" using assms(1) by (simp add: get_value_def)
  then have "find_loop (get_value m h) val 0 1 1 1 = Some (Inl OutsideArray)"
    using assms(3,5) by (subst find_loop.simps) (simp add: numeral_2_eq_2)
  then show ?thesis using assms(1,2,4) by (simp add: find_bucket_def find_bucket_of_def)
qed

theorem two_buckets_overrun_witness:
  "\<exists>m. fill_values (\<lambda>x. x) \<lparr>hb_type = SINGLE_PREC_HB, hb_size = 2, hb_values = 100\<rparr> 0 [0.2, 0.4] (\<lambda>a. 0) = Inr m \<and>
     find_bucket (\<lambda>x. x) m \<lparr>hb_type = SINGLE_PREC_HB, hb_size = 2, hb_values = 100\<rparr> 0.6 True = Some (Inl OutsideArray)"
proof -
  let ?h = "\<lparr>hb_type = SINGLE_PREC_HB, hb_size = 2, hb_values = 100\<rparr>"
  have h: "get_width ?h = Some 2" "prec_factor ?h = Some 255" by (simp_all add: get_width_def prec_factor_def)
  obtain m where m: "fill_values (\<lambda>x. x) ?h 0 [0.2, 0.4] (\<lambda>a. 0) = Inr m" "\<forall>k < 2. get_value m ?h (0 + k) = Inr (scaled (\<lambda>x. x) 255 ([0.2, 0.4] ! k))"
    using fill_values_get [OF rnd_ok_exact h, of 0 "[0.2, 0.4]" "\<lambda>a. 0"] by auto
  have "get_value m ?h 1 = Inr 102" using spec [OF m(2), of 1] by (simp add: scaled_def)
  moreover have "to_uint 32 (0.6 * real 255) = Some 153" by (simp add: to_uint_def)
  ultimately have "find_bucket (\<lambda>x. x) m ?h 0.6 True = Some (Inl OutsideArray)"
    by (rule two_buckets_overrun [OF h]) simp
  with m(1) show ?thesis by blast
qed

text \<open>
  The collector counts, in 64 bits, the values, the distinct values and those that occur once.
\<close>

theorem stats_collected:
  "fold stats_next cnts Basic_stats_collector =
     \<lparr>bs_count = of_nat (sum_list (map unat cnts)), count_distinct = of_nat (length cnts),
      count_distinct_single_occurence = of_nat (length (filter (\<lambda>c. c = 1) cnts))\<rparr>"
proof -
  have "fold stats_next cnts s =
     \<lparr>bs_count = bs_count s + of_nat (sum_list (map unat cnts)), count_distinct = count_distinct s + of_nat (length cnts),
      count_distinct_single_occurence = count_distinct_single_occurence s + of_nat (length (filter (\<lambda>c. c = 1) cnts))\<rparr>" for s
  proof (induction cnts arbitrary: s)
    case (Cons c cnts)
    have "(ucast c :: u64) = of_nat (unat c)" by (simp add: word_unat_eq_iff unat_widen unat_of_nat take_bit_nat_eq_self less_trans [OF unat_less_exp])
    then show ?case using Cons by (simp add: stats_next_def Let_def add.assoc)
  qed simp
  then show ?thesis by (simp add: Basic_stats_collector_def)
qed

text \<open>
  The bitmap of a column. After a column is reset and some statistics are set, exactly the
  statistics of the eight columns after the name that were not set are null, and no statistics count as
  provided exactly if none of these was set.
\<close>

theorem column_statistics_bitmap:
  assumes "n < 32"
  shows "(stat_is_null n (fold set_not_null ns (set_all_nulls nulls)) \<longleftrightarrow> 3 \<le> n \<and> n \<le> 10 \<and> n \<notin> set ns) \<and>
    (no_stat_values_provided (fold set_not_null ns (set_all_nulls nulls)) \<longleftrightarrow> set ns \<inter> {3..10} = {})"
proof -
  have start: "bit (set_all_nulls nulls) k \<longleftrightarrow> 3 \<le> k \<and> k \<le> 10" for k
  proof -
    have mask: "no_values_provided_bitmap = push_bit 3 (mask 8)"
      by (simp add: no_values_provided_bitmap_def COLUMN_STAT_COLUMN_NAME_def COLUMN_STAT_HISTOGRAM_def mask_eq_exp_minus_1)
    show ?thesis unfolding set_all_nulls_def mask by (simp only: bit_push_bit_iff bit_mask_iff possible_bit_word) auto
  qed
  have same: "v = w \<longleftrightarrow> (\<forall>k. bit v k = bit w k)" for v w :: u32 by (auto intro: bit_eqI)
  have bits: "bit (fold set_not_null ns w) k \<longleftrightarrow> bit w k \<and> k \<notin> set ns" for k and w :: u32
    by (induction ns arbitrary: w) (auto simp: set_not_null_def bit_and_iff bit_not_iff bit_exp_iff dest: bit_imp_le_length)
  have "no_stat_values_provided (fold set_not_null ns (set_all_nulls nulls)) \<longleftrightarrow> (\<forall>k. 3 \<le> k \<and> k \<le> 10 \<longrightarrow> k \<notin> set ns)"
    unfolding no_stat_values_provided_def set_all_nulls_def [symmetric, of nulls] same bits start by blast
  then show ?thesis using assms by (auto simp: stat_is_null_def and_exp_eq_0_iff_not_bit bits start)
qed

theorem column_statistics_bitmap_witness:
  "\<not> stat_is_null 3 (fold set_not_null [3, 4] (set_all_nulls 0)) \<and> stat_is_null 5 (fold set_not_null [3, 4] (set_all_nulls 0))"
  using column_statistics_bitmap [of 3 "[3, 4]" 0] column_statistics_bitmap [of 5 "[3, 4]" 0] by simp

end
