(* ===== verification/WindowFunc.thy ===== *)
theory WindowFunc
  imports Doubles "HOL-Library.Signed_Division"
begin

text \<open>
  The window functions of \<open>item_windowfunc.h\<close> that are computed there: \<open>ROW_NUMBER\<close>, \<open>CUME_DIST\<close>,
  \<open>PERCENT_RANK\<close>, \<open>NTILE\<close>, \<open>PERCENTILE_DISC\<close> and \<open>PERCENTILE_CONT\<close>, the classification of the functions,
  and the phases of \<open>Item_window_func\<close>. The executor calls \<open>clear\<close> and \<open>set_partition_row_count\<close> at the start of a
  partition, then \<open>add\<close> for each row. The value of an argument or of the ordering expression at a row is an
  argument, \<open>None\<close> being null. Doubles are those of \<open>Doubles\<close>.
\<close>

section \<open>Row counts\<close>

text \<open>\<open>DIVISION_BY_ZERO\<close> stands for the undefined integer division.\<close>

datatype wf_error = ER_INVALID_NTILE_ARGUMENT | ER_ARGUMENT_OUT_OF_RANGE | ER_ARGUMENT_NOT_CONSTANT | DIVISION_BY_ZERO

record row_counts =
  partition_row_count :: u64
  current_row_count :: u64

definition set_partition_row_count :: "u64 \<Rightarrow> 'a row_counts_scheme \<Rightarrow> 'a row_counts_scheme" where
  "set_partition_row_count c s = s\<lparr>partition_row_count := c\<rparr>"

definition get_row_count :: "'a row_counts_scheme \<Rightarrow> int" where
  "get_row_count s = sint (partition_row_count s)"

text \<open>The first component is \<open>null_value\<close>.\<close>

definition calc_val_real :: "(real \<Rightarrow> real) \<Rightarrow> u64 \<Rightarrow> 'a row_counts_scheme \<Rightarrow> bool \<times> real" where
  "calc_val_real rnd current s =
     (if partition_row_count s = 0 then (True, 0)
      else (False, rnd (rnd (real (unat current)) / rnd (real (unat (partition_row_count s))))))"

definition count_row :: "'a row_counts_scheme \<Rightarrow> 'a row_counts_scheme" where
  "count_row s = s\<lparr>current_row_count := current_row_count s + 1\<rparr>"

text \<open>\<open>ROW_NUMBER\<close> keeps a signed counter.\<close>

definition row_number_clear :: u64 where "row_number_clear = 0"

definition row_number_add :: "u64 \<Rightarrow> u64" where "row_number_add c = c + 1"

text \<open>\<open>PERCENT_RANK\<close>: the value for the current rank; the rank is computed outside the header.\<close>

definition percent_rank_val :: "(real \<Rightarrow> real) \<Rightarrow> u64 \<Rightarrow> 'a row_counts_scheme \<Rightarrow> bool \<times> real" where
  "percent_rank_val rnd cur_rank s =
     (let rows = partition_row_count s
      in (\<not> rows > 0, if rows > 1 then rnd (rnd (real_of_int (sint (cur_rank - 1))) / rnd (real (unat (rows - 1)))) else 0))"

section \<open>\<open>NTILE\<close>\<close>

record ntile = row_counts +
  n_old_val :: u64

definition ntile_clear :: ntile where
  "ntile_clear = \<lparr>partition_row_count = 0, current_row_count = 0, n_old_val = 0\<rparr>"

text \<open>The result is a null flag with the value, or an error.\<close>

definition ntile_val_int :: "u64 \<Rightarrow> ntile \<Rightarrow> wf_error + (bool \<times> u64 \<times> ntile)" where
  "ntile_val_int num_quantiles s =
     (if get_row_count s = 0 then Inr (True, 0, s)
      else if sint num_quantiles \<le> 0 \<or> num_quantiles \<noteq> n_old_val s \<and> n_old_val s > 0 then Inl ER_INVALID_NTILE_ARGUMENT
      else let s = s\<lparr>n_old_val := num_quantiles\<rparr>;
               quantile_size = word_of_int (get_row_count s sdiv sint num_quantiles);
               extra_rows = word_of_int (get_row_count s) - quantile_size * num_quantiles
           in if current_row_count s \<le> extra_rows * (quantile_size + 1)
              then if quantile_size + 1 = 0 then Inl DIVISION_BY_ZERO else Inr (False, (current_row_count s - 1) div (quantile_size + 1) + 1, s)
              else if quantile_size = 0 then Inl DIVISION_BY_ZERO else Inr (False, (current_row_count s - 1 - extra_rows) div quantile_size + 1, s))"

section \<open>\<open>PERCENTILE_DISC\<close>\<close>

record 'v percentile_disc = row_counts +
  pd_value :: "'v option"
  val_calculated :: bool
  first_call :: bool
  prev_value :: real

definition disc_clear :: "real \<Rightarrow> 'v percentile_disc" where
  "disc_clear old_prev =
     \<lparr>partition_row_count = 0, current_row_count = 0, pd_value = None, val_calculated = False, first_call = True, prev_value = old_prev\<rparr>"

definition disc_check_arg :: "real \<Rightarrow> 'v percentile_disc \<Rightarrow> wf_error + 'v percentile_disc" where
  "disc_check_arg arg s =
     (if first_call s
      then if arg > 1 \<or> arg < 0 then Inl ER_ARGUMENT_OUT_OF_RANGE else Inr (s\<lparr>prev_value := arg, first_call := False\<rparr>)
      else if prev_value s \<noteq> arg then Inl ER_ARGUMENT_NOT_CONSTANT
      else Inr s)"

definition disc_add :: "(real \<Rightarrow> real) \<Rightarrow> real option \<Rightarrow> 'v option \<Rightarrow> 'v percentile_disc \<Rightarrow> wf_error + 'v percentile_disc" where
  "disc_add rnd arg order_item s =
     (case arg of
        None \<Rightarrow> Inr s
      | Some p \<Rightarrow>
          (case disc_check_arg p s of
             Inl e \<Rightarrow> Inl e
           | Inr s \<Rightarrow>
               if val_calculated s then Inr s
               else let s = s\<lparr>pd_value := order_item\<rparr>
                    in if order_item = None then Inr s
                       else let s = count_row s;
                                val = snd (calc_val_real rnd (current_row_count s) s)
                            in Inr (if val \<ge> prev_value s \<and> \<not> val_calculated s then s\<lparr>val_calculated := True\<rparr> else s)))"

text \<open>The null flag and the content of the cache, which is read by its own \<open>val\<close> functions.\<close>

definition disc_val :: "real option \<Rightarrow> 'v percentile_disc \<Rightarrow> bool \<times> 'v option" where
  "disc_val arg s = (if get_row_count s = 0 \<or> arg = None then (True, None) else (False, pd_value s))"

section \<open>\<open>PERCENTILE_CONT\<close>\<close>

record percentile_cont = row_counts +
  floor_value :: "real option"
  ceil_value :: "real option"
  pc_first_call :: bool
  pc_prev_value :: real
  ceil_val_calculated :: bool
  floor_val_calculated :: bool

definition cont_clear :: "real \<Rightarrow> percentile_cont" where
  "cont_clear old_prev =
     \<lparr>partition_row_count = 0, current_row_count = 0, floor_value = None, ceil_value = None, pc_first_call = True, pc_prev_value = old_prev,
      ceil_val_calculated = False, floor_val_calculated = False\<rparr>"

text \<open>The row number \<open>1 + prev_value * (rows - 1)\<close>, each operation rounded.\<close>

definition cont_row :: "(real \<Rightarrow> real) \<Rightarrow> percentile_cont \<Rightarrow> real" where
  "cont_row rnd s = rnd (1 + rnd (pc_prev_value s * rnd (real_of_int (get_row_count s - 1))))"

definition cont_check_arg :: "real \<Rightarrow> percentile_cont \<Rightarrow> wf_error + percentile_cont" where
  "cont_check_arg arg s =
     (if pc_first_call s
      then if arg > 1 \<or> arg < 0 then Inl ER_ARGUMENT_OUT_OF_RANGE else Inr (s\<lparr>pc_first_call := False, pc_prev_value := arg\<rparr>)
      else if pc_prev_value s \<noteq> arg then Inl ER_ARGUMENT_NOT_CONSTANT
      else Inr s)"

definition cont_count :: "(real \<Rightarrow> real) \<Rightarrow> percentile_cont \<Rightarrow> percentile_cont" where
  "cont_count rnd s =
     (let s = count_row s;
          val = cont_row rnd s;
          s = (if \<not> floor_val_calculated s \<and> rnd (real (unat (current_row_count s))) = of_int \<lfloor>val\<rfloor> then s\<lparr>floor_val_calculated := True\<rparr> else s)
      in if \<not> ceil_val_calculated s \<and> rnd (real (unat (current_row_count s))) = of_int \<lceil>val\<rceil> then s\<lparr>ceil_val_calculated := True\<rparr> else s)"

definition cont_add :: "(real \<Rightarrow> real) \<Rightarrow> real option \<Rightarrow> real option \<Rightarrow> percentile_cont \<Rightarrow> wf_error + percentile_cont" where
  "cont_add rnd arg order_item s =
     (case arg of
        None \<Rightarrow> Inr s
      | Some p \<Rightarrow>
          (case cont_check_arg p s of
             Inl e \<Rightarrow> Inl e
           | Inr s \<Rightarrow>
               let s = (if \<not> floor_val_calculated s then s\<lparr>floor_value := order_item\<rparr> else s)
               in if \<not> floor_val_calculated s \<and> order_item = None then Inr s
                  else let s = (if floor_val_calculated s \<and> \<not> ceil_val_calculated s then s\<lparr>ceil_value := order_item\<rparr> else s)
                       in if floor_val_calculated s \<and> \<not> ceil_val_calculated s \<and> order_item = None then Inr s
                          else Inr (cont_count rnd s)))"

text \<open>The first component is \<open>null_value\<close>; \<open>nul\<close> is what a cache without a value reads as.\<close>

definition cont_val :: "real \<Rightarrow> (real \<Rightarrow> real) \<Rightarrow> real option \<Rightarrow> percentile_cont \<Rightarrow> bool \<times> real" where
  "cont_val nul rnd arg s =
     (if get_row_count s = 0 \<or> arg = None then (True, 0)
      else let val = cont_row rnd s; f = case_option nul id (floor_value s); c = case_option nul id (ceil_value s)
           in (False,
               if \<lceil>val\<rceil> = \<lfloor>val\<rfloor> then f
               else rnd (rnd (rnd (val - of_int \<lfloor>val\<rfloor>) * c) + rnd (rnd (of_int \<lceil>val\<rceil> - val) * f))))"

section \<open>Classification and phases\<close>

datatype sumfunctype =
    COUNT_FUNC | COUNT_DISTINCT_FUNC | SUM_FUNC | SUM_DISTINCT_FUNC | AVG_FUNC | AVG_DISTINCT_FUNC | MIN_FUNC | MAX_FUNC | STD_FUNC
  | VARIANCE_FUNC | SUM_BIT_FUNC | UDF_SUM_FUNC | GROUP_CONCAT_FUNC | ROW_NUMBER_FUNC | RANK_FUNC | DENSE_RANK_FUNC | PERCENT_RANK_FUNC
  | CUME_DIST_FUNC | NTILE_FUNC | FIRST_VALUE_FUNC | LAST_VALUE_FUNC | NTH_VALUE_FUNC | LEAD_FUNC | LAG_FUNC | PERCENTILE_CONT_FUNC
  | PERCENTILE_DISC_FUNC | SP_AGGREGATE_FUNC | JSON_ARRAYAGG_FUNC | JSON_OBJECTAGG_FUNC

definition is_frame_prohibited :: "sumfunctype \<Rightarrow> bool" where
  "is_frame_prohibited f \<longleftrightarrow> f \<in> {ROW_NUMBER_FUNC, RANK_FUNC, DENSE_RANK_FUNC, PERCENT_RANK_FUNC, CUME_DIST_FUNC, NTILE_FUNC, PERCENTILE_CONT_FUNC, PERCENTILE_DISC_FUNC}"

definition requires_special_cursors :: "sumfunctype \<Rightarrow> bool" where
  "requires_special_cursors f \<longleftrightarrow> f \<in> {FIRST_VALUE_FUNC, LAST_VALUE_FUNC, NTH_VALUE_FUNC, LAG_FUNC, LEAD_FUNC}"

definition requires_partition_size :: "sumfunctype \<Rightarrow> bool" where
  "requires_partition_size f \<longleftrightarrow> f \<in> {PERCENT_RANK_FUNC, CUME_DIST_FUNC, NTILE_FUNC, PERCENTILE_CONT_FUNC, PERCENTILE_DISC_FUNC}"

definition requires_peer_size :: "sumfunctype \<Rightarrow> bool" where
  "requires_peer_size f \<longleftrightarrow> f = CUME_DIST_FUNC"

definition is_order_list_mandatory :: "sumfunctype \<Rightarrow> bool" where
  "is_order_list_mandatory f \<longleftrightarrow>
     f \<in> {RANK_FUNC, DENSE_RANK_FUNC, PERCENT_RANK_FUNC, CUME_DIST_FUNC, LAG_FUNC, LEAD_FUNC, PERCENTILE_CONT_FUNC, PERCENTILE_DISC_FUNC}"

definition only_single_element_order_list :: "sumfunctype \<Rightarrow> bool" where
  "only_single_element_order_list f \<longleftrightarrow> f \<in> {PERCENTILE_CONT_FUNC, PERCENTILE_DISC_FUNC}"

record window_item =
  force_return_blank :: bool
  read_value_from_result_field :: bool

definition set_phase_to_initial :: "window_item \<Rightarrow> window_item" where
  "set_phase_to_initial w = w\<lparr>force_return_blank := True, read_value_from_result_field := False\<rparr>"

definition set_phase_to_computation :: "window_item \<Rightarrow> window_item" where
  "set_phase_to_computation w = w\<lparr>force_return_blank := False, read_value_from_result_field := False\<rparr>"

definition set_phase_to_retrieval :: "window_item \<Rightarrow> window_item" where
  "set_phase_to_retrieval w = w\<lparr>force_return_blank := False, read_value_from_result_field := True\<rparr>"

text \<open>A field and a window function are their value and null flag.\<close>

definition wf_is_null :: "'v \<times> bool \<Rightarrow> 'v \<times> bool \<Rightarrow> window_item \<Rightarrow> bool" where
  "wf_is_null field func w =
     (if force_return_blank w then True else if read_value_from_result_field w then snd field else snd func)"

definition wf_val :: "'v \<Rightarrow> 'v \<times> bool \<Rightarrow> 'v \<times> bool \<Rightarrow> window_item \<Rightarrow> 'v \<times> bool" where
  "wf_val zero field func w =
     (if force_return_blank w then (zero, True) else if read_value_from_result_field w then (fst field, snd field) else (fst func, snd func))"

text \<open>Values behind a pointer are null pointers where a field is null.\<close>

definition wf_val_ptr :: "'v option \<times> bool \<Rightarrow> 'v option \<times> bool \<Rightarrow> window_item \<Rightarrow> 'v option \<times> bool" where
  "wf_val_ptr field func w =
     (if force_return_blank w then (None, True)
      else if read_value_from_result_field w then (if snd field then (None, True) else (fst field, False))
      else (fst func, snd func))"

section \<open>The quantile of a row\<close>

text \<open>The quantiles as SQL defines them: rows are numbered from 1, and the first \<open>n mod k\<close> quantiles get one row more.\<close>

definition tile :: "nat \<Rightarrow> nat \<Rightarrow> nat \<Rightarrow> nat" where
  "tile n k r =
     (let q = n div k; e = n mod k in if r \<le> e * (q + 1) then (r - 1) div (q + 1) + 1 else (r - 1 - e) div q + 1)"

definition tile_start :: "nat \<Rightarrow> nat \<Rightarrow> nat \<Rightarrow> nat" where
  "tile_start n k b = b * (n div k) + min b (n mod k)"

lemma div_eq_iff_between: "0 < c \<Longrightarrow> a div c = d \<longleftrightarrow> d * c \<le> a \<and> a < (d + 1) * c" for a c d :: nat
proof -
  assume c: "0 < c"
  have "a div c = d \<longleftrightarrow> d \<le> a div c \<and> a div c < d + 1" by auto
  then show ?thesis using c by (simp only: less_eq_div_iff_mult_less_eq div_less_iff_less_mult)
qed

lemma tile_iff:
  assumes "0 < k" and "1 \<le> r" and "r \<le> n"
  shows "tile n k r = Suc b \<longleftrightarrow> tile_start n k b < r \<and> r \<le> tile_start n k (Suc b)"
proof -
  define q e where qe: "q = n div k" "e = n mod k"
  have n: "n = k * q + e" "e < k" using assms(1) by (simp_all add: qe)
  show ?thesis
  proof (cases "r \<le> e * (q + 1)")
    case True
    have "tile n k r = Suc b \<longleftrightarrow> b * (q + 1) < r \<and> r \<le> (b + 1) * (q + 1)"
      using True div_eq_iff_between [of "q + 1" "r - 1" b] assms(2) unfolding tile_def by (auto simp: qe Let_def)
    also have "\<dots> \<longleftrightarrow> tile_start n k b < r \<and> r \<le> tile_start n k (Suc b)"
    proof (cases "b < e")
      case True
      then show ?thesis by (simp add: tile_start_def qe [symmetric] min_def algebra_simps)
    next
      case False
      then have mono: "e * (q + 1) \<le> b * (q + 1)" by (intro mult_le_mono1) simp
      then have "\<not> b * (q + 1) < r" using True by linarith
      moreover have "e * (q + 1) \<le> tile_start n k b" using False mult_le_mono1 [of e b q] by (simp add: tile_start_def qe [symmetric] min_def)
      ultimately have "\<not> b * (q + 1) < r" "e * (q + 1) \<le> tile_start n k b" by auto
      then show ?thesis using True by linarith
    qed
    finally show ?thesis .
  next
    case False
    then have q: "0 < q" using n assms(3) by (cases q) auto
    have "tile n k r = Suc b \<longleftrightarrow> (r - 1 - e) div q = b" using False unfolding tile_def by (auto simp: qe [symmetric] Let_def)
    also have "\<dots> \<longleftrightarrow> b * q \<le> r - 1 - e \<and> r - 1 - e < (b + 1) * q" by (rule div_eq_iff_between [OF q])
    also have "\<dots> \<longleftrightarrow> b * q + e < r \<and> r \<le> (b + 1) * q + e"
    proof -
      have "e < r" using False by simp
      then show ?thesis by arith
    qed
    also have "\<dots> \<longleftrightarrow> tile_start n k b < r \<and> r \<le> tile_start n k (Suc b)"
    proof (cases "b < e")
      case True
      have "(b + 1) * q \<le> e * q" "(b + 1) * (q + 1) \<le> e * (q + 1)" using True mult_le_mono1 [of "b + 1" e q] mult_le_mono1 [of "b + 1" e "q + 1"] by simp_all
      then show ?thesis using True False by (simp add: tile_start_def qe [symmetric] min_def)
    next
      case False
      then show ?thesis by (simp add: tile_start_def qe [symmetric] min_def)
    qed
    finally show ?thesis .
  qed
qed

lemma unat64: "n < 2 ^ 64 \<Longrightarrow> unat (of_nat n :: u64) = n"
  by (simp add: unat_of_nat take_bit_nat_eq_self)

lemma sint64: "n < 2 ^ 63 \<Longrightarrow> sint (of_nat n :: u64) = int n"
  by (simp add: sint_uint uint_nat unat64 signed_take_bit_int_eq_self)

lemma of_nat_div64: "a < 2 ^ 64 \<Longrightarrow> b < 2 ^ 64 \<Longrightarrow> (of_nat a :: u64) div of_nat b = of_nat (a div b)"
  by (rule word_unat_eq_iff [THEN iffD2]) (simp add: unat_div_distrib unat64 le_less_trans [OF div_le_dividend])

lemma ntile_val:
  assumes "1 \<le> r" and "r \<le> n" and "n < 2 ^ 63" and "0 < k" and "k < 2 ^ 63"
    and "partition_row_count s = of_nat n" and "current_row_count s = of_nat r" and "n_old_val s = 0 \<or> n_old_val s = of_nat k"
  shows "ntile_val_int (of_nat k) s = Inr (False, of_nat (tile n k r), s\<lparr>n_old_val := of_nat k\<rparr>)"
proof -
  define q e where qe: "q = n div k" "e = n mod k"
  have n: "n = k * q + e" "e < k" "q \<le> n" using assms(4) by (simp_all add: qe)
  have eq: "e * (q + 1) \<le> n" using mult_le_mono1 [of e k q] n by (simp add: algebra_simps)
  have rows: "get_row_count s = int n" using assms(3,6) by (simp add: get_row_count_def sint64)
  have size: "(word_of_int (int n sdiv int k) :: u64) = of_nat q"
  proof -
    have "int n sdiv int k = int q" using assms(4) by (simp add: signed_divide_int_def sgn_if zdiv_int qe)
    then show ?thesis by simp
  qed
  have extra: "(word_of_int (int n) :: u64) - of_nat q * of_nat k = of_nat e" by (simp add: n(1) algebra_simps)
  have prod: "(of_nat e * (of_nat q + 1) :: u64) = of_nat (e * (q + 1))" by (simp add: algebra_simps)
  have le: "(of_nat r :: u64) \<le> of_nat (e * (q + 1)) \<longleftrightarrow> r \<le> e * (q + 1)"
    using assms(2,3) eq by (simp add: word_le_nat_alt unat64 del: of_nat_mult of_nat_add)
  have pred: "(of_nat r - 1 :: u64) = of_nat (r - 1)" using assms(1) by (simp add: of_nat_diff)
  have nonzero: "(of_nat q + 1 :: u64) \<noteq> 0"
  proof -
    have "unat (of_nat (q + 1) :: u64) = q + 1" using n(3) assms(3) by (intro unat64) simp
    then show ?thesis by (metis Suc_eq_plus1 nat.distinct(1) of_nat_1 of_nat_add unsigned_0)
  qed
  have old: "\<not> (int k \<le> 0 \<or> (of_nat k :: u64) \<noteq> n_old_val s \<and> n_old_val s > 0)" using assms(4,8) by auto
  have fields: "get_row_count (s\<lparr>n_old_val := v\<rparr>) = int n" "current_row_count (s\<lparr>n_old_val := v\<rparr>) = of_nat r" for v
    using rows assms(7) by (simp_all add: get_row_count_def)
  have nz: "int n \<noteq> 0" using assms(1,2) by simp
  have step: "ntile_val_int (of_nat k) s =
      (if r \<le> e * (q + 1) then Inr (False, of_nat (r - 1) div (of_nat q + 1) + 1, s\<lparr>n_old_val := of_nat k\<rparr>)
       else if (of_nat q :: u64) = 0 then Inl DIVISION_BY_ZERO else Inr (False, (of_nat (r - 1) - of_nat e) div of_nat q + 1, s\<lparr>n_old_val := of_nat k\<rparr>))"
    unfolding ntile_val_int_def Let_def rows fields if_not_P [OF old] if_not_P [OF nz] sint64 [OF assms(5)] size extra prod le pred if_not_P [OF nonzero] ..
  show ?thesis
  proof (cases "r \<le> e * (q + 1)")
    case True
    have "r - 1 < 2 ^ 64" "q + 1 < 2 ^ 64" using assms(2,3) n(3) by simp_all
    from of_nat_div64 [OF this] have "(of_nat (r - 1) :: u64) div (of_nat q + 1) = of_nat ((r - 1) div (q + 1))" by (simp add: add.commute)
    then show ?thesis using True unfolding step tile_def by (simp add: qe [symmetric] add.commute)
  next
    case False
    then have q: "0 < q" using n assms(2) by (cases q) auto
    then have "(of_nat q :: u64) \<noteq> 0" using unat64 [of q] n(3) assms(3) by auto
    moreover have "e \<le> r - 1" using False by simp
    then have diff: "(of_nat (r - 1) - of_nat e :: u64) = of_nat (r - 1 - e)" by (rule of_nat_diff [symmetric])
    have quot: "(of_nat (r - 1 - e) :: u64) div of_nat q = of_nat ((r - 1 - e) div q)"
      by (rule of_nat_div64) (use assms(2,3) n(3) in simp_all)
    ultimately show ?thesis using False unfolding step diff quot tile_def by (simp add: qe [symmetric] add.commute)
  qed
qed

text \<open>A pass over the rows of a partition: each row is added and the value is read.\<close>

fun ntile_rows :: "u64 \<Rightarrow> nat \<Rightarrow> ntile \<Rightarrow> wf_error + (u64 list \<times> ntile)" where
  "ntile_rows k 0 s = Inr ([], s)"
| "ntile_rows k (Suc j) s =
     (case ntile_val_int k (count_row s) of
        Inl e \<Rightarrow> Inl e
      | Inr (_, v, s) \<Rightarrow> (case ntile_rows k j s of Inl e \<Rightarrow> Inl e | Inr (vs, s) \<Rightarrow> Inr (v # vs, s)))"

lemma ntile_rows_tiles:
  assumes "n < 2 ^ 63" and "0 < k" and "k < 2 ^ 63" and "r + j \<le> n"
    and "partition_row_count s = of_nat n" and "current_row_count s = of_nat r" and "n_old_val s = 0 \<or> n_old_val s = of_nat k"
  shows "\<exists>s'. ntile_rows (of_nat k) j s = Inr (map (\<lambda>i. of_nat (tile n k i)) [Suc r..<Suc (r + j)], s')"
  using assms(4-7)
proof (induction j arbitrary: r s)
  case (Suc j)
  have step: "ntile_val_int (of_nat k) (count_row s) = Inr (False, of_nat (tile n k (Suc r)), count_row s\<lparr>n_old_val := of_nat k\<rparr>)"
    by (rule ntile_val) (use assms(1-3) Suc.prems in \<open>simp_all add: count_row_def add.commute\<close>)
  obtain s' where "ntile_rows (of_nat k) j (count_row s\<lparr>n_old_val := of_nat k\<rparr>) = Inr (map (\<lambda>i. of_nat (tile n k i)) [Suc (Suc r)..<Suc (Suc r + j)], s')"
    using Suc.IH [of "Suc r" "count_row s\<lparr>n_old_val := of_nat k\<rparr>"] Suc.prems by (auto simp: count_row_def add.commute)
  then show ?case using step by (simp add: upt_conv_Cons del: upt_Suc)
qed simp

lemma tile_start_mono: "b \<le> c \<Longrightarrow> tile_start n k b \<le> tile_start n k c"
  unfolding tile_start_def by (intro add_mono mult_le_mono1 min.mono) simp_all

lemma tile_mono:
  assumes "0 < k" and "1 \<le> r" and "r \<le> r'" and "r' \<le> n"
  shows "tile n k r \<le> tile n k r'"
proof (rule ccontr)
  assume "\<not> tile n k r \<le> tile n k r'"
  moreover have "0 < tile n k i" for i by (simp add: tile_def Let_def)
  then obtain b b' where b: "tile n k r = Suc b" "tile n k r' = Suc b'" by (metis gr0_conv_Suc)
  ultimately have "Suc b' \<le> b" by simp
  then have "tile_start n k (Suc b') \<le> tile_start n k b" by (rule tile_start_mono)
  then show False using tile_iff [OF assms(1), of r n b] tile_iff [OF assms(1), of r' n b'] assms(2-4) b by simp
qed

lemma tile_le: "1 \<le> r \<Longrightarrow> tile n k r \<le> r"
proof -
  assume r: "1 \<le> r"
  have "(r - 1) div c + 1 \<le> r" "(r - 1 - e) div c + 1 \<le> r" for c e
    using r div_le_dividend [of "r - 1" c] div_le_dividend [of "r - 1 - e" c] by linarith+
  then show ?thesis unfolding tile_def Let_def by presburger
qed

lemma tile_start_all: "0 < k \<Longrightarrow> tile_start n k k = n"
  using mod_less_divisor [of k n] unfolding tile_start_def by (simp only: min_absorb2 less_imp_le mult_div_mod_eq)

lemma tile_size:
  assumes "0 < k" and "b < k"
  shows "length (filter (\<lambda>r. tile n k r = Suc b) [1..<Suc n]) = n div k + (if b < n mod k then 1 else 0)"
proof -
  have "tile_start n k (Suc b) \<le> n" using tile_start_mono [of "Suc b" k n k] tile_start_all [OF assms(1), of n] assms(2) by simp
  then have "{r. tile n k r = Suc b} \<inter> set [1..<Suc n] = {tile_start n k b<..tile_start n k (Suc b)}"
    using tile_iff [OF assms(1)] by auto
  then have "length (filter (\<lambda>r. tile n k r = Suc b) [1..<Suc n]) = tile_start n k (Suc b) - tile_start n k b"
    by (subst distinct_length_filter) simp_all
  also have "\<dots> = n div k + (if b < n mod k then 1 else 0)" by (auto simp: tile_start_def min_def)
  finally show ?thesis .
qed

text \<open>
  Property C35: \<open>NTILE\<close> divides a partition fairly. For any number of rows and of quantiles, the pass over
  the rows ends without an error, the quantiles it returns ascend, and quantile \<open>b\<close> of \<open>k\<close> gets a \<open>k\<close>-th
  of the rows, the first ones one row more until the remainder is used up.
\<close>

theorem ntile_divides_fairly:
  assumes "n < 2 ^ 63" and "0 < k" and "k < 2 ^ 63"
  shows "\<exists>ts s. ntile_rows (of_nat k) n (set_partition_row_count (of_nat n) ntile_clear) = Inr (ts, s) \<and> length ts = n \<and> sorted (map unat ts) \<and>
    (\<forall>b < k. length (filter (\<lambda>t. unat t = Suc b) ts) = n div k + (if b < n mod k then 1 else 0))"
proof -
  let ?f = "\<lambda>i. of_nat (tile n k i) :: u64"
  obtain s where run: "ntile_rows (of_nat k) n (set_partition_row_count (of_nat n) ntile_clear) = Inr (map ?f [1..<Suc n], s)"
    using ntile_rows_tiles [OF assms, of 0 n "set_partition_row_count (of_nat n) ntile_clear"]
    by (auto simp: set_partition_row_count_def ntile_clear_def)
  have val: "unat (?f r) = tile n k r" if "r \<in> set [1..<Suc n]" for r
  proof -
    have "1 \<le> r" "r \<le> n" using that by auto
    then have "tile n k r < 2 ^ 64" using tile_le [of r n k] assms(1) by simp
    then show ?thesis by (rule unat64)
  qed
  then have ts: "map unat (map ?f [1..<Suc n]) = map (tile n k) [1..<Suc n]" by (simp del: upt_Suc)
  have "sorted (map (tile n k) [1..<Suc n])"
    using tile_mono [OF assms(2)] by (auto simp: sorted_iff_nth_mono simp del: upt_Suc)
  moreover have "length (filter (\<lambda>t. unat t = Suc b) (map ?f [1..<Suc n])) = length (filter (\<lambda>r. tile n k r = Suc b) [1..<Suc n])" for b
  proof -
    have "filter (\<lambda>r. unat (?f r) = Suc b) [1..<Suc n] = filter (\<lambda>r. tile n k r = Suc b) [1..<Suc n]"
      by (rule filter_cong) (simp_all only: val)
    then show ?thesis by (simp only: filter_map length_map comp_def)
  qed
  moreover have "length (map ?f [1..<Suc n]) = n" by (simp only: length_map length_upt diff_Suc_1)
  ultimately have "length (map ?f [1..<Suc n]) = n" "sorted (map unat (map ?f [1..<Suc n]))"
    "\<forall>b < k. length (filter (\<lambda>t. unat t = Suc b) (map ?f [1..<Suc n])) = n div k + (if b < n mod k then 1 else 0)"
    unfolding ts using tile_size [OF assms(2)] by (simp_all only: simp_thms) blast
  then show ?thesis using run by blast
qed

theorem ntile_divides_fairly_witness:
  "\<exists>ts s. ntile_rows 3 8 (set_partition_row_count 8 ntile_clear) = Inr (ts, s) \<and> length (filter (\<lambda>t. unat t = 1) ts) = 3 \<and>
     length (filter (\<lambda>t. unat t = 3) ts) = 2"
proof -
  obtain ts s where r: "ntile_rows 3 8 (set_partition_row_count 8 ntile_clear) = Inr (ts, s)"
    "\<forall>b < 3. length (filter (\<lambda>t. unat t = Suc b) ts) = 8 div 3 + (if b < 8 mod 3 then 1 else 0)"
    using ntile_divides_fairly [of 8 3] by auto
  have "length (filter (\<lambda>t. unat t = 1) ts) = 3" using r(2) [rule_format, of 0] by simp
  moreover have "length (filter (\<lambda>t. unat t = 3) ts) = 2" using r(2) [rule_format, of 2] by simp
  ultimately show ?thesis using r(1) by blast
qed

section \<open>Percentiles\<close>

fun disc_rows :: "(real \<Rightarrow> real) \<Rightarrow> real \<Rightarrow> 'v list \<Rightarrow> 'v percentile_disc \<Rightarrow> wf_error + 'v percentile_disc" where
  "disc_rows rnd p [] s = Inr s"
| "disc_rows rnd p (v # vs) s = (case disc_add rnd (Some p) (Some v) s of Inl e \<Rightarrow> Inl e | Inr s \<Rightarrow> disc_rows rnd p vs s)"

lemma disc_rows_done: "val_calculated s \<Longrightarrow> \<not> first_call s \<Longrightarrow> prev_value s = p \<Longrightarrow> disc_rows rnd p vs s = Inr s"
  by (induction vs) (simp_all add: disc_add_def disc_check_arg_def)

lemma disc_rows_search:
  assumes "rnd_ok rnd" and "0 \<le> p" and "p \<le> 1" and "n < 2 ^ 53" and "vs \<noteq> []" and "j + length vs = n"
    and "partition_row_count s = of_nat n" and "current_row_count s = of_nat j" and "\<not> val_calculated s" and "first_call s \<or> prev_value s = p"
  shows "\<exists>k s'. k < length vs \<and> disc_rows rnd p vs s = Inr s' \<and> pd_value s' = Some (vs ! k) \<and> partition_row_count s' = of_nat n \<and>
    p \<le> rnd (real (j + k + 1) / real n) \<and> (\<forall>i < k. rnd (real (j + i + 1) / real n) < p)"
  using assms(5-10)
proof (induction vs arbitrary: j s)
  case (Cons v vs)
  define x where "x = rnd (real (j + 1) / real n)"
  define s1 where "s1 = (count_row ((if first_call s then s\<lparr>prev_value := p, first_call := False\<rparr> else s)\<lparr>pd_value := Some v\<rparr>) :: 'a percentile_disc)"
  have fields: "partition_row_count s1 = of_nat n" "current_row_count s1 = of_nat (Suc j)" "\<not> val_calculated s1" "\<not> first_call s1" "prev_value s1 = p" "pd_value s1 = Some v"
    using Cons.prems by (auto simp: s1_def count_row_def add.commute)
  have n: "0 < n" "Suc j \<le> n" using Cons.prems(2) by auto
  then have u: "unat (of_nat n :: u64) = n" "unat (of_nat (Suc j) :: u64) = Suc j" using assms(4) by (simp_all add: unat64 del: of_nat_Suc)
  have "(of_nat n :: u64) \<noteq> 0" using u(1) n(1) by auto
  then have x: "snd (calc_val_real rnd (current_row_count s1) s1) = x"
    unfolding calc_val_real_def fields using u rnd_nat [OF assms(1), of n] rnd_nat [OF assms(1), of "Suc j"] n(2) assms(4) by (simp add: x_def del: of_nat_Suc)
  have step: "disc_add rnd (Some p) (Some v) s = Inr (if p \<le> x then s1\<lparr>val_calculated := True\<rparr> else s1)"
    using Cons.prems(5,6) assms(2,3) x fields(3,5) unfolding disc_add_def disc_check_arg_def s1_def by (auto simp: Let_def count_row_def)
  show ?case
  proof (cases "p \<le> x")
    case True
    have "disc_rows rnd p vs (s1\<lparr>val_calculated := True\<rparr>) = Inr (s1\<lparr>val_calculated := True\<rparr>)" by (rule disc_rows_done) (use fields in simp_all)
    then show ?thesis using step True fields by (intro exI [of _ 0] exI [of _ "s1\<lparr>val_calculated := True\<rparr>"]) (simp add: x_def)
  next
    case False
    have "vs \<noteq> []"
    proof
      assume "vs = []"
      then have "x = 1" using Cons.prems(2) n(1) rnd_nat [OF assms(1), of 1] by (simp add: x_def)
      then show False using False assms(3) by simp
    qed
    then obtain k s' where k: "k < length vs" "disc_rows rnd p vs s1 = Inr s'" "pd_value s' = Some (vs ! k)" "partition_row_count s' = of_nat n"
      "p \<le> rnd (real (Suc j + k + 1) / real n)" "\<forall>i < k. rnd (real (Suc j + i + 1) / real n) < p"
      using Cons.IH [of "Suc j" s1] Cons.prems(2) fields by (auto simp del: of_nat_Suc)
    have "rnd (real (j + i + 1) / real n) < p" if "i < Suc k" for i using that k(6) False by (cases i) (auto simp: x_def)
    then show ?thesis using step False k by (intro exI [of _ "Suc k"] exI [of _ s']) simp
  qed
qed simp

text \<open>
  \<open>PERCENTILE_DISC\<close> returns the first value whose cumulative distribution reaches the
  fraction, over the rows in the order of the window, whatever the rounding of the division.
\<close>

theorem percentile_disc_first_reached:
  assumes "rnd_ok rnd" and "0 \<le> p" and "p \<le> 1" and "length vs = n" and "0 < n" and "n < 2 ^ 53"
  shows "\<exists>k s. k < n \<and> disc_rows rnd p vs (set_partition_row_count (of_nat n) (disc_clear old)) = Inr s \<and> disc_val (Some p) s = (False, Some (vs ! k)) \<and>
    p \<le> rnd (real (k + 1) / real n) \<and> (\<forall>j < k. rnd (real (j + 1) / real n) < p)"
proof -
  let ?s = "set_partition_row_count (of_nat n) (disc_clear old)"
  obtain k s where k: "k < n" "disc_rows rnd p vs ?s = Inr s" "pd_value s = Some (vs ! k)" "partition_row_count s = of_nat n"
    "p \<le> rnd (real (k + 1) / real n)" "\<forall>j < k. rnd (real (j + 1) / real n) < p"
    using disc_rows_search [OF assms(1-3,6), of vs 0 ?s] assms(4,5) by (auto simp: set_partition_row_count_def disc_clear_def)
  have "get_row_count s = int n" using k(4) assms(6) by (simp add: get_row_count_def sint64)
  then show ?thesis using k assms(5) by (intro exI [of _ k] exI [of _ s]) (simp add: disc_val_def)
qed

theorem percentile_disc_first_reached_witness:
  "\<exists>k s. disc_rows (\<lambda>x. x) (1 / 2) [10, 20, 30, 40 :: nat] (set_partition_row_count 4 (disc_clear 0)) = Inr s \<and> disc_val (Some (1 / 2)) s = (False, Some ([10, 20, 30, 40] ! k)) \<and> k = 1"
proof -
  obtain k s where r: "disc_rows (\<lambda>x. x) (1 / 2) [10, 20, 30, 40 :: nat] (set_partition_row_count 4 (disc_clear 0)) = Inr s"
    "disc_val (Some (1 / 2)) s = (False, Some ([10, 20, 30, 40] ! k))" "1 / 2 \<le> real (k + 1) / 4" "\<forall>j < k. real (j + 1) / 4 < 1 / 2"
    using percentile_disc_first_reached [OF rnd_ok_exact, of "1 / 2" "[10, 20, 30, 40 :: nat]" 4 0] by auto
  have "1 \<le> k" using r(3) by simp
  moreover have "\<not> 1 < k" using r(4) by auto
  ultimately show ?thesis using r(1,2) by (intro exI [of _ k] exI [of _ s]) auto
qed

fun cont_rows :: "(real \<Rightarrow> real) \<Rightarrow> real \<Rightarrow> real list \<Rightarrow> percentile_cont \<Rightarrow> wf_error + percentile_cont" where
  "cont_rows rnd p [] s = Inr s"
| "cont_rows rnd p (v # vs) s = (case cont_add rnd (Some p) (Some v) s of Inl e \<Rightarrow> Inl e | Inr s \<Rightarrow> cont_rows rnd p vs s)"

text \<open>The row number between the first and the last row at which the value is interpolated.\<close>

definition target_row :: "(real \<Rightarrow> real) \<Rightarrow> real \<Rightarrow> nat \<Rightarrow> real" where
  "target_row rnd p n = rnd (1 + rnd (p * real (n - 1)))"

lemma target_row_bounds:
  assumes "rnd_ok rnd" and "0 \<le> p" and "p \<le> 1" and "0 < n" and "n < 2 ^ 53"
  shows "1 \<le> target_row rnd p n" and "target_row rnd p n \<le> real n"
proof -
  have "rnd (p * real (n - 1)) \<le> rnd (real (n - 1))" by (rule rnd_mono [OF assms(1)]) (use assms(3) in \<open>simp add: mult_left_le_one_le assms(2)\<close>)
  then have "rnd (1 + rnd (p * real (n - 1))) \<le> rnd (real n)"
    using rnd_nat [OF assms(1), of "n - 1"] assms(4,5) by (intro rnd_mono [OF assms(1)]) (simp add: of_nat_diff)
  then show "target_row rnd p n \<le> real n" using rnd_nat [OF assms(1,5)] by (simp add: target_row_def)
  have "rnd 0 \<le> rnd (p * real (n - 1))" by (rule rnd_mono [OF assms(1)]) (use assms(2) in simp)
  then have "rnd 1 \<le> rnd (1 + rnd (p * real (n - 1)))" using rnd_nat [OF assms(1), of 0] by (intro rnd_mono [OF assms(1)]) simp
  then show "1 \<le> target_row rnd p n" using rnd_nat [OF assms(1), of 1] by (simp add: target_row_def)
qed

definition cont_inv :: "(real \<Rightarrow> real) \<Rightarrow> real \<Rightarrow> real list \<Rightarrow> nat \<Rightarrow> percentile_cont \<Rightarrow> bool" where
  "cont_inv rnd p vs j s \<longleftrightarrow>
     (let x = target_row rnd p (length vs); f = nat \<lfloor>x\<rfloor>; c = nat \<lceil>x\<rceil>
      in partition_row_count s = of_nat (length vs) \<and> current_row_count s = of_nat j \<and> (if pc_first_call s then j = 0 else pc_prev_value s = p) \<and>
         floor_val_calculated s = (f \<le> j) \<and> ceil_val_calculated s = (c \<le> j) \<and> (1 \<le> j \<longrightarrow> floor_value s = Some (vs ! (min j f - 1))) \<and>
         (f < c \<and> c \<le> j \<longrightarrow> ceil_value s = Some (vs ! (c - 1))))"

lemma cont_step:
  assumes "rnd_ok rnd" and "0 \<le> p" and "p \<le> 1" and "length vs < 2 ^ 53" and "j < length vs" and "cont_inv rnd p vs j s"
  shows "\<exists>s'. cont_add rnd (Some p) (Some (vs ! j)) s = Inr s' \<and> cont_inv rnd p vs (Suc j) s'"
proof -
  define n x where nx: "n = length vs" "x = target_row rnd p n"
  define f c where fc: "f = nat \<lfloor>x\<rfloor>" "c = nat \<lceil>x\<rceil>"
  have "0 < n" "n < 2 ^ 53" using assms(4,5) unfolding nx by linarith+
  then have x: "1 \<le> x" "x \<le> real n" using target_row_bounds [OF assms(1-3), of n] unfolding nx(2) by blast+
  then have ints: "\<lfloor>x\<rfloor> = int f" "\<lceil>x\<rceil> = int c" "1 \<le> f" "f \<le> c" "c \<le> Suc f" unfolding fc by linarith+
  have inv: "partition_row_count s = of_nat n" "current_row_count s = of_nat j" "if pc_first_call s then j = 0 else pc_prev_value s = p"
    "floor_val_calculated s = (f \<le> j)" "ceil_val_calculated s = (c \<le> j)" "1 \<le> j \<longrightarrow> floor_value s = Some (vs ! (min j f - 1))"
    "f < c \<and> c \<le> j \<longrightarrow> ceil_value s = Some (vs ! (c - 1))"
    using assms(6) by (auto simp: cont_inv_def Let_def nx fc)
  define s1 where "s1 = (if pc_first_call s then s\<lparr>pc_first_call := False, pc_prev_value := p\<rparr> else s)"
  define s2 where "s2 = (if f \<le> j then s1 else s1\<lparr>floor_value := Some (vs ! j)\<rparr>)"
  define s3 where "s3 = (if f \<le> j \<and> j < c then s2\<lparr>ceil_value := Some (vs ! j)\<rparr> else s2)"
  have same: "partition_row_count s3 = of_nat n" "current_row_count s3 = of_nat j" "\<not> pc_first_call s3" "pc_prev_value s3 = p"
    "floor_val_calculated s3 = (f \<le> j)" "ceil_val_calculated s3 = (c \<le> j)"
    using inv(1-5) by (auto simp: s3_def s2_def s1_def)
  have "cont_check_arg p s = Inr s1" using inv(3) assms(2,3) by (auto simp: cont_check_arg_def s1_def)
  moreover have "floor_val_calculated s1 = (f \<le> j)" "ceil_val_calculated s1 = (c \<le> j)" using inv(4,5) by (simp_all add: s1_def)
  ultimately have run: "cont_add rnd (Some p) (Some (vs ! j)) s = Inr (cont_count rnd s3)"
    by (auto simp: cont_add_def Let_def s2_def s3_def not_le)
  have "real_of_int (get_row_count (count_row s3) - 1) = real (n - 1)"
    using same(1) assms(4,5) by (simp add: get_row_count_def count_row_def sint64 nx of_nat_diff)
  then have row: "cont_row rnd (count_row s3) = x"
    using rnd_nat [OF assms(1), of "n - 1"] assms(4) same(4) by (simp add: cont_row_def target_row_def nx count_row_def)
  have "unat (of_nat (Suc j) :: u64) = Suc j" using assms(4,5) by (intro unat64) simp
  then have cur: "rnd (real (unat (current_row_count (count_row s3)))) = real (Suc j)"
    using rnd_nat [OF assms(1), of "Suc j"] assms(4,5) same(2) by (simp add: count_row_def add.commute)
  have eqs: "real (Suc j) = real_of_int \<lfloor>x\<rfloor> \<longleftrightarrow> f = Suc j" "real (Suc j) = real_of_int \<lceil>x\<rceil> \<longleftrightarrow> c = Suc j" unfolding ints(1,2) by auto
  define s4 where "s4 = (count_row s3)\<lparr>ceil_val_calculated := c \<le> Suc j, floor_val_calculated := f \<le> Suc j\<rparr>"
  have count: "cont_count rnd s3 = s4"
    unfolding cont_count_def Let_def row using same(5,6) cur eqs row by (auto simp: s4_def count_row_def le_Suc_eq)
  have "cont_inv rnd p vs (Suc j) s4"
    unfolding cont_inv_def Let_def nx [symmetric] fc [symmetric] using same inv(6,7) ints(3-5)
    by (auto simp: s4_def count_row_def s3_def s2_def s1_def add.commute min_def le_Suc_eq)
  then show ?thesis using run count by simp
qed

lemma cont_rows_inv:
  assumes "rnd_ok rnd" and "0 \<le> p" and "p \<le> 1" and "length vs < 2 ^ 53" and "j \<le> length vs" and "cont_inv rnd p vs j s"
  shows "\<exists>s'. cont_rows rnd p (drop j vs) s = Inr s' \<and> cont_inv rnd p vs (length vs) s'"
  using assms(5,6)
proof (induction "length vs - j" arbitrary: j s)
  case (Suc k)
  have j: "j < length vs" using Suc.hyps(2) by simp
  from cont_step [OF assms(1-4) j Suc.prems(2)] obtain s1 where s1: "cont_add rnd (Some p) (Some (vs ! j)) s = Inr s1" "cont_inv rnd p vs (Suc j) s1" by blast
  have "\<exists>s'. cont_rows rnd p (drop (Suc j) vs) s1 = Inr s' \<and> cont_inv rnd p vs (length vs) s'"
    by (rule Suc.hyps(1)) (use Suc.hyps(2) j s1(2) in simp_all)
  then show ?case using s1(1) Cons_nth_drop_Suc [OF j, symmetric] by simp
qed simp

text \<open>
  \<open>PERCENTILE_CONT\<close> interpolates between the two rows around the target. For a fraction
  between 0 and 1, the row number \<open>1 + p * (n - 1)\<close>, rounded after each operation, lies between the first
  and the last row; after all rows were added the value is that of this row if the number is
  whole, and otherwise the interpolation of the row below and the row above it.
\<close>

theorem percentile_cont_interpolates:
  assumes "rnd_ok rnd" and "0 \<le> p" and "p \<le> 1" and "length vs = n" and "0 < n" and "n < 2 ^ 53" and "x = target_row rnd p n"
  shows "1 \<le> x \<and> x \<le> real n \<and>
    (\<exists>s. cont_rows rnd p vs (set_partition_row_count (of_nat n) (cont_clear old)) = Inr s \<and>
       cont_val nul rnd (Some p) s =
         (False,
          if \<lceil>x\<rceil> = \<lfloor>x\<rfloor> then vs ! (nat \<lfloor>x\<rfloor> - 1)
          else rnd (rnd (rnd (x - of_int \<lfloor>x\<rfloor>) * vs ! (nat \<lceil>x\<rceil> - 1)) + rnd (rnd (of_int \<lceil>x\<rceil> - x) * vs ! (nat \<lfloor>x\<rfloor> - 1)))))"
proof -
  let ?s = "set_partition_row_count (of_nat n) (cont_clear old)"
  have x: "1 \<le> x" "x \<le> real n" using target_row_bounds [OF assms(1-3,5,6)] assms(7) by auto
  then have b: "1 \<le> nat \<lfloor>x\<rfloor>" "nat \<lfloor>x\<rfloor> \<le> n" "nat \<lceil>x\<rceil> \<le> n" "\<lceil>x\<rceil> \<noteq> \<lfloor>x\<rfloor> \<Longrightarrow> nat \<lfloor>x\<rfloor> < nat \<lceil>x\<rceil>" by linarith+
  then have "1 \<le> nat \<lceil>x\<rceil>" using x by linarith
  then have "cont_inv rnd p vs 0 ?s" using x b(1) assms(4,7) by (simp add: cont_inv_def Let_def set_partition_row_count_def cont_clear_def)
  then obtain s where s: "cont_rows rnd p vs ?s = Inr s" "cont_inv rnd p vs n s"
    using cont_rows_inv [OF assms(1-3), of vs 0 ?s] assms(4,6) by auto
  have inv: "partition_row_count s = of_nat n" "pc_prev_value s = p" "floor_value s = Some (vs ! (nat \<lfloor>x\<rfloor> - 1))"
    "\<lceil>x\<rceil> \<noteq> \<lfloor>x\<rfloor> \<Longrightarrow> ceil_value s = Some (vs ! (nat \<lceil>x\<rceil> - 1))"
    using s(2) b assms(4,5,7) by (auto simp: cont_inv_def Let_def split: if_splits)
  have rows: "get_row_count s = int n" using inv(1) assms(6) by (simp add: get_row_count_def sint64)
  then have "cont_row rnd s = x"
    using rnd_nat [OF assms(1), of "n - 1"] assms(5,6,7) inv(2) by (simp add: cont_row_def target_row_def of_nat_diff)
  then have "cont_val nul rnd (Some p) s = (False, if \<lceil>x\<rceil> = \<lfloor>x\<rfloor> then vs ! (nat \<lfloor>x\<rfloor> - 1)
      else rnd (rnd (rnd (x - of_int \<lfloor>x\<rfloor>) * vs ! (nat \<lceil>x\<rceil> - 1)) + rnd (rnd (of_int \<lceil>x\<rceil> - x) * vs ! (nat \<lfloor>x\<rfloor> - 1))))"
    using rows assms(5) inv(3,4) by (simp add: cont_val_def Let_def)
  then show ?thesis using x s(1) by blast
qed

theorem percentile_cont_interpolates_witness:
  "\<exists>s. cont_rows (\<lambda>x. x) (1 / 2) [10, 20, 40, 80] (set_partition_row_count 4 (cont_clear 0)) = Inr s \<and> cont_val 0 (\<lambda>x. x) (Some (1 / 2)) s = (False, 30)"
proof -
  have t: "target_row (\<lambda>x. x) (1 / 2) 4 = 5 / 2" by (simp add: target_row_def)
  have fc: "\<lfloor>5 / 2 :: real\<rfloor> = 2" "\<lceil>5 / 2 :: real\<rceil> = 3" by (simp_all add: floor_eq_iff ceiling_eq_iff)
  show ?thesis
    using percentile_cont_interpolates [OF rnd_ok_exact, of "1 / 2" "[10, 20, 40, 80]" 4 "5 / 2" 0 0] unfolding t fc by (auto simp: numeral_3_eq_3)
qed

section \<open>The classification of the functions\<close>

lemma window_function_classes:
  "requires_special_cursors f \<Longrightarrow> \<not> is_frame_prohibited f" "requires_peer_size f \<Longrightarrow> requires_partition_size f" "requires_partition_size f \<Longrightarrow> is_frame_prohibited f"
  "only_single_element_order_list f \<Longrightarrow> is_order_list_mandatory f \<and> requires_partition_size f"
  by (auto simp: requires_special_cursors_def is_frame_prohibited_def requires_peer_size_def requires_partition_size_def only_single_element_order_list_def
      is_order_list_mandatory_def)

text \<open>
  The phases of a window item. Whatever phases it went through, a value stored into the result
  field during the computation is what is read in the retrieval phase, null if and only if it was null,
  and before the computation the item is null.
\<close>

theorem window_item_phases:
  "wf_val zero field func (set_phase_to_initial w) = (zero, True) \<and> wf_is_null field func (set_phase_to_initial w) \<and>
   (let result = wf_val zero field func (set_phase_to_computation w) in
    result = func \<and> wf_val zero result func' (set_phase_to_retrieval w') = func \<and> wf_is_null result func' (set_phase_to_retrieval w') = snd func) \<and>
   (let result = wf_val_ptr pfield pfunc (set_phase_to_computation w) in
    wf_val_ptr result pfunc' (set_phase_to_retrieval w') = (if snd pfunc then (None, True) else pfunc))"
  by (cases pfunc) (simp add: wf_val_def wf_val_ptr_def wf_is_null_def set_phase_to_initial_def set_phase_to_computation_def set_phase_to_retrieval_def)

end
