(* ===== verification/SpatialMbr.thy ===== *)
theory SpatialMbr
  imports Doubles
begin

text \<open>
  The minimum bounding rectangle \<open>MBR\<close> of \<open>spatial.h\<close>. Coordinates are finite \<open>double\<close>s, of which the code
  only compares values, except in \<open>buffer\<close>, whose results are rounded by \<open>rnd\<close> (\<open>Doubles\<close>). \<open>within\<close>, \<open>is_within\<close> here, is
  declared in the header but defined outside the sources: it is a parameter of \<open>overlaps\<close>.
\<close>

section \<open>Rectangles\<close>

record mbr =
  xmin :: real
  ymin :: real
  xmax :: real
  ymax :: real

definition DBL_MAX :: real where "DBL_MAX = (2 - 1 / 2 ^ 52) * 2 ^ 1023"

definition MBR0 :: mbr where
  "MBR0 = \<lparr>xmin = DBL_MAX, ymin = DBL_MAX, xmax = - DBL_MAX, ymax = - DBL_MAX\<rparr>"

definition MBR4 :: "real \<Rightarrow> real \<Rightarrow> real \<Rightarrow> real \<Rightarrow> mbr" where
  "MBR4 xmin_arg ymin_arg xmax_arg ymax_arg = \<lparr>xmin = xmin_arg, ymin = ymin_arg, xmax = xmax_arg, ymax = ymax_arg\<rparr>"

definition MBR_corners :: "real \<times> real \<Rightarrow> real \<times> real \<Rightarrow> mbr" where
  "MBR_corners p q = \<lparr>xmin = fst p, ymin = snd p, xmax = fst q, ymax = snd q\<rparr>"

definition add_xy :: "real \<Rightarrow> real \<Rightarrow> mbr \<Rightarrow> mbr" where
  "add_xy x y m =
     (let m = (if x < xmin m then m\<lparr>xmin := x\<rparr> else m);
          m = (if x > xmax m then m\<lparr>xmax := x\<rparr> else m);
          m = (if y < ymin m then m\<lparr>ymin := y\<rparr> else m)
      in if y > ymax m then m\<lparr>ymax := y\<rparr> else m)"

definition add_mbr :: "mbr \<Rightarrow> mbr \<Rightarrow> mbr" where
  "add_mbr b m =
     (let m = (if xmin b < xmin m then m\<lparr>xmin := xmin b\<rparr> else m);
          m = (if xmax b > xmax m then m\<lparr>xmax := xmax b\<rparr> else m);
          m = (if ymin b < ymin m then m\<lparr>ymin := ymin b\<rparr> else m)
      in if ymax b > ymax m then m\<lparr>ymax := ymax b\<rparr> else m)"

definition MBR_join :: "mbr \<Rightarrow> mbr \<Rightarrow> mbr" where
  "MBR_join mbr1 mbr2 = add_mbr mbr2 \<lparr>xmin = xmin mbr1, ymin = ymin mbr1, xmax = xmax mbr1, ymax = ymax mbr1\<rparr>"

definition mbr_buffer :: "(real \<Rightarrow> real) \<Rightarrow> real \<Rightarrow> mbr \<Rightarrow> mbr" where
  "mbr_buffer rnd d m = \<lparr>xmin = rnd (xmin m - d), ymin = rnd (ymin m - d), xmax = rnd (xmax m + d), ymax = rnd (ymax m + d)\<rparr>"

definition mbr_equals :: "mbr \<Rightarrow> mbr \<Rightarrow> bool" where
  "mbr_equals b m \<longleftrightarrow> xmin b = xmin m \<and> ymin b = ymin m \<and> xmax b = xmax m \<and> ymax b = ymax m"

definition mbr_disjoint :: "mbr \<Rightarrow> mbr \<Rightarrow> bool" where
  "mbr_disjoint b m \<longleftrightarrow> xmin b > xmax m \<or> ymin b > ymax m \<or> xmax b < xmin m \<or> ymax b < ymin m"

definition mbr_intersects :: "mbr \<Rightarrow> mbr \<Rightarrow> bool" where
  "mbr_intersects b m \<longleftrightarrow> \<not> mbr_disjoint b m"

definition touches :: "mbr \<Rightarrow> mbr \<Rightarrow> bool" where
  "touches b m \<longleftrightarrow>
     (xmin b = xmax m \<or> xmax b = xmin m) \<and> (ymin b \<ge> ymin m \<and> ymin b \<le> ymax m \<or> ymax b \<ge> ymin m \<and> ymax b \<le> ymax m) \<or>
     (ymin b = ymax m \<or> ymax b = ymin m) \<and> (xmin b \<ge> xmin m \<and> xmin b \<le> xmax m \<or> xmax b \<ge> xmin m \<and> xmax b \<le> xmax m)"

definition mbr_contains :: "mbr \<Rightarrow> mbr \<Rightarrow> bool" where
  "mbr_contains b m \<longleftrightarrow> xmin b \<ge> xmin m \<and> ymin b \<ge> ymin m \<and> xmax b \<le> xmax m \<and> ymax b \<le> ymax m"

definition inner_point :: "real \<Rightarrow> real \<Rightarrow> mbr \<Rightarrow> bool" where
  "inner_point x y m \<longleftrightarrow> xmin m < x \<and> xmax m > x \<and> ymin m < y \<and> ymax m > y"

definition dimension :: "mbr \<Rightarrow> int" where
  "dimension m =
     (let d = 0
      in if xmin m > xmax m then -1
         else let d = (if xmin m < xmax m then d + 1 else d)
              in if ymin m > ymax m then -1 else if ymin m < ymax m then d + 1 else d)"

definition overlaps :: "(mbr \<Rightarrow> mbr \<Rightarrow> bool) \<Rightarrow> mbr \<Rightarrow> mbr \<Rightarrow> bool" where
  "overlaps is_within b m =
     (let d = dimension m
      in if d \<noteq> dimension b \<or> d \<le> 0 \<or> mbr_contains b m \<or> is_within b m then False
         else d = dimension (MBR4 (max (xmin m) (xmin b)) (max (ymin m) (ymin b)) (min (xmax m) (xmax b)) (min (ymax m) (ymax b))))"

definition mbr_valid :: "mbr \<Rightarrow> bool" where
  "mbr_valid m \<longleftrightarrow> xmin m \<le> xmax m \<and> ymin m \<le> ymax m"

section \<open>Rectangles as sets of points\<close>

definition points :: "mbr \<Rightarrow> (real \<times> real) set" where
  "points m = {xmin m..xmax m} \<times> {ymin m..ymax m}"

definition inner :: "mbr \<Rightarrow> (real \<times> real) set" where
  "inner m = {xmin m<..<xmax m} \<times> {ymin m<..<ymax m}"

lemma points_iff: "(x, y) \<in> points m \<longleftrightarrow> xmin m \<le> x \<and> x \<le> xmax m \<and> ymin m \<le> y \<and> y \<le> ymax m"
  by (auto simp: points_def)

lemma inner_iff: "(x, y) \<in> inner m \<longleftrightarrow> inner_point x y m"
  by (auto simp: inner_def inner_point_def)

lemma contains_points:
  assumes "mbr_valid b"
  shows "mbr_contains b m \<longleftrightarrow> points b \<subseteq> points m"
proof
  assume "points b \<subseteq> points m"
  moreover have "(xmin b, ymin b) \<in> points b" "(xmax b, ymax b) \<in> points b" using assms by (auto simp: points_iff mbr_valid_def)
  ultimately have "(xmin b, ymin b) \<in> points m" "(xmax b, ymax b) \<in> points m" by blast+
  then show "mbr_contains b m" by (simp add: points_iff mbr_contains_def)
qed (auto simp: mbr_contains_def points_def)

lemma disjoint_points:
  assumes "mbr_valid b" and "mbr_valid m"
  shows "mbr_disjoint b m \<longleftrightarrow> points b \<inter> points m = {}"
proof
  assume "points b \<inter> points m = {}"
  then have "(max (xmin b) (xmin m), max (ymin b) (ymin m)) \<notin> points b \<inter> points m" by simp
  then show "mbr_disjoint b m" using assms by (auto simp: points_iff mbr_disjoint_def mbr_valid_def max_def split: if_splits)
qed (auto simp: mbr_disjoint_def points_def)

lemma inner_meet:
  assumes "max (xmin m) (xmin b) < min (xmax m) (xmax b)" and "max (ymin m) (ymin b) < min (ymax m) (ymax b)"
  shows "inner b \<inter> inner m \<noteq> {}"
proof -
  obtain x where x: "max (xmin m) (xmin b) < x" "x < min (xmax m) (xmax b)" using dense [OF assms(1)] by blast
  obtain y where y: "max (ymin m) (ymin b) < y" "y < min (ymax m) (ymax b)" using dense [OF assms(2)] by blast
  have "(x, y) \<in> inner b \<inter> inner m" using x y by (auto simp: inner_def)
  then show ?thesis by blast
qed

lemma dimension_2: "dimension m = 2 \<longleftrightarrow> xmin m < xmax m \<and> ymin m < ymax m"
  by (auto simp: dimension_def Let_def)

lemma overlaps_iff:
  assumes "dimension b = 2" and "dimension m = 2"
  shows "overlaps is_within b m \<longleftrightarrow> inner b \<inter> inner m \<noteq> {} \<and> \<not> mbr_contains b m \<and> \<not> is_within b m"
proof -
  let ?i = "MBR4 (max (xmin m) (xmin b)) (max (ymin m) (ymin b)) (min (xmax m) (xmax b)) (min (ymax m) (ymax b))"
  have "dimension ?i = 2 \<longleftrightarrow> inner b \<inter> inner m \<noteq> {}"
  proof
    assume "dimension ?i = 2"
    then show "inner b \<inter> inner m \<noteq> {}" by (intro inner_meet) (simp_all add: dimension_2 MBR4_def)
  next
    assume "inner b \<inter> inner m \<noteq> {}"
    then obtain x y where "(x, y) \<in> inner b" "(x, y) \<in> inner m" by auto
    then have "max (xmin m) (xmin b) < x \<and> x < min (xmax m) (xmax b) \<and> max (ymin m) (ymin b) < y \<and> y < min (ymax m) (ymax b)"
      by (auto simp: inner_iff inner_point_def)
    then show "dimension ?i = 2" unfolding dimension_2 MBR4_def by (auto intro: less_trans)
  qed
  then show ?thesis using assms unfolding overlaps_def Let_def by auto
qed

text \<open>
  The predicates on rectangles are the relations of their sets of points. For rectangles
  that are not empty, \<open>contains\<close>, \<open>disjoint\<close>, \<open>intersects\<close> and \<open>equals\<close> are inclusion, disjointness, meeting and equality
  of the closed rectangles, \<open>inner_point\<close> is the open rectangle, rectangles that touch meet in no
  inner point, and two proper rectangles overlap exactly if they share an inner point and neither
  contains the other, given what \<open>within\<close> decides.
\<close>

theorem mbr_predicates_on_points:
  assumes "mbr_valid b" and "mbr_valid m"
  shows "(mbr_contains b m \<longleftrightarrow> points b \<subseteq> points m) \<and> (mbr_disjoint b m \<longleftrightarrow> points b \<inter> points m = {}) \<and>
    (mbr_intersects b m \<longleftrightarrow> points b \<inter> points m \<noteq> {}) \<and> (mbr_equals b m \<longleftrightarrow> points b = points m) \<and>
    (inner_point x y m \<longleftrightarrow> (x, y) \<in> inner m) \<and> (touches b m \<longrightarrow> points b \<inter> points m \<noteq> {} \<and> inner b \<inter> inner m = {}) \<and>
    (dimension b = 2 \<and> dimension m = 2 \<longrightarrow>
       overlaps is_within b m = (inner b \<inter> inner m \<noteq> {} \<and> \<not> points b \<subseteq> points m \<and> \<not> is_within b m))"
proof -
  have "mbr_equals b m \<longleftrightarrow> mbr_contains b m \<and> mbr_contains m b" by (auto simp: mbr_equals_def mbr_contains_def)
  then have eq: "mbr_equals b m \<longleftrightarrow> points b = points m" using contains_points assms by auto
  have "touches b m \<Longrightarrow> \<not> mbr_disjoint b m" using assms by (auto simp: touches_def mbr_disjoint_def mbr_valid_def)
  moreover have "touches b m \<Longrightarrow> inner b \<inter> inner m = {}" by (auto simp: touches_def inner_def)
  ultimately show ?thesis
    using eq contains_points [OF assms(1)] disjoint_points [OF assms] overlaps_iff [of b m is_within] by (auto simp: mbr_intersects_def inner_iff)
qed

theorem mbr_predicates_on_points_witness:
  "points (MBR4 1 1 2 2) \<subseteq> points (MBR4 0 0 3 3) \<and> mbr_contains (MBR4 1 1 2 2) (MBR4 0 0 3 3)"
  using mbr_predicates_on_points [of "MBR4 1 1 2 2" "MBR4 0 0 3 3"] by (simp add: mbr_valid_def mbr_contains_def MBR4_def)

text \<open>
  \<open>touches\<close> depends on which rectangle is asked. Two rectangles that share a part of a side
  touch when the longer one is asked and do not when the shorter one is, since only the ends of the
  other side are compared with it.
\<close>

theorem touches_not_symmetric:
  "touches (MBR4 0 0 1 1) (MBR4 1 (-1) 2 2) \<and> \<not> touches (MBR4 1 (-1) 2 2) (MBR4 0 0 1 1) \<and>
   points (MBR4 0 0 1 1) \<inter> points (MBR4 1 (-1) 2 2) = {1} \<times> {0..1}"
  by (auto simp: touches_def MBR4_def points_def)

section \<open>Bounding rectangles\<close>

lemma add_xy_bounds:
  "xmin (add_xy x y m) = min x (xmin m)" "xmax (add_xy x y m) = max x (xmax m)" "ymin (add_xy x y m) = min y (ymin m)" "ymax (add_xy x y m) = max y (ymax m)"
  by (auto simp: add_xy_def Let_def min_def max_def)

lemma add_mbr_bounds:
  "xmin (add_mbr b m) = min (xmin b) (xmin m)" "xmax (add_mbr b m) = max (xmax b) (xmax m)" "ymin (add_mbr b m) = min (ymin b) (ymin m)" "ymax (add_mbr b m) = max (ymax b) (ymax m)"
  by (auto simp: add_mbr_def Let_def min_def max_def)

abbreviation add_points :: "(real \<times> real) list \<Rightarrow> mbr \<Rightarrow> mbr" where
  "add_points ps m \<equiv> fold (\<lambda>p. add_xy (fst p) (snd p)) ps m"

lemma add_points_contains:
  "mbr_contains (add_points ps m) m' \<longleftrightarrow> mbr_contains m m' \<and> (\<forall>p\<in>set ps. p \<in> points m')"
proof (induction ps arbitrary: m)
  case (Cons p ps)
  have "mbr_contains (add_xy (fst p) (snd p) m) m' \<longleftrightarrow> mbr_contains m m' \<and> p \<in> points m'"
    by (cases p) (auto simp: mbr_contains_def add_xy_bounds points_iff)
  then show ?case using Cons by auto
qed simp

lemma mbr_contains_refl: "mbr_contains m m"
  by (simp add: mbr_contains_def)

text \<open>
  Collecting points yields the smallest rectangle around them. Starting from the empty
  rectangle, whose bounds are the extreme doubles, adding points one by one gives a rectangle that
  contains each of them and lies in every rectangle that does, for all finite coordinates; and the join of two
  rectangles is the smallest that contains both.
\<close>

theorem bounding_rectangle_least:
  assumes "ps \<noteq> []" and "\<forall>(x, y)\<in>set ps. \<bar>x\<bar> \<le> DBL_MAX \<and> \<bar>y\<bar> \<le> DBL_MAX" and "m = add_points ps MBR0"
  shows "mbr_valid m \<and> set ps \<subseteq> points m \<and> (set ps \<subseteq> points m' \<longrightarrow> mbr_contains m m') \<and>
    mbr_contains a (MBR_join a b) \<and> mbr_contains b (MBR_join a b) \<and> (mbr_contains a m' \<and> mbr_contains b m' \<longrightarrow> mbr_contains (MBR_join a b) m')"
proof -
  have in_m: "set ps \<subseteq> points m" using add_points_contains [of ps MBR0 m] assms(3) mbr_contains_refl [of m] by auto
  obtain x y where p: "(x, y) \<in> set ps" using assms(1) by (cases ps) auto
  then have "mbr_valid m" using in_m by (auto simp: mbr_valid_def points_iff)
  moreover have "mbr_contains m m'" if sub: "set ps \<subseteq> points m'"
  proof -
    have "(x, y) \<in> points m'" "\<bar>x\<bar> \<le> DBL_MAX" "\<bar>y\<bar> \<le> DBL_MAX" using p sub assms(2) by auto
    then have "xmin m' \<le> DBL_MAX" "- DBL_MAX \<le> xmax m'" "ymin m' \<le> DBL_MAX" "- DBL_MAX \<le> ymax m'" unfolding points_iff by linarith+
    then have "mbr_contains MBR0 m'" by (simp add: mbr_contains_def MBR0_def)
    then show ?thesis using add_points_contains [of ps MBR0 m'] sub assms(3) by auto
  qed
  ultimately show ?thesis using in_m by (auto simp: MBR_join_def mbr_contains_def add_mbr_bounds)
qed

theorem bounding_rectangle_least_witness:
  "mbr_valid (add_points [(1, 5), (3, 2)] MBR0) \<and> set [(1, 5), (3, 2)] \<subseteq> points (add_points [(1, 5), (3, 2)] MBR0)"
proof -
  have "(5 :: real) \<le> 1 * 2 ^ 1023" by (rule order.trans [of _ "2 ^ 3"]) (simp, simp add: power_increasing del: power_numeral)
  also have "\<dots> \<le> DBL_MAX" unfolding DBL_MAX_def by (intro mult_right_mono) simp_all
  finally have "5 \<le> DBL_MAX" .
  then have "\<forall>(x, y)\<in>set [(1, 5), (3, 2)]. \<bar>x\<bar> \<le> DBL_MAX \<and> \<bar>y\<bar> \<le> DBL_MAX" by simp
  from bounding_rectangle_least [OF _ this refl] show ?thesis by blast
qed

end
