(* ===== verification/MenuModel.thy ===== *)
theory MenuModel
  imports Prelude
begin

text \<open>
  The entities of the application (package \<open>model\<close>): \<open>Categorie\<close>, \<open>Plat\<close> and \<open>Menu\<close>. A Java \<open>int\<close>
  is a 32-bit word read with \<open>sint\<close>, so that the sums of \<open>Menu\<close> wrap as they do in Java; a
  \<open>Long\<close> identifier that may be null is an \<open>int option\<close>, a nullable string a \<open>string option\<close>.
  Prices are doubles that are only stored and compared: their type is a parameter. The set of
  dishes of a menu is the list of its elements without repetition, in no particular order.
\<close>

type_synonym i32 = "32 word"

record categorie =
  cat_id :: "int option"
  cat_nom :: "string option"

record plat =
  plat_id :: "int option"
  plat_nom :: "string option"
  nbCalories :: i32
  nbLipides :: i32
  nbProteines :: i32
  nbGlucides :: i32
  plat_categorie :: "categorie option"

record 'p menu =
  menu_id :: "int option"
  menu_nom :: "string option"
  description :: "string option"
  prix :: 'p
  plats :: "plat list"

text \<open>The constructors: fields not given are null or zero, a new menu has no dishes.\<close>

definition Categorie0 :: categorie where
  "Categorie0 = \<lparr>cat_id = None, cat_nom = None\<rparr>"

definition Categorie1 :: "string option \<Rightarrow> categorie" where
  "Categorie1 nom = \<lparr>cat_id = None, cat_nom = nom\<rparr>"

definition Plat0 :: plat where
  "Plat0 = \<lparr>plat_id = None, plat_nom = None, nbCalories = 0, nbLipides = 0, nbProteines = 0, nbGlucides = 0,
     plat_categorie = None\<rparr>"

definition Plat6 :: "string option \<Rightarrow> i32 \<Rightarrow> i32 \<Rightarrow> i32 \<Rightarrow> i32 \<Rightarrow> categorie option \<Rightarrow> plat" where
  "Plat6 nom cal glu lip prot c =
     \<lparr>plat_id = None, plat_nom = nom, nbCalories = cal, nbLipides = lip, nbProteines = prot, nbGlucides = glu,
      plat_categorie = c\<rparr>"

definition Menu0 :: "'p::zero menu" where
  "Menu0 = \<lparr>menu_id = None, menu_nom = None, description = None, prix = 0, plats = []\<rparr>"

definition Menu3 :: "string option \<Rightarrow> string option \<Rightarrow> 'p \<Rightarrow> 'p menu" where
  "Menu3 nom descr p = \<lparr>menu_id = None, menu_nom = nom, description = descr, prix = p, plats = []\<rparr>"

text \<open>\<open>stream().mapToInt(f).sum()\<close>: the 32-bit sum.\<close>

definition sum_int :: "(plat \<Rightarrow> i32) \<Rightarrow> plat list \<Rightarrow> i32" where
  "sum_int f ps = fold (\<lambda>p acc. acc + f p) ps 0"

definition getTotalCalories :: "'p menu \<Rightarrow> i32" where
  "getTotalCalories m = sum_int nbCalories (plats m)"

definition getTotalGlucides :: "'p menu \<Rightarrow> i32" where
  "getTotalGlucides m = sum_int nbGlucides (plats m)"

definition getTotalLipides :: "'p menu \<Rightarrow> i32" where
  "getTotalLipides m = sum_int nbLipides (plats m)"

definition getTotalProteines :: "'p menu \<Rightarrow> i32" where
  "getTotalProteines m = sum_int nbProteines (plats m)"

lemma sum_int_list: "sum_int f ps = (\<Sum>p\<leftarrow>ps. f p)"
proof -
  have "fold (\<lambda>p acc. acc + f p) ps a = a + (\<Sum>p\<leftarrow>ps. f p)" for a
    by (induction ps arbitrary: a) (simp_all add: add.assoc)
  then show ?thesis by (simp add: sum_int_def)
qed

lemma sum_words: "(\<Sum>x\<leftarrow>xs. (f x :: i32)) = word_of_int (\<Sum>x\<leftarrow>xs. sint (f x))"
  by (induction xs) simp_all

lemma sint_sum_int: "sint (sum_int f ps) = signed_take_bit 31 (\<Sum>p\<leftarrow>ps. sint (f p))"
  unfolding sum_int_list sum_words by (simp add: sint_sbintrunc')

lemma sum_int_exact:
  assumes "- (2 ^ 31) \<le> (\<Sum>p\<leftarrow>ps. sint (f p))" and "(\<Sum>p\<leftarrow>ps. sint (f p)) < 2 ^ 31"
  shows "sint (sum_int f ps) = (\<Sum>p\<leftarrow>ps. sint (f p))"
  using assms unfolding sint_sum_int by (simp add: signed_take_bit_int_eq_self)

lemma sum_int_perm: "set ps = set qs \<Longrightarrow> distinct ps \<Longrightarrow> distinct qs \<Longrightarrow> sum_int f ps = sum_int f qs"
  unfolding sum_int_list by (metis sum.distinct_set_conv_list)

end
