(* ===== verification/MenuQueries.thy ===== *)
theory MenuQueries
  imports MenuModel "HOL-Library.Multiset"
begin

text \<open>
  The repositories of the application. Spring Data and the database are not part of the
  sources: their operations are the fields of the record \<open>spring\<close>, a parameter of every
  definition that uses them. The queries the repositories add are in the sources; the \<open>where\<close>
  clause of each is a predicate on rows, in which a comparison with null is not true.
  What the application relies on is stated as the named hypotheses \<open>paging_ok\<close> (a \<open>Page\<close> is a
  slice of the rows that satisfy the query, in some order that respects the sort), \<open>plat_columns_ok\<close> (numbers are sorted as numbers), \<open>store_ok\<close> (what \<open>save\<close>, \<open>findById\<close> and
  \<open>deleteById\<close> document) and \<open>like_ok\<close> (SQL \<open>LIKE\<close> with a wildcard at both ends).
\<close>

section \<open>Interfaces of the framework\<close>

datatype web_error = IllegalArgument | DataAccess

datatype direction = Ascending | Descending

datatype sort_order = Unsorted | SortBy string direction

text \<open>
  \<open>query\<close> runs a query with a page request; it can fail. \<open>column_le\<close> is the order in which the database sorts by
  an attribute.
\<close>

record ('s, 'e, 'pg) repository =
  findById :: "int \<Rightarrow> 's \<Rightarrow> 'e option"
  findAll :: "'s \<Rightarrow> 'e list"
  getReferenceById :: "int \<Rightarrow> 's \<Rightarrow> 'e"
  save :: "'e \<Rightarrow> 's \<Rightarrow> web_error + 'e \<times> 's"
  deleteById :: "int \<Rightarrow> 's \<Rightarrow> web_error + 's"
  query :: "('e \<Rightarrow> bool) \<Rightarrow> 'pg \<Rightarrow> 's \<Rightarrow> web_error + 'e list"
  column_le :: "string \<Rightarrow> 'e \<Rightarrow> 'e \<Rightarrow> bool"

record ('s, 'p, 'pg) spring =
  categorieRepository :: "('s, categorie, 'pg) repository"
  platRepository :: "('s, plat, 'pg) repository"
  menuRepository :: "('s, 'p menu, 'pg) repository"
  pageRequest_of :: "int \<Rightarrow> int \<Rightarrow> sort_order \<Rightarrow> web_error + 'pg"
  unpaged :: 'pg
  sql_lower :: "string \<Rightarrow> string"
  sql_like :: "string \<Rightarrow> string \<Rightarrow> bool"

section \<open>The queries\<close>

text \<open>The optional criteria of \<open>PlatRepository.findFiltered\<close>.\<close>

record plat_criteria =
  categorieId :: "int option"
  minCalories :: "i32 option"
  maxCalories :: "i32 option"
  minLipides :: "i32 option"
  maxLipides :: "i32 option"
  minGlucides :: "i32 option"
  maxGlucides :: "i32 option"
  minProteines :: "i32 option"
  maxProteines :: "i32 option"

definition at_least :: "i32 \<Rightarrow> i32 option \<Rightarrow> bool" where
  "at_least x b = (case b of None \<Rightarrow> True | Some v \<Rightarrow> sint v \<le> sint x)"

definition at_most :: "i32 \<Rightarrow> i32 option \<Rightarrow> bool" where
  "at_most x b = (case b of None \<Rightarrow> True | Some v \<Rightarrow> sint x \<le> sint v)"

definition lower_like :: "('s, 'p, 'pg) spring \<Rightarrow> string option \<Rightarrow> string \<Rightarrow> bool" where
  "lower_like F col pat = (case col of None \<Rightarrow> False | Some s \<Rightarrow> sql_like F (sql_lower F s) pat)"

definition plat_where :: "('s, 'p, 'pg) spring \<Rightarrow> plat_criteria \<Rightarrow> string \<Rightarrow> plat \<Rightarrow> bool" where
  "plat_where F c motCle p \<longleftrightarrow>
     (categorieId c = None \<or> (\<exists>k. plat_categorie p = Some k \<and> cat_id k \<noteq> None \<and> cat_id k = categorieId c)) \<and>
     at_least (nbCalories p) (minCalories c) \<and> at_most (nbCalories p) (maxCalories c) \<and>
     at_least (nbLipides p) (minLipides c) \<and> at_most (nbLipides p) (maxLipides c) \<and>
     at_least (nbGlucides p) (minGlucides c) \<and> at_most (nbGlucides p) (maxGlucides c) \<and>
     at_least (nbProteines p) (minProteines c) \<and> at_most (nbProteines p) (maxProteines c) \<and>
     (motCle = [] \<or> lower_like F (plat_nom p) (sql_lower F (''%'' @ motCle @ ''%'')))"

definition plat_findFiltered ::
    "('s, 'p, 'pg) spring \<Rightarrow> plat_criteria \<Rightarrow> string \<Rightarrow> 'pg \<Rightarrow> 's \<Rightarrow> web_error + plat list" where
  "plat_findFiltered F c motCle pg s = query (platRepository F) (plat_where F c motCle) pg s"

definition rechercher_where :: "('s, 'p, 'pg) spring \<Rightarrow> string \<Rightarrow> plat \<Rightarrow> bool" where
  "rechercher_where F x p = (case plat_nom p of None \<Rightarrow> False | Some n \<Rightarrow> sql_like F n x)"

definition rechercher :: "('s, 'p, 'pg) spring \<Rightarrow> string \<Rightarrow> 'pg \<Rightarrow> 's \<Rightarrow> web_error + plat list" where
  "rechercher F motCle pg s = query (platRepository F) (rechercher_where F motCle) pg s"

text \<open>
  \<open>MenuRepository.findFiltered\<close>: the left join with the dishes and \<open>DISTINCT\<close> make the name
  condition an existential over the dishes; \<open>SUM\<close> is computed by the database and does not
  wrap at 32 bits.
\<close>

record 'p menu_criteria =
  prixMin :: "'p option"
  prixMax :: "'p option"
  calMin :: "i32 option"
  calMax :: "i32 option"

definition sql_sum_calories :: "'p menu \<Rightarrow> int" where
  "sql_sum_calories m = (\<Sum>p\<leftarrow>plats m. sint (nbCalories p))"

definition menu_where :: "('s, 'p::linorder, 'pg) spring \<Rightarrow> string \<Rightarrow> 'p menu_criteria \<Rightarrow> 'p menu \<Rightarrow> bool" where
  "menu_where F filtre c m \<longleftrightarrow>
     (filtre = [] \<or> lower_like F (menu_nom m) (''%'' @ sql_lower F filtre @ ''%'') \<or>
      list_ex (\<lambda>p. lower_like F (plat_nom p) (''%'' @ sql_lower F filtre @ ''%'')) (plats m)) \<and>
     (case prixMin c of None \<Rightarrow> True | Some v \<Rightarrow> v \<le> prix m) \<and>
     (case prixMax c of None \<Rightarrow> True | Some v \<Rightarrow> prix m \<le> v) \<and>
     (case calMin c of None \<Rightarrow> True | Some v \<Rightarrow> sint v \<le> sql_sum_calories m) \<and>
     (case calMax c of None \<Rightarrow> True | Some v \<Rightarrow> sql_sum_calories m \<le> sint v)"

definition menu_findFiltered ::
    "('s, 'p::linorder, 'pg) spring \<Rightarrow> string \<Rightarrow> 'p menu_criteria \<Rightarrow> 'pg \<Rightarrow> 's \<Rightarrow> web_error + 'p menu list" where
  "menu_findFiltered F filtre c pg s = query (menuRepository F) (menu_where F filtre c) pg s"

section \<open>What the application relies on\<close>

text \<open>
  \<open>PageRequest.of\<close> refuses negative pages and empty sizes. A query that is not paged returns all the rows that satisfy it.
  A paged query returns the requested slice of these rows in an order that respects the sort; which order, among rows
  the sort does not separate, may differ from one request to the next. This is relied on only for offsets
  that are Java \<open>int\<close>s, for greater ones the framework throws, and not for sorts through an association (a path with a
  dot), which join the tables. Whatever a query returns satisfies it.
\<close>

definition sorted_by :: "('s, 'e, 'pg) repository \<Rightarrow> sort_order \<Rightarrow> 'e list \<Rightarrow> bool" where
  "sorted_by R srt rows =
     (case srt of Unsorted \<Rightarrow> True
      | SortBy c Ascending \<Rightarrow> sorted_wrt (column_le R c) rows
      | SortBy c Descending \<Rightarrow> sorted_wrt (\<lambda>x y. column_le R c y x) rows)"

definition own_column :: "sort_order \<Rightarrow> bool" where
  "own_column srt = (case srt of Unsorted \<Rightarrow> True | SortBy c d \<Rightarrow> CHR ''.'' \<notin> set c)"

definition paging_ok :: "('s, 'p, 'pg) spring \<Rightarrow> ('s, 'e, 'pg) repository \<Rightarrow> bool" where
  "paging_ok F R \<longleftrightarrow>
     (\<forall>page size srt. (\<exists>pg. pageRequest_of F page size srt = Inr pg) \<longleftrightarrow> 0 \<le> page \<and> 1 \<le> size) \<and>
     (\<forall>P s. \<exists>rows. query R P (unpaged F) s = Inr rows \<and> mset rows = mset (filter P (findAll R s))) \<and>
     (\<forall>P srt s page size pg. pageRequest_of F page size srt = Inr pg \<and> page * size < 2 ^ 31 \<and> own_column srt \<longrightarrow>
        (\<exists>rows. mset rows = mset (filter P (findAll R s)) \<and> sorted_by R srt rows \<and>
           query R P pg s = Inr (take (nat size) (drop (nat (page * size)) rows)))) \<and>
     (\<forall>P srt s page size pg rows. pageRequest_of F page size srt = Inr pg \<and> query R P pg s = Inr rows \<longrightarrow>
        set rows \<subseteq> set (filter P (findAll R s)))"

definition plat_columns_ok :: "('s, plat, 'pg) repository \<Rightarrow> bool" where
  "plat_columns_ok R \<longleftrightarrow>
     (\<forall>p q. (column_le R ''nbCalories'' p q \<longleftrightarrow> sint (nbCalories p) \<le> sint (nbCalories q)) \<and>
            (column_le R ''nbLipides'' p q \<longleftrightarrow> sint (nbLipides p) \<le> sint (nbLipides q)) \<and>
            (column_le R ''nbGlucides'' p q \<longleftrightarrow> sint (nbGlucides p) \<le> sint (nbGlucides q)) \<and>
            (column_le R ''nbProteines'' p q \<longleftrightarrow> sint (nbProteines p) \<le> sint (nbProteines q)))"

text \<open>
  \<open>save\<close> of an entity replaces the row with its identifier; without such a row (no identifier, or
  one that is not stored) it inserts the entity under a fresh identifier; \<open>findById\<close> reads rows; \<open>deleteById\<close> removes one row or fails (a foreign key).
\<close>

definition store_ok :: "('e \<Rightarrow> int option) \<Rightarrow> (int \<Rightarrow> 'e \<Rightarrow> 'e) \<Rightarrow> ('s, 'e, 'pg) repository \<Rightarrow> bool" where
  "store_ok ident with_id R \<longleftrightarrow>
     (\<forall>s i e. findById R i s = Some e \<longrightarrow> ident e = Some i \<and> e \<in> set (findAll R s)) \<and>
     (\<forall>s e. e \<in> set (findAll R s) \<longrightarrow> (\<exists>i. ident e = Some i \<and> findById R i s = Some e)) \<and>
     (\<forall>s e e' s'. save R e s = Inr (e', s') \<longrightarrow>
        (\<exists>i. 0 < i \<and> e' = with_id i e \<and>
             (if \<exists>j. ident e = Some j \<and> findById R j s \<noteq> None then ident e = Some i else findById R i s = None) \<and>
             (\<forall>k. findById R k s' = (if k = i then Some e' else findById R k s)))) \<and>
     (\<forall>s i s'. deleteById R i s = Inr s' \<longrightarrow>
        (\<forall>k. findById R k s' = (if k = i then None else findById R k s)))"

definition like_ok :: "('s, 'p, 'pg) spring \<Rightarrow> bool" where
  "like_ok F \<longleftrightarrow>
     (\<forall>s w. CHR ''%'' \<notin> set w \<and> CHR ''_'' \<notin> set w \<and> CHR 0x5C \<notin> set w \<longrightarrow>
        (sql_like F s (''%'' @ w @ ''%'') \<longleftrightarrow> (\<exists>u v. s = u @ w @ v))) \<and>
     (\<forall>w. sql_lower F (''%'' @ w @ ''%'') = ''%'' @ sql_lower F w @ ''%'')"

end
