(* ===== verification/MenuControllers.thy ===== *)
theory MenuControllers
  imports MenuQueries
begin

text \<open>
  The controllers of the application: one definition per request handler of \<open>PlatController\<close>,
  \<open>MenuController\<close> and \<open>HomeController\<close>. A handler takes its request parameters and the state of
  the database and returns an error, or a response and the new state. A response is a view with
  the attributes put into its model, or a redirect with its attributes. The defaults of the
  request parameters are in \<open>bind_plats\<close> and \<open>bind_menus\<close>, which bind the attributes of a redirect to
  the parameters of the list pages.
\<close>

section \<open>Responses\<close>

datatype attr = AInt int | AStr string

datatype 'm response = View string 'm | Redirect string "(string \<times> attr) list" | RedirectUrl string

text \<open>String concatenation with an \<open>int\<close>.\<close>

definition show_int :: "int \<Rightarrow> string" where
  "show_int i = (if i < 0 then ''-'' @ show_nat (nat (- i)) else show_nat (nat i))"

section \<open>\<open>HomeController\<close>\<close>

definition home :: "'s \<Rightarrow> unit response \<times> 's" where
  "home s = (View ''home'' (), s)"

section \<open>\<open>PlatController\<close>\<close>

definition plat_sort :: "string \<Rightarrow> sort_order" where
  "plat_sort srt =
     (if srt = ''nomAsc'' then SortBy ''nom'' Ascending
      else if srt = ''nomDesc'' then SortBy ''nom'' Descending
      else if srt = ''calAsc'' then SortBy ''nbCalories'' Ascending
      else if srt = ''calDesc'' then SortBy ''nbCalories'' Descending
      else if srt = ''catAsc'' then SortBy ''categorie.nom'' Ascending
      else if srt = ''catDesc'' then SortBy ''categorie.nom'' Descending
      else if srt = ''glucidesAsc'' then SortBy ''nbGlucides'' Ascending
      else if srt = ''glucidesDesc'' then SortBy ''nbGlucides'' Descending
      else if srt = ''lipidesAsc'' then SortBy ''nbLipides'' Ascending
      else if srt = ''lipidesDesc'' then SortBy ''nbLipides'' Descending
      else if srt = ''proteinesAsc'' then SortBy ''nbProteines'' Ascending
      else if srt = ''proteinesDesc'' then SortBy ''nbProteines'' Descending
      else Unsorted)"

record plats_request =
  rq_criteria :: plat_criteria
  rq_motCle :: string
  rq_sort :: string
  rq_page :: int
  rq_size :: int
  rq_action :: string
  rq_id :: int

record plats_view =
  v_plats :: "plat list"
  v_sort :: string
  v_motCle :: string
  v_criteria :: plat_criteria
  v_categories :: "categorie list"
  v_plat :: "plat option"
  v_action :: string

definition listePlats :: "('s, 'p, 'pg) spring \<Rightarrow> plats_request \<Rightarrow> 's \<Rightarrow> web_error + plats_view response \<times> 's" where
  "listePlats F r s =
     (case pageRequest_of F (rq_page r) (rq_size r) (plat_sort (rq_sort r)) of
        Inl e \<Rightarrow> Inl e
      | Inr pageable \<Rightarrow>
          (case plat_findFiltered F (rq_criteria r) (rq_motCle r) pageable s of
             Inl e \<Rightarrow> Inl e
           | Inr pagePlats \<Rightarrow>
          let editing = (rq_action r \<noteq> [] \<and> 0 < rq_id r);
              plat = (if editing then findById (platRepository F) (rq_id r) s else None);
              action = (if editing then rq_action r else if rq_action r \<noteq> ''del'' then [] else rq_action r)
          in Inr (View ''plats''
                \<lparr>v_plats = pagePlats, v_sort = rq_sort r, v_motCle = rq_motCle r, v_criteria = rq_criteria r,
                 v_categories = findAll (categorieRepository F) s, v_plat = plat, v_action = action\<rparr>, s)))"

definition deletePlat :: "('s, 'p, 'pg) spring \<Rightarrow> int \<Rightarrow> int \<Rightarrow> int \<Rightarrow> string \<Rightarrow> 's \<Rightarrow> web_error + plats_view response \<times> 's" where
  "deletePlat F pid page sz motCle s =
     (case deleteById (platRepository F) pid s of
        Inl e \<Rightarrow> Inl e
      | Inr s' \<Rightarrow> Inr (Redirect ''/plats''
          [(''page'', AInt page), (''size'', AInt sz), (''motCle'', AStr motCle), (''action'', AStr ''del'')], s'))"

record form_view =
  f_plat :: plat
  f_categories :: "categorie list"
  f_page :: int
  f_size :: int
  f_motCle :: string

definition editPlat :: "('s, 'p, 'pg) spring \<Rightarrow> int \<Rightarrow> int \<Rightarrow> string \<Rightarrow> int \<Rightarrow> 's \<Rightarrow> form_view response \<times> 's" where
  "editPlat F page sz motCle pid s =
     (let form = (\<lambda>p. View ''platForm'' \<lparr>f_plat = p, f_categories = findAll (categorieRepository F) s,
                        f_page = page, f_size = sz, f_motCle = motCle\<rparr>)
      in if pid \<noteq> 0
         then (case findById (platRepository F) pid s of
                 Some p \<Rightarrow> (form p, s)
               | None \<Rightarrow> (Redirect ''/plats'' [], s))
         else (form Plat0, s))"

text \<open>
  The handlers ignore what \<open>save\<close> returns and read the identifier of the object they passed in:
  saving a new object sets its identifier, saving an object with an identifier copies it and
  leaves the object as it is.
\<close>

definition id_after_save :: "int option \<Rightarrow> int option \<Rightarrow> int option" where
  "id_after_save submitted stored = (case submitted of None \<Rightarrow> stored | Some i \<Rightarrow> Some i)"

definition savePlat :: "('s, 'p, 'pg) spring \<Rightarrow> plat \<Rightarrow> int \<Rightarrow> int \<Rightarrow> string \<Rightarrow> 's \<Rightarrow> web_error + plats_view response \<times> 's" where
  "savePlat F plat page sz motCle s =
     (let action = (if plat_id plat \<noteq> None then ''mod'' else ''new'')
      in case save (platRepository F) plat s of
           Inl e \<Rightarrow> Inl e
         | Inr (saved, s') \<Rightarrow> Inr (Redirect ''/plats''
             ([(''page'', AInt page), (''size'', AInt sz), (''motCle'', AStr motCle), (''action'', AStr action)] @
              (case id_after_save (plat_id plat) (plat_id saved) of None \<Rightarrow> [] | Some i \<Rightarrow> [(''id'', AInt i)])), s'))"

record detail_view =
  d_plat :: plat
  d_page :: int
  d_size :: int
  d_motCle :: string

definition showPlatDetail :: "('s, 'p, 'pg) spring \<Rightarrow> int \<Rightarrow> int \<Rightarrow> int \<Rightarrow> string \<Rightarrow> 's \<Rightarrow> detail_view response \<times> 's" where
  "showPlatDetail F pid page sz motCle s =
     (case findById (platRepository F) pid s of
        Some p \<Rightarrow> (View ''platDetail'' \<lparr>d_plat = p, d_page = page, d_size = sz, d_motCle = motCle\<rparr>, s)
      | None \<Rightarrow> (Redirect ''/plats'' [], s))"

definition no_criteria :: plat_criteria where
  "no_criteria = \<lparr>categorieId = None, minCalories = None, maxCalories = None, minLipides = None, maxLipides = None,
     minGlucides = None, maxGlucides = None, minProteines = None, maxProteines = None\<rparr>"

definition int_attr :: "(string \<times> attr) list \<Rightarrow> string \<Rightarrow> int \<Rightarrow> int" where
  "int_attr as n d = (case map_of as n of Some (AInt i) \<Rightarrow> i | _ \<Rightarrow> d)"

definition str_attr :: "(string \<times> attr) list \<Rightarrow> string \<Rightarrow> string" where
  "str_attr as n = (case map_of as n of Some (AStr t) \<Rightarrow> t | _ \<Rightarrow> [])"

definition bind_plats :: "(string \<times> attr) list \<Rightarrow> plats_request" where
  "bind_plats as = \<lparr>rq_criteria = no_criteria, rq_motCle = str_attr as ''motCle'', rq_sort = str_attr as ''sort'',
     rq_page = int_attr as ''page'' 0, rq_size = int_attr as ''size'' 10, rq_action = str_attr as ''action'',
     rq_id = int_attr as ''id'' 0\<rparr>"

section \<open>\<open>MenuController\<close>\<close>

definition menu_sort :: "string \<Rightarrow> sort_order" where
  "menu_sort srt =
     (if srt = ''nomAsc'' then SortBy ''nom'' Ascending
      else if srt = ''nomDesc'' then SortBy ''nom'' Descending
      else if srt = ''prixAsc'' then SortBy ''prix'' Ascending
      else if srt = ''prixDesc'' then SortBy ''prix'' Descending
      else Unsorted)"

text \<open>The stable in-memory sort of the page by total calories.\<close>

definition sort_calories :: "string \<Rightarrow> 'p menu list \<Rightarrow> 'p menu list" where
  "sort_calories srt menus =
     (if srt = ''calAsc'' then sort_key (\<lambda>m. sint (getTotalCalories m)) menus
      else if srt = ''calDesc'' then sort_key (\<lambda>m. - sint (getTotalCalories m)) menus
      else menus)"

record 'p menus_request =
  mrq_page :: int
  mrq_size :: int
  mrq_filtre :: string
  mrq_criteria :: "'p menu_criteria"
  mrq_sort :: string
  mrq_action :: string
  mrq_id :: int

record 'p menus_view =
  w_menus :: "'p menu list"
  w_page :: "'p menu list"
  w_filtre :: string
  w_sort :: string
  w_criteria :: "'p menu_criteria"
  w_menu :: "'p menu option"
  w_action :: string

definition listMenus :: "('s, 'p::linorder, 'pg) spring \<Rightarrow> 'p menus_request \<Rightarrow> 's \<Rightarrow> web_error + 'p menus_view response \<times> 's" where
  "listMenus F r s =
     (case pageRequest_of F (mrq_page r) (mrq_size r) (menu_sort (mrq_sort r)) of
        Inl e \<Rightarrow> Inl e
      | Inr pageable \<Rightarrow>
          (case menu_findFiltered F (mrq_filtre r) (mrq_criteria r) pageable s of
             Inl e \<Rightarrow> Inl e
           | Inr menuPage \<Rightarrow>
          let menus = sort_calories (mrq_sort r) menuPage;
              editing = (0 < mrq_id r \<and> (mrq_action r = ''new'' \<or> mrq_action r = ''mod''));
              menu = (if editing then Some (getReferenceById (menuRepository F) (mrq_id r) s) else None);
              action = (if editing then mrq_action r else if mrq_action r \<noteq> ''del'' then [] else mrq_action r)
          in Inr (View ''menus''
                \<lparr>w_menus = menus, w_page = menuPage, w_filtre = mrq_filtre r, w_sort = mrq_sort r,
                 w_criteria = mrq_criteria r, w_menu = menu, w_action = action\<rparr>, s)))"

record 'p menu_form =
  g_menu :: "'p menu"
  g_plats :: "plat list"
  g_page :: int
  g_size :: int
  g_filtre :: string
  g_categories :: "categorie list"
  g_criteria :: plat_criteria

definition editMenu ::
    "('s, 'p::{zero,linorder}, 'pg) spring \<Rightarrow> int \<Rightarrow> int \<Rightarrow> int \<Rightarrow> string \<Rightarrow> plat_criteria \<Rightarrow> 's \<Rightarrow> web_error + 'p menu_form response \<times> 's" where
  "editMenu F mid page sz filtre c s =
     (case (if mid \<noteq> 0 then findById (menuRepository F) mid s else Some Menu0) of
        None \<Rightarrow> Inr (RedirectUrl (''/menus?page='' @ show_int page @ ''&size='' @ show_int sz @ ''&filtre='' @ filtre), s)
      | Some m \<Rightarrow>
          (case (if c \<noteq> no_criteria then plat_findFiltered F c [] (unpaged F) s else Inr (findAll (platRepository F) s)) of
             Inl e \<Rightarrow> Inl e
           | Inr ps \<Rightarrow>
               Inr (View ''menuForm'' \<lparr>g_menu = m, g_plats = ps, g_page = page, g_size = sz, g_filtre = filtre,
                      g_categories = findAll (categorieRepository F) s, g_criteria = c\<rparr>, s)))"

text \<open>
  \<open>saveMenu\<close>: within a request \<open>findById\<close> returns one object per row, so the set of selected dishes
  is a set of rows.
\<close>

definition select_plats :: "('s, 'p, 'pg) spring \<Rightarrow> int list \<Rightarrow> 's \<Rightarrow> plat list" where
  "select_plats F platIds s =
     fold (\<lambda>i acc. case findById (platRepository F) i s of None \<Rightarrow> acc | Some p \<Rightarrow> List.insert p acc) platIds []"

definition saveMenu ::
    "('s, 'p::linorder, 'pg) spring \<Rightarrow> 'p menu \<Rightarrow> int list option \<Rightarrow> int \<Rightarrow> int \<Rightarrow> string \<Rightarrow> 's \<Rightarrow> web_error + 'p menus_view response \<times> 's" where
  "saveMenu F menu platIds page sz filtre s =
     (let menu = menu\<lparr>plats := (case platIds of Some ids \<Rightarrow> select_plats F ids s | None \<Rightarrow> [])\<rparr>;
          action = (if menu_id menu \<noteq> None then ''mod'' else ''new'')
      in case save (menuRepository F) menu s of
           Inl e \<Rightarrow> Inl e
         | Inr (saved, s') \<Rightarrow> Inr (Redirect ''/menus''
             ([(''page'', AInt page), (''size'', AInt sz), (''filtre'', AStr filtre), (''action'', AStr action)] @
              (case id_after_save (menu_id menu) (menu_id saved) of None \<Rightarrow> [] | Some i \<Rightarrow> [(''id'', AInt i)])), s'))"

definition deleteMenu :: "('s, 'p::linorder, 'pg) spring \<Rightarrow> int \<Rightarrow> int \<Rightarrow> int \<Rightarrow> string \<Rightarrow> 's \<Rightarrow> web_error + 'p menus_view response \<times> 's" where
  "deleteMenu F mid page sz filtre s =
     (case deleteById (menuRepository F) mid s of
        Inl e \<Rightarrow> Inl e
      | Inr s' \<Rightarrow> Inr (Redirect ''/menus''
          [(''page'', AInt page), (''size'', AInt sz), (''filtre'', AStr filtre), (''action'', AStr ''del'')], s'))"

record 'p menu_detail =
  e_menu :: "'p menu"
  e_page :: int
  e_size :: int
  e_filtre :: string

definition showMenuDetail :: "('s, 'p::linorder, 'pg) spring \<Rightarrow> int \<Rightarrow> int \<Rightarrow> int \<Rightarrow> string \<Rightarrow> 's \<Rightarrow> 'p menu_detail response \<times> 's" where
  "showMenuDetail F mid page sz filtre s =
     (case findById (menuRepository F) mid s of
        Some m \<Rightarrow> (View ''menuDetail'' \<lparr>e_menu = m, e_page = page, e_size = sz, e_filtre = filtre\<rparr>, s)
      | None \<Rightarrow> (Redirect ''/menus'' [], s))"

definition bind_menus :: "(string \<times> attr) list \<Rightarrow> 'p menus_request" where
  "bind_menus as = \<lparr>mrq_page = int_attr as ''page'' 0, mrq_size = int_attr as ''size'' 10,
     mrq_filtre = str_attr as ''filtre'', mrq_criteria = \<lparr>prixMin = None, prixMax = None, calMin = None, calMax = None\<rparr>,
     mrq_sort = str_attr as ''sort'', mrq_action = str_attr as ''action'', mrq_id = int_attr as ''id'' 0\<rparr>"

end
