(* ===== verification/MenuApp.thy ===== *)
theory MenuApp
  imports MenuControllers
begin

text \<open>
  What the application shows to its users: paging and filtering of the lists, the flow from
  saving or deleting a dish to the list page that reports it, the dishes a saved menu gets, its
  nutritional totals, and the order of the menu list. The framework is a parameter \<open>F\<close>; the
  hypotheses on it are \<open>paging_ok\<close>, \<open>plat_columns_ok\<close>, \<open>store_ok\<close> and \<open>like_ok\<close>, and \<open>spring0\<close> is a concrete framework
  over tables in memory for which they hold.
\<close>

section \<open>A framework over tables in memory\<close>

definition find_row :: "('e \<Rightarrow> int option) \<Rightarrow> int \<Rightarrow> 'e list \<Rightarrow> 'e option" where
  "find_row ident i es = List.find (\<lambda>e. ident e = Some i) es"

definition all_rows :: "('e \<Rightarrow> int option) \<Rightarrow> 'e list \<Rightarrow> 'e list" where
  "all_rows ident es =
     filter (\<lambda>e. case ident e of None \<Rightarrow> False | Some i \<Rightarrow> find_row ident i es = Some e) es"

definition next_id :: "('e \<Rightarrow> int option) \<Rightarrow> 'e list \<Rightarrow> int" where
  "next_id ident es = 1 + fold (\<lambda>e m. max m (case ident e of None \<Rightarrow> 0 | Some i \<Rightarrow> i)) es 0"

definition save_row :: "('e \<Rightarrow> int option) \<Rightarrow> (int \<Rightarrow> 'e \<Rightarrow> 'e) \<Rightarrow> 'e \<Rightarrow> 'e list \<Rightarrow> web_error + 'e \<times> 'e list" where
  "save_row ident with_id e es =
     (let i = (case ident e of Some j \<Rightarrow> j | None \<Rightarrow> next_id ident es)
      in if i \<le> 0 then Inl DataAccess
         else Inr (with_id i e, with_id i e # filter (\<lambda>e. ident e \<noteq> Some i) es))"

text \<open>A page request holds page, size and sort; \<open>col\<close> gives the value of an attribute to sort by.\<close>

type_synonym page_request = "(int \<times> int \<times> sort_order) option"

definition sort_rows :: "(string \<Rightarrow> 'e \<Rightarrow> int) \<Rightarrow> sort_order \<Rightarrow> 'e list \<Rightarrow> 'e list" where
  "sort_rows col srt rows =
     (case srt of Unsorted \<Rightarrow> rows
      | SortBy c Ascending \<Rightarrow> sort_key (col c) rows
      | SortBy c Descending \<Rightarrow> sort_key (\<lambda>e. - col c e) rows)"

definition table_repo ::
    "('e \<Rightarrow> int option) \<Rightarrow> (int \<Rightarrow> 'e \<Rightarrow> 'e) \<Rightarrow> 'e \<Rightarrow> (string \<Rightarrow> 'e \<Rightarrow> int) \<Rightarrow> ('s \<Rightarrow> 'e list) \<Rightarrow> ('e list \<Rightarrow> 's \<Rightarrow> 's) \<Rightarrow>
      ('s, 'e, page_request) repository" where
  "table_repo ident with_id dflt col get put =
     \<lparr>findById = (\<lambda>i s. find_row ident i (get s)),
      findAll = (\<lambda>s. all_rows ident (get s)),
      getReferenceById = (\<lambda>i s. case find_row ident i (get s) of Some e \<Rightarrow> e | None \<Rightarrow> with_id i dflt),
      save = (\<lambda>e s. case save_row ident with_id e (get s) of Inl x \<Rightarrow> Inl x | Inr (e', es) \<Rightarrow> Inr (e', put es s)),
      deleteById = (\<lambda>i s. Inr (put (filter (\<lambda>e. ident e \<noteq> Some i) (get s)) s)),
      query = (\<lambda>P pg s. let rows = filter P (all_rows ident (get s))
                        in case pg of None \<Rightarrow> Inr rows
                           | Some (p, n, srt) \<Rightarrow>
                               if 2 ^ 31 \<le> p * n then Inl DataAccess
                               else Inr (take (nat n) (drop (nat (p * n)) (sort_rows col srt rows)))),
      column_le = (\<lambda>c x y. col c x \<le> col c y)\<rparr>"

lemma fold_max_ge: "m \<le> fold (\<lambda>e m. max m (g e)) xs m" for m :: int
proof (induction xs arbitrary: m)
  case (Cons x xs)
  have "m \<le> max m (g x)" by simp
  also have "\<dots> \<le> fold (\<lambda>e m. max m (g e)) xs (max m (g x))" by (rule Cons.IH)
  finally show ?case by simp
qed simp

lemma fold_max_member: "e \<in> set xs \<Longrightarrow> g e \<le> fold (\<lambda>e m. max m (g e)) xs m" for m :: int
proof (induction xs arbitrary: m)
  case (Cons x xs)
  show ?case
  proof (cases "x = e")
    case True
    have "g e \<le> max m (g x)" using True by simp
    also have "\<dots> \<le> fold (\<lambda>e m. max m (g e)) xs (max m (g x))" by (rule fold_max_ge)
    finally show ?thesis by simp
  qed (use Cons in auto)
qed simp

lemma next_id_fresh: "e \<in> set es \<Longrightarrow> ident e = Some i \<Longrightarrow> i < next_id ident es"
  using fold_max_member [of e es "\<lambda>e. case ident e of None \<Rightarrow> 0 | Some i \<Rightarrow> i" 0] by (simp add: next_id_def)

lemma next_id_pos: "0 < next_id ident es"
  using fold_max_ge [of 0 "\<lambda>e. case ident e of None \<Rightarrow> 0 | Some i \<Rightarrow> i" es] by (simp add: next_id_def)

lemma find_row_Some: "find_row ident i es = Some e \<Longrightarrow> ident e = Some i \<and> e \<in> set es"
  by (auto simp: find_row_def find_Some_iff)

lemma find_row_None: "find_row ident i es = None \<longleftrightarrow> (\<forall>e \<in> set es. ident e \<noteq> Some i)"
  by (auto simp: find_row_def find_None_iff)

lemma find_row_filter: "find_row ident k (filter (\<lambda>e. ident e \<noteq> Some i) es) = (if k = i then None else find_row ident k es)"
  by (induction es) (auto simp: find_row_def)

lemma find_row_save:
  assumes "\<And>i e. ident (with_id i e) = Some i" and "save_row ident with_id e es = Inr (e', es')"
  shows "\<exists>i. 0 < i \<and> e' = with_id i e \<and>
    (if \<exists>j. ident e = Some j \<and> find_row ident j es \<noteq> None then ident e = Some i else find_row ident i es = None) \<and> (\<forall>k. find_row ident k es' = (if k = i then Some e' else find_row ident k es))"
proof -
  let ?i = "case ident e of Some j \<Rightarrow> j | None \<Rightarrow> next_id ident es"
  have i: "0 < ?i" "e' = with_id ?i e" "es' = e' # filter (\<lambda>e. ident e \<noteq> Some ?i) es"
    using assms(2) by (auto simp: save_row_def Let_def split: if_splits)
  have "ident e = None \<Longrightarrow> find_row ident ?i es = None"
    using next_id_fresh [of _ es ident] by (fastforce simp: find_row_None)
  then have "if \<exists>j. ident e = Some j \<and> find_row ident j es \<noteq> None then ident e = Some ?i else find_row ident ?i es = None"
    by (cases "ident e") auto
  moreover have "find_row ident k es' = (if k = ?i then Some e' else find_row ident k es)" for k
    using assms(1) find_row_filter [of ident k ?i es] by (simp add: i(3) i(2) find_row_def)
  ultimately show ?thesis using i(1,2) by (intro exI [of _ ?i]) auto
qed

lemma table_repo_ok:
  assumes "\<And>i e. ident (with_id i e) = Some i" and "\<And>es s. get (put es s) = es"
  shows "store_ok ident with_id (table_repo ident with_id dflt col get put)"
proof -
  let ?R = "table_repo ident with_id dflt col get put"
  have 1: "findById ?R i s = Some e \<Longrightarrow> ident e = Some i \<and> e \<in> set (findAll ?R s)" for s i e
    using find_row_Some [of ident i "get s" e] by (auto simp: table_repo_def all_rows_def)
  have 2: "e \<in> set (findAll ?R s) \<Longrightarrow> \<exists>i. ident e = Some i \<and> findById ?R i s = Some e" for s e
    by (auto simp: table_repo_def all_rows_def split: option.splits)
  have 3: "\<exists>i. 0 < i \<and> e' = with_id i e \<and>
      (if \<exists>j. ident e = Some j \<and> findById ?R j s \<noteq> None then ident e = Some i else findById ?R i s = None) \<and> (\<forall>k. findById ?R k s' = (if k = i then Some e' else findById ?R k s))"
    if sv: "save ?R e s = Inr (e', s')" for s e e' s'
  proof -
    obtain es' where es: "save_row ident with_id e (get s) = Inr (e', es')" "s' = put es' s"
      using sv by (auto simp: table_repo_def split: sum.splits)
    then show ?thesis using find_row_save [OF assms(1) es(1)] assms(2) by (auto simp: table_repo_def)
  qed
  have 4: "deleteById ?R i s = Inr s' \<Longrightarrow> findById ?R k s' = (if k = i then None else findById ?R k s)" for s i s' k
    using assms(2) find_row_filter [of ident k i "get s"] by (auto simp: table_repo_def)
  show ?thesis using 1 2 3 4 unfolding store_ok_def by blast
qed

type_synonym db = "plat list \<times> nat menu list"

definition plat_column :: "string \<Rightarrow> plat \<Rightarrow> int" where
  "plat_column c p =
     (if c = ''nbCalories'' then sint (nbCalories p) else if c = ''nbLipides'' then sint (nbLipides p)
      else if c = ''nbGlucides'' then sint (nbGlucides p) else if c = ''nbProteines'' then sint (nbProteines p) else 0)"

definition spring0 :: "(db, nat, page_request) spring" where
  "spring0 =
     \<lparr>categorieRepository = table_repo cat_id (\<lambda>i c. c\<lparr>cat_id := Some i\<rparr>) Categorie0 (\<lambda>c e. 0) (\<lambda>s. []) (\<lambda>es s. s),
      platRepository = table_repo plat_id (\<lambda>i p. p\<lparr>plat_id := Some i\<rparr>) Plat0 plat_column fst (\<lambda>es s. (es, snd s)),
      menuRepository = table_repo menu_id (\<lambda>i m. m\<lparr>menu_id := Some i\<rparr>) Menu0 (\<lambda>c m. 0) snd (\<lambda>es s. (fst s, es)),
      pageRequest_of = (\<lambda>p n srt. if 0 \<le> p \<and> 1 \<le> n then Inr (Some (p, n, srt)) else Inl IllegalArgument),
      unpaged = None,
      sql_lower = map (\<lambda>c. if c \<in> set ''ABCDEFGHIJKLMNOPQRSTUVWXYZ'' then char_of (of_char c + 32 :: nat) else c),
      sql_like = (\<lambda>s p. \<exists>k \<le> length s. take (length p - 2) (drop k s) = butlast (tl p))\<rparr>"

lemma sort_rows_ok: "mset (sort_rows col srt rows) = mset rows" "sorted_by (table_repo ident with_id dflt col get put) srt (sort_rows col srt rows)"
proof -
  show "mset (sort_rows col srt rows) = mset rows" by (auto simp: sort_rows_def split: sort_order.splits direction.splits)
  have "sorted (map (col c) (sort_key (col c) rows))" "sorted (map (\<lambda>e. - col c e) (sort_key (\<lambda>e. - col c e) rows))" for c by simp_all
  then show "sorted_by (table_repo ident with_id dflt col get put) srt (sort_rows col srt rows)"
    by (auto simp: sorted_by_def sort_rows_def table_repo_def sorted_map split: sort_order.splits direction.splits)
qed

lemma table_paging_ok:
  "paging_ok spring0 (table_repo ident with_id dflt col get put)"
proof -
  let ?R = "table_repo ident with_id dflt col get put"
  have req: "pageRequest_of spring0 page size srt = Inr pg \<longleftrightarrow> 0 \<le> page \<and> 1 \<le> size \<and> pg = Some (page, size, srt)" for page size srt pg
    by (auto simp: spring0_def)
  have rows: "query ?R P (Some (page, size, srt)) s =
      (if 2 ^ 31 \<le> page * size then Inl DataAccess else Inr (take (nat size) (drop (nat (page * size)) (sort_rows col srt (filter P (findAll ?R s))))))" for P page size srt s
    by (simp add: table_repo_def Let_def)
  have "\<exists>rows. query ?R P (unpaged spring0) s = Inr rows \<and> mset rows = mset (filter P (findAll ?R s))" for P s
    by (simp add: table_repo_def spring0_def Let_def)
  moreover have "\<exists>rows. mset rows = mset (filter P (findAll ?R s)) \<and> sorted_by ?R srt rows \<and>
      query ?R P pg s = Inr (take (nat size) (drop (nat (page * size)) rows))"
    if "pageRequest_of spring0 page size srt = Inr pg \<and> page * size < 2 ^ 31 \<and> own_column srt" for P srt s page size pg
    using that sort_rows_ok [where col = col and srt = srt and rows = "filter P (findAll ?R s)"] by (intro exI [of _ "sort_rows col srt (filter P (findAll ?R s))"]) (auto simp: req rows)
  moreover have "set out \<subseteq> set (filter P (findAll ?R s))"
    if "pageRequest_of spring0 page size srt = Inr pg \<and> query ?R P pg s = Inr out" for P srt s page size pg out
  proof -
    have "set (sort_rows col srt (filter P (findAll ?R s))) = set (filter P (findAll ?R s))"
      by (rule mset_eq_setD [OF sort_rows_ok(1)])
    moreover have "set out \<subseteq> set (sort_rows col srt (filter P (findAll ?R s)))"
    proof -
      have "pg = Some (page, size, srt)" using conjunct1 [OF that] by (simp only: req)
      with conjunct2 [OF that] have "query ?R P (Some (page, size, srt)) s = Inr out" by (simp only:)
      then have "out = take (nat size) (drop (nat (page * size)) (sort_rows col srt (filter P (findAll ?R s))))"
        unfolding rows by (simp split: if_splits)
      then show ?thesis using set_take_subset set_drop_subset by (metis subset_trans)
    qed
    ultimately show ?thesis by (rule subst)
  qed
  moreover have "(\<exists>pg. pageRequest_of spring0 page size srt = Inr pg) \<longleftrightarrow> 0 \<le> page \<and> 1 \<le> size" for page size srt
    by (simp add: req)
  ultimately show ?thesis unfolding paging_ok_def by blast
qed

lemma platRepository_spring0: "platRepository spring0 = table_repo plat_id (\<lambda>i p. p\<lparr>plat_id := Some i\<rparr>) Plat0 plat_column fst (\<lambda>es s. (es, snd s))"
  by (simp add: spring0_def)

lemma menuRepository_spring0: "menuRepository spring0 = table_repo menu_id (\<lambda>i m. m\<lparr>menu_id := Some i\<rparr>) Menu0 (\<lambda>c m. 0) snd (\<lambda>es s. (fst s, es))"
  by (simp add: spring0_def)


lemma spring0_ok:
  "paging_ok spring0 (platRepository spring0)" "paging_ok spring0 (menuRepository spring0)"
  "store_ok plat_id (\<lambda>i p. p\<lparr>plat_id := Some i\<rparr>) (platRepository spring0)"
  "store_ok menu_id (\<lambda>i m. m\<lparr>menu_id := Some i\<rparr>) (menuRepository spring0)"
proof -
  show "paging_ok spring0 (platRepository spring0)" "paging_ok spring0 (menuRepository spring0)"
    using table_paging_ok by (simp_all add: platRepository_spring0 menuRepository_spring0)
  show "store_ok plat_id (\<lambda>i p. p\<lparr>plat_id := Some i\<rparr>) (platRepository spring0)"
    "store_ok menu_id (\<lambda>i m. m\<lparr>menu_id := Some i\<rparr>) (menuRepository spring0)"
    by (simp_all add: spring0_def table_repo_ok)
qed

section \<open>Totals\<close>

text \<open>
  The totals of a menu are the sums over its dishes whenever that sum fits in an
  \<open>int\<close>, in any order of the dishes; beyond that they wrap around, while the calorie filter of
  the query compares the exact sum. So for every menu whose sum fits, the list shows a total
  that satisfies the requested bounds.
\<close>

theorem totals_are_sums:
  assumes "- (2 ^ 31) \<le> (\<Sum>p\<leftarrow>plats m. sint (nbCalories p))" and "(\<Sum>p\<leftarrow>plats m. sint (nbCalories p)) < 2 ^ 31"
    and "menu_where F filtre c m" and "calMin c = Some lo" and "calMax c = Some hi"
  shows "sint (getTotalCalories m) = sql_sum_calories m \<and>
    sint lo \<le> sint (getTotalCalories m) \<and> sint (getTotalCalories m) \<le> sint hi"
proof -
  have "sint (getTotalCalories m) = sql_sum_calories m"
    unfolding getTotalCalories_def sql_sum_calories_def by (rule sum_int_exact [OF assms(1,2)])
  then show ?thesis using assms(3-5) by (simp add: menu_where_def)
qed

definition dish :: "int \<Rightarrow> i32 \<Rightarrow> plat" where
  "dish i cal = Plat0\<lparr>plat_id := Some i, nbCalories := cal\<rparr>"

theorem totals_are_sums_witness:
  "sint (getTotalCalories (Menu0\<lparr>plats := [dish 1 300, dish 2 450]\<rparr> :: nat menu)) = 750"
proof -
  let ?m = "Menu0\<lparr>plats := [dish 1 300, dish 2 450]\<rparr> :: nat menu"
  have s: "sql_sum_calories ?m = 750" by (simp add: sql_sum_calories_def dish_def)
  have "menu_where spring0 [] \<lparr>prixMin = None, prixMax = None, calMin = Some 100, calMax = Some 900\<rparr> ?m"
    using s by (simp add: menu_where_def)
  from totals_are_sums [OF _ _ this] s show ?thesis by (simp add: sql_sum_calories_def)
qed

text \<open>The wrapped total of two dishes of 1500000000 calories, against the exact sum of the query.\<close>

lemma totals_wrap:
  "sint (getTotalCalories (Menu0\<lparr>plats := [dish 1 1500000000, dish 2 1500000000]\<rparr> :: nat menu)) = - 1294967296"
  "sql_sum_calories (Menu0\<lparr>plats := [dish 1 1500000000, dish 2 1500000000]\<rparr> :: nat menu) = 3000000000"
  by (simp_all add: getTotalCalories_def sint_sum_int sql_sum_calories_def dish_def signed_take_bit_def mask_eq_exp_minus_1)

section \<open>The list of dishes\<close>


lemma paging_accepts: "paging_ok F R \<Longrightarrow> 0 \<le> page \<Longrightarrow> 1 \<le> sz \<Longrightarrow> \<exists>pg. pageRequest_of F page sz srt = Inr pg"
  by (simp add: paging_ok_def)

lemma paging_laws:
  assumes "paging_ok F R"
  shows "\<forall>P srt s page size pg. pageRequest_of F page size srt = Inr pg \<and> page * size < 2 ^ 31 \<and> own_column srt \<longrightarrow>
      (\<exists>rows. mset rows = mset (filter P (findAll R s)) \<and> sorted_by R srt rows \<and>
         query R P pg s = Inr (take (nat size) (drop (nat (page * size)) rows)))"
    and "\<forall>P srt s page size pg rows. pageRequest_of F page size srt = Inr pg \<and> query R P pg s = Inr rows \<longrightarrow>
      set rows \<subseteq> set (filter P (findAll R s))"
  using assms unfolding paging_ok_def by - (elim conjE, assumption)+

lemma paging_slices:
  assumes "paging_ok F R" and "0 \<le> page" and "1 \<le> sz" and "page * sz < 2 ^ 31" and "own_column srt"
  shows "\<exists>pg rows. pageRequest_of F page sz srt = Inr pg \<and> mset rows = mset (filter P (findAll R s)) \<and> sorted_by R srt rows \<and>
    query R P pg s = Inr (take (nat sz) (drop (nat (page * sz)) rows))"
proof -
  obtain pg where "pageRequest_of F page sz srt = Inr pg" using paging_accepts [OF assms(1-3)] by blast
  moreover from this have "\<exists>rows. mset rows = mset (filter P (findAll R s)) \<and> sorted_by R srt rows \<and>
      query R P pg s = Inr (take (nat sz) (drop (nat (page * sz)) rows))"
    by (intro paging_laws(1) [OF assms(1), rule_format] conjI assms(4,5))
  ultimately show ?thesis by blast
qed

lemma query_rows:
  assumes "paging_ok F R" and "pageRequest_of F page sz srt = Inr pg" and "query R P pg s = Inr rows"
  shows "set rows \<subseteq> set (filter P (findAll R s))"
  by (rule paging_laws(2) [OF assms(1), rule_format, OF conjI [OF assms(2,3)]])








definition no_wildcards :: "string \<Rightarrow> bool" where
  "no_wildcards w \<longleftrightarrow> CHR ''%'' \<notin> set w \<and> CHR ''_'' \<notin> set w \<and> CHR 0x5C \<notin> set w"

lemma keyword_infix:
  assumes "like_ok F" and "no_wildcards (sql_lower F w)"
  shows "lower_like F col (sql_lower F (''%'' @ w @ ''%'')) \<longleftrightarrow> (\<exists>n u v. col = Some n \<and> sql_lower F n = u @ sql_lower F w @ v)"
proof -
  have "sql_lower F (''%'' @ w @ ''%'') = ''%'' @ sql_lower F w @ ''%''" using assms(1) by (simp add: like_ok_def)
  moreover have "sql_like F t (''%'' @ sql_lower F w @ ''%'') \<longleftrightarrow> (\<exists>u v. t = u @ sql_lower F w @ v)" for t
    using assms unfolding like_ok_def no_wildcards_def by blast
  ultimately show ?thesis by (auto simp: lower_like_def split: option.splits)
qed








lemma infix_take_drop: "(\<exists>u v. s = u @ w @ v) \<longleftrightarrow> (\<exists>k \<le> length s. take (length w) (drop k s) = w)"
proof
  assume "\<exists>u v. s = u @ w @ v"
  then obtain u v where "s = u @ w @ v" by blast
  then show "\<exists>k \<le> length s. take (length w) (drop k s) = w" by (intro exI [of _ "length u"]) simp
next
  assume "\<exists>k \<le> length s. take (length w) (drop k s) = w"
  then obtain k where k: "take (length w) (drop k s) = w" by blast
  have "s = take k s @ w @ drop (length w) (drop k s)" by (metis append_take_drop_id k)
  then show "\<exists>u v. s = u @ w @ v" by blast
qed

lemma spring0_like: "like_ok spring0"
  by (simp add: like_ok_def spring0_def infix_take_drop)


text \<open>
  The keyword. When the keyword contains no \<open>LIKE\<close> wildcard after lower-casing, a dish
  is listed for it exactly when its lower-cased name contains the lower-cased keyword (and the
  other criteria hold); a dish without a name is listed only for the empty keyword.
\<close>

theorem keyword_search:
  assumes "like_ok F" and "no_wildcards (sql_lower F w)" and "w \<noteq> []"
  shows "plat_where F no_criteria w p \<longleftrightarrow> (\<exists>n u v. plat_nom p = Some n \<and> sql_lower F n = u @ sql_lower F w @ v)"
  using keyword_infix [OF assms(1,2), of "plat_nom p"] assms(3) by (auto simp: plat_where_def no_criteria_def at_least_def at_most_def)

theorem keyword_search_witness:
  "plat_where spring0 no_criteria ''SAL'' (Plat0\<lparr>plat_nom := Some ''Une Salade''\<rparr>)"
proof -
  have "sql_lower spring0 ''SAL'' = ''sal''" "sql_lower spring0 ''Une Salade'' = ''une '' @ ''sal'' @ ''ade''"
    unfolding spring0_def by code_simp+
  then show ?thesis
    using keyword_search [OF spring0_like, of "''SAL''" "Plat0\<lparr>plat_nom := Some ''Une Salade''\<rparr>"]
    by (auto simp: no_wildcards_def intro: exI [of _ "''une ''"])
qed

section \<open>Saving and deleting a dish\<close>

definition saved_as :: "('e \<Rightarrow> int option) \<Rightarrow> (int \<Rightarrow> 'e \<Rightarrow> 'e) \<Rightarrow> ('s, 'e, 'pg) repository \<Rightarrow> 'e \<Rightarrow> 's \<Rightarrow> 's \<Rightarrow> int \<Rightarrow> bool" where
  "saved_as ident with_id R e s s' i \<longleftrightarrow>
     (if \<exists>j. ident e = Some j \<and> findById R j s \<noteq> None then ident e = Some i else findById R i s = None) \<and>
     (\<forall>k. findById R k s' = (if k = i then Some (with_id i e) else findById R k s))"

lemma store_save:
  assumes "store_ok ident with_id R" and "save R e s = Inr (e', s')"
  shows "\<exists>i. 0 < i \<and> e' = with_id i e \<and> saved_as ident with_id R e s s' i"
proof -
  have "\<forall>s e e' s'. save R e s = Inr (e', s') \<longrightarrow>
        (\<exists>i. 0 < i \<and> e' = with_id i e \<and>
             (if \<exists>j. ident e = Some j \<and> findById R j s \<noteq> None then ident e = Some i else findById R i s = None) \<and>
             (\<forall>k. findById R k s' = (if k = i then Some e' else findById R k s)))"
    using assms(1) unfolding store_ok_def by (elim conjE)
  from this [rule_format, OF assms(2)] show ?thesis unfolding saved_as_def by blast
qed

lemma store_delete:
  assumes "store_ok ident with_id R" and "deleteById R i s = Inr s'"
  shows "findById R k s' = (if k = i then None else findById R k s)"
proof -
  have "\<forall>s i s'. deleteById R i s = Inr s' \<longrightarrow> (\<forall>k. findById R k s' = (if k = i then None else findById R k s))"
    using assms(1) unfolding store_ok_def by (elim conjE)
  with assms(2) show ?thesis by blast
qed

lemma store_rows:
  "store_ok ident with_id R \<Longrightarrow> e \<in> set (findAll R s) \<Longrightarrow> \<exists>i. ident e = Some i \<and> findById R i s = Some e"
  by (simp add: store_ok_def)

lemma bind_plats_reads:
  "rq_action (bind_plats as) = str_attr as ''action''" "rq_id (bind_plats as) = int_attr as ''id'' 0"
  "rq_page (bind_plats as) = int_attr as ''page'' 0" "rq_size (bind_plats as) = int_attr as ''size'' 10"
  by (simp_all add: bind_plats_def)

lemma listePlats_answers:
  assumes "paging_ok F (platRepository F)" and "0 \<le> rq_page r" and "1 \<le> rq_size r" and "rq_page r * rq_size r < 2 ^ 31"
    and "own_column (plat_sort (rq_sort r))"
  shows "\<exists>view. listePlats F r s = Inr (View ''plats'' view, s)"
proof -
  from paging_slices [OF assms, of "plat_where F (rq_criteria r) (rq_motCle r)" s] obtain pg rows where
    "pageRequest_of F (rq_page r) (rq_size r) (plat_sort (rq_sort r)) = Inr pg"
    "query (platRepository F) (plat_where F (rq_criteria r) (rq_motCle r)) pg s = Inr rows" by blast
  then show ?thesis by (auto simp: listePlats_def plat_findFiltered_def Let_def)
qed

lemma listePlats_reads:
  assumes "listePlats F r s = Inr (View nm view, s2)"
  shows "s2 = s"
    and "rq_action r \<noteq> [] \<Longrightarrow> 0 < rq_id r \<Longrightarrow> v_action view = rq_action r \<and> v_plat view = findById (platRepository F) (rq_id r) s"
    and "rq_action r = ''del'' \<Longrightarrow> v_action view = ''del''"
    and "paging_ok F (platRepository F) \<Longrightarrow> set (v_plats view) \<subseteq> set (findAll (platRepository F) s)"
proof -
  obtain pg rows where q: "pageRequest_of F (rq_page r) (rq_size r) (plat_sort (rq_sort r)) = Inr pg"
    "query (platRepository F) (plat_where F (rq_criteria r) (rq_motCle r)) pg s = Inr rows"
    using assms by (auto simp: listePlats_def plat_findFiltered_def split: sum.splits)
  then show "s2 = s" and "rq_action r \<noteq> [] \<Longrightarrow> 0 < rq_id r \<Longrightarrow> v_action view = rq_action r \<and> v_plat view = findById (platRepository F) (rq_id r) s"
    and "rq_action r = ''del'' \<Longrightarrow> v_action view = ''del''"
    using assms by (auto simp: listePlats_def plat_findFiltered_def Let_def)
  have "v_plats view = rows" using assms q by (auto simp: listePlats_def plat_findFiltered_def Let_def)
  then show "paging_ok F (platRepository F) \<Longrightarrow> set (v_plats view) \<subseteq> set (findAll (platRepository F) s)"
    using query_rows [OF _ q] by auto
qed

lemma bind_plats_own: "list_all (\<lambda>(n, a). n \<noteq> ''sort'') as \<Longrightarrow> own_column (plat_sort (rq_sort (bind_plats as)))"
  by (induction as) (auto simp: bind_plats_def str_attr_def plat_sort_def own_column_def)

abbreviation plat_with_id :: "int \<Rightarrow> plat \<Rightarrow> plat" where
  "plat_with_id i p \<equiv> p\<lparr>plat_id := Some i\<rparr>"

abbreviation plat_store_ok where
  "plat_store_ok F \<equiv> store_ok plat_id plat_with_id (platRepository F)"

text \<open>
  Property C2: saving a new dish or one that is stored. When the database accepts it, the handler redirects to the list;
  an existing row keeps its identifier, a new dish gets an identifier no row had, and no other dish changes.
  The list page the redirect leads to reports the action that was taken (\<open>new\<close> for a dish without
  identifier, \<open>mod\<close> otherwise) and shows the dish as stored, with its identifier; it is shown for every page that
  \<open>PageRequest.of\<close> accepts and whose offset is a Java \<open>int\<close>.
\<close>

theorem save_plat_flow:
  assumes "plat_store_ok F" and "paging_ok F (platRepository F)" and "savePlat F p page sz w s = Inr (resp, s')"
    and "plat_id p = None \<or> (\<exists>j q. plat_id p = Some j \<and> findById (platRepository F) j s = Some q)"
  shows "\<exists>as i. resp = Redirect ''/plats'' as \<and> saved_as plat_id plat_with_id (platRepository F) p s s' i \<and>
    (\<forall>view s2. listePlats F (bind_plats as) s' = Inr (View ''plats'' view, s2) \<longrightarrow>
       s2 = s' \<and> v_action view = (if plat_id p = None then ''new'' else ''mod'') \<and> v_plat view = Some (p\<lparr>plat_id := Some i\<rparr>)) \<and>
    (0 \<le> page \<and> 1 \<le> sz \<and> page * sz < 2 ^ 31 \<longrightarrow> (\<exists>view. listePlats F (bind_plats as) s' = Inr (View ''plats'' view, s')))"
proof -
  obtain q where sv: "save (platRepository F) p s = Inr (q, s')"
    using assms(3) by (auto simp: savePlat_def Let_def split: sum.splits)
  obtain i where i: "0 < i" "q = p\<lparr>plat_id := Some i\<rparr>" "saved_as plat_id plat_with_id (platRepository F) p s s' i"
    using store_save [OF assms(1) sv] by blast
  let ?act = "if plat_id p = None then ''new'' else ''mod''"
  let ?as = "[(''page'', AInt page), (''size'', AInt sz), (''motCle'', AStr w), (''action'', AStr ?act), (''id'', AInt i)]"
  have "id_after_save (plat_id p) (plat_id q) = Some i"
    using assms(4) i(2,3) by (auto simp: id_after_save_def saved_as_def)
  then have resp: "resp = Redirect ''/plats'' ?as" using assms(3) sv by (auto simp: savePlat_def Let_def)
  have rq: "rq_page (bind_plats ?as) = page" "rq_size (bind_plats ?as) = sz" "rq_action (bind_plats ?as) = ?act" "rq_id (bind_plats ?as) = i"
    by (simp_all add: bind_plats_reads int_attr_def str_attr_def)
  have own: "own_column (plat_sort (rq_sort (bind_plats ?as)))" by (rule bind_plats_own) simp
  have stored: "findById (platRepository F) i s' = Some (p\<lparr>plat_id := Some i\<rparr>)" using i(3) by (simp add: saved_as_def)
  have "s2 = s' \<and> v_action view = ?act \<and> v_plat view = Some (p\<lparr>plat_id := Some i\<rparr>)"
    if l: "listePlats F (bind_plats ?as) s' = Inr (View ''plats'' view, s2)" for view s2
    using listePlats_reads(1,2) [OF l] i(1) unfolding rq stored by auto
  moreover have "\<exists>view. listePlats F (bind_plats ?as) s' = Inr (View ''plats'' view, s')" if "0 \<le> page \<and> 1 \<le> sz \<and> page * sz < 2 ^ 31"
    using listePlats_answers [OF assms(2), of "bind_plats ?as" s'] own that unfolding rq by blast
  ultimately show ?thesis using resp i(3) by blast
qed

theorem save_plat_flow_witness:
  "\<exists>as view. (\<exists>s'. savePlat spring0 (Plat0\<lparr>nbCalories := 120\<rparr>) 0 10 [] ([dish 1 100], []) = Inr (Redirect ''/plats'' as, s') \<and>
      listePlats spring0 (bind_plats as) s' = Inr (View ''plats'' view, s')) \<and> v_action view = ''new''"
proof -
  obtain resp s' where sv: "savePlat spring0 (Plat0\<lparr>nbCalories := 120\<rparr>) 0 10 [] ([dish 1 100], []) = Inr (resp, s')"
    by (simp add: savePlat_def spring0_def table_repo_def save_row_def next_id_def dish_def Plat0_def)
  from save_plat_flow [OF spring0_ok(3,1) sv] obtain as view where
    "resp = Redirect ''/plats'' as" "listePlats spring0 (bind_plats as) s' = Inr (View ''plats'' view, s')" "v_action view = ''new''"
    by (auto simp: Plat0_def)
  with sv show ?thesis by blast
qed

text \<open>
  Property C5: deleting a dish. When the database accepts it, the handler redirects to the list, the list page it
  leads to reports the deletion (and is shown for every page that \<open>PageRequest.of\<close> accepts and whose offset is a Java
  \<open>int\<close>), the detail page of the dish redirects to the list, the dish is not on
  any list page, whatever its criteria, sort and page, and every other dish is still there.
\<close>

theorem delete_plat_flow:
  assumes "plat_store_ok F" and "paging_ok F (platRepository F)" and "deletePlat F i page sz w s = Inr (resp, s')"
  shows "\<exists>as. resp = Redirect ''/plats'' as \<and>
    (\<forall>view s2. listePlats F (bind_plats as) s' = Inr (View ''plats'' view, s2) \<longrightarrow> v_action view = ''del'') \<and>
    (0 \<le> page \<and> 1 \<le> sz \<and> page * sz < 2 ^ 31 \<longrightarrow> (\<exists>view. listePlats F (bind_plats as) s' = Inr (View ''plats'' view, s'))) \<and>
    (\<forall>r view s2. listePlats F r s' = Inr (View ''plats'' view, s2) \<longrightarrow> s2 = s' \<and> (\<forall>p \<in> set (v_plats view). plat_id p \<noteq> Some i)) \<and>
    showPlatDetail F i page sz w s' = (Redirect ''/plats'' [], s') \<and>
    (\<forall>k. k \<noteq> i \<longrightarrow> findById (platRepository F) k s' = findById (platRepository F) k s)"
proof -
  let ?as = "[(''page'', AInt page), (''size'', AInt sz), (''motCle'', AStr w), (''action'', AStr ''del'')]"
  have del: "deleteById (platRepository F) i s = Inr s'" and resp: "resp = Redirect ''/plats'' ?as"
    using assms(3) by (auto simp: deletePlat_def split: sum.splits)
  note gone = store_delete [OF assms(1) del]
  have absent: "plat_id p \<noteq> Some i" if "p \<in> set (findAll (platRepository F) s')" for p
    using that gone [of i] store_rows [OF assms(1)] by force
  have rq: "rq_page (bind_plats ?as) = page" "rq_size (bind_plats ?as) = sz" "rq_action (bind_plats ?as) = ''del''"
    by (simp_all add: bind_plats_reads int_attr_def str_attr_def)
  have own: "own_column (plat_sort (rq_sort (bind_plats ?as)))" by (rule bind_plats_own) simp
  have act: "v_action view = ''del''" if "listePlats F (bind_plats ?as) s' = Inr (View ''plats'' view, s2)" for view s2
    using listePlats_reads(3) [OF that] rq(3) by blast
  have shown: "\<exists>view. listePlats F (bind_plats ?as) s' = Inr (View ''plats'' view, s')" if "0 \<le> page \<and> 1 \<le> sz \<and> page * sz < 2 ^ 31"
    using listePlats_answers [OF assms(2), of "bind_plats ?as" s'] own that unfolding rq by blast
  have "s2 = s' \<and> (\<forall>p \<in> set (v_plats view). plat_id p \<noteq> Some i)" if "listePlats F r s' = Inr (View ''plats'' view, s2)" for r view s2
    using listePlats_reads(1,4) [OF that] assms(2) absent by blast
  moreover have "showPlatDetail F i page sz w s' = (Redirect ''/plats'' [], s')" using gone by (simp add: showPlatDetail_def)
  moreover have "\<forall>k. k \<noteq> i \<longrightarrow> findById (platRepository F) k s' = findById (platRepository F) k s" using gone by simp
  ultimately show ?thesis using resp act shown by blast
qed

theorem delete_plat_flow_witness:
  "\<exists>s'. deletePlat spring0 1 0 10 [] ([dish 1 100], []) = Inr (Redirect ''/plats'' [(''page'', AInt 0), (''size'', AInt 10), (''motCle'', AStr []), (''action'', AStr ''del'')], s') \<and>
     showPlatDetail spring0 1 0 10 [] s' = (Redirect ''/plats'' [], s')"
proof -
  obtain resp s' where d: "deletePlat spring0 1 0 10 [] ([dish 1 100], []) = Inr (resp, s')"
    "resp = Redirect ''/plats'' [(''page'', AInt 0), (''size'', AInt 10), (''motCle'', AStr []), (''action'', AStr ''del'')]"
    by (simp add: deletePlat_def spring0_def table_repo_def)
  from delete_plat_flow [OF spring0_ok(3,1) d(1)] d show ?thesis by auto
qed

section \<open>Saving and deleting a menu\<close>

abbreviation menu_with_id :: "int \<Rightarrow> 'p menu \<Rightarrow> 'p menu" where
  "menu_with_id i m \<equiv> m\<lparr>menu_id := Some i\<rparr>"

abbreviation menu_store_ok where
  "menu_store_ok F \<equiv> store_ok menu_id menu_with_id (menuRepository F)"

lemma select_plats_fold:
  "distinct acc \<Longrightarrow>
     distinct (fold (\<lambda>i acc. case g i of None \<Rightarrow> acc | Some p \<Rightarrow> List.insert p acc) ids acc) \<and>
     set (fold (\<lambda>i acc. case g i of None \<Rightarrow> acc | Some p \<Rightarrow> List.insert p acc) ids acc) =
       set acc \<union> {p. \<exists>i \<in> set ids. g i = Some p}"
proof (induction ids arbitrary: acc)
  case (Cons i ids)
  then show ?case by (cases "g i") (auto simp: distinct_insert)
qed simp

lemma select_plats_set:
  "distinct (select_plats F ids s) \<and> set (select_plats F ids s) = {p. \<exists>i \<in> set ids. findById (platRepository F) i s = Some p}"
  using select_plats_fold [of "[]" "\<lambda>i. findById (platRepository F) i s" ids] by (simp add: select_plats_def)

text \<open>
  Property C1: saving a new menu or one that is stored. When the database accepts it, the handler redirects to the list of
  menus with the action taken; the stored menu keeps the submitted name, description and price
  and its dishes are exactly the stored dishes whose identifier was submitted, each once
  (identifiers without a dish are ignored, and a form without dishes empties the menu); its
  detail page shows it, and no other menu changes.
\<close>

theorem save_menu_flow:
  assumes "menu_store_ok F" and "saveMenu F m ids page sz w s = Inr (resp, s')"
    and "menu_id m = None \<or> (\<exists>j q. menu_id m = Some j \<and> findById (menuRepository F) j s = Some q)"
  shows "\<exists>as i sel. resp = Redirect ''/menus'' as \<and>
    str_attr as ''action'' = (if menu_id m = None then ''new'' else ''mod'') \<and> int_attr as ''id'' 0 = i \<and>
    distinct sel \<and>
    set sel = {p. \<exists>l k. ids = Some l \<and> k \<in> set l \<and> findById (platRepository F) k s = Some p} \<and>
    saved_as menu_id menu_with_id (menuRepository F) (m\<lparr>plats := sel\<rparr>) s s' i \<and>
    showMenuDetail F i page sz w s' =
      (View ''menuDetail'' \<lparr>e_menu = m\<lparr>plats := sel, menu_id := Some i\<rparr>, e_page = page, e_size = sz, e_filtre = w\<rparr>, s')"
proof -
  let ?sel = "case ids of Some l \<Rightarrow> select_plats F l s | None \<Rightarrow> []"
  obtain q where sv: "save (menuRepository F) (m\<lparr>plats := ?sel\<rparr>) s = Inr (q, s')"
    using assms(2) by (auto simp: saveMenu_def Let_def split: sum.splits)
  obtain i where i: "0 < i" "q = m\<lparr>plats := ?sel, menu_id := Some i\<rparr>"
    "saved_as menu_id menu_with_id (menuRepository F) (m\<lparr>plats := ?sel\<rparr>) s s' i"
    using store_save [OF assms(1) sv] by auto
  let ?act = "if menu_id m = None then ''new'' else ''mod''"
  let ?as = "[(''page'', AInt page), (''size'', AInt sz), (''filtre'', AStr w), (''action'', AStr ?act), (''id'', AInt i)]"
  have "id_after_save (menu_id m) (menu_id q) = Some i"
    using assms(3) i(2,3) by (auto simp: id_after_save_def saved_as_def)
  then have resp: "resp = Redirect ''/menus'' ?as" using assms(2) sv by (auto simp: saveMenu_def Let_def)
  have sel: "distinct ?sel" "set ?sel = {p. \<exists>l k. ids = Some l \<and> k \<in> set l \<and> findById (platRepository F) k s = Some p}"
    using select_plats_set [of F _ s] by (auto split: option.split)
  have "showMenuDetail F i page sz w s' =
      (View ''menuDetail'' \<lparr>e_menu = m\<lparr>plats := ?sel, menu_id := Some i\<rparr>, e_page = page, e_size = sz, e_filtre = w\<rparr>, s')"
    using i(3) by (simp add: showMenuDetail_def saved_as_def)
  then show ?thesis using resp sel i(3)
    by (intro exI [of _ ?as] exI [of _ i] exI [of _ ?sel]) (simp add: str_attr_def int_attr_def)
qed

theorem save_menu_flow_witness:
  "\<exists>as i sel. set sel = {dish 1 100} \<and> (\<exists>s'. saveMenu spring0 Menu0 (Some [1, 7, 1]) 0 10 [] ([dish 1 100, dish 2 300], []) = Inr (Redirect ''/menus'' as, s') \<and>
     showMenuDetail spring0 i 0 10 [] s' =
       (View ''menuDetail'' \<lparr>e_menu = Menu0\<lparr>plats := sel, menu_id := Some i\<rparr>, e_page = 0, e_size = 10, e_filtre = []\<rparr>, s'))"
proof -
  let ?s = "([dish 1 100, dish 2 300], [])"
  obtain resp s' where sv: "saveMenu spring0 Menu0 (Some [1, 7, 1]) 0 10 [] ?s = Inr (resp, s')"
    by (simp add: saveMenu_def spring0_def table_repo_def save_row_def next_id_def Menu0_def)
  have rows: "{p. \<exists>l k. Some [1, 7, 1] = Some l \<and> k \<in> set l \<and> findById (platRepository spring0) k ?s = Some p} = {dish 1 100}"
    by (auto simp: spring0_def table_repo_def find_row_def dish_def intro: exI [of _ 1])
  from save_menu_flow [OF spring0_ok(4) sv] sv rows show ?thesis by (fastforce simp: Menu0_def)
qed

lemma listMenus_reads:
  assumes "listMenus F r s = Inr (View nm view, s2)"
  shows "s2 = s \<and> w_menus view = sort_calories (mrq_sort r) (w_page view) \<and>
    (\<exists>pg. pageRequest_of F (mrq_page r) (mrq_size r) (menu_sort (mrq_sort r)) = Inr pg \<and>
       query (menuRepository F) (menu_where F (mrq_filtre r) (mrq_criteria r)) pg s = Inr (w_page view))"
proof (cases "pageRequest_of F (mrq_page r) (mrq_size r) (menu_sort (mrq_sort r))")
  case (Inl e)
  then show ?thesis using assms by (simp add: listMenus_def)
next
  case pg: (Inr pg)
  show ?thesis
  proof (cases "query (menuRepository F) (menu_where F (mrq_filtre r) (mrq_criteria r)) pg s")
    case (Inl e)
    then show ?thesis using assms pg by (simp add: listMenus_def menu_findFiltered_def)
  next
    case (Inr rows)
    then obtain m a where "(View nm view, s2) = (View ''menus'' \<lparr>w_menus = sort_calories (mrq_sort r) rows, w_page = rows, w_filtre = mrq_filtre r,
        w_sort = mrq_sort r, w_criteria = mrq_criteria r, w_menu = m, w_action = a\<rparr>, s)"
      using assms pg unfolding listMenus_def menu_findFiltered_def Let_def by fastforce
    then show ?thesis using pg Inr by simp
  qed
qed

text \<open>
  Deleting a menu. When the database accepts it, the handler redirects to the list
  with the deletion reported, the detail page of the menu leads back to the list, no list page
  shows it, the form for it leads back to the list, and every other menu is still there.
\<close>

theorem delete_menu_flow:
  assumes "menu_store_ok F" and "paging_ok F (menuRepository F)" and "deleteMenu F i page sz w s = Inr (resp, s')"
  shows "(\<exists>as. resp = Redirect ''/menus'' as \<and> str_attr as ''action'' = ''del'') \<and>
    showMenuDetail F i page sz w s' = (Redirect ''/menus'' [], s') \<and>
    (\<forall>r view s2. listMenus F r s' = Inr (View ''menus'' view, s2) \<longrightarrow> s2 = s' \<and> (\<forall>m \<in> set (w_menus view). menu_id m \<noteq> Some i)) \<and>
    (\<forall>c. i \<noteq> 0 \<longrightarrow> (\<exists>url. editMenu F i page sz w c s' = Inr (RedirectUrl url, s'))) \<and>
    (\<forall>k. k \<noteq> i \<longrightarrow> findById (menuRepository F) k s' = findById (menuRepository F) k s)"
proof -
  have del: "deleteById (menuRepository F) i s = Inr s'"
    and resp: "resp = Redirect ''/menus'' [(''page'', AInt page), (''size'', AInt sz), (''filtre'', AStr w), (''action'', AStr ''del'')]"
    using assms(3) by (auto simp: deleteMenu_def split: sum.splits)
  note gone = store_delete [OF assms(1) del]
  have absent: "menu_id m \<noteq> Some i" if "m \<in> set (findAll (menuRepository F) s')" for m
    using that gone [of i] store_rows [OF assms(1)] by force
  have shown: "s2 = s' \<and> (\<forall>m \<in> set (w_menus view). menu_id m \<noteq> Some i)"
    if l: "listMenus F r s' = Inr (View ''menus'' view, s2)" for r view s2
  proof -
    from listMenus_reads [OF l] obtain pg where pg: "pageRequest_of F (mrq_page r) (mrq_size r) (menu_sort (mrq_sort r)) = Inr pg"
      "query (menuRepository F) (menu_where F (mrq_filtre r) (mrq_criteria r)) pg s' = Inr (w_page view)" "s2 = s'"
      "set (w_menus view) = set (w_page view)" by (auto simp: sort_calories_def)
    have "set (w_menus view) \<subseteq> set (findAll (menuRepository F) s')"
      using query_rows [OF assms(2) pg(1,2)] unfolding pg(4) by auto
    with absent pg(3) show ?thesis by blast
  qed
  have form: "editMenu F i page sz w c s' = Inr (RedirectUrl (''/menus?page='' @ show_int page @ ''&size='' @ show_int sz @ ''&filtre='' @ w), s')"
    if "i \<noteq> 0" for c
    using that gone [of i] by (simp add: editMenu_def)
  have "showMenuDetail F i page sz w s' = (Redirect ''/menus'' [], s')" using gone [of i] by (simp add: showMenuDetail_def)
  moreover have "\<exists>as. resp = Redirect ''/menus'' as \<and> str_attr as ''action'' = ''del''"
    unfolding resp by (intro exI conjI, rule refl) (simp add: str_attr_def)
  moreover have "\<forall>k. k \<noteq> i \<longrightarrow> findById (menuRepository F) k s' = findById (menuRepository F) k s" using gone by simp
  ultimately show ?thesis using shown form by blast
qed

theorem delete_menu_flow_witness:
  "\<exists>s'. deleteMenu spring0 4 0 10 [] ([], [Menu0\<lparr>menu_id := Some 4\<rparr>]) =
       Inr (Redirect ''/menus'' [(''page'', AInt 0), (''size'', AInt 10), (''filtre'', AStr []), (''action'', AStr ''del'')], s') \<and>
     showMenuDetail spring0 4 0 10 [] s' = (Redirect ''/menus'' [], s')"
proof -
  obtain resp s' where d: "deleteMenu spring0 4 0 10 [] ([], [Menu0\<lparr>menu_id := Some 4\<rparr>]) = Inr (resp, s')"
    "resp = Redirect ''/menus'' [(''page'', AInt 0), (''size'', AInt 10), (''filtre'', AStr []), (''action'', AStr ''del'')]"
    by (simp add: deleteMenu_def spring0_def table_repo_def)
  from delete_menu_flow [OF spring0_ok(4,2) d(1)] d show ?thesis by auto
qed

section \<open>The order of the menu list\<close>

lemma sort_key_stable_words:
  "filter (\<lambda>m. getTotalCalories m = t) (sort_key (\<lambda>m. sint (getTotalCalories m)) ms) = filter (\<lambda>m. getTotalCalories m = t) ms"
  "filter (\<lambda>m. getTotalCalories m = t) (sort_key (\<lambda>m. - sint (getTotalCalories m)) ms) = filter (\<lambda>m. getTotalCalories m = t) ms"
proof -
  have eq: "getTotalCalories m = t \<longleftrightarrow> sint (getTotalCalories m) = sint t" for m :: "'a menu"
    by (rule word_eq_iff_signed)
  show "filter (\<lambda>m. getTotalCalories m = t) (sort_key (\<lambda>m. sint (getTotalCalories m)) ms) = filter (\<lambda>m. getTotalCalories m = t) ms"
    "filter (\<lambda>m. getTotalCalories m = t) (sort_key (\<lambda>m. - sint (getTotalCalories m)) ms) = filter (\<lambda>m. getTotalCalories m = t) ms"
    using sort_key_stable [of "\<lambda>m. sint (getTotalCalories m)" "sint t" ms] sort_key_stable [of "\<lambda>m. - sint (getTotalCalories m)" "- sint t" ms]
    by (simp_all add: eq)
qed

definition two_menus :: db where
  "two_menus = ([], [Menu0\<lparr>menu_id := Some 1, plats := [dish 1 900]\<rparr>, Menu0\<lparr>menu_id := Some 2, plats := [dish 2 200]\<rparr>])"

lemma pages_not_sorted:
  "\<exists>v0 v1 db. listMenus spring0 (bind_menus [(''page'', AInt 0), (''size'', AInt 1), (''sort'', AStr ''calAsc'')]) db = Inr (View ''menus'' v0, db) \<and>
     listMenus spring0 (bind_menus [(''page'', AInt 1), (''size'', AInt 1), (''sort'', AStr ''calAsc'')]) db = Inr (View ''menus'' v1, db) \<and>
     map (sint \<circ> getTotalCalories) (w_menus v0) = [900] \<and> map (sint \<circ> getTotalCalories) (w_menus v1) = [200]"
proof -
  have "menu_where spring0 [] \<lparr>prixMin = None, prixMax = None, calMin = None, calMax = None\<rparr> m" for m
    by (simp add: menu_where_def)
  then have "\<exists>v. listMenus spring0 (bind_menus [(''page'', AInt k), (''size'', AInt 1), (''sort'', AStr ''calAsc'')]) two_menus = Inr (View ''menus'' v, two_menus) \<and>
      w_menus v = take 1 (drop (nat k) (snd two_menus))" if "k \<in> {0, 1}" for k
    using that by (auto simp: listMenus_def bind_menus_def int_attr_def str_attr_def menu_sort_def spring0_def table_repo_def sort_rows_def
        menu_findFiltered_def all_rows_def find_row_def two_menus_def sort_calories_def Let_def)
  from this [of 0] this [of 1] obtain v0 v1 where
    v: "listMenus spring0 (bind_menus [(''page'', AInt 0), (''size'', AInt 1), (''sort'', AStr ''calAsc'')]) two_menus = Inr (View ''menus'' v0, two_menus)"
      "w_menus v0 = take 1 (drop 0 (snd two_menus))"
      "listMenus spring0 (bind_menus [(''page'', AInt 1), (''size'', AInt 1), (''sort'', AStr ''calAsc'')]) two_menus = Inr (View ''menus'' v1, two_menus)"
      "w_menus v1 = take 1 (drop 1 (snd two_menus))" by auto
  have "map (sint \<circ> getTotalCalories) (w_menus v0) = [900]" "map (sint \<circ> getTotalCalories) (w_menus v1) = [200]"
    unfolding v(2,4) by (simp_all add: two_menus_def getTotalCalories_def sum_int_def dish_def)
  with v(1,3) show ?thesis by (intro exI [of _ v0] exI [of _ v1] exI [of _ two_menus]) simp
qed

text \<open>
  Sorting by calories. For \<open>calAsc\<close> and \<open>calDesc\<close> the list page shows the menus of its
  page sorted by their totals (menus with equal totals in the order the query returned them), for
  any other sort key it shows them as the query returned them. But only the page is sorted: with
  two menus of 900 and 200 calories and pages of one menu, page 0 of the ascending list shows the
  menu of 900 calories and page 1 the menu of 200.
\<close>

theorem menu_calories_order:
  assumes "listMenus F r s = Inr (View nm view, s')"
  shows "mset (w_menus view) = mset (w_page view) \<and>
    (mrq_sort r = ''calAsc'' \<longrightarrow> sorted (map (sint \<circ> getTotalCalories) (w_menus view)) \<and>
       (\<forall>t. filter (\<lambda>m. getTotalCalories m = t) (w_menus view) = filter (\<lambda>m. getTotalCalories m = t) (w_page view))) \<and>
    (mrq_sort r = ''calDesc'' \<longrightarrow> sorted_wrt (\<ge>) (map (sint \<circ> getTotalCalories) (w_menus view)) \<and>
       (\<forall>t. filter (\<lambda>m. getTotalCalories m = t) (w_menus view) = filter (\<lambda>m. getTotalCalories m = t) (w_page view))) \<and>
    (mrq_sort r \<notin> {''calAsc'', ''calDesc''} \<longrightarrow> w_menus view = w_page view) \<and>
    (\<exists>v0 v1 db. listMenus spring0 (bind_menus [(''page'', AInt 0), (''size'', AInt 1), (''sort'', AStr ''calAsc'')]) db = Inr (View ''menus'' v0, db) \<and>
       listMenus spring0 (bind_menus [(''page'', AInt 1), (''size'', AInt 1), (''sort'', AStr ''calAsc'')]) db = Inr (View ''menus'' v1, db) \<and>
       map (sint \<circ> getTotalCalories) (w_menus v0) = [900] \<and> map (sint \<circ> getTotalCalories) (w_menus v1) = [200])"
proof -
  from listMenus_reads [OF assms] have view: "w_menus view = sort_calories (mrq_sort r) (w_page view)" by blast
  note stable = sort_key_stable_words [of _ "w_page view"]
  have desc: "sorted_wrt (\<ge>) (map f xs)" if "sorted (map (\<lambda>m. - f m) xs)" for f :: "'a menu \<Rightarrow> int" and xs
    using that by (simp add: sorted_wrt_map)
  note pages = pages_not_sorted
  show ?thesis unfolding view using stable pages sorted_sort_key [of "\<lambda>m. sint (getTotalCalories m)" "w_page view"]
      desc [OF sorted_sort_key [of "\<lambda>m. - sint (getTotalCalories m)" "w_page view"]]
    by (auto simp: sort_calories_def comp_def)
qed

theorem menu_calories_order_witness:
  "\<exists>view. listMenus spring0 (bind_menus [(''sort'', AStr ''calAsc'')]) two_menus = Inr (View ''menus'' view, two_menus) \<and>
     sorted (map (sint \<circ> getTotalCalories) (w_menus view)) \<and> mset (w_menus view) = mset (w_page view)"
proof -
  have rq: "mrq_sort (bind_menus [(''sort'', AStr ''calAsc'')]) = ''calAsc''" by (simp add: bind_menus_def str_attr_def)
  have "\<exists>view. listMenus spring0 (bind_menus [(''sort'', AStr ''calAsc'')]) two_menus = Inr (View ''menus'' view, two_menus)"
    by (simp add: listMenus_def bind_menus_def int_attr_def menu_sort_def str_attr_def spring0_def table_repo_def menu_findFiltered_def Let_def)
  then obtain view where "listMenus spring0 (bind_menus [(''sort'', AStr ''calAsc'')]) two_menus = Inr (View ''menus'' view, two_menus)" ..
  with menu_calories_order [OF this] rq show ?thesis by blast
qed

end
