(* ===== verification/Spec2Isabelle.thy ===== *)
theory Spec2Isabelle
  imports ThdAsync ThdClock ThdState LogEvents HandlerScan FieldNull InPredicate TimeOps DatetimeValues Xid TransInfo CostEstimate Bits BitCount ByteOrder MyisamPack BitmapSet ListSort ILists IntrusiveList HashFilo MemRootArray LifoStack ThreadCache TypeInt SqlLimit PrivilegeActions ErrorCodes FilesortBuffer SortRecord SelKeys StringOwner StringRead PList DiscreteInterval LexInput QueryTables BoundedQueue TranxAllocator Histogram WindowFunc SpatialMbr MenuApp
begin

text \<open>
  Verification of the menu and dish management application and of the parts of the MariaDB
  server headers it is distributed with.

  \<^bold>\<open>The program.\<close> \<open>src/prjspring2025\<close> is a web application (Spring Boot, Java) that keeps dishes, their
  categories, and menus made of dishes in a MariaDB database. \<open>src/mariadb-fp\<close> is the database
  server it runs on, of which the repository holds the binaries and the C and C++ headers under
  \<open>include/mysql/server\<close>. The headers contain a good deal of inline code: containers, byte order
  macros, bit arithmetic, privileges, the thread cache, the counters of \<open>LIMIT\<close>. A request goes
  from a controller to a repository query, through the framework to the server, which uses
  these headers to authenticate, sort, buffer and limit the rows.

  \<^bold>\<open>The application.\<close>
  \<^item> \<open>MenuModel\<close>: the entities of \<open>model/*.java\<close> as records, with the 32-bit totals of a menu.
  \<^item> \<open>MenuQueries\<close>: the queries of \<open>repository/*.java\<close>, one predicate per \<open>where\<close> clause. Spring Data
    and the database are not in the sources: they are the record \<open>spring\<close>, a parameter, and what
    is relied on is named: \<open>paging_ok\<close> (a page is a slice of the selected rows in an order that respects the
    sort, for offsets that are Java \<open>int\<close>s), \<open>plat_columns_ok\<close> (numbers are sorted as numbers), \<open>store_ok\<close> (\<open>save\<close>, \<open>findById\<close>, \<open>deleteById\<close> act on one row) and \<open>like_ok\<close> (SQL \<open>LIKE\<close> with a
    wildcard at both ends). \<open>spring0\<close> of \<open>MenuApp\<close> is a concrete framework satisfying them.
  \<^item> \<open>MenuControllers\<close>: every request handler of \<open>controller/*.java\<close> as a function from the request and
    the store to a view or redirect and the new store, errors in a sum type.
  \<^item> \<open>MenuApp\<close>: what users see. Pages partition the selected dishes; saving or deleting leads to a
    page that shows it and changes one row only; a menu gets exactly the selected dishes; totals
    are sums unless they overflow; sorting menus by calories sorts each page only.

  \<^bold>\<open>The server headers.\<close>
  \<^item> \<open>Prelude\<close>: machine integers, byte memory, generic lemmas and the collections of rewrite rules.
  \<^item> \<open>Bits\<close>, \<open>BitCount\<close> (\<open>my_bit.h\<close>): integer logarithm, rounding, bit search and reversal, and the
    parallel bit count against the number of set bits.
  \<^item> \<open>ByteOrder\<close>, \<open>MyisamPack\<close> (\<open>my_byteorder.h\<close>, \<open>byte_order_generic*.h\<close>, \<open>myisampack.h\<close>): the store and
    load macros on a byte memory. The locale \<open>byte_codec\<close> is the contract of a fixed-width codec,
    interpreted on each of them; the x86 variants agree with the portable ones, and keys compare
    as their bytes do.
  \<^item> \<open>SqlBitmap\<close>, \<open>BitmapSet\<close> (\<open>sql_bitmap.h\<close>): the bitmap and its iterators, with the assertions of its
    operations, and that it implements a set of bit numbers (locale \<open>bit_set\<close>) as long as they hold.
  \<^item> \<open>SeqStore\<close>: the contract \<open>seq_store\<close> of a linked list used as a sequence, and runs of operations.
    \<open>BaseList\<close>, \<open>BaseListOps\<close>, \<open>ListSort\<close> and \<open>ILists\<close> (\<open>sql_list.h\<close>) model \<open>base_list\<close> with its iterator,
    \<open>bubble_sort\<close>, \<open>SQL_I_List\<close> and \<open>base_ilist\<close> on an explicit store, so that aliasing shows;
    \<open>PList\<close> (\<open>sql_plist.h\<close>) the intrusive list with its policies, \<open>IntrusiveList\<close> (\<open>ilist.h\<close>) the circular
    lists. Each interprets \<open>seq_store\<close>.
  \<^item> \<open>HashFilo\<close> (\<open>hash_filo.h\<close>): the least recently used cache, over the links of \<open>IntrusiveList\<close>. The
    hash table is a parameter with the hypothesis \<open>hash_ok\<close>, which \<open>list_hash\<close> satisfies.
  \<^item> \<open>MemRootArray\<close> (\<open>mem_root_array.h\<close>, \<open>sql_array.h\<close>): the growing array with every construction and
    destruction of an element; the allocator is a parameter that may fail at any call.
  \<^item> \<open>LifoBuffer\<close>, \<open>LifoStack\<close> (\<open>sql_lifo_buffer.h\<close>): the two buffers of DS-MRR and their iterator on a
    byte memory; the locales \<open>lifo_reader\<close> and \<open>lifo_store\<close> are their contract.
  \<^item> \<open>FilesortBuffer\<close>, \<open>SortRecord\<close> (\<open>filesort_utils.h\<close>, \<open>sql_sort.h\<close>): the sort buffer, in which records grow
    upwards and record pointers downwards, merge chunks, and the layout of a sort record with
    packed keys and packed companion fields, which can be parsed again. The allocation is not in the
    sources; \<open>allocated\<close> states its result.
  \<^item> \<open>BoundedQueue\<close> (\<open>bounded_queue.h\<close>): the queue that keeps the best rows for \<open>ORDER BY\<close> with \<open>LIMIT\<close>. The heap it is
    built on is a parameter with the hypothesis \<open>queue_ok\<close>, which \<open>sorting_queue\<close> satisfies.
  \<^item> \<open>SelArg\<close>, \<open>SelKeys\<close> (\<open>opt_range.h\<close>): the intervals of the range optimizer as sets of values, their
    intersection and the pieces they are cut into, and the start and end keys stored for multi-part ranges. The comparison
    \<open>sel_cmp\<close> of key images is a parameter with the hypothesis \<open>sel_cmp_ok\<close>, which \<open>position_cmp\<close> satisfies; the constructor
    of an interval, which is only declared, is one with the hypothesis \<open>sel_new_ok\<close>, which \<open>plain_new\<close> satisfies.
  \<^item> \<open>BinaryString\<close>, \<open>StringAppend\<close>, \<open>StringOwner\<close>, \<open>StringRead\<close> (\<open>sql_string.h\<close>): \<open>Binary_string\<close> in an arena of memory
    blocks. Appending is concatenation of bytes through every growth of the buffer; every buffer
    has one owner. \<open>realloc_raw\<close> is a parameter with the hypothesis \<open>realloc_ok\<close>, which \<open>bump\<close> satisfies.
  \<^item> \<open>LexInput\<close> (\<open>sql_lex.h\<close>): the input stream of the lexer, which copies accepted characters into a
    pre-processed buffer; runs of its operations refine a list of echo flags.
  \<^item> \<open>QueryTables\<close> (\<open>sql_lex.h\<close>): the binary log flags of a statement, the test for mixed statements and
    the list of its tables with the part added for prelocking. \<open>binlog_unsafe_map\<close> is a parameter.
  \<^item> \<open>DiscreteInterval\<close> (\<open>structs.h\<close>): intervals of reserved identifiers and the list they are taken from.
  \<^item> \<open>TranxAllocator\<close> (\<open>semisync_master.h\<close>): the allocator of transaction nodes, on addresses; the states it can
    reach are an inductive relation, and the nodes in use form a queue in every one of them.
  \<^item> \<open>Doubles\<close>: \<open>double\<close>s as reals, with the rounding as a parameter and the hypothesis \<open>rnd_ok\<close>; a conversion to an unsigned integer that C leaves
    undefined has no value. \<open>Histogram\<close>
    (\<open>sql_statistics.h\<close>): packed histograms and the search for a bucket, in which a read outside the array is an error value
    and not returning is \<open>None\<close>. \<open>WindowFunc\<close> (\<open>item_windowfunc.h\<close>): \<open>NTILE\<close>, the
    percentiles and the phases of a window item. \<open>SpatialMbr\<close> (\<open>spatial.h\<close>): bounding rectangles as sets of points.
  \<^item> \<open>ThreadCache\<close> (\<open>thread_cache.h\<close>): the cache of parked threads. Operations are split at their
    waits on condition variables; \<open>tc_step\<close> interleaves any number of threads, with spurious and
    timed wake-ups; \<open>own_step\<close> is what the threads of the cache do without any newcomer or time limit. The properties are invariants of
    all reachable states, and that the own steps end with every accepted connection served.
  \<^item> \<open>ThdAsync\<close>, \<open>ThdClock\<close> (\<open>sql_class.h\<close>): the counter of asynchronous operations of a connection, with every
    interleaving of the connection and the threads that complete its operations as an inductive
    relation, and the clock that gives each statement its start time, with the 32-bit seconds of this distribution.
  \<^item> \<open>ThdState\<close>, \<open>LogEvents\<close> (\<open>sql_class.h\<close>, \<open>log_event.h\<close>): kills, of which the strongest wins, the format in which the
    statements of a session are logged, as a step relation over statements, sub-statements and temporary
    tables (no session leaves the row format while it has temporary tables, as the error messages of the server say), and the types of log events.
  \<^item> \<open>FieldCodec\<close>, \<open>FieldNull\<close> (\<open>field.h\<close>): integers of one to eight bytes in records, over the codecs of \<open>ByteOrder\<close> and
    \<open>MyisamPack\<close>; the null bits of a record as a set of columns, and minimum and maximum of a column.
  \<^item> \<open>HandlerScan\<close> (\<open>handler.h\<close>): scans of a table over an arbitrary storage engine, which is a function of the calls it received.
  \<^item> \<open>InPredicate\<close> (\<open>item_cmpfunc.h\<close>): the comparison of a value with a list, for \<open>IN\<close>, \<open>CASE\<close> and \<open>DECODE\<close>, with its shared
    caches. Collations and \<open>Item_save_in_value\<close> are parameters (\<open>save_ok\<close>).
  \<^item> \<open>DateModes\<close>, \<open>MysqlTime\<close>, \<open>SecValues\<close>, \<open>TimeValues\<close>, \<open>TimeClass\<close>, \<open>TimeOps\<close>, \<open>DatetimeValues\<close> (\<open>sql_basic_types.h\<close>,
    \<open>my_time.h\<close>, \<open>sql_time.h\<close>, \<open>sql_type.h\<close>): the temporal values of SQL, from the conversion modes and \<open>MYSQL_TIME\<close> up to
    the classes \<open>Time\<close>, \<open>Date\<close>, \<open>Datetime\<close> and \<open>Timestamp\<close>. The conversions and the calendar arithmetic they call are
    fields of the records \<open>time_lib\<close>, \<open>class_lib\<close>, \<open>str_lib\<close> and \<open>date_lib\<close>, with what is relied on as laws
    (\<open>time_range_law\<close>, \<open>time_diff_law\<close>, \<open>date_diff_law\<close>, \<open>in_range_law\<close> and others) that the sample libraries satisfy. Values are compared through
    the number of microseconds they stand for.
  \<^item> \<open>Xid\<close>, \<open>TransInfo\<close>, \<open>CostEstimate\<close> (\<open>handler.h\<close>, \<open>log_event.h\<close>): transaction identifiers with their text form, the
    list of storage engines that take part in a transaction, and the cost estimates of the optimizer.
  \<^item> \<open>TypeInt\<close>, \<open>SqlLimit\<close> (\<open>sql_type_int.h\<close>, \<open>sql_limit.h\<close>): SQL integer values and the counters of
    \<open>LIMIT\<close> and \<open>OFFSET\<close>, at 64 bits.
  \<^item> \<open>Privilege\<close>, \<open>PrivilegeActions\<close> (\<open>privilege.h\<close>): privilege bits, the packing of the grant tables, and
    the privileges each administrative action requires.
  \<^item> \<open>ErrorCodes\<close> (\<open>mysqld_error.h\<close>, \<open>errmsg.h\<close>, \<open>sql_state.h\<close>, \<open>handler_state.h\<close>, part of \<open>my_base.h\<close>): the
    error numbers and their SQLSTATE map.

  This theory adds a lemma that joins components: the row numbers of a page of the application are those
  that the limit counters of the server let pass.

  \<^bold>\<open>Conventions.\<close> Failed debug assertions, null dereferences and shifts that C leaves undefined are
  \<open>None\<close>. Loops that follow pointers are \<open>partial_function (option)\<close> or take fuel; the theorems state
  that they return (for well-formed structures, with fuel the number of elements or more), or
  that no fuel suffices where the code loops. Sizes and counters are words where they can wrap
  around and numbers where the invariants bound them.

  \<^bold>\<open>Not modelled.\<close> Page templates, static files, build files, start scripts and data files; the class
  declarations of the remaining headers, whose member functions are defined in files that are
  not distributed; mutexes and instrumentation calls, except where the thread cache
  and the asynchronous operations wait;
  \<open>Dynamic_array\<close>, which only wraps such functions. \<open>WITH TIES\<close> is stored but what the server does
  with it is not in the headers.
\<close>

section \<open>The list of dishes and the limits of the server\<close>

lemma page_offset_fits:
  assumes "0 \<le> page" and "page < 2 ^ 31" and "1 \<le> n" and "n < 2 ^ 31"
  shows "unat (word_of_int n :: u64) = nat n" and "unat (word_of_int (page * n) :: u64) = nat page * nat n"
proof -
  have fits: "unat (word_of_int k :: u64) = nat k" if "0 \<le> k" and "k < 2 ^ 64" for k
  proof -
    have "(word_of_int k :: u64) = word_of_nat (nat k)" using that(1) by simp
    moreover have "nat k < 2 ^ 64" using that by (simp add: nat_less_iff)
    ultimately show ?thesis by (simp only: unat_of_nat) (simp add: take_bit_nat_eq_self)
  qed
  show "unat (word_of_int n :: u64) = nat n" using assms by (intro fits) simp_all
  have "page * n \<le> 2 ^ 31 * 2 ^ 31" using assms by (intro mult_mono) auto
  then have "unat (word_of_int (page * n) :: u64) = nat (page * n)" using assms by (intro fits) simp_all
  then show "unat (word_of_int (page * n) :: u64) = nat page * nat n" using assms(1) by (simp only: nat_mult_distrib)
qed

text \<open>
  Pages and limits. For a page number and a size that are Java \<open>int\<close>s, the row numbers that pass the tests of the
  server for \<open>LIMIT size OFFSET page * size\<close> are those of the page, that is those whose quotient by the size is the page number: the
  64-bit product does not wrap around, no row is on two pages and none is left out.
\<close>

lemma page_limits:
  assumes "0 \<le> page" and "page < 2 ^ 31" and "1 \<le> n" and "n < 2 ^ 31"
  shows "\<not> check_offset i (set_limit (word_of_int n) (word_of_int (page * n)) t c) \<and>
      i < get_select_limit (set_limit (word_of_int n) (word_of_int (page * n)) t c) \<longleftrightarrow> unat i div nat n = nat page"
proof -
  note fits = page_offset_fits [OF assms]
  have n: "0 < nat n" using assms(3) by simp
  have "nat page * nat n + nat n < 2 ^ 64 - 1"
  proof -
    have "nat page * nat n \<le> (2 ^ 31 - 1) * 2 ^ 31" using assms by (intro mult_mono) (simp_all add: nat_le_iff)
    moreover have "nat n < 2 ^ 31" using assms by (simp add: nat_less_iff)
    ultimately show ?thesis by simp
  qed
  then have cnt: "unat (offset_limit_cnt (set_limit (word_of_int n) (word_of_int (page * n)) t c)) = nat page * nat n"
    "unat (select_limit_cnt (set_limit (word_of_int n) (word_of_int (page * n)) t c)) = nat page * nat n + nat n"
    using set_limit_counters [of "word_of_int n" "word_of_int (page * n)" t c] fits n by (auto simp: word_unat_eq_iff)
  show ?thesis unfolding limit_tests cnt using n
    by (metis add.commute div_nat_eqI dividend_less_times_div mult.commute mult_Suc times_div_less_eq_dividend)
qed

end
